(* ===== verification/LLPrelude.thy ===== *)
theory LLPrelude
  imports Main "HOL-Library.AList" "HOL-Library.List_Lexorder" "HOL-Library.Word"
begin

text \<open>
  Shared vocabulary of the development: Python strings, the exceptions the modelled code can
  raise, results that are either an exception or a value, decimal numerals, the order SQLite
  puts on text, and the locales that state the interfaces between components.  Nothing in this
  theory is specific to one component.
\<close>

section \<open>Strings and exceptions\<close>

text \<open>
  A Python \<open>str\<close> is the list of its code points.  ASCII literals are written \<open>u ''abc''\<close>.
  The lexicographic order of \<open>List_Lexorder\<close> on code points is the order SQLite's BINARY
  collation puts on TEXT values, because UTF-8 preserves the order of code points.
\<close>

type_synonym pystr = "nat list"

type_synonym byte = "8 word"

definition u :: "string \<Rightarrow> pystr" where
  "u s = map of_char s"

lemma u_simps [simp]: "u [] = []" "u (c # s) = of_char c # u s"
  by (simp_all add: u_def)

text \<open>The exception classes that the modelled code raises or catches.\<close>

datatype pyexc =
    ValueError | KeyError | TypeError | OverflowError | AttributeError
  | IndexError | StructError | UnicodeError | InvalidStateError | RuntimeError
  | JSONDecodeError | OSError | URLError | HTTPError

type_synonym 'a res = "pyexc + 'a"

definition rbind :: "'e + 'a \<Rightarrow> ('a \<Rightarrow> 'e + 'b) \<Rightarrow> 'e + 'b" where
  "rbind r f = (case r of Inl e \<Rightarrow> Inl e | Inr x \<Rightarrow> f x)"

lemma rbind_simps [simp]: "rbind (Inl e) f = Inl e" "rbind (Inr x) f = f x"
  by (simp_all add: rbind_def)

lemma rbind_eq_Inr: "rbind r f = Inr y \<longleftrightarrow> (\<exists>x. r = Inr x \<and> f x = Inr y)"
  by (cases r) simp_all

lemma rbind_eq_Inl: "rbind r f = Inl e \<longleftrightarrow> r = Inl e \<or> (\<exists>x. r = Inr x \<and> f x = Inl e)"
  by (cases r) simp_all

text \<open>A loop that applies a fallible operation to every element, stopping at the first error.\<close>

fun rmap :: "('a \<Rightarrow> 'e + 'b) \<Rightarrow> 'a list \<Rightarrow> 'e + 'b list" where
  "rmap f [] = Inr []"
| "rmap f (x # xs) = rbind (f x) (\<lambda>y. rbind (rmap f xs) (\<lambda>ys. Inr (y # ys)))"

lemma rmap_all_Inr: "(\<And>x. x \<in> set xs \<Longrightarrow> f x = Inr (g x)) \<Longrightarrow> rmap f xs = Inr (map g xs)"
  by (induction xs) auto

lemma rmap_InrD: "rmap f xs = Inr ys \<Longrightarrow> list_all2 (\<lambda>x y. f x = Inr y) xs ys"
  by (induction xs arbitrary: ys) (auto simp: rbind_eq_Inr)

lemma rmap_change:
  "rmap f xs = Inr ys \<Longrightarrow> (\<And>x y. x \<in> set xs \<Longrightarrow> f x = Inr y \<Longrightarrow> g x = Inr (h y)) \<Longrightarrow> rmap g xs = Inr (map h ys)"
  by (induction xs arbitrary: ys) (auto simp: rbind_eq_Inr)

section \<open>Decimal numerals\<close>

text \<open>\<open>pad k n\<close> is Python's \<open>f"{n:0kd}"\<close> for \<open>n < 10 ^ k\<close>: exactly \<open>k\<close> digits.\<close>

fun pad :: "nat \<Rightarrow> nat \<Rightarrow> pystr" where
  "pad 0 n = []"
| "pad (Suc k) n = pad k (n div 10) @ [48 + n mod 10]"

fun digits_value :: "nat \<Rightarrow> pystr \<Rightarrow> nat" where
  "digits_value acc [] = acc"
| "digits_value acc (c # cs) = digits_value (10 * acc + (c - 48)) cs"

definition is_digit :: "nat \<Rightarrow> bool" where
  "is_digit c \<longleftrightarrow> 48 \<le> c \<and> c \<le> 57"

lemma pad_numeral: "pad (numeral k) n = pad (pred_numeral k) (n div 10) @ [48 + n mod 10]"
  by (subst numeral_eq_Suc) (simp only: pad.simps)

lemma length_pad [simp]: "length (pad k n) = k"
  by (induction k arbitrary: n) auto

lemma pad_digits: "c \<in> set (pad k n) \<Longrightarrow> is_digit c"
  by (induction k arbitrary: n) (auto simp: is_digit_def)

lemma digits_value_append: "digits_value acc (xs @ ys) = digits_value (digits_value acc xs) ys"
  by (induction xs arbitrary: acc) auto

lemma digits_value_pad: "n < 10 ^ k \<Longrightarrow> digits_value 0 (pad k n) = n"
proof (induction k arbitrary: n)
  case (Suc k)
  then have "n div 10 < 10 ^ k" by (simp add: less_mult_imp_div_less mult.commute)
  with Suc.IH have "digits_value 0 (pad k (n div 10)) = n div 10" by blast
  then show ?case by (simp add: digits_value_append)
qed simp

lemma pad_inj: "n < 10 ^ k \<Longrightarrow> m < 10 ^ k \<Longrightarrow> pad k n = pad k m \<longleftrightarrow> n = m"
  using digits_value_pad by metis

text \<open>\<open>str(n)\<close> of an integer.\<close>

fun dec :: "nat \<Rightarrow> pystr" where
  "dec n = (if n < 10 then [48 + n] else dec (n div 10) @ [48 + n mod 10])"

declare dec.simps [simp del]

definition dec_int :: "int \<Rightarrow> pystr" where
  "dec_int i = (if i < 0 then 45 # dec (nat (- i)) else dec (nat i))"

lemma digits_value_dec: "digits_value 0 (dec n) = n"
proof (induction n rule: dec.induct)
  case (1 n)
  then show ?case by (subst dec.simps) (auto simp: digits_value_append)
qed

lemma dec_inj [simp]: "dec m = dec n \<longleftrightarrow> m = n"
  using digits_value_dec by metis

lemma dec_digits: "c \<in> set (dec n) \<Longrightarrow> is_digit c"
proof (induction n rule: dec.induct)
  case (1 n)
  from 1(2) show ?case by (subst (asm) dec.simps) (auto simp: is_digit_def split: if_splits dest: 1(1))
qed

lemma dec_not_Nil [simp]: "dec n \<noteq> []"
  by (subst dec.simps) simp

section \<open>Rounding\<close>

text \<open>\<open>n / 2 ^ k\<close> to the nearest integer, ties to even: how IEEE conversions round.\<close>

definition round_even :: "nat \<Rightarrow> nat \<Rightarrow> nat" where
  "round_even n k = (let q = n div 2 ^ k; r = n mod 2 ^ k in
     if 2 * r < 2 ^ k \<or> 2 * r = 2 ^ k \<and> even q then q else q + 1)"

lemma round_even_exact: "round_even (m * 2 ^ k) k = m"
  by (simp add: round_even_def Let_def)

lemma round_even_near: "2 * \<bar>int (round_even n k * 2 ^ k) - int n\<bar> \<le> 2 ^ k"
proof -
  define q r where "q = n div 2 ^ k" and "r = n mod 2 ^ k"
  have n: "n = q * 2 ^ k + r" by (simp add: q_def r_def div_mult_mod_eq)
  have r: "r < 2 ^ k" by (simp add: r_def)
  have p: "int (2 ^ k) = 2 ^ k" by simp
  show ?thesis
  proof (cases "2 * r < 2 ^ k \<or> 2 * r = 2 ^ k \<and> even q")
    case True
    then have "round_even n k = q" by (simp add: round_even_def Let_def q_def r_def)
    moreover have "int (q * 2 ^ k) - int n = - int r" by (simp add: n)
    moreover have "2 * r \<le> 2 ^ k" using True by auto
    then have "int (2 * r) \<le> int (2 ^ k)" by (simp only: of_nat_le_iff)
    ultimately show ?thesis by (simp only: p)
  next
    case False
    then have "round_even n k = q + 1" by (simp add: round_even_def Let_def q_def r_def)
    moreover have "int ((q + 1) * 2 ^ k) - int n = int (2 ^ k) - int r" by (simp add: n algebra_simps)
    moreover have "2 * \<bar>int (2 ^ k) - int r\<bar> \<le> int (2 ^ k)"
    proof -
      have "2 ^ k \<le> 2 * r" using False by auto
      then have "int (2 ^ k) \<le> int (2 * r)" by (simp only: of_nat_le_iff)
      moreover have "int r < int (2 ^ k)" using r by (simp only: of_nat_less_iff)
      ultimately show ?thesis by simp
    qed
    ultimately show ?thesis by (simp only: p)
  qed
qed

text \<open>No multiple is nearer.\<close>

lemma round_even_nearest: "\<bar>int (round_even n k * 2 ^ k) - int n\<bar> \<le> \<bar>int (m * 2 ^ k) - int n\<bar>"
proof (cases "m = round_even n k")
  case False
  define d where "d = int m - int (round_even n k)"
  have "1 \<le> \<bar>d\<bar>" using False by (auto simp: d_def)
  then have "2 ^ k \<le> \<bar>d\<bar> * 2 ^ k" by simp
  also have "\<bar>d\<bar> * 2 ^ k = \<bar>int (m * 2 ^ k) - int (round_even n k * 2 ^ k)\<bar>"
    by (simp add: d_def abs_mult flip: left_diff_distrib)
  finally have "2 ^ k \<le> \<bar>int (m * 2 ^ k) - int (round_even n k * 2 ^ k)\<bar>" .
  moreover have near: "2 * \<bar>a - c\<bar> \<le> p \<Longrightarrow> p \<le> \<bar>b - a\<bar> \<Longrightarrow> \<bar>a - c\<bar> \<le> \<bar>b - c\<bar>" for a b c p :: int
    by arith
  ultimately show ?thesis by (intro near [OF round_even_near])
qed simp

section \<open>The order of text\<close>

lemma lex_append_same [simp]: "(xs @ ys :: 'a::linorder list) < xs @ zs \<longleftrightarrow> ys < zs"
  by (induction xs) auto

lemma lex_append_equal_length:
  "length xs = length ys \<Longrightarrow>
     (xs @ us :: 'a::linorder list) < ys @ vs \<longleftrightarrow> xs < ys \<or> xs = ys \<and> us < vs"
  by (induction xs ys rule: list_induct2) auto

lemma div_mod_less_nat: "(0::nat) < b \<Longrightarrow>
    n div b < m div b \<or> n div b = m div b \<and> n mod b < m mod b \<longleftrightarrow> n < m"
  by (metis div_le_mono div_mult_mod_eq leD less_or_eq_imp_le linorder_neqE_nat nat_add_left_cancel_less nat_less_le not_le)

lemma div_mod_less_int: "(0::int) < b \<Longrightarrow>
    n div b < m div b \<or> n div b = m div b \<and> n mod b < m mod b \<longleftrightarrow> n < m"
  by (metis add_less_cancel_left div_mult_mod_eq linorder_neqE_linordered_idom not_less_iff_gr_or_eq zdiv_mono1 not_le)

lemma pad_less: "n < 10 ^ k \<Longrightarrow> m < 10 ^ k \<Longrightarrow> pad k n < pad k m \<longleftrightarrow> n < m"
proof (induction k arbitrary: n m)
  case (Suc k)
  have lt: "n div 10 < 10 ^ k" "m div 10 < 10 ^ k"
    using Suc.prems by (simp_all add: less_mult_imp_div_less mult.commute)
  have "pad (Suc k) n < pad (Suc k) m \<longleftrightarrow>
      pad k (n div 10) < pad k (m div 10) \<or>
      pad k (n div 10) = pad k (m div 10) \<and> n mod 10 < m mod 10"
    unfolding pad.simps
    by (subst lex_append_equal_length) (simp_all only: length_pad Cons_less_Cons not_less_Nil
        simp_thms add_less_cancel_left)
  also have "\<dots> \<longleftrightarrow> n div 10 < m div 10 \<or> n div 10 = m div 10 \<and> n mod 10 < m mod 10"
    by (simp only: Suc.IH [OF lt] pad_inj [OF lt])
  also have "\<dots> \<longleftrightarrow> n < m" by (rule div_mod_less_nat) simp
  finally show ?case .
qed simp

section \<open>Interfaces\<close>

text \<open>
  A keyed store: what a client of a dictionary or of a table with a UNIQUE key relies on.
  \<open>put\<close> writes the entry of a key, \<open>del\<close> removes it, and every operation keeps \<open>ok\<close>
  (for lists: no key twice).
\<close>

locale keyed_store =
  fixes get :: "'s \<Rightarrow> 'k \<Rightarrow> 'v option"
    and put :: "'k \<Rightarrow> 'v \<Rightarrow> 's \<Rightarrow> 's"
    and del :: "'k \<Rightarrow> 's \<Rightarrow> 's"
    and ok :: "'s \<Rightarrow> bool"
  assumes get_put: "ok s \<Longrightarrow> get (put k v s) k' = (if k' = k then Some v else get s k')"
    and get_del: "ok s \<Longrightarrow> get (del k s) k' = (if k' = k then None else get s k')"
    and ok_put: "ok s \<Longrightarrow> ok (put k v s)"
    and ok_del: "ok s \<Longrightarrow> ok (del k s)"
begin

lemma get_put_same: "ok s \<Longrightarrow> get (put k v s) k = Some v"
  by (simp add: get_put)

lemma get_put_other: "ok s \<Longrightarrow> k' \<noteq> k \<Longrightarrow> get (put k v s) k' = get s k'"
  by (simp add: get_put)

lemma get_del_put: "ok s \<Longrightarrow> get s k = None \<Longrightarrow> get (del k (put k v s)) k' = get s k'"
  by (simp add: get_put get_del ok_put)

lemma ok_puts: "ok s \<Longrightarrow> ok (fold (\<lambda>(k, v). put k v) kvs s)"
  by (induction kvs arbitrary: s) (auto simp: ok_put)

lemma get_puts: "ok s \<Longrightarrow>
  get (fold (\<lambda>(k, v). put k v) kvs s) k' =
    (case map_of (rev kvs) k' of Some v \<Rightarrow> Some v | None \<Rightarrow> get s k')"
proof (induction kvs arbitrary: s)
  case (Cons kv kvs)
  obtain k v where kv: "kv = (k, v)" by (cases kv)
  from Cons.prems have "ok (put k v s)" by (rule ok_put)
  from Cons.IH [OF this] Cons.prems show ?case
    by (auto simp: kv get_put map_add_def split: option.splits)
qed simp

end

text \<open>
  A state machine with an invariant: every event keeps it, so every run does.  \<open>fold step es\<close>
  is the run of the events \<open>es\<close> in order.
\<close>

locale invariant_system =
  fixes step :: "'e \<Rightarrow> 's \<Rightarrow> 's"
    and inv :: "'s \<Rightarrow> bool"
  assumes step_inv: "inv s \<Longrightarrow> inv (step e s)"
begin

lemma run_inv: "inv s \<Longrightarrow> inv (fold step es s)"
  by (induction es arbitrary: s) (auto simp: step_inv)

lemma run_inv_prefix: "inv s \<Longrightarrow> inv (fold step (take n es) s)"
  by (rule run_inv)

end

text \<open>
  An encoding of times as text whose text order is the time order: what a client needs to
  select and sort by time with comparisons of text.
\<close>

locale ordered_text =
  fixes enc :: "int \<Rightarrow> pystr"
    and inside :: "int \<Rightarrow> bool"
  assumes enc_less: "inside a \<Longrightarrow> inside b \<Longrightarrow> enc a < enc b \<longleftrightarrow> a < b"
begin

lemma enc_eq: "inside a \<Longrightarrow> inside b \<Longrightarrow> enc a = enc b \<longleftrightarrow> a = b"
  by (metis enc_less less_irrefl linorder_neqE)

lemma enc_le: "inside a \<Longrightarrow> inside b \<Longrightarrow> enc a \<le> enc b \<longleftrightarrow> a \<le> b"
  using enc_less [of b a] by (meson not_le)

lemma range_test:
  "inside a \<Longrightarrow> inside b \<Longrightarrow> inside t \<Longrightarrow>
     enc a \<le> enc t \<and> enc t < enc b \<longleftrightarrow> a \<le> t \<and> t < b"
  by (simp add: enc_le enc_less)

lemma sorted_enc:
  "list_all inside ts \<Longrightarrow> sorted (map enc ts) \<longleftrightarrow> sorted ts"
  by (induction ts) (auto simp: enc_le list_all_iff)

end

text \<open>
  A self-delimiting encoding: the decoder recovers the value and leaves the bytes that follow.
\<close>

locale prefix_codec =
  fixes enc :: "'a \<Rightarrow> 'b list"
    and dec :: "'b list \<Rightarrow> 'e + 'a \<times> 'b list"
    and valid :: "'a \<Rightarrow> bool"
  assumes dec_enc: "valid x \<Longrightarrow> dec (enc x @ rest) = Inr (x, rest)"
begin

lemma enc_inj: "valid x \<Longrightarrow> valid y \<Longrightarrow> enc x = enc y \<Longrightarrow> x = y"
  by (metis dec_enc Pair_inject sum.inject(2))

lemma enc_prefix_free:
  "valid x \<Longrightarrow> valid y \<Longrightarrow> enc x @ rest = enc y @ rest' \<Longrightarrow> x = y \<and> rest = rest'"
  by (metis dec_enc Pair_inject sum.inject(2))

end

end
