(* ===== verification/Calendar.thy ===== *)
theory Calendar
  imports LLPrelude
begin

text \<open>
  The part of Python's \<open>datetime\<close> module that \<open>LifeLens_WebApp,Server/server.py\<close> uses:
  proleptic Gregorian dates and their ordinals, aware and naive datetimes, the conversion to
  UTC, and the ISO text written for a UTC instant together with the parser that reads it back.
  An instant is the number of microseconds since 0001-01-01T00:00 UTC.  The lemmas show that
  ordinals and dates correspond one to one in the range the module allows, and that the ISO text
  of instants sorts as the instants do and parses back to them.
\<close>

section \<open>Dates and ordinals\<close>

record pydate =
  d_year :: int
  d_month :: int
  d_day :: int

definition is_leap :: "int \<Rightarrow> bool" where
  "is_leap y \<longleftrightarrow> y mod 4 = 0 \<and> (y mod 100 \<noteq> 0 \<or> y mod 400 = 0)"

definition days_before_year :: "int \<Rightarrow> int" where
  "days_before_year y = (y - 1) * 365 + (y - 1) div 4 - (y - 1) div 100 + (y - 1) div 400"

definition days_before_month :: "bool \<Rightarrow> int \<Rightarrow> int" where
  "days_before_month leap m =
     [0, 31, 59, 90, 120, 151, 181, 212, 243, 273, 304, 334] ! nat (m - 1)
       + (if 2 < m \<and> leap then 1 else 0)"

definition days_in_month :: "bool \<Rightarrow> int \<Rightarrow> int" where
  "days_in_month leap m =
     (if m = 2 \<and> leap then 29 else [31, 28, 31, 30, 31, 30, 31, 31, 30, 31, 30, 31] ! nat (m - 1))"

definition valid_date :: "pydate \<Rightarrow> bool" where
  "valid_date d \<longleftrightarrow> 1 \<le> d_year d \<and> d_year d \<le> 9999 \<and> 1 \<le> d_month d \<and> d_month d \<le> 12
     \<and> 1 \<le> d_day d \<and> d_day d \<le> days_in_month (is_leap (d_year d)) (d_month d)"

definition toordinal :: "pydate \<Rightarrow> int" where
  "toordinal d = days_before_year (d_year d)
     + days_before_month (is_leap (d_year d)) (d_month d) + d_day d"

text \<open>
  \<open>fromordinal_raw\<close> is the cycle arithmetic of CPython's \<open>_ord2ymd\<close>; \<open>month_day\<close> is its
  last part, which finds the month from the day of the year (\<open>(n + 50) >> 5\<close>, corrected).
\<close>

definition month_day :: "bool \<Rightarrow> int \<Rightarrow> int \<times> int" where
  "month_day leap n =
     (let m = (n + 50) div 32; p = days_before_month leap m
      in if p > n then (m - 1, n - (p - days_in_month leap (m - 1)) + 1)
         else (m, n - p + 1))"

definition fromordinal_raw :: "int \<Rightarrow> pydate" where
  "fromordinal_raw n =
     (let a = (n - 1) div 146097; r1 = (n - 1) mod 146097;
          b = r1 div 36524; r2 = r1 mod 36524;
          c = r2 div 1461; r3 = r2 mod 1461;
          d = r3 div 365; r4 = r3 mod 365;
          y = a * 400 + b * 100 + c * 4 + d + 1
      in if d = 4 \<or> b = 4 then \<lparr>d_year = y - 1, d_month = 12, d_day = 31\<rparr>
         else (case month_day (d = 3 \<and> (c \<noteq> 24 \<or> b = 3)) r4 of
                 (m, k) \<Rightarrow> \<lparr>d_year = y, d_month = m, d_day = k\<rparr>))"

text \<open>\<open>date.fromordinal\<close> refuses ordinals outside the years 1 to 9999.\<close>

definition max_ordinal :: int where
  "max_ordinal = 3652059"

definition fromordinal :: "int \<Rightarrow> pydate res" where
  "fromordinal n = (if 1 \<le> n \<and> n \<le> max_ordinal then Inr (fromordinal_raw n) else Inl ValueError)"

subsection \<open>Ordinals and dates correspond\<close>

lemma month_range: "1 \<le> (m::int) \<Longrightarrow> m \<le> 12 \<Longrightarrow>
    m \<in> {1, 2, 3, 4, 5, 6, 7, 8, 9, 10, 11, 12}"
proof -
  assume "1 \<le> m" "m \<le> 12"
  then have "m \<in> set [1..12]" by simp
  then show ?thesis by (simp add: upto.simps)
qed

lemma month_day_correct:
  assumes "0 \<le> n" "n < (if leap then 366 else 365)" "month_day leap n = (m, k)"
  shows "1 \<le> m \<and> m \<le> 12 \<and> 1 \<le> k \<and> k \<le> days_in_month leap m
    \<and> days_before_month leap m + k = n + 1"
proof -
  define q where "q = (n + 50) div 32"
  have b: "32 * q \<le> n + 50" "n + 50 < 32 * q + 32"
    unfolding q_def by simp_all
  then have "1 \<le> q" "q \<le> 12" using assms(1,2) by (auto split: if_splits)
  then have "q \<in> {1, 2, 3, 4, 5, 6, 7, 8, 9, 10, 11, 12}" by (rule month_range)
  then show ?thesis
    using assms b unfolding month_day_def Let_def q_def [symmetric]
    by (elim insertE) (cases leap; force simp: days_before_month_def days_in_month_def split: if_splits)+
qed

lemma div_add_one:
  assumes k: "(0::int) < k"
  shows "z div k = (z - 1) div k + (if k dvd z then 1 else 0)"
proof (cases "k dvd z")
  case True
  then obtain q where q: "z = k * q" ..
  have "(k * q - 1) div k = q - 1"
    using k by (intro int_div_pos_eq [of _ _ _ "k - 1"]) (auto simp: algebra_simps)
  with q k show ?thesis by simp
next
  case False
  then have "z mod k \<noteq> 0" by (simp add: dvd_eq_mod_eq_0)
  moreover have "0 \<le> z mod k" "z mod k < k" using k by simp_all
  ultimately have "(z - 1) div k = z div k"
    by (intro int_div_pos_eq [of _ _ _ "z mod k - 1"]) (auto simp: algebra_simps)
  with False show ?thesis by simp
qed

lemma days_before_year_Suc:
  "days_before_year (y + 1) = days_before_year y + (if is_leap y then 366 else 365)"
proof -
  have d: "4 dvd y" if "100 dvd y" using that by (rule dvd_trans [rotated]) simp
  have e: "100 dvd y" if "400 dvd y" using that by (rule dvd_trans [rotated]) simp
  have "y div 4 = (y - 1) div 4 + (if 4 dvd y then 1 else 0)"
    "y div 100 = (y - 1) div 100 + (if 100 dvd y then 1 else 0)"
    "y div 400 = (y - 1) div 400 + (if 400 dvd y then 1 else 0)"
    by (rule div_add_one; simp)+
  then have "days_before_year (y + 1) = days_before_year y + 365
      + (if 4 dvd y then 1 else 0) - (if 100 dvd y then 1 else 0) + (if 400 dvd y then 1 else 0)"
    unfolding days_before_year_def by simp
  then show ?thesis
    using d e unfolding is_leap_def mod_eq_0_iff_dvd
    by (cases "4 dvd y"; cases "100 dvd y"; cases "400 dvd y"; simp)
qed

lemma days_before_year_cycle:
  assumes "0 \<le> b" "b \<le> 3" "0 \<le> c" "c \<le> 24" "0 \<le> d" "d \<le> 3"
  shows "days_before_year (a * 400 + b * 100 + c * 4 + d + 1)
     = 146097 * a + 36524 * b + 1461 * c + 365 * d"
proof -
  have "(a * 400 + b * 100 + c * 4 + d) div 4 = a * 100 + b * 25 + c" using assms by linarith
  moreover have "(a * 400 + b * 100 + c * 4 + d) div 100 = a * 4 + b" using assms by linarith
  moreover have "(a * 400 + b * 100 + c * 4 + d) div 400 = a" using assms by linarith
  ultimately show ?thesis by (simp add: days_before_year_def)
qed

lemma is_leap_cycle:
  assumes "0 \<le> b" "b \<le> 3" "0 \<le> c" "c \<le> 24" "0 \<le> d" "d \<le> 3"
  shows "is_leap (a * 400 + b * 100 + c * 4 + d + 1) \<longleftrightarrow> d = 3 \<and> (c \<noteq> 24 \<or> b = 3)"
proof -
  let ?y = "a * 400 + b * 100 + c * 4 + d + 1"
  have 4: "?y mod 4 = 0 \<longleftrightarrow> d = 3"
  proof -
    have "?y mod 4 = (d + 1 + 4 * (a * 100 + b * 25 + c)) mod 4" by (simp add: algebra_simps)
    also have "\<dots> = (d + 1) mod 4" by (rule mod_mult_self2)
    also have "\<dots> = (if d = 3 then 0 else d + 1)" using assms by auto
    finally show ?thesis using assms by auto
  qed
  have 1: "?y mod 100 = 0 \<longleftrightarrow> c = 24 \<and> d = 3"
  proof -
    have "?y mod 100 = (c * 4 + d + 1 + 100 * (a * 4 + b)) mod 100" by (simp add: algebra_simps)
    also have "\<dots> = (c * 4 + d + 1) mod 100" by (rule mod_mult_self2)
    also have "\<dots> = (if c * 4 + d + 1 = 100 then 0 else c * 4 + d + 1)" using assms by auto
    finally show ?thesis using assms by auto
  qed
  have 2: "?y mod 400 = 0 \<longleftrightarrow> b = 3 \<and> c = 24 \<and> d = 3"
  proof -
    have "?y mod 400 = (b * 100 + c * 4 + d + 1 + 400 * a) mod 400" by (simp add: algebra_simps)
    also have "\<dots> = (b * 100 + c * 4 + d + 1) mod 400" by (rule mod_mult_self2)
    also have "\<dots> = (if b * 100 + c * 4 + d + 1 = 400 then 0 else b * 100 + c * 4 + d + 1)"
    proof (cases "b * 100 + c * 4 + d + 1 = 400")
      case True
      then show ?thesis by (simp only: mod_self) simp
    next
      case False
      with assms show ?thesis by (simp add: mod_pos_pos_trivial)
    qed
    finally show ?thesis using assms by auto
  qed
  show ?thesis unfolding is_leap_def 4 1 2 by auto
qed

lemma days_before_year_mono: "y \<le> y' \<Longrightarrow> days_before_year y \<le> days_before_year y'"
proof (induction y' rule: int_ge_induct)
  case (step i)
  then show ?case by (simp add: days_before_year_Suc)
qed simp

lemma days_before_month_step:
  assumes "1 \<le> m" "m \<le> 11"
  shows "days_before_month leap (m + 1) = days_before_month leap m + days_in_month leap m"
proof -
  have "m \<in> {1, 2, 3, 4, 5, 6, 7, 8, 9, 10, 11, 12}" using assms by (intro month_range) simp_all
  with assms show ?thesis
    by (elim insertE) (cases leap; force simp: days_before_month_def days_in_month_def)+
qed

lemma days_in_month_pos: "1 \<le> m \<Longrightarrow> m \<le> 12 \<Longrightarrow> 28 \<le> days_in_month leap m"
  by (drule (1) month_range) (auto simp: days_in_month_def)

lemma days_in_month_le: "1 \<le> m \<Longrightarrow> m \<le> 12 \<Longrightarrow> days_in_month leap m \<le> 31"
  by (drule (1) month_range) (auto simp: days_in_month_def)

lemma days_before_month_mono:
  assumes "m \<le> m'" "1 \<le> m" "m' \<le> 12"
  shows "days_before_month leap m \<le> days_before_month leap m'"
  using assms
proof (induction m' rule: int_ge_induct)
  case (step i)
  then show ?case using days_before_month_step [of i leap] days_in_month_pos [of i leap] by simp
qed simp

lemma days_before_month_bounds:
  assumes "1 \<le> m" "m \<le> 12"
  shows "0 \<le> days_before_month leap m"
    "days_before_month leap m + days_in_month leap m \<le> (if leap then 366 else 365)"
  using month_range [OF assms] by (elim insertE; cases leap; simp add: days_before_month_def days_in_month_def)+

lemma toordinal_bounds:
  assumes "valid_date d"
  shows "days_before_year (d_year d) < toordinal d" "toordinal d \<le> days_before_year (d_year d + 1)"
  using assms days_before_month_bounds [of "d_month d" "is_leap (d_year d)"]
  by (auto simp: toordinal_def valid_date_def days_before_year_Suc split: if_splits)

definition date_key :: "pydate \<Rightarrow> int list" where
  "date_key d = [d_year d, d_month d, d_day d]"

lemma toordinal_less_if:
  assumes v: "valid_date p" "valid_date q" and l: "date_key p < date_key q"
  shows "toordinal p < toordinal q"
proof -
  consider "d_year p < d_year q" | "d_year p = d_year q" "d_month p < d_month q"
    | "d_year p = d_year q" "d_month p = d_month q" "d_day p < d_day q"
    using l by (auto simp: date_key_def)
  then show ?thesis
  proof cases
    case 1
    then have "days_before_year (d_year p + 1) \<le> days_before_year (d_year q)"
      by (intro days_before_year_mono) simp
    with toordinal_bounds [OF v(1)] toordinal_bounds [OF v(2)] show ?thesis by simp
  next
    case 2
    let ?l = "is_leap (d_year p)"
    have "days_before_month ?l (d_month p) + days_in_month ?l (d_month p)
        = days_before_month ?l (d_month p + 1)"
      using 2 v by (subst days_before_month_step) (auto simp: valid_date_def)
    also have "\<dots> \<le> days_before_month ?l (d_month q)"
      using 2 v by (intro days_before_month_mono) (auto simp: valid_date_def)
    finally show ?thesis using 2 v by (auto simp: toordinal_def valid_date_def)
  next
    case 3
    then show ?thesis by (simp add: toordinal_def)
  qed
qed

lemma toordinal_less_iff:
  assumes "valid_date p" "valid_date q"
  shows "toordinal p < toordinal q \<longleftrightarrow> date_key p < date_key q"
proof -
  consider "date_key p < date_key q" | "date_key p = date_key q" | "date_key q < date_key p"
    by fastforce
  then show ?thesis
  proof cases
    case 2
    then have "toordinal p = toordinal q" by (simp add: date_key_def toordinal_def)
    with 2 show ?thesis by simp
  qed (use toordinal_less_if [OF assms] toordinal_less_if [OF assms(2,1)] in auto)
qed

lemma date_key_inj: "date_key p = date_key q \<Longrightarrow> p = (q :: pydate)"
  by (simp add: date_key_def)

lemma toordinal_inj: "valid_date p \<Longrightarrow> valid_date q \<Longrightarrow> toordinal p = toordinal q \<Longrightarrow> p = q"
  by (metis date_key_inj less_irrefl linorder_neqE toordinal_less_if)

lemma fromordinal_raw_correct:
  assumes n: "1 \<le> n" "n \<le> 3652059"
  shows "valid_date (fromordinal_raw n) \<and> toordinal (fromordinal_raw n) = n"
proof -
  define a where "a = (n - 1) div 146097"
  define r1 where "r1 = (n - 1) mod 146097"
  define b where "b = r1 div 36524"
  define r2 where "r2 = r1 mod 36524"
  define c where "c = r2 div 1461"
  define r3 where "r3 = r2 mod 1461"
  define d where "d = r3 div 365"
  define r4 where "r4 = r3 mod 365"
  have n_eq: "n - 1 = 146097 * a + r1" and r1: "0 \<le> r1" "r1 < 146097"
    unfolding a_def r1_def by simp_all
  have r1_eq: "r1 = 36524 * b + r2" and r2: "0 \<le> r2" "r2 < 36524"
    unfolding b_def r2_def by simp_all
  have r2_eq: "r2 = 1461 * c + r3" and r3: "0 \<le> r3" "r3 < 1461"
    unfolding c_def r3_def by simp_all
  have r3_eq: "r3 = 365 * d + r4" and r4: "0 \<le> r4" "r4 < 365"
    unfolding d_def r4_def by simp_all
  have a: "0 \<le> a" "a \<le> 24" using n n_eq r1 by linarith+
  have b: "0 \<le> b" "b \<le> 4" using r1_eq r1 r2 by linarith+
  have c: "0 \<le> c" "c \<le> 24" using r2_eq r2 r3 by linarith+
  have d: "0 \<le> d" "d \<le> 4" using r3_eq r3 r4 by linarith+
  define y where "y = a * 400 + b * 100 + c * 4 + d + 1"
  have eq: "fromordinal_raw n = (if d = 4 \<or> b = 4 then \<lparr>d_year = y - 1, d_month = 12, d_day = 31\<rparr>
      else (case month_day (d = 3 \<and> (c \<noteq> 24 \<or> b = 3)) r4 of
              (m, k) \<Rightarrow> \<lparr>d_year = y, d_month = m, d_day = k\<rparr>))"
    unfolding fromordinal_raw_def Let_def a_def b_def c_def d_def r1_def r2_def r3_def r4_def y_def ..
  show ?thesis
  proof (cases "d = 4 \<or> b = 4")
    case False
    then have b3: "b \<le> 3" and d3: "d \<le> 3" using b d by auto
    obtain m k where mk: "month_day (d = 3 \<and> (c \<noteq> 24 \<or> b = 3)) r4 = (m, k)" by fastforce
    have leap: "is_leap y \<longleftrightarrow> d = 3 \<and> (c \<noteq> 24 \<or> b = 3)"
      unfolding y_def using b(1) b3 c d(1) d3 by (rule is_leap_cycle)
    have "1 \<le> m \<and> m \<le> 12 \<and> 1 \<le> k \<and> k \<le> days_in_month (is_leap y) m
        \<and> days_before_month (is_leap y) m + k = r4 + 1"
      using mk r4 unfolding leap by (intro month_day_correct) auto
    moreover have "days_before_year y = 146097 * a + 36524 * b + 1461 * c + 365 * d"
      unfolding y_def using b(1) b3 c d(1) d3 by (rule days_before_year_cycle)
    moreover have "1 \<le> y" "y \<le> 9999"
      using a b c d b3 d3 n n_eq r1_eq r2_eq r3_eq r4 unfolding y_def by linarith+
    moreover have "fromordinal_raw n = \<lparr>d_year = y, d_month = m, d_day = k\<rparr>"
      unfolding eq mk using False by simp
    ultimately show ?thesis
      using n_eq r1_eq r2_eq r3_eq by (simp add: valid_date_def toordinal_def)
  next
    case True
    have y1: "y - 1 = a * 400 + (if b = 4 then 3 else b) * 100
        + (if b = 4 then 24 else c) * 4 + 3 + 1"
      and nn: "n - 1 = 146097 * a + 36524 * (if b = 4 then 3 else b)
        + 1461 * (if b = 4 then 24 else c) + 365 * 3 + 365"
      and not: "b \<noteq> 4 \<longrightarrow> c \<noteq> 24 \<or> b = 3"
      using True n_eq r1_eq r2_eq r3_eq r1 r2 r3 r4 b c d unfolding y_def
      by (auto split: if_splits)
    have leap: "is_leap (y - 1)"
      unfolding y1 using b c not by (subst is_leap_cycle) auto
    have dby: "days_before_year (y - 1) = n - 366"
      unfolding y1 using nn b c by (subst days_before_year_cycle) auto
    have "1 \<le> y - 1" "y - 1 \<le> 9999"
      using a b c n nn unfolding y1 by (auto split: if_splits)
    with True leap dby show ?thesis
      by (simp add: eq valid_date_def toordinal_def days_in_month_def days_before_month_def)
  qed
qed

lemma toordinal_range:
  assumes "valid_date d"
  shows "1 \<le> toordinal d" "toordinal d \<le> max_ordinal"
proof -
  have y: "1 \<le> d_year d" "d_year d + 1 \<le> 10000" using assms by (auto simp: valid_date_def)
  have "days_before_year 1 \<le> days_before_year (d_year d)"
    "days_before_year (d_year d + 1) \<le> days_before_year 10000"
    using y by (auto intro: days_before_year_mono)
  moreover have "days_before_year 1 = 0" "days_before_year 10000 = max_ordinal"
    by (simp_all add: days_before_year_def max_ordinal_def)
  ultimately show "1 \<le> toordinal d" "toordinal d \<le> max_ordinal"
    using toordinal_bounds [OF assms] by linarith+
qed

lemma fromordinal_toordinal: "valid_date d \<Longrightarrow> fromordinal (toordinal d) = Inr d"
  using toordinal_range [of d] fromordinal_raw_correct [of "toordinal d"]
  unfolding fromordinal_def max_ordinal_def by (auto intro: toordinal_inj)

lemma fromordinal_Inr:
  "fromordinal n = Inr d \<Longrightarrow> valid_date d \<and> toordinal d = n"
  unfolding fromordinal_def max_ordinal_def
  by (auto simp: fromordinal_raw_correct split: if_splits)

section \<open>Datetimes and instants\<close>

abbreviation second_us :: int where "second_us \<equiv> 1000000"
abbreviation minute_us :: int where "minute_us \<equiv> 60000000"
abbreviation hour_us :: int where "hour_us \<equiv> 3600000000"
abbreviation day_us :: int where "day_us \<equiv> 86400000000"

definition max_instant :: int where
  "max_instant = max_ordinal * day_us"

definition in_range :: "int \<Rightarrow> bool" where
  "in_range t \<longleftrightarrow> 0 \<le> t \<and> t < max_instant"

text \<open>
  A \<open>datetime\<close>: its wall clock as microseconds since 0001-01-01T00:00 of that clock, and its
  offset from UTC in microseconds, \<open>None\<close> for a naive value.
\<close>

record pydatetime =
  dt_wall :: int
  dt_offset :: "int option"

text \<open>
  \<open>value.astimezone(timezone.utc)\<close>.  A naive value is read as local time of the host, whose
  offset at a wall clock time is the parameter \<open>localtz\<close>.  Subtracting the offset raises
  OverflowError when the result leaves the years 1 to 9999.
\<close>

definition astimezone_utc :: "(int \<Rightarrow> int) \<Rightarrow> pydatetime \<Rightarrow> int res" where
  "astimezone_utc localtz d =
     (let off = (case dt_offset d of Some z \<Rightarrow> z | None \<Rightarrow> localtz (dt_wall d));
          t = dt_wall d - off
      in if in_range t then Inr t else Inl OverflowError)"

text \<open>\<open>isoformat()\<close> of a UTC datetime: the fraction is written only when it is not zero.\<close>

definition date_text :: "pydate \<Rightarrow> pystr" where
  "date_text d = pad 4 (nat (d_year d)) @ 45 # pad 2 (nat (d_month d)) @ 45 # pad 2 (nat (d_day d))"

definition clock_text :: "int \<Rightarrow> pystr" where
  "clock_text s = pad 2 (nat (s div 3600)) @ 58 # pad 2 (nat (s mod 3600 div 60))
     @ 58 # pad 2 (nat (s mod 60))"

definition fraction_text :: "int \<Rightarrow> pystr" where
  "fraction_text us = (if us = 0 then u ''+00:00'' else 46 # pad 6 (nat us) @ u ''+00:00'')"

definition isoformat_utc :: "int \<Rightarrow> pystr" where
  "isoformat_utc t = date_text (fromordinal_raw (t div day_us + 1))
     @ 84 # clock_text (t mod day_us div second_us) @ fraction_text (t mod second_us)"

subsection \<open>The text of instants sorts as the instants\<close>

lemma fields_less:
  assumes "a < 10 ^ i" "a' < 10 ^ i" "b < 10 ^ j" "b' < 10 ^ j" "c < 10 ^ k" "c' < 10 ^ k"
  shows "pad i a @ x # pad j b @ y # pad k c < pad i a' @ x # pad j b' @ y # pad k c'
    \<longleftrightarrow> [a, b, c] < [a', b', c']"
  using assms by (simp add: lex_append_equal_length pad_less pad_inj)

lemma nat_fields_less:
  "0 \<le> a \<Longrightarrow> 0 \<le> b \<Longrightarrow> 0 \<le> c \<Longrightarrow> 0 \<le> a' \<Longrightarrow> 0 \<le> b' \<Longrightarrow> 0 \<le> c' \<Longrightarrow>
    [nat a, nat b, nat c] < [nat a', nat b', nat c'] \<longleftrightarrow> [a, b, c] < [a', b', c']"
  by auto

lemma date_text_less:
  assumes "valid_date p" "valid_date q"
  shows "date_text p < date_text q \<longleftrightarrow> date_key p < date_key q"
proof -
  have b: "nat (d_year p) < 10 ^ 4" "nat (d_year q) < 10 ^ 4"
    "nat (d_month p) < 10 ^ 2" "nat (d_month q) < 10 ^ 2"
    "nat (d_day p) < 10 ^ 2" "nat (d_day q) < 10 ^ 2"
    using assms days_in_month_le [of "d_month p" "is_leap (d_year p)"]
      days_in_month_le [of "d_month q" "is_leap (d_year q)"]
    by (auto simp: valid_date_def)
  show ?thesis
    unfolding date_text_def date_key_def fields_less [OF b]
    using assms by (intro nat_fields_less) (auto simp: valid_date_def)
qed

lemma length_date_text [simp]: "length (date_text d) = 10"
  by (simp add: date_text_def)

lemma length_clock_text [simp]: "length (clock_text s) = 8"
  by (simp add: clock_text_def)

lemma clock_key_less:
  assumes "0 \<le> (s::int)" "0 \<le> r"
  shows "[s div 3600, s mod 3600 div 60, s mod 60] < [r div 3600, r mod 3600 div 60, r mod 60]
    \<longleftrightarrow> s < r"
proof -
  have mm: "x mod 60 = x mod 3600 mod 60" for x :: int by (simp add: mod_mod_cancel)
  have "s < r \<longleftrightarrow> s div 3600 < r div 3600 \<or> s div 3600 = r div 3600 \<and> s mod 3600 < r mod 3600"
    by (rule div_mod_less_int [symmetric]) simp
  also have "s mod 3600 < r mod 3600 \<longleftrightarrow>
      s mod 3600 div 60 < r mod 3600 div 60
        \<or> s mod 3600 div 60 = r mod 3600 div 60 \<and> s mod 60 < r mod 60"
    unfolding mm [of s] mm [of r] by (rule div_mod_less_int [symmetric]) simp
  finally show ?thesis by simp
qed

lemma clock_text_less:
  assumes "0 \<le> s" "s < 86400" "0 \<le> r" "r < 86400"
  shows "clock_text s < clock_text r \<longleftrightarrow> s < r"
proof -
  have b: "nat (s div 3600) < 10 ^ 2" "nat (r div 3600) < 10 ^ 2"
    "nat (s mod 3600 div 60) < 10 ^ 2" "nat (r mod 3600 div 60) < 10 ^ 2"
    "nat (s mod 60) < 10 ^ 2" "nat (r mod 60) < 10 ^ 2"
    using assms by (auto simp: nat_less_iff)
  have p: "0 \<le> s div 3600" "0 \<le> r div 3600" "0 \<le> s mod 3600 div 60" "0 \<le> r mod 3600 div 60"
    "0 \<le> s mod 60" "0 \<le> r mod 60"
    using assms by (auto simp: pos_imp_zdiv_nonneg_iff)
  show ?thesis
    unfolding clock_text_def fields_less [OF b] nat_fields_less [OF p(1,3,5) p(2,4,6)]
    by (rule clock_key_less [OF assms(1,3)])
qed

lemma fraction_text_less:
  assumes "0 \<le> a" "a < second_us" "0 \<le> b" "b < second_us"
  shows "fraction_text a < fraction_text b \<longleftrightarrow> a < b"
proof -
  have l: "nat a < 10 ^ 6" "nat b < 10 ^ 6" using assms by auto
  show ?thesis
    using assms by (auto simp: fraction_text_def lex_append_equal_length pad_less [OF l] )
qed

lemma isoformat_utc_less:
  assumes "in_range a" "in_range b"
  shows "isoformat_utc a < isoformat_utc b \<longleftrightarrow> a < b"
proof -
  let ?date = "\<lambda>t. fromordinal_raw (t div day_us + 1)"
  have d: "valid_date (?date t)" "toordinal (?date t) = t div day_us + 1" if "in_range t" for t
    using fromordinal_raw_correct [of "t div day_us + 1"] that
    by (auto simp: in_range_def max_instant_def max_ordinal_def)
  have date: "date_text (?date a) < date_text (?date b) \<longleftrightarrow> a div day_us < b div day_us"
    using assms by (simp add: date_text_less d toordinal_less_iff [symmetric] add1_zle_eq)
  have date_eq: "date_text (?date a) = date_text (?date b) \<longleftrightarrow> a div day_us = b div day_us"
  proof
    assume "date_text (?date a) = date_text (?date b)"
    then have "date_key (?date a) = date_key (?date b)"
      by (metis assms d(1) date_text_less less_irrefl linorder_neqE)
    then have "?date a = ?date b" by (rule date_key_inj)
    then have "toordinal (?date a) = toordinal (?date b)" by (rule arg_cong)
    then show "a div day_us = b div day_us"
      unfolding d(2) [OF assms(1)] d(2) [OF assms(2)] by simp
  next
    assume "a div day_us = b div day_us"
    then show "date_text (?date a) = date_text (?date b)" by (simp only:)
  qed
  define s where "s t = t mod day_us div second_us" for t :: int
  have s: "0 \<le> s t" "s t < 86400" for t by (auto simp: s_def)
  have clock: "clock_text (s a) < clock_text (s b) \<longleftrightarrow> s a < s b"
    "clock_text (s a) = clock_text (s b) \<longleftrightarrow> s a = s b"
    using clock_text_less [OF s s] by (auto, metis less_irrefl linorder_neqE)
  have frac: "fraction_text (a mod second_us) < fraction_text (b mod second_us)
      \<longleftrightarrow> a mod second_us < b mod second_us"
    by (rule fraction_text_less) auto
  have mm: "t mod second_us = t mod day_us mod second_us" for t :: int by (simp add: mod_mod_cancel)
  have "isoformat_utc a < isoformat_utc b \<longleftrightarrow>
      a div day_us < b div day_us \<or> a div day_us = b div day_us \<and>
        (s a < s b \<or> s a = s b \<and> a mod second_us < b mod second_us)"
    unfolding isoformat_utc_def s_def [symmetric]
    by (simp add: lex_append_equal_length date date_eq clock frac)
  also have "(s a < s b \<or> s a = s b \<and> a mod second_us < b mod second_us)
      \<longleftrightarrow> a mod day_us < b mod day_us"
    unfolding s_def mm [of a] mm [of b] by (rule div_mod_less_int) simp
  finally show ?thesis by (simp add: div_mod_less_int)
qed

interpretation iso_text: ordered_text isoformat_utc in_range
  by unfold_locales (rule isoformat_utc_less)

section \<open>Reading the text back\<close>

text \<open>
  \<open>datetime.fromisoformat\<close> reads the fields from left to right.  The model covers the shape
  \<open>YYYY-MM-DDTHH:MM:SS[.ffffff]+00:00\<close>, the only one \<open>isoformat_utc\<close> writes, and answers
  ValueError for anything else; the server parses no other text (every timestamp column is
  filled by \<open>iso\<close>).
\<close>

definition take_num :: "nat \<Rightarrow> pystr \<Rightarrow> pyexc + nat \<times> pystr" where
  "take_num k s =
     (if k \<le> length s \<and> list_all is_digit (take k s) then Inr (digits_value 0 (take k s), drop k s)
      else Inl ValueError)"

definition expect :: "nat \<Rightarrow> pystr \<Rightarrow> pystr res" where
  "expect c s = (case s of [] \<Rightarrow> Inl ValueError | x # xs \<Rightarrow> if x = c then Inr xs else Inl ValueError)"

definition parse_fraction :: "pystr \<Rightarrow> int res" where
  "parse_fraction s =
     (if s = u ''+00:00'' then Inr 0
      else rbind (expect 46 s) (\<lambda>s. rbind (take_num 6 s) (\<lambda>(us, s).
             if s = u ''+00:00'' then Inr (int us) else Inl ValueError)))"

definition fromisoformat :: "pystr \<Rightarrow> pydatetime res" where
  "fromisoformat s =
     rbind (take_num 4 s) (\<lambda>(y, s). rbind (expect 45 s) (\<lambda>s.
     rbind (take_num 2 s) (\<lambda>(m, s). rbind (expect 45 s) (\<lambda>s.
     rbind (take_num 2 s) (\<lambda>(d, s). rbind (expect 84 s) (\<lambda>s.
     rbind (take_num 2 s) (\<lambda>(hh, s). rbind (expect 58 s) (\<lambda>s.
     rbind (take_num 2 s) (\<lambda>(mm, s). rbind (expect 58 s) (\<lambda>s.
     rbind (take_num 2 s) (\<lambda>(ss, s). rbind (parse_fraction s) (\<lambda>us.
       let date = \<lparr>d_year = int y, d_month = int m, d_day = int d\<rparr>
       in if valid_date date \<and> hh < 24 \<and> mm < 60 \<and> ss < 60
          then Inr \<lparr>dt_wall = (toordinal date - 1) * day_us + int hh * hour_us + int mm * minute_us
                       + int ss * second_us + us, dt_offset = Some 0\<rparr>
          else Inl ValueError))))))))))))"

lemma take_num_pad: "n < 10 ^ k \<Longrightarrow> take_num k (pad k n @ rest) = Inr (n, rest)"
  using pad_digits by (auto simp: take_num_def digits_value_pad list_all_iff)

lemmas take_num_fields =
  take_num_pad [of _ 2, simplified] take_num_pad [of _ 4, simplified] take_num_pad [of _ 6, simplified]

interpretation numeral_field: prefix_codec "pad k" "take_num k" "\<lambda>n. n < 10 ^ k" for k
  by unfold_locales (rule take_num_pad)

lemma expect_Cons [simp]: "expect c (c # s) = Inr s"
  by (simp add: expect_def)

lemma parse_fraction_text:
  "0 \<le> us \<Longrightarrow> us < second_us \<Longrightarrow> parse_fraction (fraction_text us) = Inr us"
  by (auto simp: parse_fraction_def fraction_text_def take_num_fields)

lemma valid_date_nat_fields:
  assumes "valid_date d"
  shows "nat (d_year d) < 10000" "nat (d_month d) < 100" "nat (d_day d) < 100"
  using assms days_in_month_le [of "d_month d" "is_leap (d_year d)"] by (auto simp: valid_date_def)

lemma clock_recompose:
  assumes "0 \<le> (s::int)"
  shows "s div 3600 * hour_us + s mod 3600 div 60 * minute_us + s mod 60 * second_us = s * second_us"
proof -
  have "s mod 60 = s mod 3600 mod 60" by (simp add: mod_mod_cancel)
  moreover have "s mod 3600 = 60 * (s mod 3600 div 60) + s mod 3600 mod 60" by simp
  moreover have "s = 3600 * (s div 3600) + s mod 3600" by simp
  ultimately show ?thesis by linarith
qed

lemma fromisoformat_fields:
  assumes "y < 10000" "m < 100" "d < 100" "hh < 24" "mm < 60" "ss < 60" "0 \<le> us" "us < second_us"
    and v: "valid_date \<lparr>d_year = int y, d_month = int m, d_day = int d\<rparr>"
  shows "fromisoformat (pad 4 y @ 45 # pad 2 m @ 45 # pad 2 d @ 84 # pad 2 hh @ 58 # pad 2 mm
      @ 58 # pad 2 ss @ fraction_text us)
    = Inr \<lparr>dt_wall = (toordinal \<lparr>d_year = int y, d_month = int m, d_day = int d\<rparr> - 1) * day_us
        + int hh * hour_us + int mm * minute_us + int ss * second_us + us, dt_offset = Some 0\<rparr>"
  using assms(1-8) v by (simp add: fromisoformat_def take_num_fields parse_fraction_text)

theorem fromisoformat_isoformat:
  assumes "in_range t"
  shows "fromisoformat (isoformat_utc t) = Inr \<lparr>dt_wall = t, dt_offset = Some 0\<rparr>"
proof -
  define d where "d = fromordinal_raw (t div day_us + 1)"
  define s where "s = t mod day_us div second_us"
  have d: "valid_date d" "toordinal d = t div day_us + 1"
    using fromordinal_raw_correct [of "t div day_us + 1"] assms
    by (auto simp: d_def in_range_def max_instant_def max_ordinal_def)
  have s: "0 \<le> s" "s < 86400" by (auto simp: s_def)
  have hms: "nat (s div 3600) < 24" "nat (s mod 3600 div 60) < 60" "nat (s mod 60) < 60"
    "0 \<le> s div 3600" "0 \<le> s mod 3600 div 60" "0 \<le> s mod 60"
    using s by (auto simp: pos_imp_zdiv_nonneg_iff)
  have "t mod day_us = s * second_us + t mod day_us mod second_us" by (simp add: s_def)
  moreover have "t mod day_us mod second_us = t mod second_us" by (simp add: mod_mod_cancel)
  ultimately have t: "t div day_us * day_us + s * second_us + t mod second_us = t"
    using mult_div_mod_eq [of day_us t] by linarith
  have date: "\<lparr>d_year = int (nat (d_year d)), d_month = int (nat (d_month d)),
      d_day = int (nat (d_day d))\<rparr> = d"
    using d(1) by (simp add: valid_date_def)
  have "fromisoformat (isoformat_utc t) = Inr \<lparr>dt_wall = (toordinal d - 1) * day_us
      + int (nat (s div 3600)) * hour_us + int (nat (s mod 3600 div 60)) * minute_us
      + int (nat (s mod 60)) * second_us + t mod second_us, dt_offset = Some 0\<rparr>"
    unfolding isoformat_utc_def date_text_def clock_text_def append_assoc append_Cons
      d_def [symmetric] s_def [symmetric]
    using fromisoformat_fields [OF valid_date_nat_fields [OF d(1)] hms(1-3), of "t mod second_us",
        unfolded date] d(1) by simp
  also have "(toordinal d - 1) * day_us + int (nat (s div 3600)) * hour_us
      + int (nat (s mod 3600 div 60)) * minute_us + int (nat (s mod 60)) * second_us
      + t mod second_us = t"
  proof -
    define h m c D U where "h = s div 3600" and "m = s mod 3600 div 60" and "c = s mod 60"
      and "D = t div day_us" and "U = t mod second_us"
    note folds = h_def [symmetric] m_def [symmetric] c_def [symmetric] D_def [symmetric]
      U_def [symmetric]
    have nats: "int (nat h) = h" "int (nat m) = m" "int (nat c) = c" "toordinal d = D + 1"
      using hms(4-6) d(2) unfolding folds by (simp_all only: int_nat_eq if_True)
    have "h * hour_us + m * minute_us + c * second_us = s * second_us"
      "D * day_us + s * second_us + U = t"
      using clock_recompose [OF s(1)] t unfolding folds .
    then show ?thesis unfolding folds nats by simp
  qed
  finally show ?thesis .
qed

section \<open>Calendar days of a zone\<close>

text \<open>
  The calendar day an instant falls on in a zone with a fixed offset, and the instant at which
  a day of that zone starts.  \<open>day_start\<close> is the specification the query bounds are compared
  with: a day is the half-open interval between its start and the next day's.
\<close>

definition local_day :: "int \<Rightarrow> int \<Rightarrow> int" where
  "local_day offset t = (t + offset) div day_us + 1"

definition day_start :: "int \<Rightarrow> int \<Rightarrow> int" where
  "day_start offset n = (n - 1) * day_us - offset"

lemma local_day_iff:
  "local_day offset t = n \<longleftrightarrow> day_start offset n \<le> t \<and> t < day_start offset (n + 1)"
proof -
  have "(t + offset) div day_us = n - 1 \<longleftrightarrow> (n - 1) * day_us \<le> t + offset \<and> t + offset < n * day_us"
    by auto
  then show ?thesis by (auto simp: local_day_def day_start_def)
qed

end
