(* ===== verification/Relay_Time.thy ===== *)
theory Relay_Time
  imports Calendar
begin

text \<open>
  The clock conventions of the relay server (\<open>LifeLens_WebApp,Server/server.py\<close>): every
  timestamp column holds \<open>iso(value)\<close>, UTC text, and a calendar day is a Korean (KST) day whose
  query bounds \<open>day_bounds\<close> computes.  The lemmas show that comparing the stored text with the
  bounds selects exactly the instants of that KST day, and which days have bounds at all.
\<close>

definition app_time_zone :: int where
  "app_time_zone = 9 * hour_us"

definition iso :: "(int \<Rightarrow> int) \<Rightarrow> pydatetime \<Rightarrow> pystr res" where
  "iso localtz v = rbind (astimezone_utc localtz v) (\<lambda>t. Inr (isoformat_utc t))"

text \<open>\<open>datetime.combine(day, time.min, tzinfo=APP_TIME_ZONE)\<close>\<close>

definition combine_midnight :: "pydate \<Rightarrow> pydatetime" where
  "combine_midnight d = \<lparr>dt_wall = (toordinal d - 1) * day_us, dt_offset = Some app_time_zone\<rparr>"

definition day_bounds :: "(int \<Rightarrow> int) \<Rightarrow> pydate \<Rightarrow> (pystr \<times> pystr) res" where
  "day_bounds localtz day =
     rbind (fromordinal (toordinal day + 1)) (\<lambda>day2.
     rbind (iso localtz (combine_midnight day)) (\<lambda>start.
     rbind (iso localtz (combine_midnight day2)) (\<lambda>stop.
       Inr (start, stop))))"

lemma iso_utc: "in_range t \<Longrightarrow> iso localtz \<lparr>dt_wall = t, dt_offset = Some 0\<rparr> = Inr (isoformat_utc t)"
  by (simp add: iso_def astimezone_utc_def)

lemma iso_Inr: "iso localtz v = Inr s \<Longrightarrow> \<exists>t. astimezone_utc localtz v = Inr t \<and> in_range t \<and> s = isoformat_utc t"
  by (auto simp: iso_def astimezone_utc_def Let_def rbind_eq_Inr split: if_splits)

lemma in_range_day_start:
  "in_range (day_start app_time_zone n) \<longleftrightarrow> 2 \<le> n \<and> n \<le> max_ordinal + 1"
  by (auto simp: in_range_def day_start_def app_time_zone_def max_instant_def max_ordinal_def)

lemma iso_midnight:
  "iso localtz (combine_midnight d) =
    (if in_range (day_start app_time_zone (toordinal d))
     then Inr (isoformat_utc (day_start app_time_zone (toordinal d))) else Inl OverflowError)"
  by (simp add: iso_def astimezone_utc_def combine_midnight_def day_start_def Let_def)

text \<open>Which days have bounds: all but the first and the last that a \<open>date\<close> can hold.\<close>

lemma day_bounds_cases:
  assumes "valid_date d"
  shows "day_bounds localtz d =
    (if toordinal d = max_ordinal then Inl ValueError
     else if toordinal d = 1 then Inl OverflowError
     else Inr (isoformat_utc (day_start app_time_zone (toordinal d)),
               isoformat_utc (day_start app_time_zone (toordinal d + 1))))"
proof -
  note r = toordinal_range [OF assms]
  show ?thesis
  proof (cases "toordinal d = max_ordinal")
    case True
    then show ?thesis by (simp add: day_bounds_def fromordinal_def)
  next
    case False
    then obtain day2 where n: "fromordinal (toordinal d + 1) = Inr day2"
      using r by (auto simp: fromordinal_def)
    then have "toordinal day2 = toordinal d + 1" by (auto dest: fromordinal_Inr)
    with n False r show ?thesis
      by (auto simp: day_bounds_def iso_midnight in_range_day_start)
  qed
qed

text \<open>The bounds select, by comparing text, exactly the instants of the KST day.\<close>

lemma day_bounds_select:
  assumes "valid_date d" "day_bounds localtz d = Inr (s, e)" "in_range t"
  shows "s \<le> isoformat_utc t \<and> isoformat_utc t < e \<longleftrightarrow> local_day app_time_zone t = toordinal d"
proof -
  have se: "toordinal d \<noteq> max_ordinal" "toordinal d \<noteq> 1"
    "s = isoformat_utc (day_start app_time_zone (toordinal d))"
    "e = isoformat_utc (day_start app_time_zone (toordinal d + 1))"
    using assms(2) by (auto simp: day_bounds_cases [OF assms(1)] split: if_splits)
  have "in_range (day_start app_time_zone (toordinal d))"
    "in_range (day_start app_time_zone (toordinal d + 1))"
    using se(1,2) toordinal_range [OF assms(1)] by (auto simp: in_range_day_start)
  from iso_text.range_test [OF this assms(3)] show ?thesis
    unfolding se(3,4) local_day_iff .
qed

end
