(* ===== verification/Sql_Table.thy ===== *)
theory Sql_Table
  imports LLPrelude
begin

text \<open>
  What the relay server uses of SQLite tables.  A table is the list of its rows in rowid order;
  a UNIQUE constraint is a key function no two rows share.  \<open>sql_upsert\<close> is
  \<open>INSERT ... ON CONFLICT(key) DO UPDATE\<close>, \<open>sql_insert_ignore\<close> is \<open>INSERT OR IGNORE\<close>,
  \<open>sql_update\<close> is \<open>UPDATE ... WHERE\<close>, and \<open>sql_get\<close> is a \<open>SELECT\<close> by key with
  \<open>fetchone\<close>.  Row order is only observable through \<open>ORDER BY\<close>, which \<open>sort_key\<close> models;
  rows with equal sort keys keep rowid order, as the queries' index scan does.
\<close>

fun sql_upsert :: "('r \<Rightarrow> 'k) \<Rightarrow> ('r \<Rightarrow> 'r) \<Rightarrow> 'r \<Rightarrow> 'r list \<Rightarrow> 'r list" where
  "sql_upsert key merge new [] = [new]"
| "sql_upsert key merge new (r # rs) =
     (if key r = key new then merge r # rs else r # sql_upsert key merge new rs)"

definition sql_insert_ignore :: "('r \<Rightarrow> 'k) \<Rightarrow> 'r \<Rightarrow> 'r list \<Rightarrow> 'r list" where
  "sql_insert_ignore key new rs = (if list_ex (\<lambda>r. key r = key new) rs then rs else rs @ [new])"

definition sql_insert_ignore_many :: "('r \<Rightarrow> 'k) \<Rightarrow> 'r list \<Rightarrow> 'r list \<Rightarrow> 'r list" where
  "sql_insert_ignore_many key new rs = fold (sql_insert_ignore key) new rs"

definition sql_update :: "('r \<Rightarrow> bool) \<Rightarrow> ('r \<Rightarrow> 'r) \<Rightarrow> 'r list \<Rightarrow> 'r list" where
  "sql_update cond f rs = map (\<lambda>r. if cond r then f r else r) rs"

definition sql_get :: "('r \<Rightarrow> 'k) \<Rightarrow> 'k \<Rightarrow> 'r list \<Rightarrow> 'r option" where
  "sql_get key k rs = find (\<lambda>r. key r = k) rs"

definition unique_key :: "('r \<Rightarrow> 'k) \<Rightarrow> 'r list \<Rightarrow> bool" where
  "unique_key key rs \<longleftrightarrow> distinct (map key rs)"

lemma sql_get_simps [simp]:
  "sql_get key k [] = None"
  "sql_get key k (r # rs) = (if key r = k then Some r else sql_get key k rs)"
  by (simp_all add: sql_get_def)

lemma sql_get_SomeD: "sql_get key k rs = Some r \<Longrightarrow> r \<in> set rs \<and> key r = k"
  by (induction rs) (auto split: if_splits)

lemma sql_get_NoneD: "sql_get key k rs = None \<Longrightarrow> r \<in> set rs \<Longrightarrow> key r \<noteq> k"
  by (induction rs) (auto split: if_splits)

lemma sql_get_None_iff: "sql_get key k rs = None \<longleftrightarrow> k \<notin> key ` set rs"
  by (induction rs) auto

lemma sql_get_unique: "unique_key key rs \<Longrightarrow> r \<in> set rs \<Longrightarrow> sql_get key (key r) rs = Some r"
  by (induction rs) (auto simp: unique_key_def)

lemma sql_get_append:
  "sql_get key k (rs @ rs') = (case sql_get key k rs of Some r \<Rightarrow> Some r | None \<Rightarrow> sql_get key k rs')"
  by (induction rs) auto

section \<open>Upserts\<close>

lemma sql_get_upsert:
  assumes "\<And>r. key (merge r) = key r"
  shows "sql_get key k (sql_upsert key merge new rs) =
    (if k = key new then Some (case sql_get key k rs of None \<Rightarrow> new | Some r \<Rightarrow> merge r)
     else sql_get key k rs)"
  using assms by (induction rs) auto

lemma keys_upsert:
  assumes "\<And>r. key (merge r) = key r"
  shows "map key (sql_upsert key merge new rs) =
    (if key new \<in> key ` set rs then map key rs else map key rs @ [key new])"
  using assms by (induction rs) auto

lemma unique_upsert:
  assumes "\<And>r. key (merge r) = key r" "unique_key key rs"
  shows "unique_key key (sql_upsert key merge new rs)"
  using assms(2) by (auto simp: unique_key_def keys_upsert [of key, OF assms(1)])

lemma set_upsert:
  "r \<in> set (sql_upsert key merge new rs) \<Longrightarrow>
     r = new \<or> r \<in> set rs \<or> (\<exists>r' \<in> set rs. key r' = key new \<and> r = merge r')"
  by (induction rs) (auto split: if_splits)

lemma upsert_filter_other:
  assumes "\<And>r. key (merge r) = key r" "\<And>r. P r \<Longrightarrow> key r \<noteq> key new"
  shows "filter P (sql_upsert key merge new rs) = filter P rs"
  using assms(2) by (induction rs) (auto, metis assms(1))

section \<open>INSERT OR IGNORE\<close>

lemma sql_get_insert_ignore:
  "sql_get key k (sql_insert_ignore key new rs) =
    (case sql_get key k rs of Some r \<Rightarrow> Some r | None \<Rightarrow> if k = key new then Some new else None)"
proof -
  have "list_ex (\<lambda>r. key r = key new) rs \<longleftrightarrow> sql_get key (key new) rs \<noteq> None"
    unfolding sql_get_None_iff list_ex_iff by (metis image_iff)
  then show ?thesis
    by (auto simp: sql_insert_ignore_def sql_get_append split: option.split)
qed

lemma sql_get_insert_ignore_many:
  "sql_get key k (sql_insert_ignore_many key new rs) =
    (case sql_get key k rs of Some r \<Rightarrow> Some r | None \<Rightarrow> sql_get key k new)"
  unfolding sql_insert_ignore_many_def
  by (induction new arbitrary: rs) (auto simp: sql_get_insert_ignore split: option.split)

lemma unique_insert_ignore: "unique_key key rs \<Longrightarrow> unique_key key (sql_insert_ignore key new rs)"
  by (auto simp: unique_key_def sql_insert_ignore_def list_ex_iff)

lemma unique_insert_ignore_many:
  "unique_key key rs \<Longrightarrow> unique_key key (sql_insert_ignore_many key new rs)"
  unfolding sql_insert_ignore_many_def
  by (induction new arbitrary: rs) (auto simp: unique_insert_ignore)

lemma set_insert_ignore:
  "set rs \<subseteq> set (sql_insert_ignore key n rs)" "set (sql_insert_ignore key n rs) \<subseteq> insert n (set rs)"
  by (auto simp: sql_insert_ignore_def)

lemma set_insert_ignore_many:
  "set (sql_insert_ignore_many key new rs) \<subseteq> set rs \<union> set new"
  unfolding sql_insert_ignore_many_def
proof (induction new arbitrary: rs)
  case (Cons n ns)
  show ?case using Cons.IH [of "sql_insert_ignore key n rs"] set_insert_ignore [where rs = rs and key = key and n = n] by auto
qed simp

lemma set_insert_ignore_many_old:
  "set rs \<subseteq> set (sql_insert_ignore_many key new rs)"
  unfolding sql_insert_ignore_many_def
proof (induction new arbitrary: rs)
  case (Cons n ns)
  show ?case using Cons.IH [of "sql_insert_ignore key n rs"] set_insert_ignore [where rs = rs and key = key and n = n] by auto
qed simp

lemma keys_insert_ignore_many:
  "key ` set (sql_insert_ignore_many key new rs) = key ` set rs \<union> key ` set new"
  unfolding sql_insert_ignore_many_def
proof (induction new arbitrary: rs)
  case (Cons n ns)
  have "key ` set (sql_insert_ignore key n rs) = insert (key n) (key ` set rs)"
    by (auto simp: sql_insert_ignore_def list_ex_iff) (metis image_eqI)
  with Cons show ?case by simp
qed simp

lemma insert_ignore_known:
  "key ` set new \<subseteq> key ` set rs \<Longrightarrow> sql_insert_ignore_many key new rs = rs"
  unfolding sql_insert_ignore_many_def
  by (induction new) (auto simp: sql_insert_ignore_def list_ex_iff image_iff)

text \<open>Inserting the same rows again changes nothing.\<close>

lemma insert_ignore_many_idem:
  "sql_insert_ignore_many key new (sql_insert_ignore_many key new rs)
     = sql_insert_ignore_many key new rs"
  by (rule insert_ignore_known) (simp add: keys_insert_ignore_many)

lemma insert_ignore_many_filter_other:
  "(\<And>r. r \<in> set new \<Longrightarrow> \<not> P r) \<Longrightarrow>
     filter P (sql_insert_ignore_many key new rs) = filter P rs"
  unfolding sql_insert_ignore_many_def
  by (induction new arbitrary: rs) (auto simp: sql_insert_ignore_def)

section \<open>UPDATE\<close>

lemma sql_get_update:
  assumes "\<And>r. key (f r) = key r"
  shows "sql_get key k (sql_update (\<lambda>r. key r = k') f rs) =
    (if k = k' then map_option f (sql_get key k rs) else sql_get key k rs)"
  using assms by (induction rs) (auto simp: sql_update_def)

lemma keys_update:
  "(\<And>r. key (f r) = key r) \<Longrightarrow> map key (sql_update cond f rs) = map key rs"
  by (induction rs) (auto simp: sql_update_def)

lemma unique_update:
  "(\<And>r. key (f r) = key r) \<Longrightarrow> unique_key key rs \<Longrightarrow> unique_key key (sql_update cond f rs)"
  by (simp add: unique_key_def keys_update)

lemma set_update: "r \<in> set (sql_update cond f rs) \<Longrightarrow> r \<in> set rs \<or> (\<exists>r' \<in> set rs. cond r' \<and> r = f r')"
  by (auto simp: sql_update_def split: if_splits)

section \<open>ORDER BY\<close>

lemma set_sort_filter [simp]: "set (sort_key k (filter P rs)) = {r \<in> set rs. P r}"
  by simp

end
