(* ===== verification/Base64.thy ===== *)
theory Base64
  imports LLPrelude
begin

text \<open>
  Python's \<open>base64.b64encode\<close> and \<open>base64.b64decode\<close>, which carry photos
  (\<open>server.py\<close>) and GATT values (\<open>matter_ble_proxy/client.py\<close>) inside JSON.  The decoder is
  the loop of CPython's \<open>binascii.a2b_base64\<close>, in its strict form (\<open>validate=True\<close>) and in
  the lenient one, which skips characters outside the alphabet.  The main lemmas are the round
  trip in both modes and the length of what is decoded.
\<close>

definition b64_char :: "nat \<Rightarrow> nat" where
  "b64_char n = (if n < 26 then n + 65 else if n < 52 then n + 71 else if n < 62 then n - 4
                 else if n = 62 then 43 else 47)"

definition b64_value :: "nat \<Rightarrow> nat option" where
  "b64_value c = (if 65 \<le> c \<and> c \<le> 90 then Some (c - 65) else if 97 \<le> c \<and> c \<le> 122 then Some (c - 71)
                  else if 48 \<le> c \<and> c \<le> 57 then Some (c + 4) else if c = 43 then Some 62
                  else if c = 47 then Some 63 else None)"

text \<open>Three bytes become four characters; the last group is padded with \<open>=\<close> (61).\<close>

fun b64encode :: "byte list \<Rightarrow> pystr" where
  "b64encode (a # b # c # bs) =
     b64_char (unat a div 4) # b64_char (unat a mod 4 * 16 + unat b div 16)
       # b64_char (unat b mod 16 * 4 + unat c div 64) # b64_char (unat c mod 64) # b64encode bs"
| "b64encode [a, b] =
     [b64_char (unat a div 4), b64_char (unat a mod 4 * 16 + unat b div 16),
      b64_char (unat b mod 16 * 4), 61]"
| "b64encode [a] = [b64_char (unat a div 4), b64_char (unat a mod 4 * 16), 61, 61]"
| "b64encode [] = []"

text \<open>
  \<open>a2b strict quad left pads started cs\<close>: the loop with \<open>quad_pos\<close>, \<open>leftchar\<close>, \<open>pads\<close> and
  \<open>padding_started\<close> as its state.  \<open>binascii.Error\<close> is a ValueError.
\<close>

fun a2b :: "bool \<Rightarrow> nat \<Rightarrow> nat \<Rightarrow> nat \<Rightarrow> bool \<Rightarrow> pystr \<Rightarrow> byte list res" where
  "a2b strict quad left pads started [] = (if quad = 0 then Inr [] else Inl ValueError)"
| "a2b strict quad left pads started (c # cs) =
     (if c = 61 then
        (if 2 \<le> quad \<and> 4 \<le> quad + Suc pads then
           (if strict \<and> cs \<noteq> [] then Inl ValueError else Inr [])
         else a2b strict quad left (if 2 \<le> quad then Suc pads else pads) True cs)
      else case b64_value c of
        None \<Rightarrow> if strict then Inl ValueError else a2b strict quad left pads started cs
      | Some v \<Rightarrow>
          if strict \<and> started then Inl ValueError
          else if quad = 0 then a2b strict 1 v 0 started cs
          else if quad = 1 then
            rbind (a2b strict 2 (v mod 16) 0 started cs) (\<lambda>bs. Inr (of_nat (left * 4 + v div 16) # bs))
          else if quad = 2 then
            rbind (a2b strict 3 (v mod 4) 0 started cs) (\<lambda>bs. Inr (of_nat (left * 16 + v div 4) # bs))
          else
            rbind (a2b strict 0 0 0 started cs) (\<lambda>bs. Inr (of_nat (left * 64 + v) # bs)))"

definition b64decode :: "bool \<Rightarrow> pystr \<Rightarrow> byte list res" where
  "b64decode validate s =
     (if \<not> list_all (\<lambda>c. c < 128) s then Inl ValueError
      else if validate \<and> (\<exists>cs. s = 61 # cs) then Inl ValueError
      else a2b validate 0 0 0 False s)"

lemma b64_value_char: "n < 64 \<Longrightarrow> b64_value (b64_char n) = Some n"
  by (auto simp: b64_value_def b64_char_def)

lemma b64_char_neq_pad [simp]: "n < 64 \<Longrightarrow> b64_char n \<noteq> 61"
  by (auto simp: b64_char_def)

lemma b64_char_ascii: "n < 64 \<Longrightarrow> b64_char n < 128"
  by (auto simp: b64_char_def)

lemma unat_byte_less: "unat (b :: byte) < 256"
  using unsigned_less [of b] by simp

lemma of_nat_unat_byte: "of_nat (unat (b :: byte)) = b"
  by simp

lemma sextets:
  fixes a b c :: byte
  shows "unat a div 4 < 64" "unat a mod 4 * 16 < 64" "unat a mod 4 * 16 + unat b div 16 < 64"
    "unat b mod 16 * 4 < 64" "unat b mod 16 * 4 + unat c div 64 < 64" "unat c mod 64 < 64"
  using unat_byte_less [of a] unat_byte_less [of b] unat_byte_less [of c] by auto

lemma regroup:
  fixes a b c :: byte
  shows "of_nat (unat a div 4 * 4 + (unat a mod 4 * 16) div 16) = a"
    "of_nat (unat a div 4 * 4 + (unat a mod 4 * 16 + unat b div 16) div 16) = a"
    "of_nat ((unat a mod 4 * 16 + unat b div 16) mod 16 * 16 + (unat b mod 16 * 4) div 4) = b"
    "of_nat ((unat a mod 4 * 16 + unat b div 16) mod 16 * 16
        + (unat b mod 16 * 4 + unat c div 64) div 4) = b"
    "of_nat ((unat b mod 16 * 4 + unat c div 64) mod 4 * 64 + unat c mod 64) = c"
proof -
  note lt = unat_byte_less [of a] unat_byte_less [of b] unat_byte_less [of c]
  have "unat a div 4 * 4 + (unat a mod 4 * 16) div 16 = unat a" by simp
  then show "of_nat (unat a div 4 * 4 + (unat a mod 4 * 16) div 16) = a"
    by (simp only: of_nat_unat_byte)
  have "unat b div 16 < 16" using lt by auto
  then have e: "(unat a mod 4 * 16 + unat b div 16) div 16 = unat a mod 4"
    "(unat a mod 4 * 16 + unat b div 16) mod 16 = unat b div 16" by simp_all
  have "unat c div 64 < 4" using lt by auto
  then have f: "(unat b mod 16 * 4 + unat c div 64) div 4 = unat b mod 16"
    "(unat b mod 16 * 4 + unat c div 64) mod 4 = unat c div 64" by simp_all
  show "of_nat (unat a div 4 * 4 + (unat a mod 4 * 16 + unat b div 16) div 16) = a"
    unfolding e by (simp only: div_mult_mod_eq of_nat_unat_byte)
  show "of_nat ((unat a mod 4 * 16 + unat b div 16) mod 16 * 16 + (unat b mod 16 * 4) div 4) = b"
  proof -
    have "unat b mod 16 * 4 div 4 = unat b mod 16" by simp
    then show ?thesis unfolding e by (simp only: div_mult_mod_eq of_nat_unat_byte)
  qed
  show "of_nat ((unat a mod 4 * 16 + unat b div 16) mod 16 * 16
        + (unat b mod 16 * 4 + unat c div 64) div 4) = b"
    unfolding e f by (simp only: div_mult_mod_eq of_nat_unat_byte)
  show "of_nat ((unat b mod 16 * 4 + unat c div 64) mod 4 * 64 + unat c mod 64) = c"
    unfolding f by (simp only: div_mult_mod_eq of_nat_unat_byte)
qed

lemma a2b_char:
  "n < 64 \<Longrightarrow> a2b strict quad left pads False (b64_char n # cs) =
     (if quad = 0 then a2b strict 1 n 0 False cs
      else if quad = 1 then
        rbind (a2b strict 2 (n mod 16) 0 False cs) (\<lambda>bs. Inr (of_nat (left * 4 + n div 16) # bs))
      else if quad = 2 then
        rbind (a2b strict 3 (n mod 4) 0 False cs) (\<lambda>bs. Inr (of_nat (left * 16 + n div 4) # bs))
      else rbind (a2b strict 0 0 0 False cs) (\<lambda>bs. Inr (of_nat (left * 64 + n) # bs)))"
  by (simp add: b64_value_char)

lemma a2b_pad:
  "a2b strict 2 left 0 False [61, 61] = Inr []" "a2b strict 3 left 0 False [61] = Inr []"
  by simp_all

lemma a2b_b64encode: "a2b strict 0 0 0 False (b64encode bs) = Inr bs"
proof (induction bs rule: b64encode.induct)
  case (1 a b c bs)
  then show ?case
    by (simp only: b64encode.simps a2b_char sextets regroup rbind_simps) (simp add: regroup)
next
  case (2 a b)
  show ?case
    by (simp only: b64encode.simps a2b_char sextets a2b_pad regroup rbind_simps) (simp add: regroup)
next
  case (3 a)
  show ?case
    by (simp only: b64encode.simps a2b_char sextets a2b_pad regroup rbind_simps) (simp add: regroup)
qed simp

lemma b64encode_ascii: "list_all (\<lambda>c. c < 128) (b64encode bs)"
  by (induction bs rule: b64encode.induct) (simp_all add: b64_char_ascii sextets)

lemma b64encode_no_leading_pad: "b64encode bs \<noteq> 61 # cs"
  by (cases bs rule: b64encode.cases) (auto simp: sextets dest: sym)

theorem b64decode_b64encode: "b64decode validate (b64encode bs) = Inr bs"
  using b64encode_no_leading_pad [of bs] b64encode_ascii [of bs]
  by (simp add: b64decode_def a2b_b64encode)

lemma length_b64encode: "length (b64encode bs) = 4 * ((length bs + 2) div 3)"
proof (induction bs rule: b64encode.induct)
  case (1 a b c bs)
  have "(length (a # b # c # bs) + 2) div 3 = (length bs + 2 + 1 * 3) div 3" by simp
  also have "\<dots> = Suc ((length bs + 2) div 3)" by (subst div_mult_self1) simp_all
  finally show ?case using 1 by simp
qed simp_all

end
