(* ===== verification/Relay_Store.thy ===== *)
theory Relay_Store
  imports Relay_Time Sql_Table Base64 Complex_Main
begin

text \<open>
  The relay server's persistent state and the handlers that only read and write it
  (\<open>LifeLens_WebApp,Server/server.py\<close>): the four SQLite tables, the photo files, the request
  models with their pydantic bounds, \<open>records_for_day\<close> and \<open>photos_for_day\<close>, and the routes
  \<open>sync_lifelog\<close>, \<open>sync_photo\<close> and \<open>get_photo\<close>.

  A handler maps the state before the request to the state after it and either an HTTP error or
  the response.  \<open>with db() as connection\<close> commits on normal exit and rolls back on an
  exception, so a handler that fails inside the block leaves the database as it was.  The time
  \<open>datetime.now(timezone.utc)\<close> is the argument \<open>now\<close>.  Failing disks are not modelled.
\<close>

section \<open>State\<close>

record device_row =
  dev_device_id :: pystr
  dev_created_at :: pystr
  dev_last_seen :: pystr

record conversation_row =
  rec_device_id :: pystr
  rec_client_record_id :: pystr
  rec_text :: pystr
  rec_spoken_at :: pystr
  rec_received_at :: pystr

record photo_row =
  ph_device_id :: pystr
  ph_client_photo_id :: pystr
  ph_taken_at :: pystr
  ph_latitude :: "rat option"
  ph_longitude :: "rat option"
  ph_location_name :: "pystr option"
  ph_file_path :: pystr
  ph_received_at :: pystr
  ph_vision_caption :: "pystr option"
  ph_vision_model :: "pystr option"
  ph_analyzed_at :: "pystr option"

record summary_row =
  sum_device_id :: pystr
  sum_summary_date :: pystr
  sum_summary :: pystr
  sum_keywords_json :: pystr
  sum_todos_json :: pystr
  sum_model :: pystr
  sum_generated_at :: pystr

record database =
  devices :: "device_row list"
  conversation_records :: "conversation_row list"
  daily_summaries :: "summary_row list"
  photo_records :: "photo_row list"

text \<open>The files under \<open>PHOTO_DIR\<close>, by path.\<close>

record relay =
  rel_db :: database
  rel_files :: "pystr \<rightharpoonup> byte list"

text \<open>What the process is started with: the host's time zone, \<open>PHOTO_DIR\<close> and the path separator.\<close>

record relay_env =
  env_localtz :: "int \<Rightarrow> int"
  env_photo_dir :: pystr
  env_sep :: pystr

datatype http_error = HTTPException nat | Unhandled pyexc

definition rec_key :: "conversation_row \<Rightarrow> pystr \<times> pystr" where
  "rec_key r = (rec_device_id r, rec_client_record_id r)"

definition ph_key :: "photo_row \<Rightarrow> pystr \<times> pystr" where
  "ph_key r = (ph_device_id r, ph_client_photo_id r)"

definition sum_key :: "summary_row \<Rightarrow> pystr \<times> pystr" where
  "sum_key r = (sum_device_id r, sum_summary_date r)"

section \<open>Request models\<close>

record record_in =
  in_client_record_id :: pystr
  in_text :: pystr
  in_spoken_at :: pydatetime

record sync_in =
  in_device_id :: pystr
  in_date :: pydate
  in_records :: "record_in list"

record photo_in =
  pin_device_id :: pystr
  pin_client_photo_id :: pystr
  pin_taken_at :: pydatetime
  pin_latitude :: "rat option"
  pin_longitude :: "rat option"
  pin_location_name :: "pystr option"
  pin_image_base64 :: pystr

definition between :: "nat \<Rightarrow> nat \<Rightarrow> 'a list \<Rightarrow> bool" where
  "between lo hi s \<longleftrightarrow> lo \<le> length s \<and> length s \<le> hi"

definition valid_record_in :: "record_in \<Rightarrow> bool" where
  "valid_record_in r \<longleftrightarrow> between 1 80 (in_client_record_id r) \<and> between 1 4000 (in_text r)"

definition valid_sync_in :: "sync_in \<Rightarrow> bool" where
  "valid_sync_in p \<longleftrightarrow> between 8 80 (in_device_id p) \<and> valid_date (in_date p)
     \<and> length (in_records p) \<le> 2000 \<and> list_all valid_record_in (in_records p)"

definition valid_photo_in :: "photo_in \<Rightarrow> bool" where
  "valid_photo_in p \<longleftrightarrow> between 8 80 (pin_device_id p) \<and> between 1 80 (pin_client_photo_id p)
     \<and> (case pin_location_name p of None \<Rightarrow> True | Some n \<Rightarrow> length n \<le> 200)
     \<and> between 32 12000000 (pin_image_base64 p)"

section \<open>Queries\<close>

definition records_for_day :: "relay_env \<Rightarrow> database \<Rightarrow> pystr \<Rightarrow> pydate \<Rightarrow> conversation_row list res" where
  "records_for_day env db device_id day =
     rbind (day_bounds (env_localtz env) day) (\<lambda>(start, stop).
       Inr (sort_key rec_spoken_at (filter (\<lambda>r. rec_device_id r = device_id
              \<and> start \<le> rec_spoken_at r \<and> rec_spoken_at r < stop) (conversation_records db))))"

definition photos_for_day :: "relay_env \<Rightarrow> database \<Rightarrow> pystr \<Rightarrow> pydate \<Rightarrow> photo_row list res" where
  "photos_for_day env db device_id day =
     rbind (day_bounds (env_localtz env) day) (\<lambda>(start, stop).
       Inr (sort_key ph_taken_at (filter (\<lambda>r. ph_device_id r = device_id
              \<and> start \<le> ph_taken_at r \<and> ph_taken_at r < stop) (photo_records db))))"

section \<open>Writes\<close>

definition upsert_device :: "pystr \<Rightarrow> pystr \<Rightarrow> database \<Rightarrow> database" where
  "upsert_device device_id now db = db\<lparr>devices :=
     sql_upsert dev_device_id (\<lambda>r. r\<lparr>dev_last_seen := now\<rparr>)
       \<lparr>dev_device_id = device_id, dev_created_at = now, dev_last_seen = now\<rparr> (devices db)\<rparr>"

text \<open>The parameter rows of the \<open>executemany\<close>; \<open>iso\<close> may raise on any of them.\<close>

definition record_rows :: "relay_env \<Rightarrow> pystr \<Rightarrow> sync_in \<Rightarrow> conversation_row list res" where
  "record_rows env now payload =
     rmap (\<lambda>r. rbind (iso (env_localtz env) (in_spoken_at r)) (\<lambda>spoken.
        Inr \<lparr>rec_device_id = in_device_id payload, rec_client_record_id = in_client_record_id r,
             rec_text = in_text r, rec_spoken_at = spoken, rec_received_at = now\<rparr>)) (in_records payload)"

text \<open>The device upsert and the \<open>INSERT OR IGNORE\<close> that both sync routes run.\<close>

definition store_records :: "relay_env \<Rightarrow> pystr \<Rightarrow> sync_in \<Rightarrow> database \<Rightarrow> database res" where
  "store_records env now payload db =
     (let db1 = upsert_device (in_device_id payload) now db
      in rbind (record_rows env now payload) (\<lambda>rows.
           Inr (db1\<lparr>conversation_records :=
                  sql_insert_ignore_many rec_key rows (conversation_records db1)\<rparr>)))"

definition now_text :: "relay_env \<Rightarrow> int \<Rightarrow> pystr res" where
  "now_text env now = iso (env_localtz env) \<lparr>dt_wall = now, dt_offset = Some 0\<rparr>"

definition sync_lifelog :: "relay_env \<Rightarrow> int \<Rightarrow> sync_in \<Rightarrow> relay \<Rightarrow> relay \<times> (http_error + nat)" where
  "sync_lifelog env now payload st =
     (if \<not> valid_sync_in payload then (st, Inl (HTTPException 422))
      else case rbind (now_text env now) (\<lambda>n. store_records env n payload (rel_db st)) of
        Inl e \<Rightarrow> (st, Inl (Unhandled e))
      | Inr db \<Rightarrow> (st\<lparr>rel_db := db\<rparr>, Inr (length (in_records payload))))"

section \<open>Photos\<close>

definition safe_char :: "nat \<Rightarrow> bool" where
  "safe_char c \<longleftrightarrow> 65 \<le> c \<and> c \<le> 90 \<or> 97 \<le> c \<and> c \<le> 122 \<or> 48 \<le> c \<and> c \<le> 57 \<or> c = 95 \<or> c = 45"

text \<open>\<open>re.sub(r"[^A-Za-z0-9_-]", "_", s)\<close>\<close>

definition sanitize :: "pystr \<Rightarrow> pystr" where
  "sanitize s = map (\<lambda>c. if safe_char c then c else 95) s"

definition photo_stem :: "relay_env \<Rightarrow> pystr \<Rightarrow> pystr \<Rightarrow> pystr" where
  "photo_stem env device_id client_photo_id =
     env_photo_dir env @ env_sep env @ sanitize device_id @ env_sep env @ sanitize client_photo_id"

definition photo_path :: "relay_env \<Rightarrow> pystr \<Rightarrow> pystr \<Rightarrow> pystr" where
  "photo_path env device_id client_photo_id = photo_stem env device_id client_photo_id @ u ''.jpg''"

definition upload_path :: "relay_env \<Rightarrow> pystr \<Rightarrow> pystr \<Rightarrow> pystr" where
  "upload_path env device_id client_photo_id = photo_stem env device_id client_photo_id @ u ''.upload''"

text \<open>\<open>temporary_path.write_bytes(image); temporary_path.replace(path)\<close>\<close>

definition write_photo :: "pystr \<Rightarrow> pystr \<Rightarrow> byte list \<Rightarrow> (pystr \<rightharpoonup> byte list) \<Rightarrow> (pystr \<rightharpoonup> byte list)" where
  "write_photo tmp path img files =
     (let written = files(tmp \<mapsto> img) in (written(path := written tmp))(tmp := None))"

definition photo_url :: "pystr \<Rightarrow> pystr \<Rightarrow> pystr" where
  "photo_url device_id client_photo_id =
     u ''/v1/lifelogs/photos/'' @ device_id @ u ''/'' @ client_photo_id"

text \<open>On conflict the caption columns are not in the SET list: they keep their old values.\<close>

definition merge_photo :: "photo_row \<Rightarrow> photo_row \<Rightarrow> photo_row" where
  "merge_photo new old = old\<lparr>ph_taken_at := ph_taken_at new, ph_latitude := ph_latitude new,
     ph_longitude := ph_longitude new, ph_location_name := ph_location_name new,
     ph_file_path := ph_file_path new, ph_received_at := ph_received_at new\<rparr>"

definition store_photo :: "relay_env \<Rightarrow> pystr \<Rightarrow> photo_in \<Rightarrow> database \<Rightarrow> database res" where
  "store_photo env now payload db =
     (let db1 = upsert_device (pin_device_id payload) now db
      in rbind (iso (env_localtz env) (pin_taken_at payload)) (\<lambda>taken.
           let new = \<lparr>ph_device_id = pin_device_id payload,
                 ph_client_photo_id = pin_client_photo_id payload, ph_taken_at = taken,
                 ph_latitude = pin_latitude payload, ph_longitude = pin_longitude payload,
                 ph_location_name = pin_location_name payload,
                 ph_file_path = photo_path env (pin_device_id payload) (pin_client_photo_id payload),
                 ph_received_at = now, ph_vision_caption = None, ph_vision_model = None,
                 ph_analyzed_at = None\<rparr>
           in Inr (db1\<lparr>photo_records := sql_upsert ph_key (merge_photo new) new (photo_records db1)\<rparr>)))"

definition sync_photo :: "relay_env \<Rightarrow> int \<Rightarrow> photo_in \<Rightarrow> relay \<Rightarrow> relay \<times> (http_error + pystr)" where
  "sync_photo env now payload st =
     (if \<not> valid_photo_in payload then (st, Inl (HTTPException 422))
      else case b64decode True (pin_image_base64 payload) of
        Inl _ \<Rightarrow> (st, Inl (HTTPException 422))
      | Inr img \<Rightarrow>
          if 8000000 < length img then (st, Inl (HTTPException 413))
          else
            let dev = pin_device_id payload; pid = pin_client_photo_id payload;
                st1 = st\<lparr>rel_files := write_photo (upload_path env dev pid) (photo_path env dev pid)
                           img (rel_files st)\<rparr>
            in case rbind (now_text env now) (\<lambda>n. store_photo env n payload (rel_db st1)) of
                 Inl e \<Rightarrow> (st1, Inl (Unhandled e))
               | Inr db \<Rightarrow> (st1\<lparr>rel_db := db\<rparr>, Inr (photo_url dev pid)))"

definition get_photo :: "pystr \<Rightarrow> pystr \<Rightarrow> relay \<Rightarrow> http_error + byte list" where
  "get_photo device_id client_photo_id st =
     (case sql_get ph_key (device_id, client_photo_id) (photo_records (rel_db st)) of
        None \<Rightarrow> Inl (HTTPException 404)
      | Some row \<Rightarrow> (case rel_files st (ph_file_path row) of
            None \<Rightarrow> Inl (HTTPException 404)
          | Some img \<Rightarrow> Inr img))"

section \<open>The invariant of the stored state\<close>

text \<open>
  A timestamp column always holds the text \<open>iso\<close> writes; \<open>stamp_instant\<close> is the instant it
  denotes.
\<close>

definition is_stamp :: "pystr \<Rightarrow> bool" where
  "is_stamp s = (case fromisoformat s of
      Inl _ \<Rightarrow> False
    | Inr d \<Rightarrow> in_range (dt_wall d) \<and> isoformat_utc (dt_wall d) = s)"

definition stamp_instant :: "pystr \<Rightarrow> int" where
  "stamp_instant s = (case fromisoformat s of Inl _ \<Rightarrow> 0 | Inr d \<Rightarrow> dt_wall d)"

lemma is_stamp_isoformat [simp]: "in_range t \<Longrightarrow> is_stamp (isoformat_utc t)"
  by (simp add: is_stamp_def fromisoformat_isoformat)

lemma stamp_instant_isoformat [simp]: "in_range t \<Longrightarrow> stamp_instant (isoformat_utc t) = t"
  by (simp add: stamp_instant_def fromisoformat_isoformat)

lemma is_stampD: "is_stamp s \<Longrightarrow> in_range (stamp_instant s) \<and> isoformat_utc (stamp_instant s) = s"
  by (auto simp: is_stamp_def stamp_instant_def split: sum.splits)

lemma iso_is_stamp: "iso localtz v = Inr s \<Longrightarrow> is_stamp s"
  by (auto dest: iso_Inr)

lemma stamp_le: "is_stamp a \<Longrightarrow> is_stamp b \<Longrightarrow> a \<le> b \<longleftrightarrow> stamp_instant a \<le> stamp_instant b"
  using iso_text.enc_le [of "stamp_instant a" "stamp_instant b"] is_stampD [of a] is_stampD [of b]
  by simp

text \<open>
  The database is well formed when the UNIQUE constraints hold, every record and photo belongs to
  a known device (the FOREIGN KEYs, which SQLite does not check: the server switches them on for
  the connection of \<open>initialize_database\<close> only), and the timestamps the server reads back are
  stamps.  The timestamps it only writes are in \<open>written_stamps\<close>.
\<close>

definition known_devices :: "database \<Rightarrow> pystr set" where
  "known_devices db = dev_device_id ` set (devices db)"

definition db_ok :: "database \<Rightarrow> bool" where
  "db_ok db \<longleftrightarrow>
     unique_key dev_device_id (devices db) \<and> unique_key rec_key (conversation_records db)
     \<and> unique_key ph_key (photo_records db) \<and> unique_key sum_key (daily_summaries db)
     \<and> list_all (\<lambda>r. is_stamp (rec_spoken_at r)
          \<and> rec_device_id r \<in> known_devices db) (conversation_records db)
     \<and> list_all (\<lambda>r. is_stamp (ph_taken_at r)
          \<and> ph_device_id r \<in> known_devices db) (photo_records db)
     \<and> list_all (\<lambda>r. is_stamp (sum_generated_at r)) (daily_summaries db)"

definition written_stamps :: "database \<Rightarrow> bool" where
  "written_stamps db \<longleftrightarrow>
     list_all (\<lambda>r. is_stamp (dev_created_at r) \<and> is_stamp (dev_last_seen r)) (devices db)
     \<and> list_all (\<lambda>r. is_stamp (rec_received_at r)) (conversation_records db)
     \<and> list_all (\<lambda>r. is_stamp (ph_received_at r)
          \<and> (case ph_analyzed_at r of None \<Rightarrow> True | Some s \<Rightarrow> is_stamp s)) (photo_records db)"

text \<open>Every photo row names the path its identifiers determine, and the file is there.\<close>

definition files_ok :: "relay_env \<Rightarrow> relay \<Rightarrow> bool" where
  "files_ok env st \<longleftrightarrow> list_all (\<lambda>r. ph_file_path r = photo_path env (ph_device_id r) (ph_client_photo_id r)
      \<and> rel_files st (ph_file_path r) \<noteq> None) (photo_records (rel_db st))"

definition relay_ok :: "relay_env \<Rightarrow> relay \<Rightarrow> bool" where
  "relay_ok env st \<longleftrightarrow> db_ok (rel_db st) \<and> files_ok env st"

definition empty_relay :: relay where
  "empty_relay = \<lparr>rel_db = \<lparr>devices = [], conversation_records = [], daily_summaries = [],
     photo_records = []\<rparr>, rel_files = Map.empty\<rparr>"

lemma relay_ok_empty: "relay_ok env empty_relay"
  by (simp add: relay_ok_def db_ok_def files_ok_def empty_relay_def unique_key_def)

lemma known_devices_upsert [simp]:
  "known_devices (upsert_device d now db) = insert d (known_devices db)"
proof -
  have "set (map dev_device_id (devices (upsert_device d now db)))
      = insert d (set (map dev_device_id (devices db)))"
    unfolding upsert_device_def by (simp add: keys_upsert del: set_map) auto
  then show ?thesis by (simp add: known_devices_def)
qed

lemma known_devices_update [simp]:
  "known_devices (db\<lparr>conversation_records := cs\<rparr>) = known_devices db"
  "known_devices (db\<lparr>photo_records := ps\<rparr>) = known_devices db"
  "known_devices (db\<lparr>daily_summaries := ss\<rparr>) = known_devices db"
  by (simp_all add: known_devices_def)

lemma upsert_device_frame [simp]:
  "conversation_records (upsert_device d now db) = conversation_records db"
  "photo_records (upsert_device d now db) = photo_records db"
  "daily_summaries (upsert_device d now db) = daily_summaries db"
  by (simp_all add: upsert_device_def)

lemma db_ok_upsert_device: "db_ok db \<Longrightarrow> db_ok (upsert_device d now db)"
  unfolding db_ok_def upsert_device_frame known_devices_upsert
  by (auto simp: list_all_iff upsert_device_def unique_upsert)

lemma record_rows_InrD:
  assumes "record_rows env now payload = Inr rows" "r \<in> set rows"
  shows "rec_device_id r = in_device_id payload \<and> is_stamp (rec_spoken_at r) \<and> rec_received_at r = now"
proof -
  from assms(1) have "list_all2 (\<lambda>x r. rec_device_id r = in_device_id payload
      \<and> is_stamp (rec_spoken_at r) \<and> rec_received_at r = now) (in_records payload) rows"
    unfolding record_rows_def by (rule list_all2_mono [OF rmap_InrD]) (auto simp: rbind_eq_Inr iso_is_stamp)
  with assms(2) show ?thesis by (auto simp: list_all2_conv_all_nth in_set_conv_nth)
qed

lemma store_records_ok:
  assumes "db_ok db" "store_records env now payload db = Inr db'"
  shows "db_ok db'"
proof -
  let ?db1 = "upsert_device (in_device_id payload) now db"
  obtain rows where rows: "record_rows env now payload = Inr rows"
    and db': "db' = ?db1\<lparr>conversation_records :=
        sql_insert_ignore_many rec_key rows (conversation_records ?db1)\<rparr>"
    using assms(2) by (auto simp: store_records_def Let_def rbind_eq_Inr)
  have "db_ok ?db1" using assms(1) by (rule db_ok_upsert_device)
  moreover have "in_device_id payload \<in> known_devices ?db1" by simp
  moreover have "set (sql_insert_ignore_many rec_key rows (conversation_records ?db1))
      \<subseteq> set (conversation_records db) \<union> set rows"
    using set_insert_ignore_many by fastforce
  ultimately show ?thesis
    using record_rows_InrD [OF rows] unfolding db' db_ok_def list_all_iff known_devices_update
    by (auto simp: unique_insert_ignore_many dest!: subsetD)
qed

lemma files_ok_db_change:
  "photo_records db = photo_records (rel_db st) \<Longrightarrow> files_ok env (st\<lparr>rel_db := db\<rparr>) = files_ok env st"
  by (simp add: files_ok_def)

lemma store_records_photos: "store_records env now payload db = Inr db' \<Longrightarrow> photo_records db' = photo_records db"
  by (auto simp: store_records_def Let_def rbind_eq_Inr)

theorem sync_lifelog_ok:
  "relay_ok env st \<Longrightarrow> relay_ok env (fst (sync_lifelog env now payload st))"
  by (auto simp: sync_lifelog_def relay_ok_def rbind_eq_Inr store_records_ok store_records_photos
      files_ok_db_change split: sum.splits)

lemma store_photo_InrD:
  assumes "store_photo env now payload db = Inr db'"
  obtains new where
    "db' = (upsert_device (pin_device_id payload) now db)\<lparr>photo_records :=
        sql_upsert ph_key (merge_photo new) new (photo_records db)\<rparr>"
    "ph_key new = (pin_device_id payload, pin_client_photo_id payload)"
    "ph_file_path new = photo_path env (pin_device_id payload) (pin_client_photo_id payload)"
    "is_stamp (ph_taken_at new)"
    "ph_vision_caption new = None"
  using assms
  by (auto simp: store_photo_def Let_def rbind_eq_Inr ph_key_def iso_is_stamp)

lemma ph_key_merge [simp]: "ph_key (merge_photo new old) = ph_key old"
  by (simp add: ph_key_def merge_photo_def)

lemma merge_photo_fields [simp]:
  "ph_file_path (merge_photo new old) = ph_file_path new"
  "ph_taken_at (merge_photo new old) = ph_taken_at new"
  "ph_device_id (merge_photo new old) = ph_device_id old"
  "ph_client_photo_id (merge_photo new old) = ph_client_photo_id old"
  "ph_vision_caption (merge_photo new old) = ph_vision_caption old"
  by (simp_all add: merge_photo_def)

lemma store_photo_ok:
  assumes "db_ok db" "store_photo env now payload db = Inr db'"
  shows "db_ok db'"
proof -
  let ?db1 = "upsert_device (pin_device_id payload) now db"
  obtain new where db': "db' = ?db1\<lparr>photo_records :=
        sql_upsert ph_key (merge_photo new) new (photo_records db)\<rparr>"
    and new: "ph_key new = (pin_device_id payload, pin_client_photo_id payload)" "is_stamp (ph_taken_at new)"
    using store_photo_InrD [OF assms(2)] by metis
  have "db_ok ?db1" using assms(1) by (rule db_ok_upsert_device)
  moreover have "ph_device_id new \<in> known_devices ?db1" using new by (simp add: ph_key_def)
  ultimately show ?thesis
    using new(2) unfolding db' db_ok_def list_all_iff known_devices_update
    by (auto simp: unique_upsert dest!: set_upsert)
qed

lemma paths_differ: "upload_path env d p \<noteq> photo_path env d' p'"
proof -
  have "last (upload_path env d p) \<noteq> last (photo_path env d' p')"
    by (simp add: upload_path_def photo_path_def)
  then show ?thesis by metis
qed

lemma write_photo_lookup:
  "tmp \<noteq> path \<Longrightarrow> write_photo tmp path img files q =
     (if q = path then Some img else if q = tmp then None else files q)"
  by (simp add: write_photo_def Let_def)

lemma write_photo_file:
  "write_photo (upload_path env d p) (photo_path env d p) img files (photo_path env d' p') =
    (if photo_path env d' p' = photo_path env d p then Some img else files (photo_path env d' p'))"
  using paths_differ [of env d p d p] paths_differ [of env d p d' p']
  by (auto simp: write_photo_lookup)

lemma files_ok_write:
  assumes "files_ok env st"
  shows "files_ok env (st\<lparr>rel_files := write_photo (upload_path env d p) (photo_path env d p) img (rel_files st)\<rparr>)"
  using assms by (auto simp: files_ok_def list_all_iff write_photo_file)

lemma files_ok_store_photo:
  assumes "files_ok env st" "store_photo env now payload (rel_db st) = Inr db'"
    "rel_files st (photo_path env (pin_device_id payload) (pin_client_photo_id payload)) \<noteq> None"
  shows "files_ok env (st\<lparr>rel_db := db'\<rparr>)"
proof -
  obtain new where db': "db' = (upsert_device (pin_device_id payload) now (rel_db st))\<lparr>photo_records :=
        sql_upsert ph_key (merge_photo new) new (photo_records (rel_db st))\<rparr>"
    and new: "ph_key new = (pin_device_id payload, pin_client_photo_id payload)"
    "ph_file_path new = photo_path env (pin_device_id payload) (pin_client_photo_id payload)"
    using assms(2) by (rule store_photo_InrD)
  have "ph_file_path r = photo_path env (ph_device_id r) (ph_client_photo_id r)
      \<and> rel_files st (ph_file_path r) \<noteq> None"
    if "r \<in> set (sql_upsert ph_key (merge_photo new) new (photo_records (rel_db st)))" for r
    using set_upsert [OF that] assms(1,3) new by (auto simp: files_ok_def list_all_iff ph_key_def)
  moreover have "photo_records (rel_db (st\<lparr>rel_db := db'\<rparr>)) =
      sql_upsert ph_key (merge_photo new) new (photo_records (rel_db st))"
    "rel_files (st\<lparr>rel_db := db'\<rparr>) = rel_files st" by (simp_all add: db')
  ultimately show ?thesis unfolding files_ok_def list_all_iff by metis
qed

theorem sync_photo_ok:
  assumes "relay_ok env st"
  shows "relay_ok env (fst (sync_photo env now payload st))"
proof -
  have w: "files_ok env (st\<lparr>rel_files := write_photo (upload_path env d p) (photo_path env d p) img (rel_files st)\<rparr>)" for d p img
    using assms files_ok_write by (simp add: relay_ok_def)
  have "relay_ok env (st\<lparr>rel_files := write_photo (upload_path env d p) (photo_path env d p) img (rel_files st), rel_db := db'\<rparr>)"
    if "store_photo env n payload (rel_db st) = Inr db'" "d = pin_device_id payload" "p = pin_client_photo_id payload"
    for n db' d p img
    using files_ok_store_photo [OF w, where payload = payload and now = n and db' = db'] that assms store_photo_ok [OF _ that(1)]
    by (simp add: relay_ok_def write_photo_file)
  then show ?thesis
    using assms w by (auto simp: sync_photo_def relay_ok_def Let_def rbind_eq_Inr split: sum.splits)
qed

end
