(* ===== verification/Py_Text.thy ===== *)
theory Py_Text
  imports LLPrelude
begin

text \<open>
  The \<open>str\<close> methods and the regular expressions the relay server applies to text: \<open>strip\<close>,
  \<open>replace\<close> of two characters by one, and a backtracking matcher for the constructs its patterns
  use.  \<open>ends r s i\<close> lists the positions where a match of \<open>r\<close> that starts at \<open>i\<close> can end, in
  the order Python's matcher tries them, so its first element is the match Python reports.
\<close>

section \<open>White space and strip\<close>

text \<open>\<open>str.isspace\<close> of one character, which is also \<open>\s\<close> in a \<open>str\<close> pattern.\<close>

definition is_space :: "nat \<Rightarrow> bool" where
  "is_space c \<longleftrightarrow> 9 \<le> c \<and> c \<le> 13 \<or> 28 \<le> c \<and> c \<le> 32 \<or> c = 133 \<or> c = 160 \<or> c = 5760
     \<or> 8192 \<le> c \<and> c \<le> 8202 \<or> c = 8232 \<or> c = 8233 \<or> c = 8239 \<or> c = 8287 \<or> c = 12288"

definition strip_by :: "(nat \<Rightarrow> bool) \<Rightarrow> pystr \<Rightarrow> pystr" where
  "strip_by p s = rev (dropWhile p (rev (dropWhile p s)))"

definition rstrip_by :: "(nat \<Rightarrow> bool) \<Rightarrow> pystr \<Rightarrow> pystr" where
  "rstrip_by p s = rev (dropWhile p (rev s))"

definition strip :: "pystr \<Rightarrow> pystr" where
  "strip s = strip_by is_space s"

text \<open>\<open>s.replace(ab, r)\<close> for a pattern of two characters and a replacement of one.\<close>

fun replace_two :: "nat \<Rightarrow> nat \<Rightarrow> nat \<Rightarrow> pystr \<Rightarrow> pystr" where
  "replace_two a b r (x # y # s) =
     (if x = a \<and> y = b then r # replace_two a b r s else x # replace_two a b r (y # s))"
| "replace_two a b r s = s"

text \<open>\<open>sep.join(parts)\<close>.\<close>

fun str_join :: "pystr \<Rightarrow> pystr list \<Rightarrow> pystr" where
  "str_join sep [] = []"
| "str_join sep (x # xs) = (if xs = [] then x else x @ sep @ str_join sep xs)"

lemma rstrip_prefix: "\<exists>w. s = rstrip_by p s @ w \<and> list_all p w"
proof -
  have "s = rstrip_by p s @ rev (takeWhile p (rev s))"
    unfolding rstrip_by_def by (metis rev_append rev_rev_ident takeWhile_dropWhile_id)
  moreover have "list_all p (rev (takeWhile p (rev s)))"
    by (auto simp: list_all_iff dest: set_takeWhileD)
  ultimately show ?thesis by blast
qed

lemma strip_infix: "\<exists>v w. s = v @ strip_by p s @ w \<and> list_all p v \<and> list_all p w"
proof -
  obtain w where w: "dropWhile p s = rstrip_by p (dropWhile p s) @ w" "list_all p w"
    using rstrip_prefix by blast
  have "s = takeWhile p s @ dropWhile p s" by simp
  with w(1) have "s = takeWhile p s @ strip_by p s @ w" by (simp add: strip_by_def rstrip_by_def)
  moreover have "list_all p (takeWhile p s)" by (auto simp: list_all_iff dest: set_takeWhileD)
  ultimately show ?thesis using w(2) by blast
qed

lemma dropWhile_append_stop: "list_all p v \<Longrightarrow> x = [] \<or> \<not> p (hd x) \<Longrightarrow> dropWhile p (v @ x) = x"
  by (induction v) (auto simp: dropWhile_eq_self_iff)

lemma strip_by_ends: "strip_by p s = [] \<or> \<not> p (hd (strip_by p s)) \<and> \<not> p (last (strip_by p s))"
proof -
  let ?t = "dropWhile p s"
  have r: "rev (strip_by p s) = dropWhile p (rev ?t)" by (simp add: strip_by_def)
  have "\<not> p (last (strip_by p s))" if "strip_by p s \<noteq> []"
    using that hd_dropWhile [of p "rev ?t"] r by (metis hd_rev rev_is_Nil_conv)
  moreover have "\<not> p (hd (strip_by p s))" if ne: "strip_by p s \<noteq> []"
  proof -
    obtain w where w: "?t = strip_by p s @ w"
      using rstrip_prefix [of ?t p] by (auto simp: strip_by_def rstrip_by_def)
    with ne have "?t \<noteq> []" "hd ?t = hd (strip_by p s)" by (metis append_is_Nil_conv, metis hd_append2)
    then show ?thesis using hd_dropWhile [of p s] by simp
  qed
  ultimately show ?thesis by blast
qed

lemma strip_by_idem [simp]: "strip_by p (strip_by p s) = strip_by p s"
proof -
  have "dropWhile p (strip_by p s) = strip_by p s"
    using strip_by_ends [of p s] unfolding dropWhile_eq_self_iff by blast
  moreover have "dropWhile p (rev (strip_by p s)) = rev (strip_by p s)"
    using strip_by_ends [of p s] unfolding dropWhile_eq_self_iff by (simp add: hd_rev) blast
  ultimately show ?thesis by (simp add: strip_by_def [of p "strip_by p s"])
qed

section \<open>Regular expressions\<close>

text \<open>
  A character class, a greedy or lazy repetition of one within bounds, sequence, alternation,
  a greedy optional part, \<open>^\<close>, \<open>$\<close> and \<open>(?=...)\<close>.
\<close>

datatype rx =
    Cls "nat \<Rightarrow> bool"
  | Rep bool nat "nat option" "nat \<Rightarrow> bool"
  | Cat rx rx
  | Alt rx rx
  | Maybe rx
  | Bos
  | Eos
  | Ahead rx

definition run_length :: "(nat \<Rightarrow> bool) \<Rightarrow> nat option \<Rightarrow> pystr \<Rightarrow> nat \<Rightarrow> nat" where
  "run_length p hi s i = (let n = length (takeWhile p (drop i s)) in
     case hi of None \<Rightarrow> n | Some h \<Rightarrow> min h n)"

fun ends :: "rx \<Rightarrow> pystr \<Rightarrow> nat \<Rightarrow> nat list" where
  "ends (Cls p) s i = (if i < length s \<and> p (s ! i) then [Suc i] else [])"
| "ends (Rep greedy lo hi p) s i =
     (let js = [i + lo ..< Suc (i + run_length p hi s i)] in if greedy then rev js else js)"
| "ends (Cat a b) s i = concat (map (ends b s) (ends a s i))"
| "ends (Alt a b) s i = ends a s i @ ends b s i"
| "ends (Maybe a) s i = ends a s i @ [i]"
| "ends Bos s i = (if i = 0 then [i] else [])"
| "ends Eos s i = (if i = length s \<or> Suc i = length s \<and> s ! i = 10 then [i] else [])"
| "ends (Ahead a) s i = (if ends a s i = [] then [] else [i])"

text \<open>The leftmost match from position \<open>i\<close> on: \<open>re.search\<close>.\<close>

definition rx_find :: "rx \<Rightarrow> pystr \<Rightarrow> nat \<Rightarrow> nat option" where
  "rx_find r s i = find (\<lambda>j. ends r s j \<noteq> []) [i ..< Suc (length s)]"

text \<open>\<open>re.sub(r, "", s)\<close>, scanning from position \<open>i\<close>.\<close>

function rx_delete :: "rx \<Rightarrow> pystr \<Rightarrow> nat \<Rightarrow> pystr" where
  "rx_delete r s i =
     (if length s \<le> i then []
      else case ends r s i of
        [] \<Rightarrow> s ! i # rx_delete r s (Suc i)
      | j # _ \<Rightarrow> if i < j then rx_delete r s j else s ! i # rx_delete r s (Suc i))"
  by pat_completeness auto
termination by (relation "measure (\<lambda>(r, s, i). length s - i)") auto

declare rx_delete.simps [simp del]

text \<open>A literal, and a literal under \<open>re.IGNORECASE\<close>: \<open>k\<close> also matches the Kelvin sign and
  \<open>s\<close> the long s.\<close>

fun rx_lit :: "pystr \<Rightarrow> rx" where
  "rx_lit [] = Rep True 0 (Some 0) (\<lambda>_. False)"
| "rx_lit [c] = Cls (\<lambda>x. x = c)"
| "rx_lit (c # cs) = Cat (Cls (\<lambda>x. x = c)) (rx_lit cs)"

definition same_letter :: "nat \<Rightarrow> nat \<Rightarrow> bool" where
  "same_letter c x \<longleftrightarrow> x = c \<or> 97 \<le> c \<and> c \<le> 122 \<and> (x + 32 = c \<or> c = 107 \<and> x = 8490 \<or> c = 115 \<and> x = 383)"

fun rx_word :: "pystr \<Rightarrow> rx" where
  "rx_word [] = Rep True 0 (Some 0) (\<lambda>_. False)"
| "rx_word [c] = Cls (same_letter c)"
| "rx_word (c # cs) = Cat (Cls (same_letter c)) (rx_word cs)"

fun rx_seq :: "rx list \<Rightarrow> rx" where
  "rx_seq [] = Rep True 0 (Some 0) (\<lambda>_. False)"
| "rx_seq [r] = r"
| "rx_seq (r # rs) = Cat r (rx_seq rs)"

definition rx_spaces :: rx where
  "rx_spaces = Rep True 0 None is_space"

section \<open>What a match depends on\<close>

text \<open>An expression without \<open>$\<close> and look-ahead keeps its matches when text is appended, and one
  without \<open>^\<close> when text is put in front.\<close>

fun no_end :: "rx \<Rightarrow> bool" where
  "no_end (Cat a b) \<longleftrightarrow> no_end a \<and> no_end b"
| "no_end (Alt a b) \<longleftrightarrow> no_end a \<and> no_end b"
| "no_end (Maybe a) \<longleftrightarrow> no_end a"
| "no_end Eos \<longleftrightarrow> False"
| "no_end (Ahead a) \<longleftrightarrow> False"
| "no_end _ \<longleftrightarrow> True"

fun no_start :: "rx \<Rightarrow> bool" where
  "no_start (Cat a b) \<longleftrightarrow> no_start a \<and> no_start b"
| "no_start (Alt a b) \<longleftrightarrow> no_start a \<and> no_start b"
| "no_start (Maybe a) \<longleftrightarrow> no_start a"
| "no_start Bos \<longleftrightarrow> False"
| "no_start (Ahead a) \<longleftrightarrow> no_start a"
| "no_start _ \<longleftrightarrow> True"

lemma run_length_bound: "i \<le> length s \<Longrightarrow> i + run_length p hi s i \<le> length s"
  using length_takeWhile_le [of p "drop i s"] by (auto simp: run_length_def Let_def split: option.split)

lemma ends_bounds: "i \<le> length s \<Longrightarrow> j \<in> set (ends r s i) \<Longrightarrow> i \<le> j \<and> j \<le> length s"
proof (induction r arbitrary: i j)
  case (Rep g lo hi p)
  then have "i + lo \<le> j" "j \<le> i + run_length p hi s i"
    by (cases g; simp add: Let_def del: upt_Suc)+
  with run_length_bound [OF Rep.prems(1), of p hi] show ?case by simp
next
  case (Cat a b)
  from Cat.prems obtain x where "x \<in> set (ends a s i)" "j \<in> set (ends b s x)" by auto
  with Cat.IH(1) [OF Cat.prems(1), of x] Cat.IH(2) [of x j] show ?case by linarith
next
  case (Alt a b)
  from Alt.prems Alt.IH(1) [of i j] Alt.IH(2) [of i j] show ?case by auto
next
  case (Maybe a)
  from Maybe.prems Maybe.IH [of i j] show ?case by auto
next
  case (Ahead a)
  from Ahead.prems show ?case by (simp split: if_splits)
qed (simp_all split: if_splits)

lemma run_length_append: "run_length p hi s i \<le> run_length p hi (s @ t) i"
proof (cases "i \<le> length s")
  case True
  have "length (takeWhile p xs) \<le> length (takeWhile p (xs @ ys))" for xs ys
    by (induction xs) auto
  from this [of "drop i s" t] True show ?thesis
    by (auto simp: run_length_def Let_def split: option.split)
next
  case False
  then show ?thesis by (auto simp: run_length_def split: option.split)
qed

lemma ends_append: "no_end r \<Longrightarrow> j \<in> set (ends r s i) \<Longrightarrow> j \<in> set (ends r (s @ t) i)"
proof (induction r arbitrary: i j)
  case (Rep g lo hi p)
  then have "i + lo \<le> j \<and> j \<le> i + run_length p hi s i"
    by (cases g) (simp_all add: Let_def del: upt_Suc)
  then show ?case using run_length_append [of p hi s i t] by (cases g) (simp_all add: Let_def del: upt_Suc)
next
  case (Cat a b)
  from Cat.prems obtain x where "x \<in> set (ends a s i)" "j \<in> set (ends b s x)" by auto
  with Cat.IH(1) [of x i] Cat.IH(2) [of j x] Cat.prems(1)
  have "x \<in> set (ends a (s @ t) i)" "j \<in> set (ends b (s @ t) x)" by auto
  then show ?case by auto
qed (auto simp: nth_append split: if_splits)

lemma run_length_shift: "run_length p hi (v @ s) (i + length v) = run_length p hi s i"
  by (simp add: run_length_def)

lemma ends_shift: "no_start r \<Longrightarrow> ends r (v @ s) (i + length v) = map (\<lambda>j. j + length v) (ends r s i)"
proof (induction r arbitrary: i)
  case (Rep g lo hi p)
  have m: "map (\<lambda>j. j + length v) [a ..< b] = [a + length v ..< b + length v]" for a b
    by (induction b) auto
  have "[i + length v + lo ..< Suc (i + length v + run_length p hi s i)]
      = map (\<lambda>j. j + length v) [i + lo ..< Suc (i + run_length p hi s i)]"
    unfolding m by (simp add: ac_simps del: upt_Suc)
  then show ?case by (simp add: Let_def run_length_shift rev_map del: upt_Suc)
next
  case (Cat a b)
  then show ?case by (simp add: map_concat comp_def)
qed (auto simp: nth_append)

lemma ends_infix:
  assumes "no_start r" "no_end r" "j \<in> set (ends r s i)"
  shows "j + length v \<in> set (ends r (v @ s @ w) (i + length v))"
  using ends_append [OF assms(2,3), of w] ends_shift [OF assms(1), of v "s @ w" i] by auto

end
