(* ===== verification/Relay_Markdown.thy ===== *)
theory Relay_Markdown
  imports Py_Text
begin

text \<open>
  The two clean-ups the relay server applies to a generated report, and the extraction it falls
  back to when the model's answer is not valid JSON (\<open>clean_summary_markdown\<close> and
  \<open>generate_summary\<close> in \<open>LifeLens_WebApp,Server/server.py\<close>).  \<open>clean_summary_markdown\<close>
  cuts the report at the first keyword heading that an opening bracket follows, and leaves any other
  keyword section in it; the fallback keeps the closing quote of the field.
\<close>

section \<open>The patterns\<close>

definition class_of :: "nat list \<Rightarrow> nat \<Rightarrow> bool" where
  "class_of cs c \<longleftrightarrow> c \<in> set cs"

text \<open>\<open>(?:#{1,6}\s*)?\<close> and \<open>[:\<close> or full-width colon\<open>]?\<close>.\<close>

definition rx_hashes :: rx where
  "rx_hashes = Maybe (Cat (Rep True 1 (Some 6) (class_of [35])) rx_spaces)"

definition rx_colon :: rx where
  "rx_colon = Maybe (Cls (class_of [58, 65306]))"

text \<open>The heading "today's report" at the start of the text, with its line breaks.\<close>

definition rx_title :: rx where
  "rx_title = rx_seq [Bos, rx_spaces, rx_hashes, rx_lit [50724, 45720, 51032], rx_spaces,
     rx_lit [47532, 54252, 53944], rx_spaces, rx_colon,
     Rep True 0 None (\<lambda>c. c \<noteq> 10), Rep True 1 None (class_of [10])]"

text \<open>A keyword list on a line of its own, up to its opening bracket, and all that follows.\<close>

definition rx_keyword_head :: rx where
  "rx_keyword_head = rx_seq [Cls (class_of [10]), rx_spaces, rx_hashes,
     Alt (rx_word (u ''keywords''))
       (Alt (rx_seq [rx_lit [54645, 49900], rx_spaces, rx_lit [53412, 50892, 46300]])
            (rx_lit [53412, 50892, 46300])),
     rx_spaces, rx_colon, rx_spaces, Cls (class_of [91])]"

definition rx_keywords :: rx where
  "rx_keywords = Cat rx_keyword_head (Cat (Rep True 0 None (\<lambda>_. True)) Eos)"

text \<open>\<open>str(value or "")\<close> is the argument here.\<close>

definition clean_text :: "pystr \<Rightarrow> pystr" where
  "clean_text s = strip (rx_delete rx_keywords (rx_delete rx_title (strip s) 0) 0)"

text \<open>The fallback: \<open>"summary"\s*:\s*"(.*?)(?=,\s*"keywords"\s*:)\<close>; the span is that of the
  group in the leftmost match.\<close>

definition rx_field :: rx where
  "rx_field = rx_seq [rx_lit (34 # u ''summary'' @ [34]), rx_spaces, rx_lit [58], rx_spaces, rx_lit [34]]"

definition rx_body :: rx where
  "rx_body = Cat (Rep False 0 None (\<lambda>_. True))
     (Ahead (rx_seq [rx_lit [44], rx_spaces, rx_lit (34 # u ''keywords'' @ [34]), rx_spaces, rx_lit [58]]))"

definition group_spans :: "pystr \<Rightarrow> nat \<Rightarrow> (nat \<times> nat) list" where
  "group_spans s i = concat (map (\<lambda>j. map (Pair j) (ends rx_body s j)) (ends rx_field s i))"

definition summary_group :: "pystr \<Rightarrow> pystr option" where
  "summary_group s = (case find (\<lambda>i. group_spans s i \<noteq> []) [0 ..< Suc (length s)] of
       None \<Rightarrow> None
     | Some i \<Rightarrow> (case hd (group_spans s i) of (j, k) \<Rightarrow> Some (take (k - j) (drop j s))))"

definition fallback_summary :: "pystr \<Rightarrow> pystr option" where
  "fallback_summary s = map_option (\<lambda>g. replace_two 92 34 34 (replace_two 92 110 10 g)) (summary_group s)"

section \<open>No bracketed keyword list is left\<close>

lemma keyword_head_free: "no_start rx_keyword_head" "no_end rx_keyword_head"
  by (simp_all add: rx_keyword_head_def rx_spaces_def rx_hashes_def rx_colon_def u_def)

lemma all_to_end:
  assumes "i \<le> length s"
  shows "\<exists>js. ends (Cat (Rep True 0 None (\<lambda>_. True)) Eos) s i = length s # js"
proof -
  have "takeWhile (\<lambda>_. True) (drop i s) = drop i s" by (simp add: takeWhile_eq_all_conv)
  then have "run_length (\<lambda>_. True) None s i = length s - i"
    by (simp only: run_length_def Let_def option.case length_drop)
  with assms have "ends (Rep True 0 None (\<lambda>_. True)) s i = length s # rev [i ..< length s]"
    by (simp add: Let_def)
  then show ?thesis by simp
qed

lemma cat_class_starts: "ends (Cat (Cls p) r) s i \<noteq> [] \<Longrightarrow> i < length s"
  by (simp split: if_splits)

lemma keyword_head_starts: "ends rx_keyword_head s i \<noteq> [] \<Longrightarrow> i < length s"
  unfolding rx_keyword_head_def rx_seq.simps by (rule cat_class_starts)

text \<open>The pattern matches where its head does, and then to the end of the text.\<close>

lemma keywords_match:
  assumes "i \<le> length s" "ends rx_keyword_head s i \<noteq> []"
  shows "\<exists>js. ends rx_keywords s i = length s # js"
proof -
  obtain j js where j: "ends rx_keyword_head s i = j # js" using assms(2) by (cases "ends rx_keyword_head s i") auto
  then have "j \<le> length s" using ends_bounds [OF assms(1), of j rx_keyword_head] by simp
  from all_to_end [OF this] j show ?thesis unfolding rx_keywords_def ends.simps(3) by auto
qed

lemma keywords_none: "ends rx_keyword_head s i = [] \<Longrightarrow> ends rx_keywords s i = []"
  by (simp add: rx_keywords_def)

lemma delete_keywords:
  "i \<le> length s \<Longrightarrow> \<exists>k. i \<le> k \<and> k \<le> length s \<and> rx_delete rx_keywords s i = take (k - i) (drop i s)
     \<and> (\<forall>j. i \<le> j \<and> j < k \<longrightarrow> ends rx_keyword_head s j = [])
     \<and> (k < length s \<longrightarrow> ends rx_keyword_head s k \<noteq> [])"
proof (induction "length s - i" arbitrary: i)
  case 0
  then have "i = length s" by simp
  then show ?case by (intro exI [of _ i]) (auto simp: rx_delete.simps)
next
  case (Suc n)
  then have i: "i < length s" by simp
  show ?case
  proof (cases "ends rx_keyword_head s i = []")
    case True
    have "n = length s - Suc i" using Suc(2) by linarith
    from Suc(1) [OF this] i obtain k where k: "Suc i \<le> k" "k \<le> length s"
      "rx_delete rx_keywords s (Suc i) = take (k - Suc i) (drop (Suc i) s)"
      "\<And>j. Suc i \<le> j \<Longrightarrow> j < k \<Longrightarrow> ends rx_keyword_head s j = []"
      "k < length s \<Longrightarrow> ends rx_keyword_head s k \<noteq> []" by auto
    have "rx_delete rx_keywords s i = s ! i # take (k - Suc i) (drop (Suc i) s)"
      using i k(3) keywords_none [OF True] by (subst rx_delete.simps) simp
    also have "\<dots> = take (k - i) (drop i s)"
      using i k(1) by (simp add: Cons_nth_drop_Suc [symmetric] Suc_diff_le take_Suc_Cons [symmetric] Suc_diff_Suc)
    finally show ?thesis
      using k True by (intro exI [of _ k]) (metis Suc_leD Suc_leI le_neq_implies_less)
  next
    case False
    from keywords_match [OF _ this] i obtain js where "ends rx_keywords s i = length s # js" by auto
    with i have "rx_delete rx_keywords s i = rx_delete rx_keywords s (length s)"
      by (subst rx_delete.simps) simp
    also have "\<dots> = []" by (subst rx_delete.simps) simp
    finally show ?thesis using i False by (intro exI [of _ i]) auto
  qed
qed

lemma no_keyword_head:
  "ends rx_keyword_head (strip (rx_delete rx_keywords s 0)) i = []"
proof (rule ccontr)
  let ?c = "strip (rx_delete rx_keywords s 0)"
  assume a: "ends rx_keyword_head ?c i \<noteq> []"
  then obtain j where j: "j \<in> set (ends rx_keyword_head ?c i)" by (cases "ends rx_keyword_head ?c i") auto
  obtain k where k: "k \<le> length s" "rx_delete rx_keywords s 0 = take k s"
    "\<And>j. j < k \<Longrightarrow> ends rx_keyword_head s j = []"
    using delete_keywords [of 0 s] by auto
  obtain v w where vw: "take k s = v @ ?c @ w"
    using strip_infix [of "take k s" is_space] k(2) by (auto simp: strip_def)
  have "s = v @ ?c @ (w @ drop k s)" using vw by (metis append.assoc append_take_drop_id)
  then have "j + length v \<in> set (ends rx_keyword_head s (i + length v))"
    using ends_infix [OF keyword_head_free j] by metis
  moreover have "i + length v < k"
    using keyword_head_starts [OF a] arg_cong [OF vw, of length] k(1) by simp
  ultimately show False using k(3) by fastforce
qed

lemma clean_text_no_keywords: "rx_find rx_keywords (clean_text s) 0 = None"
  by (auto simp: rx_find_def find_None_iff clean_text_def no_keyword_head keywords_none)

text \<open>What the deletion does: the text is cut at the first match.\<close>

definition keywords_cut :: "pystr \<Rightarrow> pystr" where
  "keywords_cut t = (case rx_find rx_keywords t 0 of None \<Rightarrow> t | Some i \<Rightarrow> take i t)"

lemma keywords_iff: "i \<le> length s \<Longrightarrow> ends rx_keywords s i \<noteq> [] \<longleftrightarrow> ends rx_keyword_head s i \<noteq> []"
  using keywords_match keywords_none by fastforce

lemma delete_keywords_cut: "rx_delete rx_keywords t 0 = keywords_cut t"
proof -
  obtain k where k: "k \<le> length t" "rx_delete rx_keywords t 0 = take k t"
    "\<And>j. j < k \<Longrightarrow> ends rx_keyword_head t j = []" "k < length t \<Longrightarrow> ends rx_keyword_head t k \<noteq> []"
    using delete_keywords [of 0 t] by auto
  show ?thesis
  proof (cases "k < length t")
    case True
    with k(4) have "ends rx_keywords t k \<noteq> []" by (simp add: keywords_iff)
    with True k(3) have "rx_find rx_keywords t 0 = Some k"
      by (auto simp: rx_find_def find_Some_iff keywords_none intro!: exI [of _ k] simp del: upt_Suc)
    then show ?thesis by (simp add: keywords_cut_def k(2))
  next
    case False
    have "ends rx_keyword_head t (length t) = []" using keyword_head_starts by fastforce
    with False k have "ends rx_keyword_head t j = []" if "j \<le> length t" for j
      using that by (cases "j = length t") auto
    then have "rx_find rx_keywords t 0 = None"
      by (auto simp: rx_find_def find_None_iff keywords_none simp del: upt_Suc)
    with False k(1,2) show ?thesis by (simp add: keywords_cut_def)
  qed
qed

lemma clean_text_stripped: "strip (clean_text s) = clean_text s"
  by (simp add: clean_text_def strip_def)

section \<open>The fallback\<close>

text \<open>The text of an answer whose summary is \<open>b\<close>, as the models write it.\<close>

definition field_open :: pystr where
  "field_open = 34 # u ''summary'' @ [34, 58, 34]"

definition field_next :: "pystr \<Rightarrow> pystr" where
  "field_next rest = 44 # 34 # u ''keywords'' @ [34, 58] @ rest"

lemma takeWhile_all: "takeWhile (\<lambda>_. True) xs = xs"
  by (induction xs) auto

lemma lazy_ahead:
  "ends (Cat (Rep False 0 None (\<lambda>_. True)) (Ahead a)) t 0 = filter (\<lambda>k. ends a t k \<noteq> []) [0 ..< Suc (length t)]"
proof -
  have c: "concat (map (ends (Ahead a) t) xs) = filter (\<lambda>k. ends a t k \<noteq> []) xs" for xs
    by (induction xs) auto
  have "run_length (\<lambda>_. True) None t 0 = length t" by (simp add: run_length_def takeWhile_all)
  then show ?thesis unfolding ends.simps(3) c by (simp add: Let_def del: upt_Suc)
qed

definition rx_next :: rx where
  "rx_next = rx_seq [rx_lit [44], rx_spaces, rx_lit (34 # u ''keywords'' @ [34]), rx_spaces, rx_lit [58]]"

lemma next_starts: "ends rx_next t k \<noteq> [] \<Longrightarrow> k < length t \<and> t ! k = 44"
  unfolding rx_next_def rx_seq.simps rx_lit.simps ends.simps(1,3) by (auto split: if_splits)

lemma next_here: "ends rx_next (field_next rest) 0 \<noteq> []"
  by (simp add: rx_next_def field_next_def rx_spaces_def run_length_def is_space_def u_def)

lemma body_ends:
  assumes "44 \<notin> set b"
  shows "\<exists>ks. ends rx_body (b @ 34 # field_next rest) 0 = Suc (length b) # ks"
proof -
  let ?t = "b @ 34 # field_next rest"
  have no: "ends rx_next ?t k = []" if "k \<le> length b" for k
  proof (rule ccontr)
    assume "ends rx_next ?t k \<noteq> []"
    then have "?t ! k = 44" using next_starts by blast
    then show False using that assms nth_mem [of k b] by (cases "k < length b") (auto simp: nth_append)
  qed
  have "ends rx_next ?t (0 + length (b @ [34])) = map (\<lambda>j. j + length (b @ [34])) (ends rx_next (field_next rest) 0)"
    using ends_shift [of rx_next "b @ [34]" "field_next rest" 0] by (simp add: rx_next_def rx_spaces_def u_def)
  then have yes: "ends rx_next ?t (Suc (length b)) \<noteq> []" using next_here by simp
  have "Suc (length ?t) = Suc (length b) + Suc (length (field_next rest))" by simp
  then have "[0 ..< Suc (length ?t)] = [0 ..< Suc (length b)] @ [Suc (length b) ..< Suc (length ?t)]"
    by (simp only: upt_add_eq_append [OF le0])
  moreover have "filter (\<lambda>k. ends rx_next ?t k \<noteq> []) [0 ..< Suc (length b)] = []"
    using no by (auto simp: filter_empty_conv)
  moreover have "[Suc (length b) ..< Suc (length ?t)] = Suc (length b) # [Suc (Suc (length b)) ..< Suc (length ?t)]"
    by (subst upt_conv_Cons) auto
  ultimately have "filter (\<lambda>k. ends rx_next ?t k \<noteq> []) [0 ..< Suc (length ?t)]
      = Suc (length b) # filter (\<lambda>k. ends rx_next ?t k \<noteq> []) [Suc (Suc (length b)) ..< Suc (length ?t)]"
    using yes by (simp del: upt_Suc)
  then show ?thesis unfolding rx_body_def rx_next_def [symmetric] lazy_ahead by blast
qed

lemma field_spans: "ends rx_field (123 # field_open @ x) 1 = [12]" "ends rx_field (123 # field_open @ x) 0 = []"
proof -
  have "ends rx_field (field_open @ x) 0 = [11]"
    by (simp add: rx_field_def field_open_def rx_spaces_def run_length_def is_space_def u_def)
  then show "ends rx_field (123 # field_open @ x) 1 = [12]"
    using ends_shift [of rx_field "[123]" "field_open @ x" 0] by (simp add: rx_field_def rx_spaces_def u_def)
  show "ends rx_field (123 # field_open @ x) 0 = []"
    by (simp add: rx_field_def u_def)
qed

lemma body_free: "no_start rx_body"
  by (simp add: rx_body_def rx_spaces_def u_def)

lemma summary_group_value:
  assumes "44 \<notin> set b"
  shows "summary_group (123 # field_open @ b @ 34 # field_next rest) = Some (b @ [34])"
proof -
  let ?s = "123 # field_open @ b @ 34 # field_next rest"
  obtain ks where ks: "ends rx_body (b @ 34 # field_next rest) 0 = Suc (length b) # ks"
    using body_ends [OF assms] by blast
  have len: "length (123 # field_open) = 12" by (simp add: field_open_def u_def)
  have "ends rx_body ?s 12 = (Suc (length b) + 12) # map (\<lambda>j. j + 12) ks"
    using ends_shift [OF body_free, of "123 # field_open" "b @ 34 # field_next rest" 0] ks len by simp
  then have g: "group_spans ?s 1 = (12, Suc (length b) + 12) # map (Pair 12) (map (\<lambda>j. j + 12) ks)"
    unfolding group_spans_def field_spans by simp
  have g0: "group_spans ?s 0 = []" unfolding group_spans_def field_spans by simp
  have upt: "[0 ..< n] = 0 # 1 # [2 ..< n]" if "2 < n" for n
    using that upt_conv_Cons [of 0 n] upt_conv_Cons [of 1 n] by (simp add: numeral_2_eq_2 del: upt_Suc)
  have "2 < Suc (length ?s)" using len by simp
  from upt [OF this] have "[0 ..< Suc (length ?s)] = 0 # 1 # [2 ..< Suc (length ?s)]" .
  then have f: "find (\<lambda>i. group_spans ?s i \<noteq> []) [0 ..< Suc (length ?s)] = Some 1"
    using g g0 by (simp del: upt_Suc)
  have d: "drop 12 ?s = b @ 34 # field_next rest"
    using len by (metis append_Cons append_eq_conv_conj)
  have h: "hd (group_spans ?s 1) = (12, Suc (length b) + 12)" using g by simp
  show ?thesis unfolding summary_group_def f option.case h prod.case d by simp
qed

lemma replace_two_absent: "a \<notin> set s \<Longrightarrow> replace_two a b r s = s"
  by (induction a b r s rule: replace_two.induct) auto

text \<open>The stray quote.\<close>

lemma fallback_value:
  assumes "44 \<notin> set b" "92 \<notin> set b"
  shows "fallback_summary (123 # field_open @ b @ 34 # field_next rest) = Some (b @ [34])"
  using assms by (simp add: fallback_summary_def summary_group_value replace_two_absent)

section \<open>Text without line breaks\<close>

lemma rx_seq_last_none:
  "rs \<noteq> [] \<Longrightarrow> (\<And>i. ends (last rs) s i = []) \<Longrightarrow> ends (rx_seq rs) s i = []"
  by (induction rs arbitrary: i rule: rx_seq.induct) auto

lemma rx_delete_none: "(\<And>i. ends r s i = []) \<Longrightarrow> rx_delete r s i = drop i s"
proof (induction "length s - i" arbitrary: i)
  case 0
  then show ?case by (subst rx_delete.simps) simp
next
  case (Suc n)
  then have i: "i < length s" and "n = length s - Suc i" by simp_all
  with Suc show ?case by (subst rx_delete.simps) (simp add: Cons_nth_drop_Suc)
qed

text \<open>A text without an opening bracket keeps every keyword section.\<close>

lemma rx_delete_chars: "set (rx_delete r s i) \<subseteq> set s"
proof (induction r s i rule: rx_delete.induct)
  case (1 r s i)
  then show ?case by (subst rx_delete.simps) (auto split: list.split)
qed

lemma no_bracket_cut: "91 \<notin> set t \<Longrightarrow> keywords_cut t = t"
proof -
  assume no: "91 \<notin> set t"
  have "ends rx_keyword_head t i = []" for i
    unfolding rx_keyword_head_def using no by (intro rx_seq_last_none) (auto simp: class_of_def dest: nth_mem)
  from rx_delete_none [of rx_keywords t 0, OF keywords_none [OF this]] show ?thesis by (simp add: delete_keywords_cut)
qed

lemma no_bracket_stays: "91 \<notin> set s \<Longrightarrow> clean_text s = strip (rx_delete rx_title (strip s) 0)"
proof -
  assume no: "91 \<notin> set s"
  obtain v w where "s = v @ strip s @ w" using strip_infix [of s is_space] by (auto simp: strip_def)
  then have "91 \<notin> set (strip s)" using no by (metis UnCI set_append)
  then have "91 \<notin> set (rx_delete rx_title (strip s) 0)" using rx_delete_chars by blast
  then show ?thesis by (simp add: clean_text_def delete_keywords_cut no_bracket_cut)
qed

text \<open>Neither clean-up applies to text of one line.\<close>

lemma clean_text_line:
  assumes "10 \<notin> set s"
  shows "clean_text s = strip s"
proof -
  let ?s = "strip s"
  obtain v w where "s = v @ ?s @ w" using strip_infix [of s is_space] by (auto simp: strip_def)
  then have no: "10 \<notin> set ?s" using assms by (metis UnCI set_append)
  have run: "run_length (class_of [10]) None ?s i = 0" for i
  proof -
    have "10 \<notin> set (drop i ?s)" using no by (meson in_set_dropD)
    then show ?thesis by (cases "drop i ?s") (auto simp: run_length_def class_of_def)
  qed
  have t: "ends rx_title ?s i = []" for i
    unfolding rx_title_def by (rule rx_seq_last_none) (simp_all add: run)
  have k: "ends rx_keyword_head ?s i = []" for i
    using no unfolding rx_keyword_head_def rx_seq.simps by (auto simp: class_of_def dest: nth_mem)
  show ?thesis
    using rx_delete_none [of rx_title ?s 0, OF t] rx_delete_none [of rx_keywords ?s 0, OF keywords_none [OF k]]
    by (simp add: clean_text_def strip_def)
qed

end
