(* ===== verification/Relay_Texts.thy ===== *)
theory Relay_Texts
  imports LLPrelude
begin

text \<open>
  The Korean literals of \<open>LifeLens_WebApp,Server/server.py\<close>, as code points: the prompt of the
  photo analysis, the fixed part of the report prompt, the prompt of the page copy around the
  description of its page, and the labels of the timeline.
\<close>


definition vision_prompt :: pystr where
  "vision_prompt =
     [51060, 32, 49324, 51652, 51008, 32, 49324, 50857, 51088, 51032, 32, 54616, 47336, 32, 44592, 47197, 51060,
     45796, 46, 32, 49324, 51652, 50640, 49436, 32, 51649, 51217, 32, 54869, 51064, 46104, 45716, 32, 51109, 49548,
     51032, 32, 50976, 54805, 44, 32, 49324, 46988, 51032, 32, 54876, 46041, 44, 32, 51452, 50836, 32, 49324,
     47932, 44284, 32, 49345, 54889, 51012, 32, 54620, 44397, 50612, 32, 50, 126, 51, 47928, 51109, 51004, 47196,
     32, 44061, 44288, 51201, 51004, 47196, 32, 49444, 47749, 54616, 46972, 46, 32, 50620, 44404, 47196, 32, 49888,
     50896, 51012, 32, 52628, 52769, 54616, 44144, 45208, 32, 48372, 51060, 51648, 32, 50506, 45716, 32, 49324,
     44148, 183, 44048, 51221, 183, 51109, 49548, 47749, 51012, 32, 47564, 46308, 51648, 32, 47560, 46972, 46, 32,
     51068, 44592, 32, 51089, 49457, 50640, 32, 50976, 50857, 54620, 32, 44396, 52404, 51201, 51064, 32, 49324,
     49892, 47564, 32, 51068, 48152, 32, 53581, 49828, 53944, 47196, 32, 48152, 54872, 54616, 46972, 46]"

definition report_prompt :: pystr where
  "report_prompt =
     [45796, 51020, 51008, 32, 54620, 32, 49324, 46988, 51032, 32, 54616, 47336, 47484, 32, 49884, 44036, 49692,
     51004, 47196, 32, 51221, 47532, 54620, 32, 76, 105, 102, 101, 76, 101, 110, 115, 32, 44592, 47197, 51060,
     45796, 46, 32, 45824, 54868, 44, 32, 44544, 47000, 49828, 47196, 32, 52524, 50689, 54620, 32, 49324, 51652,
     51032, 32, 49884, 44033, 51201, 32, 48516, 49437, 44, 32, 52524, 50689, 32, 50948, 52824, 44032, 32, 54632,
     44760, 32, 46308, 50612, 32, 51080, 45796, 46, 32, 48152, 46300, 49884, 32, 54620, 44397, 50612, 32, 74, 83,
     79, 78, 47564, 32, 48152, 54872, 54616, 46972, 46, 10, 54805, 49885, 58, 32, 123, 34, 115, 117, 109, 109, 97,
     114, 121, 34, 58, 34, 77, 97, 114, 107, 100, 111, 119, 110, 32, 47532, 54252, 53944, 46, 32, 35, 35, 32,
     54616, 47336, 51032, 32, 55120, 47492, 44, 32, 35, 35, 32, 51452, 50836, 32, 54876, 46041, 44284, 32, 51109,
     49548, 44, 32, 35, 35, 32, 51221, 47532, 32, 51228, 47785, 51012, 32, 49324, 50857, 54616, 44256, 32, 44033,
     32, 45236, 50857, 51008, 32, 54633, 44228, 32, 56, 126, 49, 48, 47928, 51109, 32, 48516, 47049, 51004, 47196,
     32, 44396, 52404, 51201, 51004, 47196, 32, 51089, 49457, 46, 32, 54596, 50836, 32, 49884, 32, 45, 32, 47785,
     47197, 32, 49324, 50857, 46, 32, 49324, 51652, 44284, 32, 50948, 52824, 47484, 32, 44540, 44144, 47196, 32,
     50612, 46356, 50640, 49436, 32, 47924, 50631, 51012, 32, 54664, 45716, 51648, 32, 49884, 44036, 32, 55120,
     47492, 50640, 32, 47582, 52656, 32, 48152, 50689, 54616, 44256, 44, 32, 45824, 54868, 51032, 32, 51452, 50836,
     32, 51452, 51228, 183, 49324, 46988, 183, 44228, 54925, 183, 44048, 51221, 32, 46608, 45716, 32, 51032, 46020,
     183, 44208, 51221, 32, 49324, 54637, 46020, 32, 54252, 54632, 54624, 32, 44163, 46, 32, 49324, 51652, 32,
     48516, 49437, 44284, 32, 45824, 54868, 44032, 32, 49436, 47196, 32, 48372, 50756, 46112, 32, 46412, 47564, 32,
     51088, 50672, 49828, 47101, 44172, 32, 50672, 44208, 54616, 44256, 44, 32, 44592, 47197, 50640, 32, 50630,
     45716, 32, 49324, 49892, 51060, 45208, 32, 51221, 54869, 54620, 32, 51109, 49548, 47749, 183, 49324, 46988,
     51032, 32, 49888, 50896, 51012, 32, 47564, 46308, 51648, 32, 47568, 32, 44163, 46, 32, 115, 117, 109, 109, 97,
     114, 121, 32, 50504, 50640, 45716, 32, 50724, 45720, 51032, 32, 47532, 54252, 53944, 183, 107, 101, 121, 119,
     111, 114, 100, 115, 183, 54645, 49900, 32, 53412, 50892, 46300, 183, 54624, 32, 51068, 32, 49465, 49496,
     51012, 32, 51208, 45824, 32, 45347, 51648, 32, 47568, 32, 44163, 34, 44, 34, 107, 101, 121, 119, 111, 114,
     100, 115, 34, 58, 91, 34, 52572, 45824, 32, 55, 44060, 34, 93, 44, 34, 116, 111, 100, 111, 115, 34, 58, 91,
     34, 44592, 47197, 50640, 49436, 32, 54869, 51064, 46108, 32, 54624, 32, 51068, 34, 93, 125, 10, 53685, 54633,
     32, 53440, 51076, 46972, 51064, 58, 10]"

definition copy_prompt_head :: pystr where
  "copy_prompt_head =
     [45817, 49888, 51008, 32, 76, 105, 102, 101, 76, 101, 110, 115, 32, 47784, 48148, 51068, 32, 50545, 51032, 32,
     54620, 44397, 50612, 32, 52852, 54588, 46972, 51060, 53552, 45796, 46, 10, 54868, 47732, 58, 32]"

definition copy_prompt_tail :: pystr where
  "copy_prompt_tail =
     [10, 47588, 48264, 32, 49352, 47213, 51648, 47564, 32, 44284, 51109, 32, 50630, 51060, 32, 46384, 46907,
     54616, 44256, 32, 44036, 44208, 54620, 32, 72, 101, 114, 111, 32, 47928, 44396, 47484, 32, 51089, 49457,
     54616, 46972, 46, 10, 116, 105, 116, 108, 101, 44284, 32, 98, 111, 100, 121, 45716, 32, 48152, 46300, 49884,
     32, 50948, 32, 54868, 47732, 51032, 32, 44592, 45733, 51012, 32, 44032, 47532, 53020, 50556, 32, 54620, 45796,
     46, 32, 45796, 47480, 32, 54868, 47732, 50640, 32, 44536, 45824, 47196, 32, 50734, 44200, 46020, 32, 47568,
     51060, 32, 46104, 45716, 32, 51068, 48152, 51201, 51064, 32, 47928, 51109, 51008, 32, 44552, 51648, 54620,
     45796, 46, 10, 116, 105, 116, 108, 101, 51008, 32, 51460, 48148, 45000, 32, 50630, 51060, 32, 54616, 45208,
     51032, 32, 51088, 50672, 49828, 47084, 50868, 32, 54620, 44397, 50612, 32, 44396, 51208, 47196, 32, 49, 51,
     51088, 32, 51060, 45236, 47196, 32, 51089, 49457, 54620, 45796, 46, 32, 51687, 44256, 32, 44592, 50613, 54616,
     44592, 32, 49772, 50868, 32, 47928, 51109, 51004, 47196, 32, 50416, 47728, 44, 32, 45800, 50612, 183, 50612,
     51208, 51012, 32, 45208, 45572, 51648, 32, 50506, 45716, 45796, 46, 10, 98, 111, 100, 121, 45716, 32, 51460,
     48148, 45000, 32, 50630, 51060, 32, 54868, 47732, 50640, 49436, 32, 52572, 45824, 32, 46160, 32, 51460, 47196,
     32, 48372, 51068, 32, 49688, 32, 51080, 44172, 32, 54620, 32, 47928, 51109, 32, 50, 54, 51088, 32, 51060,
     45236, 47196, 32, 51089, 49457, 54620, 45796, 46, 32, 51060, 47784, 51648, 44, 32, 46384, 50740, 54364, 44,
     32, 77, 97, 114, 107, 100, 111, 119, 110, 51008, 32, 50416, 51648, 32, 50506, 45716, 45796, 46, 10, 48152,
     46300, 49884, 32, 74, 83, 79, 78, 47564, 32, 48152, 54872, 54620, 45796, 46]"

definition page_home :: pystr where
  "page_home =
     [76, 105, 102, 101, 76, 101, 110, 115, 32, 54856, 46, 32, 82, 97, 121, 45, 66, 97, 110, 32, 77, 101, 116, 97,
     32, 44544, 47000, 49828, 50752, 32, 45824, 54868, 47484, 32, 53685, 54644, 32, 51068, 49345, 51012, 32, 45908,
     32, 49440, 47749, 54616, 44172, 32, 46037, 45716, 32, 49884, 51089, 32, 54868, 47732]"

definition page_skills :: pystr where
  "page_skills =
     [76, 105, 102, 101, 76, 101, 110, 115, 32, 49828, 53420, 46, 32, 44544, 47000, 49828, 51032, 32, 51228, 49828,
     52376, 44, 32, 46972, 51060, 54532, 47196, 44536, 44, 32, 73, 111, 84, 32, 44592, 45733, 51012, 32, 48156,
     44204, 54616, 45716, 32, 54868, 47732]"

definition page_stream :: pystr where
  "page_stream =
     [76, 105, 102, 101, 76, 101, 110, 115, 32, 49828, 53944, 47548, 46, 32, 44544, 47000, 49828, 32, 52852, 47700,
     46972, 50752, 32, 47560, 51060, 53356, 44032, 32, 51648, 44552, 32, 47924, 50631, 51012, 32, 48372, 44256, 32,
     46307, 45716, 51648, 32, 49892, 49884, 44036, 51004, 47196, 32, 54869, 51064, 54616, 45716, 32, 54868, 47732]"

definition page_debug :: pystr where
  "page_debug =
     [76, 105, 102, 101, 76, 101, 110, 115, 32, 46356, 48260, 44536, 46, 32, 48177, 50644, 46300, 50752, 32, 77,
     97, 116, 116, 101, 114, 32, 48652, 47551, 51648, 51032, 32, 50672, 44208, 32, 49345, 53468, 47484, 32, 52264,
     48516, 54616, 44172, 32, 54869, 51064, 54616, 45716, 32, 54868, 47732]"

definition page_lifelog :: pystr where
  "page_lifelog =
     [76, 105, 102, 101, 76, 101, 110, 115, 32, 46972, 51060, 54532, 47196, 44536, 46, 32, 54616, 47336, 32, 45824,
     54868, 32, 44592, 47197, 51012, 32, 46104, 46028, 50500, 48372, 44256, 32, 51032, 48120, 47484, 32, 51221,
     47532, 54616, 45716, 32, 54868, 47732]"

definition page_iot :: pystr where
  "page_iot =
     [76, 105, 102, 101, 76, 101, 110, 115, 32, 73, 111, 84, 32, 51228, 50612, 46, 32, 51312, 47749, 44284, 32,
     54540, 47084, 44536, 47484, 32, 54200, 50504, 54616, 44256, 32, 51593, 49884, 32, 51228, 50612, 54616, 45716,
     32, 54868, 47732]"

definition label_talk :: pystr where
  "label_talk =
     [91, 45824, 54868, 93, 32]"

definition label_photo :: pystr where
  "label_photo =
     [91, 49324, 51652, 93, 32, 50948, 52824, 58, 32]"

definition label_seen :: pystr where
  "label_seen =
     [32, 47, 32, 49324, 51652, 50640, 49436, 32, 54869, 51064, 46108, 32, 45236, 50857, 58, 32]"

definition label_coordinates :: pystr where
  "label_coordinates =
     [51340, 54364, 32]"

definition label_no_place :: pystr where
  "label_no_place =
     [50948, 52824, 32, 51221, 48372, 32, 50630, 51020]"

end
