(* ===== verification/Py_Dict.thy ===== *)
theory Py_Dict
  imports LLPrelude
begin

text \<open>
  Python's \<open>dict\<close> as the modelled code uses it: an association list in insertion order with no
  key twice.  Writing an existing key keeps its place, a new key goes to the end, \<open>pop\<close>
  removes.  \<open>dict\<close> is an instance of the keyed store interface of \<open>LLPrelude\<close>.
\<close>

type_synonym ('k, 'v) dict = "('k \<times> 'v) list"

definition dget :: "('k, 'v) dict \<Rightarrow> 'k \<Rightarrow> 'v option" where
  "dget d k = map_of d k"

definition dput :: "'k \<Rightarrow> 'v \<Rightarrow> ('k, 'v) dict \<Rightarrow> ('k, 'v) dict" where
  "dput k v d = AList.update k v d"

definition dpop :: "'k \<Rightarrow> ('k, 'v) dict \<Rightarrow> ('k, 'v) dict" where
  "dpop k d = AList.delete k d"

definition dict_ok :: "('k, 'v) dict \<Rightarrow> bool" where
  "dict_ok d \<longleftrightarrow> distinct (map fst d)"

lemma dget_dput: "dget (dput k v d) k' = (if k' = k then Some v else dget d k')"
  by (simp add: dget_def dput_def update_conv)

lemma dget_dpop: "dget (dpop k d) k' = (if k' = k then None else dget d k')"
  by (simp add: dget_def dpop_def delete_conv)

lemma dict_ok_dput [simp]: "dict_ok d \<Longrightarrow> dict_ok (dput k v d)"
  by (simp add: dict_ok_def dput_def distinct_update)

lemma dict_ok_dpop [simp]: "dict_ok d \<Longrightarrow> dict_ok (dpop k d)"
  by (simp add: dict_ok_def dpop_def distinct_delete)

lemma dict_ok_Nil [simp]: "dict_ok []"
  by (simp add: dict_ok_def)

lemma dget_Nil [simp]: "dget [] k = None"
  by (simp add: dget_def)

lemma dget_Cons: "dget ((k, v) # d) k' = (if k' = k then Some v else dget d k')"
  by (simp add: dget_def)

lemma dget_in_set: "dget d k = Some v \<Longrightarrow> (k, v) \<in> set d"
  by (simp add: dget_def map_of_SomeD)

lemma dget_set: "dict_ok d \<Longrightarrow> (k, v) \<in> set d \<Longrightarrow> dget d k = Some v"
  by (simp add: dget_def dict_ok_def)

lemma dput_keys: "fst ` set (dput k v d) = insert k (fst ` set d)"
  by (simp add: dput_def dom_update)

lemma dput_new: "dget d k = None \<Longrightarrow> dput k v d = d @ [(k, v)]"
  by (induction d) (auto simp: dget_def dput_def split: if_splits)

lemma dput_in: "p \<in> set (dput k v d) \<Longrightarrow> p = (k, v) \<or> p \<in> set d"
  by (induction d) (auto simp: dput_def split: if_splits)

lemma dpop_in: "p \<in> set (dpop k d) \<Longrightarrow> p \<in> set d"
  by (auto simp: dpop_def AList.delete_eq)

lemma fold_dput_set: "p \<in> set (fold (\<lambda>(k, w). dput k w) kvs acc) \<Longrightarrow> p \<in> set kvs \<union> set acc"
proof (induction kvs arbitrary: acc)
  case (Cons kv kvs)
  obtain k w where kv: "kv = (k, w)" by (cases kv)
  from Cons.IH [of "dput k w acc"] Cons.prems have "p \<in> set kvs \<union> set (dput k w acc)" by (simp add: kv)
  moreover have "set (dput k w acc) \<subseteq> insert (k, w) (set acc)"
    by (induction acc) (auto simp: dput_def split: if_splits)
  ultimately show ?case by (auto simp: kv)
qed simp

interpretation pydict: keyed_store dget dput dpop dict_ok
  by unfold_locales (simp_all add: dget_dput dget_dpop)

end
