(* ===== verification/Py_Json.thy ===== *)
theory Py_Json
  imports Py_Dict Complex_Main
begin

text \<open>
  JSON values as Python holds them after \<open>json.loads\<close>, and the few operations of \<open>dict\<close>, \<open>str\<close>
  and truth testing the code applies to values whose type it has not checked.  A finite float is
  its rational value.
\<close>

datatype json =
    JNull
  | JBool bool
  | JInt int
  | JFloat rat
  | JStr pystr
  | JList "json list"
  | JObj "(pystr \<times> json) list"

text \<open>\<open>d.get(k)\<close>, \<open>d.get(k, v)\<close> and \<open>d[k]\<close>; a value that is no dict has no \<open>get\<close>.\<close>

definition jget :: "json \<Rightarrow> pystr \<Rightarrow> json option res" where
  "jget j k = (case j of JObj d \<Rightarrow> Inr (dget d k) | _ \<Rightarrow> Inl AttributeError)"

definition jget_default :: "json \<Rightarrow> pystr \<Rightarrow> json \<Rightarrow> json res" where
  "jget_default j k v = rbind (jget j k) (\<lambda>r. Inr (case r of None \<Rightarrow> v | Some w \<Rightarrow> w))"

definition jindex :: "json \<Rightarrow> pystr \<Rightarrow> json res" where
  "jindex j k = (case j of
       JObj d \<Rightarrow> (case dget d k of None \<Rightarrow> Inl KeyError | Some v \<Rightarrow> Inr v)
     | _ \<Rightarrow> Inl TypeError)"

definition truthy :: "json \<Rightarrow> bool" where
  "truthy j = (case j of JNull \<Rightarrow> False | JBool b \<Rightarrow> b | JInt i \<Rightarrow> i \<noteq> 0 | JFloat r \<Rightarrow> r \<noteq> 0
     | JStr s \<Rightarrow> s \<noteq> [] | JList l \<Rightarrow> l \<noteq> [] | JObj d \<Rightarrow> d \<noteq> [])"

text \<open>\<open>for x in v\<close>.\<close>

definition jiter :: "json \<Rightarrow> json list res" where
  "jiter j = (case j of JList l \<Rightarrow> Inr l | JStr s \<Rightarrow> Inr (map (\<lambda>c. JStr [c]) s)
     | JObj d \<Rightarrow> Inr (map (\<lambda>(k, _). JStr k) d) | _ \<Rightarrow> Inl TypeError)"

text \<open>A value as a dict key: \<open>True == 1 == 1.0\<close>, and lists and dicts cannot be hashed.\<close>

definition jkey :: "json \<Rightarrow> json res" where
  "jkey j = (case j of
       JBool b \<Rightarrow> Inr (JInt (if b then 1 else 0))
     | JFloat r \<Rightarrow> Inr (if r = of_int \<lfloor>r\<rfloor> then JInt \<lfloor>r\<rfloor> else JFloat r)
     | JList _ \<Rightarrow> Inl TypeError
     | JObj _ \<Rightarrow> Inl TypeError
     | _ \<Rightarrow> Inr j)"

lemma jkey_idem: "jkey j = Inr k \<Longrightarrow> jkey k = Inr k"
  by (auto simp: jkey_def split: json.splits if_splits)

lemma jkey_str [simp]: "jkey (JStr s) = Inr (JStr s)"
  by (simp add: jkey_def)

lemma jkey_int [simp]: "jkey (JInt i) = Inr (JInt i)"
  by (simp add: jkey_def)

lemma jget_obj [simp]: "jget (JObj d) k = Inr (dget d k)"
  by (simp add: jget_def)

lemma jindex_obj [simp]:
  "jindex (JObj d) k = (case dget d k of None \<Rightarrow> Inl KeyError | Some v \<Rightarrow> Inr v)"
  by (simp add: jindex_def)

end
