(* ===== verification/Json_Text.thy ===== *)
theory Json_Text
  imports Py_Json
begin

text \<open>
  Python's \<open>json\<close> module as the relay server uses it: \<open>loads\<close> of a \<open>str\<close> (strict, with its
  default number hooks) and \<open>dumps\<close> with \<open>ensure_ascii=False\<close> and the default separators.
  \<open>fl\<close> is \<open>float\<close> applied to the text of a number (or to \<open>NaN\<close>, \<open>Infinity\<close>, \<open>-Infinity\<close>) and
  \<open>fr\<close> is \<open>float.__repr__\<close>; both are binary64 arithmetic and stay parameters.  The scanner takes
  fuel; \<open>loads\<close> starts it with enough for every text (\<open>jscan_fuel\<close>).
\<close>

section \<open>Reading\<close>

definition starts :: "nat \<Rightarrow> pystr \<Rightarrow> bool" where
  "starts c s \<longleftrightarrow> s \<noteq> [] \<and> hd s = c"

definition json_ws :: "nat \<Rightarrow> bool" where
  "json_ws c \<longleftrightarrow> c = 32 \<or> c = 9 \<or> c = 10 \<or> c = 13"

definition skip_ws :: "pystr \<Rightarrow> pystr" where
  "skip_ws s = dropWhile json_ws s"

definition hex_value :: "nat \<Rightarrow> nat option" where
  "hex_value c = (if 48 \<le> c \<and> c \<le> 57 then Some (c - 48) else if 97 \<le> c \<and> c \<le> 102 then Some (c - 87)
     else if 65 \<le> c \<and> c \<le> 70 then Some (c - 55) else None)"

text \<open>Four hexadecimal digits.\<close>

definition hex4 :: "pystr \<Rightarrow> (nat \<times> pystr) option" where
  "hex4 s = (case s of
       a # b # c # d # r \<Rightarrow> (case (hex_value a, hex_value b, hex_value c, hex_value d) of
           (Some w, Some x, Some y, Some z) \<Rightarrow> Some (4096 * w + 256 * x + 16 * y + z, r)
         | _ \<Rightarrow> None)
     | _ \<Rightarrow> None)"

text \<open>A \<open>\uXXXX\<close> escape after its \<open>u\<close>: a high surrogate joins a low one that follows it.\<close>

definition unicode_escape :: "pystr \<Rightarrow> (nat \<times> pystr) option" where
  "unicode_escape s = (case hex4 s of
       None \<Rightarrow> None
     | Some (hi, r) \<Rightarrow>
         if 55296 \<le> hi \<and> hi \<le> 56319 \<and> take 2 r = [92, 117] then
           (case hex4 (drop 2 r) of
              Some (lo, r2) \<Rightarrow>
                if 56320 \<le> lo \<and> lo \<le> 57343 then Some (65536 + (hi - 55296) * 1024 + (lo - 56320), r2)
                else Some (hi, r)
            | None \<Rightarrow> Some (hi, r))
         else Some (hi, r))"

definition escape :: "pystr \<Rightarrow> (nat \<times> pystr) option" where
  "escape s = (case s of
       [] \<Rightarrow> None
     | c # r \<Rightarrow>
         if c = 34 \<or> c = 92 \<or> c = 47 then Some (c, r)
         else if c = 98 then Some (8, r) else if c = 102 then Some (12, r)
         else if c = 110 then Some (10, r) else if c = 114 then Some (13, r)
         else if c = 116 then Some (9, r)
         else if c = 117 then unicode_escape r else None)"

lemma hex4_shorter: "hex4 s = Some (n, r) \<Longrightarrow> length r < length s"
  by (auto simp: hex4_def split: list.splits option.splits)

lemma unicode_escape_shorter: "unicode_escape s = Some (n, r) \<Longrightarrow> length r < length s"
  by (auto simp: unicode_escape_def split: option.splits if_splits dest!: hex4_shorter)

lemma escape_shorter: "escape s = Some (n, r) \<Longrightarrow> length r < length s"
  by (auto simp: escape_def split: list.splits if_splits dest!: unicode_escape_shorter)

text \<open>A string after its opening quote; a control character is an error (\<open>strict\<close>).\<close>

function scan_string :: "pystr \<Rightarrow> (pystr \<times> pystr) res" where
  "scan_string s = (case s of
       [] \<Rightarrow> Inl JSONDecodeError
     | c # cs \<Rightarrow>
         if c = 34 then Inr ([], cs)
         else if c = 92 then (case escape cs of
             None \<Rightarrow> Inl JSONDecodeError
           | Some (d, r) \<Rightarrow> rbind (scan_string r) (\<lambda>(t, r'). Inr (d # t, r')))
         else if c < 32 then Inl JSONDecodeError
         else rbind (scan_string cs) (\<lambda>(t, r'). Inr (c # t, r')))"
  by pat_completeness auto
termination by (relation "measure length") (auto dest: escape_shorter)

declare scan_string.simps [simp del]

definition scan_fraction :: "pystr \<Rightarrow> pystr \<times> pystr" where
  "scan_fraction s = (case s of
       c # d # r \<Rightarrow> if c = 46 \<and> is_digit d then (c # takeWhile is_digit (d # r), dropWhile is_digit r) else ([], s)
     | _ \<Rightarrow> ([], s))"

definition scan_exponent :: "pystr \<Rightarrow> pystr \<times> pystr" where
  "scan_exponent s = (case s of
       c # r \<Rightarrow>
         if c = 101 \<or> c = 69 then
           (let sg = (if starts 43 r \<or> starts 45 r then [hd r] else []); r1 = drop (length sg) r in
            if takeWhile is_digit r1 = [] then ([], s)
            else (c # sg @ takeWhile is_digit r1, dropWhile is_digit r1))
         else ([], s)
     | [] \<Rightarrow> ([], s))"

definition int_part :: "pystr \<Rightarrow> pystr" where
  "int_part s = (if starts 48 s then [48] else takeWhile is_digit s)"

text \<open>An integer of more than 4300 digits is refused by \<open>int\<close>.\<close>

definition scan_number :: "(pystr \<Rightarrow> json) \<Rightarrow> pystr \<Rightarrow> (json \<times> pystr) res" where
  "scan_number fl s =
     (let neg = starts 45 s; s1 = (if neg then tl s else s);
          ip = int_part s1;
          s2 = drop (length ip) s1 in
      if ip = [] then Inl JSONDecodeError
      else case scan_fraction s2 of (fr, s3) \<Rightarrow> (case scan_exponent s3 of (ex, s4) \<Rightarrow>
        if fr = [] \<and> ex = [] then
          if 4300 < length ip then Inl ValueError
          else Inr (JInt (if neg then - int (digits_value 0 ip) else int (digits_value 0 ip)), s4)
        else Inr (fl ((if neg then [45] else []) @ ip @ fr @ ex), s4)))"

fun scan_words :: "(pystr \<times> json) list \<Rightarrow> pystr \<Rightarrow> (json \<times> pystr) option" where
  "scan_words [] s = None"
| "scan_words ((w, v) # ws) s =
     (if take (length w) s = w then Some (v, drop (length w) s) else scan_words ws s)"

definition json_words :: "(pystr \<Rightarrow> json) \<Rightarrow> (pystr \<times> json) list" where
  "json_words fl = [(u ''null'', JNull), (u ''true'', JBool True), (u ''false'', JBool False),
     (u ''NaN'', fl (u ''NaN'')), (u ''Infinity'', fl (u ''Infinity'')), (u ''-Infinity'', fl (u ''-Infinity''))]"

fun jscan :: "(pystr \<Rightarrow> json) \<Rightarrow> nat \<Rightarrow> pystr \<Rightarrow> (json \<times> pystr) res"
  and jitems :: "(pystr \<Rightarrow> json) \<Rightarrow> nat \<Rightarrow> pystr \<Rightarrow> (json list \<times> pystr) res"
  and jmembers :: "(pystr \<Rightarrow> json) \<Rightarrow> nat \<Rightarrow> pystr \<Rightarrow> ((pystr \<times> json) list \<times> pystr) res" where
  "jscan fl 0 s = Inl RuntimeError"
| "jscan fl (Suc n) s =
     (if starts 34 s then rbind (scan_string (tl s)) (\<lambda>(t, r). Inr (JStr t, r))
      else if starts 91 s then
        (let r = skip_ws (tl s) in
         if starts 93 r then Inr (JList [], tl r) else rbind (jitems fl n r) (\<lambda>(vs, r'). Inr (JList vs, r')))
      else if starts 123 s then
        (let r = skip_ws (tl s) in
         if starts 125 r then Inr (JObj [], tl r)
         else rbind (jmembers fl n r) (\<lambda>(kvs, r'). Inr (JObj (fold (\<lambda>(k, v). dput k v) kvs []), r')))
      else case scan_words (json_words fl) s of Some (v, r) \<Rightarrow> Inr (v, r) | None \<Rightarrow> scan_number fl s)"
| "jitems fl 0 s = Inl RuntimeError"
| "jitems fl (Suc n) s = rbind (jscan fl n s) (\<lambda>(v, r).
     let r1 = skip_ws r in
     if starts 93 r1 then Inr ([v], tl r1)
     else if starts 44 r1 then rbind (jitems fl n (skip_ws (tl r1))) (\<lambda>(vs, r2). Inr (v # vs, r2))
     else Inl JSONDecodeError)"
| "jmembers fl 0 s = Inl RuntimeError"
| "jmembers fl (Suc n) s =
     (if \<not> starts 34 s then Inl JSONDecodeError
      else rbind (scan_string (tl s)) (\<lambda>(k, r).
        let r1 = skip_ws r in
        if \<not> starts 58 r1 then Inl JSONDecodeError
        else rbind (jscan fl n (skip_ws (tl r1))) (\<lambda>(v, r2).
          let r3 = skip_ws r2 in
          if starts 125 r3 then Inr ([(k, v)], tl r3)
          else if starts 44 r3 then rbind (jmembers fl n (skip_ws (tl r3))) (\<lambda>(kvs, r4). Inr ((k, v) # kvs, r4))
          else Inl JSONDecodeError)))"

definition json_loads :: "(pystr \<Rightarrow> json) \<Rightarrow> pystr \<Rightarrow> json res" where
  "json_loads fl s =
     (if starts 65279 s then Inl JSONDecodeError
      else rbind (jscan fl (2 * length s + 1) (skip_ws s)) (\<lambda>(v, r).
        if skip_ws r = [] then Inr v else Inl JSONDecodeError))"

section \<open>Writing\<close>

definition json_char :: "nat \<Rightarrow> pystr" where
  "json_char c =
     (if c = 34 \<or> c = 92 then [92, c]
      else if c = 8 then [92, 98] else if c = 12 then [92, 102] else if c = 10 then [92, 110]
      else if c = 13 then [92, 114] else if c = 9 then [92, 116]
      else if c < 32 then [92, 117, 48, 48, 48 + c div 16, (if c mod 16 < 10 then 48 + c mod 16 else 87 + c mod 16)]
      else [c])"

definition json_string :: "pystr \<Rightarrow> pystr" where
  "json_string s = 34 # concat (map json_char s) @ [34]"

fun json_dumps :: "(rat \<Rightarrow> pystr) \<Rightarrow> json \<Rightarrow> pystr"
  and dumps_items :: "(rat \<Rightarrow> pystr) \<Rightarrow> json list \<Rightarrow> pystr"
  and dumps_members :: "(rat \<Rightarrow> pystr) \<Rightarrow> (pystr \<times> json) list \<Rightarrow> pystr" where
  "json_dumps fr JNull = u ''null''"
| "json_dumps fr (JBool b) = (if b then u ''true'' else u ''false'')"
| "json_dumps fr (JInt i) = dec_int i"
| "json_dumps fr (JFloat r) = fr r"
| "json_dumps fr (JStr s) = json_string s"
| "json_dumps fr (JList vs) = 91 # dumps_items fr vs @ [93]"
| "json_dumps fr (JObj kvs) = 123 # dumps_members fr kvs @ [125]"
| "dumps_items fr [] = []"
| "dumps_items fr (v # vs) = json_dumps fr v @ (if vs = [] then [] else [44, 32] @ dumps_items fr vs)"
| "dumps_members fr [] = []"
| "dumps_members fr (kv # kvs) = json_string (fst kv) @ [58, 32] @ json_dumps fr (snd kv)
     @ (if kvs = [] then [] else [44, 32] @ dumps_members fr kvs)"

section \<open>The fuel is enough\<close>

lemma skip_ws_length: "length (skip_ws s) \<le> length s"
  by (simp add: skip_ws_def length_dropWhile_le)

lemma starts_tl: "starts c s \<Longrightarrow> Suc (length (tl s)) = length s"
  by (cases s) (auto simp: starts_def)

lemma scan_string_shorter: "scan_string s = Inr (t, r) \<Longrightarrow> length r < length s"
proof (induction s arbitrary: t r rule: scan_string.induct)
  case (1 s)
  show ?case
  proof (cases s)
    case Nil
    with 1(3) show ?thesis by (subst (asm) scan_string.simps) simp
  next
    case (Cons c cs)
    show ?thesis
      using 1(3) 1(1) [OF Cons] 1(2) [OF Cons] unfolding Cons
      by (subst (asm) scan_string.simps)
        (force split: if_splits option.splits simp: rbind_eq_Inr dest!: escape_shorter)
  qed
qed

lemma scan_string_error: "scan_string s = Inl e \<Longrightarrow> e = JSONDecodeError"
proof (induction s rule: scan_string.induct)
  case (1 s)
  show ?case
    using 1(3) 1(1,2) by (subst (asm) scan_string.simps)
      (auto split: list.splits if_splits option.splits simp: rbind_eq_Inl)
qed

lemma scan_words_shorter:
  "scan_words ws s = Some (v, r) \<Longrightarrow> (\<And>w x. (w, x) \<in> set ws \<Longrightarrow> w \<noteq> []) \<Longrightarrow> length r < length s"
proof (induction ws s rule: scan_words.induct)
  case (2 w v' ws s)
  then show ?case
    by (auto split: if_splits) (metis append_Nil append_take_drop_id diff_less length_drop length_greater_0_conv take_eq_Nil)
qed simp

lemma json_words_shorter: "scan_words (json_words fl) s = Some (v, r) \<Longrightarrow> length r < length s"
  by (erule scan_words_shorter) (auto simp: json_words_def)

lemma scan_fraction_length: "scan_fraction s = (f, r) \<Longrightarrow> length r \<le> length s"
  by (auto simp: scan_fraction_def split: list.splits if_splits
      intro!: le_trans [OF length_dropWhile_le])

lemma scan_exponent_length: "scan_exponent s = (f, r) \<Longrightarrow> length r \<le> length s"
  by (auto simp: scan_exponent_def Let_def split: list.splits if_splits
      intro!: le_trans [OF length_dropWhile_le])

lemma drop_shorter: "0 < n \<Longrightarrow> n \<le> length a \<Longrightarrow> length a \<le> length s \<Longrightarrow> length (drop n a) < length s"
  by simp

lemma scan_number_shorter: "scan_number fl s = Inr (v, r) \<Longrightarrow> length r < length s"
proof -
  assume a: "scan_number fl s = Inr (v, r)"
  let ?s1 = "if starts 45 s then tl s else s"
  let ?ip = "int_part ?s1"
  obtain fr s3 where f: "scan_fraction (drop (length ?ip) ?s1) = (fr, s3)" by fastforce
  obtain ex s4 where e: "scan_exponent s3 = (ex, s4)" by fastforce
  have "r = s4" "?ip \<noteq> []"
    using a f e unfolding scan_number_def Let_def by (auto split: if_splits)
  moreover have "length (int_part x) \<le> length x" for x
    by (cases x) (auto simp: int_part_def starts_def length_takeWhile_le)
  then have "length ?ip \<le> length ?s1" .
  moreover have "length ?s1 \<le> length s" by simp
  ultimately have "length (drop (length ?ip) ?s1) < length s"
    by (intro drop_shorter) (simp_all only: length_greater_0_conv not_False_eq_True)
  with le_trans [OF scan_exponent_length [OF e] scan_fraction_length [OF f]] show ?thesis
    unfolding \<open>r = s4\<close> by (rule le_less_trans)
qed

lemma scan_number_error: "scan_number fl s = Inl e \<Longrightarrow> e \<noteq> RuntimeError"
  by (auto simp: scan_number_def Let_def split: prod.splits if_splits)

lemma jscan_shorter:
  "jscan fl n s = Inr (v, r) \<Longrightarrow> length r < length s"
  "jitems fl n s = Inr (vs, r) \<Longrightarrow> length r < length s"
  "jmembers fl n s = Inr (kvs, r) \<Longrightarrow> length r < length s"
proof (induction fl n s and fl n s and fl n s arbitrary: v r and vs r and kvs r
    rule: jscan_jitems_jmembers.induct)
  case (2 fl n s)
  have sk: "length (skip_ws (tl s)) \<le> length (tl s)" by (rule skip_ws_length)
  from 2(3) show ?case
    using 2(1) [OF _ _ refl] 2(2) [OF _ _ _ refl] sk
    by (fastforce simp: rbind_eq_Inr Let_def split: if_splits option.splits prod.splits
        dest: starts_tl scan_string_shorter json_words_shorter scan_number_shorter)
next
  case (4 fl n s)
  from 4(3) obtain v1 r1 where a: "jscan fl n s = Inr (v1, r1)" by (auto simp: rbind_eq_Inr)
  from 4(1) [OF this] have l: "length (skip_ws r1) < length s" using skip_ws_length [of r1] by linarith
  show ?case
  proof (cases "starts 93 (skip_ws r1)")
    case True
    with 4(3) a l show ?thesis by (auto simp: Let_def dest: starts_tl)
  next
    case False
    with 4(3) a obtain vs2 where c: "starts 44 (skip_ws r1)"
      "jitems fl n (skip_ws (tl (skip_ws r1))) = Inr (vs2, r)"
      by (auto simp: rbind_eq_Inr Let_def split: if_splits)
    from 4(2) [OF refl False c] starts_tl [OF c(1)] l skip_ws_length [of "tl (skip_ws r1)"]
    show ?thesis by linarith
  qed
next
  case (6 fl n s)
  from 6(3) obtain k r1 where q: "starts 34 s" and k: "scan_string (tl s) = Inr (k, r1)"
    by (auto simp: rbind_eq_Inr split: if_splits)
  have l1: "length (skip_ws r1) < length s"
    using scan_string_shorter [OF k] starts_tl [OF q] skip_ws_length [of r1] by linarith
  from 6(3) q k obtain v1 r2 where c: "starts 58 (skip_ws r1)"
    and v: "jscan fl n (skip_ws (tl (skip_ws r1))) = Inr (v1, r2)"
    by (auto simp: rbind_eq_Inr Let_def split: if_splits)
  have l2: "length (skip_ws r2) < length s"
    using 6(1) [OF _ refl _ v] q c l1 starts_tl [OF c] skip_ws_length [of "tl (skip_ws r1)"] skip_ws_length [of r2] by simp
  show ?case
  proof (cases "starts 125 (skip_ws r2)")
    case True
    with 6(3) q k c v l2 show ?thesis by (auto simp: Let_def dest: starts_tl)
  next
    case False
    with 6(3) q k c v obtain kvs2 where d: "starts 44 (skip_ws r2)"
      "jmembers fl n (skip_ws (tl (skip_ws r2))) = Inr (kvs2, r)"
      by (auto simp: rbind_eq_Inr Let_def split: if_splits)
    have "length r < length (skip_ws (tl (skip_ws r2)))"
      using 6(2) [OF _ refl _ refl False d] q c by blast
    with starts_tl [OF d(1)] l2 skip_ws_length [of "tl (skip_ws r2)"] show ?thesis by linarith
  qed
qed simp_all

lemma jscan_fuel:
  "2 * length s + 1 \<le> n \<Longrightarrow> jscan fl n s \<noteq> Inl RuntimeError"
  "2 * length s + 2 \<le> n \<Longrightarrow> jitems fl n s \<noteq> Inl RuntimeError"
  "2 * length s + 2 \<le> n \<Longrightarrow> jmembers fl n s \<noteq> Inl RuntimeError"
proof (induction fl n s and fl n s and fl n s rule: jscan_jitems_jmembers.induct)
  case (2 fl n s)
  have b: "2 * length (skip_ws (tl s)) + 2 \<le> n" if "starts c s" for c
    using starts_tl [OF that] 2(3) skip_ws_length [of "tl s"] by linarith
  show ?case
    using 2(1) [OF _ _ refl _ b] 2(2) [OF _ _ _ refl _ b]
    by (auto simp: rbind_eq_Inl Let_def split: option.splits prod.splits
        dest: scan_string_error scan_number_error)
next
  case (4 fl n s)
  show ?case
  proof
    assume a: "jitems fl (Suc n) s = Inl RuntimeError"
    have "jscan fl n s \<noteq> Inl RuntimeError" using 4(1) 4(3) by simp
    with a obtain v r where v: "jscan fl n s = Inr (v, r)"
      and j: "\<not> starts 93 (skip_ws r)" "starts 44 (skip_ws r)" "jitems fl n (skip_ws (tl (skip_ws r))) = Inl RuntimeError"
      by (auto simp: rbind_eq_Inl Let_def split: if_splits)
    from 4(2) [OF refl j(1,2)] j(3) 4(3) jscan_shorter(1) [OF v] starts_tl [OF j(2)]
      skip_ws_length [of r] skip_ws_length [of "tl (skip_ws r)"]
    show False by simp
  qed
next
  case (6 fl n s)
  show ?case
  proof
    assume a: "jmembers fl (Suc n) s = Inl RuntimeError"
    then obtain k r where q: "starts 34 s" and k: "scan_string (tl s) = Inr (k, r)"
      by (auto simp: rbind_eq_Inl split: if_splits dest: scan_string_error)
    with a have c: "starts 58 (skip_ws r)" by (auto simp: Let_def split: if_splits)
    have l: "length (skip_ws (tl (skip_ws r))) + 2 < length s"
      using scan_string_shorter [OF k] starts_tl [OF q] starts_tl [OF c] skip_ws_length [of r]
        skip_ws_length [of "tl (skip_ws r)"] by linarith
    have "jscan fl n (skip_ws (tl (skip_ws r))) \<noteq> Inl RuntimeError"
      using 6(1) [OF _ refl] q c l 6(3) by simp
    with a q k c obtain v r2 where v: "jscan fl n (skip_ws (tl (skip_ws r))) = Inr (v, r2)"
      and d: "\<not> starts 125 (skip_ws r2)" "starts 44 (skip_ws r2)"
        "jmembers fl n (skip_ws (tl (skip_ws r2))) = Inl RuntimeError"
      by (auto simp: rbind_eq_Inl Let_def split: if_splits)
    have "length (skip_ws (tl (skip_ws r2))) + 1 < length s"
      using jscan_shorter(1) [OF v] l starts_tl [OF d(2)] skip_ws_length [of r2]
        skip_ws_length [of "tl (skip_ws r2)"] by linarith
    with 6(2) [OF _ refl _ refl d(1,2)] q c d(3) 6(3) show False by fastforce
  qed
qed simp_all

lemma json_loads_fuel: "json_loads fl s \<noteq> Inl RuntimeError"
proof -
  have "jscan fl (2 * length s + 1) (skip_ws s) \<noteq> Inl RuntimeError"
    by (rule jscan_fuel) (use skip_ws_length [of s] in simp)
  then show ?thesis
    unfolding json_loads_def by (auto simp: rbind_eq_Inl split: prod.splits if_splits)
qed

section \<open>Reading what was written\<close>

lemma scan_string_Nil [simp]: "scan_string (34 # rest) = Inr ([], rest)"
  by (subst scan_string.simps) simp

lemma scan_string_plain:
  "c \<noteq> 34 \<Longrightarrow> c \<noteq> 92 \<Longrightarrow> 32 \<le> c \<Longrightarrow>
     scan_string (c # x) = rbind (scan_string x) (\<lambda>(t, r). Inr (c # t, r))"
  by (subst scan_string.simps) simp

lemma scan_string_escape:
  "escape x = Some (d, r) \<Longrightarrow> scan_string (92 # x) = rbind (scan_string r) (\<lambda>(t, r'). Inr (d # t, r'))"
  by (subst scan_string.simps) simp

lemma escape_control:
  assumes "c < 32"
  shows "escape ([117, 48, 48, 48 + c div 16, (if c mod 16 < 10 then 48 + c mod 16 else 87 + c mod 16)] @ x) = Some (c, x)"
proof -
  have "hex_value (48 + c div 16) = Some (c div 16)" using assms by (simp add: hex_value_def)
  moreover have "hex_value (if c mod 16 < 10 then 48 + c mod 16 else 87 + c mod 16) = Some (c mod 16)"
    by (auto simp: hex_value_def)
  moreover have "hex_value 48 = Some 0" by (simp add: hex_value_def)
  ultimately have "hex4 ([48, 48, 48 + c div 16, (if c mod 16 < 10 then 48 + c mod 16 else 87 + c mod 16)] @ x) = Some (c, x)"
    by (simp add: hex4_def del: split_paired_All if_split)
  then show ?thesis using assms by (simp add: escape_def unicode_escape_def)
qed

lemma scan_json_char: "scan_string (json_char c @ x) = rbind (scan_string x) (\<lambda>(t, r). Inr (c # t, r))"
proof -
  consider "c = 34 \<or> c = 92" | "c \<in> {8, 12, 10, 13, 9}"
    | "c < 32" "c \<notin> {8, 12, 10, 13, 9}" | "32 \<le> c" "c \<noteq> 34" "c \<noteq> 92" by (cases "c < 32") auto
  then show ?thesis
  proof cases
    case 1
    then show ?thesis by (auto simp: json_char_def scan_string_escape escape_def)
  next
    case 2
    then show ?thesis by (auto simp: json_char_def scan_string_escape escape_def)
  next
    case 3
    then show ?thesis
      using scan_string_escape [OF escape_control [OF 3(1), of x]] by (simp add: json_char_def)
  next
    case 4
    then show ?thesis by (simp add: json_char_def scan_string_plain)
  qed
qed

definition string_body :: "pystr \<Rightarrow> pystr" where
  "string_body s = concat (map json_char s) @ [34]"

interpretation json_str: prefix_codec string_body scan_string "\<lambda>_. True"
proof
  fix s rest :: pystr
  show "scan_string (string_body s @ rest) = Inr (s, rest)"
    by (induction s) (simp_all add: string_body_def scan_json_char)
qed

lemma json_string_body: "json_string s = 34 # string_body s"
  by (simp add: json_string_def string_body_def)

text \<open>What follows a value inside a text: the end, a comma or a closing bracket.\<close>

definition delim :: "pystr \<Rightarrow> bool" where
  "delim r \<longleftrightarrow> r = [] \<or> hd r \<in> {44, 93, 125}"

lemma delim_digits: "delim r \<Longrightarrow> takeWhile is_digit r = []" "delim r \<Longrightarrow> dropWhile is_digit r = r"
  by (cases r; auto simp: delim_def is_digit_def)+

lemma takeWhile_dec: "delim r \<Longrightarrow> takeWhile is_digit (dec n @ r) = dec n"
  using dec_digits by (simp add: takeWhile_append2 delim_digits)

lemma dec_hd: "hd (dec n) = 48 \<Longrightarrow> n = 0"
proof (induction n rule: dec.induct)
  case (1 n)
  show ?case
  proof (cases "n < 10")
    case True
    then show ?thesis using 1(2) by (subst (asm) dec.simps) simp
  next
    case False
    then have "hd (dec (n div 10)) = 48" using 1(2) by (subst (asm) dec.simps) (simp add: hd_append)
    with 1(1) False have "n div 10 = 0" by blast
    with False show ?thesis by linarith
  qed
qed

lemma dec_0 [simp]: "dec 0 = [48]"
  by (subst dec.simps) simp

lemma dec_starts: "starts c (dec n @ r) \<longleftrightarrow> hd (dec n) = c"
  by (simp add: starts_def hd_append)

lemma dec_hd_digit: "is_digit (hd (dec n))"
  using dec_digits [of "hd (dec n)" n] by simp

lemma int_part_dec:
  assumes "delim r"
  shows "int_part (dec n @ r) = dec n"
  unfolding int_part_def using dec_hd [of n] takeWhile_dec [OF assms, of n] by (auto simp: dec_starts)

lemma scan_number_int:
  assumes "delim r" "length (dec (nat \<bar>i\<bar>)) \<le> 4300"
  shows "scan_number fl (dec_int i @ r) = Inr (JInt i, r)"
proof -
  have f: "scan_fraction r = ([], r)" "scan_exponent r = ([], r)"
    using assms(1) by (auto simp: scan_fraction_def scan_exponent_def delim_def split: list.split)
  have n: "\<not> starts 45 (dec n @ r)" for n
    using dec_hd_digit [of n] by (auto simp: dec_starts is_digit_def)
  show ?thesis
    using assms(2) n [of "nat i"] unfolding scan_number_def dec_int_def
    by (cases "i < 0") (simp_all add: Let_def int_part_dec [OF assms(1)] f starts_def [of 45 "45 # _"] digits_value_dec)
qed

text \<open>Values without floats, whose dicts have no key twice and whose ints \<open>str\<close> can print.\<close>

fun json_plain :: "json \<Rightarrow> bool" where
  "json_plain (JInt i) \<longleftrightarrow> length (dec (nat \<bar>i\<bar>)) \<le> 4300"
| "json_plain (JFloat r) \<longleftrightarrow> False"
| "json_plain (JList vs) \<longleftrightarrow> list_all json_plain vs"
| "json_plain (JObj kvs) \<longleftrightarrow> dict_ok kvs \<and> list_all (\<lambda>kv. json_plain (snd kv)) kvs"
| "json_plain _ \<longleftrightarrow> True"

lemma starts_Cons [simp]: "starts c (d # s) \<longleftrightarrow> d = c"
  by (simp add: starts_def)

lemma skip_ws_Cons [simp]: "skip_ws (c # s) = (if json_ws c then skip_ws s else c # s)"
  by (simp add: skip_ws_def)

lemma dumps_hd:
  "json_plain v \<Longrightarrow> \<exists>c cs. json_dumps fr v = c # cs \<and> \<not> json_ws c \<and> c \<noteq> 93 \<and> c \<noteq> 125 \<and> c \<noteq> 65279"
proof (cases v)
  case (JInt i)
  have "\<exists>c cs. dec (nat i) = c # cs \<and> is_digit c"
    using dec_hd_digit [of "nat i"] by (cases "dec (nat i)") auto
  then show ?thesis by (auto simp: JInt dec_int_def json_ws_def is_digit_def)
qed (auto simp: json_ws_def json_string_def)

lemma skip_ws_dumps: "json_plain v \<Longrightarrow> skip_ws (json_dumps fr v @ x) = json_dumps fr v @ x"
  using dumps_hd [of v fr] by auto

lemma skip_ws_delim: "delim r \<Longrightarrow> skip_ws r = r"
  by (cases r) (auto simp: delim_def skip_ws_def json_ws_def)

lemma scan_words_dec: "scan_words (json_words fl) (dec_int i @ r) = None"
proof -
  have d: "\<exists>c cs. dec n = c # cs \<and> is_digit c" for n
    using dec_hd_digit [of n] by (cases "dec n") auto
  obtain c cs where "dec (nat i) = c # cs" "is_digit c" using d by blast
  moreover obtain c' cs' where "dec (nat (- i)) = c' # cs'" "is_digit c'" using d by blast
  ultimately show ?thesis by (auto simp: json_words_def dec_int_def is_digit_def)
qed

lemma jscan_int:
  assumes "delim r" "length (dec (nat \<bar>i\<bar>)) \<le> 4300"
  shows "jscan fl (Suc n) (dec_int i @ r) = Inr (JInt i, r)"
proof -
  have "\<not> starts c (dec_int i @ r)" if "c \<in> {34, 91, 123}" for c
    using that dec_hd_digit [of "nat i"] by (auto simp: dec_int_def dec_starts is_digit_def)
  then show ?thesis by (simp add: scan_words_dec scan_number_int [OF assms])
qed

lemma fold_dput_distinct: "dict_ok (acc @ kvs) \<Longrightarrow> fold (\<lambda>(k, v). dput k v) kvs acc = acc @ kvs"
proof (induction kvs arbitrary: acc)
  case (Cons kv kvs)
  obtain k v where kv: "kv = (k, v)" by (cases kv)
  have "dget acc k = None"
    using Cons.prems by (auto simp: kv dict_ok_def dget_def map_of_eq_None_iff)
  then show ?case using Cons.IH [of "acc @ [(k, v)]"] Cons.prems by (simp add: kv dput_new)
qed simp

lemma dumps_read:
  "json_plain v \<Longrightarrow> delim r \<Longrightarrow> 2 * length (json_dumps fr v) + 1 \<le> n \<Longrightarrow>
     jscan fl n (json_dumps fr v @ r) = Inr (v, r)"
  "list_all json_plain vs \<Longrightarrow> vs \<noteq> [] \<Longrightarrow> 2 * length (dumps_items fr vs) + 2 \<le> n \<Longrightarrow>
     jitems fl n (dumps_items fr vs @ 93 # r) = Inr (vs, r)"
  "list_all (\<lambda>kv. json_plain (snd kv)) kvs \<Longrightarrow> kvs \<noteq> [] \<Longrightarrow> 2 * length (dumps_members fr kvs) + 2 \<le> n \<Longrightarrow>
     jmembers fl n (dumps_members fr kvs @ 125 # r) = Inr (kvs, r)"
proof (induction fr v and fr vs and fr kvs arbitrary: n r and n r and n r
    rule: json_dumps_dumps_items_dumps_members.induct)
  case (1 fr)
  then show ?case by (cases n) (simp_all add: json_words_def)
next
  case (2 fr b)
  then show ?case by (cases n) (simp_all add: json_words_def)
next
  case (3 fr i)
  then show ?case by (cases n) (simp_all add: jscan_int del: jscan.simps)
next
  case (5 fr s)
  then show ?case using json_str.dec_enc [of s r] by (cases n) (simp_all add: json_string_body)
next
  case (6 fr vs)
  then obtain m where n: "n = Suc m" by (cases n) auto
  show ?case
  proof (cases vs)
    case Nil
    then show ?thesis by (simp add: n json_ws_def)
  next
    case (Cons v vs')
    have p: "json_plain v" using 6(2) Cons by simp
    obtain c cs where c: "json_dumps fr v = c # cs" "\<not> json_ws c" "c \<noteq> 93"
      using dumps_hd [OF p] by blast
    from 6(1) [of m r] 6(2,4) Cons n have "jitems fl m (dumps_items fr vs @ 93 # r) = Inr (vs, r)" by simp
    then show ?thesis using c by (simp add: n Cons)
  qed
next
  case (7 fr kvs)
  then obtain m where n: "n = Suc m" by (cases n) auto
  show ?case
  proof (cases kvs)
    case Nil
    then show ?thesis by (simp add: n json_ws_def)
  next
    case (Cons kv kvs')
    from 7(1) [of m r] 7(2,4) Cons n have "jmembers fl m (dumps_members fr kvs @ 125 # r) = Inr (kvs, r)" by simp
    moreover have "dict_ok kvs" using 7(2) by simp
    ultimately show ?thesis
      using fold_dput_distinct [of "[]" kvs] by (simp add: n Cons json_string_def json_ws_def)
  qed
next
  case (9 fr v vs)
  then obtain m where n: "n = Suc m" by (cases n) auto
  show ?case
  proof (cases vs)
    case Nil
    with 9(1) [of "93 # r" m] 9(3,5) n show ?thesis by (simp add: delim_def json_ws_def)
  next
    case (Cons w ws)
    let ?t = "dumps_items fr vs @ 93 # r"
    have v: "jscan fl m (json_dumps fr v @ [44, 32] @ ?t) = Inr (v, [44, 32] @ ?t)"
      using 9(1) [of "[44, 32] @ ?t" m] 9(3,5) n Cons by (simp add: delim_def)
    have "skip_ws ?t = ?t"
      using skip_ws_dumps [of w fr] 9(3) Cons by simp
    moreover have "jitems fl m ?t = Inr (vs, r)"
      using 9(2) [of m r] 9(3,5) n Cons by simp
    ultimately show ?thesis using v by (simp add: n Cons json_ws_def)
  qed
next
  case (11 fr kv kvs)
  then obtain m where n: "n = Suc m" by (cases n) auto
  obtain k v where kv: "kv = (k, v)" by (cases kv)
  have p: "json_plain v" using 11(3) kv by simp
  have sk: "skip_ws (json_dumps fr v @ x) = json_dumps fr v @ x" for x by (rule skip_ws_dumps [OF p])
  have key: "scan_string (tl (json_string k @ x)) = Inr (k, x)" for x
    using json_str.dec_enc [of k x] by (simp add: json_string_body)
  have q: "starts 34 (json_string k @ x)" for x by (simp add: json_string_def)
  show ?case
  proof (cases kvs)
    case Nil
    with 11(1) [of "125 # r" m] 11(3,5) n kv show ?thesis
      by (simp add: delim_def json_ws_def q key sk)
  next
    case (Cons kw kws)
    let ?t = "dumps_members fr kvs @ 125 # r"
    have v: "jscan fl m (json_dumps fr v @ [44, 32] @ ?t) = Inr (v, [44, 32] @ ?t)"
      using 11(1) [of "[44, 32] @ ?t" m] 11(3,5) n Cons kv by (simp add: delim_def)
    have "skip_ws ?t = ?t" by (simp add: Cons json_string_def json_ws_def)
    moreover have "jmembers fl m ?t = Inr (kvs, r)"
      using 11(2) [of m r] 11(3,5) n Cons by simp
    ultimately show ?thesis using v by (simp add: n Cons kv json_ws_def q key sk)
  qed
qed simp_all

theorem json_roundtrip:
  assumes "json_plain v"
  shows "json_loads fl (json_dumps fr v) = Inr v"
proof -
  have "\<not> starts 65279 (json_dumps fr v)" using dumps_hd [OF assms, of fr] by (auto simp: starts_def)
  moreover have "skip_ws (json_dumps fr v) = json_dumps fr v"
    using skip_ws_dumps [OF assms, of fr "[]"] by simp
  moreover have "jscan fl (2 * length (json_dumps fr v) + 1) (json_dumps fr v) = Inr (v, [])"
    using dumps_read(1) [OF assms, of "[]" fr _ fl] by (simp add: delim_def del: jscan.simps)
  moreover have "skip_ws [] = []" by (simp add: skip_ws_def)
  ultimately show ?thesis unfolding json_loads_def by (simp del: jscan.simps)
qed

end
