(* ===== verification/Utf8.thy ===== *)
theory Utf8
  imports LLPrelude
begin

text \<open>
  Python's \<open>str.encode("utf-8")\<close> and \<open>bytes.decode("utf-8")\<close>, both strict: a lone surrogate
  cannot be encoded, and the decoder refuses overlong forms, surrogates, values above U+10FFFF,
  stray and missing continuation bytes.  Decoding inverts encoding and accepts nothing else.
\<close>

definition scalar :: "nat \<Rightarrow> bool" where
  "scalar c \<longleftrightarrow> c < 55296 \<or> 57344 \<le> c \<and> c < 1114112"

definition encode_char :: "nat \<Rightarrow> byte list" where
  "encode_char c =
     (if c < 128 then [of_nat c]
      else if c < 2048 then [of_nat (192 + c div 64), of_nat (128 + c mod 64)]
      else if c < 65536 then
        [of_nat (224 + c div 4096), of_nat (128 + c div 64 mod 64), of_nat (128 + c mod 64)]
      else [of_nat (240 + c div 262144), of_nat (128 + c div 4096 mod 64),
            of_nat (128 + c div 64 mod 64), of_nat (128 + c mod 64)])"

fun utf8_encode :: "pystr \<Rightarrow> byte list res" where
  "utf8_encode [] = Inr []"
| "utf8_encode (c # cs) =
     (if scalar c then rbind (utf8_encode cs) (\<lambda>bs. Inr (encode_char c @ bs)) else Inl UnicodeError)"

definition is_cont :: "byte \<Rightarrow> bool" where
  "is_cont b \<longleftrightarrow> 128 \<le> unat b \<and> unat b < 192"

definition cont_value :: "byte \<Rightarrow> nat" where
  "cont_value b = unat b - 128"

text \<open>The character at the head of the bytes and the bytes after it.\<close>

fun decode_char :: "byte list \<Rightarrow> (nat \<times> byte list) option" where
  "decode_char [] = None"
| "decode_char (a # bs) =
     (if unat a < 128 then Some (unat a, bs)
      else if unat a < 192 then None
      else if unat a < 224 then
        (case bs of b # rest \<Rightarrow>
           let c = (unat a - 192) * 64 + cont_value b
           in if is_cont b \<and> 128 \<le> c then Some (c, rest) else None
         | _ \<Rightarrow> None)
      else if unat a < 240 then
        (case bs of b # d # rest \<Rightarrow>
           let c = (unat a - 224) * 4096 + cont_value b * 64 + cont_value d
           in if is_cont b \<and> is_cont d \<and> 2048 \<le> c \<and> scalar c then Some (c, rest) else None
         | _ \<Rightarrow> None)
      else if unat a < 248 then
        (case bs of b # d # e # rest \<Rightarrow>
           let c = (unat a - 240) * 262144 + cont_value b * 4096 + cont_value d * 64 + cont_value e
           in if is_cont b \<and> is_cont d \<and> is_cont e \<and> 65536 \<le> c \<and> scalar c then Some (c, rest) else None
         | _ \<Rightarrow> None)
      else None)"

lemma decode_char_shorter: "decode_char bs = Some (c, rest) \<Longrightarrow> length rest < length bs"
  by (cases bs rule: decode_char.cases) (auto split: if_splits list.splits simp: Let_def)

function utf8_decode :: "byte list \<Rightarrow> pystr res" where
  "utf8_decode bs =
     (if bs = [] then Inr []
      else case decode_char bs of
        None \<Rightarrow> Inl UnicodeError
      | Some (c, rest) \<Rightarrow> rbind (utf8_decode rest) (\<lambda>cs. Inr (c # cs)))"
  by pat_completeness auto
termination by (relation "measure length") (auto dest: decode_char_shorter)

declare utf8_decode.simps [simp del]

lemma utf8_decode_Nil [simp]: "utf8_decode [] = Inr []"
  by (simp add: utf8_decode.simps)

lemma unat_small_byte: "n < 256 \<Longrightarrow> unat (of_nat n :: byte) = n"
  by (simp add: unat_of_nat)

lemma decode_encode_char:
  assumes "scalar c"
  shows "decode_char (encode_char c @ rest) = Some (c, rest)"
proof -
  have m: "c mod 64 < 64" "c div 64 mod 64 < 64" "c div 4096 mod 64 < 64" by simp_all
  have e: "c = c div 64 * 64 + c mod 64" by simp
  have d2: "c div 64 div 64 = c div 4096" "c div 4096 div 64 = c div 262144"
    by (simp_all add: div_mult2_eq [symmetric])
  have e2: "c div 64 = c div 4096 * 64 + c div 64 mod 64" unfolding d2 [symmetric] by simp
  have e3: "c div 4096 = c div 262144 * 64 + c div 4096 mod 64" unfolding d2 [symmetric] by simp
  consider "c < 128" | "128 \<le> c" "c < 2048" | "2048 \<le> c" "c < 65536" | "65536 \<le> c" by linarith
  then show ?thesis
  proof cases
    case 1
    then show ?thesis by (simp add: encode_char_def unat_small_byte)
  next
    case 2
    then have "c div 64 < 32" by auto
    with 2 m show ?thesis
      by (simp add: encode_char_def unat_small_byte is_cont_def cont_value_def Let_def
          del: of_nat_add)
  next
    case 3
    then have b: "c div 4096 < 16" by auto
    have "c div 4096 * 4096 + c div 64 mod 64 * 64 + c mod 64 = c" using e e2 by linarith
    with 3 m b assms show ?thesis
      by (simp add: encode_char_def unat_small_byte is_cont_def cont_value_def Let_def
          del: of_nat_add)
  next
    case 4
    then have b: "c div 262144 < 8" using assms by (auto simp: scalar_def)
    have "c div 262144 * 262144 + c div 4096 mod 64 * 4096 + c div 64 mod 64 * 64 + c mod 64 = c"
      using e e2 e3 by linarith
    with 4 m b assms show ?thesis
      by (simp add: encode_char_def unat_small_byte is_cont_def cont_value_def Let_def
          del: of_nat_add)
  qed
qed

lemma encode_char_Nil [simp]: "encode_char c \<noteq> []"
  by (simp add: encode_char_def)

lemma utf8_decode_char: "scalar c \<Longrightarrow>
    utf8_decode (encode_char c @ rest) = rbind (utf8_decode rest) (\<lambda>cs. Inr (c # cs))"
  by (subst utf8_decode.simps) (simp add: decode_encode_char)

theorem utf8_roundtrip: "utf8_encode s = Inr bs \<Longrightarrow> utf8_decode bs = Inr s"
  by (induction s arbitrary: bs) (auto simp: rbind_eq_Inr utf8_decode_char split: if_splits)

text \<open>ASCII text is its own encoding.\<close>

lemma utf8_encode_ascii: "list_all (\<lambda>c. c < 128) s \<Longrightarrow> utf8_encode s = Inr (map of_nat s)"
  by (induction s) (auto simp: scalar_def encode_char_def)

lemma utf8_encode_total: "list_all scalar s \<longleftrightarrow> (\<exists>bs. utf8_encode s = Inr bs)"
  by (induction s) (auto simp: rbind_eq_Inr)

end
