(* ===== verification/Relay_Summary.thy ===== *)
theory Relay_Summary
  imports Relay_Store Relay_Markdown Relay_Texts Json_Text Utf8
begin

text \<open>
  The routes of the relay server that read a day back and that generate its report
  (\<open>LifeLens_WebApp,Server/server.py\<close>): \<open>get_lifelog\<close>, \<open>ensure_photo_captions\<close>,
  \<open>generate_summary\<close>, \<open>sync_and_summarize\<close> and \<open>generate_page_copy\<close>.

  The language model is behind \<open>ai_post\<close>: the bytes the \<open>k\<close>-th HTTP request of a handler
  receives, or the exception it raises.  \<open>clock k\<close> is what the \<open>k\<close>-th reading of the clock
  returns.  A handler that awaits lets other requests run: \<open>others i\<close> is what they do to the
  server while the handler waits for the \<open>i\<close>-th time (twice for every call: before the worker
  thread reads the state and after).  \<open>ai_float\<close>, \<open>ai_repr\<close> and \<open>ai_str\<close> are Python's
  \<open>float\<close> of a numeral, \<open>repr\<close> of a float, and \<open>str\<close> of a float, list or dict.
\<close>

section \<open>State and environment\<close>

text \<open>
  \<open>srv_begun\<close> is no variable of the program but the progress of its handlers: the \<open>summarize\<close>
  requests whose first transaction has committed.  Only their last transaction can follow.
\<close>

record server =
  srv_relay :: relay
  srv_ollama_url :: pystr
  srv_settings :: "pystr option"
  srv_begun :: "sync_in list"

record relay_ai =
  ai_model :: pystr
  ai_vision_model :: pystr
  ai_post :: "nat \<Rightarrow> pystr \<Rightarrow> byte list \<Rightarrow> byte list res"
  ai_float :: "pystr \<Rightarrow> json"
  ai_repr :: "rat \<Rightarrow> pystr"
  ai_str :: "json \<Rightarrow> pystr"

abbreviation srv_db :: "server \<Rightarrow> database" where
  "srv_db st \<equiv> rel_db (srv_relay st)"

definition put_db :: "database \<Rightarrow> server \<Rightarrow> server" where
  "put_db db st = st\<lparr>srv_relay := (srv_relay st)\<lparr>rel_db := db\<rparr>\<rparr>"

definition begin_day :: "sync_in \<Rightarrow> database \<Rightarrow> server \<Rightarrow> server" where
  "begin_day payload db st = (put_db db st)\<lparr>srv_begun := payload # srv_begun st\<rparr>"

record record_out =
  out_client_record_id :: pystr
  out_text :: pystr
  out_spoken_at :: pydatetime

record photo_out =
  pout_client_photo_id :: pystr
  pout_taken_at :: pydatetime
  pout_latitude :: "rat option"
  pout_longitude :: "rat option"
  pout_location_name :: "pystr option"
  pout_vision_caption :: "pystr option"
  pout_url :: pystr

record summary_out =
  sout_summary :: pystr
  sout_keywords :: "pystr list"
  sout_todos :: "pystr list"
  sout_model :: pystr
  sout_generated_at :: pydatetime

record lifelog_out =
  log_date :: pydate
  log_records :: "record_out list"
  log_summary :: "summary_out option"
  log_photos :: "photo_out list"

section \<open>Reading a day back\<close>

definition record_out_of :: "conversation_row \<Rightarrow> record_out res" where
  "record_out_of r = rbind (fromisoformat (rec_spoken_at r)) (\<lambda>t. Inr
     \<lparr>out_client_record_id = rec_client_record_id r, out_text = rec_text r, out_spoken_at = t\<rparr>)"

definition photo_out_of :: "pystr \<Rightarrow> photo_row \<Rightarrow> photo_out res" where
  "photo_out_of device_id r = rbind (fromisoformat (ph_taken_at r)) (\<lambda>t. Inr
     \<lparr>pout_client_photo_id = ph_client_photo_id r, pout_taken_at = t, pout_latitude = ph_latitude r,
      pout_longitude = ph_longitude r, pout_location_name = ph_location_name r,
      pout_vision_caption = ph_vision_caption r, pout_url = photo_url device_id (ph_client_photo_id r)\<rparr>)"

text \<open>The model's \<open>list[str]\<close>: pydantic refuses any other value.\<close>

definition strings_of :: "json \<Rightarrow> pystr list res" where
  "strings_of v = (case v of
       JList vs \<Rightarrow> rmap (\<lambda>x. case x of JStr s \<Rightarrow> Inr s | _ \<Rightarrow> Inl ValueError) vs
     | _ \<Rightarrow> Inl ValueError)"

definition summary_for_day :: "relay_ai \<Rightarrow> database \<Rightarrow> pystr \<Rightarrow> pydate \<Rightarrow> summary_out option res" where
  "summary_for_day ai db device_id day =
     (case sql_get sum_key (device_id, date_text day) (daily_summaries db) of
        None \<Rightarrow> Inr None
      | Some row \<Rightarrow>
          rbind (rbind (json_loads (ai_float ai) (sum_keywords_json row)) strings_of) (\<lambda>ks.
          rbind (rbind (json_loads (ai_float ai) (sum_todos_json row)) strings_of) (\<lambda>ts.
          rbind (fromisoformat (sum_generated_at row)) (\<lambda>t.
            Inr (Some \<lparr>sout_summary = sum_summary row, sout_keywords = ks, sout_todos = ts,
                   sout_model = sum_model row, sout_generated_at = t\<rparr>)))))"

definition get_lifelog ::
    "relay_env \<Rightarrow> relay_ai \<Rightarrow> pystr \<Rightarrow> pydate \<Rightarrow> server \<Rightarrow> http_error + lifelog_out" where
  "get_lifelog env ai device_id day st =
     (case rbind (records_for_day env (srv_db st) device_id day) (\<lambda>rows.
           rbind (summary_for_day ai (srv_db st) device_id day) (\<lambda>summary.
           rbind (photos_for_day env (srv_db st) device_id day) (\<lambda>photos.
           rbind (rmap record_out_of rows) (\<lambda>records.
           rbind (rmap (photo_out_of device_id) photos) (\<lambda>pics.
             Inr \<lparr>log_date = day, log_records = records, log_summary = summary, log_photos = pics\<rparr>))))) of
        Inl e \<Rightarrow> Inl (Unhandled e) | Inr out \<Rightarrow> Inr out)"

section \<open>Calling the model\<close>

definition py_str :: "relay_ai \<Rightarrow> json \<Rightarrow> pystr" where
  "py_str ai v = (case v of
       JStr s \<Rightarrow> s
     | JNull \<Rightarrow> u ''None''
     | JBool b \<Rightarrow> if b then u ''True'' else u ''False''
     | JInt i \<Rightarrow> dec_int i
     | _ \<Rightarrow> ai_str ai v)"

definition ollama_request :: "relay_ai \<Rightarrow> nat \<Rightarrow> pystr \<Rightarrow> byte list \<Rightarrow> json res" where
  "ollama_request ai k url payload =
     rbind (ai_post ai k (url @ u ''/api/generate'') payload) (\<lambda>body.
     rbind (utf8_decode body) (json_loads (ai_float ai)))"

text \<open>\<open>json.dumps(..., ensure_ascii=False).encode("utf-8")\<close>.\<close>

definition encode_payload :: "relay_ai \<Rightarrow> json \<Rightarrow> byte list res" where
  "encode_payload ai j = utf8_encode (json_dumps (ai_repr ai) j)"

text \<open>The classes that an \<open>except\<close> clause names, with the subclasses that can occur:
  \<open>UnicodeError\<close> and \<open>JSONDecodeError\<close> are \<open>ValueError\<close>s, \<open>HTTPError\<close> and \<open>URLError\<close> are
  \<open>OSError\<close>s.  Only the photo analysis catches every \<open>OSError\<close>.\<close>

definition caught_report :: "pyexc \<Rightarrow> bool" where
  "caught_report e \<longleftrightarrow> e \<in> {URLError, HTTPError, KeyError, ValueError, UnicodeError, JSONDecodeError, TypeError}"

definition caught_vision :: "pyexc \<Rightarrow> bool" where
  "caught_vision e \<longleftrightarrow> caught_report e \<or> e = OSError"

definition unavailable :: "(pyexc \<Rightarrow> bool) \<Rightarrow> pyexc \<Rightarrow> http_error" where
  "unavailable caught e = (if caught e then HTTPException 503 else Unhandled e)"

section \<open>Photo captions\<close>

text \<open>The double nearest to 0.1; 0.2 is twice it.\<close>

definition one_tenth :: rat where
  "one_tenth = 3602879701896397 / 36028797018963968"

definition vision_payload :: "relay_ai \<Rightarrow> byte list \<Rightarrow> json" where
  "vision_payload ai img = JObj
     [(u ''model'', JStr (ai_vision_model ai)), (u ''prompt'', JStr vision_prompt),
      (u ''images'', JList [JStr (b64encode img)]), (u ''stream'', JBool False),
      (u ''options'', JObj [(u ''temperature'', JFloat one_tenth)])]"

definition analyze_photo_image ::
    "relay_ai \<Rightarrow> nat \<Rightarrow> pystr \<Rightarrow> (pystr \<rightharpoonup> byte list) \<Rightarrow> photo_row \<Rightarrow> pystr res" where
  "analyze_photo_image ai k url files photo = (case files (ph_file_path photo) of
       None \<Rightarrow> Inl ValueError
     | Some img \<Rightarrow>
         rbind (encode_payload ai (vision_payload ai img)) (\<lambda>payload.
         rbind (ollama_request ai k url payload) (\<lambda>result.
         rbind (jindex result (u ''response'')) (\<lambda>v.
           let caption = strip (py_str ai v) in
           if caption = [] then Inl ValueError else Inr (take 2000 caption)))))"

text \<open>A value bound to a TEXT parameter is encoded, which a lone surrogate does not survive.\<close>

definition sql_text :: "pystr \<Rightarrow> unit res" where
  "sql_text s = (if list_all scalar s then Inr () else Inl UnicodeError)"

definition set_caption :: "pystr \<Rightarrow> pystr \<Rightarrow> pystr \<Rightarrow> pystr \<Rightarrow> pystr \<Rightarrow> database \<Rightarrow> database" where
  "set_caption device_id pid caption model now db = db\<lparr>photo_records :=
     sql_update (\<lambda>r. ph_key r = (device_id, pid))
       (\<lambda>r. r\<lparr>ph_vision_caption := Some caption, ph_vision_model := Some model, ph_analyzed_at := Some now\<rparr>)
       (photo_records db)\<rparr>"

definition store_caption ::
    "relay_env \<Rightarrow> relay_ai \<Rightarrow> int \<Rightarrow> pystr \<Rightarrow> photo_row \<Rightarrow> pystr \<Rightarrow> database \<Rightarrow> database res" where
  "store_caption env ai now device_id photo caption db =
     rbind (now_text env now) (\<lambda>n.
     rbind (sql_text caption) (\<lambda>_.
     rbind (sql_text (ai_vision_model ai)) (\<lambda>_.
       Inr (set_caption device_id (ph_client_photo_id photo) caption (ai_vision_model ai) n db))))"

definition has_caption :: "relay_ai \<Rightarrow> photo_row \<Rightarrow> bool" where
  "has_caption ai photo \<longleftrightarrow> ph_vision_caption photo \<noteq> None \<and> ph_vision_caption photo \<noteq> Some []
     \<and> ph_vision_model photo = Some (ai_vision_model ai)"

fun caption_photos ::
    "relay_env \<Rightarrow> relay_ai \<Rightarrow> (nat \<Rightarrow> int) \<Rightarrow> (nat \<Rightarrow> server \<Rightarrow> server) \<Rightarrow> pystr \<Rightarrow> nat \<Rightarrow> photo_row list
       \<Rightarrow> server \<Rightarrow> server \<times> http_error option" where
  "caption_photos env ai clock others device_id k [] st = (st, None)"
| "caption_photos env ai clock others device_id k (photo # photos) st =
     (if has_caption ai photo then caption_photos env ai clock others device_id (Suc k) photos st
      else
        let st1 = others (2 * k) st; st2 = others (2 * k + 1) st1 in
        case analyze_photo_image ai k (srv_ollama_url st1) (rel_files (srv_relay st1)) photo of
          Inl e \<Rightarrow> (st2, Some (unavailable caught_vision e))
        | Inr caption \<Rightarrow> (case store_caption env ai (clock k) device_id photo caption (srv_db st2) of
            Inl e \<Rightarrow> (st2, Some (Unhandled e))
          | Inr db \<Rightarrow> caption_photos env ai clock others device_id (Suc k) photos (put_db db st2)))"

definition ensure_photo_captions ::
    "relay_env \<Rightarrow> relay_ai \<Rightarrow> (nat \<Rightarrow> int) \<Rightarrow> (nat \<Rightarrow> server \<Rightarrow> server) \<Rightarrow> pystr \<Rightarrow> pydate \<Rightarrow> photo_row list
       \<Rightarrow> server \<Rightarrow> server \<times> (http_error + photo_row list)" where
  "ensure_photo_captions env ai clock others device_id day photos st =
     (case caption_photos env ai clock others device_id 0 photos st of
        (st', Some e) \<Rightarrow> (st', Inl e)
      | (st', None) \<Rightarrow> (st', case photos_for_day env (srv_db st') device_id day of
            Inl e \<Rightarrow> Inl (Unhandled e) | Inr ps \<Rightarrow> Inr ps))"

section \<open>The report\<close>

text \<open>\<open>datetime.fromisoformat(text).astimezone(APP_TIME_ZONE)\<close>: the wall clock time there.\<close>

definition kst :: "relay_env \<Rightarrow> pystr \<Rightarrow> int res" where
  "kst env s = rbind (fromisoformat s) (\<lambda>d. rbind (astimezone_utc (env_localtz env) d) (\<lambda>t.
     if in_range (t + app_time_zone) then Inr (t + app_time_zone) else Inl OverflowError))"

text \<open>\<open>strftime('%H:%M')\<close>.\<close>

definition clock_hm :: "int \<Rightarrow> pystr" where
  "clock_hm w = pad 2 (nat (w mod day_us div hour_us)) @ 58 # pad 2 (nat (w mod hour_us div (60 * second_us)))"

text \<open>\<open>f"{x:.5f}"\<close> rounds the exact value of the float, halves to even.\<close>

definition round_half_even :: "rat \<Rightarrow> int" where
  "round_half_even q = (let f = \<lfloor>q\<rfloor>; r = q - of_int f in
     if r < 1 / 2 then f else if 1 / 2 < r then f + 1 else if even f then f else f + 1)"

definition fixed5 :: "rat \<Rightarrow> pystr" where
  "fixed5 x = (let n = nat (round_half_even (\<bar>x\<bar> * 100000)) in
     (if x < 0 then [45] else []) @ dec (n div 100000) @ [46] @ pad 5 (n mod 100000))"

definition location_text :: "photo_row \<Rightarrow> pystr" where
  "location_text photo = (case ph_location_name photo of
       Some (c # cs) \<Rightarrow> c # cs
     | _ \<Rightarrow> (case (ph_latitude photo, ph_longitude photo) of
         (Some lat, Some lon) \<Rightarrow> label_coordinates @ fixed5 lat @ u '', '' @ fixed5 lon
       | _ \<Rightarrow> label_no_place))"

definition row_event :: "relay_env \<Rightarrow> conversation_row \<Rightarrow> (int \<times> pystr) res" where
  "row_event env row = rbind (kst env (rec_spoken_at row)) (\<lambda>w.
     Inr (w, 91 # clock_hm w @ [93] @ label_talk @ rec_text row))"

definition photo_event :: "relay_env \<Rightarrow> photo_row \<Rightarrow> (int \<times> pystr) res" where
  "photo_event env photo = rbind (kst env (ph_taken_at photo)) (\<lambda>w.
     Inr (w, 91 # clock_hm w @ [93] @ label_photo @ location_text photo @ label_seen
       @ (case ph_vision_caption photo of None \<Rightarrow> u ''None'' | Some c \<Rightarrow> c)))"

definition timeline_events :: "relay_env \<Rightarrow> conversation_row list \<Rightarrow> photo_row list \<Rightarrow> (int \<times> pystr) list res" where
  "timeline_events env rows photos =
     rbind (rmap (row_event env) rows) (\<lambda>a. rbind (rmap (photo_event env) photos) (\<lambda>b.
       Inr (sort_key fst (a @ b))))"

definition string_array :: json where
  "string_array = JObj [(u ''type'', JStr (u ''array'')), (u ''items'', JObj [(u ''type'', JStr (u ''string''))])]"

definition report_payload :: "relay_ai \<Rightarrow> pystr \<Rightarrow> json" where
  "report_payload ai timeline = JObj
     [(u ''model'', JStr (ai_model ai)), (u ''prompt'', JStr (report_prompt @ timeline)),
      (u ''format'', JObj
        [(u ''type'', JStr (u ''object'')),
         (u ''properties'', JObj
           [(u ''summary'', JObj [(u ''type'', JStr (u ''string''))]),
            (u ''keywords'', string_array), (u ''todos'', string_array)]),
         (u ''required'', JList [JStr (u ''summary''), JStr (u ''keywords''), JStr (u ''todos'')])]),
      (u ''stream'', JBool False),
      (u ''options'', JObj [(u ''temperature'', JFloat (2 * one_tenth))])]"

text \<open>The answer's text, or the fallback when it is not JSON.\<close>

definition parse_report :: "relay_ai \<Rightarrow> json \<Rightarrow> json res" where
  "parse_report ai raw = (case raw of
       JStr s \<Rightarrow>
         (if json_loads (ai_float ai) s = Inl JSONDecodeError then
            (case fallback_summary s of
               None \<Rightarrow> Inl JSONDecodeError
             | Some t \<Rightarrow> Inr (JObj [(u ''summary'', JStr t), (u ''keywords'', JList []), (u ''todos'', JList [])]))
          else json_loads (ai_float ai) s)
     | _ \<Rightarrow> Inl TypeError)"

definition clean_summary_markdown :: "relay_ai \<Rightarrow> json \<Rightarrow> pystr" where
  "clean_summary_markdown ai v = clean_text (if truthy v then py_str ai v else [])"

definition str_list :: "relay_ai \<Rightarrow> nat \<Rightarrow> json \<Rightarrow> pystr \<Rightarrow> pystr list res" where
  "str_list ai n parsed key = rbind (jget_default parsed key (JList [])) (\<lambda>v.
     rbind (jiter v) (\<lambda>vs. Inr (take n (map (py_str ai) vs))))"

definition read_report :: "relay_ai \<Rightarrow> json \<Rightarrow> (pystr \<times> pystr list \<times> pystr list) res" where
  "read_report ai result =
     rbind (rbind (jindex result (u ''response'')) (parse_report ai)) (\<lambda>parsed.
     rbind (jindex parsed (u ''summary'')) (\<lambda>s.
     rbind (str_list ai 5 parsed (u ''keywords'')) (\<lambda>ks.
     rbind (str_list ai 10 parsed (u ''todos'')) (\<lambda>ts.
       Inr (clean_summary_markdown ai s, ks, ts)))))"

definition generate_summary ::
    "relay_env \<Rightarrow> relay_ai \<Rightarrow> nat \<Rightarrow> pystr \<Rightarrow> conversation_row list \<Rightarrow> photo_row list
       \<Rightarrow> http_error + (pystr \<times> pystr list \<times> pystr list)" where
  "generate_summary env ai k url rows photos = (case timeline_events env rows photos of
       Inl e \<Rightarrow> Inl (Unhandled e)
     | Inr events \<Rightarrow>
         (case rbind (encode_payload ai (report_payload ai (str_join [10] (map snd events)))) (\<lambda>payload.
               rbind (ollama_request ai k url payload) (read_report ai)) of
            Inl e \<Rightarrow> Inl (unavailable caught_report e)
          | Inr r \<Rightarrow> Inr r))"

section \<open>Summarising a day\<close>

definition summary_model :: "relay_ai \<Rightarrow> photo_row list \<Rightarrow> pystr" where
  "summary_model ai photos = (if photos = [] then ai_model ai else ai_model ai @ u '' + '' @ ai_vision_model ai)"

definition string_json :: "relay_ai \<Rightarrow> pystr list \<Rightarrow> pystr" where
  "string_json ai ss = json_dumps (ai_repr ai) (JList (map JStr ss))"

text \<open>The row of a report; an older report of the same day keeps its place.\<close>

definition report_row :: "relay_ai \<Rightarrow> pystr \<Rightarrow> pystr \<Rightarrow> pydate \<Rightarrow> pystr \<times> pystr list \<times> pystr list \<Rightarrow> pystr \<Rightarrow> summary_row" where
  "report_row ai now device_id day r model = \<lparr>sum_device_id = device_id, sum_summary_date = date_text day,
     sum_summary = fst r, sum_keywords_json = string_json ai (fst (snd r)),
     sum_todos_json = string_json ai (snd (snd r)), sum_model = model, sum_generated_at = now\<rparr>"

definition merge_report :: "summary_row \<Rightarrow> summary_row \<Rightarrow> summary_row" where
  "merge_report row old = old\<lparr>sum_summary := sum_summary row, sum_keywords_json := sum_keywords_json row,
     sum_todos_json := sum_todos_json row, sum_model := sum_model row, sum_generated_at := sum_generated_at row\<rparr>"

definition store_summary ::
    "relay_ai \<Rightarrow> pystr \<Rightarrow> pystr \<Rightarrow> pydate \<Rightarrow> pystr \<times> pystr list \<times> pystr list \<Rightarrow> pystr \<Rightarrow> database \<Rightarrow> database res" where
  "store_summary ai now device_id day r model db =
     (let row = report_row ai now device_id day r model in
      rbind (rmap sql_text [sum_summary row, sum_keywords_json row, sum_todos_json row, model]) (\<lambda>_.
        Inr (db\<lparr>daily_summaries := sql_upsert sum_key (merge_report row) row (daily_summaries db)\<rparr>)))"

text \<open>The first transaction: store the records, read the day.\<close>

definition open_day ::
    "relay_env \<Rightarrow> int \<Rightarrow> sync_in \<Rightarrow> database \<Rightarrow> (database \<times> conversation_row list \<times> photo_row list) res" where
  "open_day env now payload db =
     rbind (now_text env now) (\<lambda>n.
     rbind (store_records env n payload db) (\<lambda>db1.
     rbind (records_for_day env db1 (in_device_id payload) (in_date payload)) (\<lambda>rows.
     rbind (photos_for_day env db1 (in_device_id payload) (in_date payload)) (\<lambda>photos.
       Inr (db1, rows, photos)))))"

text \<open>The last one: store the report, read the photos again.\<close>

definition close_day ::
    "relay_env \<Rightarrow> relay_ai \<Rightarrow> int \<Rightarrow> sync_in \<Rightarrow> pystr \<times> pystr list \<times> pystr list \<Rightarrow> pystr \<Rightarrow> database
       \<Rightarrow> (database \<times> pystr \<times> photo_row list) res" where
  "close_day env ai now payload r model db =
     rbind (now_text env now) (\<lambda>generated_at.
     rbind (store_summary ai generated_at (in_device_id payload) (in_date payload) r model db) (\<lambda>db1.
     rbind (photos_for_day env db1 (in_device_id payload) (in_date payload)) (\<lambda>photos.
       Inr (db1, generated_at, photos))))"

definition day_response ::
    "sync_in \<Rightarrow> conversation_row list \<Rightarrow> pystr \<times> pystr list \<times> pystr list \<Rightarrow> pystr \<Rightarrow> pystr \<Rightarrow> photo_row list
       \<Rightarrow> lifelog_out res" where
  "day_response payload rows r model generated_at photos = (case r of (text, ks, ts) \<Rightarrow>
     rbind (rmap record_out_of rows) (\<lambda>records.
     rbind (fromisoformat generated_at) (\<lambda>t.
     rbind (rmap (photo_out_of (in_device_id payload)) photos) (\<lambda>pics.
       Inr \<lparr>log_date = in_date payload, log_records = records,
            log_summary = Some \<lparr>sout_summary = text, sout_keywords = ks, sout_todos = ts,
              sout_model = model, sout_generated_at = t\<rparr>,
            log_photos = pics\<rparr>))))"

definition sync_and_summarize ::
    "relay_env \<Rightarrow> relay_ai \<Rightarrow> (nat \<Rightarrow> int) \<Rightarrow> (nat \<Rightarrow> server \<Rightarrow> server) \<Rightarrow> sync_in \<Rightarrow> server
       \<Rightarrow> server \<times> (http_error + lifelog_out)" where
  "sync_and_summarize env ai clock others payload st =
     (if \<not> valid_sync_in payload then (st, Inl (HTTPException 422))
      else case open_day env (clock 0) payload (srv_db st) of
        Inl e \<Rightarrow> (st, Inl (Unhandled e))
      | Inr (db, rows, photos) \<Rightarrow>
          let st1 = begin_day payload db st in
          if rows = [] \<and> photos = [] then (st1, Inl (HTTPException 422))
          else case ensure_photo_captions env ai (clock \<circ> Suc) others (in_device_id payload) (in_date payload) photos st1 of
            (st2, Inl e) \<Rightarrow> (st2, Inl e)
          | (st2, Inr photos2) \<Rightarrow>
              let n = length photos; st3 = others (2 * n) st2; st4 = others (2 * n + 1) st3;
                  model = summary_model ai photos2 in
              (case generate_summary env ai n (srv_ollama_url st3) rows photos2 of
                 Inl e \<Rightarrow> (st4, Inl e)
               | Inr r \<Rightarrow>
                   (case close_day env ai (clock (Suc n)) payload r model (srv_db st4) of
                      Inl e \<Rightarrow> (st4, Inl (Unhandled e))
                    | Inr (db5, generated_at, photos5) \<Rightarrow>
                        (put_db db5 st4,
                         (case day_response payload rows r model generated_at photos5 of
                            Inl e \<Rightarrow> Inl (Unhandled e) | Inr out \<Rightarrow> Inr out)))))"

section \<open>Page copy\<close>

definition page_context :: "pystr \<Rightarrow> pystr option" where
  "page_context page = map_of
     [(u ''home'', page_home), (u ''skills'', page_skills), (u ''stream'', page_stream),
      (u ''debug'', page_debug), (u ''lifelog'', page_lifelog), (u ''iot'', page_iot)] page"

definition copy_payload :: "relay_ai \<Rightarrow> pystr \<Rightarrow> json" where
  "copy_payload ai context_text = JObj
     [(u ''model'', JStr (ai_model ai)),
      (u ''prompt'', JStr (copy_prompt_head @ context_text @ copy_prompt_tail)),
      (u ''format'', JObj
        [(u ''type'', JStr (u ''object'')),
         (u ''properties'', JObj
           [(u ''title'', JObj [(u ''type'', JStr (u ''string''))]),
            (u ''body'', JObj [(u ''type'', JStr (u ''string''))])]),
         (u ''required'', JList [JStr (u ''title''), JStr (u ''body'')])]),
      (u ''stream'', JBool False),
      (u ''options'', JObj [(u ''temperature'', JFloat (8106479329266893 / 9007199254740992))])]"

definition read_copy :: "relay_ai \<Rightarrow> json \<Rightarrow> (pystr \<times> pystr) res" where
  "read_copy ai result =
     rbind (jindex result (u ''response'')) (\<lambda>raw.
     rbind (case raw of JStr s \<Rightarrow> json_loads (ai_float ai) s | _ \<Rightarrow> Inl TypeError) (\<lambda>parsed.
     rbind (jindex parsed (u ''title'')) (\<lambda>title.
     rbind (jindex parsed (u ''body'')) (\<lambda>body.
       Inr (take 80 (strip (py_str ai title)), take 160 (strip (py_str ai body)))))))"

text \<open>\<open>page\<close> has passed the request model's pattern, which allows exactly the keys of
  \<open>contexts\<close>; for another page it answers 422.\<close>

definition page_copy :: "relay_ai \<Rightarrow> pystr \<Rightarrow> pystr \<Rightarrow> http_error + pystr \<times> pystr" where
  "page_copy ai url page = (case page_context page of
       None \<Rightarrow> Inl (HTTPException 422)
     | Some text \<Rightarrow>
         (case rbind (encode_payload ai (copy_payload ai text)) (\<lambda>payload.
               rbind (ollama_request ai 0 url payload) (read_copy ai)) of
            Inl e \<Rightarrow> Inl (unavailable caught_report e)
          | Inr r \<Rightarrow> Inr r))"

end
