(* ===== verification/Relay_Settings.thy ===== *)
theory Relay_Settings
  imports Relay_Summary
begin

text \<open>
  The settings of the relay server (\<open>LifeLens_WebApp,Server/server.py\<close>): the \<open>.env\<close> file, the
  check of the Ollama address, its saved copy, and the presentation control.  \<open>urlsplit\<close> and
  the attributes of its result are those of Python's \<open>urllib.parse\<close>; its checks of a bracketed
  or non-ASCII host are the parameter \<open>netloc_ok\<close>.
\<close>

section \<open>urlsplit\<close>

record split_url =
  url_scheme :: pystr
  url_netloc :: pystr
  url_path :: pystr
  url_query :: pystr
  url_fragment :: pystr

definition lower_ascii :: "nat \<Rightarrow> nat" where
  "lower_ascii c = (if 65 \<le> c \<and> c \<le> 90 then c + 32 else c)"

definition is_letter :: "nat \<Rightarrow> bool" where
  "is_letter c \<longleftrightarrow> 65 \<le> c \<and> c \<le> 90 \<or> 97 \<le> c \<and> c \<le> 122"

definition scheme_char :: "nat \<Rightarrow> bool" where
  "scheme_char c \<longleftrightarrow> is_letter c \<or> is_digit c \<or> c = 43 \<or> c = 45 \<or> c = 46"

text \<open>\<open>s.partition(sep)\<close> and \<open>s.rpartition(sep)\<close> of one character; the flag says whether it occurs.\<close>

definition partition_at :: "nat \<Rightarrow> pystr \<Rightarrow> pystr \<times> bool \<times> pystr" where
  "partition_at c s = (if c \<in> set s then (takeWhile (\<lambda>x. x \<noteq> c) s, True, tl (dropWhile (\<lambda>x. x \<noteq> c) s))
     else (s, False, []))"

definition rpartition_at :: "nat \<Rightarrow> pystr \<Rightarrow> pystr \<times> bool \<times> pystr" where
  "rpartition_at c s = (if c \<in> set s
     then (rev (tl (dropWhile (\<lambda>x. x \<noteq> c) (rev s))), True, rev (takeWhile (\<lambda>x. x \<noteq> c) (rev s)))
     else ([], False, s))"

definition split_scheme :: "pystr \<Rightarrow> pystr \<times> pystr" where
  "split_scheme s = (case partition_at 58 s of (a, found, b) \<Rightarrow>
     if found \<and> a \<noteq> [] \<and> is_letter (hd a) \<and> list_all scheme_char a then (map lower_ascii a, b) else ([], s))"

definition url_delimiter :: "nat \<Rightarrow> bool" where
  "url_delimiter c \<longleftrightarrow> c = 47 \<or> c = 63 \<or> c = 35"

definition urlsplit :: "(pystr \<Rightarrow> bool) \<Rightarrow> pystr \<Rightarrow> split_url res" where
  "urlsplit netloc_ok text =
     (let s = filter (\<lambda>c. c \<noteq> 9 \<and> c \<noteq> 13 \<and> c \<noteq> 10) (dropWhile (\<lambda>c. c \<le> 32) text) in
      case split_scheme s of (scheme, r) \<Rightarrow>
        let slashes = (take 2 r = [47, 47]); after = drop 2 r;
            netloc = (if slashes then takeWhile (\<lambda>c. \<not> url_delimiter c) after else []);
            rest = (if slashes then dropWhile (\<lambda>c. \<not> url_delimiter c) after else r) in
        if (91 \<in> set netloc) \<noteq> (93 \<in> set netloc) \<or> \<not> netloc_ok netloc then Inl ValueError
        else case partition_at 35 rest of (r1, _, fragment) \<Rightarrow> (case partition_at 63 r1 of (path, _, query) \<Rightarrow>
          Inr \<lparr>url_scheme = scheme, url_netloc = netloc, url_path = path, url_query = query,
               url_fragment = fragment\<rparr>))"

definition host_info :: "pystr \<Rightarrow> pystr \<times> pystr" where
  "host_info netloc = (case rpartition_at 64 netloc of (_, _, hostinfo) \<Rightarrow>
     case partition_at 91 hostinfo of (_, bracket, inner) \<Rightarrow>
       if bracket then
         (case partition_at 93 inner of (host, _, after) \<Rightarrow> (case partition_at 58 after of (_, _, port) \<Rightarrow> (host, port)))
       else (case partition_at 58 hostinfo of (host, _, port) \<Rightarrow> (host, port)))"

definition user_info :: "pystr \<Rightarrow> pystr \<times> pystr" where
  "user_info netloc = (case rpartition_at 64 netloc of (user, found, _) \<Rightarrow>
     if found then (case partition_at 58 user of (name, _, password) \<Rightarrow> (name, password)) else ([], []))"

text \<open>\<open>parsed.port\<close>, of which only the exception matters.\<close>

definition check_port :: "pystr \<Rightarrow> unit res" where
  "check_port port =
     (if port = [] \<or> list_all is_digit port \<and> length port \<le> 4300 \<and> digits_value 0 port \<le> 65535
      then Inr () else Inl ValueError)"

section \<open>The Ollama address\<close>

text \<open>The argument is \<open>str(value or "")\<close>.\<close>

definition normalize_ollama_url :: "(pystr \<Rightarrow> bool) \<Rightarrow> pystr \<Rightarrow> pystr res" where
  "normalize_ollama_url netloc_ok value =
     (let url = rstrip_by (\<lambda>c. c = 47) (strip value) in
      rbind (urlsplit netloc_ok url) (\<lambda>parsed.
        if url_scheme parsed \<notin> {u ''http'', u ''https''} \<or> fst (host_info (url_netloc parsed)) = []
           \<or> url_path parsed \<notin> {[], [47]} then Inl ValueError
        else if fst (user_info (url_netloc parsed)) \<noteq> [] \<or> snd (user_info (url_netloc parsed)) \<noteq> []
           \<or> url_query parsed \<noteq> [] \<or> url_fragment parsed \<noteq> [] then Inl ValueError
        else rbind (check_port (snd (host_info (url_netloc parsed)))) (\<lambda>_. Inr url)))"

text \<open>The settings file is \<open>json.dumps({"ollama_url": ...}, ensure_ascii=False, indent=2)\<close>, written
  beside its place and then moved there.\<close>

definition settings_text :: "pystr \<Rightarrow> pystr" where
  "settings_text url = [123, 10, 32, 32] @ json_string (u ''ollama_url'') @ [58, 32] @ json_string url @ [10, 125]"

definition save_ollama_url :: "(pystr \<Rightarrow> bool) \<Rightarrow> pystr \<Rightarrow> server \<Rightarrow> server \<times> pystr res" where
  "save_ollama_url netloc_ok value st =
     (case rbind (normalize_ollama_url netloc_ok value) (\<lambda>url.
           rbind (utf8_encode (settings_text url)) (\<lambda>_. Inr url)) of
        Inl e \<Rightarrow> (st, Inl e)
      | Inr url \<Rightarrow> (st\<lparr>srv_settings := Some (settings_text url), srv_ollama_url := url\<rparr>, Inr url))"

definition update_ollama_settings ::
    "(pystr \<Rightarrow> bool) \<Rightarrow> pystr \<Rightarrow> server \<Rightarrow> server \<times> (http_error + pystr)" where
  "update_ollama_settings netloc_ok value st =
     (if \<not> between 8 500 value then (st, Inl (HTTPException 422))
      else case save_ollama_url netloc_ok value st of
        (st', Inl e) \<Rightarrow> (st', Inl (if e \<in> {ValueError, UnicodeError} then HTTPException 422 else Unhandled e))
      | (st', Inr url) \<Rightarrow> (st', Inr url))"

definition get_ollama_settings :: "relay_ai \<Rightarrow> server \<Rightarrow> pystr \<times> pystr \<times> pystr" where
  "get_ollama_settings ai st = (srv_ollama_url st, ai_model ai, ai_vision_model ai)"

text \<open>The address a restarted server uses: what the settings file says, else the environment's.
  A file that holds JSON other than an object has no \<open>get\<close>, which is not caught.\<close>

definition saved_ollama_url ::
    "(pystr \<Rightarrow> bool) \<Rightarrow> relay_ai \<Rightarrow> pystr \<Rightarrow> pystr option \<Rightarrow> pystr res" where
  "saved_ollama_url netloc_ok ai env_url settings =
     (let fallback = rstrip_by (\<lambda>c. c = 47) env_url in
      case settings of
        None \<Rightarrow> Inr fallback
      | Some text \<Rightarrow>
          (case rbind (json_loads (ai_float ai) text) (\<lambda>saved.
                rbind (jget_default saved (u ''ollama_url'') (JStr fallback)) (\<lambda>v.
                normalize_ollama_url netloc_ok (if truthy v then py_str ai v else []))) of
             Inl e \<Rightarrow> if e \<in> {OSError, URLError, HTTPError, ValueError, UnicodeError, JSONDecodeError, TypeError}
                       then Inr fallback else Inl e
           | Inr url \<Rightarrow> Inr url))"

section \<open>The environment file\<close>

text \<open>\<open>str.splitlines\<close>: a carriage return and a line feed together end one line.\<close>

definition line_end :: "nat \<Rightarrow> bool" where
  "line_end c \<longleftrightarrow> c \<in> {10, 11, 12, 13, 28, 29, 30, 133, 8232, 8233}"

fun split_lines :: "pystr \<Rightarrow> pystr \<Rightarrow> pystr list" where
  "split_lines acc [] = (if acc = [] then [] else [rev acc])"
| "split_lines acc [c] = (if line_end c then [rev acc] else [rev (c # acc)])"
| "split_lines acc (c # d # s) =
     (if c = 13 \<and> d = 10 then rev acc # split_lines [] s
      else if line_end c then rev acc # split_lines [] (d # s)
      else split_lines (c # acc) (d # s))"

definition env_line :: "pystr \<Rightarrow> (pystr \<times> pystr) option" where
  "env_line line = (case partition_at 61 line of (name, found, value) \<Rightarrow>
     if found \<and> \<not> starts 35 (dropWhile is_space line)
     then Some (strip name, strip_by (\<lambda>c. c = 34 \<or> c = 39) (strip value)) else None)"

text \<open>\<open>os.environ.setdefault\<close> keeps a variable that is already set; a name with \<open>=\<close> cannot
  occur, an empty name or a NUL is refused by the operating system and is not modelled.\<close>

definition set_default :: "pystr \<times> pystr \<Rightarrow> (pystr \<rightharpoonup> pystr) \<Rightarrow> (pystr \<rightharpoonup> pystr)" where
  "set_default kv environ = (case environ (fst kv) of None \<Rightarrow> environ(fst kv \<mapsto> snd kv) | Some _ \<Rightarrow> environ)"

definition load_env :: "pystr option \<Rightarrow> (pystr \<rightharpoonup> pystr) \<Rightarrow> (pystr \<rightharpoonup> pystr)" where
  "load_env file_text environ = (case file_text of
       None \<Rightarrow> environ
     | Some text \<Rightarrow> fold set_default (List.map_filter env_line (split_lines [] text)) environ)"

section \<open>Presentation control\<close>

datatype key_event = KeyDown nat | KeyUp nat

definition press_presentation_key :: "bool \<Rightarrow> pystr \<Rightarrow> key_event list res" where
  "press_presentation_key windows action =
     (if \<not> windows then Inl RuntimeError
      else let key = (if action = u ''next'' then 39 else 37) in Inr [KeyDown key, KeyUp key])"

definition presentation_control :: "bool \<Rightarrow> pystr \<Rightarrow> http_error + key_event list" where
  "presentation_control windows action =
     (if action \<notin> {u ''next'', u ''previous''} then Inl (HTTPException 422)
      else case press_presentation_key windows action of
        Inl e \<Rightarrow> Inl (if e = RuntimeError then HTTPException 501 else Unhandled e)
      | Inr keys \<Rightarrow> Inr keys)"

end
