(* ===== verification/Relay_Queries.thy ===== *)
theory Relay_Queries
  imports Relay_Store
begin

text \<open>
  What the stored state of the relay server means to its clients: which rows a day query returns
  and in which order, what a sync stores, which requests leave the state alone, and which bytes
  \<open>get_photo\<close> answers.  The definitions are those of \<open>Relay_Store\<close>.
\<close>

section \<open>What the queries return\<close>

lemma day_select:
  assumes "valid_date day" "day_bounds localtz day = Inr (start, stop)" "is_stamp s"
  shows "start \<le> s \<and> s < stop \<longleftrightarrow> local_day app_time_zone (stamp_instant s) = toordinal day"
  using day_bounds_select [OF assms(1,2), of "stamp_instant s"] is_stampD [OF assms(3)] by simp

lemma sorted_stamps:
  assumes "sorted (map f xs)" "\<And>x. x \<in> set xs \<Longrightarrow> is_stamp (f x)"
  shows "sorted (map (\<lambda>x. stamp_instant (f x)) xs)"
  using assms by (induction xs) (auto simp: stamp_le)

lemma records_for_day_chronological:
  assumes ok: "db_ok db" and day: "valid_date day"
    and q: "records_for_day env db dev day = Inr rows"
  shows "set rows = {r \<in> set (conversation_records db). rec_device_id r = dev
      \<and> local_day app_time_zone (stamp_instant (rec_spoken_at r)) = toordinal day}"
    and "sorted (map (\<lambda>r. stamp_instant (rec_spoken_at r)) rows)"
    and "distinct rows"
proof -
  obtain start stop where b: "day_bounds (env_localtz env) day = Inr (start, stop)"
    and rows: "rows = sort_key rec_spoken_at (filter (\<lambda>r. rec_device_id r = dev
              \<and> start \<le> rec_spoken_at r \<and> rec_spoken_at r < stop) (conversation_records db))"
    using q by (auto simp: records_for_day_def rbind_eq_Inr)
  have st: "is_stamp (rec_spoken_at r)" if "r \<in> set (conversation_records db)" for r
    using ok that by (auto simp: db_ok_def list_all_iff)
  show "set rows = {r \<in> set (conversation_records db). rec_device_id r = dev
      \<and> local_day app_time_zone (stamp_instant (rec_spoken_at r)) = toordinal day}"
    unfolding rows set_sort_filter using day_select [OF day b st] by blast
  show "sorted (map (\<lambda>r. stamp_instant (rec_spoken_at r)) rows)"
    by (rule sorted_stamps) (auto simp: rows st)
  show "distinct rows"
    using ok by (auto simp: rows db_ok_def unique_key_def distinct_map)
qed

lemma photos_for_day_chronological:
  assumes ok: "db_ok db" and day: "valid_date day"
    and q: "photos_for_day env db dev day = Inr rows"
  shows "set rows = {r \<in> set (photo_records db). ph_device_id r = dev
      \<and> local_day app_time_zone (stamp_instant (ph_taken_at r)) = toordinal day}"
    and "sorted (map (\<lambda>r. stamp_instant (ph_taken_at r)) rows)"
    and "distinct rows"
proof -
  obtain start stop where b: "day_bounds (env_localtz env) day = Inr (start, stop)"
    and rows: "rows = sort_key ph_taken_at (filter (\<lambda>r. ph_device_id r = dev
              \<and> start \<le> ph_taken_at r \<and> ph_taken_at r < stop) (photo_records db))"
    using q by (auto simp: photos_for_day_def rbind_eq_Inr)
  have st: "is_stamp (ph_taken_at r)" if "r \<in> set (photo_records db)" for r
    using ok that by (auto simp: db_ok_def list_all_iff)
  show "set rows = {r \<in> set (photo_records db). ph_device_id r = dev
      \<and> local_day app_time_zone (stamp_instant (ph_taken_at r)) = toordinal day}"
    unfolding rows set_sort_filter using day_select [OF day b st] by blast
  show "sorted (map (\<lambda>r. stamp_instant (ph_taken_at r)) rows)"
    by (rule sorted_stamps) (auto simp: rows st)
  show "distinct rows"
    using ok by (auto simp: rows db_ok_def unique_key_def distinct_map)
qed

section \<open>What the writes store\<close>

lemma sync_lifelog_InrD:
  assumes "sync_lifelog env now payload st = (st', Inr k)"
  obtains n rows where "now_text env now = Inr n" "record_rows env n payload = Inr rows"
    "st' = st\<lparr>rel_db := (upsert_device (in_device_id payload) n (rel_db st))\<lparr>conversation_records :=
        sql_insert_ignore_many rec_key rows (conversation_records (rel_db st))\<rparr>\<rparr>"
    "k = length (in_records payload)" "valid_sync_in payload"
  using assms by (auto simp: sync_lifelog_def rbind_eq_Inr store_records_def Let_def split: if_splits sum.splits)

lemma sync_lifelog_Inl_frame: "sync_lifelog env now payload st = (st', Inl e) \<Longrightarrow> st' = st"
  by (auto simp: sync_lifelog_def split: if_splits sum.splits)

lemma record_rows_keys:
  assumes "record_rows env n payload = Inr rows"
  shows "map rec_key rows = map (\<lambda>r. (in_device_id payload, in_client_record_id r)) (in_records payload)"
proof -
  from assms have "list_all2 (\<lambda>x r. rec_key r = (in_device_id payload, in_client_record_id x))
      (in_records payload) rows"
    unfolding record_rows_def
    by (rule list_all2_mono [OF rmap_InrD]) (auto simp: rbind_eq_Inr rec_key_def)
  then show ?thesis by (auto simp: list_all2_conv_all_nth intro: nth_equalityI)
qed

lemma sync_lifelog_idempotent:
  assumes "sync_lifelog env n1 payload st = (st1, Inr k)"
    and "sync_lifelog env n2 payload st1 = (st2, r)" "in_range n2"
  shows "conversation_records (rel_db st2) = conversation_records (rel_db st1) \<and> r = Inr k"
proof -
  obtain n rows where n: "record_rows env n payload = Inr rows" "valid_sync_in payload"
    and st1: "st1 = st\<lparr>rel_db := (upsert_device (in_device_id payload) n (rel_db st))\<lparr>conversation_records :=
        sql_insert_ignore_many rec_key rows (conversation_records (rel_db st))\<rparr>\<rparr>"
    and k: "k = length (in_records payload)"
    using assms(1) by (rule sync_lifelog_InrD)
  let ?m = "isoformat_utc n2"
  have nt: "now_text env n2 = Inr ?m" using assms(3) by (simp add: now_text_def iso_utc)
  have rows2: "record_rows env ?m payload = Inr (map (\<lambda>r. r\<lparr>rec_received_at := ?m\<rparr>) rows)"
    unfolding record_rows_def
    by (rule rmap_change [OF n(1) [unfolded record_rows_def]]) (auto simp: rbind_eq_Inr)
  have "rec_key ` set (map (\<lambda>r. r\<lparr>rec_received_at := ?m\<rparr>) rows) \<subseteq> rec_key ` set (conversation_records (rel_db st1))"
    by (auto simp: st1 keys_insert_ignore_many image_image rec_key_def [of "_\<lparr>rec_received_at := _\<rparr>"]
        rec_key_def [symmetric])
  with rows2 show ?thesis
    using assms(2) n(2) nt k
    by (simp add: sync_lifelog_def store_records_def insert_ignore_known) auto
qed

lemma sync_lifelog_lookup:
  assumes "sync_lifelog env now payload st = (st', Inr k)"
  shows "map_option rec_text (sql_get rec_key (dev, rid) (conversation_records (rel_db st'))) =
    (case sql_get rec_key (dev, rid) (conversation_records (rel_db st)) of
       Some r \<Rightarrow> Some (rec_text r)
     | None \<Rightarrow> if dev = in_device_id payload
               then map_option in_text (find (\<lambda>x. in_client_record_id x = rid) (in_records payload))
               else None)"
proof -
  obtain n rows where rows: "record_rows env n payload = Inr rows"
    and st': "conversation_records (rel_db st') =
        sql_insert_ignore_many rec_key rows (conversation_records (rel_db st))"
    using assms by (rule sync_lifelog_InrD) simp
  have "map_option rec_text (sql_get rec_key (dev, rid) rows) = (if dev = in_device_id payload
               then map_option in_text (find (\<lambda>x. in_client_record_id x = rid) (in_records payload))
               else None)"
    using rmap_InrD [OF rows [unfolded record_rows_def]]
    by (induction rule: list_all2_induct) (auto simp: rbind_eq_Inr rec_key_def)
  then show ?thesis
    by (auto simp: st' sql_get_insert_ignore_many split: option.splits)
qed

lemma sync_lifelog_other_device:
  assumes "sync_lifelog env now payload st = (st', r)" "dev \<noteq> in_device_id payload"
  shows "records_for_day env (rel_db st') dev day = records_for_day env (rel_db st) dev day"
proof (cases r)
  case (Inl e)
  then show ?thesis using assms sync_lifelog_Inl_frame by blast
next
  case (Inr k)
  obtain n rows where rows: "record_rows env n payload = Inr rows"
    and st': "conversation_records (rel_db st') =
        sql_insert_ignore_many rec_key rows (conversation_records (rel_db st))"
    using assms(1) unfolding Inr by (rule sync_lifelog_InrD) simp
  have "filter (\<lambda>r. rec_device_id r = dev \<and> start \<le> rec_spoken_at r \<and> rec_spoken_at r < stop)
          (conversation_records (rel_db st'))
      = filter (\<lambda>r. rec_device_id r = dev \<and> start \<le> rec_spoken_at r \<and> rec_spoken_at r < stop)
          (conversation_records (rel_db st))" for start stop
    unfolding st' using record_rows_InrD [OF rows] assms(2)
    by (intro insert_ignore_many_filter_other) auto
  then show ?thesis by (simp add: records_for_day_def)
qed

section \<open>Photos\<close>

lemma photo_path_eq_iff:
  "photo_path env d p = photo_path env d' p' \<longleftrightarrow>
     sanitize d @ env_sep env @ sanitize p = sanitize d' @ env_sep env @ sanitize p'"
  by (simp add: photo_path_def photo_stem_def)

lemma sync_photo_InrD:
  assumes "sync_photo env now payload st = (st', Inr url)"
  obtains img n db new where "b64decode True (pin_image_base64 payload) = Inr img"
    "length img \<le> 8000000" "valid_photo_in payload"
    "photo_records (rel_db st') = sql_upsert ph_key (merge_photo new) new (photo_records (rel_db st))"
    "ph_key new = (pin_device_id payload, pin_client_photo_id payload)"
    "ph_file_path new = photo_path env (pin_device_id payload) (pin_client_photo_id payload)"
    "ph_vision_caption new = None"
    "rel_files st' = write_photo (upload_path env (pin_device_id payload) (pin_client_photo_id payload))
        (photo_path env (pin_device_id payload) (pin_client_photo_id payload)) img (rel_files st)"
    "url = photo_url (pin_device_id payload) (pin_client_photo_id payload)"
  using assms
  by (auto simp: sync_photo_def Let_def rbind_eq_Inr split: if_splits sum.splits elim!: store_photo_InrD)

lemma sync_photo_fetch:
  assumes "relay_ok env st" "sync_photo env now payload st = (st', Inr url)"
    "b64decode True (pin_image_base64 payload) = Inr img"
  shows "get_photo (pin_device_id payload) (pin_client_photo_id payload) st' = Inr img"
proof -
  let ?d = "pin_device_id payload" and ?p = "pin_client_photo_id payload"
  obtain new where ps: "photo_records (rel_db st') = sql_upsert ph_key (merge_photo new) new (photo_records (rel_db st))"
    and new: "ph_key new = (?d, ?p)" "ph_file_path new = photo_path env ?d ?p"
    and fs: "rel_files st' = write_photo (upload_path env ?d ?p) (photo_path env ?d ?p) img (rel_files st)"
    using assms(2) by (rule sync_photo_InrD) (use assms(3) in auto)
  have "sql_get ph_key (?d, ?p) (photo_records (rel_db st')) =
      Some (case sql_get ph_key (?d, ?p) (photo_records (rel_db st)) of None \<Rightarrow> new | Some r \<Rightarrow> merge_photo new r)"
    unfolding ps by (subst sql_get_upsert) (simp_all add: new)
  then show ?thesis
    by (auto simp: get_photo_def fs write_photo_file new split: option.splits)
qed

lemma sync_photo_cases:
  assumes "fst (sync_photo env now payload st) = st'"
  obtains (same) "st' = st"
  | (written) img where "rel_db st' = rel_db st" and "rel_files st' = write_photo
        (upload_path env (pin_device_id payload) (pin_client_photo_id payload))
        (photo_path env (pin_device_id payload) (pin_client_photo_id payload)) img (rel_files st)"
  | (stored) n img where "store_photo env n payload (rel_db st) = Inr (rel_db st')"
      "rel_files st' = write_photo
        (upload_path env (pin_device_id payload) (pin_client_photo_id payload))
        (photo_path env (pin_device_id payload) (pin_client_photo_id payload)) img (rel_files st)"
  using assms
  by (auto simp: sync_photo_def Let_def rbind_eq_Inr split: if_splits sum.splits)

lemma store_photo_other:
  assumes "store_photo env n payload db = Inr db'"
    "(d, p) \<noteq> (pin_device_id payload, pin_client_photo_id payload)"
  shows "sql_get ph_key (d, p) (photo_records db') = sql_get ph_key (d, p) (photo_records db)"
  using assms by (auto elim!: store_photo_InrD simp: sql_get_upsert)

lemma sync_photo_frame:
  assumes "relay_ok env st" "fst (sync_photo env now payload st) = st'"
    "photo_path env d p \<noteq> photo_path env (pin_device_id payload) (pin_client_photo_id payload)"
  shows "get_photo d p st' = get_photo d p st"
proof -
  have old: "ph_file_path r = photo_path env d p" if "sql_get ph_key (d, p) (photo_records (rel_db st)) = Some r" for r
    using sql_get_SomeD [OF that] assms(1) by (auto simp: relay_ok_def files_ok_def list_all_iff ph_key_def)
  have other: "(d, p) \<noteq> (pin_device_id payload, pin_client_photo_id payload)" using assms(3) by auto
  show ?thesis using assms(2)
  proof (cases rule: sync_photo_cases)
    case same
    then show ?thesis by simp
  next
    case written
    then show ?thesis using old assms(3) by (simp add: get_photo_def write_photo_file split: option.split)
  next
    case stored
    then show ?thesis using old assms(3) store_photo_other [OF stored(1) other]
      by (simp add: get_photo_def write_photo_file split: option.split)
  qed
qed

lemma sanitize_safe: "c \<in> set (sanitize s) \<Longrightarrow> safe_char c"
  by (auto simp: sanitize_def safe_char_def)

lemma sanitize_length [simp]: "length (sanitize s) = length s"
  by (simp add: sanitize_def)

lemma sync_lifelog_photos:
  "photo_records (rel_db (fst (sync_lifelog env now payload st))) = photo_records (rel_db st)"
  by (auto simp: sync_lifelog_def rbind_eq_Inr store_records_photos split: sum.splits)

section \<open>A concrete relay\<close>

text \<open>One device has synced three utterances and one photo; two utterances fall on 18 May 2024, KST.\<close>

definition demo_env :: relay_env where
  "demo_env = \<lparr>env_localtz = (\<lambda>_. 0), env_photo_dir = u ''photos'', env_sep = u ''/''\<rparr>"

definition demo_day :: pydate where
  "demo_day = \<lparr>d_year = 2024, d_month = 5, d_day = 18\<rparr>"

definition demo_sync :: sync_in where
  "demo_sync = \<lparr>in_device_id = u ''phone-01'', in_date = demo_day, in_records =
     [\<lparr>in_client_record_id = u ''b'', in_text = u ''later'',
       in_spoken_at = \<lparr>dt_wall = 63851583600000000, dt_offset = Some 0\<rparr>\<rparr>,
      \<lparr>in_client_record_id = u ''a'', in_text = u ''earlier'',
       in_spoken_at = \<lparr>dt_wall = 63851583500000000, dt_offset = None\<rparr>\<rparr>,
      \<lparr>in_client_record_id = u ''c'', in_text = u ''day before'',
       in_spoken_at = \<lparr>dt_wall = 63851497100000000, dt_offset = Some 0\<rparr>\<rparr>]\<rparr>"

definition demo_image :: "byte \<Rightarrow> byte list" where
  "demo_image b = replicate 24 b"

definition demo_photo :: "pystr \<Rightarrow> byte \<Rightarrow> photo_in" where
  "demo_photo pid b = \<lparr>pin_device_id = u ''phone-01'', pin_client_photo_id = pid,
     pin_taken_at = \<lparr>dt_wall = 63851583600000000, dt_offset = Some 0\<rparr>, pin_latitude = None,
     pin_longitude = None, pin_location_name = Some (u ''Seoul''),
     pin_image_base64 = b64encode (demo_image b)\<rparr>"

definition demo_now :: int where
  "demo_now = 63851590000000000"

definition demo_synced :: relay where
  "demo_synced = fst (sync_lifelog demo_env demo_now demo_sync empty_relay)"

definition demo_relay :: relay where
  "demo_relay = fst (sync_photo demo_env demo_now (demo_photo (u ''a/b'') 7) demo_synced)"

lemma demo_day_valid [simp]: "valid_date demo_day"
  by (simp add: demo_day_def valid_date_def days_in_month_def is_leap_def)

lemma demo_day_ordinal [simp]: "toordinal demo_day = 739024"
  by (simp add: demo_day_def toordinal_def days_before_year_def days_before_month_def is_leap_def)

lemma demo_relay_ok: "relay_ok demo_env demo_synced" "relay_ok demo_env demo_relay"
  by (simp_all add: demo_synced_def demo_relay_def sync_lifelog_ok sync_photo_ok relay_ok_empty)

lemma in_range_demo_now: "in_range demo_now" "in_range (demo_now + 1)"
  by (simp_all add: demo_now_def in_range_def max_instant_def max_ordinal_def)

lemmas time_run = max_ordinal_def in_range_def max_instant_def iso_def astimezone_utc_def
  now_text_def app_time_zone_def day_start_def Let_def
  iso_text.enc_less iso_text.enc_le iso_text.enc_eq

lemmas relay_run = sync_lifelog_def valid_sync_in_def valid_record_in_def between_def
  store_records_def record_rows_def upsert_device_def sql_insert_ignore_many_def
  sql_insert_ignore_def rec_key_def ph_key_def empty_relay_def records_for_day_def
  photos_for_day_def day_bounds_cases sync_photo_def valid_photo_in_def store_photo_def
  b64decode_b64encode length_b64encode demo_env_def demo_sync_def demo_photo_def demo_now_def

lemma demo_sync_run: "sync_lifelog demo_env demo_now demo_sync empty_relay = (demo_synced, Inr 3)"
proof -
  have "snd (sync_lifelog demo_env demo_now demo_sync empty_relay) = Inr 3"
    by (simp add: relay_run time_run)
  then show ?thesis unfolding demo_synced_def by (metis prod.collapse)
qed

lemma sync_photo_success:
  assumes "valid_photo_in payload" "b64decode True (pin_image_base64 payload) = Inr img"
    "length img \<le> 8000000" "now_text env now = Inr n" "store_photo env n payload (rel_db st) = Inr db"
  shows "sync_photo env now payload st =
    (st\<lparr>rel_files := write_photo (upload_path env (pin_device_id payload) (pin_client_photo_id payload))
        (photo_path env (pin_device_id payload) (pin_client_photo_id payload)) img (rel_files st),
      rel_db := db\<rparr>, Inr (photo_url (pin_device_id payload) (pin_client_photo_id payload)))"
  using assms by (simp add: sync_photo_def Let_def)

lemma store_photo_total:
  "in_range (dt_wall (pin_taken_at payload)) \<Longrightarrow> dt_offset (pin_taken_at payload) = Some 0 \<Longrightarrow>
    \<exists>db'. store_photo env n payload db = Inr db'"
  by (simp add: store_photo_def Let_def iso_def astimezone_utc_def)

lemma length_demo_image [simp]: "length (demo_image b) = 24"
  by (simp add: demo_image_def)

lemma demo_photo_sync:
  assumes "pid \<in> {u ''a/b'', u ''a_b''}"
  shows "\<exists>st'. sync_photo demo_env demo_now (demo_photo pid b) st = (st', Inr (photo_url (u ''phone-01'') pid))
    \<and> store_photo demo_env (isoformat_utc demo_now) (demo_photo pid b) (rel_db st) = Inr (rel_db st')"
proof -
  have "valid_photo_in (demo_photo pid b)"
    using assms by (auto simp: valid_photo_in_def demo_photo_def between_def length_b64encode)
  moreover have "\<exists>db'. store_photo demo_env (isoformat_utc demo_now) (demo_photo pid b) (rel_db st) = Inr db'"
    by (rule store_photo_total) (simp_all add: demo_photo_def time_run)
  moreover have "now_text demo_env demo_now = Inr (isoformat_utc demo_now)"
    using in_range_demo_now by (simp add: now_text_def iso_utc)
  ultimately show ?thesis
    by (auto simp: sync_photo_success [where img = "demo_image b" and n = "isoformat_utc demo_now"]
        b64decode_b64encode demo_photo_def)
qed

lemma demo_photo_run: "sync_photo demo_env demo_now (demo_photo (u ''a/b'') 7) demo_synced
    = (demo_relay, Inr (photo_url (u ''phone-01'') (u ''a/b'')))"
  using demo_photo_sync [of "u ''a/b''" 7 demo_synced] unfolding demo_relay_def by auto

lemma demo_day_rows: "\<exists>rows. records_for_day demo_env (rel_db demo_synced) (u ''phone-01'') demo_day = Inr rows
    \<and> map rec_text rows = [u ''earlier'', u ''later'']"
  by (simp add: demo_synced_def relay_run time_run)

lemma demo_day_photos: "\<exists>rows. photos_for_day demo_env (rel_db demo_relay) (u ''phone-01'') demo_day = Inr rows
    \<and> map ph_client_photo_id rows = [u ''a/b'']"
proof -
  have "store_photo demo_env (isoformat_utc demo_now) (demo_photo (u ''a/b'') 7) (rel_db demo_synced) = Inr (rel_db demo_relay)"
    using demo_photo_sync [of "u ''a/b''" 7 demo_synced] demo_photo_run by auto
  moreover have "photo_records (rel_db demo_synced) = []"
    by (simp add: demo_synced_def sync_lifelog_photos empty_relay_def)
  ultimately have "photo_records (rel_db demo_relay) = [r] \<Longrightarrow> ph_key r = (u ''phone-01'', u ''a/b'')
      \<and> ph_taken_at r = isoformat_utc 63851583600000000" "length (photo_records (rel_db demo_relay)) = 1" for r
    by (auto simp: store_photo_def Let_def demo_photo_def iso_utc time_run ph_key_def
        dest!: sym [of _ "rel_db demo_relay"])
  then obtain r where r: "photo_records (rel_db demo_relay) = [r]" "ph_key r = (u ''phone-01'', u ''a/b'')"
      "ph_taken_at r = isoformat_utc 63851583600000000"
    by (cases "photo_records (rel_db demo_relay)") (simp_all only: list.size, auto)
  show ?thesis using r(2)
    by (simp add: photos_for_day_def day_bounds_cases time_run ph_key_def r(1,3))
qed

text \<open>What an accepted upload does to another photo of the same path.\<close>

lemma sync_photo_clobbers:
  assumes "relay_ok env st" "sync_photo env now payload st = (st', Inr url)"
    "b64decode True (pin_image_base64 payload) = Inr img"
    "photo_path env d p = photo_path env (pin_device_id payload) (pin_client_photo_id payload)"
    "get_photo d p st = Inr old"
  shows "get_photo d p st' = Inr img"
proof (cases "(d, p) = (pin_device_id payload, pin_client_photo_id payload)")
  case True
  then show ?thesis using sync_photo_fetch [OF assms(1-3)] by simp
next
  case False
  obtain row where row: "sql_get ph_key (d, p) (photo_records (rel_db st)) = Some row"
    using assms(5) by (auto simp: get_photo_def split: option.splits)
  then have path: "ph_file_path row = photo_path env d p"
    using sql_get_SomeD [OF row] assms(1) by (auto simp: relay_ok_def files_ok_def list_all_iff ph_key_def)
  obtain new where "photo_records (rel_db st') = sql_upsert ph_key (merge_photo new) new (photo_records (rel_db st))"
    and "ph_key new = (pin_device_id payload, pin_client_photo_id payload)"
    and "rel_files st' = write_photo (upload_path env (pin_device_id payload) (pin_client_photo_id payload))
        (photo_path env (pin_device_id payload) (pin_client_photo_id payload)) img (rel_files st)"
    using assms(2) by (rule sync_photo_InrD) (use assms(3) in auto)
  moreover from this False row have "sql_get ph_key (d, p) (photo_records (rel_db st')) = Some row"
    by (auto simp: sql_get_upsert)
  ultimately show ?thesis
    using path assms(4) by (simp add: get_photo_def write_photo_file)
qed

section \<open>Properties\<close>

text \<open>C15: A day's records are exactly the device's utterances spoken on that KST day, each once, in
  the order they were spoken.\<close>

theorem day_records_exact:
  assumes "relay_ok env st" "valid_date day"
    and "records_for_day env (rel_db st) dev day = Inr rows"
  shows "set rows = {r \<in> set (conversation_records (rel_db st)). rec_device_id r = dev
           \<and> local_day app_time_zone (stamp_instant (rec_spoken_at r)) = toordinal day}
    \<and> distinct rows \<and> sorted (map (\<lambda>r. stamp_instant (rec_spoken_at r)) rows)"
  using records_for_day_chronological [OF _ assms(2,3)] assms(1) by (simp add: relay_ok_def)

theorem day_records_exact_witness:
  "\<exists>rows. map rec_text rows = [u ''earlier'', u ''later'']
    \<and> set rows = {r \<in> set (conversation_records (rel_db demo_synced)). rec_device_id r = u ''phone-01''
           \<and> local_day app_time_zone (stamp_instant (rec_spoken_at r)) = 739024}"
proof -
  obtain rows where r: "records_for_day demo_env (rel_db demo_synced) (u ''phone-01'') demo_day = Inr rows"
    "map rec_text rows = [u ''earlier'', u ''later'']" by (insert demo_day_rows, elim exE conjE, rule that)
  note exact = day_records_exact [OF demo_relay_ok(1) demo_day_valid r(1), unfolded demo_day_ordinal]
  show ?thesis by (intro exI [of _ rows] conjI) (rule r(2), rule exact [THEN conjunct1])
qed

text \<open>A day's photos are exactly the device's photos taken on that KST day, each once, in the
  order they were taken.\<close>

theorem day_photos_exact:
  assumes "relay_ok env st" "valid_date day"
    and "photos_for_day env (rel_db st) dev day = Inr rows"
  shows "set rows = {r \<in> set (photo_records (rel_db st)). ph_device_id r = dev
           \<and> local_day app_time_zone (stamp_instant (ph_taken_at r)) = toordinal day}
    \<and> distinct rows \<and> sorted (map (\<lambda>r. stamp_instant (ph_taken_at r)) rows)"
  using photos_for_day_chronological [OF _ assms(2,3)] assms(1) by (simp add: relay_ok_def)

theorem day_photos_exact_witness:
  "\<exists>rows :: photo_row list. map ph_client_photo_id rows = [u ''a/b''] \<and> distinct rows"
proof -
  obtain rows where r: "photos_for_day demo_env (rel_db demo_relay) (u ''phone-01'') demo_day = Inr rows"
    "map ph_client_photo_id rows = [u ''a/b'']" by (insert demo_day_photos, elim exE conjE, rule that)
  note exact = day_photos_exact [OF demo_relay_ok(2) demo_day_valid r(1)]
  show ?thesis by (intro exI [of _ rows] conjI) (rule r(2), rule exact [THEN conjunct2 [THEN conjunct1]])
qed

text \<open>C16: A successful sync answers the number of records it was sent; afterwards a record the
  device already had keeps its old text, a new one has the text of its first occurrence in the
  request, and no other record appears.\<close>

theorem sync_lifelog_stores:
  assumes "sync_lifelog env now payload st = (st', Inr k)"
  shows "k = length (in_records payload)
    \<and> map_option rec_text (sql_get rec_key (dev, rid) (conversation_records (rel_db st'))) =
    (case sql_get rec_key (dev, rid) (conversation_records (rel_db st)) of
       Some r \<Rightarrow> Some (rec_text r)
     | None \<Rightarrow> if dev = in_device_id payload
               then map_option in_text (find (\<lambda>x. in_client_record_id x = rid) (in_records payload))
               else None)"
  using sync_lifelog_lookup [OF assms] sync_lifelog_InrD [OF assms] by metis

theorem sync_lifelog_stores_witness:
  "map_option rec_text (sql_get rec_key (u ''phone-01'', u ''a'') (conversation_records (rel_db demo_synced)))
    = Some (u ''earlier'')"
  using sync_lifelog_stores [OF demo_sync_run, of "u ''phone-01''" "u ''a''"]
  by (simp add: demo_sync_def empty_relay_def)

text \<open>Sending the same records again, at any later time, changes no stored record and answers
  the same count: a client may retry a sync.\<close>

theorem sync_lifelog_retry:
  assumes "sync_lifelog env n1 payload st = (st1, Inr k)"
    and "sync_lifelog env n2 payload st1 = (st2, r)" "in_range n2"
  shows "conversation_records (rel_db st2) = conversation_records (rel_db st1) \<and> r = Inr k"
  using assms by (rule sync_lifelog_idempotent)

theorem sync_lifelog_retry_witness:
  "snd (sync_lifelog demo_env (demo_now + 1) demo_sync demo_synced) = Inr 3"
  using sync_lifelog_retry [OF demo_sync_run, of "demo_now + 1"]
  by (metis in_range_demo_now prod.collapse)

text \<open>C21: A sync of one device, failed or not, leaves every day query of every other device alone.\<close>

theorem sync_lifelog_isolated:
  assumes "sync_lifelog env now payload st = (st', r)" "dev \<noteq> in_device_id payload"
  shows "records_for_day env (rel_db st') dev day = records_for_day env (rel_db st) dev day"
  using assms by (rule sync_lifelog_other_device)

theorem sync_lifelog_isolated_witness:
  "records_for_day demo_env (rel_db demo_synced) (u ''phone-02'') demo_day
    = records_for_day demo_env (rel_db empty_relay) (u ''phone-02'') demo_day"
  by (rule sync_lifelog_isolated [OF demo_sync_run]) (simp add: demo_sync_def)

text \<open>C17: A photo that was accepted is the photo the server then serves under its identifiers, byte
  for byte.\<close>

theorem photo_upload_fetch:
  assumes "relay_ok env st" "sync_photo env now payload st = (st', Inr url)"
    "b64decode True (pin_image_base64 payload) = Inr img"
  shows "get_photo (pin_device_id payload) (pin_client_photo_id payload) st' = Inr img"
  using assms by (rule sync_photo_fetch)

theorem photo_upload_fetch_witness:
  "get_photo (u ''phone-01'') (u ''a/b'') demo_relay = Inr (demo_image 7)"
  using photo_upload_fetch [OF demo_relay_ok(1) demo_photo_run, of "demo_image 7"]
  by (simp add: demo_photo_def b64decode_b64encode)

text \<open>Uploading a photo changes no photo stored under another path.\<close>

theorem photo_upload_frame:
  assumes "relay_ok env st" "fst (sync_photo env now payload st) = st'"
    "photo_path env d p \<noteq> photo_path env (pin_device_id payload) (pin_client_photo_id payload)"
  shows "get_photo d p st' = get_photo d p st"
  using assms by (rule sync_photo_frame)

theorem photo_upload_frame_witness:
  "get_photo (u ''phone-01'') (u ''c'') demo_relay = get_photo (u ''phone-01'') (u ''c'') demo_synced"
  by (rule photo_upload_frame [OF demo_relay_ok(1) demo_relay_def [symmetric]])
    (simp add: demo_photo_def photo_path_eq_iff sanitize_def safe_char_def demo_env_def)

text \<open>The identifiers of a request cannot leave the photo directory: below it the path is one
  directory and one file name built from ASCII letters, digits, underscores and hyphens only.\<close>

theorem photo_path_confined:
  "\<exists>folder name. photo_path env device_id client_photo_id
      = env_photo_dir env @ env_sep env @ folder @ env_sep env @ name @ u ''.jpg''
    \<and> list_all safe_char folder \<and> list_all safe_char name
    \<and> length folder = length device_id \<and> length name = length client_photo_id"
proof -
  have "list_all safe_char (sanitize s)" for s
    using sanitize_safe by (auto simp: list_all_iff)
  then show ?thesis
    by (intro exI [of _ "sanitize device_id"] exI [of _ "sanitize client_photo_id"])
      (simp add: photo_path_def photo_stem_def)
qed

text \<open>C34: Photos whose identifiers differ only in characters outside the safe alphabet share a file:
  once the server has accepted the second, it answers the second's bytes for the first.\<close>

theorem photo_path_collision:
  assumes "relay_ok env st" "sync_photo env now payload st = (st', Inr url)"
    "b64decode True (pin_image_base64 payload) = Inr img"
    "sanitize d = sanitize (pin_device_id payload)" "sanitize p = sanitize (pin_client_photo_id payload)"
    "get_photo d p st = Inr old"
  shows "get_photo d p st' = Inr img"
  using sync_photo_clobbers [OF assms(1-3) _ assms(6)] assms(4,5) by (simp add: photo_path_eq_iff)

theorem photo_path_collision_witness:
  "get_photo (u ''phone-01'') (u ''a/b'') demo_relay = Inr (demo_image 7)
   \<and> get_photo (u ''phone-01'') (u ''a/b'')
       (fst (sync_photo demo_env demo_now (demo_photo (u ''a_b'') 9) demo_relay)) = Inr (demo_image 9)"
proof -
  have a: "get_photo (u ''phone-01'') (u ''a/b'') demo_relay = Inr (demo_image 7)"
    using sync_photo_fetch [OF demo_relay_ok(1) demo_photo_run, of "demo_image 7"]
    by (simp add: demo_photo_def b64decode_b64encode)
  obtain st' where run: "sync_photo demo_env demo_now (demo_photo (u ''a_b'') 9) demo_relay
      = (st', Inr (photo_url (u ''phone-01'') (u ''a_b'')))"
    using demo_photo_sync [of "u ''a_b''" 9 demo_relay] by auto
  have "get_photo (u ''phone-01'') (u ''a/b'') st' = Inr (demo_image 9)"
    by (rule photo_path_collision [OF demo_relay_ok(2) run _ _ _ a])
      (simp_all add: demo_photo_def b64decode_b64encode sanitize_def safe_char_def)
  with a run show ?thesis by simp
qed

text \<open>C35: A KST day has query bounds unless it is the first or the last day a date can hold; for
  those two the server raises instead of answering.\<close>

theorem day_bounds_defined:
  assumes "valid_date d"
  shows "day_bounds localtz d =
    (if toordinal d = max_ordinal then Inl ValueError
     else if toordinal d = 1 then Inl OverflowError
     else Inr (isoformat_utc (day_start app_time_zone (toordinal d)),
               isoformat_utc (day_start app_time_zone (toordinal d + 1))))"
  using assms by (rule day_bounds_cases)

theorem day_bounds_defined_witness:
  "day_bounds (\<lambda>_. 0) \<lparr>d_year = 9999, d_month = 12, d_day = 31\<rparr> = Inl ValueError"
  using day_bounds_defined [of "\<lparr>d_year = 9999, d_month = 12, d_day = 31\<rparr>" "\<lambda>_. 0"]
  by (simp add: valid_date_def days_in_month_def is_leap_def toordinal_def days_before_year_def
      days_before_month_def max_ordinal_def)

end
