(* ===== verification/Relay_Server.thy ===== *)
theory Relay_Server
  imports Relay_Settings Relay_Queries
begin

text \<open>
  The relay server as a state machine: one event for every atomic piece of a handler that
  changes state, that is, for every transaction, upload and change of a setting.  The long
  handler \<open>sync_and_summarize\<close> is a sequence of such pieces with the events of other requests
  between them (\<open>summarize_reach\<close>).  Every event keeps \<open>server_ok\<close>: the well-formed database and
  photo files of \<open>Relay_Store\<close>, and reports whose keyword and to-do columns hold the JSON of at
  most five and ten strings.
\<close>

section \<open>The invariant of stored reports\<close>

definition string_list_json :: "nat \<Rightarrow> pystr \<Rightarrow> bool" where
  "string_list_json n s = (case rbind (json_loads (\<lambda>_. JNull) s) strings_of of
       Inl _ \<Rightarrow> False
     | Inr ss \<Rightarrow> length ss \<le> n \<and> s = json_dumps (\<lambda>_. []) (JList (map JStr ss)))"

definition report_row_ok :: "summary_row \<Rightarrow> bool" where
  "report_row_ok r \<longleftrightarrow> string_list_json 5 (sum_keywords_json r) \<and> string_list_json 10 (sum_todos_json r)"

definition server_ok :: "relay_env \<Rightarrow> server \<Rightarrow> bool" where
  "server_ok env st \<longleftrightarrow> relay_ok env (srv_relay st) \<and> list_all report_row_ok (daily_summaries (srv_db st))"

definition report_bounded :: "pystr \<times> pystr list \<times> pystr list \<Rightarrow> bool" where
  "report_bounded r = (case r of (text, ks, ts) \<Rightarrow> length ks \<le> 5 \<and> length ts \<le> 10)"

section \<open>Events\<close>

text \<open>
  \<open>CloseDay\<close> is the rest of a \<open>summarize\<close> handler after its captions: it makes the report from the
  rows and photos it has read and the model's answer to its \<open>k\<close>-th request, and stores it.  Only a
  handler whose first transaction has committed gets there; the rows, the photos and the address
  are any, since other requests may have changed everything since it read them.
\<close>

datatype relay_event =
    SyncRecords int sync_in
  | UploadPhoto int photo_in
  | OpenDay int sync_in
  | StoreCaption int pystr photo_row pystr
  | CloseDay int sync_in nat pystr "conversation_row list" "photo_row list"
  | SetOllamaUrl pystr

fun relay_step ::
    "relay_env \<Rightarrow> relay_ai \<Rightarrow> (pystr \<Rightarrow> bool) \<Rightarrow> relay_event \<Rightarrow> server \<Rightarrow> server" where
  "relay_step env ai netloc_ok (SyncRecords now p) st =
     st\<lparr>srv_relay := fst (sync_lifelog env now p (srv_relay st))\<rparr>"
| "relay_step env ai netloc_ok (UploadPhoto now p) st =
     st\<lparr>srv_relay := fst (sync_photo env now p (srv_relay st))\<rparr>"
| "relay_step env ai netloc_ok (OpenDay now p) st =
     (case open_day env now p (srv_db st) of Inl _ \<Rightarrow> st | Inr (db, _, _) \<Rightarrow> begin_day p db st)"
| "relay_step env ai netloc_ok (StoreCaption now device_id photo caption) st =
     (case store_caption env ai now device_id photo caption (srv_db st) of
        Inl _ \<Rightarrow> st | Inr db \<Rightarrow> put_db db st)"
| "relay_step env ai netloc_ok (CloseDay now p k url rows photos) st =
     (if p \<notin> set (srv_begun st) then st
      else case generate_summary env ai k url rows photos of
        Inl _ \<Rightarrow> st
      | Inr r \<Rightarrow> (case close_day env ai now p r (summary_model ai photos) (srv_db st) of
          Inl _ \<Rightarrow> st | Inr (db, _, _) \<Rightarrow> put_db db st))"
| "relay_step env ai netloc_ok (SetOllamaUrl v) st = fst (update_ollama_settings netloc_ok v st)"

definition start_server :: "pystr \<Rightarrow> pystr option \<Rightarrow> server" where
  "start_server url settings = \<lparr>srv_relay = empty_relay, srv_ollama_url = url, srv_settings = settings, srv_begun = []\<rparr>"

section \<open>Every event keeps the invariant\<close>

lemma put_db_simps [simp]:
  "rel_db (srv_relay (put_db db st)) = db" "rel_files (srv_relay (put_db db st)) = rel_files (srv_relay st)"
  "srv_ollama_url (put_db db st) = srv_ollama_url st" "srv_settings (put_db db st) = srv_settings st"
  "srv_begun (put_db db st) = srv_begun st"
  "srv_relay (begin_day p db st) = srv_relay (put_db db st)" "srv_begun (begin_day p db st) = p # srv_begun st"
  "srv_ollama_url (begin_day p db st) = srv_ollama_url st"
  by (simp_all add: put_db_def begin_day_def)

lemma server_ok_begin [simp]: "server_ok env (begin_day p db st) \<longleftrightarrow> server_ok env (put_db db st)"
  by (simp add: server_ok_def)

lemma dumps_strings: "dumps_items fr (map JStr ss) = dumps_items fr' (map JStr ss)"
  by (induction ss) auto

lemma string_json_dumps: "string_json ai ss = json_dumps (\<lambda>_. []) (JList (map JStr ss))"
  using dumps_strings by (simp add: string_json_def)

lemma strings_of_list: "strings_of (JList (map JStr ss)) = Inr ss"
proof -
  have "rmap (\<lambda>x. case x of JStr s \<Rightarrow> Inr s | _ \<Rightarrow> Inl ValueError) (map JStr ss) = Inr ss"
    by (induction ss) auto
  then show ?thesis by (simp add: strings_of_def)
qed

lemma read_string_dumps: "rbind (json_loads fl (json_dumps fr (JList (map JStr ss)))) strings_of = Inr ss"
proof -
  have "json_plain (JList (map JStr ss))" by (simp add: list_all_iff)
  then show ?thesis by (simp add: json_roundtrip strings_of_list del: json_dumps.simps)
qed

lemma string_list_json_dumps: "length ss \<le> n \<Longrightarrow> string_list_json n (string_json ai ss)"
  unfolding string_list_json_def string_json_dumps read_string_dumps by simp

text \<open>A column that is well formed reads the same with every \<open>float\<close>.\<close>

lemma string_list_jsonD:
  assumes "string_list_json n s"
  shows "\<exists>ss. rbind (json_loads fl s) strings_of = Inr ss \<and> length ss \<le> n"
proof -
  obtain ss where "length ss \<le> n" "s = json_dumps (\<lambda>_. []) (JList (map JStr ss))"
    using assms by (auto simp: string_list_json_def split: sum.splits)
  then show ?thesis using read_string_dumps [of fl "\<lambda>_. []" ss] by blast
qed

lemma server_ok_put_db:
  assumes "server_ok env st" "db_ok db" "files_ok env ((srv_relay st)\<lparr>rel_db := db\<rparr>)"
    "list_all report_row_ok (daily_summaries db)"
  shows "server_ok env (put_db db st)"
  using assms by (simp add: server_ok_def relay_ok_def put_db_def)

lemma sync_lifelog_reports: "daily_summaries (rel_db (fst (sync_lifelog env now p r))) = daily_summaries (rel_db r)"
  by (auto simp: sync_lifelog_def store_records_def Let_def rbind_eq_Inr split: sum.split)

lemma store_photo_reports: "store_photo env n p db = Inr db' \<Longrightarrow> daily_summaries db' = daily_summaries db"
  by (erule store_photo_InrD) simp

lemma sync_photo_reports: "daily_summaries (rel_db (fst (sync_photo env now p r))) = daily_summaries (rel_db r)"
  by (auto simp: sync_photo_def Let_def rbind_eq_Inr store_photo_reports split: sum.split)

lemma open_day_InrD:
  "open_day env now p db = Inr (db', rows, photos) \<Longrightarrow>
     \<exists>n. now_text env now = Inr n \<and> store_records env n p db = Inr db'
       \<and> records_for_day env db' (in_device_id p) (in_date p) = Inr rows
       \<and> photos_for_day env db' (in_device_id p) (in_date p) = Inr photos"
  by (auto simp: open_day_def rbind_eq_Inr)

lemma store_records_reports: "store_records env n p db = Inr db' \<Longrightarrow> daily_summaries db' = daily_summaries db"
  by (auto simp: store_records_def Let_def rbind_eq_Inr)

lemma open_day_ok:
  assumes "server_ok env st" "open_day env now p (srv_db st) = Inr (db, rows, photos)"
  shows "server_ok env (put_db db st)"
proof -
  from open_day_InrD [OF assms(2)] obtain n where s: "store_records env n p (srv_db st) = Inr db" by blast
  from assms(1) show ?thesis
    using store_records_ok [OF _ s] store_records_photos [OF s] store_records_reports [OF s]
    by (intro server_ok_put_db) (simp_all add: server_ok_def relay_ok_def files_ok_db_change)
qed

text \<open>A caption changes only the caption columns.\<close>

lemma set_caption_photos:
  "r \<in> set (photo_records (set_caption d pid c m n db)) \<Longrightarrow>
     \<exists>r' \<in> set (photo_records db). ph_key r = ph_key r' \<and> ph_taken_at r = ph_taken_at r' \<and> ph_file_path r = ph_file_path r'"
  by (auto simp: set_caption_def sql_update_def ph_key_def)

lemma set_caption_other [simp]:
  "devices (set_caption d pid c m n db) = devices db"
  "conversation_records (set_caption d pid c m n db) = conversation_records db"
  "daily_summaries (set_caption d pid c m n db) = daily_summaries db"
  by (simp_all add: set_caption_def)

lemma set_caption_db_ok: "db_ok db \<Longrightarrow> db_ok (set_caption d pid c m n db)"
proof -
  assume ok: "db_ok db"
  have "unique_key ph_key (photo_records (set_caption d pid c m n db))"
    using ok unique_update [of ph_key "\<lambda>r. r\<lparr>ph_vision_caption := Some c, ph_vision_model := Some m, ph_analyzed_at := Some n\<rparr>"]
    by (simp add: db_ok_def set_caption_def ph_key_def)
  with ok set_caption_photos [of _ d pid c m n db] show ?thesis
    unfolding db_ok_def list_all_iff by (simp add: known_devices_def) (metis ph_key_def prod.inject)
qed

lemma set_caption_files_ok:
  assumes "files_ok env r"
  shows "files_ok env (r\<lparr>rel_db := set_caption d pid c m n (rel_db r)\<rparr>)"
proof -
  have "ph_file_path p = photo_path env (ph_device_id p) (ph_client_photo_id p) \<and> rel_files r (ph_file_path p) \<noteq> None"
    if "p \<in> set (photo_records (set_caption d pid c m n (rel_db r)))" for p
    using set_caption_photos [OF that] assms by (auto simp: files_ok_def list_all_iff ph_key_def)
  then show ?thesis by (simp add: files_ok_def list_all_iff) metis
qed

lemma store_caption_InrD:
  "store_caption env ai now d photo c db = Inr db' \<Longrightarrow>
     \<exists>n. now_text env now = Inr n \<and> list_all scalar c
       \<and> db' = set_caption d (ph_client_photo_id photo) c (ai_vision_model ai) n db"
  by (auto simp: store_caption_def rbind_eq_Inr sql_text_def split: if_splits)

lemma store_caption_ok:
  assumes "server_ok env st" "store_caption env ai now d photo c (srv_db st) = Inr db"
  shows "server_ok env (put_db db st)"
  using assms store_caption_InrD [OF assms(2)]
  by (intro server_ok_put_db)
     (auto simp: server_ok_def relay_ok_def set_caption_db_ok set_caption_files_ok)
lemma close_day_InrD:
  "close_day env ai now p r model db = Inr (db', gen, photos) \<Longrightarrow>
     now_text env now = Inr gen \<and> store_summary ai gen (in_device_id p) (in_date p) r model db = Inr db'
     \<and> photos_for_day env db' (in_device_id p) (in_date p) = Inr photos"
  by (auto simp: close_day_def rbind_eq_Inr)

lemma now_text_stamp: "now_text env now = Inr s \<Longrightarrow> is_stamp s"
  by (simp add: now_text_def iso_is_stamp)

lemma store_summary_InrD:
  "store_summary ai now d day r model db = Inr db' \<Longrightarrow>
     db' = db\<lparr>daily_summaries := sql_upsert sum_key (merge_report (report_row ai now d day r model))
       (report_row ai now d day r model) (daily_summaries db)\<rparr>"
  by (auto simp: store_summary_def Let_def rbind_eq_Inr)

lemma merge_report_key [simp]: "sum_key (merge_report row old) = sum_key old"
  by (simp add: merge_report_def sum_key_def)

lemma merge_report_fields [simp]:
  "sum_device_id (merge_report row old) = sum_device_id old"
  "sum_summary (merge_report row old) = sum_summary row"
  "sum_keywords_json (merge_report row old) = sum_keywords_json row"
  "sum_todos_json (merge_report row old) = sum_todos_json row"
  "sum_model (merge_report row old) = sum_model row"
  "sum_generated_at (merge_report row old) = sum_generated_at row"
  by (simp_all add: merge_report_def)

lemma report_row_fields [simp]:
  "sum_key (report_row ai now d day r model) = (d, date_text day)"
  "sum_device_id (report_row ai now d day r model) = d"
  "sum_generated_at (report_row ai now d day r model) = now"
  by (simp_all add: report_row_def sum_key_def)

lemma generate_summary_bounded: "generate_summary env ai k url rows photos = Inr r \<Longrightarrow> report_bounded r"
  by (auto simp: generate_summary_def read_report_def str_list_def report_bounded_def rbind_eq_Inr split: sum.splits)

lemma report_row_row_ok: "report_bounded r \<Longrightarrow> report_row_ok (report_row ai now d day r model)"
  by (auto simp: report_row_ok_def report_row_def report_bounded_def string_list_json_dumps split: prod.splits)

lemma store_summary_ok:
  assumes "db_ok db" "list_all report_row_ok (daily_summaries db)" "report_bounded r" "is_stamp now"
    "store_summary ai now d day r model db = Inr db'"
  shows "db_ok db'" "list_all report_row_ok (daily_summaries db')"
proof -
  let ?row = "report_row ai now d day r model"
  note db' = store_summary_InrD [OF assms(5)]
  have sub: "s \<in> set (daily_summaries db') \<Longrightarrow>
      s = ?row \<or> s \<in> set (daily_summaries db) \<or> (\<exists>s' \<in> set (daily_summaries db). s = merge_report ?row s')" for s
    using set_upsert by (fastforce simp: db')
  show "list_all report_row_ok (daily_summaries db')"
    using sub assms(2) report_row_row_ok [OF assms(3), of ai now d day model]
    by (fastforce simp: list_all_iff report_row_ok_def)
  have "unique_key sum_key (daily_summaries db')"
    using assms(1) by (simp add: db' db_ok_def unique_upsert)
  moreover have "list_all (\<lambda>r. is_stamp (sum_generated_at r)) (daily_summaries db')"
    using sub assms(1,4) by (fastforce simp: list_all_iff db_ok_def)
  ultimately show "db_ok db'" using assms(1) by (simp add: db_ok_def db')
qed

lemma store_records_device:
  "store_records env n p db = Inr db' \<Longrightarrow> in_device_id p \<in> known_devices db'"
  by (auto simp: store_records_def Let_def rbind_eq_Inr)

lemma close_day_ok:
  assumes "server_ok env st" "report_bounded r"
    "close_day env ai now p r model (srv_db st) = Inr (db, gen, photos)"
  shows "server_ok env (put_db db st)"
proof -
  from close_day_InrD [OF assms(3)] have g: "now_text env now = Inr gen"
    and s: "store_summary ai gen (in_device_id p) (in_date p) r model (srv_db st) = Inr db" by auto
  have "photo_records db = photo_records (srv_db st)" using store_summary_InrD [OF s] by simp
  with assms(1) show ?thesis
    using store_summary_ok [OF _ _ assms(2) now_text_stamp [OF g] s]
    by (intro server_ok_put_db) (simp_all add: server_ok_def relay_ok_def files_ok_db_change)
qed

lemma update_settings_frame: "srv_relay (fst (update_ollama_settings netloc_ok v st)) = srv_relay st"
  by (auto simp: update_ollama_settings_def save_ollama_url_def split: sum.split)

lemma relay_step_ok:
  assumes "server_ok env st"
  shows "server_ok env (relay_step env ai netloc_ok ev st)"
proof (cases ev)
  case (SyncRecords now p)
  then show ?thesis using assms by (simp add: server_ok_def sync_lifelog_ok sync_lifelog_reports)
next
  case (UploadPhoto now p)
  then show ?thesis using assms by (simp add: server_ok_def sync_photo_ok sync_photo_reports)
next
  case (OpenDay now p)
  then show ?thesis using assms open_day_ok [OF assms] by (auto split: sum.split prod.split)
next
  case (StoreCaption now d photo c)
  then show ?thesis using assms store_caption_ok [OF assms] by (auto split: sum.split)
next
  case (CloseDay now p k url rows photos)
  then show ?thesis using assms close_day_ok [OF assms generate_summary_bounded] by (auto split: sum.split prod.split)
next
  case (SetOllamaUrl v)
  then show ?thesis using assms by (simp add: server_ok_def update_settings_frame)
qed

interpretation relay_machine: invariant_system "relay_step env ai netloc_ok" "server_ok env"
  for env ai netloc_ok
  by unfold_locales (rule relay_step_ok)

lemma start_server_ok: "server_ok env (start_server url settings)"
  by (simp add: server_ok_def start_server_def relay_ok_empty) (simp add: empty_relay_def)

section \<open>The long handler as a sequence of events\<close>

text \<open>Devices are never forgotten.\<close>

lemma sync_lifelog_devices:
  "known_devices (rel_db r) \<subseteq> known_devices (rel_db (fst (sync_lifelog env now p r)))"
  by (auto simp: sync_lifelog_def store_records_def Let_def rbind_eq_Inr split: sum.split)

lemma sync_photo_devices:
  "known_devices (rel_db r) \<subseteq> known_devices (rel_db (fst (sync_photo env now p r)))"
proof -
  have d: "known_devices db \<subseteq> known_devices db'" if "store_photo env n p db = Inr db'" for n db db'
    using that by (rule store_photo_InrD) auto
  obtain st' where e: "fst (sync_photo env now p r) = st'" by simp
  from e show ?thesis
  proof (cases rule: sync_photo_cases)
    case stored
    then show ?thesis using d e by simp
  qed (use e in simp_all)
qed

lemma store_records_devices: "store_records env n p db = Inr db' \<Longrightarrow> known_devices db \<subseteq> known_devices db'"
  by (auto simp: store_records_def Let_def rbind_eq_Inr)

lemma relay_step_devices: "known_devices (srv_db st) \<subseteq> known_devices (srv_db (relay_step env ai netloc_ok ev st))"
proof (cases ev)
  case (OpenDay now p)
  then show ?thesis
    by (auto split: sum.split dest!: open_day_InrD dest: subsetD [OF store_records_devices])
next
  case (StoreCaption now d photo c)
  then show ?thesis by (auto split: sum.split dest!: store_caption_InrD simp: known_devices_def)
next
  case (CloseDay now p k url rows photos)
  then show ?thesis
    by (auto split: sum.split dest!: close_day_InrD store_summary_InrD)
qed (auto simp: sync_lifelog_devices [THEN subsetD] sync_photo_devices [THEN subsetD] update_settings_frame)

text \<open>\<open>st'\<close> is reached from \<open>st\<close> by events.\<close>

definition relay_reach ::
    "relay_env \<Rightarrow> relay_ai \<Rightarrow> (pystr \<Rightarrow> bool) \<Rightarrow> server \<Rightarrow> server \<Rightarrow> bool" where
  "relay_reach env ai netloc_ok st st' \<longleftrightarrow> (\<exists>es. st' = fold (relay_step env ai netloc_ok) es st)"

lemma reach_refl [simp]: "relay_reach env ai netloc_ok st st"
  by (auto simp: relay_reach_def intro: exI [of _ "[]"])

lemma reach_trans:
  assumes "relay_reach env ai netloc_ok a b" "relay_reach env ai netloc_ok b c"
  shows "relay_reach env ai netloc_ok a c"
proof -
  from assms obtain es es' where "b = fold (relay_step env ai netloc_ok) es a"
    "c = fold (relay_step env ai netloc_ok) es' b" by (auto simp: relay_reach_def)
  then have "c = fold (relay_step env ai netloc_ok) (es @ es') a" by simp
  then show ?thesis unfolding relay_reach_def by blast
qed

lemma reach_step: "relay_reach env ai netloc_ok st (relay_step env ai netloc_ok ev st)"
  unfolding relay_reach_def by (rule exI [of _ "[ev]"]) simp

lemma reach_begun: "relay_reach env ai netloc_ok a b \<Longrightarrow> set (srv_begun a) \<subseteq> set (srv_begun b)"
proof -
  have "set (srv_begun st) \<subseteq> set (srv_begun (relay_step env ai netloc_ok e st))" for e st
    by (cases e) (auto split: sum.split simp: update_ollama_settings_def save_ollama_url_def)
  then have "set (srv_begun st) \<subseteq> set (srv_begun (fold (relay_step env ai netloc_ok) es st))" for es st
    by (induction es arbitrary: st) (auto, meson subsetD)
  then show "relay_reach env ai netloc_ok a b \<Longrightarrow> ?thesis" by (auto simp: relay_reach_def)
qed

lemma reach_ok: "relay_reach env ai netloc_ok a b \<Longrightarrow> server_ok env a \<Longrightarrow> server_ok env b"
  unfolding relay_reach_def using relay_machine.run_inv by blast

lemma caption_photos_reach:
  assumes "\<And>i s. relay_reach env ai netloc_ok s (others i s)"
  shows "relay_reach env ai netloc_ok st (fst (caption_photos env ai clock others d k photos st))"
proof (induction photos arbitrary: k st)
  case (Cons photo photos)
  let ?st1 = "others (2 * k) st" let ?st2 = "others (2 * k + 1) ?st1"
  have r: "relay_reach env ai netloc_ok st ?st2" by (rule reach_trans [OF assms assms])
  show ?case
  proof (cases "has_caption ai photo")
    case True
    then show ?thesis using Cons by simp
  next
    case False
    show ?thesis
    proof (cases "analyze_photo_image ai k (srv_ollama_url ?st1) (rel_files (srv_relay ?st1)) photo")
      case (Inl e)
      then show ?thesis using False r by (simp add: Let_def)
    next
      case (Inr c)
      show ?thesis
      proof (cases "store_caption env ai (clock k) d photo c (srv_db ?st2)")
        case (Inl e)
        then show ?thesis using False Inr r by (simp add: Let_def)
      next
        case (Inr db)
        then have "put_db db ?st2 = relay_step env ai netloc_ok (StoreCaption (clock k) d photo c) ?st2" by simp
        then have "relay_reach env ai netloc_ok st (put_db db ?st2)"
          using reach_trans [OF r] reach_step by metis
        then show ?thesis
          using False \<open>analyze_photo_image _ _ _ _ _ = Inr c\<close> Inr reach_trans [OF _ Cons] by (simp add: Let_def)
      qed
    qed
  qed
qed simp

lemma ensure_captions_reach:
  assumes "\<And>i s. relay_reach env ai netloc_ok s (others i s)"
  shows "relay_reach env ai netloc_ok st (fst (ensure_photo_captions env ai clock others d day photos st))"
  using caption_photos_reach [where others = others and st = st and clock = clock and d = d and k = 0 and photos = photos, OF assms]
  by (auto simp: ensure_photo_captions_def split: prod.split option.split)

lemma summarize_reach:
  assumes others: "\<And>i s. relay_reach env ai netloc_ok s (others i s)"
  shows "relay_reach env ai netloc_ok st (fst (sync_and_summarize env ai clock others p st))"
proof (cases "valid_sync_in p")
  case False
  then show ?thesis by (simp add: sync_and_summarize_def)
next
  case valid: True
  show ?thesis
  proof (cases "open_day env (clock 0) p (srv_db st)")
    case (Inl e)
    with valid show ?thesis by (simp add: sync_and_summarize_def)
  next
    case (Inr r)
    obtain db rows photos where o: "open_day env (clock 0) p (srv_db st) = Inr (db, rows, photos)"
      using Inr by (metis prod_cases3)
    let ?st1 = "begin_day p db st"
    have "?st1 = relay_step env ai netloc_ok (OpenDay (clock 0) p) st" by (simp add: o)
    then have r1: "relay_reach env ai netloc_ok st ?st1" using reach_step by metis
    obtain st2 res where c: "ensure_photo_captions env ai (clock \<circ> Suc) others (in_device_id p) (in_date p) photos ?st1 = (st2, res)"
      by fastforce
    have r2: "relay_reach env ai netloc_ok ?st1 st2"
      using ensure_captions_reach [where others = others and st = ?st1 and photos = photos, OF others] c by (metis fst_conv)
    let ?st3 = "others (2 * length photos) st2" let ?st4 = "others (2 * length photos + 1) ?st3"
    have r4: "relay_reach env ai netloc_ok st2 ?st4" by (rule reach_trans [OF others others])
    note r14 = reach_trans [OF r2 r4]
    have begun: "p \<in> set (srv_begun ?st4)" using reach_begun [OF r14] by auto
    have close: "relay_reach env ai netloc_ok ?st4 (put_db db5 ?st4)"
      if "generate_summary env ai k url rows' ps = Inr rep"
        "close_day env ai now p rep (summary_model ai ps) (srv_db ?st4) = Inr (db5, gen, ps')" for now k url rows' ps rep db5 gen ps'
    proof -
      have "put_db db5 ?st4 = relay_step env ai netloc_ok (CloseDay now p k url rows' ps) ?st4"
        using that begun by simp
      then show ?thesis using reach_step by metis
    qed
    note ends = r1 reach_trans [OF r1 r2] reach_trans [OF r1 r14] reach_trans [OF reach_trans [OF r1 r14] close]
    show ?thesis
      using valid o c ends
      by (auto simp: sync_and_summarize_def Let_def split: sum.split prod.split)
  qed
qed

section \<open>Registered devices and written timestamps\<close>

lemma stamps_upsert_device: "written_stamps db \<Longrightarrow> is_stamp now \<Longrightarrow> written_stamps (upsert_device d now db)"
  by (auto simp: written_stamps_def upsert_device_def list_all_iff dest!: set_upsert)

lemma store_records_stamps:
  assumes "written_stamps db" "is_stamp now" "store_records env now p db = Inr db'"
  shows "written_stamps db'"
proof -
  let ?db1 = "upsert_device (in_device_id p) now db"
  obtain rows where rows: "record_rows env now p = Inr rows"
    and db': "db' = ?db1\<lparr>conversation_records := sql_insert_ignore_many rec_key rows (conversation_records ?db1)\<rparr>"
    using assms(3) by (auto simp: store_records_def Let_def rbind_eq_Inr)
  have "is_stamp (rec_received_at r)"
    if "r \<in> set (sql_insert_ignore_many rec_key rows (conversation_records ?db1))" for r
    using set_insert_ignore_many [of rec_key rows "conversation_records ?db1"] that assms(1,2) record_rows_InrD [OF rows]
    by (auto simp: written_stamps_def list_all_iff)
  with stamps_upsert_device [OF assms(1,2)] show ?thesis
    unfolding db' by (auto simp: written_stamps_def list_all_iff)
qed

lemma sync_lifelog_stamps: "written_stamps (rel_db r) \<Longrightarrow> written_stamps (rel_db (fst (sync_lifelog env now p r)))"
  by (auto simp: sync_lifelog_def rbind_eq_Inr split: sum.split dest: store_records_stamps [OF _ now_text_stamp])

lemma store_photo_stamps:
  assumes "written_stamps db" "is_stamp now" "store_photo env now p db = Inr db'"
  shows "written_stamps db'"
proof -
  let ?new = "\<lambda>t. \<lparr>ph_device_id = pin_device_id p, ph_client_photo_id = pin_client_photo_id p, ph_taken_at = t,
    ph_latitude = pin_latitude p, ph_longitude = pin_longitude p, ph_location_name = pin_location_name p,
    ph_file_path = photo_path env (pin_device_id p) (pin_client_photo_id p), ph_received_at = now,
    ph_vision_caption = None, ph_vision_model = None, ph_analyzed_at = None\<rparr>"
  obtain t where t: "db' = (upsert_device (pin_device_id p) now db)\<lparr>photo_records :=
      sql_upsert ph_key (merge_photo (?new t)) (?new t) (photo_records db)\<rparr>"
    using assms(3) by (auto simp: store_photo_def Let_def rbind_eq_Inr)
  define new where "new = ?new t"
  have n: "ph_received_at new = now" "ph_analyzed_at new = None" by (simp_all add: new_def)
  note db' = t [folded new_def]
  have m: "ph_received_at (merge_photo new old) = now" "ph_analyzed_at (merge_photo new old) = ph_analyzed_at old" for old
    by (simp_all add: merge_photo_def n)
  have "is_stamp (ph_received_at r) \<and> (case ph_analyzed_at r of None \<Rightarrow> True | Some s \<Rightarrow> is_stamp s)"
    if "r \<in> set (sql_upsert ph_key (merge_photo new) new (photo_records db))" for r
    using set_upsert [OF that] assms(1,2) n m by (auto simp: written_stamps_def list_all_iff)
  with stamps_upsert_device [OF assms(1,2)] show ?thesis
    unfolding db' by (auto simp: written_stamps_def list_all_iff)
qed

lemma sync_photo_stamps: "written_stamps (rel_db r) \<Longrightarrow> written_stamps (rel_db (fst (sync_photo env now p r)))"
  by (auto simp: sync_photo_def Let_def rbind_eq_Inr split: sum.split dest: store_photo_stamps [OF _ now_text_stamp])

lemma caption_stamps: "written_stamps db \<Longrightarrow> is_stamp n \<Longrightarrow> written_stamps (set_caption d pid c m n db)"
  by (auto simp: written_stamps_def set_caption_def sql_update_def list_all_iff)

text \<open>
  The invariant of the server, with what the rows of a day do not depend on: the timestamps that are
  only written, and that reports belong to registered devices, which rests on the first transaction
  of their handlers.
\<close>

definition relay_inv :: "relay_env \<Rightarrow> server \<Rightarrow> bool" where
  "relay_inv env st \<longleftrightarrow> server_ok env st \<and> written_stamps (srv_db st)
     \<and> in_device_id ` set (srv_begun st) \<subseteq> known_devices (srv_db st)
     \<and> sum_device_id ` set (daily_summaries (srv_db st)) \<subseteq> known_devices (srv_db st)"

lemma relay_step_stamps:
  assumes "written_stamps (srv_db st)"
  shows "written_stamps (srv_db (relay_step env ai netloc_ok ev st))"
proof (cases ev)
  case (OpenDay now p)
  with assms store_records_stamps [OF assms now_text_stamp] show ?thesis
    by (auto split: sum.split dest!: open_day_InrD)
next
  case (StoreCaption now d photo c)
  with assms caption_stamps [OF assms now_text_stamp] show ?thesis
    by (auto split: sum.split dest!: store_caption_InrD)
next
  case (CloseDay now p k url rows photos)
  have "written_stamps db'" if "store_summary ai n d day r m (srv_db st) = Inr db'" for n d day r m db'
    using store_summary_InrD [OF that] assms by (simp add: written_stamps_def)
  with assms CloseDay show ?thesis by (auto split: sum.split dest!: close_day_InrD)
qed (use assms in \<open>simp_all add: sync_lifelog_stamps sync_photo_stamps update_settings_frame\<close>)

lemma relay_step_begun:
  assumes "in_device_id ` set (srv_begun st) \<subseteq> known_devices (srv_db st)"
  shows "in_device_id ` set (srv_begun (relay_step env ai netloc_ok ev st))
    \<subseteq> known_devices (srv_db (relay_step env ai netloc_ok ev st))"
proof (cases ev)
  case (OpenDay now p)
  show ?thesis
  proof (cases "open_day env now p (srv_db st)")
    case (Inr r)
    then obtain n where n: "store_records env n p (srv_db st) = Inr (fst r)"
      using open_day_InrD [of env now p "srv_db st" "fst r" "fst (snd r)" "snd (snd r)"] by auto
    have "in_device_id p \<in> known_devices (fst r)" using n by (rule store_records_device)
    moreover have "known_devices (srv_db st) \<subseteq> known_devices (fst r)" using n by (rule store_records_devices)
    ultimately have "in_device_id ` set (p # srv_begun st) \<subseteq> known_devices (fst r)" using assms by auto
    then show ?thesis using OpenDay Inr by (auto split: prod.split)
  qed (use OpenDay assms in simp)
next
  case (SetOllamaUrl v)
  have "srv_begun (fst (update_ollama_settings netloc_ok v st)) = srv_begun st"
    by (simp add: update_ollama_settings_def save_ollama_url_def split: sum.split)
  with SetOllamaUrl assms show ?thesis by (simp add: update_settings_frame)
next
  case (CloseDay now p k url rows photos)
  have "srv_begun (relay_step env ai netloc_ok ev st) = srv_begun st"
    by (simp add: CloseDay split: sum.split prod.split)
  with assms relay_step_devices [of st env ai netloc_ok ev] show ?thesis by simp
next
  case (StoreCaption now d photo c)
  have "srv_begun (relay_step env ai netloc_ok ev st) = srv_begun st"
    by (simp add: StoreCaption split: sum.split)
  with assms relay_step_devices [of st env ai netloc_ok ev] show ?thesis by simp
qed (use assms relay_step_devices [of st env ai netloc_ok ev] in simp_all)

lemma store_summary_owner:
  assumes "store_summary ai n d day r m db = Inr db'"
  shows "sum_device_id ` set (daily_summaries db') \<subseteq> insert d (sum_device_id ` set (daily_summaries db))"
proof -
  let ?row = "report_row ai n d day r m"
  have "sum_device_id x \<in> insert d (sum_device_id ` set (daily_summaries db))"
    if "x \<in> set (sql_upsert sum_key (merge_report ?row) ?row (daily_summaries db))" for x
    using set_upsert [OF that] by auto
  then show ?thesis unfolding store_summary_InrD [OF assms] by auto
qed

lemma relay_step_reports:
  "sum_device_id ` set (daily_summaries (srv_db (relay_step env ai netloc_ok ev st))) \<subseteq>
     sum_device_id ` set (daily_summaries (srv_db st)) \<union> in_device_id ` set (srv_begun st)"
proof (cases ev)
  case (CloseDay now p k url rows photos)
  have "x \<in> insert (in_device_id p) (sum_device_id ` set (daily_summaries (srv_db st)))"
    if "close_day env ai now p r m (srv_db st) = Inr (db, gen, ps)" "x \<in> sum_device_id ` set (daily_summaries db)"
    for r m db gen ps x
    using close_day_InrD [OF that(1)] store_summary_owner that(2) by blast
  then show ?thesis
    by (auto simp only: CloseDay relay_step.simps put_db_simps split: sum.split prod.split if_splits) blast+
next
  case (OpenDay now p)
  then show ?thesis by (auto split: sum.split dest!: open_day_InrD store_records_reports)
next
  case (StoreCaption now d photo c)
  then show ?thesis by (auto split: sum.split dest!: store_caption_InrD)
qed (simp_all add: sync_lifelog_reports sync_photo_reports update_settings_frame)

lemma relay_step_inv:
  assumes "relay_inv env st"
  shows "relay_inv env (relay_step env ai netloc_ok ev st)"
proof -
  from assms have i: "server_ok env st" "written_stamps (srv_db st)"
    "in_device_id ` set (srv_begun st) \<subseteq> known_devices (srv_db st)"
    "sum_device_id ` set (daily_summaries (srv_db st)) \<subseteq> known_devices (srv_db st)"
    by (simp_all add: relay_inv_def)
  have "sum_device_id ` set (daily_summaries (srv_db (relay_step env ai netloc_ok ev st))) \<subseteq> known_devices (srv_db st)"
    by (rule subset_trans [OF relay_step_reports Un_least [OF i(4,3)]])
  then show ?thesis
    unfolding relay_inv_def
    using relay_step_ok [OF i(1)] relay_step_stamps [OF i(2)] relay_step_begun [OF i(3)] relay_step_devices
    by (intro conjI) (assumption | rule subset_trans)+
qed

interpretation relay_registry: invariant_system "relay_step env ai netloc_ok" "relay_inv env"
  for env ai netloc_ok
  by unfold_locales (rule relay_step_inv)

lemma start_server_inv: "relay_inv env (start_server url settings)"
  using start_server_ok [of env url settings]
  by (simp add: relay_inv_def start_server_def written_stamps_def empty_relay_def)

end
