(* ===== verification/Relay_Report.thy ===== *)
theory Relay_Report
  imports Relay_Server "HOL-Library.Multiset"
begin

text \<open>
  What the daily report of the relay server guarantees: the report a phone receives is the one a
  later read returns, the timeline given to the model holds every record and photo of the Korean
  day in order, the text shows no keyword section, and how the errors of the model surface.
\<close>

section \<open>Summarising succeeds\<close>

lemma summarize_InrD:
  assumes "sync_and_summarize env ai clock others p st = (st', Inr out)"
  shows "\<exists>db rows photos st2 photos2 r db5 gen photos5.
      valid_sync_in p \<and> open_day env (clock 0) p (srv_db st) = Inr (db, rows, photos)
    \<and> ensure_photo_captions env ai (clock \<circ> Suc) others (in_device_id p) (in_date p) photos (begin_day p db st) = (st2, Inr photos2)
    \<and> generate_summary env ai (length photos) (srv_ollama_url (others (2 * length photos) st2)) rows photos2 = Inr r
    \<and> close_day env ai (clock (Suc (length photos))) p r (summary_model ai photos2)
        (srv_db (others (2 * length photos + 1) (others (2 * length photos) st2))) = Inr (db5, gen, photos5)
    \<and> st' = put_db db5 (others (2 * length photos + 1) (others (2 * length photos) st2))
    \<and> day_response p rows r (summary_model ai photos2) gen photos5 = Inr out"
  using assms by (auto simp: sync_and_summarize_def Let_def split: if_splits sum.splits prod.splits)

lemma photos_bounds: "photos_for_day env db d day = Inr ps \<Longrightarrow> \<exists>rows. records_for_day env db d day = Inr rows"
  by (auto simp: photos_for_day_def records_for_day_def rbind_eq_Inr)

lemma records_read:
  assumes "db_ok db" "records_for_day env db d day = Inr rows"
  shows "\<exists>outs. rmap record_out_of rows = Inr outs"
proof -
  have "is_stamp (rec_spoken_at r)" if "r \<in> set rows" for r
    using that assms by (auto simp: records_for_day_def rbind_eq_Inr db_ok_def list_all_iff)
  then have "\<exists>out. record_out_of r = Inr out" if "r \<in> set rows" for r
    using that by (fastforce simp: record_out_of_def is_stamp_def split: sum.splits)
  then show ?thesis by (induction rows) force+
qed

lemma summary_after_close:
  assumes "close_day env ai now p r model db = Inr (db5, gen, photos)" "fromisoformat gen = Inr t"
  shows "summary_for_day ai db5 (in_device_id p) (in_date p) = Inr (Some \<lparr>sout_summary = fst r,
     sout_keywords = fst (snd r), sout_todos = snd (snd r), sout_model = model, sout_generated_at = t\<rparr>)"
proof -
  let ?row = "report_row ai gen (in_device_id p) (in_date p) r model"
  from close_day_InrD [OF assms(1)]
  have "store_summary ai gen (in_device_id p) (in_date p) r model db = Inr db5" by blast
  from store_summary_InrD [OF this]
  have "daily_summaries db5 = sql_upsert sum_key (merge_report ?row) ?row (daily_summaries db)" by simp
  then have "sql_get sum_key (in_device_id p, date_text (in_date p)) (daily_summaries db5) = Some
      (case sql_get sum_key (in_device_id p, date_text (in_date p)) (daily_summaries db) of
        None \<Rightarrow> ?row | Some old \<Rightarrow> merge_report ?row old)" by (simp add: sql_get_upsert)
  moreover have "sum_summary ?row = fst r" "sum_keywords_json ?row = string_json ai (fst (snd r))"
    "sum_todos_json ?row = string_json ai (snd (snd r))" "sum_model ?row = model"
    by (simp_all add: report_row_def)
  ultimately have "\<exists>row. sql_get sum_key (in_device_id p, date_text (in_date p)) (daily_summaries db5) = Some row
      \<and> sum_summary row = fst r \<and> sum_keywords_json row = string_json ai (fst (snd r))
      \<and> sum_todos_json row = string_json ai (snd (snd r)) \<and> sum_model row = model \<and> sum_generated_at row = gen"
    by (auto split: option.split)
  then show ?thesis
    using assms(2) by (auto simp: summary_for_day_def string_json_dumps read_string_dumps simp del: json_dumps.simps)
qed

text \<open>C2: The report a phone gets from sync_and_summarize is what get_lifelog returns afterwards: same date, same summary, keywords, to-dos, model and time, and same photos with their captions, whatever other requests ran while the model was answering.\<close>

theorem report_read_back:
  assumes "server_ok env st" "\<And>i s. relay_reach env ai netloc_ok s (others i s)"
    "sync_and_summarize env ai clock others p st = (st', Inr out)"
  shows "\<exists>log. get_lifelog env ai (in_device_id p) (in_date p) st' = Inr log \<and> log_date log = log_date out
    \<and> log_summary log = log_summary out \<and> log_photos log = log_photos out"
proof -
  have ok: "server_ok env st'"
    using reach_ok [OF summarize_reach [where others = others, OF assms(2)] assms(1)] assms(3) by (metis fst_conv)
  obtain rows r model gen photos5 db4 db5 now where
    c: "close_day env ai now p r model db4 = Inr (db5, gen, photos5)" and st': "srv_db st' = db5"
    and d: "day_response p rows r model gen photos5 = Inr out"
    using summarize_InrD [OF assms(3)] by auto
  obtain body ks ts where r: "r = (body, ks, ts)" by (metis prod_cases3)
  from d obtain outs t pics where o: "fromisoformat gen = Inr t"
    "rmap (photo_out_of (in_device_id p)) photos5 = Inr pics"
    "out = \<lparr>log_date = in_date p, log_records = outs, log_summary = Some \<lparr>sout_summary = body,
        sout_keywords = ks, sout_todos = ts, sout_model = model, sout_generated_at = t\<rparr>, log_photos = pics\<rparr>"
    by (auto simp: day_response_def r rbind_eq_Inr)
  have ph: "photos_for_day env db5 (in_device_id p) (in_date p) = Inr photos5"
    using close_day_InrD [OF c] by blast
  obtain rows5 where rows5: "records_for_day env db5 (in_device_id p) (in_date p) = Inr rows5"
    using photos_bounds [OF ph] by blast
  have "db_ok db5" using ok st' by (simp add: server_ok_def relay_ok_def)
  from records_read [OF this rows5] obtain outs5 where "rmap record_out_of rows5 = Inr outs5" by blast
  then show ?thesis
    using summary_after_close [OF c o(1)] ph rows5 o(2,3) by (simp add: get_lifelog_def st' r)
qed

section \<open>The timeline\<close>

lemma kst_stamp:
  assumes "is_stamp s" "valid_date day" "toordinal day \<noteq> max_ordinal"
    "local_day app_time_zone (stamp_instant s) = toordinal day"
  shows "kst env s = Inr (stamp_instant s + app_time_zone)"
proof -
  let ?t = "stamp_instant s"
  have t: "in_range ?t" "isoformat_utc ?t = s" using is_stampD [OF assms(1)] by auto
  have f: "fromisoformat s = Inr \<lparr>dt_wall = ?t, dt_offset = Some 0\<rparr>"
    using fromisoformat_isoformat [OF t(1)] t(2) by simp
  have "?t + app_time_zone < toordinal day * day_us"
    using assms(4) by (simp add: local_day_iff day_start_def)
  also have "\<dots> \<le> max_instant"
    using toordinal_range [OF assms(2)] unfolding max_instant_def by (intro mult_right_mono) auto
  finally have "in_range (?t + app_time_zone)"
    using t(1) by (simp add: in_range_def app_time_zone_def)
  then show ?thesis using f t(1) by (simp add: kst_def astimezone_utc_def)
qed

lemma day_bounds_not_last: "valid_date day \<Longrightarrow> day_bounds localtz day = Inr b \<Longrightarrow> toordinal day \<noteq> max_ordinal"
  by (auto simp: day_bounds_cases)

definition talk_line :: "conversation_row \<Rightarrow> int \<times> pystr" where
  "talk_line r = (let w = stamp_instant (rec_spoken_at r) + app_time_zone in
     (w, 91 # clock_hm w @ [93] @ label_talk @ rec_text r))"

definition photo_line :: "photo_row \<Rightarrow> int \<times> pystr" where
  "photo_line r = (let w = stamp_instant (ph_taken_at r) + app_time_zone in
     (w, 91 # clock_hm w @ [93] @ label_photo @ location_text r @ label_seen
       @ (case ph_vision_caption r of None \<Rightarrow> u ''None'' | Some c \<Rightarrow> c)))"

text \<open>C5: The timeline given to the model never fails for the rows of a day and holds one line for every record and every photo, no other, each under its Korean wall clock time, in the order of time, and every time lies on the requested Korean day.\<close>

theorem timeline_exact:
  assumes "server_ok env st" "valid_date day" "records_for_day env (srv_db st) d day = Inr rows"
    "photos_for_day env (srv_db st) d day = Inr photos"
  shows "\<exists>evs. timeline_events env rows photos = Inr evs \<and> sorted (map fst evs)
    \<and> mset evs = mset (map talk_line rows) + mset (map photo_line photos)
    \<and> (\<forall>ev \<in> set evs. fst ev div day_us + 1 = toordinal day)"
proof -
  have ok: "db_ok (srv_db st)" using assms(1) by (simp add: server_ok_def relay_ok_def)
  have nl: "toordinal day \<noteq> max_ordinal"
    using assms(3) day_bounds_not_last [OF assms(2)] by (auto simp: records_for_day_def rbind_eq_Inr)
  have r: "is_stamp (rec_spoken_at r) \<and> local_day app_time_zone (stamp_instant (rec_spoken_at r)) = toordinal day"
    if "r \<in> set rows" for r
    using that records_for_day_chronological(1) [OF ok assms(2,3)] ok by (auto simp: db_ok_def list_all_iff)
  have p: "is_stamp (ph_taken_at r) \<and> local_day app_time_zone (stamp_instant (ph_taken_at r)) = toordinal day"
    if "r \<in> set photos" for r
    using that photos_for_day_chronological(1) [OF ok assms(2,4)] ok by (auto simp: db_ok_def list_all_iff)
  have "rmap (row_event env) rows = Inr (map talk_line rows)"
    by (rule rmap_all_Inr) (use r in \<open>simp add: row_event_def talk_line_def Let_def kst_stamp [OF _ assms(2) nl]\<close>)
  moreover have "rmap (photo_event env) photos = Inr (map photo_line photos)"
    by (rule rmap_all_Inr) (use p in \<open>simp add: photo_event_def photo_line_def Let_def kst_stamp [OF _ assms(2) nl]\<close>)
  moreover have "fst ev div day_us + 1 = toordinal day"
    if "ev \<in> set (map talk_line rows @ map photo_line photos)" for ev
    using that r p by (auto simp: talk_line_def photo_line_def Let_def local_day_def)
  ultimately show ?thesis by (simp add: timeline_events_def)
qed

section \<open>The text of the report\<close>

text \<open>The \<open>summary\<close> field of the model's answer, as text.\<close>

definition summary_field :: "relay_ai \<Rightarrow> nat \<Rightarrow> pystr \<Rightarrow> byte list \<Rightarrow> pystr res" where
  "summary_field ai k url payload =
     rbind (ollama_request ai k url payload) (\<lambda>result.
     rbind (rbind (jindex result (u ''response'')) (parse_report ai)) (\<lambda>parsed.
     rbind (jindex parsed (u ''summary'')) (\<lambda>v. Inr (if truthy v then py_str ai v else []))))"


text \<open>A report that ends with a keyword section in the form of a dashed list, or that starts with a bracketed one, is not changed by the clean-up.\<close>

theorem keyword_section_stays:
  "clean_text (u ''## Day'' @ 10 # u ''## keywords'' @ 10 # u ''- walk'') = u ''## Day'' @ 10 # u ''## keywords'' @ 10 # u ''- walk''
    \<and> clean_text (u ''keywords: [walk]'') = u ''keywords: [walk]''"
proof -
  let ?s = "u ''## Day'' @ 10 # u ''## keywords'' @ 10 # u ''- walk''"
  have st: "strip ?s = ?s" "strip (u ''keywords: [walk]'') = u ''keywords: [walk]''"
    by (simp_all add: strip_def strip_by_def rstrip_by_def is_space_def)
  have "ends rx_title ?s i = []" for i
    by (cases i) (simp_all add: rx_title_def rx_spaces_def rx_hashes_def run_length_def is_space_def class_of_def)
  from rx_delete_none [of rx_title ?s 0, OF this] have "rx_delete rx_title ?s 0 = ?s" by simp
  moreover have "91 \<notin> set ?s" by simp
  ultimately have "clean_text ?s = ?s" using no_bracket_stays [of ?s] st by simp
  moreover have "clean_text (u ''keywords: [walk]'') = u ''keywords: [walk]''"
    using clean_text_line [of "u ''keywords: [walk]''"] st by simp
  ultimately show ?thesis by blast
qed

text \<open>When the model's answer is not JSON, the report text taken from it ends with the quotation mark that closes the field: for a body without commas or backslashes it is the body followed by that mark.\<close>

theorem fallback_quote:
  assumes "44 \<notin> set body" "92 \<notin> set body" "json_loads (ai_float ai) answer = Inl JSONDecodeError"
    "answer = 123 # field_open @ body @ 34 # field_next rest"
  shows "parse_report ai (JStr answer) = Inr (JObj [(u ''summary'', JStr (body @ [34])),
    (u ''keywords'', JList []), (u ''todos'', JList [])])"
  using assms by (simp add: parse_report_def fallback_value del: u_simps)

section \<open>Errors of the model\<close>

text \<open>C24: What an error of the model's HTTP request becomes. While a report is generated, the listed classes are answered with 503; an OSError that is none of them, such as a read timeout, is not caught and ends in an unhandled error. While the first photo without a caption is analysed, the list also names OSError, so the same timeout there is answered with 503.\<close>

theorem model_errors:
  assumes "timeline_events env rows photos = Inr evs"
    "encode_payload ai (report_payload ai (str_join [10] (map snd evs))) = Inr payload"
    "ai_post ai k (url @ u ''/api/generate'') payload = Inl e"
    and "\<not> has_caption ai photo" "rel_files (srv_relay (others 0 st)) (ph_file_path photo) = Some img"
    "encode_payload ai (vision_payload ai img) = Inr payload'"
    "ai_post ai 0 (srv_ollama_url (others 0 st) @ u ''/api/generate'') payload' = Inl e'"
  shows "generate_summary env ai k url rows photos =
      Inl (if e \<in> {URLError, HTTPError, KeyError, ValueError, UnicodeError, JSONDecodeError, TypeError}
           then HTTPException 503 else Unhandled e)
    \<and> snd (ensure_photo_captions env ai clock others d day (photo # later) st) =
      Inl (if e' \<in> {URLError, HTTPError, KeyError, ValueError, UnicodeError, JSONDecodeError, TypeError, OSError}
           then HTTPException 503 else Unhandled e')"
proof
  show "generate_summary env ai k url rows photos =
      Inl (if e \<in> {URLError, HTTPError, KeyError, ValueError, UnicodeError, JSONDecodeError, TypeError}
           then HTTPException 503 else Unhandled e)"
    using assms(1-3) by (auto simp: generate_summary_def ollama_request_def unavailable_def caught_report_def)
  have "analyze_photo_image ai 0 (srv_ollama_url (others 0 st)) (rel_files (srv_relay (others 0 st))) photo = Inl e'"
    using assms(5-7) by (simp add: analyze_photo_image_def ollama_request_def)
  with assms(4) show "snd (ensure_photo_captions env ai clock others d day (photo # later) st) =
      Inl (if e' \<in> {URLError, HTTPError, KeyError, ValueError, UnicodeError, JSONDecodeError, TypeError, OSError}
           then HTTPException 503 else Unhandled e')"
    by (simp add: ensure_photo_captions_def Let_def unavailable_def caught_vision_def caught_report_def)
qed

lemma caption_photos_reports:
  assumes "\<And>i s. daily_summaries (srv_db (others i s)) = daily_summaries (srv_db s)"
  shows "daily_summaries (srv_db (fst (caption_photos env ai clock others d k photos st))) = daily_summaries (srv_db st)"
  using assms
  by (induction photos arbitrary: k st)
     (auto simp: Let_def split: sum.split dest!: store_caption_InrD)

lemma photos_read:
  assumes "db_ok db" "photos_for_day env db d day = Inr photos"
  shows "\<exists>outs. rmap (photo_out_of d') photos = Inr outs"
proof -
  have "is_stamp (ph_taken_at r)" if "r \<in> set photos" for r
    using that assms by (auto simp: photos_for_day_def rbind_eq_Inr db_ok_def list_all_iff)
  then have "\<exists>out. photo_out_of d' r = Inr out" if "r \<in> set photos" for r
    using that by (fastforce simp: photo_out_of_def is_stamp_def split: sum.splits)
  then show ?thesis by (induction photos) force+
qed

text \<open>Once the report is stored, the response can be built.\<close>

lemma day_response_total:
  assumes "server_ok env st" "\<And>i s. relay_reach env ai netloc_ok s (others i s)"
    "open_day env (clock 0) p (srv_db st) = Inr (db, rows, photos)"
    "ensure_photo_captions env ai (clock \<circ> Suc) others (in_device_id p) (in_date p) photos (begin_day p db st) = (st2, res)"
    "report_bounded r"
    "close_day env ai now p r model (srv_db (others (Suc (2 * length photos)) (others (2 * length photos) st2))) = Inr (db5, gen, ps)"
  shows "\<exists>out. day_response p rows r model gen ps = Inr out"
proof -
  let ?st1 = "begin_day p db st" let ?st4 = "others (Suc (2 * length photos)) (others (2 * length photos) st2)"
  have ok1: "server_ok env ?st1" using open_day_ok [OF assms(1,3)] by simp
  have r2: "relay_reach env ai netloc_ok ?st1 st2"
    using ensure_captions_reach [where others = others and st = ?st1 and photos = photos, OF assms(2)] assms(4) by (metis fst_conv)
  have r4: "relay_reach env ai netloc_ok ?st1 ?st4" by (rule reach_trans [OF r2 reach_trans [OF assms(2) assms(2)]])
  have "server_ok env (put_db db5 ?st4)" by (rule close_day_ok [OF reach_ok [OF r4 ok1] assms(5,6)])
  then have ok5: "db_ok db5" by (simp add: server_ok_def relay_ok_def)
  have okdb: "db_ok db" using ok1 by (simp add: server_ok_def relay_ok_def)
  obtain outs where o: "rmap record_out_of rows = Inr outs"
    using records_read [OF okdb] open_day_InrD [OF assms(3)] by blast
  obtain pics where q: "rmap (photo_out_of (in_device_id p)) ps = Inr pics"
    using photos_read [OF ok5] close_day_InrD [OF assms(6)] by blast
  have "is_stamp gen" using close_day_InrD [OF assms(6)] now_text_stamp by blast
  then obtain t where "fromisoformat gen = Inr t" by (auto simp: is_stamp_def split: sum.splits)
  with o q show ?thesis by (auto simp: day_response_def split: prod.split)
qed

text \<open>C22: When summarising a day fails, for whatever reason, no report is stored or changed.\<close>

theorem failed_summary_stores_nothing:
  assumes "server_ok env st" "\<And>i s. relay_reach env ai netloc_ok s (others i s)"
    "\<And>i s. daily_summaries (srv_db (others i s)) = daily_summaries (srv_db s)"
    "sync_and_summarize env ai clock others p st = (st', Inl err)"
  shows "daily_summaries (srv_db st') = daily_summaries (srv_db st)"
proof (cases "valid_sync_in p")
  case False
  then show ?thesis using assms(4) by (simp add: sync_and_summarize_def)
next
  case valid: True
  show ?thesis
  proof (cases "open_day env (clock 0) p (srv_db st)")
    case (Inl e)
    with valid assms(4) show ?thesis by (simp add: sync_and_summarize_def)
  next
    case (Inr r)
    obtain db rows photos where o: "open_day env (clock 0) p (srv_db st) = Inr (db, rows, photos)"
      using Inr by (metis prod_cases3)
    have rep1: "daily_summaries db = daily_summaries (srv_db st)"
      using open_day_InrD [OF o] store_records_reports by blast
    obtain st2 res where c: "ensure_photo_captions env ai (clock \<circ> Suc) others (in_device_id p) (in_date p) photos (begin_day p db st) = (st2, res)"
      by fastforce
    have "st2 = fst (caption_photos env ai (clock \<circ> Suc) others (in_device_id p) 0 photos (begin_day p db st))"
      using c by (auto simp: ensure_photo_captions_def split: prod.splits option.splits)
    then have rep2: "daily_summaries (srv_db st2) = daily_summaries (srv_db st)"
      using caption_photos_reports [where others = others, OF assms(3)] rep1 by simp
    have resp: "day_response p rows r model gen ps \<noteq> Inl e"
      if "generate_summary env ai k url rows ph = Inr r"
        "close_day env ai now p r model (srv_db (others (Suc (2 * length photos)) (others (2 * length photos) st2))) = Inr (db5, gen, ps)"
      for k url ph r now model db5 gen ps e
      using day_response_total [where others = others, OF assms(1,2) o c generate_summary_bounded [OF that(1)] that(2)] by auto
    show ?thesis
      using assms(4) valid o c rep1 rep2 assms(3)
      by (auto simp: sync_and_summarize_def Let_def split: sum.splits prod.splits if_splits dest: resp)
  qed
qed

section \<open>Uploading a photo again\<close>

lemma photo_after_upload:
  assumes "sql_get ph_key (pin_device_id p, pin_client_photo_id p) (photo_records (rel_db r)) = Some old"
    "sync_photo env now p r = (r', Inr url)" "b64decode True (pin_image_base64 p) = Inr img"
  shows "\<exists>row. sql_get ph_key (pin_device_id p, pin_client_photo_id p) (photo_records (rel_db r')) = Some row
    \<and> rel_files r' (ph_file_path row) = Some img \<and> ph_vision_caption row = ph_vision_caption old
    \<and> ph_vision_model row = ph_vision_model old"
proof -
  let ?d = "pin_device_id p" and ?p = "pin_client_photo_id p"
  obtain new where ps: "photo_records (rel_db r') = sql_upsert ph_key (merge_photo new) new (photo_records (rel_db r))"
    and new: "ph_key new = (?d, ?p)" "ph_file_path new = photo_path env ?d ?p"
    and fs: "rel_files r' = write_photo (upload_path env ?d ?p) (photo_path env ?d ?p) img (rel_files r)"
    using assms(2) by (rule sync_photo_InrD) (use assms(3) in auto)
  have "sql_get ph_key (?d, ?p) (photo_records (rel_db r')) = Some (merge_photo new old)"
    unfolding ps by (subst sql_get_upsert) (simp_all add: new assms(1))
  moreover have "ph_vision_model (merge_photo new old) = ph_vision_model old" by (simp add: merge_photo_def)
  ultimately show ?thesis using new(2) by (auto simp: fs write_photo_file)
qed

text \<open>C25: Uploading another image for a photo that already has a caption replaces the file but keeps the caption of the old image, and the next report does not analyse the new one.\<close>

theorem stale_caption:
  assumes "sql_get ph_key (pin_device_id p, pin_client_photo_id p) (photo_records (rel_db r)) = Some old"
    "has_caption ai old" "sync_photo env now p r = (r', Inr url)"
    "b64decode True (pin_image_base64 p) = Inr img"
  shows "\<exists>row. sql_get ph_key (pin_device_id p, pin_client_photo_id p) (photo_records (rel_db r')) = Some row
    \<and> rel_files r' (ph_file_path row) = Some img \<and> ph_vision_caption row = ph_vision_caption old
    \<and> caption_photos env ai clock others d k [row] st = (st, None)"
  using photo_after_upload [OF assms(1,3,4)] assms(2) by (auto simp: has_caption_def)

section \<open>A run\<close>

text \<open>No other request interferes and every photo has its caption.\<close>

lemma summarize_run:
  assumes "valid_sync_in p" "open_day env (clock 0) p (srv_db st) = Inr (db, rows, photos)" "rows \<noteq> []"
    "list_all (has_caption ai) photos"
    "generate_summary env ai (length photos) (srv_ollama_url st) rows photos = Inr r"
    "close_day env ai (clock (Suc (length photos))) p r (summary_model ai photos) db = Inr (db5, gen, ph5)"
    "day_response p rows r (summary_model ai photos) gen ph5 = Inr out"
  shows "sync_and_summarize env ai clock (\<lambda>i s. s) p st = (put_db db5 (begin_day p db st), Inr out)"
proof -
  have "caption_photos env ai (clock \<circ> Suc) (\<lambda>i s. s) d k ph s = (s, None)" if "list_all (has_caption ai) ph" for d k ph s
    using that by (induction ph arbitrary: k) auto
  then have "ensure_photo_captions env ai (clock \<circ> Suc) (\<lambda>i s. s) (in_device_id p) (in_date p) photos (begin_day p db st)
      = (begin_day p db st, Inr photos)"
    using assms(4) open_day_InrD [OF assms(2)] by (auto simp: ensure_photo_captions_def)
  then show ?thesis using assms(1-3,5-7) by (simp add: sync_and_summarize_def put_db_def)
qed

lemma scalar_json_string: "list_all scalar s \<Longrightarrow> list_all scalar (json_string s)"
  by (induction s) (auto simp: json_string_def json_char_def scalar_def)

lemma scalar_join: "list_all scalar sep \<Longrightarrow> list_all (list_all scalar) xs \<Longrightarrow> list_all scalar (str_join sep xs)"
  by (induction xs) auto

lemma scalar_digits: "(\<And>c. c \<in> set s \<Longrightarrow> is_digit c) \<Longrightarrow> list_all scalar s"
  by (fastforce simp: list_all_iff is_digit_def scalar_def)

lemma scalar_clock: "list_all scalar (clock_hm w)"
  using scalar_digits [OF pad_digits] by (simp add: clock_hm_def scalar_def)

lemma scalar_dumps_strings: "list_all (list_all scalar) ss \<Longrightarrow> list_all scalar (json_dumps fr (JList (map JStr ss)))"
proof -
  have "list_all (list_all scalar) ss \<Longrightarrow> list_all scalar (dumps_items fr (map JStr ss))"
    by (induction ss) (auto simp: scalar_json_string scalar_def)
  then show "list_all (list_all scalar) ss \<Longrightarrow> ?thesis" by (simp add: scalar_def)
qed

lemma scalar_prompt: "list_all scalar report_prompt"
  by (simp add: report_prompt_def scalar_def)

lemma scalar_vision: "list_all scalar vision_prompt"
  by (simp add: vision_prompt_def scalar_def)

lemma scalar_labels: "list_all scalar label_talk"
  by (simp add: label_talk_def scalar_def)

lemma report_payload_encodes:
  assumes "list_all scalar timeline" "list_all scalar (ai_model ai)" "list_all scalar (ai_repr ai (2 * one_tenth))"
  shows "\<exists>bs. encode_payload ai (report_payload ai timeline) = Inr bs"
proof -
  have "list_all scalar (json_string (report_prompt @ timeline))"
    by (rule scalar_json_string) (simp add: scalar_prompt assms(1))
  then have "list_all scalar (json_dumps (ai_repr ai) (report_payload ai timeline))"
    using assms(2,3) by (simp add: report_payload_def string_array_def scalar_json_string scalar_def)
  then show ?thesis by (simp add: encode_payload_def utf8_encode_total)
qed

definition demo_report :: json where
  "demo_report = JObj [(u ''summary'', JStr (u ''## Day'')), (u ''keywords'', JList [JStr (u ''walk'')]),
     (u ''todos'', JList [])]"

definition demo_answer :: pystr where
  "demo_answer = json_dumps (\<lambda>_. []) (JObj [(u ''response'', JStr (json_dumps (\<lambda>_. []) demo_report))])"

definition demo_ai :: relay_ai where
  "demo_ai = \<lparr>ai_model = u ''gemma'', ai_vision_model = u ''vision'',
     ai_post = (\<lambda>k url body. Inr (map of_nat demo_answer)), ai_float = (\<lambda>_. JNull),
     ai_repr = (\<lambda>_. u ''0.2''), ai_str = (\<lambda>_. [])\<rparr>"

definition demo_server :: server where
  "demo_server = start_server (u ''http://127.0.0.1:11434'') None"

lemma demo_answer_ascii: "list_all (\<lambda>c. c < 128) demo_answer"
  by (simp add: demo_answer_def demo_report_def json_string_def json_char_def)

lemma demo_answer_reads: "ollama_request demo_ai k url payload
    = Inr (JObj [(u ''response'', JStr (json_dumps (\<lambda>_. []) demo_report))])"
proof -
  have "utf8_decode (map of_nat demo_answer) = Inr demo_answer"
    using utf8_roundtrip [OF utf8_encode_ascii [OF demo_answer_ascii]] .
  moreover have "json_plain (JObj [(u ''response'', JStr (json_dumps (\<lambda>_. []) demo_report))])"
    by (simp add: dict_ok_def)
  ultimately show ?thesis
    by (simp add: ollama_request_def demo_ai_def json_roundtrip demo_answer_def del: json_dumps.simps)
qed

lemma demo_report_reads: "read_report demo_ai (JObj [(u ''response'', JStr (json_dumps (\<lambda>_. []) demo_report))])
    = Inr (u ''## Day'', [u ''walk''], [])"
proof -
  have "json_plain demo_report" by (simp add: demo_report_def dict_ok_def)
  then have p: "parse_report demo_ai (JStr (json_dumps (\<lambda>_. []) demo_report)) = Inr demo_report"
    by (simp add: parse_report_def json_roundtrip)
  have a: "jindex (JObj [(u ''response'', x)]) (u ''response'') = Inr x" for x by (simp add: dget_Cons del: u_simps)
  have b: "jindex demo_report (u ''summary'') = Inr (JStr (u ''## Day''))"
    by (simp add: demo_report_def dget_Cons del: u_simps)
  have c: "str_list demo_ai 5 demo_report (u ''keywords'') = Inr [u ''walk'']"
    by (simp add: demo_report_def dget_Cons str_list_def jget_default_def jiter_def py_str_def)
  have d: "str_list demo_ai 10 demo_report (u ''todos'') = Inr []"
    by (simp add: demo_report_def dget_Cons str_list_def jget_default_def jiter_def)
  have "clean_text (u ''## Day'') = u ''## Day''"
    by (simp add: clean_text_line strip_def strip_by_def is_space_def)
  then have e: "clean_summary_markdown demo_ai (JStr (u ''## Day'')) = u ''## Day''"
    by (simp add: clean_summary_markdown_def truthy_def py_str_def)
  show ?thesis by (simp only: read_report_def a p b c d e rbind_simps)
qed

lemma sync_lifelog_stored:
  "sync_lifelog env now p r = (r', Inr k) \<Longrightarrow>
     \<exists>n. now_text env now = Inr n \<and> store_records env n p (rel_db r) = Inr (rel_db r') \<and> valid_sync_in p"
  by (auto simp: sync_lifelog_def rbind_eq_Inr split: if_splits sum.splits)

lemma demo_server_simps: "srv_relay demo_server = empty_relay"
  by (simp add: demo_server_def start_server_def)

lemma demo_server_ok: "server_ok demo_env demo_server"
  unfolding demo_server_def by (rule start_server_ok)

lemma demo_sync_fields: "in_device_id demo_sync = u ''phone-01''" "in_date demo_sync = demo_day"
  by (simp_all add: demo_sync_def)

lemma demo_open:
  obtains rows where "open_day demo_env demo_now demo_sync (srv_db demo_server) = Inr (rel_db demo_synced, rows, [])"
    "records_for_day demo_env (rel_db demo_synced) (u ''phone-01'') demo_day = Inr rows"
    "map rec_text rows = [u ''earlier'', u ''later'']"
proof -
  obtain rows where r: "records_for_day demo_env (rel_db demo_synced) (u ''phone-01'') demo_day = Inr rows"
    "map rec_text rows = [u ''earlier'', u ''later'']" by (insert demo_day_rows, elim exE conjE, rule that)
  obtain n where n: "now_text demo_env demo_now = Inr n"
    "store_records demo_env n demo_sync (rel_db empty_relay) = Inr (rel_db demo_synced)"
    using sync_lifelog_stored [OF demo_sync_run] by blast
  have "photo_records (rel_db demo_synced) = []"
    by (simp add: demo_synced_def sync_lifelog_photos empty_relay_def)
  then have p: "photos_for_day demo_env (rel_db demo_synced) (u ''phone-01'') demo_day = Inr []"
    using r(1) by (auto simp: photos_for_day_def records_for_day_def rbind_eq_Inr)
  show ?thesis
  proof (rule that [OF _ r])
    show "open_day demo_env demo_now demo_sync (srv_db demo_server) = Inr (rel_db demo_synced, rows, [])"
      by (simp only: open_day_def demo_server_simps demo_sync_fields n r(1) p rbind_simps prod.case)
  qed
qed

lemma demo_run:
  obtains st' out where "sync_and_summarize demo_env demo_ai (\<lambda>_. demo_now) (\<lambda>i s. s) demo_sync demo_server = (st', Inr out)"
    "map_option sout_summary (log_summary out) = Some (u ''## Day'')"
proof -
  obtain rows where o: "open_day demo_env demo_now demo_sync (srv_db demo_server) = Inr (rel_db demo_synced, rows, [])"
    and r: "records_for_day demo_env (rel_db demo_synced) (u ''phone-01'') demo_day = Inr rows"
    and t: "map rec_text rows = [u ''earlier'', u ''later'']" by (rule demo_open)
  have valid: "valid_sync_in demo_sync" using sync_lifelog_stored [OF demo_sync_run] by blast
  have nonempty: "rows \<noteq> []" using t by auto
  have ok: "server_ok demo_env (put_db (rel_db demo_synced) demo_server)" by (rule open_day_ok [OF demo_server_ok o])
  have p: "photos_for_day demo_env (rel_db demo_synced) (u ''phone-01'') demo_day = Inr []"
    using open_day_InrD [OF o] by (auto simp only: demo_sync_fields)
  have nl: "toordinal demo_day \<noteq> max_ordinal" by (simp add: max_ordinal_def)
  have "rmap (row_event demo_env) rows = Inr (map talk_line rows)"
  proof (rule rmap_all_Inr)
    fix x assume "x \<in> set rows"
    with records_for_day_chronological(1) [OF _ demo_day_valid r] demo_relay_ok(1)
    have "is_stamp (rec_spoken_at x)" "local_day app_time_zone (stamp_instant (rec_spoken_at x)) = toordinal demo_day"
      by (auto simp: relay_ok_def db_ok_def list_all_iff)
    then show "row_event demo_env x = Inr (talk_line x)"
      using kst_stamp [OF _ demo_day_valid nl] by (simp add: row_event_def talk_line_def Let_def)
  qed
  then have ev: "timeline_events demo_env rows [] = Inr (sort_key fst (map talk_line rows))"
    by (simp add: timeline_events_def)
  have "list_all scalar (rec_text x)" if "x \<in> set rows" for x
  proof -
    from that have "rec_text x \<in> set (map rec_text rows)" by simp
    then show ?thesis unfolding t by (auto simp: scalar_def)
  qed
  then have "list_all (list_all scalar) (map snd (sort_key fst (map talk_line rows)))"
    using scalar_clock scalar_labels by (auto simp: list_all_iff talk_line_def Let_def scalar_def)
  then have "list_all scalar (str_join [10] (map snd (sort_key fst (map talk_line rows))))"
    by (intro scalar_join) (simp add: scalar_def)
  then obtain payload where "encode_payload demo_ai (report_payload demo_ai (str_join [10] (map snd (sort_key fst (map talk_line rows))))) = Inr payload"
    using report_payload_encodes [of _ demo_ai] by (auto simp: demo_ai_def scalar_def)
  then have g: "generate_summary demo_env demo_ai 0 (srv_ollama_url demo_server) rows [] = Inr (u ''## Day'', [u ''walk''], [])"
    by (simp only: generate_summary_def ev demo_answer_reads demo_report_reads rbind_simps sum.case)
  obtain n where n: "now_text demo_env demo_now = Inr n"
    using sync_lifelog_stored [OF demo_sync_run] by blast
  have sc: "list_all scalar (string_json demo_ai [u ''walk''])" "list_all scalar (string_json demo_ai [])"
    unfolding string_json_def by (rule scalar_dumps_strings, simp add: scalar_def)+
  have "\<exists>db. store_summary demo_ai n (u ''phone-01'') demo_day (u ''## Day'', [u ''walk''], []) (summary_model demo_ai []) (rel_db demo_synced) = Inr db"
    using sc by (simp add: store_summary_def report_row_def sql_text_def summary_model_def demo_ai_def scalar_def Let_def)
  then obtain db where db: "store_summary demo_ai n (u ''phone-01'') demo_day (u ''## Day'', [u ''walk''], []) (summary_model demo_ai []) (rel_db demo_synced) = Inr db"
    by blast
  have "photos_for_day demo_env db (u ''phone-01'') demo_day = Inr []"
    using p store_summary_InrD [OF db] by (simp add: photos_for_day_def)
  then have c: "close_day demo_env demo_ai demo_now demo_sync (u ''## Day'', [u ''walk''], []) (summary_model demo_ai []) (rel_db demo_synced) = Inr (db, n, [])"
    by (simp only: close_day_def demo_sync_fields n db rbind_simps)
  have "is_stamp n" using n by (rule now_text_stamp)
  then obtain ts where ts: "fromisoformat n = Inr ts" by (auto simp: is_stamp_def split: sum.splits)
  obtain outs where outs: "rmap record_out_of rows = Inr outs"
    using records_read [OF _ r] demo_relay_ok(1) by (auto simp: relay_ok_def)
  obtain out where out: "day_response demo_sync rows (u ''## Day'', [u ''walk''], []) (summary_model demo_ai []) n [] = Inr out"
    "map_option sout_summary (log_summary out) = Some (u ''## Day'')"
    by (simp add: day_response_def outs ts)
  show ?thesis
    using that [OF summarize_run [where clock = "\<lambda>_. demo_now", OF valid o nonempty _ _ _ out(1)] out(2)] g c by simp
qed

section \<open>Properties of runs\<close>

text \<open>C1: In every state the relay server can reach from an empty database, by any interleaving of syncs, uploads, caption updates, finished reports and changes of the settings: device ids, records, photos and reports are unique; every record, photo and report belongs to a registered device, although SQLite checks no foreign key on these connections; every timestamp of every table is the UTC text of an instant; every photo row names an existing file at the path of its identifiers; and every stored report has at most five keywords and ten to-dos, because its handler cut the model's lists.\<close>

theorem relay_reachable_ok:
  "relay_inv env (fold (relay_step env ai netloc_ok) es (start_server url settings))"
  by (rule relay_registry.run_inv [OF start_server_inv])

text \<open>C6: The long handler is a sequence of the server's atomic events: when the other requests that run while it waits are such events too, what it does to the server is what some sequence of events does.\<close>

theorem summarize_is_events:
  assumes "\<And>i s. relay_reach env ai netloc_ok s (others i s)"
  shows "\<exists>es. fst (sync_and_summarize env ai clock others p st) = fold (relay_step env ai netloc_ok) es st"
  using summarize_reach [where others = others, OF assms] by (simp add: relay_reach_def)

lemma no_others: "relay_reach env ai netloc_ok s ((\<lambda>i s. s) i s)"
  by simp

theorem summarize_is_events_witness:
  "\<exists>es. fst (sync_and_summarize demo_env demo_ai (\<lambda>_. demo_now) (\<lambda>i. relay_step demo_env demo_ai (\<lambda>_. True) (SetOllamaUrl (u ''http://h:1''))) demo_sync demo_server)
     = fold (relay_step demo_env demo_ai (\<lambda>_. True)) es demo_server"
  by (rule summarize_is_events) (rule reach_step)

theorem report_read_back_witness:
  "\<exists>st' out log. sync_and_summarize demo_env demo_ai (\<lambda>_. demo_now) (\<lambda>i s. s) demo_sync demo_server = (st', Inr out)
    \<and> get_lifelog demo_env demo_ai (u ''phone-01'') demo_day st' = Inr log
    \<and> map_option sout_summary (log_summary log) = Some (u ''## Day'')"
proof -
  obtain st' out where r: "sync_and_summarize demo_env demo_ai (\<lambda>_. demo_now) (\<lambda>i s. s) demo_sync demo_server = (st', Inr out)"
    "map_option sout_summary (log_summary out) = Some (u ''## Day'')" by (rule demo_run)
  show ?thesis
    using report_read_back [OF demo_server_ok no_others r(1), unfolded demo_sync_fields] r by metis
qed

theorem timeline_exact_witness:
  "\<exists>rows evs. records_for_day demo_env (rel_db demo_synced) (u ''phone-01'') demo_day = Inr rows
    \<and> timeline_events demo_env rows [] = Inr evs \<and> sorted (map fst evs) \<and> length evs = 2"
proof -
  obtain rows where o: "open_day demo_env demo_now demo_sync (srv_db demo_server) = Inr (rel_db demo_synced, rows, [])"
    and r: "records_for_day demo_env (rel_db demo_synced) (u ''phone-01'') demo_day = Inr rows"
    and t: "map rec_text rows = [u ''earlier'', u ''later'']" by (rule demo_open)
  have ok: "server_ok demo_env (put_db (rel_db demo_synced) demo_server)" by (rule open_day_ok [OF demo_server_ok o])
  have p: "photos_for_day demo_env (rel_db demo_synced) (u ''phone-01'') demo_day = Inr []"
    using open_day_InrD [OF o] by (auto simp only: demo_sync_fields)
  obtain evs where e: "timeline_events demo_env rows [] = Inr evs" "sorted (map fst evs)"
    "mset evs = mset (map talk_line rows)"
    using timeline_exact [OF ok demo_day_valid, unfolded put_db_simps, OF r p] by auto
  have "length evs = length rows" using arg_cong [OF e(3), of size] by simp
  also have "length rows = 2" using arg_cong [OF t, of length] by simp
  finally show ?thesis using r e by blast
qed

lemma demo_generate: "\<exists>payload. encode_payload demo_ai (report_payload demo_ai []) = Inr payload"
  by (rule report_payload_encodes) (simp_all add: demo_ai_def scalar_def)

lemma demo_empty_timeline: "timeline_events demo_env [] [] = Inr []"
  by (simp add: timeline_events_def)

lemma demo_generated: "generate_summary demo_env demo_ai 0 url [] [] = Inr (u ''## Day'', [u ''walk''], [])"
proof -
  obtain payload where "encode_payload demo_ai (report_payload demo_ai (str_join [10] (map snd ([] :: (int \<times> pystr) list)))) = Inr payload"
    using demo_generate by auto
  then show ?thesis
    by (simp only: generate_summary_def demo_empty_timeline demo_answer_reads demo_report_reads rbind_simps sum.case)
qed


definition timeout_ai :: relay_ai where
  "timeout_ai = demo_ai\<lparr>ai_post := (\<lambda>_ _ _. Inl OSError)\<rparr>"

definition timeout_photo :: photo_row where
  "timeout_photo = \<lparr>ph_device_id = u ''phone-01'', ph_client_photo_id = u ''a'', ph_taken_at = [], ph_latitude = None,
     ph_longitude = None, ph_location_name = None, ph_file_path = u ''a.jpg'', ph_received_at = [],
     ph_vision_caption = None, ph_vision_model = None, ph_analyzed_at = None\<rparr>"

definition timeout_server :: server where
  "timeout_server = demo_server\<lparr>srv_relay := empty_relay\<lparr>rel_files := [u ''a.jpg'' \<mapsto> []]\<rparr>\<rparr>"

theorem model_errors_witness:
  "generate_summary demo_env timeout_ai 0 (u ''http://h'') [] [] = Inl (Unhandled OSError)
    \<and> snd (ensure_photo_captions demo_env timeout_ai (\<lambda>_. 0) (\<lambda>_ s. s) [] demo_day [timeout_photo] timeout_server)
      = Inl (HTTPException 503)"
proof -
  have ai: "list_all scalar (ai_model timeout_ai)" "list_all scalar (ai_repr timeout_ai q)"
    "list_all scalar (ai_vision_model timeout_ai)" for q
    by (simp_all add: timeout_ai_def demo_ai_def scalar_def)
  have "\<exists>bs. encode_payload timeout_ai (report_payload timeout_ai (str_join [10] (map snd ([] :: (int \<times> pystr) list)))) = Inr bs"
    by (rule report_payload_encodes) (simp_all add: ai)
  then obtain payload where p: "encode_payload timeout_ai (report_payload timeout_ai (str_join [10] (map snd ([] :: (int \<times> pystr) list)))) = Inr payload"
    by blast
  have "list_all scalar (json_dumps (ai_repr timeout_ai) (vision_payload timeout_ai []))"
    using ai(2,3) scalar_vision by (simp add: vision_payload_def scalar_json_string scalar_def)
  then obtain payload' where v: "encode_payload timeout_ai (vision_payload timeout_ai []) = Inr payload'"
    by (auto simp: encode_payload_def utf8_encode_total)
  have post: "ai_post timeout_ai k url bs = Inl OSError" for k url bs by (simp add: timeout_ai_def)
  have "\<not> has_caption timeout_ai timeout_photo" "rel_files (srv_relay timeout_server) (ph_file_path timeout_photo) = Some []"
    by (simp_all add: has_caption_def timeout_photo_def timeout_server_def)
  from model_errors [OF demo_empty_timeline p post this(1) _ v post, of "\<lambda>_ s. s" timeout_server] this(2)
  show ?thesis by simp
qed

text \<open>The answer with a line break inside a JSON string, as small models write it.\<close>

definition demo_broken :: pystr where
  "demo_broken = 123 # field_open @ [97, 10, 98] @ 34 # field_next [91, 93, 125]"

lemma demo_broken_error: "json_loads fl demo_broken = Inl JSONDecodeError"
proof -
  have key: "scan_string (u ''summary'' @ 34 # x) = Inr (u ''summary'', x)" for x
    by (simp add: scan_string_plain)
  have val: "scan_string (97 # 10 # x) = Inl JSONDecodeError" for x
    by (subst scan_string_plain, simp, simp, simp, subst scan_string.simps, simp)
  have "jmembers fl (Suc (Suc n)) (34 # u ''summary'' @ 34 # 58 # 34 # 97 # 10 # x) = Inl JSONDecodeError" for n x
    by (simp add: key val json_ws_def del: u_simps)
  then have "jscan fl (Suc (Suc (Suc n))) demo_broken = Inl JSONDecodeError" for n
    by (simp add: demo_broken_def field_open_def json_ws_def del: u_simps jmembers.simps)
  moreover have "2 * length demo_broken + 1 = Suc (Suc (Suc (2 * length demo_broken - 2)))"
    by (simp add: demo_broken_def field_open_def)
  moreover have "skip_ws demo_broken = demo_broken" "\<not> starts 65279 demo_broken"
    by (simp_all add: demo_broken_def json_ws_def)
  ultimately show ?thesis by (simp only: json_loads_def if_False rbind_simps)
qed

theorem fallback_quote_witness:
  "parse_report demo_ai (JStr demo_broken) = Inr (JObj [(u ''summary'', JStr [97, 10, 98, 34]),
    (u ''keywords'', JList []), (u ''todos'', JList [])])"
  using fallback_quote [OF _ _ demo_broken_error demo_broken_def] by simp

theorem failed_summary_stores_nothing_witness:
  "daily_summaries (srv_db (fst (sync_and_summarize demo_env demo_ai (\<lambda>_. demo_now) (\<lambda>i s. s)
      (demo_sync\<lparr>in_device_id := u ''x''\<rparr>) demo_server))) = daily_summaries (srv_db demo_server)"
proof -
  have "\<not> valid_sync_in (demo_sync\<lparr>in_device_id := u ''x''\<rparr>)"
    by (simp add: valid_sync_in_def between_def)
  then have "sync_and_summarize demo_env demo_ai (\<lambda>_. demo_now) (\<lambda>i s. s) (demo_sync\<lparr>in_device_id := u ''x''\<rparr>) demo_server
      = (demo_server, Inl (HTTPException 422))" by (simp add: sync_and_summarize_def)
  with failed_summary_stores_nothing [OF demo_server_ok no_others _ this] show ?thesis by simp
qed

text \<open>The demo relay with a caption for its photo.\<close>

definition captioned_relay :: relay where
  "captioned_relay = demo_relay\<lparr>rel_db := set_caption (u ''phone-01'') (u ''a/b'') (u ''a cat'') (u ''vision'') (u ''t'') (rel_db demo_relay)\<rparr>"

lemma captioned_row:
  obtains old where "sql_get ph_key (u ''phone-01'', u ''a/b'') (photo_records (rel_db captioned_relay)) = Some old"
    "has_caption demo_ai old" "ph_vision_caption old = Some (u ''a cat'')"
proof -
  let ?f = "\<lambda>r. r\<lparr>ph_vision_caption := Some (u ''a cat''), ph_vision_model := Some (u ''vision''), ph_analyzed_at := Some (u ''t'')\<rparr>"
  have f: "pin_device_id (demo_photo pid b) = u ''phone-01''" "pin_client_photo_id (demo_photo pid b) = pid"
    "b64decode True (pin_image_base64 (demo_photo pid b)) = Inr (demo_image b)" for pid b
    by (simp_all add: demo_photo_def b64decode_b64encode)
  obtain row where "sql_get ph_key (u ''phone-01'', u ''a/b'') (photo_records (rel_db demo_relay)) = Some row"
    using sync_photo_fetch [OF demo_relay_ok(1) demo_photo_run f(3)] unfolding f
    by (auto simp: get_photo_def split: option.splits)
  moreover have "ph_key (?f r) = ph_key r" for r by (simp add: ph_key_def)
  from sql_get_update [of ph_key ?f, OF this]
  have "sql_get ph_key k (photo_records (rel_db captioned_relay)) = (if k = (u ''phone-01'', u ''a/b'')
      then map_option ?f (sql_get ph_key k (photo_records (rel_db demo_relay)))
      else sql_get ph_key k (photo_records (rel_db demo_relay)))" for k
    by (simp add: captioned_relay_def set_caption_def del: u_simps)
  ultimately have "sql_get ph_key (u ''phone-01'', u ''a/b'') (photo_records (rel_db captioned_relay)) = Some (?f row)"
    by (simp del: u_simps)
  then show ?thesis by (rule that) (simp_all add: has_caption_def demo_ai_def)
qed

theorem stale_caption_witness:
  "\<exists>(r' :: relay) row. sql_get ph_key (u ''phone-01'', u ''a/b'') (photo_records (rel_db r')) = Some row
    \<and> rel_files r' (ph_file_path row) = Some (demo_image 9) \<and> ph_vision_caption row = Some (u ''a cat'')"
proof -
  have f: "pin_device_id (demo_photo pid b) = u ''phone-01''" "pin_client_photo_id (demo_photo pid b) = pid"
    "b64decode True (pin_image_base64 (demo_photo pid b)) = Inr (demo_image b)" for pid b
    by (simp_all add: demo_photo_def b64decode_b64encode)
  obtain old where old: "sql_get ph_key (u ''phone-01'', u ''a/b'') (photo_records (rel_db captioned_relay)) = Some old"
    "has_caption demo_ai old" "ph_vision_caption old = Some (u ''a cat'')" by (rule captioned_row)
  obtain r' where "sync_photo demo_env demo_now (demo_photo (u ''a/b'') 9) captioned_relay = (r', Inr (photo_url (u ''phone-01'') (u ''a/b'')))"
    using demo_photo_sync [of "u ''a/b''" 9 captioned_relay] by auto
  from stale_caption [OF _ old(2) this f(3), unfolded f, OF old(1), where st = demo_server and k = 0 and clock = "\<lambda>_. 0" and others = "\<lambda>_ s. s" and d = "[]"]
  show ?thesis unfolding old(3) by blast
qed

text \<open>An Ollama address that ends in an empty query or fragment passes the check, and the request path appended to it becomes part of the query or fragment.\<close>

theorem settings_empty_query:
  "normalize_ollama_url (\<lambda>_. True) (u ''http://h:1?'') = Inr (u ''http://h:1?'')
    \<and> normalize_ollama_url (\<lambda>_. True) (u ''http://h:1#'') = Inr (u ''http://h:1#'')
    \<and> (case urlsplit (\<lambda>_. True) (u ''http://h:1?'' @ u ''/api/generate'') of
         Inr s \<Rightarrow> url_path s = [] \<and> url_query s = u ''/api/generate'' | Inl _ \<Rightarrow> False)
    \<and> (case urlsplit (\<lambda>_. True) (u ''http://h:1#'' @ u ''/api/generate'') of
         Inr s \<Rightarrow> url_path s = [] \<and> url_fragment s = u ''/api/generate'' | Inl _ \<Rightarrow> False)"
  by (simp add: normalize_ollama_url_def urlsplit_def split_scheme_def partition_at_def rpartition_at_def
      host_info_def user_info_def check_port_def strip_def strip_by_def rstrip_by_def is_space_def
      scheme_char_def is_letter_def is_digit_def lower_ascii_def url_delimiter_def Let_def)

text \<open>A setting that is accepted holds no credentials, path, query or fragment, and a port below 65536.\<close>

lemma normalize_accepts:
  assumes "normalize_ollama_url netloc_ok v = Inr url"
  shows "\<exists>s. urlsplit netloc_ok url = Inr s \<and> url_scheme s \<in> {u ''http'', u ''https''}
    \<and> url_path s \<in> {[], [47]} \<and> url_query s = [] \<and> url_fragment s = [] \<and> user_info (url_netloc s) = ([], [])
    \<and> fst (host_info (url_netloc s)) \<noteq> [] \<and> check_port (snd (host_info (url_netloc s))) = Inr ()"
proof -
  from assms obtain s where s: "urlsplit netloc_ok url = Inr s"
    and c: "\<not> (url_scheme s \<notin> {u ''http'', u ''https''} \<or> fst (host_info (url_netloc s)) = [] \<or> url_path s \<notin> {[], [47]})"
    "\<not> (fst (user_info (url_netloc s)) \<noteq> [] \<or> snd (user_info (url_netloc s)) \<noteq> [] \<or> url_query s \<noteq> [] \<or> url_fragment s \<noteq> [])"
    and p: "check_port (snd (host_info (url_netloc s))) = Inr ()"
    unfolding normalize_ollama_url_def Let_def rbind_eq_Inr
    by (elim exE conjE) (split if_split_asm, simp, split if_split_asm, simp, auto simp: rbind_eq_Inr simp del: u_simps)
  have "user_info (url_netloc s) = ([], [])" using c(2) by (metis prod.collapse)
  with s c p show ?thesis by blast
qed


end
