(* ===== verification/Struct_Pack.thy ===== *)
theory Struct_Pack
  imports LLPrelude
begin

text \<open>
  Python's \<open>struct.pack\<close> and \<open>struct.unpack\<close> for the integer formats the code uses:
  little-endian \<open>B H L Q\<close> and \<open>b h l q\<close> (the TLV codec) and big-endian \<open>B H\<close> (the frames of
  the BLE proxy).  A short buffer raises \<open>struct.error\<close>.
\<close>

fun le_bytes :: "nat \<Rightarrow> nat \<Rightarrow> byte list" where
  "le_bytes 0 n = []"
| "le_bytes (Suc k) n = of_nat (n mod 256) # le_bytes k (n div 256)"

fun le_value :: "byte list \<Rightarrow> nat" where
  "le_value [] = 0"
| "le_value (b # bs) = unat b + 256 * le_value bs"

definition unpack_le :: "nat \<Rightarrow> byte list \<Rightarrow> pyexc + nat \<times> byte list" where
  "unpack_le k bs = (if length bs < k then Inl StructError else Inr (le_value (take k bs), drop k bs))"

text \<open>Two's complement: \<open>k\<close> bytes of a signed value, and back.\<close>

definition signed_bytes :: "nat \<Rightarrow> int \<Rightarrow> byte list" where
  "signed_bytes k i = le_bytes k (nat (i mod 256 ^ k))"

definition signed_value :: "nat \<Rightarrow> nat \<Rightarrow> int" where
  "signed_value k n = (if 2 * n < 256 ^ k then int n else int n - 256 ^ k)"

definition unpack_signed :: "nat \<Rightarrow> byte list \<Rightarrow> pyexc + int \<times> byte list" where
  "unpack_signed k bs = rbind (unpack_le k bs) (\<lambda>(n, bs'). Inr (signed_value k n, bs'))"

definition be_bytes :: "nat \<Rightarrow> nat \<Rightarrow> byte list" where
  "be_bytes k n = rev (le_bytes k n)"

definition be_value :: "byte list \<Rightarrow> nat" where
  "be_value bs = le_value (rev bs)"

definition unpack_be :: "nat \<Rightarrow> byte list \<Rightarrow> pyexc + nat \<times> byte list" where
  "unpack_be k bs = (if length bs < k then Inl StructError else Inr (be_value (take k bs), drop k bs))"

section \<open>Round trips\<close>

lemma unat_of_nat_byte: "unat (of_nat n :: byte) = n mod 256"
  by (simp add: unat_of_nat)

lemma unat_lt_256: "unat (b :: byte) < 256"
  using unsigned_less [of b] by simp

lemma length_le_bytes [simp]: "length (le_bytes k n) = k"
  by (induction k arbitrary: n) auto

lemma le_value_bytes: "n < 256 ^ k \<Longrightarrow> le_value (le_bytes k n) = n"
proof (induction k arbitrary: n)
  case (Suc k)
  then have "n div 256 < 256 ^ k" by (simp add: less_mult_imp_div_less mult.commute)
  with Suc.IH show ?case by (simp add: unat_of_nat_byte)
qed simp

lemma le_bytes_value: "le_bytes (length bs) (le_value bs) = bs"
proof (induction bs)
  case (Cons b bs)
  have "(unat b + 256 * le_value bs) mod 256 = unat b" "(unat b + 256 * le_value bs) div 256 = le_value bs"
    using unat_lt_256 [of b] by simp_all
  with Cons show ?case by simp
qed simp

lemma le_value_bound: "le_value bs < 256 ^ length bs"
proof (induction bs)
  case (Cons b bs)
  have "unat b + 256 * le_value bs < 256 * Suc (le_value bs)" using unat_lt_256 [of b] by simp
  also have "\<dots> \<le> 256 * 256 ^ length bs" using Cons by (intro mult_le_mono2) simp
  finally show ?case by simp
qed simp

lemma unpack_le_bytes [simp]: "n < 256 ^ k \<Longrightarrow> unpack_le k (le_bytes k n @ rest) = Inr (n, rest)"
  by (simp add: unpack_le_def le_value_bytes)

lemma unpack_leD: "unpack_le k bs = Inr (n, rest) \<Longrightarrow> bs = le_bytes k n @ rest \<and> n < 256 ^ k"
  using le_value_bound [of "take k bs"] le_bytes_value [of "take k bs"]
  by (auto simp: unpack_le_def min_def split: if_splits)

lemma nat_mod_less: "nat (i mod 256 ^ k) < 256 ^ k"
proof -
  have "i mod 256 ^ k < 256 ^ k" by simp
  then have "int (nat (i mod 256 ^ k)) < int (256 ^ k)" by simp
  then show ?thesis by (simp only: of_nat_less_iff)
qed

lemma signed_value_mod:
  assumes "- (256 ^ k) \<le> 2 * i" "2 * i < 256 ^ k"
  shows "signed_value k (nat (i mod 256 ^ k)) = i"
proof (cases "0 \<le> i")
  case True
  then have "i mod 256 ^ k = i" using assms(2) by simp
  moreover have "2 * nat i < 256 ^ k"
  proof -
    have "int (2 * nat i) < int (256 ^ k)" using True assms(2) by simp
    then show ?thesis by (simp only: of_nat_less_iff)
  qed
  ultimately show ?thesis using True by (simp add: signed_value_def)
next
  case False
  have "i mod 256 ^ k = (i + 256 ^ k) mod 256 ^ k" by simp
  also have "\<dots> = i + 256 ^ k" using False assms(1) by (intro mod_pos_pos_trivial) auto
  finally have m: "i mod 256 ^ k = i + 256 ^ k" .
  have "\<not> 2 * nat (i + 256 ^ k) < 256 ^ k"
  proof
    assume "2 * nat (i + 256 ^ k) < 256 ^ k"
    then have "int (2 * nat (i + 256 ^ k)) < int (256 ^ k)" by (simp only: of_nat_less_iff)
    moreover have "0 < (256 :: int) ^ k" by simp
    ultimately show False using assms(1) by (auto split: if_splits)
  qed
  then show ?thesis using False assms(1) by (simp add: signed_value_def m)
qed

lemma unpack_signed_bytes [simp]:
  "- (256 ^ k) \<le> 2 * i \<Longrightarrow> 2 * i < 256 ^ k \<Longrightarrow> unpack_signed k (signed_bytes k i @ rest) = Inr (i, rest)"
  by (simp add: unpack_signed_def signed_bytes_def nat_mod_less signed_value_mod)

lemma length_signed_bytes [simp]: "length (signed_bytes k i) = k"
  by (simp add: signed_bytes_def)

lemma length_be_bytes [simp]: "length (be_bytes k n) = k"
  by (simp add: be_bytes_def)

lemma unpack_be_bytes [simp]: "n < 256 ^ k \<Longrightarrow> unpack_be k (be_bytes k n @ rest) = Inr (n, rest)"
  by (simp add: unpack_be_def be_value_def be_bytes_def le_value_bytes)

interpretation le_field: prefix_codec "le_bytes k" "unpack_le k" "\<lambda>n. n < 256 ^ k" for k
  by unfold_locales simp

interpretation signed_field: prefix_codec "signed_bytes k" "unpack_signed k"
  "\<lambda>i. - (256 ^ k) \<le> 2 * i \<and> 2 * i < 256 ^ k" for k
  by unfold_locales simp

interpretation be_field: prefix_codec "be_bytes k" "unpack_be k" "\<lambda>n. n < 256 ^ k" for k
  by unfold_locales simp

end
