(* ===== verification/Ieee_Floats.thy ===== *)
theory Ieee_Floats
  imports Struct_Pack
begin

text \<open>
  Python's floats and the conversions of \<open>struct\<close> between them and single precision, which the
  TLV codec uses for its \<open>float32\<close>.  A Python float is a C double: its 64 IEEE bits.
  \<open>struct.pack("f", x)\<close> rounds to the nearest single, ties to even, and raises
  \<open>OverflowError\<close> when a finite value has no single near it; \<open>struct.unpack("<f", bs)\<close> is exact.
  A NaN keeps its sign and the top of its payload and becomes quiet, as the conversions of the
  hardware do.

  A magnitude is the bits without the sign, as a number: exponent field times \<open>2 ^ 52\<close> (or
  \<open>2 ^ 23\<close>) plus fraction.  Rounding a magnitude carries into the exponent by itself.
\<close>

type_synonym py_float = "64 word"

lemma of_nat_unat_word: "of_nat (unat x) = (x :: 'a::len word)"
  by simp

section \<open>Single and double magnitudes\<close>

lemma div_mod_parts: "r < b \<Longrightarrow> (a * b + r) div b = (a :: nat)" "r < b \<Longrightarrow> (a * b + r) mod b = r"
  by simp_all

text \<open>The position of the highest bit.\<close>

fun top_bit :: "nat \<Rightarrow> nat" where
  "top_bit n = (if n \<le> 1 then 0 else Suc (top_bit (n div 2)))"

declare top_bit.simps [simp del]

lemma top_bit_bounds: "0 < n \<Longrightarrow> 2 ^ top_bit n \<le> n \<and> n < 2 ^ Suc (top_bit n)"
proof (induction n rule: top_bit.induct)
  case (1 n)
  then show ?case
  proof (cases "n \<le> 1")
    case False
    then have "2 ^ top_bit (n div 2) \<le> n div 2 \<and> n div 2 < 2 ^ Suc (top_bit (n div 2))" using 1(1) by simp
    moreover have "top_bit n = Suc (top_bit (n div 2))" using False by (simp add: top_bit.simps)
    ultimately show ?thesis by auto
  qed (simp add: top_bit.simps)
qed

lemma top_bit_less: "0 < n \<Longrightarrow> n < 2 ^ k \<Longrightarrow> top_bit n < k"
  using top_bit_bounds [of n] by (meson le_less_trans one_less_numeral_iff power_less_imp_less_exp semiring_norm(76))

definition single_inf :: nat where "single_inf = 255 * 2 ^ 23"
definition double_inf :: nat where "double_inf = 2047 * 2 ^ 52"

text \<open>A fraction of 23 bits with its quiet bit set.\<close>

definition quiet :: "nat \<Rightarrow> nat" where
  "quiet f = (if f < 2 ^ 22 then f + 2 ^ 22 else f)"

text \<open>The cast from double to single; \<open>None\<close> is a finite value that rounds to infinity.\<close>

definition narrow :: "nat \<Rightarrow> nat option" where
  "narrow m =
     (let e = m div 2 ^ 52; f = m mod 2 ^ 52
      in if e = 2047 then Some (single_inf + (if f = 0 then 0 else quiet (f div 2 ^ 29)))
         else let s = (if 897 \<le> e then round_even (m - 896 * 2 ^ 52) 29
                       else if e = 0 then round_even f 925
                       else round_even (2 ^ 52 + f) (926 - e))
              in if s < single_inf then Some s else None)"

text \<open>The cast from single to double; a subnormal single is a normal double.\<close>

definition widen :: "nat \<Rightarrow> nat" where
  "widen s =
     (let e = s div 2 ^ 23; f = s mod 2 ^ 23
      in if e = 255 then double_inf + (if f = 0 then 0 else quiet f * 2 ^ 29)
         else if e = 0 then (if f = 0 then 0 else (top_bit f + 874) * 2 ^ 52 + (f - 2 ^ top_bit f) * 2 ^ (52 - top_bit f))
         else s * 2 ^ 29 + 896 * 2 ^ 52)"

section \<open>The conversions of struct\<close>

definition pack_float :: "py_float \<Rightarrow> byte list res" where
  "pack_float x = (case narrow (unat x mod 2 ^ 63) of
       None \<Rightarrow> Inl OverflowError
     | Some s \<Rightarrow> Inr (le_bytes 4 (unat x div 2 ^ 63 * 2 ^ 31 + s)))"

definition unpack_float :: "nat \<Rightarrow> py_float" where
  "unpack_float n = of_nat (n div 2 ^ 31 * 2 ^ 63 + widen (n mod 2 ^ 31))"

definition pack_double :: "py_float \<Rightarrow> byte list" where
  "pack_double x = le_bytes 8 (unat x)"

definition unpack_double :: "nat \<Rightarrow> py_float" where
  "unpack_double n = of_nat n"

text \<open>The float that is read where \<open>x\<close> was written as a single.\<close>

definition to_single :: "py_float \<Rightarrow> py_float" where
  "to_single x = (case pack_float x of Inl _ \<Rightarrow> x | Inr bs \<Rightarrow> unpack_float (le_value bs))"

section \<open>What is read is a single\<close>

text \<open>A magnitude of a finite single, of the infinity or of a quiet NaN.\<close>

definition quiet_single :: "nat \<Rightarrow> bool" where
  "quiet_single s \<longleftrightarrow> s \<le> single_inf \<or> single_inf + 2 ^ 22 \<le> s \<and> s < 2 ^ 31"

lemma narrow_quiet: "narrow m = Some s \<Longrightarrow> quiet_single s"
proof -
  assume n: "narrow m = Some s"
  have "m mod 2 ^ 52 div 2 ^ 29 < 2 ^ 23"
    by (rule less_mult_imp_div_less) simp
  then have "2 ^ 22 \<le> quiet (m mod 2 ^ 52 div 2 ^ 29) \<and> quiet (m mod 2 ^ 52 div 2 ^ 29) < 2 ^ 23"
    by (simp add: quiet_def)
  with n show ?thesis
    by (auto simp: narrow_def quiet_single_def single_inf_def Let_def split: if_splits)
qed

lemma quiet_single_less: "quiet_single s \<Longrightarrow> s < 2 ^ 31"
  by (auto simp: quiet_single_def single_inf_def)

lemma subnormal_double:
  assumes "0 < f" "f < 2 ^ 23"
  shows "top_bit f + 874 \<le> 896" "(f - 2 ^ top_bit f) * 2 ^ (52 - top_bit f) < 2 ^ 52"
    "2 ^ 52 + (f - 2 ^ top_bit f) * 2 ^ (52 - top_bit f) = f * 2 ^ (52 - top_bit f)"
proof -
  have k: "top_bit f < 23" using assms by (rule top_bit_less)
  then show "top_bit f + 874 \<le> 896" by simp
  have b: "2 ^ top_bit f \<le> f" "f < 2 * 2 ^ top_bit f" using top_bit_bounds [OF assms(1)] by simp_all
  have p: "(2 :: nat) ^ top_bit f * 2 ^ (52 - top_bit f) = 2 ^ 52"
    using k by (subst power_add [symmetric]) simp
  have "(f - 2 ^ top_bit f) * 2 ^ (52 - top_bit f) < 2 ^ top_bit f * 2 ^ (52 - top_bit f)"
    using b by (intro mult_less_mono1) auto
  then show "(f - 2 ^ top_bit f) * 2 ^ (52 - top_bit f) < 2 ^ 52" by (simp only: p)
  have "2 ^ top_bit f * 2 ^ (52 - top_bit f) \<le> f * 2 ^ (52 - top_bit f)"
    using b(1) by (rule mult_le_mono1)
  then show "2 ^ 52 + (f - 2 ^ top_bit f) * 2 ^ (52 - top_bit f) = f * 2 ^ (52 - top_bit f)"
    by (simp only: diff_mult_distrib p)
qed

lemma narrow_widen:
  assumes "quiet_single s"
  shows "narrow (widen s) = Some s \<and> widen s < 2 ^ 63"
proof -
  define e f where "e = s div 2 ^ 23" and "f = s mod 2 ^ 23"
  have s: "s = e * 2 ^ 23 + f" by (simp add: e_def f_def div_mult_mod_eq)
  have f: "f < 2 ^ 23" by (simp add: f_def)
  have e: "e < 256" unfolding e_def by (rule less_mult_imp_div_less) (use quiet_single_less [OF assms] in simp)
  have w: "widen s = (if e = 255 then double_inf + (if f = 0 then 0 else quiet f * 2 ^ 29)
         else if e = 0 then (if f = 0 then 0 else (top_bit f + 874) * 2 ^ 52 + (f - 2 ^ top_bit f) * 2 ^ (52 - top_bit f))
         else s * 2 ^ 29 + 896 * 2 ^ 52)"
    by (simp add: widen_def e_def f_def)
  consider (special) "e = 255" | (zero) "e = 0" "f = 0" | (subnormal) "e = 0" "0 < f" | (normal) "0 < e" "e < 255"
    using e by (cases "e = 255 \<or> e = 0") auto
  then show ?thesis
  proof cases
    case special
    have q: "f = 0 \<or> 2 ^ 22 \<le> f" using assms special f by (auto simp: s quiet_single_def single_inf_def)
    then have "widen s = double_inf + f * 2 ^ 29" using special by (auto simp: w quiet_def)
    moreover have "f * 2 ^ 29 < 2 ^ 52" using f by simp
    then have "(double_inf + f * 2 ^ 29) div 2 ^ 52 = 2047" "(double_inf + f * 2 ^ 29) mod 2 ^ 52 = f * 2 ^ 29"
      unfolding double_inf_def by (rule div_mod_parts)+
    moreover have "f * 2 ^ 29 div 2 ^ 29 = f" "f \<noteq> 0 \<longrightarrow> quiet f = f" using q by (auto simp: quiet_def)
    ultimately show ?thesis using special f by (auto simp: narrow_def Let_def s single_inf_def double_inf_def)
  next
    case zero
    then have "s = 0" "widen s = 0" using s w by simp_all
    then show ?thesis by (simp add: narrow_def round_even_def single_inf_def)
  next
    case subnormal
    define g where "g = (f - 2 ^ top_bit f) * 2 ^ (52 - top_bit f)"
    note d = subnormal_double [OF subnormal(2) f, folded g_def]
    have w': "widen s = (top_bit f + 874) * 2 ^ 52 + g" using subnormal by (simp add: w g_def)
    have "widen s div 2 ^ 52 = top_bit f + 874" "widen s mod 2 ^ 52 = g"
      unfolding w' using d(2) by (rule div_mod_parts)+
    moreover have "926 - (top_bit f + 874) = 52 - top_bit f" by simp
    moreover have "widen s < 2 ^ 63"
    proof -
      have "(top_bit f + 874) * 2 ^ 52 \<le> 896 * (2 ^ 52 :: nat)" using d(1) by (rule mult_le_mono1)
      then show ?thesis using d(2) by (simp add: w')
    qed
    ultimately show ?thesis using d(1,3) subnormal f
      by (simp add: narrow_def Let_def round_even_exact s single_inf_def)
  next
    case normal
    have w': "widen s = s * 2 ^ 29 + 896 * 2 ^ 52" using normal by (simp add: w)
    also have "\<dots> = (e + 896) * 2 ^ 52 + f * 2 ^ 29" by (simp add: s)
    finally have "widen s = (e + 896) * 2 ^ 52 + f * 2 ^ 29" .
    moreover have "f * 2 ^ 29 < 2 ^ 52" using f by simp
    ultimately have "widen s div 2 ^ 52 = e + 896" by (simp only: div_mod_parts)
    moreover have "round_even (widen s - 896 * 2 ^ 52) 29 = s"
      using round_even_exact [of s 29] by (simp add: w')
    moreover have "s < single_inf" using normal f by (simp add: s single_inf_def)
    ultimately show ?thesis using normal by (simp add: narrow_def Let_def w' single_inf_def)
  qed
qed

lemma sign_bit: "unat (x :: py_float) div 2 ^ 63 \<le> 1"
proof -
  have "unat x < 2 * 2 ^ 63" using unsigned_less [of x] by simp
  then have "unat x div 2 ^ 63 < 2" by (rule less_mult_imp_div_less)
  then show ?thesis by simp
qed

lemma unat_unpack_float:
  assumes "g \<le> 1" "quiet_single s"
  shows "unat (unpack_float (g * 2 ^ 31 + s)) = g * 2 ^ 63 + widen s"
proof -
  have "(g * 2 ^ 31 + s) div 2 ^ 31 = g" "(g * 2 ^ 31 + s) mod 2 ^ 31 = s"
    using quiet_single_less [OF assms(2)] by (rule div_mod_parts)+
  moreover have "g * 2 ^ 63 + widen s < 2 ^ 64"
    using narrow_widen [OF assms(2)] mult_le_mono1 [OF assms(1), of "2 ^ 63"] by simp
  ultimately show ?thesis by (simp add: unpack_float_def unat_of_nat del: of_nat_add of_nat_mult)
qed

lemma pack_float_bytes:
  assumes "pack_float x = Inr bs"
  shows "length bs = 4 \<and> unpack_float (le_value bs) = to_single x \<and> pack_float (to_single x) = Inr bs"
proof -
  define g where "g = unat x div 2 ^ 63"
  obtain s where s: "narrow (unat x mod 2 ^ 63) = Some s" "bs = le_bytes 4 (g * 2 ^ 31 + s)"
    using assms by (auto simp: pack_float_def g_def split: option.splits)
  have q: "quiet_single s" using s(1) by (rule narrow_quiet)
  have g: "g \<le> 1" unfolding g_def by (rule sign_bit)
  have "g * 2 ^ 31 + s < 256 ^ 4"
    using quiet_single_less [OF q] mult_le_mono1 [OF g, of "2 ^ 31"] by simp
  then have v: "le_value bs = g * 2 ^ 31 + s" by (simp only: s(2) le_value_bytes)
  have t: "to_single x = unpack_float (g * 2 ^ 31 + s)" using assms v by (simp add: to_single_def)
  have "unat (to_single x) = g * 2 ^ 63 + widen s" unfolding t using g q by (rule unat_unpack_float)
  then have "unat (to_single x) div 2 ^ 63 = g" "unat (to_single x) mod 2 ^ 63 = widen s"
    using narrow_widen [OF q] by (simp_all only: div_mod_parts)
  then have "pack_float (to_single x) = Inr bs" using narrow_widen [OF q] by (simp only: pack_float_def s(2) option.case)
  then show ?thesis using v t s(2) by simp
qed

lemma to_single_idem [simp]: "to_single (to_single x) = to_single x"
proof (cases "pack_float x")
  case (Inr bs)
  then show ?thesis using pack_float_bytes [OF Inr] by (simp add: to_single_def)
qed (simp add: to_single_def)

lemma unpack_pack_double [simp]: "unpack_double (le_value (pack_double x)) = x"
proof -
  have "unat x < 256 ^ 8" using unsigned_less [of x] by simp
  then show ?thesis by (simp only: unpack_double_def pack_double_def le_value_bytes of_nat_unat_word)
qed

text \<open>0.1, the double nearest to it, is not a single; 0.5 is; \<open>1e39\<close> has none near it.\<close>

lemma le_bytes_numeral: "le_bytes (numeral k) n = of_nat (n mod 256) # le_bytes (pred_numeral k) (n div 256)"
  by (subst numeral_eq_Suc) (simp only: le_bytes.simps)

lemma float_examples:
  "to_single 0x3FB999999999999A = 0x3FB99999A0000000"
  "to_single 0x3FE0000000000000 = 0x3FE0000000000000"
  "pack_float 0x48078287F49C4A1D = Inl OverflowError"
  "\<exists>bs. pack_float 0x3FB999999999999A = Inr bs"
  by (simp_all add: to_single_def pack_float_def narrow_def round_even_def single_inf_def Let_def
      unpack_float_def widen_def le_bytes_numeral)

end
