(* ===== verification/Tlv_Codec.thy ===== *)
theory Tlv_Codec
  imports Ieee_Floats Utf8 Py_Dict "HOL-Library.Multiset"
begin

text \<open>
  The Matter TLV codec (\<open>python_client/chip/tlv/__init__.py\<close>): \<open>TLVWriter.put\<close> with its
  container stack and the tag rules it enforces, and \<open>TLVReader.get\<close>.

  A \<open>tlv\<close> is a Python value the writer is given or the reader returns.  A float is a double,
  also a \<open>float32\<close>, which is a plain subclass of \<open>float\<close> and holds any double; the order of the writer's \<open>isinstance\<close>
  tests is the choice of constructor.  The writer's buffer only grows, so a failed call is its
  exception alone.  The reader's position is the list of bytes not yet read; reading past the end
  yields short slices, as Python's slices do.
\<close>

section \<open>Values\<close>

text \<open>A tag: none, a number, a pair of profile and number, or another object (\<open>"Any"\<close>).\<close>

datatype tlv_tag = NoTag | Tag int | Profile "int option" int | Name pystr

datatype tlv =
    TNull
  | TBool bool
  | TUint int
  | TInt int
  | TFloat py_float
  | TDouble py_float
  | TStr pystr
  | TBytes "byte list"
  | TDict "(tlv_tag \<times> tlv) list"
  | TMapping "(tlv_tag \<times> tlv) list"
  | TPath "(tlv_tag \<times> tlv) list"
  | TSeq "tlv list"
  | TOther

datatype container = Structure | Array | Path

record tlv_writer =
  encoding :: "byte list"
  container_stack :: "container list"

section \<open>The writer\<close>

definition type_byte :: "container \<Rightarrow> nat" where
  "type_byte c = (case c of Structure \<Rightarrow> 21 | Array \<Rightarrow> 22 | Path \<Rightarrow> 23)"

text \<open>\<open>controlByte |= 1, 2 or 3\<close> for a width of 2, 4 or 8: every type with a width is a multiple of 4.\<close>

definition width_bits :: "nat \<Rightarrow> nat" where
  "width_bits w = (if w = 2 then 1 else if w = 4 then 2 else if w = 8 then 3 else 0)"

definition encode_control_and_tag :: "container list \<Rightarrow> nat \<Rightarrow> tlv_tag \<Rightarrow> nat \<Rightarrow> byte list res" where
  "encode_control_and_tag stack t tag w =
     (let control = t + width_bits w in
      case tag of
        NoTag \<Rightarrow>
          if t \<noteq> 24 \<and> stack \<noteq> [] \<and> hd stack = Structure then Inl ValueError
          else Inr [of_nat control]
      | Tag n \<Rightarrow>
          if n < 0 \<or> 255 < n then Inl ValueError
          else if stack = [] then Inl ValueError
          else if hd stack = Array then Inl ValueError
          else Inr [of_nat (control + 32), of_nat (nat n)]
      | _ \<Rightarrow> Inl ValueError)"

text \<open>The width of an unsigned value (\<open>_encodeUnsignedInt\<close>) and of a signed one.\<close>

definition unsigned_width :: "int \<Rightarrow> nat res" where
  "unsigned_width v = (if v < 0 then Inl ValueError else if v \<le> 255 then Inr 1 else if v \<le> 65535 then Inr 2
     else if v \<le> 4294967295 then Inr 4 else if v \<le> 18446744073709551615 then Inr 8 else Inl ValueError)"

definition signed_width :: "int \<Rightarrow> nat res" where
  "signed_width v = (if -128 \<le> v \<and> v \<le> 127 then Inr 1 else if -32768 \<le> v \<and> v \<le> 32767 then Inr 2
     else if -2147483648 \<le> v \<and> v \<le> 2147483647 then Inr 4
     else if -9223372036854775808 \<le> v \<and> v \<le> 9223372036854775807 then Inr 8 else Inl ValueError)"

definition encode_unsigned_int :: "int \<Rightarrow> byte list res" where
  "encode_unsigned_int v = rbind (unsigned_width v) (\<lambda>w. Inr (le_bytes w (nat v)))"

text \<open>A control byte and tag, then a payload, appended to the buffer.\<close>

definition extend :: "nat \<Rightarrow> tlv_tag \<Rightarrow> nat \<Rightarrow> byte list \<Rightarrow> tlv_writer \<Rightarrow> tlv_writer res" where
  "extend t tag w payload wr = rbind (encode_control_and_tag (container_stack wr) t tag w)
     (\<lambda>bs. Inr (wr\<lparr>encoding := encoding wr @ bs @ payload\<rparr>))"

definition put_signed_int :: "tlv_tag \<Rightarrow> int \<Rightarrow> tlv_writer \<Rightarrow> tlv_writer res" where
  "put_signed_int tag v wr = rbind (signed_width v) (\<lambda>w. extend 0 tag w (signed_bytes w v) wr)"

definition put_unsigned_int :: "tlv_tag \<Rightarrow> int \<Rightarrow> tlv_writer \<Rightarrow> tlv_writer res" where
  "put_unsigned_int tag v wr =
     rbind (encode_unsigned_int v) (\<lambda>bs. extend 4 tag (length bs) bs wr)"

text \<open>\<open>struct.pack("f", val)\<close> rounds to single precision, and raises \<open>OverflowError\<close> out of its range.\<close>

definition put_float :: "tlv_tag \<Rightarrow> py_float \<Rightarrow> tlv_writer \<Rightarrow> tlv_writer res" where
  "put_float tag v wr = rbind (pack_float v) (\<lambda>bs. extend 8 tag (length bs) bs wr)"

definition put_double :: "tlv_tag \<Rightarrow> py_float \<Rightarrow> tlv_writer \<Rightarrow> tlv_writer res" where
  "put_double tag v wr = (let bs = pack_double v in extend 8 tag (length bs) bs wr)"

definition put_bytes_of :: "nat \<Rightarrow> tlv_tag \<Rightarrow> byte list \<Rightarrow> tlv_writer \<Rightarrow> tlv_writer res" where
  "put_bytes_of t tag v wr = rbind (encode_unsigned_int (int (length v)))
     (\<lambda>len. extend t tag (length len) (len @ v) wr)"

definition put_string :: "tlv_tag \<Rightarrow> pystr \<Rightarrow> tlv_writer \<Rightarrow> tlv_writer res" where
  "put_string tag v wr = rbind (utf8_encode v) (\<lambda>bs. put_bytes_of 12 tag bs wr)"

definition put_bytes :: "tlv_tag \<Rightarrow> byte list \<Rightarrow> tlv_writer \<Rightarrow> tlv_writer res" where
  "put_bytes tag v wr = put_bytes_of 16 tag v wr"

definition put_bool :: "tlv_tag \<Rightarrow> bool \<Rightarrow> tlv_writer \<Rightarrow> tlv_writer res" where
  "put_bool tag v wr = extend (if v then 9 else 8) tag 0 [] wr"

definition put_null :: "tlv_tag \<Rightarrow> tlv_writer \<Rightarrow> tlv_writer res" where
  "put_null tag wr = extend 20 tag 0 [] wr"

definition start_container :: "tlv_tag \<Rightarrow> container \<Rightarrow> tlv_writer \<Rightarrow> tlv_writer res" where
  "start_container tag c wr = rbind (extend (type_byte c) tag 0 [] wr)
     (\<lambda>wr. Inr (wr\<lparr>container_stack := c # container_stack wr\<rparr>))"

definition end_container :: "tlv_writer \<Rightarrow> tlv_writer res" where
  "end_container wr = (case container_stack wr of
       [] \<Rightarrow> Inl IndexError
     | c # cs \<Rightarrow> extend 24 NoTag 0 [] (wr\<lparr>container_stack := cs\<rparr>))"

text \<open>\<open>tlvTagToSortKey\<close>.\<close>

definition tag_sort_key :: "tlv_tag \<Rightarrow> int res" where
  "tag_sort_key tag = (case tag of
       NoTag \<Rightarrow> Inr (-1)
     | Tag n \<Rightarrow> Inr n
     | Profile p n \<Rightarrow> Inr ((case p of None \<Rightarrow> 1 | Some i \<Rightarrow> i + 2) * 4294967296 + n)
     | Name _ \<Rightarrow> Inl ValueError)"

definition sort_items :: "(tlv_tag \<times> 'a) list \<Rightarrow> (tlv_tag \<times> 'a) list res" where
  "sort_items kvs = rbind (rmap (\<lambda>(k, v). tag_sort_key k) kvs) (\<lambda>ks.
     Inr (map snd (sort_key fst (zip ks kvs))))"

lemma sort_items_mset: "sort_items kvs = Inr s \<Longrightarrow> mset s = mset kvs"
  by (auto simp: sort_items_def rbind_eq_Inr dest!: rmap_InrD list_all2_lengthD) (simp flip: mset_map)

lemma sort_items_size: "sort_items kvs = Inr s \<Longrightarrow> size_list f s = size_list f kvs"
proof -
  assume "sort_items kvs = Inr s"
  then have m: "mset s = mset kvs" by (rule sort_items_mset)
  have "sum_mset (image_mset f (mset s)) = sum_mset (image_mset f (mset kvs))" using m by simp
  then have "sum_list (map f s) = sum_list (map f kvs)"
    by (simp add: sum_mset_sum_list flip: mset_map)
  then show ?thesis using mset_eq_length [OF m] by (simp add: size_list_conv_sum_list)
qed

function put :: "tlv_tag \<Rightarrow> tlv \<Rightarrow> tlv_writer \<Rightarrow> tlv_writer res"
  and put_items :: "(tlv_tag \<times> tlv) list \<Rightarrow> tlv_writer \<Rightarrow> tlv_writer res"
  and put_elements :: "tlv list \<Rightarrow> tlv_writer \<Rightarrow> tlv_writer res" where
  "put tag TNull wr = put_null tag wr"
| "put tag (TBool b) wr = put_bool tag b wr"
| "put tag (TUint n) wr = put_unsigned_int tag n wr"
| "put tag (TInt n) wr = put_signed_int tag n wr"
| "put tag (TFloat x) wr = put_float tag x wr"
| "put tag (TDouble x) wr = put_double tag x wr"
| "put tag (TStr s) wr = put_string tag s wr"
| "put tag (TBytes bs) wr = put_bytes tag bs wr"
| "put tag (TDict kvs) wr = rbind (start_container tag Structure wr) (\<lambda>wr.
     case sort_items kvs of Inl e \<Rightarrow> Inl e
     | Inr sorted_kvs \<Rightarrow> rbind (put_items sorted_kvs wr) end_container)"
| "put tag (TMapping kvs) wr = rbind (start_container tag Structure wr) (\<lambda>wr.
     rbind (put_items kvs wr) end_container)"
| "put tag (TPath kvs) wr = rbind (start_container tag Path wr) (\<lambda>wr.
     rbind (put_items kvs wr) end_container)"
| "put tag (TSeq vs) wr = rbind (start_container tag Array wr) (\<lambda>wr.
     rbind (put_elements vs wr) end_container)"
| "put tag TOther wr = Inl ValueError"
| "put_items [] wr = Inr wr"
| "put_items ((tag, v) # kvs) wr = rbind (put tag v wr) (put_items kvs)"
| "put_elements [] wr = Inr wr"
| "put_elements (v # vs) wr = rbind (put NoTag v wr) (put_elements vs)"
  by pat_completeness auto
termination
  by (relation "measure (\<lambda>x. case x of Inl (_, v, _) \<Rightarrow> size v
      | Inr (Inl (kvs, _)) \<Rightarrow> size_list (size_prod (\<lambda>_. 0) size) kvs
      | Inr (Inr (vs, _)) \<Rightarrow> size_list size vs)")
    (auto dest: sort_items_size [where f = "size_prod (\<lambda>_. 0) size"])

section \<open>The reader\<close>

text \<open>What \<open>_get\<close> fills: the dict of a structure (and of the top level) or the list of an array.\<close>

datatype out = OutDict "(tlv_tag \<times> tlv) list" | OutList "tlv list"

definition any_key :: tlv_tag where
  "any_key = Name (u ''Any'')"

definition out_add :: "tlv_tag \<Rightarrow> tlv \<Rightarrow> out \<Rightarrow> out" where
  "out_add tag v out = (case out of
       OutDict d \<Rightarrow> OutDict (dput (if tag = NoTag then any_key else tag) v d)
     | OutList l \<Rightarrow> OutList (l @ [v]))"

definition out_value :: "out \<Rightarrow> tlv" where
  "out_value out = (case out of OutDict d \<Rightarrow> TDict d | OutList l \<Rightarrow> TSeq l)"

definition decode_control_and_tag :: "byte list \<Rightarrow> pyexc + nat \<times> tlv_tag \<times> byte list" where
  "decode_control_and_tag bs = rbind (unpack_le 1 bs) (\<lambda>(control, bs).
     if control div 32 = 1
     then rbind (unpack_le 1 bs) (\<lambda>(tag, bs). Inr (control mod 32, Tag (int tag), bs))
     else Inr (control mod 32, NoTag, bs))"

text \<open>The values that are not containers; a string or byte string whose declared length runs past
  the end yields what is there.\<close>

definition decode_scalar :: "nat \<Rightarrow> byte list \<Rightarrow> pyexc + tlv \<times> byte list" where
  "decode_scalar t bs =
     (if t = 20 then Inr (TNull, bs)
      else if t = 24 then Inr (TNull, bs)
      else if t = 9 then Inr (TBool True, bs)
      else if t = 8 then Inr (TBool False, bs)
      else if t \<le> 3 then rbind (unpack_signed (2 ^ t) bs) (\<lambda>(v, bs). Inr (TInt v, bs))
      else if t \<le> 7 then rbind (unpack_le (2 ^ (t - 4)) bs) (\<lambda>(v, bs). Inr (TUint (int v), bs))
      else if t = 10 then rbind (unpack_le 4 bs) (\<lambda>(n, bs). Inr (TFloat (unpack_float n), bs))
      else if t = 11 then rbind (unpack_le 8 bs) (\<lambda>(n, bs). Inr (TDouble (unpack_double n), bs))
      else if 12 \<le> t \<and> t \<le> 15 then rbind (unpack_le (2 ^ (t - 12)) bs) (\<lambda>(n, bs).
         Inr (case utf8_decode (take n bs) of Inr s \<Rightarrow> TStr s | Inl _ \<Rightarrow> TBytes (take n bs), drop n bs))
      else if 16 \<le> t \<and> t \<le> 19 then rbind (unpack_le (2 ^ (t - 16)) bs) (\<lambda>(n, bs).
         Inr (TBytes (take n bs), drop n bs))
      else Inl ValueError)"

text \<open>
  \<open>_decodeVal\<close> and the loop \<open>_get\<close>.  The first argument bounds the depth of the recursion;
  \<open>None\<close> is running out of it, which \<open>get_fuel_enough\<close> below excludes for the bound that
  \<open>read_into\<close> starts with.
\<close>

fun decode_val :: "nat \<Rightarrow> nat \<Rightarrow> byte list \<Rightarrow> (pyexc + tlv \<times> byte list) option"
  and get_loop :: "nat \<Rightarrow> out \<Rightarrow> byte list \<Rightarrow> (pyexc + out \<times> byte list) option" where
  "decode_val n t bs =
     (if t = 21 then map_option (\<lambda>r. rbind r (\<lambda>(out, bs). Inr (out_value out, bs))) (get_loop n (OutDict []) bs)
      else if t = 22 then map_option (\<lambda>r. rbind r (\<lambda>(out, bs). Inr (out_value out, bs))) (get_loop n (OutList []) bs)
      else Some (decode_scalar t bs))"
| "get_loop 0 out bs = None"
| "get_loop (Suc n) out bs =
     (if bs = [] then Some (Inr (out, []))
      else case decode_control_and_tag bs of
        Inl e \<Rightarrow> Some (Inl e)
      | Inr (t, tag, bs1) \<Rightarrow> (case decode_val n t bs1 of
          None \<Rightarrow> None
        | Some (Inl e) \<Rightarrow> Some (Inl e)
        | Some (Inr (v, bs2)) \<Rightarrow>
            if t = 24 then Some (Inr (out, bs2)) else get_loop n (out_add tag v out) bs2))"

definition read_into :: "out \<Rightarrow> byte list \<Rightarrow> pyexc + out \<times> byte list" where
  "read_into out bs = the (get_loop (Suc (length bs)) out bs)"

text \<open>\<open>TLVReader(tlv).get()\<close>.\<close>

definition reader_get :: "byte list \<Rightarrow> (tlv_tag \<times> tlv) list res" where
  "reader_get bs = rbind (read_into (OutDict []) bs) (\<lambda>(out, _).
     case out of OutDict d \<Rightarrow> Inr d | OutList _ \<Rightarrow> Inr [])"

section \<open>The reader always ends\<close>

lemma unpack_le_length: "unpack_le k bs = Inr (n, rest) \<Longrightarrow> length bs = k + length rest"
  by (auto dest: unpack_leD)

lemma decode_control_length:
  "decode_control_and_tag bs = Inr (t, tag, rest) \<Longrightarrow> length rest < length bs \<and> t < 32"
  by (auto simp: decode_control_and_tag_def rbind_eq_Inr split: if_splits dest!: unpack_le_length)

lemma decode_scalar_length: "decode_scalar t bs = Inr (v, rest) \<Longrightarrow> length rest \<le> length bs"
  by (auto simp: decode_scalar_def rbind_eq_Inr unpack_signed_def split: if_splits dest!: unpack_le_length)

lemma get_fuel_enough:
  "(length bs < n \<longrightarrow> (\<exists>r. decode_val n t bs = Some r \<and> (\<forall>v rest. r = Inr (v, rest) \<longrightarrow> length rest \<le> length bs)))"
  "(length bs < n \<longrightarrow> (\<exists>r. get_loop n out bs = Some r \<and> (\<forall>o' rest. r = Inr (o', rest) \<longrightarrow> length rest \<le> length bs)))"
proof (induction n t bs and n out bs rule: decode_val_get_loop.induct)
  case (1 n t bs)
  then show ?case by (auto simp: rbind_eq_Inr dest: decode_scalar_length)
next
  case (3 n out bs)
  show ?case
  proof (intro impI)
    assume len: "length bs < Suc n"
    show "\<exists>r. get_loop (Suc n) out bs = Some r \<and> (\<forall>o' rest. r = Inr (o', rest) \<longrightarrow> length rest \<le> length bs)"
    proof (cases "bs = [] \<or> (\<exists>e. decode_control_and_tag bs = Inl e)")
      case False
      then obtain t tag bs1 where c: "decode_control_and_tag bs = Inr (t, tag, bs1)" and ne: "bs \<noteq> []"
        by (metis prod_cases3 sum.exhaust)
      have l1: "length bs1 < length bs" using decode_control_length [OF c] by simp
      with 3(1) [OF ne c refl refl] len obtain r where r: "decode_val n t bs1 = Some r"
        "\<forall>v rest. r = Inr (v, rest) \<longrightarrow> length rest \<le> length bs1" by auto
      show ?thesis
      proof (cases r)
        case (Inl e)
        with r c ne show ?thesis by simp
      next
        case (Inr p)
        obtain v bs2 where p: "p = (v, bs2)" by (cases p)
        have l2: "length bs2 \<le> length bs1" using r(2) Inr p by simp
        have s: "decode_val n t bs1 = Some (Inr (v, bs2))" using r(1) Inr p by simp
        show ?thesis
        proof (cases "t = 24")
          case True
          then show ?thesis using c ne s l1 l2 by simp
        next
          case False
          have "length bs2 < n" using len l1 l2 by simp
          with 3(2) [OF ne c refl refl s refl refl False] obtain r' where
            r': "get_loop n (out_add tag v out) bs2 = Some r'"
              "\<forall>o' rest. r' = Inr (o', rest) \<longrightarrow> length rest \<le> length bs2" by auto
          have "get_loop (Suc n) out bs = Some r'" using c ne s False r'(1) by simp
          moreover have "\<forall>o' rest. r' = Inr (o', rest) \<longrightarrow> length rest \<le> length bs"
            using r'(2) l1 l2 by fastforce
          ultimately show ?thesis by blast
        qed
      qed
    qed auto
  qed
qed simp_all

lemma get_fuel_mono:
  "decode_val n t bs = Some r \<Longrightarrow> n \<le> m \<Longrightarrow> decode_val m t bs = Some r"
  "get_loop n out bs = Some r' \<Longrightarrow> n \<le> m \<Longrightarrow> get_loop m out bs = Some r'"
proof (induction n t bs and n out bs arbitrary: r m and r' m rule: decode_val_get_loop.induct)
  case (1 n t bs)
  consider "t = 21" | "t \<noteq> 21" "t = 22" | "t \<noteq> 21" "t \<noteq> 22" by blast
  then show ?case
  proof cases
    case 21: 1
    obtain x where "get_loop n (OutDict []) bs = Some x" using 1(3) 21 by auto
    moreover from 1(1) [OF 21 this 1(4)] have "get_loop m (OutDict []) bs = Some x" .
    ultimately show ?thesis using 1(3) 21 by simp
  next
    case 22: 2
    obtain x where "get_loop n (OutList []) bs = Some x" using 1(3) 22 by auto
    moreover from 1(2) [OF 22 this 1(4)] have "get_loop m (OutList []) bs = Some x" .
    ultimately show ?thesis using 1(3) 22 by simp
  next
    case 3
    then show ?thesis using 1(3) by simp
  qed
next
  case (3 n out bs)
  from 3(4) obtain m' where m: "m = Suc m'" "n \<le> m'" by (cases m) auto
  show ?case
  proof (cases "bs = [] \<or> (\<exists>e. decode_control_and_tag bs = Inl e)")
    case True
    then show ?thesis using 3(3) m by auto
  next
    case False
    then obtain t tag bs1 where c: "decode_control_and_tag bs = Inr (t, tag, bs1)" and ne: "bs \<noteq> []"
      by (metis prod_cases3 sum.exhaust)
    obtain d where d: "decode_val n t bs1 = Some d"
      using 3(3) ne c by (cases "decode_val n t bs1") auto
    have d': "decode_val m' t bs1 = Some d" by (rule 3(1) [OF ne c refl refl d m(2)])
    show ?thesis
    proof (cases d)
      case (Inl e)
      then show ?thesis using 3(3) ne c d d' m by simp
    next
      case (Inr p)
      obtain v bs2 where p: "p = (v, bs2)" by (cases p)
      show ?thesis
      proof (cases "t = 24")
        case True
        then show ?thesis using 3(3) ne c d d' m Inr p by simp
      next
        case nt: False
        have s: "decode_val n t bs1 = Some (Inr (v, bs2))" using d Inr p by simp
        have "get_loop n (out_add tag v out) bs2 = Some r'" using 3(3) ne c s nt by simp
        from 3(2) [OF ne c refl refl s refl refl nt this m(2)] show ?thesis
          using ne c d' Inr p m nt by simp
      qed
    qed
  qed
qed simp

lemma get_loop_read: "length bs < n \<Longrightarrow> get_loop n out bs = Some (read_into out bs)"
proof -
  assume "length bs < n"
  moreover obtain r where "get_loop (Suc (length bs)) out bs = Some r"
    using get_fuel_enough(2) [of bs "Suc (length bs)" out] by auto
  ultimately show ?thesis
    using get_fuel_mono(2) [of "Suc (length bs)" out bs r n] by (simp add: read_into_def)
qed

text \<open>Without the bound: \<open>_decodeVal\<close> and \<open>_get\<close> as the code has them.\<close>

definition read_val :: "nat \<Rightarrow> byte list \<Rightarrow> pyexc + tlv \<times> byte list" where
  "read_val t bs =
     (if t = 21 then rbind (read_into (OutDict []) bs) (\<lambda>(out, bs). Inr (out_value out, bs))
      else if t = 22 then rbind (read_into (OutList []) bs) (\<lambda>(out, bs). Inr (out_value out, bs))
      else decode_scalar t bs)"

lemma decode_val_read: "length bs < n \<Longrightarrow> decode_val n t bs = Some (read_val t bs)"
  by (simp add: read_val_def get_loop_read del: get_loop.simps)

lemma read_val_length: "read_val t bs = Inr (v, rest) \<Longrightarrow> length rest \<le> length bs"
  using get_fuel_enough(1) [of bs "Suc (length bs)" t] decode_val_read [of bs "Suc (length bs)" t] by auto

lemma read_into_unfold:
  "read_into out bs =
     (if bs = [] then Inr (out, [])
      else rbind (decode_control_and_tag bs) (\<lambda>(t, tag, bs1).
           rbind (read_val t bs1) (\<lambda>(v, bs2).
             if t = 24 then Inr (out, bs2) else read_into (out_add tag v out) bs2)))"
proof (cases "bs = [] \<or> (\<exists>e. decode_control_and_tag bs = Inl e)")
  case True
  then show ?thesis by (auto simp: read_into_def)
next
  case False
  then obtain t tag bs1 where c: "decode_control_and_tag bs = Inr (t, tag, bs1)" and ne: "bs \<noteq> []"
    by (metis prod_cases3 sum.exhaust)
  have l1: "length bs1 < length bs" using decode_control_length [OF c] by simp
  then have v: "decode_val (length bs) t bs1 = Some (read_val t bs1)" by (rule decode_val_read)
  show ?thesis
  proof (cases "read_val t bs1")
    case (Inl e)
    with v c ne show ?thesis by (simp add: read_into_def del: decode_val.simps)
  next
    case (Inr p)
    obtain w bs2 where p: "p = (w, bs2)" by (cases p)
    have "length bs2 < length bs" using read_val_length [of t bs1 w bs2] Inr p l1 by simp
    then have "get_loop (length bs) (out_add tag w out) bs2 = Some (read_into (out_add tag w out) bs2)"
      by (rule get_loop_read)
    with v c ne Inr p show ?thesis by (simp add: read_into_def [of out] del: decode_val.simps)
  qed
qed

lemma read_into_Nil [simp]: "read_into out [] = Inr (out, [])"
  by (simp add: read_into_unfold)

lemma reader_errors_loop:
  "decode_val n t bs = Some (Inl e) \<Longrightarrow> e \<in> {ValueError, StructError}"
  "get_loop n out bs = Some (Inl e) \<Longrightarrow> e \<in> {ValueError, StructError}"
proof (induction n t bs and n out bs rule: decode_val_get_loop.induct)
  case (1 n t bs)
  then show ?case
    by (auto simp: rbind_eq_Inl decode_scalar_def unpack_le_def unpack_signed_def split: if_splits)
next
  case (3 n out bs)
  then show ?case
    by (auto simp: decode_control_and_tag_def rbind_eq_Inl unpack_le_def
        split: if_splits sum.splits option.splits simp del: decode_val.simps)
qed simp

section \<open>What is written reads back\<close>

text \<open>
  The reader cannot know which Mapping class was written, a plain dict is written in the
  order of its tags, and a \<open>float32\<close> is written rounded to single precision.
\<close>

fun tag_number :: "tlv_tag \<Rightarrow> int" where
  "tag_number (Tag n) = n"
| "tag_number _ = -1"

fun reread :: "tlv \<Rightarrow> tlv" where
  "reread (TDict kvs) = TDict (map (\<lambda>(k, v). (k, reread v)) (sort_key (tag_number \<circ> fst) kvs))"
| "reread (TMapping kvs) = TDict (map (\<lambda>(k, v). (k, reread v)) kvs)"
| "reread (TSeq vs) = TSeq (map reread vs)"
| "reread (TFloat x) = TFloat (to_single x)"
| "reread v = v"

text \<open>Values of the reader's range: no \<open>TLVList\<close>, keys distinct as in every mapping.\<close>

fun readable :: "tlv \<Rightarrow> bool" where
  "readable (TDict kvs) \<longleftrightarrow> distinct (map fst kvs) \<and> (\<forall>(k, v) \<in> set kvs. readable v)"
| "readable (TMapping kvs) \<longleftrightarrow> distinct (map fst kvs) \<and> (\<forall>(k, v) \<in> set kvs. readable v)"
| "readable (TSeq vs) \<longleftrightarrow> (\<forall>v \<in> set vs. readable v)"
| "readable (TPath _) \<longleftrightarrow> False"
| "readable _ \<longleftrightarrow> True"

lemma decode_header:
  assumes "encode_control_and_tag stack t tag w = Inr hdr" "t + width_bits w < 32"
  shows "decode_control_and_tag (hdr @ rest) = Inr (t + width_bits w, tag, rest) \<and> hdr \<noteq> []
    \<and> (stack \<noteq> [] \<and> hd stack = Structure \<and> t \<noteq> 24 \<longrightarrow> tag \<noteq> NoTag)"
proof -
  let ?c = "t + width_bits w"
  have u1: "unpack_le 1 ((of_nat n :: byte) # bs) = Inr (n, bs)" if "n < 256" for n bs
    using that by (simp add: unpack_le_def unat_of_nat_byte del: of_nat_add)
  show ?thesis
  proof (cases tag)
    case NoTag
    with assms show ?thesis
      by (auto simp: encode_control_and_tag_def decode_control_and_tag_def u1 Let_def
          simp del: of_nat_add One_nat_def split: if_splits)
  next
    case (Tag i)
    with assms have "0 \<le> i" by (auto simp: encode_control_and_tag_def Let_def split: if_splits)
    then obtain n where i: "i = int n" using nonneg_int_cases by blast
    with Tag assms have n: "n \<le> 255" and hdr: "hdr = [of_nat (?c + 32), of_nat n]"
      by (auto simp: encode_control_and_tag_def Let_def simp del: of_nat_add split: if_splits)
    have "(?c + 32) div 32 = 1" "(?c + 32) mod 32 = ?c" using assms(2) by auto
    then show ?thesis
      using assms(2) n Tag by (simp add: hdr i decode_control_and_tag_def u1 del: of_nat_add One_nat_def)
  qed (use assms in \<open>auto simp: encode_control_and_tag_def Let_def\<close>)
qed

lemma extend_read:
  assumes "extend t tag w payload wr = Inr wr'" "t + width_bits w < 32"
  obtains hdr where "encoding wr' = encoding wr @ hdr @ payload" "container_stack wr' = container_stack wr"
    "hdr \<noteq> []" "\<And>rest. decode_control_and_tag (hdr @ rest) = Inr (t + width_bits w, tag, rest)"
    "container_stack wr \<noteq> [] \<Longrightarrow> hd (container_stack wr) = Structure \<Longrightarrow> t \<noteq> 24 \<Longrightarrow> tag \<noteq> NoTag"
proof -
  obtain hdr where h: "encode_control_and_tag (container_stack wr) t tag w = Inr hdr"
    and wr': "wr' = wr\<lparr>encoding := encoding wr @ hdr @ payload\<rparr>"
    using assms(1) by (auto simp: extend_def rbind_eq_Inr)
  show thesis
    by (rule that [of hdr]) (use decode_header [OF h assms(2)] wr' in auto)
qed

text \<open>What a write did: it appended bytes that read back as one element, under a tag the open
  container allows.\<close>

definition wrote :: "tlv_tag \<Rightarrow> tlv \<Rightarrow> tlv_writer \<Rightarrow> tlv_writer \<Rightarrow> bool" where
  "wrote tag v wr wr' \<longleftrightarrow> container_stack wr' = container_stack wr
     \<and> (container_stack wr \<noteq> [] \<and> hd (container_stack wr) = Structure \<longrightarrow> tag \<noteq> NoTag)
     \<and> (\<exists>bs. encoding wr' = encoding wr @ bs
          \<and> (\<forall>out rest. read_into out (bs @ rest) = read_into (out_add tag v out) rest))"

lemma wroteI:
  assumes "extend t tag w payload wr = Inr wr'" "t + width_bits w < 32" "t \<noteq> 24" "t + width_bits w \<noteq> 24"
    and "\<And>rest. read_val (t + width_bits w) (payload @ rest) = Inr (v, rest)"
  shows "wrote tag v wr wr'"
proof -
  obtain hdr where h: "encoding wr' = encoding wr @ hdr @ payload" "container_stack wr' = container_stack wr"
    "hdr \<noteq> []" "\<And>rest. decode_control_and_tag (hdr @ rest) = Inr (t + width_bits w, tag, rest)"
    "container_stack wr \<noteq> [] \<Longrightarrow> hd (container_stack wr) = Structure \<Longrightarrow> t \<noteq> 24 \<Longrightarrow> tag \<noteq> NoTag"
    using assms(1,2) by (rule extend_read) blast
  have "read_into out ((hdr @ payload) @ rest) = read_into (out_add tag v out) rest" for out rest
    using h(3,4) assms(4,5) by (subst read_into_unfold) simp
  then show ?thesis unfolding wrote_def using h(1,2,5) assms(3) by blast
qed

lemma unsigned_widthD: "unsigned_width v = Inr w \<Longrightarrow> 0 \<le> v \<and> w \<in> {1, 2, 4, 8} \<and> nat v < 256 ^ w"
  by (auto simp: unsigned_width_def split: if_splits)

lemma signed_widthD:
  "signed_width v = Inr w \<Longrightarrow> w \<in> {1, 2, 4, 8} \<and> - (256 ^ w) \<le> 2 * v \<and> 2 * v < 256 ^ w"
  by (auto simp: signed_width_def split: if_splits)

lemma width_bits_pow: "w \<in> {1, 2, 4, 8} \<Longrightarrow> 2 ^ width_bits w = w \<and> width_bits w < 4"
  by (auto simp: width_bits_def)

lemma wrote_signed: "put_signed_int tag v wr = Inr wr' \<Longrightarrow> wrote tag (TInt v) wr wr'"
  unfolding put_signed_int_def rbind_eq_Inr
proof (elim exE conjE)
  fix w assume w: "signed_width v = Inr w" and e: "extend 0 tag w (signed_bytes w v) wr = Inr wr'"
  note b = width_bits_pow [of w] signed_widthD [OF w]
  show ?thesis
    by (rule wroteI [OF e]) (use b in \<open>auto simp: read_val_def decode_scalar_def
        simp del: le_bytes.simps One_nat_def\<close>)
qed

lemma wrote_unsigned: "put_unsigned_int tag v wr = Inr wr' \<Longrightarrow> wrote tag (TUint v) wr wr'"
  unfolding put_unsigned_int_def encode_unsigned_int_def rbind_eq_Inr
proof (elim exE conjE)
  fix bs w assume w: "unsigned_width v = Inr w" and e: "extend 4 tag (length bs) bs wr = Inr wr'"
    and "Inr (le_bytes w (nat v)) = Inr bs"
  then have bs: "bs = le_bytes w (nat v)" by simp
  note b = width_bits_pow [of w] unsigned_widthD [OF w]
  show ?thesis
    by (rule wroteI [OF e]) (use b in \<open>auto simp: bs read_val_def decode_scalar_def
        simp del: le_bytes.simps One_nat_def\<close>)
qed

lemma wrote_bytes_of:
  assumes "put_bytes_of t tag bs wr = Inr wr'" "t \<in> {12, 16}"
  shows "wrote tag (if t = 12 then case utf8_decode bs of Inr s \<Rightarrow> TStr s | Inl _ \<Rightarrow> TBytes bs else TBytes bs) wr wr'"
proof -
  obtain w where w: "unsigned_width (int (length bs)) = Inr w"
    and e: "extend t tag w (le_bytes w (length bs) @ bs) wr = Inr wr'"
    using assms(1) by (auto simp: put_bytes_of_def encode_unsigned_int_def rbind_eq_Inr)
  note b = width_bits_pow [of w] unsigned_widthD [OF w]
  show ?thesis
    by (rule wroteI [OF e]) (use b assms(2) in \<open>auto simp: read_val_def decode_scalar_def
        simp del: le_bytes.simps One_nat_def split: sum.splits\<close>)
qed

lemma wrote_float: "put_float tag x wr = Inr wr' \<Longrightarrow> wrote tag (TFloat (to_single x)) wr wr'"
  unfolding put_float_def rbind_eq_Inr
proof (elim exE conjE)
  fix bs assume bs: "pack_float x = Inr bs" and e: "extend 8 tag (length bs) bs wr = Inr wr'"
  note p = pack_float_bytes [OF bs]
  show ?thesis
    by (rule wroteI [OF e]) (use p in \<open>auto simp: read_val_def decode_scalar_def width_bits_def unpack_le_def\<close>)
qed

lemma wrote_double: "put_double tag x wr = Inr wr' \<Longrightarrow> wrote tag (TDouble x) wr wr'"
proof -
  assume "put_double tag x wr = Inr wr'"
  then have e: "extend 8 tag 8 (pack_double x) wr = Inr wr'" by (simp add: put_double_def pack_double_def)
  have l: "length (pack_double x) = 8" by (simp add: pack_double_def)
  show ?thesis
    by (rule wroteI [OF e]) (auto simp: l read_val_def decode_scalar_def width_bits_def unpack_le_def)
qed

lemma wrote_null: "put_null tag wr = Inr wr' \<Longrightarrow> wrote tag TNull wr wr'"
  unfolding put_null_def
  by (erule wroteI; auto simp: read_val_def decode_scalar_def width_bits_def)

lemma wrote_bool: "put_bool tag b wr = Inr wr' \<Longrightarrow> wrote tag (TBool b) wr wr'"
  unfolding put_bool_def
  by (erule wroteI; auto simp: read_val_def decode_scalar_def width_bits_def)

lemma wrote_string: "put_string tag s wr = Inr wr' \<Longrightarrow> wrote tag (TStr s) wr wr'"
  unfolding put_string_def rbind_eq_Inr
  by (elim exE conjE, drule utf8_roundtrip, drule wrote_bytes_of) auto

lemma wrote_bytes: "put_bytes tag s wr = Inr wr' \<Longrightarrow> wrote tag (TBytes s) wr wr'"
  unfolding put_bytes_def by (drule wrote_bytes_of) auto

subsection \<open>Containers\<close>

definition wrote_all :: "(out \<Rightarrow> out) \<Rightarrow> tlv_writer \<Rightarrow> tlv_writer \<Rightarrow> bool" where
  "wrote_all f wr wr' \<longleftrightarrow> container_stack wr' = container_stack wr
     \<and> (\<exists>bs. encoding wr' = encoding wr @ bs
          \<and> (\<forall>out rest. read_into out (bs @ rest) = read_into (f out) rest))"

lemma wrote_all_Nil: "wrote_all (\<lambda>out. out) wr wr"
  by (simp add: wrote_all_def)

lemma wrote_all_Cons: "wrote tag v wr wr1 \<Longrightarrow> wrote_all f wr1 wr2 \<Longrightarrow> wrote_all (\<lambda>out. f (out_add tag v out)) wr wr2"
  unfolding wrote_def wrote_all_def
proof (elim conjE exE, intro conjI)
  fix bs bs' assume "encoding wr1 = encoding wr @ bs" "encoding wr2 = encoding wr1 @ bs'"
    "\<forall>out rest. read_into out (bs @ rest) = read_into (out_add tag v out) rest"
    "\<forall>out rest. read_into out (bs' @ rest) = read_into (f out) rest"
  then show "\<exists>bs. encoding wr2 = encoding wr @ bs \<and>
      (\<forall>out rest. read_into out (bs @ rest) = read_into (f (out_add tag v out)) rest)"
    by (intro exI [of _ "bs @ bs'"]) simp
qed simp

lemma wrote_container:
  assumes "start_container tag c wr = Inr wr1" "wrote_all f wr1 wr2" "end_container wr2 = Inr wr'"
    and "c = Structure \<and> init = OutDict [] \<or> c = Array \<and> init = OutList []"
  shows "wrote tag (out_value (f init)) wr wr'"
proof -
  obtain wr0 where e0: "extend (type_byte c) tag 0 [] wr = Inr wr0"
    and wr1: "wr1 = wr0\<lparr>container_stack := c # container_stack wr0\<rparr>"
    using assms(1) by (auto simp: start_container_def rbind_eq_Inr)
  have tb: "type_byte c + width_bits 0 < 32" "type_byte c \<noteq> 24" by (auto simp: type_byte_def width_bits_def split: container.split)
  obtain hdr where h: "encoding wr0 = encoding wr @ hdr @ []" "container_stack wr0 = container_stack wr"
    "hdr \<noteq> []" "\<And>rest. decode_control_and_tag (hdr @ rest) = Inr (type_byte c + width_bits 0, tag, rest)"
    "container_stack wr \<noteq> [] \<Longrightarrow> hd (container_stack wr) = Structure \<Longrightarrow> type_byte c \<noteq> 24 \<Longrightarrow> tag \<noteq> NoTag"
    using e0 tb(1) by (rule extend_read) blast
  obtain bs where bs: "container_stack wr2 = c # container_stack wr" "encoding wr2 = encoding wr1 @ bs"
    "\<And>out rest. read_into out (bs @ rest) = read_into (f out) rest"
    using assms(2) h(2) by (auto simp: wrote_all_def wr1)
  have e2: "extend 24 NoTag 0 [] (wr2\<lparr>container_stack := container_stack wr\<rparr>) = Inr wr'"
    using assms(3) bs(1) by (simp add: end_container_def)
  obtain fin where g: "encoding wr' = encoding wr2 @ fin @ []" "container_stack wr' = container_stack wr"
    "fin \<noteq> []" "\<And>rest. decode_control_and_tag (fin @ rest) = Inr (24 + width_bits 0, NoTag, rest)"
    using e2 by (rule extend_read) (auto simp: width_bits_def)
  have stop: "read_into out (fin @ rest) = Inr (out, rest)" for out rest
    using g(3,4) by (subst read_into_unfold) (simp add: width_bits_def read_val_def decode_scalar_def)
  have "read_val (type_byte c) (bs @ fin @ rest) = Inr (out_value (f init), rest)" for rest
    using assms(4) by (auto simp: read_val_def type_byte_def bs(3) stop)
  then have "read_into out ((hdr @ bs @ fin) @ rest) = read_into (out_add tag (out_value (f init)) out) rest" for out rest
    using h(3,4) tb(2) by (subst read_into_unfold) (simp add: width_bits_def)
  moreover have "encoding wr' = encoding wr @ (hdr @ bs @ fin)" using h(1) bs(2) g(1) wr1 by simp
  ultimately show ?thesis unfolding wrote_def using g(2) h(5) tb(2) by blast
qed

lemma sort_decorated: "map snd (sort_key fst (zip (map f xs) xs)) = sort_key f xs"
proof (induction xs)
  case (Cons x xs)
  have ins: "insort_key fst (f x, x) (zip (map f ys) ys) = zip (map f (insort_key f x ys)) (insort_key f x ys)" for ys
    by (induction ys) auto
  have "map fst (sort_key fst (zip (map f xs) xs)) = map f (sort_key f xs)"
  proof -
    have "map fst (sort_key fst (zip (map f xs) xs)) = map (f \<circ> snd) (sort_key fst (zip (map f xs) xs))"
      by (rule map_cong [OF refl]) (auto simp: set_zip)
    then show ?thesis using Cons by (metis map_map)
  qed
  then have "sort_key fst (zip (map f xs) xs) = zip (map f (sort_key f xs)) (sort_key f xs)"
    using Cons by (metis zip_map_fst_snd)
  then show ?case by (simp add: ins)
qed simp

lemma sort_items_tags:
  assumes "sort_items kvs = Inr s" "\<forall>(k, v) \<in> set s. \<exists>n. k = Tag n"
  shows "s = sort_key (tag_number \<circ> fst) kvs"
proof -
  obtain ks where ks: "rmap (\<lambda>(k, v). tag_sort_key k) kvs = Inr ks" "s = map snd (sort_key fst (zip ks kvs))"
    using assms(1) by (auto simp: sort_items_def rbind_eq_Inr)
  have "set s = set kvs" using sort_items_mset [OF assms(1)] by (metis set_mset_mset)
  then have "tag_sort_key (fst kv) = Inr ((tag_number \<circ> fst) kv)" if "kv \<in> set kvs" for kv
    using assms(2) that by (cases kv) (auto simp: tag_sort_key_def)
  then have "rmap (\<lambda>(k, v). tag_sort_key k) kvs = Inr (map (tag_number \<circ> fst) kvs)"
    by (intro rmap_all_Inr) (auto simp: case_prod_unfold)
  then have "ks = map (tag_number \<circ> fst) kvs" using ks(1) by simp
  then show ?thesis using ks(2) by (simp only: sort_decorated)
qed

text \<open>Reading the items of a structure fills the dict with them in order.\<close>

lemma fold_out_add:
  assumes "\<forall>(k, v) \<in> set kvs. k \<noteq> NoTag" "distinct (map fst d @ map fst kvs)"
  shows "fold (\<lambda>(k, v). out_add k (f v)) kvs (OutDict d) = OutDict (d @ map (\<lambda>(k, v). (k, f v)) kvs)"
  using assms
proof (induction kvs arbitrary: d)
  case (Cons kv kvs)
  obtain k v where kv: "kv = (k, v)" by (cases kv)
  have "dget d k = None" using Cons.prems(2) by (auto simp: kv dget_def map_of_eq_None_iff)
  then have "out_add k (f v) (OutDict d) = OutDict (d @ [(k, f v)])"
    using Cons.prems(1) by (simp add: kv out_add_def dput_new)
  with Cons.IH [of "d @ [(k, f v)]"] Cons.prems show ?case by (simp add: kv)
qed simp

lemma fold_out_list: "fold (\<lambda>v. out_add NoTag (f v)) vs (OutList l) = OutList (l @ map f vs)"
  by (induction vs arbitrary: l) (simp_all add: out_add_def)

definition open_structure :: "tlv_writer \<Rightarrow> bool" where
  "open_structure wr \<longleftrightarrow> container_stack wr \<noteq> [] \<and> hd (container_stack wr) = Structure"

lemma wrote_tag: "wrote tag v wr wr' \<Longrightarrow> open_structure wr \<Longrightarrow> tag \<noteq> NoTag"
  by (simp add: wrote_def open_structure_def)

lemma wrote_stack: "wrote tag v wr wr' \<Longrightarrow> container_stack wr' = container_stack wr"
  by (simp add: wrote_def)

lemma encode_tagD: "encode_control_and_tag stack t tag w = Inr hdr \<Longrightarrow> tag \<noteq> NoTag \<Longrightarrow> \<exists>n. tag = Tag n"
  by (cases tag) (auto simp: encode_control_and_tag_def Let_def)

lemma put_tagD: "put tag v wr = Inr wr' \<Longrightarrow> tag = NoTag \<or> (\<exists>n. tag = Tag n)"
  by (cases v) (auto simp: rbind_eq_Inr extend_def start_container_def put_null_def put_bool_def
      put_unsigned_int_def put_signed_int_def put_float_def put_double_def put_string_def put_bytes_def
      put_bytes_of_def Let_def dest: encode_tagD)

lemma put_writes:
  "put tag v wr = Inr wr' \<Longrightarrow> readable v \<Longrightarrow> wrote tag (reread v) wr wr'"
  "put_items kvs wr = Inr wr' \<Longrightarrow> \<forall>(k, v) \<in> set kvs. readable v \<Longrightarrow>
     wrote_all (fold (\<lambda>(k, v). out_add k (reread v)) kvs) wr wr'
     \<and> (open_structure wr \<longrightarrow> (\<forall>(k, v) \<in> set kvs. \<exists>n. k = Tag n))"
  "put_elements vs wr = Inr wr' \<Longrightarrow> \<forall>v \<in> set vs. readable v \<Longrightarrow>
     wrote_all (fold (\<lambda>v. out_add NoTag (reread v)) vs) wr wr'"
proof (induction tag v wr and kvs wr and vs wr arbitrary: wr' and wr' and wr' rule: put_put_items_put_elements.induct)
  case (9 tag kvs wr)
  from 9(2) obtain wr1 s wr2 where r: "start_container tag Structure wr = Inr wr1" "sort_items kvs = Inr s"
    "put_items s wr1 = Inr wr2" "end_container wr2 = Inr wr'"
    by (cases "sort_items kvs") (auto simp: rbind_eq_Inr)
  have set: "set s = set kvs" using sort_items_mset [OF r(2)] by (metis set_mset_mset)
  have "open_structure wr1" using r(1) by (auto simp: start_container_def rbind_eq_Inr open_structure_def)
  with 9(1) [OF r(2,3)] 9(3) set have ih: "wrote_all (fold (\<lambda>(k, v). out_add k (reread v)) s) wr1 wr2"
    and tags: "\<forall>(k, v) \<in> set s. \<exists>n. k = Tag n" by auto
  have "distinct (map fst s)"
    using 9(3) sort_items_mset [OF r(2)] by (metis distinct_map mset_eq_imp_distinct_iff readable.simps(1) set)
  then have "fold (\<lambda>(k, v). out_add k (reread v)) s (OutDict []) = OutDict (map (\<lambda>(k, v). (k, reread v)) s)"
    using fold_out_add [of s "[]"] tags by fastforce
  with wrote_container [OF r(1) ih r(4), of "OutDict []"] show ?case
    using sort_items_tags [OF r(2) tags] by (simp add: out_value_def)
next
  case (10 tag kvs wr)
  from 10(2) obtain wr1 wr2 where r: "start_container tag Structure wr = Inr wr1"
    "put_items kvs wr1 = Inr wr2" "end_container wr2 = Inr wr'"
    by (auto simp: rbind_eq_Inr)
  have "open_structure wr1" using r(1) by (auto simp: start_container_def rbind_eq_Inr open_structure_def)
  with 10(1) [OF r(2)] 10(3) have ih: "wrote_all (fold (\<lambda>(k, v). out_add k (reread v)) kvs) wr1 wr2"
    and tags: "\<forall>(k, v) \<in> set kvs. \<exists>n. k = Tag n" by auto
  have "fold (\<lambda>(k, v). out_add k (reread v)) kvs (OutDict []) = OutDict (map (\<lambda>(k, v). (k, reread v)) kvs)"
    using fold_out_add [of kvs "[]"] tags 10(3) by fastforce
  with wrote_container [OF r(1) ih r(3), of "OutDict []"] show ?case by (simp add: out_value_def)
next
  case (12 tag vs wr)
  from 12(2) obtain wr1 wr2 where r: "start_container tag Array wr = Inr wr1"
    "put_elements vs wr1 = Inr wr2" "end_container wr2 = Inr wr'"
    by (auto simp: rbind_eq_Inr)
  from 12(1) [OF r(2)] 12(3) have ih: "wrote_all (fold (\<lambda>v. out_add NoTag (reread v)) vs) wr1 wr2" by simp
  from wrote_container [OF r(1) ih r(3), of "OutList []"] show ?case
    by (simp add: out_value_def fold_out_list)
next
  case (15 tag v kvs wr)
  from 15(3) obtain wr1 where r: "put tag v wr = Inr wr1" "put_items kvs wr1 = Inr wr'" by (auto simp: rbind_eq_Inr)
  have w: "wrote tag (reread v) wr wr1" using 15(1) [OF r(1)] 15(4) by simp
  then have s: "open_structure wr1 = open_structure wr" by (simp add: open_structure_def wrote_stack)
  have ih: "wrote_all (fold (\<lambda>(k, v). out_add k (reread v)) kvs) wr1 wr'"
    "open_structure wr1 \<longrightarrow> (\<forall>(k, v) \<in> set kvs. \<exists>n. k = Tag n)"
    using 15(2) [OF r(2)] 15(4) by auto
  show ?case
    using wrote_all_Cons [OF w ih(1)] ih(2) s wrote_tag [OF w] put_tagD [OF r(1)] by (auto simp: comp_def)
next
  case (17 v vs wr)
  from 17(3) obtain wr1 where r: "put NoTag v wr = Inr wr1" "put_elements vs wr1 = Inr wr'" by (auto simp: rbind_eq_Inr)
  have w: "wrote NoTag (reread v) wr wr1" using 17(1) [OF r(1)] 17(4) by simp
  have ih: "wrote_all (fold (\<lambda>v. out_add NoTag (reread v)) vs) wr1 wr'"
    using 17(2) [OF r(2)] 17(4) by simp
  show ?case using wrote_all_Cons [OF w ih] by (simp add: comp_def)
qed (simp_all add: wrote_null wrote_bool wrote_unsigned wrote_signed wrote_float wrote_double wrote_string
    wrote_bytes wrote_all_def)

definition new_writer :: tlv_writer where
  "new_writer = \<lparr>encoding = [], container_stack = []\<rparr>"

lemma put_get:
  assumes "put NoTag v new_writer = Inr wr" "readable v"
  shows "reader_get (encoding wr) = Inr [(any_key, reread v)]"
proof -
  obtain bs where "encoding wr = bs"
    "read_into out (bs @ rest) = read_into (out_add NoTag (reread v) out) rest" for out rest
    using put_writes(1) [OF assms] by (auto simp: wrote_def new_writer_def)
  from this(1) this(2) [of _ "[]"] show ?thesis
    by (simp add: reader_get_def out_add_def dput_new)
qed

section \<open>What can be written\<close>

definition tag_ok :: "container list \<Rightarrow> tlv_tag \<Rightarrow> bool" where
  "tag_ok stack tag \<longleftrightarrow> (case tag of
       NoTag \<Rightarrow> stack = [] \<or> hd stack \<noteq> Structure
     | Tag n \<Rightarrow> 0 \<le> n \<and> n \<le> 255 \<and> stack \<noteq> [] \<and> hd stack \<noteq> Array
     | _ \<Rightarrow> False)"

fun fits :: "tlv \<Rightarrow> bool" where
  "fits (TUint n) \<longleftrightarrow> 0 \<le> n \<and> n < 2 ^ 64"
| "fits (TInt n) \<longleftrightarrow> - (2 ^ 63) \<le> n \<and> n < 2 ^ 63"
| "fits (TStr s) \<longleftrightarrow> (case utf8_encode s of Inr bs \<Rightarrow> length bs < 2 ^ 64 | Inl _ \<Rightarrow> False)"
| "fits (TBytes bs) \<longleftrightarrow> length bs < 2 ^ 64"
| "fits (TDict kvs) \<longleftrightarrow> (\<forall>(k, v) \<in> set kvs. tag_ok [Structure] k \<and> fits v)"
| "fits (TMapping kvs) \<longleftrightarrow> (\<forall>(k, v) \<in> set kvs. tag_ok [Structure] k \<and> fits v)"
| "fits (TPath kvs) \<longleftrightarrow> (\<forall>(k, v) \<in> set kvs. tag_ok [Path] k \<and> fits v)"
| "fits (TSeq vs) \<longleftrightarrow> (\<forall>v \<in> set vs. fits v)"
| "fits (TFloat x) \<longleftrightarrow> (\<exists>bs. pack_float x = Inr bs)"
| "fits TOther \<longleftrightarrow> False"
| "fits _ \<longleftrightarrow> True"

definition succeeds :: "'e + 'a \<Rightarrow> bool" where
  "succeeds r \<longleftrightarrow> (\<exists>x. r = Inr x)"

lemma succeeds_rbind: "succeeds (rbind r f) \<longleftrightarrow> (\<exists>x. r = Inr x \<and> succeeds (f x))"
  by (cases r) (auto simp: succeeds_def)

lemma succeeds_simps [simp]: "succeeds (Inr x)" "\<not> succeeds (Inl e)"
  by (simp_all add: succeeds_def)

lemma encode_tag_succeeds:
  "t \<noteq> 24 \<Longrightarrow> succeeds (encode_control_and_tag stack t tag w) \<longleftrightarrow> tag_ok stack tag"
  by (auto simp: encode_control_and_tag_def tag_ok_def Let_def split: tlv_tag.split)

lemma extend_succeeds: "t \<noteq> 24 \<Longrightarrow> succeeds (extend t tag w payload wr) \<longleftrightarrow> tag_ok (container_stack wr) tag"
  unfolding extend_def succeeds_rbind using encode_tag_succeeds [of t "container_stack wr" tag w]
  by (auto simp: succeeds_def)

lemma extend_stack: "extend t tag w payload wr = Inr wr' \<Longrightarrow> container_stack wr' = container_stack wr"
  by (auto simp: extend_def rbind_eq_Inr)

lemma start_succeeds: "succeeds (start_container tag c wr) \<longleftrightarrow> tag_ok (container_stack wr) tag"
  unfolding start_container_def succeeds_rbind using extend_succeeds [of "type_byte c" tag 0 "[]" wr]
  by (auto simp: succeeds_def type_byte_def split: container.splits)

lemma start_stack: "start_container tag c wr = Inr wr' \<Longrightarrow> container_stack wr' = c # container_stack wr"
  by (auto simp: start_container_def rbind_eq_Inr dest: extend_stack)

lemma end_container_succeeds: "container_stack wr \<noteq> [] \<Longrightarrow> succeeds (end_container wr)"
  by (cases "container_stack wr") (auto simp: end_container_def extend_def encode_control_and_tag_def Let_def)

lemma end_stack: "end_container wr = Inr wr' \<Longrightarrow> container_stack wr' = tl (container_stack wr)"
  by (cases "container_stack wr") (auto simp: end_container_def dest: extend_stack)

lemmas put_scalars = put_null_def put_bool_def put_unsigned_int_def put_signed_int_def put_float_def
  put_double_def put_string_def put_bytes_def put_bytes_of_def Let_def

lemma put_stack:
  "put tag v wr = Inr wr' \<Longrightarrow> container_stack wr' = container_stack wr"
  "put_items kvs wr = Inr wr' \<Longrightarrow> container_stack wr' = container_stack wr"
  "put_elements vs wr = Inr wr' \<Longrightarrow> container_stack wr' = container_stack wr"
proof (induction tag v wr and kvs wr and vs wr arbitrary: wr' and wr' and wr'
      rule: put_put_items_put_elements.induct)
  case (9 tag kvs wr)
  then show ?case
    by (cases "sort_items kvs") (auto simp: rbind_eq_Inr dest!: start_stack end_stack)
qed (auto simp: put_scalars rbind_eq_Inr dest!: extend_stack start_stack end_stack)

lemma sort_items_succeeds: "\<forall>(k, v) \<in> set kvs. \<exists>n. k = Tag n \<Longrightarrow> succeeds (sort_items kvs)"
proof -
  assume "\<forall>(k, v) \<in> set kvs. \<exists>n. k = Tag n"
  then have "rmap (\<lambda>(k, v). tag_sort_key k) kvs = Inr (map (tag_number \<circ> fst) kvs)"
    by (intro rmap_all_Inr) (auto simp: tag_sort_key_def)
  then show ?thesis by (simp add: sort_items_def)
qed

lemma tag_ok_stack: "stack \<noteq> [] \<Longrightarrow> tag_ok stack tag \<longleftrightarrow> tag_ok [hd stack] tag"
  by (auto simp: tag_ok_def split: tlv_tag.split)

lemma tag_ok_structure: "tag_ok [Structure] k \<Longrightarrow> \<exists>n. k = Tag n"
  by (auto simp: tag_ok_def split: tlv_tag.splits)

lemma container_succeeds:
  assumes "\<And>wr1. start_container tag c wr = Inr wr1 \<Longrightarrow> succeeds (body wr1) \<longleftrightarrow> ok"
    and "\<And>wr1 wr2. body wr1 = Inr wr2 \<Longrightarrow> container_stack wr2 = container_stack wr1"
  shows "succeeds (rbind (start_container tag c wr) (\<lambda>wr1. rbind (body wr1) end_container))
    \<longleftrightarrow> tag_ok (container_stack wr) tag \<and> ok"
proof (cases "start_container tag c wr")
  case (Inl e)
  then show ?thesis using start_succeeds [of tag c wr] by simp
next
  case (Inr wr1)
  have "succeeds (end_container wr2)" if "body wr1 = Inr wr2" for wr2
    using start_stack [OF Inr] assms(2) [OF that] by (intro end_container_succeeds) simp
  then have "succeeds (rbind (body wr1) end_container) \<longleftrightarrow> succeeds (body wr1)"
    by (cases "body wr1") auto
  with Inr show ?thesis using start_succeeds [of tag c wr] assms(1) [OF Inr] by simp
qed

lemma put_succeeds:
  "succeeds (put tag v wr) \<longleftrightarrow> tag_ok (container_stack wr) tag \<and> fits v"
  "succeeds (put_items kvs wr) \<longleftrightarrow> (\<forall>(k, v) \<in> set kvs. tag_ok (container_stack wr) k \<and> fits v)"
  "succeeds (put_elements vs wr) \<longleftrightarrow> (\<forall>v \<in> set vs. tag_ok (container_stack wr) NoTag \<and> fits v)"
proof (induction tag v wr and kvs wr and vs wr rule: put_put_items_put_elements.induct)
  case (3 tag n wr)
  then show ?case
    by (auto simp: put_scalars encode_unsigned_int_def unsigned_width_def succeeds_rbind extend_succeeds)
next
  case (4 tag n wr)
  then show ?case
    by (auto simp: put_scalars signed_width_def succeeds_rbind extend_succeeds)
next
  case (5 tag x wr)
  show ?case by (cases "pack_float x") (simp_all add: put_scalars succeeds_rbind extend_succeeds)
next
  case (7 tag s wr)
  then show ?case
    by (auto simp: put_scalars encode_unsigned_int_def unsigned_width_def succeeds_rbind extend_succeeds split: sum.splits)
next
  case (8 tag s wr)
  then show ?case
    by (auto simp: put_scalars encode_unsigned_int_def unsigned_width_def succeeds_rbind extend_succeeds)
next
  case (9 tag kvs wr)
  show ?case
  proof (cases "sort_items kvs")
    case (Inl e)
    have "\<not> fits (TDict kvs)"
    proof
      assume "fits (TDict kvs)"
      then have "\<forall>(k, v) \<in> set kvs. \<exists>n. k = Tag n" using tag_ok_structure by fastforce
      then show False using sort_items_succeeds [of kvs] Inl by simp
    qed
    with Inl show ?thesis by (simp add: succeeds_rbind)
  next
    case (Inr s)
    have set: "set s = set kvs" using sort_items_mset [OF Inr] by (metis set_mset_mset)
    have "succeeds (rbind (start_container tag Structure wr) (\<lambda>wr. rbind (put_items s wr) end_container))
      \<longleftrightarrow> tag_ok (container_stack wr) tag \<and> fits (TDict kvs)"
      by (rule container_succeeds) (auto simp: 9 Inr set start_stack put_stack(2)
        tag_ok_stack [of "Structure # container_stack wr"])
    with Inr show ?thesis by simp
  qed
next
  case (10 tag kvs wr)
  have "succeeds (rbind (start_container tag Structure wr) (\<lambda>wr. rbind (put_items kvs wr) end_container))
      \<longleftrightarrow> tag_ok (container_stack wr) tag \<and> fits (TMapping kvs)"
    by (rule container_succeeds) (auto simp: 10 start_stack put_stack(2)
        tag_ok_stack [of "Structure # container_stack wr"])
  then show ?case by simp
next
  case (11 tag kvs wr)
  have "succeeds (rbind (start_container tag Path wr) (\<lambda>wr. rbind (put_items kvs wr) end_container))
      \<longleftrightarrow> tag_ok (container_stack wr) tag \<and> fits (TPath kvs)"
    by (rule container_succeeds) (auto simp: 11 start_stack put_stack(2)
        tag_ok_stack [of "Path # container_stack wr"])
  then show ?case by simp
next
  case (12 tag vs wr)
  have "tag_ok (Array # stack) NoTag" for stack by (simp add: tag_ok_def)
  then have "succeeds (rbind (start_container tag Array wr) (\<lambda>wr. rbind (put_elements vs wr) end_container))
      \<longleftrightarrow> tag_ok (container_stack wr) tag \<and> fits (TSeq vs)"
    by (intro container_succeeds) (auto simp: 12 start_stack put_stack(3))
  then show ?case by simp
next
  case (15 tag v kvs wr)
  then show ?case using put_stack(1) by (auto simp: succeeds_rbind) (auto simp: succeeds_def)
next
  case (17 v vs wr)
  then show ?case using put_stack(1) by (auto simp: succeeds_rbind) (auto simp: succeeds_def)
qed (auto simp: put_scalars extend_succeeds)

lemma start_extends: "start_container tag c wr = Inr wr' \<Longrightarrow> \<exists>bs. encoding wr' = encoding wr @ bs"
  by (auto simp: start_container_def extend_def rbind_eq_Inr)

lemma end_extends: "end_container wr = Inr wr' \<Longrightarrow> \<exists>bs. encoding wr' = encoding wr @ bs"
  by (auto simp: end_container_def extend_def rbind_eq_Inr split: list.splits)

lemma put_extends:
  "put tag v wr = Inr wr' \<Longrightarrow> \<exists>bs. encoding wr' = encoding wr @ bs"
  "put_items kvs wr = Inr wr' \<Longrightarrow> \<exists>bs. encoding wr' = encoding wr @ bs"
  "put_elements vs wr = Inr wr' \<Longrightarrow> \<exists>bs. encoding wr' = encoding wr @ bs"
proof (induction tag v wr and kvs wr and vs wr arbitrary: wr' and wr' and wr'
      rule: put_put_items_put_elements.induct)
  case (9 tag kvs wr)
  then show ?case
    by (cases "sort_items kvs") (fastforce simp: rbind_eq_Inr dest: start_extends end_extends)+
next
  case (10 tag kvs wr)
  then show ?case by (fastforce simp: rbind_eq_Inr dest: start_extends end_extends)
next
  case (11 tag kvs wr)
  then show ?case by (fastforce simp: rbind_eq_Inr dest: start_extends end_extends)
next
  case (12 tag kvs wr)
  then show ?case by (fastforce simp: rbind_eq_Inr dest: start_extends end_extends)
next
  case (15 tag v kvs wr)
  then show ?case by (fastforce simp: rbind_eq_Inr)
next
  case (17 v vs wr)
  then show ?case by (fastforce simp: rbind_eq_Inr)
qed (auto simp: put_scalars extend_def rbind_eq_Inr)

lemma path_starts:
  assumes "put NoTag (TPath kvs) new_writer = Inr wr"
  obtains bs where "encoding wr = 23 # bs"
proof -
  obtain wr1 wr2 where "start_container NoTag Path new_writer = Inr wr1" "put_items kvs wr1 = Inr wr2"
    "end_container wr2 = Inr wr"
    using assms by (auto simp: rbind_eq_Inr)
  moreover from this(3) have "\<exists>bs. encoding wr = encoding wr2 @ bs" by (rule end_extends)
  moreover have "encoding wr1 = [23]" if "start_container NoTag Path new_writer = Inr wr1"
    using that by (auto simp: start_container_def extend_def encode_control_and_tag_def new_writer_def
        type_byte_def width_bits_def Let_def)
  ultimately show thesis using put_extends(2) that by fastforce
qed

lemma path_unreadable: "read_into out (23 # bs) = Inl ValueError"
  by (subst read_into_unfold) (simp add: decode_control_and_tag_def unpack_le_def read_val_def decode_scalar_def)

section \<open>Properties\<close>


definition demo_tlv :: tlv where
  "demo_tlv = TDict [(Tag 2, TStr (u ''hi'')), (Tag 0, TUint 300), (Tag 1, TSeq [TBool True, TNull, TInt (-5)]),
     (Tag 3, TFloat 0x3FB999999999999A)]"


text \<open>C30: TLVReader.get ends on every byte string: it returns a value or raises ValueError or
  struct.error, and the loop needs at most one step for each byte and one more.\<close>

theorem tlv_reader_total:
  "(\<exists>out' rest. get_loop (Suc (length bs)) out bs = Some (Inr (out', rest)))
     \<or> get_loop (Suc (length bs)) out bs \<in> {Some (Inl ValueError), Some (Inl StructError)}"
proof -
  obtain r where r: "get_loop (Suc (length bs)) out bs = Some r"
    using get_loop_read [of bs "Suc (length bs)" out] by blast
  show ?thesis
  proof (cases r)
    case (Inl e)
    then show ?thesis using r reader_errors_loop(2) [of "Suc (length bs)" out bs e] by auto
  next
    case (Inr p)
    then show ?thesis using r by (cases p) auto
  qed
qed


text \<open>Every TLVList that TLVWriter.put accepts at the top level is written in a form that
  TLVReader.get refuses.\<close>

theorem tlv_path_write_only:
  assumes "put NoTag (TPath kvs) new_writer = Inr wr"
  shows "reader_get (encoding wr) = Inl ValueError"
  using path_starts [OF assms] path_unreadable by (metis reader_get_def rbind_simps(1))

theorem tlv_path_write_only_witness:
  "\<exists>wr. put NoTag (TPath [(Tag 1, TNull)]) new_writer = Inr wr \<and> reader_get (encoding wr) = Inl ValueError"
proof -
  have "succeeds (put NoTag (TPath [(Tag 1, TNull)]) new_writer)"
    unfolding put_succeeds by (simp add: new_writer_def tag_ok_def)
  then obtain wr where wr: "put NoTag (TPath [(Tag 1, TNull)]) new_writer = Inr wr" by (auto simp: succeeds_def)
  from tlv_path_write_only [OF wr] wr show ?thesis by blast
qed

text \<open>A value nested in a container leaves the writer as it found it: the same containers open,
  the bytes written before untouched.\<close>

theorem tlv_put_balanced:
  assumes "put tag v wr = Inr wr'"
  shows "container_stack wr' = container_stack wr \<and> (\<exists>bs. encoding wr' = encoding wr @ bs)"
  using put_stack(1) [OF assms] put_extends(1) [OF assms] by blast

theorem tlv_put_balanced_witness:
  "\<exists>wr'. put (Tag 3) demo_tlv (new_writer\<lparr>container_stack := [Structure]\<rparr>) = Inr wr'
     \<and> container_stack wr' = [Structure]"
proof -
  let ?wr = "new_writer\<lparr>container_stack := [Structure]\<rparr>"
  have "succeeds (put (Tag 3) demo_tlv ?wr)"
    unfolding put_succeeds by (simp add: demo_tlv_def new_writer_def tag_ok_def scalar_def encode_char_def float_examples)
  then obtain wr' where wr': "put (Tag 3) demo_tlv ?wr = Inr wr'" by (auto simp: succeeds_def)
  from tlv_put_balanced [OF wr'] wr' show ?thesis by (intro exI [of _ wr']) simp
qed

end
