(* ===== verification/Cluster_Objects.thy ===== *)
theory Cluster_Objects
  imports Tlv_Codec
begin

text \<open>
  The base classes of the generated Matter clusters (\<open>python_client/chip/clusters/ClusterObjects.py\<close>,
  \<open>Types.py\<close> and \<open>enum.py\<close>): how a descriptor writes a dict of labels as TLV and turns what the TLV
  reader returns back into labels, with the type annotations the descriptors carry.

  A \<open>ctype\<close> is an annotation of a field, a \<open>cval\<close> a Python value at the level of the dicts that
  \<open>asdict\<close> yields and \<open>from_dict\<close> receives; \<open>dacite.from_dict\<close> itself is a third-party function that
  takes the dicts computed here.  The built-in constructors applied to a value of another kind
  (\<open>int("5")\<close>, \<open>float(3)\<close>, \<open>str(b"x")\<close>) are the fields of \<open>casts\<close>.  The debug path only words
  the message of an exception.
\<close>

section \<open>Annotations and values\<close>

text \<open>\<open>CNone\<close> is \<open>type(None)\<close>; \<open>CEnum ms k\<close> a \<open>MatterIntEnum\<close> with its values and that of
  \<open>kUnknownEnumValue\<close>; \<open>CFlag\<close> an \<open>IntFlag\<close>; \<open>CStruct\<close> a \<open>ClusterObject\<close> with its descriptor's fields
  as label, tag and type.\<close>

datatype ctype =
    CNone
  | CNullable
  | CBool
  | CInt
  | CUint
  | CFloat
  | CFloat32
  | CStr
  | CBytes
  | CEnum "int list" "int option"
  | CFlag
  | CStruct "(pystr \<times> int option \<times> ctype) list"
  | CList ctype
  | CUnion "ctype list"

type_synonym cfield = "pystr \<times> int option \<times> ctype"

datatype ckey = KTag int | KName pystr

text \<open>\<open>VNone\<close> is Python's \<open>None\<close> and \<open>VNull\<close> the \<open>NullValue\<close>; \<open>VEnum\<close> is a member of an enum or a
  flag, by its value; a float is a double, also a \<open>float32\<close>.\<close>

datatype cval =
    VNone
  | VNull
  | VBool bool
  | VInt int
  | VUint int
  | VEnum int
  | VFloat py_float
  | VFloat32 py_float
  | VStr pystr
  | VBytes "byte list"
  | VList "cval list"
  | VDict "(ckey \<times> cval) list"

record casts =
  map_missing :: bool
  cast_int :: "cval \<Rightarrow> int res"
  cast_float :: "cval \<Rightarrow> py_float res"
  cast_float32 :: "cval \<Rightarrow> py_float res"
  cast_text :: "cval \<Rightarrow> pystr"
  cast_index :: "cval \<Rightarrow> int option"
  cast_flag :: "cval \<Rightarrow> int res"

text \<open>\<open>GetUnionUnderlyingType(t)\<close>, and whether it finds a given type.\<close>

definition underlying_type :: "ctype \<Rightarrow> ctype option" where
  "underlying_type t = (case t of
       CUnion ts \<Rightarrow> find (\<lambda>t. t \<noteq> CNone \<and> t \<noteq> CNullable) ts
     | _ \<Rightarrow> None)"

definition union_has :: "ctype \<Rightarrow> ctype \<Rightarrow> bool" where
  "union_has m t = (case t of CUnion ts \<Rightarrow> m \<in> set ts | _ \<Rightarrow> False)"

section \<open>The constructors of the element types\<close>

definition int_of_val :: "cval \<Rightarrow> int option" where
  "int_of_val v = (case v of
       VBool b \<Rightarrow> Some (if b then 1 else 0)
     | VInt i \<Rightarrow> Some i
     | VUint i \<Rightarrow> Some i
     | VEnum i \<Rightarrow> Some i
     | _ \<Rightarrow> None)"

text \<open>\<open>val != 0\<close> and \<open>val < 0\<close> of a float: the zeros are two, a NaN is neither below 0 nor equal to it.\<close>

definition nonzero_float :: "py_float \<Rightarrow> bool" where
  "nonzero_float x \<longleftrightarrow> unat x mod 2 ^ 63 \<noteq> 0"

definition negative_float :: "py_float \<Rightarrow> bool" where
  "negative_float x \<longleftrightarrow> unat x div 2 ^ 63 = 1 \<and> 0 < unat x mod 2 ^ 63 \<and> unat x mod 2 ^ 63 \<le> double_inf"

definition truthy :: "cval \<Rightarrow> bool" where
  "truthy v \<longleftrightarrow> (case v of
       VNone \<Rightarrow> False
     | VNull \<Rightarrow> True
     | VFloat x \<Rightarrow> nonzero_float x
     | VFloat32 x \<Rightarrow> nonzero_float x
     | VStr s \<Rightarrow> s \<noteq> []
     | VBytes bs \<Rightarrow> bs \<noteq> []
     | VList vs \<Rightarrow> vs \<noteq> []
     | VDict d \<Rightarrow> d \<noteq> []
     | _ \<Rightarrow> int_of_val v \<noteq> Some 0)"

definition py_int_of :: "casts \<Rightarrow> cval \<Rightarrow> int res" where
  "py_int_of cs v = (case int_of_val v of Some i \<Rightarrow> Inr i | None \<Rightarrow> cast_int cs v)"

text \<open>\<open>uint.__init__\<close> compares the argument itself with 0: a string cannot be, and a negative
  fraction is refused although it truncates to 0.\<close>

definition uint_init :: "cval \<Rightarrow> unit res" where
  "uint_init v = (case v of
       VFloat x \<Rightarrow> if negative_float x then Inl TypeError else Inr ()
     | VFloat32 x \<Rightarrow> if negative_float x then Inl TypeError else Inr ()
     | _ \<Rightarrow> (case int_of_val v of
           Some i \<Rightarrow> if i < 0 then Inl TypeError else Inr ()
         | None \<Rightarrow> Inl TypeError))"

definition byte_of :: "cval \<Rightarrow> byte res" where
  "byte_of v = (case int_of_val v of
       Some i \<Rightarrow> if 0 \<le> i \<and> i \<le> 255 then Inr (of_int i) else Inl ValueError
     | None \<Rightarrow> Inl TypeError)"

definition key_value :: "ckey \<Rightarrow> cval" where
  "key_value k = (case k of KTag i \<Rightarrow> VInt i | KName s \<Rightarrow> VStr s)"

definition py_bytes :: "cval \<Rightarrow> byte list res" where
  "py_bytes v = (case v of
       VBytes bs \<Rightarrow> Inr bs
     | VList vs \<Rightarrow> rmap byte_of vs
     | VDict d \<Rightarrow> rmap (\<lambda>(k, _). byte_of (key_value k)) d
     | _ \<Rightarrow> (case int_of_val v of
           Some i \<Rightarrow> if i < 0 then Inl ValueError else Inr (replicate (nat i) 0)
         | None \<Rightarrow> Inl TypeError))"

text \<open>\<open>MatterIntEnum._missing_\<close> answers \<open>kUnknownEnumValue\<close> while the module's flag is set.\<close>

definition enum_missing :: "casts \<Rightarrow> int option \<Rightarrow> int res" where
  "enum_missing cs unknown =
     (if map_missing cs then case unknown of Some k \<Rightarrow> Inr k | None \<Rightarrow> Inl AttributeError
      else Inl ValueError)"

definition enum_of :: "casts \<Rightarrow> int list \<Rightarrow> int option \<Rightarrow> cval \<Rightarrow> int res" where
  "enum_of cs members unknown v =
     (case (case int_of_val v of Some i \<Rightarrow> Some i | None \<Rightarrow> cast_index cs v) of
        Some i \<Rightarrow> if i \<in> set members then Inr i else enum_missing cs unknown
      | None \<Rightarrow> enum_missing cs unknown)"

definition flag_of :: "casts \<Rightarrow> cval \<Rightarrow> int res" where
  "flag_of cs v = (case int_of_val v of
       Some i \<Rightarrow> if 0 \<le> i then Inr i else cast_flag cs v
     | None \<Rightarrow> cast_flag cs v)"

text \<open>\<open>elementType(val)\<close>.\<close>

definition construct :: "casts \<Rightarrow> ctype \<Rightarrow> cval \<Rightarrow> cval res" where
  "construct cs t v = (case t of
       CBool \<Rightarrow> Inr (VBool (truthy v))
     | CInt \<Rightarrow> rbind (py_int_of cs v) (\<lambda>i. Inr (VInt i))
     | CUint \<Rightarrow> rbind (py_int_of cs v) (\<lambda>i. rbind (uint_init v) (\<lambda>_. Inr (VUint i)))
     | CFloat \<Rightarrow> (case v of VFloat x \<Rightarrow> Inr v | VFloat32 x \<Rightarrow> Inr (VFloat x)
         | _ \<Rightarrow> rbind (cast_float cs v) (\<lambda>x. Inr (VFloat x)))
     | CFloat32 \<Rightarrow> (case v of VFloat x \<Rightarrow> Inr (VFloat32 x) | VFloat32 x \<Rightarrow> Inr v
         | _ \<Rightarrow> rbind (cast_float32 cs v) (\<lambda>x. Inr (VFloat32 x)))
     | CStr \<Rightarrow> (case v of VStr s \<Rightarrow> Inr v | _ \<Rightarrow> Inr (VStr (cast_text cs v)))
     | CBytes \<Rightarrow> rbind (py_bytes v) (\<lambda>bs. Inr (VBytes bs))
     | CEnum ms k \<Rightarrow> rbind (enum_of cs ms k v) (\<lambda>i. Inr (VEnum i))
     | CFlag \<Rightarrow> rbind (flag_of cs v) (\<lambda>i. Inr (VEnum i))
     | _ \<Rightarrow> Inl TypeError)"

text \<open>\<open>extend_enum_if_value_doesnt_exist\<close>: the values of the enum afterwards and the member.\<close>

definition extend_enum :: "casts \<Rightarrow> int list \<Rightarrow> int option \<Rightarrow> int \<Rightarrow> pyexc + int list \<times> int" where
  "extend_enum cs members unknown value = (case enum_of cs members unknown (VInt value) of
       Inr i \<Rightarrow> if i = value then Inr (members, i) else Inr (members @ [value], value)
     | Inl ValueError \<Rightarrow> Inr (members @ [value], value)
     | Inl e \<Rightarrow> Inl e)"

section \<open>Writing\<close>

text \<open>A loop over a list that passes a state along, stopping at the first error.\<close>

fun rfold :: "('a \<Rightarrow> 's \<Rightarrow> 'e + 's) \<Rightarrow> 'a list \<Rightarrow> 's \<Rightarrow> 'e + 's" where
  "rfold f [] s = Inr s"
| "rfold f (x # xs) s = rbind (f x s) (rfold f xs)"

lemma rfold_cong [fundef_cong]:
  "xs = ys \<Longrightarrow> s = t \<Longrightarrow> (\<And>x s. x \<in> set ys \<Longrightarrow> f x s = g x s) \<Longrightarrow> rfold f xs s = rfold g ys t"
proof (induction ys arbitrary: xs s t)
  case (Cons y ys)
  then have "f y t = g y t" "rfold f ys = rfold g ys" by (auto intro!: ext)
  with Cons.prems(1,2) show ?case by simp
qed simp

text \<open>What \<open>TLVWriter.put\<close> sees of a value that an element type's constructor returned.\<close>

definition scalar_tlv :: "cval \<Rightarrow> tlv" where
  "scalar_tlv v = (case v of
       VNone \<Rightarrow> TNull
     | VBool b \<Rightarrow> TBool b
     | VInt i \<Rightarrow> TInt i
     | VUint i \<Rightarrow> TUint i
     | VEnum i \<Rightarrow> TUint i
     | VFloat x \<Rightarrow> TDouble x
     | VFloat32 x \<Rightarrow> TFloat x
     | VStr s \<Rightarrow> TStr s
     | VBytes bs \<Rightarrow> TBytes bs
     | _ \<Rightarrow> TOther)"

definition field_tag :: "int option \<Rightarrow> tlv_tag" where
  "field_tag t = (case t of None \<Rightarrow> NoTag | Some n \<Rightarrow> Tag n)"

definition data_get :: "(ckey \<times> cval) list \<Rightarrow> pystr \<Rightarrow> cval" where
  "data_get d label = (case dget d (KName label) of Some v \<Rightarrow> v | None \<Rightarrow> VNone)"

lemma find_size: "find P xs = Some x \<Longrightarrow> size x < Suc (size_list size xs)"
  by (induction xs) (auto split: if_splits)

lemma underlying_size: "underlying_type t = Some t' \<Longrightarrow> size t' < size t"
  using find_size by (fastforce simp: underlying_type_def split: ctype.splits)

lemma field_size: "(l, tag, t) \<in> set fds \<Longrightarrow> size t < size (CStruct fds)"
  by (induction fds) auto

text \<open>\<open>_PutSingleElementToTLV\<close> with the \<open>DictToTLVWithWriter\<close> of a struct, and \<open>PutFieldToTLV\<close>.
  \<open>issubclass\<close> refuses a \<open>List\<close> or \<open>Union\<close> annotation, the unpacking of \<open>get_args\<close> anything but a
  \<open>List\<close>.\<close>

function put_single :: "casts \<Rightarrow> tlv_tag \<Rightarrow> cval \<Rightarrow> ctype \<Rightarrow> tlv_writer \<Rightarrow> tlv_writer res"
  and put_field :: "casts \<Rightarrow> tlv_tag \<Rightarrow> cval \<Rightarrow> ctype \<Rightarrow> tlv_writer \<Rightarrow> tlv_writer res" where
  "put_single cs tag v t wr = (case t of
       CStruct fds \<Rightarrow> (case v of
           VDict d \<Rightarrow> rbind (start_container tag Structure wr) (\<lambda>wr.
             rbind (rfold (\<lambda>(label, tag, ft). put_field cs (field_tag tag) (data_get d label) ft) fds wr)
               end_container)
         | _ \<Rightarrow> Inl ValueError)
     | CList _ \<Rightarrow> Inl TypeError
     | CUnion _ \<Rightarrow> Inl TypeError
     | _ \<Rightarrow> (case construct cs t v of Inl _ \<Rightarrow> Inl ValueError | Inr w \<Rightarrow> put tag (scalar_tlv w) wr))"
| "put_field cs tag v t wr =
     (if v = VNull then if union_has CNullable t then put tag TNull wr else Inl ValueError
      else if v = VNone then if union_has CNone t then Inr wr else Inl ValueError
      else case (case underlying_type t of None \<Rightarrow> t | Some et \<Rightarrow> et) of et \<Rightarrow>
        (case v of
           VList vs \<Rightarrow> rbind (start_container tag Array wr) (\<lambda>wr. (case et of
               CList lt \<Rightarrow> rbind (rfold (\<lambda>w. put_single cs NoTag w lt) vs wr) end_container
             | _ \<Rightarrow> Inl ValueError))
         | _ \<Rightarrow> put_single cs tag v et wr))"
  by pat_completeness auto
termination
proof (relation "measure (\<lambda>x. case x of Inl (_, _, _, t, _) \<Rightarrow> 2 * size t | Inr (_, _, _, t, _) \<Rightarrow> 2 * size t + 1)", goal_cases)
  case 1
  show ?case by simp
next
  case (2 cs tag v t wr fds d wr1 x a b c s)
  then show ?case using field_size [of _ _ _ fds] by fastforce
qed (auto split: option.splits dest!: underlying_size)

text \<open>\<open>descriptor.DictToTLV(data)\<close>, which \<open>ToTLV\<close> calls on \<open>asdict(self)\<close>, and \<open>ToTLV\<close> of an
  attribute.\<close>

definition dict_to_tlv :: "casts \<Rightarrow> cfield list \<Rightarrow> (ckey \<times> cval) list \<Rightarrow> byte list res" where
  "dict_to_tlv cs fds data =
     rbind (put_single cs NoTag (VDict data) (CStruct fds) new_writer) (\<lambda>wr. Inr (encoding wr))"

definition attribute_to_tlv :: "casts \<Rightarrow> ctype \<Rightarrow> tlv_tag \<Rightarrow> cval \<Rightarrow> byte list res" where
  "attribute_to_tlv cs t tag v = rbind (put_field cs tag v t new_writer) (\<lambda>wr. Inr (encoding wr))"

section \<open>Reading\<close>

text \<open>The reader's values: it files what a structure holds under its tag, or under \<open>Any\<close>, and it
  returns no path.\<close>

definition reader_key :: "tlv_tag \<Rightarrow> ckey" where
  "reader_key t = (case t of Tag n \<Rightarrow> KTag n | _ \<Rightarrow> KName (u ''Any''))"

fun of_reader :: "tlv \<Rightarrow> cval" where
  "of_reader TNull = VNone"
| "of_reader (TBool b) = VBool b"
| "of_reader (TUint n) = VUint n"
| "of_reader (TInt n) = VInt n"
| "of_reader (TFloat x) = VFloat32 x"
| "of_reader (TDouble x) = VFloat x"
| "of_reader (TStr s) = VStr s"
| "of_reader (TBytes bs) = VBytes bs"
| "of_reader (TDict kvs) = VDict (map (\<lambda>(k, v). (reader_key k, of_reader v)) kvs)"
| "of_reader (TMapping kvs) = VDict (map (\<lambda>(k, v). (reader_key k, of_reader v)) kvs)"
| "of_reader (TPath kvs) = VDict (map (\<lambda>(k, v). (reader_key k, of_reader v)) kvs)"
| "of_reader (TSeq vs) = VList (map of_reader vs)"
| "of_reader TOther = VNone"

definition get_field_by_tag :: "cfield list \<Rightarrow> ckey \<Rightarrow> cfield option" where
  "get_field_by_tag fds k = (case k of
       KTag n \<Rightarrow> find (\<lambda>(_, tag, _). tag = Some n) fds
     | KName _ \<Rightarrow> None)"

lemma get_field_by_tagD: "get_field_by_tag fds k = Some (l, tag, t) \<Longrightarrow> (l, tag, t) \<in> set fds \<and> k = KTag (the tag) \<and> tag \<noteq> None"
  by (auto simp: get_field_by_tag_def find_Some_iff in_set_conv_nth split: ckey.splits)

lemma get_field_size: "get_field_by_tag fds k = Some (l, tag, t) \<Longrightarrow> size t < size (CStruct fds)"
  using field_size [of l tag t fds] get_field_by_tagD [of fds k l tag t] by blast

definition get_field_by_label :: "cfield list \<Rightarrow> pystr \<Rightarrow> cfield option" where
  "get_field_by_label fds label = find (\<lambda>(l, _, _). l = label) fds"

definition val_isinstance :: "cval \<Rightarrow> ctype \<Rightarrow> bool" where
  "val_isinstance v t = (case (t, v) of
       (CNone, VNone) \<Rightarrow> True
     | (CNullable, VNull) \<Rightarrow> True
     | (CBool, VBool _) \<Rightarrow> True
     | (CInt, _) \<Rightarrow> int_of_val v \<noteq> None
     | (CUint, VUint _) \<Rightarrow> True
     | (CFloat, VFloat _) \<Rightarrow> True
     | (CFloat, VFloat32 _) \<Rightarrow> True
     | (CFloat32, VFloat32 _) \<Rightarrow> True
     | (CStr, VStr _) \<Rightarrow> True
     | (CBytes, VBytes _) \<Rightarrow> True
     | (CEnum _ _, VEnum _) \<Rightarrow> True
     | (CFlag, VEnum _) \<Rightarrow> True
     | _ \<Rightarrow> False)"

text \<open>\<open>enumerate(value)\<close>.\<close>

definition iterate :: "cval \<Rightarrow> cval list res" where
  "iterate v = (case v of
       VList vs \<Rightarrow> Inr vs
     | VStr s \<Rightarrow> Inr (map (\<lambda>c. VStr [c]) s)
     | VBytes bs \<Rightarrow> Inr (map (\<lambda>b. VInt (uint b)) bs)
     | VDict d \<Rightarrow> Inr (map (key_value \<circ> fst) d)
     | _ \<Rightarrow> Inl TypeError)"

lemma rmap_cong [fundef_cong]:
  "xs = ys \<Longrightarrow> (\<And>x. x \<in> set ys \<Longrightarrow> f x = g x) \<Longrightarrow> rmap f xs = rmap g ys"
proof (induction ys arbitrary: xs)
  case (Cons y ys)
  then have "f y = g y" "rmap f ys = rmap g ys" by auto
  with Cons.prems(1) show ?case by simp
qed simp

text \<open>\<open>_ConvertNonArray\<close> with the \<open>TagDictToLabelDict\<close> of a struct, and the body of that loop's
  pass over a field with a descriptor.\<close>

function convert_non_array :: "casts \<Rightarrow> ctype \<Rightarrow> cval \<Rightarrow> cval res"
  and convert_field :: "casts \<Rightarrow> ctype \<Rightarrow> cval \<Rightarrow> cval res" where
  "convert_non_array cs t v = (case t of
       CStruct fds \<Rightarrow> (case v of
           VDict d \<Rightarrow> rbind (rfold (\<lambda>(k, w) ret. (case get_field_by_tag fds k of
               None \<Rightarrow> Inr (dput k w ret)
             | Some (label, tag, ft) \<Rightarrow>
                 rbind (convert_field cs ft w) (\<lambda>x. Inr (dput (KName label) x ret)))) d [])
             (\<lambda>ret. Inr (VDict ret))
         | _ \<Rightarrow> Inl ValueError)
     | CList _ \<Rightarrow> Inl TypeError
     | CUnion _ \<Rightarrow> Inl TypeError
     | _ \<Rightarrow> rbind (case t of CEnum _ _ \<Rightarrow> construct cs t v | CFlag \<Rightarrow> construct cs t v | _ \<Rightarrow> Inr v)
         (\<lambda>w. if val_isinstance w t then Inr w else Inl ValueError))"
| "convert_field cs t v =
     (if v = VNone then Inr VNull
      else case (case t of CUnion _ \<Rightarrow> underlying_type t | _ \<Rightarrow> Some t) of
        None \<Rightarrow> Inl ValueError
      | Some vt \<Rightarrow> (case vt of
            CList lt \<Rightarrow> rbind (iterate v) (\<lambda>vs. rbind (rmap (convert_non_array cs lt) vs) (\<lambda>ws. Inr (VList ws)))
          | _ \<Rightarrow> convert_non_array cs vt v))"
  by pat_completeness auto
termination
  by (relation "measure (\<lambda>x. case x of Inl (_, t, _) \<Rightarrow> 2 * size t | Inr (_, t, _) \<Rightarrow> 2 * size t + 1)")
    (auto split: option.splits ctype.splits dest!: underlying_size get_field_size)

text \<open>\<open>TagDictToLabelDict\<close>, \<open>TLVToDict\<close>, and the dicts that an attribute's \<open>FromTLV\<close> and
  \<open>FromTagDictOrRawValue\<close> build of its value.\<close>

definition tag_dict_to_label_dict :: "casts \<Rightarrow> cfield list \<Rightarrow> cval \<Rightarrow> (ckey \<times> cval) list res" where
  "tag_dict_to_label_dict cs fds v = (case v of
       VDict d \<Rightarrow> rbind (convert_non_array cs (CStruct fds) (VDict d)) (\<lambda>r.
         case r of VDict ret \<Rightarrow> Inr ret | _ \<Rightarrow> Inl ValueError)
     | _ \<Rightarrow> Inl AttributeError)"

definition read_any :: "byte list \<Rightarrow> cval res" where
  "read_any bs = rbind (reader_get bs) (\<lambda>d.
     Inr (case dget d any_key of Some v \<Rightarrow> of_reader v | None \<Rightarrow> VDict []))"

definition tlv_to_dict :: "casts \<Rightarrow> cfield list \<Rightarrow> byte list \<Rightarrow> (ckey \<times> cval) list res" where
  "tlv_to_dict cs fds bs = rbind (read_any bs) (tag_dict_to_label_dict cs fds)"

definition value_fields :: "ctype \<Rightarrow> cfield list" where
  "value_fields t = [(u ''Value'', Some 0, t)]"

definition attribute_from_value :: "casts \<Rightarrow> ctype \<Rightarrow> cval \<Rightarrow> (ckey \<times> cval) list res" where
  "attribute_from_value cs t v = tag_dict_to_label_dict cs (value_fields t) (VDict [(KTag 0, v)])"

definition attribute_from_tlv :: "casts \<Rightarrow> ctype \<Rightarrow> byte list \<Rightarrow> (ckey \<times> cval) list res" where
  "attribute_from_tlv cs t bs = rbind (read_any bs) (attribute_from_value cs t)"

end
