(* ===== verification/Cluster_Facts.thy ===== *)
theory Cluster_Facts
  imports Cluster_Objects
begin

text \<open>
  What the descriptors of \<open>Cluster_Objects\<close> guarantee: data that conforms to a descriptor is
  written and reads back under its labels, everything read is typed, and what the code does at the
  edges (unknown enum values, absent fields, tags above a byte).
\<close>

section \<open>Conforming data\<close>

text \<open>A descriptor the writer can use: labels and tags distinct, every tag a byte.\<close>

fun desc_ok :: "ctype \<Rightarrow> bool" where
  "desc_ok (CStruct fds) \<longleftrightarrow> distinct (map fst fds) \<and> distinct (map (fst \<circ> snd) fds)
     \<and> (\<forall>(l, tag, t) \<in> set fds. (case tag of None \<Rightarrow> False | Some n \<Rightarrow> 0 \<le> n \<and> n \<le> 255) \<and> desc_ok t)"
| "desc_ok (CList t) \<longleftrightarrow> desc_ok t"
| "desc_ok (CUnion ts) \<longleftrightarrow> (\<forall>t \<in> set ts. desc_ok t)"
| "desc_ok _ \<longleftrightarrow> True"

definition element_type :: "ctype \<Rightarrow> ctype" where
  "element_type t = (case underlying_type t of None \<Rightarrow> t | Some et \<Rightarrow> et)"

lemma element_type_size: "size (element_type t) \<le> size t"
  by (auto simp: element_type_def dest!: underlying_size split: option.split)

lemma list_element_size: "element_type t = CList lt \<Longrightarrow> size lt < size t"
  using element_type_size [of t] by simp

text \<open>\<open>elt_ok\<close>: a value of an element type; \<open>field_ok\<close>: of a field, \<open>None\<close> where it is optional and
  \<open>NullValue\<close> where it is nullable.\<close>

definition scalar_ok :: "ctype \<Rightarrow> cval \<Rightarrow> bool" where
  "scalar_ok t v \<longleftrightarrow> (case v of
       VBool _ \<Rightarrow> t = CBool
     | VInt _ \<Rightarrow> t = CInt
     | VUint _ \<Rightarrow> t = CUint
     | VEnum i \<Rightarrow> t = CFlag \<or> (\<exists>ms. i \<in> set ms \<and> (\<exists>k. t = CEnum ms k))
     | VFloat _ \<Rightarrow> t = CFloat
     | VFloat32 _ \<Rightarrow> t = CFloat32
     | VStr _ \<Rightarrow> t = CStr
     | VBytes _ \<Rightarrow> t = CBytes
     | _ \<Rightarrow> False) \<and> fits (scalar_tlv v)"

function elt_ok :: "ctype \<Rightarrow> cval \<Rightarrow> bool" and field_ok :: "ctype \<Rightarrow> cval \<Rightarrow> bool" where
  "elt_ok t v \<longleftrightarrow> (case t of
       CStruct fds \<Rightarrow> (case v of
           VDict d \<Rightarrow> map fst d = map (KName \<circ> fst) fds
             \<and> (\<forall>(l, tag, ft) \<in> set fds. field_ok ft (data_get d l))
         | _ \<Rightarrow> False)
     | _ \<Rightarrow> scalar_ok t v)"
| "field_ok t v \<longleftrightarrow>
     (if v = VNull then union_has CNullable t
      else if v = VNone then union_has CNone t
      else case v of
        VList vs \<Rightarrow> (case element_type t of CList lt \<Rightarrow> (\<forall>w \<in> set vs. elt_ok lt w) | _ \<Rightarrow> False)
      | _ \<Rightarrow> elt_ok (element_type t) v)"
  by pat_completeness auto
termination
  by (relation "measure (\<lambda>x. case x of Inl (t, _) \<Rightarrow> 2 * size t | Inr (t, _) \<Rightarrow> 2 * size t + 1)")
    (auto dest: field_size list_element_size list_element_size [OF sym] simp: element_type_size le_imp_less_Suc)


declare elt_ok.simps [simp del] field_ok.simps [simp del]

text \<open>What reading makes of written data: the fields that were \<open>None\<close> are left out, a \<open>float32\<close> is
  rounded to single precision, every other value stays.\<close>

fun read_back :: "cval \<Rightarrow> cval" where
  "read_back (VDict d) = VDict (map (\<lambda>(k, v). (k, read_back v)) (filter (\<lambda>(_, v). v \<noteq> VNone) d))"
| "read_back (VList vs) = VList (map read_back vs)"
| "read_back (VFloat32 x) = VFloat32 (to_single x)"
| "read_back v = v"

section \<open>Writing is writing one value\<close>

text \<open>The value that the writer would be given for conforming data as a whole.\<close>

function wire :: "ctype \<Rightarrow> cval \<Rightarrow> tlv" and wire_field :: "ctype \<Rightarrow> cval \<Rightarrow> tlv" where
  "wire t v = (case t of
       CStruct fds \<Rightarrow> (case v of
           VDict d \<Rightarrow> TMapping (map (\<lambda>(l, tag, ft). (field_tag tag, wire_field ft (data_get d l)))
             (filter (\<lambda>fd. data_get d (fst fd) \<noteq> VNone) fds))
         | _ \<Rightarrow> scalar_tlv v)
     | _ \<Rightarrow> scalar_tlv v)"
| "wire_field t v =
     (if v = VNull then TNull
      else case v of
        VList vs \<Rightarrow> (case element_type t of CList lt \<Rightarrow> TSeq (map (wire lt) vs) | _ \<Rightarrow> TOther)
      | _ \<Rightarrow> wire (element_type t) v)"
  by pat_completeness auto
termination
  by (relation "measure (\<lambda>x. case x of Inl (t, _) \<Rightarrow> 2 * size t | Inr (t, _) \<Rightarrow> 2 * size t + 1)")
    (auto dest: field_size list_element_size list_element_size [OF sym] simp: element_type_size le_imp_less_Suc)

declare wire.simps [simp del] wire_field.simps [simp del] put_single.simps [simp del] put_field.simps [simp del]
  convert_non_array.simps [simp del] convert_field.simps [simp del]

lemma elt_ok_struct: "elt_ok (CStruct fds) v \<longleftrightarrow> (\<exists>d. v = VDict d \<and> map fst d = map (KName \<circ> fst) fds
    \<and> (\<forall>(l, tag, ft) \<in> set fds. field_ok ft (data_get d l)))"
  by (auto simp: elt_ok.simps split: cval.splits)

lemma elt_ok_scalar: "(\<And>fds. t \<noteq> CStruct fds) \<Longrightarrow> elt_ok t v \<longleftrightarrow> scalar_ok t v"
  by (simp add: elt_ok.simps split: ctype.split)

lemma scalar_ok_shape: "scalar_ok t v \<Longrightarrow> v \<noteq> VNone \<and> v \<noteq> VNull \<and> v \<noteq> VList vs \<and> v \<noteq> VDict d"
  by (auto simp: scalar_ok_def)

lemma elt_ok_shape: "elt_ok t v \<Longrightarrow> v \<noteq> VNone \<and> v \<noteq> VNull \<and> v \<noteq> VList vs"
  using scalar_ok_shape [of t v vs] by (cases t) (auto simp: elt_ok_struct elt_ok_scalar)

lemma field_ok_list: "field_ok t (VList vs) \<longleftrightarrow> (\<exists>lt. element_type t = CList lt \<and> (\<forall>w \<in> set vs. elt_ok lt w))"
  by (cases "element_type t") (simp_all add: field_ok.simps)

lemma field_ok_elt: "field_ok t v \<Longrightarrow> v \<noteq> VNull \<Longrightarrow> v \<noteq> VNone \<Longrightarrow> (\<nexists>vs. v = VList vs) \<Longrightarrow> elt_ok (element_type t) v"
  by (cases v) (simp_all add: field_ok.simps)

lemma construct_conforming: "scalar_ok t v \<Longrightarrow> construct cs t v = Inr v"
  by (cases v) (auto simp: scalar_ok_def construct_def py_int_of_def int_of_val_def uint_init_def py_bytes_def
      enum_of_def flag_of_def scalar_tlv_def truthy_def)

lemma scalar_ok_type: "scalar_ok t v \<Longrightarrow> t \<in> {CBool, CInt, CUint, CFloat, CFloat32, CStr, CBytes, CFlag} \<or> (\<exists>ms k. t = CEnum ms k)"
  by (cases v) (auto simp: scalar_ok_def)

lemma rfold_put_items:
  assumes "\<And>l tag ft wr. (l, tag, ft) \<in> set fds \<Longrightarrow>
      f (l, tag, ft) wr = (if g l = VNone then Inr wr else put (field_tag tag) (h ft (g l)) wr)"
  shows "rfold f fds wr = put_items (map (\<lambda>(l, tag, ft). (field_tag tag, h ft (g l)))
      (filter (\<lambda>fd. g (fst fd) \<noteq> VNone) fds)) wr"
  using assms
proof (induction fds arbitrary: wr)
  case (Cons x fds)
  obtain l tag ft where x: "x = (l, tag, ft)" by (cases x)
  have IH: "rfold f fds = put_items (map (\<lambda>(l, tag, ft). (field_tag tag, h ft (g l))) (filter (\<lambda>fd. g (fst fd) \<noteq> VNone) fds))"
    by (intro ext Cons.IH) (use Cons.prems in auto)
  have "f x wr = (if g l = VNone then Inr wr else put (field_tag tag) (h ft (g l)) wr)"
    using Cons.prems [of l tag ft wr] x by simp
  then show ?case by (simp add: x IH)
qed simp

lemma rfold_put_elements:
  assumes "\<And>v wr. v \<in> set vs \<Longrightarrow> f v wr = put NoTag (g v) wr"
  shows "rfold f vs wr = put_elements (map g vs) wr"
  using assms
proof (induction vs arbitrary: wr)
  case (Cons v vs)
  then have "rfold f vs = put_elements (map g vs)" by (intro ext) auto
  then show ?case using Cons.prems by simp
qed simp


lemma put_conforming:
  "elt_ok t v \<Longrightarrow> put_single cs tag v t wr = put tag (wire t v) wr"
  "field_ok t v \<Longrightarrow> put_field cs tag v t wr = (if v = VNone then Inr wr else put tag (wire_field t v) wr)"
proof (induction t v and t v arbitrary: tag wr and tag wr rule: elt_ok_field_ok.induct)
  case (1 t v)
  show ?case
  proof (cases "\<exists>fds. t = CStruct fds")
    case True
    then obtain fds d where t: "t = CStruct fds" and v: "v = VDict d"
      using "1.prems" by (auto simp: elt_ok_struct)
    have f: "put_field cs (field_tag tag) (data_get d l) ft wr =
         (if data_get d l = VNone then Inr wr else put (field_tag tag) (wire_field ft (data_get d l)) wr)"
      if "(l, tag, ft) \<in> set fds" for l tag ft wr
    proof -
      have "field_ok ft (data_get d l)" using "1.prems" that by (auto simp: t v elt_ok_struct)
      from 1(1) [OF t v that refl refl this] show ?thesis .
    qed
    have "rfold (\<lambda>(label, tag, ft). put_field cs (field_tag tag) (data_get d label) ft) fds wr1 =
        put_items (map (\<lambda>(l, tag, ft). (field_tag tag, wire_field ft (data_get d l))) (filter (\<lambda>fd. data_get d (fst fd) \<noteq> VNone) fds)) wr1" for wr1
      by (rule rfold_put_items [where g = "data_get d" and h = wire_field]) (simp add: f)
    then show ?thesis by (simp add: t v put_single.simps wire.simps)
  next
    case False
    then have ok: "scalar_ok t v" using "1.prems" by (simp add: elt_ok_scalar)
    with scalar_ok_type [OF ok] show ?thesis
      by (auto simp: put_single.simps wire.simps construct_conforming)
  qed
next
  case (2 t v)
  show ?case
  proof (cases "v = VNull \<or> v = VNone")
    case True
    then show ?thesis using "2.prems" by (auto simp: put_field.simps field_ok.simps wire_field.simps)
  next
    case False
    show ?thesis
    proof (cases "\<exists>vs. v = VList vs")
      case True
      then obtain lt vs where l: "element_type t = CList lt" "v = VList vs" "\<forall>w \<in> set vs. elt_ok lt w"
        using "2.prems" by (auto simp: field_ok_list)
      have "rfold (\<lambda>w. put_single cs NoTag w lt) vs wr1 = put_elements (map (wire lt) vs) wr1" for wr1
        by (rule rfold_put_elements) (use 2 l in auto)
      then show ?thesis using l by (simp add: put_field.simps wire_field.simps flip: element_type_def)
    next
      case other: False
      have ok: "elt_ok (element_type t) v"
        using field_ok_elt [OF "2.prems"] False other by blast
      show ?thesis
        using 2 ok False other
        by (cases v) (auto simp: put_field.simps wire_field.simps simp flip: element_type_def)
    qed
  qed
qed


section \<open>What is written is writable and readable\<close>

lemma desc_ok_element: "desc_ok t \<Longrightarrow> desc_ok (element_type t)"
  by (auto simp: element_type_def underlying_type_def find_Some_iff split: option.splits ctype.splits)

lemma desc_ok_list: "desc_ok t \<Longrightarrow> element_type t = CList lt \<Longrightarrow> desc_ok lt"
  using desc_ok_element [of t] by simp

lemma scalar_readable: "scalar_ok t v \<Longrightarrow> fits (scalar_tlv v) \<and> readable (scalar_tlv v)"
  by (cases v) (auto simp: scalar_ok_def scalar_tlv_def)

lemma wire_writable:
  "elt_ok t v \<Longrightarrow> desc_ok t \<Longrightarrow> fits (wire t v) \<and> readable (wire t v)"
  "field_ok t v \<Longrightarrow> desc_ok t \<Longrightarrow> v \<noteq> VNone \<Longrightarrow> fits (wire_field t v) \<and> readable (wire_field t v)"
proof (induction t v and t v rule: elt_ok_field_ok.induct)
  case (1 t v)
  show ?case
  proof (cases "\<exists>fds. t = CStruct fds")
    case True
    then obtain fds d where t: "t = CStruct fds" and v: "v = VDict d"
      using "1.prems" by (auto simp: elt_ok_struct)
    have IH: "fits (wire_field ft (data_get d l)) \<and> readable (wire_field ft (data_get d l))"
      if "(l, tag, ft) \<in> set fds" "data_get d l \<noteq> VNone" for l tag ft
    proof -
      have "field_ok ft (data_get d l)" "desc_ok ft" using "1.prems" that(1) by (auto simp: t v elt_ok_struct)
      from 1(1) [OF t v that(1) refl refl this that(2)] show ?thesis .
    qed
    have d: "distinct (map (fst \<circ> snd) fds)" and tags: "\<And>l tag ft. (l, tag, ft) \<in> set fds \<Longrightarrow> \<exists>n. tag = Some n \<and> 0 \<le> n \<and> n \<le> 255"
      using "1.prems" by (fastforce simp: t split: option.splits)+
    have "inj_on field_tag (set (map (fst \<circ> snd) fds))"
      by (auto simp: inj_on_def field_tag_def split: option.splits)
    with d have "distinct (map (field_tag \<circ> (fst \<circ> snd)) fds)"
      by (metis distinct_map map_map)
    then have "distinct (map (field_tag \<circ> (fst \<circ> snd)) (filter (\<lambda>fd. data_get d (fst fd) \<noteq> VNone) fds))"
      by (rule distinct_map_filter)
    then have dist: "distinct (map fst (map (\<lambda>(l, tag, ft). (field_tag tag, wire_field ft (data_get d l))) (filter (\<lambda>fd. data_get d (fst fd) \<noteq> VNone) fds)))"
      by (simp add: o_def case_prod_beta)
    have each: "tag_ok [Structure] (field_tag tag) \<and> fits (wire_field ft (data_get d l)) \<and> readable (wire_field ft (data_get d l))"
      if "(l, tag, ft) \<in> set fds" "data_get d l \<noteq> VNone" for l tag ft
      using IH [OF that] tags [OF that(1)] by (auto simp: field_tag_def tag_ok_def)
    show ?thesis
      using dist by (auto simp: t v wire.simps dest: each)
  next
    case False
    then show ?thesis using "1.prems" scalar_readable [of t v]
      by (auto simp: elt_ok_scalar wire.simps split: ctype.splits)
  qed
next
  case (2 t v)
  show ?case
  proof (cases "v = VNull")
    case False
    show ?thesis
    proof (cases "\<exists>vs. v = VList vs")
      case True
      then obtain lt vs where l: "element_type t = CList lt" "v = VList vs" "\<forall>w \<in> set vs. elt_ok lt w"
        using "2.prems" by (auto simp: field_ok_list)
      then show ?thesis using 2 desc_ok_list [of t lt] by (auto simp: wire_field.simps)
    next
      case other: False
      have "elt_ok (element_type t) v" using field_ok_elt [of t v] "2.prems" False other by blast
      then show ?thesis using 2 False other desc_ok_element [of t]
        by (cases v) (auto simp: wire_field.simps)
    qed
  qed (simp add: wire_field.simps)
qed


section \<open>Reading back\<close>

lemma data_enumerated:
  assumes "map fst d = map (KName \<circ> fst) fds" "distinct (map fst fds)"
  shows "d = map (\<lambda>(l, tag, ft). (KName l, data_get d l)) fds"
proof (rule nth_equalityI)
  show len: "length d = length (map (\<lambda>(l, tag, ft). (KName l, data_get d l)) fds)"
    using arg_cong [OF assms(1), of length] by simp
  fix i assume i: "i < length d"
  obtain l tag ft where f: "fds ! i = (l, tag, ft)" by (cases "fds ! i")
  have k: "fst (d ! i) = KName l" using arg_cong [OF assms(1), of "\<lambda>xs. xs ! i"] i len f by simp
  have "inj_on KName (set (map fst fds))" by (simp add: inj_on_def)
  then have "dict_ok d" using assms by (simp add: dict_ok_def distinct_map flip: map_map)
  moreover have "(KName l, snd (d ! i)) \<in> set d" using i k by (metis nth_mem prod.collapse)
  ultimately have "data_get d l = snd (d ! i)" by (simp add: data_get_def dget_set)
  then show "d ! i = map (\<lambda>(l, tag, ft). (KName l, data_get d l)) fds ! i"
    using i len f k by (cases "d ! i") simp
qed

lemma strip_struct:
  assumes "map fst d = map (KName \<circ> fst) fds" "distinct (map fst fds)"
  shows "read_back (VDict d) = VDict (map (\<lambda>(l, tag, ft). (KName l, read_back (data_get d l)))
    (filter (\<lambda>fd. data_get d (fst fd) \<noteq> VNone) fds))"
proof -
  have "read_back (VDict (map (\<lambda>(l, tag, ft). (KName l, g l)) xs)) =
      VDict (map (\<lambda>(l, tag, ft). (KName l, read_back (g l))) (filter (\<lambda>fd. g (fst fd) \<noteq> VNone) xs))" for g xs
    by (induction xs) auto
  from this [of "data_get d" fds] show ?thesis
    by (simp only: data_enumerated [OF assms, symmetric])
qed

lemma field_found:
  assumes "distinct (map (fst \<circ> snd) fds)" "(l, Some n, ft) \<in> set fds"
  shows "get_field_by_tag fds (KTag n) = Some (l, Some n, ft)"
  using assms by (induction fds) (auto simp: get_field_by_tag_def rev_image_eqI)

lemma rfold_labels:
  assumes "\<And>l tag ft. (l, tag, ft) \<in> set fs \<Longrightarrow> get_field_by_tag fds (reader_key (field_tag tag)) = Some (l, tag, ft)
      \<and> convert_field cs ft (x l ft) = Inr (y l)"
    and "distinct (map fst fs)" "\<And>l. l \<in> set (map fst fs) \<Longrightarrow> dget acc (KName l) = None"
  shows "rfold (\<lambda>(k, w) ret. (case get_field_by_tag fds k of
               None \<Rightarrow> Inr (dput k w ret)
             | Some (label, tag, ft) \<Rightarrow> rbind (convert_field cs ft w) (\<lambda>x. Inr (dput (KName label) x ret))))
      (map (\<lambda>(l, tag, ft). (reader_key (field_tag tag), x l ft)) fs) acc =
    Inr (acc @ map (\<lambda>(l, tag, ft). (KName l, y l)) fs)"
  using assms
proof (induction fs arbitrary: acc)
  case (Cons fd fs)
  obtain l tag ft where fd: "fd = (l, tag, ft)" by (cases fd)
  have f: "get_field_by_tag fds (reader_key (field_tag tag)) = Some (l, tag, ft)" "convert_field cs ft (x l ft) = Inr (y l)"
    using Cons.prems(1) [of l tag ft] by (simp_all add: fd)
  have d: "dput (KName l) (y l) acc = acc @ [(KName l, y l)]"
    using Cons.prems(3) [of l] by (intro dput_new) (simp add: fd)
  have "dget (acc @ [(KName l, y l)]) (KName k) = None" if "k \<in> set (map fst fs)" for k
    using Cons.prems(2,3) that d by (metis dget_dput ckey.inject(2) distinct.simps(2) fd fst_conv list.simps(9) list.set_intros(2))
  from Cons.IH [OF Cons.prems(1) _ this] Cons.prems(2) show ?case
    by (simp add: fd f d)
qed simp

lemma read_type: "elt_ok (element_type t) v \<or> element_type t = CList lt \<Longrightarrow>
    (case t of CUnion _ \<Rightarrow> underlying_type t | _ \<Rightarrow> Some t) = Some (element_type t)"
  by (cases t) (auto simp: element_type_def underlying_type_def elt_ok_scalar dest: scalar_ok_type split: option.splits)

lemma scalar_read: "scalar_ok t v \<Longrightarrow> convert_non_array cs t (of_reader (reread (scalar_tlv v))) = Inr (read_back v)"
  by (cases v) (auto simp: scalar_ok_def scalar_tlv_def convert_non_array.simps val_isinstance_def construct_def enum_of_def flag_of_def int_of_val_def)


lemma wire_not_none: "elt_ok t v \<Longrightarrow> of_reader (reread (wire t v)) \<noteq> VNone"
proof (cases "\<exists>fds. t = CStruct fds")
  case False
  assume "elt_ok t v"
  then have "scalar_ok t v" "wire t v = scalar_tlv v"
    using False by (auto simp: elt_ok_scalar wire.simps split: ctype.split)
  then show ?thesis by (cases v) (auto simp: scalar_ok_def scalar_tlv_def)
qed (auto simp: elt_ok_struct wire.simps)

lemma read_conforming:
  "elt_ok t v \<Longrightarrow> desc_ok t \<Longrightarrow> convert_non_array cs t (of_reader (reread (wire t v))) = Inr (read_back v)"
  "field_ok t v \<Longrightarrow> desc_ok t \<Longrightarrow> v \<noteq> VNone \<Longrightarrow>
     convert_field cs t (of_reader (reread (wire_field t v))) = Inr (read_back v)"
proof (induction t v and t v rule: elt_ok_field_ok.induct)
  case (1 t v)
  show ?case
  proof (cases "\<exists>fds. t = CStruct fds")
    case True
    then obtain fds d where t: "t = CStruct fds" and v: "v = VDict d"
      using "1.prems" by (auto simp: elt_ok_struct)
    have ok: "map fst d = map (KName \<circ> fst) fds" "distinct (map fst fds)" "distinct (map (fst \<circ> snd) fds)"
      using "1.prems" by (auto simp: t v elt_ok_struct)
    let ?fs = "filter (\<lambda>fd. data_get d (fst fd) \<noteq> VNone) fds"
    have each: "get_field_by_tag fds (reader_key (field_tag tag)) = Some (l, tag, ft) \<and>
        convert_field cs ft (of_reader (reread (wire_field ft (data_get d l)))) = Inr (read_back (data_get d l))"
      if "(l, tag, ft) \<in> set ?fs" for l tag ft
    proof -
      have f: "(l, tag, ft) \<in> set fds" "data_get d l \<noteq> VNone" using that by auto
      have "field_ok ft (data_get d l)" "desc_ok ft" using "1.prems" f(1) by (auto simp: t v elt_ok_struct)
      from 1(1) [OF t v f(1) refl refl this f(2)]
      have c: "convert_field cs ft (of_reader (reread (wire_field ft (data_get d l)))) = Inr (read_back (data_get d l))" .
      obtain n where "tag = Some n" using "1.prems" f(1) by (auto simp: t split: option.splits)
      with field_found [OF ok(3)] f(1) c show ?thesis by (simp add: field_tag_def reader_key_def)
    qed
    have m: "of_reader (reread (wire t v)) = VDict (map (\<lambda>(l, tag, ft). (reader_key (field_tag tag), of_reader (reread (wire_field ft (data_get d l))))) ?fs)"
      by (simp add: t v wire.simps case_prod_beta)
    have "rfold (\<lambda>(k, w) ret. (case get_field_by_tag fds k of
               None \<Rightarrow> Inr (dput k w ret)
             | Some (label, tag, ft) \<Rightarrow> rbind (convert_field cs ft w) (\<lambda>x. Inr (dput (KName label) x ret))))
        (map (\<lambda>(l, tag, ft). (reader_key (field_tag tag), of_reader (reread (wire_field ft (data_get d l))))) ?fs) [] =
      Inr ([] @ map (\<lambda>(l, tag, ft). (KName l, read_back (data_get d l))) ?fs)"
      by (rule rfold_labels [where x = "\<lambda>l ft. of_reader (reread (wire_field ft (data_get d l)))"])
        (use each ok(2) in \<open>auto intro: distinct_map_filter\<close>)
    then show ?thesis unfolding m by (simp add: t v convert_non_array.simps strip_struct [OF ok(1,2)] del: read_back.simps)
  next
    case False
    then have ok: "scalar_ok t v" using "1.prems" by (simp add: elt_ok_scalar)
    moreover have "wire t v = scalar_tlv v" using False by (simp add: wire.simps split: ctype.split)
    ultimately show ?thesis by (simp add: scalar_read)
  qed
next
  case (2 t v)
  show ?case
  proof (cases "v = VNull")
    case True
    then show ?thesis by (simp add: wire_field.simps convert_field.simps)
  next
    case False
    show ?thesis
    proof (cases "\<exists>vs. v = VList vs")
      case True
      then obtain lt vs where l: "element_type t = CList lt" "v = VList vs" "\<forall>w \<in> set vs. elt_ok lt w"
        using "2.prems" by (auto simp: field_ok_list)
      have "convert_non_array cs lt (of_reader (reread (wire lt w))) = Inr (read_back w)" if "w \<in> set vs" for w
        using "2.IH" "2.prems" that l False desc_ok_list [OF "2.prems"(2) l(1)] by auto
      then have "rmap (convert_non_array cs lt) (map (\<lambda>w. of_reader (reread (wire lt w))) vs) = Inr (map read_back vs)"
        by (induction vs) auto
      then show ?thesis using read_type [of t v lt] l
        by (simp add: wire_field.simps convert_field.simps iterate_def o_def)
    next
      case other: False
      have ok: "elt_ok (element_type t) v" using field_ok_elt [of t v] "2.prems" False other by blast
      have "convert_non_array cs (element_type t) (of_reader (reread (wire (element_type t) v))) = Inr (read_back v)"
        using 2 False other ok desc_ok_element [of t] by (cases v) auto
      moreover have "of_reader (reread (wire (element_type t) v)) \<noteq> VNone"
        using ok by (rule wire_not_none)
      moreover have "\<forall>lt. element_type t \<noteq> CList lt"
        using ok by (auto simp: elt_ok_scalar dest: scalar_ok_type)
      moreover have "wire_field t v = wire (element_type t) v"
        using False other by (cases v) (simp_all add: wire_field.simps)
      ultimately show ?thesis using read_type [of t v] ok
        by (cases "element_type t") (simp_all add: convert_field.simps)
    qed
  qed
qed


section \<open>Everything read is typed\<close>

text \<open>What a decoded value looks like.  A struct is a dict whose keys are tags that its descriptor does
  not have, the word \<open>Any\<close> of the reader's untagged elements, and labels, each with a value of a
  field of that label; an enum is one of its members; a null may stand in every field.\<close>

function decoded :: "ctype \<Rightarrow> cval \<Rightarrow> bool" and decoded_field :: "ctype \<Rightarrow> cval \<Rightarrow> bool" where
  "decoded t v \<longleftrightarrow> (case t of
       CStruct fds \<Rightarrow> (case v of
           VDict d \<Rightarrow> dict_ok d \<and> (\<forall>(k, x) \<in> set d. (case k of
               KTag n \<Rightarrow> get_field_by_tag fds (KTag n) = None
             | KName l \<Rightarrow> l = u ''Any'' \<or> (\<exists>(l', tag, ft) \<in> set fds. l' = l \<and> decoded_field ft x)))
         | _ \<Rightarrow> False)
     | CEnum ms k \<Rightarrow> (case v of VEnum i \<Rightarrow> i \<in> set ms \<or> k = Some i | _ \<Rightarrow> False)
     | _ \<Rightarrow> val_isinstance v t)"
| "decoded_field t v \<longleftrightarrow> v = VNull \<or>
     (case v of
        VList vs \<Rightarrow> (case element_type t of CList lt \<Rightarrow> (\<forall>w \<in> set vs. decoded lt w) | _ \<Rightarrow> False)
      | _ \<Rightarrow> decoded (element_type t) v)"
  by pat_completeness auto
termination
  by (relation "measure (\<lambda>x. case x of Inl (t, _) \<Rightarrow> 2 * size t | Inr (t, _) \<Rightarrow> 2 * size t + 1)")
    (auto dest: field_size list_element_size list_element_size [OF sym] simp: element_type_size le_imp_less_Suc)

declare decoded.simps [simp del] decoded_field.simps [simp del]

fun any_only :: "cval \<Rightarrow> bool" where
  "any_only (VDict d) \<longleftrightarrow> (\<forall>(k, v) \<in> set d. (\<forall>s. k = KName s \<longrightarrow> s = u ''Any'') \<and> any_only v)"
| "any_only (VList vs) \<longleftrightarrow> (\<forall>v \<in> set vs. any_only v)"
| "any_only v \<longleftrightarrow> True"

lemma reader_key_any: "reader_key k = KName s \<Longrightarrow> s = u ''Any''"
  by (cases k) (simp_all add: reader_key_def del: u_simps)

lemma any_only_reader: "any_only (of_reader v)"
  by (induction v rule: of_reader.induct) (auto dest: reader_key_any simp del: u_simps)

lemma iterate_any_only: "any_only v \<Longrightarrow> iterate v = Inr vs \<Longrightarrow> w \<in> set vs \<Longrightarrow> any_only w"
  by (cases v) (auto simp: iterate_def key_value_def split: ckey.split)

lemma rmap_source: "rmap f xs = Inr ys \<Longrightarrow> y \<in> set ys \<Longrightarrow> \<exists>x \<in> set xs. f x = Inr y"
  by (induction xs arbitrary: ys) (auto simp: rbind_eq_Inr)

lemma rfold_inv:
  "rfold f xs s = Inr s' \<Longrightarrow> I s \<Longrightarrow> (\<And>x s s'. x \<in> set xs \<Longrightarrow> I s \<Longrightarrow> f x s = Inr s' \<Longrightarrow> I s') \<Longrightarrow> I s'"
  by (induction xs arbitrary: s) (auto simp: rbind_eq_Inr)

definition struct_decoded :: "cfield list \<Rightarrow> (ckey \<times> cval) list \<Rightarrow> bool" where
  "struct_decoded fds d \<longleftrightarrow> dict_ok d \<and> (\<forall>(k, x) \<in> set d. (case k of
       KTag n \<Rightarrow> get_field_by_tag fds (KTag n) = None
     | KName l \<Rightarrow> l = u ''Any'' \<or> (\<exists>(l', tag, ft) \<in> set fds. l' = l \<and> decoded_field ft x)))"

lemma decoded_struct: "decoded (CStruct fds) (VDict d) \<longleftrightarrow> struct_decoded fds d"
  by (simp add: decoded.simps struct_decoded_def)

lemma struct_decoded_put:
  assumes "struct_decoded fds d"
    and "case k of KTag n \<Rightarrow> get_field_by_tag fds (KTag n) = None
      | KName l \<Rightarrow> l = u ''Any'' \<or> (\<exists>(l', tag, ft) \<in> set fds. l' = l \<and> decoded_field ft x)"
  shows "struct_decoded fds (dput k x d)"
  using assms unfolding struct_decoded_def by (auto simp del: u_simps dest!: dput_in)

lemma scalar_decoded:
  assumes "convert_non_array cs t v = Inr w" "\<nexists>fds. t = CStruct fds"
  shows "decoded t w \<and> (\<nexists>vs. w = VList vs)"
proof -
  have "(\<nexists>ms k. t = CEnum ms k) \<Longrightarrow> val_isinstance w t \<and> (\<nexists>lt. t = CList lt) \<and> (\<nexists>ts. t = CUnion ts)"
    using assms by (cases t) (auto simp: convert_non_array.simps rbind_eq_Inr split: if_splits)
  moreover have "(\<nexists>vs. w = VList vs)" if "val_isinstance w t"
    using that by (cases t) (auto simp: val_isinstance_def int_of_val_def)
  moreover have "\<exists>i. w = VEnum i \<and> (i \<in> set ms \<or> k = Some i)" if "t = CEnum ms k" for ms k
    using assms that by (auto simp: convert_non_array.simps construct_def enum_of_def enum_missing_def rbind_eq_Inr
      split: if_splits option.splits)
  ultimately show ?thesis using assms(2)
    by (cases t) (auto simp: decoded.simps)
qed

lemma convert_decoded:
  "convert_non_array cs t v = Inr w \<Longrightarrow> any_only v \<Longrightarrow> decoded t w \<and> (\<nexists>vs. w = VList vs)"
  "convert_field cs t v = Inr w \<Longrightarrow> any_only v \<Longrightarrow> decoded_field t w"
proof (induction cs t v and cs t v arbitrary: w and w rule: convert_non_array_convert_field.induct)
  case (1 cs t v)
  show ?case
  proof (cases "\<exists>fds. t = CStruct fds")
    case True
    then obtain fds d where t: "t = CStruct fds" and v: "v = VDict d"
      using "1.prems" by (auto simp: convert_non_array.simps split: cval.splits)
    let ?f = "\<lambda>(k, w) ret. (case get_field_by_tag fds k of
               None \<Rightarrow> Inr (dput k w ret)
             | Some (label, tag, ft) \<Rightarrow> rbind (convert_field cs ft w) (\<lambda>x. Inr (dput (KName label) x ret)))"
    obtain ret where r: "rfold ?f d [] = Inr ret" and w: "w = VDict ret"
      using "1.prems"(1) by (auto simp: t v convert_non_array.simps rbind_eq_Inr)
    have "struct_decoded fds ret"
    proof (rule rfold_inv [OF r])
      show "struct_decoded fds []" by (simp add: struct_decoded_def)
      fix p s s' assume p: "p \<in> set d" and s: "struct_decoded fds s" and f: "?f p s = Inr s'"
      obtain k x where kx: "p = (k, x)" by (cases p)
      have any: "k = KName n \<Longrightarrow> n = u ''Any''" "any_only x" for n
        using "1.prems"(2) p by (auto simp: v kx)
      show "struct_decoded fds s'"
      proof (cases "get_field_by_tag fds k")
        case None
        then have "s' = dput k x s" using f by (simp add: kx)
        then show ?thesis using s None any(1)
          by (auto intro!: struct_decoded_put simp del: u_simps split: ckey.split)
      next
        case (Some fd)
        obtain label tag ft where fd: "fd = (label, tag, ft)" by (cases fd)
        have m: "(label, tag, ft) \<in> set fds" using get_field_by_tagD [of fds k label tag ft] Some fd by simp
        obtain y where y: "convert_field cs ft x = Inr y" and s': "s' = dput (KName label) y s"
          using f by (auto simp: kx Some fd rbind_eq_Inr)
        from 1(1) [OF t v p kx [symmetric] Some fd [symmetric] refl y any(2)]
        have "decoded_field ft y" .
        then show ?thesis unfolding s' using m by (intro struct_decoded_put [OF s]) auto
      qed
    qed
    then show ?thesis by (simp add: t w decoded_struct)
  next
    case False
    then show ?thesis using scalar_decoded [OF "1.prems"(1)] by blast
  qed
next
  case (2 cs t v)
  show ?case
  proof (cases "v = VNone")
    case True
    then show ?thesis using "2.prems" by (simp add: convert_field.simps decoded_field.simps)
  next
    case False
    then obtain vt where vt: "(case t of CUnion _ \<Rightarrow> underlying_type t | _ \<Rightarrow> Some t) = Some vt"
      using "2.prems" by (auto simp: convert_field.simps split: option.splits)
    then have et: "element_type t = vt" by (cases t) (auto simp: element_type_def underlying_type_def)
    show ?thesis
    proof (cases "\<exists>lt. vt = CList lt")
      case True
      then obtain lt where lt: "vt = CList lt" by blast
      with False vt "2.prems"(1) obtain vs ws where vs: "iterate v = Inr vs"
        "rmap (convert_non_array cs lt) vs = Inr ws" "w = VList ws"
        by (auto simp: convert_field.simps rbind_eq_Inr)
      have "decoded lt y" if y: "y \<in> set ws" for y
      proof -
        obtain x where x: "x \<in> set vs" "convert_non_array cs lt x = Inr y"
          using rmap_source [OF vs(2) y] by blast
        then show ?thesis
          using "2.IH" False vt lt vs(1) iterate_any_only [OF "2.prems"(2) vs(1) x(1)] by auto
      qed
      then show ?thesis using et lt by (simp add: vs(3) decoded_field.simps)
    next
      case no: False
      then have "convert_non_array cs vt v = Inr w"
        using "2.prems"(1) False vt by (cases vt) (simp_all add: convert_field.simps)
      then have "decoded vt w \<and> (\<nexists>vs. w = VList vs)"
        using "2.IH" False vt "2.prems"(2) no by (cases vt) auto
      then show ?thesis using et by (cases w) (auto simp: decoded_field.simps)
    qed
  qed
qed

section \<open>The properties\<close>

lemma struct_data:
  assumes "desc_ok (CStruct fds)" "elt_ok (CStruct fds) (VDict d)"
  shows "\<exists>bs. dict_to_tlv cs fds d = Inr bs \<and>
    tlv_to_dict cs fds bs = Inr (map (\<lambda>(k, v). (k, read_back v)) (filter (\<lambda>(_, v). v \<noteq> VNone) d))"
proof -
  have w: "fits (wire (CStruct fds) (VDict d))" "readable (wire (CStruct fds) (VDict d))"
    using wire_writable(1) [OF assms(2,1)] by simp_all
  then obtain wr where wr: "put NoTag (wire (CStruct fds) (VDict d)) new_writer = Inr wr"
    using put_succeeds(1) [of NoTag "wire (CStruct fds) (VDict d)" new_writer] by (auto simp: succeeds_def tag_ok_def new_writer_def)
  have "dict_to_tlv cs fds d = Inr (encoding wr)"
    by (simp add: dict_to_tlv_def put_conforming(1) [OF assms(2)] wr)
  moreover have "read_any (encoding wr) = Inr (of_reader (reread (wire (CStruct fds) (VDict d))))"
    by (simp add: read_any_def put_get [OF wr w(2)] dget_def)
  moreover have "\<exists>d'. of_reader (reread (wire (CStruct fds) (VDict d))) = VDict d'"
    by (simp add: wire.simps)
  ultimately show ?thesis
    using read_conforming(1) [OF assms(2,1), of cs] by (auto simp: tlv_to_dict_def tag_dict_to_label_dict_def)
qed


text \<open>A present value that conforms to an attribute's type is always written by the attribute's ToTLV, and its FromTLV hands from_dict that value again (without the fields of structs in it that were None).\<close>

theorem attribute_roundtrip:
  assumes "desc_ok t" "field_ok t v" "v \<noteq> VNone"
  shows "\<exists>bs. attribute_to_tlv cs t NoTag v = Inr bs \<and>
    attribute_from_tlv cs t bs = Inr [(KName (u ''Value''), read_back v)]"
proof -
  have w: "fits (wire_field t v)" "readable (wire_field t v)"
    using wire_writable(2) [OF assms(2,1,3)] by simp_all
  then obtain wr where wr: "put NoTag (wire_field t v) new_writer = Inr wr"
    using put_succeeds(1) [of NoTag "wire_field t v" new_writer] by (auto simp: succeeds_def tag_ok_def new_writer_def)
  have "attribute_to_tlv cs t NoTag v = Inr (encoding wr)"
    using assms(3) by (simp add: attribute_to_tlv_def put_conforming(2) [OF assms(2)] wr)
  moreover have "attribute_from_tlv cs t (encoding wr) = Inr [(KName (u ''Value''), read_back v)]"
    using read_conforming(2) [OF assms(2,1,3), of cs]
    by (simp add: attribute_from_tlv_def read_any_def put_get [OF wr w(2)] dget_def attribute_from_value_def
        tag_dict_to_label_dict_def convert_non_array.simps value_fields_def get_field_by_tag_def dput_def del: u_simps)
  ultimately show ?thesis by blast
qed

lemma put_high_tag: "n > 255 \<Longrightarrow> v \<noteq> VNone \<Longrightarrow> put_field cs (Tag n) v t wr \<noteq> Inr wr'"
proof -
  assume n: "n > 255" "v \<noteq> VNone"
  have p: "put (Tag n) w wr \<noteq> Inr wr'" for w wr'
    using n put_succeeds(1) [of "Tag n" w wr] by (simp add: tag_ok_def succeeds_def)
  have c: "start_container (Tag n) k wr \<noteq> Inr wr'" for k wr'
    using n start_succeeds [of "Tag n" k wr] by (simp add: tag_ok_def succeeds_def)
  have s: "put_single cs (Tag n) w et wr \<noteq> Inr wr'" for w et
    by (cases et) (auto simp: put_single.simps rbind_eq_Inr p c split: cval.split sum.split)
  show ?thesis
    using n by (cases v) (auto simp: put_field.simps rbind_eq_Inr p c s simp del: put.simps)
qed

lemma high_tag_unwritable:
  assumes "(l, Some n, t) \<in> set fds" "n > 255" "\<not> union_has CNone t"
  shows "\<exists>e. dict_to_tlv cs fds d = Inl e"
proof -
  have "rfold (\<lambda>(label, tag, ft). put_field cs (field_tag tag) (data_get d label) ft) fds wr \<noteq> Inr wr'" for wr wr'
    using assms(1)
  proof (induction fds arbitrary: wr)
    case (Cons fd fds)
    have "put_field cs (field_tag (Some n)) (data_get d l) t wr \<noteq> Inr w" for w
      using put_high_tag [OF assms(2), of "data_get d l" cs t wr w] assms(3)
      by (cases "data_get d l = VNone") (simp_all add: field_tag_def put_field.simps)
    with Cons show ?case by (auto simp: rbind_eq_Inr)
  qed simp
  then have "\<forall>bs. dict_to_tlv cs fds d \<noteq> Inr bs"
    by (simp add: dict_to_tlv_def put_single.simps rbind_eq_Inr)
  then show ?thesis by (cases "dict_to_tlv cs fds d") simp_all
qed

text \<open>C13: Whatever bytes TLVToDict accepts, for whatever descriptor (also a Cluster's, with tags above a byte), the dict it builds is typed at every depth: it has no key twice, and a key is a tag that the descriptor does not have, the word Any under which the reader files untagged elements, or a label whose value is NullValue or a value of the type of a field of that label.\<close>

theorem tlv_dict_typed:
  assumes "tlv_to_dict cs fds bs = Inr r"
  shows "struct_decoded fds r"
proof -
  obtain v where v: "read_any bs = Inr v" "tag_dict_to_label_dict cs fds v = Inr r"
    using assms by (auto simp: tlv_to_dict_def rbind_eq_Inr)
  have any: "any_only v" using v(1) any_only_reader
    by (auto simp: read_any_def rbind_eq_Inr split: option.splits)
  obtain x where "convert_non_array cs (CStruct fds) v = Inr x" "(case x of VDict ret \<Rightarrow> Inr ret | _ \<Rightarrow> Inl ValueError) = Inr r"
    using v(2) by (cases v) (auto simp: tag_dict_to_label_dict_def rbind_eq_Inr)
  then have c: "convert_non_array cs (CStruct fds) v = Inr (VDict r)" by (cases x) simp_all
  from convert_decoded(1) [OF c any] show ?thesis by (simp add: decoded_struct)
qed

lemma enum_read:
  assumes "element_type t = CEnum ms k"
  shows "convert_field cs t (VUint n) = rbind (enum_of cs ms k (VUint n)) (\<lambda>i. Inr (VEnum i))"
proof -
  have "(case t of CUnion _ \<Rightarrow> underlying_type t | _ \<Rightarrow> Some t) = Some (CEnum ms k)"
    using assms by (auto simp: element_type_def underlying_type_def split: ctype.splits option.splits)
  then show ?thesis
    by (cases "enum_of cs ms k (VUint n)")
      (simp_all add: convert_field.simps convert_non_array.simps construct_def val_isinstance_def)
qed

lemma attribute_uint:
  assumes "element_type t = CEnum ms k \<or> t = CUint" "read_any bs = Inr (VUint n)"
  shows "attribute_from_tlv cs t bs = rbind (convert_field cs t (VUint n)) (\<lambda>v. Inr [(KName (u ''Value''), v)])"
  by (cases "convert_field cs t (VUint n)")
    (simp_all add: attribute_from_tlv_def assms attribute_from_value_def tag_dict_to_label_dict_def
      convert_non_array.simps value_fields_def get_field_by_tag_def dput_def del: u_simps)

lemma put_uint_read:
  "put NoTag (TUint n) new_writer = Inr wr \<Longrightarrow> read_any (encoding wr) = Inr (VUint n)"
  by (simp add: read_any_def put_get dget_def del: put.simps)

lemma attribute_write_uint:
  assumes "attribute_to_tlv cs CUint NoTag (VUint n) = Inr bs"
  shows "\<exists>wr. put NoTag (TUint n) new_writer = Inr wr \<and> bs = encoding wr"
  using assms
  by (auto simp: attribute_to_tlv_def put_field.simps put_single.simps construct_def py_int_of_def int_of_val_def
      uint_init_def underlying_type_def rbind_eq_Inr scalar_tlv_def split: if_splits simp del: put.simps)

lemma attribute_write_enum:
  assumes "element_type t = CEnum ms unk" "k \<in> set ms" "put NoTag (TUint k) new_writer = Inr wr"
  shows "attribute_to_tlv cs t NoTag (VEnum k) = Inr (encoding wr)"
proof -
  have "fits (TUint k)" using assms(3) put_succeeds(1) [of NoTag "TUint k" new_writer]
    by (auto simp: succeeds_def simp del: put.simps)
  then have "scalar_ok (CEnum ms unk) (VEnum k)" using assms(2) by (simp add: scalar_ok_def scalar_tlv_def)
  then have "field_ok t (VEnum k)" by (simp add: field_ok.simps assms(1) elt_ok_scalar)
  then show ?thesis
    by (simp add: attribute_to_tlv_def put_conforming(2) wire_field.simps assms wire.simps scalar_tlv_def del: put.simps)
qed

text \<open>C40: While the module's flag is set, an attribute whose type is an enum (optional and nullable ones included) reads a value the enum does not have as kUnknownEnumValue; without the flag the read raises ValueError. The value is lost: the attribute's ToTLV of what was read writes other bytes, those of kUnknownEnumValue itself.\<close>

theorem unknown_enum_read:
  assumes "attribute_to_tlv cs CUint NoTag (VUint n) = Inr bs" "n \<notin> set ms"
    and "element_type t = CEnum ms (Some k)" "k \<in> set ms" "0 \<le> k" "k < 2 ^ 64"
  shows "attribute_from_tlv cs t bs =
      (if map_missing cs then Inr [(KName (u ''Value''), VEnum k)] else Inl ValueError)
    \<and> (\<exists>bs'. attribute_to_tlv cs t NoTag (VEnum k) = Inr bs' \<and> bs' \<noteq> bs
        \<and> attribute_from_tlv cs CUint bs' = Inr [(KName (u ''Value''), VUint k)])"
proof -
  obtain wr where wr: "put NoTag (TUint n) new_writer = Inr wr" "bs = encoding wr"
    using attribute_write_uint [OF assms(1)] by blast
  have n: "read_any bs = Inr (VUint n)" unfolding wr(2) by (rule put_uint_read [OF wr(1)])
  obtain wr' where wr': "put NoTag (TUint k) new_writer = Inr wr'"
    using put_succeeds(1) [of NoTag "TUint k" new_writer] assms(5,6)
    by (auto simp: succeeds_def tag_ok_def new_writer_def simp del: put.simps)
  have k: "read_any (encoding wr') = Inr (VUint k)" using wr' by (rule put_uint_read)
  have "encoding wr' \<noteq> bs" using n k assms(2,4) by auto
  moreover have "attribute_from_tlv cs CUint (encoding wr') = Inr [(KName (u ''Value''), VUint k)]"
    by (simp add: attribute_uint [OF _ k] convert_field.simps convert_non_array.simps val_isinstance_def)
  moreover have "enum_of cs ms (Some k) (VUint n) = (if map_missing cs then Inr k else Inl ValueError)"
    using assms(2) by (simp add: enum_of_def enum_missing_def int_of_val_def)
  ultimately show ?thesis
    using attribute_write_enum [OF assms(3,4) wr'] by (simp add: attribute_uint [OF disjI1 [OF assms(3)] n] enum_read [OF assms(3)])
qed

end
