(* ===== verification/Cluster_Classes.thy ===== *)
theory Cluster_Classes
  imports Cluster_Facts
begin

text \<open>
  The classes that the generated cluster files declare on top of \<open>ClusterObjects.py\<close>: dataclasses
  with a descriptor and a default per field, the attribute, command and event classes with their
  numbers, and the global dictionaries that \<open>__init_subclass__\<close> fills as the classes are created.
\<close>

section \<open>Dataclasses\<close>

text \<open>A default: a value, \<open>default_factory=lambda: []\<close>, or a factory that makes an instance of
  another class.  A field is its label, tag, type and default; the generated descriptors and
  annotations list the same labels and types.\<close>

datatype cdefault = Value cval | EmptyList | Instance "(pystr \<times> int \<times> ctype \<times> cdefault) list"

type_synonym dfield = "pystr \<times> int \<times> ctype \<times> cdefault"

definition class_fields :: "dfield list \<Rightarrow> cfield list" where
  "class_fields = map (\<lambda>(label, tag, t, _). (label, Some tag, t))"

definition struct_type :: "dfield list \<Rightarrow> ctype" where
  "struct_type fds = CStruct (class_fields fds)"

definition unknown_name :: pystr where
  "unknown_name = u ''kUnknownEnumValue''"

text \<open>The type of a \<open>MatterIntEnum\<close> and of an \<open>IntFlag\<close>, given by their members.\<close>

definition enum_type :: "(pystr \<times> int) list \<Rightarrow> ctype" where
  "enum_type members = CEnum (map snd members) (map_of members unknown_name)"

definition flag_type :: "(pystr \<times> int) list \<Rightarrow> ctype" where
  "flag_type members = CFlag"

abbreviation optional :: "ctype \<Rightarrow> ctype" where
  "optional t \<equiv> CUnion [t, CNone]"

abbreviation nullable :: "ctype \<Rightarrow> ctype" where
  "nullable t \<equiv> CUnion [CNullable, t]"

abbreviation optional_nullable :: "ctype \<Rightarrow> ctype" where
  "optional_nullable t \<equiv> CUnion [CNone, CNullable, t]"

text \<open>\<open>asdict(cls())\<close>.\<close>

fun default_val :: "cdefault \<Rightarrow> cval" where
  "default_val (Value v) = v"
| "default_val EmptyList = VList []"
| "default_val (Instance fds) = VDict (map (\<lambda>(label, _, _, d). (KName label, default_val d)) fds)"

definition default_data :: "dfield list \<Rightarrow> (ckey \<times> cval) list" where
  "default_data fds = map (\<lambda>(label, _, _, d). (KName label, default_val d)) fds"

section \<open>Registered classes\<close>

datatype attribute_class =
  AttributeClass (att_name: pystr) (att_cluster_id: int) (att_id: int) (att_type: ctype) (att_default: cdefault)

datatype command_class =
  CommandClass (cmd_name: pystr) (cmd_cluster_id: int) (cmd_id: int) (cmd_is_client: bool)
    (cmd_response: "pystr option") (cmd_timed: bool) (cmd_fields: "dfield list")

datatype event_class =
  EventClass (ev_name: pystr) (ev_cluster_id: int) (ev_id: int) (ev_fields: "dfield list")

datatype cluster_def =
  ClusterDef (cd_name: pystr) (cd_id: int) (cd_fields: "dfield list") (cd_commands: "command_class list")
    (cd_attributes: "attribute_class list") (cd_events: "event_class list")

type_synonym 'c id_table = "(int, (int, 'c) dict) dict"

record registrations =
  ALL_CLUSTERS :: "(int, cluster_def) dict"
  ALL_ATTRIBUTES :: "attribute_class id_table"
  ALL_ACCEPTED_COMMANDS :: "command_class id_table"
  ALL_GENERATED_COMMANDS :: "command_class id_table"
  ALL_EVENTS :: "event_class id_table"

definition no_registrations :: registrations where
  "no_registrations = \<lparr>ALL_CLUSTERS = [], ALL_ATTRIBUTES = [], ALL_ACCEPTED_COMMANDS = [],
     ALL_GENERATED_COMMANDS = [], ALL_EVENTS = []\<rparr>"

text \<open>\<open>if cid not in table: table[cid] = {}\<close>, then \<open>table[cid][i] = cls\<close>.\<close>

definition table_put :: "int \<Rightarrow> int \<Rightarrow> 'c \<Rightarrow> 'c id_table \<Rightarrow> 'c id_table" where
  "table_put cid i c table =
     (let table = (case dget table cid of None \<Rightarrow> dput cid [] table | Some _ \<Rightarrow> table) in
      dput cid (dput i c (the (dget table cid))) table)"

definition table_get :: "'c id_table \<Rightarrow> int \<Rightarrow> int \<Rightarrow> 'c option" where
  "table_get table cid i = (case dget table cid of None \<Rightarrow> None | Some d \<Rightarrow> dget d i)"

definition register_command :: "command_class \<Rightarrow> registrations \<Rightarrow> registrations" where
  "register_command c r =
     (if cmd_is_client c
      then r\<lparr>ALL_ACCEPTED_COMMANDS := table_put (cmd_cluster_id c) (cmd_id c) c (ALL_ACCEPTED_COMMANDS r)\<rparr>
      else r\<lparr>ALL_GENERATED_COMMANDS := table_put (cmd_cluster_id c) (cmd_id c) c (ALL_GENERATED_COMMANDS r)\<rparr>)"

definition register_attribute :: "attribute_class \<Rightarrow> registrations \<Rightarrow> registrations" where
  "register_attribute a r =
     r\<lparr>ALL_ATTRIBUTES := table_put (att_cluster_id a) (att_id a) a (ALL_ATTRIBUTES r)\<rparr>"

definition register_event :: "event_class \<Rightarrow> registrations \<Rightarrow> registrations" where
  "register_event e r = r\<lparr>ALL_EVENTS := table_put (ev_cluster_id e) (ev_id e) e (ALL_EVENTS r)\<rparr>"

text \<open>The class statement of a cluster creates its nested classes first, in the order of the file.\<close>

definition register_cluster :: "cluster_def \<Rightarrow> registrations \<Rightarrow> registrations" where
  "register_cluster c r =
     (let r = fold register_command (cd_commands c) r;
          r = fold register_attribute (cd_attributes c) r;
          r = fold register_event (cd_events c) r
      in r\<lparr>ALL_CLUSTERS := dput (cd_id c) c (ALL_CLUSTERS r)\<rparr>)"


section \<open>Consistency of a generated file\<close>

text \<open>Fields that can be encoded, and that default to \<open>None\<close> exactly where they are optional; attribute
  classes with numbers of their own that repeat the cluster's fields one by one, with a required one
  above 255; commands and events of the cluster with numbers of their own, each request's response
  among its commands.\<close>

definition fields_ok :: "dfield list \<Rightarrow> bool" where
  "fields_ok fds \<longleftrightarrow> desc_ok (struct_type fds)
     \<and> list_all (\<lambda>(_, _, t, d). (d = Value VNone) = union_has CNone t) fds"

fun increasing :: "int list \<Rightarrow> bool" where
  "increasing (x # y # xs) \<longleftrightarrow> x < y \<and> increasing (y # xs)"
| "increasing _ \<longleftrightarrow> True"

lemma increasing_above: "increasing (x # xs) \<Longrightarrow> \<forall>y \<in> set xs. x < y"
proof (induction xs arbitrary: x)
  case (Cons y xs)
  from Cons.prems have "x < y" "increasing (y # xs)" by simp_all
  with Cons.IH [of y] show ?case by auto
qed simp

lemma increasing_tail: "increasing (x # xs) \<Longrightarrow> increasing xs"
  by (cases xs) auto

lemma increasing_distinct: "increasing xs \<Longrightarrow> distinct xs"
proof (induction xs)
  case (Cons x xs)
  then show ?case using increasing_above [of x xs] increasing_tail [of x xs] by auto
qed simp

definition attributes_ok :: "cluster_def \<Rightarrow> bool" where
  "attributes_ok c \<longleftrightarrow>
     distinct (map att_id (cd_attributes c))
     \<and> list_ex (\<lambda>(_, tag, t, _). 255 < tag \<and> \<not> union_has CNone t) (cd_fields c)
     \<and> 0 \<le> cd_id c \<and> list_all (\<lambda>a. att_cluster_id a = cd_id c \<and> 0 \<le> att_id a \<and> desc_ok (att_type a)) (cd_attributes c)
     \<and> map (\<lambda>(_, tag, t, d). (tag, t, d)) (cd_fields c) =
       map (\<lambda>a. (att_id a, att_type a, att_default a)) (cd_attributes c)"

definition commands_ok :: "cluster_def \<Rightarrow> bool" where
  "commands_ok c \<longleftrightarrow>
     distinct (map (\<lambda>cmd. (cmd_is_client cmd, cmd_id cmd)) (cd_commands c))
     \<and> list_all (\<lambda>cmd. cmd_cluster_id cmd = cd_id c \<and> fields_ok (cmd_fields cmd)
         \<and> (case cmd_response cmd of None \<Rightarrow> True | Some n \<Rightarrow> cmd_is_client cmd
              \<and> list_ex (\<lambda>r. cmd_name r = n \<and> \<not> cmd_is_client r) (cd_commands c)))
       (cd_commands c)"

definition events_ok :: "cluster_def \<Rightarrow> bool" where
  "events_ok c \<longleftrightarrow> distinct (map ev_id (cd_events c))
     \<and> list_all (\<lambda>e. ev_cluster_id e = cd_id c \<and> fields_ok (ev_fields e)) (cd_events c)"

definition cluster_ok :: "cluster_def \<Rightarrow> bool" where
  "cluster_ok c \<longleftrightarrow> attributes_ok c \<and> commands_ok c \<and> events_ok c"


text \<open>The equations that decide the consistency of literal classes.\<close>

lemma u_eq: "u s = u t \<longleftrightarrow> s = t"
  by (simp add: u_def inj_map_eq_map inj_def)

definition members_ok :: "dfield list \<Rightarrow> bool" where
  "members_ok fds \<longleftrightarrow> distinct (map fst fds) \<and> distinct (map (fst \<circ> snd) fds)
     \<and> list_all (\<lambda>(_, tag, t, _). 0 \<le> tag \<and> tag \<le> 255 \<and> desc_ok t) fds"

lemma members_ok_simps: "members_ok []" "members_ok ((l, tag, t, d) # fds) \<longleftrightarrow>
    l \<notin> set (map fst fds) \<and> tag \<notin> set (map (fst \<circ> snd) fds) \<and> 0 \<le> tag \<and> tag \<le> 255 \<and> desc_ok t \<and> members_ok fds"
  by (auto simp: members_ok_def)

lemma desc_ok_types:
  "desc_ok (enum_type ms)" "desc_ok (flag_type ms)" "desc_ok (struct_type fds) \<longleftrightarrow> members_ok fds"
proof -
  have "map (fst \<circ> snd) (class_fields fds) = map Some (map (fst \<circ> snd) fds)" "map fst (class_fields fds) = map fst fds"
    by (auto simp: class_fields_def)
  moreover have "distinct (map Some xs) = distinct xs" for xs :: "int list" by (simp add: distinct_map)
  ultimately have "desc_ok (struct_type fds) \<longleftrightarrow> distinct (map fst fds) \<and> distinct (map (fst \<circ> snd) fds)
      \<and> (\<forall>(l, tag, t) \<in> set (class_fields fds). (case tag of None \<Rightarrow> False | Some n \<Rightarrow> 0 \<le> n \<and> n \<le> 255) \<and> desc_ok t)"
    by (simp only: struct_type_def desc_ok.simps)
  then show "desc_ok (struct_type fds) \<longleftrightarrow> members_ok fds"
    by (auto simp: members_ok_def list_all_iff class_fields_def)
qed (simp_all add: enum_type_def flag_type_def)

lemma union_has_types:
  "\<not> union_has m CUint" "\<not> union_has m CInt" "\<not> union_has m CBool" "\<not> union_has m CStr" "\<not> union_has m CBytes"
  "\<not> union_has m CFloat" "\<not> union_has m CFloat32" "\<not> union_has m (CList t)" "\<not> union_has m (enum_type ms)"
  "\<not> union_has m (flag_type ms)" "\<not> union_has m (struct_type fds)"
  "union_has CNone (optional t)" "union_has CNone (optional_nullable t)"
  by (simp_all add: union_has_def enum_type_def flag_type_def struct_type_def)

lemma not_optional: "t \<noteq> CNone \<Longrightarrow> \<not> union_has CNone (nullable t)"
  by (auto simp: union_has_def)

lemma type_not_none: "enum_type ms \<noteq> CNone" "flag_type ms \<noteq> CNone" "struct_type fds \<noteq> CNone"
  by (simp_all add: enum_type_def flag_type_def struct_type_def)

lemmas class_simps = increasing_distinct u_eq members_ok_simps desc_ok_types union_has_types not_optional type_not_none fields_ok_def
  cluster_ok_def attributes_ok_def commands_ok_def events_ok_def

end
