(* ===== verification/Cluster_Tables.thy ===== *)
theory Cluster_Tables
  imports Cluster_Classes
begin

text \<open>
  The registration dictionaries as tables: a class is found under the pair of numbers it was
  registered with, for every list of clusters whose numbers are distinct.
\<close>

lemma table_get_put: "table_get (table_put c i x T) c' i' = (if c' = c \<and> i' = i then Some x else table_get T c' i')"
  by (simp add: table_get_def table_put_def Let_def dget_dput split: option.split)

locale class_table =
  fixes outer :: "'c \<Rightarrow> int" and inner :: "'c \<Rightarrow> int" and classes :: "'c list"
  assumes keys: "distinct (map (\<lambda>x. (outer x, inner x)) classes)"
begin

definition table :: "'c id_table" where
  "table = fold (\<lambda>x. table_put (outer x) (inner x) x) classes []"

lemma lookup: "table_get table c i = Some x \<longleftrightarrow> x \<in> set classes \<and> outer x = c \<and> inner x = i"
proof -
  have "table_get (fold (\<lambda>x. table_put (outer x) (inner x) x) xs T) c i = Some x \<longleftrightarrow>
      (x \<in> set xs \<and> outer x = c \<and> inner x = i) \<or>
      (table_get T c i = Some x \<and> (\<forall>y \<in> set xs. (outer y, inner y) \<noteq> (c, i)))"
    if "distinct (map (\<lambda>x. (outer x, inner x)) xs)" for xs T
    using that by (induction xs arbitrary: T) (auto simp: table_get_put rev_image_eqI)
  from this [OF keys, of "[]"] show ?thesis by (simp add: table_def table_get_def)
qed

end

lemma keys_of_clusters:
  assumes "distinct (map cd_id cs)"
    and "\<And>c x. c \<in> set cs \<Longrightarrow> x \<in> set (items c) \<Longrightarrow> outer x = cd_id c"
    and "\<And>c. c \<in> set cs \<Longrightarrow> distinct (map inner (items c))"
  shows "distinct (map (\<lambda>x. (outer x, inner x)) (concat (map items cs)))"
  using assms
proof (induction cs)
  case (Cons c cs)
  have "distinct (map (\<lambda>x. (outer x, inner x)) (items c))"
    using Cons.prems(3) [of c] by (auto simp: distinct_map inj_on_def)
  moreover have "distinct (map (\<lambda>x. (outer x, inner x)) (concat (map items cs)))"
    using Cons by simp
  moreover have "(outer x, inner x) \<noteq> (outer y, inner y)"
    if "x \<in> set (items c)" "d \<in> set cs" "y \<in> set (items d)" for x y d
  proof -
    have "outer x = cd_id c" "outer y = cd_id d" "cd_id c \<noteq> cd_id d"
      using Cons.prems(1,2) that by auto
    then show ?thesis by simp
  qed
  ultimately show ?case by (auto simp: distinct_map inj_on_def)
qed simp

section \<open>What the import leaves in each dictionary\<close>

abbreviation attributes_of :: "cluster_def list \<Rightarrow> attribute_class list" where
  "attributes_of cs \<equiv> concat (map cd_attributes cs)"

abbreviation accepted_of :: "cluster_def list \<Rightarrow> command_class list" where
  "accepted_of cs \<equiv> concat (map (\<lambda>c. filter cmd_is_client (cd_commands c)) cs)"

abbreviation generated_of :: "cluster_def list \<Rightarrow> command_class list" where
  "generated_of cs \<equiv> concat (map (\<lambda>c. filter (\<lambda>m. \<not> cmd_is_client m) (cd_commands c)) cs)"

abbreviation events_of :: "cluster_def list \<Rightarrow> event_class list" where
  "events_of cs \<equiv> concat (map cd_events cs)"

lemma commands_registered:
  "fold register_command ms r = r\<lparr>
     ALL_ACCEPTED_COMMANDS := fold (\<lambda>m. table_put (cmd_cluster_id m) (cmd_id m) m) (filter cmd_is_client ms) (ALL_ACCEPTED_COMMANDS r),
     ALL_GENERATED_COMMANDS := fold (\<lambda>m. table_put (cmd_cluster_id m) (cmd_id m) m) (filter (\<lambda>m. \<not> cmd_is_client m) ms) (ALL_GENERATED_COMMANDS r)\<rparr>"
  by (induction ms arbitrary: r) (simp_all add: register_command_def)

lemma attributes_registered:
  "fold register_attribute as r = r\<lparr>ALL_ATTRIBUTES := fold (\<lambda>a. table_put (att_cluster_id a) (att_id a) a) as (ALL_ATTRIBUTES r)\<rparr>"
  by (induction as arbitrary: r) (simp_all add: register_attribute_def)

lemma events_registered:
  "fold register_event es r = r\<lparr>ALL_EVENTS := fold (\<lambda>e. table_put (ev_cluster_id e) (ev_id e) e) es (ALL_EVENTS r)\<rparr>"
  by (induction es arbitrary: r) (simp_all add: register_event_def)

lemma clusters_registered:
  "fold register_cluster cs r = \<lparr>
     ALL_CLUSTERS = fold (\<lambda>c. dput (cd_id c) c) cs (ALL_CLUSTERS r),
     ALL_ATTRIBUTES = fold (\<lambda>a. table_put (att_cluster_id a) (att_id a) a) (attributes_of cs) (ALL_ATTRIBUTES r),
     ALL_ACCEPTED_COMMANDS = fold (\<lambda>m. table_put (cmd_cluster_id m) (cmd_id m) m) (accepted_of cs) (ALL_ACCEPTED_COMMANDS r),
     ALL_GENERATED_COMMANDS = fold (\<lambda>m. table_put (cmd_cluster_id m) (cmd_id m) m) (generated_of cs) (ALL_GENERATED_COMMANDS r),
     ALL_EVENTS = fold (\<lambda>e. table_put (ev_cluster_id e) (ev_id e) e) (events_of cs) (ALL_EVENTS r)\<rparr>"
  by (induction cs arbitrary: r)
    (simp_all add: register_cluster_def commands_registered attributes_registered events_registered Let_def)

lemma cluster_lookup:
  assumes "distinct (map cd_id cs)"
  shows "dget (fold (\<lambda>c. dput (cd_id c) c) cs []) i = Some c \<longleftrightarrow> c \<in> set cs \<and> cd_id c = i"
proof -
  have "dget (fold (\<lambda>c. dput (cd_id c) c) xs d) i = Some c \<longleftrightarrow>
      (c \<in> set xs \<and> cd_id c = i) \<or> (dget d i = Some c \<and> i \<notin> cd_id ` set xs)"
    if "distinct (map cd_id xs)" for xs d
    using that by (induction xs arbitrary: d) (auto simp: dget_dput rev_image_eqI)
  from this [OF assms, of "[]"] show ?thesis by simp
qed

lemma cluster_keys:
  assumes "distinct (map cd_id cs)" "list_all cluster_ok cs"
  shows "class_table att_cluster_id att_id (attributes_of cs)"
    "class_table cmd_cluster_id cmd_id (accepted_of cs)"
    "class_table cmd_cluster_id cmd_id (generated_of cs)"
    "class_table ev_cluster_id ev_id (events_of cs)"
proof -
  note ok = assms(2) [unfolded list_all_iff cluster_ok_def attributes_ok_def commands_ok_def events_ok_def, rule_format]
  have m: "distinct (map cmd_id (filter P (cd_commands c)))"
    if "c \<in> set cs" "\<And>m n. P m \<Longrightarrow> P n \<Longrightarrow> cmd_is_client m = cmd_is_client n" for c P
  proof -
    have "distinct (map (\<lambda>cmd. (cmd_is_client cmd, cmd_id cmd)) (filter P (cd_commands c)))"
      using ok [OF that(1)] by (intro distinct_map_filter) blast
    then show ?thesis using that(2) by (auto simp: distinct_map inj_on_def)
  qed
  show "class_table att_cluster_id att_id (attributes_of cs)" unfolding class_table_def
    by (rule keys_of_clusters [OF assms(1)]) (use ok in blast)+
  show "class_table cmd_cluster_id cmd_id (accepted_of cs)" unfolding class_table_def
    by (rule keys_of_clusters [OF assms(1)]) (use ok m [of _ cmd_is_client] in auto)
  show "class_table cmd_cluster_id cmd_id (generated_of cs)" unfolding class_table_def
    by (rule keys_of_clusters [OF assms(1)]) (use ok m [of _ "\<lambda>m. \<not> cmd_is_client m"] in auto)
  show "class_table ev_cluster_id ev_id (events_of cs)" unfolding class_table_def
    by (rule keys_of_clusters [OF assms(1)]) (use ok in blast)+
qed

end
