(* ===== verification/Clusters_Base.thy ===== *)
theory Clusters_Base
  imports Cluster_Classes
begin

text \<open>
  The cluster files that other cluster files refer to (\<open>chip/clusters/cluster_defs/\<close>): every enum, bitmap
  and struct a definition, the commands, attributes and events of a cluster lists of classes, and the
  cluster itself with its fields; then the consistency of each file.
\<close>

section \<open>Globals\<close>

definition Globals_AtomicRequestTypeEnum :: "(pystr \<times> int) list" where
  "Globals_AtomicRequestTypeEnum = [
     (u ''kBeginWrite'', 0),
     (u ''kCommitWrite'', 1),
     (u ''kRollbackWrite'', 2),
     (u ''kUnknownEnumValue'', 3)]"

definition Globals_CertificationTypeEnum :: "(pystr \<times> int) list" where
  "Globals_CertificationTypeEnum = [
     (u ''kDeviceAttestationPki'', 0),
     (u ''kOperationalPki'', 1),
     (u ''kVIDSignerPki'', 2),
     (u ''kUnknownEnumValue'', 3)]"

definition Globals_MeasurementTypeEnum :: "(pystr \<times> int) list" where
  "Globals_MeasurementTypeEnum = [
     (u ''kUnspecified'', 0),
     (u ''kVoltage'', 1),
     (u ''kActiveCurrent'', 2),
     (u ''kReactiveCurrent'', 3),
     (u ''kApparentCurrent'', 4),
     (u ''kActivePower'', 5),
     (u ''kReactivePower'', 6),
     (u ''kApparentPower'', 7),
     (u ''kRMSVoltage'', 8),
     (u ''kRMSCurrent'', 9),
     (u ''kRMSPower'', 10),
     (u ''kFrequency'', 11),
     (u ''kPowerFactor'', 12),
     (u ''kNeutralCurrent'', 13),
     (u ''kElectricalEnergy'', 14),
     (u ''kReactiveEnergy'', 15),
     (u ''kApparentEnergy'', 16),
     (u ''kSoilMoisture'', 17),
     (u ''kUnknownEnumValue'', 18)]"

definition Globals_PowerThresholdSourceEnum :: "(pystr \<times> int) list" where
  "Globals_PowerThresholdSourceEnum = [
     (u ''kContract'', 0),
     (u ''kRegulator'', 1),
     (u ''kEquipment'', 2),
     (u ''kUnknownEnumValue'', 3)]"

definition Globals_SoftwareVersionCertificationStatusEnum :: "(pystr \<times> int) list" where
  "Globals_SoftwareVersionCertificationStatusEnum = [
     (u ''kDevTest'', 0),
     (u ''kProvisional'', 1),
     (u ''kCertified'', 2),
     (u ''kRevoked'', 3),
     (u ''kUnknownEnumValue'', 4)]"

definition Globals_StreamUsageEnum :: "(pystr \<times> int) list" where
  "Globals_StreamUsageEnum = [
     (u ''kInternal'', 0),
     (u ''kRecording'', 1),
     (u ''kAnalysis'', 2),
     (u ''kLiveView'', 3),
     (u ''kUnknownEnumValue'', 4)]"

definition Globals_TariffPriceTypeEnum :: "(pystr \<times> int) list" where
  "Globals_TariffPriceTypeEnum = [
     (u ''kStandard'', 0),
     (u ''kCritical'', 1),
     (u ''kVirtual'', 2),
     (u ''kIncentive'', 3),
     (u ''kIncentiveSignal'', 4),
     (u ''kUnknownEnumValue'', 5)]"

definition Globals_TariffUnitEnum :: "(pystr \<times> int) list" where
  "Globals_TariffUnitEnum = [
     (u ''kKWh'', 0),
     (u ''kKVAh'', 1),
     (u ''kUnknownEnumValue'', 2)]"

definition Globals_ThreeLevelAutoEnum :: "(pystr \<times> int) list" where
  "Globals_ThreeLevelAutoEnum = [
     (u ''kAuto'', 0),
     (u ''kLow'', 1),
     (u ''kMedium'', 2),
     (u ''kHigh'', 3),
     (u ''kUnknownEnumValue'', 4)]"

definition Globals_enum16 :: "(pystr \<times> int) list" where
  "Globals_enum16 = [
     (u ''kUnknownEnumValue'', 0)]"

definition Globals_enum8 :: "(pystr \<times> int) list" where
  "Globals_enum8 = [
     (u ''kUnknownEnumValue'', 0)]"

definition Globals_namespace :: "(pystr \<times> int) list" where
  "Globals_namespace = [
     (u ''kCommonClosure'', 1),
     (u ''kCommonCompassDirection'', 2),
     (u ''kCommonCompassLocation'', 3),
     (u ''kCommonDirection'', 4),
     (u ''kCommonLevel'', 5),
     (u ''kCommonLocation'', 6),
     (u ''kCommonNumber'', 7),
     (u ''kCommonPosition'', 8),
     (u ''kElectricalMeasurement'', 10),
     (u ''kCommodityTariffChronology'', 11),
     (u ''kCommodityTariffCommodity'', 13),
     (u ''kLaundry'', 14),
     (u ''kPowerSource'', 15),
     (u ''kCommonAreaNamespace'', 16),
     (u ''kCommonLandmarkNamespace'', 17),
     (u ''kCommonRelativePosition'', 18),
     (u ''kCommodityTariffFlow'', 19),
     (u ''kRefrigerator'', 65),
     (u ''kRoomAirConditioner'', 66),
     (u ''kSwitches'', 67),
     (u ''kClosure'', 68),
     (u ''kClosurePanel'', 69),
     (u ''kClosureCovering'', 70),
     (u ''kClosureWindow'', 71),
     (u ''kClosureCabinet'', 72),
     (u ''kIdentifiedObject'', 73),
     (u ''kIdentifiedSound'', 74),
     (u ''kIdentifiedHumanActivity'', 75),
     (u ''kUnknownEnumValue'', 76)]"

definition Globals_priority :: "(pystr \<times> int) list" where
  "Globals_priority = [
     (u ''kDebug'', 0),
     (u ''kInfo'', 1),
     (u ''kCritical'', 2),
     (u ''kUnknownEnumValue'', 3)]"

definition Globals_status :: "(pystr \<times> int) list" where
  "Globals_status = [
     (u ''kSuccess'', 0),
     (u ''kFailure'', 1),
     (u ''kInvalidSubscription'', 125),
     (u ''kUnsupportedAccess'', 126),
     (u ''kUnsupportedEndpoint'', 127),
     (u ''kInvalidAction'', 128),
     (u ''kUnsupportedCommand'', 129),
     (u ''kInvalidCommand'', 133),
     (u ''kUnsupportedAttribute'', 134),
     (u ''kConstraintError'', 135),
     (u ''kUnsupportedWrite'', 136),
     (u ''kResourceExhausted'', 137),
     (u ''kNotFound'', 139),
     (u ''kUnreportableAttribute'', 140),
     (u ''kInvalidDataType'', 141),
     (u ''kUnsupportedRead'', 143),
     (u ''kDataVersionMismatch'', 146),
     (u ''kTimeout'', 148),
     (u ''kUnsupportedNode'', 155),
     (u ''kBusy'', 156),
     (u ''kAccessRestricted'', 157),
     (u ''kUnsupportedCluster'', 195),
     (u ''kNoUpstreamSubscription'', 197),
     (u ''kNeedsTimedInteraction'', 198),
     (u ''kUnsupportedEvent'', 199),
     (u ''kPathsExhausted'', 200),
     (u ''kTimedRequestMismatch'', 201),
     (u ''kFailsafeRequired'', 202),
     (u ''kInvalidInState'', 203),
     (u ''kNoCommandResponse'', 204),
     (u ''kTermsAndConditionsChanged'', 205),
     (u ''kMaintenanceRequired'', 206),
     (u ''kDynamicConstraintError'', 207),
     (u ''kAlreadyExists'', 208),
     (u ''kInvalidTransportType'', 209),
     (u ''kUnknownEnumValue'', 210)]"

definition Globals_WildcardPathFlagsBitmap :: "(pystr \<times> int) list" where
  "Globals_WildcardPathFlagsBitmap = [
     (u ''kWildcardSkipRootNode'', 1),
     (u ''kWildcardSkipGlobalAttributes'', 2),
     (u ''kWildcardSkipAttributeList'', 4),
     (u ''kDoNotUse'', 8),
     (u ''kWildcardSkipCommandLists'', 16),
     (u ''kWildcardSkipCustomElements'', 32),
     (u ''kWildcardSkipFixedAttributes'', 64),
     (u ''kWildcardSkipChangesOmittedAttributes'', 128),
     (u ''kWildcardSkipDiagnosticsClusters'', 256)]"

definition Globals_map16 :: "(pystr \<times> int) list" where
  "Globals_map16 = []"

definition Globals_map32 :: "(pystr \<times> int) list" where
  "Globals_map32 = []"

definition Globals_map64 :: "(pystr \<times> int) list" where
  "Globals_map64 = []"

definition Globals_map8 :: "(pystr \<times> int) list" where
  "Globals_map8 = []"

definition Globals_AtomicAttributeStatusStruct :: "dfield list" where
  "Globals_AtomicAttributeStatusStruct = [
     (u ''attributeID'', 0, CUint, Value (VInt 0)),
     (u ''statusCode'', 1, enum_type Globals_status, Value (VInt 0))]"

definition Globals_MeasurementAccuracyRangeStruct :: "dfield list" where
  "Globals_MeasurementAccuracyRangeStruct = [
     (u ''rangeMin'', 0, CInt, Value (VInt 0)),
     (u ''rangeMax'', 1, CInt, Value (VInt 0)),
     (u ''percentMax'', 2, optional CUint, Value VNone),
     (u ''percentMin'', 3, optional CUint, Value VNone),
     (u ''percentTypical'', 4, optional CUint, Value VNone),
     (u ''fixedMax'', 5, optional CUint, Value VNone),
     (u ''fixedMin'', 6, optional CUint, Value VNone),
     (u ''fixedTypical'', 7, optional CUint, Value VNone)]"

definition Globals_MeasurementAccuracyStruct :: "dfield list" where
  "Globals_MeasurementAccuracyStruct = [
     (u ''measurementType'', 0, enum_type Globals_MeasurementTypeEnum, Value (VInt 0)),
     (u ''measured'', 1, CBool, Value (VBool False)),
     (u ''minMeasuredValue'', 2, CInt, Value (VInt 0)),
     (u ''maxMeasuredValue'', 3, CInt, Value (VInt 0)),
     (u ''accuracyRanges'', 4, CList (struct_type Globals_MeasurementAccuracyRangeStruct), EmptyList)]"

definition Globals_PowerThresholdStruct :: "dfield list" where
  "Globals_PowerThresholdStruct = [
     (u ''powerThreshold'', 0, optional CInt, Value VNone),
     (u ''apparentPowerThreshold'', 1, optional CInt, Value VNone),
     (u ''powerThresholdSource'', 2, nullable (enum_type Globals_PowerThresholdSourceEnum), Value VNull)]"

definition Globals_ViewportStruct :: "dfield list" where
  "Globals_ViewportStruct = [
     (u ''x1'', 0, CUint, Value (VInt 0)),
     (u ''y1'', 1, CUint, Value (VInt 0)),
     (u ''x2'', 2, CUint, Value (VInt 0)),
     (u ''y2'', 3, CUint, Value (VInt 0))]"

definition Globals_currency :: "dfield list" where
  "Globals_currency = [
     (u ''currency'', 0, CUint, Value (VInt 0)),
     (u ''decimalPoints'', 1, CUint, Value (VInt 0))]"

definition Globals_locationdesc :: "dfield list" where
  "Globals_locationdesc = [
     (u ''locationName'', 0, CStr, Value (VStr [])),
     (u ''floorNumber'', 1, nullable CInt, Value VNull),
     (u ''areaType'', 2, nullable CUint, Value VNull)]"

definition Globals_price :: "dfield list" where
  "Globals_price = [
     (u ''amount'', 0, CInt, Value (VInt 0)),
     (u ''currency'', 1, struct_type Globals_currency, Instance Globals_currency)]"

definition Globals_semtag :: "dfield list" where
  "Globals_semtag = [
     (u ''mfgCode'', 0, nullable CUint, Value VNull),
     (u ''namespaceID'', 1, enum_type Globals_namespace, Value (VInt 0)),
     (u ''tag'', 2, CUint, Value (VInt 0)),
     (u ''label'', 3, optional_nullable CStr, Value VNone)]"

definition Globals_struct :: "dfield list" where
  "Globals_struct = []"

section \<open>WebRtcTransportDefinitions\<close>

definition WebRtcTransportDefinitions_WebRTCEndReasonEnum :: "(pystr \<times> int) list" where
  "WebRtcTransportDefinitions_WebRTCEndReasonEnum = [
     (u ''kIceFailed'', 0),
     (u ''kIceTimeout'', 1),
     (u ''kUserHangup'', 2),
     (u ''kUserBusy'', 3),
     (u ''kReplaced'', 4),
     (u ''kNoUserMedia'', 5),
     (u ''kInviteTimeout'', 6),
     (u ''kAnsweredElsewhere'', 7),
     (u ''kOutOfResources'', 8),
     (u ''kMediaTimeout'', 9),
     (u ''kLowPower'', 10),
     (u ''kPrivacyMode'', 11),
     (u ''kUnknownReason'', 12),
     (u ''kUnknownEnumValue'', 13)]"

definition WebRtcTransportDefinitions_ICEServerStruct :: "dfield list" where
  "WebRtcTransportDefinitions_ICEServerStruct = [
     (u ''urLs'', 0, CList CStr, EmptyList),
     (u ''username'', 1, optional CStr, Value VNone),
     (u ''credential'', 2, optional CStr, Value VNone),
     (u ''caid'', 3, optional CUint, Value VNone)]"

definition WebRtcTransportDefinitions_ICECandidateStruct :: "dfield list" where
  "WebRtcTransportDefinitions_ICECandidateStruct = [
     (u ''candidate'', 0, CStr, Value (VStr [])),
     (u ''sdpMid'', 1, nullable CStr, Value VNull),
     (u ''sdpmLineIndex'', 2, nullable CUint, Value VNull)]"

definition WebRtcTransportDefinitions_WebRTCSessionStruct :: "dfield list" where
  "WebRtcTransportDefinitions_WebRTCSessionStruct = [
     (u ''id'', 0, CUint, Value (VInt 0)),
     (u ''peerNodeID'', 1, CUint, Value (VInt 0)),
     (u ''peerEndpointID'', 2, CUint, Value (VInt 0)),
     (u ''streamUsage'', 3, enum_type Globals_StreamUsageEnum, Value (VInt 0)),
     (u ''videoStreamID'', 4, optional_nullable CUint, Value VNone),
     (u ''audioStreamID'', 5, optional_nullable CUint, Value VNone),
     (u ''metadataEnabled'', 6, CBool, Value (VBool False)),
     (u ''videoStreams'', 7, optional (CList CUint), Value VNone),
     (u ''audioStreams'', 8, optional (CList CUint), Value VNone),
     (u ''fabricIndex'', 254, CUint, Value (VInt 0))]"

section \<open>MediaPlayback\<close>

definition MediaPlayback_PlaybackStateEnum :: "(pystr \<times> int) list" where
  "MediaPlayback_PlaybackStateEnum = [
     (u ''kPlaying'', 0),
     (u ''kPaused'', 1),
     (u ''kNotPlaying'', 2),
     (u ''kBuffering'', 3),
     (u ''kUnknownEnumValue'', 4)]"

definition MediaPlayback_StatusEnum :: "(pystr \<times> int) list" where
  "MediaPlayback_StatusEnum = [
     (u ''kSuccess'', 0),
     (u ''kInvalidStateForCommand'', 1),
     (u ''kNotAllowed'', 2),
     (u ''kNotActive'', 3),
     (u ''kSpeedOutOfRange'', 4),
     (u ''kSeekOutOfRange'', 5),
     (u ''kUnknownEnumValue'', 6)]"

definition MediaPlayback_CharacteristicEnum :: "(pystr \<times> int) list" where
  "MediaPlayback_CharacteristicEnum = [
     (u ''kForcedSubtitles'', 0),
     (u ''kDescribesVideo'', 1),
     (u ''kEasyToRead'', 2),
     (u ''kFrameBased'', 3),
     (u ''kMainProgram'', 4),
     (u ''kOriginalContent'', 5),
     (u ''kVoiceOverTranslation'', 6),
     (u ''kCaption'', 7),
     (u ''kSubtitle'', 8),
     (u ''kAlternate'', 9),
     (u ''kSupplementary'', 10),
     (u ''kCommentary'', 11),
     (u ''kDubbedTranslation'', 12),
     (u ''kDescription'', 13),
     (u ''kMetadata'', 14),
     (u ''kEnhancedAudioIntelligibility'', 15),
     (u ''kEmergency'', 16),
     (u ''kKaraoke'', 17),
     (u ''kUnknownEnumValue'', 18)]"

definition MediaPlayback_Feature :: "(pystr \<times> int) list" where
  "MediaPlayback_Feature = [
     (u ''kAdvancedSeek'', 1),
     (u ''kVariableSpeed'', 2),
     (u ''kTextTracks'', 4),
     (u ''kAudioTracks'', 8),
     (u ''kAudioAdvance'', 16)]"

definition MediaPlayback_PlaybackPositionStruct :: "dfield list" where
  "MediaPlayback_PlaybackPositionStruct = [
     (u ''updatedAt'', 0, CUint, Value (VInt 0)),
     (u ''position'', 1, nullable CUint, Value VNull)]"

definition MediaPlayback_TrackAttributesStruct :: "dfield list" where
  "MediaPlayback_TrackAttributesStruct = [
     (u ''languageCode'', 0, CStr, Value (VStr [])),
     (u ''characteristics'', 1, optional_nullable (CList (enum_type MediaPlayback_CharacteristicEnum)), Value VNone),
     (u ''displayName'', 2, optional_nullable CStr, Value VNone)]"

definition MediaPlayback_TrackStruct :: "dfield list" where
  "MediaPlayback_TrackStruct = [
     (u ''id'', 0, CStr, Value (VStr [])),
     (u ''trackAttributes'', 1, struct_type MediaPlayback_TrackAttributesStruct, Instance MediaPlayback_TrackAttributesStruct)]"

definition MediaPlayback_commands_1 :: "command_class list" where
  "MediaPlayback_commands_1 = [
     CommandClass (u ''Play'') 1286 0 True (Some (u ''PlaybackResponse'')) False [],
     CommandClass (u ''Pause'') 1286 1 True (Some (u ''PlaybackResponse'')) False [],
     CommandClass (u ''Stop'') 1286 2 True (Some (u ''PlaybackResponse'')) False [],
     CommandClass (u ''StartOver'') 1286 3 True (Some (u ''PlaybackResponse'')) False [],
     CommandClass (u ''Previous'') 1286 4 True (Some (u ''PlaybackResponse'')) False [],
     CommandClass (u ''Next'') 1286 5 True (Some (u ''PlaybackResponse'')) False [],
     CommandClass (u ''Rewind'') 1286 6 True (Some (u ''PlaybackResponse'')) False [(u ''audioAdvanceUnmuted'', 0, optional CBool, Value VNone)],
     CommandClass (u ''FastForward'') 1286 7 True (Some (u ''PlaybackResponse'')) False [(u ''audioAdvanceUnmuted'', 0, optional CBool, Value VNone)],
     CommandClass (u ''SkipForward'') 1286 8 True (Some (u ''PlaybackResponse'')) False [(u ''deltaPositionMilliseconds'', 0, CUint, Value (VInt 0))],
     CommandClass (u ''SkipBackward'') 1286 9 True (Some (u ''PlaybackResponse'')) False [(u ''deltaPositionMilliseconds'', 0, CUint, Value (VInt 0))]]"

definition MediaPlayback_commands_2 :: "command_class list" where
  "MediaPlayback_commands_2 = [
     CommandClass (u ''Seek'') 1286 11 True (Some (u ''PlaybackResponse'')) False [(u ''position'', 0, CUint, Value (VInt 0))],
     CommandClass (u ''ActivateAudioTrack'') 1286 12 True None False [(u ''trackID'', 0, CStr, Value (VStr [])),
       (u ''audioOutputIndex'', 1, optional_nullable CUint, Value VNone)],
     CommandClass (u ''ActivateTextTrack'') 1286 13 True None False [(u ''trackID'', 0, CStr, Value (VStr []))],
     CommandClass (u ''DeactivateTextTrack'') 1286 14 True None False [],
     CommandClass (u ''PlaybackResponse'') 1286 10 False None False [(u ''status'', 0, enum_type MediaPlayback_StatusEnum, Value (VInt 0)),
       (u ''data'', 1, optional CStr, Value VNone)]]"

definition MediaPlayback_attributes_1 :: "attribute_class list" where
  "MediaPlayback_attributes_1 = [
     AttributeClass (u ''CurrentState'') 1286 0 (enum_type MediaPlayback_PlaybackStateEnum) (Value (VInt 0)),
     AttributeClass (u ''StartTime'') 1286 1 (optional_nullable CUint) (Value VNone),
     AttributeClass (u ''Duration'') 1286 2 (optional_nullable CUint) (Value VNone),
     AttributeClass (u ''SampledPosition'') 1286 3 (optional_nullable (struct_type MediaPlayback_PlaybackPositionStruct)) (Value VNone),
     AttributeClass (u ''PlaybackSpeed'') 1286 4 (optional CFloat32) (Value VNone),
     AttributeClass (u ''SeekRangeEnd'') 1286 5 (optional_nullable CUint) (Value VNone),
     AttributeClass (u ''SeekRangeStart'') 1286 6 (optional_nullable CUint) (Value VNone),
     AttributeClass (u ''ActiveAudioTrack'') 1286 7 (optional_nullable (struct_type MediaPlayback_TrackStruct)) (Value VNone),
     AttributeClass (u ''AvailableAudioTracks'') 1286 8 (optional_nullable (CList (struct_type MediaPlayback_TrackStruct))) (Value VNone)]"

definition MediaPlayback_attributes_2 :: "attribute_class list" where
  "MediaPlayback_attributes_2 = [
     AttributeClass (u ''ActiveTextTrack'') 1286 9 (optional_nullable (struct_type MediaPlayback_TrackStruct)) (Value VNone),
     AttributeClass (u ''AvailableTextTracks'') 1286 10 (optional_nullable (CList (struct_type MediaPlayback_TrackStruct))) (Value VNone),
     AttributeClass (u ''GeneratedCommandList'') 1286 65528 (CList CUint) (EmptyList),
     AttributeClass (u ''AcceptedCommandList'') 1286 65529 (CList CUint) (EmptyList),
     AttributeClass (u ''AttributeList'') 1286 65531 (CList CUint) (EmptyList),
     AttributeClass (u ''FeatureMap'') 1286 65532 CUint (Value (VInt 0)),
     AttributeClass (u ''ClusterRevision'') 1286 65533 CUint (Value (VInt 0))]"

definition MediaPlayback_events :: "event_class list" where
  "MediaPlayback_events = [
     EventClass (u ''StateChanged'') 1286 0 [(u ''currentState'', 0, enum_type MediaPlayback_PlaybackStateEnum, Value (VInt 0)),
       (u ''startTime'', 1, optional CUint, Value VNone),
       (u ''duration'', 2, optional CUint, Value VNone),
       (u ''sampledPosition'', 3, optional (struct_type MediaPlayback_PlaybackPositionStruct), Value VNone),
       (u ''playbackSpeed'', 4, optional CFloat32, Value VNone),
       (u ''seekRangeEnd'', 5, optional CUint, Value VNone),
       (u ''seekRangeStart'', 6, optional CUint, Value VNone),
       (u ''data'', 7, optional CBytes, Value VNone),
       (u ''audioAdvanceUnmuted'', 8, optional CBool, Value VNone)]]"

definition MediaPlayback_cluster :: "cluster_def" where
  "MediaPlayback_cluster = ClusterDef (u ''MediaPlayback'') 1286 [
     (u ''currentState'', 0, enum_type MediaPlayback_PlaybackStateEnum, Value (VInt 0)),
     (u ''startTime'', 1, optional_nullable CUint, Value VNone),
     (u ''duration'', 2, optional_nullable CUint, Value VNone),
     (u ''sampledPosition'', 3, optional_nullable (struct_type MediaPlayback_PlaybackPositionStruct), Value VNone),
     (u ''playbackSpeed'', 4, optional CFloat32, Value VNone),
     (u ''seekRangeEnd'', 5, optional_nullable CUint, Value VNone),
     (u ''seekRangeStart'', 6, optional_nullable CUint, Value VNone),
     (u ''activeAudioTrack'', 7, optional_nullable (struct_type MediaPlayback_TrackStruct), Value VNone),
     (u ''availableAudioTracks'', 8, optional_nullable (CList (struct_type MediaPlayback_TrackStruct)), Value VNone),
     (u ''activeTextTrack'', 9, optional_nullable (struct_type MediaPlayback_TrackStruct), Value VNone),
     (u ''availableTextTracks'', 10, optional_nullable (CList (struct_type MediaPlayback_TrackStruct)), Value VNone),
     (u ''generatedCommandList'', 65528, CList CUint, EmptyList),
     (u ''acceptedCommandList'', 65529, CList CUint, EmptyList),
     (u ''attributeList'', 65531, CList CUint, EmptyList),
     (u ''featureMap'', 65532, CUint, Value (VInt 0)),
     (u ''clusterRevision'', 65533, CUint, Value (VInt 0))]
     (MediaPlayback_commands_1 @ MediaPlayback_commands_2)
     (MediaPlayback_attributes_1 @ MediaPlayback_attributes_2)
     MediaPlayback_events"

section \<open>ContentLauncher\<close>

definition ContentLauncher_StatusEnum :: "(pystr \<times> int) list" where
  "ContentLauncher_StatusEnum = [
     (u ''kSuccess'', 0),
     (u ''kURLNotAvailable'', 1),
     (u ''kAuthFailed'', 2),
     (u ''kTextTrackNotAvailable'', 3),
     (u ''kAudioTrackNotAvailable'', 4),
     (u ''kUnknownEnumValue'', 5)]"

definition ContentLauncher_ParameterEnum :: "(pystr \<times> int) list" where
  "ContentLauncher_ParameterEnum = [
     (u ''kActor'', 0),
     (u ''kChannel'', 1),
     (u ''kCharacter'', 2),
     (u ''kDirector'', 3),
     (u ''kEvent'', 4),
     (u ''kFranchise'', 5),
     (u ''kGenre'', 6),
     (u ''kLeague'', 7),
     (u ''kPopularity'', 8),
     (u ''kProvider'', 9),
     (u ''kSport'', 10),
     (u ''kSportsTeam'', 11),
     (u ''kType'', 12),
     (u ''kVideo'', 13),
     (u ''kSeason'', 14),
     (u ''kEpisode'', 15),
     (u ''kAny'', 16),
     (u ''kUnknownEnumValue'', 17)]"

definition ContentLauncher_MetricTypeEnum :: "(pystr \<times> int) list" where
  "ContentLauncher_MetricTypeEnum = [
     (u ''kPixels'', 0),
     (u ''kPercentage'', 1),
     (u ''kUnknownEnumValue'', 2)]"

definition ContentLauncher_Feature :: "(pystr \<times> int) list" where
  "ContentLauncher_Feature = [
     (u ''kContentSearch'', 1),
     (u ''kURLPlayback'', 2),
     (u ''kAdvancedSeek'', 4),
     (u ''kTextTracks'', 8),
     (u ''kAudioTracks'', 16)]"

definition ContentLauncher_SupportedProtocolsBitmap :: "(pystr \<times> int) list" where
  "ContentLauncher_SupportedProtocolsBitmap = [
     (u ''kDash'', 1),
     (u ''kHls'', 2)]"

definition ContentLauncher_AdditionalInfoStruct :: "dfield list" where
  "ContentLauncher_AdditionalInfoStruct = [
     (u ''name'', 0, CStr, Value (VStr [])),
     (u ''value'', 1, CStr, Value (VStr []))]"

definition ContentLauncher_ParameterStruct :: "dfield list" where
  "ContentLauncher_ParameterStruct = [
     (u ''type'', 0, enum_type ContentLauncher_ParameterEnum, Value (VInt 0)),
     (u ''value'', 1, CStr, Value (VStr [])),
     (u ''externalIDList'', 2, optional (CList (struct_type ContentLauncher_AdditionalInfoStruct)), Value VNone)]"

definition ContentLauncher_ContentSearchStruct :: "dfield list" where
  "ContentLauncher_ContentSearchStruct = [
     (u ''parameterList'', 0, CList (struct_type ContentLauncher_ParameterStruct), EmptyList)]"

definition ContentLauncher_DimensionStruct :: "dfield list" where
  "ContentLauncher_DimensionStruct = [
     (u ''width'', 0, CFloat, Value (VFloat 0)),
     (u ''height'', 1, CFloat, Value (VFloat 0)),
     (u ''metric'', 2, enum_type ContentLauncher_MetricTypeEnum, Value (VInt 0))]"

definition ContentLauncher_StyleInformationStruct :: "dfield list" where
  "ContentLauncher_StyleInformationStruct = [
     (u ''imageURL'', 0, optional CStr, Value VNone),
     (u ''color'', 1, optional CStr, Value VNone),
     (u ''size'', 2, optional (struct_type ContentLauncher_DimensionStruct), Value VNone)]"

definition ContentLauncher_BrandingInformationStruct :: "dfield list" where
  "ContentLauncher_BrandingInformationStruct = [
     (u ''providerName'', 0, CStr, Value (VStr [])),
     (u ''background'', 1, optional (struct_type ContentLauncher_StyleInformationStruct), Value VNone),
     (u ''logo'', 2, optional (struct_type ContentLauncher_StyleInformationStruct), Value VNone),
     (u ''progressBar'', 3, optional (struct_type ContentLauncher_StyleInformationStruct), Value VNone),
     (u ''splash'', 4, optional (struct_type ContentLauncher_StyleInformationStruct), Value VNone),
     (u ''waterMark'', 5, optional (struct_type ContentLauncher_StyleInformationStruct), Value VNone)]"

definition ContentLauncher_TrackPreferenceStruct :: "dfield list" where
  "ContentLauncher_TrackPreferenceStruct = [
     (u ''languageCode'', 0, CStr, Value (VStr [])),
     (u ''characteristics'', 1, optional_nullable (CList (enum_type MediaPlayback_CharacteristicEnum)), Value VNone),
     (u ''audioOutputIndex'', 2, optional_nullable CUint, Value VNone)]"

definition ContentLauncher_PlaybackPreferencesStruct :: "dfield list" where
  "ContentLauncher_PlaybackPreferencesStruct = [
     (u ''playbackPosition'', 0, optional_nullable CUint, Value VNone),
     (u ''textTrack'', 1, optional_nullable (struct_type ContentLauncher_TrackPreferenceStruct), Value VNone),
     (u ''audioTracks'', 2, optional_nullable (CList (struct_type ContentLauncher_TrackPreferenceStruct)), Value VNone)]"

definition ContentLauncher_commands :: "command_class list" where
  "ContentLauncher_commands = [
     CommandClass (u ''LaunchContent'') 1290 0 True (Some (u ''LauncherResponse'')) False [(u ''search'', 0, struct_type ContentLauncher_ContentSearchStruct, Instance ContentLauncher_ContentSearchStruct),
       (u ''autoPlay'', 1, CBool, Value (VBool False)),
       (u ''data'', 2, optional CStr, Value VNone),
       (u ''playbackPreferences'', 3, optional (struct_type ContentLauncher_PlaybackPreferencesStruct), Value VNone),
       (u ''useCurrentContext'', 4, optional CBool, Value VNone)],
     CommandClass (u ''LaunchURL'') 1290 1 True (Some (u ''LauncherResponse'')) False [(u ''contentURL'', 0, CStr, Value (VStr [])),
       (u ''displayString'', 1, optional CStr, Value VNone),
       (u ''brandingInformation'', 2, optional (struct_type ContentLauncher_BrandingInformationStruct), Value VNone),
       (u ''playbackPreferences'', 3, optional (struct_type ContentLauncher_PlaybackPreferencesStruct), Value VNone)],
     CommandClass (u ''LauncherResponse'') 1290 2 False None False [(u ''status'', 0, enum_type ContentLauncher_StatusEnum, Value (VInt 0)),
       (u ''data'', 1, optional CStr, Value VNone)]]"

definition ContentLauncher_attributes :: "attribute_class list" where
  "ContentLauncher_attributes = [
     AttributeClass (u ''AcceptHeader'') 1290 0 (optional (CList CStr)) (Value VNone),
     AttributeClass (u ''SupportedStreamingProtocols'') 1290 1 (optional (flag_type ContentLauncher_SupportedProtocolsBitmap)) (Value VNone),
     AttributeClass (u ''GeneratedCommandList'') 1290 65528 (CList CUint) (EmptyList),
     AttributeClass (u ''AcceptedCommandList'') 1290 65529 (CList CUint) (EmptyList),
     AttributeClass (u ''AttributeList'') 1290 65531 (CList CUint) (EmptyList),
     AttributeClass (u ''FeatureMap'') 1290 65532 CUint (Value (VInt 0)),
     AttributeClass (u ''ClusterRevision'') 1290 65533 CUint (Value (VInt 0))]"

definition ContentLauncher_cluster :: "cluster_def" where
  "ContentLauncher_cluster = ClusterDef (u ''ContentLauncher'') 1290 [
     (u ''acceptHeader'', 0, optional (CList CStr), Value VNone),
     (u ''supportedStreamingProtocols'', 1, optional (flag_type ContentLauncher_SupportedProtocolsBitmap), Value VNone),
     (u ''generatedCommandList'', 65528, CList CUint, EmptyList),
     (u ''acceptedCommandList'', 65529, CList CUint, EmptyList),
     (u ''attributeList'', 65531, CList CUint, EmptyList),
     (u ''featureMap'', 65532, CUint, Value (VInt 0)),
     (u ''clusterRevision'', 65533, CUint, Value (VInt 0))]
     ContentLauncher_commands
     ContentLauncher_attributes
     []"

section \<open>ModeSelect\<close>

definition ModeSelect_Feature :: "(pystr \<times> int) list" where
  "ModeSelect_Feature = [
     (u ''kOnOff'', 1)]"

definition ModeSelect_SemanticTagStruct :: "dfield list" where
  "ModeSelect_SemanticTagStruct = [
     (u ''mfgCode'', 0, CUint, Value (VInt 0)),
     (u ''value'', 1, CUint, Value (VInt 0))]"

definition ModeSelect_ModeOptionStruct :: "dfield list" where
  "ModeSelect_ModeOptionStruct = [
     (u ''label'', 0, CStr, Value (VStr [])),
     (u ''mode'', 1, CUint, Value (VInt 0)),
     (u ''semanticTags'', 2, CList (struct_type ModeSelect_SemanticTagStruct), EmptyList)]"

definition ModeSelect_commands :: "command_class list" where
  "ModeSelect_commands = [
     CommandClass (u ''ChangeToMode'') 80 0 True None False [(u ''newMode'', 0, CUint, Value (VInt 0))]]"

definition ModeSelect_attributes_1 :: "attribute_class list" where
  "ModeSelect_attributes_1 = [
     AttributeClass (u ''Description'') 80 0 CStr (Value (VStr [])),
     AttributeClass (u ''StandardNamespace'') 80 1 (nullable (enum_type Globals_namespace)) (Value VNull),
     AttributeClass (u ''SupportedModes'') 80 2 (CList (struct_type ModeSelect_ModeOptionStruct)) (EmptyList),
     AttributeClass (u ''CurrentMode'') 80 3 CUint (Value (VInt 0)),
     AttributeClass (u ''StartUpMode'') 80 4 (optional_nullable CUint) (Value VNone),
     AttributeClass (u ''OnMode'') 80 5 (optional_nullable CUint) (Value VNone),
     AttributeClass (u ''GeneratedCommandList'') 80 65528 (CList CUint) (EmptyList),
     AttributeClass (u ''AcceptedCommandList'') 80 65529 (CList CUint) (EmptyList),
     AttributeClass (u ''AttributeList'') 80 65531 (CList CUint) (EmptyList)]"

definition ModeSelect_attributes_2 :: "attribute_class list" where
  "ModeSelect_attributes_2 = [
     AttributeClass (u ''FeatureMap'') 80 65532 CUint (Value (VInt 0)),
     AttributeClass (u ''ClusterRevision'') 80 65533 CUint (Value (VInt 0))]"

definition ModeSelect_cluster :: "cluster_def" where
  "ModeSelect_cluster = ClusterDef (u ''ModeSelect'') 80 [
     (u ''description'', 0, CStr, Value (VStr [])),
     (u ''standardNamespace'', 1, nullable (enum_type Globals_namespace), Value VNull),
     (u ''supportedModes'', 2, CList (struct_type ModeSelect_ModeOptionStruct), EmptyList),
     (u ''currentMode'', 3, CUint, Value (VInt 0)),
     (u ''startUpMode'', 4, optional_nullable CUint, Value VNone),
     (u ''onMode'', 5, optional_nullable CUint, Value VNone),
     (u ''generatedCommandList'', 65528, CList CUint, EmptyList),
     (u ''acceptedCommandList'', 65529, CList CUint, EmptyList),
     (u ''attributeList'', 65531, CList CUint, EmptyList),
     (u ''featureMap'', 65532, CUint, Value (VInt 0)),
     (u ''clusterRevision'', 65533, CUint, Value (VInt 0))]
     ModeSelect_commands
     (ModeSelect_attributes_1 @ ModeSelect_attributes_2)
     []"

section \<open>Consistency\<close>

lemma Globals_members_ok [simp]: "members_ok Globals_AtomicAttributeStatusStruct"
    "members_ok Globals_MeasurementAccuracyRangeStruct"
    "members_ok Globals_MeasurementAccuracyStruct"
    "members_ok Globals_PowerThresholdStruct"
    "members_ok Globals_ViewportStruct"
    "members_ok Globals_currency"
    "members_ok Globals_locationdesc"
    "members_ok Globals_price"
    "members_ok Globals_semtag"
    "members_ok Globals_struct"
  by (simp_all add: class_simps Globals_AtomicAttributeStatusStruct_def
    Globals_MeasurementAccuracyRangeStruct_def
    Globals_MeasurementAccuracyStruct_def
    Globals_PowerThresholdStruct_def
    Globals_ViewportStruct_def
    Globals_currency_def
    Globals_locationdesc_def
    Globals_price_def
    Globals_semtag_def
    Globals_struct_def del: u_simps)

lemma WebRtcTransportDefinitions_members_ok [simp]: "members_ok WebRtcTransportDefinitions_ICEServerStruct"
    "members_ok WebRtcTransportDefinitions_ICECandidateStruct"
    "members_ok WebRtcTransportDefinitions_WebRTCSessionStruct"
  by (simp_all add: class_simps WebRtcTransportDefinitions_ICEServerStruct_def
    WebRtcTransportDefinitions_ICECandidateStruct_def
    WebRtcTransportDefinitions_WebRTCSessionStruct_def del: u_simps)

lemma MediaPlayback_members_ok [simp]: "members_ok MediaPlayback_PlaybackPositionStruct"
    "members_ok MediaPlayback_TrackAttributesStruct"
    "members_ok MediaPlayback_TrackStruct"
  by (simp_all add: class_simps MediaPlayback_PlaybackPositionStruct_def
    MediaPlayback_TrackAttributesStruct_def
    MediaPlayback_TrackStruct_def del: u_simps)

lemma MediaPlayback_cluster_ok: "cluster_ok MediaPlayback_cluster" "cd_id MediaPlayback_cluster = 1286"
  by (simp_all add: class_simps MediaPlayback_commands_1_def
    MediaPlayback_commands_2_def
    MediaPlayback_attributes_1_def
    MediaPlayback_attributes_2_def
    MediaPlayback_events_def
    MediaPlayback_cluster_def del: u_simps)

lemma ContentLauncher_members_ok [simp]: "members_ok ContentLauncher_AdditionalInfoStruct"
    "members_ok ContentLauncher_ParameterStruct"
    "members_ok ContentLauncher_ContentSearchStruct"
    "members_ok ContentLauncher_DimensionStruct"
    "members_ok ContentLauncher_StyleInformationStruct"
    "members_ok ContentLauncher_BrandingInformationStruct"
    "members_ok ContentLauncher_TrackPreferenceStruct"
    "members_ok ContentLauncher_PlaybackPreferencesStruct"
  by (simp_all add: class_simps ContentLauncher_AdditionalInfoStruct_def
    ContentLauncher_ParameterStruct_def
    ContentLauncher_ContentSearchStruct_def
    ContentLauncher_DimensionStruct_def
    ContentLauncher_StyleInformationStruct_def
    ContentLauncher_BrandingInformationStruct_def
    ContentLauncher_TrackPreferenceStruct_def
    ContentLauncher_PlaybackPreferencesStruct_def del: u_simps)

lemma ContentLauncher_cluster_ok: "cluster_ok ContentLauncher_cluster" "cd_id ContentLauncher_cluster = 1290"
  by (simp_all add: class_simps ContentLauncher_commands_def
    ContentLauncher_attributes_def
    ContentLauncher_cluster_def del: u_simps)

lemma ModeSelect_members_ok [simp]: "members_ok ModeSelect_SemanticTagStruct"
    "members_ok ModeSelect_ModeOptionStruct"
  by (simp_all add: class_simps ModeSelect_SemanticTagStruct_def
    ModeSelect_ModeOptionStruct_def del: u_simps)

lemma ModeSelect_cluster_ok: "cluster_ok ModeSelect_cluster" "cd_id ModeSelect_cluster = 80"
  by (simp_all add: class_simps ModeSelect_commands_def
    ModeSelect_attributes_1_def
    ModeSelect_attributes_2_def
    ModeSelect_cluster_def del: u_simps)

end
