(* ===== verification/Clusters_AccessControl.thy ===== *)
theory Clusters_AccessControl
  imports Clusters_Base
begin

text \<open>
  The generated files \<open>AccessControl.py\<close> to \<open>BridgedDeviceBasicInformation.py\<close> of \<open>chip/clusters/cluster_defs/\<close>, in the form of
  \<open>Clusters_Base\<close>.
\<close>

section \<open>AccessControl\<close>

definition AccessControl_ChangeTypeEnum :: "(pystr \<times> int) list" where
  "AccessControl_ChangeTypeEnum = [
     (u ''kChanged'', 0),
     (u ''kAdded'', 1),
     (u ''kRemoved'', 2),
     (u ''kUnknownEnumValue'', 3)]"

definition AccessControl_AccessControlEntryPrivilegeEnum :: "(pystr \<times> int) list" where
  "AccessControl_AccessControlEntryPrivilegeEnum = [
     (u ''kView'', 1),
     (u ''kProxyView'', 2),
     (u ''kOperate'', 3),
     (u ''kManage'', 4),
     (u ''kAdminister'', 5),
     (u ''kUnknownEnumValue'', 6)]"

definition AccessControl_AccessRestrictionTypeEnum :: "(pystr \<times> int) list" where
  "AccessControl_AccessRestrictionTypeEnum = [
     (u ''kAttributeAccessForbidden'', 0),
     (u ''kAttributeWriteForbidden'', 1),
     (u ''kCommandForbidden'', 2),
     (u ''kEventForbidden'', 3),
     (u ''kUnknownEnumValue'', 4)]"

definition AccessControl_AccessControlEntryAuthModeEnum :: "(pystr \<times> int) list" where
  "AccessControl_AccessControlEntryAuthModeEnum = [
     (u ''kPase'', 1),
     (u ''kCase'', 2),
     (u ''kGroup'', 3),
     (u ''kUnknownEnumValue'', 4)]"

definition AccessControl_AccessControlAuxiliaryTypeEnum :: "(pystr \<times> int) list" where
  "AccessControl_AccessControlAuxiliaryTypeEnum = [
     (u ''kSystem'', 0),
     (u ''kGroupcast'', 1),
     (u ''kUnknownEnumValue'', 2)]"

definition AccessControl_Feature :: "(pystr \<times> int) list" where
  "AccessControl_Feature = [
     (u ''kExtension'', 1),
     (u ''kManagedDevice'', 2),
     (u ''kAuxiliary'', 4)]"

definition AccessControl_AccessControlTargetStruct :: "dfield list" where
  "AccessControl_AccessControlTargetStruct = [
     (u ''cluster'', 0, nullable CUint, Value VNull),
     (u ''endpoint'', 1, nullable CUint, Value VNull),
     (u ''deviceType'', 2, nullable CUint, Value VNull)]"

definition AccessControl_AccessControlEntryStruct :: "dfield list" where
  "AccessControl_AccessControlEntryStruct = [
     (u ''privilege'', 1, enum_type AccessControl_AccessControlEntryPrivilegeEnum, Value (VInt 0)),
     (u ''authMode'', 2, enum_type AccessControl_AccessControlEntryAuthModeEnum, Value (VInt 0)),
     (u ''subjects'', 3, nullable (CList CUint), Value VNull),
     (u ''targets'', 4, nullable (CList (struct_type AccessControl_AccessControlTargetStruct)), Value VNull),
     (u ''auxiliaryType'', 5, optional (enum_type AccessControl_AccessControlAuxiliaryTypeEnum), Value VNone),
     (u ''fabricIndex'', 254, CUint, Value (VInt 0))]"

definition AccessControl_AccessControlExtensionStruct :: "dfield list" where
  "AccessControl_AccessControlExtensionStruct = [
     (u ''data'', 1, CBytes, Value (VBytes [])),
     (u ''fabricIndex'', 254, CUint, Value (VInt 0))]"

definition AccessControl_AccessRestrictionStruct :: "dfield list" where
  "AccessControl_AccessRestrictionStruct = [
     (u ''type'', 0, enum_type AccessControl_AccessRestrictionTypeEnum, Value (VInt 0)),
     (u ''id'', 1, nullable CUint, Value VNull)]"

definition AccessControl_AccessRestrictionEntryStruct :: "dfield list" where
  "AccessControl_AccessRestrictionEntryStruct = [
     (u ''endpoint'', 0, CUint, Value (VInt 0)),
     (u ''cluster'', 1, CUint, Value (VInt 0)),
     (u ''restrictions'', 2, CList (struct_type AccessControl_AccessRestrictionStruct), EmptyList),
     (u ''fabricIndex'', 254, CUint, Value (VInt 0))]"

definition AccessControl_CommissioningAccessRestrictionEntryStruct :: "dfield list" where
  "AccessControl_CommissioningAccessRestrictionEntryStruct = [
     (u ''endpoint'', 0, CUint, Value (VInt 0)),
     (u ''cluster'', 1, CUint, Value (VInt 0)),
     (u ''restrictions'', 2, CList (struct_type AccessControl_AccessRestrictionStruct), EmptyList)]"

definition AccessControl_commands :: "command_class list" where
  "AccessControl_commands = [
     CommandClass (u ''ReviewFabricRestrictions'') 31 0 True (Some (u ''ReviewFabricRestrictionsResponse'')) False [(u ''arl'', 0, CList (struct_type AccessControl_CommissioningAccessRestrictionEntryStruct), EmptyList)],
     CommandClass (u ''ReviewFabricRestrictionsResponse'') 31 1 False None False [(u ''token'', 0, CUint, Value (VInt 0))]]"

definition AccessControl_attributes_1 :: "attribute_class list" where
  "AccessControl_attributes_1 = [
     AttributeClass (u ''Acl'') 31 0 (CList (struct_type AccessControl_AccessControlEntryStruct)) (EmptyList),
     AttributeClass (u ''Extension'') 31 1 (optional (CList (struct_type AccessControl_AccessControlExtensionStruct))) (Value VNone),
     AttributeClass (u ''SubjectsPerAccessControlEntry'') 31 2 CUint (Value (VInt 0)),
     AttributeClass (u ''TargetsPerAccessControlEntry'') 31 3 CUint (Value (VInt 0)),
     AttributeClass (u ''AccessControlEntriesPerFabric'') 31 4 CUint (Value (VInt 0)),
     AttributeClass (u ''CommissioningARL'') 31 5 (optional (CList (struct_type AccessControl_CommissioningAccessRestrictionEntryStruct))) (Value VNone),
     AttributeClass (u ''Arl'') 31 6 (optional (CList (struct_type AccessControl_AccessRestrictionEntryStruct))) (Value VNone),
     AttributeClass (u ''AuxiliaryAcl'') 31 7 (optional (CList (struct_type AccessControl_AccessControlEntryStruct))) (Value VNone),
     AttributeClass (u ''GeneratedCommandList'') 31 65528 (CList CUint) (EmptyList)]"

definition AccessControl_attributes_2 :: "attribute_class list" where
  "AccessControl_attributes_2 = [
     AttributeClass (u ''AcceptedCommandList'') 31 65529 (CList CUint) (EmptyList),
     AttributeClass (u ''AttributeList'') 31 65531 (CList CUint) (EmptyList),
     AttributeClass (u ''FeatureMap'') 31 65532 CUint (Value (VInt 0)),
     AttributeClass (u ''ClusterRevision'') 31 65533 CUint (Value (VInt 0))]"

definition AccessControl_events :: "event_class list" where
  "AccessControl_events = [
     EventClass (u ''AccessControlEntryChanged'') 31 0 [(u ''adminNodeID'', 1, nullable CUint, Value VNull),
       (u ''adminPasscodeID'', 2, nullable CUint, Value VNull),
       (u ''changeType'', 3, enum_type AccessControl_ChangeTypeEnum, Value (VInt 0)),
       (u ''latestValue'', 4, nullable (struct_type AccessControl_AccessControlEntryStruct), Value VNull),
       (u ''fabricIndex'', 254, CUint, Value (VInt 0))],
     EventClass (u ''AccessControlExtensionChanged'') 31 1 [(u ''adminNodeID'', 1, nullable CUint, Value VNull),
       (u ''adminPasscodeID'', 2, nullable CUint, Value VNull),
       (u ''changeType'', 3, enum_type AccessControl_ChangeTypeEnum, Value (VInt 0)),
       (u ''latestValue'', 4, nullable (struct_type AccessControl_AccessControlExtensionStruct), Value VNull),
       (u ''fabricIndex'', 254, CUint, Value (VInt 0))],
     EventClass (u ''FabricRestrictionReviewUpdate'') 31 2 [(u ''token'', 0, CUint, Value (VInt 0)),
       (u ''instruction'', 1, optional CStr, Value VNone),
       (u ''ARLRequestFlowUrl'', 2, optional CStr, Value VNone),
       (u ''fabricIndex'', 254, CUint, Value (VInt 0))],
     EventClass (u ''AuxiliaryAccessUpdated'') 31 3 [(u ''adminNodeID'', 0, nullable CUint, Value VNull),
       (u ''fabricIndex'', 254, CUint, Value (VInt 0))]]"

definition AccessControl_cluster :: "cluster_def" where
  "AccessControl_cluster = ClusterDef (u ''AccessControl'') 31 [
     (u ''acl'', 0, CList (struct_type AccessControl_AccessControlEntryStruct), EmptyList),
     (u ''extension'', 1, optional (CList (struct_type AccessControl_AccessControlExtensionStruct)), Value VNone),
     (u ''subjectsPerAccessControlEntry'', 2, CUint, Value (VInt 0)),
     (u ''targetsPerAccessControlEntry'', 3, CUint, Value (VInt 0)),
     (u ''accessControlEntriesPerFabric'', 4, CUint, Value (VInt 0)),
     (u ''commissioningARL'', 5, optional (CList (struct_type AccessControl_CommissioningAccessRestrictionEntryStruct)), Value VNone),
     (u ''arl'', 6, optional (CList (struct_type AccessControl_AccessRestrictionEntryStruct)), Value VNone),
     (u ''auxiliaryAcl'', 7, optional (CList (struct_type AccessControl_AccessControlEntryStruct)), Value VNone),
     (u ''generatedCommandList'', 65528, CList CUint, EmptyList),
     (u ''acceptedCommandList'', 65529, CList CUint, EmptyList),
     (u ''attributeList'', 65531, CList CUint, EmptyList),
     (u ''featureMap'', 65532, CUint, Value (VInt 0)),
     (u ''clusterRevision'', 65533, CUint, Value (VInt 0))]
     AccessControl_commands
     (AccessControl_attributes_1 @ AccessControl_attributes_2)
     AccessControl_events"

section \<open>AccountLogin\<close>

definition AccountLogin_commands :: "command_class list" where
  "AccountLogin_commands = [
     CommandClass (u ''GetSetupPIN'') 1294 0 True (Some (u ''GetSetupPINResponse'')) True [(u ''tempAccountIdentifier'', 0, CStr, Value (VStr []))],
     CommandClass (u ''Login'') 1294 2 True None True [(u ''tempAccountIdentifier'', 0, CStr, Value (VStr [])),
       (u ''setupPIN'', 1, CStr, Value (VStr [])),
       (u ''node'', 2, optional CUint, Value VNone)],
     CommandClass (u ''Logout'') 1294 3 True None True [(u ''node'', 0, optional CUint, Value VNone)],
     CommandClass (u ''GetSetupPINResponse'') 1294 1 False None False [(u ''setupPIN'', 0, CStr, Value (VStr []))]]"

definition AccountLogin_attributes :: "attribute_class list" where
  "AccountLogin_attributes = [
     AttributeClass (u ''GeneratedCommandList'') 1294 65528 (CList CUint) (EmptyList),
     AttributeClass (u ''AcceptedCommandList'') 1294 65529 (CList CUint) (EmptyList),
     AttributeClass (u ''AttributeList'') 1294 65531 (CList CUint) (EmptyList),
     AttributeClass (u ''FeatureMap'') 1294 65532 CUint (Value (VInt 0)),
     AttributeClass (u ''ClusterRevision'') 1294 65533 CUint (Value (VInt 0))]"

definition AccountLogin_events :: "event_class list" where
  "AccountLogin_events = [
     EventClass (u ''LoggedOut'') 1294 0 [(u ''node'', 0, optional CUint, Value VNone)]]"

definition AccountLogin_cluster :: "cluster_def" where
  "AccountLogin_cluster = ClusterDef (u ''AccountLogin'') 1294 [
     (u ''generatedCommandList'', 65528, CList CUint, EmptyList),
     (u ''acceptedCommandList'', 65529, CList CUint, EmptyList),
     (u ''attributeList'', 65531, CList CUint, EmptyList),
     (u ''featureMap'', 65532, CUint, Value (VInt 0)),
     (u ''clusterRevision'', 65533, CUint, Value (VInt 0))]
     AccountLogin_commands
     AccountLogin_attributes
     AccountLogin_events"

section \<open>Actions\<close>

definition Actions_ActionTypeEnum :: "(pystr \<times> int) list" where
  "Actions_ActionTypeEnum = [
     (u ''kOther'', 0),
     (u ''kScene'', 1),
     (u ''kSequence'', 2),
     (u ''kAutomation'', 3),
     (u ''kException'', 4),
     (u ''kNotification'', 5),
     (u ''kAlarm'', 6),
     (u ''kUnknownEnumValue'', 7)]"

definition Actions_ActionStateEnum :: "(pystr \<times> int) list" where
  "Actions_ActionStateEnum = [
     (u ''kInactive'', 0),
     (u ''kActive'', 1),
     (u ''kPaused'', 2),
     (u ''kDisabled'', 3),
     (u ''kUnknownEnumValue'', 4)]"

definition Actions_ActionErrorEnum :: "(pystr \<times> int) list" where
  "Actions_ActionErrorEnum = [
     (u ''kUnknown'', 0),
     (u ''kInterrupted'', 1),
     (u ''kUnknownEnumValue'', 2)]"

definition Actions_EndpointListTypeEnum :: "(pystr \<times> int) list" where
  "Actions_EndpointListTypeEnum = [
     (u ''kOther'', 0),
     (u ''kRoom'', 1),
     (u ''kZone'', 2),
     (u ''kUnknownEnumValue'', 3)]"

definition Actions_CommandBits :: "(pystr \<times> int) list" where
  "Actions_CommandBits = [
     (u ''kInstantAction'', 1),
     (u ''kInstantActionWithTransition'', 2),
     (u ''kStartAction'', 4),
     (u ''kStartActionWithDuration'', 8),
     (u ''kStopAction'', 16),
     (u ''kPauseAction'', 32),
     (u ''kPauseActionWithDuration'', 64),
     (u ''kResumeAction'', 128),
     (u ''kEnableAction'', 256),
     (u ''kEnableActionWithDuration'', 512),
     (u ''kDisableAction'', 1024),
     (u ''kDisableActionWithDuration'', 2048)]"

definition Actions_ActionStruct :: "dfield list" where
  "Actions_ActionStruct = [
     (u ''actionID'', 0, CUint, Value (VInt 0)),
     (u ''name'', 1, CStr, Value (VStr [])),
     (u ''type'', 2, enum_type Actions_ActionTypeEnum, Value (VInt 0)),
     (u ''endpointListID'', 3, CUint, Value (VInt 0)),
     (u ''supportedCommands'', 4, flag_type Actions_CommandBits, Value (VInt 0)),
     (u ''state'', 5, enum_type Actions_ActionStateEnum, Value (VInt 0))]"

definition Actions_EndpointListStruct :: "dfield list" where
  "Actions_EndpointListStruct = [
     (u ''endpointListID'', 0, CUint, Value (VInt 0)),
     (u ''name'', 1, CStr, Value (VStr [])),
     (u ''type'', 2, enum_type Actions_EndpointListTypeEnum, Value (VInt 0)),
     (u ''endpoints'', 3, CList CUint, EmptyList)]"

definition Actions_commands_1 :: "command_class list" where
  "Actions_commands_1 = [
     CommandClass (u ''InstantAction'') 37 0 True None False [(u ''actionID'', 0, CUint, Value (VInt 0)),
       (u ''invokeID'', 1, optional CUint, Value VNone)],
     CommandClass (u ''InstantActionWithTransition'') 37 1 True None False [(u ''actionID'', 0, CUint, Value (VInt 0)),
       (u ''invokeID'', 1, optional CUint, Value VNone),
       (u ''transitionTime'', 2, CUint, Value (VInt 0))],
     CommandClass (u ''StartAction'') 37 2 True None False [(u ''actionID'', 0, CUint, Value (VInt 0)),
       (u ''invokeID'', 1, optional CUint, Value VNone)],
     CommandClass (u ''StartActionWithDuration'') 37 3 True None False [(u ''actionID'', 0, CUint, Value (VInt 0)),
       (u ''invokeID'', 1, optional CUint, Value VNone),
       (u ''duration'', 2, CUint, Value (VInt 0))],
     CommandClass (u ''StopAction'') 37 4 True None False [(u ''actionID'', 0, CUint, Value (VInt 0)),
       (u ''invokeID'', 1, optional CUint, Value VNone)],
     CommandClass (u ''PauseAction'') 37 5 True None False [(u ''actionID'', 0, CUint, Value (VInt 0)),
       (u ''invokeID'', 1, optional CUint, Value VNone)],
     CommandClass (u ''PauseActionWithDuration'') 37 6 True None False [(u ''actionID'', 0, CUint, Value (VInt 0)),
       (u ''invokeID'', 1, optional CUint, Value VNone),
       (u ''duration'', 2, CUint, Value (VInt 0))],
     CommandClass (u ''ResumeAction'') 37 7 True None False [(u ''actionID'', 0, CUint, Value (VInt 0)),
       (u ''invokeID'', 1, optional CUint, Value VNone)]]"

definition Actions_commands_2 :: "command_class list" where
  "Actions_commands_2 = [
     CommandClass (u ''EnableAction'') 37 8 True None False [(u ''actionID'', 0, CUint, Value (VInt 0)),
       (u ''invokeID'', 1, optional CUint, Value VNone)],
     CommandClass (u ''EnableActionWithDuration'') 37 9 True None False [(u ''actionID'', 0, CUint, Value (VInt 0)),
       (u ''invokeID'', 1, optional CUint, Value VNone),
       (u ''duration'', 2, CUint, Value (VInt 0))],
     CommandClass (u ''DisableAction'') 37 10 True None False [(u ''actionID'', 0, CUint, Value (VInt 0)),
       (u ''invokeID'', 1, optional CUint, Value VNone)],
     CommandClass (u ''DisableActionWithDuration'') 37 11 True None False [(u ''actionID'', 0, CUint, Value (VInt 0)),
       (u ''invokeID'', 1, optional CUint, Value VNone),
       (u ''duration'', 2, CUint, Value (VInt 0))]]"

definition Actions_attributes :: "attribute_class list" where
  "Actions_attributes = [
     AttributeClass (u ''ActionList'') 37 0 (CList (struct_type Actions_ActionStruct)) (EmptyList),
     AttributeClass (u ''EndpointLists'') 37 1 (CList (struct_type Actions_EndpointListStruct)) (EmptyList),
     AttributeClass (u ''SetupURL'') 37 2 (optional CStr) (Value VNone),
     AttributeClass (u ''GeneratedCommandList'') 37 65528 (CList CUint) (EmptyList),
     AttributeClass (u ''AcceptedCommandList'') 37 65529 (CList CUint) (EmptyList),
     AttributeClass (u ''AttributeList'') 37 65531 (CList CUint) (EmptyList),
     AttributeClass (u ''FeatureMap'') 37 65532 CUint (Value (VInt 0)),
     AttributeClass (u ''ClusterRevision'') 37 65533 CUint (Value (VInt 0))]"

definition Actions_events :: "event_class list" where
  "Actions_events = [
     EventClass (u ''StateChanged'') 37 0 [(u ''actionID'', 0, CUint, Value (VInt 0)),
       (u ''invokeID'', 1, CUint, Value (VInt 0)),
       (u ''newState'', 2, enum_type Actions_ActionStateEnum, Value (VInt 0))],
     EventClass (u ''ActionFailed'') 37 1 [(u ''actionID'', 0, CUint, Value (VInt 0)),
       (u ''invokeID'', 1, CUint, Value (VInt 0)),
       (u ''newState'', 2, enum_type Actions_ActionStateEnum, Value (VInt 0)),
       (u ''error'', 3, enum_type Actions_ActionErrorEnum, Value (VInt 0))]]"

definition Actions_cluster :: "cluster_def" where
  "Actions_cluster = ClusterDef (u ''Actions'') 37 [
     (u ''actionList'', 0, CList (struct_type Actions_ActionStruct), EmptyList),
     (u ''endpointLists'', 1, CList (struct_type Actions_EndpointListStruct), EmptyList),
     (u ''setupURL'', 2, optional CStr, Value VNone),
     (u ''generatedCommandList'', 65528, CList CUint, EmptyList),
     (u ''acceptedCommandList'', 65529, CList CUint, EmptyList),
     (u ''attributeList'', 65531, CList CUint, EmptyList),
     (u ''featureMap'', 65532, CUint, Value (VInt 0)),
     (u ''clusterRevision'', 65533, CUint, Value (VInt 0))]
     (Actions_commands_1 @ Actions_commands_2)
     Actions_attributes
     Actions_events"

section \<open>ActivatedCarbonFilterMonitoring\<close>

definition ActivatedCarbonFilterMonitoring_DegradationDirectionEnum :: "(pystr \<times> int) list" where
  "ActivatedCarbonFilterMonitoring_DegradationDirectionEnum = [
     (u ''kUp'', 0),
     (u ''kDown'', 1),
     (u ''kUnknownEnumValue'', 2)]"

definition ActivatedCarbonFilterMonitoring_ChangeIndicationEnum :: "(pystr \<times> int) list" where
  "ActivatedCarbonFilterMonitoring_ChangeIndicationEnum = [
     (u ''kOk'', 0),
     (u ''kWarning'', 1),
     (u ''kCritical'', 2),
     (u ''kUnknownEnumValue'', 3)]"

definition ActivatedCarbonFilterMonitoring_ProductIdentifierTypeEnum :: "(pystr \<times> int) list" where
  "ActivatedCarbonFilterMonitoring_ProductIdentifierTypeEnum = [
     (u ''kUpc'', 0),
     (u ''kGtin8'', 1),
     (u ''kEan'', 2),
     (u ''kGtin14'', 3),
     (u ''kOem'', 4),
     (u ''kUnknownEnumValue'', 5)]"

definition ActivatedCarbonFilterMonitoring_Feature :: "(pystr \<times> int) list" where
  "ActivatedCarbonFilterMonitoring_Feature = [
     (u ''kCondition'', 1),
     (u ''kWarning'', 2),
     (u ''kReplacementProductList'', 4)]"

definition ActivatedCarbonFilterMonitoring_ReplacementProductStruct :: "dfield list" where
  "ActivatedCarbonFilterMonitoring_ReplacementProductStruct = [
     (u ''productIdentifierType'', 0, enum_type ActivatedCarbonFilterMonitoring_ProductIdentifierTypeEnum, Value (VInt 0)),
     (u ''productIdentifierValue'', 1, CStr, Value (VStr []))]"

definition ActivatedCarbonFilterMonitoring_commands :: "command_class list" where
  "ActivatedCarbonFilterMonitoring_commands = [
     CommandClass (u ''ResetCondition'') 114 0 True None False []]"

definition ActivatedCarbonFilterMonitoring_attributes_1 :: "attribute_class list" where
  "ActivatedCarbonFilterMonitoring_attributes_1 = [
     AttributeClass (u ''Condition'') 114 0 (optional CUint) (Value VNone),
     AttributeClass (u ''DegradationDirection'') 114 1 (optional (enum_type ActivatedCarbonFilterMonitoring_DegradationDirectionEnum)) (Value VNone),
     AttributeClass (u ''ChangeIndication'') 114 2 (enum_type ActivatedCarbonFilterMonitoring_ChangeIndicationEnum) (Value (VInt 0)),
     AttributeClass (u ''InPlaceIndicator'') 114 3 (optional CBool) (Value VNone),
     AttributeClass (u ''LastChangedTime'') 114 4 (optional_nullable CUint) (Value VNone),
     AttributeClass (u ''ReplacementProductList'') 114 5 (optional (CList (struct_type ActivatedCarbonFilterMonitoring_ReplacementProductStruct))) (Value VNone),
     AttributeClass (u ''GeneratedCommandList'') 114 65528 (CList CUint) (EmptyList),
     AttributeClass (u ''AcceptedCommandList'') 114 65529 (CList CUint) (EmptyList),
     AttributeClass (u ''AttributeList'') 114 65531 (CList CUint) (EmptyList)]"

definition ActivatedCarbonFilterMonitoring_attributes_2 :: "attribute_class list" where
  "ActivatedCarbonFilterMonitoring_attributes_2 = [
     AttributeClass (u ''FeatureMap'') 114 65532 CUint (Value (VInt 0)),
     AttributeClass (u ''ClusterRevision'') 114 65533 CUint (Value (VInt 0))]"

definition ActivatedCarbonFilterMonitoring_cluster :: "cluster_def" where
  "ActivatedCarbonFilterMonitoring_cluster = ClusterDef (u ''ActivatedCarbonFilterMonitoring'') 114 [
     (u ''condition'', 0, optional CUint, Value VNone),
     (u ''degradationDirection'', 1, optional (enum_type ActivatedCarbonFilterMonitoring_DegradationDirectionEnum), Value VNone),
     (u ''changeIndication'', 2, enum_type ActivatedCarbonFilterMonitoring_ChangeIndicationEnum, Value (VInt 0)),
     (u ''inPlaceIndicator'', 3, optional CBool, Value VNone),
     (u ''lastChangedTime'', 4, optional_nullable CUint, Value VNone),
     (u ''replacementProductList'', 5, optional (CList (struct_type ActivatedCarbonFilterMonitoring_ReplacementProductStruct)), Value VNone),
     (u ''generatedCommandList'', 65528, CList CUint, EmptyList),
     (u ''acceptedCommandList'', 65529, CList CUint, EmptyList),
     (u ''attributeList'', 65531, CList CUint, EmptyList),
     (u ''featureMap'', 65532, CUint, Value (VInt 0)),
     (u ''clusterRevision'', 65533, CUint, Value (VInt 0))]
     ActivatedCarbonFilterMonitoring_commands
     (ActivatedCarbonFilterMonitoring_attributes_1 @ ActivatedCarbonFilterMonitoring_attributes_2)
     []"

section \<open>AdministratorCommissioning\<close>

definition AdministratorCommissioning_CommissioningWindowStatusEnum :: "(pystr \<times> int) list" where
  "AdministratorCommissioning_CommissioningWindowStatusEnum = [
     (u ''kWindowNotOpen'', 0),
     (u ''kEnhancedWindowOpen'', 1),
     (u ''kBasicWindowOpen'', 2),
     (u ''kUnknownEnumValue'', 3)]"

definition AdministratorCommissioning_StatusCode :: "(pystr \<times> int) list" where
  "AdministratorCommissioning_StatusCode = [
     (u ''kBusy'', 2),
     (u ''kPAKEParameterError'', 3),
     (u ''kWindowNotOpen'', 4),
     (u ''kUnknownEnumValue'', 5)]"

definition AdministratorCommissioning_Feature :: "(pystr \<times> int) list" where
  "AdministratorCommissioning_Feature = [
     (u ''kBasic'', 1)]"

definition AdministratorCommissioning_commands :: "command_class list" where
  "AdministratorCommissioning_commands = [
     CommandClass (u ''OpenCommissioningWindow'') 60 0 True None True [(u ''commissioningTimeout'', 0, CUint, Value (VInt 0)),
       (u ''PAKEPasscodeVerifier'', 1, CBytes, Value (VBytes [])),
       (u ''discriminator'', 2, CUint, Value (VInt 0)),
       (u ''iterations'', 3, CUint, Value (VInt 0)),
       (u ''salt'', 4, CBytes, Value (VBytes []))],
     CommandClass (u ''OpenBasicCommissioningWindow'') 60 1 True None True [(u ''commissioningTimeout'', 0, CUint, Value (VInt 0))],
     CommandClass (u ''RevokeCommissioning'') 60 2 True None True []]"

definition AdministratorCommissioning_attributes :: "attribute_class list" where
  "AdministratorCommissioning_attributes = [
     AttributeClass (u ''WindowStatus'') 60 0 (enum_type AdministratorCommissioning_CommissioningWindowStatusEnum) (Value (VInt 0)),
     AttributeClass (u ''AdminFabricIndex'') 60 1 (nullable CUint) (Value VNull),
     AttributeClass (u ''AdminVendorId'') 60 2 (nullable CUint) (Value VNull),
     AttributeClass (u ''GeneratedCommandList'') 60 65528 (CList CUint) (EmptyList),
     AttributeClass (u ''AcceptedCommandList'') 60 65529 (CList CUint) (EmptyList),
     AttributeClass (u ''AttributeList'') 60 65531 (CList CUint) (EmptyList),
     AttributeClass (u ''FeatureMap'') 60 65532 CUint (Value (VInt 0)),
     AttributeClass (u ''ClusterRevision'') 60 65533 CUint (Value (VInt 0))]"

definition AdministratorCommissioning_cluster :: "cluster_def" where
  "AdministratorCommissioning_cluster = ClusterDef (u ''AdministratorCommissioning'') 60 [
     (u ''windowStatus'', 0, enum_type AdministratorCommissioning_CommissioningWindowStatusEnum, Value (VInt 0)),
     (u ''adminFabricIndex'', 1, nullable CUint, Value VNull),
     (u ''adminVendorId'', 2, nullable CUint, Value VNull),
     (u ''generatedCommandList'', 65528, CList CUint, EmptyList),
     (u ''acceptedCommandList'', 65529, CList CUint, EmptyList),
     (u ''attributeList'', 65531, CList CUint, EmptyList),
     (u ''featureMap'', 65532, CUint, Value (VInt 0)),
     (u ''clusterRevision'', 65533, CUint, Value (VInt 0))]
     AdministratorCommissioning_commands
     AdministratorCommissioning_attributes
     []"

section \<open>AirQuality\<close>

definition AirQuality_AirQualityEnum :: "(pystr \<times> int) list" where
  "AirQuality_AirQualityEnum = [
     (u ''kUnknown'', 0),
     (u ''kGood'', 1),
     (u ''kFair'', 2),
     (u ''kModerate'', 3),
     (u ''kPoor'', 4),
     (u ''kVeryPoor'', 5),
     (u ''kExtremelyPoor'', 6),
     (u ''kUnknownEnumValue'', 7)]"

definition AirQuality_Feature :: "(pystr \<times> int) list" where
  "AirQuality_Feature = [
     (u ''kFair'', 1),
     (u ''kModerate'', 2),
     (u ''kVeryPoor'', 4),
     (u ''kExtremelyPoor'', 8)]"

definition AirQuality_attributes :: "attribute_class list" where
  "AirQuality_attributes = [
     AttributeClass (u ''AirQuality'') 91 0 (enum_type AirQuality_AirQualityEnum) (Value (VInt 0)),
     AttributeClass (u ''GeneratedCommandList'') 91 65528 (CList CUint) (EmptyList),
     AttributeClass (u ''AcceptedCommandList'') 91 65529 (CList CUint) (EmptyList),
     AttributeClass (u ''AttributeList'') 91 65531 (CList CUint) (EmptyList),
     AttributeClass (u ''FeatureMap'') 91 65532 CUint (Value (VInt 0)),
     AttributeClass (u ''ClusterRevision'') 91 65533 CUint (Value (VInt 0))]"

definition AirQuality_cluster :: "cluster_def" where
  "AirQuality_cluster = ClusterDef (u ''AirQuality'') 91 [
     (u ''airQuality'', 0, enum_type AirQuality_AirQualityEnum, Value (VInt 0)),
     (u ''generatedCommandList'', 65528, CList CUint, EmptyList),
     (u ''acceptedCommandList'', 65529, CList CUint, EmptyList),
     (u ''attributeList'', 65531, CList CUint, EmptyList),
     (u ''featureMap'', 65532, CUint, Value (VInt 0)),
     (u ''clusterRevision'', 65533, CUint, Value (VInt 0))]
     []
     AirQuality_attributes
     []"

section \<open>AmbientContextSensing\<close>

definition AmbientContextSensing_Feature :: "(pystr \<times> int) list" where
  "AmbientContextSensing_Feature = [
     (u ''kHumanActivity'', 1),
     (u ''kObjectCounting'', 2),
     (u ''kObjectIdentification'', 4),
     (u ''kSoundIdentification'', 8),
     (u ''kPredictedActivity'', 16)]"

definition AmbientContextSensing_HoldTimeLimitsStruct :: "dfield list" where
  "AmbientContextSensing_HoldTimeLimitsStruct = [
     (u ''holdTimeMin'', 0, optional CUint, Value VNone),
     (u ''holdTimeMax'', 1, optional CUint, Value VNone),
     (u ''holdTimeDefault'', 2, optional CUint, Value VNone)]"

definition AmbientContextSensing_AmbientContextTypeStruct :: "dfield list" where
  "AmbientContextSensing_AmbientContextTypeStruct = [
     (u ''ambientContextSensed'', 0, optional (CList (struct_type ModeSelect_SemanticTagStruct)), Value VNone)]"

definition AmbientContextSensing_ObjectCountConfigStruct :: "dfield list" where
  "AmbientContextSensing_ObjectCountConfigStruct = [
     (u ''countingObject'', 0, optional (struct_type ModeSelect_SemanticTagStruct), Value VNone),
     (u ''objectCountThreshold'', 1, optional CUint, Value VNone)]"

definition AmbientContextSensing_PredictedActivityStruct :: "dfield list" where
  "AmbientContextSensing_PredictedActivityStruct = [
     (u ''startTimestamp'', 0, optional CUint, Value VNone),
     (u ''endTimestamp'', 1, optional CUint, Value VNone),
     (u ''ambientContextType'', 2, optional (CList (struct_type ModeSelect_SemanticTagStruct)), Value VNone),
     (u ''crowdDetected'', 3, optional CBool, Value VNone),
     (u ''crowdCount'', 4, optional CUint, Value VNone),
     (u ''confidence'', 5, optional CUint, Value VNone)]"

definition AmbientContextSensing_attributes_1 :: "attribute_class list" where
  "AmbientContextSensing_attributes_1 = [
     AttributeClass (u ''HumanActivityDetected'') 1073 0 (optional CBool) (Value VNone),
     AttributeClass (u ''ObjectIdentified'') 1073 1 (optional CBool) (Value VNone),
     AttributeClass (u ''AudioContextDetected'') 1073 2 (optional CBool) (Value VNone),
     AttributeClass (u ''AmbientContextType'') 1073 3 (optional (CList (struct_type AmbientContextSensing_AmbientContextTypeStruct))) (Value VNone),
     AttributeClass (u ''AmbientContextTypeSupported'') 1073 4 (optional (CList (struct_type ModeSelect_SemanticTagStruct))) (Value VNone),
     AttributeClass (u ''ObjectCountReached'') 1073 5 (optional CBool) (Value VNone),
     AttributeClass (u ''ObjectCountConfig'') 1073 6 (optional (struct_type AmbientContextSensing_ObjectCountConfigStruct)) (Value VNone),
     AttributeClass (u ''ObjectCount'') 1073 7 (optional CUint) (Value VNone),
     AttributeClass (u ''SimultaneousDetectionLimit'') 1073 8 (optional CUint) (Value VNone)]"

definition AmbientContextSensing_attributes_2 :: "attribute_class list" where
  "AmbientContextSensing_attributes_2 = [
     AttributeClass (u ''HoldTime'') 1073 9 (optional CUint) (Value VNone),
     AttributeClass (u ''HoldTimeLimits'') 1073 10 (optional (struct_type AmbientContextSensing_HoldTimeLimitsStruct)) (Value VNone),
     AttributeClass (u ''PredictedActivity'') 1073 11 (optional (CList (struct_type AmbientContextSensing_PredictedActivityStruct))) (Value VNone),
     AttributeClass (u ''GeneratedCommandList'') 1073 65528 (CList CUint) (EmptyList),
     AttributeClass (u ''AcceptedCommandList'') 1073 65529 (CList CUint) (EmptyList),
     AttributeClass (u ''AttributeList'') 1073 65531 (CList CUint) (EmptyList),
     AttributeClass (u ''FeatureMap'') 1073 65532 CUint (Value (VInt 0)),
     AttributeClass (u ''ClusterRevision'') 1073 65533 CUint (Value (VInt 0))]"

definition AmbientContextSensing_events :: "event_class list" where
  "AmbientContextSensing_events = [
     EventClass (u ''AmbientContextDetectStarted'') 1073 0 [(u ''ambientContextDetected'', 0, optional (struct_type AmbientContextSensing_AmbientContextTypeStruct), Value VNone),
       (u ''objectCountReached'', 1, optional CBool, Value VNone),
       (u ''objectCount'', 2, optional CUint, Value VNone)],
     EventClass (u ''AmbientContextDetectEnded'') 1073 1 [(u ''eventStartTime'', 0, optional CUint, Value VNone)]]"

definition AmbientContextSensing_cluster :: "cluster_def" where
  "AmbientContextSensing_cluster = ClusterDef (u ''AmbientContextSensing'') 1073 [
     (u ''humanActivityDetected'', 0, optional CBool, Value VNone),
     (u ''objectIdentified'', 1, optional CBool, Value VNone),
     (u ''audioContextDetected'', 2, optional CBool, Value VNone),
     (u ''ambientContextType'', 3, optional (CList (struct_type AmbientContextSensing_AmbientContextTypeStruct)), Value VNone),
     (u ''ambientContextTypeSupported'', 4, optional (CList (struct_type ModeSelect_SemanticTagStruct)), Value VNone),
     (u ''objectCountReached'', 5, optional CBool, Value VNone),
     (u ''objectCountConfig'', 6, optional (struct_type AmbientContextSensing_ObjectCountConfigStruct), Value VNone),
     (u ''objectCount'', 7, optional CUint, Value VNone),
     (u ''simultaneousDetectionLimit'', 8, optional CUint, Value VNone),
     (u ''holdTime'', 9, optional CUint, Value VNone),
     (u ''holdTimeLimits'', 10, optional (struct_type AmbientContextSensing_HoldTimeLimitsStruct), Value VNone),
     (u ''predictedActivity'', 11, optional (CList (struct_type AmbientContextSensing_PredictedActivityStruct)), Value VNone),
     (u ''generatedCommandList'', 65528, CList CUint, EmptyList),
     (u ''acceptedCommandList'', 65529, CList CUint, EmptyList),
     (u ''attributeList'', 65531, CList CUint, EmptyList),
     (u ''featureMap'', 65532, CUint, Value (VInt 0)),
     (u ''clusterRevision'', 65533, CUint, Value (VInt 0))]
     []
     (AmbientContextSensing_attributes_1 @ AmbientContextSensing_attributes_2)
     AmbientContextSensing_events"

section \<open>ApplicationBasic\<close>

definition ApplicationBasic_ApplicationStatusEnum :: "(pystr \<times> int) list" where
  "ApplicationBasic_ApplicationStatusEnum = [
     (u ''kStopped'', 0),
     (u ''kActiveVisibleFocus'', 1),
     (u ''kActiveHidden'', 2),
     (u ''kActiveVisibleNotFocus'', 3),
     (u ''kUnknownEnumValue'', 4)]"

definition ApplicationBasic_ApplicationStruct :: "dfield list" where
  "ApplicationBasic_ApplicationStruct = [
     (u ''catalogVendorID'', 0, CUint, Value (VInt 0)),
     (u ''applicationID'', 1, CStr, Value (VStr []))]"

definition ApplicationBasic_attributes_1 :: "attribute_class list" where
  "ApplicationBasic_attributes_1 = [
     AttributeClass (u ''VendorName'') 1293 0 (optional CStr) (Value VNone),
     AttributeClass (u ''VendorID'') 1293 1 (optional CUint) (Value VNone),
     AttributeClass (u ''ApplicationName'') 1293 2 CStr (Value (VStr [])),
     AttributeClass (u ''ProductID'') 1293 3 (optional CUint) (Value VNone),
     AttributeClass (u ''Application'') 1293 4 (struct_type ApplicationBasic_ApplicationStruct) (Instance ApplicationBasic_ApplicationStruct),
     AttributeClass (u ''Status'') 1293 5 (enum_type ApplicationBasic_ApplicationStatusEnum) (Value (VInt 0)),
     AttributeClass (u ''ApplicationVersion'') 1293 6 CStr (Value (VStr [])),
     AttributeClass (u ''AllowedVendorList'') 1293 7 (CList CUint) (EmptyList),
     AttributeClass (u ''GeneratedCommandList'') 1293 65528 (CList CUint) (EmptyList)]"

definition ApplicationBasic_attributes_2 :: "attribute_class list" where
  "ApplicationBasic_attributes_2 = [
     AttributeClass (u ''AcceptedCommandList'') 1293 65529 (CList CUint) (EmptyList),
     AttributeClass (u ''AttributeList'') 1293 65531 (CList CUint) (EmptyList),
     AttributeClass (u ''FeatureMap'') 1293 65532 CUint (Value (VInt 0)),
     AttributeClass (u ''ClusterRevision'') 1293 65533 CUint (Value (VInt 0))]"

definition ApplicationBasic_cluster :: "cluster_def" where
  "ApplicationBasic_cluster = ClusterDef (u ''ApplicationBasic'') 1293 [
     (u ''vendorName'', 0, optional CStr, Value VNone),
     (u ''vendorID'', 1, optional CUint, Value VNone),
     (u ''applicationName'', 2, CStr, Value (VStr [])),
     (u ''productID'', 3, optional CUint, Value VNone),
     (u ''application'', 4, struct_type ApplicationBasic_ApplicationStruct, Instance ApplicationBasic_ApplicationStruct),
     (u ''status'', 5, enum_type ApplicationBasic_ApplicationStatusEnum, Value (VInt 0)),
     (u ''applicationVersion'', 6, CStr, Value (VStr [])),
     (u ''allowedVendorList'', 7, CList CUint, EmptyList),
     (u ''generatedCommandList'', 65528, CList CUint, EmptyList),
     (u ''acceptedCommandList'', 65529, CList CUint, EmptyList),
     (u ''attributeList'', 65531, CList CUint, EmptyList),
     (u ''featureMap'', 65532, CUint, Value (VInt 0)),
     (u ''clusterRevision'', 65533, CUint, Value (VInt 0))]
     []
     (ApplicationBasic_attributes_1 @ ApplicationBasic_attributes_2)
     []"

section \<open>ApplicationLauncher\<close>

definition ApplicationLauncher_StatusEnum :: "(pystr \<times> int) list" where
  "ApplicationLauncher_StatusEnum = [
     (u ''kSuccess'', 0),
     (u ''kAppNotAvailable'', 1),
     (u ''kSystemBusy'', 2),
     (u ''kPendingUserApproval'', 3),
     (u ''kDownloading'', 4),
     (u ''kInstalling'', 5),
     (u ''kUnknownEnumValue'', 6)]"

definition ApplicationLauncher_Feature :: "(pystr \<times> int) list" where
  "ApplicationLauncher_Feature = [
     (u ''kApplicationPlatform'', 1)]"

definition ApplicationLauncher_ApplicationStruct :: "dfield list" where
  "ApplicationLauncher_ApplicationStruct = [
     (u ''catalogVendorID'', 0, CUint, Value (VInt 0)),
     (u ''applicationID'', 1, CStr, Value (VStr []))]"

definition ApplicationLauncher_ApplicationEPStruct :: "dfield list" where
  "ApplicationLauncher_ApplicationEPStruct = [
     (u ''application'', 0, struct_type ApplicationLauncher_ApplicationStruct, Instance ApplicationLauncher_ApplicationStruct),
     (u ''endpoint'', 1, optional CUint, Value VNone)]"

definition ApplicationLauncher_commands :: "command_class list" where
  "ApplicationLauncher_commands = [
     CommandClass (u ''LaunchApp'') 1292 0 True (Some (u ''LauncherResponse'')) False [(u ''application'', 0, optional (struct_type ApplicationLauncher_ApplicationStruct), Value VNone),
       (u ''data'', 1, optional CBytes, Value VNone)],
     CommandClass (u ''StopApp'') 1292 1 True (Some (u ''LauncherResponse'')) False [(u ''application'', 0, optional (struct_type ApplicationLauncher_ApplicationStruct), Value VNone)],
     CommandClass (u ''HideApp'') 1292 2 True (Some (u ''LauncherResponse'')) False [(u ''application'', 0, optional (struct_type ApplicationLauncher_ApplicationStruct), Value VNone)],
     CommandClass (u ''LauncherResponse'') 1292 3 False None False [(u ''status'', 0, enum_type ApplicationLauncher_StatusEnum, Value (VInt 0)),
       (u ''data'', 1, optional CBytes, Value VNone)]]"

definition ApplicationLauncher_attributes :: "attribute_class list" where
  "ApplicationLauncher_attributes = [
     AttributeClass (u ''CatalogList'') 1292 0 (optional (CList CUint)) (Value VNone),
     AttributeClass (u ''CurrentApp'') 1292 1 (optional_nullable (struct_type ApplicationLauncher_ApplicationEPStruct)) (Value VNone),
     AttributeClass (u ''GeneratedCommandList'') 1292 65528 (CList CUint) (EmptyList),
     AttributeClass (u ''AcceptedCommandList'') 1292 65529 (CList CUint) (EmptyList),
     AttributeClass (u ''AttributeList'') 1292 65531 (CList CUint) (EmptyList),
     AttributeClass (u ''FeatureMap'') 1292 65532 CUint (Value (VInt 0)),
     AttributeClass (u ''ClusterRevision'') 1292 65533 CUint (Value (VInt 0))]"

definition ApplicationLauncher_cluster :: "cluster_def" where
  "ApplicationLauncher_cluster = ClusterDef (u ''ApplicationLauncher'') 1292 [
     (u ''catalogList'', 0, optional (CList CUint), Value VNone),
     (u ''currentApp'', 1, optional_nullable (struct_type ApplicationLauncher_ApplicationEPStruct), Value VNone),
     (u ''generatedCommandList'', 65528, CList CUint, EmptyList),
     (u ''acceptedCommandList'', 65529, CList CUint, EmptyList),
     (u ''attributeList'', 65531, CList CUint, EmptyList),
     (u ''featureMap'', 65532, CUint, Value (VInt 0)),
     (u ''clusterRevision'', 65533, CUint, Value (VInt 0))]
     ApplicationLauncher_commands
     ApplicationLauncher_attributes
     []"

section \<open>AudioOutput\<close>

definition AudioOutput_OutputTypeEnum :: "(pystr \<times> int) list" where
  "AudioOutput_OutputTypeEnum = [
     (u ''kHdmi'', 0),
     (u ''kBt'', 1),
     (u ''kOptical'', 2),
     (u ''kHeadphone'', 3),
     (u ''kInternal'', 4),
     (u ''kOther'', 5),
     (u ''kUnknownEnumValue'', 6)]"

definition AudioOutput_Feature :: "(pystr \<times> int) list" where
  "AudioOutput_Feature = [
     (u ''kNameUpdates'', 1)]"

definition AudioOutput_OutputInfoStruct :: "dfield list" where
  "AudioOutput_OutputInfoStruct = [
     (u ''index'', 0, CUint, Value (VInt 0)),
     (u ''outputType'', 1, enum_type AudioOutput_OutputTypeEnum, Value (VInt 0)),
     (u ''name'', 2, CStr, Value (VStr []))]"

definition AudioOutput_commands :: "command_class list" where
  "AudioOutput_commands = [
     CommandClass (u ''SelectOutput'') 1291 0 True None False [(u ''index'', 0, CUint, Value (VInt 0))],
     CommandClass (u ''RenameOutput'') 1291 1 True None False [(u ''index'', 0, CUint, Value (VInt 0)),
       (u ''name'', 1, CStr, Value (VStr []))]]"

definition AudioOutput_attributes :: "attribute_class list" where
  "AudioOutput_attributes = [
     AttributeClass (u ''OutputList'') 1291 0 (CList (struct_type AudioOutput_OutputInfoStruct)) (EmptyList),
     AttributeClass (u ''CurrentOutput'') 1291 1 CUint (Value (VInt 0)),
     AttributeClass (u ''GeneratedCommandList'') 1291 65528 (CList CUint) (EmptyList),
     AttributeClass (u ''AcceptedCommandList'') 1291 65529 (CList CUint) (EmptyList),
     AttributeClass (u ''AttributeList'') 1291 65531 (CList CUint) (EmptyList),
     AttributeClass (u ''FeatureMap'') 1291 65532 CUint (Value (VInt 0)),
     AttributeClass (u ''ClusterRevision'') 1291 65533 CUint (Value (VInt 0))]"

definition AudioOutput_cluster :: "cluster_def" where
  "AudioOutput_cluster = ClusterDef (u ''AudioOutput'') 1291 [
     (u ''outputList'', 0, CList (struct_type AudioOutput_OutputInfoStruct), EmptyList),
     (u ''currentOutput'', 1, CUint, Value (VInt 0)),
     (u ''generatedCommandList'', 65528, CList CUint, EmptyList),
     (u ''acceptedCommandList'', 65529, CList CUint, EmptyList),
     (u ''attributeList'', 65531, CList CUint, EmptyList),
     (u ''featureMap'', 65532, CUint, Value (VInt 0)),
     (u ''clusterRevision'', 65533, CUint, Value (VInt 0))]
     AudioOutput_commands
     AudioOutput_attributes
     []"

section \<open>BasicInformation\<close>

definition BasicInformation_ProductFinishEnum :: "(pystr \<times> int) list" where
  "BasicInformation_ProductFinishEnum = [
     (u ''kOther'', 0),
     (u ''kMatte'', 1),
     (u ''kSatin'', 2),
     (u ''kPolished'', 3),
     (u ''kRugged'', 4),
     (u ''kFabric'', 5),
     (u ''kUnknownEnumValue'', 6)]"

definition BasicInformation_ColorEnum :: "(pystr \<times> int) list" where
  "BasicInformation_ColorEnum = [
     (u ''kBlack'', 0),
     (u ''kNavy'', 1),
     (u ''kGreen'', 2),
     (u ''kTeal'', 3),
     (u ''kMaroon'', 4),
     (u ''kPurple'', 5),
     (u ''kOlive'', 6),
     (u ''kGray'', 7),
     (u ''kBlue'', 8),
     (u ''kLime'', 9),
     (u ''kAqua'', 10),
     (u ''kRed'', 11),
     (u ''kFuchsia'', 12),
     (u ''kYellow'', 13),
     (u ''kWhite'', 14),
     (u ''kNickel'', 15),
     (u ''kChrome'', 16),
     (u ''kBrass'', 17),
     (u ''kCopper'', 18),
     (u ''kSilver'', 19),
     (u ''kGold'', 20),
     (u ''kUnknownEnumValue'', 21)]"

definition BasicInformation_ProductAppearanceStruct :: "dfield list" where
  "BasicInformation_ProductAppearanceStruct = [
     (u ''finish'', 0, enum_type BasicInformation_ProductFinishEnum, Value (VInt 0)),
     (u ''primaryColor'', 1, nullable (enum_type BasicInformation_ColorEnum), Value VNull)]"

definition BasicInformation_CapabilityMinimaStruct :: "dfield list" where
  "BasicInformation_CapabilityMinimaStruct = [
     (u ''caseSessionsPerFabric'', 0, CUint, Value (VInt 0)),
     (u ''subscriptionsPerFabric'', 1, CUint, Value (VInt 0)),
     (u ''simultaneousInvocationsSupported'', 2, optional CUint, Value VNone),
     (u ''simultaneousWritesSupported'', 3, optional CUint, Value VNone),
     (u ''readPathsSupported'', 4, optional CUint, Value VNone),
     (u ''subscribePathsSupported'', 5, optional CUint, Value VNone)]"

definition BasicInformation_attributes_1 :: "attribute_class list" where
  "BasicInformation_attributes_1 = [
     AttributeClass (u ''DataModelRevision'') 40 0 CUint (Value (VInt 0)),
     AttributeClass (u ''VendorName'') 40 1 CStr (Value (VStr [])),
     AttributeClass (u ''VendorID'') 40 2 CUint (Value (VInt 0)),
     AttributeClass (u ''ProductName'') 40 3 CStr (Value (VStr [])),
     AttributeClass (u ''ProductID'') 40 4 CUint (Value (VInt 0)),
     AttributeClass (u ''NodeLabel'') 40 5 CStr (Value (VStr [])),
     AttributeClass (u ''Location'') 40 6 CStr (Value (VStr [])),
     AttributeClass (u ''HardwareVersion'') 40 7 CUint (Value (VInt 0)),
     AttributeClass (u ''HardwareVersionString'') 40 8 CStr (Value (VStr []))]"

definition BasicInformation_attributes_2 :: "attribute_class list" where
  "BasicInformation_attributes_2 = [
     AttributeClass (u ''SoftwareVersion'') 40 9 CUint (Value (VInt 0)),
     AttributeClass (u ''SoftwareVersionString'') 40 10 CStr (Value (VStr [])),
     AttributeClass (u ''ManufacturingDate'') 40 11 (optional CStr) (Value VNone),
     AttributeClass (u ''PartNumber'') 40 12 (optional CStr) (Value VNone),
     AttributeClass (u ''ProductURL'') 40 13 (optional CStr) (Value VNone),
     AttributeClass (u ''ProductLabel'') 40 14 (optional CStr) (Value VNone),
     AttributeClass (u ''SerialNumber'') 40 15 (optional CStr) (Value VNone),
     AttributeClass (u ''LocalConfigDisabled'') 40 16 (optional CBool) (Value VNone),
     AttributeClass (u ''Reachable'') 40 17 (optional CBool) (Value VNone)]"

definition BasicInformation_attributes_3 :: "attribute_class list" where
  "BasicInformation_attributes_3 = [
     AttributeClass (u ''UniqueID'') 40 18 (optional CStr) (Value VNone),
     AttributeClass (u ''CapabilityMinima'') 40 19 (struct_type BasicInformation_CapabilityMinimaStruct) (Instance BasicInformation_CapabilityMinimaStruct),
     AttributeClass (u ''ProductAppearance'') 40 20 (optional (struct_type BasicInformation_ProductAppearanceStruct)) (Value VNone),
     AttributeClass (u ''SpecificationVersion'') 40 21 (optional CUint) (Value VNone),
     AttributeClass (u ''MaxPathsPerInvoke'') 40 22 (optional CUint) (Value VNone),
     AttributeClass (u ''ConfigurationVersion'') 40 24 (optional CUint) (Value VNone),
     AttributeClass (u ''GeneratedCommandList'') 40 65528 (CList CUint) (EmptyList),
     AttributeClass (u ''AcceptedCommandList'') 40 65529 (CList CUint) (EmptyList),
     AttributeClass (u ''AttributeList'') 40 65531 (CList CUint) (EmptyList)]"

definition BasicInformation_attributes_4 :: "attribute_class list" where
  "BasicInformation_attributes_4 = [
     AttributeClass (u ''FeatureMap'') 40 65532 CUint (Value (VInt 0)),
     AttributeClass (u ''ClusterRevision'') 40 65533 CUint (Value (VInt 0))]"

definition BasicInformation_events :: "event_class list" where
  "BasicInformation_events = [
     EventClass (u ''StartUp'') 40 0 [(u ''softwareVersion'', 0, CUint, Value (VInt 0))],
     EventClass (u ''ShutDown'') 40 1 [],
     EventClass (u ''Leave'') 40 2 [(u ''fabricIndex'', 0, CUint, Value (VInt 0))],
     EventClass (u ''ReachableChanged'') 40 3 [(u ''reachableNewValue'', 0, CBool, Value (VBool False))]]"

definition BasicInformation_cluster :: "cluster_def" where
  "BasicInformation_cluster = ClusterDef (u ''BasicInformation'') 40 [
     (u ''dataModelRevision'', 0, CUint, Value (VInt 0)),
     (u ''vendorName'', 1, CStr, Value (VStr [])),
     (u ''vendorID'', 2, CUint, Value (VInt 0)),
     (u ''productName'', 3, CStr, Value (VStr [])),
     (u ''productID'', 4, CUint, Value (VInt 0)),
     (u ''nodeLabel'', 5, CStr, Value (VStr [])),
     (u ''location'', 6, CStr, Value (VStr [])),
     (u ''hardwareVersion'', 7, CUint, Value (VInt 0)),
     (u ''hardwareVersionString'', 8, CStr, Value (VStr [])),
     (u ''softwareVersion'', 9, CUint, Value (VInt 0)),
     (u ''softwareVersionString'', 10, CStr, Value (VStr [])),
     (u ''manufacturingDate'', 11, optional CStr, Value VNone),
     (u ''partNumber'', 12, optional CStr, Value VNone),
     (u ''productURL'', 13, optional CStr, Value VNone),
     (u ''productLabel'', 14, optional CStr, Value VNone),
     (u ''serialNumber'', 15, optional CStr, Value VNone),
     (u ''localConfigDisabled'', 16, optional CBool, Value VNone),
     (u ''reachable'', 17, optional CBool, Value VNone),
     (u ''uniqueID'', 18, optional CStr, Value VNone),
     (u ''capabilityMinima'', 19, struct_type BasicInformation_CapabilityMinimaStruct, Instance BasicInformation_CapabilityMinimaStruct),
     (u ''productAppearance'', 20, optional (struct_type BasicInformation_ProductAppearanceStruct), Value VNone),
     (u ''specificationVersion'', 21, optional CUint, Value VNone),
     (u ''maxPathsPerInvoke'', 22, optional CUint, Value VNone),
     (u ''configurationVersion'', 24, optional CUint, Value VNone),
     (u ''generatedCommandList'', 65528, CList CUint, EmptyList),
     (u ''acceptedCommandList'', 65529, CList CUint, EmptyList),
     (u ''attributeList'', 65531, CList CUint, EmptyList),
     (u ''featureMap'', 65532, CUint, Value (VInt 0)),
     (u ''clusterRevision'', 65533, CUint, Value (VInt 0))]
     []
     (BasicInformation_attributes_1 @ BasicInformation_attributes_2 @ BasicInformation_attributes_3 @ BasicInformation_attributes_4)
     BasicInformation_events"

section \<open>Binding\<close>

definition Binding_TargetStruct :: "dfield list" where
  "Binding_TargetStruct = [
     (u ''node'', 1, optional CUint, Value VNone),
     (u ''group'', 2, optional CUint, Value VNone),
     (u ''endpoint'', 3, optional CUint, Value VNone),
     (u ''cluster'', 4, optional CUint, Value VNone),
     (u ''fabricIndex'', 254, CUint, Value (VInt 0))]"

definition Binding_attributes :: "attribute_class list" where
  "Binding_attributes = [
     AttributeClass (u ''Binding'') 30 0 (CList (struct_type Binding_TargetStruct)) (EmptyList),
     AttributeClass (u ''GeneratedCommandList'') 30 65528 (CList CUint) (EmptyList),
     AttributeClass (u ''AcceptedCommandList'') 30 65529 (CList CUint) (EmptyList),
     AttributeClass (u ''AttributeList'') 30 65531 (CList CUint) (EmptyList),
     AttributeClass (u ''FeatureMap'') 30 65532 CUint (Value (VInt 0)),
     AttributeClass (u ''ClusterRevision'') 30 65533 CUint (Value (VInt 0))]"

definition Binding_cluster :: "cluster_def" where
  "Binding_cluster = ClusterDef (u ''Binding'') 30 [
     (u ''binding'', 0, CList (struct_type Binding_TargetStruct), EmptyList),
     (u ''generatedCommandList'', 65528, CList CUint, EmptyList),
     (u ''acceptedCommandList'', 65529, CList CUint, EmptyList),
     (u ''attributeList'', 65531, CList CUint, EmptyList),
     (u ''featureMap'', 65532, CUint, Value (VInt 0)),
     (u ''clusterRevision'', 65533, CUint, Value (VInt 0))]
     []
     Binding_attributes
     []"

section \<open>BooleanState\<close>

definition BooleanState_Feature :: "(pystr \<times> int) list" where
  "BooleanState_Feature = [
     (u ''kChangeEvent'', 1)]"

definition BooleanState_attributes :: "attribute_class list" where
  "BooleanState_attributes = [
     AttributeClass (u ''StateValue'') 69 0 CBool (Value (VBool False)),
     AttributeClass (u ''GeneratedCommandList'') 69 65528 (CList CUint) (EmptyList),
     AttributeClass (u ''AcceptedCommandList'') 69 65529 (CList CUint) (EmptyList),
     AttributeClass (u ''AttributeList'') 69 65531 (CList CUint) (EmptyList),
     AttributeClass (u ''FeatureMap'') 69 65532 CUint (Value (VInt 0)),
     AttributeClass (u ''ClusterRevision'') 69 65533 CUint (Value (VInt 0))]"

definition BooleanState_events :: "event_class list" where
  "BooleanState_events = [
     EventClass (u ''StateChange'') 69 0 [(u ''stateValue'', 0, CBool, Value (VBool False))]]"

definition BooleanState_cluster :: "cluster_def" where
  "BooleanState_cluster = ClusterDef (u ''BooleanState'') 69 [
     (u ''stateValue'', 0, CBool, Value (VBool False)),
     (u ''generatedCommandList'', 65528, CList CUint, EmptyList),
     (u ''acceptedCommandList'', 65529, CList CUint, EmptyList),
     (u ''attributeList'', 65531, CList CUint, EmptyList),
     (u ''featureMap'', 65532, CUint, Value (VInt 0)),
     (u ''clusterRevision'', 65533, CUint, Value (VInt 0))]
     []
     BooleanState_attributes
     BooleanState_events"

section \<open>BooleanStateConfiguration\<close>

definition BooleanStateConfiguration_Feature :: "(pystr \<times> int) list" where
  "BooleanStateConfiguration_Feature = [
     (u ''kVisual'', 1),
     (u ''kAudible'', 2),
     (u ''kAlarmSuppress'', 4),
     (u ''kSensitivityLevel'', 8),
     (u ''kFaultEvents'', 16)]"

definition BooleanStateConfiguration_AlarmModeBitmap :: "(pystr \<times> int) list" where
  "BooleanStateConfiguration_AlarmModeBitmap = [
     (u ''kVisual'', 1),
     (u ''kAudible'', 2)]"

definition BooleanStateConfiguration_SensorFaultBitmap :: "(pystr \<times> int) list" where
  "BooleanStateConfiguration_SensorFaultBitmap = [
     (u ''kGeneralFault'', 1)]"

definition BooleanStateConfiguration_commands :: "command_class list" where
  "BooleanStateConfiguration_commands = [
     CommandClass (u ''SuppressAlarm'') 128 0 True None False [(u ''alarmsToSuppress'', 0, flag_type BooleanStateConfiguration_AlarmModeBitmap, Value (VInt 0))],
     CommandClass (u ''EnableDisableAlarm'') 128 1 True None False [(u ''alarmsToEnableDisable'', 0, flag_type BooleanStateConfiguration_AlarmModeBitmap, Value (VInt 0))]]"

definition BooleanStateConfiguration_attributes_1 :: "attribute_class list" where
  "BooleanStateConfiguration_attributes_1 = [
     AttributeClass (u ''CurrentSensitivityLevel'') 128 0 (optional CUint) (Value VNone),
     AttributeClass (u ''SupportedSensitivityLevels'') 128 1 (optional CUint) (Value VNone),
     AttributeClass (u ''DefaultSensitivityLevel'') 128 2 (optional CUint) (Value VNone),
     AttributeClass (u ''AlarmsActive'') 128 3 (optional (flag_type BooleanStateConfiguration_AlarmModeBitmap)) (Value VNone),
     AttributeClass (u ''AlarmsSuppressed'') 128 4 (optional (flag_type BooleanStateConfiguration_AlarmModeBitmap)) (Value VNone),
     AttributeClass (u ''AlarmsEnabled'') 128 5 (optional (flag_type BooleanStateConfiguration_AlarmModeBitmap)) (Value VNone),
     AttributeClass (u ''AlarmsSupported'') 128 6 (optional (flag_type BooleanStateConfiguration_AlarmModeBitmap)) (Value VNone),
     AttributeClass (u ''SensorFault'') 128 7 (optional (flag_type BooleanStateConfiguration_SensorFaultBitmap)) (Value VNone),
     AttributeClass (u ''GeneratedCommandList'') 128 65528 (CList CUint) (EmptyList)]"

definition BooleanStateConfiguration_attributes_2 :: "attribute_class list" where
  "BooleanStateConfiguration_attributes_2 = [
     AttributeClass (u ''AcceptedCommandList'') 128 65529 (CList CUint) (EmptyList),
     AttributeClass (u ''AttributeList'') 128 65531 (CList CUint) (EmptyList),
     AttributeClass (u ''FeatureMap'') 128 65532 CUint (Value (VInt 0)),
     AttributeClass (u ''ClusterRevision'') 128 65533 CUint (Value (VInt 0))]"

definition BooleanStateConfiguration_events :: "event_class list" where
  "BooleanStateConfiguration_events = [
     EventClass (u ''AlarmsStateChanged'') 128 0 [(u ''alarmsActive'', 0, flag_type BooleanStateConfiguration_AlarmModeBitmap, Value (VInt 0)),
       (u ''alarmsSuppressed'', 1, optional (flag_type BooleanStateConfiguration_AlarmModeBitmap), Value VNone)],
     EventClass (u ''SensorFault'') 128 1 [(u ''sensorFault'', 0, flag_type BooleanStateConfiguration_SensorFaultBitmap, Value (VInt 0))]]"

definition BooleanStateConfiguration_cluster :: "cluster_def" where
  "BooleanStateConfiguration_cluster = ClusterDef (u ''BooleanStateConfiguration'') 128 [
     (u ''currentSensitivityLevel'', 0, optional CUint, Value VNone),
     (u ''supportedSensitivityLevels'', 1, optional CUint, Value VNone),
     (u ''defaultSensitivityLevel'', 2, optional CUint, Value VNone),
     (u ''alarmsActive'', 3, optional (flag_type BooleanStateConfiguration_AlarmModeBitmap), Value VNone),
     (u ''alarmsSuppressed'', 4, optional (flag_type BooleanStateConfiguration_AlarmModeBitmap), Value VNone),
     (u ''alarmsEnabled'', 5, optional (flag_type BooleanStateConfiguration_AlarmModeBitmap), Value VNone),
     (u ''alarmsSupported'', 6, optional (flag_type BooleanStateConfiguration_AlarmModeBitmap), Value VNone),
     (u ''sensorFault'', 7, optional (flag_type BooleanStateConfiguration_SensorFaultBitmap), Value VNone),
     (u ''generatedCommandList'', 65528, CList CUint, EmptyList),
     (u ''acceptedCommandList'', 65529, CList CUint, EmptyList),
     (u ''attributeList'', 65531, CList CUint, EmptyList),
     (u ''featureMap'', 65532, CUint, Value (VInt 0)),
     (u ''clusterRevision'', 65533, CUint, Value (VInt 0))]
     BooleanStateConfiguration_commands
     (BooleanStateConfiguration_attributes_1 @ BooleanStateConfiguration_attributes_2)
     BooleanStateConfiguration_events"

section \<open>BridgedDeviceBasicInformation\<close>

definition BridgedDeviceBasicInformation_ProductFinishEnum :: "(pystr \<times> int) list" where
  "BridgedDeviceBasicInformation_ProductFinishEnum = [
     (u ''kOther'', 0),
     (u ''kMatte'', 1),
     (u ''kSatin'', 2),
     (u ''kPolished'', 3),
     (u ''kRugged'', 4),
     (u ''kFabric'', 5),
     (u ''kUnknownEnumValue'', 6)]"

definition BridgedDeviceBasicInformation_ColorEnum :: "(pystr \<times> int) list" where
  "BridgedDeviceBasicInformation_ColorEnum = [
     (u ''kBlack'', 0),
     (u ''kNavy'', 1),
     (u ''kGreen'', 2),
     (u ''kTeal'', 3),
     (u ''kMaroon'', 4),
     (u ''kPurple'', 5),
     (u ''kOlive'', 6),
     (u ''kGray'', 7),
     (u ''kBlue'', 8),
     (u ''kLime'', 9),
     (u ''kAqua'', 10),
     (u ''kRed'', 11),
     (u ''kFuchsia'', 12),
     (u ''kYellow'', 13),
     (u ''kWhite'', 14),
     (u ''kNickel'', 15),
     (u ''kChrome'', 16),
     (u ''kBrass'', 17),
     (u ''kCopper'', 18),
     (u ''kSilver'', 19),
     (u ''kGold'', 20),
     (u ''kUnknownEnumValue'', 21)]"

definition BridgedDeviceBasicInformation_Feature :: "(pystr \<times> int) list" where
  "BridgedDeviceBasicInformation_Feature = [
     (u ''kBridgedICDSupport'', 1048576)]"

definition BridgedDeviceBasicInformation_ProductAppearanceStruct :: "dfield list" where
  "BridgedDeviceBasicInformation_ProductAppearanceStruct = [
     (u ''finish'', 0, enum_type BridgedDeviceBasicInformation_ProductFinishEnum, Value (VInt 0)),
     (u ''primaryColor'', 1, nullable (enum_type BridgedDeviceBasicInformation_ColorEnum), Value VNull)]"

definition BridgedDeviceBasicInformation_CapabilityMinimaStruct :: "dfield list" where
  "BridgedDeviceBasicInformation_CapabilityMinimaStruct = [
     (u ''caseSessionsPerFabric'', 0, CUint, Value (VInt 0)),
     (u ''subscriptionsPerFabric'', 1, CUint, Value (VInt 0)),
     (u ''simultaneousInvocationsSupported'', 2, optional CUint, Value VNone),
     (u ''simultaneousWritesSupported'', 3, optional CUint, Value VNone),
     (u ''readPathsSupported'', 4, optional CUint, Value VNone),
     (u ''subscribePathsSupported'', 5, optional CUint, Value VNone)]"

definition BridgedDeviceBasicInformation_commands :: "command_class list" where
  "BridgedDeviceBasicInformation_commands = [
     CommandClass (u ''KeepActive'') 57 128 True None False [(u ''stayActiveDuration'', 0, CUint, Value (VInt 0)),
       (u ''timeoutMs'', 1, CUint, Value (VInt 0))]]"

definition BridgedDeviceBasicInformation_attributes_1 :: "attribute_class list" where
  "BridgedDeviceBasicInformation_attributes_1 = [
     AttributeClass (u ''DataModelRevision'') 57 0 CUint (Value (VInt 0)),
     AttributeClass (u ''VendorName'') 57 1 CStr (Value (VStr [])),
     AttributeClass (u ''VendorID'') 57 2 CUint (Value (VInt 0)),
     AttributeClass (u ''ProductName'') 57 3 CStr (Value (VStr [])),
     AttributeClass (u ''ProductID'') 57 4 CUint (Value (VInt 0)),
     AttributeClass (u ''NodeLabel'') 57 5 CStr (Value (VStr [])),
     AttributeClass (u ''Location'') 57 6 CStr (Value (VStr [])),
     AttributeClass (u ''HardwareVersion'') 57 7 CUint (Value (VInt 0)),
     AttributeClass (u ''HardwareVersionString'') 57 8 CStr (Value (VStr []))]"

definition BridgedDeviceBasicInformation_attributes_2 :: "attribute_class list" where
  "BridgedDeviceBasicInformation_attributes_2 = [
     AttributeClass (u ''SoftwareVersion'') 57 9 CUint (Value (VInt 0)),
     AttributeClass (u ''SoftwareVersionString'') 57 10 CStr (Value (VStr [])),
     AttributeClass (u ''ManufacturingDate'') 57 11 (optional CStr) (Value VNone),
     AttributeClass (u ''PartNumber'') 57 12 (optional CStr) (Value VNone),
     AttributeClass (u ''ProductURL'') 57 13 (optional CStr) (Value VNone),
     AttributeClass (u ''ProductLabel'') 57 14 (optional CStr) (Value VNone),
     AttributeClass (u ''SerialNumber'') 57 15 (optional CStr) (Value VNone),
     AttributeClass (u ''LocalConfigDisabled'') 57 16 (optional CBool) (Value VNone),
     AttributeClass (u ''Reachable'') 57 17 (optional CBool) (Value VNone)]"

definition BridgedDeviceBasicInformation_attributes_3 :: "attribute_class list" where
  "BridgedDeviceBasicInformation_attributes_3 = [
     AttributeClass (u ''UniqueID'') 57 18 (optional CStr) (Value VNone),
     AttributeClass (u ''CapabilityMinima'') 57 19 (struct_type BridgedDeviceBasicInformation_CapabilityMinimaStruct) (Instance BridgedDeviceBasicInformation_CapabilityMinimaStruct),
     AttributeClass (u ''ProductAppearance'') 57 20 (optional (struct_type BridgedDeviceBasicInformation_ProductAppearanceStruct)) (Value VNone),
     AttributeClass (u ''SpecificationVersion'') 57 21 (optional CUint) (Value VNone),
     AttributeClass (u ''MaxPathsPerInvoke'') 57 22 (optional CUint) (Value VNone),
     AttributeClass (u ''ConfigurationVersion'') 57 24 (optional CUint) (Value VNone),
     AttributeClass (u ''GeneratedCommandList'') 57 65528 (CList CUint) (EmptyList),
     AttributeClass (u ''AcceptedCommandList'') 57 65529 (CList CUint) (EmptyList),
     AttributeClass (u ''AttributeList'') 57 65531 (CList CUint) (EmptyList)]"

definition BridgedDeviceBasicInformation_attributes_4 :: "attribute_class list" where
  "BridgedDeviceBasicInformation_attributes_4 = [
     AttributeClass (u ''FeatureMap'') 57 65532 CUint (Value (VInt 0)),
     AttributeClass (u ''ClusterRevision'') 57 65533 CUint (Value (VInt 0))]"

definition BridgedDeviceBasicInformation_events :: "event_class list" where
  "BridgedDeviceBasicInformation_events = [
     EventClass (u ''StartUp'') 57 0 [(u ''softwareVersion'', 0, CUint, Value (VInt 0))],
     EventClass (u ''ShutDown'') 57 1 [],
     EventClass (u ''Leave'') 57 2 [(u ''fabricIndex'', 0, optional CUint, Value VNone)],
     EventClass (u ''ReachableChanged'') 57 3 [(u ''reachableNewValue'', 0, CBool, Value (VBool False))],
     EventClass (u ''ActiveChanged'') 57 128 [(u ''promisedActiveDuration'', 0, CUint, Value (VInt 0))]]"

definition BridgedDeviceBasicInformation_cluster :: "cluster_def" where
  "BridgedDeviceBasicInformation_cluster = ClusterDef (u ''BridgedDeviceBasicInformation'') 57 [
     (u ''dataModelRevision'', 0, CUint, Value (VInt 0)),
     (u ''vendorName'', 1, CStr, Value (VStr [])),
     (u ''vendorID'', 2, CUint, Value (VInt 0)),
     (u ''productName'', 3, CStr, Value (VStr [])),
     (u ''productID'', 4, CUint, Value (VInt 0)),
     (u ''nodeLabel'', 5, CStr, Value (VStr [])),
     (u ''location'', 6, CStr, Value (VStr [])),
     (u ''hardwareVersion'', 7, CUint, Value (VInt 0)),
     (u ''hardwareVersionString'', 8, CStr, Value (VStr [])),
     (u ''softwareVersion'', 9, CUint, Value (VInt 0)),
     (u ''softwareVersionString'', 10, CStr, Value (VStr [])),
     (u ''manufacturingDate'', 11, optional CStr, Value VNone),
     (u ''partNumber'', 12, optional CStr, Value VNone),
     (u ''productURL'', 13, optional CStr, Value VNone),
     (u ''productLabel'', 14, optional CStr, Value VNone),
     (u ''serialNumber'', 15, optional CStr, Value VNone),
     (u ''localConfigDisabled'', 16, optional CBool, Value VNone),
     (u ''reachable'', 17, optional CBool, Value VNone),
     (u ''uniqueID'', 18, optional CStr, Value VNone),
     (u ''capabilityMinima'', 19, struct_type BridgedDeviceBasicInformation_CapabilityMinimaStruct, Instance BridgedDeviceBasicInformation_CapabilityMinimaStruct),
     (u ''productAppearance'', 20, optional (struct_type BridgedDeviceBasicInformation_ProductAppearanceStruct), Value VNone),
     (u ''specificationVersion'', 21, optional CUint, Value VNone),
     (u ''maxPathsPerInvoke'', 22, optional CUint, Value VNone),
     (u ''configurationVersion'', 24, optional CUint, Value VNone),
     (u ''generatedCommandList'', 65528, CList CUint, EmptyList),
     (u ''acceptedCommandList'', 65529, CList CUint, EmptyList),
     (u ''attributeList'', 65531, CList CUint, EmptyList),
     (u ''featureMap'', 65532, CUint, Value (VInt 0)),
     (u ''clusterRevision'', 65533, CUint, Value (VInt 0))]
     BridgedDeviceBasicInformation_commands
     (BridgedDeviceBasicInformation_attributes_1 @ BridgedDeviceBasicInformation_attributes_2 @ BridgedDeviceBasicInformation_attributes_3 @ BridgedDeviceBasicInformation_attributes_4)
     BridgedDeviceBasicInformation_events"

section \<open>Consistency\<close>

lemma AccessControl_members_ok [simp]: "members_ok AccessControl_AccessControlTargetStruct"
    "members_ok AccessControl_AccessControlEntryStruct"
    "members_ok AccessControl_AccessControlExtensionStruct"
    "members_ok AccessControl_AccessRestrictionStruct"
    "members_ok AccessControl_AccessRestrictionEntryStruct"
    "members_ok AccessControl_CommissioningAccessRestrictionEntryStruct"
  by (simp_all add: class_simps AccessControl_AccessControlTargetStruct_def
    AccessControl_AccessControlEntryStruct_def
    AccessControl_AccessControlExtensionStruct_def
    AccessControl_AccessRestrictionStruct_def
    AccessControl_AccessRestrictionEntryStruct_def
    AccessControl_CommissioningAccessRestrictionEntryStruct_def del: u_simps)

lemma AccessControl_cluster_ok: "cluster_ok AccessControl_cluster" "cd_id AccessControl_cluster = 31"
  by (simp_all add: class_simps AccessControl_commands_def
    AccessControl_attributes_1_def
    AccessControl_attributes_2_def
    AccessControl_events_def
    AccessControl_cluster_def del: u_simps)

lemma AccountLogin_cluster_ok: "cluster_ok AccountLogin_cluster" "cd_id AccountLogin_cluster = 1294"
  by (simp_all add: class_simps AccountLogin_commands_def
    AccountLogin_attributes_def
    AccountLogin_events_def
    AccountLogin_cluster_def del: u_simps)

lemma Actions_members_ok [simp]: "members_ok Actions_ActionStruct"
    "members_ok Actions_EndpointListStruct"
  by (simp_all add: class_simps Actions_ActionStruct_def
    Actions_EndpointListStruct_def del: u_simps)

lemma Actions_cluster_ok: "cluster_ok Actions_cluster" "cd_id Actions_cluster = 37"
  by (simp_all add: class_simps Actions_commands_1_def
    Actions_commands_2_def
    Actions_attributes_def
    Actions_events_def
    Actions_cluster_def del: u_simps)

lemma ActivatedCarbonFilterMonitoring_members_ok [simp]: "members_ok ActivatedCarbonFilterMonitoring_ReplacementProductStruct"
  by (simp_all add: class_simps ActivatedCarbonFilterMonitoring_ReplacementProductStruct_def del: u_simps)

lemma ActivatedCarbonFilterMonitoring_cluster_ok: "cluster_ok ActivatedCarbonFilterMonitoring_cluster" "cd_id ActivatedCarbonFilterMonitoring_cluster = 114"
  by (simp_all add: class_simps ActivatedCarbonFilterMonitoring_commands_def
    ActivatedCarbonFilterMonitoring_attributes_1_def
    ActivatedCarbonFilterMonitoring_attributes_2_def
    ActivatedCarbonFilterMonitoring_cluster_def del: u_simps)

lemma AdministratorCommissioning_cluster_ok: "cluster_ok AdministratorCommissioning_cluster" "cd_id AdministratorCommissioning_cluster = 60"
  by (simp_all add: class_simps AdministratorCommissioning_commands_def
    AdministratorCommissioning_attributes_def
    AdministratorCommissioning_cluster_def del: u_simps)

lemma AirQuality_cluster_ok: "cluster_ok AirQuality_cluster" "cd_id AirQuality_cluster = 91"
  by (simp_all add: class_simps AirQuality_attributes_def
    AirQuality_cluster_def del: u_simps)

lemma AmbientContextSensing_members_ok [simp]: "members_ok AmbientContextSensing_HoldTimeLimitsStruct"
    "members_ok AmbientContextSensing_AmbientContextTypeStruct"
    "members_ok AmbientContextSensing_ObjectCountConfigStruct"
    "members_ok AmbientContextSensing_PredictedActivityStruct"
  by (simp_all add: class_simps AmbientContextSensing_HoldTimeLimitsStruct_def
    AmbientContextSensing_AmbientContextTypeStruct_def
    AmbientContextSensing_ObjectCountConfigStruct_def
    AmbientContextSensing_PredictedActivityStruct_def del: u_simps)

lemma AmbientContextSensing_cluster_ok: "cluster_ok AmbientContextSensing_cluster" "cd_id AmbientContextSensing_cluster = 1073"
  by (simp_all add: class_simps AmbientContextSensing_attributes_1_def
    AmbientContextSensing_attributes_2_def
    AmbientContextSensing_events_def
    AmbientContextSensing_cluster_def del: u_simps)

lemma ApplicationBasic_members_ok [simp]: "members_ok ApplicationBasic_ApplicationStruct"
  by (simp_all add: class_simps ApplicationBasic_ApplicationStruct_def del: u_simps)

lemma ApplicationBasic_cluster_ok: "cluster_ok ApplicationBasic_cluster" "cd_id ApplicationBasic_cluster = 1293"
  by (simp_all add: class_simps ApplicationBasic_attributes_1_def
    ApplicationBasic_attributes_2_def
    ApplicationBasic_cluster_def del: u_simps)

lemma ApplicationLauncher_members_ok [simp]: "members_ok ApplicationLauncher_ApplicationStruct"
    "members_ok ApplicationLauncher_ApplicationEPStruct"
  by (simp_all add: class_simps ApplicationLauncher_ApplicationStruct_def
    ApplicationLauncher_ApplicationEPStruct_def del: u_simps)

lemma ApplicationLauncher_cluster_ok: "cluster_ok ApplicationLauncher_cluster" "cd_id ApplicationLauncher_cluster = 1292"
  by (simp_all add: class_simps ApplicationLauncher_commands_def
    ApplicationLauncher_attributes_def
    ApplicationLauncher_cluster_def del: u_simps)

lemma AudioOutput_members_ok [simp]: "members_ok AudioOutput_OutputInfoStruct"
  by (simp_all add: class_simps AudioOutput_OutputInfoStruct_def del: u_simps)

lemma AudioOutput_cluster_ok: "cluster_ok AudioOutput_cluster" "cd_id AudioOutput_cluster = 1291"
  by (simp_all add: class_simps AudioOutput_commands_def
    AudioOutput_attributes_def
    AudioOutput_cluster_def del: u_simps)

lemma BasicInformation_members_ok [simp]: "members_ok BasicInformation_ProductAppearanceStruct"
    "members_ok BasicInformation_CapabilityMinimaStruct"
  by (simp_all add: class_simps BasicInformation_ProductAppearanceStruct_def
    BasicInformation_CapabilityMinimaStruct_def del: u_simps)

lemma BasicInformation_cluster_ok: "cluster_ok BasicInformation_cluster" "cd_id BasicInformation_cluster = 40"
  by (simp_all add: class_simps BasicInformation_attributes_1_def
    BasicInformation_attributes_2_def
    BasicInformation_attributes_3_def
    BasicInformation_attributes_4_def
    BasicInformation_events_def
    BasicInformation_cluster_def del: u_simps)

lemma Binding_members_ok [simp]: "members_ok Binding_TargetStruct"
  by (simp_all add: class_simps Binding_TargetStruct_def del: u_simps)

lemma Binding_cluster_ok: "cluster_ok Binding_cluster" "cd_id Binding_cluster = 30"
  by (simp_all add: class_simps Binding_attributes_def
    Binding_cluster_def del: u_simps)

lemma BooleanState_cluster_ok: "cluster_ok BooleanState_cluster" "cd_id BooleanState_cluster = 69"
  by (simp_all add: class_simps BooleanState_attributes_def
    BooleanState_events_def
    BooleanState_cluster_def del: u_simps)

lemma BooleanStateConfiguration_cluster_ok: "cluster_ok BooleanStateConfiguration_cluster" "cd_id BooleanStateConfiguration_cluster = 128"
  by (simp_all add: class_simps BooleanStateConfiguration_commands_def
    BooleanStateConfiguration_attributes_1_def
    BooleanStateConfiguration_attributes_2_def
    BooleanStateConfiguration_events_def
    BooleanStateConfiguration_cluster_def del: u_simps)

lemma BridgedDeviceBasicInformation_members_ok [simp]: "members_ok BridgedDeviceBasicInformation_ProductAppearanceStruct"
    "members_ok BridgedDeviceBasicInformation_CapabilityMinimaStruct"
  by (simp_all add: class_simps BridgedDeviceBasicInformation_ProductAppearanceStruct_def
    BridgedDeviceBasicInformation_CapabilityMinimaStruct_def del: u_simps)

lemma BridgedDeviceBasicInformation_cluster_ok: "cluster_ok BridgedDeviceBasicInformation_cluster" "cd_id BridgedDeviceBasicInformation_cluster = 57"
  by (simp_all add: class_simps BridgedDeviceBasicInformation_commands_def
    BridgedDeviceBasicInformation_attributes_1_def
    BridgedDeviceBasicInformation_attributes_2_def
    BridgedDeviceBasicInformation_attributes_3_def
    BridgedDeviceBasicInformation_attributes_4_def
    BridgedDeviceBasicInformation_events_def
    BridgedDeviceBasicInformation_cluster_def del: u_simps)

end
