(* ===== verification/Clusters_CameraAvSettingsUserLevelManagement.thy ===== *)
theory Clusters_CameraAvSettingsUserLevelManagement
  imports Clusters_Base
begin

text \<open>
  The generated files \<open>CameraAvSettingsUserLevelManagement.py\<close> to \<open>ClosureDimension.py\<close> of \<open>chip/clusters/cluster_defs/\<close>, in the form of
  \<open>Clusters_Base\<close>.
\<close>

section \<open>CameraAvSettingsUserLevelManagement\<close>

definition CameraAvSettingsUserLevelManagement_PhysicalMovementEnum :: "(pystr \<times> int) list" where
  "CameraAvSettingsUserLevelManagement_PhysicalMovementEnum = [
     (u ''kIdle'', 0),
     (u ''kMoving'', 1),
     (u ''kUnknownEnumValue'', 2)]"

definition CameraAvSettingsUserLevelManagement_Feature :: "(pystr \<times> int) list" where
  "CameraAvSettingsUserLevelManagement_Feature = [
     (u ''kDigitalPtz'', 1),
     (u ''kMechanicalPan'', 2),
     (u ''kMechanicalTilt'', 4),
     (u ''kMechanicalZoom'', 8),
     (u ''kMechanicalPresets'', 16)]"

definition CameraAvSettingsUserLevelManagement_DPTZStruct :: "dfield list" where
  "CameraAvSettingsUserLevelManagement_DPTZStruct = [
     (u ''videoStreamID'', 0, CUint, Value (VInt 0)),
     (u ''viewport'', 1, struct_type Globals_ViewportStruct, Instance Globals_ViewportStruct)]"

definition CameraAvSettingsUserLevelManagement_MPTZStruct :: "dfield list" where
  "CameraAvSettingsUserLevelManagement_MPTZStruct = [
     (u ''pan'', 0, optional CInt, Value VNone),
     (u ''tilt'', 1, optional CInt, Value VNone),
     (u ''zoom'', 2, optional CUint, Value VNone)]"

definition CameraAvSettingsUserLevelManagement_MPTZPresetStruct :: "dfield list" where
  "CameraAvSettingsUserLevelManagement_MPTZPresetStruct = [
     (u ''presetID'', 0, CUint, Value (VInt 0)),
     (u ''name'', 1, CStr, Value (VStr [])),
     (u ''settings'', 2, struct_type CameraAvSettingsUserLevelManagement_MPTZStruct, Instance CameraAvSettingsUserLevelManagement_MPTZStruct)]"

definition CameraAvSettingsUserLevelManagement_commands :: "command_class list" where
  "CameraAvSettingsUserLevelManagement_commands = [
     CommandClass (u ''MptzSetPosition'') 1362 0 True None False [(u ''pan'', 0, optional CInt, Value VNone),
       (u ''tilt'', 1, optional CInt, Value VNone),
       (u ''zoom'', 2, optional CUint, Value VNone)],
     CommandClass (u ''MptzRelativeMove'') 1362 1 True None False [(u ''panDelta'', 0, optional CInt, Value VNone),
       (u ''tiltDelta'', 1, optional CInt, Value VNone),
       (u ''zoomDelta'', 2, optional CInt, Value VNone)],
     CommandClass (u ''MptzMoveToPreset'') 1362 2 True None False [(u ''presetID'', 0, CUint, Value (VInt 0))],
     CommandClass (u ''MptzSavePreset'') 1362 3 True None False [(u ''presetID'', 0, optional CUint, Value VNone),
       (u ''name'', 1, CStr, Value (VStr []))],
     CommandClass (u ''MptzRemovePreset'') 1362 4 True None False [(u ''presetID'', 0, CUint, Value (VInt 0))],
     CommandClass (u ''DptzSetViewport'') 1362 5 True None False [(u ''videoStreamID'', 0, CUint, Value (VInt 0)),
       (u ''viewport'', 1, struct_type Globals_ViewportStruct, Instance Globals_ViewportStruct)],
     CommandClass (u ''DptzRelativeMove'') 1362 6 True None False [(u ''videoStreamID'', 0, CUint, Value (VInt 0)),
       (u ''deltaX'', 1, optional CInt, Value VNone),
       (u ''deltaY'', 2, optional CInt, Value VNone),
       (u ''zoomDelta'', 3, optional CInt, Value VNone)]]"

definition CameraAvSettingsUserLevelManagement_attributes_1 :: "attribute_class list" where
  "CameraAvSettingsUserLevelManagement_attributes_1 = [
     AttributeClass (u ''MptzPosition'') 1362 0 (optional (struct_type CameraAvSettingsUserLevelManagement_MPTZStruct)) (Value VNone),
     AttributeClass (u ''MaxPresets'') 1362 1 (optional CUint) (Value VNone),
     AttributeClass (u ''MptzPresets'') 1362 2 (optional (CList (struct_type CameraAvSettingsUserLevelManagement_MPTZPresetStruct))) (Value VNone),
     AttributeClass (u ''DptzStreams'') 1362 3 (optional (CList (struct_type CameraAvSettingsUserLevelManagement_DPTZStruct))) (Value VNone),
     AttributeClass (u ''ZoomMax'') 1362 4 (optional CUint) (Value VNone),
     AttributeClass (u ''TiltMin'') 1362 5 (optional CInt) (Value VNone),
     AttributeClass (u ''TiltMax'') 1362 6 (optional CInt) (Value VNone),
     AttributeClass (u ''PanMin'') 1362 7 (optional CInt) (Value VNone),
     AttributeClass (u ''PanMax'') 1362 8 (optional CInt) (Value VNone)]"

definition CameraAvSettingsUserLevelManagement_attributes_2 :: "attribute_class list" where
  "CameraAvSettingsUserLevelManagement_attributes_2 = [
     AttributeClass (u ''MovementState'') 1362 9 (optional (enum_type CameraAvSettingsUserLevelManagement_PhysicalMovementEnum)) (Value VNone),
     AttributeClass (u ''GeneratedCommandList'') 1362 65528 (CList CUint) (EmptyList),
     AttributeClass (u ''AcceptedCommandList'') 1362 65529 (CList CUint) (EmptyList),
     AttributeClass (u ''AttributeList'') 1362 65531 (CList CUint) (EmptyList),
     AttributeClass (u ''FeatureMap'') 1362 65532 CUint (Value (VInt 0)),
     AttributeClass (u ''ClusterRevision'') 1362 65533 CUint (Value (VInt 0))]"

definition CameraAvSettingsUserLevelManagement_cluster :: "cluster_def" where
  "CameraAvSettingsUserLevelManagement_cluster = ClusterDef (u ''CameraAvSettingsUserLevelManagement'') 1362 [
     (u ''mptzPosition'', 0, optional (struct_type CameraAvSettingsUserLevelManagement_MPTZStruct), Value VNone),
     (u ''maxPresets'', 1, optional CUint, Value VNone),
     (u ''mptzPresets'', 2, optional (CList (struct_type CameraAvSettingsUserLevelManagement_MPTZPresetStruct)), Value VNone),
     (u ''dptzStreams'', 3, optional (CList (struct_type CameraAvSettingsUserLevelManagement_DPTZStruct)), Value VNone),
     (u ''zoomMax'', 4, optional CUint, Value VNone),
     (u ''tiltMin'', 5, optional CInt, Value VNone),
     (u ''tiltMax'', 6, optional CInt, Value VNone),
     (u ''panMin'', 7, optional CInt, Value VNone),
     (u ''panMax'', 8, optional CInt, Value VNone),
     (u ''movementState'', 9, optional (enum_type CameraAvSettingsUserLevelManagement_PhysicalMovementEnum), Value VNone),
     (u ''generatedCommandList'', 65528, CList CUint, EmptyList),
     (u ''acceptedCommandList'', 65529, CList CUint, EmptyList),
     (u ''attributeList'', 65531, CList CUint, EmptyList),
     (u ''featureMap'', 65532, CUint, Value (VInt 0)),
     (u ''clusterRevision'', 65533, CUint, Value (VInt 0))]
     CameraAvSettingsUserLevelManagement_commands
     (CameraAvSettingsUserLevelManagement_attributes_1 @ CameraAvSettingsUserLevelManagement_attributes_2)
     []"

section \<open>CameraAvStreamManagement\<close>

definition CameraAvStreamManagement_VideoCodecEnum :: "(pystr \<times> int) list" where
  "CameraAvStreamManagement_VideoCodecEnum = [
     (u ''kH264'', 0),
     (u ''kHevc'', 1),
     (u ''kVvc'', 2),
     (u ''kAv1'', 3),
     (u ''kUnknownEnumValue'', 4)]"

definition CameraAvStreamManagement_AudioCodecEnum :: "(pystr \<times> int) list" where
  "CameraAvStreamManagement_AudioCodecEnum = [
     (u ''kOpus'', 0),
     (u ''kAacLc'', 1),
     (u ''kUnknownEnumValue'', 2)]"

definition CameraAvStreamManagement_ImageCodecEnum :: "(pystr \<times> int) list" where
  "CameraAvStreamManagement_ImageCodecEnum = [
     (u ''kJpeg'', 0),
     (u ''kHeic'', 1),
     (u ''kUnknownEnumValue'', 2)]"

definition CameraAvStreamManagement_TwoWayTalkSupportTypeEnum :: "(pystr \<times> int) list" where
  "CameraAvStreamManagement_TwoWayTalkSupportTypeEnum = [
     (u ''kNotSupported'', 0),
     (u ''kHalfDuplex'', 1),
     (u ''kFullDuplex'', 2),
     (u ''kUnknownEnumValue'', 3)]"

definition CameraAvStreamManagement_TriStateAutoEnum :: "(pystr \<times> int) list" where
  "CameraAvStreamManagement_TriStateAutoEnum = [
     (u ''kOff'', 0),
     (u ''kOn'', 1),
     (u ''kAuto'', 2),
     (u ''kUnknownEnumValue'', 3)]"

definition CameraAvStreamManagement_Feature :: "(pystr \<times> int) list" where
  "CameraAvStreamManagement_Feature = [
     (u ''kAudio'', 1),
     (u ''kVideo'', 2),
     (u ''kSnapshot'', 4),
     (u ''kPrivacy'', 8),
     (u ''kSpeaker'', 16),
     (u ''kImageControl'', 32),
     (u ''kWatermark'', 64),
     (u ''kOnScreenDisplay'', 128),
     (u ''kLocalStorage'', 256),
     (u ''kHighDynamicRange'', 512),
     (u ''kNightVision'', 1024)]"

definition CameraAvStreamManagement_VideoSensorParamsStruct :: "dfield list" where
  "CameraAvStreamManagement_VideoSensorParamsStruct = [
     (u ''sensorWidth'', 0, CUint, Value (VInt 0)),
     (u ''sensorHeight'', 1, CUint, Value (VInt 0)),
     (u ''maxFps'', 2, CUint, Value (VInt 0)),
     (u ''maxHdrfps'', 3, optional CUint, Value VNone)]"

definition CameraAvStreamManagement_VideoResolutionStruct :: "dfield list" where
  "CameraAvStreamManagement_VideoResolutionStruct = [
     (u ''width'', 0, CUint, Value (VInt 0)),
     (u ''height'', 1, CUint, Value (VInt 0))]"

definition CameraAvStreamManagement_RateDistortionTradeOffPointsStruct :: "dfield list" where
  "CameraAvStreamManagement_RateDistortionTradeOffPointsStruct = [
     (u ''codec'', 0, enum_type CameraAvStreamManagement_VideoCodecEnum, Value (VInt 0)),
     (u ''resolution'', 1, struct_type CameraAvStreamManagement_VideoResolutionStruct, Instance CameraAvStreamManagement_VideoResolutionStruct),
     (u ''minBitRate'', 2, CUint, Value (VInt 0))]"

definition CameraAvStreamManagement_SnapshotCapabilitiesStruct :: "dfield list" where
  "CameraAvStreamManagement_SnapshotCapabilitiesStruct = [
     (u ''resolution'', 0, struct_type CameraAvStreamManagement_VideoResolutionStruct, Instance CameraAvStreamManagement_VideoResolutionStruct),
     (u ''maxFrameRate'', 1, CUint, Value (VInt 0)),
     (u ''imageCodec'', 2, enum_type CameraAvStreamManagement_ImageCodecEnum, Value (VInt 0)),
     (u ''requiresEncodedPixels'', 3, CBool, Value (VBool False)),
     (u ''requiresHardwareEncoder'', 4, optional CBool, Value VNone)]"

definition CameraAvStreamManagement_AudioCapabilitiesStruct :: "dfield list" where
  "CameraAvStreamManagement_AudioCapabilitiesStruct = [
     (u ''maxNumberOfChannels'', 0, CUint, Value (VInt 0)),
     (u ''supportedCodecs'', 1, CList (enum_type CameraAvStreamManagement_AudioCodecEnum), EmptyList),
     (u ''supportedSampleRates'', 2, CList CUint, EmptyList),
     (u ''supportedBitDepths'', 3, CList CUint, EmptyList)]"

definition CameraAvStreamManagement_VideoStreamStruct :: "dfield list" where
  "CameraAvStreamManagement_VideoStreamStruct = [
     (u ''videoStreamID'', 0, CUint, Value (VInt 0)),
     (u ''streamUsage'', 1, enum_type Globals_StreamUsageEnum, Value (VInt 0)),
     (u ''videoCodec'', 2, enum_type CameraAvStreamManagement_VideoCodecEnum, Value (VInt 0)),
     (u ''minFrameRate'', 3, CUint, Value (VInt 0)),
     (u ''maxFrameRate'', 4, CUint, Value (VInt 0)),
     (u ''minResolution'', 5, struct_type CameraAvStreamManagement_VideoResolutionStruct, Instance CameraAvStreamManagement_VideoResolutionStruct),
     (u ''maxResolution'', 6, struct_type CameraAvStreamManagement_VideoResolutionStruct, Instance CameraAvStreamManagement_VideoResolutionStruct),
     (u ''minBitRate'', 7, CUint, Value (VInt 0)),
     (u ''maxBitRate'', 8, CUint, Value (VInt 0)),
     (u ''keyFrameInterval'', 9, CUint, Value (VInt 0)),
     (u ''watermarkEnabled'', 10, optional CBool, Value VNone),
     (u ''osdEnabled'', 11, optional CBool, Value VNone),
     (u ''referenceCount'', 12, CUint, Value (VInt 0))]"

definition CameraAvStreamManagement_AudioStreamStruct :: "dfield list" where
  "CameraAvStreamManagement_AudioStreamStruct = [
     (u ''audioStreamID'', 0, CUint, Value (VInt 0)),
     (u ''streamUsage'', 1, enum_type Globals_StreamUsageEnum, Value (VInt 0)),
     (u ''audioCodec'', 2, enum_type CameraAvStreamManagement_AudioCodecEnum, Value (VInt 0)),
     (u ''channelCount'', 3, CUint, Value (VInt 0)),
     (u ''sampleRate'', 4, CUint, Value (VInt 0)),
     (u ''bitRate'', 5, CUint, Value (VInt 0)),
     (u ''bitDepth'', 6, CUint, Value (VInt 0)),
     (u ''referenceCount'', 7, CUint, Value (VInt 0))]"

definition CameraAvStreamManagement_SnapshotStreamStruct :: "dfield list" where
  "CameraAvStreamManagement_SnapshotStreamStruct = [
     (u ''snapshotStreamID'', 0, CUint, Value (VInt 0)),
     (u ''imageCodec'', 1, enum_type CameraAvStreamManagement_ImageCodecEnum, Value (VInt 0)),
     (u ''frameRate'', 2, CUint, Value (VInt 0)),
     (u ''minResolution'', 3, struct_type CameraAvStreamManagement_VideoResolutionStruct, Instance CameraAvStreamManagement_VideoResolutionStruct),
     (u ''maxResolution'', 4, struct_type CameraAvStreamManagement_VideoResolutionStruct, Instance CameraAvStreamManagement_VideoResolutionStruct),
     (u ''quality'', 5, CUint, Value (VInt 0)),
     (u ''referenceCount'', 6, CUint, Value (VInt 0)),
     (u ''encodedPixels'', 7, CBool, Value (VBool False)),
     (u ''hardwareEncoder'', 8, CBool, Value (VBool False)),
     (u ''watermarkEnabled'', 9, optional CBool, Value VNone),
     (u ''osdEnabled'', 10, optional CBool, Value VNone)]"

definition CameraAvStreamManagement_AVMetadataStruct :: "dfield list" where
  "CameraAvStreamManagement_AVMetadataStruct = [
     (u ''UTCTime'', 1, nullable CUint, Value VNull),
     (u ''motionZonesActive'', 2, optional (CList CUint), Value VNone),
     (u ''blackAndWhiteActive'', 3, optional CBool, Value VNone),
     (u ''userDefined'', 4, optional CBytes, Value VNone)]"

definition CameraAvStreamManagement_commands_1 :: "command_class list" where
  "CameraAvStreamManagement_commands_1 = [
     CommandClass (u ''AudioStreamAllocate'') 1361 0 True (Some (u ''AudioStreamAllocateResponse'')) False [(u ''streamUsage'', 0, enum_type Globals_StreamUsageEnum, Value (VInt 0)),
       (u ''audioCodec'', 1, enum_type CameraAvStreamManagement_AudioCodecEnum, Value (VInt 0)),
       (u ''channelCount'', 2, CUint, Value (VInt 0)),
       (u ''sampleRate'', 3, CUint, Value (VInt 0)),
       (u ''bitRate'', 4, CUint, Value (VInt 0)),
       (u ''bitDepth'', 5, CUint, Value (VInt 0))],
     CommandClass (u ''AudioStreamDeallocate'') 1361 2 True None False [(u ''audioStreamID'', 0, CUint, Value (VInt 0))],
     CommandClass (u ''VideoStreamAllocate'') 1361 3 True (Some (u ''VideoStreamAllocateResponse'')) False [(u ''streamUsage'', 0, enum_type Globals_StreamUsageEnum, Value (VInt 0)),
       (u ''videoCodec'', 1, enum_type CameraAvStreamManagement_VideoCodecEnum, Value (VInt 0)),
       (u ''minFrameRate'', 2, CUint, Value (VInt 0)),
       (u ''maxFrameRate'', 3, CUint, Value (VInt 0)),
       (u ''minResolution'', 4, struct_type CameraAvStreamManagement_VideoResolutionStruct, Instance CameraAvStreamManagement_VideoResolutionStruct),
       (u ''maxResolution'', 5, struct_type CameraAvStreamManagement_VideoResolutionStruct, Instance CameraAvStreamManagement_VideoResolutionStruct),
       (u ''minBitRate'', 6, CUint, Value (VInt 0)),
       (u ''maxBitRate'', 7, CUint, Value (VInt 0)),
       (u ''keyFrameInterval'', 8, CUint, Value (VInt 0)),
       (u ''watermarkEnabled'', 9, optional CBool, Value VNone),
       (u ''osdEnabled'', 10, optional CBool, Value VNone)],
     CommandClass (u ''VideoStreamModify'') 1361 5 True None False [(u ''videoStreamID'', 0, CUint, Value (VInt 0)),
       (u ''watermarkEnabled'', 1, optional CBool, Value VNone),
       (u ''osdEnabled'', 2, optional CBool, Value VNone)],
     CommandClass (u ''VideoStreamDeallocate'') 1361 6 True None False [(u ''videoStreamID'', 0, CUint, Value (VInt 0))],
     CommandClass (u ''SnapshotStreamAllocate'') 1361 7 True (Some (u ''SnapshotStreamAllocateResponse'')) False [(u ''imageCodec'', 0, enum_type CameraAvStreamManagement_ImageCodecEnum, Value (VInt 0)),
       (u ''maxFrameRate'', 1, CUint, Value (VInt 0)),
       (u ''minResolution'', 2, struct_type CameraAvStreamManagement_VideoResolutionStruct, Instance CameraAvStreamManagement_VideoResolutionStruct),
       (u ''maxResolution'', 3, struct_type CameraAvStreamManagement_VideoResolutionStruct, Instance CameraAvStreamManagement_VideoResolutionStruct),
       (u ''quality'', 4, CUint, Value (VInt 0)),
       (u ''watermarkEnabled'', 5, optional CBool, Value VNone),
       (u ''osdEnabled'', 6, optional CBool, Value VNone)]]"

definition CameraAvStreamManagement_commands_2 :: "command_class list" where
  "CameraAvStreamManagement_commands_2 = [
     CommandClass (u ''SnapshotStreamModify'') 1361 9 True None False [(u ''snapshotStreamID'', 0, CUint, Value (VInt 0)),
       (u ''watermarkEnabled'', 1, optional CBool, Value VNone),
       (u ''osdEnabled'', 2, optional CBool, Value VNone)],
     CommandClass (u ''SnapshotStreamDeallocate'') 1361 10 True None False [(u ''snapshotStreamID'', 0, CUint, Value (VInt 0))],
     CommandClass (u ''SetStreamPriorities'') 1361 11 True None False [(u ''streamPriorities'', 0, CList (enum_type Globals_StreamUsageEnum), EmptyList)],
     CommandClass (u ''CaptureSnapshot'') 1361 12 True (Some (u ''CaptureSnapshotResponse'')) False [(u ''snapshotStreamID'', 0, nullable CUint, Value VNull),
       (u ''requestedResolution'', 1, struct_type CameraAvStreamManagement_VideoResolutionStruct, Instance CameraAvStreamManagement_VideoResolutionStruct)],
     CommandClass (u ''AudioStreamAllocateResponse'') 1361 1 False None False [(u ''audioStreamID'', 0, CUint, Value (VInt 0))],
     CommandClass (u ''VideoStreamAllocateResponse'') 1361 4 False None False [(u ''videoStreamID'', 0, CUint, Value (VInt 0))],
     CommandClass (u ''SnapshotStreamAllocateResponse'') 1361 8 False None False [(u ''snapshotStreamID'', 0, CUint, Value (VInt 0))],
     CommandClass (u ''CaptureSnapshotResponse'') 1361 13 False None False [(u ''data'', 0, CBytes, Value (VBytes [])),
       (u ''imageCodec'', 1, enum_type CameraAvStreamManagement_ImageCodecEnum, Value (VInt 0)),
       (u ''resolution'', 2, struct_type CameraAvStreamManagement_VideoResolutionStruct, Instance CameraAvStreamManagement_VideoResolutionStruct)]]"

definition CameraAvStreamManagement_attributes_1 :: "attribute_class list" where
  "CameraAvStreamManagement_attributes_1 = [
     AttributeClass (u ''MaxConcurrentEncoders'') 1361 0 (optional CUint) (Value VNone),
     AttributeClass (u ''MaxEncodedPixelRate'') 1361 1 (optional CUint) (Value VNone),
     AttributeClass (u ''VideoSensorParams'') 1361 2 (optional (struct_type CameraAvStreamManagement_VideoSensorParamsStruct)) (Value VNone),
     AttributeClass (u ''NightVisionUsesInfrared'') 1361 3 (optional CBool) (Value VNone),
     AttributeClass (u ''MinViewportResolution'') 1361 4 (optional (struct_type CameraAvStreamManagement_VideoResolutionStruct)) (Value VNone),
     AttributeClass (u ''RateDistortionTradeOffPoints'') 1361 5 (optional (CList (struct_type CameraAvStreamManagement_RateDistortionTradeOffPointsStruct))) (Value VNone),
     AttributeClass (u ''MaxContentBufferSize'') 1361 6 CUint (Value (VInt 0)),
     AttributeClass (u ''MicrophoneCapabilities'') 1361 7 (optional (struct_type CameraAvStreamManagement_AudioCapabilitiesStruct)) (Value VNone),
     AttributeClass (u ''SpeakerCapabilities'') 1361 8 (optional (struct_type CameraAvStreamManagement_AudioCapabilitiesStruct)) (Value VNone)]"

definition CameraAvStreamManagement_attributes_2 :: "attribute_class list" where
  "CameraAvStreamManagement_attributes_2 = [
     AttributeClass (u ''TwoWayTalkSupport'') 1361 9 (optional (enum_type CameraAvStreamManagement_TwoWayTalkSupportTypeEnum)) (Value VNone),
     AttributeClass (u ''SnapshotCapabilities'') 1361 10 (optional (CList (struct_type CameraAvStreamManagement_SnapshotCapabilitiesStruct))) (Value VNone),
     AttributeClass (u ''MaxNetworkBandwidth'') 1361 11 CUint (Value (VInt 0)),
     AttributeClass (u ''CurrentFrameRate'') 1361 12 (optional CUint) (Value VNone),
     AttributeClass (u ''HdrModeEnabled'') 1361 13 (optional CBool) (Value VNone),
     AttributeClass (u ''SupportedStreamUsages'') 1361 14 (CList (enum_type Globals_StreamUsageEnum)) (EmptyList),
     AttributeClass (u ''AllocatedVideoStreams'') 1361 15 (optional (CList (struct_type CameraAvStreamManagement_VideoStreamStruct))) (Value VNone),
     AttributeClass (u ''AllocatedAudioStreams'') 1361 16 (optional (CList (struct_type CameraAvStreamManagement_AudioStreamStruct))) (Value VNone),
     AttributeClass (u ''AllocatedSnapshotStreams'') 1361 17 (optional (CList (struct_type CameraAvStreamManagement_SnapshotStreamStruct))) (Value VNone)]"

definition CameraAvStreamManagement_attributes_3 :: "attribute_class list" where
  "CameraAvStreamManagement_attributes_3 = [
     AttributeClass (u ''StreamUsagePriorities'') 1361 18 (CList (enum_type Globals_StreamUsageEnum)) (EmptyList),
     AttributeClass (u ''SoftRecordingPrivacyModeEnabled'') 1361 19 (optional CBool) (Value VNone),
     AttributeClass (u ''SoftLivestreamPrivacyModeEnabled'') 1361 20 (optional CBool) (Value VNone),
     AttributeClass (u ''HardPrivacyModeOn'') 1361 21 (optional CBool) (Value VNone),
     AttributeClass (u ''NightVision'') 1361 22 (optional (enum_type CameraAvStreamManagement_TriStateAutoEnum)) (Value VNone),
     AttributeClass (u ''NightVisionIllum'') 1361 23 (optional (enum_type CameraAvStreamManagement_TriStateAutoEnum)) (Value VNone),
     AttributeClass (u ''Viewport'') 1361 24 (optional (struct_type Globals_ViewportStruct)) (Value VNone),
     AttributeClass (u ''SpeakerMuted'') 1361 25 (optional CBool) (Value VNone),
     AttributeClass (u ''SpeakerVolumeLevel'') 1361 26 (optional CUint) (Value VNone)]"

definition CameraAvStreamManagement_attributes_4 :: "attribute_class list" where
  "CameraAvStreamManagement_attributes_4 = [
     AttributeClass (u ''SpeakerMaxLevel'') 1361 27 (optional CUint) (Value VNone),
     AttributeClass (u ''SpeakerMinLevel'') 1361 28 (optional CUint) (Value VNone),
     AttributeClass (u ''MicrophoneMuted'') 1361 29 (optional CBool) (Value VNone),
     AttributeClass (u ''MicrophoneVolumeLevel'') 1361 30 (optional CUint) (Value VNone),
     AttributeClass (u ''MicrophoneMaxLevel'') 1361 31 (optional CUint) (Value VNone),
     AttributeClass (u ''MicrophoneMinLevel'') 1361 32 (optional CUint) (Value VNone),
     AttributeClass (u ''MicrophoneAgcEnabled'') 1361 33 (optional CBool) (Value VNone),
     AttributeClass (u ''ImageRotation'') 1361 34 (optional CUint) (Value VNone),
     AttributeClass (u ''ImageFlipHorizontal'') 1361 35 (optional CBool) (Value VNone)]"

definition CameraAvStreamManagement_attributes_5 :: "attribute_class list" where
  "CameraAvStreamManagement_attributes_5 = [
     AttributeClass (u ''ImageFlipVertical'') 1361 36 (optional CBool) (Value VNone),
     AttributeClass (u ''LocalVideoRecordingEnabled'') 1361 37 (optional CBool) (Value VNone),
     AttributeClass (u ''LocalSnapshotRecordingEnabled'') 1361 38 (optional CBool) (Value VNone),
     AttributeClass (u ''StatusLightEnabled'') 1361 39 (optional CBool) (Value VNone),
     AttributeClass (u ''StatusLightBrightness'') 1361 40 (optional (enum_type Globals_ThreeLevelAutoEnum)) (Value VNone),
     AttributeClass (u ''ImageRotationDiscreteAngles'') 1361 41 (optional CUint) (Value VNone),
     AttributeClass (u ''GeneratedCommandList'') 1361 65528 (CList CUint) (EmptyList),
     AttributeClass (u ''AcceptedCommandList'') 1361 65529 (CList CUint) (EmptyList),
     AttributeClass (u ''AttributeList'') 1361 65531 (CList CUint) (EmptyList)]"

definition CameraAvStreamManagement_attributes_6 :: "attribute_class list" where
  "CameraAvStreamManagement_attributes_6 = [
     AttributeClass (u ''FeatureMap'') 1361 65532 CUint (Value (VInt 0)),
     AttributeClass (u ''ClusterRevision'') 1361 65533 CUint (Value (VInt 0))]"

definition CameraAvStreamManagement_cluster :: "cluster_def" where
  "CameraAvStreamManagement_cluster = ClusterDef (u ''CameraAvStreamManagement'') 1361 [
     (u ''maxConcurrentEncoders'', 0, optional CUint, Value VNone),
     (u ''maxEncodedPixelRate'', 1, optional CUint, Value VNone),
     (u ''videoSensorParams'', 2, optional (struct_type CameraAvStreamManagement_VideoSensorParamsStruct), Value VNone),
     (u ''nightVisionUsesInfrared'', 3, optional CBool, Value VNone),
     (u ''minViewportResolution'', 4, optional (struct_type CameraAvStreamManagement_VideoResolutionStruct), Value VNone),
     (u ''rateDistortionTradeOffPoints'', 5, optional (CList (struct_type CameraAvStreamManagement_RateDistortionTradeOffPointsStruct)), Value VNone),
     (u ''maxContentBufferSize'', 6, CUint, Value (VInt 0)),
     (u ''microphoneCapabilities'', 7, optional (struct_type CameraAvStreamManagement_AudioCapabilitiesStruct), Value VNone),
     (u ''speakerCapabilities'', 8, optional (struct_type CameraAvStreamManagement_AudioCapabilitiesStruct), Value VNone),
     (u ''twoWayTalkSupport'', 9, optional (enum_type CameraAvStreamManagement_TwoWayTalkSupportTypeEnum), Value VNone),
     (u ''snapshotCapabilities'', 10, optional (CList (struct_type CameraAvStreamManagement_SnapshotCapabilitiesStruct)), Value VNone),
     (u ''maxNetworkBandwidth'', 11, CUint, Value (VInt 0)),
     (u ''currentFrameRate'', 12, optional CUint, Value VNone),
     (u ''hdrModeEnabled'', 13, optional CBool, Value VNone),
     (u ''supportedStreamUsages'', 14, CList (enum_type Globals_StreamUsageEnum), EmptyList),
     (u ''allocatedVideoStreams'', 15, optional (CList (struct_type CameraAvStreamManagement_VideoStreamStruct)), Value VNone),
     (u ''allocatedAudioStreams'', 16, optional (CList (struct_type CameraAvStreamManagement_AudioStreamStruct)), Value VNone),
     (u ''allocatedSnapshotStreams'', 17, optional (CList (struct_type CameraAvStreamManagement_SnapshotStreamStruct)), Value VNone),
     (u ''streamUsagePriorities'', 18, CList (enum_type Globals_StreamUsageEnum), EmptyList),
     (u ''softRecordingPrivacyModeEnabled'', 19, optional CBool, Value VNone),
     (u ''softLivestreamPrivacyModeEnabled'', 20, optional CBool, Value VNone),
     (u ''hardPrivacyModeOn'', 21, optional CBool, Value VNone),
     (u ''nightVision'', 22, optional (enum_type CameraAvStreamManagement_TriStateAutoEnum), Value VNone),
     (u ''nightVisionIllum'', 23, optional (enum_type CameraAvStreamManagement_TriStateAutoEnum), Value VNone),
     (u ''viewport'', 24, optional (struct_type Globals_ViewportStruct), Value VNone),
     (u ''speakerMuted'', 25, optional CBool, Value VNone),
     (u ''speakerVolumeLevel'', 26, optional CUint, Value VNone),
     (u ''speakerMaxLevel'', 27, optional CUint, Value VNone),
     (u ''speakerMinLevel'', 28, optional CUint, Value VNone),
     (u ''microphoneMuted'', 29, optional CBool, Value VNone),
     (u ''microphoneVolumeLevel'', 30, optional CUint, Value VNone),
     (u ''microphoneMaxLevel'', 31, optional CUint, Value VNone),
     (u ''microphoneMinLevel'', 32, optional CUint, Value VNone),
     (u ''microphoneAgcEnabled'', 33, optional CBool, Value VNone),
     (u ''imageRotation'', 34, optional CUint, Value VNone),
     (u ''imageFlipHorizontal'', 35, optional CBool, Value VNone),
     (u ''imageFlipVertical'', 36, optional CBool, Value VNone),
     (u ''localVideoRecordingEnabled'', 37, optional CBool, Value VNone),
     (u ''localSnapshotRecordingEnabled'', 38, optional CBool, Value VNone),
     (u ''statusLightEnabled'', 39, optional CBool, Value VNone),
     (u ''statusLightBrightness'', 40, optional (enum_type Globals_ThreeLevelAutoEnum), Value VNone),
     (u ''imageRotationDiscreteAngles'', 41, optional CUint, Value VNone),
     (u ''generatedCommandList'', 65528, CList CUint, EmptyList),
     (u ''acceptedCommandList'', 65529, CList CUint, EmptyList),
     (u ''attributeList'', 65531, CList CUint, EmptyList),
     (u ''featureMap'', 65532, CUint, Value (VInt 0)),
     (u ''clusterRevision'', 65533, CUint, Value (VInt 0))]
     (CameraAvStreamManagement_commands_1 @ CameraAvStreamManagement_commands_2)
     (CameraAvStreamManagement_attributes_1 @ CameraAvStreamManagement_attributes_2 @ CameraAvStreamManagement_attributes_3 @ CameraAvStreamManagement_attributes_4 @ CameraAvStreamManagement_attributes_5 @ CameraAvStreamManagement_attributes_6)
     []"

section \<open>CarbonDioxideConcentrationMeasurement\<close>

definition CarbonDioxideConcentrationMeasurement_MeasurementUnitEnum :: "(pystr \<times> int) list" where
  "CarbonDioxideConcentrationMeasurement_MeasurementUnitEnum = [
     (u ''kPpm'', 0),
     (u ''kPpb'', 1),
     (u ''kPpt'', 2),
     (u ''kMgm3'', 3),
     (u ''kUgm3'', 4),
     (u ''kNgm3'', 5),
     (u ''kPm3'', 6),
     (u ''kBqm3'', 7),
     (u ''kUnknownEnumValue'', 8)]"

definition CarbonDioxideConcentrationMeasurement_MeasurementMediumEnum :: "(pystr \<times> int) list" where
  "CarbonDioxideConcentrationMeasurement_MeasurementMediumEnum = [
     (u ''kAir'', 0),
     (u ''kWater'', 1),
     (u ''kSoil'', 2),
     (u ''kUnknownEnumValue'', 3)]"

definition CarbonDioxideConcentrationMeasurement_LevelValueEnum :: "(pystr \<times> int) list" where
  "CarbonDioxideConcentrationMeasurement_LevelValueEnum = [
     (u ''kUnknown'', 0),
     (u ''kLow'', 1),
     (u ''kMedium'', 2),
     (u ''kHigh'', 3),
     (u ''kCritical'', 4),
     (u ''kUnknownEnumValue'', 5)]"

definition CarbonDioxideConcentrationMeasurement_Feature :: "(pystr \<times> int) list" where
  "CarbonDioxideConcentrationMeasurement_Feature = [
     (u ''kNumericMeasurement'', 1),
     (u ''kLevelIndication'', 2),
     (u ''kMediumLevel'', 4),
     (u ''kCriticalLevel'', 8),
     (u ''kPeakMeasurement'', 16),
     (u ''kAverageMeasurement'', 32)]"

definition CarbonDioxideConcentrationMeasurement_attributes_1 :: "attribute_class list" where
  "CarbonDioxideConcentrationMeasurement_attributes_1 = [
     AttributeClass (u ''MeasuredValue'') 1037 0 (optional_nullable CFloat32) (Value VNone),
     AttributeClass (u ''MinMeasuredValue'') 1037 1 (optional_nullable CFloat32) (Value VNone),
     AttributeClass (u ''MaxMeasuredValue'') 1037 2 (optional_nullable CFloat32) (Value VNone),
     AttributeClass (u ''PeakMeasuredValue'') 1037 3 (optional_nullable CFloat32) (Value VNone),
     AttributeClass (u ''PeakMeasuredValueWindow'') 1037 4 (optional CUint) (Value VNone),
     AttributeClass (u ''AverageMeasuredValue'') 1037 5 (optional_nullable CFloat32) (Value VNone),
     AttributeClass (u ''AverageMeasuredValueWindow'') 1037 6 (optional CUint) (Value VNone),
     AttributeClass (u ''Uncertainty'') 1037 7 (optional CFloat32) (Value VNone),
     AttributeClass (u ''MeasurementUnit'') 1037 8 (optional (enum_type CarbonDioxideConcentrationMeasurement_MeasurementUnitEnum)) (Value VNone)]"

definition CarbonDioxideConcentrationMeasurement_attributes_2 :: "attribute_class list" where
  "CarbonDioxideConcentrationMeasurement_attributes_2 = [
     AttributeClass (u ''MeasurementMedium'') 1037 9 (enum_type CarbonDioxideConcentrationMeasurement_MeasurementMediumEnum) (Value (VInt 0)),
     AttributeClass (u ''LevelValue'') 1037 10 (optional (enum_type CarbonDioxideConcentrationMeasurement_LevelValueEnum)) (Value VNone),
     AttributeClass (u ''GeneratedCommandList'') 1037 65528 (CList CUint) (EmptyList),
     AttributeClass (u ''AcceptedCommandList'') 1037 65529 (CList CUint) (EmptyList),
     AttributeClass (u ''AttributeList'') 1037 65531 (CList CUint) (EmptyList),
     AttributeClass (u ''FeatureMap'') 1037 65532 CUint (Value (VInt 0)),
     AttributeClass (u ''ClusterRevision'') 1037 65533 CUint (Value (VInt 0))]"

definition CarbonDioxideConcentrationMeasurement_cluster :: "cluster_def" where
  "CarbonDioxideConcentrationMeasurement_cluster = ClusterDef (u ''CarbonDioxideConcentrationMeasurement'') 1037 [
     (u ''measuredValue'', 0, optional_nullable CFloat32, Value VNone),
     (u ''minMeasuredValue'', 1, optional_nullable CFloat32, Value VNone),
     (u ''maxMeasuredValue'', 2, optional_nullable CFloat32, Value VNone),
     (u ''peakMeasuredValue'', 3, optional_nullable CFloat32, Value VNone),
     (u ''peakMeasuredValueWindow'', 4, optional CUint, Value VNone),
     (u ''averageMeasuredValue'', 5, optional_nullable CFloat32, Value VNone),
     (u ''averageMeasuredValueWindow'', 6, optional CUint, Value VNone),
     (u ''uncertainty'', 7, optional CFloat32, Value VNone),
     (u ''measurementUnit'', 8, optional (enum_type CarbonDioxideConcentrationMeasurement_MeasurementUnitEnum), Value VNone),
     (u ''measurementMedium'', 9, enum_type CarbonDioxideConcentrationMeasurement_MeasurementMediumEnum, Value (VInt 0)),
     (u ''levelValue'', 10, optional (enum_type CarbonDioxideConcentrationMeasurement_LevelValueEnum), Value VNone),
     (u ''generatedCommandList'', 65528, CList CUint, EmptyList),
     (u ''acceptedCommandList'', 65529, CList CUint, EmptyList),
     (u ''attributeList'', 65531, CList CUint, EmptyList),
     (u ''featureMap'', 65532, CUint, Value (VInt 0)),
     (u ''clusterRevision'', 65533, CUint, Value (VInt 0))]
     []
     (CarbonDioxideConcentrationMeasurement_attributes_1 @ CarbonDioxideConcentrationMeasurement_attributes_2)
     []"

section \<open>CarbonMonoxideConcentrationMeasurement\<close>

definition CarbonMonoxideConcentrationMeasurement_MeasurementUnitEnum :: "(pystr \<times> int) list" where
  "CarbonMonoxideConcentrationMeasurement_MeasurementUnitEnum = [
     (u ''kPpm'', 0),
     (u ''kPpb'', 1),
     (u ''kPpt'', 2),
     (u ''kMgm3'', 3),
     (u ''kUgm3'', 4),
     (u ''kNgm3'', 5),
     (u ''kPm3'', 6),
     (u ''kBqm3'', 7),
     (u ''kUnknownEnumValue'', 8)]"

definition CarbonMonoxideConcentrationMeasurement_MeasurementMediumEnum :: "(pystr \<times> int) list" where
  "CarbonMonoxideConcentrationMeasurement_MeasurementMediumEnum = [
     (u ''kAir'', 0),
     (u ''kWater'', 1),
     (u ''kSoil'', 2),
     (u ''kUnknownEnumValue'', 3)]"

definition CarbonMonoxideConcentrationMeasurement_LevelValueEnum :: "(pystr \<times> int) list" where
  "CarbonMonoxideConcentrationMeasurement_LevelValueEnum = [
     (u ''kUnknown'', 0),
     (u ''kLow'', 1),
     (u ''kMedium'', 2),
     (u ''kHigh'', 3),
     (u ''kCritical'', 4),
     (u ''kUnknownEnumValue'', 5)]"

definition CarbonMonoxideConcentrationMeasurement_Feature :: "(pystr \<times> int) list" where
  "CarbonMonoxideConcentrationMeasurement_Feature = [
     (u ''kNumericMeasurement'', 1),
     (u ''kLevelIndication'', 2),
     (u ''kMediumLevel'', 4),
     (u ''kCriticalLevel'', 8),
     (u ''kPeakMeasurement'', 16),
     (u ''kAverageMeasurement'', 32)]"

definition CarbonMonoxideConcentrationMeasurement_attributes_1 :: "attribute_class list" where
  "CarbonMonoxideConcentrationMeasurement_attributes_1 = [
     AttributeClass (u ''MeasuredValue'') 1036 0 (optional_nullable CFloat32) (Value VNone),
     AttributeClass (u ''MinMeasuredValue'') 1036 1 (optional_nullable CFloat32) (Value VNone),
     AttributeClass (u ''MaxMeasuredValue'') 1036 2 (optional_nullable CFloat32) (Value VNone),
     AttributeClass (u ''PeakMeasuredValue'') 1036 3 (optional_nullable CFloat32) (Value VNone),
     AttributeClass (u ''PeakMeasuredValueWindow'') 1036 4 (optional CUint) (Value VNone),
     AttributeClass (u ''AverageMeasuredValue'') 1036 5 (optional_nullable CFloat32) (Value VNone),
     AttributeClass (u ''AverageMeasuredValueWindow'') 1036 6 (optional CUint) (Value VNone),
     AttributeClass (u ''Uncertainty'') 1036 7 (optional CFloat32) (Value VNone),
     AttributeClass (u ''MeasurementUnit'') 1036 8 (optional (enum_type CarbonMonoxideConcentrationMeasurement_MeasurementUnitEnum)) (Value VNone)]"

definition CarbonMonoxideConcentrationMeasurement_attributes_2 :: "attribute_class list" where
  "CarbonMonoxideConcentrationMeasurement_attributes_2 = [
     AttributeClass (u ''MeasurementMedium'') 1036 9 (enum_type CarbonMonoxideConcentrationMeasurement_MeasurementMediumEnum) (Value (VInt 0)),
     AttributeClass (u ''LevelValue'') 1036 10 (optional (enum_type CarbonMonoxideConcentrationMeasurement_LevelValueEnum)) (Value VNone),
     AttributeClass (u ''GeneratedCommandList'') 1036 65528 (CList CUint) (EmptyList),
     AttributeClass (u ''AcceptedCommandList'') 1036 65529 (CList CUint) (EmptyList),
     AttributeClass (u ''AttributeList'') 1036 65531 (CList CUint) (EmptyList),
     AttributeClass (u ''FeatureMap'') 1036 65532 CUint (Value (VInt 0)),
     AttributeClass (u ''ClusterRevision'') 1036 65533 CUint (Value (VInt 0))]"

definition CarbonMonoxideConcentrationMeasurement_cluster :: "cluster_def" where
  "CarbonMonoxideConcentrationMeasurement_cluster = ClusterDef (u ''CarbonMonoxideConcentrationMeasurement'') 1036 [
     (u ''measuredValue'', 0, optional_nullable CFloat32, Value VNone),
     (u ''minMeasuredValue'', 1, optional_nullable CFloat32, Value VNone),
     (u ''maxMeasuredValue'', 2, optional_nullable CFloat32, Value VNone),
     (u ''peakMeasuredValue'', 3, optional_nullable CFloat32, Value VNone),
     (u ''peakMeasuredValueWindow'', 4, optional CUint, Value VNone),
     (u ''averageMeasuredValue'', 5, optional_nullable CFloat32, Value VNone),
     (u ''averageMeasuredValueWindow'', 6, optional CUint, Value VNone),
     (u ''uncertainty'', 7, optional CFloat32, Value VNone),
     (u ''measurementUnit'', 8, optional (enum_type CarbonMonoxideConcentrationMeasurement_MeasurementUnitEnum), Value VNone),
     (u ''measurementMedium'', 9, enum_type CarbonMonoxideConcentrationMeasurement_MeasurementMediumEnum, Value (VInt 0)),
     (u ''levelValue'', 10, optional (enum_type CarbonMonoxideConcentrationMeasurement_LevelValueEnum), Value VNone),
     (u ''generatedCommandList'', 65528, CList CUint, EmptyList),
     (u ''acceptedCommandList'', 65529, CList CUint, EmptyList),
     (u ''attributeList'', 65531, CList CUint, EmptyList),
     (u ''featureMap'', 65532, CUint, Value (VInt 0)),
     (u ''clusterRevision'', 65533, CUint, Value (VInt 0))]
     []
     (CarbonMonoxideConcentrationMeasurement_attributes_1 @ CarbonMonoxideConcentrationMeasurement_attributes_2)
     []"

section \<open>Channel\<close>

definition Channel_LineupInfoTypeEnum :: "(pystr \<times> int) list" where
  "Channel_LineupInfoTypeEnum = [
     (u ''kMso'', 0),
     (u ''kUnknownEnumValue'', 1)]"

definition Channel_StatusEnum :: "(pystr \<times> int) list" where
  "Channel_StatusEnum = [
     (u ''kSuccess'', 0),
     (u ''kMultipleMatches'', 1),
     (u ''kNoMatches'', 2),
     (u ''kUnknownEnumValue'', 3)]"

definition Channel_ChannelTypeEnum :: "(pystr \<times> int) list" where
  "Channel_ChannelTypeEnum = [
     (u ''kSatellite'', 0),
     (u ''kCable'', 1),
     (u ''kTerrestrial'', 2),
     (u ''kOtt'', 3),
     (u ''kUnknownEnumValue'', 4)]"

definition Channel_Feature :: "(pystr \<times> int) list" where
  "Channel_Feature = [
     (u ''kChannelList'', 1),
     (u ''kLineupInfo'', 2),
     (u ''kElectronicGuide'', 4),
     (u ''kRecordProgram'', 8)]"

definition Channel_RecordingFlagBitmap :: "(pystr \<times> int) list" where
  "Channel_RecordingFlagBitmap = [
     (u ''kScheduled'', 1),
     (u ''kRecordSeries'', 2),
     (u ''kRecorded'', 4)]"

definition Channel_ChannelInfoStruct :: "dfield list" where
  "Channel_ChannelInfoStruct = [
     (u ''majorNumber'', 0, CUint, Value (VInt 0)),
     (u ''minorNumber'', 1, CUint, Value (VInt 0)),
     (u ''name'', 2, optional CStr, Value VNone),
     (u ''callSign'', 3, optional CStr, Value VNone),
     (u ''affiliateCallSign'', 4, optional CStr, Value VNone),
     (u ''identifier'', 5, optional CStr, Value VNone),
     (u ''type'', 6, optional (enum_type Channel_ChannelTypeEnum), Value VNone)]"

definition Channel_LineupInfoStruct :: "dfield list" where
  "Channel_LineupInfoStruct = [
     (u ''operatorName'', 0, CStr, Value (VStr [])),
     (u ''lineupName'', 1, optional CStr, Value VNone),
     (u ''postalCode'', 2, optional CStr, Value VNone),
     (u ''lineupInfoType'', 3, enum_type Channel_LineupInfoTypeEnum, Value (VInt 0))]"

definition Channel_ProgramCategoryStruct :: "dfield list" where
  "Channel_ProgramCategoryStruct = [
     (u ''category'', 0, CStr, Value (VStr [])),
     (u ''subCategory'', 1, optional CStr, Value VNone)]"

definition Channel_SeriesInfoStruct :: "dfield list" where
  "Channel_SeriesInfoStruct = [
     (u ''season'', 0, CStr, Value (VStr [])),
     (u ''episode'', 1, CStr, Value (VStr []))]"

definition Channel_ProgramCastStruct :: "dfield list" where
  "Channel_ProgramCastStruct = [
     (u ''name'', 0, CStr, Value (VStr [])),
     (u ''role'', 1, CStr, Value (VStr []))]"

definition Channel_ProgramStruct :: "dfield list" where
  "Channel_ProgramStruct = [
     (u ''identifier'', 0, CStr, Value (VStr [])),
     (u ''channel'', 1, struct_type Channel_ChannelInfoStruct, Instance Channel_ChannelInfoStruct),
     (u ''startTime'', 2, CUint, Value (VInt 0)),
     (u ''endTime'', 3, CUint, Value (VInt 0)),
     (u ''title'', 4, CStr, Value (VStr [])),
     (u ''subtitle'', 5, optional CStr, Value VNone),
     (u ''description'', 6, optional CStr, Value VNone),
     (u ''audioLanguages'', 7, optional (CList CStr), Value VNone),
     (u ''ratings'', 8, optional (CList CStr), Value VNone),
     (u ''thumbnailUrl'', 9, optional CStr, Value VNone),
     (u ''posterArtUrl'', 10, optional CStr, Value VNone),
     (u ''dvbiUrl'', 11, optional CStr, Value VNone),
     (u ''releaseDate'', 12, optional CStr, Value VNone),
     (u ''parentalGuidanceText'', 13, optional CStr, Value VNone),
     (u ''recordingFlag'', 14, optional (flag_type Channel_RecordingFlagBitmap), Value VNone),
     (u ''seriesInfo'', 15, optional_nullable (struct_type Channel_SeriesInfoStruct), Value VNone),
     (u ''categoryList'', 16, optional (CList (struct_type Channel_ProgramCategoryStruct)), Value VNone),
     (u ''castList'', 17, optional (CList (struct_type Channel_ProgramCastStruct)), Value VNone),
     (u ''externalIDList'', 18, optional (CList (struct_type ContentLauncher_AdditionalInfoStruct)), Value VNone)]"

definition Channel_PageTokenStruct :: "dfield list" where
  "Channel_PageTokenStruct = [
     (u ''limit'', 0, optional CUint, Value VNone),
     (u ''after'', 1, optional CStr, Value VNone),
     (u ''before'', 2, optional CStr, Value VNone)]"

definition Channel_ChannelPagingStruct :: "dfield list" where
  "Channel_ChannelPagingStruct = [
     (u ''previousToken'', 0, optional_nullable (struct_type Channel_PageTokenStruct), Value VNone),
     (u ''nextToken'', 1, optional_nullable (struct_type Channel_PageTokenStruct), Value VNone)]"

definition Channel_commands_1 :: "command_class list" where
  "Channel_commands_1 = [
     CommandClass (u ''ChangeChannel'') 1284 0 True (Some (u ''ChangeChannelResponse'')) False [(u ''match'', 0, CStr, Value (VStr []))],
     CommandClass (u ''ChangeChannelByNumber'') 1284 2 True None False [(u ''majorNumber'', 0, CUint, Value (VInt 0)),
       (u ''minorNumber'', 1, CUint, Value (VInt 0))],
     CommandClass (u ''SkipChannel'') 1284 3 True None False [(u ''count'', 0, CInt, Value (VInt 0))],
     CommandClass (u ''GetProgramGuide'') 1284 4 True (Some (u ''ProgramGuideResponse'')) False [(u ''startTime'', 0, CUint, Value (VInt 0)),
       (u ''endTime'', 1, CUint, Value (VInt 0)),
       (u ''channelList'', 2, optional (CList (struct_type Channel_ChannelInfoStruct)), Value VNone),
       (u ''pageToken'', 3, optional_nullable (struct_type Channel_PageTokenStruct), Value VNone),
       (u ''recordingFlag'', 5, optional_nullable (flag_type Channel_RecordingFlagBitmap), Value VNone),
       (u ''externalIDList'', 6, optional (CList (struct_type ContentLauncher_AdditionalInfoStruct)), Value VNone),
       (u ''data'', 7, optional CBytes, Value VNone)],
     CommandClass (u ''RecordProgram'') 1284 6 True None False [(u ''programIdentifier'', 0, CStr, Value (VStr [])),
       (u ''shouldRecordSeries'', 1, CBool, Value (VBool False)),
       (u ''externalIDList'', 2, optional (CList (struct_type ContentLauncher_AdditionalInfoStruct)), Value VNone),
       (u ''data'', 3, optional CBytes, Value VNone)],
     CommandClass (u ''CancelRecordProgram'') 1284 7 True None False [(u ''programIdentifier'', 0, CStr, Value (VStr [])),
       (u ''shouldRecordSeries'', 1, CBool, Value (VBool False)),
       (u ''externalIDList'', 2, optional (CList (struct_type ContentLauncher_AdditionalInfoStruct)), Value VNone),
       (u ''data'', 3, optional CBytes, Value VNone)],
     CommandClass (u ''ChangeChannelResponse'') 1284 1 False None False [(u ''status'', 0, enum_type Channel_StatusEnum, Value (VInt 0)),
       (u ''data'', 1, optional CStr, Value VNone)]]"

definition Channel_commands_2 :: "command_class list" where
  "Channel_commands_2 = [
     CommandClass (u ''ProgramGuideResponse'') 1284 5 False None False [(u ''paging'', 0, struct_type Channel_ChannelPagingStruct, Instance Channel_ChannelPagingStruct),
       (u ''programList'', 1, CList (struct_type Channel_ProgramStruct), EmptyList)]]"

definition Channel_attributes :: "attribute_class list" where
  "Channel_attributes = [
     AttributeClass (u ''ChannelList'') 1284 0 (optional (CList (struct_type Channel_ChannelInfoStruct))) (Value VNone),
     AttributeClass (u ''Lineup'') 1284 1 (optional_nullable (struct_type Channel_LineupInfoStruct)) (Value VNone),
     AttributeClass (u ''CurrentChannel'') 1284 2 (optional_nullable (struct_type Channel_ChannelInfoStruct)) (Value VNone),
     AttributeClass (u ''GeneratedCommandList'') 1284 65528 (CList CUint) (EmptyList),
     AttributeClass (u ''AcceptedCommandList'') 1284 65529 (CList CUint) (EmptyList),
     AttributeClass (u ''AttributeList'') 1284 65531 (CList CUint) (EmptyList),
     AttributeClass (u ''FeatureMap'') 1284 65532 CUint (Value (VInt 0)),
     AttributeClass (u ''ClusterRevision'') 1284 65533 CUint (Value (VInt 0))]"

definition Channel_cluster :: "cluster_def" where
  "Channel_cluster = ClusterDef (u ''Channel'') 1284 [
     (u ''channelList'', 0, optional (CList (struct_type Channel_ChannelInfoStruct)), Value VNone),
     (u ''lineup'', 1, optional_nullable (struct_type Channel_LineupInfoStruct), Value VNone),
     (u ''currentChannel'', 2, optional_nullable (struct_type Channel_ChannelInfoStruct), Value VNone),
     (u ''generatedCommandList'', 65528, CList CUint, EmptyList),
     (u ''acceptedCommandList'', 65529, CList CUint, EmptyList),
     (u ''attributeList'', 65531, CList CUint, EmptyList),
     (u ''featureMap'', 65532, CUint, Value (VInt 0)),
     (u ''clusterRevision'', 65533, CUint, Value (VInt 0))]
     (Channel_commands_1 @ Channel_commands_2)
     Channel_attributes
     []"

section \<open>Chime\<close>

definition Chime_ChimeSoundStruct :: "dfield list" where
  "Chime_ChimeSoundStruct = [
     (u ''chimeID'', 0, CUint, Value (VInt 0)),
     (u ''name'', 1, CStr, Value (VStr []))]"

definition Chime_commands :: "command_class list" where
  "Chime_commands = [
     CommandClass (u ''PlayChimeSound'') 1366 0 True None False [(u ''chimeID'', 0, optional CUint, Value VNone)]]"

definition Chime_attributes :: "attribute_class list" where
  "Chime_attributes = [
     AttributeClass (u ''InstalledChimeSounds'') 1366 0 (CList (struct_type Chime_ChimeSoundStruct)) (EmptyList),
     AttributeClass (u ''SelectedChime'') 1366 1 CUint (Value (VInt 0)),
     AttributeClass (u ''Enabled'') 1366 2 CBool (Value (VBool False)),
     AttributeClass (u ''GeneratedCommandList'') 1366 65528 (CList CUint) (EmptyList),
     AttributeClass (u ''AcceptedCommandList'') 1366 65529 (CList CUint) (EmptyList),
     AttributeClass (u ''AttributeList'') 1366 65531 (CList CUint) (EmptyList),
     AttributeClass (u ''FeatureMap'') 1366 65532 CUint (Value (VInt 0)),
     AttributeClass (u ''ClusterRevision'') 1366 65533 CUint (Value (VInt 0))]"

definition Chime_events :: "event_class list" where
  "Chime_events = [
     EventClass (u ''ChimeStartedPlaying'') 1366 0 [(u ''chimeID'', 0, CUint, Value (VInt 0))]]"

definition Chime_cluster :: "cluster_def" where
  "Chime_cluster = ClusterDef (u ''Chime'') 1366 [
     (u ''installedChimeSounds'', 0, CList (struct_type Chime_ChimeSoundStruct), EmptyList),
     (u ''selectedChime'', 1, CUint, Value (VInt 0)),
     (u ''enabled'', 2, CBool, Value (VBool False)),
     (u ''generatedCommandList'', 65528, CList CUint, EmptyList),
     (u ''acceptedCommandList'', 65529, CList CUint, EmptyList),
     (u ''attributeList'', 65531, CList CUint, EmptyList),
     (u ''featureMap'', 65532, CUint, Value (VInt 0)),
     (u ''clusterRevision'', 65533, CUint, Value (VInt 0))]
     Chime_commands
     Chime_attributes
     Chime_events"

section \<open>ClosureControl\<close>

definition ClosureControl_CurrentPositionEnum :: "(pystr \<times> int) list" where
  "ClosureControl_CurrentPositionEnum = [
     (u ''kFullyClosed'', 0),
     (u ''kFullyOpened'', 1),
     (u ''kPartiallyOpened'', 2),
     (u ''kOpenedForPedestrian'', 3),
     (u ''kOpenedForVentilation'', 4),
     (u ''kOpenedAtSignature'', 5),
     (u ''kUnknownEnumValue'', 6)]"

definition ClosureControl_TargetPositionEnum :: "(pystr \<times> int) list" where
  "ClosureControl_TargetPositionEnum = [
     (u ''kMoveToFullyClosed'', 0),
     (u ''kMoveToFullyOpen'', 1),
     (u ''kMoveToPedestrianPosition'', 2),
     (u ''kMoveToVentilationPosition'', 3),
     (u ''kMoveToSignaturePosition'', 4),
     (u ''kUnknownEnumValue'', 5)]"

definition ClosureControl_MainStateEnum :: "(pystr \<times> int) list" where
  "ClosureControl_MainStateEnum = [
     (u ''kStopped'', 0),
     (u ''kMoving'', 1),
     (u ''kWaitingForMotion'', 2),
     (u ''kError'', 3),
     (u ''kCalibrating'', 4),
     (u ''kProtected'', 5),
     (u ''kDisengaged'', 6),
     (u ''kSetupRequired'', 7),
     (u ''kUnknownEnumValue'', 8)]"

definition ClosureControl_ClosureErrorEnum :: "(pystr \<times> int) list" where
  "ClosureControl_ClosureErrorEnum = [
     (u ''kPhysicallyBlocked'', 0),
     (u ''kBlockedBySensor'', 1),
     (u ''kTemperatureLimited'', 2),
     (u ''kMaintenanceRequired'', 3),
     (u ''kInternalInterference'', 4),
     (u ''kUnknownEnumValue'', 5)]"

definition ClosureControl_Feature :: "(pystr \<times> int) list" where
  "ClosureControl_Feature = [
     (u ''kPositioning'', 1),
     (u ''kMotionLatching'', 2),
     (u ''kInstantaneous'', 4),
     (u ''kSpeed'', 8),
     (u ''kVentilation'', 16),
     (u ''kPedestrian'', 32),
     (u ''kCalibration'', 64),
     (u ''kProtection'', 128),
     (u ''kManuallyOperable'', 256)]"

definition ClosureControl_LatchControlModesBitmap :: "(pystr \<times> int) list" where
  "ClosureControl_LatchControlModesBitmap = [
     (u ''kRemoteLatching'', 1),
     (u ''kRemoteUnlatching'', 2)]"

definition ClosureControl_OverallCurrentStateStruct :: "dfield list" where
  "ClosureControl_OverallCurrentStateStruct = [
     (u ''position'', 0, optional_nullable (enum_type ClosureControl_CurrentPositionEnum), Value VNone),
     (u ''latch'', 1, optional_nullable CBool, Value VNone),
     (u ''speed'', 2, optional (enum_type Globals_ThreeLevelAutoEnum), Value VNone),
     (u ''secureState'', 3, nullable CBool, Value VNull)]"

definition ClosureControl_OverallTargetStateStruct :: "dfield list" where
  "ClosureControl_OverallTargetStateStruct = [
     (u ''position'', 0, optional_nullable (enum_type ClosureControl_TargetPositionEnum), Value VNone),
     (u ''latch'', 1, optional_nullable CBool, Value VNone),
     (u ''speed'', 2, optional (enum_type Globals_ThreeLevelAutoEnum), Value VNone)]"

definition ClosureControl_commands :: "command_class list" where
  "ClosureControl_commands = [
     CommandClass (u ''Stop'') 260 0 True None False [],
     CommandClass (u ''MoveTo'') 260 1 True None True [(u ''position'', 0, optional (enum_type ClosureControl_TargetPositionEnum), Value VNone),
       (u ''latch'', 1, optional CBool, Value VNone),
       (u ''speed'', 2, optional (enum_type Globals_ThreeLevelAutoEnum), Value VNone)],
     CommandClass (u ''Calibrate'') 260 2 True None True []]"

definition ClosureControl_attributes_1 :: "attribute_class list" where
  "ClosureControl_attributes_1 = [
     AttributeClass (u ''CountdownTime'') 260 0 (optional_nullable CUint) (Value VNone),
     AttributeClass (u ''MainState'') 260 1 (enum_type ClosureControl_MainStateEnum) (Value (VInt 0)),
     AttributeClass (u ''CurrentErrorList'') 260 2 (CList (enum_type ClosureControl_ClosureErrorEnum)) (EmptyList),
     AttributeClass (u ''OverallCurrentState'') 260 3 (nullable (struct_type ClosureControl_OverallCurrentStateStruct)) (Value VNull),
     AttributeClass (u ''OverallTargetState'') 260 4 (nullable (struct_type ClosureControl_OverallTargetStateStruct)) (Value VNull),
     AttributeClass (u ''LatchControlModes'') 260 5 (optional (flag_type ClosureControl_LatchControlModesBitmap)) (Value VNone),
     AttributeClass (u ''GeneratedCommandList'') 260 65528 (CList CUint) (EmptyList),
     AttributeClass (u ''AcceptedCommandList'') 260 65529 (CList CUint) (EmptyList),
     AttributeClass (u ''AttributeList'') 260 65531 (CList CUint) (EmptyList)]"

definition ClosureControl_attributes_2 :: "attribute_class list" where
  "ClosureControl_attributes_2 = [
     AttributeClass (u ''FeatureMap'') 260 65532 CUint (Value (VInt 0)),
     AttributeClass (u ''ClusterRevision'') 260 65533 CUint (Value (VInt 0))]"

definition ClosureControl_events :: "event_class list" where
  "ClosureControl_events = [
     EventClass (u ''OperationalError'') 260 0 [(u ''errorState'', 0, CList (enum_type ClosureControl_ClosureErrorEnum), EmptyList)],
     EventClass (u ''MovementCompleted'') 260 1 [],
     EventClass (u ''EngageStateChanged'') 260 2 [(u ''engageValue'', 0, CBool, Value (VBool False))],
     EventClass (u ''SecureStateChanged'') 260 3 [(u ''secureValue'', 0, CBool, Value (VBool False))]]"

definition ClosureControl_cluster :: "cluster_def" where
  "ClosureControl_cluster = ClusterDef (u ''ClosureControl'') 260 [
     (u ''countdownTime'', 0, optional_nullable CUint, Value VNone),
     (u ''mainState'', 1, enum_type ClosureControl_MainStateEnum, Value (VInt 0)),
     (u ''currentErrorList'', 2, CList (enum_type ClosureControl_ClosureErrorEnum), EmptyList),
     (u ''overallCurrentState'', 3, nullable (struct_type ClosureControl_OverallCurrentStateStruct), Value VNull),
     (u ''overallTargetState'', 4, nullable (struct_type ClosureControl_OverallTargetStateStruct), Value VNull),
     (u ''latchControlModes'', 5, optional (flag_type ClosureControl_LatchControlModesBitmap), Value VNone),
     (u ''generatedCommandList'', 65528, CList CUint, EmptyList),
     (u ''acceptedCommandList'', 65529, CList CUint, EmptyList),
     (u ''attributeList'', 65531, CList CUint, EmptyList),
     (u ''featureMap'', 65532, CUint, Value (VInt 0)),
     (u ''clusterRevision'', 65533, CUint, Value (VInt 0))]
     ClosureControl_commands
     (ClosureControl_attributes_1 @ ClosureControl_attributes_2)
     ClosureControl_events"

section \<open>ClosureDimension\<close>

definition ClosureDimension_TranslationDirectionEnum :: "(pystr \<times> int) list" where
  "ClosureDimension_TranslationDirectionEnum = [
     (u ''kDownward'', 0),
     (u ''kUpward'', 1),
     (u ''kVerticalMask'', 2),
     (u ''kVerticalSymmetry'', 3),
     (u ''kLeftward'', 4),
     (u ''kRightward'', 5),
     (u ''kHorizontalMask'', 6),
     (u ''kHorizontalSymmetry'', 7),
     (u ''kForward'', 8),
     (u ''kBackward'', 9),
     (u ''kDepthMask'', 10),
     (u ''kDepthSymmetry'', 11),
     (u ''kUnknownEnumValue'', 12)]"

definition ClosureDimension_RotationAxisEnum :: "(pystr \<times> int) list" where
  "ClosureDimension_RotationAxisEnum = [
     (u ''kLeft'', 0),
     (u ''kCenteredVertical'', 1),
     (u ''kLeftAndRight'', 2),
     (u ''kRight'', 3),
     (u ''kTop'', 4),
     (u ''kCenteredHorizontal'', 5),
     (u ''kTopAndBottom'', 6),
     (u ''kBottom'', 7),
     (u ''kLeftBarrier'', 8),
     (u ''kLeftAndRightBarriers'', 9),
     (u ''kRightBarrier'', 10),
     (u ''kUnknownEnumValue'', 11)]"

definition ClosureDimension_OverflowEnum :: "(pystr \<times> int) list" where
  "ClosureDimension_OverflowEnum = [
     (u ''kNoOverflow'', 0),
     (u ''kInside'', 1),
     (u ''kOutside'', 2),
     (u ''kTopInside'', 3),
     (u ''kTopOutside'', 4),
     (u ''kBottomInside'', 5),
     (u ''kBottomOutside'', 6),
     (u ''kLeftInside'', 7),
     (u ''kLeftOutside'', 8),
     (u ''kRightInside'', 9),
     (u ''kRightOutside'', 10),
     (u ''kUnknownEnumValue'', 11)]"

definition ClosureDimension_ModulationTypeEnum :: "(pystr \<times> int) list" where
  "ClosureDimension_ModulationTypeEnum = [
     (u ''kSlatsOrientation'', 0),
     (u ''kSlatsOpenwork'', 1),
     (u ''kStripesAlignment'', 2),
     (u ''kOpacity'', 3),
     (u ''kVentilation'', 4),
     (u ''kUnknownEnumValue'', 5)]"

definition ClosureDimension_ClosureUnitEnum :: "(pystr \<times> int) list" where
  "ClosureDimension_ClosureUnitEnum = [
     (u ''kMillimeter'', 0),
     (u ''kDegree'', 1),
     (u ''kUnknownEnumValue'', 2)]"

definition ClosureDimension_StepDirectionEnum :: "(pystr \<times> int) list" where
  "ClosureDimension_StepDirectionEnum = [
     (u ''kDecrease'', 0),
     (u ''kIncrease'', 1),
     (u ''kUnknownEnumValue'', 2)]"

definition ClosureDimension_Feature :: "(pystr \<times> int) list" where
  "ClosureDimension_Feature = [
     (u ''kPositioning'', 1),
     (u ''kMotionLatching'', 2),
     (u ''kUnit'', 4),
     (u ''kLimitation'', 8),
     (u ''kSpeed'', 16),
     (u ''kTranslation'', 32),
     (u ''kRotation'', 64),
     (u ''kModulation'', 128)]"

definition ClosureDimension_LatchControlModesBitmap :: "(pystr \<times> int) list" where
  "ClosureDimension_LatchControlModesBitmap = [
     (u ''kRemoteLatching'', 1),
     (u ''kRemoteUnlatching'', 2)]"

definition ClosureDimension_RangePercent100thsStruct :: "dfield list" where
  "ClosureDimension_RangePercent100thsStruct = [
     (u ''min'', 0, CUint, Value (VInt 0)),
     (u ''max'', 1, CUint, Value (VInt 0))]"

definition ClosureDimension_UnitRangeStruct :: "dfield list" where
  "ClosureDimension_UnitRangeStruct = [
     (u ''min'', 0, CInt, Value (VInt 0)),
     (u ''max'', 1, CInt, Value (VInt 0))]"

definition ClosureDimension_DimensionStateStruct :: "dfield list" where
  "ClosureDimension_DimensionStateStruct = [
     (u ''position'', 0, optional_nullable CUint, Value VNone),
     (u ''latch'', 1, optional_nullable CBool, Value VNone),
     (u ''speed'', 2, optional (enum_type Globals_ThreeLevelAutoEnum), Value VNone)]"

definition ClosureDimension_commands :: "command_class list" where
  "ClosureDimension_commands = [
     CommandClass (u ''SetTarget'') 261 0 True None True [(u ''position'', 0, optional CUint, Value VNone),
       (u ''latch'', 1, optional CBool, Value VNone),
       (u ''speed'', 2, optional (enum_type Globals_ThreeLevelAutoEnum), Value VNone)],
     CommandClass (u ''Step'') 261 1 True None True [(u ''direction'', 0, enum_type ClosureDimension_StepDirectionEnum, Value (VInt 0)),
       (u ''numberOfSteps'', 1, CUint, Value (VInt 0)),
       (u ''speed'', 2, optional (enum_type Globals_ThreeLevelAutoEnum), Value VNone)]]"

definition ClosureDimension_attributes_1 :: "attribute_class list" where
  "ClosureDimension_attributes_1 = [
     AttributeClass (u ''CurrentState'') 261 0 (nullable (struct_type ClosureDimension_DimensionStateStruct)) (Value VNull),
     AttributeClass (u ''TargetState'') 261 1 (nullable (struct_type ClosureDimension_DimensionStateStruct)) (Value VNull),
     AttributeClass (u ''Resolution'') 261 2 (optional CUint) (Value VNone),
     AttributeClass (u ''StepValue'') 261 3 (optional CUint) (Value VNone),
     AttributeClass (u ''Unit'') 261 4 (optional (enum_type ClosureDimension_ClosureUnitEnum)) (Value VNone),
     AttributeClass (u ''UnitRange'') 261 5 (optional_nullable (struct_type ClosureDimension_UnitRangeStruct)) (Value VNone),
     AttributeClass (u ''LimitRange'') 261 6 (optional (struct_type ClosureDimension_RangePercent100thsStruct)) (Value VNone),
     AttributeClass (u ''TranslationDirection'') 261 7 (optional (enum_type ClosureDimension_TranslationDirectionEnum)) (Value VNone),
     AttributeClass (u ''RotationAxis'') 261 8 (optional (enum_type ClosureDimension_RotationAxisEnum)) (Value VNone)]"

definition ClosureDimension_attributes_2 :: "attribute_class list" where
  "ClosureDimension_attributes_2 = [
     AttributeClass (u ''Overflow'') 261 9 (optional (enum_type ClosureDimension_OverflowEnum)) (Value VNone),
     AttributeClass (u ''ModulationType'') 261 10 (optional (enum_type ClosureDimension_ModulationTypeEnum)) (Value VNone),
     AttributeClass (u ''LatchControlModes'') 261 11 (optional (flag_type ClosureDimension_LatchControlModesBitmap)) (Value VNone),
     AttributeClass (u ''GeneratedCommandList'') 261 65528 (CList CUint) (EmptyList),
     AttributeClass (u ''AcceptedCommandList'') 261 65529 (CList CUint) (EmptyList),
     AttributeClass (u ''AttributeList'') 261 65531 (CList CUint) (EmptyList),
     AttributeClass (u ''FeatureMap'') 261 65532 CUint (Value (VInt 0)),
     AttributeClass (u ''ClusterRevision'') 261 65533 CUint (Value (VInt 0))]"

definition ClosureDimension_cluster :: "cluster_def" where
  "ClosureDimension_cluster = ClusterDef (u ''ClosureDimension'') 261 [
     (u ''currentState'', 0, nullable (struct_type ClosureDimension_DimensionStateStruct), Value VNull),
     (u ''targetState'', 1, nullable (struct_type ClosureDimension_DimensionStateStruct), Value VNull),
     (u ''resolution'', 2, optional CUint, Value VNone),
     (u ''stepValue'', 3, optional CUint, Value VNone),
     (u ''unit'', 4, optional (enum_type ClosureDimension_ClosureUnitEnum), Value VNone),
     (u ''unitRange'', 5, optional_nullable (struct_type ClosureDimension_UnitRangeStruct), Value VNone),
     (u ''limitRange'', 6, optional (struct_type ClosureDimension_RangePercent100thsStruct), Value VNone),
     (u ''translationDirection'', 7, optional (enum_type ClosureDimension_TranslationDirectionEnum), Value VNone),
     (u ''rotationAxis'', 8, optional (enum_type ClosureDimension_RotationAxisEnum), Value VNone),
     (u ''overflow'', 9, optional (enum_type ClosureDimension_OverflowEnum), Value VNone),
     (u ''modulationType'', 10, optional (enum_type ClosureDimension_ModulationTypeEnum), Value VNone),
     (u ''latchControlModes'', 11, optional (flag_type ClosureDimension_LatchControlModesBitmap), Value VNone),
     (u ''generatedCommandList'', 65528, CList CUint, EmptyList),
     (u ''acceptedCommandList'', 65529, CList CUint, EmptyList),
     (u ''attributeList'', 65531, CList CUint, EmptyList),
     (u ''featureMap'', 65532, CUint, Value (VInt 0)),
     (u ''clusterRevision'', 65533, CUint, Value (VInt 0))]
     ClosureDimension_commands
     (ClosureDimension_attributes_1 @ ClosureDimension_attributes_2)
     []"

section \<open>Consistency\<close>

lemma CameraAvSettingsUserLevelManagement_members_ok [simp]: "members_ok CameraAvSettingsUserLevelManagement_DPTZStruct"
    "members_ok CameraAvSettingsUserLevelManagement_MPTZStruct"
    "members_ok CameraAvSettingsUserLevelManagement_MPTZPresetStruct"
  by (simp_all add: class_simps CameraAvSettingsUserLevelManagement_DPTZStruct_def
    CameraAvSettingsUserLevelManagement_MPTZStruct_def
    CameraAvSettingsUserLevelManagement_MPTZPresetStruct_def del: u_simps)

lemma CameraAvSettingsUserLevelManagement_cluster_ok: "cluster_ok CameraAvSettingsUserLevelManagement_cluster" "cd_id CameraAvSettingsUserLevelManagement_cluster = 1362"
  by (simp_all add: class_simps CameraAvSettingsUserLevelManagement_commands_def
    CameraAvSettingsUserLevelManagement_attributes_1_def
    CameraAvSettingsUserLevelManagement_attributes_2_def
    CameraAvSettingsUserLevelManagement_cluster_def del: u_simps)

lemma CameraAvStreamManagement_members_ok [simp]: "members_ok CameraAvStreamManagement_VideoSensorParamsStruct"
    "members_ok CameraAvStreamManagement_VideoResolutionStruct"
    "members_ok CameraAvStreamManagement_RateDistortionTradeOffPointsStruct"
    "members_ok CameraAvStreamManagement_SnapshotCapabilitiesStruct"
    "members_ok CameraAvStreamManagement_AudioCapabilitiesStruct"
    "members_ok CameraAvStreamManagement_VideoStreamStruct"
    "members_ok CameraAvStreamManagement_AudioStreamStruct"
    "members_ok CameraAvStreamManagement_SnapshotStreamStruct"
    "members_ok CameraAvStreamManagement_AVMetadataStruct"
  by (simp_all add: class_simps CameraAvStreamManagement_VideoSensorParamsStruct_def
    CameraAvStreamManagement_VideoResolutionStruct_def
    CameraAvStreamManagement_RateDistortionTradeOffPointsStruct_def
    CameraAvStreamManagement_SnapshotCapabilitiesStruct_def
    CameraAvStreamManagement_AudioCapabilitiesStruct_def
    CameraAvStreamManagement_VideoStreamStruct_def
    CameraAvStreamManagement_AudioStreamStruct_def
    CameraAvStreamManagement_SnapshotStreamStruct_def
    CameraAvStreamManagement_AVMetadataStruct_def del: u_simps)

lemma CameraAvStreamManagement_cluster_ok: "cluster_ok CameraAvStreamManagement_cluster" "cd_id CameraAvStreamManagement_cluster = 1361"
  by (simp_all add: class_simps CameraAvStreamManagement_commands_1_def
    CameraAvStreamManagement_commands_2_def
    CameraAvStreamManagement_attributes_1_def
    CameraAvStreamManagement_attributes_2_def
    CameraAvStreamManagement_attributes_3_def
    CameraAvStreamManagement_attributes_4_def
    CameraAvStreamManagement_attributes_5_def
    CameraAvStreamManagement_attributes_6_def
    CameraAvStreamManagement_cluster_def del: u_simps)

lemma CarbonDioxideConcentrationMeasurement_cluster_ok: "cluster_ok CarbonDioxideConcentrationMeasurement_cluster" "cd_id CarbonDioxideConcentrationMeasurement_cluster = 1037"
  by (simp_all add: class_simps CarbonDioxideConcentrationMeasurement_attributes_1_def
    CarbonDioxideConcentrationMeasurement_attributes_2_def
    CarbonDioxideConcentrationMeasurement_cluster_def del: u_simps)

lemma CarbonMonoxideConcentrationMeasurement_cluster_ok: "cluster_ok CarbonMonoxideConcentrationMeasurement_cluster" "cd_id CarbonMonoxideConcentrationMeasurement_cluster = 1036"
  by (simp_all add: class_simps CarbonMonoxideConcentrationMeasurement_attributes_1_def
    CarbonMonoxideConcentrationMeasurement_attributes_2_def
    CarbonMonoxideConcentrationMeasurement_cluster_def del: u_simps)

lemma Channel_members_ok [simp]: "members_ok Channel_ChannelInfoStruct"
    "members_ok Channel_LineupInfoStruct"
    "members_ok Channel_ProgramCategoryStruct"
    "members_ok Channel_SeriesInfoStruct"
    "members_ok Channel_ProgramCastStruct"
    "members_ok Channel_ProgramStruct"
    "members_ok Channel_PageTokenStruct"
    "members_ok Channel_ChannelPagingStruct"
  by (simp_all add: class_simps Channel_ChannelInfoStruct_def
    Channel_LineupInfoStruct_def
    Channel_ProgramCategoryStruct_def
    Channel_SeriesInfoStruct_def
    Channel_ProgramCastStruct_def
    Channel_ProgramStruct_def
    Channel_PageTokenStruct_def
    Channel_ChannelPagingStruct_def del: u_simps)

lemma Channel_cluster_ok: "cluster_ok Channel_cluster" "cd_id Channel_cluster = 1284"
  by (simp_all add: class_simps Channel_commands_1_def
    Channel_commands_2_def
    Channel_attributes_def
    Channel_cluster_def del: u_simps)

lemma Chime_members_ok [simp]: "members_ok Chime_ChimeSoundStruct"
  by (simp_all add: class_simps Chime_ChimeSoundStruct_def del: u_simps)

lemma Chime_cluster_ok: "cluster_ok Chime_cluster" "cd_id Chime_cluster = 1366"
  by (simp_all add: class_simps Chime_commands_def
    Chime_attributes_def
    Chime_events_def
    Chime_cluster_def del: u_simps)

lemma ClosureControl_members_ok [simp]: "members_ok ClosureControl_OverallCurrentStateStruct"
    "members_ok ClosureControl_OverallTargetStateStruct"
  by (simp_all add: class_simps ClosureControl_OverallCurrentStateStruct_def
    ClosureControl_OverallTargetStateStruct_def del: u_simps)

lemma ClosureControl_cluster_ok: "cluster_ok ClosureControl_cluster" "cd_id ClosureControl_cluster = 260"
  by (simp_all add: class_simps ClosureControl_commands_def
    ClosureControl_attributes_1_def
    ClosureControl_attributes_2_def
    ClosureControl_events_def
    ClosureControl_cluster_def del: u_simps)

lemma ClosureDimension_members_ok [simp]: "members_ok ClosureDimension_RangePercent100thsStruct"
    "members_ok ClosureDimension_UnitRangeStruct"
    "members_ok ClosureDimension_DimensionStateStruct"
  by (simp_all add: class_simps ClosureDimension_RangePercent100thsStruct_def
    ClosureDimension_UnitRangeStruct_def
    ClosureDimension_DimensionStateStruct_def del: u_simps)

lemma ClosureDimension_cluster_ok: "cluster_ok ClosureDimension_cluster" "cd_id ClosureDimension_cluster = 261"
  by (simp_all add: class_simps ClosureDimension_commands_def
    ClosureDimension_attributes_1_def
    ClosureDimension_attributes_2_def
    ClosureDimension_cluster_def del: u_simps)

end
