(* ===== verification/Clusters_ColorControl.thy ===== *)
theory Clusters_ColorControl
  imports Clusters_Base
begin

text \<open>
  The generated files \<open>ColorControl.py\<close> to \<open>Descriptor.py\<close> of \<open>chip/clusters/cluster_defs/\<close>, in the form of
  \<open>Clusters_Base\<close>.
\<close>

section \<open>ColorControl\<close>

definition ColorControl_DriftCompensationEnum :: "(pystr \<times> int) list" where
  "ColorControl_DriftCompensationEnum = [
     (u ''kNone'', 0),
     (u ''kOtherOrUnknown'', 1),
     (u ''kTemperatureMonitoring'', 2),
     (u ''kOpticalLuminanceMonitoringAndFeedback'', 3),
     (u ''kOpticalColorMonitoringAndFeedback'', 4),
     (u ''kUnknownEnumValue'', 5)]"

definition ColorControl_ColorModeEnum :: "(pystr \<times> int) list" where
  "ColorControl_ColorModeEnum = [
     (u ''kCurrentHueAndCurrentSaturation'', 0),
     (u ''kCurrentXAndCurrentY'', 1),
     (u ''kColorTemperatureMireds'', 2),
     (u ''kUnknownEnumValue'', 3)]"

definition ColorControl_EnhancedColorModeEnum :: "(pystr \<times> int) list" where
  "ColorControl_EnhancedColorModeEnum = [
     (u ''kCurrentHueAndCurrentSaturation'', 0),
     (u ''kCurrentXAndCurrentY'', 1),
     (u ''kColorTemperatureMireds'', 2),
     (u ''kEnhancedCurrentHueAndCurrentSaturation'', 3),
     (u ''kUnknownEnumValue'', 4)]"

definition ColorControl_DirectionEnum :: "(pystr \<times> int) list" where
  "ColorControl_DirectionEnum = [
     (u ''kShortest'', 0),
     (u ''kLongest'', 1),
     (u ''kUp'', 2),
     (u ''kDown'', 3),
     (u ''kUnknownEnumValue'', 4)]"

definition ColorControl_MoveModeEnum :: "(pystr \<times> int) list" where
  "ColorControl_MoveModeEnum = [
     (u ''kStop'', 0),
     (u ''kUp'', 1),
     (u ''kDown'', 3),
     (u ''kUnknownEnumValue'', 4)]"

definition ColorControl_StepModeEnum :: "(pystr \<times> int) list" where
  "ColorControl_StepModeEnum = [
     (u ''kUp'', 1),
     (u ''kDown'', 3),
     (u ''kUnknownEnumValue'', 4)]"

definition ColorControl_ColorLoopActionEnum :: "(pystr \<times> int) list" where
  "ColorControl_ColorLoopActionEnum = [
     (u ''kDeactivate'', 0),
     (u ''kActivateFromColorLoopStartEnhancedHue'', 1),
     (u ''kActivateFromEnhancedCurrentHue'', 2),
     (u ''kUnknownEnumValue'', 3)]"

definition ColorControl_ColorLoopDirectionEnum :: "(pystr \<times> int) list" where
  "ColorControl_ColorLoopDirectionEnum = [
     (u ''kDecrement'', 0),
     (u ''kIncrement'', 1),
     (u ''kUnknownEnumValue'', 2)]"

definition ColorControl_Feature :: "(pystr \<times> int) list" where
  "ColorControl_Feature = [
     (u ''kHueAndSaturation'', 1),
     (u ''kEnhancedHue'', 2),
     (u ''kColorLoop'', 4),
     (u ''kXy'', 8),
     (u ''kColorTemperature'', 16)]"

definition ColorControl_OptionsBitmap :: "(pystr \<times> int) list" where
  "ColorControl_OptionsBitmap = [
     (u ''kExecuteIfOff'', 1)]"

definition ColorControl_UpdateFlagsBitmap :: "(pystr \<times> int) list" where
  "ColorControl_UpdateFlagsBitmap = [
     (u ''kUpdateAction'', 1),
     (u ''kUpdateDirection'', 2),
     (u ''kUpdateTime'', 4),
     (u ''kUpdateStartHue'', 8)]"

definition ColorControl_ColorCapabilitiesBitmap :: "(pystr \<times> int) list" where
  "ColorControl_ColorCapabilitiesBitmap = [
     (u ''kHueSaturation'', 1),
     (u ''kEnhancedHue'', 2),
     (u ''kColorLoop'', 4),
     (u ''kXy'', 8),
     (u ''kColorTemperature'', 16)]"

definition ColorControl_commands_1 :: "command_class list" where
  "ColorControl_commands_1 = [
     CommandClass (u ''MoveToHue'') 768 0 True None False [(u ''hue'', 0, CUint, Value (VInt 0)),
       (u ''direction'', 1, enum_type ColorControl_DirectionEnum, Value (VInt 0)),
       (u ''transitionTime'', 2, CUint, Value (VInt 0)),
       (u ''optionsMask'', 3, flag_type ColorControl_OptionsBitmap, Value (VInt 0)),
       (u ''optionsOverride'', 4, flag_type ColorControl_OptionsBitmap, Value (VInt 0))],
     CommandClass (u ''MoveHue'') 768 1 True None False [(u ''moveMode'', 0, enum_type ColorControl_MoveModeEnum, Value (VInt 0)),
       (u ''rate'', 1, CUint, Value (VInt 0)),
       (u ''optionsMask'', 2, flag_type ColorControl_OptionsBitmap, Value (VInt 0)),
       (u ''optionsOverride'', 3, flag_type ColorControl_OptionsBitmap, Value (VInt 0))],
     CommandClass (u ''StepHue'') 768 2 True None False [(u ''stepMode'', 0, enum_type ColorControl_StepModeEnum, Value (VInt 0)),
       (u ''stepSize'', 1, CUint, Value (VInt 0)),
       (u ''transitionTime'', 2, CUint, Value (VInt 0)),
       (u ''optionsMask'', 3, flag_type ColorControl_OptionsBitmap, Value (VInt 0)),
       (u ''optionsOverride'', 4, flag_type ColorControl_OptionsBitmap, Value (VInt 0))],
     CommandClass (u ''MoveToSaturation'') 768 3 True None False [(u ''saturation'', 0, CUint, Value (VInt 0)),
       (u ''transitionTime'', 1, CUint, Value (VInt 0)),
       (u ''optionsMask'', 2, flag_type ColorControl_OptionsBitmap, Value (VInt 0)),
       (u ''optionsOverride'', 3, flag_type ColorControl_OptionsBitmap, Value (VInt 0))],
     CommandClass (u ''MoveSaturation'') 768 4 True None False [(u ''moveMode'', 0, enum_type ColorControl_MoveModeEnum, Value (VInt 0)),
       (u ''rate'', 1, CUint, Value (VInt 0)),
       (u ''optionsMask'', 2, flag_type ColorControl_OptionsBitmap, Value (VInt 0)),
       (u ''optionsOverride'', 3, flag_type ColorControl_OptionsBitmap, Value (VInt 0))],
     CommandClass (u ''StepSaturation'') 768 5 True None False [(u ''stepMode'', 0, enum_type ColorControl_StepModeEnum, Value (VInt 0)),
       (u ''stepSize'', 1, CUint, Value (VInt 0)),
       (u ''transitionTime'', 2, CUint, Value (VInt 0)),
       (u ''optionsMask'', 3, flag_type ColorControl_OptionsBitmap, Value (VInt 0)),
       (u ''optionsOverride'', 4, flag_type ColorControl_OptionsBitmap, Value (VInt 0))]]"

definition ColorControl_commands_2 :: "command_class list" where
  "ColorControl_commands_2 = [
     CommandClass (u ''MoveToHueAndSaturation'') 768 6 True None False [(u ''hue'', 0, CUint, Value (VInt 0)),
       (u ''saturation'', 1, CUint, Value (VInt 0)),
       (u ''transitionTime'', 2, CUint, Value (VInt 0)),
       (u ''optionsMask'', 3, flag_type ColorControl_OptionsBitmap, Value (VInt 0)),
       (u ''optionsOverride'', 4, flag_type ColorControl_OptionsBitmap, Value (VInt 0))],
     CommandClass (u ''MoveToColor'') 768 7 True None False [(u ''colorX'', 0, CUint, Value (VInt 0)),
       (u ''colorY'', 1, CUint, Value (VInt 0)),
       (u ''transitionTime'', 2, CUint, Value (VInt 0)),
       (u ''optionsMask'', 3, flag_type ColorControl_OptionsBitmap, Value (VInt 0)),
       (u ''optionsOverride'', 4, flag_type ColorControl_OptionsBitmap, Value (VInt 0))],
     CommandClass (u ''MoveColor'') 768 8 True None False [(u ''rateX'', 0, CInt, Value (VInt 0)),
       (u ''rateY'', 1, CInt, Value (VInt 0)),
       (u ''optionsMask'', 2, flag_type ColorControl_OptionsBitmap, Value (VInt 0)),
       (u ''optionsOverride'', 3, flag_type ColorControl_OptionsBitmap, Value (VInt 0))],
     CommandClass (u ''StepColor'') 768 9 True None False [(u ''stepX'', 0, CInt, Value (VInt 0)),
       (u ''stepY'', 1, CInt, Value (VInt 0)),
       (u ''transitionTime'', 2, CUint, Value (VInt 0)),
       (u ''optionsMask'', 3, flag_type ColorControl_OptionsBitmap, Value (VInt 0)),
       (u ''optionsOverride'', 4, flag_type ColorControl_OptionsBitmap, Value (VInt 0))],
     CommandClass (u ''MoveToColorTemperature'') 768 10 True None False [(u ''colorTemperatureMireds'', 0, CUint, Value (VInt 0)),
       (u ''transitionTime'', 1, CUint, Value (VInt 0)),
       (u ''optionsMask'', 2, flag_type ColorControl_OptionsBitmap, Value (VInt 0)),
       (u ''optionsOverride'', 3, flag_type ColorControl_OptionsBitmap, Value (VInt 0))],
     CommandClass (u ''EnhancedMoveToHue'') 768 64 True None False [(u ''enhancedHue'', 0, CUint, Value (VInt 0)),
       (u ''direction'', 1, enum_type ColorControl_DirectionEnum, Value (VInt 0)),
       (u ''transitionTime'', 2, CUint, Value (VInt 0)),
       (u ''optionsMask'', 3, flag_type ColorControl_OptionsBitmap, Value (VInt 0)),
       (u ''optionsOverride'', 4, flag_type ColorControl_OptionsBitmap, Value (VInt 0))]]"

definition ColorControl_commands_3 :: "command_class list" where
  "ColorControl_commands_3 = [
     CommandClass (u ''EnhancedMoveHue'') 768 65 True None False [(u ''moveMode'', 0, enum_type ColorControl_MoveModeEnum, Value (VInt 0)),
       (u ''rate'', 1, CUint, Value (VInt 0)),
       (u ''optionsMask'', 2, flag_type ColorControl_OptionsBitmap, Value (VInt 0)),
       (u ''optionsOverride'', 3, flag_type ColorControl_OptionsBitmap, Value (VInt 0))],
     CommandClass (u ''EnhancedStepHue'') 768 66 True None False [(u ''stepMode'', 0, enum_type ColorControl_StepModeEnum, Value (VInt 0)),
       (u ''stepSize'', 1, CUint, Value (VInt 0)),
       (u ''transitionTime'', 2, CUint, Value (VInt 0)),
       (u ''optionsMask'', 3, flag_type ColorControl_OptionsBitmap, Value (VInt 0)),
       (u ''optionsOverride'', 4, flag_type ColorControl_OptionsBitmap, Value (VInt 0))],
     CommandClass (u ''EnhancedMoveToHueAndSaturation'') 768 67 True None False [(u ''enhancedHue'', 0, CUint, Value (VInt 0)),
       (u ''saturation'', 1, CUint, Value (VInt 0)),
       (u ''transitionTime'', 2, CUint, Value (VInt 0)),
       (u ''optionsMask'', 3, flag_type ColorControl_OptionsBitmap, Value (VInt 0)),
       (u ''optionsOverride'', 4, flag_type ColorControl_OptionsBitmap, Value (VInt 0))],
     CommandClass (u ''ColorLoopSet'') 768 68 True None False [(u ''updateFlags'', 0, flag_type ColorControl_UpdateFlagsBitmap, Value (VInt 0)),
       (u ''action'', 1, enum_type ColorControl_ColorLoopActionEnum, Value (VInt 0)),
       (u ''direction'', 2, enum_type ColorControl_ColorLoopDirectionEnum, Value (VInt 0)),
       (u ''time'', 3, CUint, Value (VInt 0)),
       (u ''startHue'', 4, CUint, Value (VInt 0)),
       (u ''optionsMask'', 5, flag_type ColorControl_OptionsBitmap, Value (VInt 0)),
       (u ''optionsOverride'', 6, flag_type ColorControl_OptionsBitmap, Value (VInt 0))],
     CommandClass (u ''StopMoveStep'') 768 71 True None False [(u ''optionsMask'', 0, flag_type ColorControl_OptionsBitmap, Value (VInt 0)),
       (u ''optionsOverride'', 1, flag_type ColorControl_OptionsBitmap, Value (VInt 0))],
     CommandClass (u ''MoveColorTemperature'') 768 75 True None False [(u ''moveMode'', 0, enum_type ColorControl_MoveModeEnum, Value (VInt 0)),
       (u ''rate'', 1, CUint, Value (VInt 0)),
       (u ''colorTemperatureMinimumMireds'', 2, CUint, Value (VInt 0)),
       (u ''colorTemperatureMaximumMireds'', 3, CUint, Value (VInt 0)),
       (u ''optionsMask'', 4, flag_type ColorControl_OptionsBitmap, Value (VInt 0)),
       (u ''optionsOverride'', 5, flag_type ColorControl_OptionsBitmap, Value (VInt 0))]]"

definition ColorControl_commands_4 :: "command_class list" where
  "ColorControl_commands_4 = [
     CommandClass (u ''StepColorTemperature'') 768 76 True None False [(u ''stepMode'', 0, enum_type ColorControl_StepModeEnum, Value (VInt 0)),
       (u ''stepSize'', 1, CUint, Value (VInt 0)),
       (u ''transitionTime'', 2, CUint, Value (VInt 0)),
       (u ''colorTemperatureMinimumMireds'', 3, CUint, Value (VInt 0)),
       (u ''colorTemperatureMaximumMireds'', 4, CUint, Value (VInt 0)),
       (u ''optionsMask'', 5, flag_type ColorControl_OptionsBitmap, Value (VInt 0)),
       (u ''optionsOverride'', 6, flag_type ColorControl_OptionsBitmap, Value (VInt 0))]]"

definition ColorControl_attributes_1 :: "attribute_class list" where
  "ColorControl_attributes_1 = [
     AttributeClass (u ''CurrentHue'') 768 0 (optional CUint) (Value VNone),
     AttributeClass (u ''CurrentSaturation'') 768 1 (optional CUint) (Value VNone),
     AttributeClass (u ''RemainingTime'') 768 2 (optional CUint) (Value VNone),
     AttributeClass (u ''CurrentX'') 768 3 (optional CUint) (Value VNone),
     AttributeClass (u ''CurrentY'') 768 4 (optional CUint) (Value VNone),
     AttributeClass (u ''DriftCompensation'') 768 5 (optional (enum_type ColorControl_DriftCompensationEnum)) (Value VNone),
     AttributeClass (u ''CompensationText'') 768 6 (optional CStr) (Value VNone),
     AttributeClass (u ''ColorTemperatureMireds'') 768 7 (optional CUint) (Value VNone),
     AttributeClass (u ''ColorMode'') 768 8 (enum_type ColorControl_ColorModeEnum) (Value (VInt 0))]"

definition ColorControl_attributes_2 :: "attribute_class list" where
  "ColorControl_attributes_2 = [
     AttributeClass (u ''Options'') 768 15 (flag_type ColorControl_OptionsBitmap) (Value (VInt 0)),
     AttributeClass (u ''NumberOfPrimaries'') 768 16 (nullable CUint) (Value VNull),
     AttributeClass (u ''Primary1X'') 768 17 (optional CUint) (Value VNone),
     AttributeClass (u ''Primary1Y'') 768 18 (optional CUint) (Value VNone),
     AttributeClass (u ''Primary1Intensity'') 768 19 (optional_nullable CUint) (Value VNone),
     AttributeClass (u ''Primary2X'') 768 21 (optional CUint) (Value VNone),
     AttributeClass (u ''Primary2Y'') 768 22 (optional CUint) (Value VNone),
     AttributeClass (u ''Primary2Intensity'') 768 23 (optional_nullable CUint) (Value VNone),
     AttributeClass (u ''Primary3X'') 768 25 (optional CUint) (Value VNone)]"

definition ColorControl_attributes_3 :: "attribute_class list" where
  "ColorControl_attributes_3 = [
     AttributeClass (u ''Primary3Y'') 768 26 (optional CUint) (Value VNone),
     AttributeClass (u ''Primary3Intensity'') 768 27 (optional_nullable CUint) (Value VNone),
     AttributeClass (u ''Primary4X'') 768 32 (optional CUint) (Value VNone),
     AttributeClass (u ''Primary4Y'') 768 33 (optional CUint) (Value VNone),
     AttributeClass (u ''Primary4Intensity'') 768 34 (optional_nullable CUint) (Value VNone),
     AttributeClass (u ''Primary5X'') 768 36 (optional CUint) (Value VNone),
     AttributeClass (u ''Primary5Y'') 768 37 (optional CUint) (Value VNone),
     AttributeClass (u ''Primary5Intensity'') 768 38 (optional_nullable CUint) (Value VNone),
     AttributeClass (u ''Primary6X'') 768 40 (optional CUint) (Value VNone)]"

definition ColorControl_attributes_4 :: "attribute_class list" where
  "ColorControl_attributes_4 = [
     AttributeClass (u ''Primary6Y'') 768 41 (optional CUint) (Value VNone),
     AttributeClass (u ''Primary6Intensity'') 768 42 (optional_nullable CUint) (Value VNone),
     AttributeClass (u ''WhitePointX'') 768 48 (optional CUint) (Value VNone),
     AttributeClass (u ''WhitePointY'') 768 49 (optional CUint) (Value VNone),
     AttributeClass (u ''ColorPointRX'') 768 50 (optional CUint) (Value VNone),
     AttributeClass (u ''ColorPointRY'') 768 51 (optional CUint) (Value VNone),
     AttributeClass (u ''ColorPointRIntensity'') 768 52 (optional_nullable CUint) (Value VNone),
     AttributeClass (u ''ColorPointGX'') 768 54 (optional CUint) (Value VNone),
     AttributeClass (u ''ColorPointGY'') 768 55 (optional CUint) (Value VNone)]"

definition ColorControl_attributes_5 :: "attribute_class list" where
  "ColorControl_attributes_5 = [
     AttributeClass (u ''ColorPointGIntensity'') 768 56 (optional_nullable CUint) (Value VNone),
     AttributeClass (u ''ColorPointBX'') 768 58 (optional CUint) (Value VNone),
     AttributeClass (u ''ColorPointBY'') 768 59 (optional CUint) (Value VNone),
     AttributeClass (u ''ColorPointBIntensity'') 768 60 (optional_nullable CUint) (Value VNone),
     AttributeClass (u ''EnhancedCurrentHue'') 768 16384 (optional CUint) (Value VNone),
     AttributeClass (u ''EnhancedColorMode'') 768 16385 (enum_type ColorControl_EnhancedColorModeEnum) (Value (VInt 0)),
     AttributeClass (u ''ColorLoopActive'') 768 16386 (optional (enum_type Globals_enum8)) (Value VNone),
     AttributeClass (u ''ColorLoopDirection'') 768 16387 (optional (enum_type ColorControl_ColorLoopDirectionEnum)) (Value VNone),
     AttributeClass (u ''ColorLoopTime'') 768 16388 (optional CUint) (Value VNone)]"

definition ColorControl_attributes_6 :: "attribute_class list" where
  "ColorControl_attributes_6 = [
     AttributeClass (u ''ColorLoopStartEnhancedHue'') 768 16389 (optional CUint) (Value VNone),
     AttributeClass (u ''ColorLoopStoredEnhancedHue'') 768 16390 (optional CUint) (Value VNone),
     AttributeClass (u ''ColorCapabilities'') 768 16394 (flag_type ColorControl_ColorCapabilitiesBitmap) (Value (VInt 0)),
     AttributeClass (u ''ColorTempPhysicalMinMireds'') 768 16395 (optional CUint) (Value VNone),
     AttributeClass (u ''ColorTempPhysicalMaxMireds'') 768 16396 (optional CUint) (Value VNone),
     AttributeClass (u ''CoupleColorTempToLevelMinMireds'') 768 16397 (optional CUint) (Value VNone),
     AttributeClass (u ''StartUpColorTemperatureMireds'') 768 16400 (optional_nullable CUint) (Value VNone),
     AttributeClass (u ''GeneratedCommandList'') 768 65528 (CList CUint) (EmptyList),
     AttributeClass (u ''AcceptedCommandList'') 768 65529 (CList CUint) (EmptyList)]"

definition ColorControl_attributes_7 :: "attribute_class list" where
  "ColorControl_attributes_7 = [
     AttributeClass (u ''AttributeList'') 768 65531 (CList CUint) (EmptyList),
     AttributeClass (u ''FeatureMap'') 768 65532 CUint (Value (VInt 0)),
     AttributeClass (u ''ClusterRevision'') 768 65533 CUint (Value (VInt 0))]"

definition ColorControl_cluster :: "cluster_def" where
  "ColorControl_cluster = ClusterDef (u ''ColorControl'') 768 [
     (u ''currentHue'', 0, optional CUint, Value VNone),
     (u ''currentSaturation'', 1, optional CUint, Value VNone),
     (u ''remainingTime'', 2, optional CUint, Value VNone),
     (u ''currentX'', 3, optional CUint, Value VNone),
     (u ''currentY'', 4, optional CUint, Value VNone),
     (u ''driftCompensation'', 5, optional (enum_type ColorControl_DriftCompensationEnum), Value VNone),
     (u ''compensationText'', 6, optional CStr, Value VNone),
     (u ''colorTemperatureMireds'', 7, optional CUint, Value VNone),
     (u ''colorMode'', 8, enum_type ColorControl_ColorModeEnum, Value (VInt 0)),
     (u ''options'', 15, flag_type ColorControl_OptionsBitmap, Value (VInt 0)),
     (u ''numberOfPrimaries'', 16, nullable CUint, Value VNull),
     (u ''primary1X'', 17, optional CUint, Value VNone),
     (u ''primary1Y'', 18, optional CUint, Value VNone),
     (u ''primary1Intensity'', 19, optional_nullable CUint, Value VNone),
     (u ''primary2X'', 21, optional CUint, Value VNone),
     (u ''primary2Y'', 22, optional CUint, Value VNone),
     (u ''primary2Intensity'', 23, optional_nullable CUint, Value VNone),
     (u ''primary3X'', 25, optional CUint, Value VNone),
     (u ''primary3Y'', 26, optional CUint, Value VNone),
     (u ''primary3Intensity'', 27, optional_nullable CUint, Value VNone),
     (u ''primary4X'', 32, optional CUint, Value VNone),
     (u ''primary4Y'', 33, optional CUint, Value VNone),
     (u ''primary4Intensity'', 34, optional_nullable CUint, Value VNone),
     (u ''primary5X'', 36, optional CUint, Value VNone),
     (u ''primary5Y'', 37, optional CUint, Value VNone),
     (u ''primary5Intensity'', 38, optional_nullable CUint, Value VNone),
     (u ''primary6X'', 40, optional CUint, Value VNone),
     (u ''primary6Y'', 41, optional CUint, Value VNone),
     (u ''primary6Intensity'', 42, optional_nullable CUint, Value VNone),
     (u ''whitePointX'', 48, optional CUint, Value VNone),
     (u ''whitePointY'', 49, optional CUint, Value VNone),
     (u ''colorPointRX'', 50, optional CUint, Value VNone),
     (u ''colorPointRY'', 51, optional CUint, Value VNone),
     (u ''colorPointRIntensity'', 52, optional_nullable CUint, Value VNone),
     (u ''colorPointGX'', 54, optional CUint, Value VNone),
     (u ''colorPointGY'', 55, optional CUint, Value VNone),
     (u ''colorPointGIntensity'', 56, optional_nullable CUint, Value VNone),
     (u ''colorPointBX'', 58, optional CUint, Value VNone),
     (u ''colorPointBY'', 59, optional CUint, Value VNone),
     (u ''colorPointBIntensity'', 60, optional_nullable CUint, Value VNone),
     (u ''enhancedCurrentHue'', 16384, optional CUint, Value VNone),
     (u ''enhancedColorMode'', 16385, enum_type ColorControl_EnhancedColorModeEnum, Value (VInt 0)),
     (u ''colorLoopActive'', 16386, optional (enum_type Globals_enum8), Value VNone),
     (u ''colorLoopDirection'', 16387, optional (enum_type ColorControl_ColorLoopDirectionEnum), Value VNone),
     (u ''colorLoopTime'', 16388, optional CUint, Value VNone),
     (u ''colorLoopStartEnhancedHue'', 16389, optional CUint, Value VNone),
     (u ''colorLoopStoredEnhancedHue'', 16390, optional CUint, Value VNone),
     (u ''colorCapabilities'', 16394, flag_type ColorControl_ColorCapabilitiesBitmap, Value (VInt 0)),
     (u ''colorTempPhysicalMinMireds'', 16395, optional CUint, Value VNone),
     (u ''colorTempPhysicalMaxMireds'', 16396, optional CUint, Value VNone),
     (u ''coupleColorTempToLevelMinMireds'', 16397, optional CUint, Value VNone),
     (u ''startUpColorTemperatureMireds'', 16400, optional_nullable CUint, Value VNone),
     (u ''generatedCommandList'', 65528, CList CUint, EmptyList),
     (u ''acceptedCommandList'', 65529, CList CUint, EmptyList),
     (u ''attributeList'', 65531, CList CUint, EmptyList),
     (u ''featureMap'', 65532, CUint, Value (VInt 0)),
     (u ''clusterRevision'', 65533, CUint, Value (VInt 0))]
     (ColorControl_commands_1 @ ColorControl_commands_2 @ ColorControl_commands_3 @ ColorControl_commands_4)
     (ColorControl_attributes_1 @ ColorControl_attributes_2 @ ColorControl_attributes_3 @ ColorControl_attributes_4 @ ColorControl_attributes_5 @ ColorControl_attributes_6 @ ColorControl_attributes_7)
     []"

section \<open>CommissionerControl\<close>

definition CommissionerControl_SupportedDeviceCategoryBitmap :: "(pystr \<times> int) list" where
  "CommissionerControl_SupportedDeviceCategoryBitmap = [
     (u ''kFabricSynchronization'', 1)]"

definition CommissionerControl_commands :: "command_class list" where
  "CommissionerControl_commands = [
     CommandClass (u ''RequestCommissioningApproval'') 1873 0 True None False [(u ''requestID'', 0, CUint, Value (VInt 0)),
       (u ''vendorID'', 1, CUint, Value (VInt 0)),
       (u ''productID'', 2, CUint, Value (VInt 0)),
       (u ''label'', 3, optional CStr, Value VNone)],
     CommandClass (u ''CommissionNode'') 1873 1 True (Some (u ''ReverseOpenCommissioningWindow'')) False [(u ''requestID'', 0, CUint, Value (VInt 0)),
       (u ''responseTimeoutSeconds'', 1, CUint, Value (VInt 0))],
     CommandClass (u ''ReverseOpenCommissioningWindow'') 1873 2 False None False [(u ''commissioningTimeout'', 0, CUint, Value (VInt 0)),
       (u ''PAKEPasscodeVerifier'', 1, CBytes, Value (VBytes [])),
       (u ''discriminator'', 2, CUint, Value (VInt 0)),
       (u ''iterations'', 3, CUint, Value (VInt 0)),
       (u ''salt'', 4, CBytes, Value (VBytes []))]]"

definition CommissionerControl_attributes :: "attribute_class list" where
  "CommissionerControl_attributes = [
     AttributeClass (u ''SupportedDeviceCategories'') 1873 0 (flag_type CommissionerControl_SupportedDeviceCategoryBitmap) (Value (VInt 0)),
     AttributeClass (u ''GeneratedCommandList'') 1873 65528 (CList CUint) (EmptyList),
     AttributeClass (u ''AcceptedCommandList'') 1873 65529 (CList CUint) (EmptyList),
     AttributeClass (u ''AttributeList'') 1873 65531 (CList CUint) (EmptyList),
     AttributeClass (u ''FeatureMap'') 1873 65532 CUint (Value (VInt 0)),
     AttributeClass (u ''ClusterRevision'') 1873 65533 CUint (Value (VInt 0))]"

definition CommissionerControl_events :: "event_class list" where
  "CommissionerControl_events = [
     EventClass (u ''CommissioningRequestResult'') 1873 0 [(u ''requestID'', 0, CUint, Value (VInt 0)),
       (u ''clientNodeID'', 1, CUint, Value (VInt 0)),
       (u ''statusCode'', 2, enum_type Globals_status, Value (VInt 0)),
       (u ''fabricIndex'', 254, CUint, Value (VInt 0))]]"

definition CommissionerControl_cluster :: "cluster_def" where
  "CommissionerControl_cluster = ClusterDef (u ''CommissionerControl'') 1873 [
     (u ''supportedDeviceCategories'', 0, flag_type CommissionerControl_SupportedDeviceCategoryBitmap, Value (VInt 0)),
     (u ''generatedCommandList'', 65528, CList CUint, EmptyList),
     (u ''acceptedCommandList'', 65529, CList CUint, EmptyList),
     (u ''attributeList'', 65531, CList CUint, EmptyList),
     (u ''featureMap'', 65532, CUint, Value (VInt 0)),
     (u ''clusterRevision'', 65533, CUint, Value (VInt 0))]
     CommissionerControl_commands
     CommissionerControl_attributes
     CommissionerControl_events"

section \<open>CommodityMetering\<close>

definition CommodityMetering_MeteredQuantityStruct :: "dfield list" where
  "CommodityMetering_MeteredQuantityStruct = [
     (u ''tariffComponentIDs'', 0, CList CUint, EmptyList),
     (u ''quantity'', 1, CInt, Value (VInt 0))]"

definition CommodityMetering_attributes :: "attribute_class list" where
  "CommodityMetering_attributes = [
     AttributeClass (u ''MeteredQuantity'') 2823 0 (nullable (CList (struct_type CommodityMetering_MeteredQuantityStruct))) (Value VNull),
     AttributeClass (u ''MeteredQuantityTimestamp'') 2823 1 (nullable CUint) (Value VNull),
     AttributeClass (u ''TariffUnit'') 2823 2 (nullable (enum_type Globals_TariffUnitEnum)) (Value VNull),
     AttributeClass (u ''MaximumMeteredQuantities'') 2823 3 (nullable CUint) (Value VNull),
     AttributeClass (u ''GeneratedCommandList'') 2823 65528 (CList CUint) (EmptyList),
     AttributeClass (u ''AcceptedCommandList'') 2823 65529 (CList CUint) (EmptyList),
     AttributeClass (u ''AttributeList'') 2823 65531 (CList CUint) (EmptyList),
     AttributeClass (u ''FeatureMap'') 2823 65532 CUint (Value (VInt 0)),
     AttributeClass (u ''ClusterRevision'') 2823 65533 CUint (Value (VInt 0))]"

definition CommodityMetering_cluster :: "cluster_def" where
  "CommodityMetering_cluster = ClusterDef (u ''CommodityMetering'') 2823 [
     (u ''meteredQuantity'', 0, nullable (CList (struct_type CommodityMetering_MeteredQuantityStruct)), Value VNull),
     (u ''meteredQuantityTimestamp'', 1, nullable CUint, Value VNull),
     (u ''tariffUnit'', 2, nullable (enum_type Globals_TariffUnitEnum), Value VNull),
     (u ''maximumMeteredQuantities'', 3, nullable CUint, Value VNull),
     (u ''generatedCommandList'', 65528, CList CUint, EmptyList),
     (u ''acceptedCommandList'', 65529, CList CUint, EmptyList),
     (u ''attributeList'', 65531, CList CUint, EmptyList),
     (u ''featureMap'', 65532, CUint, Value (VInt 0)),
     (u ''clusterRevision'', 65533, CUint, Value (VInt 0))]
     []
     CommodityMetering_attributes
     []"

section \<open>CommodityPrice\<close>

definition CommodityPrice_Feature :: "(pystr \<times> int) list" where
  "CommodityPrice_Feature = [
     (u ''kForecasting'', 1)]"

definition CommodityPrice_CommodityPriceDetailBitmap :: "(pystr \<times> int) list" where
  "CommodityPrice_CommodityPriceDetailBitmap = [
     (u ''kDescription'', 1),
     (u ''kComponents'', 2)]"

definition CommodityPrice_CommodityPriceComponentStruct :: "dfield list" where
  "CommodityPrice_CommodityPriceComponentStruct = [
     (u ''price'', 0, CInt, Value (VInt 0)),
     (u ''source'', 1, enum_type Globals_TariffPriceTypeEnum, Value (VInt 0)),
     (u ''description'', 2, optional CStr, Value VNone),
     (u ''tariffComponentID'', 3, optional CUint, Value VNone)]"

definition CommodityPrice_CommodityPriceStruct :: "dfield list" where
  "CommodityPrice_CommodityPriceStruct = [
     (u ''periodStart'', 0, CUint, Value (VInt 0)),
     (u ''periodEnd'', 1, nullable CUint, Value VNull),
     (u ''price'', 2, optional CInt, Value VNone),
     (u ''priceLevel'', 3, optional CInt, Value VNone),
     (u ''description'', 4, optional CStr, Value VNone),
     (u ''components'', 5, optional (CList (struct_type CommodityPrice_CommodityPriceComponentStruct)), Value VNone)]"

definition CommodityPrice_commands :: "command_class list" where
  "CommodityPrice_commands = [
     CommandClass (u ''GetDetailedPriceRequest'') 149 0 True (Some (u ''GetDetailedPriceResponse'')) False [(u ''details'', 0, flag_type CommodityPrice_CommodityPriceDetailBitmap, Value (VInt 0))],
     CommandClass (u ''GetDetailedForecastRequest'') 149 2 True (Some (u ''GetDetailedForecastResponse'')) False [(u ''details'', 0, flag_type CommodityPrice_CommodityPriceDetailBitmap, Value (VInt 0))],
     CommandClass (u ''GetDetailedPriceResponse'') 149 1 False None False [(u ''currentPrice'', 0, nullable (struct_type CommodityPrice_CommodityPriceStruct), Value VNull)],
     CommandClass (u ''GetDetailedForecastResponse'') 149 3 False None False [(u ''priceForecast'', 0, CList (struct_type CommodityPrice_CommodityPriceStruct), EmptyList)]]"

definition CommodityPrice_attributes :: "attribute_class list" where
  "CommodityPrice_attributes = [
     AttributeClass (u ''TariffUnit'') 149 0 (enum_type Globals_TariffUnitEnum) (Value (VInt 0)),
     AttributeClass (u ''Currency'') 149 1 (nullable (struct_type Globals_currency)) (Value VNull),
     AttributeClass (u ''CurrentPrice'') 149 2 (nullable (struct_type CommodityPrice_CommodityPriceStruct)) (Value VNull),
     AttributeClass (u ''PriceForecast'') 149 3 (optional (CList (struct_type CommodityPrice_CommodityPriceStruct))) (Value VNone),
     AttributeClass (u ''GeneratedCommandList'') 149 65528 (CList CUint) (EmptyList),
     AttributeClass (u ''AcceptedCommandList'') 149 65529 (CList CUint) (EmptyList),
     AttributeClass (u ''AttributeList'') 149 65531 (CList CUint) (EmptyList),
     AttributeClass (u ''FeatureMap'') 149 65532 CUint (Value (VInt 0)),
     AttributeClass (u ''ClusterRevision'') 149 65533 CUint (Value (VInt 0))]"

definition CommodityPrice_events :: "event_class list" where
  "CommodityPrice_events = [
     EventClass (u ''PriceChange'') 149 0 [(u ''currentPrice'', 0, nullable (struct_type CommodityPrice_CommodityPriceStruct), Value VNull)]]"

definition CommodityPrice_cluster :: "cluster_def" where
  "CommodityPrice_cluster = ClusterDef (u ''CommodityPrice'') 149 [
     (u ''tariffUnit'', 0, enum_type Globals_TariffUnitEnum, Value (VInt 0)),
     (u ''currency'', 1, nullable (struct_type Globals_currency), Value VNull),
     (u ''currentPrice'', 2, nullable (struct_type CommodityPrice_CommodityPriceStruct), Value VNull),
     (u ''priceForecast'', 3, optional (CList (struct_type CommodityPrice_CommodityPriceStruct)), Value VNone),
     (u ''generatedCommandList'', 65528, CList CUint, EmptyList),
     (u ''acceptedCommandList'', 65529, CList CUint, EmptyList),
     (u ''attributeList'', 65531, CList CUint, EmptyList),
     (u ''featureMap'', 65532, CUint, Value (VInt 0)),
     (u ''clusterRevision'', 65533, CUint, Value (VInt 0))]
     CommodityPrice_commands
     CommodityPrice_attributes
     CommodityPrice_events"

section \<open>CommodityTariff\<close>

definition CommodityTariff_AuxiliaryLoadSettingEnum :: "(pystr \<times> int) list" where
  "CommodityTariff_AuxiliaryLoadSettingEnum = [
     (u ''kOff'', 0),
     (u ''kOn'', 1),
     (u ''kNone'', 2),
     (u ''kUnknownEnumValue'', 3)]"

definition CommodityTariff_DayTypeEnum :: "(pystr \<times> int) list" where
  "CommodityTariff_DayTypeEnum = [
     (u ''kStandard'', 0),
     (u ''kHoliday'', 1),
     (u ''kDynamic'', 2),
     (u ''kEvent'', 3),
     (u ''kUnknownEnumValue'', 4)]"

definition CommodityTariff_PeakPeriodSeverityEnum :: "(pystr \<times> int) list" where
  "CommodityTariff_PeakPeriodSeverityEnum = [
     (u ''kUnused'', 0),
     (u ''kLow'', 1),
     (u ''kMedium'', 2),
     (u ''kHigh'', 3),
     (u ''kUnknownEnumValue'', 4)]"

definition CommodityTariff_DayEntryRandomizationTypeEnum :: "(pystr \<times> int) list" where
  "CommodityTariff_DayEntryRandomizationTypeEnum = [
     (u ''kNone'', 0),
     (u ''kFixed'', 1),
     (u ''kRandom'', 2),
     (u ''kRandomPositive'', 3),
     (u ''kRandomNegative'', 4),
     (u ''kUnknownEnumValue'', 5)]"

definition CommodityTariff_BlockModeEnum :: "(pystr \<times> int) list" where
  "CommodityTariff_BlockModeEnum = [
     (u ''kNoBlock'', 0),
     (u ''kCombined'', 1),
     (u ''kIndividual'', 2),
     (u ''kUnknownEnumValue'', 3)]"

definition CommodityTariff_Feature :: "(pystr \<times> int) list" where
  "CommodityTariff_Feature = [
     (u ''kPricing'', 1),
     (u ''kFriendlyCredit'', 2),
     (u ''kAuxiliaryLoad'', 4),
     (u ''kPeakPeriod'', 8),
     (u ''kPowerThreshold'', 16),
     (u ''kRandomization'', 32)]"

definition CommodityTariff_DayPatternDayOfWeekBitmap :: "(pystr \<times> int) list" where
  "CommodityTariff_DayPatternDayOfWeekBitmap = [
     (u ''kSunday'', 1),
     (u ''kMonday'', 2),
     (u ''kTuesday'', 4),
     (u ''kWednesday'', 8),
     (u ''kThursday'', 16),
     (u ''kFriday'', 32),
     (u ''kSaturday'', 64)]"

definition CommodityTariff_AuxiliaryLoadSwitchSettingsStruct :: "dfield list" where
  "CommodityTariff_AuxiliaryLoadSwitchSettingsStruct = [
     (u ''number'', 0, CUint, Value (VInt 0)),
     (u ''requiredState'', 1, enum_type CommodityTariff_AuxiliaryLoadSettingEnum, Value (VInt 0))]"

definition CommodityTariff_AuxiliaryLoadSwitchesSettingsStruct :: "dfield list" where
  "CommodityTariff_AuxiliaryLoadSwitchesSettingsStruct = [
     (u ''switchStates'', 0, CList (struct_type CommodityTariff_AuxiliaryLoadSwitchSettingsStruct), EmptyList)]"

definition CommodityTariff_CalendarPeriodStruct :: "dfield list" where
  "CommodityTariff_CalendarPeriodStruct = [
     (u ''startDate'', 0, nullable CUint, Value VNull),
     (u ''dayPatternIDs'', 1, CList CUint, EmptyList)]"

definition CommodityTariff_DayEntryStruct :: "dfield list" where
  "CommodityTariff_DayEntryStruct = [
     (u ''dayEntryID'', 0, CUint, Value (VInt 0)),
     (u ''startTime'', 1, CUint, Value (VInt 0)),
     (u ''duration'', 2, optional CUint, Value VNone),
     (u ''randomizationOffset'', 3, optional CInt, Value VNone),
     (u ''randomizationType'', 4, optional (enum_type CommodityTariff_DayEntryRandomizationTypeEnum), Value VNone)]"

definition CommodityTariff_DayStruct :: "dfield list" where
  "CommodityTariff_DayStruct = [
     (u ''date'', 0, CUint, Value (VInt 0)),
     (u ''dayType'', 1, enum_type CommodityTariff_DayTypeEnum, Value (VInt 0)),
     (u ''dayEntryIDs'', 2, CList CUint, EmptyList)]"

definition CommodityTariff_DayPatternStruct :: "dfield list" where
  "CommodityTariff_DayPatternStruct = [
     (u ''dayPatternID'', 0, CUint, Value (VInt 0)),
     (u ''daysOfWeek'', 1, flag_type CommodityTariff_DayPatternDayOfWeekBitmap, Value (VInt 0)),
     (u ''dayEntryIDs'', 2, CList CUint, EmptyList)]"

definition CommodityTariff_PeakPeriodStruct :: "dfield list" where
  "CommodityTariff_PeakPeriodStruct = [
     (u ''severity'', 0, enum_type CommodityTariff_PeakPeriodSeverityEnum, Value (VInt 0)),
     (u ''peakPeriod'', 1, CUint, Value (VInt 0))]"

definition CommodityTariff_TariffInformationStruct :: "dfield list" where
  "CommodityTariff_TariffInformationStruct = [
     (u ''tariffLabel'', 0, nullable CStr, Value VNull),
     (u ''providerName'', 1, nullable CStr, Value VNull),
     (u ''currency'', 2, optional_nullable (struct_type Globals_currency), Value VNone),
     (u ''blockMode'', 3, nullable (enum_type CommodityTariff_BlockModeEnum), Value VNull)]"

definition CommodityTariff_TariffPriceStruct :: "dfield list" where
  "CommodityTariff_TariffPriceStruct = [
     (u ''priceType'', 0, enum_type Globals_TariffPriceTypeEnum, Value (VInt 0)),
     (u ''price'', 1, optional CInt, Value VNone),
     (u ''priceLevel'', 2, optional CInt, Value VNone)]"

definition CommodityTariff_TariffComponentStruct :: "dfield list" where
  "CommodityTariff_TariffComponentStruct = [
     (u ''tariffComponentID'', 0, CUint, Value (VInt 0)),
     (u ''price'', 1, optional_nullable (struct_type CommodityTariff_TariffPriceStruct), Value VNone),
     (u ''friendlyCredit'', 2, optional CBool, Value VNone),
     (u ''auxiliaryLoad'', 3, optional (struct_type CommodityTariff_AuxiliaryLoadSwitchSettingsStruct), Value VNone),
     (u ''peakPeriod'', 4, optional (struct_type CommodityTariff_PeakPeriodStruct), Value VNone),
     (u ''powerThreshold'', 5, optional (struct_type Globals_PowerThresholdStruct), Value VNone),
     (u ''threshold'', 6, nullable CInt, Value VNull),
     (u ''label'', 7, optional_nullable CStr, Value VNone),
     (u ''predicted'', 8, optional CBool, Value VNone)]"

definition CommodityTariff_TariffPeriodStruct :: "dfield list" where
  "CommodityTariff_TariffPeriodStruct = [
     (u ''label'', 0, nullable CStr, Value VNull),
     (u ''dayEntryIDs'', 1, CList CUint, EmptyList),
     (u ''tariffComponentIDs'', 2, CList CUint, EmptyList)]"

definition CommodityTariff_commands :: "command_class list" where
  "CommodityTariff_commands = [
     CommandClass (u ''GetTariffComponent'') 1792 0 True (Some (u ''GetTariffComponentResponse'')) False [(u ''tariffComponentID'', 0, CUint, Value (VInt 0))],
     CommandClass (u ''GetDayEntry'') 1792 1 True (Some (u ''GetDayEntryResponse'')) False [(u ''dayEntryID'', 0, CUint, Value (VInt 0))],
     CommandClass (u ''GetTariffComponentResponse'') 1792 0 False None False [(u ''label'', 0, nullable CStr, Value VNull),
       (u ''dayEntryIDs'', 1, CList CUint, EmptyList),
       (u ''tariffComponent'', 2, struct_type CommodityTariff_TariffComponentStruct, Instance CommodityTariff_TariffComponentStruct)],
     CommandClass (u ''GetDayEntryResponse'') 1792 1 False None False [(u ''dayEntry'', 0, struct_type CommodityTariff_DayEntryStruct, Instance CommodityTariff_DayEntryStruct)]]"

definition CommodityTariff_attributes_1 :: "attribute_class list" where
  "CommodityTariff_attributes_1 = [
     AttributeClass (u ''TariffInfo'') 1792 0 (nullable (struct_type CommodityTariff_TariffInformationStruct)) (Value VNull),
     AttributeClass (u ''TariffUnit'') 1792 1 (nullable (enum_type Globals_TariffUnitEnum)) (Value VNull),
     AttributeClass (u ''StartDate'') 1792 2 (nullable CUint) (Value VNull),
     AttributeClass (u ''DayEntries'') 1792 3 (nullable (CList (struct_type CommodityTariff_DayEntryStruct))) (Value VNull),
     AttributeClass (u ''DayPatterns'') 1792 4 (nullable (CList (struct_type CommodityTariff_DayPatternStruct))) (Value VNull),
     AttributeClass (u ''CalendarPeriods'') 1792 5 (nullable (CList (struct_type CommodityTariff_CalendarPeriodStruct))) (Value VNull),
     AttributeClass (u ''IndividualDays'') 1792 6 (nullable (CList (struct_type CommodityTariff_DayStruct))) (Value VNull),
     AttributeClass (u ''CurrentDay'') 1792 7 (nullable (struct_type CommodityTariff_DayStruct)) (Value VNull),
     AttributeClass (u ''NextDay'') 1792 8 (nullable (struct_type CommodityTariff_DayStruct)) (Value VNull)]"

definition CommodityTariff_attributes_2 :: "attribute_class list" where
  "CommodityTariff_attributes_2 = [
     AttributeClass (u ''CurrentDayEntry'') 1792 9 (nullable (struct_type CommodityTariff_DayEntryStruct)) (Value VNull),
     AttributeClass (u ''CurrentDayEntryDate'') 1792 10 (nullable CUint) (Value VNull),
     AttributeClass (u ''NextDayEntry'') 1792 11 (nullable (struct_type CommodityTariff_DayEntryStruct)) (Value VNull),
     AttributeClass (u ''NextDayEntryDate'') 1792 12 (nullable CUint) (Value VNull),
     AttributeClass (u ''TariffComponents'') 1792 13 (nullable (CList (struct_type CommodityTariff_TariffComponentStruct))) (Value VNull),
     AttributeClass (u ''TariffPeriods'') 1792 14 (nullable (CList (struct_type CommodityTariff_TariffPeriodStruct))) (Value VNull),
     AttributeClass (u ''CurrentTariffComponents'') 1792 15 (nullable (CList (struct_type CommodityTariff_TariffComponentStruct))) (Value VNull),
     AttributeClass (u ''NextTariffComponents'') 1792 16 (nullable (CList (struct_type CommodityTariff_TariffComponentStruct))) (Value VNull),
     AttributeClass (u ''DefaultRandomizationOffset'') 1792 17 (optional_nullable CInt) (Value VNone)]"

definition CommodityTariff_attributes_3 :: "attribute_class list" where
  "CommodityTariff_attributes_3 = [
     AttributeClass (u ''DefaultRandomizationType'') 1792 18 (optional_nullable (enum_type CommodityTariff_DayEntryRandomizationTypeEnum)) (Value VNone),
     AttributeClass (u ''GeneratedCommandList'') 1792 65528 (CList CUint) (EmptyList),
     AttributeClass (u ''AcceptedCommandList'') 1792 65529 (CList CUint) (EmptyList),
     AttributeClass (u ''AttributeList'') 1792 65531 (CList CUint) (EmptyList),
     AttributeClass (u ''FeatureMap'') 1792 65532 CUint (Value (VInt 0)),
     AttributeClass (u ''ClusterRevision'') 1792 65533 CUint (Value (VInt 0))]"

definition CommodityTariff_cluster :: "cluster_def" where
  "CommodityTariff_cluster = ClusterDef (u ''CommodityTariff'') 1792 [
     (u ''tariffInfo'', 0, nullable (struct_type CommodityTariff_TariffInformationStruct), Value VNull),
     (u ''tariffUnit'', 1, nullable (enum_type Globals_TariffUnitEnum), Value VNull),
     (u ''startDate'', 2, nullable CUint, Value VNull),
     (u ''dayEntries'', 3, nullable (CList (struct_type CommodityTariff_DayEntryStruct)), Value VNull),
     (u ''dayPatterns'', 4, nullable (CList (struct_type CommodityTariff_DayPatternStruct)), Value VNull),
     (u ''calendarPeriods'', 5, nullable (CList (struct_type CommodityTariff_CalendarPeriodStruct)), Value VNull),
     (u ''individualDays'', 6, nullable (CList (struct_type CommodityTariff_DayStruct)), Value VNull),
     (u ''currentDay'', 7, nullable (struct_type CommodityTariff_DayStruct), Value VNull),
     (u ''nextDay'', 8, nullable (struct_type CommodityTariff_DayStruct), Value VNull),
     (u ''currentDayEntry'', 9, nullable (struct_type CommodityTariff_DayEntryStruct), Value VNull),
     (u ''currentDayEntryDate'', 10, nullable CUint, Value VNull),
     (u ''nextDayEntry'', 11, nullable (struct_type CommodityTariff_DayEntryStruct), Value VNull),
     (u ''nextDayEntryDate'', 12, nullable CUint, Value VNull),
     (u ''tariffComponents'', 13, nullable (CList (struct_type CommodityTariff_TariffComponentStruct)), Value VNull),
     (u ''tariffPeriods'', 14, nullable (CList (struct_type CommodityTariff_TariffPeriodStruct)), Value VNull),
     (u ''currentTariffComponents'', 15, nullable (CList (struct_type CommodityTariff_TariffComponentStruct)), Value VNull),
     (u ''nextTariffComponents'', 16, nullable (CList (struct_type CommodityTariff_TariffComponentStruct)), Value VNull),
     (u ''defaultRandomizationOffset'', 17, optional_nullable CInt, Value VNone),
     (u ''defaultRandomizationType'', 18, optional_nullable (enum_type CommodityTariff_DayEntryRandomizationTypeEnum), Value VNone),
     (u ''generatedCommandList'', 65528, CList CUint, EmptyList),
     (u ''acceptedCommandList'', 65529, CList CUint, EmptyList),
     (u ''attributeList'', 65531, CList CUint, EmptyList),
     (u ''featureMap'', 65532, CUint, Value (VInt 0)),
     (u ''clusterRevision'', 65533, CUint, Value (VInt 0))]
     CommodityTariff_commands
     (CommodityTariff_attributes_1 @ CommodityTariff_attributes_2 @ CommodityTariff_attributes_3)
     []"

section \<open>ContentAppObserver\<close>

definition ContentAppObserver_StatusEnum :: "(pystr \<times> int) list" where
  "ContentAppObserver_StatusEnum = [
     (u ''kSuccess'', 0),
     (u ''kUnexpectedData'', 1),
     (u ''kUnknownEnumValue'', 2)]"

definition ContentAppObserver_commands :: "command_class list" where
  "ContentAppObserver_commands = [
     CommandClass (u ''ContentAppMessage'') 1296 0 True (Some (u ''ContentAppMessageResponse'')) False [(u ''data'', 0, CStr, Value (VStr [])),
       (u ''encodingHint'', 1, optional CStr, Value VNone)],
     CommandClass (u ''ContentAppMessageResponse'') 1296 1 False None False [(u ''status'', 0, enum_type ContentAppObserver_StatusEnum, Value (VInt 0)),
       (u ''data'', 1, optional CStr, Value VNone),
       (u ''encodingHint'', 2, optional CStr, Value VNone)]]"

definition ContentAppObserver_attributes :: "attribute_class list" where
  "ContentAppObserver_attributes = [
     AttributeClass (u ''GeneratedCommandList'') 1296 65528 (CList CUint) (EmptyList),
     AttributeClass (u ''AcceptedCommandList'') 1296 65529 (CList CUint) (EmptyList),
     AttributeClass (u ''AttributeList'') 1296 65531 (CList CUint) (EmptyList),
     AttributeClass (u ''FeatureMap'') 1296 65532 CUint (Value (VInt 0)),
     AttributeClass (u ''ClusterRevision'') 1296 65533 CUint (Value (VInt 0))]"

definition ContentAppObserver_cluster :: "cluster_def" where
  "ContentAppObserver_cluster = ClusterDef (u ''ContentAppObserver'') 1296 [
     (u ''generatedCommandList'', 65528, CList CUint, EmptyList),
     (u ''acceptedCommandList'', 65529, CList CUint, EmptyList),
     (u ''attributeList'', 65531, CList CUint, EmptyList),
     (u ''featureMap'', 65532, CUint, Value (VInt 0)),
     (u ''clusterRevision'', 65533, CUint, Value (VInt 0))]
     ContentAppObserver_commands
     ContentAppObserver_attributes
     []"

section \<open>ContentControl\<close>

definition ContentControl_StatusCodeEnum :: "(pystr \<times> int) list" where
  "ContentControl_StatusCodeEnum = [
     (u ''kInvalidPINCode'', 2),
     (u ''kInvalidRating'', 3),
     (u ''kInvalidChannel'', 4),
     (u ''kChannelAlreadyExist'', 5),
     (u ''kChannelNotExist'', 6),
     (u ''kUnidentifiableApplication'', 7),
     (u ''kApplicationAlreadyExist'', 8),
     (u ''kApplicationNotExist'', 9),
     (u ''kTimeWindowAlreadyExist'', 10),
     (u ''kTimeWindowNotExist'', 11),
     (u ''kUnknownEnumValue'', 12)]"

definition ContentControl_Feature :: "(pystr \<times> int) list" where
  "ContentControl_Feature = [
     (u ''kScreenTime'', 1),
     (u ''kPINManagement'', 2),
     (u ''kBlockUnrated'', 4),
     (u ''kOnDemandContentRating'', 8),
     (u ''kScheduledContentRating'', 16),
     (u ''kBlockChannels'', 32),
     (u ''kBlockApplications'', 64),
     (u ''kBlockContentTimeWindow'', 128)]"

definition ContentControl_DayOfWeekBitmap :: "(pystr \<times> int) list" where
  "ContentControl_DayOfWeekBitmap = [
     (u ''kSunday'', 1),
     (u ''kMonday'', 2),
     (u ''kTuesday'', 4),
     (u ''kWednesday'', 8),
     (u ''kThursday'', 16),
     (u ''kFriday'', 32),
     (u ''kSaturday'', 64)]"

definition ContentControl_RatingNameStruct :: "dfield list" where
  "ContentControl_RatingNameStruct = [
     (u ''ratingName'', 0, CStr, Value (VStr [])),
     (u ''ratingNameDesc'', 1, optional CStr, Value VNone)]"

definition ContentControl_BlockChannelStruct :: "dfield list" where
  "ContentControl_BlockChannelStruct = [
     (u ''blockChannelIndex'', 0, nullable CUint, Value VNull),
     (u ''majorNumber'', 1, CUint, Value (VInt 0)),
     (u ''minorNumber'', 2, CUint, Value (VInt 0)),
     (u ''identifier'', 3, optional CStr, Value VNone)]"

definition ContentControl_AppInfoStruct :: "dfield list" where
  "ContentControl_AppInfoStruct = [
     (u ''catalogVendorID'', 0, CUint, Value (VInt 0)),
     (u ''applicationID'', 1, CStr, Value (VStr []))]"

definition ContentControl_TimePeriodStruct :: "dfield list" where
  "ContentControl_TimePeriodStruct = [
     (u ''startHour'', 0, CUint, Value (VInt 0)),
     (u ''startMinute'', 1, CUint, Value (VInt 0)),
     (u ''endHour'', 2, CUint, Value (VInt 0)),
     (u ''endMinute'', 3, CUint, Value (VInt 0))]"

definition ContentControl_TimeWindowStruct :: "dfield list" where
  "ContentControl_TimeWindowStruct = [
     (u ''timeWindowIndex'', 0, nullable CUint, Value VNull),
     (u ''dayOfWeek'', 1, flag_type ContentControl_DayOfWeekBitmap, Value (VInt 0)),
     (u ''timePeriod'', 2, CList (struct_type ContentControl_TimePeriodStruct), EmptyList)]"

definition ContentControl_commands_1 :: "command_class list" where
  "ContentControl_commands_1 = [
     CommandClass (u ''UpdatePIN'') 1295 0 True None True [(u ''oldPIN'', 0, CStr, Value (VStr [])),
       (u ''newPIN'', 1, CStr, Value (VStr []))],
     CommandClass (u ''ResetPIN'') 1295 1 True (Some (u ''ResetPINResponse'')) True [],
     CommandClass (u ''Enable'') 1295 3 True None True [],
     CommandClass (u ''Disable'') 1295 4 True None True [],
     CommandClass (u ''AddBonusTime'') 1295 5 True None False [(u ''PINCode'', 0, optional CStr, Value VNone),
       (u ''bonusTime'', 1, CUint, Value (VInt 0))],
     CommandClass (u ''SetScreenDailyTime'') 1295 6 True None False [(u ''screenTime'', 0, CUint, Value (VInt 0))],
     CommandClass (u ''BlockUnratedContent'') 1295 7 True None False [],
     CommandClass (u ''UnblockUnratedContent'') 1295 8 True None False []]"

definition ContentControl_commands_2 :: "command_class list" where
  "ContentControl_commands_2 = [
     CommandClass (u ''SetOnDemandRatingThreshold'') 1295 9 True None False [(u ''rating'', 0, CStr, Value (VStr []))],
     CommandClass (u ''SetScheduledContentRatingThreshold'') 1295 10 True None False [(u ''rating'', 0, CStr, Value (VStr []))],
     CommandClass (u ''AddBlockChannels'') 1295 11 True None False [(u ''channels'', 0, CList (struct_type ContentControl_BlockChannelStruct), EmptyList)],
     CommandClass (u ''RemoveBlockChannels'') 1295 12 True None False [(u ''channelIndexes'', 0, CList CUint, EmptyList)],
     CommandClass (u ''AddBlockApplications'') 1295 13 True None False [(u ''applications'', 0, CList (struct_type ContentControl_AppInfoStruct), EmptyList)],
     CommandClass (u ''RemoveBlockApplications'') 1295 14 True None False [(u ''applications'', 0, CList (struct_type ContentControl_AppInfoStruct), EmptyList)],
     CommandClass (u ''SetBlockContentTimeWindow'') 1295 15 True None False [(u ''timeWindow'', 0, struct_type ContentControl_TimeWindowStruct, Instance ContentControl_TimeWindowStruct)],
     CommandClass (u ''RemoveBlockContentTimeWindow'') 1295 16 True None False [(u ''timeWindowIndexes'', 0, CList CUint, EmptyList)],
     CommandClass (u ''ResetPINResponse'') 1295 2 False None False [(u ''PINCode'', 0, CStr, Value (VStr []))]]"

definition ContentControl_attributes_1 :: "attribute_class list" where
  "ContentControl_attributes_1 = [
     AttributeClass (u ''Enabled'') 1295 0 CBool (Value (VBool False)),
     AttributeClass (u ''OnDemandRatings'') 1295 1 (optional (CList (struct_type ContentControl_RatingNameStruct))) (Value VNone),
     AttributeClass (u ''OnDemandRatingThreshold'') 1295 2 (optional CStr) (Value VNone),
     AttributeClass (u ''ScheduledContentRatings'') 1295 3 (optional (CList (struct_type ContentControl_RatingNameStruct))) (Value VNone),
     AttributeClass (u ''ScheduledContentRatingThreshold'') 1295 4 (optional CStr) (Value VNone),
     AttributeClass (u ''ScreenDailyTime'') 1295 5 (optional CUint) (Value VNone),
     AttributeClass (u ''RemainingScreenTime'') 1295 6 (optional CUint) (Value VNone),
     AttributeClass (u ''BlockUnrated'') 1295 7 (optional CBool) (Value VNone),
     AttributeClass (u ''BlockChannelList'') 1295 8 (optional (CList (struct_type ContentControl_BlockChannelStruct))) (Value VNone)]"

definition ContentControl_attributes_2 :: "attribute_class list" where
  "ContentControl_attributes_2 = [
     AttributeClass (u ''BlockApplicationList'') 1295 9 (optional (CList (struct_type ContentControl_AppInfoStruct))) (Value VNone),
     AttributeClass (u ''BlockContentTimeWindow'') 1295 10 (optional (CList (struct_type ContentControl_TimeWindowStruct))) (Value VNone),
     AttributeClass (u ''GeneratedCommandList'') 1295 65528 (CList CUint) (EmptyList),
     AttributeClass (u ''AcceptedCommandList'') 1295 65529 (CList CUint) (EmptyList),
     AttributeClass (u ''AttributeList'') 1295 65531 (CList CUint) (EmptyList),
     AttributeClass (u ''FeatureMap'') 1295 65532 CUint (Value (VInt 0)),
     AttributeClass (u ''ClusterRevision'') 1295 65533 CUint (Value (VInt 0))]"

definition ContentControl_events :: "event_class list" where
  "ContentControl_events = [
     EventClass (u ''RemainingScreenTimeExpired'') 1295 0 [],
     EventClass (u ''EnteringBlockContentTimeWindow'') 1295 1 []]"

definition ContentControl_cluster :: "cluster_def" where
  "ContentControl_cluster = ClusterDef (u ''ContentControl'') 1295 [
     (u ''enabled'', 0, CBool, Value (VBool False)),
     (u ''onDemandRatings'', 1, optional (CList (struct_type ContentControl_RatingNameStruct)), Value VNone),
     (u ''onDemandRatingThreshold'', 2, optional CStr, Value VNone),
     (u ''scheduledContentRatings'', 3, optional (CList (struct_type ContentControl_RatingNameStruct)), Value VNone),
     (u ''scheduledContentRatingThreshold'', 4, optional CStr, Value VNone),
     (u ''screenDailyTime'', 5, optional CUint, Value VNone),
     (u ''remainingScreenTime'', 6, optional CUint, Value VNone),
     (u ''blockUnrated'', 7, optional CBool, Value VNone),
     (u ''blockChannelList'', 8, optional (CList (struct_type ContentControl_BlockChannelStruct)), Value VNone),
     (u ''blockApplicationList'', 9, optional (CList (struct_type ContentControl_AppInfoStruct)), Value VNone),
     (u ''blockContentTimeWindow'', 10, optional (CList (struct_type ContentControl_TimeWindowStruct)), Value VNone),
     (u ''generatedCommandList'', 65528, CList CUint, EmptyList),
     (u ''acceptedCommandList'', 65529, CList CUint, EmptyList),
     (u ''attributeList'', 65531, CList CUint, EmptyList),
     (u ''featureMap'', 65532, CUint, Value (VInt 0)),
     (u ''clusterRevision'', 65533, CUint, Value (VInt 0))]
     (ContentControl_commands_1 @ ContentControl_commands_2)
     (ContentControl_attributes_1 @ ContentControl_attributes_2)
     ContentControl_events"

section \<open>Descriptor\<close>

definition Descriptor_Feature :: "(pystr \<times> int) list" where
  "Descriptor_Feature = [
     (u ''kTagList'', 1)]"

definition Descriptor_DeviceTypeStruct :: "dfield list" where
  "Descriptor_DeviceTypeStruct = [
     (u ''deviceType'', 0, CUint, Value (VInt 0)),
     (u ''revision'', 1, CUint, Value (VInt 0))]"

definition Descriptor_attributes_1 :: "attribute_class list" where
  "Descriptor_attributes_1 = [
     AttributeClass (u ''DeviceTypeList'') 29 0 (CList (struct_type Descriptor_DeviceTypeStruct)) (EmptyList),
     AttributeClass (u ''ServerList'') 29 1 (CList CUint) (EmptyList),
     AttributeClass (u ''ClientList'') 29 2 (CList CUint) (EmptyList),
     AttributeClass (u ''PartsList'') 29 3 (CList CUint) (EmptyList),
     AttributeClass (u ''TagList'') 29 4 (optional (CList (struct_type Globals_semtag))) (Value VNone),
     AttributeClass (u ''EndpointUniqueID'') 29 5 (optional CStr) (Value VNone),
     AttributeClass (u ''GeneratedCommandList'') 29 65528 (CList CUint) (EmptyList),
     AttributeClass (u ''AcceptedCommandList'') 29 65529 (CList CUint) (EmptyList),
     AttributeClass (u ''AttributeList'') 29 65531 (CList CUint) (EmptyList)]"

definition Descriptor_attributes_2 :: "attribute_class list" where
  "Descriptor_attributes_2 = [
     AttributeClass (u ''FeatureMap'') 29 65532 CUint (Value (VInt 0)),
     AttributeClass (u ''ClusterRevision'') 29 65533 CUint (Value (VInt 0))]"

definition Descriptor_cluster :: "cluster_def" where
  "Descriptor_cluster = ClusterDef (u ''Descriptor'') 29 [
     (u ''deviceTypeList'', 0, CList (struct_type Descriptor_DeviceTypeStruct), EmptyList),
     (u ''serverList'', 1, CList CUint, EmptyList),
     (u ''clientList'', 2, CList CUint, EmptyList),
     (u ''partsList'', 3, CList CUint, EmptyList),
     (u ''tagList'', 4, optional (CList (struct_type Globals_semtag)), Value VNone),
     (u ''endpointUniqueID'', 5, optional CStr, Value VNone),
     (u ''generatedCommandList'', 65528, CList CUint, EmptyList),
     (u ''acceptedCommandList'', 65529, CList CUint, EmptyList),
     (u ''attributeList'', 65531, CList CUint, EmptyList),
     (u ''featureMap'', 65532, CUint, Value (VInt 0)),
     (u ''clusterRevision'', 65533, CUint, Value (VInt 0))]
     []
     (Descriptor_attributes_1 @ Descriptor_attributes_2)
     []"

section \<open>Consistency\<close>

lemma ColorControl_cluster_ok: "cluster_ok ColorControl_cluster" "cd_id ColorControl_cluster = 768"
  by (simp_all add: class_simps ColorControl_commands_1_def
    ColorControl_commands_2_def
    ColorControl_commands_3_def
    ColorControl_commands_4_def
    ColorControl_attributes_1_def
    ColorControl_attributes_2_def
    ColorControl_attributes_3_def
    ColorControl_attributes_4_def
    ColorControl_attributes_5_def
    ColorControl_attributes_6_def
    ColorControl_attributes_7_def
    ColorControl_cluster_def del: u_simps)

lemma CommissionerControl_cluster_ok: "cluster_ok CommissionerControl_cluster" "cd_id CommissionerControl_cluster = 1873"
  by (simp_all add: class_simps CommissionerControl_commands_def
    CommissionerControl_attributes_def
    CommissionerControl_events_def
    CommissionerControl_cluster_def del: u_simps)

lemma CommodityMetering_members_ok [simp]: "members_ok CommodityMetering_MeteredQuantityStruct"
  by (simp_all add: class_simps CommodityMetering_MeteredQuantityStruct_def del: u_simps)

lemma CommodityMetering_cluster_ok: "cluster_ok CommodityMetering_cluster" "cd_id CommodityMetering_cluster = 2823"
  by (simp_all add: class_simps CommodityMetering_attributes_def
    CommodityMetering_cluster_def del: u_simps)

lemma CommodityPrice_members_ok [simp]: "members_ok CommodityPrice_CommodityPriceComponentStruct"
    "members_ok CommodityPrice_CommodityPriceStruct"
  by (simp_all add: class_simps CommodityPrice_CommodityPriceComponentStruct_def
    CommodityPrice_CommodityPriceStruct_def del: u_simps)

lemma CommodityPrice_cluster_ok: "cluster_ok CommodityPrice_cluster" "cd_id CommodityPrice_cluster = 149"
  by (simp_all add: class_simps CommodityPrice_commands_def
    CommodityPrice_attributes_def
    CommodityPrice_events_def
    CommodityPrice_cluster_def del: u_simps)

lemma CommodityTariff_members_ok [simp]: "members_ok CommodityTariff_AuxiliaryLoadSwitchSettingsStruct"
    "members_ok CommodityTariff_AuxiliaryLoadSwitchesSettingsStruct"
    "members_ok CommodityTariff_CalendarPeriodStruct"
    "members_ok CommodityTariff_DayEntryStruct"
    "members_ok CommodityTariff_DayStruct"
    "members_ok CommodityTariff_DayPatternStruct"
    "members_ok CommodityTariff_PeakPeriodStruct"
    "members_ok CommodityTariff_TariffInformationStruct"
    "members_ok CommodityTariff_TariffPriceStruct"
    "members_ok CommodityTariff_TariffComponentStruct"
    "members_ok CommodityTariff_TariffPeriodStruct"
  by (simp_all add: class_simps CommodityTariff_AuxiliaryLoadSwitchSettingsStruct_def
    CommodityTariff_AuxiliaryLoadSwitchesSettingsStruct_def
    CommodityTariff_CalendarPeriodStruct_def
    CommodityTariff_DayEntryStruct_def
    CommodityTariff_DayStruct_def
    CommodityTariff_DayPatternStruct_def
    CommodityTariff_PeakPeriodStruct_def
    CommodityTariff_TariffInformationStruct_def
    CommodityTariff_TariffPriceStruct_def
    CommodityTariff_TariffComponentStruct_def
    CommodityTariff_TariffPeriodStruct_def del: u_simps)

lemma CommodityTariff_cluster_ok: "cluster_ok CommodityTariff_cluster" "cd_id CommodityTariff_cluster = 1792"
  by (simp_all add: class_simps CommodityTariff_commands_def
    CommodityTariff_attributes_1_def
    CommodityTariff_attributes_2_def
    CommodityTariff_attributes_3_def
    CommodityTariff_cluster_def del: u_simps)

lemma ContentAppObserver_cluster_ok: "cluster_ok ContentAppObserver_cluster" "cd_id ContentAppObserver_cluster = 1296"
  by (simp_all add: class_simps ContentAppObserver_commands_def
    ContentAppObserver_attributes_def
    ContentAppObserver_cluster_def del: u_simps)

lemma ContentControl_members_ok [simp]: "members_ok ContentControl_RatingNameStruct"
    "members_ok ContentControl_BlockChannelStruct"
    "members_ok ContentControl_AppInfoStruct"
    "members_ok ContentControl_TimePeriodStruct"
    "members_ok ContentControl_TimeWindowStruct"
  by (simp_all add: class_simps ContentControl_RatingNameStruct_def
    ContentControl_BlockChannelStruct_def
    ContentControl_AppInfoStruct_def
    ContentControl_TimePeriodStruct_def
    ContentControl_TimeWindowStruct_def del: u_simps)

lemma ContentControl_cluster_ok: "cluster_ok ContentControl_cluster" "cd_id ContentControl_cluster = 1295"
  by (simp_all add: class_simps ContentControl_commands_1_def
    ContentControl_commands_2_def
    ContentControl_attributes_1_def
    ContentControl_attributes_2_def
    ContentControl_events_def
    ContentControl_cluster_def del: u_simps)

lemma Descriptor_members_ok [simp]: "members_ok Descriptor_DeviceTypeStruct"
  by (simp_all add: class_simps Descriptor_DeviceTypeStruct_def del: u_simps)

lemma Descriptor_cluster_ok: "cluster_ok Descriptor_cluster" "cd_id Descriptor_cluster = 29"
  by (simp_all add: class_simps Descriptor_attributes_1_def
    Descriptor_attributes_2_def
    Descriptor_cluster_def del: u_simps)

end
