(* ===== verification/Clusters_DeviceEnergyManagement.thy ===== *)
theory Clusters_DeviceEnergyManagement
  imports Clusters_Base
begin

text \<open>
  The generated files \<open>DeviceEnergyManagement.py\<close> to \<open>EcosystemInformation.py\<close> of \<open>chip/clusters/cluster_defs/\<close>, in the form of
  \<open>Clusters_Base\<close>.
\<close>

section \<open>DeviceEnergyManagement\<close>

definition DeviceEnergyManagement_CostTypeEnum :: "(pystr \<times> int) list" where
  "DeviceEnergyManagement_CostTypeEnum = [
     (u ''kFinancial'', 0),
     (u ''kGHGEmissions'', 1),
     (u ''kComfort'', 2),
     (u ''kTemperature'', 3),
     (u ''kUnknownEnumValue'', 4)]"

definition DeviceEnergyManagement_ESATypeEnum :: "(pystr \<times> int) list" where
  "DeviceEnergyManagement_ESATypeEnum = [
     (u ''kEvse'', 0),
     (u ''kSpaceHeating'', 1),
     (u ''kWaterHeating'', 2),
     (u ''kSpaceCooling'', 3),
     (u ''kSpaceHeatingCooling'', 4),
     (u ''kBatteryStorage'', 5),
     (u ''kSolarPV'', 6),
     (u ''kFridgeFreezer'', 7),
     (u ''kWashingMachine'', 8),
     (u ''kDishwasher'', 9),
     (u ''kCooking'', 10),
     (u ''kHomeWaterPump'', 11),
     (u ''kIrrigationWaterPump'', 12),
     (u ''kPoolPump'', 13),
     (u ''kOther'', 255),
     (u ''kUnknownEnumValue'', 256)]"

definition DeviceEnergyManagement_ESAStateEnum :: "(pystr \<times> int) list" where
  "DeviceEnergyManagement_ESAStateEnum = [
     (u ''kOffline'', 0),
     (u ''kOnline'', 1),
     (u ''kFault'', 2),
     (u ''kPowerAdjustActive'', 3),
     (u ''kPaused'', 4),
     (u ''kUnknownEnumValue'', 5)]"

definition DeviceEnergyManagement_OptOutStateEnum :: "(pystr \<times> int) list" where
  "DeviceEnergyManagement_OptOutStateEnum = [
     (u ''kNoOptOut'', 0),
     (u ''kLocalOptOut'', 1),
     (u ''kGridOptOut'', 2),
     (u ''kOptOut'', 3),
     (u ''kUnknownEnumValue'', 4)]"

definition DeviceEnergyManagement_CauseEnum :: "(pystr \<times> int) list" where
  "DeviceEnergyManagement_CauseEnum = [
     (u ''kNormalCompletion'', 0),
     (u ''kOffline'', 1),
     (u ''kFault'', 2),
     (u ''kUserOptOut'', 3),
     (u ''kCancelled'', 4),
     (u ''kUnknownEnumValue'', 5)]"

definition DeviceEnergyManagement_AdjustmentCauseEnum :: "(pystr \<times> int) list" where
  "DeviceEnergyManagement_AdjustmentCauseEnum = [
     (u ''kLocalOptimization'', 0),
     (u ''kGridOptimization'', 1),
     (u ''kUnknownEnumValue'', 2)]"

definition DeviceEnergyManagement_ForecastUpdateReasonEnum :: "(pystr \<times> int) list" where
  "DeviceEnergyManagement_ForecastUpdateReasonEnum = [
     (u ''kInternalOptimization'', 0),
     (u ''kLocalOptimization'', 1),
     (u ''kGridOptimization'', 2),
     (u ''kUnknownEnumValue'', 3)]"

definition DeviceEnergyManagement_PowerAdjustReasonEnum :: "(pystr \<times> int) list" where
  "DeviceEnergyManagement_PowerAdjustReasonEnum = [
     (u ''kNoAdjustment'', 0),
     (u ''kLocalOptimizationAdjustment'', 1),
     (u ''kGridOptimizationAdjustment'', 2),
     (u ''kUnknownEnumValue'', 3)]"

definition DeviceEnergyManagement_Feature :: "(pystr \<times> int) list" where
  "DeviceEnergyManagement_Feature = [
     (u ''kPowerAdjustment'', 1),
     (u ''kPowerForecastReporting'', 2),
     (u ''kStateForecastReporting'', 4),
     (u ''kStartTimeAdjustment'', 8),
     (u ''kPausable'', 16),
     (u ''kForecastAdjustment'', 32),
     (u ''kConstraintBasedAdjustment'', 64)]"

definition DeviceEnergyManagement_CostStruct :: "dfield list" where
  "DeviceEnergyManagement_CostStruct = [
     (u ''costType'', 0, enum_type DeviceEnergyManagement_CostTypeEnum, Value (VInt 0)),
     (u ''value'', 1, CInt, Value (VInt 0)),
     (u ''decimalPoints'', 2, CUint, Value (VInt 0)),
     (u ''currency'', 3, optional CUint, Value VNone)]"

definition DeviceEnergyManagement_PowerAdjustStruct :: "dfield list" where
  "DeviceEnergyManagement_PowerAdjustStruct = [
     (u ''minPower'', 0, CInt, Value (VInt 0)),
     (u ''maxPower'', 1, CInt, Value (VInt 0)),
     (u ''minDuration'', 2, CUint, Value (VInt 0)),
     (u ''maxDuration'', 3, CUint, Value (VInt 0))]"

definition DeviceEnergyManagement_PowerAdjustCapabilityStruct :: "dfield list" where
  "DeviceEnergyManagement_PowerAdjustCapabilityStruct = [
     (u ''powerAdjustCapability'', 0, nullable (CList (struct_type DeviceEnergyManagement_PowerAdjustStruct)), Value VNull),
     (u ''cause'', 1, enum_type DeviceEnergyManagement_PowerAdjustReasonEnum, Value (VInt 0))]"

definition DeviceEnergyManagement_SlotStruct :: "dfield list" where
  "DeviceEnergyManagement_SlotStruct = [
     (u ''minDuration'', 0, CUint, Value (VInt 0)),
     (u ''maxDuration'', 1, CUint, Value (VInt 0)),
     (u ''defaultDuration'', 2, CUint, Value (VInt 0)),
     (u ''elapsedSlotTime'', 3, CUint, Value (VInt 0)),
     (u ''remainingSlotTime'', 4, CUint, Value (VInt 0)),
     (u ''slotIsPausable'', 5, optional CBool, Value VNone),
     (u ''minPauseDuration'', 6, optional CUint, Value VNone),
     (u ''maxPauseDuration'', 7, optional CUint, Value VNone),
     (u ''manufacturerESAState'', 8, optional CUint, Value VNone),
     (u ''nominalPower'', 9, optional CInt, Value VNone),
     (u ''minPower'', 10, optional CInt, Value VNone),
     (u ''maxPower'', 11, optional CInt, Value VNone),
     (u ''nominalEnergy'', 12, optional CInt, Value VNone),
     (u ''costs'', 13, optional (CList (struct_type DeviceEnergyManagement_CostStruct)), Value VNone),
     (u ''minPowerAdjustment'', 14, optional CInt, Value VNone),
     (u ''maxPowerAdjustment'', 15, optional CInt, Value VNone),
     (u ''minDurationAdjustment'', 16, optional CUint, Value VNone),
     (u ''maxDurationAdjustment'', 17, optional CUint, Value VNone)]"

definition DeviceEnergyManagement_ForecastStruct :: "dfield list" where
  "DeviceEnergyManagement_ForecastStruct = [
     (u ''forecastID'', 0, CUint, Value (VInt 0)),
     (u ''activeSlotNumber'', 1, nullable CUint, Value VNull),
     (u ''startTime'', 2, CUint, Value (VInt 0)),
     (u ''endTime'', 3, CUint, Value (VInt 0)),
     (u ''earliestStartTime'', 4, optional_nullable CUint, Value VNone),
     (u ''latestEndTime'', 5, optional CUint, Value VNone),
     (u ''isPausable'', 6, CBool, Value (VBool False)),
     (u ''slots'', 7, CList (struct_type DeviceEnergyManagement_SlotStruct), EmptyList),
     (u ''forecastUpdateReason'', 8, enum_type DeviceEnergyManagement_ForecastUpdateReasonEnum, Value (VInt 0))]"

definition DeviceEnergyManagement_SlotAdjustmentStruct :: "dfield list" where
  "DeviceEnergyManagement_SlotAdjustmentStruct = [
     (u ''slotIndex'', 0, CUint, Value (VInt 0)),
     (u ''nominalPower'', 1, optional CInt, Value VNone),
     (u ''duration'', 2, CUint, Value (VInt 0))]"

definition DeviceEnergyManagement_ConstraintsStruct :: "dfield list" where
  "DeviceEnergyManagement_ConstraintsStruct = [
     (u ''startTime'', 0, CUint, Value (VInt 0)),
     (u ''duration'', 1, CUint, Value (VInt 0)),
     (u ''nominalPower'', 2, optional CInt, Value VNone),
     (u ''maximumEnergy'', 3, optional CInt, Value VNone),
     (u ''loadControl'', 4, optional CInt, Value VNone)]"

definition DeviceEnergyManagement_commands :: "command_class list" where
  "DeviceEnergyManagement_commands = [
     CommandClass (u ''PowerAdjustRequest'') 152 0 True None False [(u ''power'', 0, CInt, Value (VInt 0)),
       (u ''duration'', 1, CUint, Value (VInt 0)),
       (u ''cause'', 2, enum_type DeviceEnergyManagement_AdjustmentCauseEnum, Value (VInt 0))],
     CommandClass (u ''CancelPowerAdjustRequest'') 152 1 True None False [],
     CommandClass (u ''StartTimeAdjustRequest'') 152 2 True None False [(u ''requestedStartTime'', 0, CUint, Value (VInt 0)),
       (u ''cause'', 1, enum_type DeviceEnergyManagement_AdjustmentCauseEnum, Value (VInt 0))],
     CommandClass (u ''PauseRequest'') 152 3 True None False [(u ''duration'', 0, CUint, Value (VInt 0)),
       (u ''cause'', 1, enum_type DeviceEnergyManagement_AdjustmentCauseEnum, Value (VInt 0))],
     CommandClass (u ''ResumeRequest'') 152 4 True None False [],
     CommandClass (u ''ModifyForecastRequest'') 152 5 True None False [(u ''forecastID'', 0, CUint, Value (VInt 0)),
       (u ''slotAdjustments'', 1, CList (struct_type DeviceEnergyManagement_SlotAdjustmentStruct), EmptyList),
       (u ''cause'', 2, enum_type DeviceEnergyManagement_AdjustmentCauseEnum, Value (VInt 0))],
     CommandClass (u ''RequestConstraintBasedForecast'') 152 6 True None False [(u ''constraints'', 0, CList (struct_type DeviceEnergyManagement_ConstraintsStruct), EmptyList),
       (u ''cause'', 1, enum_type DeviceEnergyManagement_AdjustmentCauseEnum, Value (VInt 0))],
     CommandClass (u ''CancelRequest'') 152 7 True None False []]"

definition DeviceEnergyManagement_attributes_1 :: "attribute_class list" where
  "DeviceEnergyManagement_attributes_1 = [
     AttributeClass (u ''ESAType'') 152 0 (enum_type DeviceEnergyManagement_ESATypeEnum) (Value (VInt 0)),
     AttributeClass (u ''ESACanGenerate'') 152 1 CBool (Value (VBool False)),
     AttributeClass (u ''ESAState'') 152 2 (enum_type DeviceEnergyManagement_ESAStateEnum) (Value (VInt 0)),
     AttributeClass (u ''AbsMinPower'') 152 3 CInt (Value (VInt 0)),
     AttributeClass (u ''AbsMaxPower'') 152 4 CInt (Value (VInt 0)),
     AttributeClass (u ''PowerAdjustmentCapability'') 152 5 (optional_nullable (struct_type DeviceEnergyManagement_PowerAdjustCapabilityStruct)) (Value VNone),
     AttributeClass (u ''Forecast'') 152 6 (optional_nullable (struct_type DeviceEnergyManagement_ForecastStruct)) (Value VNone),
     AttributeClass (u ''OptOutState'') 152 7 (optional (enum_type DeviceEnergyManagement_OptOutStateEnum)) (Value VNone),
     AttributeClass (u ''GeneratedCommandList'') 152 65528 (CList CUint) (EmptyList)]"

definition DeviceEnergyManagement_attributes_2 :: "attribute_class list" where
  "DeviceEnergyManagement_attributes_2 = [
     AttributeClass (u ''AcceptedCommandList'') 152 65529 (CList CUint) (EmptyList),
     AttributeClass (u ''AttributeList'') 152 65531 (CList CUint) (EmptyList),
     AttributeClass (u ''FeatureMap'') 152 65532 CUint (Value (VInt 0)),
     AttributeClass (u ''ClusterRevision'') 152 65533 CUint (Value (VInt 0))]"

definition DeviceEnergyManagement_events :: "event_class list" where
  "DeviceEnergyManagement_events = [
     EventClass (u ''PowerAdjustStart'') 152 0 [],
     EventClass (u ''PowerAdjustEnd'') 152 1 [(u ''cause'', 0, enum_type DeviceEnergyManagement_CauseEnum, Value (VInt 0)),
       (u ''duration'', 1, CUint, Value (VInt 0)),
       (u ''energyUse'', 2, CInt, Value (VInt 0))],
     EventClass (u ''Paused'') 152 2 [],
     EventClass (u ''Resumed'') 152 3 [(u ''cause'', 0, enum_type DeviceEnergyManagement_CauseEnum, Value (VInt 0))]]"

definition DeviceEnergyManagement_cluster :: "cluster_def" where
  "DeviceEnergyManagement_cluster = ClusterDef (u ''DeviceEnergyManagement'') 152 [
     (u ''ESAType'', 0, enum_type DeviceEnergyManagement_ESATypeEnum, Value (VInt 0)),
     (u ''ESACanGenerate'', 1, CBool, Value (VBool False)),
     (u ''ESAState'', 2, enum_type DeviceEnergyManagement_ESAStateEnum, Value (VInt 0)),
     (u ''absMinPower'', 3, CInt, Value (VInt 0)),
     (u ''absMaxPower'', 4, CInt, Value (VInt 0)),
     (u ''powerAdjustmentCapability'', 5, optional_nullable (struct_type DeviceEnergyManagement_PowerAdjustCapabilityStruct), Value VNone),
     (u ''forecast'', 6, optional_nullable (struct_type DeviceEnergyManagement_ForecastStruct), Value VNone),
     (u ''optOutState'', 7, optional (enum_type DeviceEnergyManagement_OptOutStateEnum), Value VNone),
     (u ''generatedCommandList'', 65528, CList CUint, EmptyList),
     (u ''acceptedCommandList'', 65529, CList CUint, EmptyList),
     (u ''attributeList'', 65531, CList CUint, EmptyList),
     (u ''featureMap'', 65532, CUint, Value (VInt 0)),
     (u ''clusterRevision'', 65533, CUint, Value (VInt 0))]
     DeviceEnergyManagement_commands
     (DeviceEnergyManagement_attributes_1 @ DeviceEnergyManagement_attributes_2)
     DeviceEnergyManagement_events"

section \<open>DeviceEnergyManagementMode\<close>

definition DeviceEnergyManagementMode_ModeTag :: "(pystr \<times> int) list" where
  "DeviceEnergyManagementMode_ModeTag = [
     (u ''kAuto'', 0),
     (u ''kQuick'', 1),
     (u ''kQuiet'', 2),
     (u ''kLowNoise'', 3),
     (u ''kLowEnergy'', 4),
     (u ''kVacation'', 5),
     (u ''kMin'', 6),
     (u ''kMax'', 7),
     (u ''kNight'', 8),
     (u ''kDay'', 9),
     (u ''kNoOptimization'', 16384),
     (u ''kDeviceOptimization'', 16385),
     (u ''kLocalOptimization'', 16386),
     (u ''kGridOptimization'', 16387),
     (u ''kUnknownEnumValue'', 16388)]"

definition DeviceEnergyManagementMode_ModeChangeStatus :: "(pystr \<times> int) list" where
  "DeviceEnergyManagementMode_ModeChangeStatus = [
     (u ''kSuccess'', 0),
     (u ''kUnsupportedMode'', 1),
     (u ''kGenericFailure'', 2),
     (u ''kInvalidInMode'', 3),
     (u ''kUnknownEnumValue'', 4)]"

definition DeviceEnergyManagementMode_Feature :: "(pystr \<times> int) list" where
  "DeviceEnergyManagementMode_Feature = [
     (u ''kOnOff'', 1)]"

definition DeviceEnergyManagementMode_ModeTagStruct :: "dfield list" where
  "DeviceEnergyManagementMode_ModeTagStruct = [
     (u ''mfgCode'', 0, optional CUint, Value VNone),
     (u ''value'', 1, enum_type DeviceEnergyManagementMode_ModeTag, Value (VInt 0))]"

definition DeviceEnergyManagementMode_ModeOptionStruct :: "dfield list" where
  "DeviceEnergyManagementMode_ModeOptionStruct = [
     (u ''label'', 0, CStr, Value (VStr [])),
     (u ''mode'', 1, CUint, Value (VInt 0)),
     (u ''modeTags'', 2, CList (struct_type DeviceEnergyManagementMode_ModeTagStruct), EmptyList)]"

definition DeviceEnergyManagementMode_commands :: "command_class list" where
  "DeviceEnergyManagementMode_commands = [
     CommandClass (u ''ChangeToMode'') 159 0 True (Some (u ''ChangeToModeResponse'')) False [(u ''newMode'', 0, CUint, Value (VInt 0))],
     CommandClass (u ''ChangeToModeResponse'') 159 1 False None False [(u ''status'', 0, enum_type DeviceEnergyManagementMode_ModeChangeStatus, Value (VInt 0)),
       (u ''statusText'', 1, CStr, Value (VStr []))]]"

definition DeviceEnergyManagementMode_attributes :: "attribute_class list" where
  "DeviceEnergyManagementMode_attributes = [
     AttributeClass (u ''SupportedModes'') 159 0 (CList (struct_type DeviceEnergyManagementMode_ModeOptionStruct)) (EmptyList),
     AttributeClass (u ''CurrentMode'') 159 1 CUint (Value (VInt 0)),
     AttributeClass (u ''StartUpMode'') 159 2 (optional_nullable CUint) (Value VNone),
     AttributeClass (u ''OnMode'') 159 3 (optional_nullable CUint) (Value VNone),
     AttributeClass (u ''GeneratedCommandList'') 159 65528 (CList CUint) (EmptyList),
     AttributeClass (u ''AcceptedCommandList'') 159 65529 (CList CUint) (EmptyList),
     AttributeClass (u ''AttributeList'') 159 65531 (CList CUint) (EmptyList),
     AttributeClass (u ''FeatureMap'') 159 65532 CUint (Value (VInt 0)),
     AttributeClass (u ''ClusterRevision'') 159 65533 CUint (Value (VInt 0))]"

definition DeviceEnergyManagementMode_cluster :: "cluster_def" where
  "DeviceEnergyManagementMode_cluster = ClusterDef (u ''DeviceEnergyManagementMode'') 159 [
     (u ''supportedModes'', 0, CList (struct_type DeviceEnergyManagementMode_ModeOptionStruct), EmptyList),
     (u ''currentMode'', 1, CUint, Value (VInt 0)),
     (u ''startUpMode'', 2, optional_nullable CUint, Value VNone),
     (u ''onMode'', 3, optional_nullable CUint, Value VNone),
     (u ''generatedCommandList'', 65528, CList CUint, EmptyList),
     (u ''acceptedCommandList'', 65529, CList CUint, EmptyList),
     (u ''attributeList'', 65531, CList CUint, EmptyList),
     (u ''featureMap'', 65532, CUint, Value (VInt 0)),
     (u ''clusterRevision'', 65533, CUint, Value (VInt 0))]
     DeviceEnergyManagementMode_commands
     DeviceEnergyManagementMode_attributes
     []"

section \<open>DiagnosticLogs\<close>

definition DiagnosticLogs_IntentEnum :: "(pystr \<times> int) list" where
  "DiagnosticLogs_IntentEnum = [
     (u ''kEndUserSupport'', 0),
     (u ''kNetworkDiag'', 1),
     (u ''kCrashLogs'', 2),
     (u ''kUnknownEnumValue'', 3)]"

definition DiagnosticLogs_StatusEnum :: "(pystr \<times> int) list" where
  "DiagnosticLogs_StatusEnum = [
     (u ''kSuccess'', 0),
     (u ''kExhausted'', 1),
     (u ''kNoLogs'', 2),
     (u ''kBusy'', 3),
     (u ''kDenied'', 4),
     (u ''kUnknownEnumValue'', 5)]"

definition DiagnosticLogs_TransferProtocolEnum :: "(pystr \<times> int) list" where
  "DiagnosticLogs_TransferProtocolEnum = [
     (u ''kResponsePayload'', 0),
     (u ''kBdx'', 1),
     (u ''kUnknownEnumValue'', 2)]"

definition DiagnosticLogs_commands :: "command_class list" where
  "DiagnosticLogs_commands = [
     CommandClass (u ''RetrieveLogsRequest'') 50 0 True (Some (u ''RetrieveLogsResponse'')) False [(u ''intent'', 0, enum_type DiagnosticLogs_IntentEnum, Value (VInt 0)),
       (u ''requestedProtocol'', 1, enum_type DiagnosticLogs_TransferProtocolEnum, Value (VInt 0)),
       (u ''transferFileDesignator'', 2, optional CStr, Value VNone)],
     CommandClass (u ''RetrieveLogsResponse'') 50 1 False None False [(u ''status'', 0, enum_type DiagnosticLogs_StatusEnum, Value (VInt 0)),
       (u ''logContent'', 1, CBytes, Value (VBytes [])),
       (u ''UTCTimeStamp'', 2, optional CUint, Value VNone),
       (u ''timeSinceBoot'', 3, optional CUint, Value VNone)]]"

definition DiagnosticLogs_attributes :: "attribute_class list" where
  "DiagnosticLogs_attributes = [
     AttributeClass (u ''GeneratedCommandList'') 50 65528 (CList CUint) (EmptyList),
     AttributeClass (u ''AcceptedCommandList'') 50 65529 (CList CUint) (EmptyList),
     AttributeClass (u ''AttributeList'') 50 65531 (CList CUint) (EmptyList),
     AttributeClass (u ''FeatureMap'') 50 65532 CUint (Value (VInt 0)),
     AttributeClass (u ''ClusterRevision'') 50 65533 CUint (Value (VInt 0))]"

definition DiagnosticLogs_cluster :: "cluster_def" where
  "DiagnosticLogs_cluster = ClusterDef (u ''DiagnosticLogs'') 50 [
     (u ''generatedCommandList'', 65528, CList CUint, EmptyList),
     (u ''acceptedCommandList'', 65529, CList CUint, EmptyList),
     (u ''attributeList'', 65531, CList CUint, EmptyList),
     (u ''featureMap'', 65532, CUint, Value (VInt 0)),
     (u ''clusterRevision'', 65533, CUint, Value (VInt 0))]
     DiagnosticLogs_commands
     DiagnosticLogs_attributes
     []"

section \<open>DishwasherAlarm\<close>

definition DishwasherAlarm_Feature :: "(pystr \<times> int) list" where
  "DishwasherAlarm_Feature = [
     (u ''kReset'', 1)]"

definition DishwasherAlarm_AlarmBitmap :: "(pystr \<times> int) list" where
  "DishwasherAlarm_AlarmBitmap = [
     (u ''kInflowError'', 1),
     (u ''kDrainError'', 2),
     (u ''kDoorError'', 4),
     (u ''kTempTooLow'', 8),
     (u ''kTempTooHigh'', 16),
     (u ''kWaterLevelError'', 32)]"

definition DishwasherAlarm_commands :: "command_class list" where
  "DishwasherAlarm_commands = [
     CommandClass (u ''Reset'') 93 0 True None False [(u ''alarms'', 0, flag_type DishwasherAlarm_AlarmBitmap, Value (VInt 0))],
     CommandClass (u ''ModifyEnabledAlarms'') 93 1 True None False [(u ''mask'', 0, flag_type DishwasherAlarm_AlarmBitmap, Value (VInt 0))]]"

definition DishwasherAlarm_attributes :: "attribute_class list" where
  "DishwasherAlarm_attributes = [
     AttributeClass (u ''Mask'') 93 0 (flag_type DishwasherAlarm_AlarmBitmap) (Value (VInt 0)),
     AttributeClass (u ''Latch'') 93 1 (optional (flag_type DishwasherAlarm_AlarmBitmap)) (Value VNone),
     AttributeClass (u ''State'') 93 2 (flag_type DishwasherAlarm_AlarmBitmap) (Value (VInt 0)),
     AttributeClass (u ''Supported'') 93 3 (flag_type DishwasherAlarm_AlarmBitmap) (Value (VInt 0)),
     AttributeClass (u ''GeneratedCommandList'') 93 65528 (CList CUint) (EmptyList),
     AttributeClass (u ''AcceptedCommandList'') 93 65529 (CList CUint) (EmptyList),
     AttributeClass (u ''AttributeList'') 93 65531 (CList CUint) (EmptyList),
     AttributeClass (u ''FeatureMap'') 93 65532 CUint (Value (VInt 0)),
     AttributeClass (u ''ClusterRevision'') 93 65533 CUint (Value (VInt 0))]"

definition DishwasherAlarm_events :: "event_class list" where
  "DishwasherAlarm_events = [
     EventClass (u ''Notify'') 93 0 [(u ''active'', 0, flag_type DishwasherAlarm_AlarmBitmap, Value (VInt 0)),
       (u ''inactive'', 1, flag_type DishwasherAlarm_AlarmBitmap, Value (VInt 0)),
       (u ''state'', 2, flag_type DishwasherAlarm_AlarmBitmap, Value (VInt 0)),
       (u ''mask'', 3, flag_type DishwasherAlarm_AlarmBitmap, Value (VInt 0))]]"

definition DishwasherAlarm_cluster :: "cluster_def" where
  "DishwasherAlarm_cluster = ClusterDef (u ''DishwasherAlarm'') 93 [
     (u ''mask'', 0, flag_type DishwasherAlarm_AlarmBitmap, Value (VInt 0)),
     (u ''latch'', 1, optional (flag_type DishwasherAlarm_AlarmBitmap), Value VNone),
     (u ''state'', 2, flag_type DishwasherAlarm_AlarmBitmap, Value (VInt 0)),
     (u ''supported'', 3, flag_type DishwasherAlarm_AlarmBitmap, Value (VInt 0)),
     (u ''generatedCommandList'', 65528, CList CUint, EmptyList),
     (u ''acceptedCommandList'', 65529, CList CUint, EmptyList),
     (u ''attributeList'', 65531, CList CUint, EmptyList),
     (u ''featureMap'', 65532, CUint, Value (VInt 0)),
     (u ''clusterRevision'', 65533, CUint, Value (VInt 0))]
     DishwasherAlarm_commands
     DishwasherAlarm_attributes
     DishwasherAlarm_events"

section \<open>DishwasherMode\<close>

definition DishwasherMode_ModeTag :: "(pystr \<times> int) list" where
  "DishwasherMode_ModeTag = [
     (u ''kAuto'', 0),
     (u ''kQuick'', 1),
     (u ''kQuiet'', 2),
     (u ''kLowNoise'', 3),
     (u ''kLowEnergy'', 4),
     (u ''kVacation'', 5),
     (u ''kMin'', 6),
     (u ''kMax'', 7),
     (u ''kNight'', 8),
     (u ''kDay'', 9),
     (u ''kNormal'', 16384),
     (u ''kHeavy'', 16385),
     (u ''kLight'', 16386),
     (u ''kUnknownEnumValue'', 16387)]"

definition DishwasherMode_ModeChangeStatus :: "(pystr \<times> int) list" where
  "DishwasherMode_ModeChangeStatus = [
     (u ''kSuccess'', 0),
     (u ''kUnsupportedMode'', 1),
     (u ''kGenericFailure'', 2),
     (u ''kInvalidInMode'', 3),
     (u ''kUnknownEnumValue'', 4)]"

definition DishwasherMode_Feature :: "(pystr \<times> int) list" where
  "DishwasherMode_Feature = [
     (u ''kOnOff'', 1)]"

definition DishwasherMode_ModeTagStruct :: "dfield list" where
  "DishwasherMode_ModeTagStruct = [
     (u ''mfgCode'', 0, optional CUint, Value VNone),
     (u ''value'', 1, enum_type DishwasherMode_ModeTag, Value (VInt 0))]"

definition DishwasherMode_ModeOptionStruct :: "dfield list" where
  "DishwasherMode_ModeOptionStruct = [
     (u ''label'', 0, CStr, Value (VStr [])),
     (u ''mode'', 1, CUint, Value (VInt 0)),
     (u ''modeTags'', 2, CList (struct_type DishwasherMode_ModeTagStruct), EmptyList)]"

definition DishwasherMode_commands :: "command_class list" where
  "DishwasherMode_commands = [
     CommandClass (u ''ChangeToMode'') 89 0 True (Some (u ''ChangeToModeResponse'')) False [(u ''newMode'', 0, CUint, Value (VInt 0))],
     CommandClass (u ''ChangeToModeResponse'') 89 1 False None False [(u ''status'', 0, enum_type DishwasherMode_ModeChangeStatus, Value (VInt 0)),
       (u ''statusText'', 1, CStr, Value (VStr []))]]"

definition DishwasherMode_attributes :: "attribute_class list" where
  "DishwasherMode_attributes = [
     AttributeClass (u ''SupportedModes'') 89 0 (CList (struct_type DishwasherMode_ModeOptionStruct)) (EmptyList),
     AttributeClass (u ''CurrentMode'') 89 1 CUint (Value (VInt 0)),
     AttributeClass (u ''StartUpMode'') 89 2 (optional_nullable CUint) (Value VNone),
     AttributeClass (u ''OnMode'') 89 3 (optional_nullable CUint) (Value VNone),
     AttributeClass (u ''GeneratedCommandList'') 89 65528 (CList CUint) (EmptyList),
     AttributeClass (u ''AcceptedCommandList'') 89 65529 (CList CUint) (EmptyList),
     AttributeClass (u ''AttributeList'') 89 65531 (CList CUint) (EmptyList),
     AttributeClass (u ''FeatureMap'') 89 65532 CUint (Value (VInt 0)),
     AttributeClass (u ''ClusterRevision'') 89 65533 CUint (Value (VInt 0))]"

definition DishwasherMode_cluster :: "cluster_def" where
  "DishwasherMode_cluster = ClusterDef (u ''DishwasherMode'') 89 [
     (u ''supportedModes'', 0, CList (struct_type DishwasherMode_ModeOptionStruct), EmptyList),
     (u ''currentMode'', 1, CUint, Value (VInt 0)),
     (u ''startUpMode'', 2, optional_nullable CUint, Value VNone),
     (u ''onMode'', 3, optional_nullable CUint, Value VNone),
     (u ''generatedCommandList'', 65528, CList CUint, EmptyList),
     (u ''acceptedCommandList'', 65529, CList CUint, EmptyList),
     (u ''attributeList'', 65531, CList CUint, EmptyList),
     (u ''featureMap'', 65532, CUint, Value (VInt 0)),
     (u ''clusterRevision'', 65533, CUint, Value (VInt 0))]
     DishwasherMode_commands
     DishwasherMode_attributes
     []"

section \<open>DoorLock\<close>

definition DoorLock_AlarmCodeEnum :: "(pystr \<times> int) list" where
  "DoorLock_AlarmCodeEnum = [
     (u ''kLockJammed'', 0),
     (u ''kLockFactoryReset'', 1),
     (u ''kLockRadioPowerCycled'', 3),
     (u ''kWrongCodeEntryLimit'', 4),
     (u ''kFrontEsceutcheonRemoved'', 5),
     (u ''kDoorForcedOpen'', 6),
     (u ''kDoorAjar'', 7),
     (u ''kForcedUser'', 8),
     (u ''kUnknownEnumValue'', 9)]"

definition DoorLock_CredentialRuleEnum :: "(pystr \<times> int) list" where
  "DoorLock_CredentialRuleEnum = [
     (u ''kSingle'', 0),
     (u ''kDual'', 1),
     (u ''kTri'', 2),
     (u ''kUnknownEnumValue'', 3)]"

definition DoorLock_CredentialTypeEnum :: "(pystr \<times> int) list" where
  "DoorLock_CredentialTypeEnum = [
     (u ''kProgrammingPIN'', 0),
     (u ''kPin'', 1),
     (u ''kRfid'', 2),
     (u ''kFingerprint'', 3),
     (u ''kFingerVein'', 4),
     (u ''kFace'', 5),
     (u ''kAliroCredentialIssuerKey'', 6),
     (u ''kAliroEvictableEndpointKey'', 7),
     (u ''kAliroNonEvictableEndpointKey'', 8),
     (u ''kUnknownEnumValue'', 9)]"

definition DoorLock_DataOperationTypeEnum :: "(pystr \<times> int) list" where
  "DoorLock_DataOperationTypeEnum = [
     (u ''kAdd'', 0),
     (u ''kClear'', 1),
     (u ''kModify'', 2),
     (u ''kUnknownEnumValue'', 3)]"

definition DoorLock_DoorStateEnum :: "(pystr \<times> int) list" where
  "DoorLock_DoorStateEnum = [
     (u ''kDoorOpen'', 0),
     (u ''kDoorClosed'', 1),
     (u ''kDoorJammed'', 2),
     (u ''kDoorForcedOpen'', 3),
     (u ''kDoorUnspecifiedError'', 4),
     (u ''kDoorAjar'', 5),
     (u ''kUnknownEnumValue'', 6)]"

definition DoorLock_LockDataTypeEnum :: "(pystr \<times> int) list" where
  "DoorLock_LockDataTypeEnum = [
     (u ''kUnspecified'', 0),
     (u ''kProgrammingCode'', 1),
     (u ''kUserIndex'', 2),
     (u ''kWeekDaySchedule'', 3),
     (u ''kYearDaySchedule'', 4),
     (u ''kHolidaySchedule'', 5),
     (u ''kPin'', 6),
     (u ''kRfid'', 7),
     (u ''kFingerprint'', 8),
     (u ''kFingerVein'', 9),
     (u ''kFace'', 10),
     (u ''kAliroCredentialIssuerKey'', 11),
     (u ''kAliroEvictableEndpointKey'', 12),
     (u ''kAliroNonEvictableEndpointKey'', 13),
     (u ''kUnknownEnumValue'', 14)]"

definition DoorLock_LockOperationTypeEnum :: "(pystr \<times> int) list" where
  "DoorLock_LockOperationTypeEnum = [
     (u ''kLock'', 0),
     (u ''kUnlock'', 1),
     (u ''kNonAccessUserEvent'', 2),
     (u ''kForcedUserEvent'', 3),
     (u ''kUnlatch'', 4),
     (u ''kUnknownEnumValue'', 5)]"

definition DoorLock_OperationErrorEnum :: "(pystr \<times> int) list" where
  "DoorLock_OperationErrorEnum = [
     (u ''kUnspecified'', 0),
     (u ''kInvalidCredential'', 1),
     (u ''kDisabledUserDenied'', 2),
     (u ''kRestricted'', 3),
     (u ''kInsufficientBattery'', 4),
     (u ''kUnknownEnumValue'', 5)]"

definition DoorLock_OperatingModeEnum :: "(pystr \<times> int) list" where
  "DoorLock_OperatingModeEnum = [
     (u ''kNormal'', 0),
     (u ''kVacation'', 1),
     (u ''kPrivacy'', 2),
     (u ''kNoRemoteLockUnlock'', 3),
     (u ''kPassage'', 4),
     (u ''kUnknownEnumValue'', 5)]"

definition DoorLock_OperationSourceEnum :: "(pystr \<times> int) list" where
  "DoorLock_OperationSourceEnum = [
     (u ''kUnspecified'', 0),
     (u ''kManual'', 1),
     (u ''kProprietaryRemote'', 2),
     (u ''kKeypad'', 3),
     (u ''kAuto'', 4),
     (u ''kButton'', 5),
     (u ''kSchedule'', 6),
     (u ''kRemote'', 7),
     (u ''kRfid'', 8),
     (u ''kBiometric'', 9),
     (u ''kAliro'', 10),
     (u ''kUnknownEnumValue'', 11)]"

definition DoorLock_UserStatusEnum :: "(pystr \<times> int) list" where
  "DoorLock_UserStatusEnum = [
     (u ''kAvailable'', 0),
     (u ''kOccupiedEnabled'', 1),
     (u ''kOccupiedDisabled'', 3),
     (u ''kUnknownEnumValue'', 4)]"

definition DoorLock_UserTypeEnum :: "(pystr \<times> int) list" where
  "DoorLock_UserTypeEnum = [
     (u ''kUnrestrictedUser'', 0),
     (u ''kYearDayScheduleUser'', 1),
     (u ''kWeekDayScheduleUser'', 2),
     (u ''kProgrammingUser'', 3),
     (u ''kNonAccessUser'', 4),
     (u ''kForcedUser'', 5),
     (u ''kDisposableUser'', 6),
     (u ''kExpiringUser'', 7),
     (u ''kScheduleRestrictedUser'', 8),
     (u ''kRemoteOnlyUser'', 9),
     (u ''kUnknownEnumValue'', 10)]"

definition DoorLock_DlLockState :: "(pystr \<times> int) list" where
  "DoorLock_DlLockState = [
     (u ''kNotFullyLocked'', 0),
     (u ''kLocked'', 1),
     (u ''kUnlocked'', 2),
     (u ''kUnlatched'', 3),
     (u ''kUnknownEnumValue'', 4)]"

definition DoorLock_DlLockType :: "(pystr \<times> int) list" where
  "DoorLock_DlLockType = [
     (u ''kDeadBolt'', 0),
     (u ''kMagnetic'', 1),
     (u ''kOther'', 2),
     (u ''kMortise'', 3),
     (u ''kRim'', 4),
     (u ''kLatchBolt'', 5),
     (u ''kCylindricalLock'', 6),
     (u ''kTubularLock'', 7),
     (u ''kInterconnectedLock'', 8),
     (u ''kDeadLatch'', 9),
     (u ''kDoorFurniture'', 10),
     (u ''kEurocylinder'', 11),
     (u ''kUnknownEnumValue'', 12)]"

definition DoorLock_LEDSettingEnum :: "(pystr \<times> int) list" where
  "DoorLock_LEDSettingEnum = [
     (u ''kNoLEDSignal'', 0),
     (u ''kNoLEDSignalAccessAllowed'', 1),
     (u ''kLEDSignalAll'', 2),
     (u ''kUnknownEnumValue'', 3)]"

definition DoorLock_SoundVolumeEnum :: "(pystr \<times> int) list" where
  "DoorLock_SoundVolumeEnum = [
     (u ''kSilent'', 0),
     (u ''kLow'', 1),
     (u ''kHigh'', 2),
     (u ''kMedium'', 3),
     (u ''kUnknownEnumValue'', 4)]"

definition DoorLock_EventTypeEnum :: "(pystr \<times> int) list" where
  "DoorLock_EventTypeEnum = [
     (u ''kOperation'', 0),
     (u ''kProgramming'', 1),
     (u ''kAlarm'', 2),
     (u ''kUnknownEnumValue'', 3)]"

definition DoorLock_DlStatus :: "(pystr \<times> int) list" where
  "DoorLock_DlStatus = [
     (u ''kDuplicate'', 2),
     (u ''kOccupied'', 3),
     (u ''kSuccess'', 0),
     (u ''kFailure'', 1),
     (u ''kInvalidField'', 133),
     (u ''kResourceExhausted'', 137),
     (u ''kNotFound'', 139),
     (u ''kUnknownEnumValue'', 140)]"

definition DoorLock_Feature :: "(pystr \<times> int) list" where
  "DoorLock_Feature = [
     (u ''kPinCredential'', 1),
     (u ''kRfidCredential'', 2),
     (u ''kFingerCredentials'', 4),
     (u ''kWeekDayAccessSchedules'', 16),
     (u ''kDoorPositionSensor'', 32),
     (u ''kFaceCredentials'', 64),
     (u ''kCredentialsOverTheAirAccess'', 128),
     (u ''kUser'', 256),
     (u ''kYearDayAccessSchedules'', 1024),
     (u ''kHolidaySchedules'', 2048),
     (u ''kUnbolt'', 4096),
     (u ''kAliroProvisioning'', 8192),
     (u ''kAliroBLEUWB'', 16384)]"

definition DoorLock_DaysMaskBitmap :: "(pystr \<times> int) list" where
  "DoorLock_DaysMaskBitmap = [
     (u ''kSunday'', 1),
     (u ''kMonday'', 2),
     (u ''kTuesday'', 4),
     (u ''kWednesday'', 8),
     (u ''kThursday'', 16),
     (u ''kFriday'', 32),
     (u ''kSaturday'', 64)]"

definition DoorLock_CredentialRulesBitmap :: "(pystr \<times> int) list" where
  "DoorLock_CredentialRulesBitmap = [
     (u ''kSingle'', 1),
     (u ''kDual'', 2),
     (u ''kTri'', 4)]"

definition DoorLock_OperatingModesBitmap :: "(pystr \<times> int) list" where
  "DoorLock_OperatingModesBitmap = [
     (u ''kNormal'', 1),
     (u ''kVacation'', 2),
     (u ''kPrivacy'', 4),
     (u ''kNoRemoteLockUnlock'', 8),
     (u ''kPassage'', 16),
     (u ''kAlwaysSet'', 65504)]"

definition DoorLock_ConfigurationRegisterBitmap :: "(pystr \<times> int) list" where
  "DoorLock_ConfigurationRegisterBitmap = [
     (u ''kLocalProgramming'', 1),
     (u ''kKeypadInterface'', 2),
     (u ''kRemoteInterface'', 4),
     (u ''kSoundVolume'', 32),
     (u ''kAutoRelockTime'', 64),
     (u ''kLEDSettings'', 128)]"

definition DoorLock_LocalProgrammingFeaturesBitmap :: "(pystr \<times> int) list" where
  "DoorLock_LocalProgrammingFeaturesBitmap = [
     (u ''kAddUsersCredentialsSchedules'', 1),
     (u ''kModifyUsersCredentialsSchedules'', 2),
     (u ''kClearUsersCredentialsSchedules'', 4),
     (u ''kAdjustSettings'', 8)]"

definition DoorLock_AlarmMaskBitmap :: "(pystr \<times> int) list" where
  "DoorLock_AlarmMaskBitmap = [
     (u ''kLockJammed'', 1),
     (u ''kLockFactoryReset'', 2),
     (u ''kLockRadioPowerCycled'', 8),
     (u ''kWrongCodeEntryLimit'', 16),
     (u ''kFrontEscutcheonRemoved'', 32),
     (u ''kDoorForcedOpen'', 64)]"

definition DoorLock_CredentialStruct :: "dfield list" where
  "DoorLock_CredentialStruct = [
     (u ''credentialType'', 0, enum_type DoorLock_CredentialTypeEnum, Value (VInt 0)),
     (u ''credentialIndex'', 1, CUint, Value (VInt 0))]"

definition DoorLock_commands_1 :: "command_class list" where
  "DoorLock_commands_1 = [
     CommandClass (u ''LockDoor'') 257 0 True None True [(u ''PINCode'', 0, optional CBytes, Value VNone)],
     CommandClass (u ''UnlockDoor'') 257 1 True None True [(u ''PINCode'', 0, optional CBytes, Value VNone)],
     CommandClass (u ''Toggle'') 257 2 True None True [],
     CommandClass (u ''UnlockWithTimeout'') 257 3 True None True [(u ''timeout'', 0, CUint, Value (VInt 0)),
       (u ''PINCode'', 1, optional CBytes, Value VNone)],
     CommandClass (u ''SetWeekDaySchedule'') 257 11 True None False [(u ''weekDayIndex'', 0, CUint, Value (VInt 0)),
       (u ''userIndex'', 1, CUint, Value (VInt 0)),
       (u ''daysMask'', 2, flag_type DoorLock_DaysMaskBitmap, Value (VInt 0)),
       (u ''startHour'', 3, CUint, Value (VInt 0)),
       (u ''startMinute'', 4, CUint, Value (VInt 0)),
       (u ''endHour'', 5, CUint, Value (VInt 0)),
       (u ''endMinute'', 6, CUint, Value (VInt 0))],
     CommandClass (u ''GetWeekDaySchedule'') 257 12 True (Some (u ''GetWeekDayScheduleResponse'')) False [(u ''weekDayIndex'', 0, CUint, Value (VInt 0)),
       (u ''userIndex'', 1, CUint, Value (VInt 0))],
     CommandClass (u ''ClearWeekDaySchedule'') 257 13 True None False [(u ''weekDayIndex'', 0, CUint, Value (VInt 0)),
       (u ''userIndex'', 1, CUint, Value (VInt 0))]]"

definition DoorLock_commands_2 :: "command_class list" where
  "DoorLock_commands_2 = [
     CommandClass (u ''SetYearDaySchedule'') 257 14 True None False [(u ''yearDayIndex'', 0, CUint, Value (VInt 0)),
       (u ''userIndex'', 1, CUint, Value (VInt 0)),
       (u ''localStartTime'', 2, CUint, Value (VInt 0)),
       (u ''localEndTime'', 3, CUint, Value (VInt 0))],
     CommandClass (u ''GetYearDaySchedule'') 257 15 True (Some (u ''GetYearDayScheduleResponse'')) False [(u ''yearDayIndex'', 0, CUint, Value (VInt 0)),
       (u ''userIndex'', 1, CUint, Value (VInt 0))],
     CommandClass (u ''ClearYearDaySchedule'') 257 16 True None False [(u ''yearDayIndex'', 0, CUint, Value (VInt 0)),
       (u ''userIndex'', 1, CUint, Value (VInt 0))],
     CommandClass (u ''SetHolidaySchedule'') 257 17 True None False [(u ''holidayIndex'', 0, CUint, Value (VInt 0)),
       (u ''localStartTime'', 1, CUint, Value (VInt 0)),
       (u ''localEndTime'', 2, CUint, Value (VInt 0)),
       (u ''operatingMode'', 3, enum_type DoorLock_OperatingModeEnum, Value (VInt 0))],
     CommandClass (u ''GetHolidaySchedule'') 257 18 True (Some (u ''GetHolidayScheduleResponse'')) False [(u ''holidayIndex'', 0, CUint, Value (VInt 0))],
     CommandClass (u ''ClearHolidaySchedule'') 257 19 True None False [(u ''holidayIndex'', 0, CUint, Value (VInt 0))],
     CommandClass (u ''SetUser'') 257 26 True None True [(u ''operationType'', 0, enum_type DoorLock_DataOperationTypeEnum, Value (VInt 0)),
       (u ''userIndex'', 1, CUint, Value (VInt 0)),
       (u ''userName'', 2, nullable CStr, Value VNull),
       (u ''userUniqueID'', 3, nullable CUint, Value VNull),
       (u ''userStatus'', 4, nullable (enum_type DoorLock_UserStatusEnum), Value VNull),
       (u ''userType'', 5, nullable (enum_type DoorLock_UserTypeEnum), Value VNull),
       (u ''credentialRule'', 6, nullable (enum_type DoorLock_CredentialRuleEnum), Value VNull)]]"

definition DoorLock_commands_3 :: "command_class list" where
  "DoorLock_commands_3 = [
     CommandClass (u ''GetUser'') 257 27 True (Some (u ''GetUserResponse'')) False [(u ''userIndex'', 0, CUint, Value (VInt 0))],
     CommandClass (u ''ClearUser'') 257 29 True None True [(u ''userIndex'', 0, CUint, Value (VInt 0))],
     CommandClass (u ''SetCredential'') 257 34 True (Some (u ''SetCredentialResponse'')) True [(u ''operationType'', 0, enum_type DoorLock_DataOperationTypeEnum, Value (VInt 0)),
       (u ''credential'', 1, struct_type DoorLock_CredentialStruct, Instance DoorLock_CredentialStruct),
       (u ''credentialData'', 2, CBytes, Value (VBytes [])),
       (u ''userIndex'', 3, nullable CUint, Value VNull),
       (u ''userStatus'', 4, nullable (enum_type DoorLock_UserStatusEnum), Value VNull),
       (u ''userType'', 5, nullable (enum_type DoorLock_UserTypeEnum), Value VNull)],
     CommandClass (u ''GetCredentialStatus'') 257 36 True (Some (u ''GetCredentialStatusResponse'')) False [(u ''credential'', 0, struct_type DoorLock_CredentialStruct, Instance DoorLock_CredentialStruct)],
     CommandClass (u ''ClearCredential'') 257 38 True None True [(u ''credential'', 0, nullable (struct_type DoorLock_CredentialStruct), Value VNull)],
     CommandClass (u ''UnboltDoor'') 257 39 True None True [(u ''PINCode'', 0, optional CBytes, Value VNone)],
     CommandClass (u ''SetAliroReaderConfig'') 257 40 True None True [(u ''signingKey'', 0, CBytes, Value (VBytes [])),
       (u ''verificationKey'', 1, CBytes, Value (VBytes [])),
       (u ''groupIdentifier'', 2, CBytes, Value (VBytes [])),
       (u ''groupResolvingKey'', 3, optional CBytes, Value VNone)]]"

definition DoorLock_commands_4 :: "command_class list" where
  "DoorLock_commands_4 = [
     CommandClass (u ''ClearAliroReaderConfig'') 257 41 True None True [],
     CommandClass (u ''GetWeekDayScheduleResponse'') 257 12 False None False [(u ''weekDayIndex'', 0, CUint, Value (VInt 0)),
       (u ''userIndex'', 1, CUint, Value (VInt 0)),
       (u ''status'', 2, enum_type Globals_status, Value (VInt 0)),
       (u ''daysMask'', 3, optional (flag_type DoorLock_DaysMaskBitmap), Value VNone),
       (u ''startHour'', 4, optional CUint, Value VNone),
       (u ''startMinute'', 5, optional CUint, Value VNone),
       (u ''endHour'', 6, optional CUint, Value VNone),
       (u ''endMinute'', 7, optional CUint, Value VNone)],
     CommandClass (u ''GetYearDayScheduleResponse'') 257 15 False None False [(u ''yearDayIndex'', 0, CUint, Value (VInt 0)),
       (u ''userIndex'', 1, CUint, Value (VInt 0)),
       (u ''status'', 2, enum_type Globals_status, Value (VInt 0)),
       (u ''localStartTime'', 3, optional CUint, Value VNone),
       (u ''localEndTime'', 4, optional CUint, Value VNone)],
     CommandClass (u ''GetHolidayScheduleResponse'') 257 18 False None False [(u ''holidayIndex'', 0, CUint, Value (VInt 0)),
       (u ''status'', 1, enum_type Globals_status, Value (VInt 0)),
       (u ''localStartTime'', 2, optional_nullable CUint, Value VNone),
       (u ''localEndTime'', 3, optional_nullable CUint, Value VNone),
       (u ''operatingMode'', 4, optional_nullable (enum_type DoorLock_OperatingModeEnum), Value VNone)],
     CommandClass (u ''GetUserResponse'') 257 28 False None False [(u ''userIndex'', 0, CUint, Value (VInt 0)),
       (u ''userName'', 1, nullable CStr, Value VNull),
       (u ''userUniqueID'', 2, nullable CUint, Value VNull),
       (u ''userStatus'', 3, nullable (enum_type DoorLock_UserStatusEnum), Value VNull),
       (u ''userType'', 4, nullable (enum_type DoorLock_UserTypeEnum), Value VNull),
       (u ''credentialRule'', 5, nullable (enum_type DoorLock_CredentialRuleEnum), Value VNull),
       (u ''credentials'', 6, nullable (CList (struct_type DoorLock_CredentialStruct)), Value VNull),
       (u ''creatorFabricIndex'', 7, nullable CUint, Value VNull),
       (u ''lastModifiedFabricIndex'', 8, nullable CUint, Value VNull),
       (u ''nextUserIndex'', 9, nullable CUint, Value VNull)],
     CommandClass (u ''SetCredentialResponse'') 257 35 False None False [(u ''status'', 0, enum_type Globals_status, Value (VInt 0)),
       (u ''userIndex'', 1, nullable CUint, Value VNull),
       (u ''nextCredentialIndex'', 2, optional_nullable CUint, Value VNone)]]"

definition DoorLock_commands_5 :: "command_class list" where
  "DoorLock_commands_5 = [
     CommandClass (u ''GetCredentialStatusResponse'') 257 37 False None False [(u ''credentialExists'', 0, CBool, Value (VBool False)),
       (u ''userIndex'', 1, nullable CUint, Value VNull),
       (u ''creatorFabricIndex'', 2, nullable CUint, Value VNull),
       (u ''lastModifiedFabricIndex'', 3, nullable CUint, Value VNull),
       (u ''nextCredentialIndex'', 4, optional_nullable CUint, Value VNone),
       (u ''credentialData'', 5, optional_nullable CBytes, Value VNone)]]"

definition DoorLock_attributes_1 :: "attribute_class list" where
  "DoorLock_attributes_1 = [
     AttributeClass (u ''LockState'') 257 0 (nullable (enum_type DoorLock_DlLockState)) (Value VNull),
     AttributeClass (u ''LockType'') 257 1 (enum_type DoorLock_DlLockType) (Value (VInt 0)),
     AttributeClass (u ''ActuatorEnabled'') 257 2 CBool (Value (VBool False)),
     AttributeClass (u ''DoorState'') 257 3 (optional_nullable (enum_type DoorLock_DoorStateEnum)) (Value VNone),
     AttributeClass (u ''DoorOpenEvents'') 257 4 (optional CUint) (Value VNone),
     AttributeClass (u ''DoorClosedEvents'') 257 5 (optional CUint) (Value VNone),
     AttributeClass (u ''OpenPeriod'') 257 6 (optional CUint) (Value VNone),
     AttributeClass (u ''NumberOfTotalUsersSupported'') 257 17 (optional CUint) (Value VNone),
     AttributeClass (u ''NumberOfPINUsersSupported'') 257 18 (optional CUint) (Value VNone)]"

definition DoorLock_attributes_2 :: "attribute_class list" where
  "DoorLock_attributes_2 = [
     AttributeClass (u ''NumberOfRFIDUsersSupported'') 257 19 (optional CUint) (Value VNone),
     AttributeClass (u ''NumberOfWeekDaySchedulesSupportedPerUser'') 257 20 (optional CUint) (Value VNone),
     AttributeClass (u ''NumberOfYearDaySchedulesSupportedPerUser'') 257 21 (optional CUint) (Value VNone),
     AttributeClass (u ''NumberOfHolidaySchedulesSupported'') 257 22 (optional CUint) (Value VNone),
     AttributeClass (u ''MaxPINCodeLength'') 257 23 (optional CUint) (Value VNone),
     AttributeClass (u ''MinPINCodeLength'') 257 24 (optional CUint) (Value VNone),
     AttributeClass (u ''MaxRFIDCodeLength'') 257 25 (optional CUint) (Value VNone),
     AttributeClass (u ''MinRFIDCodeLength'') 257 26 (optional CUint) (Value VNone),
     AttributeClass (u ''CredentialRulesSupport'') 257 27 (optional (flag_type DoorLock_CredentialRulesBitmap)) (Value VNone)]"

definition DoorLock_attributes_3 :: "attribute_class list" where
  "DoorLock_attributes_3 = [
     AttributeClass (u ''NumberOfCredentialsSupportedPerUser'') 257 28 (optional CUint) (Value VNone),
     AttributeClass (u ''Language'') 257 33 (optional CStr) (Value VNone),
     AttributeClass (u ''LEDSettings'') 257 34 (optional (enum_type DoorLock_LEDSettingEnum)) (Value VNone),
     AttributeClass (u ''AutoRelockTime'') 257 35 (optional CUint) (Value VNone),
     AttributeClass (u ''SoundVolume'') 257 36 (optional (enum_type DoorLock_SoundVolumeEnum)) (Value VNone),
     AttributeClass (u ''OperatingMode'') 257 37 (enum_type DoorLock_OperatingModeEnum) (Value (VInt 0)),
     AttributeClass (u ''SupportedOperatingModes'') 257 38 (flag_type DoorLock_OperatingModesBitmap) (Value (VInt 0)),
     AttributeClass (u ''DefaultConfigurationRegister'') 257 39 (optional (flag_type DoorLock_ConfigurationRegisterBitmap)) (Value VNone),
     AttributeClass (u ''EnableLocalProgramming'') 257 40 (optional CBool) (Value VNone)]"

definition DoorLock_attributes_4 :: "attribute_class list" where
  "DoorLock_attributes_4 = [
     AttributeClass (u ''EnableOneTouchLocking'') 257 41 (optional CBool) (Value VNone),
     AttributeClass (u ''EnableInsideStatusLED'') 257 42 (optional CBool) (Value VNone),
     AttributeClass (u ''EnablePrivacyModeButton'') 257 43 (optional CBool) (Value VNone),
     AttributeClass (u ''LocalProgrammingFeatures'') 257 44 (optional (flag_type DoorLock_LocalProgrammingFeaturesBitmap)) (Value VNone),
     AttributeClass (u ''WrongCodeEntryLimit'') 257 48 (optional CUint) (Value VNone),
     AttributeClass (u ''UserCodeTemporaryDisableTime'') 257 49 (optional CUint) (Value VNone),
     AttributeClass (u ''SendPINOverTheAir'') 257 50 (optional CBool) (Value VNone),
     AttributeClass (u ''RequirePINforRemoteOperation'') 257 51 (optional CBool) (Value VNone),
     AttributeClass (u ''SecurityLevel'') 257 52 (optional CUint) (Value VNone)]"

definition DoorLock_attributes_5 :: "attribute_class list" where
  "DoorLock_attributes_5 = [
     AttributeClass (u ''ExpiringUserTimeout'') 257 53 (optional CUint) (Value VNone),
     AttributeClass (u ''AliroReaderVerificationKey'') 257 128 (optional_nullable CBytes) (Value VNone),
     AttributeClass (u ''AliroReaderGroupIdentifier'') 257 129 (optional_nullable CBytes) (Value VNone),
     AttributeClass (u ''AliroReaderGroupSubIdentifier'') 257 130 (optional CBytes) (Value VNone),
     AttributeClass (u ''AliroExpeditedTransactionSupportedProtocolVersions'') 257 131 (optional (CList CBytes)) (Value VNone),
     AttributeClass (u ''AliroGroupResolvingKey'') 257 132 (optional_nullable CBytes) (Value VNone),
     AttributeClass (u ''AliroSupportedBLEUWBProtocolVersions'') 257 133 (optional (CList CBytes)) (Value VNone),
     AttributeClass (u ''AliroBLEAdvertisingVersion'') 257 134 (optional CUint) (Value VNone),
     AttributeClass (u ''NumberOfAliroCredentialIssuerKeysSupported'') 257 135 (optional CUint) (Value VNone)]"

definition DoorLock_attributes_6 :: "attribute_class list" where
  "DoorLock_attributes_6 = [
     AttributeClass (u ''NumberOfAliroEndpointKeysSupported'') 257 136 (optional CUint) (Value VNone),
     AttributeClass (u ''GeneratedCommandList'') 257 65528 (CList CUint) (EmptyList),
     AttributeClass (u ''AcceptedCommandList'') 257 65529 (CList CUint) (EmptyList),
     AttributeClass (u ''AttributeList'') 257 65531 (CList CUint) (EmptyList),
     AttributeClass (u ''FeatureMap'') 257 65532 CUint (Value (VInt 0)),
     AttributeClass (u ''ClusterRevision'') 257 65533 CUint (Value (VInt 0))]"

definition DoorLock_events :: "event_class list" where
  "DoorLock_events = [
     EventClass (u ''DoorLockAlarm'') 257 0 [(u ''alarmCode'', 0, enum_type DoorLock_AlarmCodeEnum, Value (VInt 0))],
     EventClass (u ''DoorStateChange'') 257 1 [(u ''doorState'', 0, enum_type DoorLock_DoorStateEnum, Value (VInt 0))],
     EventClass (u ''LockOperation'') 257 2 [(u ''lockOperationType'', 0, enum_type DoorLock_LockOperationTypeEnum, Value (VInt 0)),
       (u ''operationSource'', 1, enum_type DoorLock_OperationSourceEnum, Value (VInt 0)),
       (u ''userIndex'', 2, nullable CUint, Value VNull),
       (u ''fabricIndex'', 3, nullable CUint, Value VNull),
       (u ''sourceNode'', 4, nullable CUint, Value VNull),
       (u ''credentials'', 5, optional_nullable (CList (struct_type DoorLock_CredentialStruct)), Value VNone)],
     EventClass (u ''LockOperationError'') 257 3 [(u ''lockOperationType'', 0, enum_type DoorLock_LockOperationTypeEnum, Value (VInt 0)),
       (u ''operationSource'', 1, enum_type DoorLock_OperationSourceEnum, Value (VInt 0)),
       (u ''operationError'', 2, enum_type DoorLock_OperationErrorEnum, Value (VInt 0)),
       (u ''userIndex'', 3, nullable CUint, Value VNull),
       (u ''fabricIndex'', 4, nullable CUint, Value VNull),
       (u ''sourceNode'', 5, nullable CUint, Value VNull),
       (u ''credentials'', 6, optional_nullable (CList (struct_type DoorLock_CredentialStruct)), Value VNone)],
     EventClass (u ''LockUserChange'') 257 4 [(u ''lockDataType'', 0, enum_type DoorLock_LockDataTypeEnum, Value (VInt 0)),
       (u ''dataOperationType'', 1, enum_type DoorLock_DataOperationTypeEnum, Value (VInt 0)),
       (u ''operationSource'', 2, enum_type DoorLock_OperationSourceEnum, Value (VInt 0)),
       (u ''userIndex'', 3, nullable CUint, Value VNull),
       (u ''fabricIndex'', 4, nullable CUint, Value VNull),
       (u ''sourceNode'', 5, nullable CUint, Value VNull),
       (u ''dataIndex'', 6, nullable CUint, Value VNull)]]"

definition DoorLock_cluster :: "cluster_def" where
  "DoorLock_cluster = ClusterDef (u ''DoorLock'') 257 [
     (u ''lockState'', 0, nullable (enum_type DoorLock_DlLockState), Value VNull),
     (u ''lockType'', 1, enum_type DoorLock_DlLockType, Value (VInt 0)),
     (u ''actuatorEnabled'', 2, CBool, Value (VBool False)),
     (u ''doorState'', 3, optional_nullable (enum_type DoorLock_DoorStateEnum), Value VNone),
     (u ''doorOpenEvents'', 4, optional CUint, Value VNone),
     (u ''doorClosedEvents'', 5, optional CUint, Value VNone),
     (u ''openPeriod'', 6, optional CUint, Value VNone),
     (u ''numberOfTotalUsersSupported'', 17, optional CUint, Value VNone),
     (u ''numberOfPINUsersSupported'', 18, optional CUint, Value VNone),
     (u ''numberOfRFIDUsersSupported'', 19, optional CUint, Value VNone),
     (u ''numberOfWeekDaySchedulesSupportedPerUser'', 20, optional CUint, Value VNone),
     (u ''numberOfYearDaySchedulesSupportedPerUser'', 21, optional CUint, Value VNone),
     (u ''numberOfHolidaySchedulesSupported'', 22, optional CUint, Value VNone),
     (u ''maxPINCodeLength'', 23, optional CUint, Value VNone),
     (u ''minPINCodeLength'', 24, optional CUint, Value VNone),
     (u ''maxRFIDCodeLength'', 25, optional CUint, Value VNone),
     (u ''minRFIDCodeLength'', 26, optional CUint, Value VNone),
     (u ''credentialRulesSupport'', 27, optional (flag_type DoorLock_CredentialRulesBitmap), Value VNone),
     (u ''numberOfCredentialsSupportedPerUser'', 28, optional CUint, Value VNone),
     (u ''language'', 33, optional CStr, Value VNone),
     (u ''LEDSettings'', 34, optional (enum_type DoorLock_LEDSettingEnum), Value VNone),
     (u ''autoRelockTime'', 35, optional CUint, Value VNone),
     (u ''soundVolume'', 36, optional (enum_type DoorLock_SoundVolumeEnum), Value VNone),
     (u ''operatingMode'', 37, enum_type DoorLock_OperatingModeEnum, Value (VInt 0)),
     (u ''supportedOperatingModes'', 38, flag_type DoorLock_OperatingModesBitmap, Value (VInt 0)),
     (u ''defaultConfigurationRegister'', 39, optional (flag_type DoorLock_ConfigurationRegisterBitmap), Value VNone),
     (u ''enableLocalProgramming'', 40, optional CBool, Value VNone),
     (u ''enableOneTouchLocking'', 41, optional CBool, Value VNone),
     (u ''enableInsideStatusLED'', 42, optional CBool, Value VNone),
     (u ''enablePrivacyModeButton'', 43, optional CBool, Value VNone),
     (u ''localProgrammingFeatures'', 44, optional (flag_type DoorLock_LocalProgrammingFeaturesBitmap), Value VNone),
     (u ''wrongCodeEntryLimit'', 48, optional CUint, Value VNone),
     (u ''userCodeTemporaryDisableTime'', 49, optional CUint, Value VNone),
     (u ''sendPINOverTheAir'', 50, optional CBool, Value VNone),
     (u ''requirePINforRemoteOperation'', 51, optional CBool, Value VNone),
     (u ''securityLevel'', 52, optional CUint, Value VNone),
     (u ''expiringUserTimeout'', 53, optional CUint, Value VNone),
     (u ''aliroReaderVerificationKey'', 128, optional_nullable CBytes, Value VNone),
     (u ''aliroReaderGroupIdentifier'', 129, optional_nullable CBytes, Value VNone),
     (u ''aliroReaderGroupSubIdentifier'', 130, optional CBytes, Value VNone),
     (u ''aliroExpeditedTransactionSupportedProtocolVersions'', 131, optional (CList CBytes), Value VNone),
     (u ''aliroGroupResolvingKey'', 132, optional_nullable CBytes, Value VNone),
     (u ''aliroSupportedBLEUWBProtocolVersions'', 133, optional (CList CBytes), Value VNone),
     (u ''aliroBLEAdvertisingVersion'', 134, optional CUint, Value VNone),
     (u ''numberOfAliroCredentialIssuerKeysSupported'', 135, optional CUint, Value VNone),
     (u ''numberOfAliroEndpointKeysSupported'', 136, optional CUint, Value VNone),
     (u ''generatedCommandList'', 65528, CList CUint, EmptyList),
     (u ''acceptedCommandList'', 65529, CList CUint, EmptyList),
     (u ''attributeList'', 65531, CList CUint, EmptyList),
     (u ''featureMap'', 65532, CUint, Value (VInt 0)),
     (u ''clusterRevision'', 65533, CUint, Value (VInt 0))]
     (DoorLock_commands_1 @ DoorLock_commands_2 @ DoorLock_commands_3 @ DoorLock_commands_4 @ DoorLock_commands_5)
     (DoorLock_attributes_1 @ DoorLock_attributes_2 @ DoorLock_attributes_3 @ DoorLock_attributes_4 @ DoorLock_attributes_5 @ DoorLock_attributes_6)
     DoorLock_events"

section \<open>DraftElectricalMeasurementCluster\<close>

definition DraftElectricalMeasurementCluster_attributes_1 :: "attribute_class list" where
  "DraftElectricalMeasurementCluster_attributes_1 = [
     AttributeClass (u ''RmsVoltage'') 2820 1285 (optional CUint) (Value VNone),
     AttributeClass (u ''RmsCurrent'') 2820 1288 (optional CUint) (Value VNone),
     AttributeClass (u ''ActivePower'') 2820 1291 (optional CUint) (Value VNone),
     AttributeClass (u ''AcVoltageMultiplier'') 2820 1536 (optional CUint) (Value VNone),
     AttributeClass (u ''AcVoltageDivisor'') 2820 1537 (optional CUint) (Value VNone),
     AttributeClass (u ''AcCurrentMultiplier'') 2820 1538 (optional CUint) (Value VNone),
     AttributeClass (u ''AcCurrentDivisor'') 2820 1539 (optional CUint) (Value VNone),
     AttributeClass (u ''AcPowerMultiplier'') 2820 1540 (optional CUint) (Value VNone),
     AttributeClass (u ''AcPowerDivisor'') 2820 1541 (optional CUint) (Value VNone)]"

definition DraftElectricalMeasurementCluster_attributes_2 :: "attribute_class list" where
  "DraftElectricalMeasurementCluster_attributes_2 = [
     AttributeClass (u ''GeneratedCommandList'') 2820 65528 (CList CUint) (EmptyList),
     AttributeClass (u ''AcceptedCommandList'') 2820 65529 (CList CUint) (EmptyList),
     AttributeClass (u ''AttributeList'') 2820 65531 (CList CUint) (EmptyList),
     AttributeClass (u ''FeatureMap'') 2820 65532 CUint (Value (VInt 0)),
     AttributeClass (u ''ClusterRevision'') 2820 65533 CUint (Value (VInt 0))]"

definition DraftElectricalMeasurementCluster_cluster :: "cluster_def" where
  "DraftElectricalMeasurementCluster_cluster = ClusterDef (u ''DraftElectricalMeasurementCluster'') 2820 [
     (u ''rmsVoltage'', 1285, optional CUint, Value VNone),
     (u ''rmsCurrent'', 1288, optional CUint, Value VNone),
     (u ''activePower'', 1291, optional CUint, Value VNone),
     (u ''acVoltageMultiplier'', 1536, optional CUint, Value VNone),
     (u ''acVoltageDivisor'', 1537, optional CUint, Value VNone),
     (u ''acCurrentMultiplier'', 1538, optional CUint, Value VNone),
     (u ''acCurrentDivisor'', 1539, optional CUint, Value VNone),
     (u ''acPowerMultiplier'', 1540, optional CUint, Value VNone),
     (u ''acPowerDivisor'', 1541, optional CUint, Value VNone),
     (u ''generatedCommandList'', 65528, CList CUint, EmptyList),
     (u ''acceptedCommandList'', 65529, CList CUint, EmptyList),
     (u ''attributeList'', 65531, CList CUint, EmptyList),
     (u ''featureMap'', 65532, CUint, Value (VInt 0)),
     (u ''clusterRevision'', 65533, CUint, Value (VInt 0))]
     []
     (DraftElectricalMeasurementCluster_attributes_1 @ DraftElectricalMeasurementCluster_attributes_2)
     []"

section \<open>EcosystemInformation\<close>

definition EcosystemInformation_DeviceTypeStruct :: "dfield list" where
  "EcosystemInformation_DeviceTypeStruct = [
     (u ''deviceType'', 0, CUint, Value (VInt 0)),
     (u ''revision'', 1, CUint, Value (VInt 0))]"

definition EcosystemInformation_EcosystemDeviceStruct :: "dfield list" where
  "EcosystemInformation_EcosystemDeviceStruct = [
     (u ''deviceName'', 0, optional CStr, Value VNone),
     (u ''deviceNameLastEdit'', 1, optional CUint, Value VNone),
     (u ''bridgedEndpoint'', 2, optional CUint, Value VNone),
     (u ''originalEndpoint'', 3, optional CUint, Value VNone),
     (u ''deviceTypes'', 4, CList (struct_type EcosystemInformation_DeviceTypeStruct), EmptyList),
     (u ''uniqueLocationIDs'', 5, CList CStr, EmptyList),
     (u ''uniqueLocationIDsLastEdit'', 6, CUint, Value (VInt 0)),
     (u ''fabricIndex'', 254, CUint, Value (VInt 0))]"

definition EcosystemInformation_EcosystemLocationStruct :: "dfield list" where
  "EcosystemInformation_EcosystemLocationStruct = [
     (u ''uniqueLocationID'', 0, CStr, Value (VStr [])),
     (u ''locationDescriptor'', 1, struct_type Globals_locationdesc, Instance Globals_locationdesc),
     (u ''locationDescriptorLastEdit'', 2, CUint, Value (VInt 0)),
     (u ''fabricIndex'', 254, CUint, Value (VInt 0))]"

definition EcosystemInformation_attributes :: "attribute_class list" where
  "EcosystemInformation_attributes = [
     AttributeClass (u ''DeviceDirectory'') 1872 0 (CList (struct_type EcosystemInformation_EcosystemDeviceStruct)) (EmptyList),
     AttributeClass (u ''LocationDirectory'') 1872 1 (CList (struct_type EcosystemInformation_EcosystemLocationStruct)) (EmptyList),
     AttributeClass (u ''GeneratedCommandList'') 1872 65528 (CList CUint) (EmptyList),
     AttributeClass (u ''AcceptedCommandList'') 1872 65529 (CList CUint) (EmptyList),
     AttributeClass (u ''AttributeList'') 1872 65531 (CList CUint) (EmptyList),
     AttributeClass (u ''FeatureMap'') 1872 65532 CUint (Value (VInt 0)),
     AttributeClass (u ''ClusterRevision'') 1872 65533 CUint (Value (VInt 0))]"

definition EcosystemInformation_cluster :: "cluster_def" where
  "EcosystemInformation_cluster = ClusterDef (u ''EcosystemInformation'') 1872 [
     (u ''deviceDirectory'', 0, CList (struct_type EcosystemInformation_EcosystemDeviceStruct), EmptyList),
     (u ''locationDirectory'', 1, CList (struct_type EcosystemInformation_EcosystemLocationStruct), EmptyList),
     (u ''generatedCommandList'', 65528, CList CUint, EmptyList),
     (u ''acceptedCommandList'', 65529, CList CUint, EmptyList),
     (u ''attributeList'', 65531, CList CUint, EmptyList),
     (u ''featureMap'', 65532, CUint, Value (VInt 0)),
     (u ''clusterRevision'', 65533, CUint, Value (VInt 0))]
     []
     EcosystemInformation_attributes
     []"

section \<open>Consistency\<close>

lemma DeviceEnergyManagement_members_ok [simp]: "members_ok DeviceEnergyManagement_CostStruct"
    "members_ok DeviceEnergyManagement_PowerAdjustStruct"
    "members_ok DeviceEnergyManagement_PowerAdjustCapabilityStruct"
    "members_ok DeviceEnergyManagement_SlotStruct"
    "members_ok DeviceEnergyManagement_ForecastStruct"
    "members_ok DeviceEnergyManagement_SlotAdjustmentStruct"
    "members_ok DeviceEnergyManagement_ConstraintsStruct"
  by (simp_all add: class_simps DeviceEnergyManagement_CostStruct_def
    DeviceEnergyManagement_PowerAdjustStruct_def
    DeviceEnergyManagement_PowerAdjustCapabilityStruct_def
    DeviceEnergyManagement_SlotStruct_def
    DeviceEnergyManagement_ForecastStruct_def
    DeviceEnergyManagement_SlotAdjustmentStruct_def
    DeviceEnergyManagement_ConstraintsStruct_def del: u_simps)

lemma DeviceEnergyManagement_cluster_ok: "cluster_ok DeviceEnergyManagement_cluster" "cd_id DeviceEnergyManagement_cluster = 152"
  by (simp_all add: class_simps DeviceEnergyManagement_commands_def
    DeviceEnergyManagement_attributes_1_def
    DeviceEnergyManagement_attributes_2_def
    DeviceEnergyManagement_events_def
    DeviceEnergyManagement_cluster_def del: u_simps)

lemma DeviceEnergyManagementMode_members_ok [simp]: "members_ok DeviceEnergyManagementMode_ModeTagStruct"
    "members_ok DeviceEnergyManagementMode_ModeOptionStruct"
  by (simp_all add: class_simps DeviceEnergyManagementMode_ModeTagStruct_def
    DeviceEnergyManagementMode_ModeOptionStruct_def del: u_simps)

lemma DeviceEnergyManagementMode_cluster_ok: "cluster_ok DeviceEnergyManagementMode_cluster" "cd_id DeviceEnergyManagementMode_cluster = 159"
  by (simp_all add: class_simps DeviceEnergyManagementMode_commands_def
    DeviceEnergyManagementMode_attributes_def
    DeviceEnergyManagementMode_cluster_def del: u_simps)

lemma DiagnosticLogs_cluster_ok: "cluster_ok DiagnosticLogs_cluster" "cd_id DiagnosticLogs_cluster = 50"
  by (simp_all add: class_simps DiagnosticLogs_commands_def
    DiagnosticLogs_attributes_def
    DiagnosticLogs_cluster_def del: u_simps)

lemma DishwasherAlarm_cluster_ok: "cluster_ok DishwasherAlarm_cluster" "cd_id DishwasherAlarm_cluster = 93"
  by (simp_all add: class_simps DishwasherAlarm_commands_def
    DishwasherAlarm_attributes_def
    DishwasherAlarm_events_def
    DishwasherAlarm_cluster_def del: u_simps)

lemma DishwasherMode_members_ok [simp]: "members_ok DishwasherMode_ModeTagStruct"
    "members_ok DishwasherMode_ModeOptionStruct"
  by (simp_all add: class_simps DishwasherMode_ModeTagStruct_def
    DishwasherMode_ModeOptionStruct_def del: u_simps)

lemma DishwasherMode_cluster_ok: "cluster_ok DishwasherMode_cluster" "cd_id DishwasherMode_cluster = 89"
  by (simp_all add: class_simps DishwasherMode_commands_def
    DishwasherMode_attributes_def
    DishwasherMode_cluster_def del: u_simps)

lemma DoorLock_members_ok [simp]: "members_ok DoorLock_CredentialStruct"
  by (simp_all add: class_simps DoorLock_CredentialStruct_def del: u_simps)

lemma DoorLock_cluster_ok: "cluster_ok DoorLock_cluster" "cd_id DoorLock_cluster = 257"
  by (simp_all add: class_simps DoorLock_commands_1_def
    DoorLock_commands_2_def
    DoorLock_commands_3_def
    DoorLock_commands_4_def
    DoorLock_commands_5_def
    DoorLock_attributes_1_def
    DoorLock_attributes_2_def
    DoorLock_attributes_3_def
    DoorLock_attributes_4_def
    DoorLock_attributes_5_def
    DoorLock_attributes_6_def
    DoorLock_events_def
    DoorLock_cluster_def del: u_simps)

lemma DraftElectricalMeasurementCluster_cluster_ok: "cluster_ok DraftElectricalMeasurementCluster_cluster" "cd_id DraftElectricalMeasurementCluster_cluster = 2820"
  by (simp_all add: class_simps DraftElectricalMeasurementCluster_attributes_1_def
    DraftElectricalMeasurementCluster_attributes_2_def
    DraftElectricalMeasurementCluster_cluster_def del: u_simps)

lemma EcosystemInformation_members_ok [simp]: "members_ok EcosystemInformation_DeviceTypeStruct"
    "members_ok EcosystemInformation_EcosystemDeviceStruct"
    "members_ok EcosystemInformation_EcosystemLocationStruct"
  by (simp_all add: class_simps EcosystemInformation_DeviceTypeStruct_def
    EcosystemInformation_EcosystemDeviceStruct_def
    EcosystemInformation_EcosystemLocationStruct_def del: u_simps)

lemma EcosystemInformation_cluster_ok: "cluster_ok EcosystemInformation_cluster" "cd_id EcosystemInformation_cluster = 1872"
  by (simp_all add: class_simps EcosystemInformation_attributes_def
    EcosystemInformation_cluster_def del: u_simps)

end
