(* ===== verification/Clusters_ElectricalEnergyMeasurement.thy ===== *)
theory Clusters_ElectricalEnergyMeasurement
  imports Clusters_Base
begin

text \<open>
  The generated files \<open>ElectricalEnergyMeasurement.py\<close> to \<open>GeneralCommissioning.py\<close> of \<open>chip/clusters/cluster_defs/\<close>, in the form of
  \<open>Clusters_Base\<close>.
\<close>

section \<open>ElectricalEnergyMeasurement\<close>

definition ElectricalEnergyMeasurement_MeasurementTypeEnum :: "(pystr \<times> int) list" where
  "ElectricalEnergyMeasurement_MeasurementTypeEnum = [
     (u ''kUnspecified'', 0),
     (u ''kVoltage'', 1),
     (u ''kActiveCurrent'', 2),
     (u ''kReactiveCurrent'', 3),
     (u ''kApparentCurrent'', 4),
     (u ''kActivePower'', 5),
     (u ''kReactivePower'', 6),
     (u ''kApparentPower'', 7),
     (u ''kRMSVoltage'', 8),
     (u ''kRMSCurrent'', 9),
     (u ''kRMSPower'', 10),
     (u ''kFrequency'', 11),
     (u ''kPowerFactor'', 12),
     (u ''kNeutralCurrent'', 13),
     (u ''kElectricalEnergy'', 14),
     (u ''kReactiveEnergy'', 15),
     (u ''kApparentEnergy'', 16),
     (u ''kUnknownEnumValue'', 17)]"

definition ElectricalEnergyMeasurement_Feature :: "(pystr \<times> int) list" where
  "ElectricalEnergyMeasurement_Feature = [
     (u ''kImportedEnergy'', 1),
     (u ''kExportedEnergy'', 2),
     (u ''kCumulativeEnergy'', 4),
     (u ''kPeriodicEnergy'', 8),
     (u ''kApparentEnergy'', 16),
     (u ''kReactiveEnergy'', 32)]"

definition ElectricalEnergyMeasurement_EnergyMeasurementStruct :: "dfield list" where
  "ElectricalEnergyMeasurement_EnergyMeasurementStruct = [
     (u ''energy'', 0, CInt, Value (VInt 0)),
     (u ''startTimestamp'', 1, optional CUint, Value VNone),
     (u ''endTimestamp'', 2, optional CUint, Value VNone),
     (u ''startSystime'', 3, optional CUint, Value VNone),
     (u ''endSystime'', 4, optional CUint, Value VNone),
     (u ''apparentEnergy'', 5, optional CInt, Value VNone),
     (u ''reactiveEnergy'', 6, optional CInt, Value VNone)]"

definition ElectricalEnergyMeasurement_CumulativeEnergyResetStruct :: "dfield list" where
  "ElectricalEnergyMeasurement_CumulativeEnergyResetStruct = [
     (u ''importedResetTimestamp'', 0, optional_nullable CUint, Value VNone),
     (u ''exportedResetTimestamp'', 1, optional_nullable CUint, Value VNone),
     (u ''importedResetSystime'', 2, optional_nullable CUint, Value VNone),
     (u ''exportedResetSystime'', 3, optional_nullable CUint, Value VNone)]"

definition ElectricalEnergyMeasurement_attributes_1 :: "attribute_class list" where
  "ElectricalEnergyMeasurement_attributes_1 = [
     AttributeClass (u ''Accuracy'') 145 0 (struct_type Globals_MeasurementAccuracyStruct) (Instance Globals_MeasurementAccuracyStruct),
     AttributeClass (u ''CumulativeEnergyImported'') 145 1 (optional_nullable (struct_type ElectricalEnergyMeasurement_EnergyMeasurementStruct)) (Value VNone),
     AttributeClass (u ''CumulativeEnergyExported'') 145 2 (optional_nullable (struct_type ElectricalEnergyMeasurement_EnergyMeasurementStruct)) (Value VNone),
     AttributeClass (u ''PeriodicEnergyImported'') 145 3 (optional_nullable (struct_type ElectricalEnergyMeasurement_EnergyMeasurementStruct)) (Value VNone),
     AttributeClass (u ''PeriodicEnergyExported'') 145 4 (optional_nullable (struct_type ElectricalEnergyMeasurement_EnergyMeasurementStruct)) (Value VNone),
     AttributeClass (u ''CumulativeEnergyReset'') 145 5 (optional_nullable (struct_type ElectricalEnergyMeasurement_CumulativeEnergyResetStruct)) (Value VNone),
     AttributeClass (u ''GeneratedCommandList'') 145 65528 (CList CUint) (EmptyList),
     AttributeClass (u ''AcceptedCommandList'') 145 65529 (CList CUint) (EmptyList),
     AttributeClass (u ''AttributeList'') 145 65531 (CList CUint) (EmptyList)]"

definition ElectricalEnergyMeasurement_attributes_2 :: "attribute_class list" where
  "ElectricalEnergyMeasurement_attributes_2 = [
     AttributeClass (u ''FeatureMap'') 145 65532 CUint (Value (VInt 0)),
     AttributeClass (u ''ClusterRevision'') 145 65533 CUint (Value (VInt 0))]"

definition ElectricalEnergyMeasurement_events :: "event_class list" where
  "ElectricalEnergyMeasurement_events = [
     EventClass (u ''CumulativeEnergyMeasured'') 145 0 [(u ''energyImported'', 0, optional (struct_type ElectricalEnergyMeasurement_EnergyMeasurementStruct), Value VNone),
       (u ''energyExported'', 1, optional (struct_type ElectricalEnergyMeasurement_EnergyMeasurementStruct), Value VNone)],
     EventClass (u ''PeriodicEnergyMeasured'') 145 1 [(u ''energyImported'', 0, optional (struct_type ElectricalEnergyMeasurement_EnergyMeasurementStruct), Value VNone),
       (u ''energyExported'', 1, optional (struct_type ElectricalEnergyMeasurement_EnergyMeasurementStruct), Value VNone)]]"

definition ElectricalEnergyMeasurement_cluster :: "cluster_def" where
  "ElectricalEnergyMeasurement_cluster = ClusterDef (u ''ElectricalEnergyMeasurement'') 145 [
     (u ''accuracy'', 0, struct_type Globals_MeasurementAccuracyStruct, Instance Globals_MeasurementAccuracyStruct),
     (u ''cumulativeEnergyImported'', 1, optional_nullable (struct_type ElectricalEnergyMeasurement_EnergyMeasurementStruct), Value VNone),
     (u ''cumulativeEnergyExported'', 2, optional_nullable (struct_type ElectricalEnergyMeasurement_EnergyMeasurementStruct), Value VNone),
     (u ''periodicEnergyImported'', 3, optional_nullable (struct_type ElectricalEnergyMeasurement_EnergyMeasurementStruct), Value VNone),
     (u ''periodicEnergyExported'', 4, optional_nullable (struct_type ElectricalEnergyMeasurement_EnergyMeasurementStruct), Value VNone),
     (u ''cumulativeEnergyReset'', 5, optional_nullable (struct_type ElectricalEnergyMeasurement_CumulativeEnergyResetStruct), Value VNone),
     (u ''generatedCommandList'', 65528, CList CUint, EmptyList),
     (u ''acceptedCommandList'', 65529, CList CUint, EmptyList),
     (u ''attributeList'', 65531, CList CUint, EmptyList),
     (u ''featureMap'', 65532, CUint, Value (VInt 0)),
     (u ''clusterRevision'', 65533, CUint, Value (VInt 0))]
     []
     (ElectricalEnergyMeasurement_attributes_1 @ ElectricalEnergyMeasurement_attributes_2)
     ElectricalEnergyMeasurement_events"

section \<open>ElectricalGridConditions\<close>

definition ElectricalGridConditions_ThreeLevelEnum :: "(pystr \<times> int) list" where
  "ElectricalGridConditions_ThreeLevelEnum = [
     (u ''kLow'', 0),
     (u ''kMedium'', 1),
     (u ''kHigh'', 2),
     (u ''kUnknownEnumValue'', 3)]"

definition ElectricalGridConditions_Feature :: "(pystr \<times> int) list" where
  "ElectricalGridConditions_Feature = [
     (u ''kForecasting'', 1)]"

definition ElectricalGridConditions_ElectricalGridConditionsStruct :: "dfield list" where
  "ElectricalGridConditions_ElectricalGridConditionsStruct = [
     (u ''periodStart'', 0, CUint, Value (VInt 0)),
     (u ''periodEnd'', 1, nullable CUint, Value VNull),
     (u ''gridCarbonIntensity'', 2, CInt, Value (VInt 0)),
     (u ''gridCarbonLevel'', 3, enum_type ElectricalGridConditions_ThreeLevelEnum, Value (VInt 0)),
     (u ''localCarbonIntensity'', 4, CInt, Value (VInt 0)),
     (u ''localCarbonLevel'', 5, enum_type ElectricalGridConditions_ThreeLevelEnum, Value (VInt 0))]"

definition ElectricalGridConditions_attributes :: "attribute_class list" where
  "ElectricalGridConditions_attributes = [
     AttributeClass (u ''LocalGenerationAvailable'') 160 0 (nullable CBool) (Value VNull),
     AttributeClass (u ''CurrentConditions'') 160 1 (nullable (struct_type ElectricalGridConditions_ElectricalGridConditionsStruct)) (Value VNull),
     AttributeClass (u ''ForecastConditions'') 160 2 (optional (CList (struct_type ElectricalGridConditions_ElectricalGridConditionsStruct))) (Value VNone),
     AttributeClass (u ''GeneratedCommandList'') 160 65528 (CList CUint) (EmptyList),
     AttributeClass (u ''AcceptedCommandList'') 160 65529 (CList CUint) (EmptyList),
     AttributeClass (u ''AttributeList'') 160 65531 (CList CUint) (EmptyList),
     AttributeClass (u ''FeatureMap'') 160 65532 CUint (Value (VInt 0)),
     AttributeClass (u ''ClusterRevision'') 160 65533 CUint (Value (VInt 0))]"

definition ElectricalGridConditions_events :: "event_class list" where
  "ElectricalGridConditions_events = [
     EventClass (u ''CurrentConditionsChanged'') 160 0 [(u ''currentConditions'', 0, nullable (struct_type ElectricalGridConditions_ElectricalGridConditionsStruct), Value VNull)]]"

definition ElectricalGridConditions_cluster :: "cluster_def" where
  "ElectricalGridConditions_cluster = ClusterDef (u ''ElectricalGridConditions'') 160 [
     (u ''localGenerationAvailable'', 0, nullable CBool, Value VNull),
     (u ''currentConditions'', 1, nullable (struct_type ElectricalGridConditions_ElectricalGridConditionsStruct), Value VNull),
     (u ''forecastConditions'', 2, optional (CList (struct_type ElectricalGridConditions_ElectricalGridConditionsStruct)), Value VNone),
     (u ''generatedCommandList'', 65528, CList CUint, EmptyList),
     (u ''acceptedCommandList'', 65529, CList CUint, EmptyList),
     (u ''attributeList'', 65531, CList CUint, EmptyList),
     (u ''featureMap'', 65532, CUint, Value (VInt 0)),
     (u ''clusterRevision'', 65533, CUint, Value (VInt 0))]
     []
     ElectricalGridConditions_attributes
     ElectricalGridConditions_events"

section \<open>ElectricalPowerMeasurement\<close>

definition ElectricalPowerMeasurement_PowerModeEnum :: "(pystr \<times> int) list" where
  "ElectricalPowerMeasurement_PowerModeEnum = [
     (u ''kUnknown'', 0),
     (u ''kDc'', 1),
     (u ''kAc'', 2),
     (u ''kUnknownEnumValue'', 3)]"

definition ElectricalPowerMeasurement_MeasurementTypeEnum :: "(pystr \<times> int) list" where
  "ElectricalPowerMeasurement_MeasurementTypeEnum = [
     (u ''kUnspecified'', 0),
     (u ''kVoltage'', 1),
     (u ''kActiveCurrent'', 2),
     (u ''kReactiveCurrent'', 3),
     (u ''kApparentCurrent'', 4),
     (u ''kActivePower'', 5),
     (u ''kReactivePower'', 6),
     (u ''kApparentPower'', 7),
     (u ''kRMSVoltage'', 8),
     (u ''kRMSCurrent'', 9),
     (u ''kRMSPower'', 10),
     (u ''kFrequency'', 11),
     (u ''kPowerFactor'', 12),
     (u ''kNeutralCurrent'', 13),
     (u ''kElectricalEnergy'', 14),
     (u ''kReactiveEnergy'', 15),
     (u ''kApparentEnergy'', 16),
     (u ''kUnknownEnumValue'', 17)]"

definition ElectricalPowerMeasurement_Feature :: "(pystr \<times> int) list" where
  "ElectricalPowerMeasurement_Feature = [
     (u ''kDirectCurrent'', 1),
     (u ''kAlternatingCurrent'', 2),
     (u ''kPolyphasePower'', 4),
     (u ''kHarmonics'', 8),
     (u ''kPowerQuality'', 16)]"

definition ElectricalPowerMeasurement_MeasurementRangeStruct :: "dfield list" where
  "ElectricalPowerMeasurement_MeasurementRangeStruct = [
     (u ''measurementType'', 0, enum_type ElectricalPowerMeasurement_MeasurementTypeEnum, Value (VInt 0)),
     (u ''min'', 1, CInt, Value (VInt 0)),
     (u ''max'', 2, CInt, Value (VInt 0)),
     (u ''startTimestamp'', 3, optional CUint, Value VNone),
     (u ''endTimestamp'', 4, optional CUint, Value VNone),
     (u ''minTimestamp'', 5, optional CUint, Value VNone),
     (u ''maxTimestamp'', 6, optional CUint, Value VNone),
     (u ''startSystime'', 7, optional CUint, Value VNone),
     (u ''endSystime'', 8, optional CUint, Value VNone),
     (u ''minSystime'', 9, optional CUint, Value VNone),
     (u ''maxSystime'', 10, optional CUint, Value VNone)]"

definition ElectricalPowerMeasurement_HarmonicMeasurementStruct :: "dfield list" where
  "ElectricalPowerMeasurement_HarmonicMeasurementStruct = [
     (u ''order'', 0, CUint, Value (VInt 0)),
     (u ''measurement'', 1, nullable CInt, Value VNull)]"

definition ElectricalPowerMeasurement_attributes_1 :: "attribute_class list" where
  "ElectricalPowerMeasurement_attributes_1 = [
     AttributeClass (u ''PowerMode'') 144 0 (enum_type ElectricalPowerMeasurement_PowerModeEnum) (Value (VInt 0)),
     AttributeClass (u ''NumberOfMeasurementTypes'') 144 1 CUint (Value (VInt 0)),
     AttributeClass (u ''Accuracy'') 144 2 (CList (struct_type Globals_MeasurementAccuracyStruct)) (EmptyList),
     AttributeClass (u ''Ranges'') 144 3 (optional (CList (struct_type ElectricalPowerMeasurement_MeasurementRangeStruct))) (Value VNone),
     AttributeClass (u ''Voltage'') 144 4 (optional_nullable CInt) (Value VNone),
     AttributeClass (u ''ActiveCurrent'') 144 5 (optional_nullable CInt) (Value VNone),
     AttributeClass (u ''ReactiveCurrent'') 144 6 (optional_nullable CInt) (Value VNone),
     AttributeClass (u ''ApparentCurrent'') 144 7 (optional_nullable CInt) (Value VNone),
     AttributeClass (u ''ActivePower'') 144 8 (nullable CInt) (Value VNull)]"

definition ElectricalPowerMeasurement_attributes_2 :: "attribute_class list" where
  "ElectricalPowerMeasurement_attributes_2 = [
     AttributeClass (u ''ReactivePower'') 144 9 (optional_nullable CInt) (Value VNone),
     AttributeClass (u ''ApparentPower'') 144 10 (optional_nullable CInt) (Value VNone),
     AttributeClass (u ''RMSVoltage'') 144 11 (optional_nullable CInt) (Value VNone),
     AttributeClass (u ''RMSCurrent'') 144 12 (optional_nullable CInt) (Value VNone),
     AttributeClass (u ''RMSPower'') 144 13 (optional_nullable CInt) (Value VNone),
     AttributeClass (u ''Frequency'') 144 14 (optional_nullable CInt) (Value VNone),
     AttributeClass (u ''HarmonicCurrents'') 144 15 (optional_nullable (CList (struct_type ElectricalPowerMeasurement_HarmonicMeasurementStruct))) (Value VNone),
     AttributeClass (u ''HarmonicPhases'') 144 16 (optional_nullable (CList (struct_type ElectricalPowerMeasurement_HarmonicMeasurementStruct))) (Value VNone),
     AttributeClass (u ''PowerFactor'') 144 17 (optional_nullable CInt) (Value VNone)]"

definition ElectricalPowerMeasurement_attributes_3 :: "attribute_class list" where
  "ElectricalPowerMeasurement_attributes_3 = [
     AttributeClass (u ''NeutralCurrent'') 144 18 (optional_nullable CInt) (Value VNone),
     AttributeClass (u ''GeneratedCommandList'') 144 65528 (CList CUint) (EmptyList),
     AttributeClass (u ''AcceptedCommandList'') 144 65529 (CList CUint) (EmptyList),
     AttributeClass (u ''AttributeList'') 144 65531 (CList CUint) (EmptyList),
     AttributeClass (u ''FeatureMap'') 144 65532 CUint (Value (VInt 0)),
     AttributeClass (u ''ClusterRevision'') 144 65533 CUint (Value (VInt 0))]"

definition ElectricalPowerMeasurement_events :: "event_class list" where
  "ElectricalPowerMeasurement_events = [
     EventClass (u ''MeasurementPeriodRanges'') 144 0 [(u ''ranges'', 0, CList (struct_type ElectricalPowerMeasurement_MeasurementRangeStruct), EmptyList)]]"

definition ElectricalPowerMeasurement_cluster :: "cluster_def" where
  "ElectricalPowerMeasurement_cluster = ClusterDef (u ''ElectricalPowerMeasurement'') 144 [
     (u ''powerMode'', 0, enum_type ElectricalPowerMeasurement_PowerModeEnum, Value (VInt 0)),
     (u ''numberOfMeasurementTypes'', 1, CUint, Value (VInt 0)),
     (u ''accuracy'', 2, CList (struct_type Globals_MeasurementAccuracyStruct), EmptyList),
     (u ''ranges'', 3, optional (CList (struct_type ElectricalPowerMeasurement_MeasurementRangeStruct)), Value VNone),
     (u ''voltage'', 4, optional_nullable CInt, Value VNone),
     (u ''activeCurrent'', 5, optional_nullable CInt, Value VNone),
     (u ''reactiveCurrent'', 6, optional_nullable CInt, Value VNone),
     (u ''apparentCurrent'', 7, optional_nullable CInt, Value VNone),
     (u ''activePower'', 8, nullable CInt, Value VNull),
     (u ''reactivePower'', 9, optional_nullable CInt, Value VNone),
     (u ''apparentPower'', 10, optional_nullable CInt, Value VNone),
     (u ''RMSVoltage'', 11, optional_nullable CInt, Value VNone),
     (u ''RMSCurrent'', 12, optional_nullable CInt, Value VNone),
     (u ''RMSPower'', 13, optional_nullable CInt, Value VNone),
     (u ''frequency'', 14, optional_nullable CInt, Value VNone),
     (u ''harmonicCurrents'', 15, optional_nullable (CList (struct_type ElectricalPowerMeasurement_HarmonicMeasurementStruct)), Value VNone),
     (u ''harmonicPhases'', 16, optional_nullable (CList (struct_type ElectricalPowerMeasurement_HarmonicMeasurementStruct)), Value VNone),
     (u ''powerFactor'', 17, optional_nullable CInt, Value VNone),
     (u ''neutralCurrent'', 18, optional_nullable CInt, Value VNone),
     (u ''generatedCommandList'', 65528, CList CUint, EmptyList),
     (u ''acceptedCommandList'', 65529, CList CUint, EmptyList),
     (u ''attributeList'', 65531, CList CUint, EmptyList),
     (u ''featureMap'', 65532, CUint, Value (VInt 0)),
     (u ''clusterRevision'', 65533, CUint, Value (VInt 0))]
     []
     (ElectricalPowerMeasurement_attributes_1 @ ElectricalPowerMeasurement_attributes_2 @ ElectricalPowerMeasurement_attributes_3)
     ElectricalPowerMeasurement_events"

section \<open>EnergyEvse\<close>

definition EnergyEvse_StateEnum :: "(pystr \<times> int) list" where
  "EnergyEvse_StateEnum = [
     (u ''kNotPluggedIn'', 0),
     (u ''kPluggedInNoDemand'', 1),
     (u ''kPluggedInDemand'', 2),
     (u ''kPluggedInCharging'', 3),
     (u ''kPluggedInDischarging'', 4),
     (u ''kSessionEnding'', 5),
     (u ''kFault'', 6),
     (u ''kUnknownEnumValue'', 7)]"

definition EnergyEvse_SupplyStateEnum :: "(pystr \<times> int) list" where
  "EnergyEvse_SupplyStateEnum = [
     (u ''kDisabled'', 0),
     (u ''kChargingEnabled'', 1),
     (u ''kDischargingEnabled'', 2),
     (u ''kDisabledError'', 3),
     (u ''kDisabledDiagnostics'', 4),
     (u ''kEnabled'', 5),
     (u ''kUnknownEnumValue'', 6)]"

definition EnergyEvse_FaultStateEnum :: "(pystr \<times> int) list" where
  "EnergyEvse_FaultStateEnum = [
     (u ''kNoError'', 0),
     (u ''kMeterFailure'', 1),
     (u ''kOverVoltage'', 2),
     (u ''kUnderVoltage'', 3),
     (u ''kOverCurrent'', 4),
     (u ''kContactWetFailure'', 5),
     (u ''kContactDryFailure'', 6),
     (u ''kGroundFault'', 7),
     (u ''kPowerLoss'', 8),
     (u ''kPowerQuality'', 9),
     (u ''kPilotShortCircuit'', 10),
     (u ''kEmergencyStop'', 11),
     (u ''kEVDisconnected'', 12),
     (u ''kWrongPowerSupply'', 13),
     (u ''kLiveNeutralSwap'', 14),
     (u ''kOverTemperature'', 15),
     (u ''kOther'', 255),
     (u ''kUnknownEnumValue'', 256)]"

definition EnergyEvse_EnergyTransferStoppedReasonEnum :: "(pystr \<times> int) list" where
  "EnergyEvse_EnergyTransferStoppedReasonEnum = [
     (u ''kEVStopped'', 0),
     (u ''kEVSEStopped'', 1),
     (u ''kOther'', 2),
     (u ''kUnknownEnumValue'', 3)]"

definition EnergyEvse_Feature :: "(pystr \<times> int) list" where
  "EnergyEvse_Feature = [
     (u ''kChargingPreferences'', 1),
     (u ''kSoCReporting'', 2),
     (u ''kPlugAndCharge'', 4),
     (u ''kRfid'', 8),
     (u ''kV2x'', 16)]"

definition EnergyEvse_TargetDayOfWeekBitmap :: "(pystr \<times> int) list" where
  "EnergyEvse_TargetDayOfWeekBitmap = [
     (u ''kSunday'', 1),
     (u ''kMonday'', 2),
     (u ''kTuesday'', 4),
     (u ''kWednesday'', 8),
     (u ''kThursday'', 16),
     (u ''kFriday'', 32),
     (u ''kSaturday'', 64)]"

definition EnergyEvse_ChargingTargetStruct :: "dfield list" where
  "EnergyEvse_ChargingTargetStruct = [
     (u ''targetTimeMinutesPastMidnight'', 0, CUint, Value (VInt 0)),
     (u ''targetSoC'', 1, optional CUint, Value VNone),
     (u ''addedEnergy'', 2, optional CInt, Value VNone)]"

definition EnergyEvse_ChargingTargetScheduleStruct :: "dfield list" where
  "EnergyEvse_ChargingTargetScheduleStruct = [
     (u ''dayOfWeekForSequence'', 0, flag_type EnergyEvse_TargetDayOfWeekBitmap, Value (VInt 0)),
     (u ''chargingTargets'', 1, CList (struct_type EnergyEvse_ChargingTargetStruct), EmptyList)]"

definition EnergyEvse_commands_1 :: "command_class list" where
  "EnergyEvse_commands_1 = [
     CommandClass (u ''Disable'') 153 1 True None True [],
     CommandClass (u ''EnableCharging'') 153 2 True None True [(u ''chargingEnabledUntil'', 0, nullable CUint, Value VNull),
       (u ''minimumChargeCurrent'', 1, CInt, Value (VInt 0)),
       (u ''maximumChargeCurrent'', 2, CInt, Value (VInt 0))],
     CommandClass (u ''EnableDischarging'') 153 3 True None True [(u ''dischargingEnabledUntil'', 0, nullable CUint, Value VNull),
       (u ''maximumDischargeCurrent'', 1, CInt, Value (VInt 0))],
     CommandClass (u ''StartDiagnostics'') 153 4 True None True [],
     CommandClass (u ''SetTargets'') 153 5 True None True [(u ''chargingTargetSchedules'', 0, CList (struct_type EnergyEvse_ChargingTargetScheduleStruct), EmptyList)],
     CommandClass (u ''GetTargets'') 153 6 True (Some (u ''GetTargetsResponse'')) True [],
     CommandClass (u ''ClearTargets'') 153 7 True None True []]"

definition EnergyEvse_commands_2 :: "command_class list" where
  "EnergyEvse_commands_2 = [
     CommandClass (u ''GetTargetsResponse'') 153 0 False None False [(u ''chargingTargetSchedules'', 0, CList (struct_type EnergyEvse_ChargingTargetScheduleStruct), EmptyList)]]"

definition EnergyEvse_attributes_1 :: "attribute_class list" where
  "EnergyEvse_attributes_1 = [
     AttributeClass (u ''State'') 153 0 (nullable (enum_type EnergyEvse_StateEnum)) (Value VNull),
     AttributeClass (u ''SupplyState'') 153 1 (enum_type EnergyEvse_SupplyStateEnum) (Value (VInt 0)),
     AttributeClass (u ''FaultState'') 153 2 (enum_type EnergyEvse_FaultStateEnum) (Value (VInt 0)),
     AttributeClass (u ''ChargingEnabledUntil'') 153 3 (nullable CUint) (Value VNull),
     AttributeClass (u ''DischargingEnabledUntil'') 153 4 (optional_nullable CUint) (Value VNone),
     AttributeClass (u ''CircuitCapacity'') 153 5 CInt (Value (VInt 0)),
     AttributeClass (u ''MinimumChargeCurrent'') 153 6 CInt (Value (VInt 0)),
     AttributeClass (u ''MaximumChargeCurrent'') 153 7 CInt (Value (VInt 0)),
     AttributeClass (u ''MaximumDischargeCurrent'') 153 8 (optional CInt) (Value VNone)]"

definition EnergyEvse_attributes_2 :: "attribute_class list" where
  "EnergyEvse_attributes_2 = [
     AttributeClass (u ''UserMaximumChargeCurrent'') 153 9 (optional CInt) (Value VNone),
     AttributeClass (u ''RandomizationDelayWindow'') 153 10 (optional CUint) (Value VNone),
     AttributeClass (u ''NextChargeStartTime'') 153 35 (optional_nullable CUint) (Value VNone),
     AttributeClass (u ''NextChargeTargetTime'') 153 36 (optional_nullable CUint) (Value VNone),
     AttributeClass (u ''NextChargeRequiredEnergy'') 153 37 (optional_nullable CInt) (Value VNone),
     AttributeClass (u ''NextChargeTargetSoC'') 153 38 (optional_nullable CUint) (Value VNone),
     AttributeClass (u ''ApproximateEVEfficiency'') 153 39 (optional_nullable CUint) (Value VNone),
     AttributeClass (u ''StateOfCharge'') 153 48 (optional_nullable CUint) (Value VNone),
     AttributeClass (u ''BatteryCapacity'') 153 49 (optional_nullable CInt) (Value VNone)]"

definition EnergyEvse_attributes_3 :: "attribute_class list" where
  "EnergyEvse_attributes_3 = [
     AttributeClass (u ''VehicleID'') 153 50 (optional_nullable CStr) (Value VNone),
     AttributeClass (u ''SessionID'') 153 64 (nullable CUint) (Value VNull),
     AttributeClass (u ''SessionDuration'') 153 65 (nullable CUint) (Value VNull),
     AttributeClass (u ''SessionEnergyCharged'') 153 66 (nullable CInt) (Value VNull),
     AttributeClass (u ''SessionEnergyDischarged'') 153 67 (optional_nullable CInt) (Value VNone),
     AttributeClass (u ''GeneratedCommandList'') 153 65528 (CList CUint) (EmptyList),
     AttributeClass (u ''AcceptedCommandList'') 153 65529 (CList CUint) (EmptyList),
     AttributeClass (u ''AttributeList'') 153 65531 (CList CUint) (EmptyList),
     AttributeClass (u ''FeatureMap'') 153 65532 CUint (Value (VInt 0))]"

definition EnergyEvse_attributes_4 :: "attribute_class list" where
  "EnergyEvse_attributes_4 = [
     AttributeClass (u ''ClusterRevision'') 153 65533 CUint (Value (VInt 0))]"

definition EnergyEvse_events :: "event_class list" where
  "EnergyEvse_events = [
     EventClass (u ''EVConnected'') 153 0 [(u ''sessionID'', 0, CUint, Value (VInt 0))],
     EventClass (u ''EVNotDetected'') 153 1 [(u ''sessionID'', 0, CUint, Value (VInt 0)),
       (u ''state'', 1, enum_type EnergyEvse_StateEnum, Value (VInt 0)),
       (u ''sessionDuration'', 2, CUint, Value (VInt 0)),
       (u ''sessionEnergyCharged'', 3, CInt, Value (VInt 0)),
       (u ''sessionEnergyDischarged'', 4, optional CInt, Value VNone)],
     EventClass (u ''EnergyTransferStarted'') 153 2 [(u ''sessionID'', 0, CUint, Value (VInt 0)),
       (u ''state'', 1, enum_type EnergyEvse_StateEnum, Value (VInt 0)),
       (u ''maximumCurrent'', 2, CInt, Value (VInt 0)),
       (u ''maximumDischargeCurrent'', 3, optional CInt, Value VNone)],
     EventClass (u ''EnergyTransferStopped'') 153 3 [(u ''sessionID'', 0, CUint, Value (VInt 0)),
       (u ''state'', 1, enum_type EnergyEvse_StateEnum, Value (VInt 0)),
       (u ''reason'', 2, enum_type EnergyEvse_EnergyTransferStoppedReasonEnum, Value (VInt 0)),
       (u ''energyTransferred'', 4, CInt, Value (VInt 0)),
       (u ''energyDischarged'', 5, optional CInt, Value VNone)],
     EventClass (u ''Fault'') 153 4 [(u ''sessionID'', 0, nullable CUint, Value VNull),
       (u ''state'', 1, enum_type EnergyEvse_StateEnum, Value (VInt 0)),
       (u ''faultStatePreviousState'', 2, enum_type EnergyEvse_FaultStateEnum, Value (VInt 0)),
       (u ''faultStateCurrentState'', 4, enum_type EnergyEvse_FaultStateEnum, Value (VInt 0))],
     EventClass (u ''Rfid'') 153 5 [(u ''uid'', 0, CBytes, Value (VBytes []))]]"

definition EnergyEvse_cluster :: "cluster_def" where
  "EnergyEvse_cluster = ClusterDef (u ''EnergyEvse'') 153 [
     (u ''state'', 0, nullable (enum_type EnergyEvse_StateEnum), Value VNull),
     (u ''supplyState'', 1, enum_type EnergyEvse_SupplyStateEnum, Value (VInt 0)),
     (u ''faultState'', 2, enum_type EnergyEvse_FaultStateEnum, Value (VInt 0)),
     (u ''chargingEnabledUntil'', 3, nullable CUint, Value VNull),
     (u ''dischargingEnabledUntil'', 4, optional_nullable CUint, Value VNone),
     (u ''circuitCapacity'', 5, CInt, Value (VInt 0)),
     (u ''minimumChargeCurrent'', 6, CInt, Value (VInt 0)),
     (u ''maximumChargeCurrent'', 7, CInt, Value (VInt 0)),
     (u ''maximumDischargeCurrent'', 8, optional CInt, Value VNone),
     (u ''userMaximumChargeCurrent'', 9, optional CInt, Value VNone),
     (u ''randomizationDelayWindow'', 10, optional CUint, Value VNone),
     (u ''nextChargeStartTime'', 35, optional_nullable CUint, Value VNone),
     (u ''nextChargeTargetTime'', 36, optional_nullable CUint, Value VNone),
     (u ''nextChargeRequiredEnergy'', 37, optional_nullable CInt, Value VNone),
     (u ''nextChargeTargetSoC'', 38, optional_nullable CUint, Value VNone),
     (u ''approximateEVEfficiency'', 39, optional_nullable CUint, Value VNone),
     (u ''stateOfCharge'', 48, optional_nullable CUint, Value VNone),
     (u ''batteryCapacity'', 49, optional_nullable CInt, Value VNone),
     (u ''vehicleID'', 50, optional_nullable CStr, Value VNone),
     (u ''sessionID'', 64, nullable CUint, Value VNull),
     (u ''sessionDuration'', 65, nullable CUint, Value VNull),
     (u ''sessionEnergyCharged'', 66, nullable CInt, Value VNull),
     (u ''sessionEnergyDischarged'', 67, optional_nullable CInt, Value VNone),
     (u ''generatedCommandList'', 65528, CList CUint, EmptyList),
     (u ''acceptedCommandList'', 65529, CList CUint, EmptyList),
     (u ''attributeList'', 65531, CList CUint, EmptyList),
     (u ''featureMap'', 65532, CUint, Value (VInt 0)),
     (u ''clusterRevision'', 65533, CUint, Value (VInt 0))]
     (EnergyEvse_commands_1 @ EnergyEvse_commands_2)
     (EnergyEvse_attributes_1 @ EnergyEvse_attributes_2 @ EnergyEvse_attributes_3 @ EnergyEvse_attributes_4)
     EnergyEvse_events"

section \<open>EnergyEvseMode\<close>

definition EnergyEvseMode_ModeTag :: "(pystr \<times> int) list" where
  "EnergyEvseMode_ModeTag = [
     (u ''kAuto'', 0),
     (u ''kQuick'', 1),
     (u ''kQuiet'', 2),
     (u ''kLowNoise'', 3),
     (u ''kLowEnergy'', 4),
     (u ''kVacation'', 5),
     (u ''kMin'', 6),
     (u ''kMax'', 7),
     (u ''kNight'', 8),
     (u ''kDay'', 9),
     (u ''kManual'', 16384),
     (u ''kTimeOfUse'', 16385),
     (u ''kSolarCharging'', 16386),
     (u ''kV2x'', 16387),
     (u ''kUnknownEnumValue'', 16388)]"

definition EnergyEvseMode_ModeChangeStatus :: "(pystr \<times> int) list" where
  "EnergyEvseMode_ModeChangeStatus = [
     (u ''kSuccess'', 0),
     (u ''kUnsupportedMode'', 1),
     (u ''kGenericFailure'', 2),
     (u ''kInvalidInMode'', 3),
     (u ''kUnknownEnumValue'', 4)]"

definition EnergyEvseMode_Feature :: "(pystr \<times> int) list" where
  "EnergyEvseMode_Feature = [
     (u ''kOnOff'', 1)]"

definition EnergyEvseMode_ModeTagStruct :: "dfield list" where
  "EnergyEvseMode_ModeTagStruct = [
     (u ''mfgCode'', 0, optional CUint, Value VNone),
     (u ''value'', 1, enum_type EnergyEvseMode_ModeTag, Value (VInt 0))]"

definition EnergyEvseMode_ModeOptionStruct :: "dfield list" where
  "EnergyEvseMode_ModeOptionStruct = [
     (u ''label'', 0, CStr, Value (VStr [])),
     (u ''mode'', 1, CUint, Value (VInt 0)),
     (u ''modeTags'', 2, CList (struct_type EnergyEvseMode_ModeTagStruct), EmptyList)]"

definition EnergyEvseMode_commands :: "command_class list" where
  "EnergyEvseMode_commands = [
     CommandClass (u ''ChangeToMode'') 157 0 True (Some (u ''ChangeToModeResponse'')) False [(u ''newMode'', 0, CUint, Value (VInt 0))],
     CommandClass (u ''ChangeToModeResponse'') 157 1 False None False [(u ''status'', 0, enum_type EnergyEvseMode_ModeChangeStatus, Value (VInt 0)),
       (u ''statusText'', 1, CStr, Value (VStr []))]]"

definition EnergyEvseMode_attributes :: "attribute_class list" where
  "EnergyEvseMode_attributes = [
     AttributeClass (u ''SupportedModes'') 157 0 (CList (struct_type EnergyEvseMode_ModeOptionStruct)) (EmptyList),
     AttributeClass (u ''CurrentMode'') 157 1 CUint (Value (VInt 0)),
     AttributeClass (u ''StartUpMode'') 157 2 (optional_nullable CUint) (Value VNone),
     AttributeClass (u ''OnMode'') 157 3 (optional_nullable CUint) (Value VNone),
     AttributeClass (u ''GeneratedCommandList'') 157 65528 (CList CUint) (EmptyList),
     AttributeClass (u ''AcceptedCommandList'') 157 65529 (CList CUint) (EmptyList),
     AttributeClass (u ''AttributeList'') 157 65531 (CList CUint) (EmptyList),
     AttributeClass (u ''FeatureMap'') 157 65532 CUint (Value (VInt 0)),
     AttributeClass (u ''ClusterRevision'') 157 65533 CUint (Value (VInt 0))]"

definition EnergyEvseMode_cluster :: "cluster_def" where
  "EnergyEvseMode_cluster = ClusterDef (u ''EnergyEvseMode'') 157 [
     (u ''supportedModes'', 0, CList (struct_type EnergyEvseMode_ModeOptionStruct), EmptyList),
     (u ''currentMode'', 1, CUint, Value (VInt 0)),
     (u ''startUpMode'', 2, optional_nullable CUint, Value VNone),
     (u ''onMode'', 3, optional_nullable CUint, Value VNone),
     (u ''generatedCommandList'', 65528, CList CUint, EmptyList),
     (u ''acceptedCommandList'', 65529, CList CUint, EmptyList),
     (u ''attributeList'', 65531, CList CUint, EmptyList),
     (u ''featureMap'', 65532, CUint, Value (VInt 0)),
     (u ''clusterRevision'', 65533, CUint, Value (VInt 0))]
     EnergyEvseMode_commands
     EnergyEvseMode_attributes
     []"

section \<open>EnergyPreference\<close>

definition EnergyPreference_EnergyPriorityEnum :: "(pystr \<times> int) list" where
  "EnergyPreference_EnergyPriorityEnum = [
     (u ''kComfort'', 0),
     (u ''kSpeed'', 1),
     (u ''kEfficiency'', 2),
     (u ''kWaterConsumption'', 3),
     (u ''kUnknownEnumValue'', 4)]"

definition EnergyPreference_Feature :: "(pystr \<times> int) list" where
  "EnergyPreference_Feature = [
     (u ''kEnergyBalance'', 1),
     (u ''kLowPowerModeSensitivity'', 2)]"

definition EnergyPreference_BalanceStruct :: "dfield list" where
  "EnergyPreference_BalanceStruct = [
     (u ''step'', 0, CUint, Value (VInt 0)),
     (u ''label'', 1, optional CStr, Value VNone)]"

definition EnergyPreference_attributes_1 :: "attribute_class list" where
  "EnergyPreference_attributes_1 = [
     AttributeClass (u ''EnergyBalances'') 155 0 (optional (CList (struct_type EnergyPreference_BalanceStruct))) (Value VNone),
     AttributeClass (u ''CurrentEnergyBalance'') 155 1 (optional CUint) (Value VNone),
     AttributeClass (u ''EnergyPriorities'') 155 2 (optional (CList (enum_type EnergyPreference_EnergyPriorityEnum))) (Value VNone),
     AttributeClass (u ''LowPowerModeSensitivities'') 155 3 (optional (CList (struct_type EnergyPreference_BalanceStruct))) (Value VNone),
     AttributeClass (u ''CurrentLowPowerModeSensitivity'') 155 4 (optional CUint) (Value VNone),
     AttributeClass (u ''GeneratedCommandList'') 155 65528 (CList CUint) (EmptyList),
     AttributeClass (u ''AcceptedCommandList'') 155 65529 (CList CUint) (EmptyList),
     AttributeClass (u ''AttributeList'') 155 65531 (CList CUint) (EmptyList),
     AttributeClass (u ''FeatureMap'') 155 65532 CUint (Value (VInt 0))]"

definition EnergyPreference_attributes_2 :: "attribute_class list" where
  "EnergyPreference_attributes_2 = [
     AttributeClass (u ''ClusterRevision'') 155 65533 CUint (Value (VInt 0))]"

definition EnergyPreference_cluster :: "cluster_def" where
  "EnergyPreference_cluster = ClusterDef (u ''EnergyPreference'') 155 [
     (u ''energyBalances'', 0, optional (CList (struct_type EnergyPreference_BalanceStruct)), Value VNone),
     (u ''currentEnergyBalance'', 1, optional CUint, Value VNone),
     (u ''energyPriorities'', 2, optional (CList (enum_type EnergyPreference_EnergyPriorityEnum)), Value VNone),
     (u ''lowPowerModeSensitivities'', 3, optional (CList (struct_type EnergyPreference_BalanceStruct)), Value VNone),
     (u ''currentLowPowerModeSensitivity'', 4, optional CUint, Value VNone),
     (u ''generatedCommandList'', 65528, CList CUint, EmptyList),
     (u ''acceptedCommandList'', 65529, CList CUint, EmptyList),
     (u ''attributeList'', 65531, CList CUint, EmptyList),
     (u ''featureMap'', 65532, CUint, Value (VInt 0)),
     (u ''clusterRevision'', 65533, CUint, Value (VInt 0))]
     []
     (EnergyPreference_attributes_1 @ EnergyPreference_attributes_2)
     []"

section \<open>EthernetNetworkDiagnostics\<close>

definition EthernetNetworkDiagnostics_PHYRateEnum :: "(pystr \<times> int) list" where
  "EthernetNetworkDiagnostics_PHYRateEnum = [
     (u ''kRate10M'', 0),
     (u ''kRate100M'', 1),
     (u ''kRate1G'', 2),
     (u ''kRate25g'', 3),
     (u ''kRate5G'', 4),
     (u ''kRate10G'', 5),
     (u ''kRate40G'', 6),
     (u ''kRate100G'', 7),
     (u ''kRate200G'', 8),
     (u ''kRate400G'', 9),
     (u ''kUnknownEnumValue'', 10)]"

definition EthernetNetworkDiagnostics_Feature :: "(pystr \<times> int) list" where
  "EthernetNetworkDiagnostics_Feature = [
     (u ''kPacketCounts'', 1),
     (u ''kErrorCounts'', 2)]"

definition EthernetNetworkDiagnostics_commands :: "command_class list" where
  "EthernetNetworkDiagnostics_commands = [
     CommandClass (u ''ResetCounts'') 55 0 True None False []]"

definition EthernetNetworkDiagnostics_attributes_1 :: "attribute_class list" where
  "EthernetNetworkDiagnostics_attributes_1 = [
     AttributeClass (u ''PHYRate'') 55 0 (optional_nullable (enum_type EthernetNetworkDiagnostics_PHYRateEnum)) (Value VNone),
     AttributeClass (u ''FullDuplex'') 55 1 (optional_nullable CBool) (Value VNone),
     AttributeClass (u ''PacketRxCount'') 55 2 (optional CUint) (Value VNone),
     AttributeClass (u ''PacketTxCount'') 55 3 (optional CUint) (Value VNone),
     AttributeClass (u ''TxErrCount'') 55 4 (optional CUint) (Value VNone),
     AttributeClass (u ''CollisionCount'') 55 5 (optional CUint) (Value VNone),
     AttributeClass (u ''OverrunCount'') 55 6 (optional CUint) (Value VNone),
     AttributeClass (u ''CarrierDetect'') 55 7 (optional_nullable CBool) (Value VNone),
     AttributeClass (u ''TimeSinceReset'') 55 8 (optional CUint) (Value VNone)]"

definition EthernetNetworkDiagnostics_attributes_2 :: "attribute_class list" where
  "EthernetNetworkDiagnostics_attributes_2 = [
     AttributeClass (u ''GeneratedCommandList'') 55 65528 (CList CUint) (EmptyList),
     AttributeClass (u ''AcceptedCommandList'') 55 65529 (CList CUint) (EmptyList),
     AttributeClass (u ''AttributeList'') 55 65531 (CList CUint) (EmptyList),
     AttributeClass (u ''FeatureMap'') 55 65532 CUint (Value (VInt 0)),
     AttributeClass (u ''ClusterRevision'') 55 65533 CUint (Value (VInt 0))]"

definition EthernetNetworkDiagnostics_cluster :: "cluster_def" where
  "EthernetNetworkDiagnostics_cluster = ClusterDef (u ''EthernetNetworkDiagnostics'') 55 [
     (u ''PHYRate'', 0, optional_nullable (enum_type EthernetNetworkDiagnostics_PHYRateEnum), Value VNone),
     (u ''fullDuplex'', 1, optional_nullable CBool, Value VNone),
     (u ''packetRxCount'', 2, optional CUint, Value VNone),
     (u ''packetTxCount'', 3, optional CUint, Value VNone),
     (u ''txErrCount'', 4, optional CUint, Value VNone),
     (u ''collisionCount'', 5, optional CUint, Value VNone),
     (u ''overrunCount'', 6, optional CUint, Value VNone),
     (u ''carrierDetect'', 7, optional_nullable CBool, Value VNone),
     (u ''timeSinceReset'', 8, optional CUint, Value VNone),
     (u ''generatedCommandList'', 65528, CList CUint, EmptyList),
     (u ''acceptedCommandList'', 65529, CList CUint, EmptyList),
     (u ''attributeList'', 65531, CList CUint, EmptyList),
     (u ''featureMap'', 65532, CUint, Value (VInt 0)),
     (u ''clusterRevision'', 65533, CUint, Value (VInt 0))]
     EthernetNetworkDiagnostics_commands
     (EthernetNetworkDiagnostics_attributes_1 @ EthernetNetworkDiagnostics_attributes_2)
     []"

section \<open>EveCluster\<close>

definition EveCluster_attributes_1 :: "attribute_class list" where
  "EveCluster_attributes_1 = [
     AttributeClass (u ''GetConfig'') 319486977 319422464 (optional CBytes) (Value VNone),
     AttributeClass (u ''SetConfig'') 319486977 319422465 (optional CBytes) (Value VNone),
     AttributeClass (u ''LoggingMetadata'') 319486977 319422466 (optional CBytes) (Value VNone),
     AttributeClass (u ''LoggingData'') 319486977 319422467 (optional CBytes) (Value VNone),
     AttributeClass (u ''TimesOpened'') 319486977 319422470 (optional CUint) (Value VNone),
     AttributeClass (u ''LastEventTime'') 319486977 319422471 (optional CUint) (Value VNone),
     AttributeClass (u ''Voltage'') 319486977 319422472 (optional CFloat32) (Value VNone),
     AttributeClass (u ''Current'') 319486977 319422473 (optional CFloat32) (Value VNone),
     AttributeClass (u ''Watt'') 319486977 319422474 (optional CFloat32) (Value VNone)]"

definition EveCluster_attributes_2 :: "attribute_class list" where
  "EveCluster_attributes_2 = [
     AttributeClass (u ''WattAccumulated'') 319486977 319422475 (optional CFloat32) (Value VNone),
     AttributeClass (u ''StatusFault'') 319486977 319422476 (optional CUint) (Value VNone),
     AttributeClass (u ''MotionSensitivity'') 319486977 319422477 (optional CUint) (Value VNone),
     AttributeClass (u ''WattAccumulatedControlPoint'') 319486977 319422478 (optional CUint) (Value VNone),
     AttributeClass (u ''ObstructionDetected'') 319486977 319422480 (optional CBool) (Value VNone),
     AttributeClass (u ''ChildLock'') 319486977 319422481 (optional CBool) (Value VNone),
     AttributeClass (u ''Rloc16'') 319486977 319422482 (optional CUint) (Value VNone),
     AttributeClass (u ''Altitude'') 319486977 319422483 (optional CFloat32) (Value VNone),
     AttributeClass (u ''Pressure'') 319486977 319422484 (optional CFloat32) (Value VNone)]"

definition EveCluster_attributes_3 :: "attribute_class list" where
  "EveCluster_attributes_3 = [
     AttributeClass (u ''WeatherTrend'') 319486977 319422485 (optional CUint) (Value VNone),
     AttributeClass (u ''WindowOpenMode'') 319486977 319422487 (optional CBool) (Value VNone),
     AttributeClass (u ''ValvePosition'') 319486977 319422488 (optional CUint) (Value VNone),
     AttributeClass (u ''GeneratedCommandList'') 319486977 65528 (CList CUint) (EmptyList),
     AttributeClass (u ''AcceptedCommandList'') 319486977 65529 (CList CUint) (EmptyList),
     AttributeClass (u ''AttributeList'') 319486977 65531 (CList CUint) (EmptyList),
     AttributeClass (u ''FeatureMap'') 319486977 65532 CUint (Value (VInt 0)),
     AttributeClass (u ''ClusterRevision'') 319486977 65533 CUint (Value (VInt 0))]"

definition EveCluster_cluster :: "cluster_def" where
  "EveCluster_cluster = ClusterDef (u ''EveCluster'') 319486977 [
     (u ''getConfig'', 319422464, optional CBytes, Value VNone),
     (u ''setConfig'', 319422465, optional CBytes, Value VNone),
     (u ''loggingMetadata'', 319422466, optional CBytes, Value VNone),
     (u ''loggingData'', 319422467, optional CBytes, Value VNone),
     (u ''timesOpened'', 319422470, optional CUint, Value VNone),
     (u ''lastEventTime'', 319422471, optional CUint, Value VNone),
     (u ''voltage'', 319422472, optional CFloat32, Value VNone),
     (u ''current'', 319422473, optional CFloat32, Value VNone),
     (u ''watt'', 319422474, optional CFloat32, Value VNone),
     (u ''wattAccumulated'', 319422475, optional CFloat32, Value VNone),
     (u ''statusFault'', 319422476, optional CUint, Value VNone),
     (u ''motionSensitivity'', 319422477, optional CUint, Value VNone),
     (u ''wattAccumulatedControlPoint'', 319422478, optional CUint, Value VNone),
     (u ''obstructionDetected'', 319422480, optional CBool, Value VNone),
     (u ''childLock'', 319422481, optional CBool, Value VNone),
     (u ''rloc16'', 319422482, optional CUint, Value VNone),
     (u ''altitude'', 319422483, optional CFloat32, Value VNone),
     (u ''pressure'', 319422484, optional CFloat32, Value VNone),
     (u ''weatherTrend'', 319422485, optional CUint, Value VNone),
     (u ''windowOpenMode'', 319422487, optional CBool, Value VNone),
     (u ''valvePosition'', 319422488, optional CUint, Value VNone),
     (u ''generatedCommandList'', 65528, CList CUint, EmptyList),
     (u ''acceptedCommandList'', 65529, CList CUint, EmptyList),
     (u ''attributeList'', 65531, CList CUint, EmptyList),
     (u ''featureMap'', 65532, CUint, Value (VInt 0)),
     (u ''clusterRevision'', 65533, CUint, Value (VInt 0))]
     []
     (EveCluster_attributes_1 @ EveCluster_attributes_2 @ EveCluster_attributes_3)
     []"

section \<open>FanControl\<close>

definition FanControl_StepDirectionEnum :: "(pystr \<times> int) list" where
  "FanControl_StepDirectionEnum = [
     (u ''kIncrease'', 0),
     (u ''kDecrease'', 1),
     (u ''kUnknownEnumValue'', 2)]"

definition FanControl_AirflowDirectionEnum :: "(pystr \<times> int) list" where
  "FanControl_AirflowDirectionEnum = [
     (u ''kForward'', 0),
     (u ''kReverse'', 1),
     (u ''kUnknownEnumValue'', 2)]"

definition FanControl_FanModeEnum :: "(pystr \<times> int) list" where
  "FanControl_FanModeEnum = [
     (u ''kOff'', 0),
     (u ''kLow'', 1),
     (u ''kMedium'', 2),
     (u ''kHigh'', 3),
     (u ''kOn'', 4),
     (u ''kAuto'', 5),
     (u ''kSmart'', 6),
     (u ''kUnknownEnumValue'', 7)]"

definition FanControl_FanModeSequenceEnum :: "(pystr \<times> int) list" where
  "FanControl_FanModeSequenceEnum = [
     (u ''kOffLowMedHigh'', 0),
     (u ''kOffLowHigh'', 1),
     (u ''kOffLowMedHighAuto'', 2),
     (u ''kOffLowHighAuto'', 3),
     (u ''kOffHighAuto'', 4),
     (u ''kOffHigh'', 5),
     (u ''kUnknownEnumValue'', 6)]"

definition FanControl_Feature :: "(pystr \<times> int) list" where
  "FanControl_Feature = [
     (u ''kMultiSpeed'', 1),
     (u ''kAuto'', 2),
     (u ''kRocking'', 4),
     (u ''kWind'', 8),
     (u ''kStep'', 16),
     (u ''kAirflowDirection'', 32)]"

definition FanControl_RockBitmap :: "(pystr \<times> int) list" where
  "FanControl_RockBitmap = [
     (u ''kRockLeftRight'', 1),
     (u ''kRockUpDown'', 2),
     (u ''kRockRound'', 4)]"

definition FanControl_WindBitmap :: "(pystr \<times> int) list" where
  "FanControl_WindBitmap = [
     (u ''kSleepWind'', 1),
     (u ''kNaturalWind'', 2)]"

definition FanControl_commands :: "command_class list" where
  "FanControl_commands = [
     CommandClass (u ''Step'') 514 0 True None False [(u ''direction'', 0, enum_type FanControl_StepDirectionEnum, Value (VInt 0)),
       (u ''wrap'', 1, optional CBool, Value VNone),
       (u ''lowestOff'', 2, optional CBool, Value VNone)]]"

definition FanControl_attributes_1 :: "attribute_class list" where
  "FanControl_attributes_1 = [
     AttributeClass (u ''FanMode'') 514 0 (enum_type FanControl_FanModeEnum) (Value (VInt 0)),
     AttributeClass (u ''FanModeSequence'') 514 1 (enum_type FanControl_FanModeSequenceEnum) (Value (VInt 0)),
     AttributeClass (u ''PercentSetting'') 514 2 (nullable CUint) (Value VNull),
     AttributeClass (u ''PercentCurrent'') 514 3 CUint (Value (VInt 0)),
     AttributeClass (u ''SpeedMax'') 514 4 (optional CUint) (Value VNone),
     AttributeClass (u ''SpeedSetting'') 514 5 (optional_nullable CUint) (Value VNone),
     AttributeClass (u ''SpeedCurrent'') 514 6 (optional CUint) (Value VNone),
     AttributeClass (u ''RockSupport'') 514 7 (optional (flag_type FanControl_RockBitmap)) (Value VNone),
     AttributeClass (u ''RockSetting'') 514 8 (optional (flag_type FanControl_RockBitmap)) (Value VNone)]"

definition FanControl_attributes_2 :: "attribute_class list" where
  "FanControl_attributes_2 = [
     AttributeClass (u ''WindSupport'') 514 9 (optional (flag_type FanControl_WindBitmap)) (Value VNone),
     AttributeClass (u ''WindSetting'') 514 10 (optional (flag_type FanControl_WindBitmap)) (Value VNone),
     AttributeClass (u ''AirflowDirection'') 514 11 (optional (enum_type FanControl_AirflowDirectionEnum)) (Value VNone),
     AttributeClass (u ''GeneratedCommandList'') 514 65528 (CList CUint) (EmptyList),
     AttributeClass (u ''AcceptedCommandList'') 514 65529 (CList CUint) (EmptyList),
     AttributeClass (u ''AttributeList'') 514 65531 (CList CUint) (EmptyList),
     AttributeClass (u ''FeatureMap'') 514 65532 CUint (Value (VInt 0)),
     AttributeClass (u ''ClusterRevision'') 514 65533 CUint (Value (VInt 0))]"

definition FanControl_cluster :: "cluster_def" where
  "FanControl_cluster = ClusterDef (u ''FanControl'') 514 [
     (u ''fanMode'', 0, enum_type FanControl_FanModeEnum, Value (VInt 0)),
     (u ''fanModeSequence'', 1, enum_type FanControl_FanModeSequenceEnum, Value (VInt 0)),
     (u ''percentSetting'', 2, nullable CUint, Value VNull),
     (u ''percentCurrent'', 3, CUint, Value (VInt 0)),
     (u ''speedMax'', 4, optional CUint, Value VNone),
     (u ''speedSetting'', 5, optional_nullable CUint, Value VNone),
     (u ''speedCurrent'', 6, optional CUint, Value VNone),
     (u ''rockSupport'', 7, optional (flag_type FanControl_RockBitmap), Value VNone),
     (u ''rockSetting'', 8, optional (flag_type FanControl_RockBitmap), Value VNone),
     (u ''windSupport'', 9, optional (flag_type FanControl_WindBitmap), Value VNone),
     (u ''windSetting'', 10, optional (flag_type FanControl_WindBitmap), Value VNone),
     (u ''airflowDirection'', 11, optional (enum_type FanControl_AirflowDirectionEnum), Value VNone),
     (u ''generatedCommandList'', 65528, CList CUint, EmptyList),
     (u ''acceptedCommandList'', 65529, CList CUint, EmptyList),
     (u ''attributeList'', 65531, CList CUint, EmptyList),
     (u ''featureMap'', 65532, CUint, Value (VInt 0)),
     (u ''clusterRevision'', 65533, CUint, Value (VInt 0))]
     FanControl_commands
     (FanControl_attributes_1 @ FanControl_attributes_2)
     []"

section \<open>FixedLabel\<close>

definition FixedLabel_LabelStruct :: "dfield list" where
  "FixedLabel_LabelStruct = [
     (u ''label'', 0, CStr, Value (VStr [])),
     (u ''value'', 1, CStr, Value (VStr []))]"

definition FixedLabel_attributes :: "attribute_class list" where
  "FixedLabel_attributes = [
     AttributeClass (u ''LabelList'') 64 0 (CList (struct_type FixedLabel_LabelStruct)) (EmptyList),
     AttributeClass (u ''GeneratedCommandList'') 64 65528 (CList CUint) (EmptyList),
     AttributeClass (u ''AcceptedCommandList'') 64 65529 (CList CUint) (EmptyList),
     AttributeClass (u ''AttributeList'') 64 65531 (CList CUint) (EmptyList),
     AttributeClass (u ''FeatureMap'') 64 65532 CUint (Value (VInt 0)),
     AttributeClass (u ''ClusterRevision'') 64 65533 CUint (Value (VInt 0))]"

definition FixedLabel_cluster :: "cluster_def" where
  "FixedLabel_cluster = ClusterDef (u ''FixedLabel'') 64 [
     (u ''labelList'', 0, CList (struct_type FixedLabel_LabelStruct), EmptyList),
     (u ''generatedCommandList'', 65528, CList CUint, EmptyList),
     (u ''acceptedCommandList'', 65529, CList CUint, EmptyList),
     (u ''attributeList'', 65531, CList CUint, EmptyList),
     (u ''featureMap'', 65532, CUint, Value (VInt 0)),
     (u ''clusterRevision'', 65533, CUint, Value (VInt 0))]
     []
     FixedLabel_attributes
     []"

section \<open>FlowMeasurement\<close>

definition FlowMeasurement_attributes :: "attribute_class list" where
  "FlowMeasurement_attributes = [
     AttributeClass (u ''MeasuredValue'') 1028 0 (nullable CUint) (Value VNull),
     AttributeClass (u ''MinMeasuredValue'') 1028 1 (nullable CUint) (Value VNull),
     AttributeClass (u ''MaxMeasuredValue'') 1028 2 (nullable CUint) (Value VNull),
     AttributeClass (u ''Tolerance'') 1028 3 (optional CUint) (Value VNone),
     AttributeClass (u ''GeneratedCommandList'') 1028 65528 (CList CUint) (EmptyList),
     AttributeClass (u ''AcceptedCommandList'') 1028 65529 (CList CUint) (EmptyList),
     AttributeClass (u ''AttributeList'') 1028 65531 (CList CUint) (EmptyList),
     AttributeClass (u ''FeatureMap'') 1028 65532 CUint (Value (VInt 0)),
     AttributeClass (u ''ClusterRevision'') 1028 65533 CUint (Value (VInt 0))]"

definition FlowMeasurement_cluster :: "cluster_def" where
  "FlowMeasurement_cluster = ClusterDef (u ''FlowMeasurement'') 1028 [
     (u ''measuredValue'', 0, nullable CUint, Value VNull),
     (u ''minMeasuredValue'', 1, nullable CUint, Value VNull),
     (u ''maxMeasuredValue'', 2, nullable CUint, Value VNull),
     (u ''tolerance'', 3, optional CUint, Value VNone),
     (u ''generatedCommandList'', 65528, CList CUint, EmptyList),
     (u ''acceptedCommandList'', 65529, CList CUint, EmptyList),
     (u ''attributeList'', 65531, CList CUint, EmptyList),
     (u ''featureMap'', 65532, CUint, Value (VInt 0)),
     (u ''clusterRevision'', 65533, CUint, Value (VInt 0))]
     []
     FlowMeasurement_attributes
     []"

section \<open>FormaldehydeConcentrationMeasurement\<close>

definition FormaldehydeConcentrationMeasurement_MeasurementUnitEnum :: "(pystr \<times> int) list" where
  "FormaldehydeConcentrationMeasurement_MeasurementUnitEnum = [
     (u ''kPpm'', 0),
     (u ''kPpb'', 1),
     (u ''kPpt'', 2),
     (u ''kMgm3'', 3),
     (u ''kUgm3'', 4),
     (u ''kNgm3'', 5),
     (u ''kPm3'', 6),
     (u ''kBqm3'', 7),
     (u ''kUnknownEnumValue'', 8)]"

definition FormaldehydeConcentrationMeasurement_MeasurementMediumEnum :: "(pystr \<times> int) list" where
  "FormaldehydeConcentrationMeasurement_MeasurementMediumEnum = [
     (u ''kAir'', 0),
     (u ''kWater'', 1),
     (u ''kSoil'', 2),
     (u ''kUnknownEnumValue'', 3)]"

definition FormaldehydeConcentrationMeasurement_LevelValueEnum :: "(pystr \<times> int) list" where
  "FormaldehydeConcentrationMeasurement_LevelValueEnum = [
     (u ''kUnknown'', 0),
     (u ''kLow'', 1),
     (u ''kMedium'', 2),
     (u ''kHigh'', 3),
     (u ''kCritical'', 4),
     (u ''kUnknownEnumValue'', 5)]"

definition FormaldehydeConcentrationMeasurement_Feature :: "(pystr \<times> int) list" where
  "FormaldehydeConcentrationMeasurement_Feature = [
     (u ''kNumericMeasurement'', 1),
     (u ''kLevelIndication'', 2),
     (u ''kMediumLevel'', 4),
     (u ''kCriticalLevel'', 8),
     (u ''kPeakMeasurement'', 16),
     (u ''kAverageMeasurement'', 32)]"

definition FormaldehydeConcentrationMeasurement_attributes_1 :: "attribute_class list" where
  "FormaldehydeConcentrationMeasurement_attributes_1 = [
     AttributeClass (u ''MeasuredValue'') 1067 0 (optional_nullable CFloat32) (Value VNone),
     AttributeClass (u ''MinMeasuredValue'') 1067 1 (optional_nullable CFloat32) (Value VNone),
     AttributeClass (u ''MaxMeasuredValue'') 1067 2 (optional_nullable CFloat32) (Value VNone),
     AttributeClass (u ''PeakMeasuredValue'') 1067 3 (optional_nullable CFloat32) (Value VNone),
     AttributeClass (u ''PeakMeasuredValueWindow'') 1067 4 (optional CUint) (Value VNone),
     AttributeClass (u ''AverageMeasuredValue'') 1067 5 (optional_nullable CFloat32) (Value VNone),
     AttributeClass (u ''AverageMeasuredValueWindow'') 1067 6 (optional CUint) (Value VNone),
     AttributeClass (u ''Uncertainty'') 1067 7 (optional CFloat32) (Value VNone),
     AttributeClass (u ''MeasurementUnit'') 1067 8 (optional (enum_type FormaldehydeConcentrationMeasurement_MeasurementUnitEnum)) (Value VNone)]"

definition FormaldehydeConcentrationMeasurement_attributes_2 :: "attribute_class list" where
  "FormaldehydeConcentrationMeasurement_attributes_2 = [
     AttributeClass (u ''MeasurementMedium'') 1067 9 (enum_type FormaldehydeConcentrationMeasurement_MeasurementMediumEnum) (Value (VInt 0)),
     AttributeClass (u ''LevelValue'') 1067 10 (optional (enum_type FormaldehydeConcentrationMeasurement_LevelValueEnum)) (Value VNone),
     AttributeClass (u ''GeneratedCommandList'') 1067 65528 (CList CUint) (EmptyList),
     AttributeClass (u ''AcceptedCommandList'') 1067 65529 (CList CUint) (EmptyList),
     AttributeClass (u ''AttributeList'') 1067 65531 (CList CUint) (EmptyList),
     AttributeClass (u ''FeatureMap'') 1067 65532 CUint (Value (VInt 0)),
     AttributeClass (u ''ClusterRevision'') 1067 65533 CUint (Value (VInt 0))]"

definition FormaldehydeConcentrationMeasurement_cluster :: "cluster_def" where
  "FormaldehydeConcentrationMeasurement_cluster = ClusterDef (u ''FormaldehydeConcentrationMeasurement'') 1067 [
     (u ''measuredValue'', 0, optional_nullable CFloat32, Value VNone),
     (u ''minMeasuredValue'', 1, optional_nullable CFloat32, Value VNone),
     (u ''maxMeasuredValue'', 2, optional_nullable CFloat32, Value VNone),
     (u ''peakMeasuredValue'', 3, optional_nullable CFloat32, Value VNone),
     (u ''peakMeasuredValueWindow'', 4, optional CUint, Value VNone),
     (u ''averageMeasuredValue'', 5, optional_nullable CFloat32, Value VNone),
     (u ''averageMeasuredValueWindow'', 6, optional CUint, Value VNone),
     (u ''uncertainty'', 7, optional CFloat32, Value VNone),
     (u ''measurementUnit'', 8, optional (enum_type FormaldehydeConcentrationMeasurement_MeasurementUnitEnum), Value VNone),
     (u ''measurementMedium'', 9, enum_type FormaldehydeConcentrationMeasurement_MeasurementMediumEnum, Value (VInt 0)),
     (u ''levelValue'', 10, optional (enum_type FormaldehydeConcentrationMeasurement_LevelValueEnum), Value VNone),
     (u ''generatedCommandList'', 65528, CList CUint, EmptyList),
     (u ''acceptedCommandList'', 65529, CList CUint, EmptyList),
     (u ''attributeList'', 65531, CList CUint, EmptyList),
     (u ''featureMap'', 65532, CUint, Value (VInt 0)),
     (u ''clusterRevision'', 65533, CUint, Value (VInt 0))]
     []
     (FormaldehydeConcentrationMeasurement_attributes_1 @ FormaldehydeConcentrationMeasurement_attributes_2)
     []"

section \<open>GeneralCommissioning\<close>

definition GeneralCommissioning_CommissioningErrorEnum :: "(pystr \<times> int) list" where
  "GeneralCommissioning_CommissioningErrorEnum = [
     (u ''kOk'', 0),
     (u ''kValueOutsideRange'', 1),
     (u ''kInvalidAuthentication'', 2),
     (u ''kNoFailSafe'', 3),
     (u ''kBusyWithOtherAdmin'', 4),
     (u ''kRequiredTCNotAccepted'', 5),
     (u ''kTCAcknowledgementsNotReceived'', 6),
     (u ''kTCMinVersionNotMet'', 7),
     (u ''kUnknownEnumValue'', 8)]"

definition GeneralCommissioning_RegulatoryLocationTypeEnum :: "(pystr \<times> int) list" where
  "GeneralCommissioning_RegulatoryLocationTypeEnum = [
     (u ''kIndoor'', 0),
     (u ''kOutdoor'', 1),
     (u ''kIndoorOutdoor'', 2),
     (u ''kUnknownEnumValue'', 3)]"

definition GeneralCommissioning_NetworkRecoveryReasonEnum :: "(pystr \<times> int) list" where
  "GeneralCommissioning_NetworkRecoveryReasonEnum = [
     (u ''kUnspecified'', 0),
     (u ''kAuth'', 1),
     (u ''kVisibility'', 2),
     (u ''kUnknownEnumValue'', 3)]"

definition GeneralCommissioning_Feature :: "(pystr \<times> int) list" where
  "GeneralCommissioning_Feature = [
     (u ''kTermsAndConditions'', 1),
     (u ''kNetworkRecovery'', 2)]"

definition GeneralCommissioning_BasicCommissioningInfo :: "dfield list" where
  "GeneralCommissioning_BasicCommissioningInfo = [
     (u ''failSafeExpiryLengthSeconds'', 0, CUint, Value (VInt 0)),
     (u ''maxCumulativeFailsafeSeconds'', 1, CUint, Value (VInt 0))]"

definition GeneralCommissioning_commands :: "command_class list" where
  "GeneralCommissioning_commands = [
     CommandClass (u ''ArmFailSafe'') 48 0 True (Some (u ''ArmFailSafeResponse'')) False [(u ''expiryLengthSeconds'', 0, CUint, Value (VInt 0)),
       (u ''breadcrumb'', 1, CUint, Value (VInt 0))],
     CommandClass (u ''SetRegulatoryConfig'') 48 2 True (Some (u ''SetRegulatoryConfigResponse'')) False [(u ''newRegulatoryConfig'', 0, enum_type GeneralCommissioning_RegulatoryLocationTypeEnum, Value (VInt 0)),
       (u ''countryCode'', 1, CStr, Value (VStr [])),
       (u ''breadcrumb'', 2, CUint, Value (VInt 0))],
     CommandClass (u ''CommissioningComplete'') 48 4 True (Some (u ''CommissioningCompleteResponse'')) False [],
     CommandClass (u ''SetTCAcknowledgements'') 48 6 True (Some (u ''SetTCAcknowledgementsResponse'')) False [(u ''TCVersion'', 0, CUint, Value (VInt 0)),
       (u ''TCUserResponse'', 1, flag_type Globals_map16, Value (VInt 0))],
     CommandClass (u ''ArmFailSafeResponse'') 48 1 False None False [(u ''errorCode'', 0, enum_type GeneralCommissioning_CommissioningErrorEnum, Value (VInt 0)),
       (u ''debugText'', 1, CStr, Value (VStr []))],
     CommandClass (u ''SetRegulatoryConfigResponse'') 48 3 False None False [(u ''errorCode'', 0, enum_type GeneralCommissioning_CommissioningErrorEnum, Value (VInt 0)),
       (u ''debugText'', 1, CStr, Value (VStr []))],
     CommandClass (u ''CommissioningCompleteResponse'') 48 5 False None False [(u ''errorCode'', 0, enum_type GeneralCommissioning_CommissioningErrorEnum, Value (VInt 0)),
       (u ''debugText'', 1, CStr, Value (VStr []))],
     CommandClass (u ''SetTCAcknowledgementsResponse'') 48 7 False None False [(u ''errorCode'', 0, enum_type GeneralCommissioning_CommissioningErrorEnum, Value (VInt 0))]]"

definition GeneralCommissioning_attributes_1 :: "attribute_class list" where
  "GeneralCommissioning_attributes_1 = [
     AttributeClass (u ''Breadcrumb'') 48 0 CUint (Value (VInt 0)),
     AttributeClass (u ''BasicCommissioningInfo'') 48 1 (struct_type GeneralCommissioning_BasicCommissioningInfo) (Instance GeneralCommissioning_BasicCommissioningInfo),
     AttributeClass (u ''RegulatoryConfig'') 48 2 (enum_type GeneralCommissioning_RegulatoryLocationTypeEnum) (Value (VInt 0)),
     AttributeClass (u ''LocationCapability'') 48 3 (enum_type GeneralCommissioning_RegulatoryLocationTypeEnum) (Value (VInt 0)),
     AttributeClass (u ''SupportsConcurrentConnection'') 48 4 CBool (Value (VBool False)),
     AttributeClass (u ''TCAcceptedVersion'') 48 5 (optional CUint) (Value VNone),
     AttributeClass (u ''TCMinRequiredVersion'') 48 6 (optional CUint) (Value VNone),
     AttributeClass (u ''TCAcknowledgements'') 48 7 (optional (flag_type Globals_map16)) (Value VNone),
     AttributeClass (u ''TCAcknowledgementsRequired'') 48 8 (optional CBool) (Value VNone)]"

definition GeneralCommissioning_attributes_2 :: "attribute_class list" where
  "GeneralCommissioning_attributes_2 = [
     AttributeClass (u ''TCUpdateDeadline'') 48 9 (optional_nullable CUint) (Value VNone),
     AttributeClass (u ''RecoveryIdentifier'') 48 10 (optional CBytes) (Value VNone),
     AttributeClass (u ''NetworkRecoveryReason'') 48 11 (optional_nullable (enum_type GeneralCommissioning_NetworkRecoveryReasonEnum)) (Value VNone),
     AttributeClass (u ''IsCommissioningWithoutPower'') 48 12 (optional CBool) (Value VNone),
     AttributeClass (u ''GeneratedCommandList'') 48 65528 (CList CUint) (EmptyList),
     AttributeClass (u ''AcceptedCommandList'') 48 65529 (CList CUint) (EmptyList),
     AttributeClass (u ''AttributeList'') 48 65531 (CList CUint) (EmptyList),
     AttributeClass (u ''FeatureMap'') 48 65532 CUint (Value (VInt 0)),
     AttributeClass (u ''ClusterRevision'') 48 65533 CUint (Value (VInt 0))]"

definition GeneralCommissioning_cluster :: "cluster_def" where
  "GeneralCommissioning_cluster = ClusterDef (u ''GeneralCommissioning'') 48 [
     (u ''breadcrumb'', 0, CUint, Value (VInt 0)),
     (u ''basicCommissioningInfo'', 1, struct_type GeneralCommissioning_BasicCommissioningInfo, Instance GeneralCommissioning_BasicCommissioningInfo),
     (u ''regulatoryConfig'', 2, enum_type GeneralCommissioning_RegulatoryLocationTypeEnum, Value (VInt 0)),
     (u ''locationCapability'', 3, enum_type GeneralCommissioning_RegulatoryLocationTypeEnum, Value (VInt 0)),
     (u ''supportsConcurrentConnection'', 4, CBool, Value (VBool False)),
     (u ''TCAcceptedVersion'', 5, optional CUint, Value VNone),
     (u ''TCMinRequiredVersion'', 6, optional CUint, Value VNone),
     (u ''TCAcknowledgements'', 7, optional (flag_type Globals_map16), Value VNone),
     (u ''TCAcknowledgementsRequired'', 8, optional CBool, Value VNone),
     (u ''TCUpdateDeadline'', 9, optional_nullable CUint, Value VNone),
     (u ''recoveryIdentifier'', 10, optional CBytes, Value VNone),
     (u ''networkRecoveryReason'', 11, optional_nullable (enum_type GeneralCommissioning_NetworkRecoveryReasonEnum), Value VNone),
     (u ''isCommissioningWithoutPower'', 12, optional CBool, Value VNone),
     (u ''generatedCommandList'', 65528, CList CUint, EmptyList),
     (u ''acceptedCommandList'', 65529, CList CUint, EmptyList),
     (u ''attributeList'', 65531, CList CUint, EmptyList),
     (u ''featureMap'', 65532, CUint, Value (VInt 0)),
     (u ''clusterRevision'', 65533, CUint, Value (VInt 0))]
     GeneralCommissioning_commands
     (GeneralCommissioning_attributes_1 @ GeneralCommissioning_attributes_2)
     []"

section \<open>Consistency\<close>

lemma ElectricalEnergyMeasurement_members_ok [simp]: "members_ok ElectricalEnergyMeasurement_EnergyMeasurementStruct"
    "members_ok ElectricalEnergyMeasurement_CumulativeEnergyResetStruct"
  by (simp_all add: class_simps ElectricalEnergyMeasurement_EnergyMeasurementStruct_def
    ElectricalEnergyMeasurement_CumulativeEnergyResetStruct_def del: u_simps)

lemma ElectricalEnergyMeasurement_cluster_ok: "cluster_ok ElectricalEnergyMeasurement_cluster" "cd_id ElectricalEnergyMeasurement_cluster = 145"
  by (simp_all add: class_simps ElectricalEnergyMeasurement_attributes_1_def
    ElectricalEnergyMeasurement_attributes_2_def
    ElectricalEnergyMeasurement_events_def
    ElectricalEnergyMeasurement_cluster_def del: u_simps)

lemma ElectricalGridConditions_members_ok [simp]: "members_ok ElectricalGridConditions_ElectricalGridConditionsStruct"
  by (simp_all add: class_simps ElectricalGridConditions_ElectricalGridConditionsStruct_def del: u_simps)

lemma ElectricalGridConditions_cluster_ok: "cluster_ok ElectricalGridConditions_cluster" "cd_id ElectricalGridConditions_cluster = 160"
  by (simp_all add: class_simps ElectricalGridConditions_attributes_def
    ElectricalGridConditions_events_def
    ElectricalGridConditions_cluster_def del: u_simps)

lemma ElectricalPowerMeasurement_members_ok [simp]: "members_ok ElectricalPowerMeasurement_MeasurementRangeStruct"
    "members_ok ElectricalPowerMeasurement_HarmonicMeasurementStruct"
  by (simp_all add: class_simps ElectricalPowerMeasurement_MeasurementRangeStruct_def
    ElectricalPowerMeasurement_HarmonicMeasurementStruct_def del: u_simps)

lemma ElectricalPowerMeasurement_cluster_ok: "cluster_ok ElectricalPowerMeasurement_cluster" "cd_id ElectricalPowerMeasurement_cluster = 144"
  by (simp_all add: class_simps ElectricalPowerMeasurement_attributes_1_def
    ElectricalPowerMeasurement_attributes_2_def
    ElectricalPowerMeasurement_attributes_3_def
    ElectricalPowerMeasurement_events_def
    ElectricalPowerMeasurement_cluster_def del: u_simps)

lemma EnergyEvse_members_ok [simp]: "members_ok EnergyEvse_ChargingTargetStruct"
    "members_ok EnergyEvse_ChargingTargetScheduleStruct"
  by (simp_all add: class_simps EnergyEvse_ChargingTargetStruct_def
    EnergyEvse_ChargingTargetScheduleStruct_def del: u_simps)

lemma EnergyEvse_cluster_ok: "cluster_ok EnergyEvse_cluster" "cd_id EnergyEvse_cluster = 153"
  by (simp_all add: class_simps EnergyEvse_commands_1_def
    EnergyEvse_commands_2_def
    EnergyEvse_attributes_1_def
    EnergyEvse_attributes_2_def
    EnergyEvse_attributes_3_def
    EnergyEvse_attributes_4_def
    EnergyEvse_events_def
    EnergyEvse_cluster_def del: u_simps)

lemma EnergyEvseMode_members_ok [simp]: "members_ok EnergyEvseMode_ModeTagStruct"
    "members_ok EnergyEvseMode_ModeOptionStruct"
  by (simp_all add: class_simps EnergyEvseMode_ModeTagStruct_def
    EnergyEvseMode_ModeOptionStruct_def del: u_simps)

lemma EnergyEvseMode_cluster_ok: "cluster_ok EnergyEvseMode_cluster" "cd_id EnergyEvseMode_cluster = 157"
  by (simp_all add: class_simps EnergyEvseMode_commands_def
    EnergyEvseMode_attributes_def
    EnergyEvseMode_cluster_def del: u_simps)

lemma EnergyPreference_members_ok [simp]: "members_ok EnergyPreference_BalanceStruct"
  by (simp_all add: class_simps EnergyPreference_BalanceStruct_def del: u_simps)

lemma EnergyPreference_cluster_ok: "cluster_ok EnergyPreference_cluster" "cd_id EnergyPreference_cluster = 155"
  by (simp_all add: class_simps EnergyPreference_attributes_1_def
    EnergyPreference_attributes_2_def
    EnergyPreference_cluster_def del: u_simps)

lemma EthernetNetworkDiagnostics_cluster_ok: "cluster_ok EthernetNetworkDiagnostics_cluster" "cd_id EthernetNetworkDiagnostics_cluster = 55"
  by (simp_all add: class_simps EthernetNetworkDiagnostics_commands_def
    EthernetNetworkDiagnostics_attributes_1_def
    EthernetNetworkDiagnostics_attributes_2_def
    EthernetNetworkDiagnostics_cluster_def del: u_simps)

lemma EveCluster_cluster_ok: "cluster_ok EveCluster_cluster" "cd_id EveCluster_cluster = 319486977"
  by (simp_all add: class_simps EveCluster_attributes_1_def
    EveCluster_attributes_2_def
    EveCluster_attributes_3_def
    EveCluster_cluster_def del: u_simps)

lemma FanControl_cluster_ok: "cluster_ok FanControl_cluster" "cd_id FanControl_cluster = 514"
  by (simp_all add: class_simps FanControl_commands_def
    FanControl_attributes_1_def
    FanControl_attributes_2_def
    FanControl_cluster_def del: u_simps)

lemma FixedLabel_members_ok [simp]: "members_ok FixedLabel_LabelStruct"
  by (simp_all add: class_simps FixedLabel_LabelStruct_def del: u_simps)

lemma FixedLabel_cluster_ok: "cluster_ok FixedLabel_cluster" "cd_id FixedLabel_cluster = 64"
  by (simp_all add: class_simps FixedLabel_attributes_def
    FixedLabel_cluster_def del: u_simps)

lemma FlowMeasurement_cluster_ok: "cluster_ok FlowMeasurement_cluster" "cd_id FlowMeasurement_cluster = 1028"
  by (simp_all add: class_simps FlowMeasurement_attributes_def
    FlowMeasurement_cluster_def del: u_simps)

lemma FormaldehydeConcentrationMeasurement_cluster_ok: "cluster_ok FormaldehydeConcentrationMeasurement_cluster" "cd_id FormaldehydeConcentrationMeasurement_cluster = 1067"
  by (simp_all add: class_simps FormaldehydeConcentrationMeasurement_attributes_1_def
    FormaldehydeConcentrationMeasurement_attributes_2_def
    FormaldehydeConcentrationMeasurement_cluster_def del: u_simps)

lemma GeneralCommissioning_members_ok [simp]: "members_ok GeneralCommissioning_BasicCommissioningInfo"
  by (simp_all add: class_simps GeneralCommissioning_BasicCommissioningInfo_def del: u_simps)

lemma GeneralCommissioning_cluster_ok: "cluster_ok GeneralCommissioning_cluster" "cd_id GeneralCommissioning_cluster = 48"
  by (simp_all add: class_simps GeneralCommissioning_commands_def
    GeneralCommissioning_attributes_1_def
    GeneralCommissioning_attributes_2_def
    GeneralCommissioning_cluster_def del: u_simps)

end
