(* ===== verification/Clusters_GeneralDiagnostics.thy ===== *)
theory Clusters_GeneralDiagnostics
  imports Clusters_Base
begin

text \<open>
  The generated files \<open>GeneralDiagnostics.py\<close> to \<open>JointFabricDatastore.py\<close> of \<open>chip/clusters/cluster_defs/\<close>, in the form of
  \<open>Clusters_Base\<close>.
\<close>

section \<open>GeneralDiagnostics\<close>

definition GeneralDiagnostics_HardwareFaultEnum :: "(pystr \<times> int) list" where
  "GeneralDiagnostics_HardwareFaultEnum = [
     (u ''kUnspecified'', 0),
     (u ''kRadio'', 1),
     (u ''kSensor'', 2),
     (u ''kResettableOverTemp'', 3),
     (u ''kNonResettableOverTemp'', 4),
     (u ''kPowerSource'', 5),
     (u ''kVisualDisplayFault'', 6),
     (u ''kAudioOutputFault'', 7),
     (u ''kUserInterfaceFault'', 8),
     (u ''kNonVolatileMemoryError'', 9),
     (u ''kTamperDetected'', 10),
     (u ''kUnknownEnumValue'', 11)]"

definition GeneralDiagnostics_RadioFaultEnum :: "(pystr \<times> int) list" where
  "GeneralDiagnostics_RadioFaultEnum = [
     (u ''kUnspecified'', 0),
     (u ''kWiFiFault'', 1),
     (u ''kCellularFault'', 2),
     (u ''kThreadFault'', 3),
     (u ''kNFCFault'', 4),
     (u ''kBLEFault'', 5),
     (u ''kEthernetFault'', 6),
     (u ''kUnknownEnumValue'', 7)]"

definition GeneralDiagnostics_NetworkFaultEnum :: "(pystr \<times> int) list" where
  "GeneralDiagnostics_NetworkFaultEnum = [
     (u ''kUnspecified'', 0),
     (u ''kHardwareFailure'', 1),
     (u ''kNetworkJammed'', 2),
     (u ''kConnectionFailed'', 3),
     (u ''kUnknownEnumValue'', 4)]"

definition GeneralDiagnostics_InterfaceTypeEnum :: "(pystr \<times> int) list" where
  "GeneralDiagnostics_InterfaceTypeEnum = [
     (u ''kUnspecified'', 0),
     (u ''kWiFi'', 1),
     (u ''kEthernet'', 2),
     (u ''kCellular'', 3),
     (u ''kThread'', 4),
     (u ''kUnknownEnumValue'', 5)]"

definition GeneralDiagnostics_BootReasonEnum :: "(pystr \<times> int) list" where
  "GeneralDiagnostics_BootReasonEnum = [
     (u ''kUnspecified'', 0),
     (u ''kPowerOnReboot'', 1),
     (u ''kBrownOutReset'', 2),
     (u ''kSoftwareWatchdogReset'', 3),
     (u ''kHardwareWatchdogReset'', 4),
     (u ''kSoftwareUpdateCompleted'', 5),
     (u ''kSoftwareReset'', 6),
     (u ''kUnknownEnumValue'', 7)]"

definition GeneralDiagnostics_Feature :: "(pystr \<times> int) list" where
  "GeneralDiagnostics_Feature = [
     (u ''kDataModelTest'', 1)]"

definition GeneralDiagnostics_NetworkInterface :: "dfield list" where
  "GeneralDiagnostics_NetworkInterface = [
     (u ''name'', 0, CStr, Value (VStr [])),
     (u ''isOperational'', 1, CBool, Value (VBool False)),
     (u ''offPremiseServicesReachableIPv4'', 2, nullable CBool, Value VNull),
     (u ''offPremiseServicesReachableIPv6'', 3, nullable CBool, Value VNull),
     (u ''hardwareAddress'', 4, CBytes, Value (VBytes [])),
     (u ''IPv4Addresses'', 5, CList CBytes, EmptyList),
     (u ''IPv6Addresses'', 6, CList CBytes, EmptyList),
     (u ''type'', 7, enum_type GeneralDiagnostics_InterfaceTypeEnum, Value (VInt 0))]"

definition GeneralDiagnostics_DeviceLoadStruct :: "dfield list" where
  "GeneralDiagnostics_DeviceLoadStruct = [
     (u ''currentSubscriptions'', 0, CUint, Value (VInt 0)),
     (u ''currentSubscriptionsForFabric'', 1, CUint, Value (VInt 0)),
     (u ''totalSubscriptionsEstablished'', 2, CUint, Value (VInt 0)),
     (u ''totalInteractionModelMessagesSent'', 3, CUint, Value (VInt 0)),
     (u ''totalInteractionModelMessagesReceived'', 4, CUint, Value (VInt 0))]"

definition GeneralDiagnostics_commands :: "command_class list" where
  "GeneralDiagnostics_commands = [
     CommandClass (u ''TestEventTrigger'') 51 0 True None False [(u ''enableKey'', 0, CBytes, Value (VBytes [])),
       (u ''eventTrigger'', 1, CUint, Value (VInt 0))],
     CommandClass (u ''TimeSnapshot'') 51 1 True (Some (u ''TimeSnapshotResponse'')) False [],
     CommandClass (u ''PayloadTestRequest'') 51 3 True (Some (u ''PayloadTestResponse'')) False [(u ''enableKey'', 0, CBytes, Value (VBytes [])),
       (u ''value'', 1, CUint, Value (VInt 0)),
       (u ''count'', 2, CUint, Value (VInt 0))],
     CommandClass (u ''TimeSnapshotResponse'') 51 2 False None False [(u ''systemTimeMs'', 0, CUint, Value (VInt 0)),
       (u ''posixTimeMs'', 1, nullable CUint, Value VNull)],
     CommandClass (u ''PayloadTestResponse'') 51 4 False None False [(u ''payload'', 0, CBytes, Value (VBytes []))]]"

definition GeneralDiagnostics_attributes_1 :: "attribute_class list" where
  "GeneralDiagnostics_attributes_1 = [
     AttributeClass (u ''NetworkInterfaces'') 51 0 (CList (struct_type GeneralDiagnostics_NetworkInterface)) (EmptyList),
     AttributeClass (u ''RebootCount'') 51 1 CUint (Value (VInt 0)),
     AttributeClass (u ''UpTime'') 51 2 CUint (Value (VInt 0)),
     AttributeClass (u ''TotalOperationalHours'') 51 3 (optional CUint) (Value VNone),
     AttributeClass (u ''BootReason'') 51 4 (optional (enum_type GeneralDiagnostics_BootReasonEnum)) (Value VNone),
     AttributeClass (u ''ActiveHardwareFaults'') 51 5 (optional (CList (enum_type GeneralDiagnostics_HardwareFaultEnum))) (Value VNone),
     AttributeClass (u ''ActiveRadioFaults'') 51 6 (optional (CList (enum_type GeneralDiagnostics_RadioFaultEnum))) (Value VNone),
     AttributeClass (u ''ActiveNetworkFaults'') 51 7 (optional (CList (enum_type GeneralDiagnostics_NetworkFaultEnum))) (Value VNone),
     AttributeClass (u ''TestEventTriggersEnabled'') 51 8 CBool (Value (VBool False))]"

definition GeneralDiagnostics_attributes_2 :: "attribute_class list" where
  "GeneralDiagnostics_attributes_2 = [
     AttributeClass (u ''DoNotUse'') 51 9 (optional CUint) (Value VNone),
     AttributeClass (u ''DeviceLoadStatus'') 51 10 (optional (struct_type GeneralDiagnostics_DeviceLoadStruct)) (Value VNone),
     AttributeClass (u ''GeneratedCommandList'') 51 65528 (CList CUint) (EmptyList),
     AttributeClass (u ''AcceptedCommandList'') 51 65529 (CList CUint) (EmptyList),
     AttributeClass (u ''AttributeList'') 51 65531 (CList CUint) (EmptyList),
     AttributeClass (u ''FeatureMap'') 51 65532 CUint (Value (VInt 0)),
     AttributeClass (u ''ClusterRevision'') 51 65533 CUint (Value (VInt 0))]"

definition GeneralDiagnostics_events :: "event_class list" where
  "GeneralDiagnostics_events = [
     EventClass (u ''HardwareFaultChange'') 51 0 [(u ''current'', 0, CList (enum_type GeneralDiagnostics_HardwareFaultEnum), EmptyList),
       (u ''previous'', 1, CList (enum_type GeneralDiagnostics_HardwareFaultEnum), EmptyList)],
     EventClass (u ''RadioFaultChange'') 51 1 [(u ''current'', 0, CList (enum_type GeneralDiagnostics_RadioFaultEnum), EmptyList),
       (u ''previous'', 1, CList (enum_type GeneralDiagnostics_RadioFaultEnum), EmptyList)],
     EventClass (u ''NetworkFaultChange'') 51 2 [(u ''current'', 0, CList (enum_type GeneralDiagnostics_NetworkFaultEnum), EmptyList),
       (u ''previous'', 1, CList (enum_type GeneralDiagnostics_NetworkFaultEnum), EmptyList)],
     EventClass (u ''BootReason'') 51 3 [(u ''bootReason'', 0, enum_type GeneralDiagnostics_BootReasonEnum, Value (VInt 0))]]"

definition GeneralDiagnostics_cluster :: "cluster_def" where
  "GeneralDiagnostics_cluster = ClusterDef (u ''GeneralDiagnostics'') 51 [
     (u ''networkInterfaces'', 0, CList (struct_type GeneralDiagnostics_NetworkInterface), EmptyList),
     (u ''rebootCount'', 1, CUint, Value (VInt 0)),
     (u ''upTime'', 2, CUint, Value (VInt 0)),
     (u ''totalOperationalHours'', 3, optional CUint, Value VNone),
     (u ''bootReason'', 4, optional (enum_type GeneralDiagnostics_BootReasonEnum), Value VNone),
     (u ''activeHardwareFaults'', 5, optional (CList (enum_type GeneralDiagnostics_HardwareFaultEnum)), Value VNone),
     (u ''activeRadioFaults'', 6, optional (CList (enum_type GeneralDiagnostics_RadioFaultEnum)), Value VNone),
     (u ''activeNetworkFaults'', 7, optional (CList (enum_type GeneralDiagnostics_NetworkFaultEnum)), Value VNone),
     (u ''testEventTriggersEnabled'', 8, CBool, Value (VBool False)),
     (u ''doNotUse'', 9, optional CUint, Value VNone),
     (u ''deviceLoadStatus'', 10, optional (struct_type GeneralDiagnostics_DeviceLoadStruct), Value VNone),
     (u ''generatedCommandList'', 65528, CList CUint, EmptyList),
     (u ''acceptedCommandList'', 65529, CList CUint, EmptyList),
     (u ''attributeList'', 65531, CList CUint, EmptyList),
     (u ''featureMap'', 65532, CUint, Value (VInt 0)),
     (u ''clusterRevision'', 65533, CUint, Value (VInt 0))]
     GeneralDiagnostics_commands
     (GeneralDiagnostics_attributes_1 @ GeneralDiagnostics_attributes_2)
     GeneralDiagnostics_events"

section \<open>GroupKeyManagement\<close>

definition GroupKeyManagement_GroupKeySecurityPolicyEnum :: "(pystr \<times> int) list" where
  "GroupKeyManagement_GroupKeySecurityPolicyEnum = [
     (u ''kTrustFirst'', 0),
     (u ''kCacheAndSync'', 1),
     (u ''kUnknownEnumValue'', 2)]"

definition GroupKeyManagement_GroupKeyMulticastPolicyEnum :: "(pystr \<times> int) list" where
  "GroupKeyManagement_GroupKeyMulticastPolicyEnum = [
     (u ''kPerGroupID'', 0),
     (u ''kAllNodes'', 1),
     (u ''kUnknownEnumValue'', 2)]"

definition GroupKeyManagement_Feature :: "(pystr \<times> int) list" where
  "GroupKeyManagement_Feature = [
     (u ''kCacheAndSync'', 1),
     (u ''kGroupcast'', 2)]"

definition GroupKeyManagement_GroupKeyMapStruct :: "dfield list" where
  "GroupKeyManagement_GroupKeyMapStruct = [
     (u ''groupID'', 1, CUint, Value (VInt 0)),
     (u ''groupKeySetID'', 2, CUint, Value (VInt 0)),
     (u ''fabricIndex'', 254, CUint, Value (VInt 0))]"

definition GroupKeyManagement_GroupKeySetStruct :: "dfield list" where
  "GroupKeyManagement_GroupKeySetStruct = [
     (u ''groupKeySetID'', 0, CUint, Value (VInt 0)),
     (u ''groupKeySecurityPolicy'', 1, enum_type GroupKeyManagement_GroupKeySecurityPolicyEnum, Value (VInt 0)),
     (u ''epochKey0'', 2, nullable CBytes, Value VNull),
     (u ''epochStartTime0'', 3, nullable CUint, Value VNull),
     (u ''epochKey1'', 4, nullable CBytes, Value VNull),
     (u ''epochStartTime1'', 5, nullable CUint, Value VNull),
     (u ''epochKey2'', 6, nullable CBytes, Value VNull),
     (u ''epochStartTime2'', 7, nullable CUint, Value VNull),
     (u ''groupKeyMulticastPolicy'', 8, optional (enum_type GroupKeyManagement_GroupKeyMulticastPolicyEnum), Value VNone),
     (u ''fabricIndex'', 254, optional CUint, Value VNone)]"

definition GroupKeyManagement_GroupInfoMapStruct :: "dfield list" where
  "GroupKeyManagement_GroupInfoMapStruct = [
     (u ''groupID'', 1, CUint, Value (VInt 0)),
     (u ''endpoints'', 2, CList CUint, EmptyList),
     (u ''groupName'', 3, optional CStr, Value VNone),
     (u ''fabricIndex'', 254, CUint, Value (VInt 0))]"

definition GroupKeyManagement_GroupcastAdoptionStruct :: "dfield list" where
  "GroupKeyManagement_GroupcastAdoptionStruct = [
     (u ''groupcastAdopted'', 0, CBool, Value (VBool False)),
     (u ''fabricIndex'', 254, CUint, Value (VInt 0))]"

definition GroupKeyManagement_commands :: "command_class list" where
  "GroupKeyManagement_commands = [
     CommandClass (u ''KeySetWrite'') 63 0 True None False [(u ''groupKeySet'', 0, struct_type GroupKeyManagement_GroupKeySetStruct, Instance GroupKeyManagement_GroupKeySetStruct)],
     CommandClass (u ''KeySetRead'') 63 1 True (Some (u ''KeySetReadResponse'')) False [(u ''groupKeySetID'', 0, CUint, Value (VInt 0))],
     CommandClass (u ''KeySetRemove'') 63 3 True None False [(u ''groupKeySetID'', 0, CUint, Value (VInt 0))],
     CommandClass (u ''KeySetReadAllIndices'') 63 4 True (Some (u ''KeySetReadAllIndicesResponse'')) False [(u ''doNotUse'', 0, optional CUint, Value VNone)],
     CommandClass (u ''KeySetReadResponse'') 63 2 False None False [(u ''groupKeySet'', 0, struct_type GroupKeyManagement_GroupKeySetStruct, Instance GroupKeyManagement_GroupKeySetStruct)],
     CommandClass (u ''KeySetReadAllIndicesResponse'') 63 5 False None False [(u ''groupKeySetIDs'', 0, CList CUint, EmptyList)]]"

definition GroupKeyManagement_attributes_1 :: "attribute_class list" where
  "GroupKeyManagement_attributes_1 = [
     AttributeClass (u ''GroupKeyMap'') 63 0 (CList (struct_type GroupKeyManagement_GroupKeyMapStruct)) (EmptyList),
     AttributeClass (u ''GroupTable'') 63 1 (CList (struct_type GroupKeyManagement_GroupInfoMapStruct)) (EmptyList),
     AttributeClass (u ''MaxGroupsPerFabric'') 63 2 CUint (Value (VInt 0)),
     AttributeClass (u ''MaxGroupKeysPerFabric'') 63 3 CUint (Value (VInt 0)),
     AttributeClass (u ''GroupcastAdoption'') 63 4 (optional (CList (struct_type GroupKeyManagement_GroupcastAdoptionStruct))) (Value VNone),
     AttributeClass (u ''GeneratedCommandList'') 63 65528 (CList CUint) (EmptyList),
     AttributeClass (u ''AcceptedCommandList'') 63 65529 (CList CUint) (EmptyList),
     AttributeClass (u ''AttributeList'') 63 65531 (CList CUint) (EmptyList),
     AttributeClass (u ''FeatureMap'') 63 65532 CUint (Value (VInt 0))]"

definition GroupKeyManagement_attributes_2 :: "attribute_class list" where
  "GroupKeyManagement_attributes_2 = [
     AttributeClass (u ''ClusterRevision'') 63 65533 CUint (Value (VInt 0))]"

definition GroupKeyManagement_cluster :: "cluster_def" where
  "GroupKeyManagement_cluster = ClusterDef (u ''GroupKeyManagement'') 63 [
     (u ''groupKeyMap'', 0, CList (struct_type GroupKeyManagement_GroupKeyMapStruct), EmptyList),
     (u ''groupTable'', 1, CList (struct_type GroupKeyManagement_GroupInfoMapStruct), EmptyList),
     (u ''maxGroupsPerFabric'', 2, CUint, Value (VInt 0)),
     (u ''maxGroupKeysPerFabric'', 3, CUint, Value (VInt 0)),
     (u ''groupcastAdoption'', 4, optional (CList (struct_type GroupKeyManagement_GroupcastAdoptionStruct)), Value VNone),
     (u ''generatedCommandList'', 65528, CList CUint, EmptyList),
     (u ''acceptedCommandList'', 65529, CList CUint, EmptyList),
     (u ''attributeList'', 65531, CList CUint, EmptyList),
     (u ''featureMap'', 65532, CUint, Value (VInt 0)),
     (u ''clusterRevision'', 65533, CUint, Value (VInt 0))]
     GroupKeyManagement_commands
     (GroupKeyManagement_attributes_1 @ GroupKeyManagement_attributes_2)
     []"

section \<open>Groupcast\<close>

definition Groupcast_MulticastAddrPolicyEnum :: "(pystr \<times> int) list" where
  "Groupcast_MulticastAddrPolicyEnum = [
     (u ''kIanaAddr'', 0),
     (u ''kPerGroup'', 1),
     (u ''kUnknownEnumValue'', 2)]"

definition Groupcast_GroupcastTestingEnum :: "(pystr \<times> int) list" where
  "Groupcast_GroupcastTestingEnum = [
     (u ''kDisableTesting'', 0),
     (u ''kEnableListenerTesting'', 1),
     (u ''kEnableSenderTesting'', 2),
     (u ''kUnknownEnumValue'', 3)]"

definition Groupcast_GroupcastTestResultEnum :: "(pystr \<times> int) list" where
  "Groupcast_GroupcastTestResultEnum = [
     (u ''kSuccess'', 0),
     (u ''kGeneralError'', 1),
     (u ''kMessageReplay'', 2),
     (u ''kFailedAuth'', 3),
     (u ''kNoAvailableKey'', 4),
     (u ''kSendFailure'', 5),
     (u ''kUnknownEnumValue'', 6)]"

definition Groupcast_Feature :: "(pystr \<times> int) list" where
  "Groupcast_Feature = [
     (u ''kListener'', 1),
     (u ''kSender'', 2),
     (u ''kPerGroup'', 4)]"

definition Groupcast_MembershipStruct :: "dfield list" where
  "Groupcast_MembershipStruct = [
     (u ''groupID'', 0, CUint, Value (VInt 0)),
     (u ''endpoints'', 1, optional (CList CUint), Value VNone),
     (u ''keySetID'', 2, CUint, Value (VInt 0)),
     (u ''hasAuxiliaryAcl'', 3, optional CBool, Value VNone),
     (u ''mcastAddrPolicy'', 4, enum_type Groupcast_MulticastAddrPolicyEnum, Value (VInt 0)),
     (u ''fabricIndex'', 254, CUint, Value (VInt 0))]"

definition Groupcast_commands :: "command_class list" where
  "Groupcast_commands = [
     CommandClass (u ''JoinGroup'') 101 0 True None False [(u ''groupID'', 0, CUint, Value (VInt 0)),
       (u ''endpoints'', 1, CList CUint, EmptyList),
       (u ''keySetID'', 2, CUint, Value (VInt 0)),
       (u ''key'', 3, optional CBytes, Value VNone),
       (u ''useAuxiliaryAcl'', 4, optional CBool, Value VNone),
       (u ''replaceEndpoints'', 5, optional CBool, Value VNone),
       (u ''mcastAddrPolicy'', 6, optional (enum_type Groupcast_MulticastAddrPolicyEnum), Value VNone)],
     CommandClass (u ''LeaveGroup'') 101 1 True (Some (u ''LeaveGroupResponse'')) False [(u ''groupID'', 0, CUint, Value (VInt 0)),
       (u ''endpoints'', 1, optional (CList CUint), Value VNone)],
     CommandClass (u ''UpdateGroupKey'') 101 3 True None False [(u ''groupID'', 0, CUint, Value (VInt 0)),
       (u ''keySetID'', 1, CUint, Value (VInt 0)),
       (u ''key'', 2, optional CBytes, Value VNone)],
     CommandClass (u ''ConfigureAuxiliaryAcl'') 101 4 True None False [(u ''groupID'', 0, CUint, Value (VInt 0)),
       (u ''useAuxiliaryAcl'', 1, CBool, Value (VBool False))],
     CommandClass (u ''GroupcastTesting'') 101 5 True None False [(u ''testOperation'', 0, enum_type Groupcast_GroupcastTestingEnum, Value (VInt 0)),
       (u ''durationSeconds'', 1, optional CUint, Value VNone)],
     CommandClass (u ''LeaveGroupResponse'') 101 2 False None False [(u ''groupID'', 0, CUint, Value (VInt 0)),
       (u ''endpoints'', 1, CList CUint, EmptyList)]]"

definition Groupcast_attributes_1 :: "attribute_class list" where
  "Groupcast_attributes_1 = [
     AttributeClass (u ''Membership'') 101 0 (optional (CList (struct_type Groupcast_MembershipStruct))) (Value VNone),
     AttributeClass (u ''MaxMembershipCount'') 101 1 (optional CUint) (Value VNone),
     AttributeClass (u ''MaxMcastAddrCount'') 101 2 (optional CUint) (Value VNone),
     AttributeClass (u ''UsedMcastAddrCount'') 101 3 (optional CUint) (Value VNone),
     AttributeClass (u ''FabricUnderTest'') 101 4 (optional CUint) (Value VNone),
     AttributeClass (u ''GeneratedCommandList'') 101 65528 (CList CUint) (EmptyList),
     AttributeClass (u ''AcceptedCommandList'') 101 65529 (CList CUint) (EmptyList),
     AttributeClass (u ''AttributeList'') 101 65531 (CList CUint) (EmptyList),
     AttributeClass (u ''FeatureMap'') 101 65532 CUint (Value (VInt 0))]"

definition Groupcast_attributes_2 :: "attribute_class list" where
  "Groupcast_attributes_2 = [
     AttributeClass (u ''ClusterRevision'') 101 65533 CUint (Value (VInt 0))]"

definition Groupcast_events :: "event_class list" where
  "Groupcast_events = [
     EventClass (u ''GroupcastTesting'') 101 0 [(u ''sourceIPAddress'', 0, optional CBytes, Value VNone),
       (u ''destinationIPAddress'', 1, optional CBytes, Value VNone),
       (u ''groupID'', 2, optional CUint, Value VNone),
       (u ''endpointID'', 3, optional CUint, Value VNone),
       (u ''clusterID'', 4, optional CUint, Value VNone),
       (u ''elementID'', 5, optional CUint, Value VNone),
       (u ''accessAllowed'', 6, optional CBool, Value VNone),
       (u ''groupcastTestResult'', 7, enum_type Groupcast_GroupcastTestResultEnum, Value (VInt 0)),
       (u ''fabricIndex'', 254, CUint, Value (VInt 0))]]"

definition Groupcast_cluster :: "cluster_def" where
  "Groupcast_cluster = ClusterDef (u ''Groupcast'') 101 [
     (u ''membership'', 0, optional (CList (struct_type Groupcast_MembershipStruct)), Value VNone),
     (u ''maxMembershipCount'', 1, optional CUint, Value VNone),
     (u ''maxMcastAddrCount'', 2, optional CUint, Value VNone),
     (u ''usedMcastAddrCount'', 3, optional CUint, Value VNone),
     (u ''fabricUnderTest'', 4, optional CUint, Value VNone),
     (u ''generatedCommandList'', 65528, CList CUint, EmptyList),
     (u ''acceptedCommandList'', 65529, CList CUint, EmptyList),
     (u ''attributeList'', 65531, CList CUint, EmptyList),
     (u ''featureMap'', 65532, CUint, Value (VInt 0)),
     (u ''clusterRevision'', 65533, CUint, Value (VInt 0))]
     Groupcast_commands
     (Groupcast_attributes_1 @ Groupcast_attributes_2)
     Groupcast_events"

section \<open>Groups\<close>

definition Groups_Feature :: "(pystr \<times> int) list" where
  "Groups_Feature = [
     (u ''kGroupNames'', 1)]"

definition Groups_NameSupportBitmap :: "(pystr \<times> int) list" where
  "Groups_NameSupportBitmap = [
     (u ''kGroupNames'', 128)]"

definition Groups_commands_1 :: "command_class list" where
  "Groups_commands_1 = [
     CommandClass (u ''AddGroup'') 4 0 True (Some (u ''AddGroupResponse'')) False [(u ''groupID'', 0, CUint, Value (VInt 0)),
       (u ''groupName'', 1, CStr, Value (VStr []))],
     CommandClass (u ''ViewGroup'') 4 1 True (Some (u ''ViewGroupResponse'')) False [(u ''groupID'', 0, CUint, Value (VInt 0))],
     CommandClass (u ''GetGroupMembership'') 4 2 True (Some (u ''GetGroupMembershipResponse'')) False [(u ''groupList'', 0, CList CUint, EmptyList)],
     CommandClass (u ''RemoveGroup'') 4 3 True (Some (u ''RemoveGroupResponse'')) False [(u ''groupID'', 0, CUint, Value (VInt 0))],
     CommandClass (u ''RemoveAllGroups'') 4 4 True None False [],
     CommandClass (u ''AddGroupIfIdentifying'') 4 5 True None False [(u ''groupID'', 0, CUint, Value (VInt 0)),
       (u ''groupName'', 1, CStr, Value (VStr []))],
     CommandClass (u ''AddGroupResponse'') 4 0 False None False [(u ''status'', 0, enum_type Globals_status, Value (VInt 0)),
       (u ''groupID'', 1, CUint, Value (VInt 0))],
     CommandClass (u ''ViewGroupResponse'') 4 1 False None False [(u ''status'', 0, enum_type Globals_status, Value (VInt 0)),
       (u ''groupID'', 1, CUint, Value (VInt 0)),
       (u ''groupName'', 2, CStr, Value (VStr []))]]"

definition Groups_commands_2 :: "command_class list" where
  "Groups_commands_2 = [
     CommandClass (u ''GetGroupMembershipResponse'') 4 2 False None False [(u ''capacity'', 0, nullable CUint, Value VNull),
       (u ''groupList'', 1, CList CUint, EmptyList)],
     CommandClass (u ''RemoveGroupResponse'') 4 3 False None False [(u ''status'', 0, enum_type Globals_status, Value (VInt 0)),
       (u ''groupID'', 1, CUint, Value (VInt 0))]]"

definition Groups_attributes :: "attribute_class list" where
  "Groups_attributes = [
     AttributeClass (u ''NameSupport'') 4 0 (flag_type Groups_NameSupportBitmap) (Value (VInt 0)),
     AttributeClass (u ''GeneratedCommandList'') 4 65528 (CList CUint) (EmptyList),
     AttributeClass (u ''AcceptedCommandList'') 4 65529 (CList CUint) (EmptyList),
     AttributeClass (u ''AttributeList'') 4 65531 (CList CUint) (EmptyList),
     AttributeClass (u ''FeatureMap'') 4 65532 CUint (Value (VInt 0)),
     AttributeClass (u ''ClusterRevision'') 4 65533 CUint (Value (VInt 0))]"

definition Groups_cluster :: "cluster_def" where
  "Groups_cluster = ClusterDef (u ''Groups'') 4 [
     (u ''nameSupport'', 0, flag_type Groups_NameSupportBitmap, Value (VInt 0)),
     (u ''generatedCommandList'', 65528, CList CUint, EmptyList),
     (u ''acceptedCommandList'', 65529, CList CUint, EmptyList),
     (u ''attributeList'', 65531, CList CUint, EmptyList),
     (u ''featureMap'', 65532, CUint, Value (VInt 0)),
     (u ''clusterRevision'', 65533, CUint, Value (VInt 0))]
     (Groups_commands_1 @ Groups_commands_2)
     Groups_attributes
     []"

section \<open>HeimanCluster\<close>

definition HeimanCluster_commands :: "command_class list" where
  "HeimanCluster_commands = [
     CommandClass (u ''MutingSensor'') 302775297 0 True None False [(u ''mutingTime'', 0, optional CUint, Value VNone)]]"

definition HeimanCluster_attributes_1 :: "attribute_class list" where
  "HeimanCluster_attributes_1 = [
     AttributeClass (u ''TamperAlarm'') 302775297 16 (optional CUint) (Value VNone),
     AttributeClass (u ''PreheatingState'') 302775297 17 (optional CUint) (Value VNone),
     AttributeClass (u ''NoDisturbingState'') 302775297 18 (optional CUint) (Value VNone),
     AttributeClass (u ''SensorType'') 302775297 19 (optional CUint) (Value VNone),
     AttributeClass (u ''SirenActive'') 302775297 20 (optional CUint) (Value VNone),
     AttributeClass (u ''AlarmMute'') 302775297 21 (optional CUint) (Value VNone),
     AttributeClass (u ''LowPowerMode'') 302775297 22 (optional CUint) (Value VNone),
     AttributeClass (u ''GeneratedCommandList'') 302775297 65528 (CList CUint) (EmptyList),
     AttributeClass (u ''AcceptedCommandList'') 302775297 65529 (CList CUint) (EmptyList)]"

definition HeimanCluster_attributes_2 :: "attribute_class list" where
  "HeimanCluster_attributes_2 = [
     AttributeClass (u ''AttributeList'') 302775297 65531 (CList CUint) (EmptyList),
     AttributeClass (u ''FeatureMap'') 302775297 65532 CUint (Value (VInt 0)),
     AttributeClass (u ''ClusterRevision'') 302775297 65533 CUint (Value (VInt 0))]"

definition HeimanCluster_cluster :: "cluster_def" where
  "HeimanCluster_cluster = ClusterDef (u ''HeimanCluster'') 302775297 [
     (u ''tamperAlarm'', 16, optional CUint, Value VNone),
     (u ''preheatingState'', 17, optional CUint, Value VNone),
     (u ''noDisturbingState'', 18, optional CUint, Value VNone),
     (u ''sensorType'', 19, optional CUint, Value VNone),
     (u ''sirenActive'', 20, optional CUint, Value VNone),
     (u ''alarmMute'', 21, optional CUint, Value VNone),
     (u ''lowPowerMode'', 22, optional CUint, Value VNone),
     (u ''generatedCommandList'', 65528, CList CUint, EmptyList),
     (u ''acceptedCommandList'', 65529, CList CUint, EmptyList),
     (u ''attributeList'', 65531, CList CUint, EmptyList),
     (u ''featureMap'', 65532, CUint, Value (VInt 0)),
     (u ''clusterRevision'', 65533, CUint, Value (VInt 0))]
     HeimanCluster_commands
     (HeimanCluster_attributes_1 @ HeimanCluster_attributes_2)
     []"

section \<open>HepaFilterMonitoring\<close>

definition HepaFilterMonitoring_DegradationDirectionEnum :: "(pystr \<times> int) list" where
  "HepaFilterMonitoring_DegradationDirectionEnum = [
     (u ''kUp'', 0),
     (u ''kDown'', 1),
     (u ''kUnknownEnumValue'', 2)]"

definition HepaFilterMonitoring_ChangeIndicationEnum :: "(pystr \<times> int) list" where
  "HepaFilterMonitoring_ChangeIndicationEnum = [
     (u ''kOk'', 0),
     (u ''kWarning'', 1),
     (u ''kCritical'', 2),
     (u ''kUnknownEnumValue'', 3)]"

definition HepaFilterMonitoring_ProductIdentifierTypeEnum :: "(pystr \<times> int) list" where
  "HepaFilterMonitoring_ProductIdentifierTypeEnum = [
     (u ''kUpc'', 0),
     (u ''kGtin8'', 1),
     (u ''kEan'', 2),
     (u ''kGtin14'', 3),
     (u ''kOem'', 4),
     (u ''kUnknownEnumValue'', 5)]"

definition HepaFilterMonitoring_Feature :: "(pystr \<times> int) list" where
  "HepaFilterMonitoring_Feature = [
     (u ''kCondition'', 1),
     (u ''kWarning'', 2),
     (u ''kReplacementProductList'', 4)]"

definition HepaFilterMonitoring_ReplacementProductStruct :: "dfield list" where
  "HepaFilterMonitoring_ReplacementProductStruct = [
     (u ''productIdentifierType'', 0, enum_type HepaFilterMonitoring_ProductIdentifierTypeEnum, Value (VInt 0)),
     (u ''productIdentifierValue'', 1, CStr, Value (VStr []))]"

definition HepaFilterMonitoring_commands :: "command_class list" where
  "HepaFilterMonitoring_commands = [
     CommandClass (u ''ResetCondition'') 113 0 True None False []]"

definition HepaFilterMonitoring_attributes_1 :: "attribute_class list" where
  "HepaFilterMonitoring_attributes_1 = [
     AttributeClass (u ''Condition'') 113 0 (optional CUint) (Value VNone),
     AttributeClass (u ''DegradationDirection'') 113 1 (optional (enum_type HepaFilterMonitoring_DegradationDirectionEnum)) (Value VNone),
     AttributeClass (u ''ChangeIndication'') 113 2 (enum_type HepaFilterMonitoring_ChangeIndicationEnum) (Value (VInt 0)),
     AttributeClass (u ''InPlaceIndicator'') 113 3 (optional CBool) (Value VNone),
     AttributeClass (u ''LastChangedTime'') 113 4 (optional_nullable CUint) (Value VNone),
     AttributeClass (u ''ReplacementProductList'') 113 5 (optional (CList (struct_type HepaFilterMonitoring_ReplacementProductStruct))) (Value VNone),
     AttributeClass (u ''GeneratedCommandList'') 113 65528 (CList CUint) (EmptyList),
     AttributeClass (u ''AcceptedCommandList'') 113 65529 (CList CUint) (EmptyList),
     AttributeClass (u ''AttributeList'') 113 65531 (CList CUint) (EmptyList)]"

definition HepaFilterMonitoring_attributes_2 :: "attribute_class list" where
  "HepaFilterMonitoring_attributes_2 = [
     AttributeClass (u ''FeatureMap'') 113 65532 CUint (Value (VInt 0)),
     AttributeClass (u ''ClusterRevision'') 113 65533 CUint (Value (VInt 0))]"

definition HepaFilterMonitoring_cluster :: "cluster_def" where
  "HepaFilterMonitoring_cluster = ClusterDef (u ''HepaFilterMonitoring'') 113 [
     (u ''condition'', 0, optional CUint, Value VNone),
     (u ''degradationDirection'', 1, optional (enum_type HepaFilterMonitoring_DegradationDirectionEnum), Value VNone),
     (u ''changeIndication'', 2, enum_type HepaFilterMonitoring_ChangeIndicationEnum, Value (VInt 0)),
     (u ''inPlaceIndicator'', 3, optional CBool, Value VNone),
     (u ''lastChangedTime'', 4, optional_nullable CUint, Value VNone),
     (u ''replacementProductList'', 5, optional (CList (struct_type HepaFilterMonitoring_ReplacementProductStruct)), Value VNone),
     (u ''generatedCommandList'', 65528, CList CUint, EmptyList),
     (u ''acceptedCommandList'', 65529, CList CUint, EmptyList),
     (u ''attributeList'', 65531, CList CUint, EmptyList),
     (u ''featureMap'', 65532, CUint, Value (VInt 0)),
     (u ''clusterRevision'', 65533, CUint, Value (VInt 0))]
     HepaFilterMonitoring_commands
     (HepaFilterMonitoring_attributes_1 @ HepaFilterMonitoring_attributes_2)
     []"

section \<open>IcdManagement\<close>

definition IcdManagement_ClientTypeEnum :: "(pystr \<times> int) list" where
  "IcdManagement_ClientTypeEnum = [
     (u ''kPermanent'', 0),
     (u ''kEphemeral'', 1),
     (u ''kUnknownEnumValue'', 2)]"

definition IcdManagement_OperatingModeEnum :: "(pystr \<times> int) list" where
  "IcdManagement_OperatingModeEnum = [
     (u ''kSit'', 0),
     (u ''kLit'', 1),
     (u ''kUnknownEnumValue'', 2)]"

definition IcdManagement_Feature :: "(pystr \<times> int) list" where
  "IcdManagement_Feature = [
     (u ''kCheckInProtocolSupport'', 1),
     (u ''kUserActiveModeTrigger'', 2),
     (u ''kLongIdleTimeSupport'', 4),
     (u ''kDynamicSitLitSupport'', 8)]"

definition IcdManagement_UserActiveModeTriggerBitmap :: "(pystr \<times> int) list" where
  "IcdManagement_UserActiveModeTriggerBitmap = [
     (u ''kPowerCycle'', 1),
     (u ''kSettingsMenu'', 2),
     (u ''kCustomInstruction'', 4),
     (u ''kDeviceManual'', 8),
     (u ''kActuateSensor'', 16),
     (u ''kActuateSensorSeconds'', 32),
     (u ''kActuateSensorTimes'', 64),
     (u ''kActuateSensorLightsBlink'', 128),
     (u ''kResetButton'', 256),
     (u ''kResetButtonLightsBlink'', 512),
     (u ''kResetButtonSeconds'', 1024),
     (u ''kResetButtonTimes'', 2048),
     (u ''kSetupButton'', 4096),
     (u ''kSetupButtonSeconds'', 8192),
     (u ''kSetupButtonLightsBlink'', 16384),
     (u ''kSetupButtonTimes'', 32768),
     (u ''kAppDefinedButton'', 65536)]"

definition IcdManagement_MonitoringRegistrationStruct :: "dfield list" where
  "IcdManagement_MonitoringRegistrationStruct = [
     (u ''checkInNodeID'', 1, CUint, Value (VInt 0)),
     (u ''monitoredSubject'', 2, CUint, Value (VInt 0)),
     (u ''key'', 3, optional CUint, Value VNone),
     (u ''clientType'', 4, enum_type IcdManagement_ClientTypeEnum, Value (VInt 0)),
     (u ''fabricIndex'', 254, CUint, Value (VInt 0))]"

definition IcdManagement_commands :: "command_class list" where
  "IcdManagement_commands = [
     CommandClass (u ''RegisterClient'') 70 0 True (Some (u ''RegisterClientResponse'')) False [(u ''checkInNodeID'', 0, CUint, Value (VInt 0)),
       (u ''monitoredSubject'', 1, CUint, Value (VInt 0)),
       (u ''key'', 2, CBytes, Value (VBytes [])),
       (u ''verificationKey'', 3, optional CBytes, Value VNone),
       (u ''clientType'', 4, enum_type IcdManagement_ClientTypeEnum, Value (VInt 0))],
     CommandClass (u ''UnregisterClient'') 70 2 True None False [(u ''checkInNodeID'', 0, CUint, Value (VInt 0)),
       (u ''verificationKey'', 1, optional CBytes, Value VNone)],
     CommandClass (u ''StayActiveRequest'') 70 3 True (Some (u ''StayActiveResponse'')) False [(u ''stayActiveDuration'', 0, CUint, Value (VInt 0))],
     CommandClass (u ''RegisterClientResponse'') 70 1 False None False [(u ''ICDCounter'', 0, CUint, Value (VInt 0))],
     CommandClass (u ''StayActiveResponse'') 70 4 False None False [(u ''promisedActiveDuration'', 0, CUint, Value (VInt 0))]]"

definition IcdManagement_attributes_1 :: "attribute_class list" where
  "IcdManagement_attributes_1 = [
     AttributeClass (u ''IdleModeDuration'') 70 0 CUint (Value (VInt 0)),
     AttributeClass (u ''ActiveModeDuration'') 70 1 CUint (Value (VInt 0)),
     AttributeClass (u ''ActiveModeThreshold'') 70 2 CUint (Value (VInt 0)),
     AttributeClass (u ''RegisteredClients'') 70 3 (optional (CList (struct_type IcdManagement_MonitoringRegistrationStruct))) (Value VNone),
     AttributeClass (u ''ICDCounter'') 70 4 (optional CUint) (Value VNone),
     AttributeClass (u ''ClientsSupportedPerFabric'') 70 5 (optional CUint) (Value VNone),
     AttributeClass (u ''UserActiveModeTriggerHint'') 70 6 (optional (flag_type IcdManagement_UserActiveModeTriggerBitmap)) (Value VNone),
     AttributeClass (u ''UserActiveModeTriggerInstruction'') 70 7 (optional CStr) (Value VNone),
     AttributeClass (u ''OperatingMode'') 70 8 (optional (enum_type IcdManagement_OperatingModeEnum)) (Value VNone)]"

definition IcdManagement_attributes_2 :: "attribute_class list" where
  "IcdManagement_attributes_2 = [
     AttributeClass (u ''MaximumCheckInBackOff'') 70 9 (optional CUint) (Value VNone),
     AttributeClass (u ''GeneratedCommandList'') 70 65528 (CList CUint) (EmptyList),
     AttributeClass (u ''AcceptedCommandList'') 70 65529 (CList CUint) (EmptyList),
     AttributeClass (u ''AttributeList'') 70 65531 (CList CUint) (EmptyList),
     AttributeClass (u ''FeatureMap'') 70 65532 CUint (Value (VInt 0)),
     AttributeClass (u ''ClusterRevision'') 70 65533 CUint (Value (VInt 0))]"

definition IcdManagement_cluster :: "cluster_def" where
  "IcdManagement_cluster = ClusterDef (u ''IcdManagement'') 70 [
     (u ''idleModeDuration'', 0, CUint, Value (VInt 0)),
     (u ''activeModeDuration'', 1, CUint, Value (VInt 0)),
     (u ''activeModeThreshold'', 2, CUint, Value (VInt 0)),
     (u ''registeredClients'', 3, optional (CList (struct_type IcdManagement_MonitoringRegistrationStruct)), Value VNone),
     (u ''ICDCounter'', 4, optional CUint, Value VNone),
     (u ''clientsSupportedPerFabric'', 5, optional CUint, Value VNone),
     (u ''userActiveModeTriggerHint'', 6, optional (flag_type IcdManagement_UserActiveModeTriggerBitmap), Value VNone),
     (u ''userActiveModeTriggerInstruction'', 7, optional CStr, Value VNone),
     (u ''operatingMode'', 8, optional (enum_type IcdManagement_OperatingModeEnum), Value VNone),
     (u ''maximumCheckInBackoff'', 9, optional CUint, Value VNone),
     (u ''generatedCommandList'', 65528, CList CUint, EmptyList),
     (u ''acceptedCommandList'', 65529, CList CUint, EmptyList),
     (u ''attributeList'', 65531, CList CUint, EmptyList),
     (u ''featureMap'', 65532, CUint, Value (VInt 0)),
     (u ''clusterRevision'', 65533, CUint, Value (VInt 0))]
     IcdManagement_commands
     (IcdManagement_attributes_1 @ IcdManagement_attributes_2)
     []"

section \<open>Identify\<close>

definition Identify_IdentifyTypeEnum :: "(pystr \<times> int) list" where
  "Identify_IdentifyTypeEnum = [
     (u ''kNone'', 0),
     (u ''kLightOutput'', 1),
     (u ''kVisibleIndicator'', 2),
     (u ''kAudibleBeep'', 3),
     (u ''kDisplay'', 4),
     (u ''kActuator'', 5),
     (u ''kUnknownEnumValue'', 6)]"

definition Identify_EffectIdentifierEnum :: "(pystr \<times> int) list" where
  "Identify_EffectIdentifierEnum = [
     (u ''kBlink'', 0),
     (u ''kBreathe'', 1),
     (u ''kOkay'', 2),
     (u ''kChannelChange'', 11),
     (u ''kFinishEffect'', 254),
     (u ''kStopEffect'', 255),
     (u ''kUnknownEnumValue'', 256)]"

definition Identify_EffectVariantEnum :: "(pystr \<times> int) list" where
  "Identify_EffectVariantEnum = [
     (u ''kDefault'', 0),
     (u ''kUnknownEnumValue'', 1)]"

definition Identify_commands :: "command_class list" where
  "Identify_commands = [
     CommandClass (u ''Identify'') 3 0 True None False [(u ''identifyTime'', 0, CUint, Value (VInt 0))],
     CommandClass (u ''TriggerEffect'') 3 64 True None False [(u ''effectIdentifier'', 0, enum_type Identify_EffectIdentifierEnum, Value (VInt 0)),
       (u ''effectVariant'', 1, enum_type Identify_EffectVariantEnum, Value (VInt 0))]]"

definition Identify_attributes :: "attribute_class list" where
  "Identify_attributes = [
     AttributeClass (u ''IdentifyTime'') 3 0 CUint (Value (VInt 0)),
     AttributeClass (u ''IdentifyType'') 3 1 (enum_type Identify_IdentifyTypeEnum) (Value (VInt 0)),
     AttributeClass (u ''GeneratedCommandList'') 3 65528 (CList CUint) (EmptyList),
     AttributeClass (u ''AcceptedCommandList'') 3 65529 (CList CUint) (EmptyList),
     AttributeClass (u ''AttributeList'') 3 65531 (CList CUint) (EmptyList),
     AttributeClass (u ''FeatureMap'') 3 65532 CUint (Value (VInt 0)),
     AttributeClass (u ''ClusterRevision'') 3 65533 CUint (Value (VInt 0))]"

definition Identify_cluster :: "cluster_def" where
  "Identify_cluster = ClusterDef (u ''Identify'') 3 [
     (u ''identifyTime'', 0, CUint, Value (VInt 0)),
     (u ''identifyType'', 1, enum_type Identify_IdentifyTypeEnum, Value (VInt 0)),
     (u ''generatedCommandList'', 65528, CList CUint, EmptyList),
     (u ''acceptedCommandList'', 65529, CList CUint, EmptyList),
     (u ''attributeList'', 65531, CList CUint, EmptyList),
     (u ''featureMap'', 65532, CUint, Value (VInt 0)),
     (u ''clusterRevision'', 65533, CUint, Value (VInt 0))]
     Identify_commands
     Identify_attributes
     []"

section \<open>IlluminanceMeasurement\<close>

definition IlluminanceMeasurement_LightSensorTypeEnum :: "(pystr \<times> int) list" where
  "IlluminanceMeasurement_LightSensorTypeEnum = [
     (u ''kPhotodiode'', 0),
     (u ''kCmos'', 1),
     (u ''kUnknownEnumValue'', 2)]"

definition IlluminanceMeasurement_attributes_1 :: "attribute_class list" where
  "IlluminanceMeasurement_attributes_1 = [
     AttributeClass (u ''MeasuredValue'') 1024 0 (nullable CUint) (Value VNull),
     AttributeClass (u ''MinMeasuredValue'') 1024 1 (nullable CUint) (Value VNull),
     AttributeClass (u ''MaxMeasuredValue'') 1024 2 (nullable CUint) (Value VNull),
     AttributeClass (u ''Tolerance'') 1024 3 (optional CUint) (Value VNone),
     AttributeClass (u ''LightSensorType'') 1024 4 (optional_nullable CUint) (Value VNone),
     AttributeClass (u ''GeneratedCommandList'') 1024 65528 (CList CUint) (EmptyList),
     AttributeClass (u ''AcceptedCommandList'') 1024 65529 (CList CUint) (EmptyList),
     AttributeClass (u ''AttributeList'') 1024 65531 (CList CUint) (EmptyList),
     AttributeClass (u ''FeatureMap'') 1024 65532 CUint (Value (VInt 0))]"

definition IlluminanceMeasurement_attributes_2 :: "attribute_class list" where
  "IlluminanceMeasurement_attributes_2 = [
     AttributeClass (u ''ClusterRevision'') 1024 65533 CUint (Value (VInt 0))]"

definition IlluminanceMeasurement_cluster :: "cluster_def" where
  "IlluminanceMeasurement_cluster = ClusterDef (u ''IlluminanceMeasurement'') 1024 [
     (u ''measuredValue'', 0, nullable CUint, Value VNull),
     (u ''minMeasuredValue'', 1, nullable CUint, Value VNull),
     (u ''maxMeasuredValue'', 2, nullable CUint, Value VNull),
     (u ''tolerance'', 3, optional CUint, Value VNone),
     (u ''lightSensorType'', 4, optional_nullable CUint, Value VNone),
     (u ''generatedCommandList'', 65528, CList CUint, EmptyList),
     (u ''acceptedCommandList'', 65529, CList CUint, EmptyList),
     (u ''attributeList'', 65531, CList CUint, EmptyList),
     (u ''featureMap'', 65532, CUint, Value (VInt 0)),
     (u ''clusterRevision'', 65533, CUint, Value (VInt 0))]
     []
     (IlluminanceMeasurement_attributes_1 @ IlluminanceMeasurement_attributes_2)
     []"

section \<open>InovelliCluster\<close>

definition InovelliCluster_attributes :: "attribute_class list" where
  "InovelliCluster_attributes = [
     AttributeClass (u ''LEDIndicatorIntensityOn'') 305134641 305070177 (optional CUint) (Value VNone),
     AttributeClass (u ''LEDIndicatorIntensityOff'') 305134641 305070178 (optional CUint) (Value VNone),
     AttributeClass (u ''ClearNotificationWithConfigDoubleTap'') 305134641 305070342 (optional CBool) (Value VNone),
     AttributeClass (u ''GeneratedCommandList'') 305134641 65528 (CList CUint) (EmptyList),
     AttributeClass (u ''AcceptedCommandList'') 305134641 65529 (CList CUint) (EmptyList),
     AttributeClass (u ''AttributeList'') 305134641 65531 (CList CUint) (EmptyList),
     AttributeClass (u ''FeatureMap'') 305134641 65532 CUint (Value (VInt 0)),
     AttributeClass (u ''ClusterRevision'') 305134641 65533 CUint (Value (VInt 0))]"

definition InovelliCluster_cluster :: "cluster_def" where
  "InovelliCluster_cluster = ClusterDef (u ''InovelliCluster'') 305134641 [
     (u ''ledIndicatorIntensityOn'', 305070177, optional CUint, Value VNone),
     (u ''ledIndicatorIntensityOff'', 305070178, optional CUint, Value VNone),
     (u ''clearNotificationWithConfigDoubleTap'', 305070342, optional CBool, Value VNone),
     (u ''generatedCommandList'', 65528, CList CUint, EmptyList),
     (u ''acceptedCommandList'', 65529, CList CUint, EmptyList),
     (u ''attributeList'', 65531, CList CUint, EmptyList),
     (u ''featureMap'', 65532, CUint, Value (VInt 0)),
     (u ''clusterRevision'', 65533, CUint, Value (VInt 0))]
     []
     InovelliCluster_attributes
     []"

section \<open>JointFabricAdministrator\<close>

definition JointFabricAdministrator_ICACResponseStatusEnum :: "(pystr \<times> int) list" where
  "JointFabricAdministrator_ICACResponseStatusEnum = [
     (u ''kOk'', 0),
     (u ''kInvalidPublicKey'', 1),
     (u ''kInvalidICAC'', 2),
     (u ''kUnknownEnumValue'', 3)]"

definition JointFabricAdministrator_TransferAnchorResponseStatusEnum :: "(pystr \<times> int) list" where
  "JointFabricAdministrator_TransferAnchorResponseStatusEnum = [
     (u ''kOk'', 0),
     (u ''kTransferAnchorStatusDatastoreBusy'', 1),
     (u ''kTransferAnchorStatusNoUserConsent'', 2),
     (u ''kUnknownEnumValue'', 3)]"

definition JointFabricAdministrator_ICACCSRResponseStatusCodeEnum :: "(pystr \<times> int) list" where
  "JointFabricAdministrator_ICACCSRResponseStatusCodeEnum = [
     (u ''kOk'', 0),
     (u ''kBusy'', 1),
     (u ''kPAKEParameterError'', 2),
     (u ''kWindowNotOpen'', 3),
     (u ''kVIDNotVerified'', 4),
     (u ''kInvalidAdministratorFabricIndex'', 5),
     (u ''kUnknownEnumValue'', 6)]"

definition JointFabricAdministrator_commands :: "command_class list" where
  "JointFabricAdministrator_commands = [
     CommandClass (u ''ICACCSRRequest'') 1875 0 True (Some (u ''ICACCSRResponse'')) False [],
     CommandClass (u ''AddICAC'') 1875 2 True (Some (u ''ICACResponse'')) False [(u ''ICACValue'', 0, CBytes, Value (VBytes []))],
     CommandClass (u ''OpenJointCommissioningWindow'') 1875 4 True None False [(u ''commissioningTimeout'', 0, CUint, Value (VInt 0)),
       (u ''PAKEPasscodeVerifier'', 1, CBytes, Value (VBytes [])),
       (u ''discriminator'', 2, CUint, Value (VInt 0)),
       (u ''iterations'', 3, CUint, Value (VInt 0)),
       (u ''salt'', 4, CBytes, Value (VBytes []))],
     CommandClass (u ''TransferAnchorRequest'') 1875 5 True (Some (u ''TransferAnchorResponse'')) False [],
     CommandClass (u ''TransferAnchorComplete'') 1875 7 True None False [],
     CommandClass (u ''AnnounceJointFabricAdministrator'') 1875 8 True None False [(u ''endpointID'', 0, CUint, Value (VInt 0))],
     CommandClass (u ''ICACCSRResponse'') 1875 1 False None False [(u ''statusCode'', 0, enum_type JointFabricAdministrator_ICACCSRResponseStatusCodeEnum, Value (VInt 0)),
       (u ''icaccsr'', 1, optional CBytes, Value VNone)],
     CommandClass (u ''ICACResponse'') 1875 3 False None False [(u ''statusCode'', 0, enum_type JointFabricAdministrator_ICACResponseStatusEnum, Value (VInt 0))],
     CommandClass (u ''TransferAnchorResponse'') 1875 6 False None False [(u ''statusCode'', 0, enum_type JointFabricAdministrator_TransferAnchorResponseStatusEnum, Value (VInt 0))]]"

definition JointFabricAdministrator_attributes :: "attribute_class list" where
  "JointFabricAdministrator_attributes = [
     AttributeClass (u ''AdministratorFabricIndex'') 1875 0 (nullable CUint) (Value VNull),
     AttributeClass (u ''GeneratedCommandList'') 1875 65528 (CList CUint) (EmptyList),
     AttributeClass (u ''AcceptedCommandList'') 1875 65529 (CList CUint) (EmptyList),
     AttributeClass (u ''AttributeList'') 1875 65531 (CList CUint) (EmptyList),
     AttributeClass (u ''FeatureMap'') 1875 65532 CUint (Value (VInt 0)),
     AttributeClass (u ''ClusterRevision'') 1875 65533 CUint (Value (VInt 0))]"

definition JointFabricAdministrator_cluster :: "cluster_def" where
  "JointFabricAdministrator_cluster = ClusterDef (u ''JointFabricAdministrator'') 1875 [
     (u ''administratorFabricIndex'', 0, nullable CUint, Value VNull),
     (u ''generatedCommandList'', 65528, CList CUint, EmptyList),
     (u ''acceptedCommandList'', 65529, CList CUint, EmptyList),
     (u ''attributeList'', 65531, CList CUint, EmptyList),
     (u ''featureMap'', 65532, CUint, Value (VInt 0)),
     (u ''clusterRevision'', 65533, CUint, Value (VInt 0))]
     JointFabricAdministrator_commands
     JointFabricAdministrator_attributes
     []"

section \<open>JointFabricDatastore\<close>

definition JointFabricDatastore_DatastoreStateEnum :: "(pystr \<times> int) list" where
  "JointFabricDatastore_DatastoreStateEnum = [
     (u ''kPending'', 0),
     (u ''kCommitted'', 1),
     (u ''kDeletePending'', 2),
     (u ''kCommitFailed'', 3),
     (u ''kUnknownEnumValue'', 4)]"

definition JointFabricDatastore_DatastoreAccessControlEntryPrivilegeEnum :: "(pystr \<times> int) list" where
  "JointFabricDatastore_DatastoreAccessControlEntryPrivilegeEnum = [
     (u ''kView'', 1),
     (u ''kOperate'', 3),
     (u ''kManage'', 4),
     (u ''kAdminister'', 5),
     (u ''kUnknownEnumValue'', 6)]"

definition JointFabricDatastore_DatastoreAccessControlEntryAuthModeEnum :: "(pystr \<times> int) list" where
  "JointFabricDatastore_DatastoreAccessControlEntryAuthModeEnum = [
     (u ''kPase'', 1),
     (u ''kCase'', 2),
     (u ''kGroup'', 3),
     (u ''kUnknownEnumValue'', 4)]"

definition JointFabricDatastore_DatastoreGroupKeySecurityPolicyEnum :: "(pystr \<times> int) list" where
  "JointFabricDatastore_DatastoreGroupKeySecurityPolicyEnum = [
     (u ''kTrustFirst'', 0),
     (u ''kUnknownEnumValue'', 1)]"

definition JointFabricDatastore_DatastoreGroupKeyMulticastPolicyEnum :: "(pystr \<times> int) list" where
  "JointFabricDatastore_DatastoreGroupKeyMulticastPolicyEnum = [
     (u ''kPerGroupID'', 0),
     (u ''kAllNodes'', 1),
     (u ''kUnknownEnumValue'', 2)]"

definition JointFabricDatastore_DatastoreStatusEntryStruct :: "dfield list" where
  "JointFabricDatastore_DatastoreStatusEntryStruct = [
     (u ''state'', 0, enum_type JointFabricDatastore_DatastoreStateEnum, Value (VInt 0)),
     (u ''updateTimestamp'', 1, CUint, Value (VInt 0)),
     (u ''failureCode'', 2, enum_type Globals_status, Value (VInt 0))]"

definition JointFabricDatastore_DatastoreNodeKeySetEntryStruct :: "dfield list" where
  "JointFabricDatastore_DatastoreNodeKeySetEntryStruct = [
     (u ''nodeID'', 0, CUint, Value (VInt 0)),
     (u ''groupKeySetID'', 1, CUint, Value (VInt 0)),
     (u ''statusEntry'', 2, struct_type JointFabricDatastore_DatastoreStatusEntryStruct, Instance JointFabricDatastore_DatastoreStatusEntryStruct)]"

definition JointFabricDatastore_DatastoreGroupInformationEntryStruct :: "dfield list" where
  "JointFabricDatastore_DatastoreGroupInformationEntryStruct = [
     (u ''groupID'', 0, CUint, Value (VInt 0)),
     (u ''friendlyName'', 1, CStr, Value (VStr [])),
     (u ''groupKeySetID'', 2, nullable CUint, Value VNull),
     (u ''groupCat'', 3, nullable CUint, Value VNull),
     (u ''groupCatVersion'', 4, nullable CUint, Value VNull),
     (u ''groupPermission'', 5, enum_type JointFabricDatastore_DatastoreAccessControlEntryPrivilegeEnum, Value (VInt 0))]"

definition JointFabricDatastore_DatastoreBindingTargetStruct :: "dfield list" where
  "JointFabricDatastore_DatastoreBindingTargetStruct = [
     (u ''node'', 1, optional CUint, Value VNone),
     (u ''group'', 2, optional CUint, Value VNone),
     (u ''endpoint'', 3, optional CUint, Value VNone),
     (u ''cluster'', 4, optional CUint, Value VNone)]"

definition JointFabricDatastore_DatastoreEndpointBindingEntryStruct :: "dfield list" where
  "JointFabricDatastore_DatastoreEndpointBindingEntryStruct = [
     (u ''nodeID'', 0, CUint, Value (VInt 0)),
     (u ''endpointID'', 1, CUint, Value (VInt 0)),
     (u ''listID'', 2, CUint, Value (VInt 0)),
     (u ''binding'', 3, struct_type JointFabricDatastore_DatastoreBindingTargetStruct, Instance JointFabricDatastore_DatastoreBindingTargetStruct),
     (u ''statusEntry'', 4, struct_type JointFabricDatastore_DatastoreStatusEntryStruct, Instance JointFabricDatastore_DatastoreStatusEntryStruct)]"

definition JointFabricDatastore_DatastoreEndpointGroupIDEntryStruct :: "dfield list" where
  "JointFabricDatastore_DatastoreEndpointGroupIDEntryStruct = [
     (u ''nodeID'', 0, CUint, Value (VInt 0)),
     (u ''endpointID'', 1, CUint, Value (VInt 0)),
     (u ''groupID'', 2, CUint, Value (VInt 0)),
     (u ''statusEntry'', 3, struct_type JointFabricDatastore_DatastoreStatusEntryStruct, Instance JointFabricDatastore_DatastoreStatusEntryStruct)]"

definition JointFabricDatastore_DatastoreEndpointEntryStruct :: "dfield list" where
  "JointFabricDatastore_DatastoreEndpointEntryStruct = [
     (u ''endpointID'', 0, CUint, Value (VInt 0)),
     (u ''nodeID'', 1, CUint, Value (VInt 0)),
     (u ''friendlyName'', 2, CStr, Value (VStr []))]"

definition JointFabricDatastore_DatastoreAccessControlTargetStruct :: "dfield list" where
  "JointFabricDatastore_DatastoreAccessControlTargetStruct = [
     (u ''cluster'', 0, nullable CUint, Value VNull),
     (u ''endpoint'', 1, nullable CUint, Value VNull),
     (u ''deviceType'', 2, nullable CUint, Value VNull)]"

definition JointFabricDatastore_DatastoreAccessControlEntryStruct :: "dfield list" where
  "JointFabricDatastore_DatastoreAccessControlEntryStruct = [
     (u ''privilege'', 1, enum_type JointFabricDatastore_DatastoreAccessControlEntryPrivilegeEnum, Value (VInt 0)),
     (u ''authMode'', 2, enum_type JointFabricDatastore_DatastoreAccessControlEntryAuthModeEnum, Value (VInt 0)),
     (u ''subjects'', 3, nullable (CList CUint), Value VNull),
     (u ''targets'', 4, nullable (CList (struct_type JointFabricDatastore_DatastoreAccessControlTargetStruct)), Value VNull)]"

definition JointFabricDatastore_DatastoreACLEntryStruct :: "dfield list" where
  "JointFabricDatastore_DatastoreACLEntryStruct = [
     (u ''nodeID'', 0, CUint, Value (VInt 0)),
     (u ''listID'', 1, CUint, Value (VInt 0)),
     (u ''aclEntry'', 2, struct_type JointFabricDatastore_DatastoreAccessControlEntryStruct, Instance JointFabricDatastore_DatastoreAccessControlEntryStruct),
     (u ''statusEntry'', 3, struct_type JointFabricDatastore_DatastoreStatusEntryStruct, Instance JointFabricDatastore_DatastoreStatusEntryStruct)]"

definition JointFabricDatastore_DatastoreNodeInformationEntryStruct :: "dfield list" where
  "JointFabricDatastore_DatastoreNodeInformationEntryStruct = [
     (u ''nodeID'', 0, CUint, Value (VInt 0)),
     (u ''friendlyName'', 1, CStr, Value (VStr [])),
     (u ''commissioningStatusEntry'', 2, struct_type JointFabricDatastore_DatastoreStatusEntryStruct, Instance JointFabricDatastore_DatastoreStatusEntryStruct)]"

definition JointFabricDatastore_DatastoreAdministratorInformationEntryStruct :: "dfield list" where
  "JointFabricDatastore_DatastoreAdministratorInformationEntryStruct = [
     (u ''nodeID'', 0, CUint, Value (VInt 0)),
     (u ''friendlyName'', 1, CStr, Value (VStr [])),
     (u ''vendorID'', 2, CUint, Value (VInt 0)),
     (u ''icac'', 3, CBytes, Value (VBytes []))]"

definition JointFabricDatastore_DatastoreGroupKeySetStruct :: "dfield list" where
  "JointFabricDatastore_DatastoreGroupKeySetStruct = [
     (u ''groupKeySetID'', 0, CUint, Value (VInt 0)),
     (u ''groupKeySecurityPolicy'', 1, enum_type JointFabricDatastore_DatastoreGroupKeySecurityPolicyEnum, Value (VInt 0)),
     (u ''epochKey0'', 2, nullable CBytes, Value VNull),
     (u ''epochStartTime0'', 3, nullable CUint, Value VNull),
     (u ''epochKey1'', 4, nullable CBytes, Value VNull),
     (u ''epochStartTime1'', 5, nullable CUint, Value VNull),
     (u ''epochKey2'', 6, nullable CBytes, Value VNull),
     (u ''epochStartTime2'', 7, nullable CUint, Value VNull),
     (u ''groupKeyMulticastPolicy'', 8, optional (enum_type JointFabricDatastore_DatastoreGroupKeyMulticastPolicyEnum), Value VNone)]"

definition JointFabricDatastore_commands_1 :: "command_class list" where
  "JointFabricDatastore_commands_1 = [
     CommandClass (u ''AddKeySet'') 1874 0 True None False [(u ''groupKeySet'', 0, struct_type JointFabricDatastore_DatastoreGroupKeySetStruct, Instance JointFabricDatastore_DatastoreGroupKeySetStruct)],
     CommandClass (u ''UpdateKeySet'') 1874 1 True None False [(u ''groupKeySet'', 0, struct_type JointFabricDatastore_DatastoreGroupKeySetStruct, Instance JointFabricDatastore_DatastoreGroupKeySetStruct)],
     CommandClass (u ''RemoveKeySet'') 1874 2 True None False [(u ''groupKeySetID'', 0, CUint, Value (VInt 0))],
     CommandClass (u ''AddGroup'') 1874 3 True None False [(u ''groupID'', 0, CUint, Value (VInt 0)),
       (u ''friendlyName'', 1, CStr, Value (VStr [])),
       (u ''groupKeySetID'', 2, nullable CUint, Value VNull),
       (u ''groupCat'', 3, nullable CUint, Value VNull),
       (u ''groupCatVersion'', 4, nullable CUint, Value VNull),
       (u ''groupPermission'', 5, enum_type JointFabricDatastore_DatastoreAccessControlEntryPrivilegeEnum, Value (VInt 0))],
     CommandClass (u ''UpdateGroup'') 1874 4 True None False [(u ''groupID'', 0, CUint, Value (VInt 0)),
       (u ''friendlyName'', 1, nullable CStr, Value VNull),
       (u ''groupKeySetID'', 2, nullable CUint, Value VNull),
       (u ''groupCat'', 3, nullable CUint, Value VNull),
       (u ''groupCatVersion'', 4, nullable CUint, Value VNull),
       (u ''groupPermission'', 5, nullable (enum_type JointFabricDatastore_DatastoreAccessControlEntryPrivilegeEnum), Value VNull)],
     CommandClass (u ''RemoveGroup'') 1874 5 True None False [(u ''groupID'', 0, CUint, Value (VInt 0))],
     CommandClass (u ''AddAdmin'') 1874 6 True None False [(u ''nodeID'', 0, CUint, Value (VInt 0)),
       (u ''friendlyName'', 1, CStr, Value (VStr [])),
       (u ''vendorID'', 2, CUint, Value (VInt 0)),
       (u ''icac'', 3, CBytes, Value (VBytes []))]]"

definition JointFabricDatastore_commands_2 :: "command_class list" where
  "JointFabricDatastore_commands_2 = [
     CommandClass (u ''UpdateAdmin'') 1874 7 True None False [(u ''nodeID'', 0, CUint, Value (VInt 0)),
       (u ''friendlyName'', 1, optional CStr, Value VNone),
       (u ''icac'', 2, optional CBytes, Value VNone)],
     CommandClass (u ''RemoveAdmin'') 1874 8 True None False [(u ''nodeID'', 0, CUint, Value (VInt 0))],
     CommandClass (u ''AddPendingNode'') 1874 9 True None False [(u ''nodeID'', 0, CUint, Value (VInt 0)),
       (u ''friendlyName'', 1, CStr, Value (VStr []))],
     CommandClass (u ''RefreshNode'') 1874 10 True None False [(u ''nodeID'', 0, CUint, Value (VInt 0))],
     CommandClass (u ''UpdateNode'') 1874 11 True None False [(u ''nodeID'', 0, CUint, Value (VInt 0)),
       (u ''friendlyName'', 1, CStr, Value (VStr []))],
     CommandClass (u ''RemoveNode'') 1874 12 True None False [(u ''nodeID'', 0, CUint, Value (VInt 0))],
     CommandClass (u ''UpdateEndpointForNode'') 1874 13 True None False [(u ''endpointID'', 0, CUint, Value (VInt 0)),
       (u ''nodeID'', 1, CUint, Value (VInt 0)),
       (u ''friendlyName'', 2, CStr, Value (VStr []))],
     CommandClass (u ''AddGroupIDToEndpointForNode'') 1874 14 True None False [(u ''nodeID'', 0, CUint, Value (VInt 0)),
       (u ''endpointID'', 1, CUint, Value (VInt 0)),
       (u ''groupID'', 2, CUint, Value (VInt 0))]]"

definition JointFabricDatastore_commands_3 :: "command_class list" where
  "JointFabricDatastore_commands_3 = [
     CommandClass (u ''RemoveGroupIDFromEndpointForNode'') 1874 15 True None False [(u ''nodeID'', 0, CUint, Value (VInt 0)),
       (u ''endpointID'', 1, CUint, Value (VInt 0)),
       (u ''groupID'', 2, CUint, Value (VInt 0))],
     CommandClass (u ''AddBindingToEndpointForNode'') 1874 16 True None False [(u ''nodeID'', 0, CUint, Value (VInt 0)),
       (u ''endpointID'', 1, CUint, Value (VInt 0)),
       (u ''binding'', 2, struct_type JointFabricDatastore_DatastoreBindingTargetStruct, Instance JointFabricDatastore_DatastoreBindingTargetStruct)],
     CommandClass (u ''RemoveBindingFromEndpointForNode'') 1874 17 True None False [(u ''listID'', 0, CUint, Value (VInt 0)),
       (u ''endpointID'', 1, CUint, Value (VInt 0)),
       (u ''nodeID'', 2, CUint, Value (VInt 0))],
     CommandClass (u ''AddACLToNode'') 1874 18 True None False [(u ''nodeID'', 0, CUint, Value (VInt 0)),
       (u ''aclEntry'', 1, struct_type JointFabricDatastore_DatastoreAccessControlEntryStruct, Instance JointFabricDatastore_DatastoreAccessControlEntryStruct)],
     CommandClass (u ''RemoveACLFromNode'') 1874 19 True None False [(u ''listID'', 0, CUint, Value (VInt 0)),
       (u ''nodeID'', 1, CUint, Value (VInt 0))]]"

definition JointFabricDatastore_attributes_1 :: "attribute_class list" where
  "JointFabricDatastore_attributes_1 = [
     AttributeClass (u ''AnchorRootCA'') 1874 0 CBytes (Value (VBytes [])),
     AttributeClass (u ''AnchorNodeID'') 1874 1 CUint (Value (VInt 0)),
     AttributeClass (u ''AnchorVendorID'') 1874 2 CUint (Value (VInt 0)),
     AttributeClass (u ''FriendlyName'') 1874 3 CStr (Value (VStr [])),
     AttributeClass (u ''GroupKeySetList'') 1874 4 (CList (struct_type JointFabricDatastore_DatastoreGroupKeySetStruct)) (EmptyList),
     AttributeClass (u ''GroupList'') 1874 5 (CList (struct_type JointFabricDatastore_DatastoreGroupInformationEntryStruct)) (EmptyList),
     AttributeClass (u ''NodeList'') 1874 6 (CList (struct_type JointFabricDatastore_DatastoreNodeInformationEntryStruct)) (EmptyList),
     AttributeClass (u ''AdminList'') 1874 7 (CList (struct_type JointFabricDatastore_DatastoreAdministratorInformationEntryStruct)) (EmptyList),
     AttributeClass (u ''Status'') 1874 8 (struct_type JointFabricDatastore_DatastoreStatusEntryStruct) (Instance JointFabricDatastore_DatastoreStatusEntryStruct)]"

definition JointFabricDatastore_attributes_2 :: "attribute_class list" where
  "JointFabricDatastore_attributes_2 = [
     AttributeClass (u ''EndpointGroupIDList'') 1874 9 (CList (struct_type JointFabricDatastore_DatastoreEndpointGroupIDEntryStruct)) (EmptyList),
     AttributeClass (u ''EndpointBindingList'') 1874 10 (CList (struct_type JointFabricDatastore_DatastoreEndpointBindingEntryStruct)) (EmptyList),
     AttributeClass (u ''NodeKeySetList'') 1874 11 (CList (struct_type JointFabricDatastore_DatastoreNodeKeySetEntryStruct)) (EmptyList),
     AttributeClass (u ''NodeACLList'') 1874 12 (CList (struct_type JointFabricDatastore_DatastoreACLEntryStruct)) (EmptyList),
     AttributeClass (u ''NodeEndpointList'') 1874 13 (CList (struct_type JointFabricDatastore_DatastoreEndpointEntryStruct)) (EmptyList),
     AttributeClass (u ''GeneratedCommandList'') 1874 65528 (CList CUint) (EmptyList),
     AttributeClass (u ''AcceptedCommandList'') 1874 65529 (CList CUint) (EmptyList),
     AttributeClass (u ''AttributeList'') 1874 65531 (CList CUint) (EmptyList),
     AttributeClass (u ''FeatureMap'') 1874 65532 CUint (Value (VInt 0))]"

definition JointFabricDatastore_attributes_3 :: "attribute_class list" where
  "JointFabricDatastore_attributes_3 = [
     AttributeClass (u ''ClusterRevision'') 1874 65533 CUint (Value (VInt 0))]"

definition JointFabricDatastore_cluster :: "cluster_def" where
  "JointFabricDatastore_cluster = ClusterDef (u ''JointFabricDatastore'') 1874 [
     (u ''anchorRootCa'', 0, CBytes, Value (VBytes [])),
     (u ''anchorNodeID'', 1, CUint, Value (VInt 0)),
     (u ''anchorVendorID'', 2, CUint, Value (VInt 0)),
     (u ''friendlyName'', 3, CStr, Value (VStr [])),
     (u ''groupKeySetList'', 4, CList (struct_type JointFabricDatastore_DatastoreGroupKeySetStruct), EmptyList),
     (u ''groupList'', 5, CList (struct_type JointFabricDatastore_DatastoreGroupInformationEntryStruct), EmptyList),
     (u ''nodeList'', 6, CList (struct_type JointFabricDatastore_DatastoreNodeInformationEntryStruct), EmptyList),
     (u ''adminList'', 7, CList (struct_type JointFabricDatastore_DatastoreAdministratorInformationEntryStruct), EmptyList),
     (u ''status'', 8, struct_type JointFabricDatastore_DatastoreStatusEntryStruct, Instance JointFabricDatastore_DatastoreStatusEntryStruct),
     (u ''endpointGroupIDList'', 9, CList (struct_type JointFabricDatastore_DatastoreEndpointGroupIDEntryStruct), EmptyList),
     (u ''endpointBindingList'', 10, CList (struct_type JointFabricDatastore_DatastoreEndpointBindingEntryStruct), EmptyList),
     (u ''nodeKeySetList'', 11, CList (struct_type JointFabricDatastore_DatastoreNodeKeySetEntryStruct), EmptyList),
     (u ''nodeAclList'', 12, CList (struct_type JointFabricDatastore_DatastoreACLEntryStruct), EmptyList),
     (u ''nodeEndpointList'', 13, CList (struct_type JointFabricDatastore_DatastoreEndpointEntryStruct), EmptyList),
     (u ''generatedCommandList'', 65528, CList CUint, EmptyList),
     (u ''acceptedCommandList'', 65529, CList CUint, EmptyList),
     (u ''attributeList'', 65531, CList CUint, EmptyList),
     (u ''featureMap'', 65532, CUint, Value (VInt 0)),
     (u ''clusterRevision'', 65533, CUint, Value (VInt 0))]
     (JointFabricDatastore_commands_1 @ JointFabricDatastore_commands_2 @ JointFabricDatastore_commands_3)
     (JointFabricDatastore_attributes_1 @ JointFabricDatastore_attributes_2 @ JointFabricDatastore_attributes_3)
     []"

section \<open>Consistency\<close>

lemma GeneralDiagnostics_members_ok [simp]: "members_ok GeneralDiagnostics_NetworkInterface"
    "members_ok GeneralDiagnostics_DeviceLoadStruct"
  by (simp_all add: class_simps GeneralDiagnostics_NetworkInterface_def
    GeneralDiagnostics_DeviceLoadStruct_def del: u_simps)

lemma GeneralDiagnostics_cluster_ok: "cluster_ok GeneralDiagnostics_cluster" "cd_id GeneralDiagnostics_cluster = 51"
  by (simp_all add: class_simps GeneralDiagnostics_commands_def
    GeneralDiagnostics_attributes_1_def
    GeneralDiagnostics_attributes_2_def
    GeneralDiagnostics_events_def
    GeneralDiagnostics_cluster_def del: u_simps)

lemma GroupKeyManagement_members_ok [simp]: "members_ok GroupKeyManagement_GroupKeyMapStruct"
    "members_ok GroupKeyManagement_GroupKeySetStruct"
    "members_ok GroupKeyManagement_GroupInfoMapStruct"
    "members_ok GroupKeyManagement_GroupcastAdoptionStruct"
  by (simp_all add: class_simps GroupKeyManagement_GroupKeyMapStruct_def
    GroupKeyManagement_GroupKeySetStruct_def
    GroupKeyManagement_GroupInfoMapStruct_def
    GroupKeyManagement_GroupcastAdoptionStruct_def del: u_simps)

lemma GroupKeyManagement_cluster_ok: "cluster_ok GroupKeyManagement_cluster" "cd_id GroupKeyManagement_cluster = 63"
  by (simp_all add: class_simps GroupKeyManagement_commands_def
    GroupKeyManagement_attributes_1_def
    GroupKeyManagement_attributes_2_def
    GroupKeyManagement_cluster_def del: u_simps)

lemma Groupcast_members_ok [simp]: "members_ok Groupcast_MembershipStruct"
  by (simp_all add: class_simps Groupcast_MembershipStruct_def del: u_simps)

lemma Groupcast_cluster_ok: "cluster_ok Groupcast_cluster" "cd_id Groupcast_cluster = 101"
  by (simp_all add: class_simps Groupcast_commands_def
    Groupcast_attributes_1_def
    Groupcast_attributes_2_def
    Groupcast_events_def
    Groupcast_cluster_def del: u_simps)

lemma Groups_cluster_ok: "cluster_ok Groups_cluster" "cd_id Groups_cluster = 4"
  by (simp_all add: class_simps Groups_commands_1_def
    Groups_commands_2_def
    Groups_attributes_def
    Groups_cluster_def del: u_simps)

lemma HeimanCluster_cluster_ok: "cluster_ok HeimanCluster_cluster" "cd_id HeimanCluster_cluster = 302775297"
  by (simp_all add: class_simps HeimanCluster_commands_def
    HeimanCluster_attributes_1_def
    HeimanCluster_attributes_2_def
    HeimanCluster_cluster_def del: u_simps)

lemma HepaFilterMonitoring_members_ok [simp]: "members_ok HepaFilterMonitoring_ReplacementProductStruct"
  by (simp_all add: class_simps HepaFilterMonitoring_ReplacementProductStruct_def del: u_simps)

lemma HepaFilterMonitoring_cluster_ok: "cluster_ok HepaFilterMonitoring_cluster" "cd_id HepaFilterMonitoring_cluster = 113"
  by (simp_all add: class_simps HepaFilterMonitoring_commands_def
    HepaFilterMonitoring_attributes_1_def
    HepaFilterMonitoring_attributes_2_def
    HepaFilterMonitoring_cluster_def del: u_simps)

lemma IcdManagement_members_ok [simp]: "members_ok IcdManagement_MonitoringRegistrationStruct"
  by (simp_all add: class_simps IcdManagement_MonitoringRegistrationStruct_def del: u_simps)

lemma IcdManagement_cluster_ok: "cluster_ok IcdManagement_cluster" "cd_id IcdManagement_cluster = 70"
  by (simp_all add: class_simps IcdManagement_commands_def
    IcdManagement_attributes_1_def
    IcdManagement_attributes_2_def
    IcdManagement_cluster_def del: u_simps)

lemma Identify_cluster_ok: "cluster_ok Identify_cluster" "cd_id Identify_cluster = 3"
  by (simp_all add: class_simps Identify_commands_def
    Identify_attributes_def
    Identify_cluster_def del: u_simps)

lemma IlluminanceMeasurement_cluster_ok: "cluster_ok IlluminanceMeasurement_cluster" "cd_id IlluminanceMeasurement_cluster = 1024"
  by (simp_all add: class_simps IlluminanceMeasurement_attributes_1_def
    IlluminanceMeasurement_attributes_2_def
    IlluminanceMeasurement_cluster_def del: u_simps)

lemma InovelliCluster_cluster_ok: "cluster_ok InovelliCluster_cluster" "cd_id InovelliCluster_cluster = 305134641"
  by (simp_all add: class_simps InovelliCluster_attributes_def
    InovelliCluster_cluster_def del: u_simps)

lemma JointFabricAdministrator_cluster_ok: "cluster_ok JointFabricAdministrator_cluster" "cd_id JointFabricAdministrator_cluster = 1875"
  by (simp_all add: class_simps JointFabricAdministrator_commands_def
    JointFabricAdministrator_attributes_def
    JointFabricAdministrator_cluster_def del: u_simps)

lemma JointFabricDatastore_members_ok [simp]: "members_ok JointFabricDatastore_DatastoreStatusEntryStruct"
    "members_ok JointFabricDatastore_DatastoreNodeKeySetEntryStruct"
    "members_ok JointFabricDatastore_DatastoreGroupInformationEntryStruct"
    "members_ok JointFabricDatastore_DatastoreBindingTargetStruct"
    "members_ok JointFabricDatastore_DatastoreEndpointBindingEntryStruct"
    "members_ok JointFabricDatastore_DatastoreEndpointGroupIDEntryStruct"
    "members_ok JointFabricDatastore_DatastoreEndpointEntryStruct"
    "members_ok JointFabricDatastore_DatastoreAccessControlTargetStruct"
    "members_ok JointFabricDatastore_DatastoreAccessControlEntryStruct"
    "members_ok JointFabricDatastore_DatastoreACLEntryStruct"
    "members_ok JointFabricDatastore_DatastoreNodeInformationEntryStruct"
    "members_ok JointFabricDatastore_DatastoreAdministratorInformationEntryStruct"
    "members_ok JointFabricDatastore_DatastoreGroupKeySetStruct"
  by (simp_all add: class_simps JointFabricDatastore_DatastoreStatusEntryStruct_def
    JointFabricDatastore_DatastoreNodeKeySetEntryStruct_def
    JointFabricDatastore_DatastoreGroupInformationEntryStruct_def
    JointFabricDatastore_DatastoreBindingTargetStruct_def
    JointFabricDatastore_DatastoreEndpointBindingEntryStruct_def
    JointFabricDatastore_DatastoreEndpointGroupIDEntryStruct_def
    JointFabricDatastore_DatastoreEndpointEntryStruct_def
    JointFabricDatastore_DatastoreAccessControlTargetStruct_def
    JointFabricDatastore_DatastoreAccessControlEntryStruct_def
    JointFabricDatastore_DatastoreACLEntryStruct_def
    JointFabricDatastore_DatastoreNodeInformationEntryStruct_def
    JointFabricDatastore_DatastoreAdministratorInformationEntryStruct_def
    JointFabricDatastore_DatastoreGroupKeySetStruct_def del: u_simps)

lemma JointFabricDatastore_cluster_ok: "cluster_ok JointFabricDatastore_cluster" "cd_id JointFabricDatastore_cluster = 1874"
  by (simp_all add: class_simps JointFabricDatastore_commands_1_def
    JointFabricDatastore_commands_2_def
    JointFabricDatastore_commands_3_def
    JointFabricDatastore_attributes_1_def
    JointFabricDatastore_attributes_2_def
    JointFabricDatastore_attributes_3_def
    JointFabricDatastore_cluster_def del: u_simps)

end
