(* ===== verification/Clusters_KeypadInput.thy ===== *)
theory Clusters_KeypadInput
  imports Clusters_Base
begin

text \<open>
  The generated files \<open>KeypadInput.py\<close> to \<open>OnOff.py\<close> of \<open>chip/clusters/cluster_defs/\<close>, in the form of
  \<open>Clusters_Base\<close>.
\<close>

section \<open>KeypadInput\<close>

definition KeypadInput_StatusEnum :: "(pystr \<times> int) list" where
  "KeypadInput_StatusEnum = [
     (u ''kSuccess'', 0),
     (u ''kUnsupportedKey'', 1),
     (u ''kInvalidKeyInCurrentState'', 2),
     (u ''kUnknownEnumValue'', 3)]"

definition KeypadInput_CECKeyCodeEnum :: "(pystr \<times> int) list" where
  "KeypadInput_CECKeyCodeEnum = [
     (u ''kSelect'', 0),
     (u ''kUp'', 1),
     (u ''kDown'', 2),
     (u ''kLeft'', 3),
     (u ''kRight'', 4),
     (u ''kRightUp'', 5),
     (u ''kRightDown'', 6),
     (u ''kLeftUp'', 7),
     (u ''kLeftDown'', 8),
     (u ''kRootMenu'', 9),
     (u ''kSetupMenu'', 10),
     (u ''kContentsMenu'', 11),
     (u ''kFavoriteMenu'', 12),
     (u ''kExit'', 13),
     (u ''kMediaTopMenu'', 16),
     (u ''kMediaContextSensitiveMenu'', 17),
     (u ''kNumberEntryMode'', 29),
     (u ''kNumber11'', 30),
     (u ''kNumber12'', 31),
     (u ''kNumber0OrNumber10'', 32),
     (u ''kNumbers1'', 33),
     (u ''kNumbers2'', 34),
     (u ''kNumbers3'', 35),
     (u ''kNumbers4'', 36),
     (u ''kNumbers5'', 37),
     (u ''kNumbers6'', 38),
     (u ''kNumbers7'', 39),
     (u ''kNumbers8'', 40),
     (u ''kNumbers9'', 41),
     (u ''kDot'', 42),
     (u ''kEnter'', 43),
     (u ''kClear'', 44),
     (u ''kNextFavorite'', 47),
     (u ''kChannelUp'', 48),
     (u ''kChannelDown'', 49),
     (u ''kPreviousChannel'', 50),
     (u ''kSoundSelect'', 51),
     (u ''kInputSelect'', 52),
     (u ''kDisplayInformation'', 53),
     (u ''kHelp'', 54),
     (u ''kPageUp'', 55),
     (u ''kPageDown'', 56),
     (u ''kPower'', 64),
     (u ''kVolumeUp'', 65),
     (u ''kVolumeDown'', 66),
     (u ''kMute'', 67),
     (u ''kPlay'', 68),
     (u ''kStop'', 69),
     (u ''kPause'', 70),
     (u ''kRecord'', 71),
     (u ''kRewind'', 72),
     (u ''kFastForward'', 73),
     (u ''kEject'', 74),
     (u ''kForward'', 75),
     (u ''kBackward'', 76),
     (u ''kStopRecord'', 77),
     (u ''kPauseRecord'', 78),
     (u ''kAngle'', 80),
     (u ''kSubPicture'', 81),
     (u ''kVideoOnDemand'', 82),
     (u ''kElectronicProgramGuide'', 83),
     (u ''kTimerProgramming'', 84),
     (u ''kInitialConfiguration'', 85),
     (u ''kSelectBroadcastType'', 86),
     (u ''kSelectSoundPresentation'', 87),
     (u ''kPlayFunction'', 96),
     (u ''kPausePlayFunction'', 97),
     (u ''kRecordFunction'', 98),
     (u ''kPauseRecordFunction'', 99),
     (u ''kStopFunction'', 100),
     (u ''kMuteFunction'', 101),
     (u ''kRestoreVolumeFunction'', 102),
     (u ''kTuneFunction'', 103),
     (u ''kSelectMediaFunction'', 104),
     (u ''kSelectAvInputFunction'', 105),
     (u ''kSelectAudioInputFunction'', 106),
     (u ''kPowerToggleFunction'', 107),
     (u ''kPowerOffFunction'', 108),
     (u ''kPowerOnFunction'', 109),
     (u ''kF1Blue'', 113),
     (u ''kF2Red'', 114),
     (u ''kF3Green'', 115),
     (u ''kF4Yellow'', 116),
     (u ''kF5'', 117),
     (u ''kData'', 118),
     (u ''kUnknownEnumValue'', 119)]"

definition KeypadInput_Feature :: "(pystr \<times> int) list" where
  "KeypadInput_Feature = [
     (u ''kNavigationKeyCodes'', 1),
     (u ''kLocationKeys'', 2),
     (u ''kNumberKeys'', 4)]"

definition KeypadInput_commands :: "command_class list" where
  "KeypadInput_commands = [
     CommandClass (u ''SendKey'') 1289 0 True (Some (u ''SendKeyResponse'')) False [(u ''keyCode'', 0, enum_type KeypadInput_CECKeyCodeEnum, Value (VInt 0))],
     CommandClass (u ''SendKeyResponse'') 1289 1 False None False [(u ''status'', 0, enum_type KeypadInput_StatusEnum, Value (VInt 0))]]"

definition KeypadInput_attributes :: "attribute_class list" where
  "KeypadInput_attributes = [
     AttributeClass (u ''GeneratedCommandList'') 1289 65528 (CList CUint) (EmptyList),
     AttributeClass (u ''AcceptedCommandList'') 1289 65529 (CList CUint) (EmptyList),
     AttributeClass (u ''AttributeList'') 1289 65531 (CList CUint) (EmptyList),
     AttributeClass (u ''FeatureMap'') 1289 65532 CUint (Value (VInt 0)),
     AttributeClass (u ''ClusterRevision'') 1289 65533 CUint (Value (VInt 0))]"

definition KeypadInput_cluster :: "cluster_def" where
  "KeypadInput_cluster = ClusterDef (u ''KeypadInput'') 1289 [
     (u ''generatedCommandList'', 65528, CList CUint, EmptyList),
     (u ''acceptedCommandList'', 65529, CList CUint, EmptyList),
     (u ''attributeList'', 65531, CList CUint, EmptyList),
     (u ''featureMap'', 65532, CUint, Value (VInt 0)),
     (u ''clusterRevision'', 65533, CUint, Value (VInt 0))]
     KeypadInput_commands
     KeypadInput_attributes
     []"

section \<open>LaundryDryerControls\<close>

definition LaundryDryerControls_DrynessLevelEnum :: "(pystr \<times> int) list" where
  "LaundryDryerControls_DrynessLevelEnum = [
     (u ''kLow'', 0),
     (u ''kNormal'', 1),
     (u ''kExtra'', 2),
     (u ''kMax'', 3),
     (u ''kUnknownEnumValue'', 4)]"

definition LaundryDryerControls_attributes :: "attribute_class list" where
  "LaundryDryerControls_attributes = [
     AttributeClass (u ''SupportedDrynessLevels'') 74 0 (CList (enum_type LaundryDryerControls_DrynessLevelEnum)) (EmptyList),
     AttributeClass (u ''SelectedDrynessLevel'') 74 1 (nullable (enum_type LaundryDryerControls_DrynessLevelEnum)) (Value VNull),
     AttributeClass (u ''GeneratedCommandList'') 74 65528 (CList CUint) (EmptyList),
     AttributeClass (u ''AcceptedCommandList'') 74 65529 (CList CUint) (EmptyList),
     AttributeClass (u ''AttributeList'') 74 65531 (CList CUint) (EmptyList),
     AttributeClass (u ''FeatureMap'') 74 65532 CUint (Value (VInt 0)),
     AttributeClass (u ''ClusterRevision'') 74 65533 CUint (Value (VInt 0))]"

definition LaundryDryerControls_cluster :: "cluster_def" where
  "LaundryDryerControls_cluster = ClusterDef (u ''LaundryDryerControls'') 74 [
     (u ''supportedDrynessLevels'', 0, CList (enum_type LaundryDryerControls_DrynessLevelEnum), EmptyList),
     (u ''selectedDrynessLevel'', 1, nullable (enum_type LaundryDryerControls_DrynessLevelEnum), Value VNull),
     (u ''generatedCommandList'', 65528, CList CUint, EmptyList),
     (u ''acceptedCommandList'', 65529, CList CUint, EmptyList),
     (u ''attributeList'', 65531, CList CUint, EmptyList),
     (u ''featureMap'', 65532, CUint, Value (VInt 0)),
     (u ''clusterRevision'', 65533, CUint, Value (VInt 0))]
     []
     LaundryDryerControls_attributes
     []"

section \<open>LaundryWasherControls\<close>

definition LaundryWasherControls_NumberOfRinsesEnum :: "(pystr \<times> int) list" where
  "LaundryWasherControls_NumberOfRinsesEnum = [
     (u ''kNone'', 0),
     (u ''kNormal'', 1),
     (u ''kExtra'', 2),
     (u ''kMax'', 3),
     (u ''kUnknownEnumValue'', 4)]"

definition LaundryWasherControls_Feature :: "(pystr \<times> int) list" where
  "LaundryWasherControls_Feature = [
     (u ''kSpin'', 1),
     (u ''kRinse'', 2)]"

definition LaundryWasherControls_attributes :: "attribute_class list" where
  "LaundryWasherControls_attributes = [
     AttributeClass (u ''SpinSpeeds'') 83 0 (optional (CList CStr)) (Value VNone),
     AttributeClass (u ''SpinSpeedCurrent'') 83 1 (optional_nullable CUint) (Value VNone),
     AttributeClass (u ''NumberOfRinses'') 83 2 (optional (enum_type LaundryWasherControls_NumberOfRinsesEnum)) (Value VNone),
     AttributeClass (u ''SupportedRinses'') 83 3 (optional (CList (enum_type LaundryWasherControls_NumberOfRinsesEnum))) (Value VNone),
     AttributeClass (u ''GeneratedCommandList'') 83 65528 (CList CUint) (EmptyList),
     AttributeClass (u ''AcceptedCommandList'') 83 65529 (CList CUint) (EmptyList),
     AttributeClass (u ''AttributeList'') 83 65531 (CList CUint) (EmptyList),
     AttributeClass (u ''FeatureMap'') 83 65532 CUint (Value (VInt 0)),
     AttributeClass (u ''ClusterRevision'') 83 65533 CUint (Value (VInt 0))]"

definition LaundryWasherControls_cluster :: "cluster_def" where
  "LaundryWasherControls_cluster = ClusterDef (u ''LaundryWasherControls'') 83 [
     (u ''spinSpeeds'', 0, optional (CList CStr), Value VNone),
     (u ''spinSpeedCurrent'', 1, optional_nullable CUint, Value VNone),
     (u ''numberOfRinses'', 2, optional (enum_type LaundryWasherControls_NumberOfRinsesEnum), Value VNone),
     (u ''supportedRinses'', 3, optional (CList (enum_type LaundryWasherControls_NumberOfRinsesEnum)), Value VNone),
     (u ''generatedCommandList'', 65528, CList CUint, EmptyList),
     (u ''acceptedCommandList'', 65529, CList CUint, EmptyList),
     (u ''attributeList'', 65531, CList CUint, EmptyList),
     (u ''featureMap'', 65532, CUint, Value (VInt 0)),
     (u ''clusterRevision'', 65533, CUint, Value (VInt 0))]
     []
     LaundryWasherControls_attributes
     []"

section \<open>LaundryWasherMode\<close>

definition LaundryWasherMode_ModeTag :: "(pystr \<times> int) list" where
  "LaundryWasherMode_ModeTag = [
     (u ''kAuto'', 0),
     (u ''kQuick'', 1),
     (u ''kQuiet'', 2),
     (u ''kLowNoise'', 3),
     (u ''kLowEnergy'', 4),
     (u ''kVacation'', 5),
     (u ''kMin'', 6),
     (u ''kMax'', 7),
     (u ''kNight'', 8),
     (u ''kDay'', 9),
     (u ''kNormal'', 16384),
     (u ''kDelicate'', 16385),
     (u ''kHeavy'', 16386),
     (u ''kWhites'', 16387),
     (u ''kUnknownEnumValue'', 16388)]"

definition LaundryWasherMode_ModeChangeStatus :: "(pystr \<times> int) list" where
  "LaundryWasherMode_ModeChangeStatus = [
     (u ''kSuccess'', 0),
     (u ''kUnsupportedMode'', 1),
     (u ''kGenericFailure'', 2),
     (u ''kInvalidInMode'', 3),
     (u ''kUnknownEnumValue'', 4)]"

definition LaundryWasherMode_Feature :: "(pystr \<times> int) list" where
  "LaundryWasherMode_Feature = [
     (u ''kOnOff'', 1)]"

definition LaundryWasherMode_ModeTagStruct :: "dfield list" where
  "LaundryWasherMode_ModeTagStruct = [
     (u ''mfgCode'', 0, optional CUint, Value VNone),
     (u ''value'', 1, enum_type LaundryWasherMode_ModeTag, Value (VInt 0))]"

definition LaundryWasherMode_ModeOptionStruct :: "dfield list" where
  "LaundryWasherMode_ModeOptionStruct = [
     (u ''label'', 0, CStr, Value (VStr [])),
     (u ''mode'', 1, CUint, Value (VInt 0)),
     (u ''modeTags'', 2, CList (struct_type LaundryWasherMode_ModeTagStruct), EmptyList)]"

definition LaundryWasherMode_commands :: "command_class list" where
  "LaundryWasherMode_commands = [
     CommandClass (u ''ChangeToMode'') 81 0 True (Some (u ''ChangeToModeResponse'')) False [(u ''newMode'', 0, CUint, Value (VInt 0))],
     CommandClass (u ''ChangeToModeResponse'') 81 1 False None False [(u ''status'', 0, enum_type LaundryWasherMode_ModeChangeStatus, Value (VInt 0)),
       (u ''statusText'', 1, CStr, Value (VStr []))]]"

definition LaundryWasherMode_attributes :: "attribute_class list" where
  "LaundryWasherMode_attributes = [
     AttributeClass (u ''SupportedModes'') 81 0 (CList (struct_type LaundryWasherMode_ModeOptionStruct)) (EmptyList),
     AttributeClass (u ''CurrentMode'') 81 1 CUint (Value (VInt 0)),
     AttributeClass (u ''StartUpMode'') 81 2 (optional_nullable CUint) (Value VNone),
     AttributeClass (u ''OnMode'') 81 3 (optional_nullable CUint) (Value VNone),
     AttributeClass (u ''GeneratedCommandList'') 81 65528 (CList CUint) (EmptyList),
     AttributeClass (u ''AcceptedCommandList'') 81 65529 (CList CUint) (EmptyList),
     AttributeClass (u ''AttributeList'') 81 65531 (CList CUint) (EmptyList),
     AttributeClass (u ''FeatureMap'') 81 65532 CUint (Value (VInt 0)),
     AttributeClass (u ''ClusterRevision'') 81 65533 CUint (Value (VInt 0))]"

definition LaundryWasherMode_cluster :: "cluster_def" where
  "LaundryWasherMode_cluster = ClusterDef (u ''LaundryWasherMode'') 81 [
     (u ''supportedModes'', 0, CList (struct_type LaundryWasherMode_ModeOptionStruct), EmptyList),
     (u ''currentMode'', 1, CUint, Value (VInt 0)),
     (u ''startUpMode'', 2, optional_nullable CUint, Value VNone),
     (u ''onMode'', 3, optional_nullable CUint, Value VNone),
     (u ''generatedCommandList'', 65528, CList CUint, EmptyList),
     (u ''acceptedCommandList'', 65529, CList CUint, EmptyList),
     (u ''attributeList'', 65531, CList CUint, EmptyList),
     (u ''featureMap'', 65532, CUint, Value (VInt 0)),
     (u ''clusterRevision'', 65533, CUint, Value (VInt 0))]
     LaundryWasherMode_commands
     LaundryWasherMode_attributes
     []"

section \<open>LevelControl\<close>

definition LevelControl_MoveModeEnum :: "(pystr \<times> int) list" where
  "LevelControl_MoveModeEnum = [
     (u ''kUp'', 0),
     (u ''kDown'', 1),
     (u ''kUnknownEnumValue'', 2)]"

definition LevelControl_StepModeEnum :: "(pystr \<times> int) list" where
  "LevelControl_StepModeEnum = [
     (u ''kUp'', 0),
     (u ''kDown'', 1),
     (u ''kUnknownEnumValue'', 2)]"

definition LevelControl_Feature :: "(pystr \<times> int) list" where
  "LevelControl_Feature = [
     (u ''kOnOff'', 1),
     (u ''kLighting'', 2),
     (u ''kFrequency'', 4)]"

definition LevelControl_OptionsBitmap :: "(pystr \<times> int) list" where
  "LevelControl_OptionsBitmap = [
     (u ''kExecuteIfOff'', 1),
     (u ''kCoupleColorTempToLevel'', 2)]"

definition LevelControl_commands_1 :: "command_class list" where
  "LevelControl_commands_1 = [
     CommandClass (u ''MoveToLevel'') 8 0 True None False [(u ''level'', 0, CUint, Value (VInt 0)),
       (u ''transitionTime'', 1, nullable CUint, Value VNull),
       (u ''optionsMask'', 2, flag_type LevelControl_OptionsBitmap, Value (VInt 0)),
       (u ''optionsOverride'', 3, flag_type LevelControl_OptionsBitmap, Value (VInt 0))],
     CommandClass (u ''Move'') 8 1 True None False [(u ''moveMode'', 0, enum_type LevelControl_MoveModeEnum, Value (VInt 0)),
       (u ''rate'', 1, nullable CUint, Value VNull),
       (u ''optionsMask'', 2, flag_type LevelControl_OptionsBitmap, Value (VInt 0)),
       (u ''optionsOverride'', 3, flag_type LevelControl_OptionsBitmap, Value (VInt 0))],
     CommandClass (u ''Step'') 8 2 True None False [(u ''stepMode'', 0, enum_type LevelControl_StepModeEnum, Value (VInt 0)),
       (u ''stepSize'', 1, CUint, Value (VInt 0)),
       (u ''transitionTime'', 2, nullable CUint, Value VNull),
       (u ''optionsMask'', 3, flag_type LevelControl_OptionsBitmap, Value (VInt 0)),
       (u ''optionsOverride'', 4, flag_type LevelControl_OptionsBitmap, Value (VInt 0))],
     CommandClass (u ''Stop'') 8 3 True None False [(u ''optionsMask'', 0, flag_type LevelControl_OptionsBitmap, Value (VInt 0)),
       (u ''optionsOverride'', 1, flag_type LevelControl_OptionsBitmap, Value (VInt 0))],
     CommandClass (u ''MoveToLevelWithOnOff'') 8 4 True None False [(u ''level'', 0, CUint, Value (VInt 0)),
       (u ''transitionTime'', 1, nullable CUint, Value VNull),
       (u ''optionsMask'', 2, flag_type LevelControl_OptionsBitmap, Value (VInt 0)),
       (u ''optionsOverride'', 3, flag_type LevelControl_OptionsBitmap, Value (VInt 0))],
     CommandClass (u ''MoveWithOnOff'') 8 5 True None False [(u ''moveMode'', 0, enum_type LevelControl_MoveModeEnum, Value (VInt 0)),
       (u ''rate'', 1, nullable CUint, Value VNull),
       (u ''optionsMask'', 2, flag_type LevelControl_OptionsBitmap, Value (VInt 0)),
       (u ''optionsOverride'', 3, flag_type LevelControl_OptionsBitmap, Value (VInt 0))]]"

definition LevelControl_commands_2 :: "command_class list" where
  "LevelControl_commands_2 = [
     CommandClass (u ''StepWithOnOff'') 8 6 True None False [(u ''stepMode'', 0, enum_type LevelControl_StepModeEnum, Value (VInt 0)),
       (u ''stepSize'', 1, CUint, Value (VInt 0)),
       (u ''transitionTime'', 2, nullable CUint, Value VNull),
       (u ''optionsMask'', 3, flag_type LevelControl_OptionsBitmap, Value (VInt 0)),
       (u ''optionsOverride'', 4, flag_type LevelControl_OptionsBitmap, Value (VInt 0))],
     CommandClass (u ''StopWithOnOff'') 8 7 True None False [(u ''optionsMask'', 0, flag_type LevelControl_OptionsBitmap, Value (VInt 0)),
       (u ''optionsOverride'', 1, flag_type LevelControl_OptionsBitmap, Value (VInt 0))],
     CommandClass (u ''MoveToClosestFrequency'') 8 8 True None False [(u ''frequency'', 0, CUint, Value (VInt 0))]]"

definition LevelControl_attributes_1 :: "attribute_class list" where
  "LevelControl_attributes_1 = [
     AttributeClass (u ''CurrentLevel'') 8 0 (nullable CUint) (Value VNull),
     AttributeClass (u ''RemainingTime'') 8 1 (optional CUint) (Value VNone),
     AttributeClass (u ''MinLevel'') 8 2 (optional CUint) (Value VNone),
     AttributeClass (u ''MaxLevel'') 8 3 (optional CUint) (Value VNone),
     AttributeClass (u ''CurrentFrequency'') 8 4 (optional CUint) (Value VNone),
     AttributeClass (u ''MinFrequency'') 8 5 (optional CUint) (Value VNone),
     AttributeClass (u ''MaxFrequency'') 8 6 (optional CUint) (Value VNone),
     AttributeClass (u ''Options'') 8 15 (flag_type LevelControl_OptionsBitmap) (Value (VInt 0)),
     AttributeClass (u ''OnOffTransitionTime'') 8 16 (optional CUint) (Value VNone)]"

definition LevelControl_attributes_2 :: "attribute_class list" where
  "LevelControl_attributes_2 = [
     AttributeClass (u ''OnLevel'') 8 17 (nullable CUint) (Value VNull),
     AttributeClass (u ''OnTransitionTime'') 8 18 (optional_nullable CUint) (Value VNone),
     AttributeClass (u ''OffTransitionTime'') 8 19 (optional_nullable CUint) (Value VNone),
     AttributeClass (u ''DefaultMoveRate'') 8 20 (optional_nullable CUint) (Value VNone),
     AttributeClass (u ''StartUpCurrentLevel'') 8 16384 (optional_nullable CUint) (Value VNone),
     AttributeClass (u ''GeneratedCommandList'') 8 65528 (CList CUint) (EmptyList),
     AttributeClass (u ''AcceptedCommandList'') 8 65529 (CList CUint) (EmptyList),
     AttributeClass (u ''AttributeList'') 8 65531 (CList CUint) (EmptyList),
     AttributeClass (u ''FeatureMap'') 8 65532 CUint (Value (VInt 0))]"

definition LevelControl_attributes_3 :: "attribute_class list" where
  "LevelControl_attributes_3 = [
     AttributeClass (u ''ClusterRevision'') 8 65533 CUint (Value (VInt 0))]"

definition LevelControl_cluster :: "cluster_def" where
  "LevelControl_cluster = ClusterDef (u ''LevelControl'') 8 [
     (u ''currentLevel'', 0, nullable CUint, Value VNull),
     (u ''remainingTime'', 1, optional CUint, Value VNone),
     (u ''minLevel'', 2, optional CUint, Value VNone),
     (u ''maxLevel'', 3, optional CUint, Value VNone),
     (u ''currentFrequency'', 4, optional CUint, Value VNone),
     (u ''minFrequency'', 5, optional CUint, Value VNone),
     (u ''maxFrequency'', 6, optional CUint, Value VNone),
     (u ''options'', 15, flag_type LevelControl_OptionsBitmap, Value (VInt 0)),
     (u ''onOffTransitionTime'', 16, optional CUint, Value VNone),
     (u ''onLevel'', 17, nullable CUint, Value VNull),
     (u ''onTransitionTime'', 18, optional_nullable CUint, Value VNone),
     (u ''offTransitionTime'', 19, optional_nullable CUint, Value VNone),
     (u ''defaultMoveRate'', 20, optional_nullable CUint, Value VNone),
     (u ''startUpCurrentLevel'', 16384, optional_nullable CUint, Value VNone),
     (u ''generatedCommandList'', 65528, CList CUint, EmptyList),
     (u ''acceptedCommandList'', 65529, CList CUint, EmptyList),
     (u ''attributeList'', 65531, CList CUint, EmptyList),
     (u ''featureMap'', 65532, CUint, Value (VInt 0)),
     (u ''clusterRevision'', 65533, CUint, Value (VInt 0))]
     (LevelControl_commands_1 @ LevelControl_commands_2)
     (LevelControl_attributes_1 @ LevelControl_attributes_2 @ LevelControl_attributes_3)
     []"

section \<open>LocalizationConfiguration\<close>

definition LocalizationConfiguration_attributes :: "attribute_class list" where
  "LocalizationConfiguration_attributes = [
     AttributeClass (u ''ActiveLocale'') 43 0 CStr (Value (VStr [])),
     AttributeClass (u ''SupportedLocales'') 43 1 (CList CStr) (EmptyList),
     AttributeClass (u ''GeneratedCommandList'') 43 65528 (CList CUint) (EmptyList),
     AttributeClass (u ''AcceptedCommandList'') 43 65529 (CList CUint) (EmptyList),
     AttributeClass (u ''AttributeList'') 43 65531 (CList CUint) (EmptyList),
     AttributeClass (u ''FeatureMap'') 43 65532 CUint (Value (VInt 0)),
     AttributeClass (u ''ClusterRevision'') 43 65533 CUint (Value (VInt 0))]"

definition LocalizationConfiguration_cluster :: "cluster_def" where
  "LocalizationConfiguration_cluster = ClusterDef (u ''LocalizationConfiguration'') 43 [
     (u ''activeLocale'', 0, CStr, Value (VStr [])),
     (u ''supportedLocales'', 1, CList CStr, EmptyList),
     (u ''generatedCommandList'', 65528, CList CUint, EmptyList),
     (u ''acceptedCommandList'', 65529, CList CUint, EmptyList),
     (u ''attributeList'', 65531, CList CUint, EmptyList),
     (u ''featureMap'', 65532, CUint, Value (VInt 0)),
     (u ''clusterRevision'', 65533, CUint, Value (VInt 0))]
     []
     LocalizationConfiguration_attributes
     []"

section \<open>LowPower\<close>

definition LowPower_commands :: "command_class list" where
  "LowPower_commands = [
     CommandClass (u ''Sleep'') 1288 0 True None False []]"

definition LowPower_attributes :: "attribute_class list" where
  "LowPower_attributes = [
     AttributeClass (u ''GeneratedCommandList'') 1288 65528 (CList CUint) (EmptyList),
     AttributeClass (u ''AcceptedCommandList'') 1288 65529 (CList CUint) (EmptyList),
     AttributeClass (u ''AttributeList'') 1288 65531 (CList CUint) (EmptyList),
     AttributeClass (u ''FeatureMap'') 1288 65532 CUint (Value (VInt 0)),
     AttributeClass (u ''ClusterRevision'') 1288 65533 CUint (Value (VInt 0))]"

definition LowPower_cluster :: "cluster_def" where
  "LowPower_cluster = ClusterDef (u ''LowPower'') 1288 [
     (u ''generatedCommandList'', 65528, CList CUint, EmptyList),
     (u ''acceptedCommandList'', 65529, CList CUint, EmptyList),
     (u ''attributeList'', 65531, CList CUint, EmptyList),
     (u ''featureMap'', 65532, CUint, Value (VInt 0)),
     (u ''clusterRevision'', 65533, CUint, Value (VInt 0))]
     LowPower_commands
     LowPower_attributes
     []"

section \<open>MediaInput\<close>

definition MediaInput_InputTypeEnum :: "(pystr \<times> int) list" where
  "MediaInput_InputTypeEnum = [
     (u ''kInternal'', 0),
     (u ''kAux'', 1),
     (u ''kCoax'', 2),
     (u ''kComposite'', 3),
     (u ''kHdmi'', 4),
     (u ''kInput'', 5),
     (u ''kLine'', 6),
     (u ''kOptical'', 7),
     (u ''kVideo'', 8),
     (u ''kScart'', 9),
     (u ''kUsb'', 10),
     (u ''kOther'', 11),
     (u ''kUnknownEnumValue'', 12)]"

definition MediaInput_Feature :: "(pystr \<times> int) list" where
  "MediaInput_Feature = [
     (u ''kNameUpdates'', 1)]"

definition MediaInput_InputInfoStruct :: "dfield list" where
  "MediaInput_InputInfoStruct = [
     (u ''index'', 0, CUint, Value (VInt 0)),
     (u ''inputType'', 1, enum_type MediaInput_InputTypeEnum, Value (VInt 0)),
     (u ''name'', 2, CStr, Value (VStr [])),
     (u ''description'', 3, CStr, Value (VStr []))]"

definition MediaInput_commands :: "command_class list" where
  "MediaInput_commands = [
     CommandClass (u ''SelectInput'') 1287 0 True None False [(u ''index'', 0, CUint, Value (VInt 0))],
     CommandClass (u ''ShowInputStatus'') 1287 1 True None False [],
     CommandClass (u ''HideInputStatus'') 1287 2 True None False [],
     CommandClass (u ''RenameInput'') 1287 3 True None False [(u ''index'', 0, CUint, Value (VInt 0)),
       (u ''name'', 1, CStr, Value (VStr []))]]"

definition MediaInput_attributes :: "attribute_class list" where
  "MediaInput_attributes = [
     AttributeClass (u ''InputList'') 1287 0 (CList (struct_type MediaInput_InputInfoStruct)) (EmptyList),
     AttributeClass (u ''CurrentInput'') 1287 1 CUint (Value (VInt 0)),
     AttributeClass (u ''GeneratedCommandList'') 1287 65528 (CList CUint) (EmptyList),
     AttributeClass (u ''AcceptedCommandList'') 1287 65529 (CList CUint) (EmptyList),
     AttributeClass (u ''AttributeList'') 1287 65531 (CList CUint) (EmptyList),
     AttributeClass (u ''FeatureMap'') 1287 65532 CUint (Value (VInt 0)),
     AttributeClass (u ''ClusterRevision'') 1287 65533 CUint (Value (VInt 0))]"

definition MediaInput_cluster :: "cluster_def" where
  "MediaInput_cluster = ClusterDef (u ''MediaInput'') 1287 [
     (u ''inputList'', 0, CList (struct_type MediaInput_InputInfoStruct), EmptyList),
     (u ''currentInput'', 1, CUint, Value (VInt 0)),
     (u ''generatedCommandList'', 65528, CList CUint, EmptyList),
     (u ''acceptedCommandList'', 65529, CList CUint, EmptyList),
     (u ''attributeList'', 65531, CList CUint, EmptyList),
     (u ''featureMap'', 65532, CUint, Value (VInt 0)),
     (u ''clusterRevision'', 65533, CUint, Value (VInt 0))]
     MediaInput_commands
     MediaInput_attributes
     []"

section \<open>Messages\<close>

definition Messages_FutureMessagePreferenceEnum :: "(pystr \<times> int) list" where
  "Messages_FutureMessagePreferenceEnum = [
     (u ''kAllowed'', 0),
     (u ''kIncreased'', 1),
     (u ''kReduced'', 2),
     (u ''kDisallowed'', 3),
     (u ''kBanned'', 4),
     (u ''kUnknownEnumValue'', 5)]"

definition Messages_MessagePriorityEnum :: "(pystr \<times> int) list" where
  "Messages_MessagePriorityEnum = [
     (u ''kLow'', 0),
     (u ''kMedium'', 1),
     (u ''kHigh'', 2),
     (u ''kCritical'', 3),
     (u ''kUnknownEnumValue'', 4)]"

definition Messages_Feature :: "(pystr \<times> int) list" where
  "Messages_Feature = [
     (u ''kReceivedConfirmation'', 1),
     (u ''kConfirmationResponse'', 2),
     (u ''kConfirmationReply'', 4),
     (u ''kProtectedMessages'', 8)]"

definition Messages_MessageControlBitmap :: "(pystr \<times> int) list" where
  "Messages_MessageControlBitmap = [
     (u ''kConfirmationRequired'', 1),
     (u ''kResponseRequired'', 2),
     (u ''kReplyMessage'', 4),
     (u ''kMessageConfirmed'', 8),
     (u ''kMessageProtected'', 16)]"

definition Messages_MessageResponseOptionStruct :: "dfield list" where
  "Messages_MessageResponseOptionStruct = [
     (u ''messageResponseID'', 0, CUint, Value (VInt 0)),
     (u ''label'', 1, CStr, Value (VStr []))]"

definition Messages_MessageStruct :: "dfield list" where
  "Messages_MessageStruct = [
     (u ''messageID'', 0, CBytes, Value (VBytes [])),
     (u ''priority'', 1, enum_type Messages_MessagePriorityEnum, Value (VInt 0)),
     (u ''messageControl'', 2, flag_type Messages_MessageControlBitmap, Value (VInt 0)),
     (u ''startTime'', 3, nullable CUint, Value VNull),
     (u ''duration'', 4, nullable CUint, Value VNull),
     (u ''messageText'', 5, CStr, Value (VStr [])),
     (u ''responses'', 6, optional (CList (struct_type Messages_MessageResponseOptionStruct)), Value VNone),
     (u ''fabricIndex'', 254, CUint, Value (VInt 0))]"

definition Messages_commands :: "command_class list" where
  "Messages_commands = [
     CommandClass (u ''PresentMessagesRequest'') 151 0 True None False [(u ''messageID'', 0, CBytes, Value (VBytes [])),
       (u ''priority'', 1, enum_type Messages_MessagePriorityEnum, Value (VInt 0)),
       (u ''messageControl'', 2, flag_type Messages_MessageControlBitmap, Value (VInt 0)),
       (u ''startTime'', 3, nullable CUint, Value VNull),
       (u ''duration'', 4, nullable CUint, Value VNull),
       (u ''messageText'', 5, CStr, Value (VStr [])),
       (u ''responses'', 6, optional (CList (struct_type Messages_MessageResponseOptionStruct)), Value VNone)],
     CommandClass (u ''CancelMessagesRequest'') 151 1 True None False [(u ''messageIDs'', 0, CList CBytes, EmptyList)]]"

definition Messages_attributes :: "attribute_class list" where
  "Messages_attributes = [
     AttributeClass (u ''Messages'') 151 0 (CList (struct_type Messages_MessageStruct)) (EmptyList),
     AttributeClass (u ''ActiveMessageIDs'') 151 1 (CList CBytes) (EmptyList),
     AttributeClass (u ''GeneratedCommandList'') 151 65528 (CList CUint) (EmptyList),
     AttributeClass (u ''AcceptedCommandList'') 151 65529 (CList CUint) (EmptyList),
     AttributeClass (u ''AttributeList'') 151 65531 (CList CUint) (EmptyList),
     AttributeClass (u ''FeatureMap'') 151 65532 CUint (Value (VInt 0)),
     AttributeClass (u ''ClusterRevision'') 151 65533 CUint (Value (VInt 0))]"

definition Messages_events :: "event_class list" where
  "Messages_events = [
     EventClass (u ''MessageQueued'') 151 0 [(u ''messageID'', 0, CBytes, Value (VBytes [])),
       (u ''fabricIndex'', 254, CUint, Value (VInt 0))],
     EventClass (u ''MessagePresented'') 151 1 [(u ''messageID'', 0, CBytes, Value (VBytes [])),
       (u ''fabricIndex'', 254, CUint, Value (VInt 0))],
     EventClass (u ''MessageComplete'') 151 2 [(u ''messageID'', 0, CBytes, Value (VBytes [])),
       (u ''responseID'', 1, optional_nullable CUint, Value VNone),
       (u ''reply'', 2, optional_nullable CStr, Value VNone),
       (u ''futureMessagesPreference'', 3, nullable (enum_type Messages_FutureMessagePreferenceEnum), Value VNull),
       (u ''fabricIndex'', 254, CUint, Value (VInt 0))]]"

definition Messages_cluster :: "cluster_def" where
  "Messages_cluster = ClusterDef (u ''Messages'') 151 [
     (u ''messages'', 0, CList (struct_type Messages_MessageStruct), EmptyList),
     (u ''activeMessageIDs'', 1, CList CBytes, EmptyList),
     (u ''generatedCommandList'', 65528, CList CUint, EmptyList),
     (u ''acceptedCommandList'', 65529, CList CUint, EmptyList),
     (u ''attributeList'', 65531, CList CUint, EmptyList),
     (u ''featureMap'', 65532, CUint, Value (VInt 0)),
     (u ''clusterRevision'', 65533, CUint, Value (VInt 0))]
     Messages_commands
     Messages_attributes
     Messages_events"

section \<open>MeterIdentification\<close>

definition MeterIdentification_MeterTypeEnum :: "(pystr \<times> int) list" where
  "MeterIdentification_MeterTypeEnum = [
     (u ''kUtility'', 0),
     (u ''kPrivate'', 1),
     (u ''kGeneric'', 2),
     (u ''kUnknownEnumValue'', 3)]"

definition MeterIdentification_Feature :: "(pystr \<times> int) list" where
  "MeterIdentification_Feature = [
     (u ''kPowerThreshold'', 1)]"

definition MeterIdentification_attributes_1 :: "attribute_class list" where
  "MeterIdentification_attributes_1 = [
     AttributeClass (u ''MeterType'') 2822 0 (nullable (enum_type MeterIdentification_MeterTypeEnum)) (Value VNull),
     AttributeClass (u ''PointOfDelivery'') 2822 1 (nullable CStr) (Value VNull),
     AttributeClass (u ''MeterSerialNumber'') 2822 2 (nullable CStr) (Value VNull),
     AttributeClass (u ''ProtocolVersion'') 2822 3 (optional_nullable CStr) (Value VNone),
     AttributeClass (u ''PowerThreshold'') 2822 4 (optional_nullable (struct_type Globals_PowerThresholdStruct)) (Value VNone),
     AttributeClass (u ''GeneratedCommandList'') 2822 65528 (CList CUint) (EmptyList),
     AttributeClass (u ''AcceptedCommandList'') 2822 65529 (CList CUint) (EmptyList),
     AttributeClass (u ''AttributeList'') 2822 65531 (CList CUint) (EmptyList),
     AttributeClass (u ''FeatureMap'') 2822 65532 CUint (Value (VInt 0))]"

definition MeterIdentification_attributes_2 :: "attribute_class list" where
  "MeterIdentification_attributes_2 = [
     AttributeClass (u ''ClusterRevision'') 2822 65533 CUint (Value (VInt 0))]"

definition MeterIdentification_cluster :: "cluster_def" where
  "MeterIdentification_cluster = ClusterDef (u ''MeterIdentification'') 2822 [
     (u ''meterType'', 0, nullable (enum_type MeterIdentification_MeterTypeEnum), Value VNull),
     (u ''pointOfDelivery'', 1, nullable CStr, Value VNull),
     (u ''meterSerialNumber'', 2, nullable CStr, Value VNull),
     (u ''protocolVersion'', 3, optional_nullable CStr, Value VNone),
     (u ''powerThreshold'', 4, optional_nullable (struct_type Globals_PowerThresholdStruct), Value VNone),
     (u ''generatedCommandList'', 65528, CList CUint, EmptyList),
     (u ''acceptedCommandList'', 65529, CList CUint, EmptyList),
     (u ''attributeList'', 65531, CList CUint, EmptyList),
     (u ''featureMap'', 65532, CUint, Value (VInt 0)),
     (u ''clusterRevision'', 65533, CUint, Value (VInt 0))]
     []
     (MeterIdentification_attributes_1 @ MeterIdentification_attributes_2)
     []"

section \<open>MicrowaveOvenControl\<close>

definition MicrowaveOvenControl_Feature :: "(pystr \<times> int) list" where
  "MicrowaveOvenControl_Feature = [
     (u ''kPowerAsNumber'', 1),
     (u ''kPowerInWatts'', 2),
     (u ''kPowerNumberLimits'', 4)]"

definition MicrowaveOvenControl_commands :: "command_class list" where
  "MicrowaveOvenControl_commands = [
     CommandClass (u ''SetCookingParameters'') 95 0 True None False [(u ''cookMode'', 0, optional CUint, Value VNone),
       (u ''cookTime'', 1, optional CUint, Value VNone),
       (u ''powerSetting'', 2, optional CUint, Value VNone),
       (u ''wattSettingIndex'', 3, optional CUint, Value VNone),
       (u ''startAfterSetting'', 4, optional CBool, Value VNone)],
     CommandClass (u ''AddMoreTime'') 95 1 True None False [(u ''timeToAdd'', 0, CUint, Value (VInt 0))]]"

definition MicrowaveOvenControl_attributes_1 :: "attribute_class list" where
  "MicrowaveOvenControl_attributes_1 = [
     AttributeClass (u ''CookTime'') 95 0 CUint (Value (VInt 0)),
     AttributeClass (u ''MaxCookTime'') 95 1 CUint (Value (VInt 0)),
     AttributeClass (u ''PowerSetting'') 95 2 (optional CUint) (Value VNone),
     AttributeClass (u ''MinPower'') 95 3 (optional CUint) (Value VNone),
     AttributeClass (u ''MaxPower'') 95 4 (optional CUint) (Value VNone),
     AttributeClass (u ''PowerStep'') 95 5 (optional CUint) (Value VNone),
     AttributeClass (u ''SupportedWatts'') 95 6 (optional (CList CUint)) (Value VNone),
     AttributeClass (u ''SelectedWattIndex'') 95 7 (optional CUint) (Value VNone),
     AttributeClass (u ''WattRating'') 95 8 (optional CUint) (Value VNone)]"

definition MicrowaveOvenControl_attributes_2 :: "attribute_class list" where
  "MicrowaveOvenControl_attributes_2 = [
     AttributeClass (u ''GeneratedCommandList'') 95 65528 (CList CUint) (EmptyList),
     AttributeClass (u ''AcceptedCommandList'') 95 65529 (CList CUint) (EmptyList),
     AttributeClass (u ''AttributeList'') 95 65531 (CList CUint) (EmptyList),
     AttributeClass (u ''FeatureMap'') 95 65532 CUint (Value (VInt 0)),
     AttributeClass (u ''ClusterRevision'') 95 65533 CUint (Value (VInt 0))]"

definition MicrowaveOvenControl_cluster :: "cluster_def" where
  "MicrowaveOvenControl_cluster = ClusterDef (u ''MicrowaveOvenControl'') 95 [
     (u ''cookTime'', 0, CUint, Value (VInt 0)),
     (u ''maxCookTime'', 1, CUint, Value (VInt 0)),
     (u ''powerSetting'', 2, optional CUint, Value VNone),
     (u ''minPower'', 3, optional CUint, Value VNone),
     (u ''maxPower'', 4, optional CUint, Value VNone),
     (u ''powerStep'', 5, optional CUint, Value VNone),
     (u ''supportedWatts'', 6, optional (CList CUint), Value VNone),
     (u ''selectedWattIndex'', 7, optional CUint, Value VNone),
     (u ''wattRating'', 8, optional CUint, Value VNone),
     (u ''generatedCommandList'', 65528, CList CUint, EmptyList),
     (u ''acceptedCommandList'', 65529, CList CUint, EmptyList),
     (u ''attributeList'', 65531, CList CUint, EmptyList),
     (u ''featureMap'', 65532, CUint, Value (VInt 0)),
     (u ''clusterRevision'', 65533, CUint, Value (VInt 0))]
     MicrowaveOvenControl_commands
     (MicrowaveOvenControl_attributes_1 @ MicrowaveOvenControl_attributes_2)
     []"

section \<open>MicrowaveOvenMode\<close>

definition MicrowaveOvenMode_ModeTag :: "(pystr \<times> int) list" where
  "MicrowaveOvenMode_ModeTag = [
     (u ''kAuto'', 0),
     (u ''kQuick'', 1),
     (u ''kQuiet'', 2),
     (u ''kLowNoise'', 3),
     (u ''kLowEnergy'', 4),
     (u ''kVacation'', 5),
     (u ''kMin'', 6),
     (u ''kMax'', 7),
     (u ''kNight'', 8),
     (u ''kDay'', 9),
     (u ''kNormal'', 16384),
     (u ''kDefrost'', 16385),
     (u ''kUnknownEnumValue'', 16386)]"

definition MicrowaveOvenMode_ModeChangeStatus :: "(pystr \<times> int) list" where
  "MicrowaveOvenMode_ModeChangeStatus = [
     (u ''kSuccess'', 0),
     (u ''kUnsupportedMode'', 1),
     (u ''kGenericFailure'', 2),
     (u ''kInvalidInMode'', 3),
     (u ''kUnknownEnumValue'', 4)]"

definition MicrowaveOvenMode_Feature :: "(pystr \<times> int) list" where
  "MicrowaveOvenMode_Feature = [
     (u ''kOnOff'', 1)]"

definition MicrowaveOvenMode_ModeTagStruct :: "dfield list" where
  "MicrowaveOvenMode_ModeTagStruct = [
     (u ''mfgCode'', 0, optional CUint, Value VNone),
     (u ''value'', 1, enum_type MicrowaveOvenMode_ModeTag, Value (VInt 0))]"

definition MicrowaveOvenMode_ModeOptionStruct :: "dfield list" where
  "MicrowaveOvenMode_ModeOptionStruct = [
     (u ''label'', 0, CStr, Value (VStr [])),
     (u ''mode'', 1, CUint, Value (VInt 0)),
     (u ''modeTags'', 2, CList (struct_type MicrowaveOvenMode_ModeTagStruct), EmptyList)]"

definition MicrowaveOvenMode_commands :: "command_class list" where
  "MicrowaveOvenMode_commands = [
     CommandClass (u ''ChangeToMode'') 94 0 True (Some (u ''ChangeToModeResponse'')) False [(u ''newMode'', 0, CUint, Value (VInt 0))],
     CommandClass (u ''ChangeToModeResponse'') 94 1 False None False [(u ''status'', 0, enum_type MicrowaveOvenMode_ModeChangeStatus, Value (VInt 0)),
       (u ''statusText'', 1, CStr, Value (VStr []))]]"

definition MicrowaveOvenMode_attributes :: "attribute_class list" where
  "MicrowaveOvenMode_attributes = [
     AttributeClass (u ''SupportedModes'') 94 0 (CList (struct_type MicrowaveOvenMode_ModeOptionStruct)) (EmptyList),
     AttributeClass (u ''CurrentMode'') 94 1 CUint (Value (VInt 0)),
     AttributeClass (u ''StartUpMode'') 94 2 (optional_nullable CUint) (Value VNone),
     AttributeClass (u ''OnMode'') 94 3 (optional_nullable CUint) (Value VNone),
     AttributeClass (u ''GeneratedCommandList'') 94 65528 (CList CUint) (EmptyList),
     AttributeClass (u ''AcceptedCommandList'') 94 65529 (CList CUint) (EmptyList),
     AttributeClass (u ''AttributeList'') 94 65531 (CList CUint) (EmptyList),
     AttributeClass (u ''FeatureMap'') 94 65532 CUint (Value (VInt 0)),
     AttributeClass (u ''ClusterRevision'') 94 65533 CUint (Value (VInt 0))]"

definition MicrowaveOvenMode_cluster :: "cluster_def" where
  "MicrowaveOvenMode_cluster = ClusterDef (u ''MicrowaveOvenMode'') 94 [
     (u ''supportedModes'', 0, CList (struct_type MicrowaveOvenMode_ModeOptionStruct), EmptyList),
     (u ''currentMode'', 1, CUint, Value (VInt 0)),
     (u ''startUpMode'', 2, optional_nullable CUint, Value VNone),
     (u ''onMode'', 3, optional_nullable CUint, Value VNone),
     (u ''generatedCommandList'', 65528, CList CUint, EmptyList),
     (u ''acceptedCommandList'', 65529, CList CUint, EmptyList),
     (u ''attributeList'', 65531, CList CUint, EmptyList),
     (u ''featureMap'', 65532, CUint, Value (VInt 0)),
     (u ''clusterRevision'', 65533, CUint, Value (VInt 0))]
     MicrowaveOvenMode_commands
     MicrowaveOvenMode_attributes
     []"

section \<open>NeoCluster\<close>

definition NeoCluster_attributes :: "attribute_class list" where
  "NeoCluster_attributes = [
     AttributeClass (u ''WattAccumulated'') 308149265 308084769 (optional CUint) (Value VNone),
     AttributeClass (u ''Current'') 308149265 308084770 (optional CUint) (Value VNone),
     AttributeClass (u ''Watt'') 308149265 308084771 (optional CUint) (Value VNone),
     AttributeClass (u ''Voltage'') 308149265 308084772 (optional CUint) (Value VNone),
     AttributeClass (u ''GeneratedCommandList'') 308149265 65528 (CList CUint) (EmptyList),
     AttributeClass (u ''AcceptedCommandList'') 308149265 65529 (CList CUint) (EmptyList),
     AttributeClass (u ''AttributeList'') 308149265 65531 (CList CUint) (EmptyList),
     AttributeClass (u ''FeatureMap'') 308149265 65532 CUint (Value (VInt 0)),
     AttributeClass (u ''ClusterRevision'') 308149265 65533 CUint (Value (VInt 0))]"

definition NeoCluster_cluster :: "cluster_def" where
  "NeoCluster_cluster = ClusterDef (u ''NeoCluster'') 308149265 [
     (u ''wattAccumulated'', 308084769, optional CUint, Value VNone),
     (u ''current'', 308084770, optional CUint, Value VNone),
     (u ''watt'', 308084771, optional CUint, Value VNone),
     (u ''voltage'', 308084772, optional CUint, Value VNone),
     (u ''generatedCommandList'', 65528, CList CUint, EmptyList),
     (u ''acceptedCommandList'', 65529, CList CUint, EmptyList),
     (u ''attributeList'', 65531, CList CUint, EmptyList),
     (u ''featureMap'', 65532, CUint, Value (VInt 0)),
     (u ''clusterRevision'', 65533, CUint, Value (VInt 0))]
     []
     NeoCluster_attributes
     []"

section \<open>NetworkCommissioning\<close>

definition NetworkCommissioning_WiFiBandEnum :: "(pystr \<times> int) list" where
  "NetworkCommissioning_WiFiBandEnum = [
     (u ''k2g4'', 0),
     (u ''k3g65'', 1),
     (u ''k5g'', 2),
     (u ''k6g'', 3),
     (u ''k60g'', 4),
     (u ''k1g'', 5),
     (u ''kUnknownEnumValue'', 6)]"

definition NetworkCommissioning_NetworkCommissioningStatusEnum :: "(pystr \<times> int) list" where
  "NetworkCommissioning_NetworkCommissioningStatusEnum = [
     (u ''kSuccess'', 0),
     (u ''kOutOfRange'', 1),
     (u ''kBoundsExceeded'', 2),
     (u ''kNetworkIDNotFound'', 3),
     (u ''kDuplicateNetworkID'', 4),
     (u ''kNetworkNotFound'', 5),
     (u ''kRegulatoryError'', 6),
     (u ''kAuthFailure'', 7),
     (u ''kUnsupportedSecurity'', 8),
     (u ''kOtherConnectionFailure'', 9),
     (u ''kIPV6Failed'', 10),
     (u ''kIPBindFailed'', 11),
     (u ''kUnknownError'', 12),
     (u ''kUnknownEnumValue'', 13)]"

definition NetworkCommissioning_Feature :: "(pystr \<times> int) list" where
  "NetworkCommissioning_Feature = [
     (u ''kWiFiNetworkInterface'', 1),
     (u ''kThreadNetworkInterface'', 2),
     (u ''kEthernetNetworkInterface'', 4)]"

definition NetworkCommissioning_WiFiSecurityBitmap :: "(pystr \<times> int) list" where
  "NetworkCommissioning_WiFiSecurityBitmap = [
     (u ''kUnencrypted'', 1),
     (u ''kWep'', 2),
     (u ''kWpaPersonal'', 4),
     (u ''kWpa2Personal'', 8),
     (u ''kWpa3Personal'', 16)]"

definition NetworkCommissioning_ThreadCapabilitiesBitmap :: "(pystr \<times> int) list" where
  "NetworkCommissioning_ThreadCapabilitiesBitmap = [
     (u ''kIsBorderRouterCapable'', 1),
     (u ''kIsRouterCapable'', 2),
     (u ''kIsSleepyEndDeviceCapable'', 4),
     (u ''kIsFullThreadDevice'', 8),
     (u ''kIsSynchronizedSleepyEndDeviceCapable'', 16)]"

definition NetworkCommissioning_NetworkInfoStruct :: "dfield list" where
  "NetworkCommissioning_NetworkInfoStruct = [
     (u ''networkID'', 0, CBytes, Value (VBytes [])),
     (u ''connected'', 1, CBool, Value (VBool False))]"

definition NetworkCommissioning_WiFiInterfaceScanResultStruct :: "dfield list" where
  "NetworkCommissioning_WiFiInterfaceScanResultStruct = [
     (u ''security'', 0, flag_type NetworkCommissioning_WiFiSecurityBitmap, Value (VInt 0)),
     (u ''ssid'', 1, CBytes, Value (VBytes [])),
     (u ''bssid'', 2, CBytes, Value (VBytes [])),
     (u ''channel'', 3, CUint, Value (VInt 0)),
     (u ''wiFiBand'', 4, optional (enum_type NetworkCommissioning_WiFiBandEnum), Value VNone),
     (u ''rssi'', 5, optional CInt, Value VNone)]"

definition NetworkCommissioning_ThreadInterfaceScanResultStruct :: "dfield list" where
  "NetworkCommissioning_ThreadInterfaceScanResultStruct = [
     (u ''panId'', 0, CUint, Value (VInt 0)),
     (u ''extendedPanId'', 1, CUint, Value (VInt 0)),
     (u ''networkName'', 2, CStr, Value (VStr [])),
     (u ''channel'', 3, CUint, Value (VInt 0)),
     (u ''version'', 4, CUint, Value (VInt 0)),
     (u ''extendedAddress'', 5, CBytes, Value (VBytes [])),
     (u ''rssi'', 6, CInt, Value (VInt 0)),
     (u ''lqi'', 7, CUint, Value (VInt 0))]"

definition NetworkCommissioning_commands_1 :: "command_class list" where
  "NetworkCommissioning_commands_1 = [
     CommandClass (u ''ScanNetworks'') 49 0 True (Some (u ''ScanNetworksResponse'')) False [(u ''ssid'', 0, optional_nullable CBytes, Value VNone),
       (u ''breadcrumb'', 1, optional CUint, Value VNone)],
     CommandClass (u ''AddOrUpdateWiFiNetwork'') 49 2 True (Some (u ''NetworkConfigResponse'')) False [(u ''ssid'', 0, CBytes, Value (VBytes [])),
       (u ''credentials'', 1, CBytes, Value (VBytes [])),
       (u ''breadcrumb'', 2, optional CUint, Value VNone)],
     CommandClass (u ''AddOrUpdateThreadNetwork'') 49 3 True (Some (u ''NetworkConfigResponse'')) False [(u ''operationalDataset'', 0, CBytes, Value (VBytes [])),
       (u ''breadcrumb'', 1, optional CUint, Value VNone)],
     CommandClass (u ''RemoveNetwork'') 49 4 True (Some (u ''NetworkConfigResponse'')) False [(u ''networkID'', 0, CBytes, Value (VBytes [])),
       (u ''breadcrumb'', 1, optional CUint, Value VNone)],
     CommandClass (u ''ConnectNetwork'') 49 6 True (Some (u ''ConnectNetworkResponse'')) False [(u ''networkID'', 0, CBytes, Value (VBytes [])),
       (u ''breadcrumb'', 1, optional CUint, Value VNone)],
     CommandClass (u ''ReorderNetwork'') 49 8 True (Some (u ''NetworkConfigResponse'')) False [(u ''networkID'', 0, CBytes, Value (VBytes [])),
       (u ''networkIndex'', 1, CUint, Value (VInt 0)),
       (u ''breadcrumb'', 2, optional CUint, Value VNone)],
     CommandClass (u ''ScanNetworksResponse'') 49 1 False None False [(u ''networkingStatus'', 0, enum_type NetworkCommissioning_NetworkCommissioningStatusEnum, Value (VInt 0)),
       (u ''debugText'', 1, optional CStr, Value VNone),
       (u ''wiFiScanResults'', 2, optional (CList (struct_type NetworkCommissioning_WiFiInterfaceScanResultStruct)), Value VNone),
       (u ''threadScanResults'', 3, optional (CList (struct_type NetworkCommissioning_ThreadInterfaceScanResultStruct)), Value VNone)]]"

definition NetworkCommissioning_commands_2 :: "command_class list" where
  "NetworkCommissioning_commands_2 = [
     CommandClass (u ''NetworkConfigResponse'') 49 5 False None False [(u ''networkingStatus'', 0, enum_type NetworkCommissioning_NetworkCommissioningStatusEnum, Value (VInt 0)),
       (u ''debugText'', 1, optional CStr, Value VNone),
       (u ''networkIndex'', 2, optional CUint, Value VNone)],
     CommandClass (u ''ConnectNetworkResponse'') 49 7 False None False [(u ''networkingStatus'', 0, enum_type NetworkCommissioning_NetworkCommissioningStatusEnum, Value (VInt 0)),
       (u ''debugText'', 1, optional CStr, Value VNone),
       (u ''errorValue'', 2, nullable CInt, Value VNull)]]"

definition NetworkCommissioning_attributes_1 :: "attribute_class list" where
  "NetworkCommissioning_attributes_1 = [
     AttributeClass (u ''MaxNetworks'') 49 0 CUint (Value (VInt 0)),
     AttributeClass (u ''Networks'') 49 1 (CList (struct_type NetworkCommissioning_NetworkInfoStruct)) (EmptyList),
     AttributeClass (u ''ScanMaxTimeSeconds'') 49 2 (optional CUint) (Value VNone),
     AttributeClass (u ''ConnectMaxTimeSeconds'') 49 3 (optional CUint) (Value VNone),
     AttributeClass (u ''InterfaceEnabled'') 49 4 CBool (Value (VBool False)),
     AttributeClass (u ''LastNetworkingStatus'') 49 5 (nullable (enum_type NetworkCommissioning_NetworkCommissioningStatusEnum)) (Value VNull),
     AttributeClass (u ''LastNetworkID'') 49 6 (nullable CBytes) (Value VNull),
     AttributeClass (u ''LastConnectErrorValue'') 49 7 (nullable CInt) (Value VNull),
     AttributeClass (u ''SupportedWiFiBands'') 49 8 (optional (CList (enum_type NetworkCommissioning_WiFiBandEnum))) (Value VNone)]"

definition NetworkCommissioning_attributes_2 :: "attribute_class list" where
  "NetworkCommissioning_attributes_2 = [
     AttributeClass (u ''SupportedThreadFeatures'') 49 9 (optional (flag_type NetworkCommissioning_ThreadCapabilitiesBitmap)) (Value VNone),
     AttributeClass (u ''ThreadVersion'') 49 10 (optional CUint) (Value VNone),
     AttributeClass (u ''GeneratedCommandList'') 49 65528 (CList CUint) (EmptyList),
     AttributeClass (u ''AcceptedCommandList'') 49 65529 (CList CUint) (EmptyList),
     AttributeClass (u ''AttributeList'') 49 65531 (CList CUint) (EmptyList),
     AttributeClass (u ''FeatureMap'') 49 65532 CUint (Value (VInt 0)),
     AttributeClass (u ''ClusterRevision'') 49 65533 CUint (Value (VInt 0))]"

definition NetworkCommissioning_cluster :: "cluster_def" where
  "NetworkCommissioning_cluster = ClusterDef (u ''NetworkCommissioning'') 49 [
     (u ''maxNetworks'', 0, CUint, Value (VInt 0)),
     (u ''networks'', 1, CList (struct_type NetworkCommissioning_NetworkInfoStruct), EmptyList),
     (u ''scanMaxTimeSeconds'', 2, optional CUint, Value VNone),
     (u ''connectMaxTimeSeconds'', 3, optional CUint, Value VNone),
     (u ''interfaceEnabled'', 4, CBool, Value (VBool False)),
     (u ''lastNetworkingStatus'', 5, nullable (enum_type NetworkCommissioning_NetworkCommissioningStatusEnum), Value VNull),
     (u ''lastNetworkID'', 6, nullable CBytes, Value VNull),
     (u ''lastConnectErrorValue'', 7, nullable CInt, Value VNull),
     (u ''supportedWiFiBands'', 8, optional (CList (enum_type NetworkCommissioning_WiFiBandEnum)), Value VNone),
     (u ''supportedThreadFeatures'', 9, optional (flag_type NetworkCommissioning_ThreadCapabilitiesBitmap), Value VNone),
     (u ''threadVersion'', 10, optional CUint, Value VNone),
     (u ''generatedCommandList'', 65528, CList CUint, EmptyList),
     (u ''acceptedCommandList'', 65529, CList CUint, EmptyList),
     (u ''attributeList'', 65531, CList CUint, EmptyList),
     (u ''featureMap'', 65532, CUint, Value (VInt 0)),
     (u ''clusterRevision'', 65533, CUint, Value (VInt 0))]
     (NetworkCommissioning_commands_1 @ NetworkCommissioning_commands_2)
     (NetworkCommissioning_attributes_1 @ NetworkCommissioning_attributes_2)
     []"

section \<open>NitrogenDioxideConcentrationMeasurement\<close>

definition NitrogenDioxideConcentrationMeasurement_MeasurementUnitEnum :: "(pystr \<times> int) list" where
  "NitrogenDioxideConcentrationMeasurement_MeasurementUnitEnum = [
     (u ''kPpm'', 0),
     (u ''kPpb'', 1),
     (u ''kPpt'', 2),
     (u ''kMgm3'', 3),
     (u ''kUgm3'', 4),
     (u ''kNgm3'', 5),
     (u ''kPm3'', 6),
     (u ''kBqm3'', 7),
     (u ''kUnknownEnumValue'', 8)]"

definition NitrogenDioxideConcentrationMeasurement_MeasurementMediumEnum :: "(pystr \<times> int) list" where
  "NitrogenDioxideConcentrationMeasurement_MeasurementMediumEnum = [
     (u ''kAir'', 0),
     (u ''kWater'', 1),
     (u ''kSoil'', 2),
     (u ''kUnknownEnumValue'', 3)]"

definition NitrogenDioxideConcentrationMeasurement_LevelValueEnum :: "(pystr \<times> int) list" where
  "NitrogenDioxideConcentrationMeasurement_LevelValueEnum = [
     (u ''kUnknown'', 0),
     (u ''kLow'', 1),
     (u ''kMedium'', 2),
     (u ''kHigh'', 3),
     (u ''kCritical'', 4),
     (u ''kUnknownEnumValue'', 5)]"

definition NitrogenDioxideConcentrationMeasurement_Feature :: "(pystr \<times> int) list" where
  "NitrogenDioxideConcentrationMeasurement_Feature = [
     (u ''kNumericMeasurement'', 1),
     (u ''kLevelIndication'', 2),
     (u ''kMediumLevel'', 4),
     (u ''kCriticalLevel'', 8),
     (u ''kPeakMeasurement'', 16),
     (u ''kAverageMeasurement'', 32)]"

definition NitrogenDioxideConcentrationMeasurement_attributes_1 :: "attribute_class list" where
  "NitrogenDioxideConcentrationMeasurement_attributes_1 = [
     AttributeClass (u ''MeasuredValue'') 1043 0 (optional_nullable CFloat32) (Value VNone),
     AttributeClass (u ''MinMeasuredValue'') 1043 1 (optional_nullable CFloat32) (Value VNone),
     AttributeClass (u ''MaxMeasuredValue'') 1043 2 (optional_nullable CFloat32) (Value VNone),
     AttributeClass (u ''PeakMeasuredValue'') 1043 3 (optional_nullable CFloat32) (Value VNone),
     AttributeClass (u ''PeakMeasuredValueWindow'') 1043 4 (optional CUint) (Value VNone),
     AttributeClass (u ''AverageMeasuredValue'') 1043 5 (optional_nullable CFloat32) (Value VNone),
     AttributeClass (u ''AverageMeasuredValueWindow'') 1043 6 (optional CUint) (Value VNone),
     AttributeClass (u ''Uncertainty'') 1043 7 (optional CFloat32) (Value VNone),
     AttributeClass (u ''MeasurementUnit'') 1043 8 (optional (enum_type NitrogenDioxideConcentrationMeasurement_MeasurementUnitEnum)) (Value VNone)]"

definition NitrogenDioxideConcentrationMeasurement_attributes_2 :: "attribute_class list" where
  "NitrogenDioxideConcentrationMeasurement_attributes_2 = [
     AttributeClass (u ''MeasurementMedium'') 1043 9 (enum_type NitrogenDioxideConcentrationMeasurement_MeasurementMediumEnum) (Value (VInt 0)),
     AttributeClass (u ''LevelValue'') 1043 10 (optional (enum_type NitrogenDioxideConcentrationMeasurement_LevelValueEnum)) (Value VNone),
     AttributeClass (u ''GeneratedCommandList'') 1043 65528 (CList CUint) (EmptyList),
     AttributeClass (u ''AcceptedCommandList'') 1043 65529 (CList CUint) (EmptyList),
     AttributeClass (u ''AttributeList'') 1043 65531 (CList CUint) (EmptyList),
     AttributeClass (u ''FeatureMap'') 1043 65532 CUint (Value (VInt 0)),
     AttributeClass (u ''ClusterRevision'') 1043 65533 CUint (Value (VInt 0))]"

definition NitrogenDioxideConcentrationMeasurement_cluster :: "cluster_def" where
  "NitrogenDioxideConcentrationMeasurement_cluster = ClusterDef (u ''NitrogenDioxideConcentrationMeasurement'') 1043 [
     (u ''measuredValue'', 0, optional_nullable CFloat32, Value VNone),
     (u ''minMeasuredValue'', 1, optional_nullable CFloat32, Value VNone),
     (u ''maxMeasuredValue'', 2, optional_nullable CFloat32, Value VNone),
     (u ''peakMeasuredValue'', 3, optional_nullable CFloat32, Value VNone),
     (u ''peakMeasuredValueWindow'', 4, optional CUint, Value VNone),
     (u ''averageMeasuredValue'', 5, optional_nullable CFloat32, Value VNone),
     (u ''averageMeasuredValueWindow'', 6, optional CUint, Value VNone),
     (u ''uncertainty'', 7, optional CFloat32, Value VNone),
     (u ''measurementUnit'', 8, optional (enum_type NitrogenDioxideConcentrationMeasurement_MeasurementUnitEnum), Value VNone),
     (u ''measurementMedium'', 9, enum_type NitrogenDioxideConcentrationMeasurement_MeasurementMediumEnum, Value (VInt 0)),
     (u ''levelValue'', 10, optional (enum_type NitrogenDioxideConcentrationMeasurement_LevelValueEnum), Value VNone),
     (u ''generatedCommandList'', 65528, CList CUint, EmptyList),
     (u ''acceptedCommandList'', 65529, CList CUint, EmptyList),
     (u ''attributeList'', 65531, CList CUint, EmptyList),
     (u ''featureMap'', 65532, CUint, Value (VInt 0)),
     (u ''clusterRevision'', 65533, CUint, Value (VInt 0))]
     []
     (NitrogenDioxideConcentrationMeasurement_attributes_1 @ NitrogenDioxideConcentrationMeasurement_attributes_2)
     []"

section \<open>OccupancySensing\<close>

definition OccupancySensing_OccupancySensorTypeEnum :: "(pystr \<times> int) list" where
  "OccupancySensing_OccupancySensorTypeEnum = [
     (u ''kPir'', 0),
     (u ''kUltrasonic'', 1),
     (u ''kPIRAndUltrasonic'', 2),
     (u ''kPhysicalContact'', 3),
     (u ''kUnknownEnumValue'', 4)]"

definition OccupancySensing_Feature :: "(pystr \<times> int) list" where
  "OccupancySensing_Feature = [
     (u ''kOther'', 1),
     (u ''kPassiveInfrared'', 2),
     (u ''kUltrasonic'', 4),
     (u ''kPhysicalContact'', 8),
     (u ''kActiveInfrared'', 16),
     (u ''kRadar'', 32),
     (u ''kRFSensing'', 64),
     (u ''kVision'', 128),
     (u ''kOccupancyEvent'', 512)]"

definition OccupancySensing_OccupancyBitmap :: "(pystr \<times> int) list" where
  "OccupancySensing_OccupancyBitmap = [
     (u ''kOccupied'', 1)]"

definition OccupancySensing_OccupancySensorTypeBitmap :: "(pystr \<times> int) list" where
  "OccupancySensing_OccupancySensorTypeBitmap = [
     (u ''kPir'', 1),
     (u ''kUltrasonic'', 2),
     (u ''kPhysicalContact'', 4)]"

definition OccupancySensing_HoldTimeLimitsStruct :: "dfield list" where
  "OccupancySensing_HoldTimeLimitsStruct = [
     (u ''holdTimeMin'', 0, CUint, Value (VInt 0)),
     (u ''holdTimeMax'', 1, CUint, Value (VInt 0)),
     (u ''holdTimeDefault'', 2, CUint, Value (VInt 0))]"

definition OccupancySensing_attributes_1 :: "attribute_class list" where
  "OccupancySensing_attributes_1 = [
     AttributeClass (u ''Occupancy'') 1030 0 (flag_type OccupancySensing_OccupancyBitmap) (Value (VInt 0)),
     AttributeClass (u ''OccupancySensorType'') 1030 1 (enum_type OccupancySensing_OccupancySensorTypeEnum) (Value (VInt 0)),
     AttributeClass (u ''OccupancySensorTypeBitmap'') 1030 2 (flag_type OccupancySensing_OccupancySensorTypeBitmap) (Value (VInt 0)),
     AttributeClass (u ''HoldTime'') 1030 3 (optional CUint) (Value VNone),
     AttributeClass (u ''HoldTimeLimits'') 1030 4 (optional (struct_type OccupancySensing_HoldTimeLimitsStruct)) (Value VNone),
     AttributeClass (u ''PIROccupiedToUnoccupiedDelay'') 1030 16 (optional CUint) (Value VNone),
     AttributeClass (u ''PIRUnoccupiedToOccupiedDelay'') 1030 17 (optional CUint) (Value VNone),
     AttributeClass (u ''PIRUnoccupiedToOccupiedThreshold'') 1030 18 (optional CUint) (Value VNone),
     AttributeClass (u ''UltrasonicOccupiedToUnoccupiedDelay'') 1030 32 (optional CUint) (Value VNone)]"

definition OccupancySensing_attributes_2 :: "attribute_class list" where
  "OccupancySensing_attributes_2 = [
     AttributeClass (u ''UltrasonicUnoccupiedToOccupiedDelay'') 1030 33 (optional CUint) (Value VNone),
     AttributeClass (u ''UltrasonicUnoccupiedToOccupiedThreshold'') 1030 34 (optional CUint) (Value VNone),
     AttributeClass (u ''PhysicalContactOccupiedToUnoccupiedDelay'') 1030 48 (optional CUint) (Value VNone),
     AttributeClass (u ''PhysicalContactUnoccupiedToOccupiedDelay'') 1030 49 (optional CUint) (Value VNone),
     AttributeClass (u ''PhysicalContactUnoccupiedToOccupiedThreshold'') 1030 50 (optional CUint) (Value VNone),
     AttributeClass (u ''GeneratedCommandList'') 1030 65528 (CList CUint) (EmptyList),
     AttributeClass (u ''AcceptedCommandList'') 1030 65529 (CList CUint) (EmptyList),
     AttributeClass (u ''AttributeList'') 1030 65531 (CList CUint) (EmptyList),
     AttributeClass (u ''FeatureMap'') 1030 65532 CUint (Value (VInt 0))]"

definition OccupancySensing_attributes_3 :: "attribute_class list" where
  "OccupancySensing_attributes_3 = [
     AttributeClass (u ''ClusterRevision'') 1030 65533 CUint (Value (VInt 0))]"

definition OccupancySensing_events :: "event_class list" where
  "OccupancySensing_events = [
     EventClass (u ''OccupancyChanged'') 1030 0 [(u ''occupancy'', 0, flag_type OccupancySensing_OccupancyBitmap, Value (VInt 0))]]"

definition OccupancySensing_cluster :: "cluster_def" where
  "OccupancySensing_cluster = ClusterDef (u ''OccupancySensing'') 1030 [
     (u ''occupancy'', 0, flag_type OccupancySensing_OccupancyBitmap, Value (VInt 0)),
     (u ''occupancySensorType'', 1, enum_type OccupancySensing_OccupancySensorTypeEnum, Value (VInt 0)),
     (u ''occupancySensorTypeBitmap'', 2, flag_type OccupancySensing_OccupancySensorTypeBitmap, Value (VInt 0)),
     (u ''holdTime'', 3, optional CUint, Value VNone),
     (u ''holdTimeLimits'', 4, optional (struct_type OccupancySensing_HoldTimeLimitsStruct), Value VNone),
     (u ''PIROccupiedToUnoccupiedDelay'', 16, optional CUint, Value VNone),
     (u ''PIRUnoccupiedToOccupiedDelay'', 17, optional CUint, Value VNone),
     (u ''PIRUnoccupiedToOccupiedThreshold'', 18, optional CUint, Value VNone),
     (u ''ultrasonicOccupiedToUnoccupiedDelay'', 32, optional CUint, Value VNone),
     (u ''ultrasonicUnoccupiedToOccupiedDelay'', 33, optional CUint, Value VNone),
     (u ''ultrasonicUnoccupiedToOccupiedThreshold'', 34, optional CUint, Value VNone),
     (u ''physicalContactOccupiedToUnoccupiedDelay'', 48, optional CUint, Value VNone),
     (u ''physicalContactUnoccupiedToOccupiedDelay'', 49, optional CUint, Value VNone),
     (u ''physicalContactUnoccupiedToOccupiedThreshold'', 50, optional CUint, Value VNone),
     (u ''generatedCommandList'', 65528, CList CUint, EmptyList),
     (u ''acceptedCommandList'', 65529, CList CUint, EmptyList),
     (u ''attributeList'', 65531, CList CUint, EmptyList),
     (u ''featureMap'', 65532, CUint, Value (VInt 0)),
     (u ''clusterRevision'', 65533, CUint, Value (VInt 0))]
     []
     (OccupancySensing_attributes_1 @ OccupancySensing_attributes_2 @ OccupancySensing_attributes_3)
     OccupancySensing_events"

section \<open>OnOff\<close>

definition OnOff_StartUpOnOffEnum :: "(pystr \<times> int) list" where
  "OnOff_StartUpOnOffEnum = [
     (u ''kOff'', 0),
     (u ''kOn'', 1),
     (u ''kToggle'', 2),
     (u ''kUnknownEnumValue'', 3)]"

definition OnOff_EffectIdentifierEnum :: "(pystr \<times> int) list" where
  "OnOff_EffectIdentifierEnum = [
     (u ''kDelayedAllOff'', 0),
     (u ''kDyingLight'', 1),
     (u ''kUnknownEnumValue'', 2)]"

definition OnOff_DelayedAllOffEffectVariantEnum :: "(pystr \<times> int) list" where
  "OnOff_DelayedAllOffEffectVariantEnum = [
     (u ''kDelayedOffFastFade'', 0),
     (u ''kNoFade'', 1),
     (u ''kDelayedOffSlowFade'', 2),
     (u ''kUnknownEnumValue'', 3)]"

definition OnOff_DyingLightEffectVariantEnum :: "(pystr \<times> int) list" where
  "OnOff_DyingLightEffectVariantEnum = [
     (u ''kDyingLightFadeOff'', 0),
     (u ''kUnknownEnumValue'', 1)]"

definition OnOff_Feature :: "(pystr \<times> int) list" where
  "OnOff_Feature = [
     (u ''kLighting'', 1),
     (u ''kDeadFrontBehavior'', 2),
     (u ''kOffOnly'', 4)]"

definition OnOff_OnOffControlBitmap :: "(pystr \<times> int) list" where
  "OnOff_OnOffControlBitmap = [
     (u ''kAcceptOnlyWhenOn'', 1)]"

definition OnOff_commands :: "command_class list" where
  "OnOff_commands = [
     CommandClass (u ''Off'') 6 0 True None False [],
     CommandClass (u ''On'') 6 1 True None False [],
     CommandClass (u ''Toggle'') 6 2 True None False [],
     CommandClass (u ''OffWithEffect'') 6 64 True None False [(u ''effectIdentifier'', 0, enum_type OnOff_EffectIdentifierEnum, Value (VInt 0)),
       (u ''effectVariant'', 1, enum_type Globals_enum8, Value (VInt 0))],
     CommandClass (u ''OnWithRecallGlobalScene'') 6 65 True None False [],
     CommandClass (u ''OnWithTimedOff'') 6 66 True None False [(u ''onOffControl'', 0, flag_type OnOff_OnOffControlBitmap, Value (VInt 0)),
       (u ''onTime'', 1, CUint, Value (VInt 0)),
       (u ''offWaitTime'', 2, CUint, Value (VInt 0))]]"

definition OnOff_attributes_1 :: "attribute_class list" where
  "OnOff_attributes_1 = [
     AttributeClass (u ''OnOff'') 6 0 CBool (Value (VBool False)),
     AttributeClass (u ''GlobalSceneControl'') 6 16384 (optional CBool) (Value VNone),
     AttributeClass (u ''OnTime'') 6 16385 (optional CUint) (Value VNone),
     AttributeClass (u ''OffWaitTime'') 6 16386 (optional CUint) (Value VNone),
     AttributeClass (u ''StartUpOnOff'') 6 16387 (optional_nullable (enum_type OnOff_StartUpOnOffEnum)) (Value VNone),
     AttributeClass (u ''GeneratedCommandList'') 6 65528 (CList CUint) (EmptyList),
     AttributeClass (u ''AcceptedCommandList'') 6 65529 (CList CUint) (EmptyList),
     AttributeClass (u ''AttributeList'') 6 65531 (CList CUint) (EmptyList),
     AttributeClass (u ''FeatureMap'') 6 65532 CUint (Value (VInt 0))]"

definition OnOff_attributes_2 :: "attribute_class list" where
  "OnOff_attributes_2 = [
     AttributeClass (u ''ClusterRevision'') 6 65533 CUint (Value (VInt 0))]"

definition OnOff_cluster :: "cluster_def" where
  "OnOff_cluster = ClusterDef (u ''OnOff'') 6 [
     (u ''onOff'', 0, CBool, Value (VBool False)),
     (u ''globalSceneControl'', 16384, optional CBool, Value VNone),
     (u ''onTime'', 16385, optional CUint, Value VNone),
     (u ''offWaitTime'', 16386, optional CUint, Value VNone),
     (u ''startUpOnOff'', 16387, optional_nullable (enum_type OnOff_StartUpOnOffEnum), Value VNone),
     (u ''generatedCommandList'', 65528, CList CUint, EmptyList),
     (u ''acceptedCommandList'', 65529, CList CUint, EmptyList),
     (u ''attributeList'', 65531, CList CUint, EmptyList),
     (u ''featureMap'', 65532, CUint, Value (VInt 0)),
     (u ''clusterRevision'', 65533, CUint, Value (VInt 0))]
     OnOff_commands
     (OnOff_attributes_1 @ OnOff_attributes_2)
     []"

section \<open>Consistency\<close>

lemma KeypadInput_cluster_ok: "cluster_ok KeypadInput_cluster" "cd_id KeypadInput_cluster = 1289"
  by (simp_all add: class_simps KeypadInput_commands_def
    KeypadInput_attributes_def
    KeypadInput_cluster_def del: u_simps)

lemma LaundryDryerControls_cluster_ok: "cluster_ok LaundryDryerControls_cluster" "cd_id LaundryDryerControls_cluster = 74"
  by (simp_all add: class_simps LaundryDryerControls_attributes_def
    LaundryDryerControls_cluster_def del: u_simps)

lemma LaundryWasherControls_cluster_ok: "cluster_ok LaundryWasherControls_cluster" "cd_id LaundryWasherControls_cluster = 83"
  by (simp_all add: class_simps LaundryWasherControls_attributes_def
    LaundryWasherControls_cluster_def del: u_simps)

lemma LaundryWasherMode_members_ok [simp]: "members_ok LaundryWasherMode_ModeTagStruct"
    "members_ok LaundryWasherMode_ModeOptionStruct"
  by (simp_all add: class_simps LaundryWasherMode_ModeTagStruct_def
    LaundryWasherMode_ModeOptionStruct_def del: u_simps)

lemma LaundryWasherMode_cluster_ok: "cluster_ok LaundryWasherMode_cluster" "cd_id LaundryWasherMode_cluster = 81"
  by (simp_all add: class_simps LaundryWasherMode_commands_def
    LaundryWasherMode_attributes_def
    LaundryWasherMode_cluster_def del: u_simps)

lemma LevelControl_cluster_ok: "cluster_ok LevelControl_cluster" "cd_id LevelControl_cluster = 8"
  by (simp_all add: class_simps LevelControl_commands_1_def
    LevelControl_commands_2_def
    LevelControl_attributes_1_def
    LevelControl_attributes_2_def
    LevelControl_attributes_3_def
    LevelControl_cluster_def del: u_simps)

lemma LocalizationConfiguration_cluster_ok: "cluster_ok LocalizationConfiguration_cluster" "cd_id LocalizationConfiguration_cluster = 43"
  by (simp_all add: class_simps LocalizationConfiguration_attributes_def
    LocalizationConfiguration_cluster_def del: u_simps)

lemma LowPower_cluster_ok: "cluster_ok LowPower_cluster" "cd_id LowPower_cluster = 1288"
  by (simp_all add: class_simps LowPower_commands_def
    LowPower_attributes_def
    LowPower_cluster_def del: u_simps)

lemma MediaInput_members_ok [simp]: "members_ok MediaInput_InputInfoStruct"
  by (simp_all add: class_simps MediaInput_InputInfoStruct_def del: u_simps)

lemma MediaInput_cluster_ok: "cluster_ok MediaInput_cluster" "cd_id MediaInput_cluster = 1287"
  by (simp_all add: class_simps MediaInput_commands_def
    MediaInput_attributes_def
    MediaInput_cluster_def del: u_simps)

lemma Messages_members_ok [simp]: "members_ok Messages_MessageResponseOptionStruct"
    "members_ok Messages_MessageStruct"
  by (simp_all add: class_simps Messages_MessageResponseOptionStruct_def
    Messages_MessageStruct_def del: u_simps)

lemma Messages_cluster_ok: "cluster_ok Messages_cluster" "cd_id Messages_cluster = 151"
  by (simp_all add: class_simps Messages_commands_def
    Messages_attributes_def
    Messages_events_def
    Messages_cluster_def del: u_simps)

lemma MeterIdentification_cluster_ok: "cluster_ok MeterIdentification_cluster" "cd_id MeterIdentification_cluster = 2822"
  by (simp_all add: class_simps MeterIdentification_attributes_1_def
    MeterIdentification_attributes_2_def
    MeterIdentification_cluster_def del: u_simps)

lemma MicrowaveOvenControl_cluster_ok: "cluster_ok MicrowaveOvenControl_cluster" "cd_id MicrowaveOvenControl_cluster = 95"
  by (simp_all add: class_simps MicrowaveOvenControl_commands_def
    MicrowaveOvenControl_attributes_1_def
    MicrowaveOvenControl_attributes_2_def
    MicrowaveOvenControl_cluster_def del: u_simps)

lemma MicrowaveOvenMode_members_ok [simp]: "members_ok MicrowaveOvenMode_ModeTagStruct"
    "members_ok MicrowaveOvenMode_ModeOptionStruct"
  by (simp_all add: class_simps MicrowaveOvenMode_ModeTagStruct_def
    MicrowaveOvenMode_ModeOptionStruct_def del: u_simps)

lemma MicrowaveOvenMode_cluster_ok: "cluster_ok MicrowaveOvenMode_cluster" "cd_id MicrowaveOvenMode_cluster = 94"
  by (simp_all add: class_simps MicrowaveOvenMode_commands_def
    MicrowaveOvenMode_attributes_def
    MicrowaveOvenMode_cluster_def del: u_simps)

lemma NeoCluster_cluster_ok: "cluster_ok NeoCluster_cluster" "cd_id NeoCluster_cluster = 308149265"
  by (simp_all add: class_simps NeoCluster_attributes_def
    NeoCluster_cluster_def del: u_simps)

lemma NetworkCommissioning_members_ok [simp]: "members_ok NetworkCommissioning_NetworkInfoStruct"
    "members_ok NetworkCommissioning_WiFiInterfaceScanResultStruct"
    "members_ok NetworkCommissioning_ThreadInterfaceScanResultStruct"
  by (simp_all add: class_simps NetworkCommissioning_NetworkInfoStruct_def
    NetworkCommissioning_WiFiInterfaceScanResultStruct_def
    NetworkCommissioning_ThreadInterfaceScanResultStruct_def del: u_simps)

lemma NetworkCommissioning_cluster_ok: "cluster_ok NetworkCommissioning_cluster" "cd_id NetworkCommissioning_cluster = 49"
  by (simp_all add: class_simps NetworkCommissioning_commands_1_def
    NetworkCommissioning_commands_2_def
    NetworkCommissioning_attributes_1_def
    NetworkCommissioning_attributes_2_def
    NetworkCommissioning_cluster_def del: u_simps)

lemma NitrogenDioxideConcentrationMeasurement_cluster_ok: "cluster_ok NitrogenDioxideConcentrationMeasurement_cluster" "cd_id NitrogenDioxideConcentrationMeasurement_cluster = 1043"
  by (simp_all add: class_simps NitrogenDioxideConcentrationMeasurement_attributes_1_def
    NitrogenDioxideConcentrationMeasurement_attributes_2_def
    NitrogenDioxideConcentrationMeasurement_cluster_def del: u_simps)

lemma OccupancySensing_members_ok [simp]: "members_ok OccupancySensing_HoldTimeLimitsStruct"
  by (simp_all add: class_simps OccupancySensing_HoldTimeLimitsStruct_def del: u_simps)

lemma OccupancySensing_cluster_ok: "cluster_ok OccupancySensing_cluster" "cd_id OccupancySensing_cluster = 1030"
  by (simp_all add: class_simps OccupancySensing_attributes_1_def
    OccupancySensing_attributes_2_def
    OccupancySensing_attributes_3_def
    OccupancySensing_events_def
    OccupancySensing_cluster_def del: u_simps)

lemma OnOff_cluster_ok: "cluster_ok OnOff_cluster" "cd_id OnOff_cluster = 6"
  by (simp_all add: class_simps OnOff_commands_def
    OnOff_attributes_1_def
    OnOff_attributes_2_def
    OnOff_cluster_def del: u_simps)

end
