(* ===== verification/Clusters_OperationalCredentials.thy ===== *)
theory Clusters_OperationalCredentials
  imports Clusters_Base
begin

text \<open>
  The generated files \<open>OperationalCredentials.py\<close> to \<open>PowerTopology.py\<close> of \<open>chip/clusters/cluster_defs/\<close>, in the form of
  \<open>Clusters_Base\<close>.
\<close>

section \<open>OperationalCredentials\<close>

definition OperationalCredentials_CertificateChainTypeEnum :: "(pystr \<times> int) list" where
  "OperationalCredentials_CertificateChainTypeEnum = [
     (u ''kDACCertificate'', 1),
     (u ''kPAICertificate'', 2),
     (u ''kUnknownEnumValue'', 3)]"

definition OperationalCredentials_NodeOperationalCertStatusEnum :: "(pystr \<times> int) list" where
  "OperationalCredentials_NodeOperationalCertStatusEnum = [
     (u ''kOk'', 0),
     (u ''kInvalidPublicKey'', 1),
     (u ''kInvalidNodeOpId'', 2),
     (u ''kInvalidNOC'', 3),
     (u ''kMissingCsr'', 4),
     (u ''kTableFull'', 5),
     (u ''kInvalidAdminSubject'', 6),
     (u ''kFabricConflict'', 9),
     (u ''kLabelConflict'', 10),
     (u ''kInvalidFabricIndex'', 11),
     (u ''kUnknownEnumValue'', 12)]"

definition OperationalCredentials_NOCStruct :: "dfield list" where
  "OperationalCredentials_NOCStruct = [
     (u ''noc'', 1, CBytes, Value (VBytes [])),
     (u ''icac'', 2, nullable CBytes, Value VNull),
     (u ''vvsc'', 3, optional CBytes, Value VNone),
     (u ''fabricIndex'', 254, CUint, Value (VInt 0))]"

definition OperationalCredentials_FabricDescriptorStruct :: "dfield list" where
  "OperationalCredentials_FabricDescriptorStruct = [
     (u ''rootPublicKey'', 1, CBytes, Value (VBytes [])),
     (u ''vendorID'', 2, CUint, Value (VInt 0)),
     (u ''fabricID'', 3, CUint, Value (VInt 0)),
     (u ''nodeID'', 4, CUint, Value (VInt 0)),
     (u ''label'', 5, CStr, Value (VStr [])),
     (u ''VIDVerificationStatement'', 6, optional CBytes, Value VNone),
     (u ''fabricIndex'', 254, CUint, Value (VInt 0))]"

definition OperationalCredentials_commands_1 :: "command_class list" where
  "OperationalCredentials_commands_1 = [
     CommandClass (u ''AttestationRequest'') 62 0 True (Some (u ''AttestationResponse'')) False [(u ''attestationNonce'', 0, CBytes, Value (VBytes []))],
     CommandClass (u ''CertificateChainRequest'') 62 2 True (Some (u ''CertificateChainResponse'')) False [(u ''certificateType'', 0, enum_type OperationalCredentials_CertificateChainTypeEnum, Value (VInt 0))],
     CommandClass (u ''CSRRequest'') 62 4 True (Some (u ''CSRResponse'')) False [(u ''CSRNonce'', 0, CBytes, Value (VBytes [])),
       (u ''isForUpdateNOC'', 1, optional CBool, Value VNone)],
     CommandClass (u ''AddNOC'') 62 6 True (Some (u ''NOCResponse'')) False [(u ''NOCValue'', 0, CBytes, Value (VBytes [])),
       (u ''ICACValue'', 1, optional CBytes, Value VNone),
       (u ''IPKValue'', 2, CBytes, Value (VBytes [])),
       (u ''caseAdminSubject'', 3, CUint, Value (VInt 0)),
       (u ''adminVendorId'', 4, CUint, Value (VInt 0))],
     CommandClass (u ''UpdateNOC'') 62 7 True (Some (u ''NOCResponse'')) False [(u ''NOCValue'', 0, CBytes, Value (VBytes [])),
       (u ''ICACValue'', 1, optional CBytes, Value VNone)],
     CommandClass (u ''UpdateFabricLabel'') 62 9 True (Some (u ''NOCResponse'')) False [(u ''label'', 0, CStr, Value (VStr []))],
     CommandClass (u ''RemoveFabric'') 62 10 True (Some (u ''NOCResponse'')) False [(u ''fabricIndex'', 0, CUint, Value (VInt 0))],
     CommandClass (u ''AddTrustedRootCertificate'') 62 11 True None False [(u ''rootCACertificate'', 0, CBytes, Value (VBytes []))]]"

definition OperationalCredentials_commands_2 :: "command_class list" where
  "OperationalCredentials_commands_2 = [
     CommandClass (u ''SetVIDVerificationStatement'') 62 12 True None False [(u ''vendorID'', 0, optional CUint, Value VNone),
       (u ''VIDVerificationStatement'', 1, optional CBytes, Value VNone),
       (u ''vvsc'', 2, optional CBytes, Value VNone)],
     CommandClass (u ''SignVIDVerificationRequest'') 62 13 True (Some (u ''SignVIDVerificationResponse'')) False [(u ''fabricIndex'', 0, CUint, Value (VInt 0)),
       (u ''clientChallenge'', 1, CBytes, Value (VBytes []))],
     CommandClass (u ''AttestationResponse'') 62 1 False None False [(u ''attestationElements'', 0, CBytes, Value (VBytes [])),
       (u ''attestationSignature'', 1, CBytes, Value (VBytes []))],
     CommandClass (u ''CertificateChainResponse'') 62 3 False None False [(u ''certificate'', 0, CBytes, Value (VBytes []))],
     CommandClass (u ''CSRResponse'') 62 5 False None False [(u ''NOCSRElements'', 0, CBytes, Value (VBytes [])),
       (u ''attestationSignature'', 1, CBytes, Value (VBytes []))],
     CommandClass (u ''NOCResponse'') 62 8 False None False [(u ''statusCode'', 0, enum_type OperationalCredentials_NodeOperationalCertStatusEnum, Value (VInt 0)),
       (u ''fabricIndex'', 1, optional CUint, Value VNone),
       (u ''debugText'', 2, optional CStr, Value VNone)],
     CommandClass (u ''SignVIDVerificationResponse'') 62 14 False None False [(u ''fabricIndex'', 0, CUint, Value (VInt 0)),
       (u ''fabricBindingVersion'', 1, CUint, Value (VInt 0)),
       (u ''signature'', 2, CBytes, Value (VBytes []))]]"

definition OperationalCredentials_attributes_1 :: "attribute_class list" where
  "OperationalCredentials_attributes_1 = [
     AttributeClass (u ''NOCs'') 62 0 (CList (struct_type OperationalCredentials_NOCStruct)) (EmptyList),
     AttributeClass (u ''Fabrics'') 62 1 (CList (struct_type OperationalCredentials_FabricDescriptorStruct)) (EmptyList),
     AttributeClass (u ''SupportedFabrics'') 62 2 CUint (Value (VInt 0)),
     AttributeClass (u ''CommissionedFabrics'') 62 3 CUint (Value (VInt 0)),
     AttributeClass (u ''TrustedRootCertificates'') 62 4 (CList CBytes) (EmptyList),
     AttributeClass (u ''CurrentFabricIndex'') 62 5 CUint (Value (VInt 0)),
     AttributeClass (u ''GeneratedCommandList'') 62 65528 (CList CUint) (EmptyList),
     AttributeClass (u ''AcceptedCommandList'') 62 65529 (CList CUint) (EmptyList),
     AttributeClass (u ''AttributeList'') 62 65531 (CList CUint) (EmptyList)]"

definition OperationalCredentials_attributes_2 :: "attribute_class list" where
  "OperationalCredentials_attributes_2 = [
     AttributeClass (u ''FeatureMap'') 62 65532 CUint (Value (VInt 0)),
     AttributeClass (u ''ClusterRevision'') 62 65533 CUint (Value (VInt 0))]"

definition OperationalCredentials_cluster :: "cluster_def" where
  "OperationalCredentials_cluster = ClusterDef (u ''OperationalCredentials'') 62 [
     (u ''NOCs'', 0, CList (struct_type OperationalCredentials_NOCStruct), EmptyList),
     (u ''fabrics'', 1, CList (struct_type OperationalCredentials_FabricDescriptorStruct), EmptyList),
     (u ''supportedFabrics'', 2, CUint, Value (VInt 0)),
     (u ''commissionedFabrics'', 3, CUint, Value (VInt 0)),
     (u ''trustedRootCertificates'', 4, CList CBytes, EmptyList),
     (u ''currentFabricIndex'', 5, CUint, Value (VInt 0)),
     (u ''generatedCommandList'', 65528, CList CUint, EmptyList),
     (u ''acceptedCommandList'', 65529, CList CUint, EmptyList),
     (u ''attributeList'', 65531, CList CUint, EmptyList),
     (u ''featureMap'', 65532, CUint, Value (VInt 0)),
     (u ''clusterRevision'', 65533, CUint, Value (VInt 0))]
     (OperationalCredentials_commands_1 @ OperationalCredentials_commands_2)
     (OperationalCredentials_attributes_1 @ OperationalCredentials_attributes_2)
     []"

section \<open>OperationalState\<close>

definition OperationalState_OperationalStateEnum :: "(pystr \<times> int) list" where
  "OperationalState_OperationalStateEnum = [
     (u ''kStopped'', 0),
     (u ''kRunning'', 1),
     (u ''kPaused'', 2),
     (u ''kError'', 3),
     (u ''kUnknownEnumValue'', 4)]"

definition OperationalState_ErrorStateEnum :: "(pystr \<times> int) list" where
  "OperationalState_ErrorStateEnum = [
     (u ''kNoError'', 0),
     (u ''kUnableToStartOrResume'', 1),
     (u ''kUnableToCompleteOperation'', 2),
     (u ''kCommandInvalidInState'', 3),
     (u ''kUnknownEnumValue'', 4)]"

definition OperationalState_OperationalStateStruct :: "dfield list" where
  "OperationalState_OperationalStateStruct = [
     (u ''operationalStateID'', 0, enum_type OperationalState_OperationalStateEnum, Value (VInt 0)),
     (u ''operationalStateLabel'', 1, optional CStr, Value VNone)]"

definition OperationalState_ErrorStateStruct :: "dfield list" where
  "OperationalState_ErrorStateStruct = [
     (u ''errorStateID'', 0, enum_type OperationalState_ErrorStateEnum, Value (VInt 0)),
     (u ''errorStateLabel'', 1, optional CStr, Value VNone),
     (u ''errorStateDetails'', 2, optional CStr, Value VNone)]"

definition OperationalState_commands :: "command_class list" where
  "OperationalState_commands = [
     CommandClass (u ''Pause'') 96 0 True (Some (u ''OperationalCommandResponse'')) False [],
     CommandClass (u ''Stop'') 96 1 True (Some (u ''OperationalCommandResponse'')) False [],
     CommandClass (u ''Start'') 96 2 True (Some (u ''OperationalCommandResponse'')) False [],
     CommandClass (u ''Resume'') 96 3 True (Some (u ''OperationalCommandResponse'')) False [],
     CommandClass (u ''OperationalCommandResponse'') 96 4 False None False [(u ''commandResponseState'', 0, struct_type OperationalState_ErrorStateStruct, Instance OperationalState_ErrorStateStruct)]]"

definition OperationalState_attributes_1 :: "attribute_class list" where
  "OperationalState_attributes_1 = [
     AttributeClass (u ''PhaseList'') 96 0 (nullable (CList CStr)) (Value VNull),
     AttributeClass (u ''CurrentPhase'') 96 1 (nullable CUint) (Value VNull),
     AttributeClass (u ''CountdownTime'') 96 2 (optional_nullable CUint) (Value VNone),
     AttributeClass (u ''OperationalStateList'') 96 3 (CList (struct_type OperationalState_OperationalStateStruct)) (EmptyList),
     AttributeClass (u ''OperationalState'') 96 4 (enum_type OperationalState_OperationalStateEnum) (Value (VInt 0)),
     AttributeClass (u ''OperationalError'') 96 5 (struct_type OperationalState_ErrorStateStruct) (Instance OperationalState_ErrorStateStruct),
     AttributeClass (u ''GeneratedCommandList'') 96 65528 (CList CUint) (EmptyList),
     AttributeClass (u ''AcceptedCommandList'') 96 65529 (CList CUint) (EmptyList),
     AttributeClass (u ''AttributeList'') 96 65531 (CList CUint) (EmptyList)]"

definition OperationalState_attributes_2 :: "attribute_class list" where
  "OperationalState_attributes_2 = [
     AttributeClass (u ''FeatureMap'') 96 65532 CUint (Value (VInt 0)),
     AttributeClass (u ''ClusterRevision'') 96 65533 CUint (Value (VInt 0))]"

definition OperationalState_events :: "event_class list" where
  "OperationalState_events = [
     EventClass (u ''OperationalError'') 96 0 [(u ''errorState'', 0, struct_type OperationalState_ErrorStateStruct, Instance OperationalState_ErrorStateStruct)],
     EventClass (u ''OperationCompletion'') 96 1 [(u ''completionErrorCode'', 0, enum_type Globals_enum8, Value (VInt 0)),
       (u ''totalOperationalTime'', 1, optional_nullable CUint, Value VNone),
       (u ''pausedTime'', 2, optional_nullable CUint, Value VNone)]]"

definition OperationalState_cluster :: "cluster_def" where
  "OperationalState_cluster = ClusterDef (u ''OperationalState'') 96 [
     (u ''phaseList'', 0, nullable (CList CStr), Value VNull),
     (u ''currentPhase'', 1, nullable CUint, Value VNull),
     (u ''countdownTime'', 2, optional_nullable CUint, Value VNone),
     (u ''operationalStateList'', 3, CList (struct_type OperationalState_OperationalStateStruct), EmptyList),
     (u ''operationalState'', 4, enum_type OperationalState_OperationalStateEnum, Value (VInt 0)),
     (u ''operationalError'', 5, struct_type OperationalState_ErrorStateStruct, Instance OperationalState_ErrorStateStruct),
     (u ''generatedCommandList'', 65528, CList CUint, EmptyList),
     (u ''acceptedCommandList'', 65529, CList CUint, EmptyList),
     (u ''attributeList'', 65531, CList CUint, EmptyList),
     (u ''featureMap'', 65532, CUint, Value (VInt 0)),
     (u ''clusterRevision'', 65533, CUint, Value (VInt 0))]
     OperationalState_commands
     (OperationalState_attributes_1 @ OperationalState_attributes_2)
     OperationalState_events"

section \<open>OtaSoftwareUpdateProvider\<close>

definition OtaSoftwareUpdateProvider_StatusEnum :: "(pystr \<times> int) list" where
  "OtaSoftwareUpdateProvider_StatusEnum = [
     (u ''kUpdateAvailable'', 0),
     (u ''kBusy'', 1),
     (u ''kNotAvailable'', 2),
     (u ''kDownloadProtocolNotSupported'', 3),
     (u ''kUnknownEnumValue'', 4)]"

definition OtaSoftwareUpdateProvider_ApplyUpdateActionEnum :: "(pystr \<times> int) list" where
  "OtaSoftwareUpdateProvider_ApplyUpdateActionEnum = [
     (u ''kProceed'', 0),
     (u ''kAwaitNextAction'', 1),
     (u ''kDiscontinue'', 2),
     (u ''kUnknownEnumValue'', 3)]"

definition OtaSoftwareUpdateProvider_DownloadProtocolEnum :: "(pystr \<times> int) list" where
  "OtaSoftwareUpdateProvider_DownloadProtocolEnum = [
     (u ''kBDXSynchronous'', 0),
     (u ''kBDXAsynchronous'', 1),
     (u ''kHttps'', 2),
     (u ''kVendorSpecific'', 3),
     (u ''kUnknownEnumValue'', 4)]"

definition OtaSoftwareUpdateProvider_commands :: "command_class list" where
  "OtaSoftwareUpdateProvider_commands = [
     CommandClass (u ''QueryImage'') 41 0 True (Some (u ''QueryImageResponse'')) False [(u ''vendorID'', 0, CUint, Value (VInt 0)),
       (u ''productID'', 1, CUint, Value (VInt 0)),
       (u ''softwareVersion'', 2, CUint, Value (VInt 0)),
       (u ''protocolsSupported'', 3, CList (enum_type OtaSoftwareUpdateProvider_DownloadProtocolEnum), EmptyList),
       (u ''hardwareVersion'', 4, optional CUint, Value VNone),
       (u ''location'', 5, optional CStr, Value VNone),
       (u ''requestorCanConsent'', 6, optional CBool, Value VNone),
       (u ''metadataForProvider'', 7, optional CBytes, Value VNone)],
     CommandClass (u ''ApplyUpdateRequest'') 41 2 True (Some (u ''ApplyUpdateResponse'')) False [(u ''updateToken'', 0, CBytes, Value (VBytes [])),
       (u ''newVersion'', 1, CUint, Value (VInt 0))],
     CommandClass (u ''NotifyUpdateApplied'') 41 4 True None False [(u ''updateToken'', 0, CBytes, Value (VBytes [])),
       (u ''softwareVersion'', 1, CUint, Value (VInt 0))],
     CommandClass (u ''QueryImageResponse'') 41 1 False None False [(u ''status'', 0, enum_type OtaSoftwareUpdateProvider_StatusEnum, Value (VInt 0)),
       (u ''delayedActionTime'', 1, optional CUint, Value VNone),
       (u ''imageURI'', 2, optional CStr, Value VNone),
       (u ''softwareVersion'', 3, optional CUint, Value VNone),
       (u ''softwareVersionString'', 4, optional CStr, Value VNone),
       (u ''updateToken'', 5, optional CBytes, Value VNone),
       (u ''userConsentNeeded'', 6, optional CBool, Value VNone),
       (u ''metadataForRequestor'', 7, optional CBytes, Value VNone)],
     CommandClass (u ''ApplyUpdateResponse'') 41 3 False None False [(u ''action'', 0, enum_type OtaSoftwareUpdateProvider_ApplyUpdateActionEnum, Value (VInt 0)),
       (u ''delayedActionTime'', 1, CUint, Value (VInt 0))]]"

definition OtaSoftwareUpdateProvider_attributes :: "attribute_class list" where
  "OtaSoftwareUpdateProvider_attributes = [
     AttributeClass (u ''GeneratedCommandList'') 41 65528 (CList CUint) (EmptyList),
     AttributeClass (u ''AcceptedCommandList'') 41 65529 (CList CUint) (EmptyList),
     AttributeClass (u ''AttributeList'') 41 65531 (CList CUint) (EmptyList),
     AttributeClass (u ''FeatureMap'') 41 65532 CUint (Value (VInt 0)),
     AttributeClass (u ''ClusterRevision'') 41 65533 CUint (Value (VInt 0))]"

definition OtaSoftwareUpdateProvider_cluster :: "cluster_def" where
  "OtaSoftwareUpdateProvider_cluster = ClusterDef (u ''OtaSoftwareUpdateProvider'') 41 [
     (u ''generatedCommandList'', 65528, CList CUint, EmptyList),
     (u ''acceptedCommandList'', 65529, CList CUint, EmptyList),
     (u ''attributeList'', 65531, CList CUint, EmptyList),
     (u ''featureMap'', 65532, CUint, Value (VInt 0)),
     (u ''clusterRevision'', 65533, CUint, Value (VInt 0))]
     OtaSoftwareUpdateProvider_commands
     OtaSoftwareUpdateProvider_attributes
     []"

section \<open>OtaSoftwareUpdateRequestor\<close>

definition OtaSoftwareUpdateRequestor_AnnouncementReasonEnum :: "(pystr \<times> int) list" where
  "OtaSoftwareUpdateRequestor_AnnouncementReasonEnum = [
     (u ''kSimpleAnnouncement'', 0),
     (u ''kUpdateAvailable'', 1),
     (u ''kUrgentUpdateAvailable'', 2),
     (u ''kUnknownEnumValue'', 3)]"

definition OtaSoftwareUpdateRequestor_UpdateStateEnum :: "(pystr \<times> int) list" where
  "OtaSoftwareUpdateRequestor_UpdateStateEnum = [
     (u ''kUnknown'', 0),
     (u ''kIdle'', 1),
     (u ''kQuerying'', 2),
     (u ''kDelayedOnQuery'', 3),
     (u ''kDownloading'', 4),
     (u ''kApplying'', 5),
     (u ''kDelayedOnApply'', 6),
     (u ''kRollingBack'', 7),
     (u ''kDelayedOnUserConsent'', 8),
     (u ''kUnknownEnumValue'', 9)]"

definition OtaSoftwareUpdateRequestor_ChangeReasonEnum :: "(pystr \<times> int) list" where
  "OtaSoftwareUpdateRequestor_ChangeReasonEnum = [
     (u ''kUnknown'', 0),
     (u ''kSuccess'', 1),
     (u ''kFailure'', 2),
     (u ''kTimeOut'', 3),
     (u ''kDelayByProvider'', 4),
     (u ''kUnknownEnumValue'', 5)]"

definition OtaSoftwareUpdateRequestor_ProviderLocation :: "dfield list" where
  "OtaSoftwareUpdateRequestor_ProviderLocation = [
     (u ''providerNodeID'', 1, CUint, Value (VInt 0)),
     (u ''endpoint'', 2, CUint, Value (VInt 0)),
     (u ''fabricIndex'', 254, CUint, Value (VInt 0))]"

definition OtaSoftwareUpdateRequestor_commands :: "command_class list" where
  "OtaSoftwareUpdateRequestor_commands = [
     CommandClass (u ''AnnounceOTAProvider'') 42 0 True None False [(u ''providerNodeID'', 0, CUint, Value (VInt 0)),
       (u ''vendorID'', 1, CUint, Value (VInt 0)),
       (u ''announcementReason'', 2, enum_type OtaSoftwareUpdateRequestor_AnnouncementReasonEnum, Value (VInt 0)),
       (u ''metadataForNode'', 3, optional CBytes, Value VNone),
       (u ''endpoint'', 4, CUint, Value (VInt 0))]]"

definition OtaSoftwareUpdateRequestor_attributes :: "attribute_class list" where
  "OtaSoftwareUpdateRequestor_attributes = [
     AttributeClass (u ''DefaultOTAProviders'') 42 0 (CList (struct_type OtaSoftwareUpdateRequestor_ProviderLocation)) (EmptyList),
     AttributeClass (u ''UpdatePossible'') 42 1 CBool (Value (VBool False)),
     AttributeClass (u ''UpdateState'') 42 2 (enum_type OtaSoftwareUpdateRequestor_UpdateStateEnum) (Value (VInt 0)),
     AttributeClass (u ''UpdateStateProgress'') 42 3 (nullable CUint) (Value VNull),
     AttributeClass (u ''GeneratedCommandList'') 42 65528 (CList CUint) (EmptyList),
     AttributeClass (u ''AcceptedCommandList'') 42 65529 (CList CUint) (EmptyList),
     AttributeClass (u ''AttributeList'') 42 65531 (CList CUint) (EmptyList),
     AttributeClass (u ''FeatureMap'') 42 65532 CUint (Value (VInt 0)),
     AttributeClass (u ''ClusterRevision'') 42 65533 CUint (Value (VInt 0))]"

definition OtaSoftwareUpdateRequestor_events :: "event_class list" where
  "OtaSoftwareUpdateRequestor_events = [
     EventClass (u ''StateTransition'') 42 0 [(u ''previousState'', 0, enum_type OtaSoftwareUpdateRequestor_UpdateStateEnum, Value (VInt 0)),
       (u ''newState'', 1, enum_type OtaSoftwareUpdateRequestor_UpdateStateEnum, Value (VInt 0)),
       (u ''reason'', 2, enum_type OtaSoftwareUpdateRequestor_ChangeReasonEnum, Value (VInt 0)),
       (u ''targetSoftwareVersion'', 3, nullable CUint, Value VNull)],
     EventClass (u ''VersionApplied'') 42 1 [(u ''softwareVersion'', 0, CUint, Value (VInt 0)),
       (u ''productID'', 1, CUint, Value (VInt 0))],
     EventClass (u ''DownloadError'') 42 2 [(u ''softwareVersion'', 0, CUint, Value (VInt 0)),
       (u ''bytesDownloaded'', 1, CUint, Value (VInt 0)),
       (u ''progressPercent'', 2, nullable CUint, Value VNull),
       (u ''platformCode'', 3, nullable CInt, Value VNull)]]"

definition OtaSoftwareUpdateRequestor_cluster :: "cluster_def" where
  "OtaSoftwareUpdateRequestor_cluster = ClusterDef (u ''OtaSoftwareUpdateRequestor'') 42 [
     (u ''defaultOTAProviders'', 0, CList (struct_type OtaSoftwareUpdateRequestor_ProviderLocation), EmptyList),
     (u ''updatePossible'', 1, CBool, Value (VBool False)),
     (u ''updateState'', 2, enum_type OtaSoftwareUpdateRequestor_UpdateStateEnum, Value (VInt 0)),
     (u ''updateStateProgress'', 3, nullable CUint, Value VNull),
     (u ''generatedCommandList'', 65528, CList CUint, EmptyList),
     (u ''acceptedCommandList'', 65529, CList CUint, EmptyList),
     (u ''attributeList'', 65531, CList CUint, EmptyList),
     (u ''featureMap'', 65532, CUint, Value (VInt 0)),
     (u ''clusterRevision'', 65533, CUint, Value (VInt 0))]
     OtaSoftwareUpdateRequestor_commands
     OtaSoftwareUpdateRequestor_attributes
     OtaSoftwareUpdateRequestor_events"

section \<open>OvenCavityOperationalState\<close>

definition OvenCavityOperationalState_OperationalStateEnum :: "(pystr \<times> int) list" where
  "OvenCavityOperationalState_OperationalStateEnum = [
     (u ''kStopped'', 0),
     (u ''kRunning'', 1),
     (u ''kPaused'', 2),
     (u ''kError'', 3),
     (u ''kUnknownEnumValue'', 4)]"

definition OvenCavityOperationalState_ErrorStateEnum :: "(pystr \<times> int) list" where
  "OvenCavityOperationalState_ErrorStateEnum = [
     (u ''kNoError'', 0),
     (u ''kUnableToStartOrResume'', 1),
     (u ''kUnableToCompleteOperation'', 2),
     (u ''kCommandInvalidInState'', 3),
     (u ''kUnknownEnumValue'', 4)]"

definition OvenCavityOperationalState_OperationalStateStruct :: "dfield list" where
  "OvenCavityOperationalState_OperationalStateStruct = [
     (u ''operationalStateID'', 0, enum_type OvenCavityOperationalState_OperationalStateEnum, Value (VInt 0)),
     (u ''operationalStateLabel'', 1, optional CStr, Value VNone)]"

definition OvenCavityOperationalState_ErrorStateStruct :: "dfield list" where
  "OvenCavityOperationalState_ErrorStateStruct = [
     (u ''errorStateID'', 0, enum_type OvenCavityOperationalState_ErrorStateEnum, Value (VInt 0)),
     (u ''errorStateLabel'', 1, optional CStr, Value VNone),
     (u ''errorStateDetails'', 2, optional CStr, Value VNone)]"

definition OvenCavityOperationalState_commands :: "command_class list" where
  "OvenCavityOperationalState_commands = [
     CommandClass (u ''Pause'') 72 0 True (Some (u ''OperationalCommandResponse'')) False [],
     CommandClass (u ''Stop'') 72 1 True (Some (u ''OperationalCommandResponse'')) False [],
     CommandClass (u ''Start'') 72 2 True (Some (u ''OperationalCommandResponse'')) False [],
     CommandClass (u ''Resume'') 72 3 True (Some (u ''OperationalCommandResponse'')) False [],
     CommandClass (u ''OperationalCommandResponse'') 72 4 False None False [(u ''commandResponseState'', 0, struct_type OvenCavityOperationalState_ErrorStateStruct, Instance OvenCavityOperationalState_ErrorStateStruct)]]"

definition OvenCavityOperationalState_attributes_1 :: "attribute_class list" where
  "OvenCavityOperationalState_attributes_1 = [
     AttributeClass (u ''PhaseList'') 72 0 (nullable (CList CStr)) (Value VNull),
     AttributeClass (u ''CurrentPhase'') 72 1 (nullable CUint) (Value VNull),
     AttributeClass (u ''CountdownTime'') 72 2 (optional_nullable CUint) (Value VNone),
     AttributeClass (u ''OperationalStateList'') 72 3 (CList (struct_type OvenCavityOperationalState_OperationalStateStruct)) (EmptyList),
     AttributeClass (u ''OperationalState'') 72 4 (enum_type OvenCavityOperationalState_OperationalStateEnum) (Value (VInt 0)),
     AttributeClass (u ''OperationalError'') 72 5 (struct_type OvenCavityOperationalState_ErrorStateStruct) (Instance OvenCavityOperationalState_ErrorStateStruct),
     AttributeClass (u ''GeneratedCommandList'') 72 65528 (CList CUint) (EmptyList),
     AttributeClass (u ''AcceptedCommandList'') 72 65529 (CList CUint) (EmptyList),
     AttributeClass (u ''AttributeList'') 72 65531 (CList CUint) (EmptyList)]"

definition OvenCavityOperationalState_attributes_2 :: "attribute_class list" where
  "OvenCavityOperationalState_attributes_2 = [
     AttributeClass (u ''FeatureMap'') 72 65532 CUint (Value (VInt 0)),
     AttributeClass (u ''ClusterRevision'') 72 65533 CUint (Value (VInt 0))]"

definition OvenCavityOperationalState_events :: "event_class list" where
  "OvenCavityOperationalState_events = [
     EventClass (u ''OperationalError'') 72 0 [(u ''errorState'', 0, struct_type OvenCavityOperationalState_ErrorStateStruct, Instance OvenCavityOperationalState_ErrorStateStruct)],
     EventClass (u ''OperationCompletion'') 72 1 [(u ''completionErrorCode'', 0, enum_type Globals_enum8, Value (VInt 0)),
       (u ''totalOperationalTime'', 1, optional_nullable CUint, Value VNone),
       (u ''pausedTime'', 2, optional_nullable CUint, Value VNone)]]"

definition OvenCavityOperationalState_cluster :: "cluster_def" where
  "OvenCavityOperationalState_cluster = ClusterDef (u ''OvenCavityOperationalState'') 72 [
     (u ''phaseList'', 0, nullable (CList CStr), Value VNull),
     (u ''currentPhase'', 1, nullable CUint, Value VNull),
     (u ''countdownTime'', 2, optional_nullable CUint, Value VNone),
     (u ''operationalStateList'', 3, CList (struct_type OvenCavityOperationalState_OperationalStateStruct), EmptyList),
     (u ''operationalState'', 4, enum_type OvenCavityOperationalState_OperationalStateEnum, Value (VInt 0)),
     (u ''operationalError'', 5, struct_type OvenCavityOperationalState_ErrorStateStruct, Instance OvenCavityOperationalState_ErrorStateStruct),
     (u ''generatedCommandList'', 65528, CList CUint, EmptyList),
     (u ''acceptedCommandList'', 65529, CList CUint, EmptyList),
     (u ''attributeList'', 65531, CList CUint, EmptyList),
     (u ''featureMap'', 65532, CUint, Value (VInt 0)),
     (u ''clusterRevision'', 65533, CUint, Value (VInt 0))]
     OvenCavityOperationalState_commands
     (OvenCavityOperationalState_attributes_1 @ OvenCavityOperationalState_attributes_2)
     OvenCavityOperationalState_events"

section \<open>OvenMode\<close>

definition OvenMode_ModeTag :: "(pystr \<times> int) list" where
  "OvenMode_ModeTag = [
     (u ''kAuto'', 0),
     (u ''kQuick'', 1),
     (u ''kQuiet'', 2),
     (u ''kLowNoise'', 3),
     (u ''kLowEnergy'', 4),
     (u ''kVacation'', 5),
     (u ''kMin'', 6),
     (u ''kMax'', 7),
     (u ''kNight'', 8),
     (u ''kDay'', 9),
     (u ''kBake'', 16384),
     (u ''kConvection'', 16385),
     (u ''kGrill'', 16386),
     (u ''kRoast'', 16387),
     (u ''kClean'', 16388),
     (u ''kConvectionBake'', 16389),
     (u ''kConvectionRoast'', 16390),
     (u ''kWarming'', 16391),
     (u ''kProofing'', 16392),
     (u ''kSteam'', 16393),
     (u ''kAirFry'', 16394),
     (u ''kAirSousVide'', 16395),
     (u ''kFrozenFood'', 16396),
     (u ''kUnknownEnumValue'', 16397)]"

definition OvenMode_ModeChangeStatus :: "(pystr \<times> int) list" where
  "OvenMode_ModeChangeStatus = [
     (u ''kSuccess'', 0),
     (u ''kUnsupportedMode'', 1),
     (u ''kGenericFailure'', 2),
     (u ''kInvalidInMode'', 3),
     (u ''kUnknownEnumValue'', 4)]"

definition OvenMode_Feature :: "(pystr \<times> int) list" where
  "OvenMode_Feature = [
     (u ''kOnOff'', 1)]"

definition OvenMode_ModeTagStruct :: "dfield list" where
  "OvenMode_ModeTagStruct = [
     (u ''mfgCode'', 0, optional CUint, Value VNone),
     (u ''value'', 1, enum_type OvenMode_ModeTag, Value (VInt 0))]"

definition OvenMode_ModeOptionStruct :: "dfield list" where
  "OvenMode_ModeOptionStruct = [
     (u ''label'', 0, CStr, Value (VStr [])),
     (u ''mode'', 1, CUint, Value (VInt 0)),
     (u ''modeTags'', 2, CList (struct_type OvenMode_ModeTagStruct), EmptyList)]"

definition OvenMode_commands :: "command_class list" where
  "OvenMode_commands = [
     CommandClass (u ''ChangeToMode'') 73 0 True (Some (u ''ChangeToModeResponse'')) False [(u ''newMode'', 0, CUint, Value (VInt 0))],
     CommandClass (u ''ChangeToModeResponse'') 73 1 False None False [(u ''status'', 0, enum_type OvenMode_ModeChangeStatus, Value (VInt 0)),
       (u ''statusText'', 1, CStr, Value (VStr []))]]"

definition OvenMode_attributes :: "attribute_class list" where
  "OvenMode_attributes = [
     AttributeClass (u ''SupportedModes'') 73 0 (CList (struct_type OvenMode_ModeOptionStruct)) (EmptyList),
     AttributeClass (u ''CurrentMode'') 73 1 CUint (Value (VInt 0)),
     AttributeClass (u ''StartUpMode'') 73 2 (optional_nullable CUint) (Value VNone),
     AttributeClass (u ''OnMode'') 73 3 (optional_nullable CUint) (Value VNone),
     AttributeClass (u ''GeneratedCommandList'') 73 65528 (CList CUint) (EmptyList),
     AttributeClass (u ''AcceptedCommandList'') 73 65529 (CList CUint) (EmptyList),
     AttributeClass (u ''AttributeList'') 73 65531 (CList CUint) (EmptyList),
     AttributeClass (u ''FeatureMap'') 73 65532 CUint (Value (VInt 0)),
     AttributeClass (u ''ClusterRevision'') 73 65533 CUint (Value (VInt 0))]"

definition OvenMode_cluster :: "cluster_def" where
  "OvenMode_cluster = ClusterDef (u ''OvenMode'') 73 [
     (u ''supportedModes'', 0, CList (struct_type OvenMode_ModeOptionStruct), EmptyList),
     (u ''currentMode'', 1, CUint, Value (VInt 0)),
     (u ''startUpMode'', 2, optional_nullable CUint, Value VNone),
     (u ''onMode'', 3, optional_nullable CUint, Value VNone),
     (u ''generatedCommandList'', 65528, CList CUint, EmptyList),
     (u ''acceptedCommandList'', 65529, CList CUint, EmptyList),
     (u ''attributeList'', 65531, CList CUint, EmptyList),
     (u ''featureMap'', 65532, CUint, Value (VInt 0)),
     (u ''clusterRevision'', 65533, CUint, Value (VInt 0))]
     OvenMode_commands
     OvenMode_attributes
     []"

section \<open>OzoneConcentrationMeasurement\<close>

definition OzoneConcentrationMeasurement_MeasurementUnitEnum :: "(pystr \<times> int) list" where
  "OzoneConcentrationMeasurement_MeasurementUnitEnum = [
     (u ''kPpm'', 0),
     (u ''kPpb'', 1),
     (u ''kPpt'', 2),
     (u ''kMgm3'', 3),
     (u ''kUgm3'', 4),
     (u ''kNgm3'', 5),
     (u ''kPm3'', 6),
     (u ''kBqm3'', 7),
     (u ''kUnknownEnumValue'', 8)]"

definition OzoneConcentrationMeasurement_MeasurementMediumEnum :: "(pystr \<times> int) list" where
  "OzoneConcentrationMeasurement_MeasurementMediumEnum = [
     (u ''kAir'', 0),
     (u ''kWater'', 1),
     (u ''kSoil'', 2),
     (u ''kUnknownEnumValue'', 3)]"

definition OzoneConcentrationMeasurement_LevelValueEnum :: "(pystr \<times> int) list" where
  "OzoneConcentrationMeasurement_LevelValueEnum = [
     (u ''kUnknown'', 0),
     (u ''kLow'', 1),
     (u ''kMedium'', 2),
     (u ''kHigh'', 3),
     (u ''kCritical'', 4),
     (u ''kUnknownEnumValue'', 5)]"

definition OzoneConcentrationMeasurement_Feature :: "(pystr \<times> int) list" where
  "OzoneConcentrationMeasurement_Feature = [
     (u ''kNumericMeasurement'', 1),
     (u ''kLevelIndication'', 2),
     (u ''kMediumLevel'', 4),
     (u ''kCriticalLevel'', 8),
     (u ''kPeakMeasurement'', 16),
     (u ''kAverageMeasurement'', 32)]"

definition OzoneConcentrationMeasurement_attributes_1 :: "attribute_class list" where
  "OzoneConcentrationMeasurement_attributes_1 = [
     AttributeClass (u ''MeasuredValue'') 1045 0 (optional_nullable CFloat32) (Value VNone),
     AttributeClass (u ''MinMeasuredValue'') 1045 1 (optional_nullable CFloat32) (Value VNone),
     AttributeClass (u ''MaxMeasuredValue'') 1045 2 (optional_nullable CFloat32) (Value VNone),
     AttributeClass (u ''PeakMeasuredValue'') 1045 3 (optional_nullable CFloat32) (Value VNone),
     AttributeClass (u ''PeakMeasuredValueWindow'') 1045 4 (optional CUint) (Value VNone),
     AttributeClass (u ''AverageMeasuredValue'') 1045 5 (optional_nullable CFloat32) (Value VNone),
     AttributeClass (u ''AverageMeasuredValueWindow'') 1045 6 (optional CUint) (Value VNone),
     AttributeClass (u ''Uncertainty'') 1045 7 (optional CFloat32) (Value VNone),
     AttributeClass (u ''MeasurementUnit'') 1045 8 (optional (enum_type OzoneConcentrationMeasurement_MeasurementUnitEnum)) (Value VNone)]"

definition OzoneConcentrationMeasurement_attributes_2 :: "attribute_class list" where
  "OzoneConcentrationMeasurement_attributes_2 = [
     AttributeClass (u ''MeasurementMedium'') 1045 9 (enum_type OzoneConcentrationMeasurement_MeasurementMediumEnum) (Value (VInt 0)),
     AttributeClass (u ''LevelValue'') 1045 10 (optional (enum_type OzoneConcentrationMeasurement_LevelValueEnum)) (Value VNone),
     AttributeClass (u ''GeneratedCommandList'') 1045 65528 (CList CUint) (EmptyList),
     AttributeClass (u ''AcceptedCommandList'') 1045 65529 (CList CUint) (EmptyList),
     AttributeClass (u ''AttributeList'') 1045 65531 (CList CUint) (EmptyList),
     AttributeClass (u ''FeatureMap'') 1045 65532 CUint (Value (VInt 0)),
     AttributeClass (u ''ClusterRevision'') 1045 65533 CUint (Value (VInt 0))]"

definition OzoneConcentrationMeasurement_cluster :: "cluster_def" where
  "OzoneConcentrationMeasurement_cluster = ClusterDef (u ''OzoneConcentrationMeasurement'') 1045 [
     (u ''measuredValue'', 0, optional_nullable CFloat32, Value VNone),
     (u ''minMeasuredValue'', 1, optional_nullable CFloat32, Value VNone),
     (u ''maxMeasuredValue'', 2, optional_nullable CFloat32, Value VNone),
     (u ''peakMeasuredValue'', 3, optional_nullable CFloat32, Value VNone),
     (u ''peakMeasuredValueWindow'', 4, optional CUint, Value VNone),
     (u ''averageMeasuredValue'', 5, optional_nullable CFloat32, Value VNone),
     (u ''averageMeasuredValueWindow'', 6, optional CUint, Value VNone),
     (u ''uncertainty'', 7, optional CFloat32, Value VNone),
     (u ''measurementUnit'', 8, optional (enum_type OzoneConcentrationMeasurement_MeasurementUnitEnum), Value VNone),
     (u ''measurementMedium'', 9, enum_type OzoneConcentrationMeasurement_MeasurementMediumEnum, Value (VInt 0)),
     (u ''levelValue'', 10, optional (enum_type OzoneConcentrationMeasurement_LevelValueEnum), Value VNone),
     (u ''generatedCommandList'', 65528, CList CUint, EmptyList),
     (u ''acceptedCommandList'', 65529, CList CUint, EmptyList),
     (u ''attributeList'', 65531, CList CUint, EmptyList),
     (u ''featureMap'', 65532, CUint, Value (VInt 0)),
     (u ''clusterRevision'', 65533, CUint, Value (VInt 0))]
     []
     (OzoneConcentrationMeasurement_attributes_1 @ OzoneConcentrationMeasurement_attributes_2)
     []"

section \<open>Pm10ConcentrationMeasurement\<close>

definition Pm10ConcentrationMeasurement_MeasurementUnitEnum :: "(pystr \<times> int) list" where
  "Pm10ConcentrationMeasurement_MeasurementUnitEnum = [
     (u ''kPpm'', 0),
     (u ''kPpb'', 1),
     (u ''kPpt'', 2),
     (u ''kMgm3'', 3),
     (u ''kUgm3'', 4),
     (u ''kNgm3'', 5),
     (u ''kPm3'', 6),
     (u ''kBqm3'', 7),
     (u ''kUnknownEnumValue'', 8)]"

definition Pm10ConcentrationMeasurement_MeasurementMediumEnum :: "(pystr \<times> int) list" where
  "Pm10ConcentrationMeasurement_MeasurementMediumEnum = [
     (u ''kAir'', 0),
     (u ''kWater'', 1),
     (u ''kSoil'', 2),
     (u ''kUnknownEnumValue'', 3)]"

definition Pm10ConcentrationMeasurement_LevelValueEnum :: "(pystr \<times> int) list" where
  "Pm10ConcentrationMeasurement_LevelValueEnum = [
     (u ''kUnknown'', 0),
     (u ''kLow'', 1),
     (u ''kMedium'', 2),
     (u ''kHigh'', 3),
     (u ''kCritical'', 4),
     (u ''kUnknownEnumValue'', 5)]"

definition Pm10ConcentrationMeasurement_Feature :: "(pystr \<times> int) list" where
  "Pm10ConcentrationMeasurement_Feature = [
     (u ''kNumericMeasurement'', 1),
     (u ''kLevelIndication'', 2),
     (u ''kMediumLevel'', 4),
     (u ''kCriticalLevel'', 8),
     (u ''kPeakMeasurement'', 16),
     (u ''kAverageMeasurement'', 32)]"

definition Pm10ConcentrationMeasurement_attributes_1 :: "attribute_class list" where
  "Pm10ConcentrationMeasurement_attributes_1 = [
     AttributeClass (u ''MeasuredValue'') 1069 0 (optional_nullable CFloat32) (Value VNone),
     AttributeClass (u ''MinMeasuredValue'') 1069 1 (optional_nullable CFloat32) (Value VNone),
     AttributeClass (u ''MaxMeasuredValue'') 1069 2 (optional_nullable CFloat32) (Value VNone),
     AttributeClass (u ''PeakMeasuredValue'') 1069 3 (optional_nullable CFloat32) (Value VNone),
     AttributeClass (u ''PeakMeasuredValueWindow'') 1069 4 (optional CUint) (Value VNone),
     AttributeClass (u ''AverageMeasuredValue'') 1069 5 (optional_nullable CFloat32) (Value VNone),
     AttributeClass (u ''AverageMeasuredValueWindow'') 1069 6 (optional CUint) (Value VNone),
     AttributeClass (u ''Uncertainty'') 1069 7 (optional CFloat32) (Value VNone),
     AttributeClass (u ''MeasurementUnit'') 1069 8 (optional (enum_type Pm10ConcentrationMeasurement_MeasurementUnitEnum)) (Value VNone)]"

definition Pm10ConcentrationMeasurement_attributes_2 :: "attribute_class list" where
  "Pm10ConcentrationMeasurement_attributes_2 = [
     AttributeClass (u ''MeasurementMedium'') 1069 9 (enum_type Pm10ConcentrationMeasurement_MeasurementMediumEnum) (Value (VInt 0)),
     AttributeClass (u ''LevelValue'') 1069 10 (optional (enum_type Pm10ConcentrationMeasurement_LevelValueEnum)) (Value VNone),
     AttributeClass (u ''GeneratedCommandList'') 1069 65528 (CList CUint) (EmptyList),
     AttributeClass (u ''AcceptedCommandList'') 1069 65529 (CList CUint) (EmptyList),
     AttributeClass (u ''AttributeList'') 1069 65531 (CList CUint) (EmptyList),
     AttributeClass (u ''FeatureMap'') 1069 65532 CUint (Value (VInt 0)),
     AttributeClass (u ''ClusterRevision'') 1069 65533 CUint (Value (VInt 0))]"

definition Pm10ConcentrationMeasurement_cluster :: "cluster_def" where
  "Pm10ConcentrationMeasurement_cluster = ClusterDef (u ''Pm10ConcentrationMeasurement'') 1069 [
     (u ''measuredValue'', 0, optional_nullable CFloat32, Value VNone),
     (u ''minMeasuredValue'', 1, optional_nullable CFloat32, Value VNone),
     (u ''maxMeasuredValue'', 2, optional_nullable CFloat32, Value VNone),
     (u ''peakMeasuredValue'', 3, optional_nullable CFloat32, Value VNone),
     (u ''peakMeasuredValueWindow'', 4, optional CUint, Value VNone),
     (u ''averageMeasuredValue'', 5, optional_nullable CFloat32, Value VNone),
     (u ''averageMeasuredValueWindow'', 6, optional CUint, Value VNone),
     (u ''uncertainty'', 7, optional CFloat32, Value VNone),
     (u ''measurementUnit'', 8, optional (enum_type Pm10ConcentrationMeasurement_MeasurementUnitEnum), Value VNone),
     (u ''measurementMedium'', 9, enum_type Pm10ConcentrationMeasurement_MeasurementMediumEnum, Value (VInt 0)),
     (u ''levelValue'', 10, optional (enum_type Pm10ConcentrationMeasurement_LevelValueEnum), Value VNone),
     (u ''generatedCommandList'', 65528, CList CUint, EmptyList),
     (u ''acceptedCommandList'', 65529, CList CUint, EmptyList),
     (u ''attributeList'', 65531, CList CUint, EmptyList),
     (u ''featureMap'', 65532, CUint, Value (VInt 0)),
     (u ''clusterRevision'', 65533, CUint, Value (VInt 0))]
     []
     (Pm10ConcentrationMeasurement_attributes_1 @ Pm10ConcentrationMeasurement_attributes_2)
     []"

section \<open>Pm1ConcentrationMeasurement\<close>

definition Pm1ConcentrationMeasurement_MeasurementUnitEnum :: "(pystr \<times> int) list" where
  "Pm1ConcentrationMeasurement_MeasurementUnitEnum = [
     (u ''kPpm'', 0),
     (u ''kPpb'', 1),
     (u ''kPpt'', 2),
     (u ''kMgm3'', 3),
     (u ''kUgm3'', 4),
     (u ''kNgm3'', 5),
     (u ''kPm3'', 6),
     (u ''kBqm3'', 7),
     (u ''kUnknownEnumValue'', 8)]"

definition Pm1ConcentrationMeasurement_MeasurementMediumEnum :: "(pystr \<times> int) list" where
  "Pm1ConcentrationMeasurement_MeasurementMediumEnum = [
     (u ''kAir'', 0),
     (u ''kWater'', 1),
     (u ''kSoil'', 2),
     (u ''kUnknownEnumValue'', 3)]"

definition Pm1ConcentrationMeasurement_LevelValueEnum :: "(pystr \<times> int) list" where
  "Pm1ConcentrationMeasurement_LevelValueEnum = [
     (u ''kUnknown'', 0),
     (u ''kLow'', 1),
     (u ''kMedium'', 2),
     (u ''kHigh'', 3),
     (u ''kCritical'', 4),
     (u ''kUnknownEnumValue'', 5)]"

definition Pm1ConcentrationMeasurement_Feature :: "(pystr \<times> int) list" where
  "Pm1ConcentrationMeasurement_Feature = [
     (u ''kNumericMeasurement'', 1),
     (u ''kLevelIndication'', 2),
     (u ''kMediumLevel'', 4),
     (u ''kCriticalLevel'', 8),
     (u ''kPeakMeasurement'', 16),
     (u ''kAverageMeasurement'', 32)]"

definition Pm1ConcentrationMeasurement_attributes_1 :: "attribute_class list" where
  "Pm1ConcentrationMeasurement_attributes_1 = [
     AttributeClass (u ''MeasuredValue'') 1068 0 (optional_nullable CFloat32) (Value VNone),
     AttributeClass (u ''MinMeasuredValue'') 1068 1 (optional_nullable CFloat32) (Value VNone),
     AttributeClass (u ''MaxMeasuredValue'') 1068 2 (optional_nullable CFloat32) (Value VNone),
     AttributeClass (u ''PeakMeasuredValue'') 1068 3 (optional_nullable CFloat32) (Value VNone),
     AttributeClass (u ''PeakMeasuredValueWindow'') 1068 4 (optional CUint) (Value VNone),
     AttributeClass (u ''AverageMeasuredValue'') 1068 5 (optional_nullable CFloat32) (Value VNone),
     AttributeClass (u ''AverageMeasuredValueWindow'') 1068 6 (optional CUint) (Value VNone),
     AttributeClass (u ''Uncertainty'') 1068 7 (optional CFloat32) (Value VNone),
     AttributeClass (u ''MeasurementUnit'') 1068 8 (optional (enum_type Pm1ConcentrationMeasurement_MeasurementUnitEnum)) (Value VNone)]"

definition Pm1ConcentrationMeasurement_attributes_2 :: "attribute_class list" where
  "Pm1ConcentrationMeasurement_attributes_2 = [
     AttributeClass (u ''MeasurementMedium'') 1068 9 (enum_type Pm1ConcentrationMeasurement_MeasurementMediumEnum) (Value (VInt 0)),
     AttributeClass (u ''LevelValue'') 1068 10 (optional (enum_type Pm1ConcentrationMeasurement_LevelValueEnum)) (Value VNone),
     AttributeClass (u ''GeneratedCommandList'') 1068 65528 (CList CUint) (EmptyList),
     AttributeClass (u ''AcceptedCommandList'') 1068 65529 (CList CUint) (EmptyList),
     AttributeClass (u ''AttributeList'') 1068 65531 (CList CUint) (EmptyList),
     AttributeClass (u ''FeatureMap'') 1068 65532 CUint (Value (VInt 0)),
     AttributeClass (u ''ClusterRevision'') 1068 65533 CUint (Value (VInt 0))]"

definition Pm1ConcentrationMeasurement_cluster :: "cluster_def" where
  "Pm1ConcentrationMeasurement_cluster = ClusterDef (u ''Pm1ConcentrationMeasurement'') 1068 [
     (u ''measuredValue'', 0, optional_nullable CFloat32, Value VNone),
     (u ''minMeasuredValue'', 1, optional_nullable CFloat32, Value VNone),
     (u ''maxMeasuredValue'', 2, optional_nullable CFloat32, Value VNone),
     (u ''peakMeasuredValue'', 3, optional_nullable CFloat32, Value VNone),
     (u ''peakMeasuredValueWindow'', 4, optional CUint, Value VNone),
     (u ''averageMeasuredValue'', 5, optional_nullable CFloat32, Value VNone),
     (u ''averageMeasuredValueWindow'', 6, optional CUint, Value VNone),
     (u ''uncertainty'', 7, optional CFloat32, Value VNone),
     (u ''measurementUnit'', 8, optional (enum_type Pm1ConcentrationMeasurement_MeasurementUnitEnum), Value VNone),
     (u ''measurementMedium'', 9, enum_type Pm1ConcentrationMeasurement_MeasurementMediumEnum, Value (VInt 0)),
     (u ''levelValue'', 10, optional (enum_type Pm1ConcentrationMeasurement_LevelValueEnum), Value VNone),
     (u ''generatedCommandList'', 65528, CList CUint, EmptyList),
     (u ''acceptedCommandList'', 65529, CList CUint, EmptyList),
     (u ''attributeList'', 65531, CList CUint, EmptyList),
     (u ''featureMap'', 65532, CUint, Value (VInt 0)),
     (u ''clusterRevision'', 65533, CUint, Value (VInt 0))]
     []
     (Pm1ConcentrationMeasurement_attributes_1 @ Pm1ConcentrationMeasurement_attributes_2)
     []"

section \<open>Pm25ConcentrationMeasurement\<close>

definition Pm25ConcentrationMeasurement_MeasurementUnitEnum :: "(pystr \<times> int) list" where
  "Pm25ConcentrationMeasurement_MeasurementUnitEnum = [
     (u ''kPpm'', 0),
     (u ''kPpb'', 1),
     (u ''kPpt'', 2),
     (u ''kMgm3'', 3),
     (u ''kUgm3'', 4),
     (u ''kNgm3'', 5),
     (u ''kPm3'', 6),
     (u ''kBqm3'', 7),
     (u ''kUnknownEnumValue'', 8)]"

definition Pm25ConcentrationMeasurement_MeasurementMediumEnum :: "(pystr \<times> int) list" where
  "Pm25ConcentrationMeasurement_MeasurementMediumEnum = [
     (u ''kAir'', 0),
     (u ''kWater'', 1),
     (u ''kSoil'', 2),
     (u ''kUnknownEnumValue'', 3)]"

definition Pm25ConcentrationMeasurement_LevelValueEnum :: "(pystr \<times> int) list" where
  "Pm25ConcentrationMeasurement_LevelValueEnum = [
     (u ''kUnknown'', 0),
     (u ''kLow'', 1),
     (u ''kMedium'', 2),
     (u ''kHigh'', 3),
     (u ''kCritical'', 4),
     (u ''kUnknownEnumValue'', 5)]"

definition Pm25ConcentrationMeasurement_Feature :: "(pystr \<times> int) list" where
  "Pm25ConcentrationMeasurement_Feature = [
     (u ''kNumericMeasurement'', 1),
     (u ''kLevelIndication'', 2),
     (u ''kMediumLevel'', 4),
     (u ''kCriticalLevel'', 8),
     (u ''kPeakMeasurement'', 16),
     (u ''kAverageMeasurement'', 32)]"

definition Pm25ConcentrationMeasurement_attributes_1 :: "attribute_class list" where
  "Pm25ConcentrationMeasurement_attributes_1 = [
     AttributeClass (u ''MeasuredValue'') 1066 0 (optional_nullable CFloat32) (Value VNone),
     AttributeClass (u ''MinMeasuredValue'') 1066 1 (optional_nullable CFloat32) (Value VNone),
     AttributeClass (u ''MaxMeasuredValue'') 1066 2 (optional_nullable CFloat32) (Value VNone),
     AttributeClass (u ''PeakMeasuredValue'') 1066 3 (optional_nullable CFloat32) (Value VNone),
     AttributeClass (u ''PeakMeasuredValueWindow'') 1066 4 (optional CUint) (Value VNone),
     AttributeClass (u ''AverageMeasuredValue'') 1066 5 (optional_nullable CFloat32) (Value VNone),
     AttributeClass (u ''AverageMeasuredValueWindow'') 1066 6 (optional CUint) (Value VNone),
     AttributeClass (u ''Uncertainty'') 1066 7 (optional CFloat32) (Value VNone),
     AttributeClass (u ''MeasurementUnit'') 1066 8 (optional (enum_type Pm25ConcentrationMeasurement_MeasurementUnitEnum)) (Value VNone)]"

definition Pm25ConcentrationMeasurement_attributes_2 :: "attribute_class list" where
  "Pm25ConcentrationMeasurement_attributes_2 = [
     AttributeClass (u ''MeasurementMedium'') 1066 9 (enum_type Pm25ConcentrationMeasurement_MeasurementMediumEnum) (Value (VInt 0)),
     AttributeClass (u ''LevelValue'') 1066 10 (optional (enum_type Pm25ConcentrationMeasurement_LevelValueEnum)) (Value VNone),
     AttributeClass (u ''GeneratedCommandList'') 1066 65528 (CList CUint) (EmptyList),
     AttributeClass (u ''AcceptedCommandList'') 1066 65529 (CList CUint) (EmptyList),
     AttributeClass (u ''AttributeList'') 1066 65531 (CList CUint) (EmptyList),
     AttributeClass (u ''FeatureMap'') 1066 65532 CUint (Value (VInt 0)),
     AttributeClass (u ''ClusterRevision'') 1066 65533 CUint (Value (VInt 0))]"

definition Pm25ConcentrationMeasurement_cluster :: "cluster_def" where
  "Pm25ConcentrationMeasurement_cluster = ClusterDef (u ''Pm25ConcentrationMeasurement'') 1066 [
     (u ''measuredValue'', 0, optional_nullable CFloat32, Value VNone),
     (u ''minMeasuredValue'', 1, optional_nullable CFloat32, Value VNone),
     (u ''maxMeasuredValue'', 2, optional_nullable CFloat32, Value VNone),
     (u ''peakMeasuredValue'', 3, optional_nullable CFloat32, Value VNone),
     (u ''peakMeasuredValueWindow'', 4, optional CUint, Value VNone),
     (u ''averageMeasuredValue'', 5, optional_nullable CFloat32, Value VNone),
     (u ''averageMeasuredValueWindow'', 6, optional CUint, Value VNone),
     (u ''uncertainty'', 7, optional CFloat32, Value VNone),
     (u ''measurementUnit'', 8, optional (enum_type Pm25ConcentrationMeasurement_MeasurementUnitEnum), Value VNone),
     (u ''measurementMedium'', 9, enum_type Pm25ConcentrationMeasurement_MeasurementMediumEnum, Value (VInt 0)),
     (u ''levelValue'', 10, optional (enum_type Pm25ConcentrationMeasurement_LevelValueEnum), Value VNone),
     (u ''generatedCommandList'', 65528, CList CUint, EmptyList),
     (u ''acceptedCommandList'', 65529, CList CUint, EmptyList),
     (u ''attributeList'', 65531, CList CUint, EmptyList),
     (u ''featureMap'', 65532, CUint, Value (VInt 0)),
     (u ''clusterRevision'', 65533, CUint, Value (VInt 0))]
     []
     (Pm25ConcentrationMeasurement_attributes_1 @ Pm25ConcentrationMeasurement_attributes_2)
     []"

section \<open>PowerSource\<close>

definition PowerSource_WiredFaultEnum :: "(pystr \<times> int) list" where
  "PowerSource_WiredFaultEnum = [
     (u ''kUnspecified'', 0),
     (u ''kOverVoltage'', 1),
     (u ''kUnderVoltage'', 2),
     (u ''kUnknownEnumValue'', 3)]"

definition PowerSource_BatFaultEnum :: "(pystr \<times> int) list" where
  "PowerSource_BatFaultEnum = [
     (u ''kUnspecified'', 0),
     (u ''kOverTemp'', 1),
     (u ''kUnderTemp'', 2),
     (u ''kUnknownEnumValue'', 3)]"

definition PowerSource_BatChargeFaultEnum :: "(pystr \<times> int) list" where
  "PowerSource_BatChargeFaultEnum = [
     (u ''kUnspecified'', 0),
     (u ''kAmbientTooHot'', 1),
     (u ''kAmbientTooCold'', 2),
     (u ''kBatteryTooHot'', 3),
     (u ''kBatteryTooCold'', 4),
     (u ''kBatteryAbsent'', 5),
     (u ''kBatteryOverVoltage'', 6),
     (u ''kBatteryUnderVoltage'', 7),
     (u ''kChargerOverVoltage'', 8),
     (u ''kChargerUnderVoltage'', 9),
     (u ''kSafetyTimeout'', 10),
     (u ''kUnknownEnumValue'', 11)]"

definition PowerSource_PowerSourceStatusEnum :: "(pystr \<times> int) list" where
  "PowerSource_PowerSourceStatusEnum = [
     (u ''kUnspecified'', 0),
     (u ''kActive'', 1),
     (u ''kStandby'', 2),
     (u ''kUnavailable'', 3),
     (u ''kUnknownEnumValue'', 4)]"

definition PowerSource_WiredCurrentTypeEnum :: "(pystr \<times> int) list" where
  "PowerSource_WiredCurrentTypeEnum = [
     (u ''kAc'', 0),
     (u ''kDc'', 1),
     (u ''kUnknownEnumValue'', 2)]"

definition PowerSource_BatChargeLevelEnum :: "(pystr \<times> int) list" where
  "PowerSource_BatChargeLevelEnum = [
     (u ''kOk'', 0),
     (u ''kWarning'', 1),
     (u ''kCritical'', 2),
     (u ''kUnknownEnumValue'', 3)]"

definition PowerSource_BatReplaceabilityEnum :: "(pystr \<times> int) list" where
  "PowerSource_BatReplaceabilityEnum = [
     (u ''kUnspecified'', 0),
     (u ''kNotReplaceable'', 1),
     (u ''kUserReplaceable'', 2),
     (u ''kFactoryReplaceable'', 3),
     (u ''kUnknownEnumValue'', 4)]"

definition PowerSource_BatCommonDesignationEnum :: "(pystr \<times> int) list" where
  "PowerSource_BatCommonDesignationEnum = [
     (u ''kUnspecified'', 0),
     (u ''kAaa'', 1),
     (u ''kAa'', 2),
     (u ''kC'', 3),
     (u ''kD'', 4),
     (u ''k4v5'', 5),
     (u ''k6v0'', 6),
     (u ''k9v0'', 7),
     (u ''k12aa'', 8),
     (u ''kAaaa'', 9),
     (u ''kA'', 10),
     (u ''kB'', 11),
     (u ''kF'', 12),
     (u ''kN'', 13),
     (u ''kNo6'', 14),
     (u ''kSubC'', 15),
     (u ''kA23'', 16),
     (u ''kA27'', 17),
     (u ''kBa5800'', 18),
     (u ''kDuplex'', 19),
     (u ''k4sr44'', 20),
     (u ''k523'', 21),
     (u ''k531'', 22),
     (u ''k15v0'', 23),
     (u ''k22v5'', 24),
     (u ''k30v0'', 25),
     (u ''k45v0'', 26),
     (u ''k67v5'', 27),
     (u ''kJ'', 28),
     (u ''kCr123a'', 29),
     (u ''kCr2'', 30),
     (u ''k2cr5'', 31),
     (u ''kCrP2'', 32),
     (u ''kCrV3'', 33),
     (u ''kSr41'', 34),
     (u ''kSr43'', 35),
     (u ''kSr44'', 36),
     (u ''kSr45'', 37),
     (u ''kSr48'', 38),
     (u ''kSr54'', 39),
     (u ''kSr55'', 40),
     (u ''kSr57'', 41),
     (u ''kSr58'', 42),
     (u ''kSr59'', 43),
     (u ''kSr60'', 44),
     (u ''kSr63'', 45),
     (u ''kSr64'', 46),
     (u ''kSr65'', 47),
     (u ''kSr66'', 48),
     (u ''kSr67'', 49),
     (u ''kSr68'', 50),
     (u ''kSr69'', 51),
     (u ''kSr516'', 52),
     (u ''kSr731'', 53),
     (u ''kSr712'', 54),
     (u ''kLr932'', 55),
     (u ''kA5'', 56),
     (u ''kA10'', 57),
     (u ''kA13'', 58),
     (u ''kA312'', 59),
     (u ''kA675'', 60),
     (u ''kAc41e'', 61),
     (u ''k10180'', 62),
     (u ''k10280'', 63),
     (u ''k10440'', 64),
     (u ''k14250'', 65),
     (u ''k14430'', 66),
     (u ''k14500'', 67),
     (u ''k14650'', 68),
     (u ''k15270'', 69),
     (u ''k16340'', 70),
     (u ''kRcr123a'', 71),
     (u ''k17500'', 72),
     (u ''k17670'', 73),
     (u ''k18350'', 74),
     (u ''k18500'', 75),
     (u ''k18650'', 76),
     (u ''k19670'', 77),
     (u ''k25500'', 78),
     (u ''k26650'', 79),
     (u ''k32600'', 80),
     (u ''kUnknownEnumValue'', 81)]"

definition PowerSource_BatApprovedChemistryEnum :: "(pystr \<times> int) list" where
  "PowerSource_BatApprovedChemistryEnum = [
     (u ''kUnspecified'', 0),
     (u ''kAlkaline'', 1),
     (u ''kLithiumCarbonFluoride'', 2),
     (u ''kLithiumChromiumOxide'', 3),
     (u ''kLithiumCopperOxide'', 4),
     (u ''kLithiumIronDisulfide'', 5),
     (u ''kLithiumManganeseDioxide'', 6),
     (u ''kLithiumThionylChloride'', 7),
     (u ''kMagnesium'', 8),
     (u ''kMercuryOxide'', 9),
     (u ''kNickelOxyhydride'', 10),
     (u ''kSilverOxide'', 11),
     (u ''kZincAir'', 12),
     (u ''kZincCarbon'', 13),
     (u ''kZincChloride'', 14),
     (u ''kZincManganeseDioxide'', 15),
     (u ''kLeadAcid'', 16),
     (u ''kLithiumCobaltOxide'', 17),
     (u ''kLithiumIon'', 18),
     (u ''kLithiumIonPolymer'', 19),
     (u ''kLithiumIronPhosphate'', 20),
     (u ''kLithiumSulfur'', 21),
     (u ''kLithiumTitanate'', 22),
     (u ''kNickelCadmium'', 23),
     (u ''kNickelHydrogen'', 24),
     (u ''kNickelIron'', 25),
     (u ''kNickelMetalHydride'', 26),
     (u ''kNickelZinc'', 27),
     (u ''kSilverZinc'', 28),
     (u ''kSodiumIon'', 29),
     (u ''kSodiumSulfur'', 30),
     (u ''kZincBromide'', 31),
     (u ''kZincCerium'', 32),
     (u ''kUnknownEnumValue'', 33)]"

definition PowerSource_BatChargeStateEnum :: "(pystr \<times> int) list" where
  "PowerSource_BatChargeStateEnum = [
     (u ''kUnknown'', 0),
     (u ''kIsCharging'', 1),
     (u ''kIsAtFullCharge'', 2),
     (u ''kIsNotCharging'', 3),
     (u ''kUnknownEnumValue'', 4)]"

definition PowerSource_Feature :: "(pystr \<times> int) list" where
  "PowerSource_Feature = [
     (u ''kWired'', 1),
     (u ''kBattery'', 2),
     (u ''kRechargeable'', 4),
     (u ''kReplaceable'', 8)]"

definition PowerSource_attributes_1 :: "attribute_class list" where
  "PowerSource_attributes_1 = [
     AttributeClass (u ''Status'') 47 0 (enum_type PowerSource_PowerSourceStatusEnum) (Value (VInt 0)),
     AttributeClass (u ''Order'') 47 1 CUint (Value (VInt 0)),
     AttributeClass (u ''Description'') 47 2 CStr (Value (VStr [])),
     AttributeClass (u ''WiredAssessedInputVoltage'') 47 3 (optional_nullable CUint) (Value VNone),
     AttributeClass (u ''WiredAssessedInputFrequency'') 47 4 (optional_nullable CUint) (Value VNone),
     AttributeClass (u ''WiredCurrentType'') 47 5 (optional (enum_type PowerSource_WiredCurrentTypeEnum)) (Value VNone),
     AttributeClass (u ''WiredAssessedCurrent'') 47 6 (optional_nullable CUint) (Value VNone),
     AttributeClass (u ''WiredNominalVoltage'') 47 7 (optional CUint) (Value VNone),
     AttributeClass (u ''WiredMaximumCurrent'') 47 8 (optional CUint) (Value VNone)]"

definition PowerSource_attributes_2 :: "attribute_class list" where
  "PowerSource_attributes_2 = [
     AttributeClass (u ''WiredPresent'') 47 9 (optional CBool) (Value VNone),
     AttributeClass (u ''ActiveWiredFaults'') 47 10 (optional (CList (enum_type PowerSource_WiredFaultEnum))) (Value VNone),
     AttributeClass (u ''BatVoltage'') 47 11 (optional_nullable CUint) (Value VNone),
     AttributeClass (u ''BatPercentRemaining'') 47 12 (optional_nullable CUint) (Value VNone),
     AttributeClass (u ''BatTimeRemaining'') 47 13 (optional_nullable CUint) (Value VNone),
     AttributeClass (u ''BatChargeLevel'') 47 14 (optional (enum_type PowerSource_BatChargeLevelEnum)) (Value VNone),
     AttributeClass (u ''BatReplacementNeeded'') 47 15 (optional CBool) (Value VNone),
     AttributeClass (u ''BatReplaceability'') 47 16 (optional (enum_type PowerSource_BatReplaceabilityEnum)) (Value VNone),
     AttributeClass (u ''BatPresent'') 47 17 (optional CBool) (Value VNone)]"

definition PowerSource_attributes_3 :: "attribute_class list" where
  "PowerSource_attributes_3 = [
     AttributeClass (u ''ActiveBatFaults'') 47 18 (optional (CList (enum_type PowerSource_BatFaultEnum))) (Value VNone),
     AttributeClass (u ''BatReplacementDescription'') 47 19 (optional CStr) (Value VNone),
     AttributeClass (u ''BatCommonDesignation'') 47 20 (optional (enum_type PowerSource_BatCommonDesignationEnum)) (Value VNone),
     AttributeClass (u ''BatANSIDesignation'') 47 21 (optional CStr) (Value VNone),
     AttributeClass (u ''BatIECDesignation'') 47 22 (optional CStr) (Value VNone),
     AttributeClass (u ''BatApprovedChemistry'') 47 23 (optional (enum_type PowerSource_BatApprovedChemistryEnum)) (Value VNone),
     AttributeClass (u ''BatCapacity'') 47 24 (optional CUint) (Value VNone),
     AttributeClass (u ''BatQuantity'') 47 25 (optional CUint) (Value VNone),
     AttributeClass (u ''BatChargeState'') 47 26 (optional (enum_type PowerSource_BatChargeStateEnum)) (Value VNone)]"

definition PowerSource_attributes_4 :: "attribute_class list" where
  "PowerSource_attributes_4 = [
     AttributeClass (u ''BatTimeToFullCharge'') 47 27 (optional_nullable CUint) (Value VNone),
     AttributeClass (u ''BatFunctionalWhileCharging'') 47 28 (optional CBool) (Value VNone),
     AttributeClass (u ''BatChargingCurrent'') 47 29 (optional_nullable CUint) (Value VNone),
     AttributeClass (u ''ActiveBatChargeFaults'') 47 30 (optional (CList (enum_type PowerSource_BatChargeFaultEnum))) (Value VNone),
     AttributeClass (u ''EndpointList'') 47 31 (CList CUint) (EmptyList),
     AttributeClass (u ''GeneratedCommandList'') 47 65528 (CList CUint) (EmptyList),
     AttributeClass (u ''AcceptedCommandList'') 47 65529 (CList CUint) (EmptyList),
     AttributeClass (u ''AttributeList'') 47 65531 (CList CUint) (EmptyList),
     AttributeClass (u ''FeatureMap'') 47 65532 CUint (Value (VInt 0))]"

definition PowerSource_attributes_5 :: "attribute_class list" where
  "PowerSource_attributes_5 = [
     AttributeClass (u ''ClusterRevision'') 47 65533 CUint (Value (VInt 0))]"

definition PowerSource_events :: "event_class list" where
  "PowerSource_events = [
     EventClass (u ''WiredFaultChange'') 47 0 [(u ''current'', 0, CList (enum_type PowerSource_WiredFaultEnum), EmptyList),
       (u ''previous'', 1, CList (enum_type PowerSource_WiredFaultEnum), EmptyList)],
     EventClass (u ''BatFaultChange'') 47 1 [(u ''current'', 0, CList (enum_type PowerSource_BatFaultEnum), EmptyList),
       (u ''previous'', 1, CList (enum_type PowerSource_BatFaultEnum), EmptyList)],
     EventClass (u ''BatChargeFaultChange'') 47 2 [(u ''current'', 0, CList (enum_type PowerSource_BatChargeFaultEnum), EmptyList),
       (u ''previous'', 1, CList (enum_type PowerSource_BatChargeFaultEnum), EmptyList)]]"

definition PowerSource_cluster :: "cluster_def" where
  "PowerSource_cluster = ClusterDef (u ''PowerSource'') 47 [
     (u ''status'', 0, enum_type PowerSource_PowerSourceStatusEnum, Value (VInt 0)),
     (u ''order'', 1, CUint, Value (VInt 0)),
     (u ''description'', 2, CStr, Value (VStr [])),
     (u ''wiredAssessedInputVoltage'', 3, optional_nullable CUint, Value VNone),
     (u ''wiredAssessedInputFrequency'', 4, optional_nullable CUint, Value VNone),
     (u ''wiredCurrentType'', 5, optional (enum_type PowerSource_WiredCurrentTypeEnum), Value VNone),
     (u ''wiredAssessedCurrent'', 6, optional_nullable CUint, Value VNone),
     (u ''wiredNominalVoltage'', 7, optional CUint, Value VNone),
     (u ''wiredMaximumCurrent'', 8, optional CUint, Value VNone),
     (u ''wiredPresent'', 9, optional CBool, Value VNone),
     (u ''activeWiredFaults'', 10, optional (CList (enum_type PowerSource_WiredFaultEnum)), Value VNone),
     (u ''batVoltage'', 11, optional_nullable CUint, Value VNone),
     (u ''batPercentRemaining'', 12, optional_nullable CUint, Value VNone),
     (u ''batTimeRemaining'', 13, optional_nullable CUint, Value VNone),
     (u ''batChargeLevel'', 14, optional (enum_type PowerSource_BatChargeLevelEnum), Value VNone),
     (u ''batReplacementNeeded'', 15, optional CBool, Value VNone),
     (u ''batReplaceability'', 16, optional (enum_type PowerSource_BatReplaceabilityEnum), Value VNone),
     (u ''batPresent'', 17, optional CBool, Value VNone),
     (u ''activeBatFaults'', 18, optional (CList (enum_type PowerSource_BatFaultEnum)), Value VNone),
     (u ''batReplacementDescription'', 19, optional CStr, Value VNone),
     (u ''batCommonDesignation'', 20, optional (enum_type PowerSource_BatCommonDesignationEnum), Value VNone),
     (u ''batANSIDesignation'', 21, optional CStr, Value VNone),
     (u ''batIECDesignation'', 22, optional CStr, Value VNone),
     (u ''batApprovedChemistry'', 23, optional (enum_type PowerSource_BatApprovedChemistryEnum), Value VNone),
     (u ''batCapacity'', 24, optional CUint, Value VNone),
     (u ''batQuantity'', 25, optional CUint, Value VNone),
     (u ''batChargeState'', 26, optional (enum_type PowerSource_BatChargeStateEnum), Value VNone),
     (u ''batTimeToFullCharge'', 27, optional_nullable CUint, Value VNone),
     (u ''batFunctionalWhileCharging'', 28, optional CBool, Value VNone),
     (u ''batChargingCurrent'', 29, optional_nullable CUint, Value VNone),
     (u ''activeBatChargeFaults'', 30, optional (CList (enum_type PowerSource_BatChargeFaultEnum)), Value VNone),
     (u ''endpointList'', 31, CList CUint, EmptyList),
     (u ''generatedCommandList'', 65528, CList CUint, EmptyList),
     (u ''acceptedCommandList'', 65529, CList CUint, EmptyList),
     (u ''attributeList'', 65531, CList CUint, EmptyList),
     (u ''featureMap'', 65532, CUint, Value (VInt 0)),
     (u ''clusterRevision'', 65533, CUint, Value (VInt 0))]
     []
     (PowerSource_attributes_1 @ PowerSource_attributes_2 @ PowerSource_attributes_3 @ PowerSource_attributes_4 @ PowerSource_attributes_5)
     PowerSource_events"

section \<open>PowerSourceConfiguration\<close>

definition PowerSourceConfiguration_attributes :: "attribute_class list" where
  "PowerSourceConfiguration_attributes = [
     AttributeClass (u ''Sources'') 46 0 (CList CUint) (EmptyList),
     AttributeClass (u ''GeneratedCommandList'') 46 65528 (CList CUint) (EmptyList),
     AttributeClass (u ''AcceptedCommandList'') 46 65529 (CList CUint) (EmptyList),
     AttributeClass (u ''AttributeList'') 46 65531 (CList CUint) (EmptyList),
     AttributeClass (u ''FeatureMap'') 46 65532 CUint (Value (VInt 0)),
     AttributeClass (u ''ClusterRevision'') 46 65533 CUint (Value (VInt 0))]"

definition PowerSourceConfiguration_cluster :: "cluster_def" where
  "PowerSourceConfiguration_cluster = ClusterDef (u ''PowerSourceConfiguration'') 46 [
     (u ''sources'', 0, CList CUint, EmptyList),
     (u ''generatedCommandList'', 65528, CList CUint, EmptyList),
     (u ''acceptedCommandList'', 65529, CList CUint, EmptyList),
     (u ''attributeList'', 65531, CList CUint, EmptyList),
     (u ''featureMap'', 65532, CUint, Value (VInt 0)),
     (u ''clusterRevision'', 65533, CUint, Value (VInt 0))]
     []
     PowerSourceConfiguration_attributes
     []"

section \<open>PowerTopology\<close>

definition PowerTopology_Feature :: "(pystr \<times> int) list" where
  "PowerTopology_Feature = [
     (u ''kNodeTopology'', 1),
     (u ''kTreeTopology'', 2),
     (u ''kSetTopology'', 4),
     (u ''kDynamicPowerFlow'', 8)]"

definition PowerTopology_attributes :: "attribute_class list" where
  "PowerTopology_attributes = [
     AttributeClass (u ''AvailableEndpoints'') 156 0 (optional (CList CUint)) (Value VNone),
     AttributeClass (u ''ActiveEndpoints'') 156 1 (optional (CList CUint)) (Value VNone),
     AttributeClass (u ''GeneratedCommandList'') 156 65528 (CList CUint) (EmptyList),
     AttributeClass (u ''AcceptedCommandList'') 156 65529 (CList CUint) (EmptyList),
     AttributeClass (u ''AttributeList'') 156 65531 (CList CUint) (EmptyList),
     AttributeClass (u ''FeatureMap'') 156 65532 CUint (Value (VInt 0)),
     AttributeClass (u ''ClusterRevision'') 156 65533 CUint (Value (VInt 0))]"

definition PowerTopology_cluster :: "cluster_def" where
  "PowerTopology_cluster = ClusterDef (u ''PowerTopology'') 156 [
     (u ''availableEndpoints'', 0, optional (CList CUint), Value VNone),
     (u ''activeEndpoints'', 1, optional (CList CUint), Value VNone),
     (u ''generatedCommandList'', 65528, CList CUint, EmptyList),
     (u ''acceptedCommandList'', 65529, CList CUint, EmptyList),
     (u ''attributeList'', 65531, CList CUint, EmptyList),
     (u ''featureMap'', 65532, CUint, Value (VInt 0)),
     (u ''clusterRevision'', 65533, CUint, Value (VInt 0))]
     []
     PowerTopology_attributes
     []"

section \<open>Consistency\<close>

lemma OperationalCredentials_members_ok [simp]: "members_ok OperationalCredentials_NOCStruct"
    "members_ok OperationalCredentials_FabricDescriptorStruct"
  by (simp_all add: class_simps OperationalCredentials_NOCStruct_def
    OperationalCredentials_FabricDescriptorStruct_def del: u_simps)

lemma OperationalCredentials_cluster_ok: "cluster_ok OperationalCredentials_cluster" "cd_id OperationalCredentials_cluster = 62"
  by (simp_all add: class_simps OperationalCredentials_commands_1_def
    OperationalCredentials_commands_2_def
    OperationalCredentials_attributes_1_def
    OperationalCredentials_attributes_2_def
    OperationalCredentials_cluster_def del: u_simps)

lemma OperationalState_members_ok [simp]: "members_ok OperationalState_OperationalStateStruct"
    "members_ok OperationalState_ErrorStateStruct"
  by (simp_all add: class_simps OperationalState_OperationalStateStruct_def
    OperationalState_ErrorStateStruct_def del: u_simps)

lemma OperationalState_cluster_ok: "cluster_ok OperationalState_cluster" "cd_id OperationalState_cluster = 96"
  by (simp_all add: class_simps OperationalState_commands_def
    OperationalState_attributes_1_def
    OperationalState_attributes_2_def
    OperationalState_events_def
    OperationalState_cluster_def del: u_simps)

lemma OtaSoftwareUpdateProvider_cluster_ok: "cluster_ok OtaSoftwareUpdateProvider_cluster" "cd_id OtaSoftwareUpdateProvider_cluster = 41"
  by (simp_all add: class_simps OtaSoftwareUpdateProvider_commands_def
    OtaSoftwareUpdateProvider_attributes_def
    OtaSoftwareUpdateProvider_cluster_def del: u_simps)

lemma OtaSoftwareUpdateRequestor_members_ok [simp]: "members_ok OtaSoftwareUpdateRequestor_ProviderLocation"
  by (simp_all add: class_simps OtaSoftwareUpdateRequestor_ProviderLocation_def del: u_simps)

lemma OtaSoftwareUpdateRequestor_cluster_ok: "cluster_ok OtaSoftwareUpdateRequestor_cluster" "cd_id OtaSoftwareUpdateRequestor_cluster = 42"
  by (simp_all add: class_simps OtaSoftwareUpdateRequestor_commands_def
    OtaSoftwareUpdateRequestor_attributes_def
    OtaSoftwareUpdateRequestor_events_def
    OtaSoftwareUpdateRequestor_cluster_def del: u_simps)

lemma OvenCavityOperationalState_members_ok [simp]: "members_ok OvenCavityOperationalState_OperationalStateStruct"
    "members_ok OvenCavityOperationalState_ErrorStateStruct"
  by (simp_all add: class_simps OvenCavityOperationalState_OperationalStateStruct_def
    OvenCavityOperationalState_ErrorStateStruct_def del: u_simps)

lemma OvenCavityOperationalState_cluster_ok: "cluster_ok OvenCavityOperationalState_cluster" "cd_id OvenCavityOperationalState_cluster = 72"
  by (simp_all add: class_simps OvenCavityOperationalState_commands_def
    OvenCavityOperationalState_attributes_1_def
    OvenCavityOperationalState_attributes_2_def
    OvenCavityOperationalState_events_def
    OvenCavityOperationalState_cluster_def del: u_simps)

lemma OvenMode_members_ok [simp]: "members_ok OvenMode_ModeTagStruct"
    "members_ok OvenMode_ModeOptionStruct"
  by (simp_all add: class_simps OvenMode_ModeTagStruct_def
    OvenMode_ModeOptionStruct_def del: u_simps)

lemma OvenMode_cluster_ok: "cluster_ok OvenMode_cluster" "cd_id OvenMode_cluster = 73"
  by (simp_all add: class_simps OvenMode_commands_def
    OvenMode_attributes_def
    OvenMode_cluster_def del: u_simps)

lemma OzoneConcentrationMeasurement_cluster_ok: "cluster_ok OzoneConcentrationMeasurement_cluster" "cd_id OzoneConcentrationMeasurement_cluster = 1045"
  by (simp_all add: class_simps OzoneConcentrationMeasurement_attributes_1_def
    OzoneConcentrationMeasurement_attributes_2_def
    OzoneConcentrationMeasurement_cluster_def del: u_simps)

lemma Pm10ConcentrationMeasurement_cluster_ok: "cluster_ok Pm10ConcentrationMeasurement_cluster" "cd_id Pm10ConcentrationMeasurement_cluster = 1069"
  by (simp_all add: class_simps Pm10ConcentrationMeasurement_attributes_1_def
    Pm10ConcentrationMeasurement_attributes_2_def
    Pm10ConcentrationMeasurement_cluster_def del: u_simps)

lemma Pm1ConcentrationMeasurement_cluster_ok: "cluster_ok Pm1ConcentrationMeasurement_cluster" "cd_id Pm1ConcentrationMeasurement_cluster = 1068"
  by (simp_all add: class_simps Pm1ConcentrationMeasurement_attributes_1_def
    Pm1ConcentrationMeasurement_attributes_2_def
    Pm1ConcentrationMeasurement_cluster_def del: u_simps)

lemma Pm25ConcentrationMeasurement_cluster_ok: "cluster_ok Pm25ConcentrationMeasurement_cluster" "cd_id Pm25ConcentrationMeasurement_cluster = 1066"
  by (simp_all add: class_simps Pm25ConcentrationMeasurement_attributes_1_def
    Pm25ConcentrationMeasurement_attributes_2_def
    Pm25ConcentrationMeasurement_cluster_def del: u_simps)

lemma PowerSource_cluster_ok: "cluster_ok PowerSource_cluster" "cd_id PowerSource_cluster = 47"
  by (simp_all add: class_simps PowerSource_attributes_1_def
    PowerSource_attributes_2_def
    PowerSource_attributes_3_def
    PowerSource_attributes_4_def
    PowerSource_attributes_5_def
    PowerSource_events_def
    PowerSource_cluster_def del: u_simps)

lemma PowerSourceConfiguration_cluster_ok: "cluster_ok PowerSourceConfiguration_cluster" "cd_id PowerSourceConfiguration_cluster = 46"
  by (simp_all add: class_simps PowerSourceConfiguration_attributes_def
    PowerSourceConfiguration_cluster_def del: u_simps)

lemma PowerTopology_cluster_ok: "cluster_ok PowerTopology_cluster" "cd_id PowerTopology_cluster = 156"
  by (simp_all add: class_simps PowerTopology_attributes_def
    PowerTopology_cluster_def del: u_simps)

end
