(* ===== verification/Clusters_PressureMeasurement.thy ===== *)
theory Clusters_PressureMeasurement
  imports Clusters_Base
begin

text \<open>
  The generated files \<open>PressureMeasurement.py\<close> to \<open>ServiceArea.py\<close> of \<open>chip/clusters/cluster_defs/\<close>, in the form of
  \<open>Clusters_Base\<close>.
\<close>

section \<open>PressureMeasurement\<close>

definition PressureMeasurement_Feature :: "(pystr \<times> int) list" where
  "PressureMeasurement_Feature = [
     (u ''kExtended'', 1)]"

definition PressureMeasurement_attributes_1 :: "attribute_class list" where
  "PressureMeasurement_attributes_1 = [
     AttributeClass (u ''MeasuredValue'') 1027 0 (nullable CInt) (Value VNull),
     AttributeClass (u ''MinMeasuredValue'') 1027 1 (nullable CInt) (Value VNull),
     AttributeClass (u ''MaxMeasuredValue'') 1027 2 (nullable CInt) (Value VNull),
     AttributeClass (u ''Tolerance'') 1027 3 (optional CUint) (Value VNone),
     AttributeClass (u ''ScaledValue'') 1027 16 (optional_nullable CInt) (Value VNone),
     AttributeClass (u ''MinScaledValue'') 1027 17 (optional_nullable CInt) (Value VNone),
     AttributeClass (u ''MaxScaledValue'') 1027 18 (optional_nullable CInt) (Value VNone),
     AttributeClass (u ''ScaledTolerance'') 1027 19 (optional CUint) (Value VNone),
     AttributeClass (u ''Scale'') 1027 20 (optional CInt) (Value VNone)]"

definition PressureMeasurement_attributes_2 :: "attribute_class list" where
  "PressureMeasurement_attributes_2 = [
     AttributeClass (u ''GeneratedCommandList'') 1027 65528 (CList CUint) (EmptyList),
     AttributeClass (u ''AcceptedCommandList'') 1027 65529 (CList CUint) (EmptyList),
     AttributeClass (u ''AttributeList'') 1027 65531 (CList CUint) (EmptyList),
     AttributeClass (u ''FeatureMap'') 1027 65532 CUint (Value (VInt 0)),
     AttributeClass (u ''ClusterRevision'') 1027 65533 CUint (Value (VInt 0))]"

definition PressureMeasurement_cluster :: "cluster_def" where
  "PressureMeasurement_cluster = ClusterDef (u ''PressureMeasurement'') 1027 [
     (u ''measuredValue'', 0, nullable CInt, Value VNull),
     (u ''minMeasuredValue'', 1, nullable CInt, Value VNull),
     (u ''maxMeasuredValue'', 2, nullable CInt, Value VNull),
     (u ''tolerance'', 3, optional CUint, Value VNone),
     (u ''scaledValue'', 16, optional_nullable CInt, Value VNone),
     (u ''minScaledValue'', 17, optional_nullable CInt, Value VNone),
     (u ''maxScaledValue'', 18, optional_nullable CInt, Value VNone),
     (u ''scaledTolerance'', 19, optional CUint, Value VNone),
     (u ''scale'', 20, optional CInt, Value VNone),
     (u ''generatedCommandList'', 65528, CList CUint, EmptyList),
     (u ''acceptedCommandList'', 65529, CList CUint, EmptyList),
     (u ''attributeList'', 65531, CList CUint, EmptyList),
     (u ''featureMap'', 65532, CUint, Value (VInt 0)),
     (u ''clusterRevision'', 65533, CUint, Value (VInt 0))]
     []
     (PressureMeasurement_attributes_1 @ PressureMeasurement_attributes_2)
     []"

section \<open>PumpConfigurationAndControl\<close>

definition PumpConfigurationAndControl_OperationModeEnum :: "(pystr \<times> int) list" where
  "PumpConfigurationAndControl_OperationModeEnum = [
     (u ''kNormal'', 0),
     (u ''kMinimum'', 1),
     (u ''kMaximum'', 2),
     (u ''kLocal'', 3),
     (u ''kUnknownEnumValue'', 4)]"

definition PumpConfigurationAndControl_ControlModeEnum :: "(pystr \<times> int) list" where
  "PumpConfigurationAndControl_ControlModeEnum = [
     (u ''kConstantSpeed'', 0),
     (u ''kConstantPressure'', 1),
     (u ''kProportionalPressure'', 2),
     (u ''kConstantFlow'', 3),
     (u ''kConstantTemperature'', 5),
     (u ''kAutomatic'', 7),
     (u ''kUnknownEnumValue'', 8)]"

definition PumpConfigurationAndControl_Feature :: "(pystr \<times> int) list" where
  "PumpConfigurationAndControl_Feature = [
     (u ''kConstantPressure'', 1),
     (u ''kCompensatedPressure'', 2),
     (u ''kConstantFlow'', 4),
     (u ''kConstantSpeed'', 8),
     (u ''kConstantTemperature'', 16),
     (u ''kAutomatic'', 32),
     (u ''kLocalOperation'', 64)]"

definition PumpConfigurationAndControl_PumpStatusBitmap :: "(pystr \<times> int) list" where
  "PumpConfigurationAndControl_PumpStatusBitmap = [
     (u ''kDeviceFault'', 1),
     (u ''kSupplyFault'', 2),
     (u ''kSpeedLow'', 4),
     (u ''kSpeedHigh'', 8),
     (u ''kLocalOverride'', 16),
     (u ''kRunning'', 32),
     (u ''kRemotePressure'', 64),
     (u ''kRemoteFlow'', 128),
     (u ''kRemoteTemperature'', 256)]"

definition PumpConfigurationAndControl_attributes_1 :: "attribute_class list" where
  "PumpConfigurationAndControl_attributes_1 = [
     AttributeClass (u ''MaxPressure'') 512 0 (nullable CInt) (Value VNull),
     AttributeClass (u ''MaxSpeed'') 512 1 (nullable CUint) (Value VNull),
     AttributeClass (u ''MaxFlow'') 512 2 (nullable CUint) (Value VNull),
     AttributeClass (u ''MinConstPressure'') 512 3 (optional_nullable CInt) (Value VNone),
     AttributeClass (u ''MaxConstPressure'') 512 4 (optional_nullable CInt) (Value VNone),
     AttributeClass (u ''MinCompPressure'') 512 5 (optional_nullable CInt) (Value VNone),
     AttributeClass (u ''MaxCompPressure'') 512 6 (optional_nullable CInt) (Value VNone),
     AttributeClass (u ''MinConstSpeed'') 512 7 (optional_nullable CUint) (Value VNone),
     AttributeClass (u ''MaxConstSpeed'') 512 8 (optional_nullable CUint) (Value VNone)]"

definition PumpConfigurationAndControl_attributes_2 :: "attribute_class list" where
  "PumpConfigurationAndControl_attributes_2 = [
     AttributeClass (u ''MinConstFlow'') 512 9 (optional_nullable CUint) (Value VNone),
     AttributeClass (u ''MaxConstFlow'') 512 10 (optional_nullable CUint) (Value VNone),
     AttributeClass (u ''MinConstTemp'') 512 11 (optional_nullable CInt) (Value VNone),
     AttributeClass (u ''MaxConstTemp'') 512 12 (optional_nullable CInt) (Value VNone),
     AttributeClass (u ''PumpStatus'') 512 16 (optional (flag_type PumpConfigurationAndControl_PumpStatusBitmap)) (Value VNone),
     AttributeClass (u ''EffectiveOperationMode'') 512 17 (enum_type PumpConfigurationAndControl_OperationModeEnum) (Value (VInt 0)),
     AttributeClass (u ''EffectiveControlMode'') 512 18 (enum_type PumpConfigurationAndControl_ControlModeEnum) (Value (VInt 0)),
     AttributeClass (u ''Capacity'') 512 19 (nullable CInt) (Value VNull),
     AttributeClass (u ''Speed'') 512 20 (optional_nullable CUint) (Value VNone)]"

definition PumpConfigurationAndControl_attributes_3 :: "attribute_class list" where
  "PumpConfigurationAndControl_attributes_3 = [
     AttributeClass (u ''LifetimeRunningHours'') 512 21 (optional_nullable CUint) (Value VNone),
     AttributeClass (u ''Power'') 512 22 (optional_nullable CUint) (Value VNone),
     AttributeClass (u ''LifetimeEnergyConsumed'') 512 23 (optional_nullable CUint) (Value VNone),
     AttributeClass (u ''OperationMode'') 512 32 (enum_type PumpConfigurationAndControl_OperationModeEnum) (Value (VInt 0)),
     AttributeClass (u ''ControlMode'') 512 33 (optional (enum_type PumpConfigurationAndControl_ControlModeEnum)) (Value VNone),
     AttributeClass (u ''AlarmMask'') 512 34 (optional CUint) (Value VNone),
     AttributeClass (u ''GeneratedCommandList'') 512 65528 (CList CUint) (EmptyList),
     AttributeClass (u ''AcceptedCommandList'') 512 65529 (CList CUint) (EmptyList),
     AttributeClass (u ''AttributeList'') 512 65531 (CList CUint) (EmptyList)]"

definition PumpConfigurationAndControl_attributes_4 :: "attribute_class list" where
  "PumpConfigurationAndControl_attributes_4 = [
     AttributeClass (u ''FeatureMap'') 512 65532 CUint (Value (VInt 0)),
     AttributeClass (u ''ClusterRevision'') 512 65533 CUint (Value (VInt 0))]"

definition PumpConfigurationAndControl_events_1 :: "event_class list" where
  "PumpConfigurationAndControl_events_1 = [
     EventClass (u ''SupplyVoltageLow'') 512 0 [],
     EventClass (u ''SupplyVoltageHigh'') 512 1 [],
     EventClass (u ''PowerMissingPhase'') 512 2 [],
     EventClass (u ''SystemPressureLow'') 512 3 [],
     EventClass (u ''SystemPressureHigh'') 512 4 [],
     EventClass (u ''DryRunning'') 512 5 [],
     EventClass (u ''MotorTemperatureHigh'') 512 6 [],
     EventClass (u ''PumpMotorFatalFailure'') 512 7 []]"

definition PumpConfigurationAndControl_events_2 :: "event_class list" where
  "PumpConfigurationAndControl_events_2 = [
     EventClass (u ''ElectronicTemperatureHigh'') 512 8 [],
     EventClass (u ''PumpBlocked'') 512 9 [],
     EventClass (u ''SensorFailure'') 512 10 [],
     EventClass (u ''ElectronicNonFatalFailure'') 512 11 [],
     EventClass (u ''ElectronicFatalFailure'') 512 12 [],
     EventClass (u ''GeneralFault'') 512 13 [],
     EventClass (u ''Leakage'') 512 14 [],
     EventClass (u ''AirDetection'') 512 15 []]"

definition PumpConfigurationAndControl_events_3 :: "event_class list" where
  "PumpConfigurationAndControl_events_3 = [
     EventClass (u ''TurbineOperation'') 512 16 []]"

definition PumpConfigurationAndControl_cluster :: "cluster_def" where
  "PumpConfigurationAndControl_cluster = ClusterDef (u ''PumpConfigurationAndControl'') 512 [
     (u ''maxPressure'', 0, nullable CInt, Value VNull),
     (u ''maxSpeed'', 1, nullable CUint, Value VNull),
     (u ''maxFlow'', 2, nullable CUint, Value VNull),
     (u ''minConstPressure'', 3, optional_nullable CInt, Value VNone),
     (u ''maxConstPressure'', 4, optional_nullable CInt, Value VNone),
     (u ''minCompPressure'', 5, optional_nullable CInt, Value VNone),
     (u ''maxCompPressure'', 6, optional_nullable CInt, Value VNone),
     (u ''minConstSpeed'', 7, optional_nullable CUint, Value VNone),
     (u ''maxConstSpeed'', 8, optional_nullable CUint, Value VNone),
     (u ''minConstFlow'', 9, optional_nullable CUint, Value VNone),
     (u ''maxConstFlow'', 10, optional_nullable CUint, Value VNone),
     (u ''minConstTemp'', 11, optional_nullable CInt, Value VNone),
     (u ''maxConstTemp'', 12, optional_nullable CInt, Value VNone),
     (u ''pumpStatus'', 16, optional (flag_type PumpConfigurationAndControl_PumpStatusBitmap), Value VNone),
     (u ''effectiveOperationMode'', 17, enum_type PumpConfigurationAndControl_OperationModeEnum, Value (VInt 0)),
     (u ''effectiveControlMode'', 18, enum_type PumpConfigurationAndControl_ControlModeEnum, Value (VInt 0)),
     (u ''capacity'', 19, nullable CInt, Value VNull),
     (u ''speed'', 20, optional_nullable CUint, Value VNone),
     (u ''lifetimeRunningHours'', 21, optional_nullable CUint, Value VNone),
     (u ''power'', 22, optional_nullable CUint, Value VNone),
     (u ''lifetimeEnergyConsumed'', 23, optional_nullable CUint, Value VNone),
     (u ''operationMode'', 32, enum_type PumpConfigurationAndControl_OperationModeEnum, Value (VInt 0)),
     (u ''controlMode'', 33, optional (enum_type PumpConfigurationAndControl_ControlModeEnum), Value VNone),
     (u ''alarmMask'', 34, optional CUint, Value VNone),
     (u ''generatedCommandList'', 65528, CList CUint, EmptyList),
     (u ''acceptedCommandList'', 65529, CList CUint, EmptyList),
     (u ''attributeList'', 65531, CList CUint, EmptyList),
     (u ''featureMap'', 65532, CUint, Value (VInt 0)),
     (u ''clusterRevision'', 65533, CUint, Value (VInt 0))]
     []
     (PumpConfigurationAndControl_attributes_1 @ PumpConfigurationAndControl_attributes_2 @ PumpConfigurationAndControl_attributes_3 @ PumpConfigurationAndControl_attributes_4)
     (PumpConfigurationAndControl_events_1 @ PumpConfigurationAndControl_events_2 @ PumpConfigurationAndControl_events_3)"

section \<open>PushAvStreamTransport\<close>

definition PushAvStreamTransport_TransportTriggerTypeEnum :: "(pystr \<times> int) list" where
  "PushAvStreamTransport_TransportTriggerTypeEnum = [
     (u ''kCommand'', 0),
     (u ''kMotion'', 1),
     (u ''kContinuous'', 2),
     (u ''kUnknownEnumValue'', 3)]"

definition PushAvStreamTransport_TransportStatusEnum :: "(pystr \<times> int) list" where
  "PushAvStreamTransport_TransportStatusEnum = [
     (u ''kActive'', 0),
     (u ''kInactive'', 1),
     (u ''kUnknownEnumValue'', 2)]"

definition PushAvStreamTransport_ContainerFormatEnum :: "(pystr \<times> int) list" where
  "PushAvStreamTransport_ContainerFormatEnum = [
     (u ''kCmaf'', 0),
     (u ''kUnknownEnumValue'', 1)]"

definition PushAvStreamTransport_IngestMethodsEnum :: "(pystr \<times> int) list" where
  "PushAvStreamTransport_IngestMethodsEnum = [
     (u ''kCmafIngest'', 0),
     (u ''kUnknownEnumValue'', 1)]"

definition PushAvStreamTransport_TriggerActivationReasonEnum :: "(pystr \<times> int) list" where
  "PushAvStreamTransport_TriggerActivationReasonEnum = [
     (u ''kUserInitiated'', 0),
     (u ''kAutomation'', 1),
     (u ''kEmergency'', 2),
     (u ''kDoorbellPressed'', 3),
     (u ''kUnknownEnumValue'', 4)]"

definition PushAvStreamTransport_CMAFInterfaceEnum :: "(pystr \<times> int) list" where
  "PushAvStreamTransport_CMAFInterfaceEnum = [
     (u ''kInterface1'', 0),
     (u ''kInterface2Dash'', 1),
     (u ''kInterface2Hls'', 2),
     (u ''kUnknownEnumValue'', 3)]"

definition PushAvStreamTransport_StatusCodeEnum :: "(pystr \<times> int) list" where
  "PushAvStreamTransport_StatusCodeEnum = [
     (u ''kInvalidTlsEndpoint'', 2),
     (u ''kInvalidStream'', 3),
     (u ''kInvalidURL'', 4),
     (u ''kInvalidZone'', 5),
     (u ''kInvalidCombination'', 6),
     (u ''kInvalidTriggerType'', 7),
     (u ''kInvalidTransportStatus'', 8),
     (u ''kInvalidOptions'', 9),
     (u ''kInvalidStreamUsage'', 10),
     (u ''kInvalidTime'', 11),
     (u ''kInvalidPreRollLength'', 12),
     (u ''kDuplicateStreamValues'', 13),
     (u ''kUnknownEnumValue'', 14)]"

definition PushAvStreamTransport_Feature :: "(pystr \<times> int) list" where
  "PushAvStreamTransport_Feature = [
     (u ''kPerZoneSensitivity'', 1),
     (u ''kMetadata'', 2)]"

definition PushAvStreamTransport_SupportedFormatStruct :: "dfield list" where
  "PushAvStreamTransport_SupportedFormatStruct = [
     (u ''containerFormat'', 0, enum_type PushAvStreamTransport_ContainerFormatEnum, Value (VInt 0)),
     (u ''ingestMethod'', 1, enum_type PushAvStreamTransport_IngestMethodsEnum, Value (VInt 0))]"

definition PushAvStreamTransport_VideoStreamStruct :: "dfield list" where
  "PushAvStreamTransport_VideoStreamStruct = [
     (u ''videoStreamName'', 0, CStr, Value (VStr [])),
     (u ''videoStreamID'', 1, CUint, Value (VInt 0))]"

definition PushAvStreamTransport_AudioStreamStruct :: "dfield list" where
  "PushAvStreamTransport_AudioStreamStruct = [
     (u ''audioStreamName'', 0, CStr, Value (VStr [])),
     (u ''audioStreamID'', 1, CUint, Value (VInt 0))]"

definition PushAvStreamTransport_CMAFContainerOptionsStruct :: "dfield list" where
  "PushAvStreamTransport_CMAFContainerOptionsStruct = [
     (u ''cmafInterface'', 0, enum_type PushAvStreamTransport_CMAFInterfaceEnum, Value (VInt 0)),
     (u ''segmentDuration'', 1, CUint, Value (VInt 0)),
     (u ''chunkDuration'', 2, CUint, Value (VInt 0)),
     (u ''sessionGroup'', 3, optional CUint, Value VNone),
     (u ''trackName'', 4, optional CStr, Value VNone),
     (u ''metadataEnabled'', 7, optional CBool, Value VNone)]"

definition PushAvStreamTransport_ContainerOptionsStruct :: "dfield list" where
  "PushAvStreamTransport_ContainerOptionsStruct = [
     (u ''containerType'', 0, enum_type PushAvStreamTransport_ContainerFormatEnum, Value (VInt 0)),
     (u ''cmafContainerOptions'', 1, optional (struct_type PushAvStreamTransport_CMAFContainerOptionsStruct), Value VNone)]"

definition PushAvStreamTransport_TransportZoneOptionsStruct :: "dfield list" where
  "PushAvStreamTransport_TransportZoneOptionsStruct = [
     (u ''zone'', 0, nullable CUint, Value VNull),
     (u ''sensitivity'', 1, optional CUint, Value VNone)]"

definition PushAvStreamTransport_TransportMotionTriggerTimeControlStruct :: "dfield list" where
  "PushAvStreamTransport_TransportMotionTriggerTimeControlStruct = [
     (u ''initialDuration'', 0, CUint, Value (VInt 0)),
     (u ''augmentationDuration'', 1, CUint, Value (VInt 0)),
     (u ''maxDuration'', 2, CUint, Value (VInt 0)),
     (u ''blindDuration'', 3, CUint, Value (VInt 0))]"

definition PushAvStreamTransport_TransportTriggerOptionsStruct :: "dfield list" where
  "PushAvStreamTransport_TransportTriggerOptionsStruct = [
     (u ''triggerType'', 0, enum_type PushAvStreamTransport_TransportTriggerTypeEnum, Value (VInt 0)),
     (u ''motionZones'', 1, optional_nullable (CList (struct_type PushAvStreamTransport_TransportZoneOptionsStruct)), Value VNone),
     (u ''motionSensitivity'', 2, optional_nullable CUint, Value VNone),
     (u ''motionTimeControl'', 3, optional (struct_type PushAvStreamTransport_TransportMotionTriggerTimeControlStruct), Value VNone),
     (u ''maxPreRollLen'', 4, optional CUint, Value VNone)]"

definition PushAvStreamTransport_TransportOptionsStruct :: "dfield list" where
  "PushAvStreamTransport_TransportOptionsStruct = [
     (u ''streamUsage'', 0, enum_type Globals_StreamUsageEnum, Value (VInt 0)),
     (u ''videoStreamID'', 1, optional_nullable CUint, Value VNone),
     (u ''audioStreamID'', 2, optional_nullable CUint, Value VNone),
     (u ''tlsEndpointID'', 3, CUint, Value (VInt 0)),
     (u ''URL'', 4, CStr, Value (VStr [])),
     (u ''triggerOptions'', 5, struct_type PushAvStreamTransport_TransportTriggerOptionsStruct, Instance PushAvStreamTransport_TransportTriggerOptionsStruct),
     (u ''ingestMethod'', 6, enum_type PushAvStreamTransport_IngestMethodsEnum, Value (VInt 0)),
     (u ''containerOptions'', 7, struct_type PushAvStreamTransport_ContainerOptionsStruct, Instance PushAvStreamTransport_ContainerOptionsStruct),
     (u ''expiryTime'', 8, optional CUint, Value VNone),
     (u ''videoStreams'', 9, optional (CList (struct_type PushAvStreamTransport_VideoStreamStruct)), Value VNone),
     (u ''audioStreams'', 10, optional (CList (struct_type PushAvStreamTransport_AudioStreamStruct)), Value VNone)]"

definition PushAvStreamTransport_TransportConfigurationStruct :: "dfield list" where
  "PushAvStreamTransport_TransportConfigurationStruct = [
     (u ''connectionID'', 0, CUint, Value (VInt 0)),
     (u ''transportStatus'', 1, enum_type PushAvStreamTransport_TransportStatusEnum, Value (VInt 0)),
     (u ''transportOptions'', 2, optional (struct_type PushAvStreamTransport_TransportOptionsStruct), Value VNone),
     (u ''fabricIndex'', 254, CUint, Value (VInt 0))]"

definition PushAvStreamTransport_commands :: "command_class list" where
  "PushAvStreamTransport_commands = [
     CommandClass (u ''AllocatePushTransport'') 1365 0 True (Some (u ''AllocatePushTransportResponse'')) False [(u ''transportOptions'', 0, struct_type PushAvStreamTransport_TransportOptionsStruct, Instance PushAvStreamTransport_TransportOptionsStruct)],
     CommandClass (u ''DeallocatePushTransport'') 1365 2 True None False [(u ''connectionID'', 0, CUint, Value (VInt 0))],
     CommandClass (u ''ModifyPushTransport'') 1365 3 True None False [(u ''connectionID'', 0, CUint, Value (VInt 0)),
       (u ''transportOptions'', 1, struct_type PushAvStreamTransport_TransportOptionsStruct, Instance PushAvStreamTransport_TransportOptionsStruct)],
     CommandClass (u ''SetTransportStatus'') 1365 4 True None False [(u ''connectionID'', 0, nullable CUint, Value VNull),
       (u ''transportStatus'', 1, enum_type PushAvStreamTransport_TransportStatusEnum, Value (VInt 0))],
     CommandClass (u ''ManuallyTriggerTransport'') 1365 5 True None False [(u ''connectionID'', 0, CUint, Value (VInt 0)),
       (u ''activationReason'', 1, enum_type PushAvStreamTransport_TriggerActivationReasonEnum, Value (VInt 0)),
       (u ''timeControl'', 2, optional (struct_type PushAvStreamTransport_TransportMotionTriggerTimeControlStruct), Value VNone),
       (u ''userDefined'', 3, optional CBytes, Value VNone)],
     CommandClass (u ''FindTransport'') 1365 6 True (Some (u ''FindTransportResponse'')) False [(u ''connectionID'', 0, nullable CUint, Value VNull)],
     CommandClass (u ''AllocatePushTransportResponse'') 1365 1 False None False [(u ''transportConfiguration'', 0, struct_type PushAvStreamTransport_TransportConfigurationStruct, Instance PushAvStreamTransport_TransportConfigurationStruct)],
     CommandClass (u ''FindTransportResponse'') 1365 7 False None False [(u ''transportConfigurations'', 0, CList (struct_type PushAvStreamTransport_TransportConfigurationStruct), EmptyList)]]"

definition PushAvStreamTransport_attributes :: "attribute_class list" where
  "PushAvStreamTransport_attributes = [
     AttributeClass (u ''SupportedFormats'') 1365 0 (CList (struct_type PushAvStreamTransport_SupportedFormatStruct)) (EmptyList),
     AttributeClass (u ''CurrentConnections'') 1365 1 (CList (struct_type PushAvStreamTransport_TransportConfigurationStruct)) (EmptyList),
     AttributeClass (u ''GeneratedCommandList'') 1365 65528 (CList CUint) (EmptyList),
     AttributeClass (u ''AcceptedCommandList'') 1365 65529 (CList CUint) (EmptyList),
     AttributeClass (u ''AttributeList'') 1365 65531 (CList CUint) (EmptyList),
     AttributeClass (u ''FeatureMap'') 1365 65532 CUint (Value (VInt 0)),
     AttributeClass (u ''ClusterRevision'') 1365 65533 CUint (Value (VInt 0))]"

definition PushAvStreamTransport_events :: "event_class list" where
  "PushAvStreamTransport_events = [
     EventClass (u ''PushTransportBegin'') 1365 0 [(u ''connectionID'', 0, CUint, Value (VInt 0)),
       (u ''triggerType'', 1, enum_type PushAvStreamTransport_TransportTriggerTypeEnum, Value (VInt 0)),
       (u ''activationReason'', 2, optional (enum_type PushAvStreamTransport_TriggerActivationReasonEnum), Value VNone),
       (u ''containerType'', 3, optional (enum_type PushAvStreamTransport_ContainerFormatEnum), Value VNone),
       (u ''cmafSessionNumber'', 4, optional CUint, Value VNone)],
     EventClass (u ''PushTransportEnd'') 1365 1 [(u ''connectionID'', 0, CUint, Value (VInt 0)),
       (u ''containerType'', 1, optional (enum_type PushAvStreamTransport_ContainerFormatEnum), Value VNone),
       (u ''cmafSessionNumber'', 2, optional CUint, Value VNone)]]"

definition PushAvStreamTransport_cluster :: "cluster_def" where
  "PushAvStreamTransport_cluster = ClusterDef (u ''PushAvStreamTransport'') 1365 [
     (u ''supportedFormats'', 0, CList (struct_type PushAvStreamTransport_SupportedFormatStruct), EmptyList),
     (u ''currentConnections'', 1, CList (struct_type PushAvStreamTransport_TransportConfigurationStruct), EmptyList),
     (u ''generatedCommandList'', 65528, CList CUint, EmptyList),
     (u ''acceptedCommandList'', 65529, CList CUint, EmptyList),
     (u ''attributeList'', 65531, CList CUint, EmptyList),
     (u ''featureMap'', 65532, CUint, Value (VInt 0)),
     (u ''clusterRevision'', 65533, CUint, Value (VInt 0))]
     PushAvStreamTransport_commands
     PushAvStreamTransport_attributes
     PushAvStreamTransport_events"

section \<open>RadonConcentrationMeasurement\<close>

definition RadonConcentrationMeasurement_MeasurementUnitEnum :: "(pystr \<times> int) list" where
  "RadonConcentrationMeasurement_MeasurementUnitEnum = [
     (u ''kPpm'', 0),
     (u ''kPpb'', 1),
     (u ''kPpt'', 2),
     (u ''kMgm3'', 3),
     (u ''kUgm3'', 4),
     (u ''kNgm3'', 5),
     (u ''kPm3'', 6),
     (u ''kBqm3'', 7),
     (u ''kUnknownEnumValue'', 8)]"

definition RadonConcentrationMeasurement_MeasurementMediumEnum :: "(pystr \<times> int) list" where
  "RadonConcentrationMeasurement_MeasurementMediumEnum = [
     (u ''kAir'', 0),
     (u ''kWater'', 1),
     (u ''kSoil'', 2),
     (u ''kUnknownEnumValue'', 3)]"

definition RadonConcentrationMeasurement_LevelValueEnum :: "(pystr \<times> int) list" where
  "RadonConcentrationMeasurement_LevelValueEnum = [
     (u ''kUnknown'', 0),
     (u ''kLow'', 1),
     (u ''kMedium'', 2),
     (u ''kHigh'', 3),
     (u ''kCritical'', 4),
     (u ''kUnknownEnumValue'', 5)]"

definition RadonConcentrationMeasurement_Feature :: "(pystr \<times> int) list" where
  "RadonConcentrationMeasurement_Feature = [
     (u ''kNumericMeasurement'', 1),
     (u ''kLevelIndication'', 2),
     (u ''kMediumLevel'', 4),
     (u ''kCriticalLevel'', 8),
     (u ''kPeakMeasurement'', 16),
     (u ''kAverageMeasurement'', 32)]"

definition RadonConcentrationMeasurement_attributes_1 :: "attribute_class list" where
  "RadonConcentrationMeasurement_attributes_1 = [
     AttributeClass (u ''MeasuredValue'') 1071 0 (optional_nullable CFloat32) (Value VNone),
     AttributeClass (u ''MinMeasuredValue'') 1071 1 (optional_nullable CFloat32) (Value VNone),
     AttributeClass (u ''MaxMeasuredValue'') 1071 2 (optional_nullable CFloat32) (Value VNone),
     AttributeClass (u ''PeakMeasuredValue'') 1071 3 (optional_nullable CFloat32) (Value VNone),
     AttributeClass (u ''PeakMeasuredValueWindow'') 1071 4 (optional CUint) (Value VNone),
     AttributeClass (u ''AverageMeasuredValue'') 1071 5 (optional_nullable CFloat32) (Value VNone),
     AttributeClass (u ''AverageMeasuredValueWindow'') 1071 6 (optional CUint) (Value VNone),
     AttributeClass (u ''Uncertainty'') 1071 7 (optional CFloat32) (Value VNone),
     AttributeClass (u ''MeasurementUnit'') 1071 8 (optional (enum_type RadonConcentrationMeasurement_MeasurementUnitEnum)) (Value VNone)]"

definition RadonConcentrationMeasurement_attributes_2 :: "attribute_class list" where
  "RadonConcentrationMeasurement_attributes_2 = [
     AttributeClass (u ''MeasurementMedium'') 1071 9 (enum_type RadonConcentrationMeasurement_MeasurementMediumEnum) (Value (VInt 0)),
     AttributeClass (u ''LevelValue'') 1071 10 (optional (enum_type RadonConcentrationMeasurement_LevelValueEnum)) (Value VNone),
     AttributeClass (u ''GeneratedCommandList'') 1071 65528 (CList CUint) (EmptyList),
     AttributeClass (u ''AcceptedCommandList'') 1071 65529 (CList CUint) (EmptyList),
     AttributeClass (u ''AttributeList'') 1071 65531 (CList CUint) (EmptyList),
     AttributeClass (u ''FeatureMap'') 1071 65532 CUint (Value (VInt 0)),
     AttributeClass (u ''ClusterRevision'') 1071 65533 CUint (Value (VInt 0))]"

definition RadonConcentrationMeasurement_cluster :: "cluster_def" where
  "RadonConcentrationMeasurement_cluster = ClusterDef (u ''RadonConcentrationMeasurement'') 1071 [
     (u ''measuredValue'', 0, optional_nullable CFloat32, Value VNone),
     (u ''minMeasuredValue'', 1, optional_nullable CFloat32, Value VNone),
     (u ''maxMeasuredValue'', 2, optional_nullable CFloat32, Value VNone),
     (u ''peakMeasuredValue'', 3, optional_nullable CFloat32, Value VNone),
     (u ''peakMeasuredValueWindow'', 4, optional CUint, Value VNone),
     (u ''averageMeasuredValue'', 5, optional_nullable CFloat32, Value VNone),
     (u ''averageMeasuredValueWindow'', 6, optional CUint, Value VNone),
     (u ''uncertainty'', 7, optional CFloat32, Value VNone),
     (u ''measurementUnit'', 8, optional (enum_type RadonConcentrationMeasurement_MeasurementUnitEnum), Value VNone),
     (u ''measurementMedium'', 9, enum_type RadonConcentrationMeasurement_MeasurementMediumEnum, Value (VInt 0)),
     (u ''levelValue'', 10, optional (enum_type RadonConcentrationMeasurement_LevelValueEnum), Value VNone),
     (u ''generatedCommandList'', 65528, CList CUint, EmptyList),
     (u ''acceptedCommandList'', 65529, CList CUint, EmptyList),
     (u ''attributeList'', 65531, CList CUint, EmptyList),
     (u ''featureMap'', 65532, CUint, Value (VInt 0)),
     (u ''clusterRevision'', 65533, CUint, Value (VInt 0))]
     []
     (RadonConcentrationMeasurement_attributes_1 @ RadonConcentrationMeasurement_attributes_2)
     []"

section \<open>RefrigeratorAlarm\<close>

definition RefrigeratorAlarm_Feature :: "(pystr \<times> int) list" where
  "RefrigeratorAlarm_Feature = [
     (u ''kReset'', 1)]"

definition RefrigeratorAlarm_AlarmBitmap :: "(pystr \<times> int) list" where
  "RefrigeratorAlarm_AlarmBitmap = [
     (u ''kDoorOpen'', 1)]"

definition RefrigeratorAlarm_commands :: "command_class list" where
  "RefrigeratorAlarm_commands = [
     CommandClass (u ''ModifyEnabledAlarms'') 87 1 True None False [(u ''mask'', 0, flag_type RefrigeratorAlarm_AlarmBitmap, Value (VInt 0))],
     CommandClass (u ''Reset'') 87 0 True None False [(u ''alarms'', 0, flag_type RefrigeratorAlarm_AlarmBitmap, Value (VInt 0))]]"

definition RefrigeratorAlarm_attributes :: "attribute_class list" where
  "RefrigeratorAlarm_attributes = [
     AttributeClass (u ''Mask'') 87 0 (flag_type RefrigeratorAlarm_AlarmBitmap) (Value (VInt 0)),
     AttributeClass (u ''Latch'') 87 1 (optional (flag_type RefrigeratorAlarm_AlarmBitmap)) (Value VNone),
     AttributeClass (u ''State'') 87 2 (flag_type RefrigeratorAlarm_AlarmBitmap) (Value (VInt 0)),
     AttributeClass (u ''Supported'') 87 3 (flag_type RefrigeratorAlarm_AlarmBitmap) (Value (VInt 0)),
     AttributeClass (u ''GeneratedCommandList'') 87 65528 (CList CUint) (EmptyList),
     AttributeClass (u ''AcceptedCommandList'') 87 65529 (CList CUint) (EmptyList),
     AttributeClass (u ''AttributeList'') 87 65531 (CList CUint) (EmptyList),
     AttributeClass (u ''FeatureMap'') 87 65532 CUint (Value (VInt 0)),
     AttributeClass (u ''ClusterRevision'') 87 65533 CUint (Value (VInt 0))]"

definition RefrigeratorAlarm_events :: "event_class list" where
  "RefrigeratorAlarm_events = [
     EventClass (u ''Notify'') 87 0 [(u ''active'', 0, flag_type RefrigeratorAlarm_AlarmBitmap, Value (VInt 0)),
       (u ''inactive'', 1, flag_type RefrigeratorAlarm_AlarmBitmap, Value (VInt 0)),
       (u ''state'', 2, flag_type RefrigeratorAlarm_AlarmBitmap, Value (VInt 0)),
       (u ''mask'', 3, flag_type RefrigeratorAlarm_AlarmBitmap, Value (VInt 0))]]"

definition RefrigeratorAlarm_cluster :: "cluster_def" where
  "RefrigeratorAlarm_cluster = ClusterDef (u ''RefrigeratorAlarm'') 87 [
     (u ''mask'', 0, flag_type RefrigeratorAlarm_AlarmBitmap, Value (VInt 0)),
     (u ''latch'', 1, optional (flag_type RefrigeratorAlarm_AlarmBitmap), Value VNone),
     (u ''state'', 2, flag_type RefrigeratorAlarm_AlarmBitmap, Value (VInt 0)),
     (u ''supported'', 3, flag_type RefrigeratorAlarm_AlarmBitmap, Value (VInt 0)),
     (u ''generatedCommandList'', 65528, CList CUint, EmptyList),
     (u ''acceptedCommandList'', 65529, CList CUint, EmptyList),
     (u ''attributeList'', 65531, CList CUint, EmptyList),
     (u ''featureMap'', 65532, CUint, Value (VInt 0)),
     (u ''clusterRevision'', 65533, CUint, Value (VInt 0))]
     RefrigeratorAlarm_commands
     RefrigeratorAlarm_attributes
     RefrigeratorAlarm_events"

section \<open>RefrigeratorAndTemperatureControlledCabinetMode\<close>

definition RefrigeratorAndTemperatureControlledCabinetMode_ModeTag :: "(pystr \<times> int) list" where
  "RefrigeratorAndTemperatureControlledCabinetMode_ModeTag = [
     (u ''kAuto'', 0),
     (u ''kQuick'', 1),
     (u ''kQuiet'', 2),
     (u ''kLowNoise'', 3),
     (u ''kLowEnergy'', 4),
     (u ''kVacation'', 5),
     (u ''kMin'', 6),
     (u ''kMax'', 7),
     (u ''kNight'', 8),
     (u ''kDay'', 9),
     (u ''kRapidCool'', 16384),
     (u ''kRapidFreeze'', 16385),
     (u ''kUnknownEnumValue'', 16386)]"

definition RefrigeratorAndTemperatureControlledCabinetMode_ModeChangeStatus :: "(pystr \<times> int) list" where
  "RefrigeratorAndTemperatureControlledCabinetMode_ModeChangeStatus = [
     (u ''kSuccess'', 0),
     (u ''kUnsupportedMode'', 1),
     (u ''kGenericFailure'', 2),
     (u ''kInvalidInMode'', 3),
     (u ''kUnknownEnumValue'', 4)]"

definition RefrigeratorAndTemperatureControlledCabinetMode_Feature :: "(pystr \<times> int) list" where
  "RefrigeratorAndTemperatureControlledCabinetMode_Feature = [
     (u ''kOnOff'', 1)]"

definition RefrigeratorAndTemperatureControlledCabinetMode_ModeTagStruct :: "dfield list" where
  "RefrigeratorAndTemperatureControlledCabinetMode_ModeTagStruct = [
     (u ''mfgCode'', 0, optional CUint, Value VNone),
     (u ''value'', 1, enum_type RefrigeratorAndTemperatureControlledCabinetMode_ModeTag, Value (VInt 0))]"

definition RefrigeratorAndTemperatureControlledCabinetMode_ModeOptionStruct :: "dfield list" where
  "RefrigeratorAndTemperatureControlledCabinetMode_ModeOptionStruct = [
     (u ''label'', 0, CStr, Value (VStr [])),
     (u ''mode'', 1, CUint, Value (VInt 0)),
     (u ''modeTags'', 2, CList (struct_type RefrigeratorAndTemperatureControlledCabinetMode_ModeTagStruct), EmptyList)]"

definition RefrigeratorAndTemperatureControlledCabinetMode_commands :: "command_class list" where
  "RefrigeratorAndTemperatureControlledCabinetMode_commands = [
     CommandClass (u ''ChangeToMode'') 82 0 True (Some (u ''ChangeToModeResponse'')) False [(u ''newMode'', 0, CUint, Value (VInt 0))],
     CommandClass (u ''ChangeToModeResponse'') 82 1 False None False [(u ''status'', 0, enum_type RefrigeratorAndTemperatureControlledCabinetMode_ModeChangeStatus, Value (VInt 0)),
       (u ''statusText'', 1, CStr, Value (VStr []))]]"

definition RefrigeratorAndTemperatureControlledCabinetMode_attributes :: "attribute_class list" where
  "RefrigeratorAndTemperatureControlledCabinetMode_attributes = [
     AttributeClass (u ''SupportedModes'') 82 0 (CList (struct_type RefrigeratorAndTemperatureControlledCabinetMode_ModeOptionStruct)) (EmptyList),
     AttributeClass (u ''CurrentMode'') 82 1 CUint (Value (VInt 0)),
     AttributeClass (u ''StartUpMode'') 82 2 (optional_nullable CUint) (Value VNone),
     AttributeClass (u ''OnMode'') 82 3 (optional_nullable CUint) (Value VNone),
     AttributeClass (u ''GeneratedCommandList'') 82 65528 (CList CUint) (EmptyList),
     AttributeClass (u ''AcceptedCommandList'') 82 65529 (CList CUint) (EmptyList),
     AttributeClass (u ''AttributeList'') 82 65531 (CList CUint) (EmptyList),
     AttributeClass (u ''FeatureMap'') 82 65532 CUint (Value (VInt 0)),
     AttributeClass (u ''ClusterRevision'') 82 65533 CUint (Value (VInt 0))]"

definition RefrigeratorAndTemperatureControlledCabinetMode_cluster :: "cluster_def" where
  "RefrigeratorAndTemperatureControlledCabinetMode_cluster = ClusterDef (u ''RefrigeratorAndTemperatureControlledCabinetMode'') 82 [
     (u ''supportedModes'', 0, CList (struct_type RefrigeratorAndTemperatureControlledCabinetMode_ModeOptionStruct), EmptyList),
     (u ''currentMode'', 1, CUint, Value (VInt 0)),
     (u ''startUpMode'', 2, optional_nullable CUint, Value VNone),
     (u ''onMode'', 3, optional_nullable CUint, Value VNone),
     (u ''generatedCommandList'', 65528, CList CUint, EmptyList),
     (u ''acceptedCommandList'', 65529, CList CUint, EmptyList),
     (u ''attributeList'', 65531, CList CUint, EmptyList),
     (u ''featureMap'', 65532, CUint, Value (VInt 0)),
     (u ''clusterRevision'', 65533, CUint, Value (VInt 0))]
     RefrigeratorAndTemperatureControlledCabinetMode_commands
     RefrigeratorAndTemperatureControlledCabinetMode_attributes
     []"

section \<open>RelativeHumidityMeasurement\<close>

definition RelativeHumidityMeasurement_attributes :: "attribute_class list" where
  "RelativeHumidityMeasurement_attributes = [
     AttributeClass (u ''MeasuredValue'') 1029 0 (nullable CUint) (Value VNull),
     AttributeClass (u ''MinMeasuredValue'') 1029 1 (nullable CUint) (Value VNull),
     AttributeClass (u ''MaxMeasuredValue'') 1029 2 (nullable CUint) (Value VNull),
     AttributeClass (u ''Tolerance'') 1029 3 (optional CUint) (Value VNone),
     AttributeClass (u ''GeneratedCommandList'') 1029 65528 (CList CUint) (EmptyList),
     AttributeClass (u ''AcceptedCommandList'') 1029 65529 (CList CUint) (EmptyList),
     AttributeClass (u ''AttributeList'') 1029 65531 (CList CUint) (EmptyList),
     AttributeClass (u ''FeatureMap'') 1029 65532 CUint (Value (VInt 0)),
     AttributeClass (u ''ClusterRevision'') 1029 65533 CUint (Value (VInt 0))]"

definition RelativeHumidityMeasurement_cluster :: "cluster_def" where
  "RelativeHumidityMeasurement_cluster = ClusterDef (u ''RelativeHumidityMeasurement'') 1029 [
     (u ''measuredValue'', 0, nullable CUint, Value VNull),
     (u ''minMeasuredValue'', 1, nullable CUint, Value VNull),
     (u ''maxMeasuredValue'', 2, nullable CUint, Value VNull),
     (u ''tolerance'', 3, optional CUint, Value VNone),
     (u ''generatedCommandList'', 65528, CList CUint, EmptyList),
     (u ''acceptedCommandList'', 65529, CList CUint, EmptyList),
     (u ''attributeList'', 65531, CList CUint, EmptyList),
     (u ''featureMap'', 65532, CUint, Value (VInt 0)),
     (u ''clusterRevision'', 65533, CUint, Value (VInt 0))]
     []
     RelativeHumidityMeasurement_attributes
     []"

section \<open>RvcCleanMode\<close>

definition RvcCleanMode_ModeChangeStatus :: "(pystr \<times> int) list" where
  "RvcCleanMode_ModeChangeStatus = [
     (u ''kCleaningInProgress'', 64),
     (u ''kUnknownEnumValue'', 65)]"

definition RvcCleanMode_ModeTag :: "(pystr \<times> int) list" where
  "RvcCleanMode_ModeTag = [
     (u ''kAuto'', 0),
     (u ''kQuick'', 1),
     (u ''kQuiet'', 2),
     (u ''kLowNoise'', 3),
     (u ''kLowEnergy'', 4),
     (u ''kVacation'', 5),
     (u ''kMin'', 6),
     (u ''kMax'', 7),
     (u ''kNight'', 8),
     (u ''kDay'', 9),
     (u ''kDeepClean'', 16384),
     (u ''kVacuum'', 16385),
     (u ''kMop'', 16386),
     (u ''kVacuumThenMop'', 16387),
     (u ''kUnknownEnumValue'', 16388)]"

definition RvcCleanMode_Feature :: "(pystr \<times> int) list" where
  "RvcCleanMode_Feature = [
     (u ''kOnOff'', 1),
     (u ''kDirectModeChange'', 1048576)]"

definition RvcCleanMode_ModeTagStruct :: "dfield list" where
  "RvcCleanMode_ModeTagStruct = [
     (u ''mfgCode'', 0, optional CUint, Value VNone),
     (u ''value'', 1, enum_type RvcCleanMode_ModeTag, Value (VInt 0))]"

definition RvcCleanMode_ModeOptionStruct :: "dfield list" where
  "RvcCleanMode_ModeOptionStruct = [
     (u ''label'', 0, CStr, Value (VStr [])),
     (u ''mode'', 1, CUint, Value (VInt 0)),
     (u ''modeTags'', 2, CList (struct_type RvcCleanMode_ModeTagStruct), EmptyList)]"

definition RvcCleanMode_commands :: "command_class list" where
  "RvcCleanMode_commands = [
     CommandClass (u ''ChangeToMode'') 85 0 True (Some (u ''ChangeToModeResponse'')) False [(u ''newMode'', 0, CUint, Value (VInt 0))],
     CommandClass (u ''ChangeToModeResponse'') 85 1 False None False [(u ''status'', 0, enum_type RvcCleanMode_ModeChangeStatus, Value (VInt 0)),
       (u ''statusText'', 1, CStr, Value (VStr []))]]"

definition RvcCleanMode_attributes :: "attribute_class list" where
  "RvcCleanMode_attributes = [
     AttributeClass (u ''SupportedModes'') 85 0 (CList (struct_type RvcCleanMode_ModeOptionStruct)) (EmptyList),
     AttributeClass (u ''CurrentMode'') 85 1 CUint (Value (VInt 0)),
     AttributeClass (u ''StartUpMode'') 85 2 (optional_nullable CUint) (Value VNone),
     AttributeClass (u ''OnMode'') 85 3 (optional_nullable CUint) (Value VNone),
     AttributeClass (u ''GeneratedCommandList'') 85 65528 (CList CUint) (EmptyList),
     AttributeClass (u ''AcceptedCommandList'') 85 65529 (CList CUint) (EmptyList),
     AttributeClass (u ''AttributeList'') 85 65531 (CList CUint) (EmptyList),
     AttributeClass (u ''FeatureMap'') 85 65532 CUint (Value (VInt 0)),
     AttributeClass (u ''ClusterRevision'') 85 65533 CUint (Value (VInt 0))]"

definition RvcCleanMode_cluster :: "cluster_def" where
  "RvcCleanMode_cluster = ClusterDef (u ''RvcCleanMode'') 85 [
     (u ''supportedModes'', 0, CList (struct_type RvcCleanMode_ModeOptionStruct), EmptyList),
     (u ''currentMode'', 1, CUint, Value (VInt 0)),
     (u ''startUpMode'', 2, optional_nullable CUint, Value VNone),
     (u ''onMode'', 3, optional_nullable CUint, Value VNone),
     (u ''generatedCommandList'', 65528, CList CUint, EmptyList),
     (u ''acceptedCommandList'', 65529, CList CUint, EmptyList),
     (u ''attributeList'', 65531, CList CUint, EmptyList),
     (u ''featureMap'', 65532, CUint, Value (VInt 0)),
     (u ''clusterRevision'', 65533, CUint, Value (VInt 0))]
     RvcCleanMode_commands
     RvcCleanMode_attributes
     []"

section \<open>RvcOperationalState\<close>

definition RvcOperationalState_OperationalStateEnum :: "(pystr \<times> int) list" where
  "RvcOperationalState_OperationalStateEnum = [
     (u ''kStopped'', 0),
     (u ''kRunning'', 1),
     (u ''kPaused'', 2),
     (u ''kError'', 3),
     (u ''kSeekingCharger'', 64),
     (u ''kCharging'', 65),
     (u ''kDocked'', 66),
     (u ''kEmptyingDustBin'', 67),
     (u ''kCleaningMop'', 68),
     (u ''kFillingWaterTank'', 69),
     (u ''kUpdatingMaps'', 70),
     (u ''kUnknownEnumValue'', 71)]"

definition RvcOperationalState_ErrorStateEnum :: "(pystr \<times> int) list" where
  "RvcOperationalState_ErrorStateEnum = [
     (u ''kNoError'', 0),
     (u ''kUnableToStartOrResume'', 1),
     (u ''kUnableToCompleteOperation'', 2),
     (u ''kCommandInvalidInState'', 3),
     (u ''kFailedToFindChargingDock'', 64),
     (u ''kStuck'', 65),
     (u ''kDustBinMissing'', 66),
     (u ''kDustBinFull'', 67),
     (u ''kWaterTankEmpty'', 68),
     (u ''kWaterTankMissing'', 69),
     (u ''kWaterTankLidOpen'', 70),
     (u ''kMopCleaningPadMissing'', 71),
     (u ''kLowBattery'', 72),
     (u ''kCannotReachTargetArea'', 73),
     (u ''kDirtyWaterTankFull'', 74),
     (u ''kDirtyWaterTankMissing'', 75),
     (u ''kWheelsJammed'', 76),
     (u ''kBrushJammed'', 77),
     (u ''kNavigationSensorObscured'', 78),
     (u ''kUnknownEnumValue'', 79)]"

definition RvcOperationalState_OperationalStateStruct :: "dfield list" where
  "RvcOperationalState_OperationalStateStruct = [
     (u ''operationalStateID'', 0, enum_type RvcOperationalState_OperationalStateEnum, Value (VInt 0)),
     (u ''operationalStateLabel'', 1, optional CStr, Value VNone)]"

definition RvcOperationalState_ErrorStateStruct :: "dfield list" where
  "RvcOperationalState_ErrorStateStruct = [
     (u ''errorStateID'', 0, enum_type RvcOperationalState_ErrorStateEnum, Value (VInt 0)),
     (u ''errorStateLabel'', 1, optional CStr, Value VNone),
     (u ''errorStateDetails'', 2, optional CStr, Value VNone)]"

definition RvcOperationalState_commands :: "command_class list" where
  "RvcOperationalState_commands = [
     CommandClass (u ''Pause'') 97 0 True (Some (u ''OperationalCommandResponse'')) False [],
     CommandClass (u ''Stop'') 97 1 True (Some (u ''OperationalCommandResponse'')) False [],
     CommandClass (u ''Start'') 97 2 True (Some (u ''OperationalCommandResponse'')) False [],
     CommandClass (u ''Resume'') 97 3 True (Some (u ''OperationalCommandResponse'')) False [],
     CommandClass (u ''GoHome'') 97 128 True (Some (u ''OperationalCommandResponse'')) False [],
     CommandClass (u ''OperationalCommandResponse'') 97 4 False None False [(u ''commandResponseState'', 0, struct_type RvcOperationalState_ErrorStateStruct, Instance RvcOperationalState_ErrorStateStruct)]]"

definition RvcOperationalState_attributes_1 :: "attribute_class list" where
  "RvcOperationalState_attributes_1 = [
     AttributeClass (u ''PhaseList'') 97 0 (nullable (CList CStr)) (Value VNull),
     AttributeClass (u ''CurrentPhase'') 97 1 (nullable CUint) (Value VNull),
     AttributeClass (u ''CountdownTime'') 97 2 (optional_nullable CUint) (Value VNone),
     AttributeClass (u ''OperationalStateList'') 97 3 (CList (struct_type RvcOperationalState_OperationalStateStruct)) (EmptyList),
     AttributeClass (u ''OperationalState'') 97 4 (enum_type RvcOperationalState_OperationalStateEnum) (Value (VInt 0)),
     AttributeClass (u ''OperationalError'') 97 5 (struct_type RvcOperationalState_ErrorStateStruct) (Instance RvcOperationalState_ErrorStateStruct),
     AttributeClass (u ''GeneratedCommandList'') 97 65528 (CList CUint) (EmptyList),
     AttributeClass (u ''AcceptedCommandList'') 97 65529 (CList CUint) (EmptyList),
     AttributeClass (u ''AttributeList'') 97 65531 (CList CUint) (EmptyList)]"

definition RvcOperationalState_attributes_2 :: "attribute_class list" where
  "RvcOperationalState_attributes_2 = [
     AttributeClass (u ''FeatureMap'') 97 65532 CUint (Value (VInt 0)),
     AttributeClass (u ''ClusterRevision'') 97 65533 CUint (Value (VInt 0))]"

definition RvcOperationalState_events :: "event_class list" where
  "RvcOperationalState_events = [
     EventClass (u ''OperationalError'') 97 0 [(u ''errorState'', 0, struct_type RvcOperationalState_ErrorStateStruct, Instance RvcOperationalState_ErrorStateStruct)],
     EventClass (u ''OperationCompletion'') 97 1 [(u ''completionErrorCode'', 0, enum_type Globals_enum8, Value (VInt 0)),
       (u ''totalOperationalTime'', 1, optional_nullable CUint, Value VNone),
       (u ''pausedTime'', 2, optional_nullable CUint, Value VNone)]]"

definition RvcOperationalState_cluster :: "cluster_def" where
  "RvcOperationalState_cluster = ClusterDef (u ''RvcOperationalState'') 97 [
     (u ''phaseList'', 0, nullable (CList CStr), Value VNull),
     (u ''currentPhase'', 1, nullable CUint, Value VNull),
     (u ''countdownTime'', 2, optional_nullable CUint, Value VNone),
     (u ''operationalStateList'', 3, CList (struct_type RvcOperationalState_OperationalStateStruct), EmptyList),
     (u ''operationalState'', 4, enum_type RvcOperationalState_OperationalStateEnum, Value (VInt 0)),
     (u ''operationalError'', 5, struct_type RvcOperationalState_ErrorStateStruct, Instance RvcOperationalState_ErrorStateStruct),
     (u ''generatedCommandList'', 65528, CList CUint, EmptyList),
     (u ''acceptedCommandList'', 65529, CList CUint, EmptyList),
     (u ''attributeList'', 65531, CList CUint, EmptyList),
     (u ''featureMap'', 65532, CUint, Value (VInt 0)),
     (u ''clusterRevision'', 65533, CUint, Value (VInt 0))]
     RvcOperationalState_commands
     (RvcOperationalState_attributes_1 @ RvcOperationalState_attributes_2)
     RvcOperationalState_events"

section \<open>RvcRunMode\<close>

definition RvcRunMode_ModeChangeStatus :: "(pystr \<times> int) list" where
  "RvcRunMode_ModeChangeStatus = [
     (u ''kStuck'', 65),
     (u ''kDustBinMissing'', 66),
     (u ''kDustBinFull'', 67),
     (u ''kWaterTankEmpty'', 68),
     (u ''kWaterTankMissing'', 69),
     (u ''kWaterTankLidOpen'', 70),
     (u ''kMopCleaningPadMissing'', 71),
     (u ''kBatteryLow'', 72),
     (u ''kUnknownEnumValue'', 73)]"

definition RvcRunMode_ModeTag :: "(pystr \<times> int) list" where
  "RvcRunMode_ModeTag = [
     (u ''kAuto'', 0),
     (u ''kQuick'', 1),
     (u ''kQuiet'', 2),
     (u ''kLowNoise'', 3),
     (u ''kLowEnergy'', 4),
     (u ''kVacation'', 5),
     (u ''kMin'', 6),
     (u ''kMax'', 7),
     (u ''kNight'', 8),
     (u ''kDay'', 9),
     (u ''kIdle'', 16384),
     (u ''kCleaning'', 16385),
     (u ''kMapping'', 16386),
     (u ''kUnknownEnumValue'', 16387)]"

definition RvcRunMode_Feature :: "(pystr \<times> int) list" where
  "RvcRunMode_Feature = [
     (u ''kOnOff'', 1),
     (u ''kDirectModeChange'', 1048576)]"

definition RvcRunMode_ModeTagStruct :: "dfield list" where
  "RvcRunMode_ModeTagStruct = [
     (u ''mfgCode'', 0, optional CUint, Value VNone),
     (u ''value'', 1, enum_type RvcRunMode_ModeTag, Value (VInt 0))]"

definition RvcRunMode_ModeOptionStruct :: "dfield list" where
  "RvcRunMode_ModeOptionStruct = [
     (u ''label'', 0, CStr, Value (VStr [])),
     (u ''mode'', 1, CUint, Value (VInt 0)),
     (u ''modeTags'', 2, CList (struct_type RvcRunMode_ModeTagStruct), EmptyList)]"

definition RvcRunMode_commands :: "command_class list" where
  "RvcRunMode_commands = [
     CommandClass (u ''ChangeToMode'') 84 0 True (Some (u ''ChangeToModeResponse'')) False [(u ''newMode'', 0, CUint, Value (VInt 0))],
     CommandClass (u ''ChangeToModeResponse'') 84 1 False None False [(u ''status'', 0, enum_type RvcRunMode_ModeChangeStatus, Value (VInt 0)),
       (u ''statusText'', 1, CStr, Value (VStr []))]]"

definition RvcRunMode_attributes :: "attribute_class list" where
  "RvcRunMode_attributes = [
     AttributeClass (u ''SupportedModes'') 84 0 (CList (struct_type RvcRunMode_ModeOptionStruct)) (EmptyList),
     AttributeClass (u ''CurrentMode'') 84 1 CUint (Value (VInt 0)),
     AttributeClass (u ''StartUpMode'') 84 2 (optional_nullable CUint) (Value VNone),
     AttributeClass (u ''OnMode'') 84 3 (optional_nullable CUint) (Value VNone),
     AttributeClass (u ''GeneratedCommandList'') 84 65528 (CList CUint) (EmptyList),
     AttributeClass (u ''AcceptedCommandList'') 84 65529 (CList CUint) (EmptyList),
     AttributeClass (u ''AttributeList'') 84 65531 (CList CUint) (EmptyList),
     AttributeClass (u ''FeatureMap'') 84 65532 CUint (Value (VInt 0)),
     AttributeClass (u ''ClusterRevision'') 84 65533 CUint (Value (VInt 0))]"

definition RvcRunMode_cluster :: "cluster_def" where
  "RvcRunMode_cluster = ClusterDef (u ''RvcRunMode'') 84 [
     (u ''supportedModes'', 0, CList (struct_type RvcRunMode_ModeOptionStruct), EmptyList),
     (u ''currentMode'', 1, CUint, Value (VInt 0)),
     (u ''startUpMode'', 2, optional_nullable CUint, Value VNone),
     (u ''onMode'', 3, optional_nullable CUint, Value VNone),
     (u ''generatedCommandList'', 65528, CList CUint, EmptyList),
     (u ''acceptedCommandList'', 65529, CList CUint, EmptyList),
     (u ''attributeList'', 65531, CList CUint, EmptyList),
     (u ''featureMap'', 65532, CUint, Value (VInt 0)),
     (u ''clusterRevision'', 65533, CUint, Value (VInt 0))]
     RvcRunMode_commands
     RvcRunMode_attributes
     []"

section \<open>ScenesManagement\<close>

definition ScenesManagement_Feature :: "(pystr \<times> int) list" where
  "ScenesManagement_Feature = [
     (u ''kSceneNames'', 1)]"

definition ScenesManagement_CopyModeBitmap :: "(pystr \<times> int) list" where
  "ScenesManagement_CopyModeBitmap = [
     (u ''kCopyAllScenes'', 1)]"

definition ScenesManagement_SceneInfoStruct :: "dfield list" where
  "ScenesManagement_SceneInfoStruct = [
     (u ''sceneCount'', 0, CUint, Value (VInt 0)),
     (u ''currentScene'', 1, CUint, Value (VInt 0)),
     (u ''currentGroup'', 2, CUint, Value (VInt 0)),
     (u ''sceneValid'', 3, CBool, Value (VBool False)),
     (u ''remainingCapacity'', 4, CUint, Value (VInt 0)),
     (u ''fabricIndex'', 254, CUint, Value (VInt 0))]"

definition ScenesManagement_AttributeValuePairStruct :: "dfield list" where
  "ScenesManagement_AttributeValuePairStruct = [
     (u ''attributeID'', 0, CUint, Value (VInt 0)),
     (u ''valueUnsigned8'', 1, optional CUint, Value VNone),
     (u ''valueSigned8'', 2, optional CInt, Value VNone),
     (u ''valueUnsigned16'', 3, optional CUint, Value VNone),
     (u ''valueSigned16'', 4, optional CInt, Value VNone),
     (u ''valueUnsigned32'', 5, optional CUint, Value VNone),
     (u ''valueSigned32'', 6, optional CInt, Value VNone),
     (u ''valueUnsigned64'', 7, optional CUint, Value VNone),
     (u ''valueSigned64'', 8, optional CInt, Value VNone)]"

definition ScenesManagement_ExtensionFieldSetStruct :: "dfield list" where
  "ScenesManagement_ExtensionFieldSetStruct = [
     (u ''clusterID'', 0, CUint, Value (VInt 0)),
     (u ''attributeValueList'', 1, CList (struct_type ScenesManagement_AttributeValuePairStruct), EmptyList)]"

definition ScenesManagement_LogicalSceneTable :: "dfield list" where
  "ScenesManagement_LogicalSceneTable = [
     (u ''sceneGroupID'', 0, CUint, Value (VInt 0)),
     (u ''sceneID'', 1, CUint, Value (VInt 0)),
     (u ''sceneName'', 2, optional CStr, Value VNone),
     (u ''sceneTransitionTime'', 3, CUint, Value (VInt 0)),
     (u ''extensionFields'', 4, CList (struct_type ScenesManagement_ExtensionFieldSetStruct), EmptyList)]"

definition ScenesManagement_commands_1 :: "command_class list" where
  "ScenesManagement_commands_1 = [
     CommandClass (u ''AddScene'') 98 0 True (Some (u ''AddSceneResponse'')) False [(u ''groupID'', 0, CUint, Value (VInt 0)),
       (u ''sceneID'', 1, CUint, Value (VInt 0)),
       (u ''transitionTime'', 2, CUint, Value (VInt 0)),
       (u ''sceneName'', 3, CStr, Value (VStr [])),
       (u ''extensionFieldSetStructs'', 4, CList (struct_type ScenesManagement_ExtensionFieldSetStruct), EmptyList)],
     CommandClass (u ''ViewScene'') 98 1 True (Some (u ''ViewSceneResponse'')) False [(u ''groupID'', 0, CUint, Value (VInt 0)),
       (u ''sceneID'', 1, CUint, Value (VInt 0))],
     CommandClass (u ''RemoveScene'') 98 2 True (Some (u ''RemoveSceneResponse'')) False [(u ''groupID'', 0, CUint, Value (VInt 0)),
       (u ''sceneID'', 1, CUint, Value (VInt 0))],
     CommandClass (u ''RemoveAllScenes'') 98 3 True (Some (u ''RemoveAllScenesResponse'')) False [(u ''groupID'', 0, CUint, Value (VInt 0))],
     CommandClass (u ''StoreScene'') 98 4 True (Some (u ''StoreSceneResponse'')) False [(u ''groupID'', 0, CUint, Value (VInt 0)),
       (u ''sceneID'', 1, CUint, Value (VInt 0))],
     CommandClass (u ''RecallScene'') 98 5 True None False [(u ''groupID'', 0, CUint, Value (VInt 0)),
       (u ''sceneID'', 1, CUint, Value (VInt 0)),
       (u ''transitionTime'', 2, optional_nullable CUint, Value VNone)],
     CommandClass (u ''GetSceneMembership'') 98 6 True (Some (u ''GetSceneMembershipResponse'')) False [(u ''groupID'', 0, CUint, Value (VInt 0))]]"

definition ScenesManagement_commands_2 :: "command_class list" where
  "ScenesManagement_commands_2 = [
     CommandClass (u ''CopyScene'') 98 64 True (Some (u ''CopySceneResponse'')) False [(u ''mode'', 0, flag_type ScenesManagement_CopyModeBitmap, Value (VInt 0)),
       (u ''groupIdentifierFrom'', 1, CUint, Value (VInt 0)),
       (u ''sceneIdentifierFrom'', 2, CUint, Value (VInt 0)),
       (u ''groupIdentifierTo'', 3, CUint, Value (VInt 0)),
       (u ''sceneIdentifierTo'', 4, CUint, Value (VInt 0))],
     CommandClass (u ''AddSceneResponse'') 98 0 False None False [(u ''status'', 0, enum_type Globals_status, Value (VInt 0)),
       (u ''groupID'', 1, CUint, Value (VInt 0)),
       (u ''sceneID'', 2, CUint, Value (VInt 0))],
     CommandClass (u ''ViewSceneResponse'') 98 1 False None False [(u ''status'', 0, enum_type Globals_status, Value (VInt 0)),
       (u ''groupID'', 1, CUint, Value (VInt 0)),
       (u ''sceneID'', 2, CUint, Value (VInt 0)),
       (u ''transitionTime'', 3, optional CUint, Value VNone),
       (u ''sceneName'', 4, optional CStr, Value VNone),
       (u ''extensionFieldSetStructs'', 5, optional (CList (struct_type ScenesManagement_ExtensionFieldSetStruct)), Value VNone)],
     CommandClass (u ''RemoveSceneResponse'') 98 2 False None False [(u ''status'', 0, enum_type Globals_status, Value (VInt 0)),
       (u ''groupID'', 1, CUint, Value (VInt 0)),
       (u ''sceneID'', 2, CUint, Value (VInt 0))],
     CommandClass (u ''RemoveAllScenesResponse'') 98 3 False None False [(u ''status'', 0, enum_type Globals_status, Value (VInt 0)),
       (u ''groupID'', 1, CUint, Value (VInt 0))],
     CommandClass (u ''StoreSceneResponse'') 98 4 False None False [(u ''status'', 0, enum_type Globals_status, Value (VInt 0)),
       (u ''groupID'', 1, CUint, Value (VInt 0)),
       (u ''sceneID'', 2, CUint, Value (VInt 0))],
     CommandClass (u ''GetSceneMembershipResponse'') 98 6 False None False [(u ''status'', 0, enum_type Globals_status, Value (VInt 0)),
       (u ''capacity'', 1, nullable CUint, Value VNull),
       (u ''groupID'', 2, CUint, Value (VInt 0)),
       (u ''sceneList'', 3, optional (CList CUint), Value VNone)]]"

definition ScenesManagement_commands_3 :: "command_class list" where
  "ScenesManagement_commands_3 = [
     CommandClass (u ''CopySceneResponse'') 98 64 False None False [(u ''status'', 0, enum_type Globals_status, Value (VInt 0)),
       (u ''groupIdentifierFrom'', 1, CUint, Value (VInt 0)),
       (u ''sceneIdentifierFrom'', 2, CUint, Value (VInt 0))]]"

definition ScenesManagement_attributes :: "attribute_class list" where
  "ScenesManagement_attributes = [
     AttributeClass (u ''DoNotUse'') 98 0 (optional CUint) (Value VNone),
     AttributeClass (u ''SceneTableSize'') 98 1 CUint (Value (VInt 0)),
     AttributeClass (u ''FabricSceneInfo'') 98 2 (CList (struct_type ScenesManagement_SceneInfoStruct)) (EmptyList),
     AttributeClass (u ''GeneratedCommandList'') 98 65528 (CList CUint) (EmptyList),
     AttributeClass (u ''AcceptedCommandList'') 98 65529 (CList CUint) (EmptyList),
     AttributeClass (u ''AttributeList'') 98 65531 (CList CUint) (EmptyList),
     AttributeClass (u ''FeatureMap'') 98 65532 CUint (Value (VInt 0)),
     AttributeClass (u ''ClusterRevision'') 98 65533 CUint (Value (VInt 0))]"

definition ScenesManagement_cluster :: "cluster_def" where
  "ScenesManagement_cluster = ClusterDef (u ''ScenesManagement'') 98 [
     (u ''doNotUse'', 0, optional CUint, Value VNone),
     (u ''sceneTableSize'', 1, CUint, Value (VInt 0)),
     (u ''fabricSceneInfo'', 2, CList (struct_type ScenesManagement_SceneInfoStruct), EmptyList),
     (u ''generatedCommandList'', 65528, CList CUint, EmptyList),
     (u ''acceptedCommandList'', 65529, CList CUint, EmptyList),
     (u ''attributeList'', 65531, CList CUint, EmptyList),
     (u ''featureMap'', 65532, CUint, Value (VInt 0)),
     (u ''clusterRevision'', 65533, CUint, Value (VInt 0))]
     (ScenesManagement_commands_1 @ ScenesManagement_commands_2 @ ScenesManagement_commands_3)
     ScenesManagement_attributes
     []"

section \<open>ServiceArea\<close>

definition ServiceArea_OperationalStatusEnum :: "(pystr \<times> int) list" where
  "ServiceArea_OperationalStatusEnum = [
     (u ''kPending'', 0),
     (u ''kOperating'', 1),
     (u ''kSkipped'', 2),
     (u ''kCompleted'', 3),
     (u ''kUnknownEnumValue'', 4)]"

definition ServiceArea_SelectAreasStatus :: "(pystr \<times> int) list" where
  "ServiceArea_SelectAreasStatus = [
     (u ''kSuccess'', 0),
     (u ''kUnsupportedArea'', 1),
     (u ''kInvalidInMode'', 2),
     (u ''kInvalidSet'', 3),
     (u ''kUnknownEnumValue'', 4)]"

definition ServiceArea_SkipAreaStatus :: "(pystr \<times> int) list" where
  "ServiceArea_SkipAreaStatus = [
     (u ''kSuccess'', 0),
     (u ''kInvalidAreaList'', 1),
     (u ''kInvalidInMode'', 2),
     (u ''kInvalidSkippedArea'', 3),
     (u ''kUnknownEnumValue'', 4)]"

definition ServiceArea_Feature :: "(pystr \<times> int) list" where
  "ServiceArea_Feature = [
     (u ''kSelectWhileRunning'', 1),
     (u ''kProgressReporting'', 2),
     (u ''kMaps'', 4)]"

definition ServiceArea_LandmarkInfoStruct :: "dfield list" where
  "ServiceArea_LandmarkInfoStruct = [
     (u ''landmarkTag'', 0, CUint, Value (VInt 0)),
     (u ''relativePositionTag'', 1, nullable CUint, Value VNull)]"

definition ServiceArea_AreaInfoStruct :: "dfield list" where
  "ServiceArea_AreaInfoStruct = [
     (u ''locationInfo'', 0, nullable (struct_type Globals_locationdesc), Value VNull),
     (u ''landmarkInfo'', 1, nullable (struct_type ServiceArea_LandmarkInfoStruct), Value VNull)]"

definition ServiceArea_MapStruct :: "dfield list" where
  "ServiceArea_MapStruct = [
     (u ''mapID'', 0, CUint, Value (VInt 0)),
     (u ''name'', 1, CStr, Value (VStr []))]"

definition ServiceArea_AreaStruct :: "dfield list" where
  "ServiceArea_AreaStruct = [
     (u ''areaID'', 0, CUint, Value (VInt 0)),
     (u ''mapID'', 1, nullable CUint, Value VNull),
     (u ''areaInfo'', 2, struct_type ServiceArea_AreaInfoStruct, Instance ServiceArea_AreaInfoStruct)]"

definition ServiceArea_ProgressStruct :: "dfield list" where
  "ServiceArea_ProgressStruct = [
     (u ''areaID'', 0, CUint, Value (VInt 0)),
     (u ''status'', 1, enum_type ServiceArea_OperationalStatusEnum, Value (VInt 0)),
     (u ''totalOperationalTime'', 2, optional_nullable CUint, Value VNone),
     (u ''estimatedTime'', 3, optional_nullable CUint, Value VNone)]"

definition ServiceArea_commands :: "command_class list" where
  "ServiceArea_commands = [
     CommandClass (u ''SelectAreas'') 336 0 True (Some (u ''SelectAreasResponse'')) False [(u ''newAreas'', 0, CList CUint, EmptyList)],
     CommandClass (u ''SkipArea'') 336 2 True (Some (u ''SkipAreaResponse'')) False [(u ''skippedArea'', 0, CUint, Value (VInt 0))],
     CommandClass (u ''SelectAreasResponse'') 336 1 False None False [(u ''status'', 0, enum_type ServiceArea_SelectAreasStatus, Value (VInt 0)),
       (u ''statusText'', 1, CStr, Value (VStr []))],
     CommandClass (u ''SkipAreaResponse'') 336 3 False None False [(u ''status'', 0, enum_type ServiceArea_SkipAreaStatus, Value (VInt 0)),
       (u ''statusText'', 1, CStr, Value (VStr []))]]"

definition ServiceArea_attributes_1 :: "attribute_class list" where
  "ServiceArea_attributes_1 = [
     AttributeClass (u ''SupportedAreas'') 336 0 (CList (struct_type ServiceArea_AreaStruct)) (EmptyList),
     AttributeClass (u ''SupportedMaps'') 336 1 (optional (CList (struct_type ServiceArea_MapStruct))) (Value VNone),
     AttributeClass (u ''SelectedAreas'') 336 2 (CList CUint) (EmptyList),
     AttributeClass (u ''CurrentArea'') 336 3 (optional_nullable CUint) (Value VNone),
     AttributeClass (u ''EstimatedEndTime'') 336 4 (optional_nullable CUint) (Value VNone),
     AttributeClass (u ''Progress'') 336 5 (optional (CList (struct_type ServiceArea_ProgressStruct))) (Value VNone),
     AttributeClass (u ''GeneratedCommandList'') 336 65528 (CList CUint) (EmptyList),
     AttributeClass (u ''AcceptedCommandList'') 336 65529 (CList CUint) (EmptyList),
     AttributeClass (u ''AttributeList'') 336 65531 (CList CUint) (EmptyList)]"

definition ServiceArea_attributes_2 :: "attribute_class list" where
  "ServiceArea_attributes_2 = [
     AttributeClass (u ''FeatureMap'') 336 65532 CUint (Value (VInt 0)),
     AttributeClass (u ''ClusterRevision'') 336 65533 CUint (Value (VInt 0))]"

definition ServiceArea_cluster :: "cluster_def" where
  "ServiceArea_cluster = ClusterDef (u ''ServiceArea'') 336 [
     (u ''supportedAreas'', 0, CList (struct_type ServiceArea_AreaStruct), EmptyList),
     (u ''supportedMaps'', 1, optional (CList (struct_type ServiceArea_MapStruct)), Value VNone),
     (u ''selectedAreas'', 2, CList CUint, EmptyList),
     (u ''currentArea'', 3, optional_nullable CUint, Value VNone),
     (u ''estimatedEndTime'', 4, optional_nullable CUint, Value VNone),
     (u ''progress'', 5, optional (CList (struct_type ServiceArea_ProgressStruct)), Value VNone),
     (u ''generatedCommandList'', 65528, CList CUint, EmptyList),
     (u ''acceptedCommandList'', 65529, CList CUint, EmptyList),
     (u ''attributeList'', 65531, CList CUint, EmptyList),
     (u ''featureMap'', 65532, CUint, Value (VInt 0)),
     (u ''clusterRevision'', 65533, CUint, Value (VInt 0))]
     ServiceArea_commands
     (ServiceArea_attributes_1 @ ServiceArea_attributes_2)
     []"

section \<open>Consistency\<close>

lemma PressureMeasurement_cluster_ok: "cluster_ok PressureMeasurement_cluster" "cd_id PressureMeasurement_cluster = 1027"
  by (simp_all add: class_simps PressureMeasurement_attributes_1_def
    PressureMeasurement_attributes_2_def
    PressureMeasurement_cluster_def del: u_simps)

lemma PumpConfigurationAndControl_cluster_ok: "cluster_ok PumpConfigurationAndControl_cluster" "cd_id PumpConfigurationAndControl_cluster = 512"
  by (simp_all add: class_simps PumpConfigurationAndControl_attributes_1_def
    PumpConfigurationAndControl_attributes_2_def
    PumpConfigurationAndControl_attributes_3_def
    PumpConfigurationAndControl_attributes_4_def
    PumpConfigurationAndControl_events_1_def
    PumpConfigurationAndControl_events_2_def
    PumpConfigurationAndControl_events_3_def
    PumpConfigurationAndControl_cluster_def del: u_simps)

lemma PushAvStreamTransport_members_ok [simp]: "members_ok PushAvStreamTransport_SupportedFormatStruct"
    "members_ok PushAvStreamTransport_VideoStreamStruct"
    "members_ok PushAvStreamTransport_AudioStreamStruct"
    "members_ok PushAvStreamTransport_CMAFContainerOptionsStruct"
    "members_ok PushAvStreamTransport_ContainerOptionsStruct"
    "members_ok PushAvStreamTransport_TransportZoneOptionsStruct"
    "members_ok PushAvStreamTransport_TransportMotionTriggerTimeControlStruct"
    "members_ok PushAvStreamTransport_TransportTriggerOptionsStruct"
    "members_ok PushAvStreamTransport_TransportOptionsStruct"
    "members_ok PushAvStreamTransport_TransportConfigurationStruct"
  by (simp_all add: class_simps PushAvStreamTransport_SupportedFormatStruct_def
    PushAvStreamTransport_VideoStreamStruct_def
    PushAvStreamTransport_AudioStreamStruct_def
    PushAvStreamTransport_CMAFContainerOptionsStruct_def
    PushAvStreamTransport_ContainerOptionsStruct_def
    PushAvStreamTransport_TransportZoneOptionsStruct_def
    PushAvStreamTransport_TransportMotionTriggerTimeControlStruct_def
    PushAvStreamTransport_TransportTriggerOptionsStruct_def
    PushAvStreamTransport_TransportOptionsStruct_def
    PushAvStreamTransport_TransportConfigurationStruct_def del: u_simps)

lemma PushAvStreamTransport_cluster_ok: "cluster_ok PushAvStreamTransport_cluster" "cd_id PushAvStreamTransport_cluster = 1365"
  by (simp_all add: class_simps PushAvStreamTransport_commands_def
    PushAvStreamTransport_attributes_def
    PushAvStreamTransport_events_def
    PushAvStreamTransport_cluster_def del: u_simps)

lemma RadonConcentrationMeasurement_cluster_ok: "cluster_ok RadonConcentrationMeasurement_cluster" "cd_id RadonConcentrationMeasurement_cluster = 1071"
  by (simp_all add: class_simps RadonConcentrationMeasurement_attributes_1_def
    RadonConcentrationMeasurement_attributes_2_def
    RadonConcentrationMeasurement_cluster_def del: u_simps)

lemma RefrigeratorAlarm_cluster_ok: "cluster_ok RefrigeratorAlarm_cluster" "cd_id RefrigeratorAlarm_cluster = 87"
  by (simp_all add: class_simps RefrigeratorAlarm_commands_def
    RefrigeratorAlarm_attributes_def
    RefrigeratorAlarm_events_def
    RefrigeratorAlarm_cluster_def del: u_simps)

lemma RefrigeratorAndTemperatureControlledCabinetMode_members_ok [simp]: "members_ok RefrigeratorAndTemperatureControlledCabinetMode_ModeTagStruct"
    "members_ok RefrigeratorAndTemperatureControlledCabinetMode_ModeOptionStruct"
  by (simp_all add: class_simps RefrigeratorAndTemperatureControlledCabinetMode_ModeTagStruct_def
    RefrigeratorAndTemperatureControlledCabinetMode_ModeOptionStruct_def del: u_simps)

lemma RefrigeratorAndTemperatureControlledCabinetMode_cluster_ok: "cluster_ok RefrigeratorAndTemperatureControlledCabinetMode_cluster" "cd_id RefrigeratorAndTemperatureControlledCabinetMode_cluster = 82"
  by (simp_all add: class_simps RefrigeratorAndTemperatureControlledCabinetMode_commands_def
    RefrigeratorAndTemperatureControlledCabinetMode_attributes_def
    RefrigeratorAndTemperatureControlledCabinetMode_cluster_def del: u_simps)

lemma RelativeHumidityMeasurement_cluster_ok: "cluster_ok RelativeHumidityMeasurement_cluster" "cd_id RelativeHumidityMeasurement_cluster = 1029"
  by (simp_all add: class_simps RelativeHumidityMeasurement_attributes_def
    RelativeHumidityMeasurement_cluster_def del: u_simps)

lemma RvcCleanMode_members_ok [simp]: "members_ok RvcCleanMode_ModeTagStruct"
    "members_ok RvcCleanMode_ModeOptionStruct"
  by (simp_all add: class_simps RvcCleanMode_ModeTagStruct_def
    RvcCleanMode_ModeOptionStruct_def del: u_simps)

lemma RvcCleanMode_cluster_ok: "cluster_ok RvcCleanMode_cluster" "cd_id RvcCleanMode_cluster = 85"
  by (simp_all add: class_simps RvcCleanMode_commands_def
    RvcCleanMode_attributes_def
    RvcCleanMode_cluster_def del: u_simps)

lemma RvcOperationalState_members_ok [simp]: "members_ok RvcOperationalState_OperationalStateStruct"
    "members_ok RvcOperationalState_ErrorStateStruct"
  by (simp_all add: class_simps RvcOperationalState_OperationalStateStruct_def
    RvcOperationalState_ErrorStateStruct_def del: u_simps)

lemma RvcOperationalState_cluster_ok: "cluster_ok RvcOperationalState_cluster" "cd_id RvcOperationalState_cluster = 97"
  by (simp_all add: class_simps RvcOperationalState_commands_def
    RvcOperationalState_attributes_1_def
    RvcOperationalState_attributes_2_def
    RvcOperationalState_events_def
    RvcOperationalState_cluster_def del: u_simps)

lemma RvcRunMode_members_ok [simp]: "members_ok RvcRunMode_ModeTagStruct"
    "members_ok RvcRunMode_ModeOptionStruct"
  by (simp_all add: class_simps RvcRunMode_ModeTagStruct_def
    RvcRunMode_ModeOptionStruct_def del: u_simps)

lemma RvcRunMode_cluster_ok: "cluster_ok RvcRunMode_cluster" "cd_id RvcRunMode_cluster = 84"
  by (simp_all add: class_simps RvcRunMode_commands_def
    RvcRunMode_attributes_def
    RvcRunMode_cluster_def del: u_simps)

lemma ScenesManagement_members_ok [simp]: "members_ok ScenesManagement_SceneInfoStruct"
    "members_ok ScenesManagement_AttributeValuePairStruct"
    "members_ok ScenesManagement_ExtensionFieldSetStruct"
    "members_ok ScenesManagement_LogicalSceneTable"
  by (simp_all add: class_simps ScenesManagement_SceneInfoStruct_def
    ScenesManagement_AttributeValuePairStruct_def
    ScenesManagement_ExtensionFieldSetStruct_def
    ScenesManagement_LogicalSceneTable_def del: u_simps)

lemma ScenesManagement_cluster_ok: "cluster_ok ScenesManagement_cluster" "cd_id ScenesManagement_cluster = 98"
  by (simp_all add: class_simps ScenesManagement_commands_1_def
    ScenesManagement_commands_2_def
    ScenesManagement_commands_3_def
    ScenesManagement_attributes_def
    ScenesManagement_cluster_def del: u_simps)

lemma ServiceArea_members_ok [simp]: "members_ok ServiceArea_LandmarkInfoStruct"
    "members_ok ServiceArea_AreaInfoStruct"
    "members_ok ServiceArea_MapStruct"
    "members_ok ServiceArea_AreaStruct"
    "members_ok ServiceArea_ProgressStruct"
  by (simp_all add: class_simps ServiceArea_LandmarkInfoStruct_def
    ServiceArea_AreaInfoStruct_def
    ServiceArea_MapStruct_def
    ServiceArea_AreaStruct_def
    ServiceArea_ProgressStruct_def del: u_simps)

lemma ServiceArea_cluster_ok: "cluster_ok ServiceArea_cluster" "cd_id ServiceArea_cluster = 336"
  by (simp_all add: class_simps ServiceArea_commands_def
    ServiceArea_attributes_1_def
    ServiceArea_attributes_2_def
    ServiceArea_cluster_def del: u_simps)

end
