(* ===== verification/Clusters_SmokeCoAlarm.thy ===== *)
theory Clusters_SmokeCoAlarm
  imports Clusters_Base
begin

text \<open>
  The generated files \<open>SmokeCoAlarm.py\<close> to \<open>ThreadBorderRouterManagement.py\<close> of \<open>chip/clusters/cluster_defs/\<close>, in the form of
  \<open>Clusters_Base\<close>.
\<close>

section \<open>SmokeCoAlarm\<close>

definition SmokeCoAlarm_AlarmStateEnum :: "(pystr \<times> int) list" where
  "SmokeCoAlarm_AlarmStateEnum = [
     (u ''kNormal'', 0),
     (u ''kWarning'', 1),
     (u ''kCritical'', 2),
     (u ''kUnknownEnumValue'', 3)]"

definition SmokeCoAlarm_SensitivityEnum :: "(pystr \<times> int) list" where
  "SmokeCoAlarm_SensitivityEnum = [
     (u ''kHigh'', 0),
     (u ''kStandard'', 1),
     (u ''kLow'', 2),
     (u ''kUnknownEnumValue'', 3)]"

definition SmokeCoAlarm_ExpressedStateEnum :: "(pystr \<times> int) list" where
  "SmokeCoAlarm_ExpressedStateEnum = [
     (u ''kNormal'', 0),
     (u ''kSmokeAlarm'', 1),
     (u ''kCOAlarm'', 2),
     (u ''kBatteryAlert'', 3),
     (u ''kTesting'', 4),
     (u ''kHardwareFault'', 5),
     (u ''kEndOfService'', 6),
     (u ''kInterconnectSmoke'', 7),
     (u ''kInterconnectCO'', 8),
     (u ''kInoperative'', 9),
     (u ''kUnknownEnumValue'', 10)]"

definition SmokeCoAlarm_MuteStateEnum :: "(pystr \<times> int) list" where
  "SmokeCoAlarm_MuteStateEnum = [
     (u ''kNotMuted'', 0),
     (u ''kMuted'', 1),
     (u ''kUnknownEnumValue'', 2)]"

definition SmokeCoAlarm_EndOfServiceEnum :: "(pystr \<times> int) list" where
  "SmokeCoAlarm_EndOfServiceEnum = [
     (u ''kNormal'', 0),
     (u ''kExpired'', 1),
     (u ''kUnknownEnumValue'', 2)]"

definition SmokeCoAlarm_ContaminationStateEnum :: "(pystr \<times> int) list" where
  "SmokeCoAlarm_ContaminationStateEnum = [
     (u ''kNormal'', 0),
     (u ''kLow'', 1),
     (u ''kWarning'', 2),
     (u ''kCritical'', 3),
     (u ''kUnknownEnumValue'', 4)]"

definition SmokeCoAlarm_Feature :: "(pystr \<times> int) list" where
  "SmokeCoAlarm_Feature = [
     (u ''kSmokeAlarm'', 1),
     (u ''kCOAlarm'', 2)]"

definition SmokeCoAlarm_commands :: "command_class list" where
  "SmokeCoAlarm_commands = [
     CommandClass (u ''SelfTestRequest'') 92 0 True None False []]"

definition SmokeCoAlarm_attributes_1 :: "attribute_class list" where
  "SmokeCoAlarm_attributes_1 = [
     AttributeClass (u ''ExpressedState'') 92 0 (enum_type SmokeCoAlarm_ExpressedStateEnum) (Value (VInt 0)),
     AttributeClass (u ''SmokeState'') 92 1 (optional (enum_type SmokeCoAlarm_AlarmStateEnum)) (Value VNone),
     AttributeClass (u ''COState'') 92 2 (optional (enum_type SmokeCoAlarm_AlarmStateEnum)) (Value VNone),
     AttributeClass (u ''BatteryAlert'') 92 3 (enum_type SmokeCoAlarm_AlarmStateEnum) (Value (VInt 0)),
     AttributeClass (u ''DeviceMuted'') 92 4 (optional (enum_type SmokeCoAlarm_MuteStateEnum)) (Value VNone),
     AttributeClass (u ''TestInProgress'') 92 5 CBool (Value (VBool False)),
     AttributeClass (u ''HardwareFaultAlert'') 92 6 CBool (Value (VBool False)),
     AttributeClass (u ''EndOfServiceAlert'') 92 7 (enum_type SmokeCoAlarm_EndOfServiceEnum) (Value (VInt 0)),
     AttributeClass (u ''InterconnectSmokeAlarm'') 92 8 (optional (enum_type SmokeCoAlarm_AlarmStateEnum)) (Value VNone)]"

definition SmokeCoAlarm_attributes_2 :: "attribute_class list" where
  "SmokeCoAlarm_attributes_2 = [
     AttributeClass (u ''InterconnectCOAlarm'') 92 9 (optional (enum_type SmokeCoAlarm_AlarmStateEnum)) (Value VNone),
     AttributeClass (u ''ContaminationState'') 92 10 (optional (enum_type SmokeCoAlarm_ContaminationStateEnum)) (Value VNone),
     AttributeClass (u ''SmokeSensitivityLevel'') 92 11 (optional (enum_type SmokeCoAlarm_SensitivityEnum)) (Value VNone),
     AttributeClass (u ''ExpiryDate'') 92 12 (optional CUint) (Value VNone),
     AttributeClass (u ''Unmounted'') 92 13 (optional CBool) (Value VNone),
     AttributeClass (u ''GeneratedCommandList'') 92 65528 (CList CUint) (EmptyList),
     AttributeClass (u ''AcceptedCommandList'') 92 65529 (CList CUint) (EmptyList),
     AttributeClass (u ''AttributeList'') 92 65531 (CList CUint) (EmptyList),
     AttributeClass (u ''FeatureMap'') 92 65532 CUint (Value (VInt 0))]"

definition SmokeCoAlarm_attributes_3 :: "attribute_class list" where
  "SmokeCoAlarm_attributes_3 = [
     AttributeClass (u ''ClusterRevision'') 92 65533 CUint (Value (VInt 0))]"

definition SmokeCoAlarm_events_1 :: "event_class list" where
  "SmokeCoAlarm_events_1 = [
     EventClass (u ''SmokeAlarm'') 92 0 [(u ''alarmSeverityLevel'', 0, enum_type SmokeCoAlarm_AlarmStateEnum, Value (VInt 0))],
     EventClass (u ''COAlarm'') 92 1 [(u ''alarmSeverityLevel'', 0, enum_type SmokeCoAlarm_AlarmStateEnum, Value (VInt 0))],
     EventClass (u ''LowBattery'') 92 2 [(u ''alarmSeverityLevel'', 0, enum_type SmokeCoAlarm_AlarmStateEnum, Value (VInt 0))],
     EventClass (u ''HardwareFault'') 92 3 [],
     EventClass (u ''EndOfService'') 92 4 [],
     EventClass (u ''SelfTestComplete'') 92 5 [],
     EventClass (u ''AlarmMuted'') 92 6 [],
     EventClass (u ''MuteEnded'') 92 7 []]"

definition SmokeCoAlarm_events_2 :: "event_class list" where
  "SmokeCoAlarm_events_2 = [
     EventClass (u ''InterconnectSmokeAlarm'') 92 8 [(u ''alarmSeverityLevel'', 0, enum_type SmokeCoAlarm_AlarmStateEnum, Value (VInt 0))],
     EventClass (u ''InterconnectCOAlarm'') 92 9 [(u ''alarmSeverityLevel'', 0, enum_type SmokeCoAlarm_AlarmStateEnum, Value (VInt 0))],
     EventClass (u ''AllClear'') 92 10 []]"

definition SmokeCoAlarm_cluster :: "cluster_def" where
  "SmokeCoAlarm_cluster = ClusterDef (u ''SmokeCoAlarm'') 92 [
     (u ''expressedState'', 0, enum_type SmokeCoAlarm_ExpressedStateEnum, Value (VInt 0)),
     (u ''smokeState'', 1, optional (enum_type SmokeCoAlarm_AlarmStateEnum), Value VNone),
     (u ''COState'', 2, optional (enum_type SmokeCoAlarm_AlarmStateEnum), Value VNone),
     (u ''batteryAlert'', 3, enum_type SmokeCoAlarm_AlarmStateEnum, Value (VInt 0)),
     (u ''deviceMuted'', 4, optional (enum_type SmokeCoAlarm_MuteStateEnum), Value VNone),
     (u ''testInProgress'', 5, CBool, Value (VBool False)),
     (u ''hardwareFaultAlert'', 6, CBool, Value (VBool False)),
     (u ''endOfServiceAlert'', 7, enum_type SmokeCoAlarm_EndOfServiceEnum, Value (VInt 0)),
     (u ''interconnectSmokeAlarm'', 8, optional (enum_type SmokeCoAlarm_AlarmStateEnum), Value VNone),
     (u ''interconnectCOAlarm'', 9, optional (enum_type SmokeCoAlarm_AlarmStateEnum), Value VNone),
     (u ''contaminationState'', 10, optional (enum_type SmokeCoAlarm_ContaminationStateEnum), Value VNone),
     (u ''smokeSensitivityLevel'', 11, optional (enum_type SmokeCoAlarm_SensitivityEnum), Value VNone),
     (u ''expiryDate'', 12, optional CUint, Value VNone),
     (u ''unmounted'', 13, optional CBool, Value VNone),
     (u ''generatedCommandList'', 65528, CList CUint, EmptyList),
     (u ''acceptedCommandList'', 65529, CList CUint, EmptyList),
     (u ''attributeList'', 65531, CList CUint, EmptyList),
     (u ''featureMap'', 65532, CUint, Value (VInt 0)),
     (u ''clusterRevision'', 65533, CUint, Value (VInt 0))]
     SmokeCoAlarm_commands
     (SmokeCoAlarm_attributes_1 @ SmokeCoAlarm_attributes_2 @ SmokeCoAlarm_attributes_3)
     (SmokeCoAlarm_events_1 @ SmokeCoAlarm_events_2)"

section \<open>SoftwareDiagnostics\<close>

definition SoftwareDiagnostics_Feature :: "(pystr \<times> int) list" where
  "SoftwareDiagnostics_Feature = [
     (u ''kWatermarks'', 1)]"

definition SoftwareDiagnostics_ThreadMetricsStruct :: "dfield list" where
  "SoftwareDiagnostics_ThreadMetricsStruct = [
     (u ''id'', 0, CUint, Value (VInt 0)),
     (u ''name'', 1, optional CStr, Value VNone),
     (u ''stackFreeCurrent'', 2, optional CUint, Value VNone),
     (u ''stackFreeMinimum'', 3, optional CUint, Value VNone),
     (u ''stackSize'', 4, optional CUint, Value VNone)]"

definition SoftwareDiagnostics_commands :: "command_class list" where
  "SoftwareDiagnostics_commands = [
     CommandClass (u ''ResetWatermarks'') 52 0 True None False []]"

definition SoftwareDiagnostics_attributes :: "attribute_class list" where
  "SoftwareDiagnostics_attributes = [
     AttributeClass (u ''ThreadMetrics'') 52 0 (optional (CList (struct_type SoftwareDiagnostics_ThreadMetricsStruct))) (Value VNone),
     AttributeClass (u ''CurrentHeapFree'') 52 1 (optional CUint) (Value VNone),
     AttributeClass (u ''CurrentHeapUsed'') 52 2 (optional CUint) (Value VNone),
     AttributeClass (u ''CurrentHeapHighWatermark'') 52 3 (optional CUint) (Value VNone),
     AttributeClass (u ''GeneratedCommandList'') 52 65528 (CList CUint) (EmptyList),
     AttributeClass (u ''AcceptedCommandList'') 52 65529 (CList CUint) (EmptyList),
     AttributeClass (u ''AttributeList'') 52 65531 (CList CUint) (EmptyList),
     AttributeClass (u ''FeatureMap'') 52 65532 CUint (Value (VInt 0)),
     AttributeClass (u ''ClusterRevision'') 52 65533 CUint (Value (VInt 0))]"

definition SoftwareDiagnostics_events :: "event_class list" where
  "SoftwareDiagnostics_events = [
     EventClass (u ''SoftwareFault'') 52 0 [(u ''id'', 0, CUint, Value (VInt 0)),
       (u ''name'', 1, optional CStr, Value VNone),
       (u ''faultRecording'', 2, optional CBytes, Value VNone)]]"

definition SoftwareDiagnostics_cluster :: "cluster_def" where
  "SoftwareDiagnostics_cluster = ClusterDef (u ''SoftwareDiagnostics'') 52 [
     (u ''threadMetrics'', 0, optional (CList (struct_type SoftwareDiagnostics_ThreadMetricsStruct)), Value VNone),
     (u ''currentHeapFree'', 1, optional CUint, Value VNone),
     (u ''currentHeapUsed'', 2, optional CUint, Value VNone),
     (u ''currentHeapHighWatermark'', 3, optional CUint, Value VNone),
     (u ''generatedCommandList'', 65528, CList CUint, EmptyList),
     (u ''acceptedCommandList'', 65529, CList CUint, EmptyList),
     (u ''attributeList'', 65531, CList CUint, EmptyList),
     (u ''featureMap'', 65532, CUint, Value (VInt 0)),
     (u ''clusterRevision'', 65533, CUint, Value (VInt 0))]
     SoftwareDiagnostics_commands
     SoftwareDiagnostics_attributes
     SoftwareDiagnostics_events"

section \<open>SoilMeasurement\<close>

definition SoilMeasurement_attributes :: "attribute_class list" where
  "SoilMeasurement_attributes = [
     AttributeClass (u ''SoilMoistureMeasurementLimits'') 1072 0 (struct_type Globals_MeasurementAccuracyStruct) (Instance Globals_MeasurementAccuracyStruct),
     AttributeClass (u ''SoilMoistureMeasuredValue'') 1072 1 (nullable CUint) (Value VNull),
     AttributeClass (u ''GeneratedCommandList'') 1072 65528 (CList CUint) (EmptyList),
     AttributeClass (u ''AcceptedCommandList'') 1072 65529 (CList CUint) (EmptyList),
     AttributeClass (u ''AttributeList'') 1072 65531 (CList CUint) (EmptyList),
     AttributeClass (u ''FeatureMap'') 1072 65532 CUint (Value (VInt 0)),
     AttributeClass (u ''ClusterRevision'') 1072 65533 CUint (Value (VInt 0))]"

definition SoilMeasurement_cluster :: "cluster_def" where
  "SoilMeasurement_cluster = ClusterDef (u ''SoilMeasurement'') 1072 [
     (u ''soilMoistureMeasurementLimits'', 0, struct_type Globals_MeasurementAccuracyStruct, Instance Globals_MeasurementAccuracyStruct),
     (u ''soilMoistureMeasuredValue'', 1, nullable CUint, Value VNull),
     (u ''generatedCommandList'', 65528, CList CUint, EmptyList),
     (u ''acceptedCommandList'', 65529, CList CUint, EmptyList),
     (u ''attributeList'', 65531, CList CUint, EmptyList),
     (u ''featureMap'', 65532, CUint, Value (VInt 0)),
     (u ''clusterRevision'', 65533, CUint, Value (VInt 0))]
     []
     SoilMeasurement_attributes
     []"

section \<open>Switch\<close>

definition Switch_Feature :: "(pystr \<times> int) list" where
  "Switch_Feature = [
     (u ''kLatchingSwitch'', 1),
     (u ''kMomentarySwitch'', 2),
     (u ''kMomentarySwitchRelease'', 4),
     (u ''kMomentarySwitchLongPress'', 8),
     (u ''kMomentarySwitchMultiPress'', 16),
     (u ''kActionSwitch'', 32)]"

definition Switch_attributes :: "attribute_class list" where
  "Switch_attributes = [
     AttributeClass (u ''NumberOfPositions'') 59 0 CUint (Value (VInt 0)),
     AttributeClass (u ''CurrentPosition'') 59 1 CUint (Value (VInt 0)),
     AttributeClass (u ''MultiPressMax'') 59 2 (optional CUint) (Value VNone),
     AttributeClass (u ''GeneratedCommandList'') 59 65528 (CList CUint) (EmptyList),
     AttributeClass (u ''AcceptedCommandList'') 59 65529 (CList CUint) (EmptyList),
     AttributeClass (u ''AttributeList'') 59 65531 (CList CUint) (EmptyList),
     AttributeClass (u ''FeatureMap'') 59 65532 CUint (Value (VInt 0)),
     AttributeClass (u ''ClusterRevision'') 59 65533 CUint (Value (VInt 0))]"

definition Switch_events :: "event_class list" where
  "Switch_events = [
     EventClass (u ''SwitchLatched'') 59 0 [(u ''newPosition'', 0, CUint, Value (VInt 0))],
     EventClass (u ''InitialPress'') 59 1 [(u ''newPosition'', 0, CUint, Value (VInt 0))],
     EventClass (u ''LongPress'') 59 2 [(u ''newPosition'', 0, CUint, Value (VInt 0))],
     EventClass (u ''ShortRelease'') 59 3 [(u ''previousPosition'', 0, CUint, Value (VInt 0))],
     EventClass (u ''LongRelease'') 59 4 [(u ''previousPosition'', 0, CUint, Value (VInt 0))],
     EventClass (u ''MultiPressOngoing'') 59 5 [(u ''newPosition'', 0, CUint, Value (VInt 0)),
       (u ''currentNumberOfPressesCounted'', 1, CUint, Value (VInt 0))],
     EventClass (u ''MultiPressComplete'') 59 6 [(u ''previousPosition'', 0, CUint, Value (VInt 0)),
       (u ''totalNumberOfPressesCounted'', 1, CUint, Value (VInt 0))]]"

definition Switch_cluster :: "cluster_def" where
  "Switch_cluster = ClusterDef (u ''Switch'') 59 [
     (u ''numberOfPositions'', 0, CUint, Value (VInt 0)),
     (u ''currentPosition'', 1, CUint, Value (VInt 0)),
     (u ''multiPressMax'', 2, optional CUint, Value VNone),
     (u ''generatedCommandList'', 65528, CList CUint, EmptyList),
     (u ''acceptedCommandList'', 65529, CList CUint, EmptyList),
     (u ''attributeList'', 65531, CList CUint, EmptyList),
     (u ''featureMap'', 65532, CUint, Value (VInt 0)),
     (u ''clusterRevision'', 65533, CUint, Value (VInt 0))]
     []
     Switch_attributes
     Switch_events"

section \<open>TargetNavigator\<close>

definition TargetNavigator_StatusEnum :: "(pystr \<times> int) list" where
  "TargetNavigator_StatusEnum = [
     (u ''kSuccess'', 0),
     (u ''kTargetNotFound'', 1),
     (u ''kNotAllowed'', 2),
     (u ''kUnknownEnumValue'', 3)]"

definition TargetNavigator_TargetInfoStruct :: "dfield list" where
  "TargetNavigator_TargetInfoStruct = [
     (u ''identifier'', 0, CUint, Value (VInt 0)),
     (u ''name'', 1, CStr, Value (VStr []))]"

definition TargetNavigator_commands :: "command_class list" where
  "TargetNavigator_commands = [
     CommandClass (u ''NavigateTarget'') 1285 0 True (Some (u ''NavigateTargetResponse'')) False [(u ''target'', 0, CUint, Value (VInt 0)),
       (u ''data'', 1, optional CStr, Value VNone)],
     CommandClass (u ''NavigateTargetResponse'') 1285 1 False None False [(u ''status'', 0, enum_type TargetNavigator_StatusEnum, Value (VInt 0)),
       (u ''data'', 1, optional CStr, Value VNone)]]"

definition TargetNavigator_attributes :: "attribute_class list" where
  "TargetNavigator_attributes = [
     AttributeClass (u ''TargetList'') 1285 0 (CList (struct_type TargetNavigator_TargetInfoStruct)) (EmptyList),
     AttributeClass (u ''CurrentTarget'') 1285 1 (optional CUint) (Value VNone),
     AttributeClass (u ''GeneratedCommandList'') 1285 65528 (CList CUint) (EmptyList),
     AttributeClass (u ''AcceptedCommandList'') 1285 65529 (CList CUint) (EmptyList),
     AttributeClass (u ''AttributeList'') 1285 65531 (CList CUint) (EmptyList),
     AttributeClass (u ''FeatureMap'') 1285 65532 CUint (Value (VInt 0)),
     AttributeClass (u ''ClusterRevision'') 1285 65533 CUint (Value (VInt 0))]"

definition TargetNavigator_events :: "event_class list" where
  "TargetNavigator_events = [
     EventClass (u ''TargetUpdated'') 1285 0 [(u ''targetList'', 0, optional (CList (struct_type TargetNavigator_TargetInfoStruct)), Value VNone),
       (u ''currentTarget'', 1, optional CUint, Value VNone),
       (u ''data'', 2, optional CBytes, Value VNone)]]"

definition TargetNavigator_cluster :: "cluster_def" where
  "TargetNavigator_cluster = ClusterDef (u ''TargetNavigator'') 1285 [
     (u ''targetList'', 0, CList (struct_type TargetNavigator_TargetInfoStruct), EmptyList),
     (u ''currentTarget'', 1, optional CUint, Value VNone),
     (u ''generatedCommandList'', 65528, CList CUint, EmptyList),
     (u ''acceptedCommandList'', 65529, CList CUint, EmptyList),
     (u ''attributeList'', 65531, CList CUint, EmptyList),
     (u ''featureMap'', 65532, CUint, Value (VInt 0)),
     (u ''clusterRevision'', 65533, CUint, Value (VInt 0))]
     TargetNavigator_commands
     TargetNavigator_attributes
     TargetNavigator_events"

section \<open>TclDehumidifierCluster\<close>

definition TclDehumidifierCluster_attributes_1 :: "attribute_class list" where
  "TclDehumidifierCluster_attributes_1 = [
     AttributeClass (u ''Mode'') 322239491 0 (optional CUint) (Value VNone),
     AttributeClass (u ''TargetHumidity'') 322239491 1 (optional CUint) (Value VNone),
     AttributeClass (u ''CurrentHumidity'') 322239491 2 (optional CUint) (Value VNone),
     AttributeClass (u ''WaterBucketFull'') 322239491 3 (optional CBool) (Value VNone),
     AttributeClass (u ''FilterAlert'') 322239491 4 (optional CBool) (Value VNone),
     AttributeClass (u ''ErrorCodes'') 322239491 5 (optional CStr) (Value VNone),
     AttributeClass (u ''FeatureSet'') 322239491 6 (optional CStr) (Value VNone),
     AttributeClass (u ''GeneratedCommandList'') 322239491 65528 (CList CUint) (EmptyList),
     AttributeClass (u ''AcceptedCommandList'') 322239491 65529 (CList CUint) (EmptyList)]"

definition TclDehumidifierCluster_attributes_2 :: "attribute_class list" where
  "TclDehumidifierCluster_attributes_2 = [
     AttributeClass (u ''AttributeList'') 322239491 65531 (CList CUint) (EmptyList),
     AttributeClass (u ''FeatureMap'') 322239491 65532 CUint (Value (VInt 0)),
     AttributeClass (u ''ClusterRevision'') 322239491 65533 CUint (Value (VInt 0))]"

definition TclDehumidifierCluster_cluster :: "cluster_def" where
  "TclDehumidifierCluster_cluster = ClusterDef (u ''TclDehumidifierCluster'') 322239491 [
     (u ''mode'', 0, optional CUint, Value VNone),
     (u ''targetHumidity'', 1, optional CUint, Value VNone),
     (u ''currentHumidity'', 2, optional CUint, Value VNone),
     (u ''waterBucketFull'', 3, optional CBool, Value VNone),
     (u ''filterAlert'', 4, optional CBool, Value VNone),
     (u ''errorCodes'', 5, optional CStr, Value VNone),
     (u ''featureSet'', 6, optional CStr, Value VNone),
     (u ''generatedCommandList'', 65528, CList CUint, EmptyList),
     (u ''acceptedCommandList'', 65529, CList CUint, EmptyList),
     (u ''attributeList'', 65531, CList CUint, EmptyList),
     (u ''featureMap'', 65532, CUint, Value (VInt 0)),
     (u ''clusterRevision'', 65533, CUint, Value (VInt 0))]
     []
     (TclDehumidifierCluster_attributes_1 @ TclDehumidifierCluster_attributes_2)
     []"

section \<open>TemperatureAlarm\<close>

definition TemperatureAlarm_Feature :: "(pystr \<times> int) list" where
  "TemperatureAlarm_Feature = [
     (u ''kOverTemperature'', 1048576),
     (u ''kUnderTemperature'', 2097152),
     (u ''kMajorThreshold'', 4194304),
     (u ''kMinorThreshold'', 8388608),
     (u ''kOverCriticalAdjustable'', 16777216),
     (u ''kOverMajorAdjustable'', 33554432),
     (u ''kOverMinorAdjustable'', 67108864),
     (u ''kUnderMinorAdjustable'', 134217728),
     (u ''kUnderMajorAdjustable'', 268435456),
     (u ''kUnderCriticalAdjustable'', 536870912),
     (u ''kReset'', 1)]"

definition TemperatureAlarm_AlarmBitmap :: "(pystr \<times> int) list" where
  "TemperatureAlarm_AlarmBitmap = [
     (u ''kCriticalOverTemperatureAlarm'', 1),
     (u ''kMajorOverTemperatureAlarm'', 2),
     (u ''kMinorOverTemperatureAlarm'', 4),
     (u ''kMinorUnderTemperatureAlarm'', 8),
     (u ''kMajorUnderTemperatureAlarm'', 16),
     (u ''kCriticalUnderTemperatureAlarm'', 32)]"

definition TemperatureAlarm_commands :: "command_class list" where
  "TemperatureAlarm_commands = [
     CommandClass (u ''SetTemperatureAlarmThresholds'') 100 128 True None False [(u ''criticalOverTemperatureThreshold'', 0, optional CInt, Value VNone),
       (u ''majorOverTemperatureThreshold'', 1, optional CInt, Value VNone),
       (u ''minorOverTemperatureThreshold'', 2, optional CInt, Value VNone),
       (u ''minorUnderTemperatureThreshold'', 3, optional CInt, Value VNone),
       (u ''majorUnderTemperatureThreshold'', 4, optional CInt, Value VNone),
       (u ''criticalUnderTemperatureThreshold'', 5, optional CInt, Value VNone)],
     CommandClass (u ''Reset'') 100 0 True None False [(u ''alarms'', 0, flag_type TemperatureAlarm_AlarmBitmap, Value (VInt 0))],
     CommandClass (u ''ModifyEnabledAlarms'') 100 1 True None False [(u ''mask'', 0, flag_type TemperatureAlarm_AlarmBitmap, Value (VInt 0))]]"

definition TemperatureAlarm_attributes_1 :: "attribute_class list" where
  "TemperatureAlarm_attributes_1 = [
     AttributeClass (u ''Mask'') 100 0 (flag_type TemperatureAlarm_AlarmBitmap) (Value (VInt 0)),
     AttributeClass (u ''Latch'') 100 1 (optional (flag_type TemperatureAlarm_AlarmBitmap)) (Value VNone),
     AttributeClass (u ''State'') 100 2 (flag_type TemperatureAlarm_AlarmBitmap) (Value (VInt 0)),
     AttributeClass (u ''Supported'') 100 3 (flag_type TemperatureAlarm_AlarmBitmap) (Value (VInt 0)),
     AttributeClass (u ''CriticalOverTemperatureThreshold'') 100 128 (optional CInt) (Value VNone),
     AttributeClass (u ''MajorOverTemperatureThreshold'') 100 129 (optional CInt) (Value VNone),
     AttributeClass (u ''MinorOverTemperatureThreshold'') 100 130 (optional CInt) (Value VNone),
     AttributeClass (u ''MinorUnderTemperatureThreshold'') 100 131 (optional CInt) (Value VNone),
     AttributeClass (u ''MajorUnderTemperatureThreshold'') 100 132 (optional CInt) (Value VNone)]"

definition TemperatureAlarm_attributes_2 :: "attribute_class list" where
  "TemperatureAlarm_attributes_2 = [
     AttributeClass (u ''CriticalUnderTemperatureThreshold'') 100 133 (optional CInt) (Value VNone),
     AttributeClass (u ''GeneratedCommandList'') 100 65528 (CList CUint) (EmptyList),
     AttributeClass (u ''AcceptedCommandList'') 100 65529 (CList CUint) (EmptyList),
     AttributeClass (u ''AttributeList'') 100 65531 (CList CUint) (EmptyList),
     AttributeClass (u ''FeatureMap'') 100 65532 CUint (Value (VInt 0)),
     AttributeClass (u ''ClusterRevision'') 100 65533 CUint (Value (VInt 0))]"

definition TemperatureAlarm_events :: "event_class list" where
  "TemperatureAlarm_events = [
     EventClass (u ''Notify'') 100 0 [(u ''active'', 0, flag_type TemperatureAlarm_AlarmBitmap, Value (VInt 0)),
       (u ''inactive'', 1, flag_type TemperatureAlarm_AlarmBitmap, Value (VInt 0)),
       (u ''state'', 2, flag_type TemperatureAlarm_AlarmBitmap, Value (VInt 0)),
       (u ''mask'', 3, flag_type TemperatureAlarm_AlarmBitmap, Value (VInt 0))]]"

definition TemperatureAlarm_cluster :: "cluster_def" where
  "TemperatureAlarm_cluster = ClusterDef (u ''TemperatureAlarm'') 100 [
     (u ''mask'', 0, flag_type TemperatureAlarm_AlarmBitmap, Value (VInt 0)),
     (u ''latch'', 1, optional (flag_type TemperatureAlarm_AlarmBitmap), Value VNone),
     (u ''state'', 2, flag_type TemperatureAlarm_AlarmBitmap, Value (VInt 0)),
     (u ''supported'', 3, flag_type TemperatureAlarm_AlarmBitmap, Value (VInt 0)),
     (u ''criticalOverTemperatureThreshold'', 128, optional CInt, Value VNone),
     (u ''majorOverTemperatureThreshold'', 129, optional CInt, Value VNone),
     (u ''minorOverTemperatureThreshold'', 130, optional CInt, Value VNone),
     (u ''minorUnderTemperatureThreshold'', 131, optional CInt, Value VNone),
     (u ''majorUnderTemperatureThreshold'', 132, optional CInt, Value VNone),
     (u ''criticalUnderTemperatureThreshold'', 133, optional CInt, Value VNone),
     (u ''generatedCommandList'', 65528, CList CUint, EmptyList),
     (u ''acceptedCommandList'', 65529, CList CUint, EmptyList),
     (u ''attributeList'', 65531, CList CUint, EmptyList),
     (u ''featureMap'', 65532, CUint, Value (VInt 0)),
     (u ''clusterRevision'', 65533, CUint, Value (VInt 0))]
     TemperatureAlarm_commands
     (TemperatureAlarm_attributes_1 @ TemperatureAlarm_attributes_2)
     TemperatureAlarm_events"

section \<open>TemperatureControl\<close>

definition TemperatureControl_Feature :: "(pystr \<times> int) list" where
  "TemperatureControl_Feature = [
     (u ''kTemperatureNumber'', 1),
     (u ''kTemperatureLevel'', 2),
     (u ''kTemperatureStep'', 4)]"

definition TemperatureControl_commands :: "command_class list" where
  "TemperatureControl_commands = [
     CommandClass (u ''SetTemperature'') 86 0 True None False [(u ''targetTemperature'', 0, optional CInt, Value VNone),
       (u ''targetTemperatureLevel'', 1, optional CUint, Value VNone)]]"

definition TemperatureControl_attributes_1 :: "attribute_class list" where
  "TemperatureControl_attributes_1 = [
     AttributeClass (u ''TemperatureSetpoint'') 86 0 (optional CInt) (Value VNone),
     AttributeClass (u ''MinTemperature'') 86 1 (optional CInt) (Value VNone),
     AttributeClass (u ''MaxTemperature'') 86 2 (optional CInt) (Value VNone),
     AttributeClass (u ''Step'') 86 3 (optional CInt) (Value VNone),
     AttributeClass (u ''SelectedTemperatureLevel'') 86 4 (optional CUint) (Value VNone),
     AttributeClass (u ''SupportedTemperatureLevels'') 86 5 (optional (CList CStr)) (Value VNone),
     AttributeClass (u ''GeneratedCommandList'') 86 65528 (CList CUint) (EmptyList),
     AttributeClass (u ''AcceptedCommandList'') 86 65529 (CList CUint) (EmptyList),
     AttributeClass (u ''AttributeList'') 86 65531 (CList CUint) (EmptyList)]"

definition TemperatureControl_attributes_2 :: "attribute_class list" where
  "TemperatureControl_attributes_2 = [
     AttributeClass (u ''FeatureMap'') 86 65532 CUint (Value (VInt 0)),
     AttributeClass (u ''ClusterRevision'') 86 65533 CUint (Value (VInt 0))]"

definition TemperatureControl_cluster :: "cluster_def" where
  "TemperatureControl_cluster = ClusterDef (u ''TemperatureControl'') 86 [
     (u ''temperatureSetpoint'', 0, optional CInt, Value VNone),
     (u ''minTemperature'', 1, optional CInt, Value VNone),
     (u ''maxTemperature'', 2, optional CInt, Value VNone),
     (u ''step'', 3, optional CInt, Value VNone),
     (u ''selectedTemperatureLevel'', 4, optional CUint, Value VNone),
     (u ''supportedTemperatureLevels'', 5, optional (CList CStr), Value VNone),
     (u ''generatedCommandList'', 65528, CList CUint, EmptyList),
     (u ''acceptedCommandList'', 65529, CList CUint, EmptyList),
     (u ''attributeList'', 65531, CList CUint, EmptyList),
     (u ''featureMap'', 65532, CUint, Value (VInt 0)),
     (u ''clusterRevision'', 65533, CUint, Value (VInt 0))]
     TemperatureControl_commands
     (TemperatureControl_attributes_1 @ TemperatureControl_attributes_2)
     []"

section \<open>TemperatureMeasurement\<close>

definition TemperatureMeasurement_attributes :: "attribute_class list" where
  "TemperatureMeasurement_attributes = [
     AttributeClass (u ''MeasuredValue'') 1026 0 (nullable CInt) (Value VNull),
     AttributeClass (u ''MinMeasuredValue'') 1026 1 (nullable CInt) (Value VNull),
     AttributeClass (u ''MaxMeasuredValue'') 1026 2 (nullable CInt) (Value VNull),
     AttributeClass (u ''Tolerance'') 1026 3 (optional CUint) (Value VNone),
     AttributeClass (u ''GeneratedCommandList'') 1026 65528 (CList CUint) (EmptyList),
     AttributeClass (u ''AcceptedCommandList'') 1026 65529 (CList CUint) (EmptyList),
     AttributeClass (u ''AttributeList'') 1026 65531 (CList CUint) (EmptyList),
     AttributeClass (u ''FeatureMap'') 1026 65532 CUint (Value (VInt 0)),
     AttributeClass (u ''ClusterRevision'') 1026 65533 CUint (Value (VInt 0))]"

definition TemperatureMeasurement_cluster :: "cluster_def" where
  "TemperatureMeasurement_cluster = ClusterDef (u ''TemperatureMeasurement'') 1026 [
     (u ''measuredValue'', 0, nullable CInt, Value VNull),
     (u ''minMeasuredValue'', 1, nullable CInt, Value VNull),
     (u ''maxMeasuredValue'', 2, nullable CInt, Value VNull),
     (u ''tolerance'', 3, optional CUint, Value VNone),
     (u ''generatedCommandList'', 65528, CList CUint, EmptyList),
     (u ''acceptedCommandList'', 65529, CList CUint, EmptyList),
     (u ''attributeList'', 65531, CList CUint, EmptyList),
     (u ''featureMap'', 65532, CUint, Value (VInt 0)),
     (u ''clusterRevision'', 65533, CUint, Value (VInt 0))]
     []
     TemperatureMeasurement_attributes
     []"

section \<open>Thermostat\<close>

definition Thermostat_ACCapacityFormatEnum :: "(pystr \<times> int) list" where
  "Thermostat_ACCapacityFormatEnum = [
     (u ''kBTUh'', 0),
     (u ''kUnknownEnumValue'', 1)]"

definition Thermostat_ACCompressorTypeEnum :: "(pystr \<times> int) list" where
  "Thermostat_ACCompressorTypeEnum = [
     (u ''kUnknown'', 0),
     (u ''kT1'', 1),
     (u ''kT2'', 2),
     (u ''kT3'', 3),
     (u ''kUnknownEnumValue'', 4)]"

definition Thermostat_ACLouverPositionEnum :: "(pystr \<times> int) list" where
  "Thermostat_ACLouverPositionEnum = [
     (u ''kClosed'', 1),
     (u ''kOpen'', 2),
     (u ''kQuarter'', 3),
     (u ''kHalf'', 4),
     (u ''kThreeQuarters'', 5),
     (u ''kUnknownEnumValue'', 6)]"

definition Thermostat_ACRefrigerantTypeEnum :: "(pystr \<times> int) list" where
  "Thermostat_ACRefrigerantTypeEnum = [
     (u ''kUnknown'', 0),
     (u ''kR22'', 1),
     (u ''kR410a'', 2),
     (u ''kR407c'', 3),
     (u ''kUnknownEnumValue'', 4)]"

definition Thermostat_ACTypeEnum :: "(pystr \<times> int) list" where
  "Thermostat_ACTypeEnum = [
     (u ''kUnknown'', 0),
     (u ''kCoolingFixed'', 1),
     (u ''kHeatPumpFixed'', 2),
     (u ''kCoolingInverter'', 3),
     (u ''kHeatPumpInverter'', 4),
     (u ''kUnknownEnumValue'', 5)]"

definition Thermostat_SetpointRaiseLowerModeEnum :: "(pystr \<times> int) list" where
  "Thermostat_SetpointRaiseLowerModeEnum = [
     (u ''kHeat'', 0),
     (u ''kCool'', 1),
     (u ''kBoth'', 2),
     (u ''kUnknownEnumValue'', 3)]"

definition Thermostat_ControlSequenceOfOperationEnum :: "(pystr \<times> int) list" where
  "Thermostat_ControlSequenceOfOperationEnum = [
     (u ''kCoolingOnly'', 0),
     (u ''kCoolingWithReheat'', 1),
     (u ''kHeatingOnly'', 2),
     (u ''kHeatingWithReheat'', 3),
     (u ''kCoolingAndHeating'', 4),
     (u ''kCoolingAndHeatingWithReheat'', 5),
     (u ''kUnknownEnumValue'', 6)]"

definition Thermostat_PresetScenarioEnum :: "(pystr \<times> int) list" where
  "Thermostat_PresetScenarioEnum = [
     (u ''kOccupied'', 1),
     (u ''kUnoccupied'', 2),
     (u ''kSleep'', 3),
     (u ''kWake'', 4),
     (u ''kVacation'', 5),
     (u ''kGoingToSleep'', 6),
     (u ''kUserDefined'', 254),
     (u ''kUnknownEnumValue'', 255)]"

definition Thermostat_SetpointChangeSourceEnum :: "(pystr \<times> int) list" where
  "Thermostat_SetpointChangeSourceEnum = [
     (u ''kManual'', 0),
     (u ''kSchedule'', 1),
     (u ''kExternal'', 2),
     (u ''kUnknownEnumValue'', 3)]"

definition Thermostat_StartOfWeekEnum :: "(pystr \<times> int) list" where
  "Thermostat_StartOfWeekEnum = [
     (u ''kSunday'', 0),
     (u ''kMonday'', 1),
     (u ''kTuesday'', 2),
     (u ''kWednesday'', 3),
     (u ''kThursday'', 4),
     (u ''kFriday'', 5),
     (u ''kSaturday'', 6),
     (u ''kUnknownEnumValue'', 7)]"

definition Thermostat_SystemModeEnum :: "(pystr \<times> int) list" where
  "Thermostat_SystemModeEnum = [
     (u ''kOff'', 0),
     (u ''kAuto'', 1),
     (u ''kCool'', 3),
     (u ''kHeat'', 4),
     (u ''kEmergencyHeat'', 5),
     (u ''kPrecooling'', 6),
     (u ''kFanOnly'', 7),
     (u ''kDry'', 8),
     (u ''kSleep'', 9),
     (u ''kUnknownEnumValue'', 10)]"

definition Thermostat_ThermostatRunningModeEnum :: "(pystr \<times> int) list" where
  "Thermostat_ThermostatRunningModeEnum = [
     (u ''kOff'', 0),
     (u ''kCool'', 3),
     (u ''kHeat'', 4),
     (u ''kUnknownEnumValue'', 5)]"

definition Thermostat_TemperatureSetpointHoldEnum :: "(pystr \<times> int) list" where
  "Thermostat_TemperatureSetpointHoldEnum = [
     (u ''kSetpointHoldOff'', 0),
     (u ''kSetpointHoldOn'', 1),
     (u ''kUnknownEnumValue'', 2)]"

definition Thermostat_Feature :: "(pystr \<times> int) list" where
  "Thermostat_Feature = [
     (u ''kHeating'', 1),
     (u ''kCooling'', 2),
     (u ''kOccupancy'', 4),
     (u ''kSetback'', 16),
     (u ''kAutoMode'', 32),
     (u ''kLocalTemperatureNotExposed'', 64),
     (u ''kMatterScheduleConfiguration'', 128),
     (u ''kPresets'', 256),
     (u ''kEvents'', 512),
     (u ''kThermostatSuggestions'', 1024)]"

definition Thermostat_ACErrorCodeBitmap :: "(pystr \<times> int) list" where
  "Thermostat_ACErrorCodeBitmap = [
     (u ''kCompressorFail'', 1),
     (u ''kRoomSensorFail'', 2),
     (u ''kOutdoorSensorFail'', 4),
     (u ''kCoilSensorFail'', 8),
     (u ''kFanFail'', 16)]"

definition Thermostat_OccupancyBitmap :: "(pystr \<times> int) list" where
  "Thermostat_OccupancyBitmap = [
     (u ''kOccupied'', 1)]"

definition Thermostat_PresetTypeFeaturesBitmap :: "(pystr \<times> int) list" where
  "Thermostat_PresetTypeFeaturesBitmap = [
     (u ''kAutomatic'', 1),
     (u ''kSupportsNames'', 2)]"

definition Thermostat_RelayStateBitmap :: "(pystr \<times> int) list" where
  "Thermostat_RelayStateBitmap = [
     (u ''kHeat'', 1),
     (u ''kCool'', 2),
     (u ''kFan'', 4),
     (u ''kHeatStage2'', 8),
     (u ''kCoolStage2'', 16),
     (u ''kFanStage2'', 32),
     (u ''kFanStage3'', 64)]"

definition Thermostat_RemoteSensingBitmap :: "(pystr \<times> int) list" where
  "Thermostat_RemoteSensingBitmap = [
     (u ''kLocalTemperature'', 1),
     (u ''kOutdoorTemperature'', 2),
     (u ''kOccupancy'', 4)]"

definition Thermostat_ScheduleTypeFeaturesBitmap :: "(pystr \<times> int) list" where
  "Thermostat_ScheduleTypeFeaturesBitmap = [
     (u ''kSupportsPresets'', 1),
     (u ''kSupportsSetpoints'', 2),
     (u ''kSupportsNames'', 4),
     (u ''kSupportsOff'', 8)]"

definition Thermostat_ScheduleDayOfWeekBitmap :: "(pystr \<times> int) list" where
  "Thermostat_ScheduleDayOfWeekBitmap = [
     (u ''kSunday'', 1),
     (u ''kMonday'', 2),
     (u ''kTuesday'', 4),
     (u ''kWednesday'', 8),
     (u ''kThursday'', 16),
     (u ''kFriday'', 32),
     (u ''kSaturday'', 64),
     (u ''kAway'', 128)]"

definition Thermostat_ScheduleModeBitmap :: "(pystr \<times> int) list" where
  "Thermostat_ScheduleModeBitmap = [
     (u ''kHeatSetpointPresent'', 1),
     (u ''kCoolSetpointPresent'', 2)]"

definition Thermostat_ThermostatSuggestionNotFollowingReasonBitmap :: "(pystr \<times> int) list" where
  "Thermostat_ThermostatSuggestionNotFollowingReasonBitmap = [
     (u ''kDemandResponseEvent'', 1),
     (u ''kOngoingHold'', 2),
     (u ''kSchedule'', 4),
     (u ''kOccupancy'', 8),
     (u ''kVacationMode'', 16),
     (u ''kTimeOfUseCostSavings'', 32),
     (u ''kPreCoolingOrPreHeating'', 64),
     (u ''kConflictingSuggestions'', 128)]"

definition Thermostat_PresetStruct :: "dfield list" where
  "Thermostat_PresetStruct = [
     (u ''presetHandle'', 0, nullable CBytes, Value VNull),
     (u ''presetScenario'', 1, enum_type Thermostat_PresetScenarioEnum, Value (VInt 0)),
     (u ''name'', 2, optional_nullable CStr, Value VNone),
     (u ''coolingSetpoint'', 3, optional CInt, Value VNone),
     (u ''heatingSetpoint'', 4, optional CInt, Value VNone),
     (u ''builtIn'', 5, nullable CBool, Value VNull)]"

definition Thermostat_PresetTypeStruct :: "dfield list" where
  "Thermostat_PresetTypeStruct = [
     (u ''presetScenario'', 0, enum_type Thermostat_PresetScenarioEnum, Value (VInt 0)),
     (u ''numberOfPresets'', 1, CUint, Value (VInt 0)),
     (u ''presetTypeFeatures'', 2, flag_type Thermostat_PresetTypeFeaturesBitmap, Value (VInt 0))]"

definition Thermostat_WeeklyScheduleTransitionStruct :: "dfield list" where
  "Thermostat_WeeklyScheduleTransitionStruct = [
     (u ''transitionTime'', 0, CUint, Value (VInt 0)),
     (u ''heatSetpoint'', 1, nullable CInt, Value VNull),
     (u ''coolSetpoint'', 2, nullable CInt, Value VNull)]"

definition Thermostat_ScheduleTransitionStruct :: "dfield list" where
  "Thermostat_ScheduleTransitionStruct = [
     (u ''dayOfWeek'', 0, flag_type Thermostat_ScheduleDayOfWeekBitmap, Value (VInt 0)),
     (u ''transitionTime'', 1, CUint, Value (VInt 0)),
     (u ''presetHandle'', 2, optional CBytes, Value VNone),
     (u ''systemMode'', 3, optional (enum_type Thermostat_SystemModeEnum), Value VNone),
     (u ''coolingSetpoint'', 4, optional CInt, Value VNone),
     (u ''heatingSetpoint'', 5, optional CInt, Value VNone)]"

definition Thermostat_ScheduleStruct :: "dfield list" where
  "Thermostat_ScheduleStruct = [
     (u ''scheduleHandle'', 0, nullable CBytes, Value VNull),
     (u ''systemMode'', 1, enum_type Thermostat_SystemModeEnum, Value (VInt 0)),
     (u ''name'', 2, optional CStr, Value VNone),
     (u ''presetHandle'', 3, optional CBytes, Value VNone),
     (u ''transitions'', 4, CList (struct_type Thermostat_ScheduleTransitionStruct), EmptyList),
     (u ''builtIn'', 5, nullable CBool, Value VNull)]"

definition Thermostat_ScheduleTypeStruct :: "dfield list" where
  "Thermostat_ScheduleTypeStruct = [
     (u ''systemMode'', 0, enum_type Thermostat_SystemModeEnum, Value (VInt 0)),
     (u ''numberOfSchedules'', 1, CUint, Value (VInt 0)),
     (u ''scheduleTypeFeatures'', 2, flag_type Thermostat_ScheduleTypeFeaturesBitmap, Value (VInt 0))]"

definition Thermostat_ThermostatSuggestionStruct :: "dfield list" where
  "Thermostat_ThermostatSuggestionStruct = [
     (u ''uniqueID'', 0, CUint, Value (VInt 0)),
     (u ''presetHandle'', 1, CBytes, Value (VBytes [])),
     (u ''effectiveTime'', 2, CUint, Value (VInt 0)),
     (u ''expirationTime'', 3, CUint, Value (VInt 0))]"

definition Thermostat_commands :: "command_class list" where
  "Thermostat_commands = [
     CommandClass (u ''SetpointRaiseLower'') 513 0 True None False [(u ''mode'', 0, enum_type Thermostat_SetpointRaiseLowerModeEnum, Value (VInt 0)),
       (u ''amount'', 1, CInt, Value (VInt 0))],
     CommandClass (u ''SetActiveScheduleRequest'') 513 5 True None False [(u ''scheduleHandle'', 0, CBytes, Value (VBytes []))],
     CommandClass (u ''SetActivePresetRequest'') 513 6 True None False [(u ''presetHandle'', 0, nullable CBytes, Value VNull)],
     CommandClass (u ''AddThermostatSuggestion'') 513 7 True (Some (u ''AddThermostatSuggestionResponse'')) False [(u ''presetHandle'', 0, CBytes, Value (VBytes [])),
       (u ''effectiveTime'', 1, nullable CUint, Value VNull),
       (u ''expirationInMinutes'', 2, CUint, Value (VInt 0))],
     CommandClass (u ''RemoveThermostatSuggestion'') 513 8 True None False [(u ''uniqueID'', 0, CUint, Value (VInt 0))],
     CommandClass (u ''AtomicRequest'') 513 254 True (Some (u ''AtomicResponse'')) False [(u ''requestType'', 0, enum_type Globals_enum8, Value (VInt 0)),
       (u ''attributeRequests'', 1, CList CUint, EmptyList),
       (u ''timeout'', 2, optional CUint, Value VNone)],
     CommandClass (u ''AddThermostatSuggestionResponse'') 513 2 False None False [(u ''uniqueID'', 0, CUint, Value (VInt 0))],
     CommandClass (u ''AtomicResponse'') 513 253 False None False [(u ''statusCode'', 0, enum_type Globals_status, Value (VInt 0)),
       (u ''attributeStatus'', 1, CList (struct_type Globals_struct), EmptyList),
       (u ''timeout'', 2, optional CUint, Value VNone)]]"

definition Thermostat_attributes_1 :: "attribute_class list" where
  "Thermostat_attributes_1 = [
     AttributeClass (u ''LocalTemperature'') 513 0 (nullable CInt) (Value VNull),
     AttributeClass (u ''OutdoorTemperature'') 513 1 (optional_nullable CInt) (Value VNone),
     AttributeClass (u ''Occupancy'') 513 2 (optional (flag_type Thermostat_OccupancyBitmap)) (Value VNone),
     AttributeClass (u ''AbsMinHeatSetpointLimit'') 513 3 (optional CInt) (Value VNone),
     AttributeClass (u ''AbsMaxHeatSetpointLimit'') 513 4 (optional CInt) (Value VNone),
     AttributeClass (u ''AbsMinCoolSetpointLimit'') 513 5 (optional CInt) (Value VNone),
     AttributeClass (u ''AbsMaxCoolSetpointLimit'') 513 6 (optional CInt) (Value VNone),
     AttributeClass (u ''PICoolingDemand'') 513 7 (optional CUint) (Value VNone),
     AttributeClass (u ''PIHeatingDemand'') 513 8 (optional CUint) (Value VNone)]"

definition Thermostat_attributes_2 :: "attribute_class list" where
  "Thermostat_attributes_2 = [
     AttributeClass (u ''HVACSystemTypeConfiguration'') 513 9 (optional CUint) (Value VNone),
     AttributeClass (u ''LocalTemperatureCalibration'') 513 16 (optional CInt) (Value VNone),
     AttributeClass (u ''OccupiedCoolingSetpoint'') 513 17 (optional CInt) (Value VNone),
     AttributeClass (u ''OccupiedHeatingSetpoint'') 513 18 (optional CInt) (Value VNone),
     AttributeClass (u ''UnoccupiedCoolingSetpoint'') 513 19 (optional CInt) (Value VNone),
     AttributeClass (u ''UnoccupiedHeatingSetpoint'') 513 20 (optional CInt) (Value VNone),
     AttributeClass (u ''MinHeatSetpointLimit'') 513 21 (optional CInt) (Value VNone),
     AttributeClass (u ''MaxHeatSetpointLimit'') 513 22 (optional CInt) (Value VNone),
     AttributeClass (u ''MinCoolSetpointLimit'') 513 23 (optional CInt) (Value VNone)]"

definition Thermostat_attributes_3 :: "attribute_class list" where
  "Thermostat_attributes_3 = [
     AttributeClass (u ''MaxCoolSetpointLimit'') 513 24 (optional CInt) (Value VNone),
     AttributeClass (u ''MinSetpointDeadBand'') 513 25 (optional CInt) (Value VNone),
     AttributeClass (u ''RemoteSensing'') 513 26 (optional (flag_type Thermostat_RemoteSensingBitmap)) (Value VNone),
     AttributeClass (u ''ControlSequenceOfOperation'') 513 27 (enum_type Thermostat_ControlSequenceOfOperationEnum) (Value (VInt 0)),
     AttributeClass (u ''SystemMode'') 513 28 (enum_type Thermostat_SystemModeEnum) (Value (VInt 0)),
     AttributeClass (u ''ThermostatRunningMode'') 513 30 (optional (enum_type Thermostat_ThermostatRunningModeEnum)) (Value VNone),
     AttributeClass (u ''TemperatureSetpointHold'') 513 35 (optional (enum_type Thermostat_TemperatureSetpointHoldEnum)) (Value VNone),
     AttributeClass (u ''TemperatureSetpointHoldDuration'') 513 36 (optional_nullable CUint) (Value VNone),
     AttributeClass (u ''ThermostatProgrammingOperationMode'') 513 37 (optional CUint) (Value VNone)]"

definition Thermostat_attributes_4 :: "attribute_class list" where
  "Thermostat_attributes_4 = [
     AttributeClass (u ''ThermostatRunningState'') 513 41 (optional (flag_type Thermostat_RelayStateBitmap)) (Value VNone),
     AttributeClass (u ''SetpointChangeSource'') 513 48 (optional (enum_type Thermostat_SetpointChangeSourceEnum)) (Value VNone),
     AttributeClass (u ''SetpointChangeAmount'') 513 49 (optional_nullable CInt) (Value VNone),
     AttributeClass (u ''SetpointChangeSourceTimestamp'') 513 50 (optional CUint) (Value VNone),
     AttributeClass (u ''OccupiedSetback'') 513 52 (optional CUint) (Value VNone),
     AttributeClass (u ''OccupiedSetbackMin'') 513 53 (optional CUint) (Value VNone),
     AttributeClass (u ''OccupiedSetbackMax'') 513 54 (optional CUint) (Value VNone),
     AttributeClass (u ''UnoccupiedSetback'') 513 55 (optional CUint) (Value VNone),
     AttributeClass (u ''UnoccupiedSetbackMin'') 513 56 (optional CUint) (Value VNone)]"

definition Thermostat_attributes_5 :: "attribute_class list" where
  "Thermostat_attributes_5 = [
     AttributeClass (u ''UnoccupiedSetbackMax'') 513 57 (optional CUint) (Value VNone),
     AttributeClass (u ''EmergencyHeatDelta'') 513 58 (optional CUint) (Value VNone),
     AttributeClass (u ''ACType'') 513 64 (optional (enum_type Thermostat_ACTypeEnum)) (Value VNone),
     AttributeClass (u ''ACCapacity'') 513 65 (optional CUint) (Value VNone),
     AttributeClass (u ''ACRefrigerantType'') 513 66 (optional (enum_type Thermostat_ACRefrigerantTypeEnum)) (Value VNone),
     AttributeClass (u ''ACCompressorType'') 513 67 (optional (enum_type Thermostat_ACCompressorTypeEnum)) (Value VNone),
     AttributeClass (u ''ACErrorCode'') 513 68 (optional (flag_type Thermostat_ACErrorCodeBitmap)) (Value VNone),
     AttributeClass (u ''ACLouverPosition'') 513 69 (optional (enum_type Thermostat_ACLouverPositionEnum)) (Value VNone),
     AttributeClass (u ''ACCoilTemperature'') 513 70 (optional_nullable CInt) (Value VNone)]"

definition Thermostat_attributes_6 :: "attribute_class list" where
  "Thermostat_attributes_6 = [
     AttributeClass (u ''ACCapacityformat'') 513 71 (optional (enum_type Thermostat_ACCapacityFormatEnum)) (Value VNone),
     AttributeClass (u ''PresetTypes'') 513 72 (optional (CList (struct_type Thermostat_PresetTypeStruct))) (Value VNone),
     AttributeClass (u ''ScheduleTypes'') 513 73 (optional (CList (struct_type Thermostat_ScheduleTypeStruct))) (Value VNone),
     AttributeClass (u ''NumberOfPresets'') 513 74 (optional CUint) (Value VNone),
     AttributeClass (u ''NumberOfSchedules'') 513 75 (optional CUint) (Value VNone),
     AttributeClass (u ''NumberOfScheduleTransitions'') 513 76 (optional CUint) (Value VNone),
     AttributeClass (u ''NumberOfScheduleTransitionPerDay'') 513 77 (optional_nullable CUint) (Value VNone),
     AttributeClass (u ''ActivePresetHandle'') 513 78 (optional_nullable CBytes) (Value VNone),
     AttributeClass (u ''ActiveScheduleHandle'') 513 79 (optional_nullable CBytes) (Value VNone)]"

definition Thermostat_attributes_7 :: "attribute_class list" where
  "Thermostat_attributes_7 = [
     AttributeClass (u ''Presets'') 513 80 (optional (CList (struct_type Thermostat_PresetStruct))) (Value VNone),
     AttributeClass (u ''Schedules'') 513 81 (optional (CList (struct_type Thermostat_ScheduleStruct))) (Value VNone),
     AttributeClass (u ''SetpointHoldExpiryTimestamp'') 513 82 (optional_nullable CUint) (Value VNone),
     AttributeClass (u ''MaxThermostatSuggestions'') 513 83 (optional CUint) (Value VNone),
     AttributeClass (u ''ThermostatSuggestions'') 513 84 (optional (CList (struct_type Thermostat_ThermostatSuggestionStruct))) (Value VNone),
     AttributeClass (u ''CurrentThermostatSuggestion'') 513 85 (optional_nullable (struct_type Thermostat_ThermostatSuggestionStruct)) (Value VNone),
     AttributeClass (u ''ThermostatSuggestionNotFollowingReason'') 513 86 (optional_nullable (flag_type Thermostat_ThermostatSuggestionNotFollowingReasonBitmap)) (Value VNone),
     AttributeClass (u ''GeneratedCommandList'') 513 65528 (CList CUint) (EmptyList),
     AttributeClass (u ''AcceptedCommandList'') 513 65529 (CList CUint) (EmptyList)]"

definition Thermostat_attributes_8 :: "attribute_class list" where
  "Thermostat_attributes_8 = [
     AttributeClass (u ''AttributeList'') 513 65531 (CList CUint) (EmptyList),
     AttributeClass (u ''FeatureMap'') 513 65532 CUint (Value (VInt 0)),
     AttributeClass (u ''ClusterRevision'') 513 65533 CUint (Value (VInt 0))]"

definition Thermostat_events_1 :: "event_class list" where
  "Thermostat_events_1 = [
     EventClass (u ''SystemModeChange'') 513 0 [(u ''previousSystemMode'', 0, optional (enum_type Thermostat_SystemModeEnum), Value VNone),
       (u ''currentSystemMode'', 1, enum_type Thermostat_SystemModeEnum, Value (VInt 0))],
     EventClass (u ''LocalTemperatureChange'') 513 1 [(u ''currentLocalTemperature'', 0, nullable CInt, Value VNull)],
     EventClass (u ''OccupancyChange'') 513 2 [(u ''previousOccupancy'', 0, optional (flag_type Thermostat_OccupancyBitmap), Value VNone),
       (u ''currentOccupancy'', 1, flag_type Thermostat_OccupancyBitmap, Value (VInt 0))],
     EventClass (u ''SetpointChange'') 513 3 [(u ''systemMode'', 0, enum_type Thermostat_SystemModeEnum, Value (VInt 0)),
       (u ''occupancy'', 1, optional (flag_type Thermostat_OccupancyBitmap), Value VNone),
       (u ''previousSetpoint'', 2, optional CInt, Value VNone),
       (u ''currentSetpoint'', 3, CInt, Value (VInt 0))],
     EventClass (u ''RunningStateChange'') 513 4 [(u ''previousRunningState'', 0, optional (flag_type Thermostat_RelayStateBitmap), Value VNone),
       (u ''currentRunningState'', 1, flag_type Thermostat_RelayStateBitmap, Value (VInt 0))],
     EventClass (u ''RunningModeChange'') 513 5 [(u ''previousRunningMode'', 0, optional (enum_type Thermostat_ThermostatRunningModeEnum), Value VNone),
       (u ''currentRunningMode'', 1, enum_type Thermostat_ThermostatRunningModeEnum, Value (VInt 0))],
     EventClass (u ''ActiveScheduleChange'') 513 6 [(u ''previousScheduleHandle'', 0, optional_nullable CBytes, Value VNone),
       (u ''currentScheduleHandle'', 1, nullable CBytes, Value VNull)]]"

definition Thermostat_events_2 :: "event_class list" where
  "Thermostat_events_2 = [
     EventClass (u ''ActivePresetChange'') 513 7 [(u ''previousPresetHandle'', 0, optional_nullable CBytes, Value VNone),
       (u ''currentPresetHandle'', 1, nullable CBytes, Value VNull)]]"

definition Thermostat_cluster :: "cluster_def" where
  "Thermostat_cluster = ClusterDef (u ''Thermostat'') 513 [
     (u ''localTemperature'', 0, nullable CInt, Value VNull),
     (u ''outdoorTemperature'', 1, optional_nullable CInt, Value VNone),
     (u ''occupancy'', 2, optional (flag_type Thermostat_OccupancyBitmap), Value VNone),
     (u ''absMinHeatSetpointLimit'', 3, optional CInt, Value VNone),
     (u ''absMaxHeatSetpointLimit'', 4, optional CInt, Value VNone),
     (u ''absMinCoolSetpointLimit'', 5, optional CInt, Value VNone),
     (u ''absMaxCoolSetpointLimit'', 6, optional CInt, Value VNone),
     (u ''PICoolingDemand'', 7, optional CUint, Value VNone),
     (u ''PIHeatingDemand'', 8, optional CUint, Value VNone),
     (u ''HVACSystemTypeConfiguration'', 9, optional CUint, Value VNone),
     (u ''localTemperatureCalibration'', 16, optional CInt, Value VNone),
     (u ''occupiedCoolingSetpoint'', 17, optional CInt, Value VNone),
     (u ''occupiedHeatingSetpoint'', 18, optional CInt, Value VNone),
     (u ''unoccupiedCoolingSetpoint'', 19, optional CInt, Value VNone),
     (u ''unoccupiedHeatingSetpoint'', 20, optional CInt, Value VNone),
     (u ''minHeatSetpointLimit'', 21, optional CInt, Value VNone),
     (u ''maxHeatSetpointLimit'', 22, optional CInt, Value VNone),
     (u ''minCoolSetpointLimit'', 23, optional CInt, Value VNone),
     (u ''maxCoolSetpointLimit'', 24, optional CInt, Value VNone),
     (u ''minSetpointDeadBand'', 25, optional CInt, Value VNone),
     (u ''remoteSensing'', 26, optional (flag_type Thermostat_RemoteSensingBitmap), Value VNone),
     (u ''controlSequenceOfOperation'', 27, enum_type Thermostat_ControlSequenceOfOperationEnum, Value (VInt 0)),
     (u ''systemMode'', 28, enum_type Thermostat_SystemModeEnum, Value (VInt 0)),
     (u ''thermostatRunningMode'', 30, optional (enum_type Thermostat_ThermostatRunningModeEnum), Value VNone),
     (u ''temperatureSetpointHold'', 35, optional (enum_type Thermostat_TemperatureSetpointHoldEnum), Value VNone),
     (u ''temperatureSetpointHoldDuration'', 36, optional_nullable CUint, Value VNone),
     (u ''thermostatProgrammingOperationMode'', 37, optional CUint, Value VNone),
     (u ''thermostatRunningState'', 41, optional (flag_type Thermostat_RelayStateBitmap), Value VNone),
     (u ''setpointChangeSource'', 48, optional (enum_type Thermostat_SetpointChangeSourceEnum), Value VNone),
     (u ''setpointChangeAmount'', 49, optional_nullable CInt, Value VNone),
     (u ''setpointChangeSourceTimestamp'', 50, optional CUint, Value VNone),
     (u ''occupiedSetback'', 52, optional CUint, Value VNone),
     (u ''occupiedSetbackMin'', 53, optional CUint, Value VNone),
     (u ''occupiedSetbackMax'', 54, optional CUint, Value VNone),
     (u ''unoccupiedSetback'', 55, optional CUint, Value VNone),
     (u ''unoccupiedSetbackMin'', 56, optional CUint, Value VNone),
     (u ''unoccupiedSetbackMax'', 57, optional CUint, Value VNone),
     (u ''emergencyHeatDelta'', 58, optional CUint, Value VNone),
     (u ''ACType'', 64, optional (enum_type Thermostat_ACTypeEnum), Value VNone),
     (u ''ACCapacity'', 65, optional CUint, Value VNone),
     (u ''ACRefrigerantType'', 66, optional (enum_type Thermostat_ACRefrigerantTypeEnum), Value VNone),
     (u ''ACCompressorType'', 67, optional (enum_type Thermostat_ACCompressorTypeEnum), Value VNone),
     (u ''ACErrorCode'', 68, optional (flag_type Thermostat_ACErrorCodeBitmap), Value VNone),
     (u ''ACLouverPosition'', 69, optional (enum_type Thermostat_ACLouverPositionEnum), Value VNone),
     (u ''ACCoilTemperature'', 70, optional_nullable CInt, Value VNone),
     (u ''ACCapacityformat'', 71, optional (enum_type Thermostat_ACCapacityFormatEnum), Value VNone),
     (u ''presetTypes'', 72, optional (CList (struct_type Thermostat_PresetTypeStruct)), Value VNone),
     (u ''scheduleTypes'', 73, optional (CList (struct_type Thermostat_ScheduleTypeStruct)), Value VNone),
     (u ''numberOfPresets'', 74, optional CUint, Value VNone),
     (u ''numberOfSchedules'', 75, optional CUint, Value VNone),
     (u ''numberOfScheduleTransitions'', 76, optional CUint, Value VNone),
     (u ''numberOfScheduleTransitionPerDay'', 77, optional_nullable CUint, Value VNone),
     (u ''activePresetHandle'', 78, optional_nullable CBytes, Value VNone),
     (u ''activeScheduleHandle'', 79, optional_nullable CBytes, Value VNone),
     (u ''presets'', 80, optional (CList (struct_type Thermostat_PresetStruct)), Value VNone),
     (u ''schedules'', 81, optional (CList (struct_type Thermostat_ScheduleStruct)), Value VNone),
     (u ''setpointHoldExpiryTimestamp'', 82, optional_nullable CUint, Value VNone),
     (u ''maxThermostatSuggestions'', 83, optional CUint, Value VNone),
     (u ''thermostatSuggestions'', 84, optional (CList (struct_type Thermostat_ThermostatSuggestionStruct)), Value VNone),
     (u ''currentThermostatSuggestion'', 85, optional_nullable (struct_type Thermostat_ThermostatSuggestionStruct), Value VNone),
     (u ''thermostatSuggestionNotFollowingReason'', 86, optional_nullable (flag_type Thermostat_ThermostatSuggestionNotFollowingReasonBitmap), Value VNone),
     (u ''generatedCommandList'', 65528, CList CUint, EmptyList),
     (u ''acceptedCommandList'', 65529, CList CUint, EmptyList),
     (u ''attributeList'', 65531, CList CUint, EmptyList),
     (u ''featureMap'', 65532, CUint, Value (VInt 0)),
     (u ''clusterRevision'', 65533, CUint, Value (VInt 0))]
     Thermostat_commands
     (Thermostat_attributes_1 @ Thermostat_attributes_2 @ Thermostat_attributes_3 @ Thermostat_attributes_4 @ Thermostat_attributes_5 @ Thermostat_attributes_6 @ Thermostat_attributes_7 @ Thermostat_attributes_8)
     (Thermostat_events_1 @ Thermostat_events_2)"

section \<open>ThermostatUserInterfaceConfiguration\<close>

definition ThermostatUserInterfaceConfiguration_TemperatureDisplayModeEnum :: "(pystr \<times> int) list" where
  "ThermostatUserInterfaceConfiguration_TemperatureDisplayModeEnum = [
     (u ''kCelsius'', 0),
     (u ''kFahrenheit'', 1),
     (u ''kUnknownEnumValue'', 2)]"

definition ThermostatUserInterfaceConfiguration_KeypadLockoutEnum :: "(pystr \<times> int) list" where
  "ThermostatUserInterfaceConfiguration_KeypadLockoutEnum = [
     (u ''kNoLockout'', 0),
     (u ''kLockout1'', 1),
     (u ''kLockout2'', 2),
     (u ''kLockout3'', 3),
     (u ''kLockout4'', 4),
     (u ''kLockout5'', 5),
     (u ''kUnknownEnumValue'', 6)]"

definition ThermostatUserInterfaceConfiguration_ScheduleProgrammingVisibilityEnum :: "(pystr \<times> int) list" where
  "ThermostatUserInterfaceConfiguration_ScheduleProgrammingVisibilityEnum = [
     (u ''kScheduleProgrammingPermitted'', 0),
     (u ''kScheduleProgrammingDenied'', 1),
     (u ''kUnknownEnumValue'', 2)]"

definition ThermostatUserInterfaceConfiguration_attributes :: "attribute_class list" where
  "ThermostatUserInterfaceConfiguration_attributes = [
     AttributeClass (u ''TemperatureDisplayMode'') 516 0 (enum_type ThermostatUserInterfaceConfiguration_TemperatureDisplayModeEnum) (Value (VInt 0)),
     AttributeClass (u ''KeypadLockout'') 516 1 (enum_type ThermostatUserInterfaceConfiguration_KeypadLockoutEnum) (Value (VInt 0)),
     AttributeClass (u ''ScheduleProgrammingVisibility'') 516 2 (optional (enum_type ThermostatUserInterfaceConfiguration_ScheduleProgrammingVisibilityEnum)) (Value VNone),
     AttributeClass (u ''GeneratedCommandList'') 516 65528 (CList CUint) (EmptyList),
     AttributeClass (u ''AcceptedCommandList'') 516 65529 (CList CUint) (EmptyList),
     AttributeClass (u ''AttributeList'') 516 65531 (CList CUint) (EmptyList),
     AttributeClass (u ''FeatureMap'') 516 65532 CUint (Value (VInt 0)),
     AttributeClass (u ''ClusterRevision'') 516 65533 CUint (Value (VInt 0))]"

definition ThermostatUserInterfaceConfiguration_cluster :: "cluster_def" where
  "ThermostatUserInterfaceConfiguration_cluster = ClusterDef (u ''ThermostatUserInterfaceConfiguration'') 516 [
     (u ''temperatureDisplayMode'', 0, enum_type ThermostatUserInterfaceConfiguration_TemperatureDisplayModeEnum, Value (VInt 0)),
     (u ''keypadLockout'', 1, enum_type ThermostatUserInterfaceConfiguration_KeypadLockoutEnum, Value (VInt 0)),
     (u ''scheduleProgrammingVisibility'', 2, optional (enum_type ThermostatUserInterfaceConfiguration_ScheduleProgrammingVisibilityEnum), Value VNone),
     (u ''generatedCommandList'', 65528, CList CUint, EmptyList),
     (u ''acceptedCommandList'', 65529, CList CUint, EmptyList),
     (u ''attributeList'', 65531, CList CUint, EmptyList),
     (u ''featureMap'', 65532, CUint, Value (VInt 0)),
     (u ''clusterRevision'', 65533, CUint, Value (VInt 0))]
     []
     ThermostatUserInterfaceConfiguration_attributes
     []"

section \<open>ThirdRealityMeteringCluster\<close>

definition ThirdRealityMeteringCluster_attributes :: "attribute_class list" where
  "ThirdRealityMeteringCluster_attributes = [
     AttributeClass (u ''CurrentSummationDelivered'') 319683586 0 (optional CUint) (Value VNone),
     AttributeClass (u ''Multiplier'') 319683586 769 (optional CUint) (Value VNone),
     AttributeClass (u ''Divisor'') 319683586 770 (optional CUint) (Value VNone),
     AttributeClass (u ''InstantaneousDemand'') 319683586 1024 (optional CUint) (Value VNone),
     AttributeClass (u ''GeneratedCommandList'') 319683586 65528 (CList CUint) (EmptyList),
     AttributeClass (u ''AcceptedCommandList'') 319683586 65529 (CList CUint) (EmptyList),
     AttributeClass (u ''AttributeList'') 319683586 65531 (CList CUint) (EmptyList),
     AttributeClass (u ''FeatureMap'') 319683586 65532 CUint (Value (VInt 0)),
     AttributeClass (u ''ClusterRevision'') 319683586 65533 CUint (Value (VInt 0))]"

definition ThirdRealityMeteringCluster_cluster :: "cluster_def" where
  "ThirdRealityMeteringCluster_cluster = ClusterDef (u ''ThirdRealityMeteringCluster'') 319683586 [
     (u ''currentSummationDelivered'', 0, optional CUint, Value VNone),
     (u ''multiplier'', 769, optional CUint, Value VNone),
     (u ''divisor'', 770, optional CUint, Value VNone),
     (u ''instantaneousDemand'', 1024, optional CUint, Value VNone),
     (u ''generatedCommandList'', 65528, CList CUint, EmptyList),
     (u ''acceptedCommandList'', 65529, CList CUint, EmptyList),
     (u ''attributeList'', 65531, CList CUint, EmptyList),
     (u ''featureMap'', 65532, CUint, Value (VInt 0)),
     (u ''clusterRevision'', 65533, CUint, Value (VInt 0))]
     []
     ThirdRealityMeteringCluster_attributes
     []"

section \<open>ThreadBorderRouterManagement\<close>

definition ThreadBorderRouterManagement_Feature :: "(pystr \<times> int) list" where
  "ThreadBorderRouterManagement_Feature = [
     (u ''kPANChange'', 1)]"

definition ThreadBorderRouterManagement_commands :: "command_class list" where
  "ThreadBorderRouterManagement_commands = [
     CommandClass (u ''GetActiveDatasetRequest'') 1106 0 True (Some (u ''DatasetResponse'')) False [],
     CommandClass (u ''GetPendingDatasetRequest'') 1106 1 True (Some (u ''DatasetResponse'')) False [],
     CommandClass (u ''SetActiveDatasetRequest'') 1106 3 True None True [(u ''activeDataset'', 0, CBytes, Value (VBytes [])),
       (u ''breadcrumb'', 1, optional CUint, Value VNone)],
     CommandClass (u ''SetPendingDatasetRequest'') 1106 4 True None True [(u ''pendingDataset'', 0, CBytes, Value (VBytes []))],
     CommandClass (u ''DatasetResponse'') 1106 2 False None False [(u ''dataset'', 0, CBytes, Value (VBytes []))]]"

definition ThreadBorderRouterManagement_attributes_1 :: "attribute_class list" where
  "ThreadBorderRouterManagement_attributes_1 = [
     AttributeClass (u ''BorderRouterName'') 1106 0 CStr (Value (VStr [])),
     AttributeClass (u ''BorderAgentID'') 1106 1 CBytes (Value (VBytes [])),
     AttributeClass (u ''ThreadVersion'') 1106 2 CUint (Value (VInt 0)),
     AttributeClass (u ''InterfaceEnabled'') 1106 3 CBool (Value (VBool False)),
     AttributeClass (u ''ActiveDatasetTimestamp'') 1106 4 (nullable CUint) (Value VNull),
     AttributeClass (u ''PendingDatasetTimestamp'') 1106 5 (nullable CUint) (Value VNull),
     AttributeClass (u ''GeneratedCommandList'') 1106 65528 (CList CUint) (EmptyList),
     AttributeClass (u ''AcceptedCommandList'') 1106 65529 (CList CUint) (EmptyList),
     AttributeClass (u ''AttributeList'') 1106 65531 (CList CUint) (EmptyList)]"

definition ThreadBorderRouterManagement_attributes_2 :: "attribute_class list" where
  "ThreadBorderRouterManagement_attributes_2 = [
     AttributeClass (u ''FeatureMap'') 1106 65532 CUint (Value (VInt 0)),
     AttributeClass (u ''ClusterRevision'') 1106 65533 CUint (Value (VInt 0))]"

definition ThreadBorderRouterManagement_cluster :: "cluster_def" where
  "ThreadBorderRouterManagement_cluster = ClusterDef (u ''ThreadBorderRouterManagement'') 1106 [
     (u ''borderRouterName'', 0, CStr, Value (VStr [])),
     (u ''borderAgentID'', 1, CBytes, Value (VBytes [])),
     (u ''threadVersion'', 2, CUint, Value (VInt 0)),
     (u ''interfaceEnabled'', 3, CBool, Value (VBool False)),
     (u ''activeDatasetTimestamp'', 4, nullable CUint, Value VNull),
     (u ''pendingDatasetTimestamp'', 5, nullable CUint, Value VNull),
     (u ''generatedCommandList'', 65528, CList CUint, EmptyList),
     (u ''acceptedCommandList'', 65529, CList CUint, EmptyList),
     (u ''attributeList'', 65531, CList CUint, EmptyList),
     (u ''featureMap'', 65532, CUint, Value (VInt 0)),
     (u ''clusterRevision'', 65533, CUint, Value (VInt 0))]
     ThreadBorderRouterManagement_commands
     (ThreadBorderRouterManagement_attributes_1 @ ThreadBorderRouterManagement_attributes_2)
     []"

section \<open>Consistency\<close>

lemma SmokeCoAlarm_cluster_ok: "cluster_ok SmokeCoAlarm_cluster" "cd_id SmokeCoAlarm_cluster = 92"
  by (simp_all add: class_simps SmokeCoAlarm_commands_def
    SmokeCoAlarm_attributes_1_def
    SmokeCoAlarm_attributes_2_def
    SmokeCoAlarm_attributes_3_def
    SmokeCoAlarm_events_1_def
    SmokeCoAlarm_events_2_def
    SmokeCoAlarm_cluster_def del: u_simps)

lemma SoftwareDiagnostics_members_ok [simp]: "members_ok SoftwareDiagnostics_ThreadMetricsStruct"
  by (simp_all add: class_simps SoftwareDiagnostics_ThreadMetricsStruct_def del: u_simps)

lemma SoftwareDiagnostics_cluster_ok: "cluster_ok SoftwareDiagnostics_cluster" "cd_id SoftwareDiagnostics_cluster = 52"
  by (simp_all add: class_simps SoftwareDiagnostics_commands_def
    SoftwareDiagnostics_attributes_def
    SoftwareDiagnostics_events_def
    SoftwareDiagnostics_cluster_def del: u_simps)

lemma SoilMeasurement_cluster_ok: "cluster_ok SoilMeasurement_cluster" "cd_id SoilMeasurement_cluster = 1072"
  by (simp_all add: class_simps SoilMeasurement_attributes_def
    SoilMeasurement_cluster_def del: u_simps)

lemma Switch_cluster_ok: "cluster_ok Switch_cluster" "cd_id Switch_cluster = 59"
  by (simp_all add: class_simps Switch_attributes_def
    Switch_events_def
    Switch_cluster_def del: u_simps)

lemma TargetNavigator_members_ok [simp]: "members_ok TargetNavigator_TargetInfoStruct"
  by (simp_all add: class_simps TargetNavigator_TargetInfoStruct_def del: u_simps)

lemma TargetNavigator_cluster_ok: "cluster_ok TargetNavigator_cluster" "cd_id TargetNavigator_cluster = 1285"
  by (simp_all add: class_simps TargetNavigator_commands_def
    TargetNavigator_attributes_def
    TargetNavigator_events_def
    TargetNavigator_cluster_def del: u_simps)

lemma TclDehumidifierCluster_cluster_ok: "cluster_ok TclDehumidifierCluster_cluster" "cd_id TclDehumidifierCluster_cluster = 322239491"
  by (simp_all add: class_simps TclDehumidifierCluster_attributes_1_def
    TclDehumidifierCluster_attributes_2_def
    TclDehumidifierCluster_cluster_def del: u_simps)

lemma TemperatureAlarm_cluster_ok: "cluster_ok TemperatureAlarm_cluster" "cd_id TemperatureAlarm_cluster = 100"
  by (simp_all add: class_simps TemperatureAlarm_commands_def
    TemperatureAlarm_attributes_1_def
    TemperatureAlarm_attributes_2_def
    TemperatureAlarm_events_def
    TemperatureAlarm_cluster_def del: u_simps)

lemma TemperatureControl_cluster_ok: "cluster_ok TemperatureControl_cluster" "cd_id TemperatureControl_cluster = 86"
  by (simp_all add: class_simps TemperatureControl_commands_def
    TemperatureControl_attributes_1_def
    TemperatureControl_attributes_2_def
    TemperatureControl_cluster_def del: u_simps)

lemma TemperatureMeasurement_cluster_ok: "cluster_ok TemperatureMeasurement_cluster" "cd_id TemperatureMeasurement_cluster = 1026"
  by (simp_all add: class_simps TemperatureMeasurement_attributes_def
    TemperatureMeasurement_cluster_def del: u_simps)

lemma Thermostat_members_ok [simp]: "members_ok Thermostat_PresetStruct"
    "members_ok Thermostat_PresetTypeStruct"
    "members_ok Thermostat_WeeklyScheduleTransitionStruct"
    "members_ok Thermostat_ScheduleTransitionStruct"
    "members_ok Thermostat_ScheduleStruct"
    "members_ok Thermostat_ScheduleTypeStruct"
    "members_ok Thermostat_ThermostatSuggestionStruct"
  by (simp_all add: class_simps Thermostat_PresetStruct_def
    Thermostat_PresetTypeStruct_def
    Thermostat_WeeklyScheduleTransitionStruct_def
    Thermostat_ScheduleTransitionStruct_def
    Thermostat_ScheduleStruct_def
    Thermostat_ScheduleTypeStruct_def
    Thermostat_ThermostatSuggestionStruct_def del: u_simps)

lemma Thermostat_cluster_ok: "cluster_ok Thermostat_cluster" "cd_id Thermostat_cluster = 513"
  by (simp_all add: class_simps Thermostat_commands_def
    Thermostat_attributes_1_def
    Thermostat_attributes_2_def
    Thermostat_attributes_3_def
    Thermostat_attributes_4_def
    Thermostat_attributes_5_def
    Thermostat_attributes_6_def
    Thermostat_attributes_7_def
    Thermostat_attributes_8_def
    Thermostat_events_1_def
    Thermostat_events_2_def
    Thermostat_cluster_def del: u_simps)

lemma ThermostatUserInterfaceConfiguration_cluster_ok: "cluster_ok ThermostatUserInterfaceConfiguration_cluster" "cd_id ThermostatUserInterfaceConfiguration_cluster = 516"
  by (simp_all add: class_simps ThermostatUserInterfaceConfiguration_attributes_def
    ThermostatUserInterfaceConfiguration_cluster_def del: u_simps)

lemma ThirdRealityMeteringCluster_cluster_ok: "cluster_ok ThirdRealityMeteringCluster_cluster" "cd_id ThirdRealityMeteringCluster_cluster = 319683586"
  by (simp_all add: class_simps ThirdRealityMeteringCluster_attributes_def
    ThirdRealityMeteringCluster_cluster_def del: u_simps)

lemma ThreadBorderRouterManagement_cluster_ok: "cluster_ok ThreadBorderRouterManagement_cluster" "cd_id ThreadBorderRouterManagement_cluster = 1106"
  by (simp_all add: class_simps ThreadBorderRouterManagement_commands_def
    ThreadBorderRouterManagement_attributes_1_def
    ThreadBorderRouterManagement_attributes_2_def
    ThreadBorderRouterManagement_cluster_def del: u_simps)

end
