(* ===== verification/Clusters_ThreadNetworkDiagnostics.thy ===== *)
theory Clusters_ThreadNetworkDiagnostics
  imports Clusters_Base
begin

text \<open>
  The generated files \<open>ThreadNetworkDiagnostics.py\<close> to \<open>WaterHeaterMode.py\<close> of \<open>chip/clusters/cluster_defs/\<close>, in the form of
  \<open>Clusters_Base\<close>.
\<close>

section \<open>ThreadNetworkDiagnostics\<close>

definition ThreadNetworkDiagnostics_NetworkFaultEnum :: "(pystr \<times> int) list" where
  "ThreadNetworkDiagnostics_NetworkFaultEnum = [
     (u ''kUnspecified'', 0),
     (u ''kLinkDown'', 1),
     (u ''kHardwareFailure'', 2),
     (u ''kNetworkJammed'', 3),
     (u ''kUnknownEnumValue'', 4)]"

definition ThreadNetworkDiagnostics_ConnectionStatusEnum :: "(pystr \<times> int) list" where
  "ThreadNetworkDiagnostics_ConnectionStatusEnum = [
     (u ''kConnected'', 0),
     (u ''kNotConnected'', 1),
     (u ''kUnknownEnumValue'', 2)]"

definition ThreadNetworkDiagnostics_RoutingRoleEnum :: "(pystr \<times> int) list" where
  "ThreadNetworkDiagnostics_RoutingRoleEnum = [
     (u ''kUnspecified'', 0),
     (u ''kUnassigned'', 1),
     (u ''kSleepyEndDevice'', 2),
     (u ''kEndDevice'', 3),
     (u ''kReed'', 4),
     (u ''kRouter'', 5),
     (u ''kLeader'', 6),
     (u ''kUnknownEnumValue'', 7)]"

definition ThreadNetworkDiagnostics_Feature :: "(pystr \<times> int) list" where
  "ThreadNetworkDiagnostics_Feature = [
     (u ''kPacketCounts'', 1),
     (u ''kErrorCounts'', 2),
     (u ''kMLECounts'', 4),
     (u ''kMACCounts'', 8)]"

definition ThreadNetworkDiagnostics_NeighborTableStruct :: "dfield list" where
  "ThreadNetworkDiagnostics_NeighborTableStruct = [
     (u ''extAddress'', 0, CUint, Value (VInt 0)),
     (u ''age'', 1, CUint, Value (VInt 0)),
     (u ''rloc16'', 2, CUint, Value (VInt 0)),
     (u ''linkFrameCounter'', 3, CUint, Value (VInt 0)),
     (u ''mleFrameCounter'', 4, CUint, Value (VInt 0)),
     (u ''lqi'', 5, CUint, Value (VInt 0)),
     (u ''averageRssi'', 6, nullable CInt, Value VNull),
     (u ''lastRssi'', 7, nullable CInt, Value VNull),
     (u ''frameErrorRate'', 8, CUint, Value (VInt 0)),
     (u ''messageErrorRate'', 9, CUint, Value (VInt 0)),
     (u ''rxOnWhenIdle'', 10, CBool, Value (VBool False)),
     (u ''fullThreadDevice'', 11, CBool, Value (VBool False)),
     (u ''fullNetworkData'', 12, CBool, Value (VBool False)),
     (u ''isChild'', 13, CBool, Value (VBool False))]"

definition ThreadNetworkDiagnostics_RouteTableStruct :: "dfield list" where
  "ThreadNetworkDiagnostics_RouteTableStruct = [
     (u ''extAddress'', 0, CUint, Value (VInt 0)),
     (u ''rloc16'', 1, CUint, Value (VInt 0)),
     (u ''routerId'', 2, CUint, Value (VInt 0)),
     (u ''nextHop'', 3, CUint, Value (VInt 0)),
     (u ''pathCost'', 4, CUint, Value (VInt 0)),
     (u ''LQIIn'', 5, CUint, Value (VInt 0)),
     (u ''LQIOut'', 6, CUint, Value (VInt 0)),
     (u ''age'', 7, CUint, Value (VInt 0)),
     (u ''allocated'', 8, CBool, Value (VBool False)),
     (u ''linkEstablished'', 9, CBool, Value (VBool False))]"

definition ThreadNetworkDiagnostics_SecurityPolicy :: "dfield list" where
  "ThreadNetworkDiagnostics_SecurityPolicy = [
     (u ''rotationTime'', 0, CUint, Value (VInt 0)),
     (u ''flags'', 1, CUint, Value (VInt 0))]"

definition ThreadNetworkDiagnostics_OperationalDatasetComponents :: "dfield list" where
  "ThreadNetworkDiagnostics_OperationalDatasetComponents = [
     (u ''activeTimestampPresent'', 0, CBool, Value (VBool False)),
     (u ''pendingTimestampPresent'', 1, CBool, Value (VBool False)),
     (u ''masterKeyPresent'', 2, CBool, Value (VBool False)),
     (u ''networkNamePresent'', 3, CBool, Value (VBool False)),
     (u ''extendedPanIdPresent'', 4, CBool, Value (VBool False)),
     (u ''meshLocalPrefixPresent'', 5, CBool, Value (VBool False)),
     (u ''delayPresent'', 6, CBool, Value (VBool False)),
     (u ''panIdPresent'', 7, CBool, Value (VBool False)),
     (u ''channelPresent'', 8, CBool, Value (VBool False)),
     (u ''pskcPresent'', 9, CBool, Value (VBool False)),
     (u ''securityPolicyPresent'', 10, CBool, Value (VBool False)),
     (u ''channelMaskPresent'', 11, CBool, Value (VBool False))]"

definition ThreadNetworkDiagnostics_commands :: "command_class list" where
  "ThreadNetworkDiagnostics_commands = [
     CommandClass (u ''ResetCounts'') 53 0 True None False []]"

definition ThreadNetworkDiagnostics_attributes_1 :: "attribute_class list" where
  "ThreadNetworkDiagnostics_attributes_1 = [
     AttributeClass (u ''Channel'') 53 0 (nullable CUint) (Value VNull),
     AttributeClass (u ''RoutingRole'') 53 1 (nullable (enum_type ThreadNetworkDiagnostics_RoutingRoleEnum)) (Value VNull),
     AttributeClass (u ''NetworkName'') 53 2 (nullable CStr) (Value VNull),
     AttributeClass (u ''PanId'') 53 3 (nullable CUint) (Value VNull),
     AttributeClass (u ''ExtendedPanId'') 53 4 (nullable CUint) (Value VNull),
     AttributeClass (u ''MeshLocalPrefix'') 53 5 (nullable CBytes) (Value VNull),
     AttributeClass (u ''OverrunCount'') 53 6 (optional CUint) (Value VNone),
     AttributeClass (u ''NeighborTable'') 53 7 (CList (struct_type ThreadNetworkDiagnostics_NeighborTableStruct)) (EmptyList),
     AttributeClass (u ''RouteTable'') 53 8 (CList (struct_type ThreadNetworkDiagnostics_RouteTableStruct)) (EmptyList)]"

definition ThreadNetworkDiagnostics_attributes_2 :: "attribute_class list" where
  "ThreadNetworkDiagnostics_attributes_2 = [
     AttributeClass (u ''PartitionId'') 53 9 (nullable CUint) (Value VNull),
     AttributeClass (u ''Weighting'') 53 10 (nullable CUint) (Value VNull),
     AttributeClass (u ''DataVersion'') 53 11 (nullable CUint) (Value VNull),
     AttributeClass (u ''StableDataVersion'') 53 12 (nullable CUint) (Value VNull),
     AttributeClass (u ''LeaderRouterId'') 53 13 (nullable CUint) (Value VNull),
     AttributeClass (u ''DetachedRoleCount'') 53 14 (optional CUint) (Value VNone),
     AttributeClass (u ''ChildRoleCount'') 53 15 (optional CUint) (Value VNone),
     AttributeClass (u ''RouterRoleCount'') 53 16 (optional CUint) (Value VNone),
     AttributeClass (u ''LeaderRoleCount'') 53 17 (optional CUint) (Value VNone)]"

definition ThreadNetworkDiagnostics_attributes_3 :: "attribute_class list" where
  "ThreadNetworkDiagnostics_attributes_3 = [
     AttributeClass (u ''AttachAttemptCount'') 53 18 (optional CUint) (Value VNone),
     AttributeClass (u ''PartitionIdChangeCount'') 53 19 (optional CUint) (Value VNone),
     AttributeClass (u ''BetterPartitionAttachAttemptCount'') 53 20 (optional CUint) (Value VNone),
     AttributeClass (u ''ParentChangeCount'') 53 21 (optional CUint) (Value VNone),
     AttributeClass (u ''TxTotalCount'') 53 22 (optional CUint) (Value VNone),
     AttributeClass (u ''TxUnicastCount'') 53 23 (optional CUint) (Value VNone),
     AttributeClass (u ''TxBroadcastCount'') 53 24 (optional CUint) (Value VNone),
     AttributeClass (u ''TxAckRequestedCount'') 53 25 (optional CUint) (Value VNone),
     AttributeClass (u ''TxAckedCount'') 53 26 (optional CUint) (Value VNone)]"

definition ThreadNetworkDiagnostics_attributes_4 :: "attribute_class list" where
  "ThreadNetworkDiagnostics_attributes_4 = [
     AttributeClass (u ''TxNoAckRequestedCount'') 53 27 (optional CUint) (Value VNone),
     AttributeClass (u ''TxDataCount'') 53 28 (optional CUint) (Value VNone),
     AttributeClass (u ''TxDataPollCount'') 53 29 (optional CUint) (Value VNone),
     AttributeClass (u ''TxBeaconCount'') 53 30 (optional CUint) (Value VNone),
     AttributeClass (u ''TxBeaconRequestCount'') 53 31 (optional CUint) (Value VNone),
     AttributeClass (u ''TxOtherCount'') 53 32 (optional CUint) (Value VNone),
     AttributeClass (u ''TxRetryCount'') 53 33 (optional CUint) (Value VNone),
     AttributeClass (u ''TxDirectMaxRetryExpiryCount'') 53 34 (optional CUint) (Value VNone),
     AttributeClass (u ''TxIndirectMaxRetryExpiryCount'') 53 35 (optional CUint) (Value VNone)]"

definition ThreadNetworkDiagnostics_attributes_5 :: "attribute_class list" where
  "ThreadNetworkDiagnostics_attributes_5 = [
     AttributeClass (u ''TxErrCcaCount'') 53 36 (optional CUint) (Value VNone),
     AttributeClass (u ''TxErrAbortCount'') 53 37 (optional CUint) (Value VNone),
     AttributeClass (u ''TxErrBusyChannelCount'') 53 38 (optional CUint) (Value VNone),
     AttributeClass (u ''RxTotalCount'') 53 39 (optional CUint) (Value VNone),
     AttributeClass (u ''RxUnicastCount'') 53 40 (optional CUint) (Value VNone),
     AttributeClass (u ''RxBroadcastCount'') 53 41 (optional CUint) (Value VNone),
     AttributeClass (u ''RxDataCount'') 53 42 (optional CUint) (Value VNone),
     AttributeClass (u ''RxDataPollCount'') 53 43 (optional CUint) (Value VNone),
     AttributeClass (u ''RxBeaconCount'') 53 44 (optional CUint) (Value VNone)]"

definition ThreadNetworkDiagnostics_attributes_6 :: "attribute_class list" where
  "ThreadNetworkDiagnostics_attributes_6 = [
     AttributeClass (u ''RxBeaconRequestCount'') 53 45 (optional CUint) (Value VNone),
     AttributeClass (u ''RxOtherCount'') 53 46 (optional CUint) (Value VNone),
     AttributeClass (u ''RxAddressFilteredCount'') 53 47 (optional CUint) (Value VNone),
     AttributeClass (u ''RxDestAddrFilteredCount'') 53 48 (optional CUint) (Value VNone),
     AttributeClass (u ''RxDuplicatedCount'') 53 49 (optional CUint) (Value VNone),
     AttributeClass (u ''RxErrNoFrameCount'') 53 50 (optional CUint) (Value VNone),
     AttributeClass (u ''RxErrUnknownNeighborCount'') 53 51 (optional CUint) (Value VNone),
     AttributeClass (u ''RxErrInvalidSrcAddrCount'') 53 52 (optional CUint) (Value VNone),
     AttributeClass (u ''RxErrSecCount'') 53 53 (optional CUint) (Value VNone)]"

definition ThreadNetworkDiagnostics_attributes_7 :: "attribute_class list" where
  "ThreadNetworkDiagnostics_attributes_7 = [
     AttributeClass (u ''RxErrFcsCount'') 53 54 (optional CUint) (Value VNone),
     AttributeClass (u ''RxErrOtherCount'') 53 55 (optional CUint) (Value VNone),
     AttributeClass (u ''ActiveTimestamp'') 53 56 (optional_nullable CUint) (Value VNone),
     AttributeClass (u ''PendingTimestamp'') 53 57 (optional_nullable CUint) (Value VNone),
     AttributeClass (u ''Delay'') 53 58 (optional_nullable CUint) (Value VNone),
     AttributeClass (u ''SecurityPolicy'') 53 59 (nullable (struct_type ThreadNetworkDiagnostics_SecurityPolicy)) (Value VNull),
     AttributeClass (u ''ChannelPage0Mask'') 53 60 (nullable CBytes) (Value VNull),
     AttributeClass (u ''OperationalDatasetComponents'') 53 61 (nullable (struct_type ThreadNetworkDiagnostics_OperationalDatasetComponents)) (Value VNull),
     AttributeClass (u ''ActiveNetworkFaultsList'') 53 62 (CList (enum_type ThreadNetworkDiagnostics_NetworkFaultEnum)) (EmptyList)]"

definition ThreadNetworkDiagnostics_attributes_8 :: "attribute_class list" where
  "ThreadNetworkDiagnostics_attributes_8 = [
     AttributeClass (u ''ExtAddress'') 53 63 (optional_nullable CUint) (Value VNone),
     AttributeClass (u ''Rloc16'') 53 64 (optional_nullable CUint) (Value VNone),
     AttributeClass (u ''GeneratedCommandList'') 53 65528 (CList CUint) (EmptyList),
     AttributeClass (u ''AcceptedCommandList'') 53 65529 (CList CUint) (EmptyList),
     AttributeClass (u ''AttributeList'') 53 65531 (CList CUint) (EmptyList),
     AttributeClass (u ''FeatureMap'') 53 65532 CUint (Value (VInt 0)),
     AttributeClass (u ''ClusterRevision'') 53 65533 CUint (Value (VInt 0))]"

definition ThreadNetworkDiagnostics_events :: "event_class list" where
  "ThreadNetworkDiagnostics_events = [
     EventClass (u ''ConnectionStatus'') 53 0 [(u ''connectionStatus'', 0, enum_type ThreadNetworkDiagnostics_ConnectionStatusEnum, Value (VInt 0))],
     EventClass (u ''NetworkFaultChange'') 53 1 [(u ''current'', 0, CList (enum_type ThreadNetworkDiagnostics_NetworkFaultEnum), EmptyList),
       (u ''previous'', 1, CList (enum_type ThreadNetworkDiagnostics_NetworkFaultEnum), EmptyList)]]"

definition ThreadNetworkDiagnostics_cluster :: "cluster_def" where
  "ThreadNetworkDiagnostics_cluster = ClusterDef (u ''ThreadNetworkDiagnostics'') 53 [
     (u ''channel'', 0, nullable CUint, Value VNull),
     (u ''routingRole'', 1, nullable (enum_type ThreadNetworkDiagnostics_RoutingRoleEnum), Value VNull),
     (u ''networkName'', 2, nullable CStr, Value VNull),
     (u ''panId'', 3, nullable CUint, Value VNull),
     (u ''extendedPanId'', 4, nullable CUint, Value VNull),
     (u ''meshLocalPrefix'', 5, nullable CBytes, Value VNull),
     (u ''overrunCount'', 6, optional CUint, Value VNone),
     (u ''neighborTable'', 7, CList (struct_type ThreadNetworkDiagnostics_NeighborTableStruct), EmptyList),
     (u ''routeTable'', 8, CList (struct_type ThreadNetworkDiagnostics_RouteTableStruct), EmptyList),
     (u ''partitionId'', 9, nullable CUint, Value VNull),
     (u ''weighting'', 10, nullable CUint, Value VNull),
     (u ''dataVersion'', 11, nullable CUint, Value VNull),
     (u ''stableDataVersion'', 12, nullable CUint, Value VNull),
     (u ''leaderRouterId'', 13, nullable CUint, Value VNull),
     (u ''detachedRoleCount'', 14, optional CUint, Value VNone),
     (u ''childRoleCount'', 15, optional CUint, Value VNone),
     (u ''routerRoleCount'', 16, optional CUint, Value VNone),
     (u ''leaderRoleCount'', 17, optional CUint, Value VNone),
     (u ''attachAttemptCount'', 18, optional CUint, Value VNone),
     (u ''partitionIdChangeCount'', 19, optional CUint, Value VNone),
     (u ''betterPartitionAttachAttemptCount'', 20, optional CUint, Value VNone),
     (u ''parentChangeCount'', 21, optional CUint, Value VNone),
     (u ''txTotalCount'', 22, optional CUint, Value VNone),
     (u ''txUnicastCount'', 23, optional CUint, Value VNone),
     (u ''txBroadcastCount'', 24, optional CUint, Value VNone),
     (u ''txAckRequestedCount'', 25, optional CUint, Value VNone),
     (u ''txAckedCount'', 26, optional CUint, Value VNone),
     (u ''txNoAckRequestedCount'', 27, optional CUint, Value VNone),
     (u ''txDataCount'', 28, optional CUint, Value VNone),
     (u ''txDataPollCount'', 29, optional CUint, Value VNone),
     (u ''txBeaconCount'', 30, optional CUint, Value VNone),
     (u ''txBeaconRequestCount'', 31, optional CUint, Value VNone),
     (u ''txOtherCount'', 32, optional CUint, Value VNone),
     (u ''txRetryCount'', 33, optional CUint, Value VNone),
     (u ''txDirectMaxRetryExpiryCount'', 34, optional CUint, Value VNone),
     (u ''txIndirectMaxRetryExpiryCount'', 35, optional CUint, Value VNone),
     (u ''txErrCcaCount'', 36, optional CUint, Value VNone),
     (u ''txErrAbortCount'', 37, optional CUint, Value VNone),
     (u ''txErrBusyChannelCount'', 38, optional CUint, Value VNone),
     (u ''rxTotalCount'', 39, optional CUint, Value VNone),
     (u ''rxUnicastCount'', 40, optional CUint, Value VNone),
     (u ''rxBroadcastCount'', 41, optional CUint, Value VNone),
     (u ''rxDataCount'', 42, optional CUint, Value VNone),
     (u ''rxDataPollCount'', 43, optional CUint, Value VNone),
     (u ''rxBeaconCount'', 44, optional CUint, Value VNone),
     (u ''rxBeaconRequestCount'', 45, optional CUint, Value VNone),
     (u ''rxOtherCount'', 46, optional CUint, Value VNone),
     (u ''rxAddressFilteredCount'', 47, optional CUint, Value VNone),
     (u ''rxDestAddrFilteredCount'', 48, optional CUint, Value VNone),
     (u ''rxDuplicatedCount'', 49, optional CUint, Value VNone),
     (u ''rxErrNoFrameCount'', 50, optional CUint, Value VNone),
     (u ''rxErrUnknownNeighborCount'', 51, optional CUint, Value VNone),
     (u ''rxErrInvalidSrcAddrCount'', 52, optional CUint, Value VNone),
     (u ''rxErrSecCount'', 53, optional CUint, Value VNone),
     (u ''rxErrFcsCount'', 54, optional CUint, Value VNone),
     (u ''rxErrOtherCount'', 55, optional CUint, Value VNone),
     (u ''activeTimestamp'', 56, optional_nullable CUint, Value VNone),
     (u ''pendingTimestamp'', 57, optional_nullable CUint, Value VNone),
     (u ''delay'', 58, optional_nullable CUint, Value VNone),
     (u ''securityPolicy'', 59, nullable (struct_type ThreadNetworkDiagnostics_SecurityPolicy), Value VNull),
     (u ''channelPage0Mask'', 60, nullable CBytes, Value VNull),
     (u ''operationalDatasetComponents'', 61, nullable (struct_type ThreadNetworkDiagnostics_OperationalDatasetComponents), Value VNull),
     (u ''activeNetworkFaultsList'', 62, CList (enum_type ThreadNetworkDiagnostics_NetworkFaultEnum), EmptyList),
     (u ''extAddress'', 63, optional_nullable CUint, Value VNone),
     (u ''rloc16'', 64, optional_nullable CUint, Value VNone),
     (u ''generatedCommandList'', 65528, CList CUint, EmptyList),
     (u ''acceptedCommandList'', 65529, CList CUint, EmptyList),
     (u ''attributeList'', 65531, CList CUint, EmptyList),
     (u ''featureMap'', 65532, CUint, Value (VInt 0)),
     (u ''clusterRevision'', 65533, CUint, Value (VInt 0))]
     ThreadNetworkDiagnostics_commands
     (ThreadNetworkDiagnostics_attributes_1 @ ThreadNetworkDiagnostics_attributes_2 @ ThreadNetworkDiagnostics_attributes_3 @ ThreadNetworkDiagnostics_attributes_4 @ ThreadNetworkDiagnostics_attributes_5 @ ThreadNetworkDiagnostics_attributes_6 @ ThreadNetworkDiagnostics_attributes_7 @ ThreadNetworkDiagnostics_attributes_8)
     ThreadNetworkDiagnostics_events"

section \<open>ThreadNetworkDirectory\<close>

definition ThreadNetworkDirectory_ThreadNetworkStruct :: "dfield list" where
  "ThreadNetworkDirectory_ThreadNetworkStruct = [
     (u ''extendedPanId'', 0, CBytes, Value (VBytes [])),
     (u ''networkName'', 1, CStr, Value (VStr [])),
     (u ''channel'', 2, CUint, Value (VInt 0)),
     (u ''activeTimestamp'', 3, CUint, Value (VInt 0))]"

definition ThreadNetworkDirectory_commands :: "command_class list" where
  "ThreadNetworkDirectory_commands = [
     CommandClass (u ''AddNetwork'') 1107 0 True None True [(u ''operationalDataset'', 0, CBytes, Value (VBytes []))],
     CommandClass (u ''RemoveNetwork'') 1107 1 True None True [(u ''extendedPanId'', 0, CBytes, Value (VBytes []))],
     CommandClass (u ''GetOperationalDataset'') 1107 2 True (Some (u ''OperationalDatasetResponse'')) False [(u ''extendedPanId'', 0, CBytes, Value (VBytes []))],
     CommandClass (u ''OperationalDatasetResponse'') 1107 3 False None False [(u ''operationalDataset'', 0, CBytes, Value (VBytes []))]]"

definition ThreadNetworkDirectory_attributes :: "attribute_class list" where
  "ThreadNetworkDirectory_attributes = [
     AttributeClass (u ''PreferredExtendedPanID'') 1107 0 (nullable CBytes) (Value VNull),
     AttributeClass (u ''ThreadNetworks'') 1107 1 (CList (struct_type ThreadNetworkDirectory_ThreadNetworkStruct)) (EmptyList),
     AttributeClass (u ''ThreadNetworkTableSize'') 1107 2 CUint (Value (VInt 0)),
     AttributeClass (u ''GeneratedCommandList'') 1107 65528 (CList CUint) (EmptyList),
     AttributeClass (u ''AcceptedCommandList'') 1107 65529 (CList CUint) (EmptyList),
     AttributeClass (u ''AttributeList'') 1107 65531 (CList CUint) (EmptyList),
     AttributeClass (u ''FeatureMap'') 1107 65532 CUint (Value (VInt 0)),
     AttributeClass (u ''ClusterRevision'') 1107 65533 CUint (Value (VInt 0))]"

definition ThreadNetworkDirectory_cluster :: "cluster_def" where
  "ThreadNetworkDirectory_cluster = ClusterDef (u ''ThreadNetworkDirectory'') 1107 [
     (u ''preferredExtendedPanID'', 0, nullable CBytes, Value VNull),
     (u ''threadNetworks'', 1, CList (struct_type ThreadNetworkDirectory_ThreadNetworkStruct), EmptyList),
     (u ''threadNetworkTableSize'', 2, CUint, Value (VInt 0)),
     (u ''generatedCommandList'', 65528, CList CUint, EmptyList),
     (u ''acceptedCommandList'', 65529, CList CUint, EmptyList),
     (u ''attributeList'', 65531, CList CUint, EmptyList),
     (u ''featureMap'', 65532, CUint, Value (VInt 0)),
     (u ''clusterRevision'', 65533, CUint, Value (VInt 0))]
     ThreadNetworkDirectory_commands
     ThreadNetworkDirectory_attributes
     []"

section \<open>TimeFormatLocalization\<close>

definition TimeFormatLocalization_HourFormatEnum :: "(pystr \<times> int) list" where
  "TimeFormatLocalization_HourFormatEnum = [
     (u ''k12hr'', 0),
     (u ''k24hr'', 1),
     (u ''kUseActiveLocale'', 255),
     (u ''kUnknownEnumValue'', 256)]"

definition TimeFormatLocalization_CalendarTypeEnum :: "(pystr \<times> int) list" where
  "TimeFormatLocalization_CalendarTypeEnum = [
     (u ''kBuddhist'', 0),
     (u ''kChinese'', 1),
     (u ''kCoptic'', 2),
     (u ''kEthiopian'', 3),
     (u ''kGregorian'', 4),
     (u ''kHebrew'', 5),
     (u ''kIndian'', 6),
     (u ''kIslamic'', 7),
     (u ''kJapanese'', 8),
     (u ''kKorean'', 9),
     (u ''kPersian'', 10),
     (u ''kTaiwanese'', 11),
     (u ''kUseActiveLocale'', 255),
     (u ''kUnknownEnumValue'', 256)]"

definition TimeFormatLocalization_Feature :: "(pystr \<times> int) list" where
  "TimeFormatLocalization_Feature = [
     (u ''kCalendarFormat'', 1)]"

definition TimeFormatLocalization_attributes :: "attribute_class list" where
  "TimeFormatLocalization_attributes = [
     AttributeClass (u ''HourFormat'') 44 0 (enum_type TimeFormatLocalization_HourFormatEnum) (Value (VInt 0)),
     AttributeClass (u ''ActiveCalendarType'') 44 1 (optional (enum_type TimeFormatLocalization_CalendarTypeEnum)) (Value VNone),
     AttributeClass (u ''SupportedCalendarTypes'') 44 2 (optional (CList (enum_type TimeFormatLocalization_CalendarTypeEnum))) (Value VNone),
     AttributeClass (u ''GeneratedCommandList'') 44 65528 (CList CUint) (EmptyList),
     AttributeClass (u ''AcceptedCommandList'') 44 65529 (CList CUint) (EmptyList),
     AttributeClass (u ''AttributeList'') 44 65531 (CList CUint) (EmptyList),
     AttributeClass (u ''FeatureMap'') 44 65532 CUint (Value (VInt 0)),
     AttributeClass (u ''ClusterRevision'') 44 65533 CUint (Value (VInt 0))]"

definition TimeFormatLocalization_cluster :: "cluster_def" where
  "TimeFormatLocalization_cluster = ClusterDef (u ''TimeFormatLocalization'') 44 [
     (u ''hourFormat'', 0, enum_type TimeFormatLocalization_HourFormatEnum, Value (VInt 0)),
     (u ''activeCalendarType'', 1, optional (enum_type TimeFormatLocalization_CalendarTypeEnum), Value VNone),
     (u ''supportedCalendarTypes'', 2, optional (CList (enum_type TimeFormatLocalization_CalendarTypeEnum)), Value VNone),
     (u ''generatedCommandList'', 65528, CList CUint, EmptyList),
     (u ''acceptedCommandList'', 65529, CList CUint, EmptyList),
     (u ''attributeList'', 65531, CList CUint, EmptyList),
     (u ''featureMap'', 65532, CUint, Value (VInt 0)),
     (u ''clusterRevision'', 65533, CUint, Value (VInt 0))]
     []
     TimeFormatLocalization_attributes
     []"

section \<open>TimeSynchronization\<close>

definition TimeSynchronization_GranularityEnum :: "(pystr \<times> int) list" where
  "TimeSynchronization_GranularityEnum = [
     (u ''kNoTimeGranularity'', 0),
     (u ''kMinutesGranularity'', 1),
     (u ''kSecondsGranularity'', 2),
     (u ''kMillisecondsGranularity'', 3),
     (u ''kMicrosecondsGranularity'', 4),
     (u ''kUnknownEnumValue'', 5)]"

definition TimeSynchronization_TimeSourceEnum :: "(pystr \<times> int) list" where
  "TimeSynchronization_TimeSourceEnum = [
     (u ''kNone'', 0),
     (u ''kUnknown'', 1),
     (u ''kAdmin'', 2),
     (u ''kNodeTimeCluster'', 3),
     (u ''kNonMatterSNTP'', 4),
     (u ''kNonMatterNTP'', 5),
     (u ''kMatterSNTP'', 6),
     (u ''kMatterNTP'', 7),
     (u ''kMixedNTP'', 8),
     (u ''kNonMatterSNTPNTS'', 9),
     (u ''kNonMatterNTPNTS'', 10),
     (u ''kMatterSNTPNTS'', 11),
     (u ''kMatterNTPNTS'', 12),
     (u ''kMixedNTPNTS'', 13),
     (u ''kCloudSource'', 14),
     (u ''kPtp'', 15),
     (u ''kGnss'', 16),
     (u ''kUnknownEnumValue'', 17)]"

definition TimeSynchronization_TimeZoneDatabaseEnum :: "(pystr \<times> int) list" where
  "TimeSynchronization_TimeZoneDatabaseEnum = [
     (u ''kFull'', 0),
     (u ''kPartial'', 1),
     (u ''kNone'', 2),
     (u ''kUnknownEnumValue'', 3)]"

definition TimeSynchronization_StatusCode :: "(pystr \<times> int) list" where
  "TimeSynchronization_StatusCode = [
     (u ''kTimeNotAccepted'', 2),
     (u ''kUnknownEnumValue'', 3)]"

definition TimeSynchronization_Feature :: "(pystr \<times> int) list" where
  "TimeSynchronization_Feature = [
     (u ''kTimeZone'', 1),
     (u ''kNTPClient'', 2),
     (u ''kNTPServer'', 4),
     (u ''kTimeSyncClient'', 8)]"

definition TimeSynchronization_TrustedTimeSourceStruct :: "dfield list" where
  "TimeSynchronization_TrustedTimeSourceStruct = [
     (u ''fabricIndex'', 0, CUint, Value (VInt 0)),
     (u ''nodeID'', 1, CUint, Value (VInt 0)),
     (u ''endpoint'', 2, CUint, Value (VInt 0))]"

definition TimeSynchronization_FabricScopedTrustedTimeSourceStruct :: "dfield list" where
  "TimeSynchronization_FabricScopedTrustedTimeSourceStruct = [
     (u ''nodeID'', 0, CUint, Value (VInt 0)),
     (u ''endpoint'', 1, CUint, Value (VInt 0))]"

definition TimeSynchronization_TimeZoneStruct :: "dfield list" where
  "TimeSynchronization_TimeZoneStruct = [
     (u ''offset'', 0, CInt, Value (VInt 0)),
     (u ''validAt'', 1, CUint, Value (VInt 0)),
     (u ''name'', 2, optional CStr, Value VNone)]"

definition TimeSynchronization_DSTOffsetStruct :: "dfield list" where
  "TimeSynchronization_DSTOffsetStruct = [
     (u ''offset'', 0, CInt, Value (VInt 0)),
     (u ''validStarting'', 1, CUint, Value (VInt 0)),
     (u ''validUntil'', 2, nullable CUint, Value VNull)]"

definition TimeSynchronization_commands :: "command_class list" where
  "TimeSynchronization_commands = [
     CommandClass (u ''SetUTCTime'') 56 0 True None False [(u ''UTCTime'', 0, CUint, Value (VInt 0)),
       (u ''granularity'', 1, enum_type TimeSynchronization_GranularityEnum, Value (VInt 0)),
       (u ''timeSource'', 2, optional (enum_type TimeSynchronization_TimeSourceEnum), Value VNone)],
     CommandClass (u ''SetTrustedTimeSource'') 56 1 True None False [(u ''trustedTimeSource'', 0, nullable (struct_type TimeSynchronization_FabricScopedTrustedTimeSourceStruct), Value VNull)],
     CommandClass (u ''SetTimeZone'') 56 2 True (Some (u ''SetTimeZoneResponse'')) False [(u ''timeZone'', 0, CList (struct_type TimeSynchronization_TimeZoneStruct), EmptyList)],
     CommandClass (u ''SetDSTOffset'') 56 4 True None False [(u ''DSTOffset'', 0, CList (struct_type TimeSynchronization_DSTOffsetStruct), EmptyList)],
     CommandClass (u ''SetDefaultNTP'') 56 5 True None False [(u ''defaultNTP'', 0, nullable CStr, Value VNull)],
     CommandClass (u ''SetTimeZoneResponse'') 56 3 False None False [(u ''DSTOffsetRequired'', 0, CBool, Value (VBool False))]]"

definition TimeSynchronization_attributes_1 :: "attribute_class list" where
  "TimeSynchronization_attributes_1 = [
     AttributeClass (u ''UTCTime'') 56 0 (nullable CUint) (Value VNull),
     AttributeClass (u ''Granularity'') 56 1 (enum_type TimeSynchronization_GranularityEnum) (Value (VInt 0)),
     AttributeClass (u ''TimeSource'') 56 2 (optional (enum_type TimeSynchronization_TimeSourceEnum)) (Value VNone),
     AttributeClass (u ''TrustedTimeSource'') 56 3 (optional_nullable (struct_type TimeSynchronization_TrustedTimeSourceStruct)) (Value VNone),
     AttributeClass (u ''DefaultNTP'') 56 4 (optional_nullable CStr) (Value VNone),
     AttributeClass (u ''TimeZone'') 56 5 (optional (CList (struct_type TimeSynchronization_TimeZoneStruct))) (Value VNone),
     AttributeClass (u ''DSTOffset'') 56 6 (optional (CList (struct_type TimeSynchronization_DSTOffsetStruct))) (Value VNone),
     AttributeClass (u ''LocalTime'') 56 7 (optional_nullable CUint) (Value VNone),
     AttributeClass (u ''TimeZoneDatabase'') 56 8 (optional (enum_type TimeSynchronization_TimeZoneDatabaseEnum)) (Value VNone)]"

definition TimeSynchronization_attributes_2 :: "attribute_class list" where
  "TimeSynchronization_attributes_2 = [
     AttributeClass (u ''NTPServerAvailable'') 56 9 (optional CBool) (Value VNone),
     AttributeClass (u ''TimeZoneListMaxSize'') 56 10 (optional CUint) (Value VNone),
     AttributeClass (u ''DSTOffsetListMaxSize'') 56 11 (optional CUint) (Value VNone),
     AttributeClass (u ''SupportsDNSResolve'') 56 12 (optional CBool) (Value VNone),
     AttributeClass (u ''GeneratedCommandList'') 56 65528 (CList CUint) (EmptyList),
     AttributeClass (u ''AcceptedCommandList'') 56 65529 (CList CUint) (EmptyList),
     AttributeClass (u ''AttributeList'') 56 65531 (CList CUint) (EmptyList),
     AttributeClass (u ''FeatureMap'') 56 65532 CUint (Value (VInt 0)),
     AttributeClass (u ''ClusterRevision'') 56 65533 CUint (Value (VInt 0))]"

definition TimeSynchronization_events :: "event_class list" where
  "TimeSynchronization_events = [
     EventClass (u ''DSTTableEmpty'') 56 0 [],
     EventClass (u ''DSTStatus'') 56 1 [(u ''DSTOffsetActive'', 0, CBool, Value (VBool False))],
     EventClass (u ''TimeZoneStatus'') 56 2 [(u ''offset'', 0, CInt, Value (VInt 0)),
       (u ''name'', 1, optional CStr, Value VNone)],
     EventClass (u ''TimeFailure'') 56 3 [],
     EventClass (u ''MissingTrustedTimeSource'') 56 4 []]"

definition TimeSynchronization_cluster :: "cluster_def" where
  "TimeSynchronization_cluster = ClusterDef (u ''TimeSynchronization'') 56 [
     (u ''UTCTime'', 0, nullable CUint, Value VNull),
     (u ''granularity'', 1, enum_type TimeSynchronization_GranularityEnum, Value (VInt 0)),
     (u ''timeSource'', 2, optional (enum_type TimeSynchronization_TimeSourceEnum), Value VNone),
     (u ''trustedTimeSource'', 3, optional_nullable (struct_type TimeSynchronization_TrustedTimeSourceStruct), Value VNone),
     (u ''defaultNTP'', 4, optional_nullable CStr, Value VNone),
     (u ''timeZone'', 5, optional (CList (struct_type TimeSynchronization_TimeZoneStruct)), Value VNone),
     (u ''DSTOffset'', 6, optional (CList (struct_type TimeSynchronization_DSTOffsetStruct)), Value VNone),
     (u ''localTime'', 7, optional_nullable CUint, Value VNone),
     (u ''timeZoneDatabase'', 8, optional (enum_type TimeSynchronization_TimeZoneDatabaseEnum), Value VNone),
     (u ''NTPServerAvailable'', 9, optional CBool, Value VNone),
     (u ''timeZoneListMaxSize'', 10, optional CUint, Value VNone),
     (u ''DSTOffsetListMaxSize'', 11, optional CUint, Value VNone),
     (u ''supportsDNSResolve'', 12, optional CBool, Value VNone),
     (u ''generatedCommandList'', 65528, CList CUint, EmptyList),
     (u ''acceptedCommandList'', 65529, CList CUint, EmptyList),
     (u ''attributeList'', 65531, CList CUint, EmptyList),
     (u ''featureMap'', 65532, CUint, Value (VInt 0)),
     (u ''clusterRevision'', 65533, CUint, Value (VInt 0))]
     TimeSynchronization_commands
     (TimeSynchronization_attributes_1 @ TimeSynchronization_attributes_2)
     TimeSynchronization_events"

section \<open>TlsCertificateManagement\<close>

definition TlsCertificateManagement_TLSCertStruct :: "dfield list" where
  "TlsCertificateManagement_TLSCertStruct = [
     (u ''caid'', 0, CUint, Value (VInt 0)),
     (u ''certificate'', 1, optional CBytes, Value VNone),
     (u ''fabricIndex'', 254, CUint, Value (VInt 0))]"

definition TlsCertificateManagement_TLSClientCertificateDetailStruct :: "dfield list" where
  "TlsCertificateManagement_TLSClientCertificateDetailStruct = [
     (u ''ccdid'', 0, CUint, Value (VInt 0)),
     (u ''clientCertificate'', 1, optional_nullable CBytes, Value VNone),
     (u ''intermediateCertificates'', 2, optional (CList CBytes), Value VNone),
     (u ''fabricIndex'', 254, CUint, Value (VInt 0))]"

definition TlsCertificateManagement_commands_1 :: "command_class list" where
  "TlsCertificateManagement_commands_1 = [
     CommandClass (u ''ProvisionRootCertificate'') 2049 0 True (Some (u ''ProvisionRootCertificateResponse'')) False [(u ''certificate'', 0, CBytes, Value (VBytes [])),
       (u ''caid'', 1, nullable CUint, Value VNull)],
     CommandClass (u ''FindRootCertificate'') 2049 2 True (Some (u ''FindRootCertificateResponse'')) False [(u ''caid'', 0, nullable CUint, Value VNull)],
     CommandClass (u ''LookupRootCertificate'') 2049 4 True (Some (u ''LookupRootCertificateResponse'')) False [(u ''fingerprint'', 0, CBytes, Value (VBytes []))],
     CommandClass (u ''RemoveRootCertificate'') 2049 6 True None False [(u ''caid'', 0, CUint, Value (VInt 0))],
     CommandClass (u ''ClientCSR'') 2049 7 True (Some (u ''ClientCSRResponse'')) False [(u ''nonce'', 0, CBytes, Value (VBytes [])),
       (u ''ccdid'', 1, nullable CUint, Value VNull)],
     CommandClass (u ''ProvisionClientCertificate'') 2049 9 True None False [(u ''ccdid'', 0, CUint, Value (VInt 0)),
       (u ''clientCertificate'', 1, CBytes, Value (VBytes [])),
       (u ''intermediateCertificates'', 2, CList CBytes, EmptyList)],
     CommandClass (u ''FindClientCertificate'') 2049 10 True (Some (u ''FindClientCertificateResponse'')) False [(u ''ccdid'', 0, nullable CUint, Value VNull)],
     CommandClass (u ''LookupClientCertificate'') 2049 12 True (Some (u ''LookupClientCertificateResponse'')) False [(u ''fingerprint'', 0, CBytes, Value (VBytes []))]]"

definition TlsCertificateManagement_commands_2 :: "command_class list" where
  "TlsCertificateManagement_commands_2 = [
     CommandClass (u ''RemoveClientCertificate'') 2049 14 True None False [(u ''ccdid'', 0, CUint, Value (VInt 0))],
     CommandClass (u ''ProvisionRootCertificateResponse'') 2049 1 False None False [(u ''caid'', 0, CUint, Value (VInt 0))],
     CommandClass (u ''FindRootCertificateResponse'') 2049 3 False None False [(u ''certificateDetails'', 0, CList (struct_type TlsCertificateManagement_TLSCertStruct), EmptyList)],
     CommandClass (u ''LookupRootCertificateResponse'') 2049 5 False None False [(u ''caid'', 0, CUint, Value (VInt 0))],
     CommandClass (u ''ClientCSRResponse'') 2049 8 False None False [(u ''ccdid'', 0, CUint, Value (VInt 0)),
       (u ''CSR'', 1, CBytes, Value (VBytes [])),
       (u ''nonceSignature'', 2, CBytes, Value (VBytes []))],
     CommandClass (u ''FindClientCertificateResponse'') 2049 11 False None False [(u ''certificateDetails'', 0, CList (struct_type TlsCertificateManagement_TLSClientCertificateDetailStruct), EmptyList)],
     CommandClass (u ''LookupClientCertificateResponse'') 2049 13 False None False [(u ''ccdid'', 0, CUint, Value (VInt 0))]]"

definition TlsCertificateManagement_attributes :: "attribute_class list" where
  "TlsCertificateManagement_attributes = [
     AttributeClass (u ''MaxRootCertificates'') 2049 0 CUint (Value (VInt 0)),
     AttributeClass (u ''ProvisionedRootCertificates'') 2049 1 (CList (struct_type TlsCertificateManagement_TLSCertStruct)) (EmptyList),
     AttributeClass (u ''MaxClientCertificates'') 2049 2 CUint (Value (VInt 0)),
     AttributeClass (u ''ProvisionedClientCertificates'') 2049 3 (CList (struct_type TlsCertificateManagement_TLSClientCertificateDetailStruct)) (EmptyList),
     AttributeClass (u ''GeneratedCommandList'') 2049 65528 (CList CUint) (EmptyList),
     AttributeClass (u ''AcceptedCommandList'') 2049 65529 (CList CUint) (EmptyList),
     AttributeClass (u ''AttributeList'') 2049 65531 (CList CUint) (EmptyList),
     AttributeClass (u ''FeatureMap'') 2049 65532 CUint (Value (VInt 0)),
     AttributeClass (u ''ClusterRevision'') 2049 65533 CUint (Value (VInt 0))]"

definition TlsCertificateManagement_cluster :: "cluster_def" where
  "TlsCertificateManagement_cluster = ClusterDef (u ''TlsCertificateManagement'') 2049 [
     (u ''maxRootCertificates'', 0, CUint, Value (VInt 0)),
     (u ''provisionedRootCertificates'', 1, CList (struct_type TlsCertificateManagement_TLSCertStruct), EmptyList),
     (u ''maxClientCertificates'', 2, CUint, Value (VInt 0)),
     (u ''provisionedClientCertificates'', 3, CList (struct_type TlsCertificateManagement_TLSClientCertificateDetailStruct), EmptyList),
     (u ''generatedCommandList'', 65528, CList CUint, EmptyList),
     (u ''acceptedCommandList'', 65529, CList CUint, EmptyList),
     (u ''attributeList'', 65531, CList CUint, EmptyList),
     (u ''featureMap'', 65532, CUint, Value (VInt 0)),
     (u ''clusterRevision'', 65533, CUint, Value (VInt 0))]
     (TlsCertificateManagement_commands_1 @ TlsCertificateManagement_commands_2)
     TlsCertificateManagement_attributes
     []"

section \<open>TlsClientManagement\<close>

definition TlsClientManagement_StatusCodeEnum :: "(pystr \<times> int) list" where
  "TlsClientManagement_StatusCodeEnum = [
     (u ''kEndpointAlreadyInstalled'', 2),
     (u ''kRootCertificateNotFound'', 3),
     (u ''kClientCertificateNotFound'', 4),
     (u ''kEndpointInUse'', 5),
     (u ''kInvalidTime'', 6),
     (u ''kUnknownEnumValue'', 7)]"

definition TlsClientManagement_TLSEndpointStruct :: "dfield list" where
  "TlsClientManagement_TLSEndpointStruct = [
     (u ''endpointID'', 0, CUint, Value (VInt 0)),
     (u ''hostname'', 1, CBytes, Value (VBytes [])),
     (u ''port'', 2, CUint, Value (VInt 0)),
     (u ''caid'', 3, CUint, Value (VInt 0)),
     (u ''ccdid'', 4, nullable CUint, Value VNull),
     (u ''referenceCount'', 5, CUint, Value (VInt 0)),
     (u ''fabricIndex'', 254, CUint, Value (VInt 0))]"

definition TlsClientManagement_commands :: "command_class list" where
  "TlsClientManagement_commands = [
     CommandClass (u ''ProvisionEndpoint'') 2050 0 True (Some (u ''ProvisionEndpointResponse'')) False [(u ''hostname'', 0, CBytes, Value (VBytes [])),
       (u ''port'', 1, CUint, Value (VInt 0)),
       (u ''caid'', 2, CUint, Value (VInt 0)),
       (u ''ccdid'', 3, nullable CUint, Value VNull),
       (u ''endpointID'', 4, nullable CUint, Value VNull)],
     CommandClass (u ''FindEndpoint'') 2050 2 True (Some (u ''FindEndpointResponse'')) False [(u ''endpointID'', 0, CUint, Value (VInt 0))],
     CommandClass (u ''RemoveEndpoint'') 2050 4 True None False [(u ''endpointID'', 0, CUint, Value (VInt 0))],
     CommandClass (u ''ProvisionEndpointResponse'') 2050 1 False None False [(u ''endpointID'', 0, CUint, Value (VInt 0))],
     CommandClass (u ''FindEndpointResponse'') 2050 3 False None False [(u ''endpoint'', 0, struct_type TlsClientManagement_TLSEndpointStruct, Instance TlsClientManagement_TLSEndpointStruct)]]"

definition TlsClientManagement_attributes :: "attribute_class list" where
  "TlsClientManagement_attributes = [
     AttributeClass (u ''MaxProvisioned'') 2050 0 CUint (Value (VInt 0)),
     AttributeClass (u ''ProvisionedEndpoints'') 2050 1 (CList (struct_type TlsClientManagement_TLSEndpointStruct)) (EmptyList),
     AttributeClass (u ''GeneratedCommandList'') 2050 65528 (CList CUint) (EmptyList),
     AttributeClass (u ''AcceptedCommandList'') 2050 65529 (CList CUint) (EmptyList),
     AttributeClass (u ''AttributeList'') 2050 65531 (CList CUint) (EmptyList),
     AttributeClass (u ''FeatureMap'') 2050 65532 CUint (Value (VInt 0)),
     AttributeClass (u ''ClusterRevision'') 2050 65533 CUint (Value (VInt 0))]"

definition TlsClientManagement_cluster :: "cluster_def" where
  "TlsClientManagement_cluster = ClusterDef (u ''TlsClientManagement'') 2050 [
     (u ''maxProvisioned'', 0, CUint, Value (VInt 0)),
     (u ''provisionedEndpoints'', 1, CList (struct_type TlsClientManagement_TLSEndpointStruct), EmptyList),
     (u ''generatedCommandList'', 65528, CList CUint, EmptyList),
     (u ''acceptedCommandList'', 65529, CList CUint, EmptyList),
     (u ''attributeList'', 65531, CList CUint, EmptyList),
     (u ''featureMap'', 65532, CUint, Value (VInt 0)),
     (u ''clusterRevision'', 65533, CUint, Value (VInt 0))]
     TlsClientManagement_commands
     TlsClientManagement_attributes
     []"

section \<open>TotalVolatileOrganicCompoundsConcentrationMeasurement\<close>

definition TotalVolatileOrganicCompoundsConcentrationMeasurement_MeasurementUnitEnum :: "(pystr \<times> int) list" where
  "TotalVolatileOrganicCompoundsConcentrationMeasurement_MeasurementUnitEnum = [
     (u ''kPpm'', 0),
     (u ''kPpb'', 1),
     (u ''kPpt'', 2),
     (u ''kMgm3'', 3),
     (u ''kUgm3'', 4),
     (u ''kNgm3'', 5),
     (u ''kPm3'', 6),
     (u ''kBqm3'', 7),
     (u ''kUnknownEnumValue'', 8)]"

definition TotalVolatileOrganicCompoundsConcentrationMeasurement_MeasurementMediumEnum :: "(pystr \<times> int) list" where
  "TotalVolatileOrganicCompoundsConcentrationMeasurement_MeasurementMediumEnum = [
     (u ''kAir'', 0),
     (u ''kWater'', 1),
     (u ''kSoil'', 2),
     (u ''kUnknownEnumValue'', 3)]"

definition TotalVolatileOrganicCompoundsConcentrationMeasurement_LevelValueEnum :: "(pystr \<times> int) list" where
  "TotalVolatileOrganicCompoundsConcentrationMeasurement_LevelValueEnum = [
     (u ''kUnknown'', 0),
     (u ''kLow'', 1),
     (u ''kMedium'', 2),
     (u ''kHigh'', 3),
     (u ''kCritical'', 4),
     (u ''kUnknownEnumValue'', 5)]"

definition TotalVolatileOrganicCompoundsConcentrationMeasurement_Feature :: "(pystr \<times> int) list" where
  "TotalVolatileOrganicCompoundsConcentrationMeasurement_Feature = [
     (u ''kNumericMeasurement'', 1),
     (u ''kLevelIndication'', 2),
     (u ''kMediumLevel'', 4),
     (u ''kCriticalLevel'', 8),
     (u ''kPeakMeasurement'', 16),
     (u ''kAverageMeasurement'', 32)]"

definition TotalVolatileOrganicCompoundsConcentrationMeasurement_attributes_1 :: "attribute_class list" where
  "TotalVolatileOrganicCompoundsConcentrationMeasurement_attributes_1 = [
     AttributeClass (u ''MeasuredValue'') 1070 0 (optional_nullable CFloat32) (Value VNone),
     AttributeClass (u ''MinMeasuredValue'') 1070 1 (optional_nullable CFloat32) (Value VNone),
     AttributeClass (u ''MaxMeasuredValue'') 1070 2 (optional_nullable CFloat32) (Value VNone),
     AttributeClass (u ''PeakMeasuredValue'') 1070 3 (optional_nullable CFloat32) (Value VNone),
     AttributeClass (u ''PeakMeasuredValueWindow'') 1070 4 (optional CUint) (Value VNone),
     AttributeClass (u ''AverageMeasuredValue'') 1070 5 (optional_nullable CFloat32) (Value VNone),
     AttributeClass (u ''AverageMeasuredValueWindow'') 1070 6 (optional CUint) (Value VNone),
     AttributeClass (u ''Uncertainty'') 1070 7 (optional CFloat32) (Value VNone),
     AttributeClass (u ''MeasurementUnit'') 1070 8 (optional (enum_type TotalVolatileOrganicCompoundsConcentrationMeasurement_MeasurementUnitEnum)) (Value VNone)]"

definition TotalVolatileOrganicCompoundsConcentrationMeasurement_attributes_2 :: "attribute_class list" where
  "TotalVolatileOrganicCompoundsConcentrationMeasurement_attributes_2 = [
     AttributeClass (u ''MeasurementMedium'') 1070 9 (enum_type TotalVolatileOrganicCompoundsConcentrationMeasurement_MeasurementMediumEnum) (Value (VInt 0)),
     AttributeClass (u ''LevelValue'') 1070 10 (optional (enum_type TotalVolatileOrganicCompoundsConcentrationMeasurement_LevelValueEnum)) (Value VNone),
     AttributeClass (u ''GeneratedCommandList'') 1070 65528 (CList CUint) (EmptyList),
     AttributeClass (u ''AcceptedCommandList'') 1070 65529 (CList CUint) (EmptyList),
     AttributeClass (u ''AttributeList'') 1070 65531 (CList CUint) (EmptyList),
     AttributeClass (u ''FeatureMap'') 1070 65532 CUint (Value (VInt 0)),
     AttributeClass (u ''ClusterRevision'') 1070 65533 CUint (Value (VInt 0))]"

definition TotalVolatileOrganicCompoundsConcentrationMeasurement_cluster :: "cluster_def" where
  "TotalVolatileOrganicCompoundsConcentrationMeasurement_cluster = ClusterDef (u ''TotalVolatileOrganicCompoundsConcentrationMeasurement'') 1070 [
     (u ''measuredValue'', 0, optional_nullable CFloat32, Value VNone),
     (u ''minMeasuredValue'', 1, optional_nullable CFloat32, Value VNone),
     (u ''maxMeasuredValue'', 2, optional_nullable CFloat32, Value VNone),
     (u ''peakMeasuredValue'', 3, optional_nullable CFloat32, Value VNone),
     (u ''peakMeasuredValueWindow'', 4, optional CUint, Value VNone),
     (u ''averageMeasuredValue'', 5, optional_nullable CFloat32, Value VNone),
     (u ''averageMeasuredValueWindow'', 6, optional CUint, Value VNone),
     (u ''uncertainty'', 7, optional CFloat32, Value VNone),
     (u ''measurementUnit'', 8, optional (enum_type TotalVolatileOrganicCompoundsConcentrationMeasurement_MeasurementUnitEnum), Value VNone),
     (u ''measurementMedium'', 9, enum_type TotalVolatileOrganicCompoundsConcentrationMeasurement_MeasurementMediumEnum, Value (VInt 0)),
     (u ''levelValue'', 10, optional (enum_type TotalVolatileOrganicCompoundsConcentrationMeasurement_LevelValueEnum), Value VNone),
     (u ''generatedCommandList'', 65528, CList CUint, EmptyList),
     (u ''acceptedCommandList'', 65529, CList CUint, EmptyList),
     (u ''attributeList'', 65531, CList CUint, EmptyList),
     (u ''featureMap'', 65532, CUint, Value (VInt 0)),
     (u ''clusterRevision'', 65533, CUint, Value (VInt 0))]
     []
     (TotalVolatileOrganicCompoundsConcentrationMeasurement_attributes_1 @ TotalVolatileOrganicCompoundsConcentrationMeasurement_attributes_2)
     []"

section \<open>UnitLocalization\<close>

definition UnitLocalization_TempUnitEnum :: "(pystr \<times> int) list" where
  "UnitLocalization_TempUnitEnum = [
     (u ''kFahrenheit'', 0),
     (u ''kCelsius'', 1),
     (u ''kKelvin'', 2),
     (u ''kUnknownEnumValue'', 3)]"

definition UnitLocalization_Feature :: "(pystr \<times> int) list" where
  "UnitLocalization_Feature = [
     (u ''kTemperatureUnit'', 1)]"

definition UnitLocalization_attributes :: "attribute_class list" where
  "UnitLocalization_attributes = [
     AttributeClass (u ''TemperatureUnit'') 45 0 (optional (enum_type UnitLocalization_TempUnitEnum)) (Value VNone),
     AttributeClass (u ''SupportedTemperatureUnits'') 45 1 (optional (CList (enum_type UnitLocalization_TempUnitEnum))) (Value VNone),
     AttributeClass (u ''GeneratedCommandList'') 45 65528 (CList CUint) (EmptyList),
     AttributeClass (u ''AcceptedCommandList'') 45 65529 (CList CUint) (EmptyList),
     AttributeClass (u ''AttributeList'') 45 65531 (CList CUint) (EmptyList),
     AttributeClass (u ''FeatureMap'') 45 65532 CUint (Value (VInt 0)),
     AttributeClass (u ''ClusterRevision'') 45 65533 CUint (Value (VInt 0))]"

definition UnitLocalization_cluster :: "cluster_def" where
  "UnitLocalization_cluster = ClusterDef (u ''UnitLocalization'') 45 [
     (u ''temperatureUnit'', 0, optional (enum_type UnitLocalization_TempUnitEnum), Value VNone),
     (u ''supportedTemperatureUnits'', 1, optional (CList (enum_type UnitLocalization_TempUnitEnum)), Value VNone),
     (u ''generatedCommandList'', 65528, CList CUint, EmptyList),
     (u ''acceptedCommandList'', 65529, CList CUint, EmptyList),
     (u ''attributeList'', 65531, CList CUint, EmptyList),
     (u ''featureMap'', 65532, CUint, Value (VInt 0)),
     (u ''clusterRevision'', 65533, CUint, Value (VInt 0))]
     []
     UnitLocalization_attributes
     []"

section \<open>UserLabel\<close>

definition UserLabel_LabelStruct :: "dfield list" where
  "UserLabel_LabelStruct = [
     (u ''label'', 0, CStr, Value (VStr [])),
     (u ''value'', 1, CStr, Value (VStr []))]"

definition UserLabel_attributes :: "attribute_class list" where
  "UserLabel_attributes = [
     AttributeClass (u ''LabelList'') 65 0 (CList (struct_type UserLabel_LabelStruct)) (EmptyList),
     AttributeClass (u ''GeneratedCommandList'') 65 65528 (CList CUint) (EmptyList),
     AttributeClass (u ''AcceptedCommandList'') 65 65529 (CList CUint) (EmptyList),
     AttributeClass (u ''AttributeList'') 65 65531 (CList CUint) (EmptyList),
     AttributeClass (u ''FeatureMap'') 65 65532 CUint (Value (VInt 0)),
     AttributeClass (u ''ClusterRevision'') 65 65533 CUint (Value (VInt 0))]"

definition UserLabel_cluster :: "cluster_def" where
  "UserLabel_cluster = ClusterDef (u ''UserLabel'') 65 [
     (u ''labelList'', 0, CList (struct_type UserLabel_LabelStruct), EmptyList),
     (u ''generatedCommandList'', 65528, CList CUint, EmptyList),
     (u ''acceptedCommandList'', 65529, CList CUint, EmptyList),
     (u ''attributeList'', 65531, CList CUint, EmptyList),
     (u ''featureMap'', 65532, CUint, Value (VInt 0)),
     (u ''clusterRevision'', 65533, CUint, Value (VInt 0))]
     []
     UserLabel_attributes
     []"

section \<open>ValveConfigurationAndControl\<close>

definition ValveConfigurationAndControl_ValveStateEnum :: "(pystr \<times> int) list" where
  "ValveConfigurationAndControl_ValveStateEnum = [
     (u ''kClosed'', 0),
     (u ''kOpen'', 1),
     (u ''kTransitioning'', 2),
     (u ''kUnknownEnumValue'', 3)]"

definition ValveConfigurationAndControl_StatusCodeEnum :: "(pystr \<times> int) list" where
  "ValveConfigurationAndControl_StatusCodeEnum = [
     (u ''kFailureDueToFault'', 2),
     (u ''kUnknownEnumValue'', 3)]"

definition ValveConfigurationAndControl_Feature :: "(pystr \<times> int) list" where
  "ValveConfigurationAndControl_Feature = [
     (u ''kTimeSync'', 1),
     (u ''kLevel'', 2)]"

definition ValveConfigurationAndControl_ValveFaultBitmap :: "(pystr \<times> int) list" where
  "ValveConfigurationAndControl_ValveFaultBitmap = [
     (u ''kGeneralFault'', 1),
     (u ''kBlocked'', 2),
     (u ''kLeaking'', 4),
     (u ''kNotConnected'', 8),
     (u ''kShortCircuit'', 16),
     (u ''kCurrentExceeded'', 32)]"

definition ValveConfigurationAndControl_commands :: "command_class list" where
  "ValveConfigurationAndControl_commands = [
     CommandClass (u ''Open'') 129 0 True None False [(u ''openDuration'', 0, optional_nullable CUint, Value VNone),
       (u ''targetLevel'', 1, optional CUint, Value VNone)],
     CommandClass (u ''Close'') 129 1 True None False []]"

definition ValveConfigurationAndControl_attributes_1 :: "attribute_class list" where
  "ValveConfigurationAndControl_attributes_1 = [
     AttributeClass (u ''OpenDuration'') 129 0 (nullable CUint) (Value VNull),
     AttributeClass (u ''DefaultOpenDuration'') 129 1 (nullable CUint) (Value VNull),
     AttributeClass (u ''AutoCloseTime'') 129 2 (optional_nullable CUint) (Value VNone),
     AttributeClass (u ''RemainingDuration'') 129 3 (nullable CUint) (Value VNull),
     AttributeClass (u ''CurrentState'') 129 4 (nullable (enum_type ValveConfigurationAndControl_ValveStateEnum)) (Value VNull),
     AttributeClass (u ''TargetState'') 129 5 (nullable (enum_type ValveConfigurationAndControl_ValveStateEnum)) (Value VNull),
     AttributeClass (u ''CurrentLevel'') 129 6 (optional_nullable CUint) (Value VNone),
     AttributeClass (u ''TargetLevel'') 129 7 (optional_nullable CUint) (Value VNone),
     AttributeClass (u ''DefaultOpenLevel'') 129 8 (optional CUint) (Value VNone)]"

definition ValveConfigurationAndControl_attributes_2 :: "attribute_class list" where
  "ValveConfigurationAndControl_attributes_2 = [
     AttributeClass (u ''ValveFault'') 129 9 (optional (flag_type ValveConfigurationAndControl_ValveFaultBitmap)) (Value VNone),
     AttributeClass (u ''LevelStep'') 129 10 (optional CUint) (Value VNone),
     AttributeClass (u ''GeneratedCommandList'') 129 65528 (CList CUint) (EmptyList),
     AttributeClass (u ''AcceptedCommandList'') 129 65529 (CList CUint) (EmptyList),
     AttributeClass (u ''AttributeList'') 129 65531 (CList CUint) (EmptyList),
     AttributeClass (u ''FeatureMap'') 129 65532 CUint (Value (VInt 0)),
     AttributeClass (u ''ClusterRevision'') 129 65533 CUint (Value (VInt 0))]"

definition ValveConfigurationAndControl_events :: "event_class list" where
  "ValveConfigurationAndControl_events = [
     EventClass (u ''ValveStateChanged'') 129 0 [(u ''valveState'', 0, enum_type ValveConfigurationAndControl_ValveStateEnum, Value (VInt 0)),
       (u ''valveLevel'', 1, optional CUint, Value VNone)],
     EventClass (u ''ValveFault'') 129 1 [(u ''valveFault'', 0, flag_type ValveConfigurationAndControl_ValveFaultBitmap, Value (VInt 0))]]"

definition ValveConfigurationAndControl_cluster :: "cluster_def" where
  "ValveConfigurationAndControl_cluster = ClusterDef (u ''ValveConfigurationAndControl'') 129 [
     (u ''openDuration'', 0, nullable CUint, Value VNull),
     (u ''defaultOpenDuration'', 1, nullable CUint, Value VNull),
     (u ''autoCloseTime'', 2, optional_nullable CUint, Value VNone),
     (u ''remainingDuration'', 3, nullable CUint, Value VNull),
     (u ''currentState'', 4, nullable (enum_type ValveConfigurationAndControl_ValveStateEnum), Value VNull),
     (u ''targetState'', 5, nullable (enum_type ValveConfigurationAndControl_ValveStateEnum), Value VNull),
     (u ''currentLevel'', 6, optional_nullable CUint, Value VNone),
     (u ''targetLevel'', 7, optional_nullable CUint, Value VNone),
     (u ''defaultOpenLevel'', 8, optional CUint, Value VNone),
     (u ''valveFault'', 9, optional (flag_type ValveConfigurationAndControl_ValveFaultBitmap), Value VNone),
     (u ''levelStep'', 10, optional CUint, Value VNone),
     (u ''generatedCommandList'', 65528, CList CUint, EmptyList),
     (u ''acceptedCommandList'', 65529, CList CUint, EmptyList),
     (u ''attributeList'', 65531, CList CUint, EmptyList),
     (u ''featureMap'', 65532, CUint, Value (VInt 0)),
     (u ''clusterRevision'', 65533, CUint, Value (VInt 0))]
     ValveConfigurationAndControl_commands
     (ValveConfigurationAndControl_attributes_1 @ ValveConfigurationAndControl_attributes_2)
     ValveConfigurationAndControl_events"

section \<open>WagoCluster\<close>

definition WagoCluster_attributes :: "attribute_class list" where
  "WagoCluster_attributes = [
     AttributeClass (u ''DirectlyConnected'') 355793920 0 (optional CBool) (Value VNone),
     AttributeClass (u ''SwitchType'') 355793920 1 (optional CUint) (Value VNone),
     AttributeClass (u ''GeneratedCommandList'') 355793920 65528 (CList CUint) (EmptyList),
     AttributeClass (u ''AcceptedCommandList'') 355793920 65529 (CList CUint) (EmptyList),
     AttributeClass (u ''AttributeList'') 355793920 65531 (CList CUint) (EmptyList),
     AttributeClass (u ''FeatureMap'') 355793920 65532 CUint (Value (VInt 0)),
     AttributeClass (u ''ClusterRevision'') 355793920 65533 CUint (Value (VInt 0))]"

definition WagoCluster_cluster :: "cluster_def" where
  "WagoCluster_cluster = ClusterDef (u ''WagoCluster'') 355793920 [
     (u ''directlyConnected'', 0, optional CBool, Value VNone),
     (u ''switchType'', 1, optional CUint, Value VNone),
     (u ''generatedCommandList'', 65528, CList CUint, EmptyList),
     (u ''acceptedCommandList'', 65529, CList CUint, EmptyList),
     (u ''attributeList'', 65531, CList CUint, EmptyList),
     (u ''featureMap'', 65532, CUint, Value (VInt 0)),
     (u ''clusterRevision'', 65533, CUint, Value (VInt 0))]
     []
     WagoCluster_attributes
     []"

section \<open>WakeOnLan\<close>

definition WakeOnLan_attributes :: "attribute_class list" where
  "WakeOnLan_attributes = [
     AttributeClass (u ''MACAddress'') 1283 0 (optional CStr) (Value VNone),
     AttributeClass (u ''LinkLocalAddress'') 1283 1 (optional CBytes) (Value VNone),
     AttributeClass (u ''GeneratedCommandList'') 1283 65528 (CList CUint) (EmptyList),
     AttributeClass (u ''AcceptedCommandList'') 1283 65529 (CList CUint) (EmptyList),
     AttributeClass (u ''AttributeList'') 1283 65531 (CList CUint) (EmptyList),
     AttributeClass (u ''FeatureMap'') 1283 65532 CUint (Value (VInt 0)),
     AttributeClass (u ''ClusterRevision'') 1283 65533 CUint (Value (VInt 0))]"

definition WakeOnLan_cluster :: "cluster_def" where
  "WakeOnLan_cluster = ClusterDef (u ''WakeOnLan'') 1283 [
     (u ''MACAddress'', 0, optional CStr, Value VNone),
     (u ''linkLocalAddress'', 1, optional CBytes, Value VNone),
     (u ''generatedCommandList'', 65528, CList CUint, EmptyList),
     (u ''acceptedCommandList'', 65529, CList CUint, EmptyList),
     (u ''attributeList'', 65531, CList CUint, EmptyList),
     (u ''featureMap'', 65532, CUint, Value (VInt 0)),
     (u ''clusterRevision'', 65533, CUint, Value (VInt 0))]
     []
     WakeOnLan_attributes
     []"

section \<open>WaterHeaterManagement\<close>

definition WaterHeaterManagement_BoostStateEnum :: "(pystr \<times> int) list" where
  "WaterHeaterManagement_BoostStateEnum = [
     (u ''kInactive'', 0),
     (u ''kActive'', 1),
     (u ''kUnknownEnumValue'', 2)]"

definition WaterHeaterManagement_Feature :: "(pystr \<times> int) list" where
  "WaterHeaterManagement_Feature = [
     (u ''kEnergyManagement'', 1),
     (u ''kTankPercent'', 2)]"

definition WaterHeaterManagement_WaterHeaterHeatSourceBitmap :: "(pystr \<times> int) list" where
  "WaterHeaterManagement_WaterHeaterHeatSourceBitmap = [
     (u ''kImmersionElement1'', 1),
     (u ''kImmersionElement2'', 2),
     (u ''kHeatPump'', 4),
     (u ''kBoiler'', 8),
     (u ''kOther'', 16)]"

definition WaterHeaterManagement_WaterHeaterBoostInfoStruct :: "dfield list" where
  "WaterHeaterManagement_WaterHeaterBoostInfoStruct = [
     (u ''duration'', 0, CUint, Value (VInt 0)),
     (u ''oneShot'', 1, optional CBool, Value VNone),
     (u ''emergencyBoost'', 2, optional CBool, Value VNone),
     (u ''temporarySetpoint'', 3, optional CInt, Value VNone),
     (u ''targetPercentage'', 4, optional CUint, Value VNone),
     (u ''targetReheat'', 5, optional CUint, Value VNone)]"

definition WaterHeaterManagement_commands :: "command_class list" where
  "WaterHeaterManagement_commands = [
     CommandClass (u ''Boost'') 148 0 True None False [(u ''boostInfo'', 0, struct_type WaterHeaterManagement_WaterHeaterBoostInfoStruct, Instance WaterHeaterManagement_WaterHeaterBoostInfoStruct)],
     CommandClass (u ''CancelBoost'') 148 1 True None False []]"

definition WaterHeaterManagement_attributes_1 :: "attribute_class list" where
  "WaterHeaterManagement_attributes_1 = [
     AttributeClass (u ''HeaterTypes'') 148 0 (flag_type WaterHeaterManagement_WaterHeaterHeatSourceBitmap) (Value (VInt 0)),
     AttributeClass (u ''HeatDemand'') 148 1 (flag_type WaterHeaterManagement_WaterHeaterHeatSourceBitmap) (Value (VInt 0)),
     AttributeClass (u ''TankVolume'') 148 2 (optional CUint) (Value VNone),
     AttributeClass (u ''EstimatedHeatRequired'') 148 3 (optional CInt) (Value VNone),
     AttributeClass (u ''TankPercentage'') 148 4 (optional CUint) (Value VNone),
     AttributeClass (u ''BoostState'') 148 5 (enum_type WaterHeaterManagement_BoostStateEnum) (Value (VInt 0)),
     AttributeClass (u ''GeneratedCommandList'') 148 65528 (CList CUint) (EmptyList),
     AttributeClass (u ''AcceptedCommandList'') 148 65529 (CList CUint) (EmptyList),
     AttributeClass (u ''AttributeList'') 148 65531 (CList CUint) (EmptyList)]"

definition WaterHeaterManagement_attributes_2 :: "attribute_class list" where
  "WaterHeaterManagement_attributes_2 = [
     AttributeClass (u ''FeatureMap'') 148 65532 CUint (Value (VInt 0)),
     AttributeClass (u ''ClusterRevision'') 148 65533 CUint (Value (VInt 0))]"

definition WaterHeaterManagement_events :: "event_class list" where
  "WaterHeaterManagement_events = [
     EventClass (u ''BoostStarted'') 148 0 [(u ''boostInfo'', 0, struct_type WaterHeaterManagement_WaterHeaterBoostInfoStruct, Instance WaterHeaterManagement_WaterHeaterBoostInfoStruct)],
     EventClass (u ''BoostEnded'') 148 1 []]"

definition WaterHeaterManagement_cluster :: "cluster_def" where
  "WaterHeaterManagement_cluster = ClusterDef (u ''WaterHeaterManagement'') 148 [
     (u ''heaterTypes'', 0, flag_type WaterHeaterManagement_WaterHeaterHeatSourceBitmap, Value (VInt 0)),
     (u ''heatDemand'', 1, flag_type WaterHeaterManagement_WaterHeaterHeatSourceBitmap, Value (VInt 0)),
     (u ''tankVolume'', 2, optional CUint, Value VNone),
     (u ''estimatedHeatRequired'', 3, optional CInt, Value VNone),
     (u ''tankPercentage'', 4, optional CUint, Value VNone),
     (u ''boostState'', 5, enum_type WaterHeaterManagement_BoostStateEnum, Value (VInt 0)),
     (u ''generatedCommandList'', 65528, CList CUint, EmptyList),
     (u ''acceptedCommandList'', 65529, CList CUint, EmptyList),
     (u ''attributeList'', 65531, CList CUint, EmptyList),
     (u ''featureMap'', 65532, CUint, Value (VInt 0)),
     (u ''clusterRevision'', 65533, CUint, Value (VInt 0))]
     WaterHeaterManagement_commands
     (WaterHeaterManagement_attributes_1 @ WaterHeaterManagement_attributes_2)
     WaterHeaterManagement_events"

section \<open>WaterHeaterMode\<close>

definition WaterHeaterMode_ModeTag :: "(pystr \<times> int) list" where
  "WaterHeaterMode_ModeTag = [
     (u ''kAuto'', 0),
     (u ''kQuick'', 1),
     (u ''kQuiet'', 2),
     (u ''kLowNoise'', 3),
     (u ''kLowEnergy'', 4),
     (u ''kVacation'', 5),
     (u ''kMin'', 6),
     (u ''kMax'', 7),
     (u ''kNight'', 8),
     (u ''kDay'', 9),
     (u ''kOff'', 16384),
     (u ''kManual'', 16385),
     (u ''kTimed'', 16386),
     (u ''kUnknownEnumValue'', 16387)]"

definition WaterHeaterMode_ModeChangeStatus :: "(pystr \<times> int) list" where
  "WaterHeaterMode_ModeChangeStatus = [
     (u ''kSuccess'', 0),
     (u ''kUnsupportedMode'', 1),
     (u ''kGenericFailure'', 2),
     (u ''kInvalidInMode'', 3),
     (u ''kUnknownEnumValue'', 4)]"

definition WaterHeaterMode_Feature :: "(pystr \<times> int) list" where
  "WaterHeaterMode_Feature = [
     (u ''kOnOff'', 1)]"

definition WaterHeaterMode_ModeTagStruct :: "dfield list" where
  "WaterHeaterMode_ModeTagStruct = [
     (u ''mfgCode'', 0, optional CUint, Value VNone),
     (u ''value'', 1, enum_type WaterHeaterMode_ModeTag, Value (VInt 0))]"

definition WaterHeaterMode_ModeOptionStruct :: "dfield list" where
  "WaterHeaterMode_ModeOptionStruct = [
     (u ''label'', 0, CStr, Value (VStr [])),
     (u ''mode'', 1, CUint, Value (VInt 0)),
     (u ''modeTags'', 2, CList (struct_type WaterHeaterMode_ModeTagStruct), EmptyList)]"

definition WaterHeaterMode_commands :: "command_class list" where
  "WaterHeaterMode_commands = [
     CommandClass (u ''ChangeToMode'') 158 0 True (Some (u ''ChangeToModeResponse'')) False [(u ''newMode'', 0, CUint, Value (VInt 0))],
     CommandClass (u ''ChangeToModeResponse'') 158 1 False None False [(u ''status'', 0, enum_type WaterHeaterMode_ModeChangeStatus, Value (VInt 0)),
       (u ''statusText'', 1, CStr, Value (VStr []))]]"

definition WaterHeaterMode_attributes :: "attribute_class list" where
  "WaterHeaterMode_attributes = [
     AttributeClass (u ''SupportedModes'') 158 0 (CList (struct_type WaterHeaterMode_ModeOptionStruct)) (EmptyList),
     AttributeClass (u ''CurrentMode'') 158 1 CUint (Value (VInt 0)),
     AttributeClass (u ''StartUpMode'') 158 2 (optional_nullable CUint) (Value VNone),
     AttributeClass (u ''OnMode'') 158 3 (optional_nullable CUint) (Value VNone),
     AttributeClass (u ''GeneratedCommandList'') 158 65528 (CList CUint) (EmptyList),
     AttributeClass (u ''AcceptedCommandList'') 158 65529 (CList CUint) (EmptyList),
     AttributeClass (u ''AttributeList'') 158 65531 (CList CUint) (EmptyList),
     AttributeClass (u ''FeatureMap'') 158 65532 CUint (Value (VInt 0)),
     AttributeClass (u ''ClusterRevision'') 158 65533 CUint (Value (VInt 0))]"

definition WaterHeaterMode_cluster :: "cluster_def" where
  "WaterHeaterMode_cluster = ClusterDef (u ''WaterHeaterMode'') 158 [
     (u ''supportedModes'', 0, CList (struct_type WaterHeaterMode_ModeOptionStruct), EmptyList),
     (u ''currentMode'', 1, CUint, Value (VInt 0)),
     (u ''startUpMode'', 2, optional_nullable CUint, Value VNone),
     (u ''onMode'', 3, optional_nullable CUint, Value VNone),
     (u ''generatedCommandList'', 65528, CList CUint, EmptyList),
     (u ''acceptedCommandList'', 65529, CList CUint, EmptyList),
     (u ''attributeList'', 65531, CList CUint, EmptyList),
     (u ''featureMap'', 65532, CUint, Value (VInt 0)),
     (u ''clusterRevision'', 65533, CUint, Value (VInt 0))]
     WaterHeaterMode_commands
     WaterHeaterMode_attributes
     []"

section \<open>Consistency\<close>

lemma ThreadNetworkDiagnostics_members_ok [simp]: "members_ok ThreadNetworkDiagnostics_NeighborTableStruct"
    "members_ok ThreadNetworkDiagnostics_RouteTableStruct"
    "members_ok ThreadNetworkDiagnostics_SecurityPolicy"
    "members_ok ThreadNetworkDiagnostics_OperationalDatasetComponents"
  by (simp_all add: class_simps ThreadNetworkDiagnostics_NeighborTableStruct_def
    ThreadNetworkDiagnostics_RouteTableStruct_def
    ThreadNetworkDiagnostics_SecurityPolicy_def
    ThreadNetworkDiagnostics_OperationalDatasetComponents_def del: u_simps)

lemma ThreadNetworkDiagnostics_cluster_ok: "cluster_ok ThreadNetworkDiagnostics_cluster" "cd_id ThreadNetworkDiagnostics_cluster = 53"
  by (simp_all add: class_simps ThreadNetworkDiagnostics_commands_def
    ThreadNetworkDiagnostics_attributes_1_def
    ThreadNetworkDiagnostics_attributes_2_def
    ThreadNetworkDiagnostics_attributes_3_def
    ThreadNetworkDiagnostics_attributes_4_def
    ThreadNetworkDiagnostics_attributes_5_def
    ThreadNetworkDiagnostics_attributes_6_def
    ThreadNetworkDiagnostics_attributes_7_def
    ThreadNetworkDiagnostics_attributes_8_def
    ThreadNetworkDiagnostics_events_def
    ThreadNetworkDiagnostics_cluster_def del: u_simps)

lemma ThreadNetworkDirectory_members_ok [simp]: "members_ok ThreadNetworkDirectory_ThreadNetworkStruct"
  by (simp_all add: class_simps ThreadNetworkDirectory_ThreadNetworkStruct_def del: u_simps)

lemma ThreadNetworkDirectory_cluster_ok: "cluster_ok ThreadNetworkDirectory_cluster" "cd_id ThreadNetworkDirectory_cluster = 1107"
  by (simp_all add: class_simps ThreadNetworkDirectory_commands_def
    ThreadNetworkDirectory_attributes_def
    ThreadNetworkDirectory_cluster_def del: u_simps)

lemma TimeFormatLocalization_cluster_ok: "cluster_ok TimeFormatLocalization_cluster" "cd_id TimeFormatLocalization_cluster = 44"
  by (simp_all add: class_simps TimeFormatLocalization_attributes_def
    TimeFormatLocalization_cluster_def del: u_simps)

lemma TimeSynchronization_members_ok [simp]: "members_ok TimeSynchronization_TrustedTimeSourceStruct"
    "members_ok TimeSynchronization_FabricScopedTrustedTimeSourceStruct"
    "members_ok TimeSynchronization_TimeZoneStruct"
    "members_ok TimeSynchronization_DSTOffsetStruct"
  by (simp_all add: class_simps TimeSynchronization_TrustedTimeSourceStruct_def
    TimeSynchronization_FabricScopedTrustedTimeSourceStruct_def
    TimeSynchronization_TimeZoneStruct_def
    TimeSynchronization_DSTOffsetStruct_def del: u_simps)

lemma TimeSynchronization_cluster_ok: "cluster_ok TimeSynchronization_cluster" "cd_id TimeSynchronization_cluster = 56"
  by (simp_all add: class_simps TimeSynchronization_commands_def
    TimeSynchronization_attributes_1_def
    TimeSynchronization_attributes_2_def
    TimeSynchronization_events_def
    TimeSynchronization_cluster_def del: u_simps)

lemma TlsCertificateManagement_members_ok [simp]: "members_ok TlsCertificateManagement_TLSCertStruct"
    "members_ok TlsCertificateManagement_TLSClientCertificateDetailStruct"
  by (simp_all add: class_simps TlsCertificateManagement_TLSCertStruct_def
    TlsCertificateManagement_TLSClientCertificateDetailStruct_def del: u_simps)

lemma TlsCertificateManagement_cluster_ok: "cluster_ok TlsCertificateManagement_cluster" "cd_id TlsCertificateManagement_cluster = 2049"
  by (simp_all add: class_simps TlsCertificateManagement_commands_1_def
    TlsCertificateManagement_commands_2_def
    TlsCertificateManagement_attributes_def
    TlsCertificateManagement_cluster_def del: u_simps)

lemma TlsClientManagement_members_ok [simp]: "members_ok TlsClientManagement_TLSEndpointStruct"
  by (simp_all add: class_simps TlsClientManagement_TLSEndpointStruct_def del: u_simps)

lemma TlsClientManagement_cluster_ok: "cluster_ok TlsClientManagement_cluster" "cd_id TlsClientManagement_cluster = 2050"
  by (simp_all add: class_simps TlsClientManagement_commands_def
    TlsClientManagement_attributes_def
    TlsClientManagement_cluster_def del: u_simps)

lemma TotalVolatileOrganicCompoundsConcentrationMeasurement_cluster_ok: "cluster_ok TotalVolatileOrganicCompoundsConcentrationMeasurement_cluster" "cd_id TotalVolatileOrganicCompoundsConcentrationMeasurement_cluster = 1070"
  by (simp_all add: class_simps TotalVolatileOrganicCompoundsConcentrationMeasurement_attributes_1_def
    TotalVolatileOrganicCompoundsConcentrationMeasurement_attributes_2_def
    TotalVolatileOrganicCompoundsConcentrationMeasurement_cluster_def del: u_simps)

lemma UnitLocalization_cluster_ok: "cluster_ok UnitLocalization_cluster" "cd_id UnitLocalization_cluster = 45"
  by (simp_all add: class_simps UnitLocalization_attributes_def
    UnitLocalization_cluster_def del: u_simps)

lemma UserLabel_members_ok [simp]: "members_ok UserLabel_LabelStruct"
  by (simp_all add: class_simps UserLabel_LabelStruct_def del: u_simps)

lemma UserLabel_cluster_ok: "cluster_ok UserLabel_cluster" "cd_id UserLabel_cluster = 65"
  by (simp_all add: class_simps UserLabel_attributes_def
    UserLabel_cluster_def del: u_simps)

lemma ValveConfigurationAndControl_cluster_ok: "cluster_ok ValveConfigurationAndControl_cluster" "cd_id ValveConfigurationAndControl_cluster = 129"
  by (simp_all add: class_simps ValveConfigurationAndControl_commands_def
    ValveConfigurationAndControl_attributes_1_def
    ValveConfigurationAndControl_attributes_2_def
    ValveConfigurationAndControl_events_def
    ValveConfigurationAndControl_cluster_def del: u_simps)

lemma WagoCluster_cluster_ok: "cluster_ok WagoCluster_cluster" "cd_id WagoCluster_cluster = 355793920"
  by (simp_all add: class_simps WagoCluster_attributes_def
    WagoCluster_cluster_def del: u_simps)

lemma WakeOnLan_cluster_ok: "cluster_ok WakeOnLan_cluster" "cd_id WakeOnLan_cluster = 1283"
  by (simp_all add: class_simps WakeOnLan_attributes_def
    WakeOnLan_cluster_def del: u_simps)

lemma WaterHeaterManagement_members_ok [simp]: "members_ok WaterHeaterManagement_WaterHeaterBoostInfoStruct"
  by (simp_all add: class_simps WaterHeaterManagement_WaterHeaterBoostInfoStruct_def del: u_simps)

lemma WaterHeaterManagement_cluster_ok: "cluster_ok WaterHeaterManagement_cluster" "cd_id WaterHeaterManagement_cluster = 148"
  by (simp_all add: class_simps WaterHeaterManagement_commands_def
    WaterHeaterManagement_attributes_1_def
    WaterHeaterManagement_attributes_2_def
    WaterHeaterManagement_events_def
    WaterHeaterManagement_cluster_def del: u_simps)

lemma WaterHeaterMode_members_ok [simp]: "members_ok WaterHeaterMode_ModeTagStruct"
    "members_ok WaterHeaterMode_ModeOptionStruct"
  by (simp_all add: class_simps WaterHeaterMode_ModeTagStruct_def
    WaterHeaterMode_ModeOptionStruct_def del: u_simps)

lemma WaterHeaterMode_cluster_ok: "cluster_ok WaterHeaterMode_cluster" "cd_id WaterHeaterMode_cluster = 158"
  by (simp_all add: class_simps WaterHeaterMode_commands_def
    WaterHeaterMode_attributes_def
    WaterHeaterMode_cluster_def del: u_simps)

end
