(* ===== verification/Clusters_WaterTankLevelMonitoring.thy ===== *)
theory Clusters_WaterTankLevelMonitoring
  imports Clusters_Base
begin

text \<open>
  The generated files \<open>WaterTankLevelMonitoring.py\<close> to \<open>ZoneManagement.py\<close> of \<open>chip/clusters/cluster_defs/\<close>, in the form of
  \<open>Clusters_Base\<close>.
\<close>

section \<open>WaterTankLevelMonitoring\<close>

definition WaterTankLevelMonitoring_DegradationDirectionEnum :: "(pystr \<times> int) list" where
  "WaterTankLevelMonitoring_DegradationDirectionEnum = [
     (u ''kUp'', 0),
     (u ''kDown'', 1),
     (u ''kUnknownEnumValue'', 2)]"

definition WaterTankLevelMonitoring_ChangeIndicationEnum :: "(pystr \<times> int) list" where
  "WaterTankLevelMonitoring_ChangeIndicationEnum = [
     (u ''kOk'', 0),
     (u ''kWarning'', 1),
     (u ''kCritical'', 2),
     (u ''kUnknownEnumValue'', 3)]"

definition WaterTankLevelMonitoring_ProductIdentifierTypeEnum :: "(pystr \<times> int) list" where
  "WaterTankLevelMonitoring_ProductIdentifierTypeEnum = [
     (u ''kUpc'', 0),
     (u ''kGtin8'', 1),
     (u ''kEan'', 2),
     (u ''kGtin14'', 3),
     (u ''kOem'', 4),
     (u ''kUnknownEnumValue'', 5)]"

definition WaterTankLevelMonitoring_Feature :: "(pystr \<times> int) list" where
  "WaterTankLevelMonitoring_Feature = [
     (u ''kCondition'', 1),
     (u ''kWarning'', 2),
     (u ''kReplacementProductList'', 4)]"

definition WaterTankLevelMonitoring_ReplacementProductStruct :: "dfield list" where
  "WaterTankLevelMonitoring_ReplacementProductStruct = [
     (u ''productIdentifierType'', 0, enum_type WaterTankLevelMonitoring_ProductIdentifierTypeEnum, Value (VInt 0)),
     (u ''productIdentifierValue'', 1, CStr, Value (VStr []))]"

definition WaterTankLevelMonitoring_commands :: "command_class list" where
  "WaterTankLevelMonitoring_commands = [
     CommandClass (u ''ResetCondition'') 121 0 True None False []]"

definition WaterTankLevelMonitoring_attributes_1 :: "attribute_class list" where
  "WaterTankLevelMonitoring_attributes_1 = [
     AttributeClass (u ''Condition'') 121 0 (optional CUint) (Value VNone),
     AttributeClass (u ''DegradationDirection'') 121 1 (optional (enum_type WaterTankLevelMonitoring_DegradationDirectionEnum)) (Value VNone),
     AttributeClass (u ''ChangeIndication'') 121 2 (enum_type WaterTankLevelMonitoring_ChangeIndicationEnum) (Value (VInt 0)),
     AttributeClass (u ''InPlaceIndicator'') 121 3 (optional CBool) (Value VNone),
     AttributeClass (u ''LastChangedTime'') 121 4 (optional_nullable CUint) (Value VNone),
     AttributeClass (u ''ReplacementProductList'') 121 5 (optional (CList (struct_type WaterTankLevelMonitoring_ReplacementProductStruct))) (Value VNone),
     AttributeClass (u ''GeneratedCommandList'') 121 65528 (CList CUint) (EmptyList),
     AttributeClass (u ''AcceptedCommandList'') 121 65529 (CList CUint) (EmptyList),
     AttributeClass (u ''AttributeList'') 121 65531 (CList CUint) (EmptyList)]"

definition WaterTankLevelMonitoring_attributes_2 :: "attribute_class list" where
  "WaterTankLevelMonitoring_attributes_2 = [
     AttributeClass (u ''FeatureMap'') 121 65532 CUint (Value (VInt 0)),
     AttributeClass (u ''ClusterRevision'') 121 65533 CUint (Value (VInt 0))]"

definition WaterTankLevelMonitoring_cluster :: "cluster_def" where
  "WaterTankLevelMonitoring_cluster = ClusterDef (u ''WaterTankLevelMonitoring'') 121 [
     (u ''condition'', 0, optional CUint, Value VNone),
     (u ''degradationDirection'', 1, optional (enum_type WaterTankLevelMonitoring_DegradationDirectionEnum), Value VNone),
     (u ''changeIndication'', 2, enum_type WaterTankLevelMonitoring_ChangeIndicationEnum, Value (VInt 0)),
     (u ''inPlaceIndicator'', 3, optional CBool, Value VNone),
     (u ''lastChangedTime'', 4, optional_nullable CUint, Value VNone),
     (u ''replacementProductList'', 5, optional (CList (struct_type WaterTankLevelMonitoring_ReplacementProductStruct)), Value VNone),
     (u ''generatedCommandList'', 65528, CList CUint, EmptyList),
     (u ''acceptedCommandList'', 65529, CList CUint, EmptyList),
     (u ''attributeList'', 65531, CList CUint, EmptyList),
     (u ''featureMap'', 65532, CUint, Value (VInt 0)),
     (u ''clusterRevision'', 65533, CUint, Value (VInt 0))]
     WaterTankLevelMonitoring_commands
     (WaterTankLevelMonitoring_attributes_1 @ WaterTankLevelMonitoring_attributes_2)
     []"

section \<open>WebRtcTransportProvider\<close>

definition WebRtcTransportProvider_Feature :: "(pystr \<times> int) list" where
  "WebRtcTransportProvider_Feature = [
     (u ''kMetadata'', 1)]"

definition WebRtcTransportProvider_commands_1 :: "command_class list" where
  "WebRtcTransportProvider_commands_1 = [
     CommandClass (u ''SolicitOffer'') 1363 0 True (Some (u ''SolicitOfferResponse'')) False [(u ''streamUsage'', 0, enum_type Globals_StreamUsageEnum, Value (VInt 0)),
       (u ''originatingEndpointID'', 1, CUint, Value (VInt 0)),
       (u ''videoStreamID'', 2, optional_nullable CUint, Value VNone),
       (u ''audioStreamID'', 3, optional_nullable CUint, Value VNone),
       (u ''iceServers'', 4, optional (CList (struct_type WebRtcTransportDefinitions_ICEServerStruct)), Value VNone),
       (u ''iceTransportPolicy'', 5, optional CStr, Value VNone),
       (u ''metadataEnabled'', 6, optional CBool, Value VNone),
       (u ''videoStreams'', 8, optional (CList CUint), Value VNone),
       (u ''audioStreams'', 9, optional (CList CUint), Value VNone)],
     CommandClass (u ''ProvideOffer'') 1363 2 True (Some (u ''ProvideOfferResponse'')) False [(u ''webRtcSessionID'', 0, nullable CUint, Value VNull),
       (u ''sdp'', 1, CStr, Value (VStr [])),
       (u ''streamUsage'', 2, optional (enum_type Globals_StreamUsageEnum), Value VNone),
       (u ''originatingEndpointID'', 3, optional CUint, Value VNone),
       (u ''videoStreamID'', 4, optional_nullable CUint, Value VNone),
       (u ''audioStreamID'', 5, optional_nullable CUint, Value VNone),
       (u ''iceServers'', 6, optional (CList (struct_type WebRtcTransportDefinitions_ICEServerStruct)), Value VNone),
       (u ''iceTransportPolicy'', 7, optional CStr, Value VNone),
       (u ''metadataEnabled'', 8, optional CBool, Value VNone),
       (u ''videoStreams'', 10, optional (CList CUint), Value VNone),
       (u ''audioStreams'', 11, optional (CList CUint), Value VNone)],
     CommandClass (u ''ProvideAnswer'') 1363 4 True None False [(u ''webRtcSessionID'', 0, CUint, Value (VInt 0)),
       (u ''sdp'', 1, CStr, Value (VStr []))],
     CommandClass (u ''ProvideIceCandidates'') 1363 5 True None False [(u ''webRtcSessionID'', 0, CUint, Value (VInt 0)),
       (u ''iceCandidates'', 1, CList (struct_type WebRtcTransportDefinitions_ICECandidateStruct), EmptyList)],
     CommandClass (u ''EndSession'') 1363 6 True None False [(u ''webRtcSessionID'', 0, CUint, Value (VInt 0)),
       (u ''reason'', 1, enum_type WebRtcTransportDefinitions_WebRTCEndReasonEnum, Value (VInt 0))],
     CommandClass (u ''SolicitOfferResponse'') 1363 1 False None False [(u ''webRtcSessionID'', 0, CUint, Value (VInt 0)),
       (u ''deferredOffer'', 1, CBool, Value (VBool False)),
       (u ''videoStreamID'', 2, optional_nullable CUint, Value VNone),
       (u ''audioStreamID'', 3, optional_nullable CUint, Value VNone)]]"

definition WebRtcTransportProvider_commands_2 :: "command_class list" where
  "WebRtcTransportProvider_commands_2 = [
     CommandClass (u ''ProvideOfferResponse'') 1363 3 False None False [(u ''webRtcSessionID'', 0, CUint, Value (VInt 0)),
       (u ''videoStreamID'', 1, optional_nullable CUint, Value VNone),
       (u ''audioStreamID'', 2, optional_nullable CUint, Value VNone)]]"

definition WebRtcTransportProvider_attributes :: "attribute_class list" where
  "WebRtcTransportProvider_attributes = [
     AttributeClass (u ''CurrentSessions'') 1363 0 (CList (struct_type WebRtcTransportDefinitions_WebRTCSessionStruct)) (EmptyList),
     AttributeClass (u ''GeneratedCommandList'') 1363 65528 (CList CUint) (EmptyList),
     AttributeClass (u ''AcceptedCommandList'') 1363 65529 (CList CUint) (EmptyList),
     AttributeClass (u ''AttributeList'') 1363 65531 (CList CUint) (EmptyList),
     AttributeClass (u ''FeatureMap'') 1363 65532 CUint (Value (VInt 0)),
     AttributeClass (u ''ClusterRevision'') 1363 65533 CUint (Value (VInt 0))]"

definition WebRtcTransportProvider_cluster :: "cluster_def" where
  "WebRtcTransportProvider_cluster = ClusterDef (u ''WebRtcTransportProvider'') 1363 [
     (u ''currentSessions'', 0, CList (struct_type WebRtcTransportDefinitions_WebRTCSessionStruct), EmptyList),
     (u ''generatedCommandList'', 65528, CList CUint, EmptyList),
     (u ''acceptedCommandList'', 65529, CList CUint, EmptyList),
     (u ''attributeList'', 65531, CList CUint, EmptyList),
     (u ''featureMap'', 65532, CUint, Value (VInt 0)),
     (u ''clusterRevision'', 65533, CUint, Value (VInt 0))]
     (WebRtcTransportProvider_commands_1 @ WebRtcTransportProvider_commands_2)
     WebRtcTransportProvider_attributes
     []"

section \<open>WebRtcTransportRequestor\<close>

definition WebRtcTransportRequestor_commands :: "command_class list" where
  "WebRtcTransportRequestor_commands = [
     CommandClass (u ''Offer'') 1364 0 True None False [(u ''webRtcSessionID'', 0, CUint, Value (VInt 0)),
       (u ''sdp'', 1, CStr, Value (VStr [])),
       (u ''iceServers'', 2, optional (CList (struct_type WebRtcTransportDefinitions_ICEServerStruct)), Value VNone),
       (u ''iceTransportPolicy'', 3, optional CStr, Value VNone)],
     CommandClass (u ''Answer'') 1364 1 True None False [(u ''webRtcSessionID'', 0, CUint, Value (VInt 0)),
       (u ''sdp'', 1, CStr, Value (VStr []))],
     CommandClass (u ''IceCandidates'') 1364 2 True None False [(u ''webRtcSessionID'', 0, CUint, Value (VInt 0)),
       (u ''iceCandidates'', 1, CList (struct_type WebRtcTransportDefinitions_ICECandidateStruct), EmptyList)],
     CommandClass (u ''End'') 1364 3 True None False [(u ''webRtcSessionID'', 0, CUint, Value (VInt 0)),
       (u ''reason'', 1, enum_type WebRtcTransportDefinitions_WebRTCEndReasonEnum, Value (VInt 0))]]"

definition WebRtcTransportRequestor_attributes :: "attribute_class list" where
  "WebRtcTransportRequestor_attributes = [
     AttributeClass (u ''CurrentSessions'') 1364 0 (CList (struct_type WebRtcTransportDefinitions_WebRTCSessionStruct)) (EmptyList),
     AttributeClass (u ''GeneratedCommandList'') 1364 65528 (CList CUint) (EmptyList),
     AttributeClass (u ''AcceptedCommandList'') 1364 65529 (CList CUint) (EmptyList),
     AttributeClass (u ''AttributeList'') 1364 65531 (CList CUint) (EmptyList),
     AttributeClass (u ''FeatureMap'') 1364 65532 CUint (Value (VInt 0)),
     AttributeClass (u ''ClusterRevision'') 1364 65533 CUint (Value (VInt 0))]"

definition WebRtcTransportRequestor_cluster :: "cluster_def" where
  "WebRtcTransportRequestor_cluster = ClusterDef (u ''WebRtcTransportRequestor'') 1364 [
     (u ''currentSessions'', 0, CList (struct_type WebRtcTransportDefinitions_WebRTCSessionStruct), EmptyList),
     (u ''generatedCommandList'', 65528, CList CUint, EmptyList),
     (u ''acceptedCommandList'', 65529, CList CUint, EmptyList),
     (u ''attributeList'', 65531, CList CUint, EmptyList),
     (u ''featureMap'', 65532, CUint, Value (VInt 0)),
     (u ''clusterRevision'', 65533, CUint, Value (VInt 0))]
     WebRtcTransportRequestor_commands
     WebRtcTransportRequestor_attributes
     []"

section \<open>WiFiNetworkDiagnostics\<close>

definition WiFiNetworkDiagnostics_SecurityTypeEnum :: "(pystr \<times> int) list" where
  "WiFiNetworkDiagnostics_SecurityTypeEnum = [
     (u ''kUnspecified'', 0),
     (u ''kNone'', 1),
     (u ''kWep'', 2),
     (u ''kWpa'', 3),
     (u ''kWpa2'', 4),
     (u ''kWpa3'', 5),
     (u ''kUnknownEnumValue'', 6)]"

definition WiFiNetworkDiagnostics_WiFiVersionEnum :: "(pystr \<times> int) list" where
  "WiFiNetworkDiagnostics_WiFiVersionEnum = [
     (u ''kA'', 0),
     (u ''kB'', 1),
     (u ''kG'', 2),
     (u ''kN'', 3),
     (u ''kAc'', 4),
     (u ''kAx'', 5),
     (u ''kAh'', 6),
     (u ''kUnknownEnumValue'', 7)]"

definition WiFiNetworkDiagnostics_AssociationFailureCauseEnum :: "(pystr \<times> int) list" where
  "WiFiNetworkDiagnostics_AssociationFailureCauseEnum = [
     (u ''kUnknown'', 0),
     (u ''kAssociationFailed'', 1),
     (u ''kAuthenticationFailed'', 2),
     (u ''kSsidNotFound'', 3),
     (u ''kUnknownEnumValue'', 4)]"

definition WiFiNetworkDiagnostics_ConnectionStatusEnum :: "(pystr \<times> int) list" where
  "WiFiNetworkDiagnostics_ConnectionStatusEnum = [
     (u ''kConnected'', 0),
     (u ''kNotConnected'', 1),
     (u ''kUnknownEnumValue'', 2)]"

definition WiFiNetworkDiagnostics_Feature :: "(pystr \<times> int) list" where
  "WiFiNetworkDiagnostics_Feature = [
     (u ''kPacketCounts'', 1),
     (u ''kErrorCounts'', 2)]"

definition WiFiNetworkDiagnostics_commands :: "command_class list" where
  "WiFiNetworkDiagnostics_commands = [
     CommandClass (u ''ResetCounts'') 54 0 True None False []]"

definition WiFiNetworkDiagnostics_attributes_1 :: "attribute_class list" where
  "WiFiNetworkDiagnostics_attributes_1 = [
     AttributeClass (u ''Bssid'') 54 0 (nullable CBytes) (Value VNull),
     AttributeClass (u ''SecurityType'') 54 1 (nullable (enum_type WiFiNetworkDiagnostics_SecurityTypeEnum)) (Value VNull),
     AttributeClass (u ''WiFiVersion'') 54 2 (nullable (enum_type WiFiNetworkDiagnostics_WiFiVersionEnum)) (Value VNull),
     AttributeClass (u ''ChannelNumber'') 54 3 (nullable CUint) (Value VNull),
     AttributeClass (u ''Rssi'') 54 4 (nullable CInt) (Value VNull),
     AttributeClass (u ''BeaconLostCount'') 54 5 (optional_nullable CUint) (Value VNone),
     AttributeClass (u ''BeaconRxCount'') 54 6 (optional_nullable CUint) (Value VNone),
     AttributeClass (u ''PacketMulticastRxCount'') 54 7 (optional_nullable CUint) (Value VNone),
     AttributeClass (u ''PacketMulticastTxCount'') 54 8 (optional_nullable CUint) (Value VNone)]"

definition WiFiNetworkDiagnostics_attributes_2 :: "attribute_class list" where
  "WiFiNetworkDiagnostics_attributes_2 = [
     AttributeClass (u ''PacketUnicastRxCount'') 54 9 (optional_nullable CUint) (Value VNone),
     AttributeClass (u ''PacketUnicastTxCount'') 54 10 (optional_nullable CUint) (Value VNone),
     AttributeClass (u ''CurrentMaxRate'') 54 11 (optional_nullable CUint) (Value VNone),
     AttributeClass (u ''OverrunCount'') 54 12 (optional_nullable CUint) (Value VNone),
     AttributeClass (u ''GeneratedCommandList'') 54 65528 (CList CUint) (EmptyList),
     AttributeClass (u ''AcceptedCommandList'') 54 65529 (CList CUint) (EmptyList),
     AttributeClass (u ''AttributeList'') 54 65531 (CList CUint) (EmptyList),
     AttributeClass (u ''FeatureMap'') 54 65532 CUint (Value (VInt 0)),
     AttributeClass (u ''ClusterRevision'') 54 65533 CUint (Value (VInt 0))]"

definition WiFiNetworkDiagnostics_events :: "event_class list" where
  "WiFiNetworkDiagnostics_events = [
     EventClass (u ''Disconnection'') 54 0 [(u ''reasonCode'', 0, CUint, Value (VInt 0))],
     EventClass (u ''AssociationFailure'') 54 1 [(u ''associationFailureCause'', 0, enum_type WiFiNetworkDiagnostics_AssociationFailureCauseEnum, Value (VInt 0)),
       (u ''status'', 1, CUint, Value (VInt 0))],
     EventClass (u ''ConnectionStatus'') 54 2 [(u ''connectionStatus'', 0, enum_type WiFiNetworkDiagnostics_ConnectionStatusEnum, Value (VInt 0))]]"

definition WiFiNetworkDiagnostics_cluster :: "cluster_def" where
  "WiFiNetworkDiagnostics_cluster = ClusterDef (u ''WiFiNetworkDiagnostics'') 54 [
     (u ''bssid'', 0, nullable CBytes, Value VNull),
     (u ''securityType'', 1, nullable (enum_type WiFiNetworkDiagnostics_SecurityTypeEnum), Value VNull),
     (u ''wiFiVersion'', 2, nullable (enum_type WiFiNetworkDiagnostics_WiFiVersionEnum), Value VNull),
     (u ''channelNumber'', 3, nullable CUint, Value VNull),
     (u ''rssi'', 4, nullable CInt, Value VNull),
     (u ''beaconLostCount'', 5, optional_nullable CUint, Value VNone),
     (u ''beaconRxCount'', 6, optional_nullable CUint, Value VNone),
     (u ''packetMulticastRxCount'', 7, optional_nullable CUint, Value VNone),
     (u ''packetMulticastTxCount'', 8, optional_nullable CUint, Value VNone),
     (u ''packetUnicastRxCount'', 9, optional_nullable CUint, Value VNone),
     (u ''packetUnicastTxCount'', 10, optional_nullable CUint, Value VNone),
     (u ''currentMaxRate'', 11, optional_nullable CUint, Value VNone),
     (u ''overrunCount'', 12, optional_nullable CUint, Value VNone),
     (u ''generatedCommandList'', 65528, CList CUint, EmptyList),
     (u ''acceptedCommandList'', 65529, CList CUint, EmptyList),
     (u ''attributeList'', 65531, CList CUint, EmptyList),
     (u ''featureMap'', 65532, CUint, Value (VInt 0)),
     (u ''clusterRevision'', 65533, CUint, Value (VInt 0))]
     WiFiNetworkDiagnostics_commands
     (WiFiNetworkDiagnostics_attributes_1 @ WiFiNetworkDiagnostics_attributes_2)
     WiFiNetworkDiagnostics_events"

section \<open>WiFiNetworkManagement\<close>

definition WiFiNetworkManagement_commands :: "command_class list" where
  "WiFiNetworkManagement_commands = [
     CommandClass (u ''NetworkPassphraseRequest'') 1105 0 True (Some (u ''NetworkPassphraseResponse'')) False [],
     CommandClass (u ''NetworkPassphraseResponse'') 1105 1 False None False [(u ''passphrase'', 0, CBytes, Value (VBytes []))]]"

definition WiFiNetworkManagement_attributes :: "attribute_class list" where
  "WiFiNetworkManagement_attributes = [
     AttributeClass (u ''Ssid'') 1105 0 (nullable CBytes) (Value VNull),
     AttributeClass (u ''PassphraseSurrogate'') 1105 1 (nullable CUint) (Value VNull),
     AttributeClass (u ''GeneratedCommandList'') 1105 65528 (CList CUint) (EmptyList),
     AttributeClass (u ''AcceptedCommandList'') 1105 65529 (CList CUint) (EmptyList),
     AttributeClass (u ''AttributeList'') 1105 65531 (CList CUint) (EmptyList),
     AttributeClass (u ''FeatureMap'') 1105 65532 CUint (Value (VInt 0)),
     AttributeClass (u ''ClusterRevision'') 1105 65533 CUint (Value (VInt 0))]"

definition WiFiNetworkManagement_cluster :: "cluster_def" where
  "WiFiNetworkManagement_cluster = ClusterDef (u ''WiFiNetworkManagement'') 1105 [
     (u ''ssid'', 0, nullable CBytes, Value VNull),
     (u ''passphraseSurrogate'', 1, nullable CUint, Value VNull),
     (u ''generatedCommandList'', 65528, CList CUint, EmptyList),
     (u ''acceptedCommandList'', 65529, CList CUint, EmptyList),
     (u ''attributeList'', 65531, CList CUint, EmptyList),
     (u ''featureMap'', 65532, CUint, Value (VInt 0)),
     (u ''clusterRevision'', 65533, CUint, Value (VInt 0))]
     WiFiNetworkManagement_commands
     WiFiNetworkManagement_attributes
     []"

section \<open>WindowCovering\<close>

definition WindowCovering_Type :: "(pystr \<times> int) list" where
  "WindowCovering_Type = [
     (u ''kRollerShade'', 0),
     (u ''kRollerShade2Motor'', 1),
     (u ''kRollerShadeExterior'', 2),
     (u ''kRollerShadeExterior2Motor'', 3),
     (u ''kDrapery'', 4),
     (u ''kAwning'', 5),
     (u ''kShutter'', 6),
     (u ''kTiltBlindTiltOnly'', 7),
     (u ''kTiltBlindLiftAndTilt'', 8),
     (u ''kProjectorScreen'', 9),
     (u ''kUnknown'', 255),
     (u ''kUnknownEnumValue'', 256)]"

definition WindowCovering_EndProductType :: "(pystr \<times> int) list" where
  "WindowCovering_EndProductType = [
     (u ''kRollerShade'', 0),
     (u ''kRomanShade'', 1),
     (u ''kBalloonShade'', 2),
     (u ''kWovenWood'', 3),
     (u ''kPleatedShade'', 4),
     (u ''kCellularShade'', 5),
     (u ''kLayeredShade'', 6),
     (u ''kLayeredShade2D'', 7),
     (u ''kSheerShade'', 8),
     (u ''kTiltOnlyInteriorBlind'', 9),
     (u ''kInteriorBlind'', 10),
     (u ''kVerticalBlindStripCurtain'', 11),
     (u ''kInteriorVenetianBlind'', 12),
     (u ''kExteriorVenetianBlind'', 13),
     (u ''kLateralLeftCurtain'', 14),
     (u ''kLateralRightCurtain'', 15),
     (u ''kCentralCurtain'', 16),
     (u ''kRollerShutter'', 17),
     (u ''kExteriorVerticalScreen'', 18),
     (u ''kAwningTerracePatio'', 19),
     (u ''kAwningVerticalScreen'', 20),
     (u ''kTiltOnlyPergola'', 21),
     (u ''kSwingingShutter'', 22),
     (u ''kSlidingShutter'', 23),
     (u ''kUnknown'', 255),
     (u ''kUnknownEnumValue'', 256)]"

definition WindowCovering_MovementStatus :: "(pystr \<times> int) list" where
  "WindowCovering_MovementStatus = [
     (u ''kStopped'', 0),
     (u ''kOpening'', 1),
     (u ''kClosing'', 2),
     (u ''kUnknownEnumValue'', 3)]"

definition WindowCovering_Feature :: "(pystr \<times> int) list" where
  "WindowCovering_Feature = [
     (u ''kLift'', 1),
     (u ''kTilt'', 2),
     (u ''kPositionAwareLift'', 4),
     (u ''kPositionAwareTilt'', 16)]"

definition WindowCovering_ConfigStatus :: "(pystr \<times> int) list" where
  "WindowCovering_ConfigStatus = [
     (u ''kOperational'', 1),
     (u ''kOnlineReserved'', 2),
     (u ''kLiftMovementReversed'', 4),
     (u ''kLiftPositionAware'', 8),
     (u ''kTiltPositionAware'', 16),
     (u ''kLiftEncoderControlled'', 32),
     (u ''kTiltEncoderControlled'', 64)]"

definition WindowCovering_Mode :: "(pystr \<times> int) list" where
  "WindowCovering_Mode = [
     (u ''kMotorDirectionReversed'', 1),
     (u ''kCalibrationMode'', 2),
     (u ''kMaintenanceMode'', 4),
     (u ''kLedFeedback'', 8)]"

definition WindowCovering_OperationalStatus :: "(pystr \<times> int) list" where
  "WindowCovering_OperationalStatus = [
     (u ''kGlobal'', 3),
     (u ''kLift'', 12),
     (u ''kTilt'', 48)]"

definition WindowCovering_SafetyStatus :: "(pystr \<times> int) list" where
  "WindowCovering_SafetyStatus = [
     (u ''kRemoteLockout'', 1),
     (u ''kTamperDetection'', 2),
     (u ''kFailedCommunication'', 4),
     (u ''kPositionFailure'', 8),
     (u ''kThermalProtection'', 16),
     (u ''kObstacleDetected'', 32),
     (u ''kPower'', 64),
     (u ''kStopInput'', 128),
     (u ''kMotorJammed'', 256),
     (u ''kHardwareFailure'', 512),
     (u ''kManualOperation'', 1024),
     (u ''kProtection'', 2048)]"

definition WindowCovering_commands :: "command_class list" where
  "WindowCovering_commands = [
     CommandClass (u ''UpOrOpen'') 258 0 True None False [],
     CommandClass (u ''DownOrClose'') 258 1 True None False [],
     CommandClass (u ''StopMotion'') 258 2 True None False [],
     CommandClass (u ''GoToLiftPercentage'') 258 5 True None False [(u ''liftPercent100thsValue'', 0, CUint, Value (VInt 0)),
       (u ''ignored'', 1, optional CUint, Value VNone)],
     CommandClass (u ''GoToTiltPercentage'') 258 8 True None False [(u ''tiltPercent100thsValue'', 0, CUint, Value (VInt 0)),
       (u ''ignored'', 1, optional CUint, Value VNone)]]"

definition WindowCovering_attributes_1 :: "attribute_class list" where
  "WindowCovering_attributes_1 = [
     AttributeClass (u ''Type'') 258 0 (enum_type WindowCovering_Type) (Value (VInt 0)),
     AttributeClass (u ''NumberOfActuationsLift'') 258 5 (optional CUint) (Value VNone),
     AttributeClass (u ''NumberOfActuationsTilt'') 258 6 (optional CUint) (Value VNone),
     AttributeClass (u ''ConfigStatus'') 258 7 (flag_type WindowCovering_ConfigStatus) (Value (VInt 0)),
     AttributeClass (u ''CurrentPositionLiftPercentage'') 258 8 (optional_nullable CUint) (Value VNone),
     AttributeClass (u ''CurrentPositionTiltPercentage'') 258 9 (optional_nullable CUint) (Value VNone),
     AttributeClass (u ''OperationalStatus'') 258 10 (flag_type WindowCovering_OperationalStatus) (Value (VInt 0)),
     AttributeClass (u ''TargetPositionLiftPercent100ths'') 258 11 (optional_nullable CUint) (Value VNone),
     AttributeClass (u ''TargetPositionTiltPercent100ths'') 258 12 (optional_nullable CUint) (Value VNone)]"

definition WindowCovering_attributes_2 :: "attribute_class list" where
  "WindowCovering_attributes_2 = [
     AttributeClass (u ''EndProductType'') 258 13 (enum_type WindowCovering_EndProductType) (Value (VInt 0)),
     AttributeClass (u ''CurrentPositionLiftPercent100ths'') 258 14 (optional_nullable CUint) (Value VNone),
     AttributeClass (u ''CurrentPositionTiltPercent100ths'') 258 15 (optional_nullable CUint) (Value VNone),
     AttributeClass (u ''Mode'') 258 23 (flag_type WindowCovering_Mode) (Value (VInt 0)),
     AttributeClass (u ''SafetyStatus'') 258 26 (optional (flag_type WindowCovering_SafetyStatus)) (Value VNone),
     AttributeClass (u ''WagoTravelTimeUp'') 258 355729409 (optional CUint) (Value VNone),
     AttributeClass (u ''WagoTravelTimeDown'') 258 355729410 (optional CUint) (Value VNone),
     AttributeClass (u ''WagoSlatRotationTime'') 258 355729411 (optional CUint) (Value VNone),
     AttributeClass (u ''GeneratedCommandList'') 258 65528 (CList CUint) (EmptyList)]"

definition WindowCovering_attributes_3 :: "attribute_class list" where
  "WindowCovering_attributes_3 = [
     AttributeClass (u ''AcceptedCommandList'') 258 65529 (CList CUint) (EmptyList),
     AttributeClass (u ''AttributeList'') 258 65531 (CList CUint) (EmptyList),
     AttributeClass (u ''FeatureMap'') 258 65532 CUint (Value (VInt 0)),
     AttributeClass (u ''ClusterRevision'') 258 65533 CUint (Value (VInt 0))]"

definition WindowCovering_cluster :: "cluster_def" where
  "WindowCovering_cluster = ClusterDef (u ''WindowCovering'') 258 [
     (u ''type'', 0, enum_type WindowCovering_Type, Value (VInt 0)),
     (u ''numberOfActuationsLift'', 5, optional CUint, Value VNone),
     (u ''numberOfActuationsTilt'', 6, optional CUint, Value VNone),
     (u ''configStatus'', 7, flag_type WindowCovering_ConfigStatus, Value (VInt 0)),
     (u ''currentPositionLiftPercentage'', 8, optional_nullable CUint, Value VNone),
     (u ''currentPositionTiltPercentage'', 9, optional_nullable CUint, Value VNone),
     (u ''operationalStatus'', 10, flag_type WindowCovering_OperationalStatus, Value (VInt 0)),
     (u ''targetPositionLiftPercent100ths'', 11, optional_nullable CUint, Value VNone),
     (u ''targetPositionTiltPercent100ths'', 12, optional_nullable CUint, Value VNone),
     (u ''endProductType'', 13, enum_type WindowCovering_EndProductType, Value (VInt 0)),
     (u ''currentPositionLiftPercent100ths'', 14, optional_nullable CUint, Value VNone),
     (u ''currentPositionTiltPercent100ths'', 15, optional_nullable CUint, Value VNone),
     (u ''mode'', 23, flag_type WindowCovering_Mode, Value (VInt 0)),
     (u ''safetyStatus'', 26, optional (flag_type WindowCovering_SafetyStatus), Value VNone),
     (u ''wagoTravelTimeUp'', 355729409, optional CUint, Value VNone),
     (u ''wagoTravelTimeDown'', 355729410, optional CUint, Value VNone),
     (u ''wagoSlatRotationTime'', 355729411, optional CUint, Value VNone),
     (u ''generatedCommandList'', 65528, CList CUint, EmptyList),
     (u ''acceptedCommandList'', 65529, CList CUint, EmptyList),
     (u ''attributeList'', 65531, CList CUint, EmptyList),
     (u ''featureMap'', 65532, CUint, Value (VInt 0)),
     (u ''clusterRevision'', 65533, CUint, Value (VInt 0))]
     WindowCovering_commands
     (WindowCovering_attributes_1 @ WindowCovering_attributes_2 @ WindowCovering_attributes_3)
     []"

section \<open>ZoneManagement\<close>

definition ZoneManagement_ZoneTypeEnum :: "(pystr \<times> int) list" where
  "ZoneManagement_ZoneTypeEnum = [
     (u ''kTwoDcartZone'', 0),
     (u ''kUnknownEnumValue'', 1)]"

definition ZoneManagement_ZoneUseEnum :: "(pystr \<times> int) list" where
  "ZoneManagement_ZoneUseEnum = [
     (u ''kMotion'', 0),
     (u ''kPrivacy'', 1),
     (u ''kFocus'', 2),
     (u ''kUnknownEnumValue'', 3)]"

definition ZoneManagement_ZoneSourceEnum :: "(pystr \<times> int) list" where
  "ZoneManagement_ZoneSourceEnum = [
     (u ''kMfg'', 0),
     (u ''kUser'', 1),
     (u ''kUnknownEnumValue'', 2)]"

definition ZoneManagement_ZoneEventTriggeredReasonEnum :: "(pystr \<times> int) list" where
  "ZoneManagement_ZoneEventTriggeredReasonEnum = [
     (u ''kMotion'', 0),
     (u ''kUnknownEnumValue'', 1)]"

definition ZoneManagement_ZoneEventStoppedReasonEnum :: "(pystr \<times> int) list" where
  "ZoneManagement_ZoneEventStoppedReasonEnum = [
     (u ''kActionStopped'', 0),
     (u ''kTimeout'', 1),
     (u ''kUnknownEnumValue'', 2)]"

definition ZoneManagement_Feature :: "(pystr \<times> int) list" where
  "ZoneManagement_Feature = [
     (u ''kTwoDimensionalCartesianZone'', 1),
     (u ''kPerZoneSensitivity'', 2),
     (u ''kUserDefined'', 4),
     (u ''kFocusZones'', 8)]"

definition ZoneManagement_TwoDCartesianVertexStruct :: "dfield list" where
  "ZoneManagement_TwoDCartesianVertexStruct = [
     (u ''x'', 0, CUint, Value (VInt 0)),
     (u ''y'', 1, CUint, Value (VInt 0))]"

definition ZoneManagement_TwoDCartesianZoneStruct :: "dfield list" where
  "ZoneManagement_TwoDCartesianZoneStruct = [
     (u ''name'', 0, CStr, Value (VStr [])),
     (u ''use'', 1, enum_type ZoneManagement_ZoneUseEnum, Value (VInt 0)),
     (u ''vertices'', 2, CList (struct_type ZoneManagement_TwoDCartesianVertexStruct), EmptyList),
     (u ''color'', 3, optional CStr, Value VNone)]"

definition ZoneManagement_ZoneInformationStruct :: "dfield list" where
  "ZoneManagement_ZoneInformationStruct = [
     (u ''zoneID'', 0, CUint, Value (VInt 0)),
     (u ''zoneType'', 1, enum_type ZoneManagement_ZoneTypeEnum, Value (VInt 0)),
     (u ''zoneSource'', 2, enum_type ZoneManagement_ZoneSourceEnum, Value (VInt 0)),
     (u ''twoDCartesianZone'', 3, optional (struct_type ZoneManagement_TwoDCartesianZoneStruct), Value VNone)]"

definition ZoneManagement_ZoneTriggerControlStruct :: "dfield list" where
  "ZoneManagement_ZoneTriggerControlStruct = [
     (u ''zoneID'', 0, CUint, Value (VInt 0)),
     (u ''initialDuration'', 1, CUint, Value (VInt 0)),
     (u ''augmentationDuration'', 2, CUint, Value (VInt 0)),
     (u ''maxDuration'', 3, CUint, Value (VInt 0)),
     (u ''blindDuration'', 4, CUint, Value (VInt 0)),
     (u ''sensitivity'', 5, optional CUint, Value VNone)]"

definition ZoneManagement_commands :: "command_class list" where
  "ZoneManagement_commands = [
     CommandClass (u ''CreateTwoDCartesianZone'') 1360 0 True (Some (u ''CreateTwoDCartesianZoneResponse'')) False [(u ''zone'', 0, struct_type ZoneManagement_TwoDCartesianZoneStruct, Instance ZoneManagement_TwoDCartesianZoneStruct)],
     CommandClass (u ''UpdateTwoDCartesianZone'') 1360 2 True None False [(u ''zoneID'', 0, CUint, Value (VInt 0)),
       (u ''zone'', 1, struct_type ZoneManagement_TwoDCartesianZoneStruct, Instance ZoneManagement_TwoDCartesianZoneStruct)],
     CommandClass (u ''RemoveZone'') 1360 3 True None False [(u ''zoneID'', 0, CUint, Value (VInt 0))],
     CommandClass (u ''CreateOrUpdateTrigger'') 1360 4 True None False [(u ''trigger'', 0, struct_type ZoneManagement_ZoneTriggerControlStruct, Instance ZoneManagement_ZoneTriggerControlStruct)],
     CommandClass (u ''RemoveTrigger'') 1360 5 True None False [(u ''zoneID'', 0, CUint, Value (VInt 0))],
     CommandClass (u ''CreateTwoDCartesianZoneResponse'') 1360 1 False None False [(u ''zoneID'', 0, CUint, Value (VInt 0))]]"

definition ZoneManagement_attributes_1 :: "attribute_class list" where
  "ZoneManagement_attributes_1 = [
     AttributeClass (u ''MaxUserDefinedZones'') 1360 0 (optional CUint) (Value VNone),
     AttributeClass (u ''MaxZones'') 1360 1 CUint (Value (VInt 0)),
     AttributeClass (u ''Zones'') 1360 2 (CList (struct_type ZoneManagement_ZoneInformationStruct)) (EmptyList),
     AttributeClass (u ''Triggers'') 1360 3 (CList (struct_type ZoneManagement_ZoneTriggerControlStruct)) (EmptyList),
     AttributeClass (u ''SensitivityMax'') 1360 4 CUint (Value (VInt 0)),
     AttributeClass (u ''Sensitivity'') 1360 5 (optional CUint) (Value VNone),
     AttributeClass (u ''TwoDCartesianMax'') 1360 6 (optional (struct_type ZoneManagement_TwoDCartesianVertexStruct)) (Value VNone),
     AttributeClass (u ''GeneratedCommandList'') 1360 65528 (CList CUint) (EmptyList),
     AttributeClass (u ''AcceptedCommandList'') 1360 65529 (CList CUint) (EmptyList)]"

definition ZoneManagement_attributes_2 :: "attribute_class list" where
  "ZoneManagement_attributes_2 = [
     AttributeClass (u ''AttributeList'') 1360 65531 (CList CUint) (EmptyList),
     AttributeClass (u ''FeatureMap'') 1360 65532 CUint (Value (VInt 0)),
     AttributeClass (u ''ClusterRevision'') 1360 65533 CUint (Value (VInt 0))]"

definition ZoneManagement_events :: "event_class list" where
  "ZoneManagement_events = [
     EventClass (u ''ZoneTriggered'') 1360 0 [(u ''zone'', 0, CUint, Value (VInt 0)),
       (u ''reason'', 1, enum_type ZoneManagement_ZoneEventTriggeredReasonEnum, Value (VInt 0))],
     EventClass (u ''ZoneStopped'') 1360 1 [(u ''zone'', 0, CUint, Value (VInt 0)),
       (u ''reason'', 1, enum_type ZoneManagement_ZoneEventStoppedReasonEnum, Value (VInt 0))]]"

definition ZoneManagement_cluster :: "cluster_def" where
  "ZoneManagement_cluster = ClusterDef (u ''ZoneManagement'') 1360 [
     (u ''maxUserDefinedZones'', 0, optional CUint, Value VNone),
     (u ''maxZones'', 1, CUint, Value (VInt 0)),
     (u ''zones'', 2, CList (struct_type ZoneManagement_ZoneInformationStruct), EmptyList),
     (u ''triggers'', 3, CList (struct_type ZoneManagement_ZoneTriggerControlStruct), EmptyList),
     (u ''sensitivityMax'', 4, CUint, Value (VInt 0)),
     (u ''sensitivity'', 5, optional CUint, Value VNone),
     (u ''twoDCartesianMax'', 6, optional (struct_type ZoneManagement_TwoDCartesianVertexStruct), Value VNone),
     (u ''generatedCommandList'', 65528, CList CUint, EmptyList),
     (u ''acceptedCommandList'', 65529, CList CUint, EmptyList),
     (u ''attributeList'', 65531, CList CUint, EmptyList),
     (u ''featureMap'', 65532, CUint, Value (VInt 0)),
     (u ''clusterRevision'', 65533, CUint, Value (VInt 0))]
     ZoneManagement_commands
     (ZoneManagement_attributes_1 @ ZoneManagement_attributes_2)
     ZoneManagement_events"

section \<open>Consistency\<close>

lemma WaterTankLevelMonitoring_members_ok [simp]: "members_ok WaterTankLevelMonitoring_ReplacementProductStruct"
  by (simp_all add: class_simps WaterTankLevelMonitoring_ReplacementProductStruct_def del: u_simps)

lemma WaterTankLevelMonitoring_cluster_ok: "cluster_ok WaterTankLevelMonitoring_cluster" "cd_id WaterTankLevelMonitoring_cluster = 121"
  by (simp_all add: class_simps WaterTankLevelMonitoring_commands_def
    WaterTankLevelMonitoring_attributes_1_def
    WaterTankLevelMonitoring_attributes_2_def
    WaterTankLevelMonitoring_cluster_def del: u_simps)

lemma WebRtcTransportProvider_cluster_ok: "cluster_ok WebRtcTransportProvider_cluster" "cd_id WebRtcTransportProvider_cluster = 1363"
  by (simp_all add: class_simps WebRtcTransportProvider_commands_1_def
    WebRtcTransportProvider_commands_2_def
    WebRtcTransportProvider_attributes_def
    WebRtcTransportProvider_cluster_def del: u_simps)

lemma WebRtcTransportRequestor_cluster_ok: "cluster_ok WebRtcTransportRequestor_cluster" "cd_id WebRtcTransportRequestor_cluster = 1364"
  by (simp_all add: class_simps WebRtcTransportRequestor_commands_def
    WebRtcTransportRequestor_attributes_def
    WebRtcTransportRequestor_cluster_def del: u_simps)

lemma WiFiNetworkDiagnostics_cluster_ok: "cluster_ok WiFiNetworkDiagnostics_cluster" "cd_id WiFiNetworkDiagnostics_cluster = 54"
  by (simp_all add: class_simps WiFiNetworkDiagnostics_commands_def
    WiFiNetworkDiagnostics_attributes_1_def
    WiFiNetworkDiagnostics_attributes_2_def
    WiFiNetworkDiagnostics_events_def
    WiFiNetworkDiagnostics_cluster_def del: u_simps)

lemma WiFiNetworkManagement_cluster_ok: "cluster_ok WiFiNetworkManagement_cluster" "cd_id WiFiNetworkManagement_cluster = 1105"
  by (simp_all add: class_simps WiFiNetworkManagement_commands_def
    WiFiNetworkManagement_attributes_def
    WiFiNetworkManagement_cluster_def del: u_simps)

lemma WindowCovering_cluster_ok: "cluster_ok WindowCovering_cluster" "cd_id WindowCovering_cluster = 258"
  by (simp_all add: class_simps WindowCovering_commands_def
    WindowCovering_attributes_1_def
    WindowCovering_attributes_2_def
    WindowCovering_attributes_3_def
    WindowCovering_cluster_def del: u_simps)

lemma ZoneManagement_members_ok [simp]: "members_ok ZoneManagement_TwoDCartesianVertexStruct"
    "members_ok ZoneManagement_TwoDCartesianZoneStruct"
    "members_ok ZoneManagement_ZoneInformationStruct"
    "members_ok ZoneManagement_ZoneTriggerControlStruct"
  by (simp_all add: class_simps ZoneManagement_TwoDCartesianVertexStruct_def
    ZoneManagement_TwoDCartesianZoneStruct_def
    ZoneManagement_ZoneInformationStruct_def
    ZoneManagement_ZoneTriggerControlStruct_def del: u_simps)

lemma ZoneManagement_cluster_ok: "cluster_ok ZoneManagement_cluster" "cd_id ZoneManagement_cluster = 1360"
  by (simp_all add: class_simps ZoneManagement_commands_def
    ZoneManagement_attributes_1_def
    ZoneManagement_attributes_2_def
    ZoneManagement_events_def
    ZoneManagement_cluster_def del: u_simps)

end
