(* ===== verification/Cluster_Registry.thy ===== *)
theory Cluster_Registry
  imports Cluster_Tables
    Clusters_AccessControl Clusters_CameraAvSettingsUserLevelManagement Clusters_ColorControl
    Clusters_DeviceEnergyManagement Clusters_ElectricalEnergyMeasurement
    Clusters_GeneralDiagnostics Clusters_KeypadInput Clusters_OperationalCredentials
    Clusters_PressureMeasurement Clusters_SmokeCoAlarm Clusters_ThreadNetworkDiagnostics
    Clusters_WaterTankLevelMonitoring
begin

text \<open>
  All generated clusters together (\<open>chip/clusters/cluster_defs/__init__.py\<close>, \<open>Objects.py\<close>): the
  global dictionaries after the import, and what holds of every class in them.
\<close>

section \<open>The import\<close>

text \<open>The cluster classes in the order in which the import creates them.\<close>

definition generated_clusters :: "cluster_def list" where
  "generated_clusters = [
     AccessControl_cluster, AccountLogin_cluster, Actions_cluster, 
     ActivatedCarbonFilterMonitoring_cluster, AdministratorCommissioning_cluster, AirQuality_cluster, 
     ModeSelect_cluster, AmbientContextSensing_cluster, ApplicationBasic_cluster, 
     ApplicationLauncher_cluster, AudioOutput_cluster, BasicInformation_cluster, Binding_cluster, 
     BooleanState_cluster, BooleanStateConfiguration_cluster, BridgedDeviceBasicInformation_cluster, 
     CameraAvSettingsUserLevelManagement_cluster, CameraAvStreamManagement_cluster, 
     CarbonDioxideConcentrationMeasurement_cluster, CarbonMonoxideConcentrationMeasurement_cluster, 
     MediaPlayback_cluster, ContentLauncher_cluster, Channel_cluster, Chime_cluster, 
     ClosureControl_cluster, ClosureDimension_cluster, ColorControl_cluster, 
     CommissionerControl_cluster, CommodityMetering_cluster, CommodityPrice_cluster, 
     CommodityTariff_cluster, ContentAppObserver_cluster, ContentControl_cluster, Descriptor_cluster, 
     DeviceEnergyManagement_cluster, DeviceEnergyManagementMode_cluster, DiagnosticLogs_cluster, 
     DishwasherAlarm_cluster, DishwasherMode_cluster, DoorLock_cluster, 
     DraftElectricalMeasurementCluster_cluster, EcosystemInformation_cluster, 
     ElectricalEnergyMeasurement_cluster, ElectricalGridConditions_cluster, 
     ElectricalPowerMeasurement_cluster, EnergyEvse_cluster, EnergyEvseMode_cluster, 
     EnergyPreference_cluster, EthernetNetworkDiagnostics_cluster, EveCluster_cluster, 
     FanControl_cluster, FixedLabel_cluster, FlowMeasurement_cluster, 
     FormaldehydeConcentrationMeasurement_cluster, GeneralCommissioning_cluster, 
     GeneralDiagnostics_cluster, GroupKeyManagement_cluster, Groupcast_cluster, Groups_cluster, 
     HeimanCluster_cluster, HepaFilterMonitoring_cluster, IcdManagement_cluster, Identify_cluster, 
     IlluminanceMeasurement_cluster, InovelliCluster_cluster, JointFabricAdministrator_cluster, 
     JointFabricDatastore_cluster, KeypadInput_cluster, LaundryDryerControls_cluster, 
     LaundryWasherControls_cluster, LaundryWasherMode_cluster, LevelControl_cluster, 
     LocalizationConfiguration_cluster, LowPower_cluster, MediaInput_cluster, Messages_cluster, 
     MeterIdentification_cluster, MicrowaveOvenControl_cluster, MicrowaveOvenMode_cluster, 
     NeoCluster_cluster, NetworkCommissioning_cluster, 
     NitrogenDioxideConcentrationMeasurement_cluster, OccupancySensing_cluster, OnOff_cluster, 
     OperationalCredentials_cluster, OperationalState_cluster, OtaSoftwareUpdateProvider_cluster, 
     OtaSoftwareUpdateRequestor_cluster, OvenCavityOperationalState_cluster, OvenMode_cluster, 
     OzoneConcentrationMeasurement_cluster, Pm10ConcentrationMeasurement_cluster, 
     Pm1ConcentrationMeasurement_cluster, Pm25ConcentrationMeasurement_cluster, PowerSource_cluster, 
     PowerSourceConfiguration_cluster, PowerTopology_cluster, PressureMeasurement_cluster, 
     PumpConfigurationAndControl_cluster, PushAvStreamTransport_cluster, 
     RadonConcentrationMeasurement_cluster, RefrigeratorAlarm_cluster, 
     RefrigeratorAndTemperatureControlledCabinetMode_cluster, RelativeHumidityMeasurement_cluster, 
     RvcCleanMode_cluster, RvcOperationalState_cluster, RvcRunMode_cluster, ScenesManagement_cluster, 
     ServiceArea_cluster, SmokeCoAlarm_cluster, SoftwareDiagnostics_cluster, SoilMeasurement_cluster, 
     Switch_cluster, TargetNavigator_cluster, TclDehumidifierCluster_cluster, 
     TemperatureAlarm_cluster, TemperatureControl_cluster, TemperatureMeasurement_cluster, 
     Thermostat_cluster, ThermostatUserInterfaceConfiguration_cluster, 
     ThirdRealityMeteringCluster_cluster, ThreadBorderRouterManagement_cluster, 
     ThreadNetworkDiagnostics_cluster, ThreadNetworkDirectory_cluster, 
     TimeFormatLocalization_cluster, TimeSynchronization_cluster, TlsCertificateManagement_cluster, 
     TlsClientManagement_cluster, TotalVolatileOrganicCompoundsConcentrationMeasurement_cluster, 
     UnitLocalization_cluster, UserLabel_cluster, ValveConfigurationAndControl_cluster, 
     WagoCluster_cluster, WakeOnLan_cluster, WaterHeaterManagement_cluster, WaterHeaterMode_cluster, 
     WaterTankLevelMonitoring_cluster, WebRtcTransportProvider_cluster, 
     WebRtcTransportRequestor_cluster, WiFiNetworkDiagnostics_cluster, WiFiNetworkManagement_cluster, 
     WindowCovering_cluster, ZoneManagement_cluster]"

definition python_registrations :: registrations where
  "python_registrations = fold register_cluster generated_clusters no_registrations"

lemma generated_clusters_ok: "list_all cluster_ok generated_clusters"
  by (simp add: generated_clusters_def
    AccessControl_cluster_ok
    AccountLogin_cluster_ok
    Actions_cluster_ok
    ActivatedCarbonFilterMonitoring_cluster_ok
    AdministratorCommissioning_cluster_ok
    AirQuality_cluster_ok
    ModeSelect_cluster_ok
    AmbientContextSensing_cluster_ok
    ApplicationBasic_cluster_ok
    ApplicationLauncher_cluster_ok
    AudioOutput_cluster_ok
    BasicInformation_cluster_ok
    Binding_cluster_ok
    BooleanState_cluster_ok
    BooleanStateConfiguration_cluster_ok
    BridgedDeviceBasicInformation_cluster_ok
    CameraAvSettingsUserLevelManagement_cluster_ok
    CameraAvStreamManagement_cluster_ok
    CarbonDioxideConcentrationMeasurement_cluster_ok
    CarbonMonoxideConcentrationMeasurement_cluster_ok
    MediaPlayback_cluster_ok
    ContentLauncher_cluster_ok
    Channel_cluster_ok
    Chime_cluster_ok
    ClosureControl_cluster_ok
    ClosureDimension_cluster_ok
    ColorControl_cluster_ok
    CommissionerControl_cluster_ok
    CommodityMetering_cluster_ok
    CommodityPrice_cluster_ok
    CommodityTariff_cluster_ok
    ContentAppObserver_cluster_ok
    ContentControl_cluster_ok
    Descriptor_cluster_ok
    DeviceEnergyManagement_cluster_ok
    DeviceEnergyManagementMode_cluster_ok
    DiagnosticLogs_cluster_ok
    DishwasherAlarm_cluster_ok
    DishwasherMode_cluster_ok
    DoorLock_cluster_ok
    DraftElectricalMeasurementCluster_cluster_ok
    EcosystemInformation_cluster_ok
    ElectricalEnergyMeasurement_cluster_ok
    ElectricalGridConditions_cluster_ok
    ElectricalPowerMeasurement_cluster_ok
    EnergyEvse_cluster_ok
    EnergyEvseMode_cluster_ok
    EnergyPreference_cluster_ok
    EthernetNetworkDiagnostics_cluster_ok
    EveCluster_cluster_ok
    FanControl_cluster_ok
    FixedLabel_cluster_ok
    FlowMeasurement_cluster_ok
    FormaldehydeConcentrationMeasurement_cluster_ok
    GeneralCommissioning_cluster_ok
    GeneralDiagnostics_cluster_ok
    GroupKeyManagement_cluster_ok
    Groupcast_cluster_ok
    Groups_cluster_ok
    HeimanCluster_cluster_ok
    HepaFilterMonitoring_cluster_ok
    IcdManagement_cluster_ok
    Identify_cluster_ok
    IlluminanceMeasurement_cluster_ok
    InovelliCluster_cluster_ok
    JointFabricAdministrator_cluster_ok
    JointFabricDatastore_cluster_ok
    KeypadInput_cluster_ok
    LaundryDryerControls_cluster_ok
    LaundryWasherControls_cluster_ok
    LaundryWasherMode_cluster_ok
    LevelControl_cluster_ok
    LocalizationConfiguration_cluster_ok
    LowPower_cluster_ok
    MediaInput_cluster_ok
    Messages_cluster_ok
    MeterIdentification_cluster_ok
    MicrowaveOvenControl_cluster_ok
    MicrowaveOvenMode_cluster_ok
    NeoCluster_cluster_ok
    NetworkCommissioning_cluster_ok
    NitrogenDioxideConcentrationMeasurement_cluster_ok
    OccupancySensing_cluster_ok
    OnOff_cluster_ok
    OperationalCredentials_cluster_ok
    OperationalState_cluster_ok
    OtaSoftwareUpdateProvider_cluster_ok
    OtaSoftwareUpdateRequestor_cluster_ok
    OvenCavityOperationalState_cluster_ok
    OvenMode_cluster_ok
    OzoneConcentrationMeasurement_cluster_ok
    Pm10ConcentrationMeasurement_cluster_ok
    Pm1ConcentrationMeasurement_cluster_ok
    Pm25ConcentrationMeasurement_cluster_ok
    PowerSource_cluster_ok
    PowerSourceConfiguration_cluster_ok
    PowerTopology_cluster_ok
    PressureMeasurement_cluster_ok
    PumpConfigurationAndControl_cluster_ok
    PushAvStreamTransport_cluster_ok
    RadonConcentrationMeasurement_cluster_ok
    RefrigeratorAlarm_cluster_ok
    RefrigeratorAndTemperatureControlledCabinetMode_cluster_ok
    RelativeHumidityMeasurement_cluster_ok
    RvcCleanMode_cluster_ok
    RvcOperationalState_cluster_ok
    RvcRunMode_cluster_ok
    ScenesManagement_cluster_ok
    ServiceArea_cluster_ok
    SmokeCoAlarm_cluster_ok
    SoftwareDiagnostics_cluster_ok
    SoilMeasurement_cluster_ok
    Switch_cluster_ok
    TargetNavigator_cluster_ok
    TclDehumidifierCluster_cluster_ok
    TemperatureAlarm_cluster_ok
    TemperatureControl_cluster_ok
    TemperatureMeasurement_cluster_ok
    Thermostat_cluster_ok
    ThermostatUserInterfaceConfiguration_cluster_ok
    ThirdRealityMeteringCluster_cluster_ok
    ThreadBorderRouterManagement_cluster_ok
    ThreadNetworkDiagnostics_cluster_ok
    ThreadNetworkDirectory_cluster_ok
    TimeFormatLocalization_cluster_ok
    TimeSynchronization_cluster_ok
    TlsCertificateManagement_cluster_ok
    TlsClientManagement_cluster_ok
    TotalVolatileOrganicCompoundsConcentrationMeasurement_cluster_ok
    UnitLocalization_cluster_ok
    UserLabel_cluster_ok
    ValveConfigurationAndControl_cluster_ok
    WagoCluster_cluster_ok
    WakeOnLan_cluster_ok
    WaterHeaterManagement_cluster_ok
    WaterHeaterMode_cluster_ok
    WaterTankLevelMonitoring_cluster_ok
    WebRtcTransportProvider_cluster_ok
    WebRtcTransportRequestor_cluster_ok
    WiFiNetworkDiagnostics_cluster_ok
    WiFiNetworkManagement_cluster_ok
    WindowCovering_cluster_ok
    ZoneManagement_cluster_ok)

lemma generated_ids_distinct: "distinct (map cd_id generated_clusters)"
  by (simp add: generated_clusters_def
    AccessControl_cluster_ok
    AccountLogin_cluster_ok
    Actions_cluster_ok
    ActivatedCarbonFilterMonitoring_cluster_ok
    AdministratorCommissioning_cluster_ok
    AirQuality_cluster_ok
    ModeSelect_cluster_ok
    AmbientContextSensing_cluster_ok
    ApplicationBasic_cluster_ok
    ApplicationLauncher_cluster_ok
    AudioOutput_cluster_ok
    BasicInformation_cluster_ok
    Binding_cluster_ok
    BooleanState_cluster_ok
    BooleanStateConfiguration_cluster_ok
    BridgedDeviceBasicInformation_cluster_ok
    CameraAvSettingsUserLevelManagement_cluster_ok
    CameraAvStreamManagement_cluster_ok
    CarbonDioxideConcentrationMeasurement_cluster_ok
    CarbonMonoxideConcentrationMeasurement_cluster_ok
    MediaPlayback_cluster_ok
    ContentLauncher_cluster_ok
    Channel_cluster_ok
    Chime_cluster_ok
    ClosureControl_cluster_ok
    ClosureDimension_cluster_ok
    ColorControl_cluster_ok
    CommissionerControl_cluster_ok
    CommodityMetering_cluster_ok
    CommodityPrice_cluster_ok
    CommodityTariff_cluster_ok
    ContentAppObserver_cluster_ok
    ContentControl_cluster_ok
    Descriptor_cluster_ok
    DeviceEnergyManagement_cluster_ok
    DeviceEnergyManagementMode_cluster_ok
    DiagnosticLogs_cluster_ok
    DishwasherAlarm_cluster_ok
    DishwasherMode_cluster_ok
    DoorLock_cluster_ok
    DraftElectricalMeasurementCluster_cluster_ok
    EcosystemInformation_cluster_ok
    ElectricalEnergyMeasurement_cluster_ok
    ElectricalGridConditions_cluster_ok
    ElectricalPowerMeasurement_cluster_ok
    EnergyEvse_cluster_ok
    EnergyEvseMode_cluster_ok
    EnergyPreference_cluster_ok
    EthernetNetworkDiagnostics_cluster_ok
    EveCluster_cluster_ok
    FanControl_cluster_ok
    FixedLabel_cluster_ok
    FlowMeasurement_cluster_ok
    FormaldehydeConcentrationMeasurement_cluster_ok
    GeneralCommissioning_cluster_ok
    GeneralDiagnostics_cluster_ok
    GroupKeyManagement_cluster_ok
    Groupcast_cluster_ok
    Groups_cluster_ok
    HeimanCluster_cluster_ok
    HepaFilterMonitoring_cluster_ok
    IcdManagement_cluster_ok
    Identify_cluster_ok
    IlluminanceMeasurement_cluster_ok
    InovelliCluster_cluster_ok
    JointFabricAdministrator_cluster_ok
    JointFabricDatastore_cluster_ok
    KeypadInput_cluster_ok
    LaundryDryerControls_cluster_ok
    LaundryWasherControls_cluster_ok
    LaundryWasherMode_cluster_ok
    LevelControl_cluster_ok
    LocalizationConfiguration_cluster_ok
    LowPower_cluster_ok
    MediaInput_cluster_ok
    Messages_cluster_ok
    MeterIdentification_cluster_ok
    MicrowaveOvenControl_cluster_ok
    MicrowaveOvenMode_cluster_ok
    NeoCluster_cluster_ok
    NetworkCommissioning_cluster_ok
    NitrogenDioxideConcentrationMeasurement_cluster_ok
    OccupancySensing_cluster_ok
    OnOff_cluster_ok
    OperationalCredentials_cluster_ok
    OperationalState_cluster_ok
    OtaSoftwareUpdateProvider_cluster_ok
    OtaSoftwareUpdateRequestor_cluster_ok
    OvenCavityOperationalState_cluster_ok
    OvenMode_cluster_ok
    OzoneConcentrationMeasurement_cluster_ok
    Pm10ConcentrationMeasurement_cluster_ok
    Pm1ConcentrationMeasurement_cluster_ok
    Pm25ConcentrationMeasurement_cluster_ok
    PowerSource_cluster_ok
    PowerSourceConfiguration_cluster_ok
    PowerTopology_cluster_ok
    PressureMeasurement_cluster_ok
    PumpConfigurationAndControl_cluster_ok
    PushAvStreamTransport_cluster_ok
    RadonConcentrationMeasurement_cluster_ok
    RefrigeratorAlarm_cluster_ok
    RefrigeratorAndTemperatureControlledCabinetMode_cluster_ok
    RelativeHumidityMeasurement_cluster_ok
    RvcCleanMode_cluster_ok
    RvcOperationalState_cluster_ok
    RvcRunMode_cluster_ok
    ScenesManagement_cluster_ok
    ServiceArea_cluster_ok
    SmokeCoAlarm_cluster_ok
    SoftwareDiagnostics_cluster_ok
    SoilMeasurement_cluster_ok
    Switch_cluster_ok
    TargetNavigator_cluster_ok
    TclDehumidifierCluster_cluster_ok
    TemperatureAlarm_cluster_ok
    TemperatureControl_cluster_ok
    TemperatureMeasurement_cluster_ok
    Thermostat_cluster_ok
    ThermostatUserInterfaceConfiguration_cluster_ok
    ThirdRealityMeteringCluster_cluster_ok
    ThreadBorderRouterManagement_cluster_ok
    ThreadNetworkDiagnostics_cluster_ok
    ThreadNetworkDirectory_cluster_ok
    TimeFormatLocalization_cluster_ok
    TimeSynchronization_cluster_ok
    TlsCertificateManagement_cluster_ok
    TlsClientManagement_cluster_ok
    TotalVolatileOrganicCompoundsConcentrationMeasurement_cluster_ok
    UnitLocalization_cluster_ok
    UserLabel_cluster_ok
    ValveConfigurationAndControl_cluster_ok
    WagoCluster_cluster_ok
    WakeOnLan_cluster_ok
    WaterHeaterManagement_cluster_ok
    WaterHeaterMode_cluster_ok
    WaterTankLevelMonitoring_cluster_ok
    WebRtcTransportProvider_cluster_ok
    WebRtcTransportRequestor_cluster_ok
    WiFiNetworkDiagnostics_cluster_ok
    WiFiNetworkManagement_cluster_ok
    WindowCovering_cluster_ok
    ZoneManagement_cluster_ok)

interpretation attribute_table: class_table att_cluster_id att_id "attributes_of generated_clusters"
  by (rule cluster_keys(1) [OF generated_ids_distinct generated_clusters_ok])

interpretation accepted_table: class_table cmd_cluster_id cmd_id "accepted_of generated_clusters"
  by (rule cluster_keys(2) [OF generated_ids_distinct generated_clusters_ok])

interpretation response_table: class_table cmd_cluster_id cmd_id "generated_of generated_clusters"
  by (rule cluster_keys(3) [OF generated_ids_distinct generated_clusters_ok])

interpretation event_table: class_table ev_cluster_id ev_id "events_of generated_clusters"
  by (rule cluster_keys(4) [OF generated_ids_distinct generated_clusters_ok])

lemma registrations_tables:
  "ALL_CLUSTERS python_registrations = fold (\<lambda>c. dput (cd_id c) c) generated_clusters []"
  "ALL_ATTRIBUTES python_registrations = attribute_table.table"
  "ALL_ACCEPTED_COMMANDS python_registrations = accepted_table.table"
  "ALL_GENERATED_COMMANDS python_registrations = response_table.table"
  "ALL_EVENTS python_registrations = event_table.table"
  by (simp_all add: python_registrations_def clusters_registered no_registrations_def
      attribute_table.table_def accepted_table.table_def response_table.table_def event_table.table_def)

lemma generated_cluster: "c \<in> set generated_clusters \<Longrightarrow> attributes_ok c \<and> commands_ok c \<and> events_ok c"
  using generated_clusters_ok by (auto simp: list_all_iff cluster_ok_def)

lemma attribute_cluster:
  "a \<in> set (attributes_of generated_clusters) \<and> att_cluster_id a = i \<longleftrightarrow>
   (\<exists>c \<in> set generated_clusters. cd_id c = i \<and> a \<in> set (cd_attributes c))"
  using generated_cluster by (fastforce simp: attributes_ok_def list_all_iff)

lemma accepted_cluster:
  "m \<in> set (accepted_of generated_clusters) \<and> cmd_cluster_id m = i \<longleftrightarrow>
   (\<exists>c \<in> set generated_clusters. cd_id c = i \<and> m \<in> set (cd_commands c) \<and> cmd_is_client m)"
  using generated_cluster by (fastforce simp: commands_ok_def list_all_iff)

lemma response_cluster:
  "m \<in> set (generated_of generated_clusters) \<and> cmd_cluster_id m = i \<longleftrightarrow>
   (\<exists>c \<in> set generated_clusters. cd_id c = i \<and> m \<in> set (cd_commands c) \<and> \<not> cmd_is_client m)"
  using generated_cluster by (fastforce simp: commands_ok_def list_all_iff)

lemma event_cluster:
  "e \<in> set (events_of generated_clusters) \<and> ev_cluster_id e = i \<longleftrightarrow>
   (\<exists>c \<in> set generated_clusters. cd_id c = i \<and> e \<in> set (cd_events c))"
  using generated_cluster by (fastforce simp: events_ok_def list_all_iff)

section \<open>The properties\<close>

text \<open>C42: After the import of the generated files each global dictionary holds exactly the classes the files declare, each under its cluster's number and its own: no attribute, command or event class overwrites another.\<close>

theorem registry_exact:
  "(dget (ALL_CLUSTERS python_registrations) i = Some c \<longleftrightarrow> c \<in> set generated_clusters \<and> cd_id c = i)
   \<and> (table_get (ALL_ATTRIBUTES python_registrations) i j = Some a \<longleftrightarrow>
        (\<exists>c \<in> set generated_clusters. cd_id c = i \<and> a \<in> set (cd_attributes c)) \<and> att_id a = j)
   \<and> (table_get (ALL_ACCEPTED_COMMANDS python_registrations) i j = Some m \<longleftrightarrow>
        (\<exists>c \<in> set generated_clusters. cd_id c = i \<and> m \<in> set (cd_commands c) \<and> cmd_is_client m) \<and> cmd_id m = j)
   \<and> (table_get (ALL_GENERATED_COMMANDS python_registrations) i j = Some m' \<longleftrightarrow>
        (\<exists>c \<in> set generated_clusters. cd_id c = i \<and> m' \<in> set (cd_commands c) \<and> \<not> cmd_is_client m') \<and> cmd_id m' = j)
   \<and> (table_get (ALL_EVENTS python_registrations) i j = Some e \<longleftrightarrow>
        (\<exists>c \<in> set generated_clusters. cd_id c = i \<and> e \<in> set (cd_events c)) \<and> ev_id e = j)"
  unfolding registrations_tables attribute_table.lookup accepted_table.lookup response_table.lookup event_table.lookup
    cluster_lookup [OF generated_ids_distinct] attribute_cluster [symmetric] accepted_cluster [symmetric]
    response_cluster [symmetric] event_cluster [symmetric]
  by blast

lemma registered_attribute:
  "table_get (ALL_ATTRIBUTES python_registrations) i j = Some a \<Longrightarrow>
   \<exists>c \<in> set generated_clusters. cd_id c = i \<and> a \<in> set (cd_attributes c) \<and> att_id a = j"
  unfolding registrations_tables attribute_table.lookup using attribute_cluster [of a i] by blast

lemma attribute_field:
  assumes "c \<in> set generated_clusters" "a \<in> set (cd_attributes c)"
  shows "\<exists>label. get_field_by_tag (class_fields (cd_fields c)) (KTag (att_id a)) = Some (label, Some (att_id a), att_type a)"
proof -
  have eq: "map (\<lambda>(_, tag, t, d). (tag, t, d)) (cd_fields c) = map (\<lambda>a. (att_id a, att_type a, att_default a)) (cd_attributes c)"
    and d: "distinct (map att_id (cd_attributes c))"
    using generated_cluster [OF assms(1)] by (auto simp: attributes_ok_def)
  have "(att_id a, att_type a, att_default a) \<in> set (map (\<lambda>(_, tag, t, d). (tag, t, d)) (cd_fields c))"
    unfolding eq using assms(2) by auto
  then obtain label where "(label, att_id a, att_type a, att_default a) \<in> set (cd_fields c)" by auto
  then have m: "(label, Some (att_id a), att_type a) \<in> set (class_fields (cd_fields c))"
    by (force simp: class_fields_def)
  have "map (fst \<circ> snd) (class_fields (cd_fields c)) = map (Some \<circ> fst) (map (\<lambda>(_, tag, t, d). (tag, t, d)) (cd_fields c))"
    by (auto simp: class_fields_def)
  also have "\<dots> = map Some (map att_id (cd_attributes c))" unfolding eq by simp
  finally have "distinct (map (fst \<circ> snd) (class_fields (cd_fields c)))"
    using d by (simp add: distinct_map inj_on_def)
  from field_found [OF this m] show ?thesis by blast
qed

text \<open>Every attribute class that can be looked up has its cluster class registered under the same
  number, and that cluster's descriptor has a field of the attribute's number and type.\<close>

lemma attribute_field_agrees:
  assumes "table_get (ALL_ATTRIBUTES python_registrations) i j = Some a"
  shows "\<exists>c label. dget (ALL_CLUSTERS python_registrations) i = Some c
    \<and> get_field_by_tag (class_fields (cd_fields c)) (KTag j) = Some (label, Some j, att_type a) \<and> 0 \<le> i \<and> 0 \<le> j"
proof -
  obtain c where c: "c \<in> set generated_clusters" "cd_id c = i" "a \<in> set (cd_attributes c)" "att_id a = j"
    using registered_attribute [OF assms] by blast
  have "dget (ALL_CLUSTERS python_registrations) i = Some c"
    unfolding registrations_tables cluster_lookup [OF generated_ids_distinct] using c by blast
  moreover have "0 \<le> i" "0 \<le> j" using generated_cluster [OF c(1)] c by (auto simp: attributes_ok_def list_all_iff)
  ultimately show ?thesis using attribute_field [OF c(1,3)] unfolding c(4) by blast
qed

text \<open>C44: No generated Cluster object is ever written: every cluster requires fields whose tags (attributeList, featureMap, clusterRevision and the vendors' own) are above a byte, so the ToTLV that a Cluster inherits always raises, whatever its data.\<close>

theorem cluster_never_encodes:
  assumes "c \<in> set generated_clusters"
  shows "\<exists>e. dict_to_tlv cs (class_fields (cd_fields c)) d = Inl e"
proof -
  obtain l tag t df where "(l, tag, t, df) \<in> set (cd_fields c)" "255 < tag" "\<not> union_has CNone t"
    using generated_cluster [OF assms] by (auto simp: attributes_ok_def list_ex_iff)
  then have "(l, Some tag, t) \<in> set (class_fields (cd_fields c))" by (force simp: class_fields_def)
  from high_tag_unwritable [OF this \<open>255 < tag\<close> \<open>\<not> union_has CNone t\<close>] show ?thesis .
qed

text \<open>Every request, response and event payload of the generated files reads back as it was written.\<close>

lemma payload_roundtrip:
  assumes "c \<in> set generated_clusters"
    and "(\<exists>m \<in> set (cd_commands c). fds = cmd_fields m) \<or> (\<exists>e \<in> set (cd_events c). fds = ev_fields e)"
    and "elt_ok (struct_type fds) (VDict d)"
  shows "\<exists>bs. dict_to_tlv cs (class_fields fds) d = Inr bs \<and> tlv_to_dict cs (class_fields fds) bs =
    Inr (map (\<lambda>(k, v). (k, read_back v)) (filter (\<lambda>(_, v). v \<noteq> VNone) d))"
  using generated_cluster [OF assms(1)] assms(2,3)
  by (intro struct_data) (auto simp: commands_ok_def events_ok_def list_all_iff fields_ok_def struct_type_def)

section \<open>Runs\<close>

text \<open>An access control entry with an administrator, one target and no auxiliary type.\<close>

definition demo_target :: "(ckey \<times> cval) list" where
  "demo_target = [(KName (u ''cluster''), VNull), (KName (u ''endpoint''), VUint 1), (KName (u ''deviceType''), VNull)]"

definition demo_entry :: "(ckey \<times> cval) list" where
  "demo_entry = [(KName (u ''privilege''), VEnum 5), (KName (u ''authMode''), VEnum 2),
     (KName (u ''subjects''), VList [VUint 112233]), (KName (u ''targets''), VList [VDict demo_target]),
     (KName (u ''auxiliaryType''), VNone), (KName (u ''fabricIndex''), VUint 1)]"

definition demo_casts :: casts where
  "demo_casts = \<lparr>map_missing = True, cast_int = \<lambda>_. Inl TypeError, cast_float = \<lambda>_. Inl TypeError,
     cast_float32 = \<lambda>_. Inl TypeError, cast_text = \<lambda>_. [], cast_index = \<lambda>_. None, cast_flag = \<lambda>_. Inl ValueError\<rparr>"

lemmas demo_typing = struct_type_def class_fields_def enum_type_def element_type_def underlying_type_def
  scalar_ok_def scalar_tlv_def union_has_def data_get_def dget_Cons field_ok.simps

lemma demo_entry_ok:
  "desc_ok (CStruct (class_fields AccessControl_AccessControlEntryStruct))"
  "elt_ok (CStruct (class_fields AccessControl_AccessControlEntryStruct)) (VDict demo_entry)"
proof -
  show "desc_ok (CStruct (class_fields AccessControl_AccessControlEntryStruct))"
    using AccessControl_members_ok by (simp add: desc_ok_types flip: struct_type_def)
  have "elt_ok (struct_type AccessControl_AccessControlTargetStruct) (VDict demo_target)"
    by (simp add: demo_typing elt_ok_struct elt_ok_scalar demo_target_def AccessControl_AccessControlTargetStruct_def u_eq del: u_simps)
  then show "elt_ok (CStruct (class_fields AccessControl_AccessControlEntryStruct)) (VDict demo_entry)"
    by (simp add: demo_typing elt_ok_struct elt_ok_scalar demo_entry_def AccessControl_AccessControlEntryStruct_def u_eq
        AccessControl_AccessControlEntryPrivilegeEnum_def AccessControl_AccessControlEntryAuthModeEnum_def del: u_simps)
qed


theorem tlv_dict_typed_witness:
  "\<exists>bs r. tlv_to_dict demo_casts (class_fields AccessControl_AccessControlEntryStruct) bs = Inr r \<and>
     struct_decoded (class_fields AccessControl_AccessControlEntryStruct) r"
  using tlv_dict_typed struct_data [OF demo_entry_ok, of demo_casts] by blast

theorem unknown_enum_read_witness:
  "\<exists>bs. attribute_from_tlv demo_casts (nullable (enum_type AccessControl_AccessControlEntryPrivilegeEnum)) bs =
    Inr [(KName (u ''Value''), VEnum 6)]"
proof -
  let ?ms = "map snd AccessControl_AccessControlEntryPrivilegeEnum"
  have "\<exists>bs. attribute_to_tlv demo_casts CUint NoTag (VUint 9) = Inr bs"
    by (simp add: attribute_to_tlv_def put_field.simps put_single.simps underlying_type_def construct_def py_int_of_def
        int_of_val_def uint_init_def scalar_tlv_def put_unsigned_int_def encode_unsigned_int_def unsigned_width_def
        Tlv_Codec.extend_def encode_control_and_tag_def new_writer_def)
  then obtain bs where bs: "attribute_to_tlv demo_casts CUint NoTag (VUint 9) = Inr bs" by blast
  have t: "element_type (nullable (enum_type AccessControl_AccessControlEntryPrivilegeEnum)) = CEnum ?ms (Some 6)"
    by (simp add: AccessControl_AccessControlEntryPrivilegeEnum_def enum_type_def unknown_name_def u_eq
        element_type_def underlying_type_def del: u_simps)
  have "9 \<notin> set ?ms" "6 \<in> set ?ms" by (simp_all add: AccessControl_AccessControlEntryPrivilegeEnum_def)
  from unknown_enum_read [OF bs this(1) t this(2)] show ?thesis
    by (intro exI [of _ bs]) (simp add: demo_casts_def del: u_simps)
qed

lemma OnOff_generated: "OnOff_cluster \<in> set generated_clusters"
  by (simp add: generated_clusters_def)

lemma OnTime_registered: "table_get (ALL_ATTRIBUTES python_registrations) 6 16385 =
      Some (AttributeClass (u ''OnTime'') 6 16385 (optional CUint) (Value VNone))"
proof -
  have "AttributeClass (u ''OnTime'') 6 16385 (optional CUint) (Value VNone) \<in> set (cd_attributes OnOff_cluster)"
    by (simp add: OnOff_cluster_def OnOff_attributes_1_def del: u_simps)
  then show ?thesis
    unfolding registrations_tables attribute_table.lookup
    using attribute_cluster [of "AttributeClass (u ''OnTime'') 6 16385 (optional CUint) (Value VNone)" 6] OnOff_generated OnOff_cluster_ok(2)
    by (auto simp del: u_simps)
qed

theorem cluster_never_encodes_witness:
  "\<exists>e. dict_to_tlv demo_casts (class_fields (cd_fields OnOff_cluster)) (default_data (cd_fields OnOff_cluster)) = Inl e"
  using cluster_never_encodes [OF OnOff_generated] .

end
