(* ===== verification/Py_Values.thy ===== *)
theory Py_Values
  imports Py_Json Base64 Utf8 Calendar
begin

text \<open>
  The typed Python values of the Matter client and the type annotations its parser interprets
  (\<open>matter_server/common/helpers/util.py\<close>): a \<open>pv\<close> is a value after parsing, a \<open>ptype\<close> an
  annotation, with a dataclass given by its name, its TLV descriptor, if it is a cluster object,
  and its fields with their defaults.
\<close>

datatype pv =
    PNone
  | PNull
  | PBool bool
  | PInt int
  | PUint int
  | PFloat rat
  | PFloat32 rat
  | PStr pystr
  | PBytes "byte list"
  | PEnum pystr json
  | PDatetime pydatetime
  | PList "pv list"
  | PTuple "pv list"
  | PSet "pv list"
  | PDict "(pv \<times> pv) list"
  | PInst pystr "(pystr \<times> pv) list"

text \<open>\<open>descriptor.Fields\<close> of a cluster object: labels and tags.\<close>

type_synonym descriptor = "(pystr \<times> int option) list"

text \<open>
  \<open>TyTuple t ts\<close> has at least one argument.  \<open>TyBareDict\<close> and \<open>TyBareList\<close> are \<open>dict\<close> and \<open>list\<close>
  without arguments, \<open>TyLiteral\<close> is \<open>Literal[...]\<close>.
\<close>

datatype ptype =
    TyAny
  | TyNone
  | TyNullable
  | TyInt
  | TyUint
  | TyFloat
  | TyFloat32
  | TyStr
  | TyBool
  | TyBytes
  | TyDatetime
  | TyBareDict
  | TyBareList
  | TyLiteral
  | TyEnum pystr "json list"
  | TyList ptype
  | TyTuple ptype "ptype list"
  | TySet ptype
  | TyDict ptype ptype
  | TyUnion "ptype list"
  | TyClass pystr "descriptor option" "(pystr \<times> ptype \<times> pv option) list"

text \<open>A raw JSON value, unchanged.\<close>

fun raw :: "json \<Rightarrow> pv" where
  "raw JNull = PNone"
| "raw (JBool b) = PBool b"
| "raw (JInt i) = PInt i"
| "raw (JFloat r) = PFloat r"
| "raw (JStr s) = PStr s"
| "raw (JList l) = PList (map raw l)"
| "raw (JObj d) = PDict (map (\<lambda>(k, v). (PStr k, raw v)) d)"

definition is_numeric :: "pystr \<Rightarrow> bool" where
  "is_numeric s \<longleftrightarrow> s \<noteq> [] \<and> list_all is_digit s"

text \<open>\<open>int(s)\<close> of a string of digits.\<close>

definition int_of :: "pystr \<Rightarrow> int" where
  "int_of s = int (digits_value 0 s)"

lemma is_numeric_dec [simp]: "is_numeric (dec n)"
  using dec_digits by (auto simp: is_numeric_def list_all_iff)

lemma int_of_dec [simp]: "int_of (dec n) = int n"
  by (simp add: int_of_def digits_value_dec)

text \<open>\<open>float(n)\<close>: exact up to 53 bits, then rounded to the nearest, ties to even.\<close>

function bit_length :: "nat \<Rightarrow> nat" where
  "bit_length n = (if n = 0 then 0 else Suc (bit_length (n div 2)))"
  by pat_completeness auto
termination by (relation "measure id") auto

declare bit_length.simps [simp del]

definition float_of_nat :: "nat \<Rightarrow> rat" where
  "float_of_nat n = (if bit_length n \<le> 53 then of_nat n
     else of_nat (round_even n (bit_length n - 53) * 2 ^ (bit_length n - 53)))"

definition float_of_int :: "int \<Rightarrow> rat" where
  "float_of_int i = (if i < 0 then - float_of_nat (nat (- i)) else float_of_nat (nat i))"

text \<open>\<open>b64decode(value.encode("utf-8"))\<close>, where \<open>binascii.Error\<close> means the empty string.\<close>

definition decode_wire_bytes :: "pystr \<Rightarrow> pv res" where
  "decode_wire_bytes s = rbind (utf8_encode s) (\<lambda>bs.
     Inr (PBytes (case a2b False 0 0 0 False (map unat bs) of Inr r \<Rightarrow> r | Inl _ \<Rightarrow> [])))"

lemma utf8_encode_b64: "utf8_encode (b64encode bs) = Inr (map of_nat (b64encode bs))"
  by (rule utf8_encode_ascii) (rule b64encode_ascii)

lemma decode_wire_b64 [simp]: "decode_wire_bytes (b64encode bs) = Inr (PBytes bs)"
proof -
  have "map (unat \<circ> (of_nat :: nat \<Rightarrow> byte)) (b64encode bs) = b64encode bs"
    using b64encode_ascii [of bs] by (intro map_idI) (auto simp: list_all_iff unat_of_nat)
  then show ?thesis by (simp add: decode_wire_bytes_def utf8_encode_b64 a2b_b64encode)
qed

end
