(* ===== verification/Matter_Parse.thy ===== *)
theory Matter_Parse
  imports Py_Values
begin

text \<open>
  \<open>parse_value\<close> and \<open>dataclass_from_dict\<close> (\<open>matter_server/common/helpers/util.py\<close>), which turn the
  JSON the server sends into typed values, and \<open>parse_arguments\<close> (\<open>helpers/api.py\<close>).  The general
  \<open>datetime.fromisoformat\<close> is the argument \<open>parse_iso\<close>.  Text is taken to be ASCII where the code
  asks \<open>isnumeric\<close>.  The main lemma is that what the client's JSON encoder writes of a well-typed
  value parses back to it.
\<close>

text \<open>\<open>_get_descriptor_key\<close>: a tag becomes the label of its field.\<close>

definition field_by_tag :: "descriptor \<Rightarrow> int \<Rightarrow> pystr option" where
  "field_by_tag desc tag = map_option fst (find (\<lambda>(_, t). t = Some tag) desc)"

definition get_descriptor_key :: "descriptor \<Rightarrow> pystr \<Rightarrow> pystr" where
  "get_descriptor_key desc key =
     (if is_numeric key then (case field_by_tag desc (int_of key) of Some label \<Rightarrow> label | None \<Rightarrow> key)
      else key)"

definition type_descriptor :: "ptype \<Rightarrow> descriptor option" where
  "type_descriptor ty = (case ty of TyClass _ desc _ \<Rightarrow> desc | _ \<Rightarrow> None)"

definition relabel :: "ptype \<Rightarrow> json \<Rightarrow> json" where
  "relabel ty v = (case (v, type_descriptor ty) of
       (JObj d, Some desc) \<Rightarrow> JObj (fold (\<lambda>(k, w). dput (get_descriptor_key desc k) w) d [])
     | _ \<Rightarrow> v)"

text \<open>\<open>{'TLVValue': None, ...}\<close>: a parse error of the SDK.\<close>

definition tlv_error :: "json \<Rightarrow> bool" where
  "tlv_error v = (case v of JObj d \<Rightarrow> dget d (u ''TLVValue'') = Some JNull | _ \<Rightarrow> False)"

definition noc_field :: pystr where
  "noc_field = u ''NOCStruct.noc''"

definition json_isinstance :: "json \<Rightarrow> ptype \<Rightarrow> bool" where
  "json_isinstance v ty = (case (v, ty) of
       (JBool _, TyBool) \<Rightarrow> True | (JBool _, TyInt) \<Rightarrow> True | (JInt _, TyInt) \<Rightarrow> True
     | (JFloat _, TyFloat) \<Rightarrow> True | (JStr _, TyStr) \<Rightarrow> True | (JList _, TyBareList) \<Rightarrow> True
     | (JObj _, TyBareDict) \<Rightarrow> True | _ \<Rightarrow> False)"

definition int_value :: "json \<Rightarrow> int option" where
  "int_value v = (case v of JInt i \<Rightarrow> Some i | JBool b \<Rightarrow> Some (if b then 1 else 0) | _ \<Rightarrow> None)"

definition numeric_str :: "json \<Rightarrow> int option" where
  "numeric_str v = (case v of JStr s \<Rightarrow> if is_numeric s then Some (int_of s) else None | _ \<Rightarrow> None)"

text \<open>The last lines of \<open>parse_value\<close>: the malformed certificate, then \<open>isinstance\<close>.\<close>

definition parse_rest :: "pystr \<Rightarrow> json \<Rightarrow> ptype \<Rightarrow> bool \<Rightarrow> pv res" where
  "parse_rest name v ty sdk =
     (if name = noc_field then Inr (PBytes [])
      else case (ty, int_value v, numeric_str v) of
        (TyUint, Some i, _) \<Rightarrow> if sdk then if i < 0 then Inl TypeError else Inr (PUint i) else Inr (PInt i)
      | (TyUint, None, Some i) \<Rightarrow> if sdk then Inl TypeError else Inr (PInt i)
      | (TyFloat32, Some i, _) \<Rightarrow> Inr (if sdk then PFloat32 (float_of_int i) else PFloat (float_of_int i))
      | (TyFloat32, None, Some i) \<Rightarrow> Inr (if sdk then PFloat32 (float_of_int i) else PFloat (float_of_int i))
      | (TyFloat32, None, None) \<Rightarrow> (case v of
            JFloat r \<Rightarrow> Inr (if sdk then PFloat32 r else PFloat r) | _ \<Rightarrow> Inl TypeError)
      | _ \<Rightarrow> if json_isinstance v ty then Inr (raw v) else Inl TypeError)"

text \<open>From \<open>if value_type is Any\<close> on: values whose type is not taken apart.\<close>

definition parse_leaf :: "(pystr \<Rightarrow> pydatetime res) \<Rightarrow> pystr \<Rightarrow> json \<Rightarrow> ptype \<Rightarrow> bool \<Rightarrow> bool \<Rightarrow> pv res" where
  "parse_leaf parse_iso name v ty allow_none sdk =
     (if ty = TyAny then Inr (raw v)
      else if v = JNull then if allow_none then Inr PNone else Inl KeyError
      else case (ty, v) of
        (TyEnum ename members, _) \<Rightarrow> (case jkey v of
            Inl _ \<Rightarrow> parse_rest name v ty sdk
          | Inr k \<Rightarrow> if k \<in> set members then Inr (PEnum ename k) else Inr (raw v))
      | (TyDatetime, JStr s) \<Rightarrow> rbind (parse_iso s) (\<lambda>d. Inr (PDatetime d))
      | (TyFloat, JInt i) \<Rightarrow> Inr (PFloat (float_of_int i))
      | (TyFloat, JBool b) \<Rightarrow> Inr (PFloat (if b then 1 else 0))
      | (TyInt, JStr s) \<Rightarrow> if is_numeric s then Inr (PInt (int_of s)) else parse_rest name v ty sdk
      | (TyBytes, JStr s) \<Rightarrow> decode_wire_bytes s
      | _ \<Rightarrow> parse_rest name v ty sdk)"

definition non_null :: "json list \<Rightarrow> json list" where
  "non_null l = filter (\<lambda>x. x \<noteq> JNull) l"

definition hashable :: "pv \<Rightarrow> bool" where
  "hashable v = (case v of PList _ \<Rightarrow> False | PDict _ \<Rightarrow> False | PSet _ \<Rightarrow> False | PInst _ _ \<Rightarrow> False | _ \<Rightarrow> True)"

fun hashable_deep :: "pv \<Rightarrow> bool" where
  "hashable_deep (PTuple vs) \<longleftrightarrow> list_all hashable_deep vs"
| "hashable_deep v \<longleftrightarrow> hashable v"

definition make_set :: "pv list \<Rightarrow> pv res" where
  "make_set vs = (if list_all hashable_deep vs then Inr (PSet (remdups vs)) else Inl TypeError)"

definition caught :: "pyexc \<Rightarrow> bool" where
  "caught e \<longleftrightarrow> e \<in> {KeyError, TypeError, ValueError, UnicodeError}"

function (sequential) parse_value ::
    "(pystr \<Rightarrow> pydatetime res) \<Rightarrow> pystr \<Rightarrow> json \<Rightarrow> ptype \<Rightarrow> pv option \<Rightarrow> bool \<Rightarrow> bool \<Rightarrow> pv res"
  and parse_fields ::
    "(pystr \<Rightarrow> pydatetime res) \<Rightarrow> pystr \<Rightarrow> (pystr \<times> json) list \<Rightarrow> (pystr \<times> ptype \<times> pv option) list
       \<Rightarrow> bool \<Rightarrow> bool \<Rightarrow> (pystr \<times> pv) list res"
  and parse_union ::
    "(pystr \<Rightarrow> pydatetime res) \<Rightarrow> pystr \<Rightarrow> json \<Rightarrow> ptype list \<Rightarrow> bool \<Rightarrow> bool \<Rightarrow> pv option res" where
  "parse_value parse_iso name v ty dflt allow_none sdk =
     (if v = JNull \<and> dflt \<noteq> None then Inr (the dflt)
      else if v = JNull \<and> ty = TyNullable then Inr (if sdk then PNull else PNone)
      else if v = JNull \<and> ty = TyNone then Inr PNone
      else
        let v1 = relabel ty v; v2 = (if tlv_error v1 then JNull else v1) in
        if tlv_error v1 \<and> (ty = TyNullable \<or> ty = TyAny) then Inr PNone
        else case ty of
          TyClass cname _ fds \<Rightarrow> (case v2 of
              JObj d \<Rightarrow> rbind (parse_fields parse_iso cname d fds True False) (\<lambda>fs. Inr (PInst cname fs))
            | _ \<Rightarrow> parse_leaf parse_iso name v2 ty allow_none sdk)
        | TyList t \<Rightarrow> (case v2 of
              JList l \<Rightarrow> rbind (rmap (\<lambda>x. parse_value parse_iso name x t None False False) (non_null l))
                (\<lambda>vs. Inr (PList vs))
            | _ \<Rightarrow> parse_leaf parse_iso name v2 ty allow_none sdk)
        | TyTuple t _ \<Rightarrow> (case v2 of
              JList l \<Rightarrow> rbind (rmap (\<lambda>x. parse_value parse_iso name x t None False False) (non_null l))
                (\<lambda>vs. Inr (PTuple vs))
            | _ \<Rightarrow> parse_leaf parse_iso name v2 ty allow_none sdk)
        | TySet t \<Rightarrow> (case v2 of
              JList l \<Rightarrow> rbind (rmap (\<lambda>x. parse_value parse_iso name x t None False False) (non_null l)) make_set
            | _ \<Rightarrow> parse_leaf parse_iso name v2 ty allow_none sdk)
        | TyDict kt vt \<Rightarrow> (case v2 of
              JObj d \<Rightarrow> rbind (rmap (\<lambda>(k, w).
                  rbind (parse_value parse_iso k (JStr k) kt None False False) (\<lambda>pk.
                  rbind (parse_value parse_iso (k @ u ''.value'') w vt None allow_none sdk) (\<lambda>pw.
                    Inr (pk, pw)))) d)
                (\<lambda>kvs. Inr (PDict (fold (\<lambda>(k, w). dput k w) kvs [])))
            | _ \<Rightarrow> Inl AttributeError)
        | TyUnion ts \<Rightarrow>
            if v2 = JNull \<and> TyNullable \<in> set ts \<and> sdk then Inr PNull
            else if v2 = JNull \<and> TyNone \<in> set ts then Inr PNone
            else rbind (parse_union parse_iso name v2 ts allow_none sdk) (\<lambda>r. case r of
                Some w \<Rightarrow> Inr w
              | None \<Rightarrow> if TyNone \<in> set ts then Inr PNone else Inl TypeError)
        | _ \<Rightarrow> parse_leaf parse_iso name v2 ty allow_none sdk)"
| "parse_fields parse_iso cname d [] allow_none sdk = Inr []"
| "parse_fields parse_iso cname d ((fname, ty, dflt) # fds) allow_none sdk =
     rbind (parse_value parse_iso (cname @ 46 # fname)
              (case dget d fname of None \<Rightarrow> JNull | Some w \<Rightarrow> w) ty dflt allow_none sdk) (\<lambda>w.
     rbind (parse_fields parse_iso cname d fds allow_none sdk) (\<lambda>ws. Inr ((fname, w) # ws)))"
| "parse_union parse_iso name v [] allow_none sdk = Inr None"
| "parse_union parse_iso name v (t # ts) allow_none sdk =
     (case parse_value parse_iso name v t None allow_none sdk of
        Inr w \<Rightarrow> Inr (Some w)
      | Inl e \<Rightarrow> if caught e then parse_union parse_iso name v ts allow_none sdk else Inl e)"
  by pat_completeness auto
termination
  by (relation "measure (\<lambda>x. case x of Inl (_, _, _, ty, _) \<Rightarrow> size ty
      | Inr (Inl (_, _, _, fds, _)) \<Rightarrow> size_list (size_prod (\<lambda>_. 0) (size_prod size (\<lambda>_. 0))) fds
      | Inr (Inr (_, _, _, ts, _)) \<Rightarrow> size_list size ts)") auto

declare parse_value.simps [simp del]

section \<open>What the client writes\<close>

text \<open>\<open>json_encoder_default\<close>, called for a value that \<open>orjson\<close> does not write itself.\<close>

definition json_encoder_default :: "pv \<Rightarrow> pv res" where
  "json_encoder_default obj = (case obj of
       PSet vs \<Rightarrow> Inr (PList vs)
     | PTuple vs \<Rightarrow> Inr (PList vs)
     | PFloat32 r \<Rightarrow> Inr (PFloat r)
     | PUint i \<Rightarrow> Inr (PInt i)
     | PNull \<Rightarrow> Inr PNone
     | PBytes bs \<Rightarrow> Inr (PStr (b64encode bs))
     | _ \<Rightarrow> Inl TypeError)"

text \<open>The JSON that is written, without the limits of the library.\<close>

fun key_text :: "pv \<Rightarrow> pystr" where
  "key_text (PStr s) = s"
| "key_text v = []"

fun encode :: "(pydatetime \<Rightarrow> pystr) \<Rightarrow> pv \<Rightarrow> json" where
  "encode isof PNone = JNull"
| "encode isof PNull = JNull"
| "encode isof (PBool b) = JBool b"
| "encode isof (PInt i) = JInt i"
| "encode isof (PUint i) = JInt i"
| "encode isof (PFloat r) = JFloat r"
| "encode isof (PFloat32 r) = JFloat r"
| "encode isof (PStr s) = JStr s"
| "encode isof (PBytes bs) = JStr (b64encode bs)"
| "encode isof (PEnum n k) = k"
| "encode isof (PDatetime d) = JStr (isof d)"
| "encode isof (PList vs) = JList (map (encode isof) vs)"
| "encode isof (PTuple vs) = JList (map (encode isof) vs)"
| "encode isof (PSet vs) = JList (map (encode isof) vs)"
| "encode isof (PDict kvs) = JObj (map (\<lambda>(k, v). (key_text k, encode isof v)) kvs)"
| "encode isof (PInst n fs) = JObj (map (\<lambda>(f, v). (f, encode isof v)) fs)"

lemma rmap_total: "rmap (\<lambda>x. Inr (f x)) xs = Inr (map f xs)"
  by (induction xs) auto

text \<open>
  \<open>orjson\<close> is a library: the data its text denotes is the argument \<open>enc\<close>, and what its
  documentation states is the hypothesis \<open>orjson_laws\<close>.  The documentation gives limits: integers of
  64 bits, strings without lone surrogates, at most 254 levels of nesting; and of a dataclass the
  fields whose name starts with an underscore are left out.  The hypothesis speaks of the values
  within these limits only, \<open>orjson_domain\<close>; the keys of a dict are taken to be strings.
\<close>

definition int_64 :: "int \<Rightarrow> bool" where
  "int_64 i \<longleftrightarrow> - (2 ^ 63) \<le> i \<and> i < 2 ^ 64"

definition json_scalar :: "json \<Rightarrow> bool" where
  "json_scalar j = (case j of
       JNull \<Rightarrow> True | JBool _ \<Rightarrow> True | JInt i \<Rightarrow> int_64 i | JFloat _ \<Rightarrow> True | JStr s \<Rightarrow> list_all scalar s | _ \<Rightarrow> False)"

fun sendable :: "nat \<Rightarrow> pv \<Rightarrow> bool" where
  "sendable n (PInt i) = int_64 i"
| "sendable n (PUint i) = int_64 i"
| "sendable n (PStr s) = list_all scalar s"
| "sendable n (PEnum _ k) = json_scalar k"
| "sendable n (PList vs) = (0 < n \<and> list_all (sendable (n - 1)) vs)"
| "sendable n (PTuple vs) = (0 < n \<and> list_all (sendable (n - 1)) vs)"
| "sendable n (PSet vs) = (0 < n \<and> list_all (sendable (n - 1)) vs)"
| "sendable n (PDict kvs) = (0 < n \<and>
     list_all (\<lambda>(k, v). (case k of PStr s \<Rightarrow> list_all scalar s | _ \<Rightarrow> False) \<and> sendable (n - 1) v) kvs)"
| "sendable n (PInst _ fs) = (0 < n \<and>
     list_all (\<lambda>(f, v). list_all scalar f \<and> take 1 f \<noteq> [95] \<and> sendable (n - 1) v) fs)"
| "sendable n v = True"

definition orjson_domain :: "pv \<Rightarrow> bool" where
  "orjson_domain v \<longleftrightarrow> sendable 254 v"

definition orjson_laws :: "(pydatetime \<Rightarrow> pystr) \<Rightarrow> (pv \<Rightarrow> json res) \<Rightarrow> bool" where
  "orjson_laws isof enc \<longleftrightarrow> (\<forall>v. orjson_domain v \<longrightarrow> (case v of
       PNone \<Rightarrow> enc v = Inr JNull
     | PBool b \<Rightarrow> enc v = Inr (JBool b)
     | PInt i \<Rightarrow> enc v = Inr (JInt i)
     | PFloat r \<Rightarrow> enc v = Inr (JFloat r)
     | PStr s \<Rightarrow> enc v = Inr (JStr s)
     | PEnum n k \<Rightarrow> enc v = Inr k
     | PDatetime d \<Rightarrow> enc v = Inr (JStr (isof d))
     | PList vs \<Rightarrow> enc v = rbind (rmap enc vs) (\<lambda>js. Inr (JList js))
     | PInst n fs \<Rightarrow> enc v = rbind (rmap (\<lambda>(f, w). rbind (enc w) (\<lambda>j. Inr (f, j))) fs) (\<lambda>d. Inr (JObj d))
     | PDict kvs \<Rightarrow> enc v =
         rbind (rmap (\<lambda>(k, w). rbind (enc w) (\<lambda>j. Inr (key_text k, j))) kvs) (\<lambda>d. Inr (JObj d))
     | _ \<Rightarrow> \<forall>w. json_encoder_default v = Inr w \<longrightarrow> enc v = enc w))"

lemma sendable_mono: "sendable n v \<Longrightarrow> n \<le> m \<Longrightarrow> sendable m v"
proof (induction n v arbitrary: m rule: sendable.induct)
  case (5 n vs)
  then show ?case using diff_le_mono [OF 5(3), of 1] by (auto simp: list_all_iff)
next
  case (6 n vs)
  then show ?case using diff_le_mono [OF 6(3), of 1] by (auto simp: list_all_iff)
next
  case (7 n vs)
  then show ?case using diff_le_mono [OF 7(3), of 1] by (auto simp: list_all_iff)
next
  case (8 n kvs)
  then show ?case using diff_le_mono [OF 8(3), of 1] by (fastforce simp: list_all_iff)
next
  case (9 n c fs)
  then show ?case using diff_le_mono [OF 9(3), of 1] by (fastforce simp: list_all_iff)
qed auto

lemma orjson_part: "sendable n v \<Longrightarrow> n \<le> 254 \<Longrightarrow> orjson_domain v"
  by (simp add: orjson_domain_def sendable_mono)

lemma b64_scalar: "list_all scalar (b64encode bs)"
  using b64encode_ascii [of bs] by (auto simp: list_all_iff scalar_def)

lemma orjson_scalar:
  assumes "orjson_laws isof enc" "orjson_domain v"
    and "\<forall>vs kvs n fs. v \<noteq> PList vs \<and> v \<noteq> PTuple vs \<and> v \<noteq> PSet vs \<and> v \<noteq> PDict kvs \<and> v \<noteq> PInst n fs"
  shows "enc v = Inr (encode isof v)"
proof -
  note law = assms(1) [unfolded orjson_laws_def, rule_format]
  note law [OF assms(2)] law [of PNone] law [of "PInt i" for i] law [of "PFloat r" for r] law [of "PStr t" for t]
  then show ?thesis using assms(2,3)
    by (cases v) (auto simp: orjson_domain_def json_encoder_default_def b64_scalar)
qed

text \<open>Within its limits the library writes \<open>encode\<close>.\<close>

lemma orjson_encodes:
  assumes "orjson_laws isof enc"
  shows "sendable n v \<Longrightarrow> n \<le> 254 \<Longrightarrow> enc v = Inr (encode isof v)"
proof (induction n v rule: sendable.induct)
  case (5 n vs)
  have "rmap enc vs = Inr (map (encode isof) vs)" by (rule rmap_all_Inr) (use 5 in \<open>auto simp: list_all_iff\<close>)
  then show ?case using assms orjson_part [OF 5(2,3)] by (auto simp: orjson_laws_def)
next
  case (6 n vs)
  have r: "rmap enc vs = Inr (map (encode isof) vs)" by (rule rmap_all_Inr) (use 6 in \<open>auto simp: list_all_iff\<close>)
  have l: "sendable n (PList vs)" using 6(2) by simp
  have "enc (PTuple vs) = enc (PList vs)" using assms [unfolded orjson_laws_def, rule_format, OF orjson_part [OF 6(2,3)]] by (simp add: json_encoder_default_def)
  then show ?case using assms [unfolded orjson_laws_def, rule_format, OF orjson_part [OF l 6(3)]] r by simp
next
  case (7 n vs)
  have r: "rmap enc vs = Inr (map (encode isof) vs)" by (rule rmap_all_Inr) (use 7 in \<open>auto simp: list_all_iff\<close>)
  have l: "sendable n (PList vs)" using 7(2) by simp
  have "enc (PSet vs) = enc (PList vs)" using assms [unfolded orjson_laws_def, rule_format, OF orjson_part [OF 7(2,3)]] by (simp add: json_encoder_default_def)
  then show ?case using assms [unfolded orjson_laws_def, rule_format, OF orjson_part [OF l 7(3)]] r by simp
next
  case (8 n kvs)
  have "rmap (\<lambda>(k, w). rbind (enc w) (\<lambda>j. Inr (key_text k, j))) kvs = Inr (map (\<lambda>(k, w). (key_text k, encode isof w)) kvs)"
    by (rule rmap_all_Inr) (use 8 in \<open>fastforce simp: list_all_iff\<close>)
  then show ?case using assms orjson_part [OF 8(2,3)] by (auto simp: orjson_laws_def)
next
  case (9 n c fs)
  have "rmap (\<lambda>(f, w). rbind (enc w) (\<lambda>j. Inr (f, j))) fs = Inr (map (\<lambda>(f, w). (f, encode isof w)) fs)"
    by (rule rmap_all_Inr) (use 9 in \<open>fastforce simp: list_all_iff\<close>)
  then show ?case using assms orjson_part [OF 9(2,3)] by (auto simp: orjson_laws_def)
qed (rule orjson_scalar [OF assms orjson_part], assumption+, simp)+

text \<open>An encoder that refuses what is outside the limits satisfies the laws.\<close>

definition bounded_encoder :: "(pydatetime \<Rightarrow> pystr) \<Rightarrow> pv \<Rightarrow> json res" where
  "bounded_encoder isof v = (if orjson_domain v then Inr (encode isof v) else Inl TypeError)"

lemma bounded_encoder_part: "sendable n v \<Longrightarrow> n \<le> 254 \<Longrightarrow> bounded_encoder isof v = Inr (encode isof v)"
  by (simp add: bounded_encoder_def orjson_part)

lemma bounded_encoder_pairs: "list_all (\<lambda>(k, w). sendable 253 w) kvs \<Longrightarrow>
    rmap (\<lambda>(k, w). rbind (bounded_encoder isof w) (\<lambda>j. Inr (g k, j))) kvs = Inr (map (\<lambda>(k, w). (g k, encode isof w)) kvs)"
  by (rule rmap_all_Inr) (auto simp: list_all_iff bounded_encoder_part)

lemma bounded_encoder_laws: "orjson_laws isof (bounded_encoder isof)"
  unfolding orjson_laws_def
proof (intro allI impI)
  fix v assume v: "orjson_domain v"
  have seq: "rmap (bounded_encoder isof) vs = Inr (map (encode isof) vs)" if "list_all (sendable 253) vs" for vs
    by (rule rmap_all_Inr) (use that in \<open>auto simp: list_all_iff bounded_encoder_part\<close>)
  have e: "bounded_encoder isof v = Inr (encode isof v)" using v by (simp add: bounded_encoder_def)
  show "case v of
       PNone \<Rightarrow> bounded_encoder isof v = Inr JNull
     | PBool b \<Rightarrow> bounded_encoder isof v = Inr (JBool b)
     | PInt i \<Rightarrow> bounded_encoder isof v = Inr (JInt i)
     | PFloat r \<Rightarrow> bounded_encoder isof v = Inr (JFloat r)
     | PStr s \<Rightarrow> bounded_encoder isof v = Inr (JStr s)
     | PEnum n k \<Rightarrow> bounded_encoder isof v = Inr k
     | PDatetime d \<Rightarrow> bounded_encoder isof v = Inr (JStr (isof d))
     | PList vs \<Rightarrow> bounded_encoder isof v = rbind (rmap (bounded_encoder isof) vs) (\<lambda>js. Inr (JList js))
     | PInst n fs \<Rightarrow> bounded_encoder isof v =
         rbind (rmap (\<lambda>(f, w). rbind (bounded_encoder isof w) (\<lambda>j. Inr (f, j))) fs) (\<lambda>d. Inr (JObj d))
     | PDict kvs \<Rightarrow> bounded_encoder isof v =
         rbind (rmap (\<lambda>(k, w). rbind (bounded_encoder isof w) (\<lambda>j. Inr (key_text k, j))) kvs) (\<lambda>d. Inr (JObj d))
     | _ \<Rightarrow> \<forall>w. json_encoder_default v = Inr w \<longrightarrow> bounded_encoder isof v = bounded_encoder isof w"
  proof (cases v)
    case (PList vs)
    then show ?thesis using v e by (simp add: orjson_domain_def seq)
  next
    case (PDict kvs)
    then have "list_all (\<lambda>(k, w). sendable 253 w) kvs" using v by (auto simp: orjson_domain_def list_all_iff)
    with PDict e show ?thesis by (simp add: bounded_encoder_pairs)
  next
    case (PInst n fs)
    then have "list_all (\<lambda>(k, w). sendable 253 w) fs" using v by (auto simp: orjson_domain_def list_all_iff)
    with PInst e show ?thesis by (simp add: bounded_encoder_pairs [where g = "\<lambda>f. f"])
  qed (use v e in \<open>simp_all add: bounded_encoder_def json_encoder_default_def orjson_domain_def b64_scalar\<close>)
qed

text \<open>The equations of an encoder without limits, over which the round trip is proved first.\<close>

definition encoder_equations :: "(pydatetime \<Rightarrow> pystr) \<Rightarrow> (pv \<Rightarrow> json res) \<Rightarrow> bool" where
  "encoder_equations isof enc \<longleftrightarrow>
     enc PNone = Inr JNull \<and>
     (\<forall>b. enc (PBool b) = Inr (JBool b)) \<and>
     (\<forall>i. enc (PInt i) = Inr (JInt i)) \<and>
     (\<forall>r. enc (PFloat r) = Inr (JFloat r)) \<and>
     (\<forall>s. enc (PStr s) = Inr (JStr s)) \<and>
     (\<forall>n k. enc (PEnum n k) = Inr k) \<and>
     (\<forall>d. enc (PDatetime d) = Inr (JStr (isof d))) \<and>
     (\<forall>vs. enc (PList vs) = rbind (rmap enc vs) (\<lambda>js. Inr (JList js))) \<and>
     (\<forall>n fs. enc (PInst n fs) = rbind (rmap (\<lambda>(f, v). rbind (enc v) (\<lambda>j. Inr (f, j))) fs) (\<lambda>d. Inr (JObj d))) \<and>
     (\<forall>kvs. enc (PDict (map (\<lambda>(k, v). (PStr k, v)) kvs)) =
        rbind (rmap (\<lambda>(k, v). rbind (enc v) (\<lambda>j. Inr (k, j))) kvs) (\<lambda>d. Inr (JObj d))) \<and>
     (\<forall>v w. json_encoder_default v = Inr w \<longrightarrow> enc v = enc w)"

lemma encode_equations: "encoder_equations isof (\<lambda>v. Inr (encode isof v))"
proof -
  have pairs: "(\<lambda>(k :: pystr, v). rbind (Inr (encode isof v)) (\<lambda>j. Inr (k, j))) =
      (\<lambda>p. Inr ((\<lambda>(k, v). (k, encode isof v)) p) :: (pystr \<times> json) res)"
    by (auto simp: fun_eq_iff)
  show ?thesis
    unfolding encoder_equations_def pairs rmap_total
    by (auto simp: json_encoder_default_def split: pv.splits)
qed

section \<open>Well-typed values\<close>

text \<open>The reader understands the UTC timestamps the writer produces.\<close>

definition utc_round :: "(pystr \<Rightarrow> pydatetime res) \<Rightarrow> (pydatetime \<Rightarrow> pystr) \<Rightarrow> bool" where
  "utc_round piso isof \<longleftrightarrow> (\<forall>w. in_range w \<longrightarrow>
     piso (isof \<lparr>dt_wall = w, dt_offset = Some 0\<rparr>) = Inr \<lparr>dt_wall = w, dt_offset = Some 0\<rparr>)"

lemma utc_roundD: "utc_round piso isof \<Longrightarrow> in_range w \<Longrightarrow>
    piso (isof \<lparr>dt_wall = w, dt_offset = Some 0\<rparr>) = Inr \<lparr>dt_wall = w, dt_offset = Some 0\<rparr>"
  by (simp add: utc_round_def)

lemma utc_round_python: "utc_round fromisoformat (\<lambda>d. isoformat_utc (dt_wall d))"
  by (simp add: utc_round_def fromisoformat_isoformat)

text \<open>Data with no structure: what \<open>Any\<close> holds.\<close>

fun plain :: "pv \<Rightarrow> bool" where
  "plain PNone = True"
| "plain (PBool _) = True"
| "plain (PInt _) = True"
| "plain (PFloat _) = True"
| "plain (PStr _) = True"
| "plain (PList vs) = list_all plain vs"
| "plain (PDict kvs) = list_all (\<lambda>(k, v). (case k of PStr _ \<Rightarrow> True | _ \<Rightarrow> False) \<and> plain v) kvs"
| "plain _ = False"

definition sdk_error_key :: pystr where
  "sdk_error_key = u ''TLVValue''"

definition sdk_error :: "pv \<Rightarrow> bool" where
  "sdk_error v = (case v of PDict kvs \<Rightarrow> (PStr sdk_error_key, PNone) \<in> set kvs | _ \<Rightarrow> False)"

definition opt_ok :: "pv option \<Rightarrow> pv \<Rightarrow> bool" where
  "opt_ok dflt v = (v = PNone \<longrightarrow> dflt = None \<or> dflt = Some PNone)"

text \<open>
  \<open>typed ty v\<close>: the value has the type, and its JSON form keeps it apart from the others: no
  \<open>None\<close> inside a list, a tuple or a set (the parser drops those), no field \<open>None\<close> whose default is
  something else, no dict that looks like an SDK error, no key the certificate workaround claims.
\<close>

fun typed :: "ptype \<Rightarrow> pv \<Rightarrow> bool"
  and typed_fields :: "pystr \<Rightarrow> (pystr \<times> ptype \<times> pv option) list \<Rightarrow> (pystr \<times> pv) list \<Rightarrow> bool" where
  "typed TyAny v = (plain v \<and> \<not> sdk_error v)"
| "typed TyNone v = (v = PNone)"
| "typed TyInt v = (\<exists>i. v = PInt i)"
| "typed TyUint v = (\<exists>i. v = PInt i)"
| "typed TyFloat v = (\<exists>r. v = PFloat r)"
| "typed TyFloat32 v = (\<exists>r. v = PFloat r)"
| "typed TyStr v = (\<exists>s. v = PStr s)"
| "typed TyBool v = (\<exists>b. v = PBool b)"
| "typed TyBytes v = (\<exists>bs. v = PBytes bs)"
| "typed TyDatetime v = (\<exists>w. v = PDatetime \<lparr>dt_wall = w, dt_offset = Some 0\<rparr> \<and> in_range w)"
| "typed (TyEnum n ms) v = (\<exists>k. v = PEnum n k \<and> k \<in> set ms \<and> k \<noteq> JNull \<and> jkey k = Inr k)"
| "typed (TyList t) v = (\<exists>vs. v = PList vs \<and> (\<forall>w \<in> set vs. typed t w \<and> w \<noteq> PNone))"
| "typed (TyTuple t _) v = (\<exists>vs. v = PTuple vs \<and> (\<forall>w \<in> set vs. typed t w \<and> w \<noteq> PNone))"
| "typed (TySet t) v =
     (\<exists>vs. v = PSet vs \<and> distinct vs \<and> (\<forall>w \<in> set vs. typed t w \<and> w \<noteq> PNone \<and> hashable_deep w))"
| "typed (TyDict kt vt) v =
     (kt = TyStr \<and> (\<exists>kvs. v = PDict (map (\<lambda>(k, w). (PStr k, w)) kvs) \<and> distinct (map fst kvs) \<and>
        \<not> sdk_error v \<and> (\<forall>(k, w) \<in> set kvs. k \<noteq> noc_field \<and> typed vt w)))"
| "typed (TyUnion (t # ts)) v = (v = PNone \<and> TyNone \<in> set (t # ts) \<or> typed t v)"
| "typed (TyClass n _ fds) v =
     (\<exists>fs. v = PInst n fs \<and> distinct (map fst fds) \<and> sdk_error_key \<notin> fst ` set fds \<and>
        (\<forall>(f, _) \<in> set fds. \<not> is_numeric f) \<and> typed_fields n fds fs)"
| "typed _ v = False"
| "typed_fields n [] fs = (fs = [])"
| "typed_fields n ((f, t, dflt) # fds) fs =
     (n @ 46 # f \<noteq> noc_field \<and> (\<exists>v rest. fs = (f, v) # rest \<and>
        (v = PNone \<and> dflt = Some PNone \<or> typed t v \<and> opt_ok dflt v) \<and> typed_fields n fds rest))"

section \<open>Parsing what was written\<close>

named_theorems parse_defs

lemmas [parse_defs] = relabel_def type_descriptor_def tlv_error_def parse_leaf_def parse_rest_def
  json_isinstance_def int_value_def numeric_str_def

lemma parse_scalar:
  "name \<noteq> noc_field \<Longrightarrow> parse_value piso name (JInt i) TyInt dflt an s = Inr (PInt i)"
  "name \<noteq> noc_field \<Longrightarrow> parse_value piso name (JInt i) TyUint dflt an False = Inr (PInt i)"
  "parse_value piso name (JFloat r) TyFloat dflt an s =
     (if name = noc_field then Inr (PBytes []) else Inr (PFloat r))"
  "name \<noteq> noc_field \<Longrightarrow> parse_value piso name (JFloat r) TyFloat32 dflt an False = Inr (PFloat r)"
  "name \<noteq> noc_field \<Longrightarrow> parse_value piso name (JStr t) TyStr dflt an s = Inr (PStr t)"
  "name \<noteq> noc_field \<Longrightarrow> parse_value piso name (JBool b) TyBool dflt an s = Inr (PBool b)"
  "parse_value piso name (JStr (b64encode bs)) TyBytes dflt an s = Inr (PBytes bs)"
  "piso t = Inr d \<Longrightarrow> parse_value piso name (JStr t) TyDatetime dflt an s = Inr (PDatetime d)"
  by (subst parse_value.simps; simp add: parse_defs)+

lemma parse_enum:
  "k \<in> set ms \<Longrightarrow> k \<noteq> JNull \<Longrightarrow> jkey k = Inr k \<Longrightarrow>
     parse_value piso name k (TyEnum n ms) dflt an s = Inr (PEnum n k)"
  by (subst parse_value.simps; cases k; simp add: parse_defs jkey_def split: if_splits)

lemma parse_enum_unknown:
  "k \<notin> set ms \<Longrightarrow> k \<noteq> JNull \<Longrightarrow> jkey k = Inr k \<Longrightarrow>
     parse_value piso name k (TyEnum n ms) dflt an s = Inr (raw k)"
  by (subst parse_value.simps; cases k; simp add: parse_defs jkey_def split: if_splits)

lemma parse_null:
  "parse_value piso name JNull TyNone dflt an s = Inr (case dflt of None \<Rightarrow> PNone | Some d \<Rightarrow> d)"
  "parse_value piso name JNull TyAny dflt an s = Inr (case dflt of None \<Rightarrow> PNone | Some d \<Rightarrow> d)"
  "parse_value piso name JNull ty (Some d) an s = Inr d"
  by (subst parse_value.simps; cases dflt; simp add: parse_defs)+

lemma parse_seq:
  "parse_value piso name (JList l) (TyList t) dflt an s =
     rbind (rmap (\<lambda>x. parse_value piso name x t None False False) (non_null l)) (\<lambda>vs. Inr (PList vs))"
  "parse_value piso name (JList l) (TyTuple t ts) dflt an s =
     rbind (rmap (\<lambda>x. parse_value piso name x t None False False) (non_null l)) (\<lambda>vs. Inr (PTuple vs))"
  "parse_value piso name (JList l) (TySet t) dflt an s =
     rbind (rmap (\<lambda>x. parse_value piso name x t None False False) (non_null l)) make_set"
  by (subst parse_value.simps; simp add: parse_defs)+

lemma parse_any_eq:
  "\<not> tlv_error v \<Longrightarrow> v \<noteq> JNull \<Longrightarrow> parse_value piso name v TyAny dflt an s = Inr (raw v)"
  by (subst parse_value.simps; cases v; simp add: parse_defs)

lemma parse_dict_eq:
  "\<not> tlv_error (JObj d) \<Longrightarrow> parse_value piso name (JObj d) (TyDict kt vt) dflt an s =
     rbind (rmap (\<lambda>(k, w).
         rbind (parse_value piso k (JStr k) kt None False False) (\<lambda>pk.
         rbind (parse_value piso (k @ u ''.value'') w vt None an s) (\<lambda>pw. Inr (pk, pw)))) d)
       (\<lambda>kvs. Inr (PDict (fold (\<lambda>(k, w). dput k w) kvs [])))"
  by (subst parse_value.simps; simp add: relabel_def type_descriptor_def)

lemma parse_union_eq:
  "v \<noteq> JNull \<Longrightarrow> \<not> tlv_error v \<Longrightarrow> parse_value piso name v (TyUnion ts) dflt an s =
     rbind (parse_union piso name v ts an s) (\<lambda>r. case r of
         Some w \<Rightarrow> Inr w
       | None \<Rightarrow> if TyNone \<in> set ts then Inr PNone else Inl TypeError)"
  by (subst parse_value.simps; cases v; simp add: relabel_def type_descriptor_def tlv_error_def split: option.split)

lemma parse_class_eq:
  "\<not> tlv_error (relabel (TyClass n desc fds) (JObj d)) \<Longrightarrow>
     relabel (TyClass n desc fds) (JObj d) = JObj d' \<Longrightarrow>
     parse_value piso name (JObj d) (TyClass n desc fds) dflt an s =
       rbind (parse_fields piso n d' fds True False) (\<lambda>fs. Inr (PInst n fs))"
  by (subst parse_value.simps; simp)

lemma enc_simps:
  assumes "encoder_equations isof enc"
  shows "enc PNone = Inr JNull" "enc (PBool b) = Inr (JBool b)" "enc (PInt i) = Inr (JInt i)"
    "enc (PFloat r) = Inr (JFloat r)" "enc (PStr t) = Inr (JStr t)" "enc (PEnum n k) = Inr k"
    "enc (PDatetime d) = Inr (JStr (isof d))"
    "enc (PList vs) = rbind (rmap enc vs) (\<lambda>js. Inr (JList js))"
    "enc (PTuple vs) = rbind (rmap enc vs) (\<lambda>js. Inr (JList js))"
    "enc (PSet vs) = rbind (rmap enc vs) (\<lambda>js. Inr (JList js))"
    "enc (PInst n fs) = rbind (rmap (\<lambda>(f, v). rbind (enc v) (\<lambda>j. Inr (f, j))) fs) (\<lambda>d. Inr (JObj d))"
    "enc (PDict (map (\<lambda>(k, v). (PStr k, v)) kvs)) =
       rbind (rmap (\<lambda>(k, v). rbind (enc v) (\<lambda>j. Inr (k, j))) kvs) (\<lambda>d. Inr (JObj d))"
    "enc (PBytes bs) = Inr (JStr (b64encode bs))"
proof -
  have deflt: "json_encoder_default v = Inr w \<Longrightarrow> enc v = enc w" for v w
    using assms by (simp add: encoder_equations_def)
  show "enc PNone = Inr JNull" "enc (PBool b) = Inr (JBool b)" "enc (PInt i) = Inr (JInt i)"
    "enc (PFloat r) = Inr (JFloat r)" "enc (PStr t) = Inr (JStr t)" "enc (PEnum n k) = Inr k"
    "enc (PDatetime d) = Inr (JStr (isof d))"
    and lst: "enc (PList vs) = rbind (rmap enc vs) (\<lambda>js. Inr (JList js))"
    and "enc (PInst n fs) = rbind (rmap (\<lambda>(f, v). rbind (enc v) (\<lambda>j. Inr (f, j))) fs) (\<lambda>d. Inr (JObj d))"
    "enc (PDict (map (\<lambda>(k, v). (PStr k, v)) kvs)) =
       rbind (rmap (\<lambda>(k, v). rbind (enc v) (\<lambda>j. Inr (k, j))) kvs) (\<lambda>d. Inr (JObj d))"
    using assms unfolding encoder_equations_def by blast+
  show "enc (PTuple vs) = rbind (rmap enc vs) (\<lambda>js. Inr (JList js))"
    "enc (PSet vs) = rbind (rmap enc vs) (\<lambda>js. Inr (JList js))"
    using deflt [of "PTuple vs" "PList vs"] deflt [of "PSet vs" "PList vs"]
    by (simp_all add: json_encoder_default_def lst)
  show "enc (PBytes bs) = Inr (JStr (b64encode bs))"
    using deflt [of "PBytes bs" "PStr (b64encode bs)"] assms
    by (simp add: json_encoder_default_def encoder_equations_def)
qed

lemma plain_dict:
  "plain (PDict kvs) \<Longrightarrow> \<exists>kvs'. kvs = map (\<lambda>(k, v). (PStr k, v)) kvs' \<and> (\<forall>(k, v) \<in> set kvs'. plain v)"
proof (induction kvs)
  case (Cons kv kvs)
  obtain k v where kv: "kv = (PStr k, v)" "plain v" using Cons.prems by (cases kv) (auto split: pv.splits)
  obtain kvs' where "kvs = map (\<lambda>(k, v). (PStr k, v)) kvs'" "\<forall>(k, v) \<in> set kvs'. plain v"
    using Cons by auto
  with kv show ?case by (intro exI [of _ "(k, v) # kvs'"]) auto
qed simp

lemma pairs_enc:
  "rmap (\<lambda>(k, v). rbind (enc v) (\<lambda>j. Inr (k, j))) kvs = Inr d \<Longrightarrow>
     list_all2 (\<lambda>(k, v) (k', j). k' = k \<and> enc v = Inr j) kvs d"
  by (drule rmap_InrD, erule list_all2_mono) (auto simp: rbind_eq_Inr)

lemma raw_enc:
  assumes "encoder_equations isof enc"
  shows "plain v \<Longrightarrow> enc v = Inr j \<Longrightarrow> raw j = v"
proof (induction v arbitrary: j)
  case (PList vs)
  then obtain js where j: "j = JList js" "rmap enc vs = Inr js"
    by (auto simp: enc_simps [OF assms] rbind_eq_Inr)
  from j(2) have "list_all2 (\<lambda>v j. enc v = Inr j) vs js" by (rule rmap_InrD)
  then have "map raw js = vs" using PList.IH PList.prems(1)
    by (induction rule: list_all2_induct) auto
  with j show ?case by simp
next
  case (PDict kvs)
  from plain_dict [OF PDict.prems(1)] obtain kvs' where
    k: "kvs = map (\<lambda>(k, v). (PStr k, v)) kvs'" "\<forall>(k, v) \<in> set kvs'. plain v" by blast
  with PDict.prems(2) obtain d where
    j: "j = JObj d" "rmap (\<lambda>(k, v). rbind (enc v) (\<lambda>j. Inr (k, j))) kvs' = Inr d"
    by (auto simp: enc_simps [OF assms] rbind_eq_Inr)
  have IH: "(k, v) \<in> set kvs' \<Longrightarrow> plain v \<Longrightarrow> enc v = Inr j \<Longrightarrow> raw j = v" for k v j
    using PDict.IH [of "(PStr k, v)" v] unfolding k(1) by force
  from pairs_enc [OF j(2)] IH k(2) have "map (\<lambda>(k, v). (PStr k, raw v)) d = map (\<lambda>(k, v). (PStr k, v)) kvs'"
    by (induction rule: list_all2_induct) (force simp: split_beta)+
  with j k show ?case by simp
qed (auto simp: enc_simps [OF assms])

text \<open>Only \<open>None\<close> is written as \<open>null\<close>, and no well-typed value looks like an SDK error.\<close>

lemma plain_null:
  assumes "encoder_equations isof enc" "plain v" "enc v = Inr JNull"
  shows "v = PNone"
  using raw_enc [OF assms] by simp

lemma typed_null:
  assumes "encoder_equations isof enc"
  shows "typed ty v \<Longrightarrow> enc v = Inr JNull \<Longrightarrow> v = PNone"
    and "typed_fields n fds fs \<Longrightarrow> True"
proof (induction ty v and n fds fs rule: typed_typed_fields.induct)
  case (1 v)
  then show ?case using plain_null [OF assms] by simp
next
  case (16 t ts v)
  then show ?case by auto
qed (auto simp: enc_simps [OF assms] rbind_eq_Inr)

lemma pairs_dget:
  "list_all2 (\<lambda>(k, v) (k', j). k' = k \<and> enc v = Inr j) kvs d \<Longrightarrow> dget d k = Some j \<Longrightarrow>
     \<exists>v. (k, v) \<in> set kvs \<and> enc v = Inr j"
  by (induction rule: list_all2_induct) (auto simp: dget_def split: if_splits)

lemma dict_no_sdk_error:
  assumes "encoder_equations isof enc" "enc (PDict (map (\<lambda>(k, v). (PStr k, v)) kvs)) = Inr j"
    and "\<not> sdk_error (PDict (map (\<lambda>(k, v). (PStr k, v)) kvs))"
    and "\<And>k v. (k, v) \<in> set kvs \<Longrightarrow> enc v = Inr JNull \<Longrightarrow> v = PNone"
  shows "\<not> tlv_error j"
proof
  assume t: "tlv_error j"
  from assms(2) obtain d where
    j: "j = JObj d" "rmap (\<lambda>(k, v). rbind (enc v) (\<lambda>j. Inr (k, j))) kvs = Inr d"
    by (auto simp: enc_simps [OF assms(1)] rbind_eq_Inr)
  with t have "dget d sdk_error_key = Some JNull" by (simp add: tlv_error_def sdk_error_key_def)
  from pairs_dget [OF pairs_enc [OF j(2)] this] obtain v where
    "(sdk_error_key, v) \<in> set kvs" "enc v = Inr JNull" by blast
  with assms(4) have "(sdk_error_key, PNone) \<in> set kvs" by blast
  with assms(3) show False by (force simp: sdk_error_def)
qed

lemma plain_no_error:
  assumes "encoder_equations isof enc" "plain v" "\<not> sdk_error v" "enc v = Inr j"
  shows "\<not> tlv_error j"
proof (cases v)
  case (PDict kvs)
  with plain_dict [of kvs] assms(2) obtain kvs' where
    k: "kvs = map (\<lambda>(k, v). (PStr k, v)) kvs'" "\<forall>(k, v) \<in> set kvs'. plain v" by blast
  show ?thesis
    by (rule dict_no_sdk_error [OF assms(1)])
      (use assms k PDict plain_null [OF assms(1)] in auto)
qed (use assms in \<open>auto simp: enc_simps [OF assms(1)] tlv_error_def rbind_eq_Inr\<close>)

lemma typed_fields_names: "typed_fields n fds fs \<Longrightarrow> map fst fs = map fst fds"
  by (induction fds arbitrary: fs) auto

lemma fields_enc:
  "rmap (\<lambda>(f, v). rbind (enc v) (\<lambda>j. Inr (f, j))) fs = Inr d \<Longrightarrow> map fst d = map fst fs"
  by (drule pairs_enc) (induction rule: list_all2_induct, auto)

lemma typed_no_error:
  assumes "encoder_equations isof enc"
  shows "typed ty v \<Longrightarrow> enc v = Inr j \<Longrightarrow> \<not> tlv_error j"
    and "typed_fields n fds fs \<Longrightarrow> True"
proof (induction ty v and n fds fs arbitrary: j rule: typed_typed_fields.induct)
  case (1 v)
  then show ?case using plain_no_error [OF assms, of v j] by simp
next
  case (11 n ms v)
  then obtain k where k: "v = PEnum n k" "jkey k = Inr k" by auto
  with 11 show ?case by (cases k) (auto simp: enc_simps [OF assms] tlv_error_def jkey_def)
next
  case (15 kt vt v)
  then obtain kvs where v: "v = PDict (map (\<lambda>(k, w). (PStr k, w)) kvs)" "\<not> sdk_error v"
    "\<forall>(k, w) \<in> set kvs. k \<noteq> noc_field \<and> typed vt w" by auto
  show ?case
    by (rule dict_no_sdk_error [OF assms 15(3) [unfolded v(1)] v(2) [unfolded v(1)]])
      (use v(3) typed_null(1) [OF assms] in blast)
next
  case (16 t ts v)
  then show ?case by (auto simp: enc_simps [OF assms] tlv_error_def)
next
  case (17 n desc fds v)
  then obtain fs where v: "v = PInst n fs" "sdk_error_key \<notin> fst ` set fds" "typed_fields n fds fs" by auto
  with 17(3) obtain d where d: "j = JObj d" "rmap (\<lambda>(f, v). rbind (enc v) (\<lambda>j. Inr (f, j))) fs = Inr d"
    by (auto simp: enc_simps [OF assms] rbind_eq_Inr)
  have "fst ` set d = fst ` set fds"
    using fields_enc [OF d(2)] typed_fields_names [OF v(3)] by (metis set_map)
  with v(2) have "dget d sdk_error_key = None" by (simp add: dget_def map_of_eq_None_iff)
  then show ?case by (simp add: d tlv_error_def sdk_error_key_def)
qed (auto simp: enc_simps [OF assms] tlv_error_def rbind_eq_Inr)

lemma fold_dput_new:
  "distinct (map fst d) \<Longrightarrow> fst ` set d \<inter> fst ` set acc = {} \<Longrightarrow>
     fold (\<lambda>(k, w). dput k w) d acc = acc @ d"
proof (induction d arbitrary: acc)
  case (Cons kw d)
  obtain k w where kw: "kw = (k, w)" by (cases kw)
  have "dget acc k = None" using Cons.prems(2) by (auto simp: kw dget_def map_of_eq_None_iff)
  then have "dput k w acc = acc @ [(k, w)]" by (rule dput_new)
  moreover have "fold (\<lambda>(k, w). dput k w) d (acc @ [(k, w)]) = (acc @ [(k, w)]) @ d"
    using Cons.prems by (intro Cons.IH) (auto simp: kw)
  ultimately show ?case by (simp add: kw)
qed simp

lemma fold_dput_id: "distinct (map fst d) \<Longrightarrow> fold (\<lambda>(k, w). dput k w) d [] = d"
  by (simp add: fold_dput_new)

lemma relabel_id:
  assumes "distinct (map fst d)" "\<forall>k \<in> fst ` set d. \<not> is_numeric k"
  shows "relabel ty (JObj d) = JObj d"
proof -
  have "fold (\<lambda>(k, w). dput (get_descriptor_key desc k) w) d acc = fold (\<lambda>(k, w). dput k w) d acc" for desc acc
    using assms(2) by (intro fold_cong) (auto simp: get_descriptor_key_def)
  then show ?thesis
    by (auto simp: relabel_def fold_dput_id [OF assms(1)] split: option.split)
qed

lemma parse_union_null:
  "parse_value piso name JNull (TyUnion ts) dflt an False =
     (case dflt of Some d \<Rightarrow> Inr d
      | None \<Rightarrow> if TyNone \<in> set ts then Inr PNone
          else rbind (parse_union piso name JNull ts an False) (\<lambda>r. case r of
            Some w \<Rightarrow> Inr w | None \<Rightarrow> Inl TypeError))"
  by (subst parse_value.simps; simp add: relabel_def type_descriptor_def tlv_error_def split: option.split)

lemma list_round:
  assumes "list_all2 (\<lambda>v j. enc v = Inr j) vs js"
    and "\<And>v j. v \<in> set vs \<Longrightarrow> enc v = Inr j \<Longrightarrow> j \<noteq> JNull \<and> f j = Inr v"
  shows "rmap f (non_null js) = Inr vs"
  using assms
proof (induction rule: list_all2_induct)
  case (Cons v vs j js)
  from Cons.prems [of v j] Cons.hyps have "j \<noteq> JNull" "f j = Inr v" by auto
  moreover have "rmap f (non_null js) = Inr vs" using Cons.IH Cons.prems by (meson list.set_intros(2))
  ultimately show ?case by (simp add: non_null_def)
qed (simp add: non_null_def)

lemma dict_round:
  assumes "list_all2 (\<lambda>(k, v) (k', j). k' = k \<and> enc v = Inr j) kvs d"
    and "\<And>k v j. (k, v) \<in> set kvs \<Longrightarrow> enc v = Inr j \<Longrightarrow> f (k, j) = Inr (g k v)"
  shows "rmap f d = Inr (map (\<lambda>(k, v). g k v) kvs)"
  using assms
proof (induction rule: list_all2_induct)
  case (Cons kv kvs p d)
  obtain k v j where kv: "kv = (k, v)" "p = (k, j)" "enc v = Inr j" using Cons.hyps by (cases kv, cases p) auto
  with Cons.prems [of k v j] have "f (k, j) = Inr (g k v)" by simp
  moreover have "rmap f d = Inr (map (\<lambda>(k, v). g k v) kvs)" using Cons by simp
  ultimately show ?case by (simp add: kv)
qed simp

lemma value_name: "k @ u ''.value'' \<noteq> noc_field"
proof
  assume "k @ u ''.value'' = noc_field"
  then have "last (k @ u ''.value'') = last noc_field" by simp
  then show False by (simp add: noc_field_def)
qed
lemma parse_round:
  assumes laws: "encoder_equations isof enc" and "utc_round piso isof"
  shows "typed ty v \<Longrightarrow> enc v = Inr j \<Longrightarrow> opt_ok dflt v \<Longrightarrow> name \<noteq> noc_field \<Longrightarrow>
      parse_value piso name j ty dflt an False = Inr v"
    and "typed_fields n fds fs \<Longrightarrow> rmap (\<lambda>(f, v). rbind (enc v) (\<lambda>j. Inr (f, j))) fs = Inr d0 \<Longrightarrow>
      (\<forall>(f, j) \<in> set d0. dget d f = Some j) \<Longrightarrow> parse_fields piso n d fds True False = Inr fs"
proof (induction ty v and n fds fs arbitrary: j dflt name an and d0 d rule: typed_typed_fields.induct)
  case (1 v)
  show ?case
  proof (cases "j = JNull")
    case True
    with 1 typed_null(1) [OF laws, of TyAny v] have "v = PNone" by simp
    with 1 True show ?thesis by (auto simp: parse_null opt_ok_def split: option.split)
  next
    case False
    moreover have "\<not> tlv_error j" using 1 plain_no_error [OF laws, of v j] by simp
    moreover have "raw j = v" using 1 raw_enc [OF laws, of v j] by simp
    ultimately show ?thesis by (simp add: parse_any_eq)
  qed
next
  case (2 v)
  then show ?case by (auto simp: parse_null enc_simps [OF laws] opt_ok_def split: option.split)
next
  case (11 n ms v)
  then show ?case by (auto simp: enc_simps [OF laws] parse_enum)
next
  case (12 t v)
  then obtain vs where v: "v = PList vs" "\<forall>w \<in> set vs. typed t w \<and> w \<noteq> PNone" by auto
  with 12(3) obtain js where j: "j = JList js" "rmap enc vs = Inr js"
    by (auto simp: enc_simps [OF laws] rbind_eq_Inr)
  have "rmap (\<lambda>x. parse_value piso name x t None False False) (non_null js) = Inr vs"
    by (rule list_round [OF rmap_InrD [OF j(2)]])
      (use 12(1,5) v typed_null(1) [OF laws, of t] in \<open>auto simp: opt_ok_def\<close>)
  with v j show ?case by (simp add: parse_seq)
next
  case (13 t ts v)
  then obtain vs where v: "v = PTuple vs" "\<forall>w \<in> set vs. typed t w \<and> w \<noteq> PNone" by auto
  with 13(3) obtain js where j: "j = JList js" "rmap enc vs = Inr js"
    by (auto simp: enc_simps [OF laws] rbind_eq_Inr)
  have "rmap (\<lambda>x. parse_value piso name x t None False False) (non_null js) = Inr vs"
    by (rule list_round [OF rmap_InrD [OF j(2)]])
      (use 13(1,5) v typed_null(1) [OF laws, of t] in \<open>auto simp: opt_ok_def\<close>)
  with v j show ?case by (simp add: parse_seq)
next
  case (14 t v)
  then obtain vs where v: "v = PSet vs" "distinct vs"
    "\<forall>w \<in> set vs. typed t w \<and> w \<noteq> PNone \<and> hashable_deep w" by auto
  with 14(3) obtain js where j: "j = JList js" "rmap enc vs = Inr js"
    by (auto simp: enc_simps [OF laws] rbind_eq_Inr)
  have "rmap (\<lambda>x. parse_value piso name x t None False False) (non_null js) = Inr vs"
    by (rule list_round [OF rmap_InrD [OF j(2)]])
      (use 14(1,5) v typed_null(1) [OF laws, of t] in \<open>auto simp: opt_ok_def\<close>)
  with v j show ?case by (simp add: parse_seq make_set_def list_all_iff distinct_remdups_id)
next
  case (15 kt vt v)
  then obtain kvs where v: "v = PDict (map (\<lambda>(k, w). (PStr k, w)) kvs)" "kt = TyStr"
    "distinct (map fst kvs)" "\<forall>(k, w) \<in> set kvs. k \<noteq> noc_field \<and> typed vt w" by auto
  with 15(3) obtain d where d: "j = JObj d"
    "rmap (\<lambda>(k, v). rbind (enc v) (\<lambda>j. Inr (k, j))) kvs = Inr d"
    by (auto simp: enc_simps [OF laws] rbind_eq_Inr)
  have "rmap (\<lambda>(k, w). rbind (parse_value piso k (JStr k) kt None False False) (\<lambda>pk.
         rbind (parse_value piso (k @ u ''.value'') w vt None an False) (\<lambda>pw. Inr (pk, pw)))) d =
      Inr (map (\<lambda>(k, w). (PStr k, w)) kvs)"
    by (rule dict_round [OF pairs_enc [OF d(2)]])
      (use 15(1) v(2,4) value_name in \<open>auto simp: opt_ok_def parse_scalar\<close>)
  moreover have "distinct (map fst (map (\<lambda>(k, w). (PStr k, w :: pv)) kvs))"
  proof -
    have "map fst (map (\<lambda>(k, w). (PStr k, w :: pv)) kvs) = map PStr (map fst kvs)" by auto
    then show ?thesis using v(3) by (simp only: distinct_map) (simp add: inj_on_def)
  qed
  moreover have "\<not> tlv_error (JObj d)" using typed_no_error(1) [OF laws 15(2,3)] d by simp
  ultimately show ?case by (simp add: d(1) v(1) parse_dict_eq fold_dput_id)
next
  case (16 t ts v)
  show ?case
  proof (cases "j = JNull")
    case True
    then have "v = PNone" using typed_null(1) [OF laws 16(2)] 16(3) by blast
    with 16 True show ?thesis
      by (auto simp: parse_union_null opt_ok_def split: option.split)
  next
    case False
    with 16 have "v \<noteq> PNone" by (auto simp: enc_simps [OF laws])
    with 16 have "parse_value piso name j t None an False = Inr v" by (auto simp: opt_ok_def)
    moreover have "\<not> tlv_error j" using typed_no_error(1) [OF laws 16(2,3)] .
    ultimately show ?thesis using False by (simp add: parse_union_eq)
  qed
next
  case (17 n desc fds v)
  then obtain fs where v: "v = PInst n fs" "distinct (map fst fds)" "\<forall>(f, _) \<in> set fds. \<not> is_numeric f"
    "typed_fields n fds fs" by auto
  with 17(3) obtain d where d: "j = JObj d" "rmap (\<lambda>(f, v). rbind (enc v) (\<lambda>j. Inr (f, j))) fs = Inr d"
    by (auto simp: enc_simps [OF laws] rbind_eq_Inr)
  have names: "map fst d = map fst fds"
    using fields_enc [OF d(2)] typed_fields_names [OF v(4)] by simp
  have rel: "relabel (TyClass n desc fds) (JObj d) = JObj d"
    using v(2,3) names by (intro relabel_id) (simp_all only: names set_map [symmetric], auto)
  have "\<forall>(f, j) \<in> set d. dget d f = Some j"
    using v(2) names dget_set [of d] by (auto simp: dict_ok_def)
  with 17(1) v d have "parse_fields piso n d fds True False = Inr fs" by blast
  moreover have "\<not> tlv_error (JObj d)" using typed_no_error(1) [OF laws 17(2,3)] d by simp
  ultimately show ?case using rel by (simp add: v(1) d(1) parse_class_eq)
next
  case (20 n f t dflt fds fs)
  then obtain v rest where fs: "fs = (f, v) # rest" "typed_fields n fds rest" "n @ 46 # f \<noteq> noc_field"
    "v = PNone \<and> dflt = Some PNone \<or> typed t v \<and> opt_ok dflt v" using 20(3) by auto
  with 20 obtain j d1 where d: "enc v = Inr j" "rmap (\<lambda>(f, v). rbind (enc v) (\<lambda>j. Inr (f, j))) rest = Inr d1"
    "d0 = (f, j) # d1" by (auto simp: rbind_eq_Inr)
  have "dget d f = Some j" using 20 d by auto
  moreover have "parse_value piso (n @ 46 # f) j t dflt True False = Inr v"
    using fs(4) 20(1) [OF _ d(1) _ fs(3)] d(1) by (auto simp: enc_simps [OF laws] parse_null)
  moreover have "parse_fields piso n d fds True False = Inr rest"
    using 20 fs d by auto
  ultimately show ?case by (simp add: fs)
qed (auto simp: enc_simps [OF laws] parse_scalar utc_roundD [OF assms(2)])

end
