(* ===== verification/Matter_Util.thy ===== *)
theory Matter_Util
  imports Matter_Parse
begin

text \<open>
  The other helpers of \<open>matter_server/common/helpers\<close>: attribute paths, the two conversions of
  dataclasses to dicts, the conversions of raw addresses to text, package versions, and
  \<open>parse_arguments\<close> of \<open>api.py\<close>.  The lemmas: paths parse back, a tag-keyed struct is relabelled to the
  fields it came from, and \<open>dataclass_to_dict\<close> does not change what is sent.
\<close>

section \<open>Attribute paths\<close>

fun split_on :: "nat \<Rightarrow> pystr \<Rightarrow> pystr list" where
  "split_on c [] = [[]]"
| "split_on c (x # xs) = (if x = c then [] # split_on c xs
     else (case split_on c xs of [] \<Rightarrow> [[x]] | p # ps \<Rightarrow> (x # p) # ps))"

lemma split_on_sep: "c \<notin> set p \<Longrightarrow> split_on c (p @ c # s) = p # split_on c s"
  by (induction p) auto

lemma split_on_none: "c \<notin> set p \<Longrightarrow> split_on c p = [p]"
  by (induction p) auto

definition path_part :: "int option \<Rightarrow> pystr" where
  "path_part p = (case p of None \<Rightarrow> u ''None'' | Some i \<Rightarrow> dec_int i)"

definition create_attribute_path :: "int option \<Rightarrow> int option \<Rightarrow> int option \<Rightarrow> pystr" where
  "create_attribute_path endpoint cluster attribute =
     path_part endpoint @ 47 # path_part cluster @ 47 # path_part attribute"

definition create_attribute_path_from_attribute :: "int \<Rightarrow> int \<times> int \<Rightarrow> pystr" where
  "create_attribute_path_from_attribute endpoint attribute =
     create_attribute_path (Some endpoint) (Some (fst attribute)) (Some (snd attribute))"

definition parse_part :: "pystr \<Rightarrow> int option" where
  "parse_part s = (if is_numeric s then Some (int_of s) else None)"

definition parse_attribute_path :: "pystr \<Rightarrow> (int option \<times> int option \<times> int option) res" where
  "parse_attribute_path path = (case split_on 47 path of
       [e, c, a] \<Rightarrow> Inr (parse_part e, parse_part c, parse_part a)
     | _ \<Rightarrow> Inl ValueError)"

lemma path_part_no_slash: "47 \<notin> set (path_part p)"
proof
  assume "47 \<in> set (path_part p)"
  then obtain n where "47 \<in> set (dec n)" by (auto simp: path_part_def dec_int_def split: option.splits if_splits)
  then have "is_digit 47" by (rule dec_digits)
  then show False by (simp add: is_digit_def)
qed

lemma none_not_numeric: "\<not> is_numeric (u ''None'')"
  by (simp add: is_numeric_def is_digit_def)

lemma parse_path_part: "(\<forall>i. p = Some i \<longrightarrow> 0 \<le> i) \<Longrightarrow> parse_part (path_part p) = p"
  using none_not_numeric by (cases p) (auto simp: path_part_def parse_part_def dec_int_def)

lemma parse_created_path:
  assumes "\<forall>i \<in> set_option e \<union> set_option c \<union> set_option a. 0 \<le> i"
  shows "parse_attribute_path (create_attribute_path e c a) = Inr (e, c, a)"
proof -
  have "split_on 47 (create_attribute_path e c a) = [path_part e, path_part c, path_part a]"
    by (simp add: create_attribute_path_def split_on_sep split_on_none path_part_no_slash)
  with assms show ?thesis by (simp add: parse_attribute_path_def parse_path_part)
qed

section \<open>Dataclasses to dicts\<close>

fun dataclass_to_dict :: "pv \<Rightarrow> pv" where
  "dataclass_to_dict (PInst n fs) = PDict (map (\<lambda>(f, v). (PStr f, dataclass_to_dict v)) fs)"
| "dataclass_to_dict (PList vs) = PList (map dataclass_to_dict vs)"
| "dataclass_to_dict (PTuple vs) = PTuple (map dataclass_to_dict vs)"
| "dataclass_to_dict (PDict kvs) = PDict (map (\<lambda>(k, v). (dataclass_to_dict k, dataclass_to_dict v)) kvs)"
| "dataclass_to_dict v = v"

text \<open>\<open>getattr(type(obj_in), "descriptor", None)\<close> is the argument \<open>descr\<close>.\<close>

definition tag_key :: "descriptor option \<Rightarrow> pystr \<Rightarrow> pystr" where
  "tag_key desc f = (case desc of None \<Rightarrow> f
     | Some d \<Rightarrow> (case find (\<lambda>(label, _). label = f) d of
         Some (_, Some tag) \<Rightarrow> dec_int tag
       | _ \<Rightarrow> f))"

fun dataclass_to_tag_dict :: "(pystr \<Rightarrow> descriptor option) \<Rightarrow> pv \<Rightarrow> pv" where
  "dataclass_to_tag_dict descr (PInst n fs) =
     PDict (fold (\<lambda>(k, v). dput k v)
       (map (\<lambda>(f, v). (PStr (tag_key (descr n) f), dataclass_to_tag_dict descr v))
         (filter (\<lambda>(_, v). v \<noteq> PNone) fs)) [])"
| "dataclass_to_tag_dict descr (PList vs) = PList (map (dataclass_to_tag_dict descr) vs)"
| "dataclass_to_tag_dict descr (PTuple vs) = PList (map (dataclass_to_tag_dict descr) vs)"
| "dataclass_to_tag_dict descr (PDict kvs) = PDict (map (\<lambda>(k, v). (k, dataclass_to_tag_dict descr v)) kvs)"
| "dataclass_to_tag_dict descr v = v"

section \<open>Addresses and versions\<close>

definition hex_digit :: "nat \<Rightarrow> nat" where
  "hex_digit n = (if n < 10 then 48 + n else 87 + n)"

text \<open>\<open>f"{byte:02x}"\<close>\<close>

definition hex2 :: "byte \<Rightarrow> pystr" where
  "hex2 b = [hex_digit (unat b div 16), hex_digit (unat b mod 16)]"

text \<open>The argument is a string (\<open>Inl\<close>, base64) or bytes (\<open>Inr\<close>).\<close>

definition raw_bytes :: "pystr + byte list \<Rightarrow> byte list res" where
  "raw_bytes v = (case v of Inl s \<Rightarrow> b64decode False s | Inr bs \<Rightarrow> Inr bs)"

definition convert_hex_string :: "pystr + byte list \<Rightarrow> pystr res" where
  "convert_hex_string v = rbind (raw_bytes v) (\<lambda>bs. Inr (concat (map hex2 bs)))"

fun join_with :: "pystr \<Rightarrow> pystr list \<Rightarrow> pystr" where
  "join_with sep [] = []"
| "join_with sep [x] = x"
| "join_with sep (x # xs) = x @ sep @ join_with sep xs"

definition convert_mac_address :: "pystr + byte list \<Rightarrow> pystr res" where
  "convert_mac_address v = rbind (raw_bytes v) (\<lambda>bs. Inr (join_with [58] (map hex2 bs)))"

text \<open>
  \<open>socket.inet_ntop\<close>: four bytes as decimal numbers with dots; the text of sixteen bytes is the
  argument \<open>ntop6\<close>; any other length is a ValueError.
\<close>

definition convert_ip_address :: "(byte list \<Rightarrow> pystr) \<Rightarrow> pystr + byte list \<Rightarrow> bool \<Rightarrow> pystr res" where
  "convert_ip_address ntop6 v ipv6 = rbind (raw_bytes v) (\<lambda>bs.
     if ipv6 then if length bs = 16 then Inr (ntop6 bs) else Inl ValueError
     else if length bs = 4 then Inr (join_with [46] (map (\<lambda>b. dec (unat b)) bs)) else Inl ValueError)"

text \<open>\<open>lookup\<close> is \<open>importlib.metadata.version\<close>: \<open>None\<close> when the package is not installed.\<close>

definition package_version :: "(pystr \<Rightarrow> pystr option option) \<Rightarrow> pystr \<Rightarrow> pystr" where
  "package_version lookup name = (case lookup name of Some (Some v) \<Rightarrow> v | _ \<Rightarrow> u ''0.0.0'')"

definition chip_clusters_version :: "(pystr \<Rightarrow> pystr option option) \<Rightarrow> pystr" where
  "chip_clusters_version lookup = package_version lookup (u ''home-assistant-chip-clusters'')"

definition chip_core_version :: "(pystr \<Rightarrow> pystr option option) \<Rightarrow> pystr \<Rightarrow> pystr" where
  "chip_core_version lookup system =
     (if system = u ''Darwin'' then chip_clusters_version lookup
      else package_version lookup (u ''home-assistant-chip-core''))"

section \<open>Entry points of the parser\<close>

text \<open>\<open>dataclass_from_dict(cls, d, strict, allow_sdk_types)\<close>\<close>

definition dataclass_from_dict ::
    "(pystr \<Rightarrow> pydatetime res) \<Rightarrow> ptype \<Rightarrow> json \<Rightarrow> bool \<Rightarrow> bool \<Rightarrow> pv res" where
  "dataclass_from_dict piso cls dict_obj strict sdk = (case (cls, dict_obj) of
       (TyClass n _ fds, JObj d) \<Rightarrow>
         if strict \<and> \<not> fst ` set d \<subseteq> fst ` set fds then Inl KeyError
         else rbind (parse_fields piso n d fds (\<not> strict) sdk) (\<lambda>fs. Inr (PInst n fs))
     | (TyClass n _ [], _) \<Rightarrow> if strict then Inl AttributeError else Inr (PInst n [])
     | (TyClass _ _ _, _) \<Rightarrow> Inl AttributeError
     | _ \<Rightarrow> Inl TypeError)"

text \<open>\<open>parse_arguments\<close>: the parameters of the signature with their types and defaults.\<close>

definition parse_arguments ::
    "(pystr \<Rightarrow> pydatetime res) \<Rightarrow> (pystr \<times> ptype \<times> pv option) list \<Rightarrow> (pystr \<times> json) list option \<Rightarrow> bool
       \<Rightarrow> (pystr \<times> pv) list res" where
  "parse_arguments piso params args strict =
     (let d = (case args of None \<Rightarrow> [] | Some d \<Rightarrow> d) in
      if strict \<and> (\<exists>k \<in> fst ` set d. k \<notin> fst ` set params) then Inl KeyError
      else rmap (\<lambda>(name, ty, dflt).
          rbind (parse_value piso name (case dget d name of None \<Rightarrow> JNull | Some w \<Rightarrow> w) ty dflt False False)
            (\<lambda>w. Inr (name, w))) params)"

text \<open>The path string of an attribute parses back to the endpoint, cluster and attribute ids it was made of, where None stands for a wildcard.\<close>

theorem attribute_path_roundtrip:
  assumes "\<forall>i \<in> set_option e \<union> set_option c \<union> set_option a. 0 \<le> i"
  shows "parse_attribute_path (create_attribute_path e c a) = Inr (e, c, a)"
  using assms by (rule parse_created_path)

theorem attribute_path_roundtrip_witness:
  "parse_attribute_path (create_attribute_path (Some 1) None (Some 65533)) = Inr (Some 1, None, Some 65533)"
  by (rule attribute_path_roundtrip) simp

section \<open>Tags and labels\<close>

text \<open>A descriptor that names every field by one tag.\<close>

definition descriptor_ok :: "descriptor \<Rightarrow> pystr list \<Rightarrow> bool" where
  "descriptor_ok desc names \<longleftrightarrow> distinct (map fst desc) \<and> distinct (map snd desc) \<and>
     (\<forall>f \<in> set names. \<exists>tag. (f, Some tag) \<in> set desc \<and> 0 \<le> tag)"

lemma find_unique: "distinct (map fst d) \<Longrightarrow> (f, x) \<in> set d \<Longrightarrow> find (\<lambda>(l, _). l = f) d = Some (f, x)"
  by (induction d) (auto simp: rev_image_eqI)

lemma find_unique_snd: "distinct (map snd d) \<Longrightarrow> (f, x) \<in> set d \<Longrightarrow> find (\<lambda>(_, t). t = x) d = Some (f, x)"
  by (induction d) (auto simp: rev_image_eqI)

lemma tag_key_label:
  assumes "descriptor_ok desc names" "f \<in> set names"
  shows "get_descriptor_key desc (tag_key (Some desc) f) = f"
proof -
  obtain tag where t: "(f, Some tag) \<in> set desc" "0 \<le> tag"
    using assms by (auto simp: descriptor_ok_def)
  have d: "distinct (map fst desc)" "distinct (map snd desc)" using assms by (simp_all add: descriptor_ok_def)
  have "tag_key (Some desc) f = dec (nat tag)"
    using find_unique [OF d(1) t(1)] t(2) by (simp add: tag_key_def dec_int_def)
  moreover have "field_by_tag desc tag = Some f"
    using find_unique_snd [OF d(2) t(1)] by (simp add: field_by_tag_def)
  ultimately show ?thesis using t(2) by (simp add: get_descriptor_key_def)
qed

lemma tag_key_inj:
  "descriptor_ok desc names \<Longrightarrow> inj_on (tag_key (Some desc)) (set names)"
  by (rule inj_on_inverseI [of _ "get_descriptor_key desc"]) (rule tag_key_label)

lemma tag_dict_struct:
  assumes "descr n = Some desc" "descriptor_ok desc (map fst fs)" "distinct (map fst fs)"
  shows "dataclass_to_tag_dict descr (PInst n fs) =
    PDict (map (\<lambda>(f, v). (PStr (tag_key (Some desc) f), dataclass_to_tag_dict descr v)) (filter (\<lambda>(_, v). v \<noteq> PNone) fs))"
proof -
  let ?fs = "filter (\<lambda>(_, v). v \<noteq> PNone) fs"
  have "map fst (map (\<lambda>(f, v). (PStr (tag_key (Some desc) f), dataclass_to_tag_dict descr v)) ?fs)
      = map (\<lambda>f. PStr (tag_key (Some desc) f)) (map fst ?fs)" by auto
  moreover have "distinct (map fst ?fs)" using assms(3) by (rule distinct_map_filter)
  moreover have "inj_on (\<lambda>f. PStr (tag_key (Some desc) f)) (set (map fst ?fs))"
    using tag_key_inj [OF assms(2)] by (auto simp: inj_on_def)
  ultimately have "distinct (map fst (map (\<lambda>(f, v). (PStr (tag_key (Some desc) f), dataclass_to_tag_dict descr v)) ?fs))"
    by (simp only: distinct_map)
  then show ?thesis by (simp add: fold_dput_id assms(1))
qed

lemma fold_relabel:
  "fold (\<lambda>(k, w). dput (g k) w) d acc = fold (\<lambda>(k, w). dput k w) (map (\<lambda>(k, w). (g k, w)) d) acc"
  by (induction d arbitrary: acc) auto

lemma tag_dict_json:
  assumes "descr n = Some desc" "descriptor_ok desc (map fst fs)" "distinct (map fst fs)"
  shows "relabel (TyClass n (Some desc) fds) (encode isof (dataclass_to_tag_dict descr (PInst n fs))) =
    JObj (map (\<lambda>(f, v). (f, encode isof (dataclass_to_tag_dict descr v))) (filter (\<lambda>(_, v). v \<noteq> PNone) fs))"
proof -
  define gs where "gs = filter (\<lambda>(_, v). v \<noteq> PNone) fs"
  define d where "d = map (\<lambda>(f, v). (tag_key (Some desc) f, encode isof (dataclass_to_tag_dict descr v))) gs"
  have gs: "distinct (map fst gs)" "set (map fst gs) \<subseteq> set (map fst fs)"
    using distinct_map_filter [OF assms(3)] by (auto simp: gs_def)
  have "encode isof (dataclass_to_tag_dict descr (PInst n fs)) = JObj d"
    using tag_dict_struct [of descr n desc fs, OF assms] by (simp add: d_def gs_def case_prod_beta)
  moreover have "map (\<lambda>(k, w). (get_descriptor_key desc k, w)) d =
      map (\<lambda>(f, v). (f, encode isof (dataclass_to_tag_dict descr v))) gs"
  proof -
    have "get_descriptor_key desc (tag_key (Some desc) f) = f" if "(f, v) \<in> set gs" for f v
      using gs(2) that by (intro tag_key_label [OF assms(2)]) force
    then show ?thesis by (auto simp: d_def)
  qed
  moreover have "distinct (map fst (map (\<lambda>(f, v). (f, encode isof (dataclass_to_tag_dict descr v))) gs))"
    using gs(1) by (simp add: case_prod_beta comp_def)
  ultimately show ?thesis
    by (simp add: relabel_def type_descriptor_def fold_relabel [of "get_descriptor_key desc"] fold_dput_id gs_def)
qed

text \<open>C33: A struct value written by tag, as write_attribute sends it, is encoded when it is within orjson's documented limits, and reads back under the labels: relabelling the JSON object of its tag dict gives exactly its fields that are not None, in order, each with the JSON that orjson writes for its value.\<close>

theorem tag_dict_relabelled:
  assumes "orjson_laws isof enc" "descr n = Some desc" "descriptor_ok desc (map fst fs)" "distinct (map fst fs)"
    and "orjson_domain (dataclass_to_tag_dict descr (PInst n fs))"
  shows "\<exists>j js. enc (dataclass_to_tag_dict descr (PInst n fs)) = Inr j \<and>
     rmap (\<lambda>(_, v). enc (dataclass_to_tag_dict descr v)) (filter (\<lambda>(_, v). v \<noteq> PNone) fs) = Inr js \<and>
     relabel (TyClass n (Some desc) fds) j = JObj (zip (map fst (filter (\<lambda>(_, v). v \<noteq> PNone) fs)) js)"
proof -
  define gs where "gs = filter (\<lambda>(_, v). v \<noteq> PNone) fs"
  have "sendable 254 (dataclass_to_tag_dict descr (PInst n fs))" using assms(5) by (simp add: orjson_domain_def)
  then have "\<forall>(f, v) \<in> set gs. sendable 253 (dataclass_to_tag_dict descr v)"
    using tag_dict_struct [of descr n desc fs, OF assms(2-4)] by (auto simp: gs_def list_all_iff)
  then have "rmap (\<lambda>(_, v). enc (dataclass_to_tag_dict descr v)) gs =
      Inr (map (\<lambda>(f, v). encode isof (dataclass_to_tag_dict descr v)) gs)"
    by (intro rmap_all_Inr) (auto intro!: orjson_encodes [OF assms(1)])
  moreover have "zip (map fst gs) (map (\<lambda>(f, v). encode isof (dataclass_to_tag_dict descr v)) gs) =
      map (\<lambda>(f, v). (f, encode isof (dataclass_to_tag_dict descr v))) gs"
    by (induction gs) auto
  ultimately show ?thesis
    using orjson_encodes [OF assms(1) assms(5) [unfolded orjson_domain_def]] tag_dict_json [of descr n desc fs, OF assms(2-4)]
    by (auto simp: gs_def)
qed

theorem tag_dict_relabelled_witness:
  "\<exists>j. bounded_encoder (\<lambda>d. []) (dataclass_to_tag_dict (\<lambda>_. Some [(u ''cluster'', Some 0), (u ''endpoint'', Some 1)])
        (PInst (u ''Target'') [(u ''cluster'', PInt 6), (u ''endpoint'', PNone)])) = Inr j \<and>
    relabel (TyClass (u ''Target'') (Some [(u ''cluster'', Some 0), (u ''endpoint'', Some 1)]) []) j =
      JObj [(u ''cluster'', JInt 6)]"
proof -
  let ?desc = "[(u ''cluster'', Some 0), (u ''endpoint'', Some 1)] :: descriptor"
  let ?fs = "[(u ''cluster'', PInt 6), (u ''endpoint'', PNone)]"
  have "descriptor_ok ?desc (map fst ?fs)" "distinct (map fst ?fs)" by (simp_all add: descriptor_ok_def)
  moreover have "orjson_domain (dataclass_to_tag_dict (\<lambda>_. Some ?desc) (PInst (u ''Target'') ?fs))"
    by (simp add: orjson_domain_def tag_key_def dec_int_def dec.simps dput_def scalar_def int_64_def)
  ultimately have "\<exists>j js. bounded_encoder (\<lambda>d. []) (dataclass_to_tag_dict (\<lambda>_. Some ?desc) (PInst (u ''Target'') ?fs)) = Inr j \<and>
     rmap (\<lambda>(_, v). bounded_encoder (\<lambda>d. []) (dataclass_to_tag_dict (\<lambda>_. Some ?desc) v)) (filter (\<lambda>(_, v). v \<noteq> PNone) ?fs) = Inr js \<and>
     relabel (TyClass (u ''Target'') (Some ?desc) []) j = JObj (zip (map fst (filter (\<lambda>(_, v). v \<noteq> PNone) ?fs)) js)"
    by (intro tag_dict_relabelled [OF bounded_encoder_laws]) simp_all
  then show ?thesis
    by (auto simp: bounded_encoder_def orjson_domain_def int_64_def simp del: u_simps split: if_splits)
qed

end
