(* ===== verification/Matter_Models.thy ===== *)
theory Matter_Models
  imports Matter_Util
begin

text \<open>
  The messages and results of \<open>matter_server/common/models.py\<close> as types of the parser, one
  definition per class in the order of the file (a class after those its fields use), and
  \<open>parse_message\<close> of \<open>matter_server/client/connection.py\<close>, which tells the messages apart by
  their keys.  A field with a \<open>default_factory\<close> has no \<open>default\<close> for the parser.
\<close>

section \<open>The classes\<close>

definition members_EventType :: "json list" where
  "members_EventType =
    [JStr (u ''node_added''),
     JStr (u ''node_updated''),
     JStr (u ''node_removed''),
     JStr (u ''node_event''),
     JStr (u ''attribute_updated''),
     JStr (u ''server_shutdown''),
     JStr (u ''server_info_updated''),
     JStr (u ''endpoint_added''),
     JStr (u ''endpoint_removed''),
     JStr (u ''webrtc_callback''),
     JStr (u ''thread_diagnostics_updated''),
     JStr (u ''network_topology_updated'')]"

definition ty_EventType :: ptype where
  "ty_EventType = TyEnum (u ''EventType'') members_EventType"

definition members_APICommand :: "json list" where
  "members_APICommand =
    [JStr (u ''start_listening''),
     JStr (u ''diagnostics''),
     JStr (u ''server_info''),
     JStr (u ''get_nodes''),
     JStr (u ''get_node''),
     JStr (u ''commission_with_code''),
     JStr (u ''commission_on_network''),
     JStr (u ''set_wifi_credentials''),
     JStr (u ''set_thread_dataset''),
     JStr (u ''remove_wifi_credentials''),
     JStr (u ''remove_thread_dataset''),
     JStr (u ''open_commissioning_window''),
     JStr (u ''discover''),
     JStr (u ''interview_node''),
     JStr (u ''device_command''),
     JStr (u ''remove_node''),
     JStr (u ''get_vendor_names''),
     JStr (u ''read_attribute''),
     JStr (u ''write_attribute''),
     JStr (u ''ping_node''),
     JStr (u ''get_node_ip_addresses''),
     JStr (u ''import_test_node''),
     JStr (u ''check_node_update''),
     JStr (u ''update_node''),
     JStr (u ''set_default_fabric_label''),
     JStr (u ''get_fabric_label''),
     JStr (u ''set_acl_entry''),
     JStr (u ''set_node_binding''),
     JStr (u ''send_webrtc_provider_command''),
     JStr (u ''get_all_credentials''),
     JStr (u ''get_thread_border_routers''),
     JStr (u ''get_thread_diagnostics''),
     JStr (u ''get_icd_state''),
     JStr (u ''register_icd''),
     JStr (u ''resync_icd''),
     JStr (u ''unregister_icd''),
     JStr (u ''get_network_topology''),
     JStr (u ''initiate_ota_upload'')]"

definition ty_APICommand :: ptype where
  "ty_APICommand = TyEnum (u ''APICommand'') members_APICommand"

definition ty_VendorInfo :: ptype where
  "ty_VendorInfo = TyClass (u ''VendorInfo'') None
    [(u ''vendor_id'', TyInt, None),
     (u ''vendor_name'', TyStr, None),
     (u ''company_legal_name'', TyStr, None),
     (u ''company_preferred_name'', TyStr, None),
     (u ''vendor_landing_page_url'', TyStr, None),
     (u ''creator'', TyStr, None)]"

definition ty_MatterNodeData :: ptype where
  "ty_MatterNodeData = TyClass (u ''MatterNodeData'') None
    [(u ''node_id'', TyInt, None),
     (u ''date_commissioned'', TyDatetime, None),
     (u ''last_interview'', TyDatetime, None),
     (u ''interview_version'', TyInt, None),
     (u ''available'', TyBool, Some (PBool False)),
     (u ''is_bridge'', TyBool, Some (PBool False)),
     (u ''attributes'', (TyDict TyStr TyAny), None),
     (u ''attribute_subscriptions'', (TySet (TyTuple (TyUnion [TyInt, TyNone]) [(TyUnion [TyInt, TyNone]), (TyUnion [TyInt, TyNone])])), None)]"

definition ty_MatterNodeEvent :: ptype where
  "ty_MatterNodeEvent = TyClass (u ''MatterNodeEvent'') None
    [(u ''node_id'', TyInt, None),
     (u ''endpoint_id'', TyInt, None),
     (u ''cluster_id'', TyInt, None),
     (u ''event_id'', TyInt, None),
     (u ''event_number'', TyInt, None),
     (u ''priority'', TyInt, None),
     (u ''timestamp'', TyInt, None),
     (u ''timestamp_type'', TyInt, None),
     (u ''data'', (TyUnion [(TyDict TyStr TyAny), TyNone]), None)]"

definition ty_WebRTCIceCandidate :: ptype where
  "ty_WebRTCIceCandidate = TyClass (u ''WebRTCIceCandidate'') None
    [(u ''candidate'', TyStr, None),
     (u ''sdpMid'', (TyUnion [TyStr, TyNone]), Some PNone),
     (u ''sdpMLineIndex'', (TyUnion [TyInt, TyNone]), Some PNone)]"

definition ty_WebRTCCallbackData :: ptype where
  "ty_WebRTCCallbackData = TyClass (u ''WebRTCCallbackData'') None
    [(u ''event_type'', TyLiteral, None),
     (u ''webrtc_session_id'', TyInt, None),
     (u ''node_id'', TyInt, None),
     (u ''endpoint_id'', TyInt, None),
     (u ''fabric_index'', TyInt, None),
     (u ''data'', (TyUnion [TyBareDict, TyNone]), None)]"

definition ty_ServerInfoMessage :: ptype where
  "ty_ServerInfoMessage = TyClass (u ''ServerInfoMessage'') None
    [(u ''fabric_id'', TyInt, None),
     (u ''compressed_fabric_id'', TyInt, None),
     (u ''schema_version'', TyInt, None),
     (u ''min_supported_schema_version'', TyInt, None),
     (u ''sdk_version'', TyStr, None),
     (u ''wifi_credentials_set'', TyBool, None),
     (u ''thread_credentials_set'', TyBool, None),
     (u ''bluetooth_enabled'', TyBool, None),
     (u ''wifi_ssid'', (TyUnion [TyStr, TyNone]), Some PNone),
     (u ''ble_proxy_enabled'', TyBool, Some (PBool False))]"

definition ty_ServerDiagnostics :: ptype where
  "ty_ServerDiagnostics = TyClass (u ''ServerDiagnostics'') None
    [(u ''info'', ty_ServerInfoMessage, None),
     (u ''nodes'', (TyList ty_MatterNodeData), None),
     (u ''events'', (TyList TyBareDict), None)]"

definition ty_CommandMessage :: ptype where
  "ty_CommandMessage = TyClass (u ''CommandMessage'') None
    [(u ''message_id'', TyStr, None),
     (u ''command'', TyStr, None),
     (u ''args'', (TyUnion [(TyDict TyStr TyAny), TyNone]), Some PNone)]"

definition ty_ResultMessageBase :: ptype where
  "ty_ResultMessageBase = TyClass (u ''ResultMessageBase'') None
    [(u ''message_id'', TyStr, None)]"

definition ty_SuccessResultMessage :: ptype where
  "ty_SuccessResultMessage = TyClass (u ''SuccessResultMessage'') None
    [(u ''message_id'', TyStr, None),
     (u ''result'', TyAny, None)]"

definition ty_ErrorResultMessage :: ptype where
  "ty_ErrorResultMessage = TyClass (u ''ErrorResultMessage'') None
    [(u ''message_id'', TyStr, None),
     (u ''error_code'', TyInt, None),
     (u ''details'', (TyUnion [TyStr, TyNone]), Some PNone)]"

definition ty_EventMessage :: ptype where
  "ty_EventMessage = TyClass (u ''EventMessage'') None
    [(u ''event'', (TyUnion [ty_EventType, TyStr]), None),
     (u ''data'', TyAny, None)]"

definition ty_CommissionableNodeData :: ptype where
  "ty_CommissionableNodeData = TyClass (u ''CommissionableNodeData'') None
    [(u ''instance_name'', (TyUnion [TyStr, TyNone]), Some PNone),
     (u ''host_name'', (TyUnion [TyStr, TyNone]), Some PNone),
     (u ''port'', (TyUnion [TyInt, TyNone]), Some PNone),
     (u ''long_discriminator'', (TyUnion [TyInt, TyNone]), Some PNone),
     (u ''vendor_id'', (TyUnion [TyInt, TyNone]), Some PNone),
     (u ''product_id'', (TyUnion [TyInt, TyNone]), Some PNone),
     (u ''commissioning_mode'', (TyUnion [TyInt, TyNone]), Some PNone),
     (u ''device_type'', (TyUnion [TyInt, TyNone]), Some PNone),
     (u ''device_name'', (TyUnion [TyStr, TyNone]), Some PNone),
     (u ''pairing_instruction'', (TyUnion [TyStr, TyNone]), Some PNone),
     (u ''pairing_hint'', (TyUnion [TyInt, TyNone]), Some PNone),
     (u ''mrp_retry_interval_idle'', (TyUnion [TyInt, TyNone]), Some PNone),
     (u ''mrp_retry_interval_active'', (TyUnion [TyInt, TyNone]), Some PNone),
     (u ''supports_tcp'', (TyUnion [TyBool, TyNone]), Some PNone),
     (u ''addresses'', (TyUnion [(TyList TyStr), TyNone]), Some PNone),
     (u ''rotating_id'', (TyUnion [TyStr, TyNone]), Some PNone)]"

definition ty_CommissioningParameters :: ptype where
  "ty_CommissioningParameters = TyClass (u ''CommissioningParameters'') None
    [(u ''setup_pin_code'', TyInt, None),
     (u ''setup_manual_code'', TyStr, None),
     (u ''setup_qr_code'', TyStr, None)]"

definition ty_IcdStateData :: ptype where
  "ty_IcdStateData = TyClass (u ''IcdStateData'') None
    [(u ''supported'', TyBool, None),
     (u ''lit_supported'', TyBool, None),
     (u ''registered'', TyBool, None),
     (u ''operating_mode'', (TyUnion [TyStr, TyNone]), None),
     (u ''awake'', (TyUnion [TyBool, TyNone]), None),
     (u ''available'', (TyUnion [TyBool, TyNone]), None),
     (u ''next_expected_checkin'', (TyUnion [TyInt, TyNone]), None)]"

definition ty_TopologyDirectionInfo :: ptype where
  "ty_TopologyDirectionInfo = TyClass (u ''TopologyDirectionInfo'') None
    [(u ''strength'', TyStr, None),
     (u ''lqi'', (TyUnion [TyInt, TyNone]), Some PNone),
     (u ''rssi'', (TyUnion [TyInt, TyNone]), Some PNone)]"

definition ty_NetworkTopologyNode :: ptype where
  "ty_NetworkTopologyNode = TyClass (u ''NetworkTopologyNode'') None
    [(u ''id'', TyStr, None),
     (u ''kind'', TyStr, None),
     (u ''network_type'', TyStr, None),
     (u ''node_id'', (TyUnion [TyInt, TyNone]), Some PNone),
     (u ''role'', (TyUnion [TyStr, TyNone]), Some PNone),
     (u ''available'', (TyUnion [TyBool, TyNone]), Some PNone),
     (u ''is_bridge'', (TyUnion [TyBool, TyNone]), Some PNone),
     (u ''ext_address'', (TyUnion [TyStr, TyNone]), Some PNone),
     (u ''rloc16'', (TyUnion [TyInt, TyNone]), Some PNone),
     (u ''ext_pan_id'', (TyUnion [TyStr, TyNone]), Some PNone),
     (u ''network_name'', (TyUnion [TyStr, TyNone]), Some PNone),
     (u ''vendor_name'', (TyUnion [TyStr, TyNone]), Some PNone),
     (u ''model_name'', (TyUnion [TyStr, TyNone]), Some PNone),
     (u ''last_seen'', (TyUnion [TyInt, TyNone]), Some PNone)]"

definition ty_NetworkTopologyConnection :: ptype where
  "ty_NetworkTopologyConnection = TyClass (u ''NetworkTopologyConnection'') None
    [(u ''source'', TyStr, None),
     (u ''target'', TyStr, None),
     (u ''network'', TyStr, None),
     (u ''strength'', TyStr, None),
     (u ''source_to_target'', (TyUnion [ty_TopologyDirectionInfo, TyNone]), Some PNone),
     (u ''target_to_source'', (TyUnion [ty_TopologyDirectionInfo, TyNone]), Some PNone),
     (u ''via_route_table'', (TyUnion [TyBool, TyNone]), Some PNone),
     (u ''path_cost'', (TyUnion [TyInt, TyNone]), Some PNone)]"

definition ty_NetworkTopology :: ptype where
  "ty_NetworkTopology = TyClass (u ''NetworkTopology'') None
    [(u ''collected_at'', TyInt, None),
     (u ''nodes'', (TyList ty_NetworkTopologyNode), None),
     (u ''connections'', (TyList ty_NetworkTopologyConnection), None)]"

definition members_UpdateSource :: "json list" where
  "members_UpdateSource =
    [JStr (u ''main-net-dcl''),
     JStr (u ''test-net-dcl''),
     JStr (u ''local'')]"

definition ty_UpdateSource :: ptype where
  "ty_UpdateSource = TyEnum (u ''UpdateSource'') members_UpdateSource"

definition ty_OtaUploadTicket :: ptype where
  "ty_OtaUploadTicket = TyClass (u ''OtaUploadTicket'') None
    [(u ''upload_id'', TyStr, None),
     (u ''expires_in'', TyInt, None),
     (u ''max_size'', TyInt, None)]"

definition ty_MatterSoftwareVersion :: ptype where
  "ty_MatterSoftwareVersion = TyClass (u ''MatterSoftwareVersion'') None
    [(u ''vid'', TyInt, None),
     (u ''pid'', TyInt, None),
     (u ''software_version'', TyInt, None),
     (u ''software_version_string'', TyStr, None),
     (u ''firmware_information'', (TyUnion [TyStr, TyNone]), None),
     (u ''min_applicable_software_version'', TyInt, None),
     (u ''max_applicable_software_version'', TyInt, None),
     (u ''release_notes_url'', (TyUnion [TyStr, TyNone]), None),
     (u ''update_source'', ty_UpdateSource, None)]"

section \<open>Software versions\<close>

definition software_fields :: "pystr list" where
  "software_fields = [u ''vid'', u ''pid'', u ''software_version'', u ''software_version_string'',
     u ''firmware_information'', u ''min_applicable_software_version'',
     u ''max_applicable_software_version'', u ''release_notes_url'']"

text \<open>\<open>UpdateSource(v)\<close>\<close>

definition update_source :: "json \<Rightarrow> pv res" where
  "update_source v = (if v \<in> set members_UpdateSource then Inr (PEnum (u ''UpdateSource'') v) else Inl ValueError)"

definition software_from_dict :: "json \<Rightarrow> pv res" where
  "software_from_dict data =
     rbind (rmap (\<lambda>k. rbind (jindex data k) (\<lambda>v. Inr (k, raw v))) software_fields) (\<lambda>fs.
     rbind (jindex data (u ''update_source'')) (\<lambda>s.
     rbind (update_source s) (\<lambda>e.
       Inr (PInst (u ''MatterSoftwareVersion'') (fs @ [(u ''update_source'', e)])))))"

text \<open>The attributes as a dict, the enum member by its value.\<close>

definition software_as_dict :: "(pystr \<times> pv) list \<Rightarrow> (pv \<times> pv) list res" where
  "software_as_dict fs =
     rbind (rmap (\<lambda>k. case dget fs k of None \<Rightarrow> Inl AttributeError | Some v \<Rightarrow> Inr (PStr k, v)) software_fields) (\<lambda>kvs.
     case dget fs (u ''update_source'') of
       Some (PEnum _ v) \<Rightarrow> Inr (kvs @ [(PStr (u ''update_source''), raw v)])
     | _ \<Rightarrow> Inl AttributeError)"

section \<open>Messages\<close>

text \<open>\<open>k in raw\<close>\<close>

definition jcontains :: "json \<Rightarrow> pystr \<Rightarrow> bool res" where
  "jcontains raw_msg k = (case raw_msg of
       JObj d \<Rightarrow> Inr (dget d k \<noteq> None)
     | JList l \<Rightarrow> Inr (JStr k \<in> set l)
     | JStr s \<Rightarrow> Inr (\<exists>i \<le> length s. take (length k) (drop i s) = k)
     | _ \<Rightarrow> Inl TypeError)"

definition parse_message :: "(pystr \<Rightarrow> pydatetime res) \<Rightarrow> json \<Rightarrow> pv res" where
  "parse_message piso msg =
     rbind (jcontains msg (u ''event'')) (\<lambda>b.
     if b then dataclass_from_dict piso ty_EventMessage msg False False else
     rbind (jcontains msg (u ''error_code'')) (\<lambda>b.
     if b then dataclass_from_dict piso ty_ErrorResultMessage msg False False else
     rbind (jcontains msg (u ''result'')) (\<lambda>b.
     if b then dataclass_from_dict piso ty_SuccessResultMessage msg False False else
     rbind (jcontains msg (u ''sdk_version'')) (\<lambda>b.
     if b then dataclass_from_dict piso ty_ServerInfoMessage msg False False
     else dataclass_from_dict piso ty_CommandMessage msg False False))))"

lemmas message_types = ty_EventMessage_def ty_ErrorResultMessage_def ty_SuccessResultMessage_def
  ty_ServerInfoMessage_def ty_CommandMessage_def

lemma dataclass_from_obj:
  "dataclass_from_dict piso (TyClass n desc fds) (JObj d) False sdk =
     rbind (parse_fields piso n d fds True sdk) (\<lambda>fs. Inr (PInst n fs))"
  by (cases fds) (simp_all add: dataclass_from_dict_def)

lemma class_round:
  assumes "encoder_equations isof enc" "utc_round piso isof" "typed (TyClass n desc fds) v" "enc v = Inr j"
  shows "dataclass_from_dict piso (TyClass n desc fds) j False False = Inr v"
    and "\<exists>d. j = JObj d \<and> map fst d = map fst fds"
proof -
  from assms(3) obtain fs where v: "v = PInst n fs" "distinct (map fst fds)" "typed_fields n fds fs" by auto
  with assms(4) obtain d where d: "j = JObj d" "rmap (\<lambda>(f, v). rbind (enc v) (\<lambda>j. Inr (f, j))) fs = Inr d"
    by (auto simp: enc_simps [OF assms(1)] rbind_eq_Inr)
  have names: "map fst d = map fst fds" using fields_enc [OF d(2)] typed_fields_names [OF v(3)] by simp
  then show "\<exists>d. j = JObj d \<and> map fst d = map fst fds" using d by blast
  have "\<forall>(f, j) \<in> set d. dget d f = Some j" using v(2) names dget_set [of d] by (auto simp: dict_ok_def)
  from parse_round(2) [OF assms(1,2) v(3) d(2) this]
  show "dataclass_from_dict piso (TyClass n desc fds) j False False = Inr v"
    by (simp add: dataclass_from_obj d v)
qed

lemma jcontains_names: "map fst d = ks \<Longrightarrow> jcontains (JObj d) k = Inr (k \<in> set ks)"
  by (simp add: jcontains_def dget_def map_of_eq_None_iff del: not_None_eq flip: set_map) 

text \<open>The keys that tell the messages apart, by the field names of a message.\<close>

lemma parse_message_names:
  assumes "map fst d = ks"
  shows "parse_message piso (JObj d) =
    (if u ''event'' \<in> set ks then dataclass_from_dict piso ty_EventMessage (JObj d) False False
     else if u ''error_code'' \<in> set ks then dataclass_from_dict piso ty_ErrorResultMessage (JObj d) False False
     else if u ''result'' \<in> set ks then dataclass_from_dict piso ty_SuccessResultMessage (JObj d) False False
     else if u ''sdk_version'' \<in> set ks then dataclass_from_dict piso ty_ServerInfoMessage (JObj d) False False
     else dataclass_from_dict piso ty_CommandMessage (JObj d) False False)"
  by (simp add: parse_message_def jcontains_names [OF assms] del: u_simps)

lemma message_parses:
  assumes "utc_round piso isof"
    and "ty \<in> {ty_EventMessage, ty_ErrorResultMessage, ty_SuccessResultMessage, ty_ServerInfoMessage, ty_CommandMessage}"
    and "typed ty m"
  shows "parse_message piso (encode isof m) = Inr m"
proof -
  obtain n fds where ty: "ty = TyClass n None fds" using assms(2) by (auto simp: message_types)
  from class_round [OF encode_equations assms(1) assms(3) [unfolded ty] refl] obtain d where
    d: "dataclass_from_dict piso ty (encode isof m) False False = Inr m" "encode isof m = JObj d"
      "map fst d = map fst fds" by (auto simp: ty)
  from assms(2) consider "ty = ty_EventMessage" | "ty = ty_ErrorResultMessage" | "ty = ty_SuccessResultMessage"
    | "ty = ty_ServerInfoMessage" | "ty = ty_CommandMessage" by blast
  then show ?thesis
    by cases (use d ty in \<open>simp_all add: parse_message_names message_types\<close>)
qed

text \<open>C20: Every well-typed message of the five kinds that is within orjson's documented limits (64-bit integers, strings without surrogates, 254 levels) is written as JSON, and parse_message of what was written is the message itself.\<close>

theorem message_roundtrip:
  assumes "orjson_laws isof enc" "utc_round piso isof"
    and "ty \<in> {ty_EventMessage, ty_ErrorResultMessage, ty_SuccessResultMessage, ty_ServerInfoMessage, ty_CommandMessage}"
    and "typed ty m" "orjson_domain m"
  shows "\<exists>j. enc m = Inr j \<and> parse_message piso j = Inr m"
  using orjson_encodes [OF assms(1) assms(5) [unfolded orjson_domain_def]] message_parses [OF assms(2-4)] by simp

theorem message_roundtrip_witness:
  "\<exists>j. bounded_encoder (\<lambda>d. isoformat_utc (dt_wall d)) (PInst (u ''ErrorResultMessage'')
       [(u ''message_id'', PStr (u ''a1'')), (u ''error_code'', PInt 5), (u ''details'', PNone)]) = Inr j \<and>
   parse_message fromisoformat j = Inr (PInst (u ''ErrorResultMessage'')
       [(u ''message_id'', PStr (u ''a1'')), (u ''error_code'', PInt 5), (u ''details'', PNone)])"
proof (rule message_roundtrip [OF bounded_encoder_laws utc_round_python])
  show "ty_ErrorResultMessage \<in> {ty_EventMessage, ty_ErrorResultMessage, ty_SuccessResultMessage,
      ty_ServerInfoMessage, ty_CommandMessage}" by simp
  show "typed ty_ErrorResultMessage (PInst (u ''ErrorResultMessage'')
       [(u ''message_id'', PStr (u ''a1'')), (u ''error_code'', PInt 5), (u ''details'', PNone)])"
    by (simp add: ty_ErrorResultMessage_def sdk_error_key_def is_numeric_def is_digit_def noc_field_def opt_ok_def)
qed (simp add: orjson_domain_def scalar_def int_64_def)

end
