(* ===== verification/Device_Types.thy ===== *)
theory Device_Types
  imports Py_Dict
begin

text \<open>
  The device types of \<open>matter_server/client/models/device_types.py\<close>, one definition per class in the
  order of the file, and the registry \<open>ALL_TYPES\<close> that \<open>DeviceType.__init_subclass__\<close> fills as
  the classes are created.  A cluster class is given by its name in \<open>chip.clusters.Objects\<close>.
  The lemmas: no two classes claim one id, so every class is found under its own id.
\<close>

record device_class =
  device_name :: pystr
  device_type :: nat
  device_clusters :: "pystr list"

definition dt_Aggregator :: device_class where
  "dt_Aggregator = \<lparr>device_name = u ''Aggregator'', device_type = 14, device_clusters =
    [u ''Actions'', u ''CommissionerControl'', u ''Descriptor'', u ''Identify'']\<rparr>"

definition dt_AirPurifier :: device_class where
  "dt_AirPurifier = \<lparr>device_name = u ''AirPurifier'', device_type = 45, device_clusters =
    [u ''ActivatedCarbonFilterMonitoring'', u ''Descriptor'', u ''FanControl'', u ''Groups'',
     u ''HepaFilterMonitoring'', u ''Identify'', u ''OnOff'']\<rparr>"

definition dt_AirQualitySensor :: device_class where
  "dt_AirQualitySensor = \<lparr>device_name = u ''AirQualitySensor'', device_type = 44, device_clusters =
    [u ''AirQuality'', u ''CarbonDioxideConcentrationMeasurement'',
     u ''CarbonMonoxideConcentrationMeasurement'', u ''Descriptor'',
     u ''FormaldehydeConcentrationMeasurement'', u ''Identify'',
     u ''NitrogenDioxideConcentrationMeasurement'', u ''OzoneConcentrationMeasurement'',
     u ''Pm10ConcentrationMeasurement'', u ''Pm1ConcentrationMeasurement'',
     u ''Pm25ConcentrationMeasurement'', u ''RadonConcentrationMeasurement'',
     u ''RelativeHumidityMeasurement'', u ''TemperatureMeasurement'',
     u ''TotalVolatileOrganicCompoundsConcentrationMeasurement'']\<rparr>"

definition dt_AudioDoorbell :: device_class where
  "dt_AudioDoorbell = \<lparr>device_name = u ''AudioDoorbell'', device_type = 321, device_clusters =
    [u ''CameraAvStreamManagement'', u ''Descriptor'', u ''Identify'',
     u ''PushAvStreamTransport'', u ''Switch'', u ''WebRtcTransportProvider'',
     u ''WebRtcTransportRequestor'']\<rparr>"

definition dt_BasicVideoPlayer :: device_class where
  "dt_BasicVideoPlayer = \<lparr>device_name = u ''BasicVideoPlayer'', device_type = 40, device_clusters =
    [u ''AudioOutput'', u ''Channel'', u ''ContentControl'', u ''Descriptor'', u ''KeypadInput'',
     u ''LowPower'', u ''MediaInput'', u ''MediaPlayback'', u ''Messages'', u ''OnOff'',
     u ''TargetNavigator'', u ''WakeOnLan'']\<rparr>"

definition dt_BatteryStorage :: device_class where
  "dt_BatteryStorage = \<lparr>device_name = u ''BatteryStorage'', device_type = 24, device_clusters =
    [u ''Descriptor'', u ''Identify'']\<rparr>"

definition dt_BridgedNode :: device_class where
  "dt_BridgedNode = \<lparr>device_name = u ''BridgedNode'', device_type = 19, device_clusters =
    [u ''AdministratorCommissioning'', u ''BridgedDeviceBasicInformation'', u ''Descriptor'',
     u ''EcosystemInformation'', u ''PowerSource'', u ''PowerSourceConfiguration'']\<rparr>"

definition dt_CameraController :: device_class where
  "dt_CameraController = \<lparr>device_name = u ''CameraController'', device_type = 327, device_clusters =
    [u ''Descriptor'', u ''WebRtcTransportRequestor'']\<rparr>"

definition dt_Camera :: device_class where
  "dt_Camera = \<lparr>device_name = u ''Camera'', device_type = 322, device_clusters =
    [u ''CameraAvSettingsUserLevelManagement'', u ''CameraAvStreamManagement'', u ''Descriptor'',
     u ''Identify'', u ''OccupancySensing'', u ''PushAvStreamTransport'',
     u ''WebRtcTransportProvider'', u ''WebRtcTransportRequestor'', u ''ZoneManagement'']\<rparr>"

definition dt_CastingVideoClient :: device_class where
  "dt_CastingVideoClient = \<lparr>device_name = u ''CastingVideoClient'', device_type = 41, device_clusters =
    [u ''ContentAppObserver'', u ''Descriptor'']\<rparr>"

definition dt_CastingVideoPlayer :: device_class where
  "dt_CastingVideoPlayer = \<lparr>device_name = u ''CastingVideoPlayer'', device_type = 35, device_clusters =
    [u ''AccountLogin'', u ''ApplicationLauncher'', u ''AudioOutput'', u ''Channel'',
     u ''ContentControl'', u ''ContentLauncher'', u ''Descriptor'', u ''KeypadInput'',
     u ''LowPower'', u ''MediaInput'', u ''MediaPlayback'', u ''Messages'', u ''OnOff'',
     u ''TargetNavigator'', u ''WakeOnLan'']\<rparr>"

definition dt_Chime :: device_class where
  "dt_Chime = \<lparr>device_name = u ''Chime'', device_type = 326, device_clusters =
    [u ''Chime'', u ''Descriptor'', u ''Identify'']\<rparr>"

definition dt_ClosureController :: device_class where
  "dt_ClosureController = \<lparr>device_name = u ''ClosureController'', device_type = 574, device_clusters =
    [u ''Descriptor'']\<rparr>"

definition dt_Closure :: device_class where
  "dt_Closure = \<lparr>device_name = u ''Closure'', device_type = 560, device_clusters =
    [u ''ClosureControl'', u ''ClosureDimension'', u ''Descriptor'', u ''Identify'',
     u ''WindowCovering'']\<rparr>"

definition dt_ClosurePanel :: device_class where
  "dt_ClosurePanel = \<lparr>device_name = u ''ClosurePanel'', device_type = 561, device_clusters =
    [u ''ClosureControl'', u ''ClosureDimension'', u ''Descriptor'', u ''WindowCovering'']\<rparr>"

definition dt_ColorDimmerSwitch :: device_class where
  "dt_ColorDimmerSwitch = \<lparr>device_name = u ''ColorDimmerSwitch'', device_type = 261, device_clusters =
    [u ''Descriptor'', u ''Identify'']\<rparr>"

definition dt_ColorTemperatureLight :: device_class where
  "dt_ColorTemperatureLight = \<lparr>device_name = u ''ColorTemperatureLight'', device_type = 268, device_clusters =
    [u ''ColorControl'', u ''Descriptor'', u ''Groups'', u ''Identify'', u ''LevelControl'',
     u ''OnOff'', u ''ScenesManagement'']\<rparr>"

definition dt_ContactSensor :: device_class where
  "dt_ContactSensor = \<lparr>device_name = u ''ContactSensor'', device_type = 21, device_clusters =
    [u ''BooleanState'', u ''BooleanStateConfiguration'', u ''Descriptor'', u ''Identify'']\<rparr>"

definition dt_ContentApp :: device_class where
  "dt_ContentApp = \<lparr>device_name = u ''ContentApp'', device_type = 36, device_clusters =
    [u ''AccountLogin'', u ''ApplicationBasic'', u ''ApplicationLauncher'', u ''Channel'',
     u ''ContentLauncher'', u ''Descriptor'', u ''KeypadInput'', u ''MediaPlayback'',
     u ''TargetNavigator'']\<rparr>"

definition dt_ControlBridge :: device_class where
  "dt_ControlBridge = \<lparr>device_name = u ''ControlBridge'', device_type = 2112, device_clusters =
    [u ''Descriptor'', u ''Identify'']\<rparr>"

definition dt_CookSurface :: device_class where
  "dt_CookSurface = \<lparr>device_name = u ''CookSurface'', device_type = 119, device_clusters =
    [u ''Descriptor'', u ''OnOff'', u ''TemperatureControl'', u ''TemperatureMeasurement'']\<rparr>"

definition dt_Cooktop :: device_class where
  "dt_Cooktop = \<lparr>device_name = u ''Cooktop'', device_type = 120, device_clusters =
    [u ''Descriptor'', u ''Identify'', u ''OnOff'']\<rparr>"

definition dt_DeviceEnergyManagement :: device_class where
  "dt_DeviceEnergyManagement = \<lparr>device_name = u ''DeviceEnergyManagement'', device_type = 1293, device_clusters =
    [u ''Descriptor'', u ''DeviceEnergyManagement'', u ''DeviceEnergyManagementMode'']\<rparr>"

definition dt_DimmableLight :: device_class where
  "dt_DimmableLight = \<lparr>device_name = u ''DimmableLight'', device_type = 257, device_clusters =
    [u ''Descriptor'', u ''Groups'', u ''Identify'', u ''LevelControl'', u ''OnOff'',
     u ''ScenesManagement'']\<rparr>"

definition dt_DimmablePlugInUnit :: device_class where
  "dt_DimmablePlugInUnit = \<lparr>device_name = u ''DimmablePlugInUnit'', device_type = 267, device_clusters =
    [u ''Descriptor'', u ''Groups'', u ''Identify'', u ''LevelControl'', u ''OnOff'',
     u ''ScenesManagement'']\<rparr>"

definition dt_DimmerSwitch :: device_class where
  "dt_DimmerSwitch = \<lparr>device_name = u ''DimmerSwitch'', device_type = 260, device_clusters =
    [u ''Descriptor'', u ''Identify'']\<rparr>"

definition dt_Dishwasher :: device_class where
  "dt_Dishwasher = \<lparr>device_name = u ''Dishwasher'', device_type = 117, device_clusters =
    [u ''Descriptor'', u ''DishwasherAlarm'', u ''DishwasherMode'', u ''Identify'', u ''OnOff'',
     u ''OperationalState'', u ''TemperatureControl'']\<rparr>"

definition dt_DoorLockController :: device_class where
  "dt_DoorLockController = \<lparr>device_name = u ''DoorLockController'', device_type = 11, device_clusters =
    [u ''Descriptor'']\<rparr>"

definition dt_DoorLock :: device_class where
  "dt_DoorLock = \<lparr>device_name = u ''DoorLock'', device_type = 10, device_clusters =
    [u ''Descriptor'', u ''DoorLock'', u ''Groups'', u ''Identify'', u ''ScenesManagement'']\<rparr>"

definition dt_Doorbell :: device_class where
  "dt_Doorbell = \<lparr>device_name = u ''Doorbell'', device_type = 328, device_clusters =
    [u ''Descriptor'', u ''Identify'', u ''Switch'']\<rparr>"

definition dt_ElectricalEnergyTariff :: device_class where
  "dt_ElectricalEnergyTariff = \<lparr>device_name = u ''ElectricalEnergyTariff'', device_type = 1299, device_clusters =
    [u ''CommodityPrice'', u ''CommodityTariff'', u ''Descriptor'', u ''ElectricalGridConditions'']\<rparr>"

definition dt_ElectricalMeter :: device_class where
  "dt_ElectricalMeter = \<lparr>device_name = u ''ElectricalMeter'', device_type = 1300, device_clusters =
    [u ''CommodityMetering'', u ''Descriptor'', u ''ElectricalEnergyMeasurement'',
     u ''ElectricalPowerMeasurement'']\<rparr>"

definition dt_ElectricalSensor :: device_class where
  "dt_ElectricalSensor = \<lparr>device_name = u ''ElectricalSensor'', device_type = 1296, device_clusters =
    [u ''Descriptor'', u ''ElectricalEnergyMeasurement'', u ''ElectricalPowerMeasurement'',
     u ''PowerTopology'']\<rparr>"

definition dt_ElectricalUtilityMeter :: device_class where
  "dt_ElectricalUtilityMeter = \<lparr>device_name = u ''ElectricalUtilityMeter'', device_type = 1297, device_clusters =
    [u ''Descriptor'', u ''MeterIdentification'']\<rparr>"

definition dt_EnergyEvse :: device_class where
  "dt_EnergyEvse = \<lparr>device_name = u ''EnergyEvse'', device_type = 1292, device_clusters =
    [u ''Descriptor'', u ''EnergyEvse'', u ''EnergyEvseMode'', u ''Identify'',
     u ''TemperatureMeasurement'']\<rparr>"

definition dt_ExtendedColorLight :: device_class where
  "dt_ExtendedColorLight = \<lparr>device_name = u ''ExtendedColorLight'', device_type = 269, device_clusters =
    [u ''ColorControl'', u ''Descriptor'', u ''Groups'', u ''Identify'', u ''LevelControl'',
     u ''OnOff'', u ''ScenesManagement'']\<rparr>"

definition dt_ExtractorHood :: device_class where
  "dt_ExtractorHood = \<lparr>device_name = u ''ExtractorHood'', device_type = 122, device_clusters =
    [u ''ActivatedCarbonFilterMonitoring'', u ''Descriptor'', u ''FanControl'',
     u ''HepaFilterMonitoring'', u ''Identify'']\<rparr>"

definition dt_Fan :: device_class where
  "dt_Fan = \<lparr>device_name = u ''Fan'', device_type = 43, device_clusters =
    [u ''Descriptor'', u ''FanControl'', u ''Groups'', u ''Identify'', u ''OnOff'']\<rparr>"

definition dt_FloodlightCamera :: device_class where
  "dt_FloodlightCamera = \<lparr>device_name = u ''FloodlightCamera'', device_type = 324, device_clusters =
    [u ''Descriptor'']\<rparr>"

definition dt_FlowSensor :: device_class where
  "dt_FlowSensor = \<lparr>device_name = u ''FlowSensor'', device_type = 774, device_clusters =
    [u ''Descriptor'', u ''FlowMeasurement'', u ''Identify'']\<rparr>"

definition dt_GenericSwitch :: device_class where
  "dt_GenericSwitch = \<lparr>device_name = u ''GenericSwitch'', device_type = 15, device_clusters =
    [u ''Descriptor'', u ''Identify'', u ''Switch'']\<rparr>"

definition dt_HeatPump :: device_class where
  "dt_HeatPump = \<lparr>device_name = u ''HeatPump'', device_type = 777, device_clusters =
    [u ''Descriptor'', u ''Identify'']\<rparr>"

definition dt_HumiditySensor :: device_class where
  "dt_HumiditySensor = \<lparr>device_name = u ''HumiditySensor'', device_type = 775, device_clusters =
    [u ''Descriptor'', u ''Identify'', u ''RelativeHumidityMeasurement'']\<rparr>"

definition dt_Intercom :: device_class where
  "dt_Intercom = \<lparr>device_name = u ''Intercom'', device_type = 320, device_clusters =
    [u ''CameraAvSettingsUserLevelManagement'', u ''CameraAvStreamManagement'', u ''Descriptor'',
     u ''Identify'', u ''WebRtcTransportProvider'', u ''WebRtcTransportRequestor'']\<rparr>"

definition dt_IrrigationSystem :: device_class where
  "dt_IrrigationSystem = \<lparr>device_name = u ''IrrigationSystem'', device_type = 64, device_clusters =
    [u ''Descriptor'', u ''FlowMeasurement'', u ''Identify'', u ''OperationalState'']\<rparr>"

definition dt_JointFabricAdministrator :: device_class where
  "dt_JointFabricAdministrator = \<lparr>device_name = u ''JointFabricAdministrator'', device_type = 304, device_clusters =
    [u ''Descriptor'', u ''JointFabricAdministrator'', u ''JointFabricDatastore'']\<rparr>"

definition dt_LaundryDryer :: device_class where
  "dt_LaundryDryer = \<lparr>device_name = u ''LaundryDryer'', device_type = 124, device_clusters =
    [u ''Descriptor'', u ''Identify'', u ''LaundryDryerControls'', u ''LaundryWasherMode'',
     u ''OnOff'', u ''OperationalState'', u ''TemperatureControl'']\<rparr>"

definition dt_LaundryWasher :: device_class where
  "dt_LaundryWasher = \<lparr>device_name = u ''LaundryWasher'', device_type = 115, device_clusters =
    [u ''Descriptor'', u ''Identify'', u ''LaundryWasherControls'', u ''LaundryWasherMode'',
     u ''OnOff'', u ''OperationalState'', u ''TemperatureControl'']\<rparr>"

definition dt_LightSensor :: device_class where
  "dt_LightSensor = \<lparr>device_name = u ''LightSensor'', device_type = 262, device_clusters =
    [u ''Descriptor'', u ''Identify'', u ''IlluminanceMeasurement'']\<rparr>"

definition dt_MeterReferencePoint :: device_class where
  "dt_MeterReferencePoint = \<lparr>device_name = u ''MeterReferencePoint'', device_type = 1298, device_clusters =
    [u ''Descriptor'', u ''Identify'']\<rparr>"

definition dt_MicrowaveOven :: device_class where
  "dt_MicrowaveOven = \<lparr>device_name = u ''MicrowaveOven'', device_type = 121, device_clusters =
    [u ''Descriptor'', u ''FanControl'', u ''Identify'', u ''MicrowaveOvenControl'',
     u ''MicrowaveOvenMode'', u ''OperationalState'']\<rparr>"

definition dt_ModeSelect :: device_class where
  "dt_ModeSelect = \<lparr>device_name = u ''ModeSelect'', device_type = 39, device_clusters =
    [u ''Descriptor'', u ''ModeSelect'']\<rparr>"

definition dt_MountedDimmableLoadControl :: device_class where
  "dt_MountedDimmableLoadControl = \<lparr>device_name = u ''MountedDimmableLoadControl'', device_type = 272, device_clusters =
    [u ''Descriptor'', u ''Groups'', u ''Identify'', u ''LevelControl'', u ''OnOff'',
     u ''ScenesManagement'']\<rparr>"

definition dt_MountedOnOffControl :: device_class where
  "dt_MountedOnOffControl = \<lparr>device_name = u ''MountedOnOffControl'', device_type = 271, device_clusters =
    [u ''Descriptor'', u ''Groups'', u ''Identify'', u ''LevelControl'', u ''OnOff'',
     u ''ScenesManagement'']\<rparr>"

definition dt_NetworkInfrastructureManager :: device_class where
  "dt_NetworkInfrastructureManager = \<lparr>device_name = u ''NetworkInfrastructureManager'', device_type = 144, device_clusters =
    [u ''Descriptor'', u ''ThreadBorderRouterManagement'', u ''ThreadNetworkDiagnostics'',
     u ''ThreadNetworkDirectory'', u ''WiFiNetworkManagement'']\<rparr>"

definition dt_OccupancySensor :: device_class where
  "dt_OccupancySensor = \<lparr>device_name = u ''OccupancySensor'', device_type = 263, device_clusters =
    [u ''BooleanStateConfiguration'', u ''Descriptor'', u ''Identify'', u ''OccupancySensing'']\<rparr>"

definition dt_OnOffLight :: device_class where
  "dt_OnOffLight = \<lparr>device_name = u ''OnOffLight'', device_type = 256, device_clusters =
    [u ''Descriptor'', u ''Groups'', u ''Identify'', u ''LevelControl'', u ''OnOff'',
     u ''ScenesManagement'']\<rparr>"

definition dt_OnOffLightSwitch :: device_class where
  "dt_OnOffLightSwitch = \<lparr>device_name = u ''OnOffLightSwitch'', device_type = 259, device_clusters =
    [u ''Descriptor'', u ''Identify'']\<rparr>"

definition dt_OnOffPlugInUnit :: device_class where
  "dt_OnOffPlugInUnit = \<lparr>device_name = u ''OnOffPlugInUnit'', device_type = 266, device_clusters =
    [u ''Descriptor'', u ''Groups'', u ''Identify'', u ''LevelControl'', u ''OnOff'',
     u ''ScenesManagement'']\<rparr>"

definition dt_OnOffSensor :: device_class where
  "dt_OnOffSensor = \<lparr>device_name = u ''OnOffSensor'', device_type = 2128, device_clusters =
    [u ''Descriptor'', u ''Identify'']\<rparr>"

definition dt_OtaProvider :: device_class where
  "dt_OtaProvider = \<lparr>device_name = u ''OtaProvider'', device_type = 20, device_clusters =
    [u ''Descriptor'', u ''OtaSoftwareUpdateProvider'']\<rparr>"

definition dt_OtaRequestor :: device_class where
  "dt_OtaRequestor = \<lparr>device_name = u ''OtaRequestor'', device_type = 18, device_clusters =
    [u ''Descriptor'', u ''OtaSoftwareUpdateRequestor'']\<rparr>"

definition dt_Oven :: device_class where
  "dt_Oven = \<lparr>device_name = u ''Oven'', device_type = 123, device_clusters =
    [u ''Descriptor'', u ''Identify'']\<rparr>"

definition dt_PowerSource :: device_class where
  "dt_PowerSource = \<lparr>device_name = u ''PowerSource'', device_type = 17, device_clusters =
    [u ''Descriptor'', u ''PowerSource'']\<rparr>"

definition dt_PressureSensor :: device_class where
  "dt_PressureSensor = \<lparr>device_name = u ''PressureSensor'', device_type = 773, device_clusters =
    [u ''Descriptor'', u ''Identify'', u ''PressureMeasurement'']\<rparr>"

definition dt_PumpController :: device_class where
  "dt_PumpController = \<lparr>device_name = u ''PumpController'', device_type = 772, device_clusters =
    [u ''Descriptor'', u ''Identify'']\<rparr>"

definition dt_Pump :: device_class where
  "dt_Pump = \<lparr>device_name = u ''Pump'', device_type = 771, device_clusters =
    [u ''Descriptor'', u ''FlowMeasurement'', u ''Groups'', u ''Identify'', u ''LevelControl'',
     u ''OnOff'', u ''PressureMeasurement'', u ''PumpConfigurationAndControl'',
     u ''ScenesManagement'', u ''TemperatureMeasurement'']\<rparr>"

definition dt_RainSensor :: device_class where
  "dt_RainSensor = \<lparr>device_name = u ''RainSensor'', device_type = 68, device_clusters =
    [u ''BooleanState'', u ''BooleanStateConfiguration'', u ''Descriptor'', u ''Identify'']\<rparr>"

definition dt_Refrigerator :: device_class where
  "dt_Refrigerator = \<lparr>device_name = u ''Refrigerator'', device_type = 112, device_clusters =
    [u ''ActivatedCarbonFilterMonitoring'', u ''Descriptor'', u ''Identify'',
     u ''RefrigeratorAlarm'', u ''RefrigeratorAndTemperatureControlledCabinetMode'']\<rparr>"

definition dt_RoboticVacuumCleaner :: device_class where
  "dt_RoboticVacuumCleaner = \<lparr>device_name = u ''RoboticVacuumCleaner'', device_type = 116, device_clusters =
    [u ''Descriptor'', u ''Identify'', u ''RvcCleanMode'', u ''RvcOperationalState'',
     u ''RvcRunMode'', u ''ServiceArea'']\<rparr>"

definition dt_RoomAirConditioner :: device_class where
  "dt_RoomAirConditioner = \<lparr>device_name = u ''RoomAirConditioner'', device_type = 114, device_clusters =
    [u ''ActivatedCarbonFilterMonitoring'', u ''Descriptor'', u ''FanControl'', u ''Groups'',
     u ''HepaFilterMonitoring'', u ''Identify'', u ''OnOff'', u ''RelativeHumidityMeasurement'',
     u ''ScenesManagement'', u ''TemperatureMeasurement'', u ''Thermostat'',
     u ''ThermostatUserInterfaceConfiguration'']\<rparr>"

definition dt_RootNode :: device_class where
  "dt_RootNode = \<lparr>device_name = u ''RootNode'', device_type = 22, device_clusters =
    [u ''AccessControl'', u ''AdministratorCommissioning'', u ''BasicInformation'',
     u ''Descriptor'', u ''DiagnosticLogs'', u ''EthernetNetworkDiagnostics'',
     u ''GeneralCommissioning'', u ''GeneralDiagnostics'', u ''GroupKeyManagement'',
     u ''IcdManagement'', u ''LocalizationConfiguration'', u ''NetworkCommissioning'',
     u ''OperationalCredentials'', u ''PowerSourceConfiguration'', u ''SoftwareDiagnostics'',
     u ''ThreadNetworkDiagnostics'', u ''TimeFormatLocalization'', u ''TimeSynchronization'',
     u ''TlsCertificateManagement'', u ''TlsClientManagement'', u ''UnitLocalization'',
     u ''WiFiNetworkDiagnostics'']\<rparr>"

definition dt_SecondaryNetworkInterface :: device_class where
  "dt_SecondaryNetworkInterface = \<lparr>device_name = u ''SecondaryNetworkInterface'', device_type = 25, device_clusters =
    [u ''Descriptor'', u ''EthernetNetworkDiagnostics'', u ''NetworkCommissioning'',
     u ''ThreadNetworkDiagnostics'', u ''WiFiNetworkDiagnostics'']\<rparr>"

definition dt_SmokeCoAlarm :: device_class where
  "dt_SmokeCoAlarm = \<lparr>device_name = u ''SmokeCoAlarm'', device_type = 118, device_clusters =
    [u ''CarbonMonoxideConcentrationMeasurement'', u ''Descriptor'', u ''Groups'',
     u ''Identify'', u ''RelativeHumidityMeasurement'', u ''SmokeCoAlarm'',
     u ''TemperatureMeasurement'']\<rparr>"

definition dt_SnapshotCamera :: device_class where
  "dt_SnapshotCamera = \<lparr>device_name = u ''SnapshotCamera'', device_type = 325, device_clusters =
    [u ''CameraAvSettingsUserLevelManagement'', u ''CameraAvStreamManagement'', u ''Descriptor'',
     u ''Identify'', u ''OccupancySensing'', u ''ZoneManagement'']\<rparr>"

definition dt_SoilSensor :: device_class where
  "dt_SoilSensor = \<lparr>device_name = u ''SoilSensor'', device_type = 69, device_clusters =
    [u ''Descriptor'', u ''Identify'', u ''SoilMeasurement'', u ''TemperatureMeasurement'']\<rparr>"

definition dt_SolarPower :: device_class where
  "dt_SolarPower = \<lparr>device_name = u ''SolarPower'', device_type = 23, device_clusters =
    [u ''Descriptor'', u ''Identify'']\<rparr>"

definition dt_Speaker :: device_class where
  "dt_Speaker = \<lparr>device_name = u ''Speaker'', device_type = 34, device_clusters =
    [u ''Descriptor'', u ''LevelControl'', u ''OnOff'']\<rparr>"

definition dt_TemperatureControlledCabinet :: device_class where
  "dt_TemperatureControlledCabinet = \<lparr>device_name = u ''TemperatureControlledCabinet'', device_type = 113, device_clusters =
    [u ''Descriptor'', u ''OvenCavityOperationalState'', u ''OvenMode'',
     u ''RefrigeratorAndTemperatureControlledCabinetMode'', u ''TemperatureAlarm'',
     u ''TemperatureControl'', u ''TemperatureMeasurement'']\<rparr>"

definition dt_TemperatureSensor :: device_class where
  "dt_TemperatureSensor = \<lparr>device_name = u ''TemperatureSensor'', device_type = 770, device_clusters =
    [u ''Descriptor'', u ''Identify'', u ''TemperatureMeasurement'',
     u ''ThermostatUserInterfaceConfiguration'']\<rparr>"

definition dt_ThermostatController :: device_class where
  "dt_ThermostatController = \<lparr>device_name = u ''ThermostatController'', device_type = 778, device_clusters =
    [u ''Descriptor'']\<rparr>"

definition dt_Thermostat :: device_class where
  "dt_Thermostat = \<lparr>device_name = u ''Thermostat'', device_type = 769, device_clusters =
    [u ''Descriptor'', u ''EnergyPreference'', u ''Groups'', u ''Identify'', u ''Thermostat'',
     u ''ThermostatUserInterfaceConfiguration'']\<rparr>"

definition dt_ThreadBorderRouter :: device_class where
  "dt_ThreadBorderRouter = \<lparr>device_name = u ''ThreadBorderRouter'', device_type = 145, device_clusters =
    [u ''Descriptor'', u ''ThreadBorderRouterManagement'', u ''ThreadNetworkDiagnostics'',
     u ''ThreadNetworkDirectory'']\<rparr>"

definition dt_VideoDoorbell :: device_class where
  "dt_VideoDoorbell = \<lparr>device_name = u ''VideoDoorbell'', device_type = 323, device_clusters =
    [u ''Descriptor'']\<rparr>"

definition dt_VideoRemoteControl :: device_class where
  "dt_VideoRemoteControl = \<lparr>device_name = u ''VideoRemoteControl'', device_type = 42, device_clusters =
    [u ''Descriptor'']\<rparr>"

definition dt_WaterFreezeDetector :: device_class where
  "dt_WaterFreezeDetector = \<lparr>device_name = u ''WaterFreezeDetector'', device_type = 65, device_clusters =
    [u ''BooleanState'', u ''BooleanStateConfiguration'', u ''Descriptor'', u ''Identify'']\<rparr>"

definition dt_WaterHeater :: device_class where
  "dt_WaterHeater = \<lparr>device_name = u ''WaterHeater'', device_type = 1295, device_clusters =
    [u ''Descriptor'', u ''Identify'', u ''Thermostat'', u ''WaterHeaterManagement'',
     u ''WaterHeaterMode'']\<rparr>"

definition dt_WaterLeakDetector :: device_class where
  "dt_WaterLeakDetector = \<lparr>device_name = u ''WaterLeakDetector'', device_type = 67, device_clusters =
    [u ''BooleanState'', u ''BooleanStateConfiguration'', u ''Descriptor'', u ''Identify'']\<rparr>"

definition dt_WaterValve :: device_class where
  "dt_WaterValve = \<lparr>device_name = u ''WaterValve'', device_type = 66, device_clusters =
    [u ''Descriptor'', u ''FlowMeasurement'', u ''Identify'', u ''ValveConfigurationAndControl'']\<rparr>"

definition dt_WindowCoveringController :: device_class where
  "dt_WindowCoveringController = \<lparr>device_name = u ''WindowCoveringController'', device_type = 515, device_clusters =
    [u ''Descriptor'', u ''Identify'']\<rparr>"

definition dt_WindowCovering :: device_class where
  "dt_WindowCovering = \<lparr>device_name = u ''WindowCovering'', device_type = 514, device_clusters =
    [u ''ClosureControl'', u ''ClosureDimension'', u ''Descriptor'', u ''Groups'',
     u ''Identify'', u ''WindowCovering'']\<rparr>"

section \<open>The registry\<close>

text \<open>\<open>DeviceType.__init_subclass__\<close>: a later class with the same id replaces the earlier one.\<close>

definition register_type :: "device_class \<Rightarrow> (nat, device_class) dict \<Rightarrow> (nat, device_class) dict" where
  "register_type c d = (if device_type c \<noteq> 0 then dput (device_type c) c d else d)"

definition device_classes :: "device_class list" where
  "device_classes =
   [dt_Aggregator, dt_AirPurifier, dt_AirQualitySensor, dt_AudioDoorbell, dt_BasicVideoPlayer,
    dt_BatteryStorage, dt_BridgedNode, dt_CameraController, dt_Camera, dt_CastingVideoClient,
    dt_CastingVideoPlayer, dt_Chime, dt_ClosureController, dt_Closure, dt_ClosurePanel,
    dt_ColorDimmerSwitch, dt_ColorTemperatureLight, dt_ContactSensor, dt_ContentApp,
    dt_ControlBridge, dt_CookSurface, dt_Cooktop, dt_DeviceEnergyManagement, dt_DimmableLight,
    dt_DimmablePlugInUnit, dt_DimmerSwitch, dt_Dishwasher, dt_DoorLockController, dt_DoorLock,
    dt_Doorbell, dt_ElectricalEnergyTariff, dt_ElectricalMeter, dt_ElectricalSensor,
    dt_ElectricalUtilityMeter, dt_EnergyEvse, dt_ExtendedColorLight, dt_ExtractorHood, dt_Fan,
    dt_FloodlightCamera, dt_FlowSensor, dt_GenericSwitch, dt_HeatPump, dt_HumiditySensor,
    dt_Intercom, dt_IrrigationSystem, dt_JointFabricAdministrator, dt_LaundryDryer,
    dt_LaundryWasher, dt_LightSensor, dt_MeterReferencePoint, dt_MicrowaveOven, dt_ModeSelect,
    dt_MountedDimmableLoadControl, dt_MountedOnOffControl, dt_NetworkInfrastructureManager,
    dt_OccupancySensor, dt_OnOffLight, dt_OnOffLightSwitch, dt_OnOffPlugInUnit, dt_OnOffSensor,
    dt_OtaProvider, dt_OtaRequestor, dt_Oven, dt_PowerSource, dt_PressureSensor,
    dt_PumpController, dt_Pump, dt_RainSensor, dt_Refrigerator, dt_RoboticVacuumCleaner,
    dt_RoomAirConditioner, dt_RootNode, dt_SecondaryNetworkInterface, dt_SmokeCoAlarm,
    dt_SnapshotCamera, dt_SoilSensor, dt_SolarPower, dt_Speaker, dt_TemperatureControlledCabinet,
    dt_TemperatureSensor, dt_ThermostatController, dt_Thermostat, dt_ThreadBorderRouter,
    dt_VideoDoorbell, dt_VideoRemoteControl, dt_WaterFreezeDetector, dt_WaterHeater,
    dt_WaterLeakDetector, dt_WaterValve, dt_WindowCoveringController, dt_WindowCovering]"

definition all_types :: "(nat, device_class) dict" where
  "all_types = fold register_type device_classes []"

lemmas device_defs =
  dt_Aggregator_def dt_AirPurifier_def dt_AirQualitySensor_def dt_AudioDoorbell_def
  dt_BasicVideoPlayer_def dt_BatteryStorage_def dt_BridgedNode_def dt_CameraController_def
  dt_Camera_def dt_CastingVideoClient_def dt_CastingVideoPlayer_def dt_Chime_def
  dt_ClosureController_def dt_Closure_def dt_ClosurePanel_def dt_ColorDimmerSwitch_def
  dt_ColorTemperatureLight_def dt_ContactSensor_def dt_ContentApp_def dt_ControlBridge_def
  dt_CookSurface_def dt_Cooktop_def dt_DeviceEnergyManagement_def dt_DimmableLight_def
  dt_DimmablePlugInUnit_def dt_DimmerSwitch_def dt_Dishwasher_def dt_DoorLockController_def
  dt_DoorLock_def dt_Doorbell_def dt_ElectricalEnergyTariff_def dt_ElectricalMeter_def
  dt_ElectricalSensor_def dt_ElectricalUtilityMeter_def dt_EnergyEvse_def
  dt_ExtendedColorLight_def dt_ExtractorHood_def dt_Fan_def dt_FloodlightCamera_def
  dt_FlowSensor_def dt_GenericSwitch_def dt_HeatPump_def dt_HumiditySensor_def dt_Intercom_def
  dt_IrrigationSystem_def dt_JointFabricAdministrator_def dt_LaundryDryer_def
  dt_LaundryWasher_def dt_LightSensor_def dt_MeterReferencePoint_def dt_MicrowaveOven_def
  dt_ModeSelect_def dt_MountedDimmableLoadControl_def dt_MountedOnOffControl_def
  dt_NetworkInfrastructureManager_def dt_OccupancySensor_def dt_OnOffLight_def
  dt_OnOffLightSwitch_def dt_OnOffPlugInUnit_def dt_OnOffSensor_def dt_OtaProvider_def
  dt_OtaRequestor_def dt_Oven_def dt_PowerSource_def dt_PressureSensor_def dt_PumpController_def
  dt_Pump_def dt_RainSensor_def dt_Refrigerator_def dt_RoboticVacuumCleaner_def
  dt_RoomAirConditioner_def dt_RootNode_def dt_SecondaryNetworkInterface_def dt_SmokeCoAlarm_def
  dt_SnapshotCamera_def dt_SoilSensor_def dt_SolarPower_def dt_Speaker_def
  dt_TemperatureControlledCabinet_def dt_TemperatureSensor_def dt_ThermostatController_def
  dt_Thermostat_def dt_ThreadBorderRouter_def dt_VideoDoorbell_def dt_VideoRemoteControl_def
  dt_WaterFreezeDetector_def dt_WaterHeater_def dt_WaterLeakDetector_def dt_WaterValve_def
  dt_WindowCoveringController_def dt_WindowCovering_def 

lemma device_ids: "map device_type device_classes = [14, 45, 44, 321, 40, 24, 19, 327, 322, 41, 35, 326, 574, 560, 561, 261, 268, 21, 36, 2112, 119, 120, 1293, 257, 267, 260, 117, 11, 10, 328, 1299, 1300, 1296, 1297, 1292, 269, 122, 43, 324, 774, 15, 777, 775, 320, 64, 304, 124, 115, 262, 1298, 121, 39, 272, 271, 144, 263, 256, 259, 266, 2128, 20, 18, 123, 17, 773, 772, 771, 68, 112, 116, 114, 22, 25, 118, 325, 69, 23, 34, 113, 770, 778, 769, 145, 323, 42, 65, 1295, 67, 66, 515, 514]"
  unfolding device_classes_def device_defs by simp

lemma device_ids_distinct: "distinct (map device_type device_classes)"
  unfolding device_ids by simp

lemma device_ids_nonzero: "\<forall>c \<in> set device_classes. device_type c \<noteq> 0"
proof -
  have "0 \<notin> set (map device_type device_classes)" unfolding device_ids by simp
  then show ?thesis by force
qed

lemma register_all:
  "\<forall>c \<in> set cs. device_type c \<noteq> 0 \<Longrightarrow>
     fold register_type cs d = fold (\<lambda>(k, v). dput k v) (map (\<lambda>c. (device_type c, c)) cs) d"
  by (induction cs arbitrary: d) (auto simp: register_type_def)

lemma all_types_get:
  "dget all_types n = map_of (rev (map (\<lambda>c. (device_type c, c)) device_classes)) n"
  unfolding all_types_def register_all [OF device_ids_nonzero]
  by (subst pydict.get_puts) (auto split: option.split)

text \<open>The registry of device types is exactly the table of the classes: an id is registered if and only if some class declares it, and it is registered to that class; no class shadows another.\<close>

theorem device_registry_exact:
  "dget all_types n = Some c \<longleftrightarrow> c \<in> set device_classes \<and> device_type c = n"
proof -
  let ?m = "map (\<lambda>c. (device_type c, c)) device_classes"
  have "map fst (rev ?m) = rev (map device_type device_classes)" by (simp add: rev_map comp_def)
  then have "distinct (map fst (rev ?m))" using device_ids_distinct by simp
  from map_of_eq_Some_iff [OF this, of n c] show ?thesis
    unfolding all_types_get by force
qed

end
