(* ===== verification/Matter_Node.thy ===== *)
theory Matter_Node
  imports Matter_Models Device_Types
begin

text \<open>
  \<open>MatterNode\<close> and \<open>MatterEndpoint\<close> (\<open>matter_server/client/models/node.py\<close>): the client's cache of
  a node, filled from the attribute dump of the server and from attribute updates.  The registries
  of generated clusters (\<open>ALL_CLUSTERS\<close>, \<open>ALL_ATTRIBUTES\<close>) are the argument \<open>reg\<close>.  A method that
  can raise after it has changed the object returns the object and the exception.
\<close>

section \<open>Data\<close>

text \<open>A generated cluster class: its descriptor with the type of each field, and the attributes of a new instance.\<close>

record cluster_class =
  cc_name :: pystr
  cc_fields :: "(pystr \<times> int option \<times> ptype) list"
  cc_init :: "(pystr, pv) dict"

text \<open>\<open>ALL_CLUSTERS\<close>, and \<open>ALL_ATTRIBUTES\<close> with the default value of a new attribute instance.\<close>

record registry =
  all_clusters :: "int \<Rightarrow> cluster_class option"
  all_attributes :: "int \<Rightarrow> (int \<Rightarrow> pv option) option"

record cluster_obj =
  co_class :: cluster_class
  co_attrs :: "(pystr, pv) dict"

record endpoint =
  ep_id :: int
  ep_clusters :: "(int, cluster_obj) dict"
  ep_types :: "device_class list"

record matter_node =
  mn_data :: pv
  mn_endpoints :: "(int, endpoint) dict"
  mn_composed :: "(pv, int) dict"

text \<open>Cluster ids of \<open>Descriptor\<close>, \<open>BasicInformation\<close> and \<open>BridgedDeviceBasicInformation\<close>.\<close>

definition descriptor_id :: int where "descriptor_id = 29"
definition basic_information_id :: int where "basic_information_id = 40"
definition bridged_information_id :: int where "bridged_information_id = 57"

text \<open>The data of a value that came through \<open>Any\<close>: the inverse of \<open>raw\<close>.\<close>

fun data_of :: "pv \<Rightarrow> json" where
  "data_of (PBool b) = JBool b"
| "data_of (PInt i) = JInt i"
| "data_of (PFloat r) = JFloat r"
| "data_of (PStr s) = JStr s"
| "data_of (PList vs) = JList (map data_of vs)"
| "data_of (PDict kvs) = JObj (map (\<lambda>(k, v). (key_text k, data_of v)) kvs)"
| "data_of _ = JNull"

lemma data_of_raw [simp]: "data_of (raw j) = j"
proof (induction j)
  case (JObj d)
  then have "map (\<lambda>p. (fst p, data_of (raw (snd p)))) d = d" by (intro map_idI) fastforce
  then show ?case by (simp add: comp_def split_beta)
qed (simp_all add: map_idI)

text \<open>\<open>value.attr\<close> of an instance.\<close>

definition pattr :: "pv \<Rightarrow> pystr \<Rightarrow> pv res" where
  "pattr v a = (case v of PInst _ fs \<Rightarrow> (case dget fs a of Some w \<Rightarrow> Inr w | None \<Rightarrow> Inl AttributeError)
     | _ \<Rightarrow> Inl AttributeError)"

text \<open>\<open>for x in v\<close> of a parsed value.\<close>

definition piter :: "pv \<Rightarrow> pv list res" where
  "piter v = (case v of PList l \<Rightarrow> Inr l | PTuple l \<Rightarrow> Inr l | PSet l \<Rightarrow> Inr l
     | PDict d \<Rightarrow> Inr (map fst d) | PStr s \<Rightarrow> Inr (map (\<lambda>c. PStr [c]) s)
     | PBytes bs \<Rightarrow> Inr (map (\<lambda>b. PInt (int (unat b))) bs) | _ \<Rightarrow> Inl TypeError)"

definition ptruthy :: "pv \<Rightarrow> bool" where
  "ptruthy v = (case v of PNone \<Rightarrow> False | PBool b \<Rightarrow> b | PInt i \<Rightarrow> i \<noteq> 0 | PUint i \<Rightarrow> i \<noteq> 0
     | PFloat r \<Rightarrow> r \<noteq> 0 | PFloat32 r \<Rightarrow> r \<noteq> 0 | PStr s \<Rightarrow> s \<noteq> [] | PBytes b \<Rightarrow> b \<noteq> []
     | PList l \<Rightarrow> l \<noteq> [] | PTuple l \<Rightarrow> l \<noteq> [] | PSet l \<Rightarrow> l \<noteq> [] | PDict d \<Rightarrow> d \<noteq> [] | _ \<Rightarrow> True)"

text \<open>
  \<open>int(text)\<close>: white space around, one sign, digits with single underscores between them (ASCII).
\<close>

definition is_space :: "nat \<Rightarrow> bool" where
  "is_space c \<longleftrightarrow> c = 32 \<or> 9 \<le> c \<and> c \<le> 13 \<or> 28 \<le> c \<and> c \<le> 31"

definition strip :: "pystr \<Rightarrow> pystr" where
  "strip s = rev (dropWhile is_space (rev (dropWhile is_space s)))"

fun int_digits :: "bool \<Rightarrow> pystr \<Rightarrow> bool" where
  "int_digits after_digit [] = after_digit"
| "int_digits after_digit (c # cs) =
     (if c = 95 then after_digit \<and> int_digits False cs else is_digit c \<and> int_digits True cs)"

definition unsigned_int :: "pystr \<Rightarrow> int res" where
  "unsigned_int s = (if int_digits False s then Inr (int_of (filter (\<lambda>c. c \<noteq> 95) s)) else Inl ValueError)"

definition py_int :: "pystr \<Rightarrow> int res" where
  "py_int s = (case strip s of
       c # cs \<Rightarrow> if c = 45 then rbind (unsigned_int cs) (\<lambda>i. Inr (- i))
                else if c = 43 then unsigned_int cs else unsigned_int (c # cs)
     | [] \<Rightarrow> Inl ValueError)"

section \<open>Endpoints\<close>

fun get_object_params :: "(pystr \<times> int option \<times> ptype) list \<Rightarrow> int \<Rightarrow> (pystr \<times> ptype) res" where
  "get_object_params [] object_id = Inl KeyError"
| "get_object_params ((label, tag, ty) # fds) object_id =
     (if tag = Some object_id then Inr (label, ty) else get_object_params fds object_id)"

text \<open>The guard for unknown clusters and attributes: the ids, the class and the default.\<close>

definition known_attribute ::
    "registry \<Rightarrow> int option \<Rightarrow> int option \<Rightarrow> (int \<times> int \<times> cluster_class \<times> pv) option" where
  "known_attribute reg c a = (case (c, a) of
       (Some cid, Some aid) \<Rightarrow> (case (all_clusters reg cid, all_attributes reg cid) of
           (Some cls, Some attrs) \<Rightarrow> map_option (\<lambda>d. (cid, aid, cls, d)) (attrs aid)
         | _ \<Rightarrow> None)
     | _ \<Rightarrow> None)"

definition set_attribute_value ::
    "(pystr \<Rightarrow> pydatetime res) \<Rightarrow> registry \<Rightarrow> pystr \<Rightarrow> json \<Rightarrow> endpoint \<Rightarrow> endpoint \<times> pyexc option" where
  "set_attribute_value piso reg path v ep = (case parse_attribute_path path of
       Inl e \<Rightarrow> (ep, Some e)
     | Inr (_, c, a) \<Rightarrow> (case known_attribute reg c a of
         None \<Rightarrow> (ep, None)
       | Some (cid, aid, cls, deflt) \<Rightarrow>
           let inst = (case dget (ep_clusters ep) cid of
               Some inst \<Rightarrow> inst | None \<Rightarrow> \<lparr>co_class = cls, co_attrs = cc_init cls\<rparr>);
             ep1 = ep\<lparr>ep_clusters := dput cid inst (ep_clusters ep)\<rparr> in
           (case rbind (get_object_params (cc_fields cls) aid) (\<lambda>(name, ty).
               rbind (parse_value piso name v ty (Some deflt) False False) (\<lambda>w. Inr (name, w))) of
             Inl e \<Rightarrow> (ep1, Some e)
           | Inr (name, w) \<Rightarrow>
               (ep\<lparr>ep_clusters := dput cid (inst\<lparr>co_attrs := dput name w (co_attrs inst)\<rparr>) (ep_clusters ep)\<rparr>,
                None))))"

fun set_attributes ::
    "(pystr \<Rightarrow> pydatetime res) \<Rightarrow> registry \<Rightarrow> (pystr \<times> json) list \<Rightarrow> endpoint \<Rightarrow> endpoint \<times> pyexc option" where
  "set_attributes piso reg [] ep = (ep, None)"
| "set_attributes piso reg ((path, v) # rest) ep =
     (case set_attribute_value piso reg path v ep of
        (ep', None) \<Rightarrow> set_attributes piso reg rest ep'
      | (ep', Some e) \<Rightarrow> (ep', Some e))"

definition get_cluster :: "endpoint \<Rightarrow> int \<Rightarrow> cluster_obj option" where
  "get_cluster ep cid = dget (ep_clusters ep) cid"

definition co_attr :: "cluster_obj \<Rightarrow> pystr \<Rightarrow> pv res" where
  "co_attr c a = (case dget (co_attrs c) a of Some v \<Rightarrow> Inr v | None \<Rightarrow> Inl AttributeError)"

text \<open>\<open>DEVICE_TYPES.get(dev_info.deviceType)\<close>\<close>

definition lookup_type :: "pv \<Rightarrow> device_class option res" where
  "lookup_type v = (if \<not> hashable_deep v then Inl TypeError
     else Inr (case v of PInt i \<Rightarrow> if i < 0 then None else dget all_types (nat i)
         | PBool b \<Rightarrow> dget all_types (if b then 1 else 0) | _ \<Rightarrow> None))"

fun add_types :: "pv list \<Rightarrow> endpoint \<Rightarrow> endpoint \<times> pyexc option" where
  "add_types [] ep = (ep, None)"
| "add_types (info # infos) ep =
     (case rbind (pattr info (u ''deviceType'')) lookup_type of
        Inl e \<Rightarrow> (ep, Some e)
      | Inr None \<Rightarrow> add_types infos ep
      | Inr (Some c) \<Rightarrow> add_types infos (ep\<lparr>ep_types := List.insert c (ep_types ep)\<rparr>))"

definition update_endpoint ::
    "(pystr \<Rightarrow> pydatetime res) \<Rightarrow> registry \<Rightarrow> (pystr \<times> json) list \<Rightarrow> endpoint \<Rightarrow> endpoint \<times> pyexc option" where
  "update_endpoint piso reg data ep = (case set_attributes piso reg data ep of
       (ep', Some e) \<Rightarrow> (ep', Some e)
     | (ep', None) \<Rightarrow> (case get_cluster ep' descriptor_id of
         None \<Rightarrow> (ep', None)
       | Some c \<Rightarrow> (case rbind (co_attr c (u ''deviceTypeList'')) piter of
           Inl e \<Rightarrow> (ep', Some e)
         | Inr infos \<Rightarrow> add_types infos ep')))"

definition new_endpoint :: "int \<Rightarrow> endpoint" where
  "new_endpoint i = \<lparr>ep_id = i, ep_clusters = [], ep_types = []\<rparr>"

text \<open>The attribute of a query: its id, or its class, which knows its cluster.\<close>

datatype attr_ref = AttrId int | AttrClass int int

definition resolve_cluster :: "int option \<Rightarrow> attr_ref \<Rightarrow> (int \<times> int) res" where
  "resolve_cluster c a = (case (c, a) of
       (None, AttrId _) \<Rightarrow> Inl TypeError
     | (None, AttrClass cid aid) \<Rightarrow> Inr (cid, aid)
     | (Some cid, AttrId aid) \<Rightarrow> Inr (cid, aid)
     | (Some cid, AttrClass _ aid) \<Rightarrow> Inr (cid, aid))"

definition ep_get_attribute_value :: "endpoint \<Rightarrow> int option \<Rightarrow> attr_ref \<Rightarrow> pv res" where
  "ep_get_attribute_value ep c a = rbind (resolve_cluster c a) (\<lambda>(cid, aid).
     case get_cluster ep cid of
       None \<Rightarrow> Inr PNone
     | Some obj \<Rightarrow> rbind (get_object_params (cc_fields (co_class obj)) aid) (\<lambda>(name, _). co_attr obj name))"

definition has_cluster :: "endpoint \<Rightarrow> int \<Rightarrow> bool" where
  "has_cluster ep cid \<longleftrightarrow> dget (ep_clusters ep) cid \<noteq> None"

definition is_bridged_device :: "endpoint \<Rightarrow> bool" where
  "is_bridged_device ep \<longleftrightarrow> dt_BridgedNode \<in> set (ep_types ep)"

section \<open>Nodes\<close>

definition first_part :: "pystr \<Rightarrow> pystr" where
  "first_part path = takeWhile (\<lambda>c. c \<noteq> 47) path"

text \<open>\<open>node_data.attributes.items()\<close>\<close>

definition node_attributes :: "pv \<Rightarrow> (pystr \<times> json) list res" where
  "node_attributes data = rbind (pattr data (u ''attributes'')) (\<lambda>v. case v of
       PDict kvs \<Rightarrow> Inr (map (\<lambda>(k, w). (key_text k, data_of w)) kvs)
     | _ \<Rightarrow> Inl AttributeError)"

text \<open>\<open>endpoint_data\<close>: the attributes of each endpoint, in order of first appearance.\<close>

fun group_attributes ::
    "(pystr \<times> json) list \<Rightarrow> (int, (pystr, json) dict) dict \<Rightarrow> (int, (pystr, json) dict) dict res" where
  "group_attributes [] d = Inr d"
| "group_attributes ((path, v) # rest) d = rbind (py_int (first_part path)) (\<lambda>eid.
     group_attributes rest (dput eid (dput path v (case dget d eid of None \<Rightarrow> [] | Some g \<Rightarrow> g)) d))"

text \<open>An endpoint whose constructor raises is not stored.\<close>

fun update_endpoints ::
    "(pystr \<Rightarrow> pydatetime res) \<Rightarrow> registry \<Rightarrow> (int \<times> (pystr, json) dict) list \<Rightarrow> (int, endpoint) dict
       \<Rightarrow> (int, endpoint) dict \<times> pyexc option" where
  "update_endpoints piso reg [] eps = (eps, None)"
| "update_endpoints piso reg ((eid, attrs) # rest) eps = (case dget eps eid of
       Some ep \<Rightarrow> (case update_endpoint piso reg attrs ep of
           (ep', None) \<Rightarrow> update_endpoints piso reg rest (dput eid ep' eps)
         | (ep', Some e) \<Rightarrow> (dput eid ep' eps, Some e))
     | None \<Rightarrow> (case update_endpoint piso reg attrs (new_endpoint eid) of
           (ep', None) \<Rightarrow> update_endpoints piso reg rest (dput eid ep' eps)
         | (ep', Some e) \<Rightarrow> (eps, Some e)))"

text \<open>The parts of one endpoint, each mapped to its parent.\<close>

fun add_parts :: "pv list \<Rightarrow> int \<Rightarrow> (pv, int) dict \<Rightarrow> (pv, int) dict \<times> pyexc option" where
  "add_parts [] parent d = (d, None)"
| "add_parts (p # ps) parent d =
     (if hashable_deep p then add_parts ps parent (dput p parent d) else (d, Some TypeError))"

definition compose_endpoint :: "endpoint \<Rightarrow> (pv, int) dict \<Rightarrow> (pv, int) dict \<times> pyexc option" where
  "compose_endpoint ep d =
     (if dt_RootNode \<in> set (ep_types ep) \<or> dt_Aggregator \<in> set (ep_types ep) then (d, None)
      else case get_cluster ep descriptor_id of
        None \<Rightarrow> (d, None)
      | Some c \<Rightarrow> (case co_attr c (u ''partsList'') of
          Inl e \<Rightarrow> (d, Some e)
        | Inr parts \<Rightarrow> if \<not> ptruthy parts then (d, None)
            else (case piter parts of Inl e \<Rightarrow> (d, Some e) | Inr ps \<Rightarrow> add_parts ps (ep_id ep) d)))"

fun compose_endpoints :: "endpoint list \<Rightarrow> (pv, int) dict \<Rightarrow> (pv, int) dict \<times> pyexc option" where
  "compose_endpoints [] d = (d, None)"
| "compose_endpoints (ep # eps) d = (case compose_endpoint ep d of
       (d', None) \<Rightarrow> compose_endpoints eps d'
     | (d', Some e) \<Rightarrow> (d', Some e))"

text \<open>\<open>MatterNode.update\<close> and \<open>MatterNode(node_data)\<close>.\<close>

definition node_update ::
    "(pystr \<Rightarrow> pydatetime res) \<Rightarrow> registry \<Rightarrow> pv \<Rightarrow> matter_node \<Rightarrow> matter_node \<times> pyexc option" where
  "node_update piso reg data node =
     (let node1 = node\<lparr>mn_data := data\<rparr> in
      case rbind (node_attributes data) (\<lambda>attrs. group_attributes attrs []) of
        Inl e \<Rightarrow> (node1, Some e)
      | Inr grouped \<Rightarrow> (case update_endpoints piso reg grouped (mn_endpoints node1) of
          (eps, Some e) \<Rightarrow> (node1\<lparr>mn_endpoints := eps\<rparr>, Some e)
        | (eps, None) \<Rightarrow>
            let (composed, err) = compose_endpoints (map snd eps) (mn_composed node1) in
            (node1\<lparr>mn_endpoints := eps, mn_composed := composed\<rparr>, err)))"

definition new_node :: "(pystr \<Rightarrow> pydatetime res) \<Rightarrow> registry \<Rightarrow> pv \<Rightarrow> matter_node res" where
  "new_node piso reg data =
     (case node_update piso reg data \<lparr>mn_data = data, mn_endpoints = [], mn_composed = []\<rparr> of
        (node, None) \<Rightarrow> Inr node | (_, Some e) \<Rightarrow> Inl e)"

definition update_attribute ::
    "(pystr \<Rightarrow> pydatetime res) \<Rightarrow> registry \<Rightarrow> pystr \<Rightarrow> json \<Rightarrow> matter_node \<Rightarrow> matter_node \<times> pyexc option" where
  "update_attribute piso reg path v node = (case py_int (first_part path) of
       Inl e \<Rightarrow> (node, Some e)
     | Inr eid \<Rightarrow> (case dget (mn_endpoints node) eid of
         None \<Rightarrow> (node, None)
       | Some ep \<Rightarrow> (case set_attribute_value piso reg path v ep of
           (ep', err) \<Rightarrow> (node\<lparr>mn_endpoints := dput eid ep' (mn_endpoints node)\<rparr>, err))))"

definition node_endpoint :: "matter_node \<Rightarrow> int \<Rightarrow> endpoint res" where
  "node_endpoint node eid = (case dget (mn_endpoints node) eid of Some ep \<Rightarrow> Inr ep | None \<Rightarrow> Inl KeyError)"

definition node_get_attribute_value :: "matter_node \<Rightarrow> int \<Rightarrow> int option \<Rightarrow> attr_ref \<Rightarrow> pv res" where
  "node_get_attribute_value node eid c a = rbind (node_endpoint node eid) (\<lambda>ep. ep_get_attribute_value ep c a)"

definition node_get_cluster :: "matter_node \<Rightarrow> int \<Rightarrow> int \<Rightarrow> cluster_obj option res" where
  "node_get_cluster node eid cid = rbind (node_endpoint node eid) (\<lambda>ep. Inr (get_cluster ep cid))"

definition node_has_cluster :: "matter_node \<Rightarrow> int \<Rightarrow> int option \<Rightarrow> bool" where
  "node_has_cluster node cid eid \<longleftrightarrow>
     list_ex (\<lambda>(_, ep). has_cluster ep cid \<and> (eid = None \<or> eid = Some (ep_id ep))) (mn_endpoints node)"

definition has_attribute :: "matter_node \<Rightarrow> endpoint \<Rightarrow> int option \<Rightarrow> attr_ref \<Rightarrow> bool res" where
  "has_attribute node ep c a = rbind (resolve_cluster c a) (\<lambda>(cid, aid).
     rbind (node_attributes (mn_data node)) (\<lambda>attrs.
       Inr (create_attribute_path (Some (ep_id ep)) (Some cid) (Some aid) \<in> fst ` set attrs)))"

text \<open>A parent id of 0 counts as no parent.\<close>

definition get_compose_parent :: "matter_node \<Rightarrow> int \<Rightarrow> endpoint option res" where
  "get_compose_parent node eid = (case dget (mn_composed node) (PInt eid) of
       None \<Rightarrow> Inr None
     | Some parent \<Rightarrow> if parent = 0 then Inr None else rbind (node_endpoint node parent) (\<lambda>ep. Inr (Some ep)))"

definition get_compose_child_ids :: "matter_node \<Rightarrow> int \<Rightarrow> pv list" where
  "get_compose_child_ids node eid = map fst (filter (\<lambda>(_, y). y = eid) (mn_composed node))"

definition is_composed_device :: "matter_node \<Rightarrow> endpoint \<Rightarrow> bool res" where
  "is_composed_device node ep = rbind (get_compose_parent node (ep_id ep)) (\<lambda>p. Inr (p \<noteq> None))"

definition node_device_info :: "matter_node \<Rightarrow> cluster_obj option res" where
  "node_device_info node = node_get_cluster node 0 basic_information_id"

text \<open>\<open>MatterEndpoint.device_info\<close> climbs to the parents; nothing in the code bounds the climb.\<close>

partial_function (option) device_info :: "matter_node \<Rightarrow> endpoint \<Rightarrow> cluster_obj option res option" where
  "device_info node ep =
     (if is_bridged_device ep then Some (Inr (get_cluster ep bridged_information_id))
      else case get_compose_parent node (ep_id ep) of
        Inl e \<Rightarrow> Some (Inl e)
      | Inr None \<Rightarrow> Some (node_device_info node)
      | Inr (Some parent) \<Rightarrow> device_info node parent)"

definition node_name :: "matter_node \<Rightarrow> pv res" where
  "node_name node = rbind (node_device_info node) (\<lambda>info. case info of
       None \<Rightarrow> Inr PNone | Some c \<Rightarrow> co_attr c (u ''nodeLabel''))"

definition node_id :: "matter_node \<Rightarrow> pv res" where
  "node_id node = pattr (mn_data node) (u ''node_id'')"

definition node_available :: "matter_node \<Rightarrow> pv res" where
  "node_available node = pattr (mn_data node) (u ''available'')"

definition is_bridge_device :: "matter_node \<Rightarrow> pv res" where
  "is_bridge_device node = pattr (mn_data node) (u ''is_bridge'')"

end
