(* ===== verification/Matter_Node_Facts.thy ===== *)
theory Matter_Node_Facts
  imports Matter_Node
begin

text \<open>
  What keeps the node cache consistent: the invariant of its endpoints and clusters over every run of
  dumps and attribute updates, what one attribute update changes, and when the search for the device
  information of an endpoint ends.
\<close>

section \<open>The invariant\<close>

text \<open>Every stored cluster is an instance of the registered class, every endpoint is stored under its id.\<close>

definition endpoint_ok :: "registry \<Rightarrow> endpoint \<Rightarrow> bool" where
  "endpoint_ok reg ep \<longleftrightarrow> dict_ok (ep_clusters ep) \<and> distinct (ep_types ep) \<and>
     (\<forall>(cid, obj) \<in> set (ep_clusters ep). all_clusters reg cid = Some (co_class obj))"

definition endpoints_ok :: "registry \<Rightarrow> (int, endpoint) dict \<Rightarrow> bool" where
  "endpoints_ok reg eps \<longleftrightarrow> dict_ok eps \<and> (\<forall>(eid, ep) \<in> set eps. ep_id ep = eid \<and> endpoint_ok reg ep)"

definition node_ok :: "registry \<Rightarrow> matter_node \<Rightarrow> bool" where
  "node_ok reg node \<longleftrightarrow> endpoints_ok reg (mn_endpoints node) \<and> dict_ok (mn_composed node)"

lemma endpoint_ok_put:
  "endpoint_ok reg ep \<Longrightarrow> all_clusters reg cid = Some (co_class obj) \<Longrightarrow>
     endpoint_ok reg (ep\<lparr>ep_clusters := dput cid obj (ep_clusters ep)\<rparr>)"
  by (auto simp: endpoint_ok_def dest!: dput_in)

lemma endpoint_ok_class:
  "endpoint_ok reg ep \<Longrightarrow> dget (ep_clusters ep) cid = Some obj \<Longrightarrow> all_clusters reg cid = Some (co_class obj)"
  by (auto simp: endpoint_ok_def dest: dget_in_set)

lemma known_attributeD:
  "known_attribute reg c a = Some (cid, aid, cls, d) \<Longrightarrow> c = Some cid \<and> a = Some aid \<and> all_clusters reg cid = Some cls"
  by (auto simp: known_attribute_def split: option.splits)

lemma set_attribute_value_ok:
  assumes "endpoint_ok reg ep" "set_attribute_value piso reg path v ep = (ep', err)"
  shows "endpoint_ok reg ep' \<and> ep_id ep' = ep_id ep \<and> ep_types ep' = ep_types ep"
  using assms endpoint_ok_class [OF assms(1)]
  by (auto simp: set_attribute_value_def Let_def split: sum.splits option.splits prod.splits
      intro!: endpoint_ok_put dest!: known_attributeD)

lemma set_attributes_ok:
  "endpoint_ok reg ep \<Longrightarrow> set_attributes piso reg data ep = (ep', err) \<Longrightarrow> endpoint_ok reg ep' \<and> ep_id ep' = ep_id ep"
proof (induction data arbitrary: ep)
  case (Cons pv data)
  obtain p v where pv: "pv = (p, v)" by (cases pv)
  obtain ep1 err1 where s: "set_attribute_value piso reg p v ep = (ep1, err1)" by force
  from set_attribute_value_ok [OF Cons.prems(1) s] Cons pv s show ?case
    by (cases err1) auto
qed simp

lemma add_types_ok:
  "endpoint_ok reg ep \<Longrightarrow> add_types infos ep = (ep', err) \<Longrightarrow> endpoint_ok reg ep' \<and> ep_id ep' = ep_id ep"
proof (induction infos ep rule: add_types.induct)
  case (2 info infos ep)
  have "endpoint_ok reg (ep\<lparr>ep_types := List.insert c (ep_types ep)\<rparr>)" for c
    using 2(3) by (simp add: endpoint_ok_def)
  with 2 show ?case by (auto split: sum.splits option.splits)
qed simp

lemma update_endpoint_ok:
  "endpoint_ok reg ep \<Longrightarrow> update_endpoint piso reg data ep = (ep', err) \<Longrightarrow> endpoint_ok reg ep' \<and> ep_id ep' = ep_id ep"
proof -
  assume ok: "endpoint_ok reg ep" and u: "update_endpoint piso reg data ep = (ep', err)"
  obtain ep1 err1 where s: "set_attributes piso reg data ep = (ep1, err1)" by force
  with set_attributes_ok [OF ok s] u add_types_ok [of reg ep1] show ?thesis
    by (auto simp: update_endpoint_def split: option.splits sum.splits)
qed

lemma new_endpoint_ok: "endpoint_ok reg (new_endpoint i)" "ep_id (new_endpoint i) = i"
  by (simp_all add: endpoint_ok_def new_endpoint_def)

lemma endpoints_ok_put:
  "endpoints_ok reg eps \<Longrightarrow> endpoint_ok reg ep \<Longrightarrow> ep_id ep = eid \<Longrightarrow> endpoints_ok reg (dput eid ep eps)"
  by (auto simp: endpoints_ok_def dest!: dput_in)

lemma endpoints_ok_get:
  "endpoints_ok reg eps \<Longrightarrow> dget eps eid = Some ep \<Longrightarrow> endpoint_ok reg ep \<and> ep_id ep = eid"
  by (auto simp: endpoints_ok_def dest!: dget_in_set)

lemma update_endpoints_ok:
  "endpoints_ok reg eps \<Longrightarrow> update_endpoints piso reg gs eps = (eps', err) \<Longrightarrow>
     endpoints_ok reg eps' \<and> fst ` set eps \<subseteq> fst ` set eps'"
proof (induction gs arbitrary: eps)
  case (Cons g gs)
  obtain eid attrs where g: "g = (eid, attrs)" by (cases g)
  define ep where "ep = (case dget eps eid of Some ep \<Rightarrow> ep | None \<Rightarrow> new_endpoint eid)"
  have ep: "endpoint_ok reg ep" "ep_id ep = eid"
    using endpoints_ok_get [OF Cons.prems(1)] by (auto simp: ep_def new_endpoint_ok split: option.split)
  obtain ep1 err1 where u: "update_endpoint piso reg attrs ep = (ep1, err1)" by force
  have ep1: "endpoints_ok reg (dput eid ep1 eps)"
    using update_endpoint_ok [OF ep(1) u] ep(2) Cons.prems(1) by (auto intro: endpoints_ok_put)
  have keys: "fst ` set eps \<subseteq> fst ` set (dput eid ep1 eps)" by (auto simp: dput_keys)
  show ?case
  proof (cases err1)
    case None
    with Cons.prems(2) u have "update_endpoints piso reg gs (dput eid ep1 eps) = (eps', err)"
      by (auto simp: g ep_def split: option.splits)
    with Cons.IH [OF ep1] keys show ?thesis by blast
  next
    case (Some e)
    with Cons.prems u ep1 keys show ?thesis
      by (auto simp: g ep_def split: option.splits)
  qed
qed simp

lemma add_parts_ok: "dict_ok d \<Longrightarrow> add_parts ps p d = (d', err) \<Longrightarrow> dict_ok d'"
proof (induction ps arbitrary: d)
  case (Cons q ps)
  from Cons.IH [OF dict_ok_dput [OF Cons.prems(1), of q p]] Cons.prems show ?case
    by (simp split: if_splits)
qed simp

lemma compose_endpoints_ok: "dict_ok d \<Longrightarrow> compose_endpoints eps d = (d', err) \<Longrightarrow> dict_ok d'"
proof (induction eps arbitrary: d)
  case (Cons ep eps)
  obtain d1 err1 where c: "compose_endpoint ep d = (d1, err1)" by force
  then have "dict_ok d1" using Cons.prems(1) add_parts_ok
    by (auto simp: compose_endpoint_def split: if_splits option.splits sum.splits)
  with Cons c show ?case by (auto split: option.splits)
qed simp

lemma node_update_ok:
  assumes "node_ok reg node" "node_update piso reg data node = (node', err)"
  shows "node_ok reg node'" "fst ` set (mn_endpoints node) \<subseteq> fst ` set (mn_endpoints node')" "mn_data node' = data"
proof -
  have eps: "endpoints_ok reg (mn_endpoints node)" "dict_ok (mn_composed node)"
    using assms(1) by (simp_all add: node_ok_def)
  show "node_ok reg node'" "mn_data node' = data"
    using assms(2) eps
    by (auto simp: node_update_def node_ok_def Let_def split: sum.splits prod.splits option.splits
        dest: update_endpoints_ok compose_endpoints_ok)
  show "fst ` set (mn_endpoints node) \<subseteq> fst ` set (mn_endpoints node')"
  proof (cases "rbind (node_attributes data) (\<lambda>attrs. group_attributes attrs [])")
    case (Inr gs)
    obtain eps' err' where u: "update_endpoints piso reg gs (mn_endpoints node) = (eps', err')" by force
    with Inr assms(2) have "mn_endpoints node' = eps'"
      by (auto simp: node_update_def Let_def split: prod.splits option.splits)
    with update_endpoints_ok [OF eps(1) u] show ?thesis by simp
  qed (use assms(2) in \<open>auto simp: node_update_def Let_def\<close>)
qed

lemma update_attribute_ok:
  assumes "node_ok reg node" "update_attribute piso reg path v node = (node', err)"
  shows "node_ok reg node'"
  using assms endpoints_ok_get set_attribute_value_ok
  by (fastforce simp: update_attribute_def node_ok_def split: sum.splits option.splits prod.splits intro: endpoints_ok_put)

section \<open>The node as a state machine\<close>

text \<open>What the client does to a cached node: a full dump or one attribute.\<close>

datatype node_event = NodeDump pv | NodeAttribute pystr json

fun node_step :: "(pystr \<Rightarrow> pydatetime res) \<Rightarrow> registry \<Rightarrow> node_event \<Rightarrow> matter_node \<Rightarrow> matter_node" where
  "node_step piso reg (NodeDump data) node = fst (node_update piso reg data node)"
| "node_step piso reg (NodeAttribute path v) node = fst (update_attribute piso reg path v node)"

lemma node_step_ok: "node_ok reg node \<Longrightarrow> node_ok reg (node_step piso reg e node)"
proof (cases e)
  case (NodeDump data)
  obtain node' err where "node_update piso reg data node = (node', err)" by force
  then show "node_ok reg node \<Longrightarrow> ?thesis" using node_update_ok(1) NodeDump by fastforce
next
  case (NodeAttribute path v)
  obtain node' err where "update_attribute piso reg path v node = (node', err)" by force
  then show "node_ok reg node \<Longrightarrow> ?thesis" using update_attribute_ok NodeAttribute by fastforce
qed

interpretation node_machine: invariant_system "node_step piso reg" "node_ok reg" for piso reg
  by unfold_locales (rule node_step_ok)

definition empty_node :: "pv \<Rightarrow> matter_node" where
  "empty_node data = \<lparr>mn_data = data, mn_endpoints = [], mn_composed = []\<rparr>"

lemma empty_node_ok: "node_ok reg (empty_node data)"
  by (simp add: node_ok_def endpoints_ok_def empty_node_def)

text \<open>C7: In every state a cached node can reach from any sequence of dumps and attribute updates, failed ones included, each endpoint is stored under its own id and each cluster is an instance of the class registered for its id.\<close>

theorem node_cache_ok: "node_ok reg (fold (node_step piso reg) es (empty_node data))"
  by (rule node_machine.run_inv) (rule empty_node_ok)

lemma node_step_keeps: "fst ` set (mn_endpoints node) \<subseteq> fst ` set (mn_endpoints (node_step piso reg e node))"
  if "node_ok reg node"
proof (cases e)
  case (NodeDump data)
  obtain node' err where "node_update piso reg data node = (node', err)" by force
  with node_update_ok(2) [OF that this] NodeDump show ?thesis by simp
next
  case (NodeAttribute path v)
  then show ?thesis
    by (auto simp: update_attribute_def dput_keys split: sum.splits option.splits prod.splits)
qed

text \<open>A cached node never loses an endpoint: a dump that no longer lists an endpoint leaves it, with its old attribute values, in the cache.\<close>

theorem endpoints_never_vanish:
  assumes "node_ok reg node" "dget (mn_endpoints node) eid \<noteq> None"
  shows "dget (mn_endpoints (fold (node_step piso reg) es node)) eid \<noteq> None"
proof -
  have "fst ` set (mn_endpoints node) \<subseteq> fst ` set (mn_endpoints (fold (node_step piso reg) es node))"
    using assms(1)
  proof (induction es arbitrary: node)
    case (Cons e es)
    from Cons.IH [OF node_step_ok [OF Cons.prems]] node_step_keeps [OF Cons.prems]
    show ?case by (simp only: fold_Cons comp_apply) (rule subset_trans)
  qed simp
  with assms(2) show ?thesis by (auto simp: dget_def map_of_eq_None_iff)
qed

section \<open>One attribute\<close>

lemma attribute_stored:
  assumes "endpoint_ok reg ep" "known_attribute reg (Some cid) (Some aid) = Some (cid, aid, cls, deflt)"
    and "0 \<le> eid" "0 \<le> cid" "0 \<le> aid"
    and "set_attribute_value piso reg (create_attribute_path (Some eid) (Some cid) (Some aid)) v ep = (ep', None)"
  shows "\<exists>name ty w. get_object_params (cc_fields cls) aid = Inr (name, ty) \<and>
      parse_value piso name v ty (Some deflt) False False = Inr w \<and>
      ep_get_attribute_value ep' (Some cid) (AttrId aid) = Inr w \<and>
      (\<forall>c. c \<noteq> cid \<longrightarrow> get_cluster ep' c = get_cluster ep c)"
proof -
  have path: "parse_attribute_path (create_attribute_path (Some eid) (Some cid) (Some aid)) =
      Inr (Some eid, Some cid, Some aid)"
    using assms(3-5) by (intro parse_created_path) simp
  have cls: "all_clusters reg cid = Some cls" using known_attributeD [OF assms(2)] by simp
  define inst where "inst = (case dget (ep_clusters ep) cid of
      Some inst \<Rightarrow> inst | None \<Rightarrow> \<lparr>co_class = cls, co_attrs = cc_init cls\<rparr>)"
  have co: "co_class inst = cls"
    using endpoint_ok_class [OF assms(1), of cid] cls by (auto simp: inst_def split: option.split)
  from assms(6) obtain name ty w where w: "get_object_params (cc_fields cls) aid = Inr (name, ty)"
    "parse_value piso name v ty (Some deflt) False False = Inr w"
    "ep' = ep\<lparr>ep_clusters := dput cid (inst\<lparr>co_attrs := dput name w (co_attrs inst)\<rparr>) (ep_clusters ep)\<rparr>"
    unfolding set_attribute_value_def path
    by (auto simp: assms(2) inst_def [symmetric] Let_def rbind_eq_Inr split: sum.splits)
  with co show ?thesis
    by (auto simp: ep_get_attribute_value_def resolve_cluster_def get_cluster_def co_attr_def dget_dput)
qed

text \<open>C28: After a successful update of a known attribute, reading it on that endpoint gives the parsed value, and every other cluster of the endpoint is as before.\<close>

theorem attribute_update_read:
  assumes "endpoint_ok reg ep" "known_attribute reg (Some cid) (Some aid) = Some (cid, aid, cls, deflt)"
    and "0 \<le> eid" "0 \<le> cid" "0 \<le> aid"
    and "set_attribute_value piso reg (create_attribute_path (Some eid) (Some cid) (Some aid)) v ep = (ep', None)"
  shows "\<exists>name ty w. get_object_params (cc_fields cls) aid = Inr (name, ty) \<and>
      parse_value piso name v ty (Some deflt) False False = Inr w \<and>
      ep_get_attribute_value ep' (Some cid) (AttrId aid) = Inr w \<and>
      (\<forall>c. c \<noteq> cid \<longrightarrow> get_cluster ep' c = get_cluster ep c)"
  using assms by (rule attribute_stored)

definition demo_class :: cluster_class where
  "demo_class = \<lparr>cc_name = u ''OnOff'', cc_fields = [(u ''onOff'', Some 0, TyBool)], cc_init = [(u ''onOff'', PBool False)]\<rparr>"

definition demo_registry :: registry where
  "demo_registry = \<lparr>all_clusters = (\<lambda>c. if c = 6 then Some demo_class else None),
     all_attributes = (\<lambda>c. if c = 6 then Some (\<lambda>a. if a = 0 then Some (PBool False) else None) else None)\<rparr>"

theorem attribute_update_read_witness:
  "ep_get_attribute_value (fst (set_attribute_value fromisoformat demo_registry
      (create_attribute_path (Some 1) (Some 6) (Some 0)) (JBool True) (new_endpoint 1))) (Some 6) (AttrId 0) = Inr (PBool True)"
proof -
  have k: "known_attribute demo_registry (Some 6) (Some 0) = Some (6, 0, demo_class, PBool False)"
    by (simp add: known_attribute_def demo_registry_def)
  have p: "parse_value fromisoformat (u ''onOff'') (JBool True) TyBool (Some (PBool False)) False False = Inr (PBool True)"
    by (rule parse_scalar(6)) (simp add: noc_field_def)
  obtain ep' err where s: "set_attribute_value fromisoformat demo_registry
      (create_attribute_path (Some 1) (Some 6) (Some 0)) (JBool True) (new_endpoint 1) = (ep', err)" by force
  have "parse_attribute_path (create_attribute_path (Some 1) (Some 6) (Some 0)) = Inr (Some 1, Some 6, Some 0)"
    by (rule parse_created_path) simp
  with s have "err = None"
    by (auto simp: set_attribute_value_def k p Let_def demo_class_def simp del: u_simps split: option.splits)
  from attribute_update_read [OF new_endpoint_ok(1) k _ _ _ s [unfolded this]] p s show ?thesis
    by (auto simp: demo_class_def simp del: u_simps)
qed

text \<open>An attribute or cluster that is not registered changes nothing.\<close>

lemma unknown_attribute_ignored:
  "parse_attribute_path path = Inr (e, c, a) \<Longrightarrow> known_attribute reg c a = None \<Longrightarrow>
     set_attribute_value piso reg path v ep = (ep, None)"
  by (simp add: set_attribute_value_def)

section \<open>The climb to the device information\<close>

text \<open>C29: The search for the device information of an endpoint ends whenever the parents of the endpoints have no cycle, that is, when some rank goes down from an endpoint to its parent.\<close>

theorem device_info_ends:
  fixes rank :: "int \<Rightarrow> nat"
  assumes "node_ok reg node"
    and "\<And>child parent. dget (mn_composed node) (PInt child) = Some parent \<Longrightarrow> rank parent < rank child"
  shows "device_info node ep \<noteq> None"
proof (induction "rank (ep_id ep)" arbitrary: ep rule: less_induct)
  case less
  have "device_info node parent \<noteq> None" if p: "get_compose_parent node (ep_id ep) = Inr (Some parent)" for parent
  proof -
    from p obtain pid where pid: "dget (mn_composed node) (PInt (ep_id ep)) = Some pid"
      "dget (mn_endpoints node) pid = Some parent"
      by (auto simp: get_compose_parent_def node_endpoint_def rbind_eq_Inr split: option.splits if_splits)
    have "ep_id parent = pid" using assms(1) endpoints_ok_get pid(2) by (fastforce simp: node_ok_def)
    with less assms(2) [OF pid(1)] show ?thesis by simp
  qed
  then show ?case by (subst device_info.simps) (auto split: sum.split option.split)
qed

text \<open>An endpoint that lists itself as its part makes the climb run forever.\<close>

lemma device_info_self_parent:
  assumes "\<not> is_bridged_device ep" "get_compose_parent node (ep_id ep) = Inr (Some ep)"
  shows "device_info node ep = None"
proof -
  have "device_info n e = Some r \<Longrightarrow> \<not> (n = node \<and> e = ep)" for n e r
    by (erule device_info.raw_induct [rotated, of _ _ _ "\<lambda>n e r. \<not> (n = node \<and> e = ep)"])
      (use assms in \<open>auto split: if_splits sum.splits option.splits\<close>)
  then show ?thesis by (cases "device_info node ep") auto
qed

theorem device_info_ends_witness:
  "device_info \<lparr>mn_data = PNone, mn_endpoints = [(1, new_endpoint 1), (2, new_endpoint 2)], mn_composed = [(PInt 2, 1)]\<rparr>
     (new_endpoint 2) \<noteq> None"
proof (rule device_info_ends)
  show "node_ok demo_registry \<lparr>mn_data = PNone, mn_endpoints = [(1, new_endpoint 1), (2, new_endpoint 2)],
      mn_composed = [(PInt 2, 1)]\<rparr>"
    by (simp add: node_ok_def endpoints_ok_def new_endpoint_ok dict_ok_def)
  show "nat parent < nat child" if "dget (mn_composed \<lparr>mn_data = PNone, mn_endpoints =
      [(1, new_endpoint 1), (2, new_endpoint 2)], mn_composed = [(PInt 2, 1)]\<rparr>) (PInt child) = Some parent"
    for child parent
    using that by (simp add: dget_def split: if_splits)
qed

theorem endpoints_never_vanish_witness:
  "dget (mn_endpoints (fold (node_step fromisoformat demo_registry)
      [NodeDump (PInst (u ''MatterNodeData'') [(u ''attributes'', PDict [])])]
      \<lparr>mn_data = PNone, mn_endpoints = [(1, new_endpoint 1)], mn_composed = []\<rparr>)) 1 \<noteq> None"
  by (rule endpoints_never_vanish [of demo_registry])
    (simp_all add: node_ok_def endpoints_ok_def new_endpoint_ok dict_ok_def dget_def)

end
