(* ===== verification/Matter_Clusters.thy ===== *)
theory Matter_Clusters
  imports Cluster_Registry Matter_Node_Facts
begin

text \<open>
  The node cache (\<open>matter_server/client/models/node.py\<close>) on the generated cluster classes: the
  registry that \<open>Matter_Node\<close> takes as an argument is the one the import leaves behind.  How an
  annotation looks to the parser (\<open>tr\<close>), a new cluster instance (\<open>init\<close>) and a default value (\<open>dv\<close>)
  are arguments.
\<close>

definition class_for :: "(ctype \<Rightarrow> ptype) \<Rightarrow> (cluster_def \<Rightarrow> (pystr, pv) dict) \<Rightarrow> cluster_def \<Rightarrow> cluster_class" where
  "class_for tr init c = \<lparr>cc_name = cd_name c,
     cc_fields = map (\<lambda>(label, tag, t). (label, tag, tr t)) (class_fields (cd_fields c)), cc_init = init c\<rparr>"

definition registry_for ::
    "(ctype \<Rightarrow> ptype) \<Rightarrow> (cluster_def \<Rightarrow> (pystr, pv) dict) \<Rightarrow> (cdefault \<Rightarrow> pv) \<Rightarrow> registrations \<Rightarrow> registry" where
  "registry_for tr init dv r = \<lparr>
     all_clusters = (\<lambda>i. map_option (class_for tr init) (dget (ALL_CLUSTERS r) i)),
     all_attributes = (\<lambda>i. map_option (\<lambda>d j. map_option (dv \<circ> att_default) (dget d j)) (dget (ALL_ATTRIBUTES r) i))\<rparr>"

lemma object_params_found:
  "find (\<lambda>(_, tag, _). tag = Some j) fds = Some (label, tag, t) \<Longrightarrow>
     get_object_params (map (\<lambda>(label, tag, t). (label, tag, tr t)) fds) j = Inr (label, tr t)"
  by (induction fds) (auto split: if_splits)

lemma registered_known:
  assumes "table_get (ALL_ATTRIBUTES python_registrations) i j = Some a"
  shows "\<exists>c label. known_attribute (registry_for tr init dv python_registrations) (Some i) (Some j) =
      Some (i, j, class_for tr init c, dv (att_default a))
    \<and> get_object_params (cc_fields (class_for tr init c)) j = Inr (label, tr (att_type a))
    \<and> dget (ALL_CLUSTERS python_registrations) i = Some c
    \<and> get_field_by_tag (class_fields (cd_fields c)) (KTag j) = Some (label, Some j, att_type a)"
proof -
  obtain c label where c: "dget (ALL_CLUSTERS python_registrations) i = Some c" "0 \<le> i" "0 \<le> j"
    "get_field_by_tag (class_fields (cd_fields c)) (KTag j) = Some (label, Some j, att_type a)"
    using attribute_field_agrees [OF assms] by blast
  have "known_attribute (registry_for tr init dv python_registrations) (Some i) (Some j) =
      Some (i, j, class_for tr init c, dv (att_default a))"
    using assms c(1) by (auto simp: known_attribute_def registry_for_def table_get_def split: option.splits)
  with c object_params_found [of j "class_fields (cd_fields c)" label "Some j" "att_type a" tr]
  show ?thesis by (auto simp: get_field_by_tag_def class_for_def)
qed

text \<open>C12: On the generated classes the node cache never misses the descriptor of an attribute: an update of a registered attribute is parsed with the attribute's own type and default, what parses is what reading the attribute gives afterwards, and the only error is the parser's; an update of any other attribute changes nothing.\<close>

theorem generated_attribute_update:
  assumes "endpoint_ok (registry_for tr init dv python_registrations) ep" "0 \<le> e" "0 \<le> i" "0 \<le> j"
  shows "case table_get (ALL_ATTRIBUTES python_registrations) i j of
      None \<Rightarrow> set_attribute_value piso (registry_for tr init dv python_registrations)
          (create_attribute_path (Some e) (Some i) (Some j)) v ep = (ep, None)
    | Some a \<Rightarrow> \<exists>c label ep'. dget (ALL_CLUSTERS python_registrations) i = Some c
      \<and> get_field_by_tag (class_fields (cd_fields c)) (KTag j) = Some (label, Some j, att_type a)
      \<and> (case parse_value piso label v (tr (att_type a)) (Some (dv (att_default a))) False False of
        Inl err \<Rightarrow> set_attribute_value piso (registry_for tr init dv python_registrations)
          (create_attribute_path (Some e) (Some i) (Some j)) v ep = (ep', Some err)
      | Inr w \<Rightarrow> set_attribute_value piso (registry_for tr init dv python_registrations)
          (create_attribute_path (Some e) (Some i) (Some j)) v ep = (ep', None)
          \<and> ep_get_attribute_value ep' (Some i) (AttrId j) = Inr w)"
proof -
  let ?reg = "registry_for tr init dv python_registrations"
  let ?path = "create_attribute_path (Some e) (Some i) (Some j)"
  have path: "parse_attribute_path ?path = Inr (Some e, Some i, Some j)"
    using assms(2-4) by (intro parse_created_path) simp
  show ?thesis
  proof (cases "table_get (ALL_ATTRIBUTES python_registrations) i j")
    case None
    then have "known_attribute ?reg (Some i) (Some j) = None"
      by (auto simp: known_attribute_def registry_for_def table_get_def split: option.splits)
    with path None show ?thesis by (simp add: unknown_attribute_ignored)
  next
    case (Some a)
    from registered_known [OF this, of tr init dv] obtain c label where
      k: "known_attribute ?reg (Some i) (Some j) = Some (i, j, class_for tr init c, dv (att_default a))"
      and g: "get_object_params (cc_fields (class_for tr init c)) j = Inr (label, tr (att_type a))"
      and c: "dget (ALL_CLUSTERS python_registrations) i = Some c"
        "get_field_by_tag (class_fields (cd_fields c)) (KTag j) = Some (label, Some j, att_type a)" by blast
    obtain ep' err where s: "set_attribute_value piso ?reg ?path v ep = (ep', err)" by force
    show ?thesis
    proof (cases "parse_value piso label v (tr (att_type a)) (Some (dv (att_default a))) False False")
      case (Inl x)
      then have "err = Some x" using s by (auto simp: set_attribute_value_def path k g Let_def)
      with s Inl Some c show ?thesis by (auto intro!: exI [of _ c] exI [of _ label] exI [of _ ep'])
    next
      case (Inr w)
      then have "err = None" using s by (auto simp: set_attribute_value_def path k g Let_def)
      with attribute_stored [OF assms(1) k assms(2-4), of piso v ep'] s g c Inr Some show ?thesis
        by (auto intro!: exI [of _ c] exI [of _ label] exI [of _ ep'])
    qed
  qed
qed

text \<open>A run: the on-time of a switch.\<close>

definition demo_tr :: "ctype \<Rightarrow> ptype" where
  "demo_tr t = (if t = optional CUint then TyUnion [TyUint, TyNone] else TyAny)"

theorem generated_attribute_update_witness:
  "\<exists>ep'. set_attribute_value fromisoformat (registry_for demo_tr (\<lambda>_. []) (\<lambda>_. PNone) python_registrations)
      (create_attribute_path (Some 1) (Some 6) (Some 16385)) (JInt 30) (new_endpoint 1) = (ep', None)
    \<and> ep_get_attribute_value ep' (Some 6) (AttrId 16385) = Inr (PInt 30)"
proof -
  let ?reg = "registry_for demo_tr (\<lambda>_. []) (\<lambda>_. PNone) python_registrations"
  let ?path = "create_attribute_path (Some 1) (Some 6) (Some 16385)"
  have "dget (ALL_CLUSTERS python_registrations) 6 = Some OnOff_cluster"
    unfolding registrations_tables cluster_lookup [OF generated_ids_distinct] using OnOff_generated OnOff_cluster_ok(2) by blast
  moreover have "get_field_by_tag (class_fields (cd_fields OnOff_cluster)) (KTag 16385) = Some (u ''onTime'', Some 16385, optional CUint)"
    by (simp add: get_field_by_tag_def OnOff_cluster_def class_fields_def del: u_simps)
  moreover have "parse_value fromisoformat (u ''onTime'') (JInt 30) (demo_tr (optional CUint)) (Some PNone) False False = Inr (PInt 30)"
  proof -
    have "u ''onTime'' \<noteq> noc_field" by (simp add: noc_field_def)
    from parse_scalar(2) [OF this] show ?thesis
      by (simp add: demo_tr_def parse_union_eq tlv_error_def del: u_simps)
  qed
  ultimately show ?thesis
    using generated_attribute_update [where tr = demo_tr and init = "\<lambda>_. []" and dv = "\<lambda>_. PNone" and ep = "new_endpoint 1"
      and e = 1 and i = 6 and j = 16385 and piso = fromisoformat and v = "JInt 30", OF new_endpoint_ok(1)]
    by (auto simp: OnTime_registered)
qed

end
