(* ===== verification/Tlv_List.thy ===== *)
theory Tlv_List
  imports LLPrelude
begin

text \<open>
  \<open>TLVList\<close> (\<open>python_client/chip/tlv/tlvlist.py\<close>): the ordered tag-value pairs of a TLV path, with
  its lookups by tag and by position and their errors.  A tag or an index that is neither an integer
  nor \<open>None\<close> is one of the \<open>other\<close> objects.
\<close>

datatype list_tag = Anonymous | TagInt int | OtherTag

type_synonym 'v tlv_list = "(list_tag \<times> 'v) list"

text \<open>What is between the brackets: \<open>TLVList.IndexMethod.Tag:tag\<close>, \<open>TLVList.IndexMethod.Index:i\<close>,
  another slice, an integer, or something else.\<close>

datatype access = SliceTag list_tag | SliceIndex int | OtherSlice | ByInt int | OtherAccess

fun tl_append :: "list_tag \<Rightarrow> 'v \<Rightarrow> 'v tlv_list \<Rightarrow> 'v tlv_list res" where
  "tl_append OtherTag v l = Inl KeyError"
| "tl_append t v l = Inr (l @ [(t, v)])"

fun tl_init :: "(list_tag \<times> 'v) list \<Rightarrow> 'v tlv_list \<Rightarrow> 'v tlv_list res" where
  "tl_init [] l = Inr l"
| "tl_init ((t, v) # items) l = rbind (tl_append t v l) (tl_init items)"

definition tl_get_by_tag :: "list_tag \<Rightarrow> 'v tlv_list \<Rightarrow> 'v res" where
  "tl_get_by_tag t l = (case t of
       TagInt n \<Rightarrow> (case find (\<lambda>(t', _). t' = TagInt n) l of Some (_, v) \<Rightarrow> Inr v | None \<Rightarrow> Inl KeyError)
     | _ \<Rightarrow> Inl ValueError)"

text \<open>\<open>self._data[index]\<close>: a negative index counts from the end.\<close>

definition tl_at :: "int \<Rightarrow> 'v tlv_list \<Rightarrow> (list_tag \<times> 'v) res" where
  "tl_at i l = (let j = (if i < 0 then i + int (length l) else i) in
     if 0 \<le> j \<and> j < int (length l) then Inr (l ! nat j) else Inl IndexError)"

text \<open>\<open>__getitem__\<close>: a value by tag, a pair of tag and value by position.\<close>

datatype 'v item = ItemValue 'v | ItemPair list_tag 'v

definition tl_getitem :: "access \<Rightarrow> 'v tlv_list \<Rightarrow> 'v item res" where
  "tl_getitem a l = (case a of
       SliceTag t \<Rightarrow> rbind (tl_get_by_tag t l) (\<lambda>v. Inr (ItemValue v))
     | SliceIndex i \<Rightarrow> rbind (tl_at i l) (\<lambda>(t, v). Inr (ItemPair t v))
     | OtherSlice \<Rightarrow> Inl ValueError
     | ByInt n \<Rightarrow> rbind (tl_get_by_tag (TagInt n) l) (\<lambda>v. Inr (ItemValue v))
     | OtherAccess \<Rightarrow> Inl ValueError)"

definition tl_iter :: "'v tlv_list \<Rightarrow> (list_tag \<times> 'v) list" where
  "tl_iter l = l"

text \<open>A list is built from exactly the items whose tags are integers or absent, in order.\<close>

lemma tl_init_items:
  "tl_init items l = (if \<exists>(t, v) \<in> set items. t = OtherTag then Inl KeyError else Inr (l @ items))"
proof (induction items arbitrary: l)
  case (Cons item items)
  obtain t v where "item = (t, v)" by (cases item)
  then show ?case using Cons by (cases t) auto
qed simp

lemma tl_append_get:
  assumes "tl_append (TagInt n) v l = Inr l'" "tl_getitem (ByInt n) l = Inl KeyError"
  shows "tl_getitem (ByInt n) l' = Inr (ItemValue v)"
proof -
  have "find (\<lambda>(t', _). t' = TagInt n) l = None"
    using assms(2) by (auto simp: tl_getitem_def tl_get_by_tag_def rbind_eq_Inl split: option.splits)
  then have "find (\<lambda>(t', _). t' = TagInt n) (l @ [(TagInt n, v)]) = Some (TagInt n, v)"
    by (induction l) (auto split: if_splits)
  then show ?thesis using assms(1) by (auto simp: tl_getitem_def tl_get_by_tag_def)
qed

text \<open>A path is read back from its list: by position every item that was appended, the last under -1,
  and by tag the first item that carries it.\<close>

lemma tlv_list_lookup:
  assumes "tl_init items [] = Inr l" "i < length items"
  shows "tl_getitem (SliceIndex (int i)) l = Inr (ItemPair (fst (items ! i)) (snd (items ! i)))
    \<and> tl_getitem (SliceIndex (int i - int (length items))) l = tl_getitem (SliceIndex (int i)) l
    \<and> (fst (items ! i) = TagInt n \<and> (\<forall>j < i. fst (items ! j) \<noteq> TagInt n)
        \<longrightarrow> tl_getitem (ByInt n) l = Inr (ItemValue (snd (items ! i))))"
proof -
  have l: "l = items" using assms(1) by (auto simp: tl_init_items split: if_splits)
  have "find (\<lambda>(t', _). t' = TagInt n) items = Some (items ! i)"
    if "fst (items ! i) = TagInt n" "\<forall>j < i. fst (items ! j) \<noteq> TagInt n"
    using that assms(2) by (auto simp: find_Some_iff case_prod_beta)
  then show ?thesis using assms(2)
    by (auto simp: l tl_getitem_def tl_at_def tl_get_by_tag_def Let_def case_prod_beta split: option.split)
qed

end
