(* ===== verification/Ble_Scan.thy ===== *)
theory Ble_Scan
  imports Py_Json Base64
begin

text \<open>
  Scanning in the BLE proxy (\<open>python_ble_proxy/matter_ble_proxy\<close>): \<open>_normalize_uuid\<close> and the
  advertisement callback \<open>_on_advertisement\<close> of \<open>_handle_start_scan\<close> (\<open>client.py\<close>), the
  \<open>AdvertisementData\<close> it is given (\<open>protocol.py\<close>), and the default scan source
  \<open>BleakScanSource\<close> (\<open>bleak_backend.py\<close>), which implements the interface \<open>BleScanSource\<close>.
\<close>

section \<open>UUIDs\<close>

text \<open>\<open>str.lower()\<close> on ASCII, which is where UUIDs live; other characters are left alone.\<close>

definition lower_char :: "nat \<Rightarrow> nat" where
  "lower_char c = (if 65 \<le> c \<and> c \<le> 90 then c + 32 else c)"

definition base_uuid_tail :: pystr where
  "base_uuid_tail = u ''00001000800000805f9b34fb''"

definition compact_uuid :: "pystr \<Rightarrow> pystr" where
  "compact_uuid uuid = filter (\<lambda>c. c \<noteq> 45) (map lower_char uuid)"

definition zeros4 :: pystr where
  "zeros4 = u ''0000''"

definition normalize_uuid :: "pystr \<Rightarrow> pystr" where
  "normalize_uuid uuid =
     (let compact = compact_uuid uuid in
      if length compact = 32 \<and> drop 8 compact = base_uuid_tail \<and> take 4 compact = zeros4
      then take 4 (drop 4 compact)
      else if length compact = 8 \<and> take 4 compact = zeros4 then drop 4 compact
      else compact)"

lemma lower_char_idem [simp]: "lower_char (lower_char c) = lower_char c"
  by (auto simp: lower_char_def)

lemma lower_char_hyphen [simp]: "lower_char c = 45 \<longleftrightarrow> c = 45"
  by (auto simp: lower_char_def)

lemma compact_idem [simp]: "compact_uuid (compact_uuid s) = compact_uuid s"
  by (induction s) (auto simp: compact_uuid_def)

lemma compact_append: "compact_uuid (s @ t) = compact_uuid s @ compact_uuid t"
  by (simp add: compact_uuid_def)

text \<open>Only the compact form matters: case and hyphens do not.\<close>

lemma normalize_cong: "compact_uuid s = compact_uuid t \<Longrightarrow> normalize_uuid s = normalize_uuid t"
  by (simp add: normalize_uuid_def)

text \<open>The forms of a 16-bit UUID: short, 32-bit, and within the Bluetooth base UUID.\<close>

lemma normalize_short: "length (compact_uuid s) = 4 \<Longrightarrow> normalize_uuid s = compact_uuid s"
  by (simp add: normalize_uuid_def Let_def)

lemma compact_zeros [simp]: "compact_uuid zeros4 = zeros4" "length zeros4 = 4"
  by (simp_all add: compact_uuid_def zeros4_def lower_char_def)

lemma compact_tail [simp]: "compact_uuid base_uuid_tail = base_uuid_tail" "length base_uuid_tail = 24"
  by (simp_all add: compact_uuid_def base_uuid_tail_def lower_char_def)

lemma normalize_padded:
  "length (compact_uuid s) = 4 \<Longrightarrow> normalize_uuid (zeros4 @ s) = compact_uuid s"
  by (simp add: normalize_uuid_def Let_def compact_append)

lemma normalize_wrapped:
  "length (compact_uuid s) = 4 \<Longrightarrow> compact_uuid t = base_uuid_tail \<Longrightarrow>
    normalize_uuid (zeros4 @ s @ t) = compact_uuid s"
  by (simp add: normalize_uuid_def Let_def compact_append)

lemma normalize_idem: "normalize_uuid (normalize_uuid s) = normalize_uuid s"
proof -
  have canon: "compact_uuid xs = xs" if "\<forall>c \<in> set xs. lower_char c = c \<and> c \<noteq> 45" for xs
    using that by (simp add: compact_uuid_def map_idI)
  have "\<forall>c \<in> set (compact_uuid s). lower_char c = c \<and> c \<noteq> 45"
    by (auto simp: compact_uuid_def)
  then have c: "compact_uuid (take n (compact_uuid s)) = take n (compact_uuid s)"
    "compact_uuid (drop n (compact_uuid s)) = drop n (compact_uuid s)"
    "compact_uuid (take m (drop n (compact_uuid s))) = take m (drop n (compact_uuid s))" for n m
    by (auto intro!: canon dest!: in_set_takeD in_set_dropD)
  show ?thesis
    by (auto simp: normalize_uuid_def Let_def c)
qed

section \<open>Advertisements\<close>

record advertisement =
  ad_address :: pystr
  ad_name :: "pystr option"
  ad_rssi :: "int option"
  ad_connectable :: bool
  ad_service_data :: "(pystr, byte list) dict"
  ad_manufacturer_data :: "(nat, byte list) dict"
  ad_service_uuids :: "pystr list"

text \<open>The closure of one \<open>start_scan\<close>: its filter, its flag and the fingerprints it has seen.\<close>

type_synonym fingerprint = "pystr option \<times> bool \<times> pystr list \<times> (pystr \<times> byte list) list"

record scan_callback =
  cb_uuid_set :: "pystr list option"
  cb_allow_duplicates :: bool
  cb_last_fingerprint :: "(pystr, fingerprint) dict"

definition ad_fingerprint :: "advertisement \<Rightarrow> fingerprint" where
  "ad_fingerprint ad = (ad_name ad, ad_connectable ad, sort (ad_service_uuids ad),
     sort_key fst (ad_service_data ad))"

definition ad_matches :: "scan_callback \<Rightarrow> advertisement \<Rightarrow> bool" where
  "ad_matches cb ad = (case cb_uuid_set cb of
       None \<Rightarrow> True
     | Some wanted \<Rightarrow> list_ex (\<lambda>w. w \<in> set (map normalize_uuid (ad_service_uuids ad))
          \<or> w \<in> set (map (\<lambda>(k, _). normalize_uuid k) (ad_service_data ad))) wanted)"

definition option_json :: "('a \<Rightarrow> json) \<Rightarrow> 'a option \<Rightarrow> json" where
  "option_json f v = (case v of None \<Rightarrow> JNull | Some x \<Rightarrow> f x)"

text \<open>The \<open>device_discovered\<close> event's data.\<close>

definition ad_event :: "advertisement \<Rightarrow> json" where
  "ad_event ad = JObj
     [(u ''address'', JStr (ad_address ad)),
      (u ''name'', option_json JStr (ad_name ad)),
      (u ''rssi'', option_json JInt (ad_rssi ad)),
      (u ''connectable'', JBool (ad_connectable ad)),
      (u ''service_data'', JObj (map (\<lambda>(k, v). (k, JStr (b64encode v))) (ad_service_data ad))),
      (u ''manufacturer_data'', JObj (map (\<lambda>(k, v). (dec k, JStr (b64encode v))) (ad_manufacturer_data ad))),
      (u ''service_uuids'', JList (map JStr (ad_service_uuids ad)))]"

text \<open>\<open>_on_advertisement\<close>: the closure after the call, and the event it spawned, if any.\<close>

definition on_advertisement :: "advertisement \<Rightarrow> scan_callback \<Rightarrow> scan_callback \<times> json option" where
  "on_advertisement ad cb =
     (if \<not> ad_matches cb ad then (cb, None)
      else if \<not> cb_allow_duplicates cb then
        let fp = ad_fingerprint ad in
        if dget (cb_last_fingerprint cb) (ad_address ad) = Some fp then (cb, None)
        else (cb\<lparr>cb_last_fingerprint := dput (ad_address ad) fp (cb_last_fingerprint cb)\<rparr>, Some (ad_event ad))
      else (cb, Some (ad_event ad)))"

fun on_advertisements :: "advertisement list \<Rightarrow> scan_callback \<Rightarrow> scan_callback \<times> json list" where
  "on_advertisements [] cb = (cb, [])"
| "on_advertisements (ad # ads) cb =
     (let (cb1, ev) = on_advertisement ad cb; (cb2, evs) = on_advertisements ads cb1
      in (cb2, (case ev of None \<Rightarrow> [] | Some e \<Rightarrow> [e]) @ evs))"

lemma on_advertisement_frame:
  "cb_uuid_set (fst (on_advertisement ad cb)) = cb_uuid_set cb"
  "cb_allow_duplicates (fst (on_advertisement ad cb)) = cb_allow_duplicates cb"
  by (auto simp: on_advertisement_def Let_def)

lemma ad_matches_frame: "ad_matches (fst (on_advertisement ad cb)) = ad_matches cb"
  by (rule ext) (simp add: ad_matches_def on_advertisement_frame)

text \<open>With duplicates suppressed, the remembered fingerprint of an address is that of its last
  matching advertisement.\<close>

lemma last_fingerprint_step:
  "\<not> cb_allow_duplicates cb \<Longrightarrow> dget (cb_last_fingerprint (fst (on_advertisement ad cb))) a =
     (if a = ad_address ad \<and> ad_matches cb ad then Some (ad_fingerprint ad)
      else dget (cb_last_fingerprint cb) a)"
  by (auto simp: on_advertisement_def Let_def dget_dput)

text \<open>The advertisements that pass, by definition over the stream: those that match and, with
  duplicates suppressed, differ from the previous match of their address.\<close>

fun ad_reported :: "bool \<Rightarrow> (pystr \<Rightarrow> fingerprint option) \<Rightarrow> advertisement list \<Rightarrow> advertisement list" where
  "ad_reported dup seen [] = []"
| "ad_reported dup seen (ad # ads) =
     (if dup \<or> seen (ad_address ad) \<noteq> Some (ad_fingerprint ad)
      then ad # ad_reported dup (seen(ad_address ad \<mapsto> ad_fingerprint ad)) ads
      else ad_reported dup seen ads)"

lemma on_advertisements_reported:
  "snd (on_advertisements ads cb) =
     map ad_event (ad_reported (cb_allow_duplicates cb) (dget (cb_last_fingerprint cb))
       (filter (ad_matches cb) ads))"
proof (induction ads arbitrary: cb)
  case (Cons ad ads)
  let ?cb = "fst (on_advertisement ad cb)"
  have rep_dup: "ad_reported True s xs = xs" for s xs by (induction xs arbitrary: s) auto
  have upd: "dget (cb_last_fingerprint ?cb) = (dget (cb_last_fingerprint cb))(ad_address ad \<mapsto> ad_fingerprint ad)"
    if "\<not> cb_allow_duplicates cb" "ad_matches cb ad"
    using that by (auto simp: last_fingerprint_step)
  have same: "dget (cb_last_fingerprint ?cb) = dget (cb_last_fingerprint cb)"
    if "\<not> cb_allow_duplicates cb" "\<not> ad_matches cb ad"
    using that by (auto simp: last_fingerprint_step)
  have IH: "snd (on_advertisements ads ?cb) = map ad_event (ad_reported (cb_allow_duplicates cb)
      (dget (cb_last_fingerprint ?cb)) (filter (ad_matches cb) ads))"
    using Cons.IH [of ?cb] by (simp add: on_advertisement_frame ad_matches_frame)
  have ev: "snd (on_advertisement ad cb) =
     (if ad_matches cb ad \<and> (cb_allow_duplicates cb
         \<or> dget (cb_last_fingerprint cb) (ad_address ad) \<noteq> Some (ad_fingerprint ad))
      then Some (ad_event ad) else None)"
    by (auto simp: on_advertisement_def Let_def)
  have split: "snd (on_advertisements (ad # ads) cb) =
     (case snd (on_advertisement ad cb) of None \<Rightarrow> [] | Some e \<Rightarrow> [e]) @ snd (on_advertisements ads ?cb)"
    by (simp add: case_prod_unfold Let_def)
  show ?case
  proof (cases "cb_allow_duplicates cb")
    case True
    then show ?thesis unfolding split IH ev by (simp add: rep_dup)
  next
    case False
    then show ?thesis
      unfolding split IH ev
      by (cases "ad_matches cb ad") (auto simp: upd same fun_upd_idem)
  qed
qed simp

section \<open>Scan sources\<close>

text \<open>
  What the proxy expects of a \<open>BleScanSource\<close>: a successful \<open>start\<close> routes advertisements to the
  callback it was given, and \<open>after stop, no more callbacks fire\<close>.  The second argument of \<open>start\<close>
  is whether the radio starts.
\<close>

locale scan_source =
  fixes start :: "'cb \<Rightarrow> bool \<Rightarrow> 's \<Rightarrow> 's \<times> bool"
    and stop :: "'s \<Rightarrow> 's"
    and callback :: "'s \<Rightarrow> 'cb option"
  assumes start_registers: "start cb radio s = (s', True) \<Longrightarrow> callback s' = Some cb"
    and stop_silent: "callback (stop s) = None"
    and stop_idempotent: "stop (stop s) = stop s"
begin

lemma restart: "start cb radio (stop s) = (s', True) \<Longrightarrow> callback s' = Some cb \<and> callback (stop s') = None"
  by (simp add: start_registers stop_silent)

end

record ble_device =
  dv_address :: pystr
  dv_name :: "pystr option"

text \<open>\<open>_scanner\<close> is the scanner object, if there is one, and whether its radio runs.\<close>

record bleak_source =
  bs_scanner :: "bool option"
  bs_callback :: "scan_callback option"
  bs_device_cache :: "(pystr, ble_device) dict"

definition bleak_new :: bleak_source where
  "bleak_new = \<lparr>bs_scanner = None, bs_callback = None, bs_device_cache = []\<rparr>"

text \<open>\<open>start\<close> raises when the radio does not start; by then \<open>_scanner\<close> is set.\<close>

definition bleak_start :: "scan_callback \<Rightarrow> bool \<Rightarrow> bleak_source \<Rightarrow> bleak_source \<times> bool" where
  "bleak_start cb radio s =
     (let s1 = s\<lparr>bs_callback := Some cb\<rparr> in
      case bs_scanner s of
        Some _ \<Rightarrow> (s1, True)
      | None \<Rightarrow> (s1\<lparr>bs_scanner := Some radio\<rparr>, radio))"

definition bleak_stop :: "bleak_source \<Rightarrow> bleak_source" where
  "bleak_stop s = s\<lparr>bs_scanner := None, bs_callback := None\<rparr>"

interpretation bleak: scan_source bleak_start bleak_stop bs_callback
  by unfold_locales (auto simp: bleak_start_def bleak_stop_def Let_def split: option.splits)

text \<open>\<open>advertisement.local_name or device.name\<close>: an empty name counts as none.\<close>

definition or_name :: "pystr option \<Rightarrow> pystr option \<Rightarrow> pystr option" where
  "or_name a b = (if a = None \<or> a = Some [] then b else a)"

definition on_detection :: "ble_device \<Rightarrow> advertisement \<Rightarrow> bleak_source \<Rightarrow> bleak_source \<times> json option" where
  "on_detection device adv s =
     (let s1 = s\<lparr>bs_device_cache := dput (dv_address device) device (bs_device_cache s)\<rparr>;
          ad = adv\<lparr>ad_address := dv_address device, ad_name := or_name (ad_name adv) (dv_name device),
                   ad_connectable := True\<rparr>
      in case bs_callback s1 of
           None \<Rightarrow> (s1, None)
         | Some cb \<Rightarrow> (let (cb', ev) = on_advertisement ad cb in (s1\<lparr>bs_callback := Some cb'\<rparr>, ev)))"

text \<open>\<open>BleakDeviceResolver.resolve\<close>: the cached device, else the address itself.\<close>

datatype target = Device ble_device | Address json

definition bleak_resolve :: "bleak_source \<Rightarrow> json \<Rightarrow> target option res" where
  "bleak_resolve s address = rbind (jkey address) (\<lambda>k.
     Inr (Some (case k of
        JStr a \<Rightarrow> (case dget (bs_device_cache s) a of Some d \<Rightarrow> Device d | None \<Rightarrow> Address address)
      | _ \<Rightarrow> Address address)))"

lemma on_detection_silent: "bs_callback s = None \<Longrightarrow> snd (on_detection device adv s) = None"
  by (simp add: on_detection_def Let_def)

lemma bleak_start_scanner: "bs_scanner s = None \<Longrightarrow>
    bleak_start cb radio s = (s\<lparr>bs_callback := Some cb, bs_scanner := Some radio\<rparr>, radio)"
  by (simp add: bleak_start_def Let_def)

end
