(* ===== verification/Ble_Proxy.thy ===== *)
theory Ble_Proxy
  imports Ble_Scan Struct_Pack
begin

text \<open>
  The BLE proxy client (\<open>MatterBleProxy\<close> in \<open>matter_ble_proxy/client.py\<close>): the handshake, the
  message loop, one definition per command handler, binary frames and the callbacks of the BLE
  stack.  A step maps the proxy's state to the next one and the list of what it did: the messages
  it sent and the operations it asked of the BLE stack, in order.

  Bleak is not part of the repository: what it answers during one step is the \<open>backend\<close> of that
  step, an argument of every handler, on which nothing is assumed.  Handlers are atomic: callbacks
  run between steps.  The human-readable \<open>message\<close> of an error reply and logging are left out.
\<close>

section \<open>State\<close>

record gatt_char =
  gc_uuid :: pystr
  gc_properties :: "pystr list"

type_synonym gatt = "(pystr \<times> gatt_char list) list"

text \<open>\<open>ConnectionState\<close>; a Bleak client is the number of the \<open>connect\<close> that made it.\<close>

record ble_conn =
  cn_client :: nat
  cn_handle :: int
  cn_services :: "gatt option"
  cn_subscriptions :: "(json, gatt_char) dict"
  cn_last_write :: "gatt_char option"
  cn_intentional :: bool

text \<open>\<open>px_open\<close>: the WebSocket can be written; \<open>px_running\<close>: the message loop runs.\<close>

record proxy =
  px_connections :: "(int, ble_conn) dict"
  px_next_handle :: "16 word"
  px_scanning :: bool
  px_source :: bleak_source
  px_open :: bool
  px_running :: bool
  px_closed :: bool
  px_clients :: nat

definition new_proxy :: proxy where
  "new_proxy = \<lparr>px_connections = [], px_next_handle = 1, px_scanning = False, px_source = bleak_new,
     px_open = False, px_running = False, px_closed = False, px_clients = 0\<rparr>"

section \<open>The BLE stack\<close>

datatype connect_outcome = Connected | ConnectTimeout | ConnectError | ClientError

datatype char_spec = ByUuid json | ByChar gatt_char

record backend =
  bk_resolve :: "json \<Rightarrow> target option res"
  bk_connect :: "target \<Rightarrow> json \<Rightarrow> connect_outcome"
  bk_mtu :: "nat \<Rightarrow> int option"
  bk_services :: "nat \<Rightarrow> gatt option"
  bk_get_service :: "gatt \<Rightarrow> json \<Rightarrow> (pystr \<times> gatt_char list) option res"
  bk_get_characteristic :: "gatt \<Rightarrow> json \<Rightarrow> gatt_char option res"
  bk_read :: "nat \<Rightarrow> json \<Rightarrow> byte list res"
  bk_write :: "nat \<Rightarrow> char_spec \<Rightarrow> byte list \<Rightarrow> json \<Rightarrow> bool"
  bk_start_notify :: "nat \<Rightarrow> json \<Rightarrow> bool"
  bk_stop_notify :: "nat \<Rightarrow> json \<Rightarrow> bool"
  bk_is_connected :: "nat \<Rightarrow> bool"
  bk_disconnect :: "nat \<Rightarrow> bool"
  bk_scan_radio :: bool

datatype action =
    SendSuccess json json
  | SendError json pystr
  | SendEvent pystr json
  | SendHello
  | SendBinary "byte list"
  | GattConnect nat target
  | GattDisconnect nat
  | GattWrite nat char_spec "byte list" json
  | GattSubscribe nat json
  | GattUnsubscribe nat json

text \<open>The result of a handler: the state, what it did, and the exception that left it, if any.\<close>

type_synonym handled = "proxy \<times> action list \<times> pyexc option"

definition send :: "proxy \<Rightarrow> action \<Rightarrow> action list" where
  "send st a = (if px_open st then [a] else [])"

definition reply_ok :: "json \<Rightarrow> json \<Rightarrow> proxy \<Rightarrow> action list \<Rightarrow> handled" where
  "reply_ok cid result st acts = (st, acts @ send st (SendSuccess cid result), None)"

definition reply_error :: "json \<Rightarrow> string \<Rightarrow> proxy \<Rightarrow> action list \<Rightarrow> handled" where
  "reply_error cid code st acts = (st, acts @ send st (SendError cid (u code)), None)"

definition raised :: "pyexc \<Rightarrow> proxy \<Rightarrow> action list \<Rightarrow> handled" where
  "raised e st acts = (st, acts, Some e)"

text \<open>Continue with the value of an expression that may raise.\<close>

definition attempt :: "'a res \<Rightarrow> proxy \<Rightarrow> action list \<Rightarrow> ('a \<Rightarrow> handled) \<Rightarrow> handled" where
  "attempt r st acts f = (case r of Inl e \<Rightarrow> raised e st acts | Inr x \<Rightarrow> f x)"

section \<open>Scanning\<close>

definition json_uuid :: "json \<Rightarrow> pystr res" where
  "json_uuid j = (case j of JStr s \<Rightarrow> Inr (normalize_uuid s) | _ \<Rightarrow> Inl AttributeError)"

definition scan_filter :: "json \<Rightarrow> pystr list option res" where
  "scan_filter uuids = (if truthy uuids
     then rbind (jiter uuids) (\<lambda>us. rbind (rmap json_uuid us) (\<lambda>ns. Inr (Some ns)))
     else Inr None)"

definition handle_start_scan :: "backend \<Rightarrow> json \<Rightarrow> json \<Rightarrow> proxy \<Rightarrow> handled" where
  "handle_start_scan bk cid args st =
     (if px_scanning st then reply_error cid ''already_scanning'' st []
      else attempt (rbind (jget_default args (u ''service_uuids'') (JList [])) (\<lambda>uuids.
             rbind (scan_filter uuids) (\<lambda>filter_set.
             rbind (jget_default args (u ''allow_duplicates'') (JBool True)) (\<lambda>dup.
               Inr \<lparr>cb_uuid_set = filter_set, cb_allow_duplicates = truthy dup, cb_last_fingerprint = []\<rparr>))))
           st [] (\<lambda>cb.
             let (src, started) = bleak_start cb (bk_scan_radio bk) (px_source st);
                 st1 = st\<lparr>px_source := src\<rparr>
             in if started then reply_ok cid (JObj []) (st1\<lparr>px_scanning := True\<rparr>) []
                else raised RuntimeError st1 []))"

definition handle_stop_scan :: "json \<Rightarrow> proxy \<Rightarrow> handled" where
  "handle_stop_scan cid st =
     (if \<not> px_scanning st then reply_error cid ''not_scanning'' st []
      else reply_ok cid (JObj []) (st\<lparr>px_source := bleak_stop (px_source st), px_scanning := False\<rparr>) [])"

section \<open>Connections\<close>

definition is_number :: "json \<Rightarrow> bool" where
  "is_number j = (case j of JInt _ \<Rightarrow> True | JBool _ \<Rightarrow> True | JFloat _ \<Rightarrow> True | _ \<Rightarrow> False)"

definition client_mtu :: "backend \<Rightarrow> nat \<Rightarrow> int" where
  "client_mtu bk c = (case bk_mtu bk c of None \<Rightarrow> 23 | Some m \<Rightarrow> m)"

definition new_conn :: "nat \<Rightarrow> int \<Rightarrow> ble_conn" where
  "new_conn c h = \<lparr>cn_client = c, cn_handle = h, cn_services = None, cn_subscriptions = [],
     cn_last_write = None, cn_intentional = False\<rparr>"

definition put_conn :: "int \<Rightarrow> ble_conn \<Rightarrow> proxy \<Rightarrow> proxy" where
  "put_conn h conn st = st\<lparr>px_connections := dput h conn (px_connections st)\<rparr>"

text \<open>The next handle and a new client; \<open>(handle + 1) & 0xFFFF\<close> is addition on 16 bits.\<close>

definition allocate :: "proxy \<Rightarrow> int \<times> nat \<times> proxy" where
  "allocate st = (uint (px_next_handle st), px_clients st,
     st\<lparr>px_next_handle := px_next_handle st + 1, px_clients := Suc (px_clients st)\<rparr>)"

definition handle_connect :: "backend \<Rightarrow> json \<Rightarrow> json \<Rightarrow> proxy \<Rightarrow> handled" where
  "handle_connect bk cid args st =
     attempt (jindex args (u ''address'')) st [] (\<lambda>address.
     attempt (jget_default args (u ''timeout'') (JInt 30000)) st [] (\<lambda>timeout.
     attempt (bk_resolve bk address) st [] (\<lambda>found.
       case found of
         None \<Rightarrow> reply_error cid ''device_not_found'' st []
       | Some target \<Rightarrow>
           let (h, c, st1) = allocate st in
           if bk_connect bk target timeout = ClientError then raised RuntimeError st1 []
           else if \<not> is_number timeout then reply_error cid ''connection_failed'' st1 []
           else if bk_connect bk target timeout \<noteq> Connected
           then reply_error cid ''connection_failed'' st1 [GattConnect c target]
           else reply_ok cid (JObj [(u ''connection_handle'', JInt h), (u ''mtu'', JInt (client_mtu bk c))])
                  (put_conn h (new_conn c h) st1) [GattConnect c target])))"

definition get_connection :: "proxy \<Rightarrow> json \<Rightarrow> (int \<times> ble_conn) option res" where
  "get_connection st j = rbind (jkey j) (\<lambda>k. Inr (case k of
     JInt h \<Rightarrow> map_option (\<lambda>conn. (h, conn)) (dget (px_connections st) h) | _ \<Rightarrow> None))"

definition handle_disconnect :: "backend \<Rightarrow> json \<Rightarrow> json \<Rightarrow> proxy \<Rightarrow> handled" where
  "handle_disconnect bk cid args st =
     attempt (rbind (jindex args (u ''connection_handle'')) (get_connection st)) st [] (\<lambda>found.
       case found of
         None \<Rightarrow> reply_error cid ''not_connected'' st []
       | Some (h, conn) \<Rightarrow>
           let st1 = st\<lparr>px_connections := dpop h (px_connections st)\<rparr> in
           if \<not> bk_is_connected bk (cn_client conn) then reply_ok cid (JObj []) st1 []
           else if bk_disconnect bk (cn_client conn)
           then reply_ok cid (JObj []) st1 [GattDisconnect (cn_client conn)]
           else raised RuntimeError st1 [GattDisconnect (cn_client conn)])"

text \<open>The prologue of the handlers that need a connection.\<close>

definition with_connection :: "json \<Rightarrow> json \<Rightarrow> proxy \<Rightarrow> (int \<Rightarrow> ble_conn \<Rightarrow> handled) \<Rightarrow> handled" where
  "with_connection cid args st body =
     attempt (rbind (jindex args (u ''connection_handle'')) (get_connection st)) st [] (\<lambda>found.
       case found of
         None \<Rightarrow> reply_error cid ''not_connected'' st []
       | Some (h, conn) \<Rightarrow> body h conn)"

section \<open>GATT\<close>

definition handle_discover_services :: "backend \<Rightarrow> json \<Rightarrow> json \<Rightarrow> proxy \<Rightarrow> handled" where
  "handle_discover_services bk cid args st = with_connection cid args st (\<lambda>h conn.
     case bk_services bk (cn_client conn) of
       None \<Rightarrow> reply_error cid ''discover_failed'' st []
     | Some services \<Rightarrow>
         reply_ok cid (JObj [(u ''services'', JList (map (\<lambda>(uuid, _). JObj [(u ''uuid'', JStr uuid)]) services))])
           (put_conn h (conn\<lparr>cn_services := Some services\<rparr>) st) [])"

definition char_json :: "gatt_char \<Rightarrow> json" where
  "char_json c = JObj [(u ''uuid'', JStr (gc_uuid c)), (u ''properties'', JList (map JStr (gc_properties c)))]"

definition handle_discover_characteristics :: "backend \<Rightarrow> json \<Rightarrow> json \<Rightarrow> proxy \<Rightarrow> handled" where
  "handle_discover_characteristics bk cid args st = with_connection cid args st (\<lambda>h conn.
     attempt (jindex args (u ''service_uuid'')) st [] (\<lambda>uuid.
       case cn_services conn of
         None \<Rightarrow> reply_error cid ''service_not_found'' st []
       | Some services \<Rightarrow>
           attempt (bk_get_service bk services uuid) st [] (\<lambda>service.
             case service of
               None \<Rightarrow> reply_error cid ''service_not_found'' st []
             | Some (_, chars) \<Rightarrow>
                 reply_ok cid (JObj [(u ''characteristics'', JList (map char_json chars))]) st [])))"

definition handle_read_characteristic :: "backend \<Rightarrow> json \<Rightarrow> json \<Rightarrow> proxy \<Rightarrow> handled" where
  "handle_read_characteristic bk cid args st = with_connection cid args st (\<lambda>h conn.
     attempt (jindex args (u ''characteristic_uuid'')) st [] (\<lambda>uuid.
       case bk_read bk (cn_client conn) uuid of
         Inl _ \<Rightarrow> reply_error cid ''read_failed'' st []
       | Inr data \<Rightarrow> reply_ok cid (JObj [(u ''value'', JStr (b64encode data))]) st []))"

definition decode_arg :: "json \<Rightarrow> byte list res" where
  "decode_arg j = (case j of JStr s \<Rightarrow> b64decode False s | _ \<Rightarrow> Inl TypeError)"

text \<open>After a write: remember its characteristic, when the services are known and name it.\<close>

definition note_write :: "backend \<Rightarrow> json \<Rightarrow> int \<Rightarrow> ble_conn \<Rightarrow> proxy \<Rightarrow> action list \<Rightarrow> (ble_conn \<Rightarrow> proxy \<Rightarrow> handled) \<Rightarrow> handled" where
  "note_write bk uuid h conn st acts body =
     (case cn_services conn of
        None \<Rightarrow> body conn st
      | Some services \<Rightarrow>
          attempt (bk_get_characteristic bk services uuid) st acts (\<lambda>c.
            case c of
              None \<Rightarrow> body conn st
            | Some ch \<Rightarrow> body (conn\<lparr>cn_last_write := Some ch\<rparr>)
                (put_conn h (conn\<lparr>cn_last_write := Some ch\<rparr>) st)))"

text \<open>After a subscription: track it, under the same condition.\<close>

definition note_subscription :: "backend \<Rightarrow> json \<Rightarrow> json \<Rightarrow> int \<Rightarrow> ble_conn \<Rightarrow> proxy \<Rightarrow> action list \<Rightarrow> handled" where
  "note_subscription bk cid uuid h conn st acts =
     (case cn_services conn of
        None \<Rightarrow> reply_ok cid (JObj []) st acts
      | Some services \<Rightarrow>
          attempt (bk_get_characteristic bk services uuid) st acts (\<lambda>c.
            case c of
              None \<Rightarrow> reply_ok cid (JObj []) st acts
            | Some ch \<Rightarrow> attempt (jkey uuid) st acts (\<lambda>k.
                reply_ok cid (JObj [])
                  (put_conn h (conn\<lparr>cn_subscriptions := dput k ch (cn_subscriptions conn)\<rparr>) st) acts)))"

definition handle_write_characteristic :: "backend \<Rightarrow> json \<Rightarrow> json \<Rightarrow> proxy \<Rightarrow> handled" where
  "handle_write_characteristic bk cid args st = with_connection cid args st (\<lambda>h conn.
     attempt (jindex args (u ''characteristic_uuid'')) st [] (\<lambda>uuid.
     attempt (rbind (jindex args (u ''value'')) decode_arg) st [] (\<lambda>data.
     attempt (jget_default args (u ''response'') (JBool False)) st [] (\<lambda>response.
       let acts = [GattWrite (cn_client conn) (ByUuid uuid) data response] in
       if \<not> bk_write bk (cn_client conn) (ByUuid uuid) data response
       then reply_error cid ''write_failed'' st acts
       else note_write bk uuid h conn st acts (\<lambda>_ st1. reply_ok cid (JObj []) st1 acts)))))"

definition handle_subscribe_characteristic :: "backend \<Rightarrow> json \<Rightarrow> json \<Rightarrow> proxy \<Rightarrow> handled" where
  "handle_subscribe_characteristic bk cid args st = with_connection cid args st (\<lambda>h conn.
     attempt (jindex args (u ''characteristic_uuid'')) st [] (\<lambda>uuid.
       let acts = [GattSubscribe (cn_client conn) uuid] in
       if \<not> bk_start_notify bk (cn_client conn) uuid then reply_error cid ''subscribe_failed'' st acts
       else note_subscription bk cid uuid h conn st acts))"

definition handle_write_and_subscribe :: "backend \<Rightarrow> json \<Rightarrow> json \<Rightarrow> proxy \<Rightarrow> handled" where
  "handle_write_and_subscribe bk cid args st = with_connection cid args st (\<lambda>h conn.
     attempt (jindex args (u ''write_uuid'')) st [] (\<lambda>wuuid.
     attempt (rbind (jindex args (u ''write_value'')) decode_arg) st [] (\<lambda>data.
     attempt (jget_default args (u ''write_response'') (JBool False)) st [] (\<lambda>response.
     attempt (jindex args (u ''subscribe_uuid'')) st [] (\<lambda>suuid.
       let acts = [GattWrite (cn_client conn) (ByUuid wuuid) data response] in
       if \<not> bk_write bk (cn_client conn) (ByUuid wuuid) data response
       then reply_error cid ''write_failed'' st acts
       else note_write bk wuuid h conn st acts (\<lambda>conn1 st1.
         let acts1 = acts @ [GattSubscribe (cn_client conn) suuid] in
         if \<not> bk_start_notify bk (cn_client conn) suuid
         then reply_error cid ''subscribe_failed'' st1 acts1
         else note_subscription bk cid suuid h conn1 st1 acts1))))))"

definition handle_unsubscribe_characteristic :: "backend \<Rightarrow> json \<Rightarrow> json \<Rightarrow> proxy \<Rightarrow> handled" where
  "handle_unsubscribe_characteristic bk cid args st = with_connection cid args st (\<lambda>h conn.
     attempt (jindex args (u ''characteristic_uuid'')) st [] (\<lambda>uuid.
     attempt (jkey uuid) st [] (\<lambda>k.
       if dget (cn_subscriptions conn) k = None then reply_error cid ''not_subscribed'' st []
       else if \<not> bk_stop_notify bk (cn_client conn) uuid
       then reply_error cid ''internal_error'' st [GattUnsubscribe (cn_client conn) uuid]
       else reply_ok cid (JObj []) (put_conn h (conn\<lparr>cn_subscriptions := dpop k (cn_subscriptions conn)\<rparr>) st)
              [GattUnsubscribe (cn_client conn) uuid])))"

definition handle_request_mtu :: "backend \<Rightarrow> json \<Rightarrow> json \<Rightarrow> proxy \<Rightarrow> handled" where
  "handle_request_mtu bk cid args st = with_connection cid args st (\<lambda>h conn.
     reply_ok cid (JObj [(u ''mtu'', JInt (client_mtu bk (cn_client conn)))]) st [])"

section \<open>Commands\<close>

definition dispatch :: "backend \<Rightarrow> json \<Rightarrow> json \<Rightarrow> json \<Rightarrow> proxy \<Rightarrow> handled option" where
  "dispatch bk command cid args st =
     (if command = JStr (u ''start_scan'') then Some (handle_start_scan bk cid args st)
      else if command = JStr (u ''stop_scan'') then Some (handle_stop_scan cid st)
      else if command = JStr (u ''connect'') then Some (handle_connect bk cid args st)
      else if command = JStr (u ''disconnect'') then Some (handle_disconnect bk cid args st)
      else if command = JStr (u ''discover_services'') then Some (handle_discover_services bk cid args st)
      else if command = JStr (u ''discover_characteristics'') then Some (handle_discover_characteristics bk cid args st)
      else if command = JStr (u ''read_characteristic'') then Some (handle_read_characteristic bk cid args st)
      else if command = JStr (u ''write_characteristic'') then Some (handle_write_characteristic bk cid args st)
      else if command = JStr (u ''subscribe_characteristic'') then Some (handle_subscribe_characteristic bk cid args st)
      else if command = JStr (u ''write_and_subscribe'') then Some (handle_write_and_subscribe bk cid args st)
      else if command = JStr (u ''unsubscribe_characteristic'') then Some (handle_unsubscribe_characteristic bk cid args st)
      else if command = JStr (u ''request_mtu'') then Some (handle_request_mtu bk cid args st)
      else None)"

definition is_none :: "json option \<Rightarrow> bool" where
  "is_none v \<longleftrightarrow> v = None \<or> v = Some JNull"

text \<open>\<open>debug\<close>: the debug log line reads \<open>args.items()\<close>.\<close>

definition handle_command :: "backend \<Rightarrow> bool \<Rightarrow> json \<Rightarrow> proxy \<Rightarrow> handled" where
  "handle_command bk debug msg st =
     attempt (jget msg (u ''id'')) st [] (\<lambda>cmd_id.
     attempt (jget msg (u ''command'')) st [] (\<lambda>command.
     attempt (jget_default msg (u ''args'') (JObj [])) st [] (\<lambda>args.
       if is_none cmd_id \<or> is_none command then (st, [], None)
       else if debug \<and> (\<nexists>d. args = JObj d) then raised AttributeError st []
       else attempt (jkey (the command)) st [] (\<lambda>_.
         case dispatch bk (the command) (the cmd_id) args st of
           None \<Rightarrow> reply_error (the cmd_id) ''internal_error'' st []
         | Some (st1, acts, None) \<Rightarrow> (st1, acts, None)
         | Some (st1, acts, Some _) \<Rightarrow> reply_error (the cmd_id) ''internal_error'' st1 acts))))"

section \<open>Binary frames and callbacks\<close>

definition opcode_write_data :: nat where "opcode_write_data = 1"
definition opcode_notification :: nat where "opcode_notification = 2"

text \<open>\<open>BINARY_FRAME_HEADER.pack(opcode, handle) + payload\<close> and the unpacking of a frame.\<close>

definition pack_frame :: "nat \<Rightarrow> nat \<Rightarrow> byte list \<Rightarrow> byte list" where
  "pack_frame opcode handle payload = be_bytes 1 opcode @ be_bytes 2 handle @ payload"

definition unpack_frame :: "byte list \<Rightarrow> (nat \<times> nat \<times> byte list) res" where
  "unpack_frame bs = rbind (unpack_be 1 bs) (\<lambda>(opcode, bs).
     rbind (unpack_be 2 bs) (\<lambda>(handle, payload). Inr (opcode, handle, payload)))"

definition handle_binary_frame :: "backend \<Rightarrow> byte list \<Rightarrow> proxy \<Rightarrow> proxy \<times> action list" where
  "handle_binary_frame bk data st =
     (if length data < 3 then (st, [])
      else case unpack_frame data of
        Inl _ \<Rightarrow> (st, [])
      | Inr (opcode, handle, payload) \<Rightarrow>
          if opcode = opcode_write_data then
            (case dget (px_connections st) (int handle) of
               None \<Rightarrow> (st, [])
             | Some conn \<Rightarrow> (case cn_last_write conn of
                   None \<Rightarrow> (st, [])
                 | Some ch \<Rightarrow> (st, [GattWrite (cn_client conn) (ByChar ch) payload (JBool True)])))
          else (st, []))"

text \<open>\<open>_on_disconnect\<close> and \<open>_on_notification\<close> of a connection: closures over its handle.\<close>

definition on_disconnect :: "int \<Rightarrow> proxy \<Rightarrow> proxy \<times> action list" where
  "on_disconnect h st = (case dget (px_connections st) h of
       None \<Rightarrow> (st, [])
     | Some conn \<Rightarrow>
         if cn_intentional conn then (st, [])
         else let st1 = st\<lparr>px_connections := dpop h (px_connections st)\<rparr>
              in (st1, send st1 (SendEvent (u ''disconnected'') (JObj [(u ''connection_handle'', JInt h)]))))"

definition on_notification :: "int \<Rightarrow> byte list \<Rightarrow> proxy \<Rightarrow> action list" where
  "on_notification h payload st = send st (SendBinary (pack_frame opcode_notification (nat h) payload))"

section \<open>The session\<close>

text \<open>\<open>_release_ble_resources\<close>: exceptions of the BLE stack are swallowed.\<close>

definition release_ble_resources :: "backend \<Rightarrow> proxy \<Rightarrow> proxy \<times> action list" where
  "release_ble_resources bk st =
     (st\<lparr>px_source := (if px_scanning st then bleak_stop (px_source st) else px_source st),
         px_scanning := False, px_connections := []\<rparr>,
      map GattDisconnect (filter (bk_is_connected bk) (map (\<lambda>(_, c). cn_client c) (px_connections st))))"

text \<open>The end of \<open>_message_loop\<close>, and \<open>disconnect()\<close>.\<close>

definition end_loop :: "backend \<Rightarrow> proxy \<Rightarrow> proxy \<times> action list" where
  "end_loop bk st = (let (st1, acts) = release_ble_resources bk st
     in (st1\<lparr>px_running := False, px_closed := True\<rparr>, acts))"

definition proxy_disconnect :: "backend \<Rightarrow> proxy \<Rightarrow> proxy \<times> action list" where
  "proxy_disconnect bk st = (let (st1, acts) = release_ble_resources bk st
     in (st1\<lparr>px_running := False, px_open := False, px_closed := True\<rparr>, acts))"

text \<open>\<open>connect()\<close>: whether the socket opens, and what is received after \<open>hello\<close>.\<close>

datatype hello_reply = HelloTimeout | HelloText "json option" | HelloNotText

datatype proxy_error = ConnectionError | ConnectCrash pyexc

definition hello_ok :: "json \<Rightarrow> bool res" where
  "hello_ok response = rbind (jget response (u ''type'')) (\<lambda>t.
     if t \<noteq> Some (JStr (u ''hello_response'')) then Inr False
     else rbind (jget response (u ''error'')) (\<lambda>e. Inr (e = None)))"

definition proxy_connect :: "backend \<Rightarrow> bool \<Rightarrow> hello_reply \<Rightarrow> proxy \<Rightarrow> proxy \<times> action list \<times> proxy_error option" where
  "proxy_connect bk opens reply st =
     (if \<not> opens then (st, [], Some ConnectionError)
      else
        let st1 = st\<lparr>px_open := True\<rparr>;
            give_up = (let (st2, acts) = proxy_disconnect bk st1 in (st2, SendHello # acts, Some ConnectionError))
        in case reply of
             HelloTimeout \<Rightarrow> give_up
           | HelloNotText \<Rightarrow> give_up
           | HelloText None \<Rightarrow> (st1, [SendHello], Some (ConnectCrash ValueError))
           | HelloText (Some response) \<Rightarrow> (case hello_ok response of
                 Inl e \<Rightarrow> (st1, [SendHello], Some (ConnectCrash e))
               | Inr False \<Rightarrow> give_up
               | Inr True \<Rightarrow> (st1\<lparr>px_closed := False, px_running := True\<rparr>, [SendHello], None)))"

text \<open>What can happen to a connected proxy.  \<open>TextFrame None\<close> is text that is not JSON.\<close>

datatype event =
    TextFrame "json option"
  | BinaryFrame "byte list"
  | SocketClosed
  | PeripheralGone int
  | Notification int "byte list"
  | Detected ble_device advertisement
  | CloseProxy

definition px_step :: "backend \<Rightarrow> bool \<Rightarrow> event \<Rightarrow> proxy \<Rightarrow> proxy \<times> action list" where
  "px_step bk debug ev st = (case ev of
       TextFrame msg \<Rightarrow>
         if \<not> px_running st then (st, [])
         else (case msg of
             None \<Rightarrow> end_loop bk st
           | Some j \<Rightarrow> (case handle_command bk debug j st of
                 (st1, acts, None) \<Rightarrow> (st1, acts)
               | (st1, acts, Some _) \<Rightarrow> (let (st2, acts2) = end_loop bk st1 in (st2, acts @ acts2))))
     | BinaryFrame data \<Rightarrow> if px_running st then handle_binary_frame bk data st else (st, [])
     | SocketClosed \<Rightarrow> if px_running st then end_loop bk (st\<lparr>px_open := False\<rparr>) else (st\<lparr>px_open := False\<rparr>, [])
     | PeripheralGone h \<Rightarrow> on_disconnect h st
     | Notification h payload \<Rightarrow> (st, on_notification h payload st)
     | Detected device adv \<Rightarrow>
         (let (src, ev) = on_detection device adv (px_source st); st1 = st\<lparr>px_source := src\<rparr>
          in (st1, case ev of None \<Rightarrow> [] | Some e \<Rightarrow> send st1 (SendEvent (u ''device_discovered'') e)))
     | CloseProxy \<Rightarrow> proxy_disconnect bk st)"

text \<open>A run: the states and all the actions, in order.\<close>

fun px_run :: "(backend \<times> bool \<times> event) list \<Rightarrow> proxy \<Rightarrow> proxy \<times> action list" where
  "px_run [] st = (st, [])"
| "px_run ((bk, debug, ev) # evs) st =
     (let (st1, acts) = px_step bk debug ev st; (st2, acts2) = px_run evs st1 in (st2, acts @ acts2))"

end
