(* ===== verification/Ble_Proxy_Facts.thy ===== *)
theory Ble_Proxy_Facts
  imports Ble_Proxy
begin

text \<open>
  What the BLE proxy of \<open>Ble_Proxy\<close> guarantees: an invariant of its connection table that every
  step keeps, exactly one reply to every command, handles that stay distinct until the 16-bit
  counter wraps, and the routing of binary frames.
\<close>

section \<open>The invariant\<close>

text \<open>The handle the connection of client number \<open>c\<close> was given.\<close>

definition handle_of :: "nat \<Rightarrow> int" where
  "handle_of c = int (Suc c mod 65536)"

definition conn_ok :: "nat \<Rightarrow> int \<Rightarrow> ble_conn \<Rightarrow> bool" where
  "conn_ok clients h conn \<longleftrightarrow> cn_handle conn = h \<and> cn_client conn < clients
     \<and> h = handle_of (cn_client conn) \<and> dict_ok (cn_subscriptions conn)"

definition proxy_ok :: "proxy \<Rightarrow> bool" where
  "proxy_ok st \<longleftrightarrow> dict_ok (px_connections st)
     \<and> (\<forall>(h, conn) \<in> set (px_connections st). conn_ok (px_clients st) h conn)
     \<and> px_next_handle st = of_nat (Suc (px_clients st))
     \<and> (px_scanning st \<longrightarrow> bs_callback (px_source st) \<noteq> None)"

lemma proxy_ok_new: "proxy_ok new_proxy"
  by (simp add: proxy_ok_def new_proxy_def)

lemma set_dput: "x \<in> set (dput k v d) \<Longrightarrow> x = (k, v) \<or> x \<in> set d"
  by (induction d) (auto simp: dput_def split: if_splits)

lemma set_dpop: "x \<in> set (dpop k d) \<Longrightarrow> x \<in> set d"
  by (auto simp: dpop_def AList.delete_eq)

lemma proxy_ok_get: "proxy_ok st \<Longrightarrow> dget (px_connections st) h = Some conn \<Longrightarrow> conn_ok (px_clients st) h conn"
  by (auto simp: proxy_ok_def dest!: dget_in_set)

lemma proxy_ok_put:
  "proxy_ok st \<Longrightarrow> conn_ok (px_clients st) h conn \<Longrightarrow> proxy_ok (put_conn h conn st)"
  by (auto simp: proxy_ok_def put_conn_def dest!: set_dput)

lemma proxy_ok_pop: "proxy_ok st \<Longrightarrow> proxy_ok (st\<lparr>px_connections := dpop h (px_connections st)\<rparr>)"
  by (auto simp: proxy_ok_def dest!: set_dpop)

lemma uint_of_nat_16: "uint (of_nat n :: 16 word) = int (n mod 65536)"
  by (simp add: unsigned_of_nat take_bit_eq_mod of_nat_mod)

lemma conn_ok_Suc: "conn_ok n k conn \<Longrightarrow> conn_ok (Suc n) k conn"
  by (simp add: conn_ok_def)

lemma allocate_ok:
  assumes "proxy_ok st" "allocate st = (h, c, st1)"
  shows "proxy_ok st1 \<and> h = handle_of c \<and> c < px_clients st1 \<and> px_connections st1 = px_connections st
    \<and> c = px_clients st \<and> px_open st1 = px_open st \<and> px_running st1 = px_running st"
proof -
  have n: "px_next_handle st = of_nat (Suc (px_clients st))" using assms(1) by (simp add: proxy_ok_def)
  have "h = uint (px_next_handle st)" using assms(2) by (simp add: allocate_def)
  then have "h = int (Suc (px_clients st) mod 65536)" by (simp only: n uint_of_nat_16)
  moreover have "\<forall>(k, conn) \<in> set (px_connections st). conn_ok (Suc (px_clients st)) k conn"
    using assms(1) by (auto simp: proxy_ok_def intro: conn_ok_Suc)
  ultimately show ?thesis
    using assms by (auto simp: allocate_def proxy_ok_def handle_of_def)
qed

section \<open>Replies\<close>

fun reply_ids :: "action list \<Rightarrow> json list" where
  "reply_ids [] = []"
| "reply_ids (SendSuccess cid _ # acts) = cid # reply_ids acts"
| "reply_ids (SendError cid _ # acts) = cid # reply_ids acts"
| "reply_ids (_ # acts) = reply_ids acts"

lemma reply_ids_append [simp]: "reply_ids (as @ bs) = reply_ids as @ reply_ids bs"
  by (induction as rule: reply_ids.induct) auto

text \<open>A step within a handler keeps the invariant and the session.\<close>

definition evolves :: "proxy \<Rightarrow> proxy \<Rightarrow> bool" where
  "evolves st st1 \<longleftrightarrow> (proxy_ok st \<longrightarrow> proxy_ok st1) \<and> px_open st1 = px_open st \<and> px_running st1 = px_running st"

definition handled_ok :: "json \<Rightarrow> proxy \<Rightarrow> handled \<Rightarrow> bool" where
  "handled_ok cid st r = (case r of (st1, acts, e) \<Rightarrow> evolves st st1
     \<and> reply_ids acts = (if e = None \<and> px_open st then [cid] else []))"

lemma evolves_refl [simp]: "evolves st st"
  by (simp add: evolves_def)

lemma handled_reply_ok: "evolves st st1 \<Longrightarrow> reply_ids acts = [] \<Longrightarrow> handled_ok cid st (reply_ok cid res st1 acts)"
  by (simp add: handled_ok_def reply_ok_def send_def evolves_def)

lemma handled_reply_error: "evolves st st1 \<Longrightarrow> reply_ids acts = [] \<Longrightarrow> handled_ok cid st (reply_error cid code st1 acts)"
  by (simp add: handled_ok_def reply_error_def send_def evolves_def)

lemma handled_raised: "evolves st st1 \<Longrightarrow> reply_ids acts = [] \<Longrightarrow> handled_ok cid st (raised e st1 acts)"
  by (simp add: handled_ok_def raised_def)

lemma handled_attempt:
  "evolves st st1 \<Longrightarrow> reply_ids acts = [] \<Longrightarrow> (\<And>x. r = Inr x \<Longrightarrow> handled_ok cid st (f x)) \<Longrightarrow>
    handled_ok cid st (attempt r st1 acts f)"
  by (cases r) (simp_all add: attempt_def handled_raised)

lemma get_connectionD: "get_connection st j = Inr (Some (h, conn)) \<Longrightarrow> dget (px_connections st) h = Some conn"
  unfolding get_connection_def rbind_eq_Inr
proof (elim exE conjE)
  fix k assume "Inr (case k of JInt h \<Rightarrow> map_option (\<lambda>conn. (h, conn)) (dget (px_connections st) h) | _ \<Rightarrow> None)
      = Inr (Some (h, conn))"
  then show ?thesis by (cases k) auto
qed

lemma handled_with_connection:
  "(\<And>h conn. dget (px_connections st) h = Some conn \<Longrightarrow> handled_ok cid st (body h conn)) \<Longrightarrow>
    handled_ok cid st (with_connection cid args st body)"
  unfolding with_connection_def
  by (rule handled_attempt) (auto simp: rbind_eq_Inr handled_reply_error dest!: get_connectionD split: option.split)

lemmas handled_intros = handled_reply_ok handled_reply_error handled_raised handled_attempt handled_with_connection

text \<open>Replacing a connection by one with the same client and handle.\<close>

definition same_conn :: "ble_conn \<Rightarrow> ble_conn \<Rightarrow> bool" where
  "same_conn conn conn1 \<longleftrightarrow> cn_client conn1 = cn_client conn \<and> cn_handle conn1 = cn_handle conn
     \<and> (dict_ok (cn_subscriptions conn) \<longrightarrow> dict_ok (cn_subscriptions conn1))"

lemma put_conn_session [simp]:
  "px_open (put_conn h conn st) = px_open st" "px_running (put_conn h conn st) = px_running st"
  by (simp_all add: put_conn_def)

lemma evolves_put:
  "dget (px_connections st) h = Some conn \<Longrightarrow> same_conn conn conn1 \<Longrightarrow> evolves st (put_conn h conn1 st)"
  unfolding evolves_def put_conn_session
  by (auto intro!: proxy_ok_put dest: proxy_ok_get simp: same_conn_def conn_ok_def)

lemma evolves_trans: "evolves st st1 \<Longrightarrow> evolves st1 st2 \<Longrightarrow> evolves st st2"
  by (simp add: evolves_def)

lemma same_conn_simps [simp]:
  "same_conn conn conn" "same_conn conn (conn\<lparr>cn_services := s\<rparr>)" "same_conn conn (conn\<lparr>cn_last_write := w\<rparr>)"
  "same_conn conn (conn\<lparr>cn_subscriptions := dput k v (cn_subscriptions conn)\<rparr>)"
  "same_conn conn (conn\<lparr>cn_subscriptions := dpop k (cn_subscriptions conn)\<rparr>)"
  by (simp_all add: same_conn_def)

lemma dget_put_conn: "dget (px_connections (put_conn h conn st)) h = Some conn"
  by (simp add: put_conn_def dget_dput)

lemma handled_note_subscription:
  assumes "evolves st0 st" "dget (px_connections st) h = Some conn" "reply_ids acts = []"
  shows "handled_ok cid st0 (note_subscription bk cid uuid h conn st acts)"
  unfolding note_subscription_def
  by (auto split: option.split intro!: handled_intros assms evolves_trans [OF assms(1)] evolves_put [OF assms(2)])

lemma handled_note_write:
  assumes "evolves st0 st" "dget (px_connections st) h = Some conn" "reply_ids acts = []"
    and "\<And>conn1 st1. evolves st0 st1 \<Longrightarrow> dget (px_connections st1) h = Some conn1 \<Longrightarrow> handled_ok cid st0 (body conn1 st1)"
  shows "handled_ok cid st0 (note_write bk uuid h conn st acts body)"
  unfolding note_write_def
  by (auto split: option.split intro!: handled_intros assms evolves_trans [OF assms(1)] evolves_put [OF assms(2)]
      simp: dget_put_conn)

section \<open>Every handler\<close>

lemma start_scan_handled: "handled_ok cid st (handle_start_scan bk cid args st)"
  unfolding handle_start_scan_def
  by (auto simp: Let_def bleak_start_def evolves_def proxy_ok_def split: prod.split option.splits
      intro!: handled_intros)

lemma stop_scan_handled: "handled_ok cid st (handle_stop_scan cid st)"
  unfolding handle_stop_scan_def
  by (auto simp: evolves_def proxy_ok_def intro!: handled_intros)

lemma connect_handled: "handled_ok cid st (handle_connect bk cid args st)"
proof -
  obtain h c st1 where a: "allocate st = (h, c, st1)" by (cases "allocate st") auto
  have e: "evolves st st1" using allocate_ok [OF _ a] a by (auto simp: evolves_def allocate_def)
  have p: "evolves st (put_conn h (new_conn c h) st1)"
    using allocate_ok [OF _ a] a e
    by (auto simp: evolves_def new_conn_def conn_ok_def intro!: proxy_ok_put)
  show ?thesis
    unfolding handle_connect_def a
    by (auto intro!: handled_intros e p split: option.split)
qed

lemma disconnect_handled: "handled_ok cid st (handle_disconnect bk cid args st)"
  unfolding handle_disconnect_def
  by (auto simp: Let_def evolves_def proxy_ok_pop split: option.split intro!: handled_intros)

lemma discover_services_handled: "handled_ok cid st (handle_discover_services bk cid args st)"
  unfolding handle_discover_services_def
  by (auto split: option.split intro!: handled_intros evolves_put)

lemma discover_characteristics_handled: "handled_ok cid st (handle_discover_characteristics bk cid args st)"
  unfolding handle_discover_characteristics_def
  by (auto split: option.split intro!: handled_intros)

lemma read_characteristic_handled: "handled_ok cid st (handle_read_characteristic bk cid args st)"
  unfolding handle_read_characteristic_def
  by (auto split: sum.split intro!: handled_intros)

lemma write_characteristic_handled: "handled_ok cid st (handle_write_characteristic bk cid args st)"
  unfolding handle_write_characteristic_def Let_def
  by (auto intro!: handled_intros handled_note_write)

lemma subscribe_characteristic_handled: "handled_ok cid st (handle_subscribe_characteristic bk cid args st)"
  unfolding handle_subscribe_characteristic_def Let_def
  by (auto intro!: handled_intros handled_note_subscription)

lemma write_and_subscribe_handled: "handled_ok cid st (handle_write_and_subscribe bk cid args st)"
  unfolding handle_write_and_subscribe_def Let_def
  by (auto intro!: handled_intros handled_note_write handled_note_subscription)

lemma unsubscribe_characteristic_handled: "handled_ok cid st (handle_unsubscribe_characteristic bk cid args st)"
  unfolding handle_unsubscribe_characteristic_def
  by (auto intro!: handled_intros evolves_put)

lemma request_mtu_handled: "handled_ok cid st (handle_request_mtu bk cid args st)"
  unfolding handle_request_mtu_def
  by (auto intro!: handled_intros)

lemmas handlers_ok = start_scan_handled stop_scan_handled connect_handled disconnect_handled
  discover_services_handled discover_characteristics_handled read_characteristic_handled
  write_characteristic_handled subscribe_characteristic_handled write_and_subscribe_handled
  unsubscribe_characteristic_handled request_mtu_handled

lemma dispatch_ok: "dispatch bk command cid args st = Some r \<Longrightarrow> handled_ok cid st r"
  by (auto simp: dispatch_def handlers_ok split: if_splits)

section \<open>Commands and steps\<close>

lemma handle_command_ok:
  "handle_command bk debug msg st = (st1, acts, e) \<Longrightarrow> evolves st st1"
proof -
  assume h: "handle_command bk debug msg st = (st1, acts, e)"
  have evolved: "evolves st (fst r)" if "handled_ok cid st r" for cid r
    using that by (cases r) (simp add: handled_ok_def)
  have "evolves st (fst (handle_command bk debug msg st))"
    unfolding handle_command_def attempt_def raised_def reply_error_def
    by (auto split: sum.split option.split dest!: dispatch_ok evolved)
  with h show ?thesis by simp
qed

text \<open>A command is an object with an \<open>id\<close> and a \<open>command\<close> that is a string, and arguments that
  are an object or absent.\<close>

definition is_command :: "json \<Rightarrow> json \<Rightarrow> bool" where
  "is_command msg cid \<longleftrightarrow> cid \<noteq> JNull \<and> (\<exists>d c. msg = JObj d \<and> dget d (u ''id'') = Some cid
     \<and> dget d (u ''command'') = Some (JStr c)
     \<and> (dget d (u ''args'') = None \<or> (\<exists>a. dget d (u ''args'') = Some (JObj a))))"

lemma handle_command_replies:
  assumes "is_command msg cid" "handle_command bk debug msg st = (st1, acts, e)"
  shows "e = None \<and> reply_ids acts = (if px_open st then [cid] else [])"
proof -
  obtain d c where msg: "msg = JObj d" "dget d (u ''id'') = Some cid" "dget d (u ''command'') = Some (JStr c)"
    "dget d (u ''args'') = None \<or> (\<exists>a. dget d (u ''args'') = Some (JObj a))" "cid \<noteq> JNull"
    using assms(1) by (auto simp: is_command_def)
  obtain a where a: "jget_default msg (u ''args'') (JObj []) = Inr (JObj a)"
    using msg(1,4) by (auto simp: jget_default_def)
  have h: "handle_command bk debug msg st = (case dispatch bk (JStr c) cid (JObj a) st of
           None \<Rightarrow> reply_error cid ''internal_error'' st []
         | Some (st1, acts, None) \<Rightarrow> (st1, acts, None)
         | Some (st1, acts, Some _) \<Rightarrow> reply_error cid ''internal_error'' st1 acts)"
    using msg a by (auto simp: handle_command_def attempt_def is_none_def split: option.split)
  show ?thesis
  proof (cases "dispatch bk (JStr c) cid (JObj a) st")
    case None
    then show ?thesis using assms(2) h by (auto simp: reply_error_def send_def)
  next
    case (Some r)
    obtain st2 acts2 e2 where r: "r = (st2, acts2, e2)" by (cases r)
    have ok: "handled_ok cid st r" using Some by (rule dispatch_ok)
    then have open2: "px_open st2 = px_open st" by (simp add: r handled_ok_def evolves_def)
    have "st1 = st2 \<and> e = None \<and> acts = acts2 @ (if e2 = None then [] else send st2 (SendError cid (u ''internal_error'')))"
      using assms(2) h Some r by (auto simp: reply_error_def split: option.splits)
    then show ?thesis using ok open2 by (auto simp: r handled_ok_def send_def split: option.splits)
  qed
qed

lemma release_facts:
  assumes "release_ble_resources bk st = (st1, acts)"
  shows "px_connections st1 = []" "\<not> px_scanning st1" "px_clients st1 = px_clients st"
    "px_next_handle st1 = px_next_handle st" "px_scanning st \<Longrightarrow> bs_callback (px_source st1) = None"
    "acts = map GattDisconnect (filter (bk_is_connected bk) (map (\<lambda>(_, c). cn_client c) (px_connections st)))"
  using assms by (auto simp: release_ble_resources_def bleak.stop_silent)

lemma release_proxy_ok: "release_ble_resources bk st = (st1, acts) \<Longrightarrow> proxy_ok st \<Longrightarrow> proxy_ok st1"
  by (auto simp: release_ble_resources_def proxy_ok_def)

lemma proxy_ok_session [simp]:
  "proxy_ok (st\<lparr>px_open := a\<rparr>) = proxy_ok st" "proxy_ok (st\<lparr>px_running := b\<rparr>) = proxy_ok st"
  "proxy_ok (st\<lparr>px_closed := c\<rparr>) = proxy_ok st"
  by (simp_all add: proxy_ok_def)

lemma end_loop_ok: "end_loop bk st = (st1, acts) \<Longrightarrow> proxy_ok st \<Longrightarrow> proxy_ok st1"
  by (auto simp: end_loop_def Let_def split: prod.splits dest: release_proxy_ok)

lemma proxy_disconnect_ok: "proxy_disconnect bk st = (st1, acts) \<Longrightarrow> proxy_ok st \<Longrightarrow> proxy_ok st1"
  by (auto simp: proxy_disconnect_def Let_def split: prod.splits dest: release_proxy_ok)

lemma on_detection_callback:
  "bs_callback (fst (on_detection device adv s)) = None \<longleftrightarrow> bs_callback s = None"
  by (auto simp: on_detection_def Let_def split: option.splits prod.splits)

lemma px_step_ok: "proxy_ok st \<Longrightarrow> proxy_ok (fst (px_step bk debug ev st))"
proof (cases ev)
  case (TextFrame msg)
  assume ok: "proxy_ok st"
  show ?thesis
  proof (cases msg)
    case None
    then show ?thesis using ok TextFrame end_loop_ok [of bk st] by (cases "end_loop bk st") (simp add: px_step_def)
  next
    case (Some j)
    obtain st1 acts e where h: "handle_command bk debug j st = (st1, acts, e)" by (cases "handle_command bk debug j st")
    then have ok1: "proxy_ok st1" using handle_command_ok [OF h] ok by (simp add: evolves_def)
    show ?thesis
      using ok ok1 h Some TextFrame end_loop_ok [of bk st1]
      by (cases "end_loop bk st1"; cases e) (auto simp: px_step_def)
  qed
next
  case (BinaryFrame data)
  assume "proxy_ok st"
  then show ?thesis
    using BinaryFrame by (auto simp: px_step_def handle_binary_frame_def split: sum.splits option.splits)
next
  case SocketClosed
  assume "proxy_ok st"
  then show ?thesis
    using SocketClosed end_loop_ok [of bk "st\<lparr>px_open := False\<rparr>"]
    by (cases "end_loop bk (st\<lparr>px_open := False\<rparr>)") (simp add: px_step_def)
next
  case (PeripheralGone h)
  assume "proxy_ok st"
  then show ?thesis
    using PeripheralGone by (auto simp: px_step_def on_disconnect_def Let_def proxy_ok_pop split: option.splits)
next
  case (Detected device adv)
  assume "proxy_ok st"
  then show ?thesis
    using Detected on_detection_callback [of device adv "px_source st"]
    by (auto simp: px_step_def proxy_ok_def Let_def split: prod.splits)
next
  case CloseProxy
  assume "proxy_ok st"
  then show ?thesis
    using CloseProxy proxy_disconnect_ok [of bk st] by (cases "proxy_disconnect bk st") (simp add: px_step_def)
qed (simp add: px_step_def)

interpretation ble: invariant_system "\<lambda>(bk, debug, ev) st. fst (px_step bk debug ev st)" proxy_ok
  by unfold_locales (auto simp: px_step_ok)

lemma px_run_fold: "fst (px_run evs st) = fold (\<lambda>(bk, debug, ev) st. fst (px_step bk debug ev st)) evs st"
  by (induction evs arbitrary: st) (auto simp: Let_def case_prod_unfold)

lemma px_run_ok: "proxy_ok st \<Longrightarrow> proxy_ok (fst (px_run evs st))"
  unfolding px_run_fold by (rule ble.run_inv)

section \<open>Handles\<close>

lemma handle_of_fresh:
  "c < n \<Longrightarrow> n < 65536 + c \<Longrightarrow> handle_of c \<noteq> handle_of n"
proof
  assume c: "c < n" "n < 65536 + c" and eq: "handle_of c = handle_of n"
  then have "Suc c mod 65536 = Suc n mod 65536" by (simp add: handle_of_def)
  then have "(Suc n - Suc c) mod 65536 = 0" using c by (metis mod_eq_dvd_iff_nat Suc_leI le_imp_less_Suc less_imp_le_nat mod_0_imp_dvd dvd_imp_mod_0)
  moreover have "(Suc n - Suc c) mod 65536 = n - c" using c by simp
  ultimately show False using c by simp
qed

lemma allocate_fresh:
  assumes "proxy_ok st" "allocate st = (h, c, st1)" "px_clients st < 65536"
  shows "dget (px_connections st) h = None"
proof (rule ccontr)
  assume "dget (px_connections st) h \<noteq> None"
  then obtain conn where conn: "dget (px_connections st) h = Some conn" by auto
  from proxy_ok_get [OF assms(1) this] have "h = handle_of (cn_client conn)" "cn_client conn < px_clients st"
    by (auto simp: conn_ok_def)
  moreover have "h = handle_of (px_clients st)" using allocate_ok [OF assms(1,2)] by simp
  ultimately show False using handle_of_fresh [of "cn_client conn" "px_clients st"] assms(3) by simp
qed

lemma uint16_range: "0 \<le> uint (w :: 16 word) \<and> uint w < 65536"
  using uint_lt2p [of w] by simp

lemma proxy_ok_handle_range:
  "proxy_ok st \<Longrightarrow> dget (px_connections st) h = Some conn \<Longrightarrow> 0 \<le> h \<and> h < 65536"
  by (auto dest!: proxy_ok_get simp: conn_ok_def handle_of_def)

section \<open>Frames\<close>

lemma unpack_pack_frame:
  "opcode < 256 \<Longrightarrow> handle < 65536 \<Longrightarrow> unpack_frame (pack_frame opcode handle payload) = Inr (opcode, handle, payload)"
  by (simp add: unpack_frame_def pack_frame_def)

lemma length_pack_frame: "length (pack_frame opcode handle payload) = 3 + length payload"
  by (simp add: pack_frame_def)

section \<open>A concrete backend\<close>

text \<open>Everything succeeds; one service with one characteristic.\<close>

definition demo_char :: gatt_char where
  "demo_char = \<lparr>gc_uuid = u ''c1'', gc_properties = [u ''write'', u ''indicate'']\<rparr>"

definition demo_backend :: backend where
  "demo_backend = \<lparr>bk_resolve = (\<lambda>a. Inr (Some (Address a))), bk_connect = (\<lambda>_ _. Connected),
     bk_mtu = (\<lambda>_. Some 247), bk_services = (\<lambda>_. Some [(u ''fff6'', [demo_char])]),
     bk_get_service = (\<lambda>s _. Inr (if s = [] then None else Some (hd s))),
     bk_get_characteristic = (\<lambda>_ j. Inr (if j = JStr (u ''c1'') then Some demo_char else None)),
     bk_read = (\<lambda>_ _. Inr [1, 2]), bk_write = (\<lambda>_ _ _ _. True), bk_start_notify = (\<lambda>_ _. True),
     bk_stop_notify = (\<lambda>_ _. True), bk_is_connected = (\<lambda>_. True), bk_disconnect = (\<lambda>_. True),
     bk_scan_radio = True\<rparr>"

definition demo_proxy :: proxy where
  "demo_proxy = new_proxy\<lparr>px_open := True, px_running := True\<rparr>"

text \<open>\<open>command id name args\<close>: the message of a command.\<close>

definition command :: "int \<Rightarrow> string \<Rightarrow> (pystr \<times> json) list \<Rightarrow> json" where
  "command i name args = JObj [(u ''id'', JInt i), (u ''command'', JStr (u name)), (u ''args'', JObj args)]"

definition on_handle :: "int \<Rightarrow> (pystr \<times> json) list" where
  "on_handle h = [(u ''connection_handle'', JInt h)]"

lemma is_command_command [simp]: "is_command (command i name args) (JInt i)"
  by (simp add: is_command_def command_def dget_Cons u_def)

lemma proxy_ok_demo: "proxy_ok demo_proxy"
  using proxy_ok_new by (simp add: demo_proxy_def)

section \<open>Properties\<close>




text \<open>C38: In a well-formed proxy, none of the first 65536 connects is given a handle in use.\<close>

theorem ble_handle_fresh:
  assumes "proxy_ok st" "allocate st = (h, c, st1)" "px_clients st < 65536"
  shows "dget (px_connections st) h = None \<and> 0 \<le> h \<and> h < 65536 \<and> proxy_ok st1"
  using allocate_fresh [OF assms] allocate_ok [OF assms(1,2)] by (simp add: handle_of_def)

theorem ble_handle_fresh_witness:
  "dget (px_connections demo_proxy) (uint (px_next_handle demo_proxy)) = None"
  using ble_handle_fresh [OF proxy_ok_demo, of "uint (px_next_handle demo_proxy)" "px_clients demo_proxy"]
  by (simp add: allocate_def demo_proxy_def new_proxy_def)

text \<open>When the counter has wrapped onto a handle in use, a successful connect replaces that
  connection without disconnecting its peripheral.\<close>

theorem ble_handle_reused:
  assumes "dget (px_connections st) (uint (px_next_handle st)) = Some old"
    and "jindex args (u ''address'') = Inr address" "jget_default args (u ''timeout'') (JInt 30000) = Inr timeout"
    and "bk_resolve bk address = Inr (Some target)" "is_number timeout" "bk_connect bk target timeout = Connected"
    and "handle_connect bk cid args st = (st1, acts, e)"
  shows "dget (px_connections st1) (uint (px_next_handle st)) = Some (new_conn (px_clients st) (uint (px_next_handle st)))
    \<and> GattDisconnect (cn_client old) \<notin> set acts"
  using assms(2-) unfolding handle_connect_def
  by (auto simp: attempt_def allocate_def reply_ok_def send_def dget_put_conn)

theorem ble_handle_reused_witness:
  "\<exists>st1. fst (handle_connect demo_backend (JInt 9) (JObj [(u ''address'', JStr (u ''AA'')), (u ''timeout'', JInt 5)])
        (put_conn 1 (new_conn 0 1) (demo_proxy\<lparr>px_clients := 65536\<rparr>))) = st1
     \<and> dget (px_connections st1) 1 = Some (new_conn 65536 1)"
proof -
  let ?st = "put_conn 1 (new_conn 0 1) (demo_proxy\<lparr>px_clients := 65536\<rparr>)"
  let ?args = "JObj [(u ''address'', JStr (u ''AA'')), (u ''timeout'', JInt 5)]"
  obtain st1 acts e where h: "handle_connect demo_backend (JInt 9) ?args ?st = (st1, acts, e)"
    by (cases "handle_connect demo_backend (JInt 9) ?args ?st")
  have n: "uint (px_next_handle ?st) = 1" "px_clients ?st = 65536"
    by (simp_all add: put_conn_def demo_proxy_def new_proxy_def)
  have "dget (px_connections st1) (uint (px_next_handle ?st)) = Some (new_conn (px_clients ?st) (uint (px_next_handle ?st)))
      \<and> GattDisconnect (cn_client (new_conn 0 1)) \<notin> set acts"
    by (rule ble_handle_reused [OF _ _ _ _ _ _ h, of _ "JStr (u ''AA'')" "JInt 5" "Address (JStr (u ''AA''))"])
      (simp_all only: n, simp_all add: dget_put_conn dget_Cons jget_default_def demo_backend_def is_number_def)
  with h n show ?thesis by simp
qed

text \<open>A WRITE_DATA frame is written, with response, to the characteristic last written on the
  connection of its handle, payload unchanged; it changes no state.\<close>

theorem ble_write_frame:
  assumes "dget (px_connections st) (int handle) = Some conn" "cn_last_write conn = Some ch" "handle < 65536"
  shows "handle_binary_frame bk (pack_frame opcode_write_data handle payload) st
    = (st, [GattWrite (cn_client conn) (ByChar ch) payload (JBool True)])"
  using assms by (simp add: handle_binary_frame_def unpack_pack_frame length_pack_frame opcode_write_data_def)

theorem ble_write_frame_witness:
  "handle_binary_frame demo_backend (pack_frame opcode_write_data 1 [5, 6])
      (put_conn 1 ((new_conn 0 1)\<lparr>cn_last_write := Some demo_char\<rparr>) demo_proxy)
    = (put_conn 1 ((new_conn 0 1)\<lparr>cn_last_write := Some demo_char\<rparr>) demo_proxy,
       [GattWrite 0 (ByChar demo_char) [5, 6] (JBool True)])"
  using ble_write_frame [of "put_conn 1 ((new_conn 0 1)\<lparr>cn_last_write := Some demo_char\<rparr>) demo_proxy" 1
      "(new_conn 0 1)\<lparr>cn_last_write := Some demo_char\<rparr>" demo_char demo_backend "[5, 6]"]
  by (simp add: dget_put_conn new_conn_def)

text \<open>A notification of an open connection is sent as one binary frame from which the server
  recovers the opcode, the handle and the payload.\<close>

theorem ble_notification_frame:
  assumes "proxy_ok st" "dget (px_connections st) h = Some conn" "px_open st"
  shows "\<exists>frame. on_notification h payload st = [SendBinary frame]
    \<and> unpack_frame frame = Inr (opcode_notification, nat h, payload) \<and> int (nat h) = h"
proof -
  have "0 \<le> h" "nat h < 65536" using proxy_ok_handle_range [OF assms(1,2)] by auto
  then show ?thesis
    using assms(3) by (simp add: on_notification_def send_def unpack_pack_frame opcode_notification_def)
qed

lemma demo_connection:
  "proxy_ok (put_conn 1 (new_conn 0 1) (demo_proxy\<lparr>px_clients := 1, px_next_handle := 2\<rparr>))"
  by (rule proxy_ok_put) (auto simp: proxy_ok_def demo_proxy_def new_proxy_def conn_ok_def new_conn_def handle_of_def)

theorem ble_notification_frame_witness:
  "\<exists>frame. on_notification 1 [9] (put_conn 1 (new_conn 0 1) (demo_proxy\<lparr>px_clients := 1, px_next_handle := 2\<rparr>)) = [SendBinary frame]
    \<and> unpack_frame frame = Inr (opcode_notification, 1, [9])"
  using ble_notification_frame [OF demo_connection dget_put_conn, of "[9]"]
  by (simp add: put_conn_def demo_proxy_def)

text \<open>A subscription made before the services are discovered is confirmed and then cannot be
  taken back: the unsubscribe is refused as not subscribed.\<close>

theorem ble_untracked_subscription:
  assumes "dget (px_connections st) h = Some conn" "cn_services conn = None" "cn_subscriptions conn = []"
    and "px_open st" "bk_start_notify bk (cn_client conn) (JStr uuid)"
    and "args = JObj [(u ''connection_handle'', JInt h), (u ''characteristic_uuid'', JStr uuid)]"
  shows "handle_subscribe_characteristic bk cid args st
      = (st, [GattSubscribe (cn_client conn) (JStr uuid), SendSuccess cid (JObj [])], None)
    \<and> handle_unsubscribe_characteristic bk' cid' args st = (st, [SendError cid' (u ''not_subscribed'')], None)"
  using assms
  by (simp add: handle_subscribe_characteristic_def handle_unsubscribe_characteristic_def with_connection_def
      get_connection_def attempt_def note_subscription_def reply_ok_def reply_error_def send_def dget_Cons u_def)

theorem ble_untracked_subscription_witness:
  "\<exists>st. snd (handle_subscribe_characteristic demo_backend (JInt 1)
        (JObj [(u ''connection_handle'', JInt 1), (u ''characteristic_uuid'', JStr (u ''c2''))]) st)
      = ([GattSubscribe 0 (JStr (u ''c2'')), SendSuccess (JInt 1) (JObj [])], None)"
  using ble_untracked_subscription [of "put_conn 1 (new_conn 0 1) demo_proxy" 1 "new_conn 0 1" demo_backend "u ''c2''"
      "JObj [(u ''connection_handle'', JInt 1), (u ''characteristic_uuid'', JStr (u ''c2''))]" "JInt 1"]
  by (intro exI [of _ "put_conn 1 (new_conn 0 1) demo_proxy"])
    (simp add: dget_put_conn new_conn_def demo_proxy_def demo_backend_def)

text \<open>After a scan could not start, the next start_scan reports success although the scanner
  still does not run, whatever the radio would do.\<close>

theorem ble_scan_retry:
  assumes "bs_scanner (px_source st) = None" "\<not> px_scanning st" "px_open st" "\<not> bk_scan_radio bk1"
    and "handle_start_scan bk1 cid1 (JObj []) st = (st1, acts1, e1)"
    and "handle_start_scan bk2 cid2 (JObj []) st1 = (st2, acts2, e2)"
  shows "e1 = Some RuntimeError \<and> acts2 = [SendSuccess cid2 (JObj [])] \<and> px_scanning st2
    \<and> bs_scanner (px_source st2) = Some False"
  using assms
  by (auto simp: handle_start_scan_def attempt_def jget_default_def scan_filter_def truthy_def bleak_start_def
      Let_def reply_ok_def raised_def send_def)

theorem ble_scan_retry_witness:
  "\<exists>st1 acts1 e1 st2 acts2 e2.
     handle_start_scan (demo_backend\<lparr>bk_scan_radio := False\<rparr>) (JInt 1) (JObj []) demo_proxy = (st1, acts1, e1)
     \<and> handle_start_scan demo_backend (JInt 2) (JObj []) st1 = (st2, acts2, e2)
     \<and> acts2 = [SendSuccess (JInt 2) (JObj [])] \<and> bs_scanner (px_source st2) = Some False"
proof -
  obtain st1 acts1 e1 where a: "handle_start_scan (demo_backend\<lparr>bk_scan_radio := False\<rparr>) (JInt 1) (JObj []) demo_proxy = (st1, acts1, e1)"
    by (cases "handle_start_scan (demo_backend\<lparr>bk_scan_radio := False\<rparr>) (JInt 1) (JObj []) demo_proxy")
  obtain st2 acts2 e2 where b: "handle_start_scan demo_backend (JInt 2) (JObj []) st1 = (st2, acts2, e2)"
    by (cases "handle_start_scan demo_backend (JInt 2) (JObj []) st1")
  have "bs_scanner (px_source demo_proxy) = None" "\<not> px_scanning demo_proxy" "px_open demo_proxy"
    by (simp_all add: demo_proxy_def new_proxy_def bleak_new_def)
  from ble_scan_retry [OF this _ a b] a b show ?thesis by auto
qed



text \<open>All spellings of a 16-bit Bluetooth UUID compare equal: short, 32-bit and 128-bit form,
  any case, any hyphens.\<close>

theorem ble_uuid_forms:
  assumes "length (compact_uuid s) = 4" "compact_uuid pre = zeros4" "compact_uuid tail = base_uuid_tail"
    and "compact_uuid s' = compact_uuid s"
  shows "normalize_uuid s' = compact_uuid s \<and> normalize_uuid (pre @ s') = compact_uuid s
    \<and> normalize_uuid (pre @ s' @ tail) = compact_uuid s"
proof -
  have "normalize_uuid (pre @ s') = normalize_uuid (zeros4 @ s)"
    by (rule normalize_cong) (simp add: compact_append assms)
  moreover have "normalize_uuid (pre @ s' @ tail) = normalize_uuid (zeros4 @ s @ tail)"
    by (rule normalize_cong) (simp add: compact_append assms)
  ultimately show ?thesis
    using normalize_short [of s'] normalize_padded [OF assms(1)] normalize_wrapped [OF assms(1,3)] assms(1,4) by simp
qed

theorem ble_uuid_forms_witness:
  "normalize_uuid (u ''0000FFF6-0000-1000-8000-00805F9B34FB'') = u ''fff6''"
proof -
  have "normalize_uuid (u ''0000'' @ u ''FFF6'' @ u ''-0000-1000-8000-00805F9B34FB'') = compact_uuid (u ''fff6'')"
    by (rule ble_uuid_forms [THEN conjunct2, THEN conjunct2])
      (simp_all add: compact_uuid_def zeros4_def base_uuid_tail_def lower_char_def)
  then show ?thesis by (simp add: compact_uuid_def lower_char_def)
qed


end
