(* ===== verification/Matter_Types.thy ===== *)
theory Matter_Types
  imports Matter_Models
begin

text \<open>
  Type soundness of the parser: whatever \<open>parse_value\<close> returns has the annotated type, up to the
  leniencies of the code, which \<open>has_type\<close> spells out: unknown enum values stay raw, a field of a
  dataclass may be \<open>None\<close> or its default whatever its type, a dict value may be \<open>None\<close>, and what is
  read under the name \<open>NOCStruct.noc\<close> is not constrained.
\<close>

fun has_type :: "ptype \<Rightarrow> pv \<Rightarrow> bool"
  and has_fields :: "pystr \<Rightarrow> (pystr \<times> ptype \<times> pv option) list \<Rightarrow> (pystr \<times> pv) list \<Rightarrow> bool" where
  "has_type TyAny v = True"
| "has_type TyNone v = (v = PNone)"
| "has_type TyNullable v = (v = PNone)"
| "has_type TyInt v = ((\<exists>i. v = PInt i) \<or> (\<exists>b. v = PBool b))"
| "has_type TyUint v = (\<exists>i. v = PInt i)"
| "has_type TyFloat v = (\<exists>r. v = PFloat r)"
| "has_type TyFloat32 v = (\<exists>r. v = PFloat r)"
| "has_type TyStr v = (\<exists>s. v = PStr s)"
| "has_type TyBool v = (\<exists>b. v = PBool b)"
| "has_type TyBytes v = (\<exists>bs. v = PBytes bs)"
| "has_type TyDatetime v = (\<exists>d. v = PDatetime d)"
| "has_type TyBareDict v = (\<exists>d. v = PDict d)"
| "has_type TyBareList v = (\<exists>l. v = PList l)"
| "has_type TyLiteral v = False"
| "has_type (TyEnum n ms) v = ((\<exists>k. v = PEnum n k \<and> k \<in> set ms) \<or> (\<exists>j k. v = raw j \<and> jkey j = Inr k \<and> k \<notin> set ms))"
| "has_type (TyList t) v = (\<exists>vs. v = PList vs \<and> (\<forall>w \<in> set vs. has_type t w))"
| "has_type (TyTuple t _) v = (\<exists>vs. v = PTuple vs \<and> (\<forall>w \<in> set vs. has_type t w))"
| "has_type (TySet t) v = (\<exists>vs. v = PSet vs \<and> distinct vs \<and> (\<forall>w \<in> set vs. has_type t w))"
| "has_type (TyDict kt vt) v =
     (\<exists>kvs. v = PDict kvs \<and> (\<forall>(k, w) \<in> set kvs. (k = PBytes [] \<or> has_type kt k) \<and> (w = PNone \<or> has_type vt w)))"
| "has_type (TyUnion ts) v = (\<exists>t \<in> set ts. has_type t v)"
| "has_type (TyClass n _ fds) v = (\<exists>fs. v = PInst n fs \<and> has_fields n fds fs)"
| "has_fields n [] fs = (fs = [])"
| "has_fields n ((f, t, dflt) # fds) fs =
     (\<exists>v rest. fs = (f, v) # rest \<and> (v = PNone \<or> dflt = Some v \<or> n @ 46 # f = noc_field \<or> has_type t v) \<and>
        has_fields n fds rest)"

definition sound :: "(pystr \<Rightarrow> pydatetime res) \<Rightarrow> ptype \<Rightarrow> bool" where
  "sound piso ty \<longleftrightarrow> (\<forall>name j dflt an v. name \<noteq> noc_field \<longrightarrow> parse_value piso name j ty dflt an False = Inr v \<longrightarrow>
     has_type ty v \<or> dflt = Some v \<or> an \<and> v = PNone)"

lemma soundD: "sound piso ty \<Longrightarrow> name \<noteq> noc_field \<Longrightarrow> parse_value piso name j ty dflt an False = Inr v \<Longrightarrow>
    has_type ty v \<or> dflt = Some v \<or> an \<and> v = PNone"
  by (simp add: sound_def)

lemma soundD_strict: "sound piso ty \<Longrightarrow> name \<noteq> noc_field \<Longrightarrow>
    parse_value piso name j ty None False False = Inr v \<Longrightarrow> has_type ty v"
  using soundD [of piso ty name j None False v] by simp

lemma sound_fields:
  "\<forall>(f, t, dflt) \<in> set fds. sound piso t \<Longrightarrow> parse_fields piso n d fds an False = Inr fs \<Longrightarrow> has_fields n fds fs"
proof (induction fds arbitrary: fs)
  case (Cons ftd fds)
  obtain f t dflt where f: "ftd = (f, t, dflt)" by (cases ftd) auto
  with Cons.prems(2) obtain v rest where
    "parse_value piso (n @ 46 # f) (case dget d f of None \<Rightarrow> JNull | Some w \<Rightarrow> w) t dflt an False = Inr v"
    "parse_fields piso n d fds an False = Inr rest" "fs = (f, v) # rest"
    by (auto simp: rbind_eq_Inr)
  with Cons f soundD [of piso t "n @ 46 # f"] show ?case by auto
qed simp

lemma sound_union:
  "\<forall>t \<in> set ts. sound piso t \<Longrightarrow> name \<noteq> noc_field \<Longrightarrow> parse_union piso name j ts an False = Inr (Some v) \<Longrightarrow>
     (\<exists>t \<in> set ts. has_type t v) \<or> an \<and> v = PNone"
proof (induction ts)
  case (Cons t ts)
  then show ?case using soundD [of piso t name j None an v]
    by (auto split: sum.splits if_splits)
qed simp

lemma rmap_sound:
  "sound piso t \<Longrightarrow> name \<noteq> noc_field \<Longrightarrow> rmap (\<lambda>x. parse_value piso name x t None False False) l = Inr vs \<Longrightarrow>
     w \<in> set vs \<Longrightarrow> has_type t w"
  by (induction l arbitrary: vs) (auto simp: rbind_eq_Inr dest: soundD_strict)

lemma decode_wire_type: "decode_wire_bytes s = Inr v \<Longrightarrow> \<exists>bs. v = PBytes bs"
  by (auto simp: decode_wire_bytes_def rbind_eq_Inr)

lemma rest_type:
  "parse_rest name j ty False = Inr v \<Longrightarrow> name \<noteq> noc_field \<Longrightarrow> (\<forall>n ms. ty \<noteq> TyEnum n ms) \<Longrightarrow> has_type ty v"
  by (cases ty; cases j) (auto simp: parse_rest_def json_isinstance_def int_value_def numeric_str_def split: if_splits)

lemma enum_rest: "parse_rest name j (TyEnum n ms) sdk = (if name = noc_field then Inr (PBytes []) else Inl TypeError)"
  by (cases j) (simp_all add: parse_rest_def json_isinstance_def)

lemma leaf_sound:
  assumes "parse_leaf piso name j ty an False = Inr v" "name \<noteq> noc_field"
  shows "has_type ty v \<or> an \<and> v = PNone"
proof (cases "\<exists>n ms. ty = TyEnum n ms")
  case True
  then obtain n ms where ty: "ty = TyEnum n ms" by blast
  show ?thesis
  proof (cases "j = JNull")
    case False
    with assms ty show ?thesis
      by (cases "jkey j") (auto simp: parse_leaf_def enum_rest split: if_splits)
  qed (use assms ty in \<open>auto simp: parse_leaf_def split: if_splits\<close>)
next
  case False
  with assms rest_type [of name j ty v] show ?thesis
    by (cases ty; cases j) (auto simp: parse_leaf_def rbind_eq_Inr dest: decode_wire_type split: if_splits)
qed

text \<open>The first lines of \<open>parse_value\<close> aside, what is left to show per type.\<close>

lemma soundI:
  assumes "\<And>name j an v. name \<noteq> noc_field \<Longrightarrow> parse_value piso name j ty None an False = Inr v \<Longrightarrow>
      has_type ty v \<or> an \<and> v = PNone"
  shows "sound piso ty"
  unfolding sound_def
proof (intro allI impI)
  fix name j dflt an v
  assume n: "name \<noteq> noc_field" and p: "parse_value piso name j ty dflt an False = Inr v"
  show "has_type ty v \<or> dflt = Some v \<or> an \<and> v = PNone"
  proof (cases "j = JNull \<and> dflt \<noteq> None")
    case True
    with p show ?thesis by (auto simp: parse_null)
  next
    case False
    then have "parse_value piso name j ty dflt an False = parse_value piso name j ty None an False"
      by (subst (1 2) parse_value.simps) auto
    with p assms [OF n] show ?thesis by auto
  qed
qed

lemma sound_leaf_type:
  assumes "\<And>name j an v. parse_value piso name j ty None an False = Inr v \<Longrightarrow>
      parse_leaf piso name (if tlv_error (relabel ty j) then JNull else relabel ty j) ty an False = Inr v \<or>
      has_type ty v"
  shows "sound piso ty"
  by (rule soundI) (use assms leaf_sound in blast)

lemma has_type_seqI:
  "(\<And>w. w \<in> set vs \<Longrightarrow> has_type t w) \<Longrightarrow> has_type (TyList t) (PList vs)"
  "(\<And>w. w \<in> set vs \<Longrightarrow> has_type t w) \<Longrightarrow> has_type (TyTuple t ts) (PTuple vs)"
  "(\<And>w. w \<in> set vs \<Longrightarrow> has_type t w) \<Longrightarrow> make_set vs = Inr v \<Longrightarrow> has_type (TySet t) v"
  by (auto simp: make_set_def split: if_splits)

text \<open>A key is parsed under its own text as name, which can be that of the certificate field.\<close>

lemma key_leaf:
  "parse_leaf piso name (JStr s) ty False False = Inr v \<Longrightarrow> v = PBytes [] \<or> has_type ty v"
proof (cases "name = noc_field")
  case True
  assume "parse_leaf piso name (JStr s) ty False False = Inr v"
  with True show ?thesis
    by (cases ty) (auto simp: parse_leaf_def parse_rest_def rbind_eq_Inr dest: decode_wire_type split: if_splits intro: exI [of _ "JStr s"])
qed (use leaf_sound in blast)

lemma key_type:
  "parse_value piso name (JStr s) ty None False False = Inr v \<Longrightarrow> v = PBytes [] \<or> has_type ty v"
proof (induction ty arbitrary: v)
  case (TyUnion ts)
  have "parse_union piso name (JStr s) ts' False False = Inr (Some v) \<Longrightarrow> set ts' \<subseteq> set ts \<Longrightarrow>
      v = PBytes [] \<or> (\<exists>t \<in> set ts'. has_type t v)" for ts'
    by (induction ts') (auto split: sum.splits if_splits dest: TyUnion.IH)
  with TyUnion.prems show ?case
    by (auto simp: parse_union_eq tlv_error_def rbind_eq_Inr split: option.splits if_splits intro: bexI [of _ TyNone])
qed (subst (asm) parse_value.simps, auto simp: relabel_def tlv_error_def simp del: has_type.simps dest: key_leaf)+

lemma sound_dict:
  assumes "sound piso vt"
    and "rmap (\<lambda>(k, w). rbind (parse_value piso k (JStr k) kt None False False) (\<lambda>pk.
         rbind (parse_value piso (k @ u ''.value'') w vt None an False) (\<lambda>pw. Inr (pk, pw)))) d = Inr kvs"
  shows "has_type (TyDict kt vt) (PDict (fold (\<lambda>(k, w). dput k w) kvs []))"
proof -
  have "(k = PBytes [] \<or> has_type kt k) \<and> (w = PNone \<or> has_type vt w)" if "(k, w) \<in> set kvs" for k w
    using assms(2) that
  proof (induction d arbitrary: kvs)
    case (Cons jw d)
    obtain jk jv where j: "jw = (jk, jv)" by (cases jw)
    with Cons.prems(1) obtain pk pv kvs' where
      p: "parse_value piso jk (JStr jk) kt None False False = Inr pk"
        "parse_value piso (jk @ u ''.value'') jv vt None an False = Inr pv" "kvs = (pk, pv) # kvs'"
      and r: "rmap (\<lambda>(k, w). rbind (parse_value piso k (JStr k) kt None False False) (\<lambda>pk.
         rbind (parse_value piso (k @ u ''.value'') w vt None an False) (\<lambda>pw. Inr (pk, pw)))) d = Inr kvs'"
      by (auto simp: rbind_eq_Inr simp del: u_simps)
    have "pk = PBytes [] \<or> has_type kt pk" using p(1) by (rule key_type)
    moreover have "pv = PNone \<or> has_type vt pv" using soundD [OF assms(1) value_name p(2)] by auto
    ultimately show ?case using Cons.prems(2) Cons.IH [OF r] p(3) by auto
  qed simp
  then show ?thesis using fold_dput_set [of _ kvs "[]"] by fastforce
qed

theorem sound_all: "sound piso ty"
proof (induction ty)
  case (TyList t)
  show ?case
    by (rule soundI, subst (asm) parse_value.simps)
      (auto simp: Let_def rbind_eq_Inr simp del: has_type.simps split: if_splits json.splits
        intro!: has_type_seqI dest: leaf_sound rmap_sound [OF TyList.IH])
next
  case (TyTuple t ts)
  show ?case
    by (rule soundI, subst (asm) parse_value.simps)
      (auto simp: Let_def rbind_eq_Inr simp del: has_type.simps split: if_splits json.splits
        intro!: has_type_seqI dest: leaf_sound rmap_sound [OF TyTuple.IH(1)])
next
  case (TySet t)
  show ?case
    by (rule soundI, subst (asm) parse_value.simps)
      (auto simp: Let_def rbind_eq_Inr simp del: has_type.simps split: if_splits json.splits
        intro: has_type_seqI dest: leaf_sound rmap_sound [OF TySet.IH])
next
  case (TyUnion ts)
  then have "\<forall>t \<in> set ts. sound piso t" by blast
  from sound_union [OF this] show ?case
    by (intro soundI, subst (asm) parse_value.simps)
      (auto simp: Let_def rbind_eq_Inr split: if_splits option.splits intro: bexI [of _ TyNone])
next
  case (TyClass n desc fds)
  then have "\<forall>(f, t, dflt) \<in> set fds. sound piso t" by fastforce
  from sound_fields [OF this] have f: "parse_fields piso n d fds an False = Inr fs \<Longrightarrow>
      has_type (TyClass n desc fds) (PInst n fs)" for d an fs by simp
  show ?case
    by (rule soundI, subst (asm) parse_value.simps)
      (auto simp: Let_def rbind_eq_Inr simp del: has_type.simps split: if_splits json.splits
        intro: f dest: leaf_sound)
next
  case (TyDict kt vt)
  show ?case
    by (rule soundI, subst (asm) parse_value.simps)
      (auto simp: Let_def rbind_eq_Inr simp del: has_type.simps u_simps split: if_splits json.splits
        intro: sound_dict [OF TyDict.IH(2)])
qed (rule sound_leaf_type, subst (asm) parse_value.simps, auto simp: Let_def split: if_splits)+

section \<open>Properties\<close>



lemma parsed_class_typed:
  assumes "dataclass_from_dict piso ty j strict False = Inr v"
  shows "has_type ty v"
proof (cases ty)
  case (TyClass n desc fds)
  have "\<forall>(f, t, dflt) \<in> set fds. sound piso t" using sound_all by blast
  from sound_fields [OF this] have f: "parse_fields piso n d fds an False = Inr fs \<Longrightarrow>
      has_type (TyClass n desc fds) (PInst n fs)" for d an fs by simp
  show ?thesis
  proof (cases j)
    case (JObj d)
    with assms TyClass f show ?thesis
      by (auto simp: dataclass_from_dict_def rbind_eq_Inr simp del: has_type.simps split: if_splits list.splits)
  qed (use assms TyClass in \<open>auto simp: dataclass_from_dict_def split: list.splits if_splits\<close>)
qed (use assms in \<open>auto simp: dataclass_from_dict_def\<close>)

text \<open>A message that parse_message returns is an event, an error, a success result, the server information or a command, with every field of its annotated type.\<close>

theorem parsed_message_typed:
  assumes "parse_message piso j = Inr m"
  shows "\<exists>ty \<in> {ty_EventMessage, ty_ErrorResultMessage, ty_SuccessResultMessage, ty_ServerInfoMessage,
     ty_CommandMessage}. has_type ty m"
  using assms parsed_class_typed
  by (fastforce simp: parse_message_def rbind_eq_Inr split: if_splits)

theorem parsed_message_typed_witness:
  "\<exists>ty \<in> {ty_EventMessage, ty_ErrorResultMessage, ty_SuccessResultMessage, ty_ServerInfoMessage,
     ty_CommandMessage}. has_type ty (PInst (u ''EventMessage'') [(u ''event'', PStr (u ''new_kind'')), (u ''data'', PInt 3)])"
proof (rule parsed_message_typed)
  have "parse_union fromisoformat name (JStr (u ''new_kind'')) [ty_EventType, TyStr] True False =
      Inr (Some (PStr (u ''new_kind'')))" for name
    by (simp add: ty_EventType_def members_EventType_def parse_enum_unknown)
  then have "parse_value fromisoformat name (JStr (u ''new_kind'')) (TyUnion [ty_EventType, TyStr]) None True False =
      Inr (PStr (u ''new_kind''))" for name
    by (simp add: parse_union_eq tlv_error_def)
  moreover have "parse_value fromisoformat name (JInt 3) TyAny None True False = Inr (PInt 3)" for name
    by (simp add: parse_any_eq tlv_error_def)
  ultimately show "parse_message fromisoformat (JObj [(u ''event'', JStr (u ''new_kind'')), (u ''data'', JInt 3)]) =
      Inr (PInst (u ''EventMessage'') [(u ''event'', PStr (u ''new_kind'')), (u ''data'', PInt 3)])"
    by (simp add: parse_message_def jcontains_def ty_EventMessage_def dataclass_from_obj dget_def)
qed

text \<open>A tuple loses its None parts: the subscription paths of a node, stored as tuples with None for a wildcard, come back as shorter tuples in which the position of the remaining ids is lost.\<close>

theorem wildcards_dropped:
  fixes parts :: "int option list"
  assumes "name \<noteq> noc_field"
  shows "parse_value piso name (JList (map (\<lambda>p. case p of None \<Rightarrow> JNull | Some i \<Rightarrow> JInt i) parts))
      (TyTuple (TyUnion [TyInt, TyNone]) ts) None False False = Inr (PTuple (map PInt (List.map_filter id parts)))"
proof -
  have "rmap (\<lambda>x. parse_value piso name x (TyUnion [TyInt, TyNone]) None False False)
      (non_null (map (\<lambda>p. case p of None \<Rightarrow> JNull | Some i \<Rightarrow> JInt i) parts)) =
    Inr (map PInt (List.map_filter id parts))"
    using assms
    by (induction parts) (auto simp: non_null_def parse_union_eq tlv_error_def parse_scalar List.map_filter_simps split: option.split)
  then show ?thesis by (simp add: parse_seq)
qed

theorem wildcards_dropped_witness:
  "parse_value fromisoformat (u ''s'') (JList [JInt 1, JNull, JInt 6]) (TyTuple (TyUnion [TyInt, TyNone]) []) None False False
     = Inr (PTuple [PInt 1, PInt 6])"
  using wildcards_dropped [of "u ''s''" fromisoformat "[Some 1, None, Some 6]" "[]"]
  by (simp add: noc_field_def List.map_filter_simps)

lemma parse_dict_absent: "parse_value piso name JNull (TyDict kt vt) None an s = Inl AttributeError"
  by (subst parse_value.simps) (simp add: relabel_def tlv_error_def)

lemma parse_fields_fail:
  "(f, t, dflt) \<in> set fds \<Longrightarrow>
     parse_value piso (n @ 46 # f) (case dget d f of None \<Rightarrow> JNull | Some w \<Rightarrow> w) t dflt an s = Inl e \<Longrightarrow>
     \<exists>e. parse_fields piso n d fds an s = Inl e"
  by (induction fds) (auto simp: rbind_def split: sum.split)

text \<open>Node data without an attributes key is an error, although the field has a default_factory: the parser looks only at the default of the field.\<close>

theorem node_data_needs_attributes:
  assumes "dget d (u ''attributes'') = None"
  shows "\<exists>e. dataclass_from_dict piso ty_MatterNodeData (JObj d) False False = Inl e"
proof -
  have "\<exists>e. parse_fields piso (u ''MatterNodeData'') d fds True False = Inl e"
    if "(u ''attributes'', TyDict TyStr TyAny, None) \<in> set fds" for fds
    by (rule parse_fields_fail [OF that]) (simp add: assms parse_dict_absent del: u_simps)
  then have fail: "\<exists>e. rbind (parse_fields piso (u ''MatterNodeData'') d fds True False) f = Inl e"
    if "(u ''attributes'', TyDict TyStr TyAny, None) \<in> set fds" for fds and f :: "_ \<Rightarrow> pv res"
    using that by (metis rbind_simps(1))
  show ?thesis unfolding ty_MatterNodeData_def dataclass_from_obj by (rule fail) (simp del: u_simps)
qed

theorem node_data_needs_attributes_witness:
  "\<exists>e. dataclass_from_dict fromisoformat ty_MatterNodeData (JObj [(u ''node_id'', JInt 5)]) False False = Inl e"
  by (rule node_data_needs_attributes) (simp add: dget_def)

end
