(* ===== verification/Matter_Errors.thy ===== *)
theory Matter_Errors
  imports Matter_Models
begin

text \<open>
  The exceptions of the Matter client: the classes of \<open>matter_server/common/errors.py\<close> with the
  registry \<open>ERROR_MAP\<close> that maps the error codes of the server to them, the classes of
  \<open>matter_server/client/exceptions.py\<close>, and the errors an operation of the client can end with.
\<close>

section \<open>Errors sent by the server\<close>

datatype matter_error =
    MatterError
  | UnknownError
  | NodeCommissionFailed
  | NodeInterviewFailed
  | NodeNotReady
  | NodeNotResolving
  | NodeNotExists
  | VersionMismatch
  | SDKStackError
  | InvalidArguments
  | InvalidCommand
  | UpdateCheckError
  | UpdateError
  | IcdMultiAdmin
  | OtaUploadError

fun error_code :: "matter_error \<Rightarrow> int" where
  "error_code MatterError = 0"
| "error_code UnknownError = 0"
| "error_code NodeCommissionFailed = 1"
| "error_code NodeInterviewFailed = 2"
| "error_code NodeNotReady = 3"
| "error_code NodeNotResolving = 4"
| "error_code NodeNotExists = 5"
| "error_code VersionMismatch = 6"
| "error_code SDKStackError = 7"
| "error_code InvalidArguments = 8"
| "error_code InvalidCommand = 9"
| "error_code UpdateCheckError = 10"
| "error_code UpdateError = 11"
| "error_code IcdMultiAdmin = 100"
| "error_code OtaUploadError = 101"

text \<open>The subclasses in the order \<open>__init_subclass__\<close> registers them; \<open>MatterError\<close> itself is not one.\<close>

definition error_subclasses :: "matter_error list" where
  "error_subclasses = [UnknownError, NodeCommissionFailed, NodeInterviewFailed, NodeNotReady, NodeNotResolving,
     NodeNotExists, VersionMismatch, SDKStackError, InvalidArguments, InvalidCommand, UpdateCheckError,
     UpdateError, IcdMultiAdmin, OtaUploadError]"

definition register_error :: "matter_error \<Rightarrow> (int, matter_error) dict \<Rightarrow> (int, matter_error) dict" where
  "register_error c d = dput (error_code c) c d"

definition error_map :: "(int, matter_error) dict" where
  "error_map = fold register_error error_subclasses []"

definition exception_from_error_code :: "int \<Rightarrow> matter_error" where
  "exception_from_error_code code = (case dget error_map code of Some c \<Rightarrow> c | None \<Rightarrow> MatterError)"

text \<open>The error code of a server error identifies its exception class: every registered class is found under its own code, and any other code means the generic MatterError.\<close>

theorem error_codes_exact:
  "exception_from_error_code code =
     (case filter (\<lambda>c. error_code c = code) error_subclasses of c # _ \<Rightarrow> c | [] \<Rightarrow> MatterError)"
  by (simp add: exception_from_error_code_def error_map_def error_subclasses_def register_error_def dget_dput)

text \<open>An exception instance: its class, its message and, for \<open>IcdMultiAdmin\<close>, the vendor ids.\<close>

record error_obj =
  err_class :: matter_error
  err_message :: pv
  err_vendors :: "json list"

definition icd_fallback :: pystr where
  "icd_fallback = u ''ICD registration rejected: the peer has administrator fabrics from other vendors''"

text \<open>\<open>json.loads\<close> is the argument \<open>loads\<close>; its ValueError and TypeError leave \<open>parsed\<close> None.\<close>

definition icd_multi_admin :: "(pystr \<Rightarrow> json res) \<Rightarrow> pystr option \<Rightarrow> error_obj" where
  "icd_multi_admin loads details = (case details of
       None \<Rightarrow> \<lparr>err_class = IcdMultiAdmin, err_message = PStr icd_fallback, err_vendors = []\<rparr>
     | Some [] \<Rightarrow> \<lparr>err_class = IcdMultiAdmin, err_message = PStr icd_fallback, err_vendors = []\<rparr>
     | Some s \<Rightarrow> (case loads s of
         Inr (JObj d) \<Rightarrow>
           \<lparr>err_class = IcdMultiAdmin,
            err_message = PStr (case dget d (u ''message'') of
              Some (JStr m) \<Rightarrow> if m \<noteq> [] then m else icd_fallback | _ \<Rightarrow> icd_fallback),
            err_vendors = (case dget d (u ''admin_vendor_ids'') of Some (JList l) \<Rightarrow> l | _ \<Rightarrow> [])\<rparr>
       | _ \<Rightarrow> \<lparr>err_class = IcdMultiAdmin, err_message = PStr s, err_vendors = []\<rparr>))"

text \<open>\<open>exc(details)\<close>; details that are no string cannot be parsed by \<open>json.loads\<close>.\<close>

definition make_error :: "(pystr \<Rightarrow> json res) \<Rightarrow> matter_error \<Rightarrow> pv \<Rightarrow> error_obj" where
  "make_error loads c details =
     (if c = IcdMultiAdmin then (case details of
          PStr s \<Rightarrow> icd_multi_admin loads (Some s)
        | PNone \<Rightarrow> icd_multi_admin loads None
        | _ \<Rightarrow> \<lparr>err_class = c, err_message = details, err_vendors = []\<rparr>)
      else \<lparr>err_class = c, err_message = details, err_vendors = []\<rparr>)"

section \<open>Errors of the client\<close>

datatype client_exception =
    ConnectionClosed
  | CannotConnect
  | ConnectionFailed
  | NotConnected
  | InvalidState
  | InvalidMessage
  | ServerVersionTooOld
  | ServerVersionTooNew

fun is_transport_error :: "client_exception \<Rightarrow> bool" where
  "is_transport_error ConnectionClosed = True"
| "is_transport_error CannotConnect = True"
| "is_transport_error ConnectionFailed = True"
| "is_transport_error _ = False"

fun is_invalid_server_version :: "client_exception \<Rightarrow> bool" where
  "is_invalid_server_version ServerVersionTooOld = True"
| "is_invalid_server_version ServerVersionTooNew = True"
| "is_invalid_server_version _ = False"

text \<open>What an operation can raise: an exception of the client, of the server, of Python, or cancellation.\<close>

datatype cerr =
    Client client_exception
  | Server error_obj
  | Python pyexc
  | Cancelled

definition lift :: "'a res \<Rightarrow> cerr + 'a" where
  "lift r = (case r of Inl e \<Rightarrow> Inl (Python e) | Inr x \<Rightarrow> Inr x)"

lemma lift_simps [simp]: "lift (Inl e) = Inl (Python e)" "lift (Inr x) = Inr x"
  by (simp_all add: lift_def)

end
