(* ===== verification/Matter_Connection.thy ===== *)
theory Matter_Connection
  imports Matter_Errors Matter_Node
begin

text \<open>
  \<open>MatterClientConnection\<close> (\<open>matter_server/client/connection.py\<close>): the websocket to the server, the
  handshake with its two checks of the schema version, and the classification of what arrives.
  The websocket and \<open>orjson.loads\<close> are the environment: what they return is an argument.
\<close>

definition schema_version :: int where
  "schema_version = 11"

text \<open>\<open>cn_ws\<close> is the websocket: absent, open or closed.\<close>

record connection =
  cn_ws :: "bool option"
  cn_info :: "pv option"

definition new_connection :: connection where
  "new_connection = \<lparr>cn_ws = None, cn_info = None\<rparr>"

definition connected :: "connection \<Rightarrow> bool" where
  "connected c \<longleftrightarrow> cn_ws c = Some True"

datatype ws_msg = WsText pystr | WsClose | WsClosed | WsClosing | WsError | WsOther

text \<open>\<open>except TypeError\<close> and \<open>except ValueError\<close>; the errors of \<open>orjson.loads\<close> and of decoding text are
  subclasses of ValueError.\<close>

definition value_error :: "pyexc \<Rightarrow> bool" where
  "value_error e \<longleftrightarrow> e \<in> {ValueError, UnicodeError, JSONDecodeError}"

definition receive_message_or_raise ::
    "(pystr \<Rightarrow> json res) \<Rightarrow> (pystr \<Rightarrow> pydatetime res) \<Rightarrow> ws_msg \<Rightarrow> cerr + pv" where
  "receive_message_or_raise loads piso ws = (case ws of
       WsClose \<Rightarrow> Inl (Client ConnectionClosed)
     | WsClosed \<Rightarrow> Inl (Client ConnectionClosed)
     | WsClosing \<Rightarrow> Inl (Client ConnectionClosed)
     | WsError \<Rightarrow> Inl (Client ConnectionFailed)
     | WsOther \<Rightarrow> Inl (Client InvalidMessage)
     | WsText s \<Rightarrow> (case rbind (loads s) (parse_message piso) of
         Inr m \<Rightarrow> Inr m
       | Inl e \<Rightarrow> if e = TypeError \<or> value_error e then Inl (Client InvalidMessage) else Inl (Python e)))"

text \<open>Comparing an attribute with an int: \<open>None\<close> and text raise a TypeError.\<close>

definition pv_int :: "pv \<Rightarrow> int res" where
  "pv_int v = (case v of PInt i \<Rightarrow> Inr i | PBool b \<Rightarrow> Inr (if b then 1 else 0) | _ \<Rightarrow> Inl TypeError)"

definition info_int :: "pv \<Rightarrow> pystr \<Rightarrow> int res" where
  "info_int info a = rbind (pattr info a) pv_int"

text \<open>
  \<open>connect\<close>: \<open>opened\<close> says whether the websocket handshake succeeded, \<open>first\<close> is the message that
  then arrives.  A failed version check closes the websocket but keeps it.
\<close>

definition connect ::
    "(pystr \<Rightarrow> json res) \<Rightarrow> (pystr \<Rightarrow> pydatetime res) \<Rightarrow> bool \<Rightarrow> ws_msg \<Rightarrow> connection \<Rightarrow> connection \<times> cerr option" where
  "connect loads piso opened first c =
     (if cn_ws c \<noteq> None then (c, Some (Client InvalidState))
      else if \<not> opened then (c, Some (Client CannotConnect))
      else let c1 = c\<lparr>cn_ws := Some True\<rparr> in
        case receive_message_or_raise loads piso first of
          Inl e \<Rightarrow> (c1, Some e)
        | Inr info \<Rightarrow> let c2 = c1\<lparr>cn_info := Some info\<rparr> in
            (case info_int info (u ''schema_version'') of
               Inl e \<Rightarrow> (c2, Some (Python e))
             | Inr server \<Rightarrow>
                 if server < schema_version then (c2\<lparr>cn_ws := Some False\<rparr>, Some (Client ServerVersionTooOld))
                 else (case info_int info (u ''min_supported_schema_version'') of
                     Inl e \<Rightarrow> (c2, Some (Python e))
                   | Inr required \<Rightarrow>
                       if required > schema_version
                       then (c2\<lparr>cn_ws := Some False\<rparr>, Some (Client ServerVersionTooNew))
                       else (c2, None))))"

definition disconnect :: "connection \<Rightarrow> connection" where
  "disconnect c = c\<lparr>cn_ws := None\<rparr>"

text \<open>
  \<open>ota_upload_url\<close>: \<open>urlparse\<close> of the standard library gives scheme, host and path, and
  \<open>urlunparse\<close> of six parts is the argument \<open>unparse\<close>.
\<close>

definition removesuffix :: "pystr \<Rightarrow> pystr \<Rightarrow> pystr" where
  "removesuffix suffix s =
     (if suffix \<noteq> [] \<and> drop (length s - length suffix) s = suffix then take (length s - length suffix) s else s)"

definition ota_upload_url :: "(pystr \<Rightarrow> pystr \<Rightarrow> pystr \<Rightarrow> pystr) \<Rightarrow> pystr \<times> pystr \<times> pystr \<Rightarrow> pystr \<Rightarrow> pystr" where
  "ota_upload_url unparse url upload_id = (case url of (scheme, netloc, path) \<Rightarrow>
     unparse (if scheme = u ''wss'' then u ''https'' else u ''http'') netloc
       (removesuffix (u ''/ws'') path @ u ''/ota-upload/'' @ upload_id))"

text \<open>
  \<open>post_ota_upload\<close>: the status and the parsed body of the answer, or a failed request.  A body of
  another content type counts as one that does not parse.
\<close>

definition post_ota_upload :: "(int \<times> json res) option \<Rightarrow> cerr + int \<times> (pystr \<times> json) list option" where
  "post_ota_upload response = (case response of
       None \<Rightarrow> Inl (Client CannotConnect)
     | Some (status, Inr (JObj d)) \<Rightarrow> Inr (status, Some d)
     | Some (status, Inr _) \<Rightarrow> Inr (status, None)
     | Some (status, Inl e) \<Rightarrow> if value_error e then Inr (status, None) else Inl (Python e))"

section \<open>Facts\<close>

text \<open>C27: The handshake succeeds only with a server whose schema versions include the version of the client, and then the websocket is open.\<close>

theorem handshake_checks_version:
  assumes "connect loads piso opened first c = (c', None)"
  shows "connected c' \<and> (\<exists>info server required. cn_info c' = Some info \<and>
     info_int info (u ''schema_version'') = Inr server \<and> info_int info (u ''min_supported_schema_version'') = Inr required \<and>
     required \<le> schema_version \<and> schema_version \<le> server)"
  using assms by (auto simp: connect_def connected_def Let_def split: if_splits sum.splits simp del: u_simps)

text \<open>After a failed version check the next connect answers InvalidState whatever the server does: the closed websocket stays in place until disconnect.\<close>

theorem version_mismatch_sticks:
  assumes "connect loads piso opened first c = (c', Some (Client err))" "is_invalid_server_version err"
  shows "\<not> connected c' \<and> connect loads' piso' opened' first' c' = (c', Some (Client InvalidState)) \<and>
     cn_ws (disconnect c') = None"
  using assms
  by (auto simp: connect_def connected_def disconnect_def Let_def receive_message_or_raise_def
      split: if_splits sum.splits ws_msg.splits simp del: u_simps)

definition demo_server_info :: "int \<Rightarrow> int \<Rightarrow> pv" where
  "demo_server_info schema required = PInst (u ''ServerInfoMessage'')
    [(u ''fabric_id'', PInt 1), (u ''compressed_fabric_id'', PInt 2), (u ''schema_version'', PInt schema),
     (u ''min_supported_schema_version'', PInt required), (u ''sdk_version'', PStr (u ''1.0'')),
     (u ''wifi_credentials_set'', PBool False), (u ''thread_credentials_set'', PBool False),
     (u ''bluetooth_enabled'', PBool True), (u ''wifi_ssid'', PNone), (u ''ble_proxy_enabled'', PBool False)]"

definition demo_loads :: "pv \<Rightarrow> pystr \<Rightarrow> json res" where
  "demo_loads m s = Inr (encode (\<lambda>d. isoformat_utc (dt_wall d)) m)"

lemma demo_receive:
  "receive_message_or_raise (demo_loads (demo_server_info schema required)) fromisoformat (WsText s) =
     Inr (demo_server_info schema required)"
proof -
  have "typed ty_ServerInfoMessage (demo_server_info schema required)"
    by (simp add: demo_server_info_def ty_ServerInfoMessage_def sdk_error_key_def is_numeric_def is_digit_def
        noc_field_def opt_ok_def) blast
  from message_parses [OF utc_round_python _ this] show ?thesis
    by (simp add: receive_message_or_raise_def demo_loads_def)
qed

lemma demo_info_int:
  "info_int (demo_server_info schema required) (u ''schema_version'') = Inr schema"
  "info_int (demo_server_info schema required) (u ''min_supported_schema_version'') = Inr required"
  by (simp_all add: info_int_def pattr_def demo_server_info_def pv_int_def dget_def)

lemma demo_connect:
  "connect (demo_loads (demo_server_info schema required)) fromisoformat True (WsText s) new_connection =
     (let c = \<lparr>cn_ws = Some True, cn_info = Some (demo_server_info schema required)\<rparr> in
      if schema < 11 then (c\<lparr>cn_ws := Some False\<rparr>, Some (Client ServerVersionTooOld))
      else if required > 11 then (c\<lparr>cn_ws := Some False\<rparr>, Some (Client ServerVersionTooNew)) else (c, None))"
  by (simp add: connect_def new_connection_def demo_receive demo_info_int schema_version_def Let_def del: u_simps)

theorem handshake_checks_version_witness:
  "connected (fst (connect (demo_loads (demo_server_info 13 9)) fromisoformat True (WsText []) new_connection))"
  using handshake_checks_version [of "demo_loads (demo_server_info 13 9)" fromisoformat True "WsText []" new_connection]
  by (simp add: demo_connect del: u_simps)

theorem version_mismatch_sticks_witness:
  "connect (demo_loads (demo_server_info 13 9)) fromisoformat True (WsText [])
     (fst (connect (demo_loads (demo_server_info 9 9)) fromisoformat True (WsText []) new_connection)) =
   (fst (connect (demo_loads (demo_server_info 9 9)) fromisoformat True (WsText []) new_connection),
    Some (Client InvalidState))"
  using version_mismatch_sticks [of "demo_loads (demo_server_info 9 9)" fromisoformat True "WsText []" new_connection _
      ServerVersionTooOld "demo_loads (demo_server_info 13 9)" fromisoformat True "WsText []"]
  by (simp add: demo_connect del: u_simps)

end
