(* ===== verification/Matter_Client.thy ===== *)
theory Matter_Client
  imports Matter_Connection Matter_Node_Facts
begin

text \<open>
  The state and the message loop of \<open>MatterClient\<close> (\<open>matter_server/client/client.py\<close>): the cache of
  nodes, the futures of the commands that wait for an answer, the subscribers, and what each message
  of the server does to them.  Asyncio runs a coroutine up to its next await without interruption,
  so a command is three steps here: \<open>send_start\<close> stores the future and writes the message,
  \<open>send_finish\<close> is the coroutine resuming when the future is done, and \<open>cancel_call\<close> is the caller
  giving up.  What callbacks receive is recorded in \<open>cl_calls\<close>; callbacks do not call back into the
  client here.
\<close>

section \<open>State\<close>

datatype future = Pending | Result pv | Failed error_obj | WasCancelled

text \<open>What a callback gets: a node of the cache, named by its id, or plain data.\<close>

datatype event_data = NodeData json | PlainData pv

record client =
  cl_conn :: connection
  cl_nodes :: "(json, matter_node) dict"
  cl_futures :: "(pystr, future) dict"
  cl_subs :: "(pystr, nat list) dict"
  cl_stop :: bool
  cl_loop :: bool
  cl_sent :: "pv list"
  cl_calls :: "(nat \<times> json \<times> event_data) list"

definition new_client :: client where
  "new_client = \<lparr>cl_conn = new_connection, cl_nodes = [], cl_futures = [], cl_subs = [], cl_stop = False,
     cl_loop = False, cl_sent = [], cl_calls = []\<rparr>"

section \<open>Subscriptions\<close>

text \<open>\<open>str(value)\<close> of an id in a key; floats and containers are left to \<open>other\<close>.\<close>

definition text_of :: "(json \<Rightarrow> pystr) \<Rightarrow> json \<Rightarrow> pystr" where
  "text_of other j = (case j of
       JInt i \<Rightarrow> dec_int i
     | JStr s \<Rightarrow> s
     | JBool b \<Rightarrow> if b then u ''True'' else u ''False''
     | JNull \<Rightarrow> u ''None''
     | _ \<Rightarrow> other j)"

definition wildcard :: pystr where
  "wildcard = u ''*''"

definition sub_key :: "pystr \<Rightarrow> pystr \<Rightarrow> pystr \<Rightarrow> pystr" where
  "sub_key evt node attr = evt @ 47 # node @ 47 # attr"

text \<open>Filters: an event value, a node id and an attribute path, each optional.\<close>

type_synonym filters = "pystr option \<times> int option \<times> pystr option"

definition filter_key :: "filters \<Rightarrow> pystr" where
  "filter_key f = (case f of (evt, node, attr) \<Rightarrow>
     sub_key (case evt of None \<Rightarrow> wildcard | Some e \<Rightarrow> e)
       (case node of None \<Rightarrow> wildcard | Some n \<Rightarrow> dec_int n)
       (case attr of None \<Rightarrow> wildcard | Some a \<Rightarrow> a))"

definition subscribe_events :: "nat \<Rightarrow> filters \<Rightarrow> client \<Rightarrow> client" where
  "subscribe_events cb f cl =
     (let subs = cl_subs cl; old = (case dget subs (filter_key f) of None \<Rightarrow> [] | Some l \<Rightarrow> l) in
      cl\<lparr>cl_subs := dput (filter_key f) (old @ [cb]) subs\<rparr>)"

text \<open>\<open>list.remove\<close>: the first occurrence, or a ValueError.\<close>

definition unsubscribe :: "nat \<Rightarrow> filters \<Rightarrow> client \<Rightarrow> client \<times> cerr option" where
  "unsubscribe cb f cl = (case dget (cl_subs cl) (filter_key f) of
       None \<Rightarrow> (cl, Some (Python KeyError))
     | Some l \<Rightarrow> if cb \<in> set l then (cl\<lparr>cl_subs := dput (filter_key f) (remove1 cb l) (cl_subs cl)\<rparr>, None)
                 else (cl, Some (Python ValueError)))"

text \<open>The keys \<open>_signal_event\<close> looks up, in its order; a missing node id or path has no key of its own.\<close>

definition signal_keys :: "pystr \<Rightarrow> pystr option \<Rightarrow> pystr option \<Rightarrow> pystr list" where
  "signal_keys evt node attr =
     concat (map (\<lambda>e. concat (map (\<lambda>n. map (\<lambda>a. sub_key e n a)
       ((case attr of None \<Rightarrow> [] | Some a \<Rightarrow> [a]) @ [wildcard]))
       ((case node of None \<Rightarrow> [] | Some n \<Rightarrow> [n]) @ [wildcard]))) [evt, wildcard])"

definition callbacks :: "(pystr, nat list) dict \<Rightarrow> pystr \<Rightarrow> nat list" where
  "callbacks subs key = (case dget subs key of None \<Rightarrow> [] | Some l \<Rightarrow> l)"

definition signal_event ::
    "(json \<Rightarrow> pystr) \<Rightarrow> pystr \<Rightarrow> event_data \<Rightarrow> json \<Rightarrow> pystr option \<Rightarrow> client \<Rightarrow> client" where
  "signal_event other evt data node attr cl =
     (let keys = signal_keys evt (if node = JNull then None else Some (text_of other node)) attr in
      cl\<lparr>cl_calls := cl_calls cl @
         map (\<lambda>cb. (cb, JStr evt, data)) (concat (map (callbacks (cl_subs cl)) keys))\<rparr>)"

section \<open>Commands\<close>

text \<open>A command: its name, the schema it needs, and its arguments in order.\<close>

type_synonym request = "pystr \<times> int option \<times> (pystr \<times> pv) list"

definition command_message :: "pystr \<Rightarrow> pystr \<Rightarrow> (pystr \<times> pv) list \<Rightarrow> pv" where
  "command_message mid command args = PInst (u ''CommandMessage'')
     [(u ''message_id'', PStr mid), (u ''command'', PStr command),
      (u ''args'', PDict (map (\<lambda>(k, v). (PStr k, v)) args))]"

definition prepare_message :: "pystr \<Rightarrow> request \<Rightarrow> client \<Rightarrow> cerr + pv" where
  "prepare_message mid req cl = (case req of (command, require_schema, args) \<Rightarrow>
     if \<not> connected (cl_conn cl) then Inl (Client InvalidState)
     else (case (require_schema, cn_info (cl_conn cl)) of
         (Some required, Some info) \<Rightarrow> (case info_int info (u ''schema_version'') of
             Inl e \<Rightarrow> Inl (Python e)
           | Inr server \<Rightarrow> if required > server then Inl (Client ServerVersionTooOld)
                           else Inr (command_message mid command args))
       | _ \<Rightarrow> Inr (command_message mid command args)))"

text \<open>\<open>connection.send_message\<close>: \<open>failure\<close> is what \<open>send_json\<close> raises, if it raises.\<close>

definition send_message :: "pv \<Rightarrow> cerr option \<Rightarrow> client \<Rightarrow> client \<times> cerr option" where
  "send_message msg failure cl =
     (if \<not> connected (cl_conn cl) then (cl, Some (Client NotConnected))
      else case failure of
        Some e \<Rightarrow> (cl, Some e)
      | None \<Rightarrow> (cl\<lparr>cl_sent := cl_sent cl @ [msg]\<rparr>, None))"

text \<open>\<open>send_command\<close> up to \<open>await future\<close>; \<open>mid\<close> is \<open>uuid.uuid4().hex\<close>.\<close>

definition send_start :: "pystr \<Rightarrow> request \<Rightarrow> cerr option \<Rightarrow> client \<Rightarrow> client \<times> cerr option" where
  "send_start mid req failure cl =
     (if \<not> cl_loop cl then (cl, Some (Client InvalidState))
      else case prepare_message mid req cl of
        Inl e \<Rightarrow> (cl, Some e)
      | Inr msg \<Rightarrow> send_message msg failure (cl\<lparr>cl_futures := dput mid Pending (cl_futures cl)\<rparr>))"

text \<open>The rest of \<open>send_command\<close>, which runs once the future is done: \<open>None\<close> while it is not.\<close>

definition send_finish :: "pystr \<Rightarrow> client \<Rightarrow> (client \<times> (cerr + pv)) option" where
  "send_finish mid cl = (case dget (cl_futures cl) mid of
       Some (Result v) \<Rightarrow> Some (cl\<lparr>cl_futures := dpop mid (cl_futures cl)\<rparr>, Inr v)
     | Some (Failed e) \<Rightarrow> Some (cl\<lparr>cl_futures := dpop mid (cl_futures cl)\<rparr>, Inl (Server e))
     | Some WasCancelled \<Rightarrow> Some (cl\<lparr>cl_futures := dpop mid (cl_futures cl)\<rparr>, Inl Cancelled)
     | _ \<Rightarrow> None)"

text \<open>The task of the caller is cancelled while it waits: its future is cancelled with it.\<close>

definition cancel_future :: "future \<Rightarrow> future" where
  "cancel_future f = (case f of Pending \<Rightarrow> WasCancelled | _ \<Rightarrow> f)"

definition cancel_call :: "pystr \<Rightarrow> client \<Rightarrow> client" where
  "cancel_call mid cl = (case dget (cl_futures cl) mid of
       None \<Rightarrow> cl | Some f \<Rightarrow> cl\<lparr>cl_futures := dput mid (cancel_future f) (cl_futures cl)\<rparr>)"

definition send_command_no_wait :: "pystr \<Rightarrow> request \<Rightarrow> cerr option \<Rightarrow> client \<Rightarrow> client \<times> cerr option" where
  "send_command_no_wait mid req failure cl = (case prepare_message mid req cl of
       Inl e \<Rightarrow> (cl, Some e) | Inr msg \<Rightarrow> send_message msg failure cl)"

section \<open>Incoming messages\<close>

text \<open>\<open>future.set_result\<close> and \<open>future.set_exception\<close> raise on a future that is done.\<close>

definition settle :: "pystr \<Rightarrow> future \<Rightarrow> client \<Rightarrow> client \<times> cerr option" where
  "settle mid outcome cl = (case dget (cl_futures cl) mid of
       None \<Rightarrow> (cl, None)
     | Some Pending \<Rightarrow> (cl\<lparr>cl_futures := dput mid outcome (cl_futures cl)\<rparr>, None)
     | Some _ \<Rightarrow> (cl, Some (Python InvalidStateError)))"

definition is_event :: "pv \<Rightarrow> string \<Rightarrow> bool" where
  "is_event ev s \<longleftrightarrow> ev = PEnum (u ''EventType'') (JStr (u s))"

text \<open>A dict access keyed by a raw value: the key it is stored under.\<close>

definition node_key :: "pv \<Rightarrow> json res" where
  "node_key v = jkey (data_of v)"

definition put_node :: "json \<Rightarrow> matter_node \<Rightarrow> client \<Rightarrow> client" where
  "put_node k n cl = cl\<lparr>cl_nodes := dput k n (cl_nodes cl)\<rparr>"

text \<open>\<open>NODE_ADDED\<close> and \<open>NODE_UPDATED\<close>: whether the node is known decides which event is signalled.\<close>

definition on_node ::
    "(json \<Rightarrow> pystr) \<Rightarrow> (pystr \<Rightarrow> pydatetime res) \<Rightarrow> registry \<Rightarrow> pv \<Rightarrow> client \<Rightarrow> client \<times> cerr option" where
  "on_node other piso reg data cl =
     (case rbind (dataclass_from_dict piso ty_MatterNodeData (data_of data) False False) (\<lambda>nd.
           rbind (pattr nd (u ''node_id'')) (\<lambda>i. rbind (node_key i) (\<lambda>k. Inr (nd, data_of i, k)))) of
        Inl e \<Rightarrow> (cl, Some (Python e))
      | Inr (nd, i, k) \<Rightarrow> (case dget (cl_nodes cl) k of
          None \<Rightarrow> (case new_node piso reg nd of
              Inl e \<Rightarrow> (cl, Some (Python e))
            | Inr node \<Rightarrow> (signal_event other (u ''node_added'') (NodeData k) i None (put_node k node cl), None))
        | Some node \<Rightarrow> (case node_update piso reg nd node of
              (node', Some e) \<Rightarrow> (put_node k node' cl, Some (Python e))
            | (node', None) \<Rightarrow>
                (signal_event other (u ''node_updated'') (NodeData k) i None (put_node k node' cl), None))))"

text \<open>\<open>NODE_REMOVED\<close>: subscribers first, then the cache.\<close>

definition on_node_removed :: "(json \<Rightarrow> pystr) \<Rightarrow> pv \<Rightarrow> client \<Rightarrow> client \<times> cerr option" where
  "on_node_removed other data cl =
     (let cl1 = signal_event other (u ''node_removed'') (PlainData data) (data_of data) None cl in
      case node_key data of
        Inl e \<Rightarrow> (cl1, Some (Python e))
      | Inr k \<Rightarrow> (cl1\<lparr>cl_nodes := dpop k (cl_nodes cl1)\<rparr>, None))"

definition pop_endpoint :: "json \<Rightarrow> matter_node \<Rightarrow> matter_node" where
  "pop_endpoint k node = (case k of
       JInt i \<Rightarrow> node\<lparr>mn_endpoints := dpop i (mn_endpoints node)\<rparr> | _ \<Rightarrow> node)"

definition on_endpoint_removed :: "(json \<Rightarrow> pystr) \<Rightarrow> pv \<Rightarrow> client \<Rightarrow> client \<times> cerr option" where
  "on_endpoint_removed other data cl =
     (case rbind (jindex (data_of data) (u ''node_id'')) (\<lambda>n.
           rbind (jindex (data_of data) (u ''endpoint_id'')) (\<lambda>e. Inr (n, e))) of
        Inl e \<Rightarrow> (cl, Some (Python e))
      | Inr (n, e) \<Rightarrow>
          let cl1 = signal_event other (u ''endpoint_removed'') (PlainData data) n None cl in
          (case jkey n of
             Inl err \<Rightarrow> (cl1, Some (Python err))
           | Inr k \<Rightarrow> (case dget (cl_nodes cl1) k of
               None \<Rightarrow> (cl1, None)
             | Some node \<Rightarrow> (case jkey e of
                 Inl err \<Rightarrow> (cl1, Some (Python err))
               | Inr ek \<Rightarrow> (put_node k (pop_endpoint ek node) cl1, None)))))"

text \<open>\<open>ATTRIBUTE_UPDATED\<close>: a triple of node id, path and value.\<close>

definition on_attribute_updated ::
    "(json \<Rightarrow> pystr) \<Rightarrow> (pystr \<Rightarrow> pydatetime res) \<Rightarrow> registry \<Rightarrow> pv \<Rightarrow> client \<Rightarrow> client \<times> cerr option" where
  "on_attribute_updated other piso reg data cl = (case jiter (data_of data) of
       Inl e \<Rightarrow> (cl, Some (Python e))
     | Inr [n, path, v] \<Rightarrow> (case jkey n of
         Inl e \<Rightarrow> (cl, Some (Python e))
       | Inr k \<Rightarrow> (case dget (cl_nodes cl) k of
           None \<Rightarrow> (cl, Some (Python KeyError))
         | Some node \<Rightarrow> (case path of
             JStr p \<Rightarrow> (case update_attribute piso reg p v node of
                 (node', Some e) \<Rightarrow> (put_node k node' cl, Some (Python e))
               | (node', None) \<Rightarrow>
                   (signal_event other (u ''attribute_updated'') (PlainData (raw v)) n (Some p) (put_node k node' cl), None))
           | _ \<Rightarrow> (cl, Some (Python AttributeError)))))
     | Inr _ \<Rightarrow> (cl, Some (Python ValueError)))"

text \<open>\<open>ENDPOINT_ADDED\<close> only reads its two keys before it is forwarded like any other event.\<close>

definition endpoint_added_keys :: "pv \<Rightarrow> unit res" where
  "endpoint_added_keys data = rbind (jindex (data_of data) (u ''node_id'')) (\<lambda>_.
     rbind (jindex (data_of data) (u ''endpoint_id'')) (\<lambda>_. Inr ()))"

definition on_node_event ::
    "(json \<Rightarrow> pystr) \<Rightarrow> (pystr \<Rightarrow> pydatetime res) \<Rightarrow> pv \<Rightarrow> client \<Rightarrow> client \<times> cerr option" where
  "on_node_event other piso data cl =
     (case rbind (dataclass_from_dict piso ty_MatterNodeEvent (data_of data) False False) (\<lambda>ne.
           rbind (pattr ne (u ''node_id'')) (\<lambda>i. Inr (ne, i))) of
        Inl e \<Rightarrow> (cl, Some (Python e))
      | Inr (ne, i) \<Rightarrow> (signal_event other (u ''node_event'') (PlainData ne) (data_of i) None cl, None))"

definition on_topology ::
    "(json \<Rightarrow> pystr) \<Rightarrow> (pystr \<Rightarrow> pydatetime res) \<Rightarrow> pv \<Rightarrow> client \<Rightarrow> client \<times> cerr option" where
  "on_topology other piso data cl = (case dataclass_from_dict piso ty_NetworkTopology (data_of data) False False of
       Inl e \<Rightarrow> (cl, Some (Python e))
     | Inr t \<Rightarrow> (signal_event other (u ''network_topology_updated'') (PlainData t) JNull None cl, None))"

definition forward_event :: "(json \<Rightarrow> pystr) \<Rightarrow> pv \<Rightarrow> pv \<Rightarrow> client \<Rightarrow> client" where
  "forward_event other ev data cl = (case ev of
       PEnum _ (JStr s) \<Rightarrow> signal_event other s (PlainData data) JNull None cl
     | _ \<Rightarrow> cl)"

definition handle_event_message ::
    "(json \<Rightarrow> pystr) \<Rightarrow> (pystr \<Rightarrow> pydatetime res) \<Rightarrow> registry \<Rightarrow> pv \<Rightarrow> pv \<Rightarrow> client \<Rightarrow> client \<times> cerr option" where
  "handle_event_message other piso reg ev data cl =
     (if is_event ev ''node_added'' \<or> is_event ev ''node_updated'' then on_node other piso reg data cl
      else if is_event ev ''node_removed'' then on_node_removed other data cl
      else if is_event ev ''endpoint_removed'' then on_endpoint_removed other data cl
      else if is_event ev ''attribute_updated'' then on_attribute_updated other piso reg data cl
      else case (if is_event ev ''endpoint_added'' then endpoint_added_keys data else Inr ()) of
        Inl e \<Rightarrow> (cl, Some (Python e))
      | Inr _ \<Rightarrow>
          if is_event ev ''node_event'' then on_node_event other piso data cl
          else if is_event ev ''network_topology_updated'' then on_topology other piso data cl
          else (forward_event other ev data cl, None))"

text \<open>
  \<open>_handle_incoming_message\<close>.  The id of a result is a string or \<open>None\<close>, the error code an int or
  \<open>None\<close>; a message of another class is only logged.
\<close>

definition message_id :: "pv \<Rightarrow> pystr option" where
  "message_id msg = (case pattr msg (u ''message_id'') of Inr (PStr s) \<Rightarrow> Some s | _ \<Rightarrow> None)"

definition handle_incoming_message ::
    "(pystr \<Rightarrow> json res) \<Rightarrow> (json \<Rightarrow> pystr) \<Rightarrow> (pystr \<Rightarrow> pydatetime res) \<Rightarrow> registry \<Rightarrow> pv \<Rightarrow> client
       \<Rightarrow> client \<times> cerr option" where
  "handle_incoming_message loads other piso reg msg cl = (case msg of
       PInst c fs \<Rightarrow>
         if c = u ''SuccessResultMessage'' then
           (case message_id msg of
              None \<Rightarrow> (cl, None)
            | Some mid \<Rightarrow> settle mid (Result (case pattr msg (u ''result'') of Inr v \<Rightarrow> v | _ \<Rightarrow> PNone)) cl)
         else if c = u ''ErrorResultMessage'' then
           (case message_id msg of
              None \<Rightarrow> (cl, None)
            | Some mid \<Rightarrow>
                let code = (case rbind (pattr msg (u ''error_code'')) pv_int of Inr i \<Rightarrow> exception_from_error_code i | _ \<Rightarrow> MatterError);
                    details = (case pattr msg (u ''details'') of Inr v \<Rightarrow> v | _ \<Rightarrow> PNone) in
                settle mid (Failed (make_error loads code details)) cl)
         else if c = u ''EventMessage'' then
           (case (pattr msg (u ''event''), pattr msg (u ''data'')) of
              (Inr ev, Inr data) \<Rightarrow> handle_event_message other piso reg ev data cl
            | _ \<Rightarrow> (cl, Some (Python AttributeError)))
         else (cl, None)
     | _ \<Rightarrow> (cl, None))"

section \<open>Connecting and listening\<close>

definition client_connect ::
    "(pystr \<Rightarrow> json res) \<Rightarrow> (pystr \<Rightarrow> pydatetime res) \<Rightarrow> bool \<Rightarrow> ws_msg \<Rightarrow> client \<Rightarrow> client \<times> cerr option" where
  "client_connect loads piso opened first cl =
     (let cl1 = cl\<lparr>cl_loop := True\<rparr> in
      if connected (cl_conn cl1) then (cl1, None)
      else (case connect loads piso opened first (cl_conn cl1) of
          (c, err) \<Rightarrow> (cl1\<lparr>cl_stop := False, cl_conn := c\<rparr>, err)))"

text \<open>\<open>disconnect\<close> cancels every command that waits; the coroutines then remove their futures.\<close>

definition client_disconnect :: "client \<Rightarrow> client" where
  "client_disconnect cl = cl\<lparr>cl_stop := True,
     cl_futures := map (\<lambda>(m, f). (m, cancel_future f)) (cl_futures cl),
     cl_conn := disconnect (cl_conn cl)\<rparr>"

text \<open>The nodes of the answer to \<open>start_listening\<close>.\<close>

definition dump_node ::
    "(pystr \<Rightarrow> pydatetime res) \<Rightarrow> registry \<Rightarrow> pv \<Rightarrow> (json \<times> matter_node) res" where
  "dump_node piso reg x =
     rbind (dataclass_from_dict piso ty_MatterNodeData (data_of x) False False) (\<lambda>nd.
     rbind (new_node piso reg nd) (\<lambda>node.
     rbind (pattr nd (u ''node_id'')) (\<lambda>i. rbind (node_key i) (\<lambda>k. Inr (k, node)))))"

definition dump_nodes :: "(pystr \<Rightarrow> pydatetime res) \<Rightarrow> registry \<Rightarrow> pv \<Rightarrow> (json, matter_node) dict res" where
  "dump_nodes piso reg msg =
     rbind (rbind (pattr msg (u ''result'')) piter) (\<lambda>xs.
     rbind (rmap (dump_node piso reg) xs) (\<lambda>kns. Inr (fold (\<lambda>(k, n). dput k n) kns [])))"

text \<open>
  \<open>start_listening\<close> after its \<open>connect\<close>: the first message received is taken for the answer.  An
  error disconnects the client; only \<open>ConnectionClosed\<close> is not raised.
\<close>

definition end_listening :: "client \<Rightarrow> cerr \<Rightarrow> client \<times> cerr option" where
  "end_listening cl e = (client_disconnect cl, if e = Client ConnectionClosed then None else Some e)"

definition start_message :: "pystr \<Rightarrow> pv" where
  "start_message mid = PInst (u ''CommandMessage'')
     [(u ''message_id'', PStr mid), (u ''command'', PStr (u ''start_listening'')), (u ''args'', PNone)]"

definition start_listening ::
    "(pystr \<Rightarrow> json res) \<Rightarrow> (pystr \<Rightarrow> pydatetime res) \<Rightarrow> registry \<Rightarrow> pystr \<Rightarrow> cerr option \<Rightarrow> ws_msg \<Rightarrow> client
       \<Rightarrow> client \<times> cerr option" where
  "start_listening loads piso reg mid failure answer cl =
     (case send_message (start_message mid) failure cl of
        (cl1, Some e) \<Rightarrow> end_listening cl1 e
      | (cl1, None) \<Rightarrow> (case receive_message_or_raise loads piso answer of
          Inl e \<Rightarrow> end_listening cl1 e
        | Inr msg \<Rightarrow> (case dump_nodes piso reg msg of
            Inl e \<Rightarrow> end_listening cl1 (Python e)
          | Inr nodes \<Rightarrow> (cl1\<lparr>cl_nodes := nodes\<rparr>, None))))"

text \<open>One turn of the loop; the flag says whether the loop goes on.\<close>

definition listen_step ::
    "(pystr \<Rightarrow> json res) \<Rightarrow> (json \<Rightarrow> pystr) \<Rightarrow> (pystr \<Rightarrow> pydatetime res) \<Rightarrow> registry \<Rightarrow> ws_msg \<Rightarrow> client
       \<Rightarrow> client \<times> cerr option \<times> bool" where
  "listen_step loads other piso reg ws cl =
     (if cl_stop cl then (client_disconnect cl, None, False)
      else case receive_message_or_raise loads piso ws of
        Inl e \<Rightarrow> (case end_listening cl e of (cl', err) \<Rightarrow> (cl', err, False))
      | Inr msg \<Rightarrow> (case handle_incoming_message loads other piso reg msg cl of
          (cl', None) \<Rightarrow> (cl', None, True)
        | (cl', Some e) \<Rightarrow> (case end_listening cl' e of (cl2, err) \<Rightarrow> (cl2, err, False))))"

section \<open>Nodes of the cache\<close>

definition get_nodes :: "client \<Rightarrow> matter_node list" where
  "get_nodes cl = map snd (cl_nodes cl)"

definition get_node :: "client \<Rightarrow> int \<Rightarrow> cerr + matter_node" where
  "get_node cl i = (case dget (cl_nodes cl) (JInt i) of
       Some node \<Rightarrow> Inr node
     | None \<Rightarrow> Inl (Server \<lparr>err_class = NodeNotExists,
         err_message = PStr (u ''Node '' @ dec_int i @ u '' does not exist or is not yet interviewed''),
         err_vendors = []\<rparr>))"

end
