(* ===== verification/Matter_Api.thy ===== *)
theory Matter_Api
  imports Matter_Client
begin

text \<open>
  The commands of \<open>MatterClient\<close> (\<open>matter_server/client/client.py\<close>), one definition per method in the
  order of the file.  \<open>ask\<close> stands for \<open>await self.send_command(...)\<close>: the request a method sends, with
  the schema version it requires, is its argument, and what the call raises or returns its result.
  Ids of generated clusters and attributes are those of \<open>chip/clusters/cluster_defs\<close>.
\<close>

type_synonym asker = "request \<Rightarrow> cerr + pv"

definition parse_result :: "(pystr \<Rightarrow> pydatetime res) \<Rightarrow> ptype \<Rightarrow> pv \<Rightarrow> cerr + pv" where
  "parse_result piso ty data = lift (dataclass_from_dict piso ty (data_of data) False False)"

definition opt_str :: "pystr option \<Rightarrow> pv" where
  "opt_str s = (case s of None \<Rightarrow> PNone | Some t \<Rightarrow> PStr t)"

definition opt_int :: "int option \<Rightarrow> pv" where
  "opt_int i = (case i of None \<Rightarrow> PNone | Some n \<Rightarrow> PInt n)"

section \<open>Credentials and commissioning\<close>

definition set_default_fabric_label :: "asker \<Rightarrow> pystr option \<Rightarrow> cerr + unit" where
  "set_default_fabric_label ask label =
     rbind (ask (u ''set_default_fabric_label'', Some 11, [(u ''label'', opt_str label)])) (\<lambda>_. Inr ())"

definition get_fabric_label :: "asker \<Rightarrow> cerr + json" where
  "get_fabric_label ask =
     rbind (ask (u ''get_fabric_label'', Some 12, [])) (\<lambda>r. lift (jindex (data_of r) (u ''fabric_label'')))"

definition commission_with_code ::
    "(pystr \<Rightarrow> pydatetime res) \<Rightarrow> asker \<Rightarrow> pystr \<Rightarrow> bool \<Rightarrow> pystr option \<Rightarrow> pystr option \<Rightarrow> cerr + pv" where
  "commission_with_code piso ask code network_only wifi_id thread_id =
     (let extra = (case wifi_id of None \<Rightarrow> [] | Some i \<Rightarrow> [(u ''wifi_credentials_id'', PStr i)]) @
                  (case thread_id of None \<Rightarrow> [] | Some i \<Rightarrow> [(u ''thread_dataset_id'', PStr i)]) in
      rbind (ask (u ''commission_with_code'',
          if extra \<noteq> [] then Some 12 else if network_only then Some 6 else None,
          [(u ''code'', PStr code), (u ''network_only'', PBool network_only)] @ extra))
        (parse_result piso ty_MatterNodeData))"

definition commission_on_network ::
    "(pystr \<Rightarrow> pydatetime res) \<Rightarrow> asker \<Rightarrow> int \<Rightarrow> pystr option \<Rightarrow> cerr + pv" where
  "commission_on_network piso ask setup_pin_code ip_addr =
     rbind (ask (u ''commission_on_network'', if ip_addr \<noteq> None then Some 6 else None,
         [(u ''setup_pin_code'', PInt setup_pin_code), (u ''ip_addr'', opt_str ip_addr)]))
       (parse_result piso ty_MatterNodeData)"

definition entry_schema :: "pystr \<Rightarrow> int option" where
  "entry_schema entry_id = (if entry_id \<noteq> u ''default'' then Some 12 else None)"

definition set_wifi_credentials :: "asker \<Rightarrow> pystr \<Rightarrow> pystr \<Rightarrow> pystr \<Rightarrow> cerr + unit" where
  "set_wifi_credentials ask ssid credentials entry_id =
     rbind (ask (u ''set_wifi_credentials'', entry_schema entry_id,
         [(u ''ssid'', PStr ssid), (u ''credentials'', PStr credentials), (u ''id'', PStr entry_id)])) (\<lambda>_. Inr ())"

definition set_thread_operational_dataset :: "asker \<Rightarrow> pystr \<Rightarrow> pystr \<Rightarrow> cerr + unit" where
  "set_thread_operational_dataset ask dataset entry_id =
     rbind (ask (u ''set_thread_dataset'', entry_schema entry_id,
         [(u ''dataset'', PStr dataset), (u ''id'', PStr entry_id)])) (\<lambda>_. Inr ())"

definition remove_wifi_credentials :: "asker \<Rightarrow> pystr \<Rightarrow> cerr + unit" where
  "remove_wifi_credentials ask entry_id =
     rbind (ask (u ''remove_wifi_credentials'', entry_schema entry_id, [(u ''id'', PStr entry_id)])) (\<lambda>_. Inr ())"

definition remove_thread_dataset :: "asker \<Rightarrow> pystr \<Rightarrow> cerr + unit" where
  "remove_thread_dataset ask entry_id =
     rbind (ask (u ''remove_thread_dataset'', entry_schema entry_id, [(u ''id'', PStr entry_id)])) (\<lambda>_. Inr ())"

definition get_all_credentials :: "asker \<Rightarrow> cerr + pv" where
  "get_all_credentials ask = ask (u ''get_all_credentials'', Some 12, [])"

definition get_thread_border_routers :: "asker \<Rightarrow> cerr + pv" where
  "get_thread_border_routers ask = ask (u ''get_thread_border_routers'', Some 12, [])"

definition get_thread_diagnostics :: "asker \<Rightarrow> pystr option \<Rightarrow> bool \<Rightarrow> cerr + pv" where
  "get_thread_diagnostics ask ext_pan_id force =
     ask (u ''get_thread_diagnostics'', Some 12,
       (case ext_pan_id of None \<Rightarrow> [] | Some i \<Rightarrow> [(u ''ext_pan_id'', PStr i)]) @
       (if force then [(u ''force'', PBool True)] else []))"

section \<open>Intermittently connected devices and topology\<close>

definition get_icd_state :: "(pystr \<Rightarrow> pydatetime res) \<Rightarrow> asker \<Rightarrow> int \<Rightarrow> cerr + pv" where
  "get_icd_state piso ask node =
     rbind (ask (u ''get_icd_state'', Some 12, [(u ''node_id'', PInt node)])) (parse_result piso ty_IcdStateData)"

definition register_icd ::
    "(pystr \<Rightarrow> pydatetime res) \<Rightarrow> asker \<Rightarrow> int \<Rightarrow> bool option \<Rightarrow> int list option \<Rightarrow> cerr + pv" where
  "register_icd piso ask node allow_multi_admin ignored_vendors =
     rbind (ask (u ''register_icd'', Some 12, [(u ''node_id'', PInt node)] @
         (case allow_multi_admin of None \<Rightarrow> [] | Some b \<Rightarrow> [(u ''allow_multi_admin'', PBool b)]) @
         (case ignored_vendors of None \<Rightarrow> [] | Some l \<Rightarrow> [(u ''ignored_vendors'', PList (map PInt l))])))
       (parse_result piso ty_IcdStateData)"

definition unregister_icd :: "(pystr \<Rightarrow> pydatetime res) \<Rightarrow> asker \<Rightarrow> int \<Rightarrow> bool \<Rightarrow> cerr + pv" where
  "unregister_icd piso ask node force =
     rbind (ask (u ''unregister_icd'', Some 12, [(u ''node_id'', PInt node), (u ''force'', PBool force)]))
       (parse_result piso ty_IcdStateData)"

definition resync_icd :: "asker \<Rightarrow> int \<Rightarrow> cerr + unit" where
  "resync_icd ask node = rbind (ask (u ''resync_icd'', Some 12, [(u ''node_id'', PInt node)])) (\<lambda>_. Inr ())"

definition get_network_topology :: "(pystr \<Rightarrow> pydatetime res) \<Rightarrow> asker \<Rightarrow> bool \<Rightarrow> cerr + pv" where
  "get_network_topology piso ask refresh =
     rbind (ask (u ''get_network_topology'', Some 13, [(u ''refresh'', PBool refresh)]))
       (parse_result piso ty_NetworkTopology)"

definition open_commissioning_window ::
    "(pystr \<Rightarrow> pydatetime res) \<Rightarrow> asker \<Rightarrow> int \<Rightarrow> int \<Rightarrow> int \<Rightarrow> int \<Rightarrow> int option \<Rightarrow> cerr + pv" where
  "open_commissioning_window piso ask node timeout iteration window_option discriminator =
     rbind (ask (u ''open_commissioning_window'', None,
         [(u ''node_id'', PInt node), (u ''timeout'', PInt timeout), (u ''iteration'', PInt iteration),
          (u ''option'', PInt window_option), (u ''discriminator'', opt_int discriminator)]))
       (parse_result piso ty_CommissioningParameters)"

definition discover_commissionable_nodes :: "(pystr \<Rightarrow> pydatetime res) \<Rightarrow> asker \<Rightarrow> cerr + pv list" where
  "discover_commissionable_nodes piso ask =
     rbind (ask (u ''discover'', Some 7, [])) (\<lambda>r. rbind (lift (piter r))
       (rmap (parse_result piso ty_CommissionableNodeData)))"

section \<open>Device commands and attributes\<close>

text \<open>A cluster command: the name and cluster id of its class, and its instance.\<close>

definition send_device_command ::
    "asker \<Rightarrow> int \<Rightarrow> int \<Rightarrow> pystr \<times> int \<times> pv \<Rightarrow> pv \<Rightarrow> int option \<Rightarrow> int option \<Rightarrow> cerr + pv" where
  "send_device_command ask node ep command response_type timed_ms interaction_ms =
     (case command of (command_name, cluster, payload) \<Rightarrow>
        ask (u ''device_command'', None,
          [(u ''node_id'', PInt node), (u ''endpoint_id'', PInt ep), (u ''cluster_id'', PInt cluster),
           (u ''command_name'', PStr command_name), (u ''payload'', dataclass_to_dict payload),
           (u ''response_type'', response_type), (u ''timed_request_timeout_ms'', opt_int timed_ms),
           (u ''interaction_timeout_ms'', opt_int interaction_ms)]))"

definition remove_matter_fabric :: "asker \<Rightarrow> int \<Rightarrow> int \<Rightarrow> cerr + unit" where
  "remove_matter_fabric ask node fabric_index =
     rbind (send_device_command ask node 0
         (u ''RemoveFabric'', 62, PInst (u ''RemoveFabric'') [(u ''fabricIndex'', PInt fabric_index)]) PNone None None)
       (\<lambda>_. Inr ())"

definition ping_node :: "asker \<Rightarrow> int \<Rightarrow> cerr + pv" where
  "ping_node ask node = ask (u ''ping_node'', None, [(u ''node_id'', PInt node)])"

definition read_attribute :: "asker \<Rightarrow> int \<Rightarrow> pv \<Rightarrow> cerr + pv" where
  "read_attribute ask node path =
     ask (u ''read_attribute'', Some 9, [(u ''node_id'', PInt node), (u ''attribute_path'', path)])"

text \<open>\<open>self._nodes[node_id].update_attribute\<close> for every value read; an error ends the loop.\<close>

fun store_values ::
    "(pystr \<Rightarrow> pydatetime res) \<Rightarrow> registry \<Rightarrow> int \<Rightarrow> (pystr \<times> json) list \<Rightarrow> client \<Rightarrow> client \<times> cerr option" where
  "store_values piso reg i [] cl = (cl, None)"
| "store_values piso reg i ((path, v) # rest) cl = (case dget (cl_nodes cl) (JInt i) of
       None \<Rightarrow> (cl, Some (Python KeyError))
     | Some node \<Rightarrow> (case update_attribute piso reg path v node of
         (node', None) \<Rightarrow> store_values piso reg i rest (put_node (JInt i) node' cl)
       | (node', Some e) \<Rightarrow> (put_node (JInt i) node' cl, Some (Python e))))"

definition refresh_attribute ::
    "(pystr \<Rightarrow> pydatetime res) \<Rightarrow> registry \<Rightarrow> asker \<Rightarrow> int \<Rightarrow> pystr \<Rightarrow> client \<Rightarrow> client \<times> cerr option" where
  "refresh_attribute piso reg ask i path cl = (case read_attribute ask i (PStr path) of
       Inl e \<Rightarrow> (cl, Some e)
     | Inr r \<Rightarrow> (case data_of r of
         JObj d \<Rightarrow> store_values piso reg i d cl
       | _ \<Rightarrow> (cl, Some (Python AttributeError))))"

definition write_attribute ::
    "(pystr \<Rightarrow> descriptor option) \<Rightarrow> asker \<Rightarrow> int \<Rightarrow> pystr \<Rightarrow> pv \<Rightarrow> cerr + pv" where
  "write_attribute descr ask node path v =
     ask (u ''write_attribute'', Some 4,
       [(u ''node_id'', PInt node), (u ''attribute_path'', PStr path), (u ''value'', dataclass_to_tag_dict descr v)])"

definition remove_node :: "asker \<Rightarrow> int \<Rightarrow> cerr + unit" where
  "remove_node ask node = rbind (ask (u ''remove_node'', None, [(u ''node_id'', PInt node)])) (\<lambda>_. Inr ())"

definition interview_node :: "asker \<Rightarrow> int \<Rightarrow> cerr + unit" where
  "interview_node ask node = rbind (ask (u ''interview_node'', None, [(u ''node_id'', PInt node)])) (\<lambda>_. Inr ())"

definition check_node_update :: "(pystr \<Rightarrow> pydatetime res) \<Rightarrow> asker \<Rightarrow> int \<Rightarrow> cerr + pv option" where
  "check_node_update piso ask node =
     rbind (ask (u ''check_node_update'', Some 10, [(u ''node_id'', PInt node)])) (\<lambda>r.
       if r = PNone then Inr None
       else rbind (parse_result piso ty_MatterSoftwareVersion r) (\<lambda>v. Inr (Some v)))"

definition update_node :: "asker \<Rightarrow> int \<Rightarrow> int + pystr \<Rightarrow> cerr + unit" where
  "update_node ask node software_version =
     rbind (ask (u ''update_node'', Some 10, [(u ''node_id'', PInt node),
         (u ''software_version'', case software_version of Inl i \<Rightarrow> PInt i | Inr s \<Rightarrow> PStr s)])) (\<lambda>_. Inr ())"

text \<open>
  \<open>upload_ota_file\<close> of bytes: the ticket, then the HTTP answer \<open>post\<close> of the upload.
\<close>

definition jget_pv :: "(pystr \<times> json) list \<Rightarrow> pystr \<Rightarrow> json" where
  "jget_pv d k = (case dget d k of Some v \<Rightarrow> v | None \<Rightarrow> JNull)"

definition upload_message :: "int \<Rightarrow> (pystr \<times> json) list option \<Rightarrow> json" where
  "upload_message status body =
     (let found = (case body of
          None \<Rightarrow> JNull
        | Some [] \<Rightarrow> JNull
        | Some d \<Rightarrow> if truthy (jget_pv d (u ''message'')) then jget_pv d (u ''message'') else jget_pv d (u ''error'')) in
      if truthy found then found
      else JStr (u ''Firmware upload failed with HTTP '' @ dec_int status))"

definition upload_failure :: "(pystr \<Rightarrow> json res) \<Rightarrow> int \<Rightarrow> (pystr \<times> json) list option \<Rightarrow> cerr" where
  "upload_failure loads status body =
     (let code = (case body of None \<Rightarrow> None | Some d \<Rightarrow> int_value (jget_pv d (u ''error_code'')));
          message = raw (upload_message status body) in
      Server (case code of
          Some c \<Rightarrow> make_error loads (exception_from_error_code c) message
        | None \<Rightarrow> \<lparr>err_class = MatterError, err_message = message, err_vendors = []\<rparr>))"

definition upload_ota_file ::
    "(pystr \<Rightarrow> json res) \<Rightarrow> (pystr \<Rightarrow> pydatetime res) \<Rightarrow> asker \<Rightarrow>
     (pv \<Rightarrow> cerr + int \<times> (pystr \<times> json) list option) \<Rightarrow> cerr + pv" where
  "upload_ota_file loads piso ask post =
     rbind (ask (u ''initiate_ota_upload'', Some 13, [])) (\<lambda>r.
     rbind (parse_result piso ty_OtaUploadTicket r) (\<lambda>ticket.
     rbind (lift (pattr ticket (u ''upload_id''))) (\<lambda>upload_id.
     rbind (post upload_id) (\<lambda>(status, body).
       if status \<noteq> 200 then Inl (upload_failure loads status body)
       else case body of
         None \<Rightarrow> Inl (Client InvalidMessage)
       | Some d \<Rightarrow> lift (dataclass_from_dict piso ty_MatterSoftwareVersion (JObj d) False False)))))"

definition send_webrtc_provider_command :: "asker \<Rightarrow> int \<Rightarrow> int \<Rightarrow> pystr \<Rightarrow> (pv \<times> pv) list \<Rightarrow> cerr + pv" where
  "send_webrtc_provider_command ask node ep command_name payload =
     ask (u ''send_webrtc_provider_command'', Some 12,
       [(u ''node_id'', PInt node), (u ''endpoint_id'', PInt ep), (u ''command_name'', PStr command_name),
        (u ''payload'', PDict payload)])"

definition get_diagnostics :: "(pystr \<Rightarrow> pydatetime res) \<Rightarrow> asker \<Rightarrow> cerr + pv" where
  "get_diagnostics piso ask = rbind (ask (u ''diagnostics'', None, [])) (parse_result piso ty_ServerDiagnostics)"

end
