(* ===== verification/Matter_Diagnostics.thy ===== *)
theory Matter_Diagnostics
  imports Matter_Api
begin

text \<open>
  The methods of \<open>MatterClient\<close> that combine the node cache with commands: the fabrics and the
  addresses of a node, and \<open>node_diagnostics\<close>, which gathers both with the network data of the node
  (\<open>matter_server/client/client.py\<close>; the result classes are those of \<open>models/node.py\<close>).
\<close>

section \<open>Decoding with replacement\<close>

text \<open>
  \<open>bytes.decode("utf-8", errors="replace")\<close>: each maximal prefix of an ill-formed sequence becomes one
  U+FFFD.  \<open>second_ok a b\<close> says that \<open>b\<close> may follow the leading byte \<open>a\<close>.
\<close>

definition second_ok :: "byte \<Rightarrow> byte \<Rightarrow> bool" where
  "second_ok a b \<longleftrightarrow> is_cont b \<and>
     (unat a = 224 \<longrightarrow> 160 \<le> unat b) \<and> (unat a = 237 \<longrightarrow> unat b < 160) \<and>
     (unat a = 240 \<longrightarrow> 144 \<le> unat b) \<and> (unat a = 244 \<longrightarrow> unat b < 144)"

fun bad_prefix :: "byte list \<Rightarrow> nat" where
  "bad_prefix (a # b # c # _) =
     (if 224 \<le> unat a \<and> unat a < 240 \<and> second_ok a b then 2
      else if 240 \<le> unat a \<and> unat a < 245 \<and> second_ok a b then if is_cont c then 3 else 2
      else 1)"
| "bad_prefix [a, b] = (if 224 \<le> unat a \<and> unat a < 245 \<and> second_ok a b then 2 else 1)"
| "bad_prefix _ = 1"

lemma bad_prefix_pos: "0 < bad_prefix bs"
  by (cases bs rule: bad_prefix.cases) auto

function decode_replace :: "byte list \<Rightarrow> pystr" where
  "decode_replace bs =
     (if bs = [] then []
      else case decode_char bs of
        Some (c, rest) \<Rightarrow> c # decode_replace rest
      | None \<Rightarrow> 65533 # decode_replace (drop (bad_prefix bs) bs))"
  by pat_completeness auto
termination
  by (relation "measure length") (use bad_prefix_pos in \<open>auto dest: decode_char_shorter\<close>)

declare decode_replace.simps [simp del]

section \<open>Fabrics\<close>

record fabric_data =
  fabric_id :: pv
  fabric_vendor_id :: pv
  fabric_index :: pv
  fabric_label :: pv
  fabric_vendor_name :: json

definition fabrics_attribute :: "int \<times> int" where "fabrics_attribute = (62, 1)"
definition current_fabric_attribute :: "int \<times> int" where "current_fabric_attribute = (62, 5)"
definition interfaces_attribute :: "int \<times> int" where "interfaces_attribute = (51, 0)"
definition last_network_attribute :: "int \<times> int" where "last_network_attribute = (49, 6)"
definition networks_attribute :: "int \<times> int" where "networks_attribute = (49, 1)"
definition thread_diagnostics_id :: int where "thread_diagnostics_id = 53"

definition root_value :: "matter_node \<Rightarrow> int \<times> int \<Rightarrow> pv res" where
  "root_value node attr = node_get_attribute_value node 0 None (AttrClass (fst attr) (snd attr))"

definition fabric_of :: "(json \<Rightarrow> pystr) \<Rightarrow> json \<Rightarrow> pv \<Rightarrow> fabric_data res" where
  "fabric_of other vendors f =
     rbind (pattr f (u ''fabricID'')) (\<lambda>fid.
     rbind (pattr f (u ''vendorID'')) (\<lambda>vid.
     rbind (pattr f (u ''fabricIndex'')) (\<lambda>idx.
     rbind (pattr f (u ''label'')) (\<lambda>label.
     rbind (jget vendors (text_of other (data_of vid))) (\<lambda>name.
       Inr \<lparr>fabric_id = fid, fabric_vendor_id = vid, fabric_index = idx,
            fabric_label = if ptruthy label then label else PNone,
            fabric_vendor_name = case name of None \<Rightarrow> JNull | Some v \<Rightarrow> v\<rparr>)))))"

text \<open>The fabrics of an available node are read again first.\<close>

definition refresh_fabrics ::
    "(pystr \<Rightarrow> pydatetime res) \<Rightarrow> registry \<Rightarrow> asker \<Rightarrow> int \<Rightarrow> client \<Rightarrow> client \<times> cerr option" where
  "refresh_fabrics piso reg ask i cl = (case rbind (get_node cl i) (\<lambda>node. lift (node_available node)) of
       Inl e \<Rightarrow> (cl, Some e)
     | Inr available \<Rightarrow>
         if ptruthy available
         then refresh_attribute piso reg ask i (create_attribute_path_from_attribute 0 fabrics_attribute) cl
         else (cl, None))"

definition get_matter_fabrics ::
    "(json \<Rightarrow> pystr) \<Rightarrow> (pystr \<Rightarrow> pydatetime res) \<Rightarrow> registry \<Rightarrow> asker \<Rightarrow> int \<Rightarrow> client
       \<Rightarrow> client \<times> (cerr + fabric_data list)" where
  "get_matter_fabrics other piso reg ask i cl = (case refresh_fabrics piso reg ask i cl of
       (cl1, Some e) \<Rightarrow> (cl1, Inl e)
     | (cl1, None) \<Rightarrow> (cl1,
         rbind (get_node cl1 i) (\<lambda>node.
         rbind (lift (rbind (root_value node fabrics_attribute) piter)) (\<lambda>fabrics.
         rbind (lift (rmap (\<lambda>f. pattr f (u ''vendorID'')) fabrics)) (\<lambda>vids.
         rbind (ask (u ''get_vendor_names'', Some 3, [(u ''filter_vendors'', PList vids)])) (\<lambda>vendors.
           lift (rmap (fabric_of other (data_of vendors)) fabrics)))))))"

section \<open>Addresses\<close>

text \<open>A value of a byte string attribute as the conversion functions take it.\<close>

definition wire_bytes :: "pv \<Rightarrow> (pystr + byte list) res" where
  "wire_bytes v = (case v of PBytes bs \<Rightarrow> Inr (Inr bs) | PStr s \<Rightarrow> Inr (Inl s) | _ \<Rightarrow> Inl TypeError)"

definition ip_text :: "(byte list \<Rightarrow> pystr) \<Rightarrow> bool \<Rightarrow> pv \<Rightarrow> pv res" where
  "ip_text ntop6 ipv6 v = rbind (wire_bytes v) (\<lambda>w. rbind (convert_ip_address ntop6 w ipv6) (\<lambda>s. Inr (PStr s)))"

text \<open>The addresses of the first operational interface.\<close>

fun interface_addresses :: "(byte list \<Rightarrow> pystr) \<Rightarrow> pv list \<Rightarrow> pv list res" where
  "interface_addresses ntop6 [] = Inr []"
| "interface_addresses ntop6 (iface # ifaces) =
     rbind (pattr iface (u ''isOperational'')) (\<lambda>op.
     if \<not> ptruthy op then interface_addresses ntop6 ifaces
     else rbind (rbind (pattr iface (u ''IPv4Addresses'')) piter) (\<lambda>v4.
          rbind (rmap (ip_text ntop6 False) v4) (\<lambda>ips4.
          rbind (rbind (pattr iface (u ''IPv6Addresses'')) piter) (\<lambda>v6.
          rbind (rmap (ip_text ntop6 True) v6) (\<lambda>ips6. Inr (ips4 @ ips6))))))"

definition get_node_ip_addresses ::
    "(byte list \<Rightarrow> pystr) \<Rightarrow> asker \<Rightarrow> int \<Rightarrow> bool \<Rightarrow> bool \<Rightarrow> client \<Rightarrow> cerr + pv" where
  "get_node_ip_addresses ntop6 ask i prefer_cache scoped cl =
     rbind (lift (case cn_info (cl_conn cl) of
         None \<Rightarrow> Inl AttributeError | Some info \<Rightarrow> info_int info (u ''schema_version''))) (\<lambda>server.
     if 8 \<le> server then
       ask (u ''get_node_ip_addresses'', Some 8,
         [(u ''node_id'', PInt i), (u ''prefer_cache'', PBool prefer_cache), (u ''scoped'', PBool scoped)])
     else rbind (get_node cl i) (\<lambda>node.
       lift (rbind (rbind (root_value node interfaces_attribute) piter) (\<lambda>ifaces.
         rbind (interface_addresses ntop6 ifaces) (\<lambda>ips. Inr (PList ips))))))"

section \<open>Diagnostics\<close>

datatype node_type = EndDevice | SleepyEndDevice | RoutingEndDevice | Bridge | UnknownType

datatype network_type = Thread | Wifi | Ethernet | UnknownNetwork

record node_diagnostics =
  nd_node_id :: int
  nd_network_type :: network_type
  nd_node_type :: node_type
  nd_network_name :: pv
  nd_ip_adresses :: pv
  nd_mac_address :: "pystr option"
  nd_available :: pv
  nd_active_fabrics :: "fabric_data list"
  nd_active_fabric_index :: pv

definition ip_addresses :: "node_diagnostics \<Rightarrow> pv" where
  "ip_addresses d = nd_ip_adresses d"

text \<open>The number of an enum member, or of a raw value outside the enum.\<close>

definition enum_number :: "pv \<Rightarrow> int option" where
  "enum_number v = (case v of PEnum _ (JInt i) \<Rightarrow> Some i | PInt i \<Rightarrow> Some i
     | PBool b \<Rightarrow> Some (if b then 1 else 0) | _ \<Rightarrow> None)"

definition interface_type :: "pv \<Rightarrow> network_type" where
  "interface_type v = (case enum_number v of
       None \<Rightarrow> UnknownNetwork
     | Some n \<Rightarrow> if n = 4 then Thread else if n = 1 then Wifi else if n = 2 then Ethernet else UnknownNetwork)"

fun pick_interface :: "pv list \<Rightarrow> (network_type \<times> pystr option) res" where
  "pick_interface [] = Inr (UnknownNetwork, None)"
| "pick_interface (iface # ifaces) =
     rbind (pattr iface (u ''isOperational'')) (\<lambda>op.
     if \<not> ptruthy op then pick_interface ifaces
     else rbind (pattr iface (u ''type'')) (\<lambda>ty.
       if interface_type ty = UnknownNetwork then pick_interface ifaces
       else rbind (rbind (pattr iface (u ''hardwareAddress'')) wire_bytes) (\<lambda>w.
            rbind (convert_mac_address w) (\<lambda>mac. Inr (interface_type ty, Some mac)))))"

definition network_text :: "pv \<Rightarrow> pv" where
  "network_text v = (case v of PBytes bs \<Rightarrow> PStr (decode_replace bs) | PNull \<Rightarrow> PNone | _ \<Rightarrow> v)"

definition routing_type :: "pv \<Rightarrow> node_type" where
  "routing_type v = (case enum_number v of
       None \<Rightarrow> UnknownType
     | Some n \<Rightarrow> if n = 2 then SleepyEndDevice else if n = 6 \<or> n = 5 then RoutingEndDevice
                 else if n = 3 \<or> n = 4 then EndDevice else UnknownType)"

definition thread_info :: "matter_node \<Rightarrow> (pv \<times> node_type) res" where
  "thread_info node = rbind (node_get_cluster node 0 thread_diagnostics_id) (\<lambda>c. case c of
       None \<Rightarrow> Inr (PNone, UnknownType)
     | Some cluster \<Rightarrow> rbind (co_attr cluster (u ''networkName'')) (\<lambda>name.
         rbind (co_attr cluster (u ''routingRole'')) (\<lambda>role. Inr (network_text name, routing_type role))))"

definition network_info :: "matter_node \<Rightarrow> network_type \<Rightarrow> (pv \<times> node_type) res" where
  "network_info node ty = (case ty of
       Thread \<Rightarrow> thread_info node
     | Wifi \<Rightarrow> Inr (PNone, EndDevice)
     | _ \<Rightarrow> Inr (PNone, UnknownType))"

text \<open>The first fallback for the name: \<open>LastNetworkID\<close>.\<close>

definition last_network_name :: "matter_node \<Rightarrow> pv \<Rightarrow> pv res" where
  "last_network_name node name =
     (if ptruthy name then Inr name
      else rbind (root_value node last_network_attribute) (\<lambda>v.
        Inr (if \<not> ptruthy v then name else case v of PNull \<Rightarrow> name | _ \<Rightarrow> network_text v)))"

text \<open>The last one: the first connected network with an id.\<close>

fun connected_network :: "pv list \<Rightarrow> pv \<Rightarrow> pv res" where
  "connected_network [] name = Inr name"
| "connected_network (n # ns) name =
     rbind (pattr n (u ''connected'')) (\<lambda>c.
     if \<not> ptruthy c then connected_network ns name
     else rbind (pattr n (u ''networkID'')) (\<lambda>v.
       if v = PNull then connected_network ns name else Inr (network_text v)))"

definition listed_network_name :: "matter_node \<Rightarrow> pv \<Rightarrow> pv res" where
  "listed_network_name node name =
     (if ptruthy name then Inr name
      else rbind (root_value node networks_attribute) (\<lambda>v.
        if \<not> ptruthy v then Inr name else rbind (piter v) (\<lambda>ns. connected_network ns name)))"

definition network_part :: "matter_node \<Rightarrow> (network_type \<times> pystr option \<times> node_type \<times> pv) res" where
  "network_part node =
     rbind (root_value node interfaces_attribute) (\<lambda>v.
     rbind (if ptruthy v then piter v else Inr []) (\<lambda>ifaces.
     rbind (pick_interface ifaces) (\<lambda>(ty, mac).
     rbind (network_info node ty) (\<lambda>(name0, kind).
     rbind (last_network_name node name0) (\<lambda>name1.
     rbind (listed_network_name node name1) (\<lambda>name.
     rbind (is_bridge_device node) (\<lambda>bridge.
       Inr (ty, mac, if ptruthy bridge then Bridge else kind, name))))))))"

definition gather_diagnostics ::
    "(json \<Rightarrow> pystr) \<Rightarrow> (byte list \<Rightarrow> pystr) \<Rightarrow> (pystr \<Rightarrow> pydatetime res) \<Rightarrow> registry \<Rightarrow> asker \<Rightarrow> int \<Rightarrow> client
       \<Rightarrow> client \<times> (cerr + node_diagnostics)" where
  "gather_diagnostics other ntop6 piso reg ask i cl =
     (case rbind (get_node cl i) (\<lambda>node.
           rbind (get_node_ip_addresses ntop6 ask i True False cl) (\<lambda>ips.
           rbind (lift (network_part node)) (\<lambda>part. Inr (ips, part)))) of
        Inl e \<Rightarrow> (cl, Inl e)
      | Inr (ips, ty, mac, kind, name) \<Rightarrow>
          (case get_matter_fabrics other piso reg ask i cl of (cl1, fabrics) \<Rightarrow> (cl1,
             rbind fabrics (\<lambda>fs.
             rbind (get_node cl1 i) (\<lambda>node.
             rbind (lift (root_value node current_fabric_attribute)) (\<lambda>idx.
             rbind (lift (node_available node)) (\<lambda>available.
               Inr \<lparr>nd_node_id = i, nd_network_type = ty, nd_node_type = kind, nd_network_name = name,
                    nd_ip_adresses = ips, nd_mac_address = mac, nd_available = available,
                    nd_active_fabrics = fs, nd_active_fabric_index = idx\<rparr>)))))))"

end
