(* ===== verification/Matter_Client_Facts.thy ===== *)
theory Matter_Client_Facts
  imports Matter_Diagnostics "HOL-Library.Multiset"
begin

text \<open>
  What holds of the client's message loop: the invariant of its state over every interleaving of
  commands, messages and subscriptions, that the schema version gates commands, and which pending
  commands a message leaves alone.
\<close>

section \<open>Events of the client\<close>

datatype client_event =
    EvConnect bool ws_msg
  | EvStart pystr "cerr option" ws_msg
  | EvSend pystr request "cerr option"
  | EvSendNoWait pystr request "cerr option"
  | EvFinish pystr
  | EvCancel pystr
  | EvReceive ws_msg
  | EvDisconnect
  | EvSubscribe nat filters
  | EvUnsubscribe nat filters
  | EvClosed
  | EvStore int "(pystr \<times> json) list"

fun client_step ::
    "(pystr \<Rightarrow> json res) \<Rightarrow> (json \<Rightarrow> pystr) \<Rightarrow> (pystr \<Rightarrow> pydatetime res) \<Rightarrow> registry \<Rightarrow> client_event \<Rightarrow> client \<Rightarrow> client"
where
  "client_step loads other piso reg (EvConnect opened first) cl = fst (client_connect loads piso opened first cl)"
| "client_step loads other piso reg (EvStart mid failure answer) cl =
     fst (start_listening loads piso reg mid failure answer cl)"
| "client_step loads other piso reg (EvSend mid req failure) cl = fst (send_start mid req failure cl)"
| "client_step loads other piso reg (EvSendNoWait mid req failure) cl = fst (send_command_no_wait mid req failure cl)"
| "client_step loads other piso reg (EvFinish mid) cl = (case send_finish mid cl of None \<Rightarrow> cl | Some (cl', _) \<Rightarrow> cl')"
| "client_step loads other piso reg (EvCancel mid) cl = cancel_call mid cl"
| "client_step loads other piso reg (EvReceive ws) cl = fst (listen_step loads other piso reg ws cl)"
| "client_step loads other piso reg EvDisconnect cl = client_disconnect cl"
| "client_step loads other piso reg (EvSubscribe cb f) cl = subscribe_events cb f cl"
| "client_step loads other piso reg (EvUnsubscribe cb f) cl = fst (unsubscribe cb f cl)"
| "client_step loads other piso reg EvClosed cl =
     cl\<lparr>cl_conn := (cl_conn cl)\<lparr>cn_ws := map_option (\<lambda>_. False) (cn_ws (cl_conn cl))\<rparr>\<rparr>"
| "client_step loads other piso reg (EvStore i vs) cl = fst (store_values piso reg i vs cl)"

section \<open>The invariant\<close>

text \<open>
  A property of cached nodes and the keys they are stored under, which everything the client does to
  its cache keeps.  Two are wanted: that the node's own cache is consistent, and that the key is the
  id in the node's data.
\<close>

definition own_key :: "pv \<Rightarrow> json res" where
  "own_key data = rbind (pattr data (u ''node_id'')) node_key"

locale cache_property =
  fixes piso :: "pystr \<Rightarrow> pydatetime res" and reg :: registry and good :: "json \<Rightarrow> matter_node \<Rightarrow> bool"
  assumes new_good: "new_node piso reg nd = Inr node \<Longrightarrow> own_key nd = Inr k \<Longrightarrow> good k node"
    and update_good:
      "good k node \<Longrightarrow> node_update piso reg nd node = (node', err) \<Longrightarrow> own_key nd = Inr k \<Longrightarrow> good k node'"
    and attribute_good: "good k node \<Longrightarrow> update_attribute piso reg path v node = (node', err') \<Longrightarrow> good k node'"
    and pop_good: "good k node \<Longrightarrow> good k (pop_endpoint e node)"

definition tables_ok :: "(json \<Rightarrow> matter_node \<Rightarrow> bool) \<Rightarrow> client \<Rightarrow> bool" where
  "tables_ok good cl \<longleftrightarrow> dict_ok (cl_futures cl) \<and> dict_ok (cl_subs cl) \<and> dict_ok (cl_nodes cl) \<and>
     (\<forall>(k, node) \<in> set (cl_nodes cl). good k node)"

named_theorems keeps_ok

lemma tables_put [keeps_ok]: "tables_ok good cl \<Longrightarrow> good k node \<Longrightarrow> tables_ok good (put_node k node cl)"
  by (auto simp: tables_ok_def put_node_def dest!: dput_in)

lemma tables_get: "tables_ok good cl \<Longrightarrow> dget (cl_nodes cl) k = Some node \<Longrightarrow> good k node"
  by (auto simp: tables_ok_def dest!: dget_in_set)

lemma tables_signal [simp]: "tables_ok good (signal_event other evt data node attr cl) \<longleftrightarrow> tables_ok good cl"
  by (simp add: tables_ok_def signal_event_def Let_def)

lemma signal_nodes [simp]: "cl_nodes (signal_event other evt data node attr cl) = cl_nodes cl"
  by (simp add: signal_event_def Let_def)

lemma signal_futures [simp]: "cl_futures (signal_event other evt data node attr cl) = cl_futures cl"
  by (simp add: signal_event_def Let_def)

lemma put_node_futures [simp]: "cl_futures (put_node k node cl) = cl_futures cl"
  by (simp add: put_node_def)

lemma tables_pop_node [keeps_ok]: "tables_ok good cl \<Longrightarrow> tables_ok good (cl\<lparr>cl_nodes := dpop k (cl_nodes cl)\<rparr>)"
  by (auto simp: tables_ok_def dest!: dpop_in)

lemma tables_futures [keeps_ok]: "tables_ok good cl \<Longrightarrow> dict_ok fs \<Longrightarrow> tables_ok good (cl\<lparr>cl_futures := fs\<rparr>)"
  by (simp add: tables_ok_def)

lemma tables_futuresD [keeps_ok]: "tables_ok good cl \<Longrightarrow> dict_ok (cl_futures cl)"
  by (simp add: tables_ok_def)

lemma tables_settle: "tables_ok good cl \<Longrightarrow> settle mid f cl = (cl', err) \<Longrightarrow> tables_ok good cl'"
  by (auto simp: settle_def split: option.splits future.splits intro!: keeps_ok dict_ok_dput)

lemma tables_disconnect [keeps_ok]: "tables_ok good cl \<Longrightarrow> tables_ok good (client_disconnect cl)"
proof -
  assume ok: "tables_ok good cl"
  have "map fst (map (\<lambda>(m, f). (m, cancel_future f)) (cl_futures cl)) = map fst (cl_futures cl)" by auto
  then have "dict_ok (map (\<lambda>(m, f). (m, cancel_future f)) (cl_futures cl))"
    using ok unfolding tables_ok_def dict_ok_def by metis
  with ok show ?thesis by (simp add: tables_ok_def client_disconnect_def)
qed

lemma tables_send: "tables_ok good cl \<Longrightarrow> send_message msg failure cl = (cl', err) \<Longrightarrow> tables_ok good cl'"
  by (auto simp: send_message_def tables_ok_def split: if_splits option.splits)

lemma tables_end: "tables_ok good cl \<Longrightarrow> tables_ok good (fst (end_listening cl e))"
  by (simp add: end_listening_def tables_disconnect)

lemma tables_connect: "tables_ok good cl \<Longrightarrow> tables_ok good (fst (client_connect loads piso opened first cl))"
  by (auto simp: client_connect_def tables_ok_def Let_def split: if_splits prod.splits)

lemma tables_send_start: "tables_ok good cl \<Longrightarrow> send_start mid req failure cl = (cl', err) \<Longrightarrow> tables_ok good cl'"
  using tables_send [of good "cl\<lparr>cl_futures := dput mid Pending (cl_futures cl)\<rparr>"]
  by (auto simp: send_start_def tables_ok_def split: if_splits sum.splits)

lemma tables_on_node_removed:
  "tables_ok good cl \<Longrightarrow> on_node_removed other data cl = (cl', err) \<Longrightarrow> tables_ok good cl'"
  using tables_pop_node [of good "signal_event other (u ''node_removed'') (PlainData data) (data_of data) None cl"]
  by (auto simp: on_node_removed_def Let_def split: sum.splits intro: keeps_ok)

context cache_property
begin

lemma put_updated:
  "tables_ok good cl \<Longrightarrow> dget (cl_nodes cl) k = Some node \<Longrightarrow> node_update piso reg nd node = (node', err) \<Longrightarrow>
     own_key nd = Inr k \<Longrightarrow> tables_ok good (put_node k node' cl)"
  using tables_put tables_get update_good by blast

lemma put_new: "tables_ok good cl \<Longrightarrow> new_node piso reg nd = Inr node \<Longrightarrow> own_key nd = Inr k \<Longrightarrow>
     tables_ok good (put_node k node cl)"
  using tables_put new_good by blast

lemma put_attribute:
  "tables_ok good cl \<Longrightarrow> dget (cl_nodes cl) k = Some node \<Longrightarrow> update_attribute piso reg path v node = (node', err') \<Longrightarrow>
     tables_ok good (put_node k node' cl)"
  using tables_put tables_get attribute_good by blast

lemma put_popped:
  "tables_ok good cl \<Longrightarrow> dget (cl_nodes cl) k = Some node \<Longrightarrow> tables_ok good (put_node k (pop_endpoint e node) cl)"
  using tables_put tables_get pop_good by blast

lemma on_node_keeps: "tables_ok good cl \<Longrightarrow> on_node other piso reg data cl = (cl', err) \<Longrightarrow> tables_ok good cl'"
proof -
  assume ok: "tables_ok good cl" and on: "on_node other piso reg data cl = (cl', err)"
  let ?parsed = "rbind (dataclass_from_dict piso ty_MatterNodeData (data_of data) False False) (\<lambda>nd.
     rbind (pattr nd (u ''node_id'')) (\<lambda>i. rbind (node_key i) (\<lambda>k. Inr (nd, data_of i, k))))"
  show ?thesis
  proof (cases ?parsed)
    case (Inl e)
    with ok on show ?thesis by (simp add: on_node_def)
  next
    case (Inr t)
    obtain nd i k where t: "t = (nd, i, k)" by (cases t)
    have "own_key nd = Inr k" using Inr by (auto simp: t own_key_def rbind_eq_Inr)
    with ok on Inr put_new [OF ok _ this] put_updated [OF ok _ _ this] show ?thesis
      by (auto simp: on_node_def t split: sum.splits option.splits prod.splits)
  qed
qed

lemma on_endpoint_removed_keeps:
  "tables_ok good cl \<Longrightarrow> on_endpoint_removed other data cl = (cl', err) \<Longrightarrow> tables_ok good cl'"
  by (auto simp: on_endpoint_removed_def Let_def simp del: u_simps split: sum.splits option.splits intro!: put_popped)

lemma on_attribute_updated_keeps:
  "tables_ok good cl \<Longrightarrow> on_attribute_updated other piso reg data cl = (cl', err) \<Longrightarrow> tables_ok good cl'"
  by (auto simp: on_attribute_updated_def split: sum.splits option.splits list.splits json.splits prod.splits
      intro: put_attribute)

lemma event_keeps:
  "tables_ok good cl \<Longrightarrow> handle_event_message other piso reg ev data cl = (cl', err) \<Longrightarrow> tables_ok good cl'"
  by (auto simp: handle_event_message_def on_node_event_def on_topology_def forward_event_def
      split: if_splits sum.splits pv.splits json.splits
      intro: keeps_ok dest: on_node_keeps tables_on_node_removed on_endpoint_removed_keeps on_attribute_updated_keeps)

lemma incoming_keeps:
  "tables_ok good cl \<Longrightarrow> handle_incoming_message loads other piso reg msg cl = (cl', err) \<Longrightarrow> tables_ok good cl'"
  by (auto simp: handle_incoming_message_def Let_def split: pv.splits if_splits option.splits sum.splits
      dest: tables_settle event_keeps simp del: u_simps)

lemma dump_nodes_good:
  assumes "dump_nodes piso reg msg = Inr nodes"
  shows "dict_ok nodes \<and> (\<forall>(k, node) \<in> set nodes. good k node)"
proof -
  from assms obtain xs kns where k: "rmap (dump_node piso reg) xs = Inr kns" "nodes = fold (\<lambda>(k, n). dput k n) kns []"
    by (auto simp: dump_nodes_def rbind_eq_Inr)
  from rmap_InrD [OF k(1)] have kns: "\<forall>(k, node) \<in> set kns. good k node"
    by (induction rule: list_all2_induct) (auto simp: dump_node_def rbind_eq_Inr own_key_def intro: new_good)
  with fold_dput_set [of _ kns "[]"] have "\<forall>(k, node) \<in> set nodes. good k node" by (auto simp: k(2))
  moreover have "dict_ok nodes" unfolding k(2) by (rule pydict.ok_puts) simp
  ultimately show ?thesis by blast
qed

lemma start_listening_keeps:
  "tables_ok good cl \<Longrightarrow> tables_ok good (fst (start_listening loads piso reg mid failure answer cl))"
proof -
  assume ok: "tables_ok good cl"
  obtain cl1 err1 where s: "send_message (start_message mid) failure cl = (cl1, err1)" by force
  with ok have cl1: "tables_ok good cl1" by (rule tables_send)
  have n: "tables_ok good (cl1\<lparr>cl_nodes := nodes\<rparr>)" if "dump_nodes piso reg msg = Inr nodes" for msg nodes
    using cl1 dump_nodes_good [OF that] by (simp add: tables_ok_def)
  show ?thesis
    by (cases err1)
      (auto simp: start_listening_def s tables_end [OF cl1] n split: sum.split)
qed

lemma listen_keeps: "tables_ok good cl \<Longrightarrow> tables_ok good (fst (listen_step loads other piso reg ws cl))"
proof -
  assume ok: "tables_ok good cl"
  show ?thesis
  proof (cases "receive_message_or_raise loads piso ws")
    case (Inl e)
    with tables_end [OF ok] tables_disconnect [OF ok] show ?thesis
      by (simp add: listen_step_def split: prod.split) (metis fst_conv)
  next
    case (Inr msg)
    obtain cl1 err where h: "handle_incoming_message loads other piso reg msg cl = (cl1, err)" by force
    from incoming_keeps [OF ok h] have "tables_ok good (fst (end_listening cl1 e))" "tables_ok good cl1" for e
      by (simp_all add: tables_end)
    with tables_disconnect [OF ok] Inr h show ?thesis
      by (cases err) (simp_all add: listen_step_def end_listening_def)
  qed
qed

lemma store_keeps: "tables_ok good cl \<Longrightarrow> tables_ok good (fst (store_values piso reg i vs cl))"
proof (induction vs arbitrary: cl)
  case (Cons pv vs)
  then show ?case by (cases pv) (auto split: option.splits prod.splits dest: put_attribute)
qed simp

lemma step_keeps: "tables_ok good cl \<Longrightarrow> tables_ok good (client_step loads other piso reg e cl)"
proof (cases e)
  case (EvFinish mid)
  then show "tables_ok good cl \<Longrightarrow> ?thesis"
    by (auto simp: send_finish_def tables_ok_def split: option.splits future.splits)
next
  case (EvSendNoWait mid req failure)
  then show "tables_ok good cl \<Longrightarrow> ?thesis"
    by (auto simp: send_command_no_wait_def send_message_def tables_ok_def split: sum.split option.split)
next
  case (EvUnsubscribe cb f)
  then show "tables_ok good cl \<Longrightarrow> ?thesis" by (auto simp: unsubscribe_def tables_ok_def split: option.split)
next
  case (EvCancel mid)
  then show "tables_ok good cl \<Longrightarrow> ?thesis" by (auto simp: cancel_call_def tables_ok_def split: option.split)
next
  case (EvSubscribe cb f)
  then show "tables_ok good cl \<Longrightarrow> ?thesis" by (auto simp: subscribe_events_def tables_ok_def Let_def)
next
  case EvClosed
  then show "tables_ok good cl \<Longrightarrow> ?thesis" by (simp add: tables_ok_def)
qed (auto simp: tables_disconnect intro: listen_keeps tables_connect start_listening_keeps
    tables_send_start [OF _ surjective_pairing] store_keeps)

end

text \<open>The two properties.\<close>

definition stored_under :: "json \<Rightarrow> matter_node \<Rightarrow> bool" where
  "stored_under k node \<longleftrightarrow> own_key (mn_data node) = Inr k"

lemma new_node_ok: "new_node piso reg nd = Inr node \<Longrightarrow> node_ok reg node"
  using node_update_ok(1) [OF empty_node_ok]
  by (auto simp: new_node_def empty_node_def split: prod.splits option.splits)

lemma pop_endpoint_ok: "node_ok reg node \<Longrightarrow> node_ok reg (pop_endpoint k node)"
  by (cases k) (auto simp: pop_endpoint_def node_ok_def endpoints_ok_def dest!: dpop_in)

interpretation node_caches: cache_property piso reg "\<lambda>_. node_ok reg" for piso reg
  by unfold_locales (auto intro: new_node_ok node_update_ok(1) update_attribute_ok pop_endpoint_ok)

lemma update_attribute_data: "update_attribute piso reg path v node = (node', err) \<Longrightarrow> mn_data node' = mn_data node"
  by (auto simp: update_attribute_def split: sum.splits option.splits prod.splits)

lemma pop_endpoint_data [simp]: "mn_data (pop_endpoint k node) = mn_data node"
  by (simp add: pop_endpoint_def split: json.split)

lemma node_update_data: "node_update piso reg nd node = (node', err) \<Longrightarrow> mn_data node' = nd"
  by (auto simp: node_update_def Let_def split: sum.splits prod.splits option.splits)

lemma new_node_data: "new_node piso reg nd = Inr node \<Longrightarrow> mn_data node = nd"
  by (auto simp: new_node_def split: prod.splits option.splits dest: node_update_data)

interpretation node_keys: cache_property piso reg stored_under for piso reg
  by unfold_locales
    (auto simp: stored_under_def dest: new_node_data node_update_data update_attribute_data)

definition client_ok :: "registry \<Rightarrow> client \<Rightarrow> bool" where
  "client_ok reg cl \<longleftrightarrow> dict_ok (cl_futures cl) \<and> dict_ok (cl_subs cl) \<and> dict_ok (cl_nodes cl) \<and>
     (\<forall>(k, node) \<in> set (cl_nodes cl). node_ok reg node)"

lemma client_ok_tables: "client_ok reg = tables_ok (\<lambda>_. node_ok reg)"
  by (rule ext) (simp add: client_ok_def tables_ok_def)

lemma client_step_ok: "client_ok reg cl \<Longrightarrow> client_ok reg (client_step loads other piso reg e cl)"
  unfolding client_ok_tables by (rule node_caches.step_keeps)

lemma client_ok_futuresD: "client_ok reg cl \<Longrightarrow> dict_ok (cl_futures cl)"
  by (simp add: client_ok_def)

lemma send_start_ok: "client_ok reg cl \<Longrightarrow> send_start mid req failure cl = (cl', err) \<Longrightarrow> client_ok reg cl'"
  unfolding client_ok_tables by (rule tables_send_start)

interpretation matter_client: invariant_system "client_step loads other piso reg" "client_ok reg"
  for loads other piso reg
  by unfold_locales (rule client_step_ok)

lemma new_client_ok: "client_ok reg new_client"
  by (simp add: client_ok_def new_client_def)

section \<open>The schema version gates commands\<close>

text \<open>C26: A command that needs a newer schema than the server has is refused with ServerVersionTooOld before anything is written or stored.\<close>

theorem schema_gate:
  assumes "cl_loop cl" "connected (cl_conn cl)" "cn_info (cl_conn cl) = Some info"
    and "info_int info (u ''schema_version'') = Inr server"
  shows "send_start mid (command, Some required, args) failure cl =
      (if server < required then (cl, Some (Client ServerVersionTooOld))
       else send_message (command_message mid command args) failure
         (cl\<lparr>cl_futures := dput mid Pending (cl_futures cl)\<rparr>))"
  using assms by (simp add: send_start_def prepare_message_def del: u_simps)

section \<open>An answer reaches its command\<close>

lemma settle_other:
  "mid' \<noteq> mid \<Longrightarrow> dget (cl_futures (fst (settle mid f cl))) mid' = dget (cl_futures cl) mid'"
  by (auto simp: settle_def dget_dput split: option.split future.split)

lemma store_futures [simp]: "cl_futures (fst (store_values piso reg i vs cl)) = cl_futures cl"
proof (induction vs arbitrary: cl)
  case (Cons pv vs)
  then show ?case by (cases pv) (auto split: option.split prod.split)
qed simp

lemma handler_futures:
  "cl_futures (fst (on_node other piso reg data cl)) = cl_futures cl"
  "cl_futures (fst (on_node_removed other data cl)) = cl_futures cl"
  "cl_futures (fst (on_endpoint_removed other data cl)) = cl_futures cl"
  "cl_futures (fst (on_attribute_updated other piso reg data cl)) = cl_futures cl"
  "cl_futures (fst (on_node_event other piso data cl)) = cl_futures cl"
  "cl_futures (fst (on_topology other piso data cl)) = cl_futures cl"
  "cl_futures (forward_event other ev data cl) = cl_futures cl"
  by (simp add: on_node_def split: sum.split option.split prod.split)
    (simp add: on_node_removed_def Let_def split: sum.split,
     simp add: on_endpoint_removed_def Let_def split: sum.split option.split prod.split,
     simp add: on_attribute_updated_def split: sum.split option.split prod.split list.split json.split,
     simp add: on_node_event_def split: sum.split prod.split,
     simp add: on_topology_def split: sum.split,
     simp add: forward_event_def split: pv.split json.split)

lemma event_futures: "cl_futures (fst (handle_event_message other piso reg ev data cl)) = cl_futures cl"
  by (simp add: handle_event_message_def handler_futures split: sum.split)

text \<open>A result message for another command, or no result message at all.\<close>

definition not_answer :: "pystr \<Rightarrow> pv \<Rightarrow> bool" where
  "not_answer mid msg \<longleftrightarrow> message_id msg \<noteq> Some mid"

lemma incoming_other:
  "not_answer mid msg \<Longrightarrow>
     dget (cl_futures (fst (handle_incoming_message loads other piso reg msg cl))) mid = dget (cl_futures cl) mid"
  using event_futures
  by (auto simp: handle_incoming_message_def not_answer_def Let_def settle_other simp del: u_simps
      split: pv.split option.split sum.split)

section \<open>Futures and the answers that settled them\<close>

text \<open>A message that answers the command \<open>mid\<close>, and with what.\<close>

definition answers :: "(pystr \<Rightarrow> json res) \<Rightarrow> pv \<Rightarrow> pystr \<Rightarrow> future \<Rightarrow> bool" where
  "answers loads msg mid f \<longleftrightarrow> message_id msg = Some mid \<and> (\<exists>c fs. msg = PInst c fs \<and>
     (c = u ''SuccessResultMessage'' \<and> f = Result (case pattr msg (u ''result'') of Inr v \<Rightarrow> v | _ \<Rightarrow> PNone) \<or>
      c = u ''ErrorResultMessage'' \<and> f = Failed (make_error loads
        (case rbind (pattr msg (u ''error_code'')) pv_int of Inr i \<Rightarrow> exception_from_error_code i | _ \<Rightarrow> MatterError)
        (case pattr msg (u ''details'') of Inr v \<Rightarrow> v | _ \<Rightarrow> PNone))))"

text \<open>
  What the events so far say about the future of \<open>mid\<close>: a pending or cancelled one belongs to a
  command that was sent; a settled one was settled by a message that names it, which arrived while it
  was pending.
\<close>

definition traced ::
    "(pystr \<Rightarrow> json res) \<Rightarrow> (json \<Rightarrow> pystr) \<Rightarrow> (pystr \<Rightarrow> pydatetime res) \<Rightarrow> registry \<Rightarrow> client_event list
       \<Rightarrow> pystr \<Rightarrow> future \<Rightarrow> bool" where
  "traced loads other piso reg es mid f \<longleftrightarrow> (\<exists>req failure. EvSend mid req failure \<in> set es) \<and>
     (f = Pending \<or> f = WasCancelled \<or>
      (\<exists>es1 ws es2 msg. es = es1 @ EvReceive ws # es2 \<and>
         dget (cl_futures (fold (client_step loads other piso reg) es1 new_client)) mid = Some Pending \<and>
         receive_message_or_raise loads piso ws = Inr msg \<and> answers loads msg mid f))"

lemma dget_cancelled:
  "dget (map (\<lambda>(m, f). (m, cancel_future f)) d) mid = map_option cancel_future (dget d mid)"
  by (induction d) (auto simp: dget_def)

lemma cancel_future_cases: "cancel_future f = f \<or> f = Pending \<and> cancel_future f = WasCancelled"
  by (cases f) (simp_all add: cancel_future_def)

lemma disconnect_future:
  "dget (cl_futures (client_disconnect cl)) mid = Some f \<Longrightarrow>
     dget (cl_futures cl) mid = Some f \<or> dget (cl_futures cl) mid = Some Pending \<and> f = WasCancelled"
proof -
  assume "dget (cl_futures (client_disconnect cl)) mid = Some f"
  then obtain g where "dget (cl_futures cl) mid = Some g" "f = cancel_future g"
    by (auto simp: client_disconnect_def dget_cancelled)
  with cancel_future_cases [of g] show ?thesis by auto
qed

lemma settle_future:
  "dget (cl_futures (fst (settle m g cl))) mid = Some f \<Longrightarrow>
     dget (cl_futures cl) mid = Some f \<or> m = mid \<and> f = g \<and> dget (cl_futures cl) mid = Some Pending"
  by (auto simp: settle_def dget_dput split: option.splits future.splits if_splits)

lemma incoming_future:
  assumes "dget (cl_futures (fst (handle_incoming_message loads other piso reg msg cl))) mid = Some f"
  shows "dget (cl_futures cl) mid = Some f \<or> dget (cl_futures cl) mid = Some Pending \<and> answers loads msg mid f"
  using assms event_futures
  by (auto simp: handle_incoming_message_def answers_def Let_def simp del: u_simps
      split: pv.splits option.splits sum.splits if_splits dest!: settle_future)

text \<open>How one event can change one future.\<close>

definition future_step ::
    "(pystr \<Rightarrow> json res) \<Rightarrow> (pystr \<Rightarrow> pydatetime res) \<Rightarrow> client_event \<Rightarrow> pystr \<Rightarrow> future option \<Rightarrow> future \<Rightarrow> bool" where
  "future_step loads piso e mid old f \<longleftrightarrow> old = Some f \<or> old = Some Pending \<and> f = WasCancelled \<or>
     f = Pending \<and> (\<exists>req failure. e = EvSend mid req failure) \<or>
     old = Some Pending \<and> (\<exists>ws msg. e = EvReceive ws \<and> receive_message_or_raise loads piso ws = Inr msg \<and>
       answers loads msg mid f)"

lemma listen_future:
  assumes "dget (cl_futures (fst (listen_step loads other piso reg ws cl))) mid = Some f"
  shows "future_step loads piso (EvReceive ws) mid (dget (cl_futures cl) mid) f"
proof (cases "cl_stop cl")
  case True
  with assms show ?thesis
    by (auto simp: listen_step_def future_step_def dest!: disconnect_future)
next
  case False
  show ?thesis
  proof (cases "receive_message_or_raise loads piso ws")
    case (Inl e)
    with assms False show ?thesis
      by (auto simp: listen_step_def end_listening_def future_step_def dest!: disconnect_future)
  next
    case (Inr msg)
    obtain cl1 err where h: "handle_incoming_message loads other piso reg msg cl = (cl1, err)" by force
    with assms False Inr obtain f' where
      "dget (cl_futures cl1) mid = Some f'" "f = f' \<or> f' = Pending \<and> f = WasCancelled"
      by (cases err) (auto simp: listen_step_def end_listening_def dest!: disconnect_future)
    with incoming_future [of loads other piso reg msg cl mid f'] h Inr show ?thesis
      by (auto simp: future_step_def answers_def)
  qed
qed

lemma start_listening_future:
  "dget (cl_futures (fst (start_listening loads piso reg m failure answer cl))) mid = Some f \<Longrightarrow>
     future_step loads piso e mid (dget (cl_futures cl) mid) f"
  by (auto simp: start_listening_def send_message_def end_listening_def future_step_def
      split: if_splits option.splits sum.splits dest!: disconnect_future)

lemma send_start_future:
  "dget (cl_futures (fst (send_start m req failure cl))) mid = Some f \<Longrightarrow>
     dget (cl_futures cl) mid = Some f \<or> m = mid \<and> f = Pending"
  by (auto simp: send_start_def send_message_def dget_dput split: if_splits sum.splits option.splits)

lemma client_step_future:
  "dget (cl_futures (client_step loads other piso reg e cl)) mid = Some f \<Longrightarrow>
     future_step loads piso e mid (dget (cl_futures cl) mid) f"
proof (cases e)
  case (EvReceive ws)
  then show "dget (cl_futures (client_step loads other piso reg e cl)) mid = Some f \<Longrightarrow> ?thesis"
    using listen_future by simp
next
  case (EvStart m failure answer)
  then show "dget (cl_futures (client_step loads other piso reg e cl)) mid = Some f \<Longrightarrow> ?thesis"
    using start_listening_future by simp
next
  case (EvSend m req failure)
  then show "dget (cl_futures (client_step loads other piso reg e cl)) mid = Some f \<Longrightarrow> ?thesis"
    using send_start_future [of m req failure cl mid f] by (cases req) (auto simp: future_step_def)
next
  case (EvFinish m)
  then show "dget (cl_futures (client_step loads other piso reg e cl)) mid = Some f \<Longrightarrow> ?thesis"
    by (auto simp: future_step_def send_finish_def dget_dpop split: option.splits future.splits if_splits)
next
  case (EvCancel m)
  then show "dget (cl_futures (client_step loads other piso reg e cl)) mid = Some f \<Longrightarrow> ?thesis"
    by (auto simp: future_step_def cancel_call_def dget_dput cancel_future_def split: option.splits if_splits future.splits)
next
  case EvDisconnect
  then show "dget (cl_futures (client_step loads other piso reg e cl)) mid = Some f \<Longrightarrow> ?thesis"
    by (auto simp: future_step_def dest!: disconnect_future)
qed (auto simp: future_step_def client_connect_def send_command_no_wait_def send_message_def subscribe_events_def
    unsubscribe_def Let_def split: if_splits prod.splits sum.splits option.splits)

lemma traced_mono: "traced loads other piso reg es mid f \<Longrightarrow> traced loads other piso reg (es @ [e]) mid f"
  unfolding traced_def by (fastforce simp: append_eq_append_conv2)

lemma futures_traced:
  "dget (cl_futures (fold (client_step loads other piso reg) es new_client)) mid = Some f \<Longrightarrow>
     traced loads other piso reg es mid f"
proof (induction es arbitrary: f rule: rev_induct)
  case (snoc e es)
  let ?old = "dget (cl_futures (fold (client_step loads other piso reg) es new_client)) mid"
  from snoc.prems have "future_step loads piso e mid ?old f" using client_step_future by simp
  then consider "?old = Some f" | "?old = Some Pending" "f = WasCancelled"
    | "f = Pending" "\<exists>req failure. e = EvSend mid req failure"
    | ws msg where "?old = Some Pending" "e = EvReceive ws" "receive_message_or_raise loads piso ws = Inr msg"
        "answers loads msg mid f"
    unfolding future_step_def by blast
  then show ?case
  proof cases
    case 1
    from traced_mono [OF snoc.IH [OF this]] show ?thesis .
  next
    case 2
    from snoc.IH [OF 2(1)] 2(2) show ?thesis by (auto simp: traced_def)
  next
    case 3
    then show ?thesis by (auto simp: traced_def)
  next
    case 4
    from snoc.IH [OF 4(1)] have "\<exists>req failure. EvSend mid req failure \<in> set (es @ [e])" by (auto simp: traced_def)
    moreover from 4 have "es @ [e] = es @ EvReceive ws # []" by simp
    ultimately show ?thesis using 4 unfolding traced_def by blast
  qed
qed (simp add: new_client_def)

text \<open>Without a connection no command waits.\<close>

definition none_waits_offline :: "client \<Rightarrow> bool" where
  "none_waits_offline cl \<longleftrightarrow> (cn_ws (cl_conn cl) = None \<longrightarrow> (\<forall>mid. dget (cl_futures cl) mid \<noteq> Some Pending))"

lemma offline_disconnect: "none_waits_offline (client_disconnect cl)"
proof -
  have "cancel_future f \<noteq> Pending" for f by (simp add: cancel_future_def split: future.split)
  then show ?thesis by (auto simp: none_waits_offline_def client_disconnect_def dget_cancelled)
qed

lemma settle_conn [simp]: "cl_conn (fst (settle mid f cl)) = cl_conn cl"
  by (simp add: settle_def split: option.split future.split)

lemma signal_conn [simp]: "cl_conn (signal_event other evt data node attr cl) = cl_conn cl"
  by (simp add: signal_event_def Let_def)

lemma put_node_conn [simp]: "cl_conn (put_node k node cl) = cl_conn cl"
  by (simp add: put_node_def)

lemma handler_conn:
  "cl_conn (fst (on_node other piso reg data cl)) = cl_conn cl"
  "cl_conn (fst (on_node_removed other data cl)) = cl_conn cl"
  "cl_conn (fst (on_endpoint_removed other data cl)) = cl_conn cl"
  "cl_conn (fst (on_attribute_updated other piso reg data cl)) = cl_conn cl"
  "cl_conn (fst (on_node_event other piso data cl)) = cl_conn cl"
  "cl_conn (fst (on_topology other piso data cl)) = cl_conn cl"
  "cl_conn (forward_event other ev data cl) = cl_conn cl"
  by (simp add: on_node_def split: sum.split option.split prod.split)
    (simp add: on_node_removed_def Let_def split: sum.split,
     simp add: on_endpoint_removed_def Let_def split: sum.split option.split prod.split,
     simp add: on_attribute_updated_def split: sum.split option.split prod.split list.split json.split,
     simp add: on_node_event_def split: sum.split prod.split,
     simp add: on_topology_def split: sum.split,
     simp add: forward_event_def split: pv.split json.split)

lemma incoming_conn: "cl_conn (fst (handle_incoming_message loads other piso reg msg cl)) = cl_conn cl"
  by (auto simp: handle_incoming_message_def handle_event_message_def handler_conn Let_def simp del: u_simps
      split: pv.split option.split sum.split)

lemma store_conn [simp]: "cl_conn (fst (store_values piso reg i vs cl)) = cl_conn cl"
proof (induction vs arbitrary: cl)
  case (Cons pv vs)
  then show ?case by (cases pv) (auto split: option.split prod.split)
qed simp

lemma offline_keep:
  "none_waits_offline cl \<Longrightarrow> cl_conn cl' = cl_conn cl \<Longrightarrow>
     (\<And>mid. dget (cl_futures cl') mid = Some Pending \<Longrightarrow> dget (cl_futures cl) mid = Some Pending) \<Longrightarrow> none_waits_offline cl'"
  by (auto simp: none_waits_offline_def)

lemma offline_connected: "cn_ws (cl_conn cl) \<noteq> None \<Longrightarrow> none_waits_offline cl"
  by (auto simp: none_waits_offline_def)

lemma connect_ws: "cn_ws c \<noteq> None \<Longrightarrow> cn_ws (fst (connect loads piso opened first c)) \<noteq> None"
  by (simp add: connect_def)

lemma offline_listen:
  assumes ok: "none_waits_offline cl"
  shows "none_waits_offline (fst (listen_step loads other piso reg ws cl))"
proof (cases "cl_stop cl")
  case True
  then show ?thesis by (simp add: listen_step_def offline_disconnect)
next
  case False
  show ?thesis
  proof (cases "receive_message_or_raise loads piso ws")
    case (Inl e)
    with False show ?thesis by (simp add: listen_step_def end_listening_def offline_disconnect)
  next
    case (Inr msg)
    obtain cl1 err where h: "handle_incoming_message loads other piso reg msg cl = (cl1, err)" by force
    have "dget (cl_futures cl) mid = Some Pending" if "dget (cl_futures cl1) mid = Some Pending" for mid
      using incoming_future [of loads other piso reg msg cl mid Pending] h that by auto
    with offline_keep [OF ok, of cl1] incoming_conn [of loads other piso reg msg cl] h have "none_waits_offline cl1"
      by simp
    with False Inr h show ?thesis
      by (cases err) (simp_all add: listen_step_def end_listening_def offline_disconnect)
  qed
qed

lemma offline_step: "none_waits_offline cl \<Longrightarrow> none_waits_offline (client_step loads other piso reg e cl)"
proof -
  assume ok: "none_waits_offline cl"
  show ?thesis
  proof (cases e)
    case (EvReceive ws)
    with offline_listen [OF ok] show ?thesis by simp
  next
    case EvDisconnect
    then show ?thesis by (simp add: offline_disconnect)
  next
    case (EvSend mid req failure)
    show ?thesis
    proof (cases "connected (cl_conn cl)")
      case True
      then show ?thesis unfolding EvSend
        by (intro offline_connected)
          (auto simp: send_start_def send_message_def connected_def split: sum.split option.split)
    next
      case False
      with ok show ?thesis by (cases req) (simp add: EvSend send_start_def prepare_message_def)
    qed
  next
    case (EvStart mid failure answer)
    with ok show ?thesis
      by (auto simp: start_listening_def send_message_def end_listening_def offline_disconnect
          split: sum.split option.split intro: offline_keep)
  next
    case (EvConnect opened first)
    show ?thesis
    proof (cases "cn_ws (cl_conn cl)")
      case None
      with ok show ?thesis
        by (auto simp: EvConnect client_connect_def none_waits_offline_def Let_def split: prod.split)
    next
      case (Some b)
      with connect_ws [of "cl_conn cl" loads piso opened first] show ?thesis unfolding EvConnect
        by (intro offline_connected) (auto simp: client_connect_def Let_def split: prod.split)
    qed
  qed (use ok in \<open>auto simp: send_finish_def cancel_call_def send_command_no_wait_def send_message_def
      subscribe_events_def unsubscribe_def Let_def none_waits_offline_def dget_dput dget_dpop cancel_future_def
      split: option.splits future.splits sum.splits if_splits\<close>)
qed

text \<open>The invariant of the client, given the events that led to the state.\<close>

definition client_inv ::
    "(pystr \<Rightarrow> json res) \<Rightarrow> (json \<Rightarrow> pystr) \<Rightarrow> (pystr \<Rightarrow> pydatetime res) \<Rightarrow> registry \<Rightarrow> client_event list \<Rightarrow> client \<Rightarrow> bool" where
  "client_inv loads other piso reg es cl \<longleftrightarrow> client_ok reg cl \<and>
     (\<forall>(k, node) \<in> set (cl_nodes cl). stored_under k node) \<and> none_waits_offline cl \<and>
     (\<forall>(mid, f) \<in> set (cl_futures cl). traced loads other piso reg es mid f)"

text \<open>C4: In every state the client can reach, by any interleaving of connecting, listening, commands that succeed or fail to be written, cancellations, messages of any content, a closing socket and subscriptions: every cached node has a consistent cache and is stored under the node id of its own data; the tables hold one entry per message id, subscription key and node id; every future belongs to a command that was sent, and one that has a result or an error got it from a received message with exactly its message id and that result or error, which arrived while it was pending; and while there is no connection no future is pending, because disconnecting cancelled them.\<close>

theorem client_reachable_ok:
  "client_inv loads other piso reg es (fold (client_step loads other piso reg) es new_client)"
proof -
  let ?cl = "fold (client_step loads other piso reg) es new_client"
  have ok: "client_ok reg ?cl" by (rule matter_client.run_inv) (rule new_client_ok)
  have "tables_ok stored_under ?cl"
    by (induction es rule: rev_induct) (simp_all add: node_keys.step_keeps, simp add: tables_ok_def new_client_def)
  moreover have "none_waits_offline ?cl"
    by (induction es rule: rev_induct) (simp_all add: offline_step, simp add: none_waits_offline_def new_client_def)
  moreover have "traced loads other piso reg es mid f" if "(mid, f) \<in> set (cl_futures ?cl)" for mid f
    using dget_set [OF client_ok_futuresD [OF ok] that] by (rule futures_traced)
  ultimately show ?thesis using ok by (auto simp: client_inv_def tables_ok_def)
qed

end
