(* ===== verification/Matter_Delivery.thy ===== *)
theory Matter_Delivery
  imports Matter_Client_Facts
begin

text \<open>
  The two delivery guarantees of the Matter client: a command that was sent gets the answer with its
  message id whatever happens in between, and an event reaches exactly the subscribers whose filters
  match, each as often as it subscribed.
\<close>

section \<open>Answers\<close>

text \<open>An event that has nothing to do with the command \<open>mid\<close> and leaves the client listening.\<close>

definition quiet ::
    "(pystr \<Rightarrow> json res) \<Rightarrow> (json \<Rightarrow> pystr) \<Rightarrow> (pystr \<Rightarrow> pydatetime res) \<Rightarrow> registry \<Rightarrow> pystr \<Rightarrow> client
       \<Rightarrow> client_event \<Rightarrow> bool" where
  "quiet loads other piso reg mid cl e = (case e of
       EvSend m _ _ \<Rightarrow> m \<noteq> mid
     | EvFinish m \<Rightarrow> m \<noteq> mid
     | EvCancel m \<Rightarrow> m \<noteq> mid
     | EvReceive ws \<Rightarrow> snd (snd (listen_step loads other piso reg ws cl)) \<and>
         (case receive_message_or_raise loads piso ws of Inr msg \<Rightarrow> not_answer mid msg | Inl _ \<Rightarrow> True)
     | EvStart _ _ _ \<Rightarrow> False
     | EvDisconnect \<Rightarrow> False
     | _ \<Rightarrow> True)"

fun quiet_run ::
    "(pystr \<Rightarrow> json res) \<Rightarrow> (json \<Rightarrow> pystr) \<Rightarrow> (pystr \<Rightarrow> pydatetime res) \<Rightarrow> registry \<Rightarrow> pystr \<Rightarrow> client
       \<Rightarrow> client_event list \<Rightarrow> bool" where
  "quiet_run loads other piso reg mid cl [] = True"
| "quiet_run loads other piso reg mid cl (e # es) =
     (quiet loads other piso reg mid cl e \<and> quiet_run loads other piso reg mid (client_step loads other piso reg e cl) es)"

lemma send_message_futures [simp]: "cl_futures (fst (send_message msg failure cl)) = cl_futures cl"
  by (simp add: send_message_def split: option.split)

lemma listen_goes_on:
  assumes "snd (snd (listen_step loads other piso reg ws cl))"
  obtains msg where "receive_message_or_raise loads piso ws = Inr msg"
    "fst (listen_step loads other piso reg ws cl) = fst (handle_incoming_message loads other piso reg msg cl)"
proof (cases "receive_message_or_raise loads piso ws")
  case (Inl e)
  with assms show ?thesis by (simp add: listen_step_def split: if_splits prod.splits)
next
  case (Inr msg)
  obtain cl1 err where "handle_incoming_message loads other piso reg msg cl = (cl1, err)" by force
  with assms Inr that show ?thesis
    by (cases err) (simp_all add: listen_step_def split: if_splits prod.splits)
qed

lemma quiet_keeps:
  assumes "quiet loads other piso reg mid cl e" "dict_ok (cl_futures cl)"
  shows "dget (cl_futures (client_step loads other piso reg e cl)) mid = dget (cl_futures cl) mid"
proof (cases e)
  case (EvReceive ws)
  with assms(1) obtain msg where m: "receive_message_or_raise loads piso ws = Inr msg" "not_answer mid msg"
    "fst (listen_step loads other piso reg ws cl) = fst (handle_incoming_message loads other piso reg msg cl)"
    by (auto simp: quiet_def split: sum.splits elim: listen_goes_on)
  with incoming_other EvReceive show ?thesis by simp
next
  case (EvSend m req failure)
  with assms show ?thesis
    by (auto simp: quiet_def send_start_def dget_dput split: sum.split)
next
  case (EvFinish m)
  with assms show ?thesis
    by (auto simp: quiet_def send_finish_def dget_dpop split: option.split future.split)
next
  case (EvCancel m)
  with assms show ?thesis by (auto simp: quiet_def cancel_call_def dget_dput split: option.split)
next
  case (EvUnsubscribe cb f)
  then show ?thesis by (simp add: unsubscribe_def split: option.split)
next
  case (EvSubscribe cb f)
  then show ?thesis by (simp add: subscribe_events_def Let_def)
next
  case (EvConnect opened first)
  then show ?thesis by (simp add: client_connect_def Let_def split: prod.split)
next
  case (EvSendNoWait m req failure)
  then show ?thesis by (simp add: send_command_no_wait_def split: sum.split)
qed (use assms in \<open>simp_all add: quiet_def\<close>)

lemma quiet_run_keeps:
  "quiet_run loads other piso reg mid cl es \<Longrightarrow> client_ok reg cl \<Longrightarrow>
     dget (cl_futures (fold (client_step loads other piso reg) es cl)) mid = dget (cl_futures cl) mid"
proof (induction es arbitrary: cl)
  case (Cons e es)
  from Cons.IH [of "client_step loads other piso reg e cl"] client_step_ok [OF Cons.prems(2)] Cons.prems
    quiet_keeps [of loads other piso reg mid cl e] client_ok_futuresD [OF Cons.prems(2)]
  show ?case by simp
qed simp

text \<open>C3: A command that was sent and is not given up gets its answer: after any events that do not concern it, the success message with its id makes the command return exactly the result of the message, and its future is gone.\<close>

theorem command_gets_answer:
  assumes "client_ok reg cl" "send_start mid req None cl = (cl1, None)"
    and "quiet_run loads other piso reg mid cl1 es"
    and "cl2 = fold (client_step loads other piso reg) es cl1" "\<not> cl_stop cl2"
    and "receive_message_or_raise loads piso ws = Inr (PInst (u ''SuccessResultMessage'') [(u ''message_id'', PStr mid), (u ''result'', v)])"
  shows "\<exists>cl3 cl4. listen_step loads other piso reg ws cl2 = (cl3, None, True) \<and>
     send_finish mid cl3 = Some (cl4, Inr v) \<and> dget (cl_futures cl4) mid = None"
proof -
  have ok1: "client_ok reg cl1" using assms(1,2) by (rule send_start_ok)
  have "dget (cl_futures cl1) mid = Some Pending"
    using assms(2) by (auto simp: send_start_def send_message_def dget_dput split: if_splits sum.splits)
  then have p: "dget (cl_futures cl2) mid = Some Pending"
    using quiet_run_keeps [OF assms(3) ok1] by (simp add: assms(4))
  have ok2: "client_ok reg cl2" unfolding assms(4) by (rule matter_client.run_inv) (rule ok1)
  define cl3 where "cl3 = cl2\<lparr>cl_futures := dput mid (Result v) (cl_futures cl2)\<rparr>"
  have "handle_incoming_message loads other piso reg
      (PInst (u ''SuccessResultMessage'') [(u ''message_id'', PStr mid), (u ''result'', v)]) cl2 = (cl3, None)"
    using p by (simp add: handle_incoming_message_def message_id_def pattr_def dget_def settle_def cl3_def)
  then have "listen_step loads other piso reg ws cl2 = (cl3, None, True)"
    using assms(5,6) by (simp add: listen_step_def)
  moreover have "send_finish mid cl3 = Some (cl3\<lparr>cl_futures := dpop mid (cl_futures cl3)\<rparr>, Inr v)"
    by (simp add: send_finish_def cl3_def dget_dput)
  moreover have "dget (dpop mid (cl_futures cl3)) mid = None"
    using client_ok_futuresD [OF ok2] by (simp add: cl3_def dget_dpop)
  ultimately show ?thesis by auto
qed

section \<open>Commands that go wrong\<close>

text \<open>A command whose write fails leaves its future in the table for good: it raises the error, but the future stays Pending and nothing waits for it.\<close>

theorem failed_send_leaks:
  assumes "cl_loop cl" "prepare_message mid req cl = Inr msg"
  shows "\<exists>cl'. send_start mid req (Some e) cl = (cl', Some e) \<and> dget (cl_futures cl') mid = Some Pending \<and>
     cl_sent cl' = cl_sent cl \<and> send_finish mid cl' = None"
proof -
  have "connected (cl_conn cl)" using assms(2) by (cases req) (auto simp: prepare_message_def split: if_splits)
  with assms show ?thesis by (simp add: send_start_def send_message_def send_finish_def dget_dput)
qed

text \<open>C32: An answer that arrives after its caller was cancelled, but before the cancelled coroutine has run, raises InvalidStateError in the message loop, which disconnects the client and cancels every other command.\<close>

theorem late_answer_stops_client:
  assumes "dget (cl_futures cl) mid = Some Pending" "\<not> cl_stop cl"
    and "receive_message_or_raise loads piso ws = Inr (PInst (u ''SuccessResultMessage'') [(u ''message_id'', PStr mid), (u ''result'', v)])"
  shows "listen_step loads other piso reg ws (cancel_call mid cl) =
      (client_disconnect (cancel_call mid cl), Some (Python InvalidStateError), False)"
proof -
  define cl1 where "cl1 = cancel_call mid cl"
  have c: "dget (cl_futures cl1) mid = Some WasCancelled" "\<not> cl_stop cl1"
    using assms(1,2) by (simp_all add: cl1_def cancel_call_def cancel_future_def dget_dput)
  have "handle_incoming_message loads other piso reg
      (PInst (u ''SuccessResultMessage'') [(u ''message_id'', PStr mid), (u ''result'', v)]) cl1 =
    (cl1, Some (Python InvalidStateError))"
    using c(1) by (simp add: handle_incoming_message_def message_id_def pattr_def dget_def settle_def)
  then show ?thesis using c(2) assms(3) by (simp add: listen_step_def end_listening_def cl1_def [symmetric])
qed

section \<open>Events\<close>

text \<open>The reference: a filter matches an event if each part is absent or equal.\<close>

definition matches :: "filters \<Rightarrow> pystr \<Rightarrow> int option \<Rightarrow> pystr option \<Rightarrow> bool" where
  "matches f evt node attr \<longleftrightarrow> (case f of (fe, fn, fa) \<Rightarrow>
     (fe = None \<or> fe = Some evt) \<and> (fn = None \<or> fn = node) \<and> (fa = None \<or> fa = attr))"

text \<open>Event values and paths that keys can tell apart: no slash in an event, and neither is the wildcard.\<close>

definition event_name :: "pystr \<Rightarrow> bool" where
  "event_name e \<longleftrightarrow> 47 \<notin> set e \<and> e \<noteq> wildcard"

definition filter_ok :: "filters \<Rightarrow> bool" where
  "filter_ok f \<longleftrightarrow> (case f of (fe, fn, fa) \<Rightarrow> (\<forall>e. fe = Some e \<longrightarrow> event_name e) \<and> fa \<noteq> Some wildcard)"

lemma dec_int_no_slash: "47 \<notin> set (dec_int i)"
proof
  assume "47 \<in> set (dec_int i)"
  then have "47 \<in> set (dec (nat (- i))) \<or> 47 \<in> set (dec (nat i))" by (auto simp: dec_int_def split: if_splits)
  then have "is_digit 47" using dec_digits by blast
  then show False by (simp add: is_digit_def)
qed

lemma dec_int_not_wildcard: "dec_int i \<noteq> wildcard"
proof
  assume "dec_int i = wildcard"
  then have "dec (nat i) = [42]" by (auto simp: dec_int_def wildcard_def split: if_splits)
  then have "is_digit 42" using dec_digits [of 42 "nat i"] by simp
  then show False by (simp add: is_digit_def)
qed

lemma dec_int_inj: "dec_int i = dec_int j \<Longrightarrow> i = j"
proof -
  have "dec n \<noteq> 45 # s" for n s using dec_digits [of 45 n] by (auto simp: is_digit_def)
  then show "dec_int i = dec_int j \<Longrightarrow> i = j"
    by (auto simp: dec_int_def split: if_splits) (metis+)?
qed

lemma wildcard_no_slash: "47 \<notin> set wildcard"
  by (simp add: wildcard_def)

lemma sub_key_eq:
  assumes "47 \<notin> set e" "47 \<notin> set e'" "47 \<notin> set n" "47 \<notin> set n'"
  shows "sub_key e n a = sub_key e' n' a' \<longleftrightarrow> e = e' \<and> n = n' \<and> a = a'"
proof
  assume k: "sub_key e n a = sub_key e' n' a'"
  have part: "p @ 47 # s = p' @ 47 # s' \<Longrightarrow> 47 \<notin> set p \<Longrightarrow> 47 \<notin> set p' \<Longrightarrow> p = p' \<and> s = s'"
    for p p' s s' :: pystr
    by (induction p arbitrary: p') (auto simp: Cons_eq_append_conv append_eq_Cons_conv)
  from part [of e "n @ 47 # a" e' "n' @ 47 # a'"] part [of n a n' a'] assms k
  show "e = e' \<and> n = n' \<and> a = a'" by (simp add: sub_key_def)
qed simp

lemma filter_key_signalled:
  assumes "filter_ok f" "event_name evt" "attr \<noteq> Some wildcard"
  shows "filter_key f \<in> set (signal_keys evt (map_option dec_int node) attr) \<longleftrightarrow> matches f evt node attr"
proof -
  obtain fe fn fa where f: "f = (fe, fn, fa)" by (cases f)
  define e where "e = (case fe of None \<Rightarrow> wildcard | Some e \<Rightarrow> e)"
  define n where "n = (case fn of None \<Rightarrow> wildcard | Some n \<Rightarrow> dec_int n)"
  define a where "a = (case fa of None \<Rightarrow> wildcard | Some a \<Rightarrow> a)"
  have slash: "47 \<notin> set e" "47 \<notin> set n" "47 \<notin> set evt"
    using assms(1,2) wildcard_no_slash dec_int_no_slash
    by (auto simp: f e_def n_def filter_ok_def event_name_def split: option.splits)
  have "filter_key f \<in> set (signal_keys evt (map_option dec_int node) attr) \<longleftrightarrow>
      (e = evt \<or> e = wildcard) \<and> ((\<exists>i. node = Some i \<and> n = dec_int i) \<or> n = wildcard) \<and> (attr = Some a \<or> a = wildcard)"
    using slash wildcard_no_slash dec_int_no_slash
    by (auto simp: f filter_key_def e_def [symmetric] n_def [symmetric] a_def [symmetric] signal_keys_def sub_key_eq
        split: option.split)
  also have "\<dots> \<longleftrightarrow> matches f evt node attr"
    using assms dec_int_not_wildcard dec_int_inj
    by (auto simp: f matches_def e_def n_def a_def filter_ok_def event_name_def split: option.splits)
  finally show ?thesis .
qed

lemma signal_keys_distinct:
  assumes "event_name evt" "attr \<noteq> Some wildcard"
  shows "distinct (signal_keys evt (map_option dec_int node) attr)"
  using assms wildcard_no_slash dec_int_no_slash dec_int_not_wildcard dec_int_not_wildcard [symmetric]
  by (auto simp: signal_keys_def sub_key_eq event_name_def split: option.split)

text \<open>The table after a series of subscriptions: under each key the callbacks of the filters with that key.\<close>

definition subscribe_all :: "(nat \<times> filters) list \<Rightarrow> client \<Rightarrow> client" where
  "subscribe_all subs cl = fold (\<lambda>(cb, f). subscribe_events cb f) subs cl"

lemma callbacks_subscribed:
  "callbacks (cl_subs (subscribe_all subs cl)) key =
     callbacks (cl_subs cl) key @ map fst (filter (\<lambda>(cb, f). filter_key f = key) subs)"
proof (induction subs arbitrary: cl)
  case (Cons s subs)
  obtain cb f where s: "s = (cb, f)" by (cases s)
  have "subscribe_all (s # subs) cl = subscribe_all subs (subscribe_events cb f cl)" by (simp add: subscribe_all_def s)
  moreover have "callbacks (cl_subs (subscribe_events cb f cl)) key =
      callbacks (cl_subs cl) key @ (if filter_key f = key then [cb] else [])"
    by (auto simp: callbacks_def subscribe_events_def Let_def dget_dput split: option.split)
  ultimately show ?case using Cons.IH by (simp add: s)
qed (simp add: subscribe_all_def)

lemma mset_over_keys:
  "distinct keys \<Longrightarrow> mset (concat (map (\<lambda>k. map fst (filter (\<lambda>(cb, f). g f = k) subs)) keys)) =
     mset (map fst (filter (\<lambda>(cb, f). g f \<in> set keys) subs))"
proof (induction keys)
  case (Cons k keys)
  have "mset (map fst (filter (\<lambda>(cb, f). g f = k) subs)) + mset (map fst (filter (\<lambda>(cb, f). g f \<in> set keys) subs)) =
      mset (map fst (filter (\<lambda>(cb, f). g f \<in> set (k # keys)) subs))"
    using Cons.prems by (induction subs) auto
  with Cons show ?case by simp
qed simp

text \<open>C8: An event reaches exactly the subscribers whose filters match it: with any list of subscriptions, the callbacks made by one event are, counted with multiplicity, those of the subscriptions whose event, node and path filters are each absent or equal.\<close>

theorem delivery_exact:
  assumes "cl_subs cl = []" "\<forall>(cb, f) \<in> set subs. filter_ok f" "event_name evt" "attr \<noteq> Some wildcard"
  shows "\<exists>calls. cl_calls (signal_event other evt data (case node of None \<Rightarrow> JNull | Some i \<Rightarrow> JInt i) attr (subscribe_all subs cl)) =
      cl_calls (subscribe_all subs cl) @ map (\<lambda>cb. (cb, JStr evt, data)) calls \<and>
    mset calls = mset (map fst (filter (\<lambda>(cb, f). matches f evt node attr) subs))"
proof -
  let ?keys = "signal_keys evt (map_option dec_int node) attr"
  let ?calls = "concat (map (callbacks (cl_subs (subscribe_all subs cl))) ?keys)"
  have "(if (case node of None \<Rightarrow> JNull | Some i \<Rightarrow> JInt i) = JNull then None
      else Some (text_of other (case node of None \<Rightarrow> JNull | Some i \<Rightarrow> JInt i))) = map_option dec_int node"
    by (cases node) (simp_all add: text_of_def)
  then have calls: "cl_calls (signal_event other evt data (case node of None \<Rightarrow> JNull | Some i \<Rightarrow> JInt i) attr (subscribe_all subs cl)) =
      cl_calls (subscribe_all subs cl) @ map (\<lambda>cb. (cb, JStr evt, data)) ?calls"
    by (simp add: signal_event_def Let_def)
  have none: "callbacks (cl_subs cl) k = []" for k by (simp add: callbacks_def assms(1))
  have cbs: "callbacks (cl_subs (subscribe_all subs cl)) = (\<lambda>k. map fst (filter (\<lambda>(cb, f). filter_key f = k) subs))"
    by (rule ext) (simp add: callbacks_subscribed none)
  have "mset ?calls = mset (map fst (filter (\<lambda>(cb, f). filter_key f \<in> set ?keys) subs))"
    using mset_over_keys [OF signal_keys_distinct [OF assms(3,4)], of filter_key subs node]
    by (simp add: cbs)
  also have "filter (\<lambda>(cb, f). filter_key f \<in> set ?keys) subs = filter (\<lambda>(cb, f). matches f evt node attr) subs"
    using assms(2) filter_key_signalled [OF _ assms(3,4)] by (intro filter_cong) auto
  finally show ?thesis using calls by blast
qed

theorem delivery_exact_witness:
  "\<exists>calls. cl_calls (signal_event (\<lambda>_. []) (u ''node_added'') (PlainData PNone) (JInt 7) None
      (subscribe_all [(1, None, Some 7, None), (2, Some (u ''node_added''), None, None), (3, None, Some 8, None)] new_client)) =
      map (\<lambda>cb. (cb, JStr (u ''node_added''), PlainData PNone)) calls \<and> mset calls = {#1, 2#}"
proof -
  let ?subs = "[(1, None, Some 7, None), (2, Some (u ''node_added''), None, None), (3, None, Some 8, None)] :: (nat \<times> filters) list"
  have "cl_calls (subscribe_all ?subs new_client) = []"
    by (simp add: subscribe_all_def subscribe_events_def Let_def new_client_def)
  with delivery_exact [of new_client ?subs "u ''node_added''" None "\<lambda>_. []" "PlainData PNone" "Some 7"]
  show ?thesis
    by (simp add: new_client_def filter_ok_def event_name_def wildcard_def matches_def)
qed

section \<open>Concrete runs\<close>

definition demo_client :: client where
  "demo_client = new_client\<lparr>cl_loop := True, cl_conn := \<lparr>cn_ws = Some True, cn_info = Some (demo_server_info 11 9)\<rparr>\<rparr>"

definition demo_answer :: pv where
  "demo_answer = PInst (u ''SuccessResultMessage'') [(u ''message_id'', PStr (u ''m1'')), (u ''result'', PInt 5)]"

lemma demo_answer_received: "receive_message_or_raise (demo_loads demo_answer) fromisoformat (WsText s) = Inr demo_answer"
proof -
  have "typed ty_SuccessResultMessage demo_answer"
    by (simp add: demo_answer_def ty_SuccessResultMessage_def sdk_error_key_def is_numeric_def is_digit_def
        noc_field_def opt_ok_def sdk_error_def)
  from message_parses [OF utc_round_python _ this] show ?thesis
    by (simp add: receive_message_or_raise_def demo_loads_def)
qed

lemma demo_client_ready: "cl_loop demo_client" "connected (cl_conn demo_client)"
  "cn_info (cl_conn demo_client) = Some (demo_server_info 11 9)" "\<not> cl_stop demo_client"
  by (simp_all add: demo_client_def new_client_def connected_def)

lemma demo_client_ok: "client_ok reg demo_client"
  using new_client_ok by (simp add: demo_client_def client_ok_def)

theorem schema_gate_witness:
  "send_start (u ''m1'') (u ''get_network_topology'', Some 13, []) None demo_client =
     (demo_client, Some (Client ServerVersionTooOld))"
  using schema_gate [OF demo_client_ready(1-3) demo_info_int(1), of "u ''m1''" "u ''get_network_topology''" 13 "[]" None]
  by (simp del: u_simps)

lemma demo_send:
  "send_start (u ''m1'') (u ''ping_node'', None, []) None demo_client =
     (demo_client\<lparr>cl_futures := [(u ''m1'', Pending)], cl_sent := [command_message (u ''m1'') (u ''ping_node'') []]\<rparr>, None)"
  using demo_client_ready
  by (simp add: send_start_def prepare_message_def send_message_def del: u_simps)
    (simp add: demo_client_def new_client_def dput_def del: u_simps)

theorem command_gets_answer_witness:
  "\<exists>cl1 cl3 cl4. send_start (u ''m1'') (u ''ping_node'', None, []) None demo_client = (cl1, None) \<and>
     listen_step (demo_loads demo_answer) (\<lambda>_. []) fromisoformat demo_registry (WsText []) cl1 = (cl3, None, True) \<and>
     send_finish (u ''m1'') cl3 = Some (cl4, Inr (PInt 5))"
  using command_gets_answer [OF demo_client_ok demo_send, of "demo_loads demo_answer" "\<lambda>_. []" fromisoformat demo_registry
      "[]" _ "WsText []" "PInt 5"] demo_client_ready(4) demo_answer_received [of "[]"]
  by (auto simp: demo_send demo_answer_def simp del: u_simps)

theorem failed_send_leaks_witness:
  "\<exists>cl'. send_start (u ''m1'') (u ''ping_node'', None, []) (Some Cancelled) demo_client = (cl', Some Cancelled) \<and>
     dget (cl_futures cl') (u ''m1'') = Some Pending"
proof -
  have "prepare_message (u ''m1'') (u ''ping_node'', None, []) demo_client = Inr (command_message (u ''m1'') (u ''ping_node'') [])"
    using demo_client_ready by (simp add: prepare_message_def del: u_simps)
  from failed_send_leaks [OF demo_client_ready(1) this, of Cancelled] show ?thesis by blast
qed

theorem late_answer_stops_client_witness:
  "snd (listen_step (demo_loads demo_answer) (\<lambda>_. []) fromisoformat demo_registry (WsText [])
      (cancel_call (u ''m1'') (demo_client\<lparr>cl_futures := [(u ''m1'', Pending)]\<rparr>))) =
     (Some (Python InvalidStateError), False)"
  using late_answer_stops_client [of "demo_client\<lparr>cl_futures := [(u ''m1'', Pending)]\<rparr>" "u ''m1''" "demo_loads demo_answer"
      fromisoformat "WsText []" "PInt 5"] demo_client_ready(4) demo_answer_received [of "[]"]
  by (simp add: dget_def demo_answer_def del: u_simps)

end
