(* ===== verification/Spec2Isabelle.thy ===== *)
theory Spec2Isabelle
  imports Relay_Report Matter_Clusters Tlv_List Ble_Proxy_Facts Matter_Types Matter_Delivery
begin

text \<open>
  LifeLens: the Python parts of the repository, as Isabelle/HOL definitions with the theorems that
  make them correct.

  \<^bold>\<open>The program.\<close>  Phones with smart glasses record conversations and photos.  Three Python programs
  stand behind them, and each is a part of this development.

  \<^item> The relay server (\<open>LifeLens_WebApp,Server/server.py\<close>) stores what the phones send in SQLite and in
    photo files, asks a language model for photo captions and a daily report, and serves both back.
  \<^item> The BLE proxy (\<open>matterjs-server-main/python_ble_proxy/matter_ble_proxy\<close>) executes the scan,
    connect, read, write and subscribe commands of a Matter server on a local Bluetooth adapter.
  \<^item> The Matter client (\<open>matterjs-server-main/python_client\<close>) holds a websocket to the Matter server,
    caches its nodes, sends commands, delivers events, and carries the TLV codec and the generated
    cluster classes of the Matter data model.

  \<^bold>\<open>Shared theories.\<close>  \<open>LLPrelude\<close>: strings as code points, the exceptions, results as
  \<open>pyexc + 'a\<close>, decimal numerals, and the locales of the interfaces (a keyed store, an invariant
  system, text in the order of its values, a prefix codec; \<open>Ble_Scan\<close> adds a source of scans and
  \<open>Cluster_Tables\<close> a table of classes).  \<open>Py_Dict\<close>,
  \<open>Py_Json\<close>, \<open>Py_Text\<close>, \<open>Json_Text\<close>, \<open>Utf8\<close>, \<open>Struct_Pack\<close>, \<open>Base64\<close>, \<open>Calendar\<close> and \<open>Sql_Table\<close>
  hold what the programs use of Python's \<open>dict\<close>, \<open>json\<close>, \<open>str\<close>, \<open>re\<close>, \<open>struct\<close>, \<open>base64\<close> and
  \<open>datetime\<close>, and of SQLite.

  \<^bold>\<open>Relay server.\<close>  \<open>Relay_Time\<close>: \<open>iso\<close>, \<open>day_bounds\<close>.  \<open>Relay_Store\<close>: the record \<open>relay\<close> is the four
  tables and the files under the photo directory; \<open>sync_lifelog\<close>, \<open>sync_photo\<close>, \<open>get_photo\<close> and the
  day queries are definitions of the same names.  \<open>Relay_Queries\<close>: a day query returns exactly the
  rows of the Korean day in order, a sync stores every record once, devices do not see each other,
  an uploaded photo is fetched unchanged.  \<open>Relay_Markdown\<close>, \<open>Relay_Texts\<close>, \<open>Relay_Summary\<close>: the
  clean-up of a report, the Korean literals, captions, the timeline, the request to the model and its
  answer, \<open>get_lifelog\<close>, \<open>sync_and_summarize\<close>, the page copy.  \<open>Relay_Settings\<close>: the model's address
  and the presentation flag.  \<open>Relay_Server\<close>: the server as a state machine, one event for each
  transaction, upload and change of a setting; the long handler \<open>sync_and_summarize\<close> is a sequence of
  such events with the events of other requests between them (\<open>summarize_reach\<close>).  \<open>Relay_Report\<close>: the
  report a phone receives is the one later reads return, the timeline is complete and in order, a
  failed report stores nothing, which errors of the model become 503.

  \<^bold>\<open>TLV and clusters.\<close>  \<open>Tlv_Codec\<close>: \<open>TLVWriter.put\<close> on values with its container stack, and
  \<open>TLVReader.get\<close>; \<open>Tlv_List\<close>: \<open>TLVList\<close>.  \<open>Cluster_Objects\<close>: \<open>PutFieldToTLV\<close>, \<open>DictToTLV\<close>,
  \<open>TagDictToLabelDict\<close>, \<open>TLVToDict\<close> and the attribute codec, over type annotations \<open>ctype\<close> and values
  \<open>cval\<close>.  \<open>Cluster_Facts\<close>: conforming data reads back as it was written, everything read is typed.
  \<open>Cluster_Classes\<close>, \<open>Cluster_Tables\<close>: the classes built on them and the registration dictionaries.
  \<open>Clusters_Base\<close> and the theories \<open>Clusters_<name>\<close>, each from the cluster it is named after on in
  alphabetical order: all 143 generated clusters, enum by enum and struct by struct, with a lemma that
  the file is consistent.  \<open>Cluster_Registry\<close>: the import of all of them.

  \<^bold>\<open>Matter client.\<close>  \<open>Py_Values\<close>, \<open>Matter_Parse\<close>, \<open>Matter_Util\<close>: \<open>parse_value\<close>,
  \<open>dataclass_from_dict\<close>, tag dicts and attribute paths; \<open>Matter_Types\<close>: what the parser returns has the
  annotated type.  \<open>Matter_Models\<close>: the messages, and that what the client's JSON encoder writes parses
  back.  \<open>Device_Types\<close>: the device registry.  \<open>Matter_Node\<close>, \<open>Matter_Node_Facts\<close>: the node cache and its
  invariant; \<open>Matter_Clusters\<close>: the node cache on the generated clusters.  \<open>Matter_Errors\<close>, \<open>Matter_Connection\<close>: the exceptions by code and the handshake.
  \<open>Matter_Client\<close>: the record \<open>client\<close> with the pending commands, subscriptions and nodes, one
  definition per method and step; \<open>Matter_Api\<close>, \<open>Matter_Diagnostics\<close>: the command methods.
  \<open>Matter_Client_Facts\<close>, \<open>Matter_Delivery\<close>: the invariant over every interleaving, that an answer
  reaches its command and an event exactly its subscribers.

  \<^bold>\<open>BLE proxy.\<close>  \<open>Ble_Scan\<close>: UUIDs, the scanner and the advertisement filter.  \<open>Ble_Proxy\<close>: the record
  \<open>proxy\<close>, one definition per handler, and the step relation \<open>px_step\<close>.  \<open>Ble_Proxy_Facts\<close>: every command
  gets one reply, the connection table stays consistent, a session that ends leaves nothing behind.

  \<^bold>\<open>How the code is read.\<close>  State is a record that a definition takes and returns; an exception is the
  left of a sum, and where Python would leave a state behind when it raises, the definition returns
  both.  What is not Python source of the repository is an argument: the model service (\<open>relay_ai\<close>), the
  clock, the events of other requests, the Bluetooth stack (\<open>backend\<close> and the inputs of each step), the
  websocket's messages, the JSON decoder of the client, \<open>datetime.fromisoformat\<close> on other text than the
  server's own, float arithmetic and formatting, the built-in constructors on values of another kind
  (\<open>casts\<close>), the check of a host name.  An asynchronous handler runs without interruption between its
  awaits; what may happen at an await is a step of another event.  A subscriber's callback is recorded,
  not run, so it does not change the client it is called from.

  \<^bold>\<open>Bounds.\<close>  The TLV reader recurses at most as deep as the input is long; \<open>read_into\<close> starts with one
  more than its length and \<open>get_fuel_enough\<close> shows that this is enough.  The JSON reader starts with twice
  the length plus one (\<open>json_loads_fuel\<close>).  The search for a device's information may not end, so it is a
  partial function, and \<open>device_info_ends\<close> gives the condition under which it does.  Python's recursion
  limit is not modelled, nor are disks that fail, floats that are not a number or negative zero in JSON,
  and requests whose text pydantic rejects before a handler runs.

  \<^bold>\<open>Not modelled.\<close>  The command line of the proxy and the logging calls (input and output only);
  \<open>dacite.from_dict\<close>, \<open>aiohttp\<close>, \<open>bleak\<close>, \<open>pydantic\<close>, FastAPI and SQLite beyond the statements used
  (third-party); the health route and the static pages of the server; the Android application in Kotlin,
  the web pages, and the Matter server in TypeScript, which these programs meet only through the requests
  and messages modelled here.
\<close>

end
